(* ===== verification/Prelude.thy ===== *)
theory Prelude
  imports Main "HOL-Library.Word" "HOL-Library.State_Monad"
begin

unbundle bit_operations_syntax

section \<open>Prelude: machine types, lemma collections and shared facts\<close>

text \<open>
  Names for the C integer types of the stack, the collections that the codec proofs
  extend, and facts on lists and words that several components use. Nothing here models
  a particular source file.
\<close>

type_synonym u8 = "8 word"
type_synonym u16 = "16 word"
type_synonym u32 = "32 word"

named_theorems reads_intros "how a getter consumes an encoding, one rule per getter"
named_theorems writes_intros "what a putter emits, one rule per putter"
named_theorems sticky_intros "getters that keep the first parse error"
named_theorems rdwf_intros "getters that keep the cursor inside the buffer"
named_theorems putwf_intros "putters that keep the cursor inside the buffer"
named_theorems enc_simps "definitions of the wire encodings"

text \<open>The macro \<open>BIT(n)\<close> of the OS layer: one bit at position \<open>n\<close>.\<close>

abbreviation BIT :: "nat \<Rightarrow> 'a::len word" where
  "BIT n \<equiv> push_bit n 1"

subsection \<open>Words\<close>

lemma unat_add_of_nat:
  fixes p :: "'a::len word"
  assumes "unat p + n < 2 ^ LENGTH('a)"
  shows "unat (p + of_nat n) = unat p + n"
proof -
  have "n < 2 ^ LENGTH('a)" using assms by simp
  then have "unat (of_nat n :: 'a word) = n" by (simp add: unat_of_nat)
  then show ?thesis using assms by (simp add: unat_word_ariths)
qed

lemma unat_u16_less [simp]: "unat (x :: u16) < 65536"
  using unsigned_less [where 'a = nat, of x] by simp

lemma unat_u32_less [simp]: "unat (x :: u32) < 4294967296"
  using unsigned_less [where 'a = nat, of x] by simp

text \<open>Reassembling a word from its bytes.\<close>

lemma u16_from_bytes:
  "push_bit 8 (ucast (ucast (drop_bit 8 w) :: u8)) + ucast (ucast w :: u8) = (w :: u16)"
proof -
  have "push_bit 8 (ucast (ucast (drop_bit 8 w) :: u8)) + ucast (ucast w :: u8) =
        (push_bit 8 (ucast (ucast (drop_bit 8 w) :: u8)) OR ucast (ucast w :: u8) :: u16)"
    by (rule disjunctive_add) (auto simp: bit_simps)
  also have "\<dots> = w"
    by (rule bit_eqI) (auto simp: bit_simps dest: bit_imp_le_length)
  finally show ?thesis .
qed

lemma u32_or_bytes:
  "push_bit 24 (ucast (ucast (drop_bit 24 w) :: u8)) OR push_bit 16 (ucast (ucast (drop_bit 16 w) :: u8))
   OR push_bit 8 (ucast (ucast (drop_bit 8 w) :: u8)) OR ucast (ucast w :: u8) = (w :: u32)"
  (is "?l = w")
proof (rule bit_eqI)
  fix n assume "possible_bit TYPE(u32) n"
  then have "n < 32" by simp
  then consider "n < 8" | "8 \<le> n \<and> n < 16" | "16 \<le> n \<and> n < 24" | "24 \<le> n \<and> n < 32"
    by linarith
  then show "bit ?l n = bit w n"
    by cases (auto simp: bit_simps)
qed

lemma u32_from_bytes:
  "push_bit 24 (ucast (ucast (drop_bit 24 w) :: u8)) + push_bit 16 (ucast (ucast (drop_bit 16 w) :: u8))
   + push_bit 8 (ucast (ucast (drop_bit 8 w) :: u8)) + ucast (ucast w :: u8) = (w :: u32)"
proof -
  let ?a = "push_bit 24 (ucast (ucast (drop_bit 24 w) :: u8)) :: u32"
  let ?b = "push_bit 16 (ucast (ucast (drop_bit 16 w) :: u8)) :: u32"
  let ?c = "push_bit 8 (ucast (ucast (drop_bit 8 w) :: u8)) :: u32"
  let ?d = "ucast (ucast w :: u8) :: u32"
  have 1: "?a + ?b = ?a OR ?b" by (rule disjunctive_add) (auto simp: bit_simps)
  have 2: "(?a OR ?b) + ?c = (?a OR ?b) OR ?c" by (rule disjunctive_add) (auto simp: bit_simps)
  have 3: "((?a OR ?b) OR ?c) + ?d = ((?a OR ?b) OR ?c) OR ?d"
    by (rule disjunctive_add) (auto simp: bit_simps)
  show ?thesis unfolding 1 2 3 using u32_or_bytes [of w] by (simp only: or.assoc)
qed

subsection \<open>Lists\<close>

lemma take_drop_prefix:
  assumes "take (length xs + length ys) (drop p b) = xs @ ys"
  shows "take (length xs) (drop p b) = xs" "take (length ys) (drop (p + length xs) b) = ys"
proof -
  have "take (length xs) (take (length xs + length ys) (drop p b)) = xs"
    by (simp add: assms)
  then show "take (length xs) (drop p b) = xs" by simp
  have "drop (length xs) (take (length xs + length ys) (drop p b)) = ys"
    by (simp add: assms)
  then show "take (length ys) (drop (p + length xs) b) = ys"
    by (simp add: drop_take add.commute)
qed

text \<open>Overwriting a stretch of a list: the effect of \<open>memcpy\<close> into a buffer.\<close>

definition overwrite :: "nat \<Rightarrow> 'a list \<Rightarrow> 'a list \<Rightarrow> 'a list" where
  "overwrite p xs b = take p b @ xs @ drop (p + length xs) b"

lemma length_overwrite [simp]: "p + length xs \<le> length b \<Longrightarrow> length (overwrite p xs b) = length b"
  by (simp add: overwrite_def)

lemma overwrite_Nil [simp]: "p \<le> length b \<Longrightarrow> overwrite p [] b = b"
  by (simp add: overwrite_def)

lemma overwrite_append:
  "p + length xs + length ys \<le> length b \<Longrightarrow>
   overwrite (p + length xs) ys (overwrite p xs b) = overwrite p (xs @ ys) b"
  by (simp add: overwrite_def ac_simps)

lemma overwrite_one: "p < length b \<Longrightarrow> overwrite p [x] b = b[p := x]"
  by (simp add: overwrite_def upd_conv_take_nth_drop)

lemma take_overwrite [simp]: "p \<le> length b \<Longrightarrow> take p (overwrite p xs b) = take p b"
  by (simp add: overwrite_def)

lemma nth_overwrite:
  "p + length xs \<le> length b \<Longrightarrow> i < length b \<Longrightarrow>
   overwrite p xs b ! i = (if i < p then b ! i else if i < p + length xs then xs ! (i - p) else b ! i)"
  by (auto simp: overwrite_def nth_append)

lemma take_drop_overwrite [simp]:
  "p + length xs \<le> length b \<Longrightarrow> take (length xs) (drop p (overwrite p xs b)) = xs"
  by (simp add: overwrite_def)

text \<open>
  Assigning to an array element. A store behind the end, which in C writes to other memory, makes the list
  longer, and no store makes it shorter: where an array has its length at the end, no store was out of bounds.
\<close>

definition store :: "nat \<Rightarrow> 'a \<Rightarrow> 'a list \<Rightarrow> 'a list" where
  "store i v xs = (if i < length xs then xs[i := v] else xs @ replicate (Suc i - length xs) v)"

lemma store_in [simp]: "i < length xs \<Longrightarrow> store i v xs = xs[i := v]"
  by (simp add: store_def)

lemma length_store: "length (store i v xs) = max (length xs) (Suc i)"
  by (simp add: store_def)

lemma store_in_bounds: "length (store i v xs) = length xs \<longleftrightarrow> i < length xs"
  by (auto simp: length_store)

subsection \<open>Encodings of the primitive values\<close>

definition enc8 :: "u8 \<Rightarrow> u8 list" where
  "enc8 w = [w]"

definition enc16 :: "bool \<Rightarrow> u16 \<Rightarrow> u8 list" where
  "enc16 be w = (let hi = ucast (drop_bit 8 w); lo = ucast w in if be then [hi, lo] else [lo, hi])"

definition enc32 :: "bool \<Rightarrow> u32 \<Rightarrow> u8 list" where
  "enc32 be w = (let bs = [ucast (drop_bit 24 w), ucast (drop_bit 16 w), ucast (drop_bit 8 w), ucast w]
     in if be then bs else rev bs)"

lemma length_enc [simp]:
  "length (enc8 b) = 1" "length (enc16 be w) = 2" "length (enc32 be v) = 4"
  by (simp_all add: enc8_def enc16_def enc32_def Let_def)

end
