(* ===== verification/Get_Cursor.thy ===== *)
theory Get_Cursor
  imports Prelude
begin

section \<open>The read cursor of the block reader\<close>

text \<open>
  The parser functions of \<open>pf_block_reader.c\<close> share a \<open>pf_get_info_t\<close> and a position
  \<open>p_pos\<close>. Both are the state of a state monad here, so that a parser reads like the C
  function it models. A parse error is the field \<open>result\<close>; the functions go on after an
  error and deliver zeroes.

  C leaves the order of the two \<open>pf_get_byte\<close> calls inside one expression of
  \<open>pf_get_uint16\<close> and \<open>pf_get_uint32\<close> unspecified; the model takes them from left to
  right, which is what the code relies on. A destination array is a list: copying more
  bytes than it holds makes the list longer, so a buffer overrun is a visible change of
  its length.
\<close>

datatype pf_get_result =
    PF_PARSE_OK
  | PF_PARSE_NULL_POINTER
  | PF_PARSE_END_OF_INPUT
  | PF_PARSE_OUT_OF_API_RESOURCES
  | PF_PARSE_OUT_OF_EXP_SUBMODULE_RESOURCES
  | PF_PARSE_ERROR

record pf_get_info =
  result :: pf_get_result
  is_big_endian :: bool
  p_buf :: "u8 list option"
  len :: u16

record get_cursor = pf_get_info +
  p_pos :: u16

type_synonym 'a getter = "(get_cursor, 'a) state"

subsection \<open>Primitive getters\<close>

definition pf_get_mem :: "nat \<Rightarrow> u8 list \<Rightarrow> u8 list getter" where
  "pf_get_mem dest_size p_dest = State (\<lambda>s.
     if result s \<noteq> PF_PARSE_OK then (p_dest, s)
     else if unat (p_pos s) + dest_size > unat (len s)
     then (p_dest, s\<lparr>result := PF_PARSE_END_OF_INPUT\<rparr>)
     else case p_buf s of
       None \<Rightarrow> (p_dest, s\<lparr>result := PF_PARSE_NULL_POINTER\<rparr>)
     | Some b \<Rightarrow> (take dest_size (drop (unat (p_pos s)) b) @ drop dest_size p_dest,
                s\<lparr>p_pos := p_pos s + of_nat dest_size\<rparr>))"

definition pf_get_byte :: "u8 getter" where
  "pf_get_byte = State (\<lambda>s.
     if result s \<noteq> PF_PARSE_OK then (0, s)
     else if p_pos s \<ge> len s then (0, s\<lparr>result := PF_PARSE_END_OF_INPUT\<rparr>)
     else case p_buf s of
       None \<Rightarrow> (0, s\<lparr>result := PF_PARSE_NULL_POINTER\<rparr>)
     | Some b \<Rightarrow> (b ! unat (p_pos s), s\<lparr>p_pos := p_pos s + 1\<rparr>))"

definition pf_get_uint16 :: "u16 getter" where
  "pf_get_uint16 = do {
     s \<leftarrow> State_Monad.get;
     if result s \<noteq> PF_PARSE_OK then State_Monad.return 0
     else if is_big_endian s then do {
       hi \<leftarrow> pf_get_byte;
       lo \<leftarrow> pf_get_byte;
       State_Monad.return (push_bit 8 (ucast hi) + ucast lo)
     } else do {
       lo \<leftarrow> pf_get_byte;
       hi \<leftarrow> pf_get_byte;
       State_Monad.return (ucast lo + push_bit 8 (ucast hi))
     }
   }"

definition pf_get_uint32 :: "u32 getter" where
  "pf_get_uint32 = do {
     s \<leftarrow> State_Monad.get;
     if is_big_endian s then do {
       b3 \<leftarrow> pf_get_byte;
       b2 \<leftarrow> pf_get_byte;
       b1 \<leftarrow> pf_get_byte;
       b0 \<leftarrow> pf_get_byte;
       State_Monad.return (push_bit 24 (ucast b3) + push_bit 16 (ucast b2)
         + push_bit 8 (ucast b1) + ucast b0)
     } else do {
       b0 \<leftarrow> pf_get_byte;
       b1 \<leftarrow> pf_get_byte;
       b2 \<leftarrow> pf_get_byte;
       b3 \<leftarrow> pf_get_byte;
       State_Monad.return (ucast b0 + push_bit 8 (ucast b1)
         + push_bit 16 (ucast b2) + push_bit 24 (ucast b3))
     }
   }"

text \<open>Bit fields. \<open>pos\<close> and \<open>len\<close> are \<open>uint8_t\<close> values, added as \<open>int\<close>.\<close>

definition pf_get_bits :: "u32 \<Rightarrow> nat \<Rightarrow> nat \<Rightarrow> u32" where
  "pf_get_bits bits pos len' =
     (if len' = 0 then 0
      else if pos + len' > 32 then 0
      else if pos = 0 \<and> len' = 32 then bits
      else drop_bit pos bits AND (BIT len' - 1))"

text \<open>Setting the parse result, as several getters do directly.\<close>

definition set_result :: "pf_get_result \<Rightarrow> unit getter" where
  "set_result r = State_Monad.update (result_update (\<lambda>_. r))"

subsection \<open>What it means to read an encoding\<close>

text \<open>
  \<open>parse_ready s bs\<close>: no error so far, and the bytes \<open>bs\<close> come next, inside the
  declared length. \<open>reads e m bs v\<close>: in every such state with byte order \<open>e\<close> the getter
  \<open>m\<close> returns \<open>v\<close> and does nothing else than move the cursor behind \<open>bs\<close>.
\<close>

definition parse_ready :: "get_cursor \<Rightarrow> u8 list \<Rightarrow> bool" where
  "parse_ready s bs \<longleftrightarrow> result s = PF_PARSE_OK \<and>
     (case p_buf s of None \<Rightarrow> False
      | Some b \<Rightarrow> length b = unat (len s) \<and> unat (p_pos s) + length bs \<le> unat (len s) \<and>
                 take (length bs) (drop (unat (p_pos s)) b) = bs)"

definition advance :: "nat \<Rightarrow> get_cursor \<Rightarrow> get_cursor" where
  "advance n s = s\<lparr>p_pos := p_pos s + of_nat n\<rparr>"

definition reads :: "bool \<Rightarrow> 'a getter \<Rightarrow> u8 list \<Rightarrow> 'a \<Rightarrow> bool" where
  "reads e m bs v \<longleftrightarrow> (\<forall>s. is_big_endian s = e \<longrightarrow> parse_ready s bs \<longrightarrow>
     run_state m s = (v, advance (length bs) s))"

lemma readsD:
  "reads e m bs v \<Longrightarrow> is_big_endian s = e \<Longrightarrow> parse_ready s bs \<Longrightarrow>
   run_state m s = (v, advance (length bs) s)"
  by (simp add: reads_def)

lemma advance_simps [simp]:
  "result (advance n s) = result s" "is_big_endian (advance n s) = is_big_endian s"
  "p_buf (advance n s) = p_buf s" "len (advance n s) = len s"
  "p_pos (advance n s) = p_pos s + of_nat n"
  "advance 0 s = s" "advance m (advance n s) = advance (n + m) s"
  by (simp_all add: advance_def add.assoc)

lemma parse_ready_split:
  assumes "parse_ready s (bs @ cs)"
  shows "parse_ready s bs" and "parse_ready (advance (length bs) s) cs"
proof -
  obtain b where b: "p_buf s = Some b" "length b = unat (len s)"
      "unat (p_pos s) + length (bs @ cs) \<le> unat (len s)"
      "take (length bs + length cs) (drop (unat (p_pos s)) b) = bs @ cs" "result s = PF_PARSE_OK"
    using assms by (auto simp: parse_ready_def split: option.splits)
  note parts = take_drop_prefix [OF b(4)]
  have "unat (p_pos s) + length bs < 2 ^ LENGTH(16)"
    using b(3) unat_u16_less [of "len s"] by (simp del: unat_u16_less)
  then have "unat (p_pos s + of_nat (length bs)) = unat (p_pos s) + length bs"
    by (rule unat_add_of_nat)
  then show "parse_ready s bs" "parse_ready (advance (length bs) s) cs"
    using b parts by (simp_all add: parse_ready_def)
qed

lemma reads_bind [reads_intros]:
  assumes "reads e m b v" and "reads e (f v) (concat bs) w"
  shows "reads e (m \<bind> f) (concat (b # bs)) w"
proof -
  have "run_state (m \<bind> f) s = (w, advance (length (concat (b # bs))) s)"
    if "is_big_endian s = e" "parse_ready s (b @ concat bs)" for s
  proof -
    note r = parse_ready_split [OF that(2)]
    have "run_state m s = (v, advance (length b) s)"
      using readsD [OF assms(1) that(1) r(1)] .
    moreover have "run_state (f v) (advance (length b) s) =
        (w, advance (length (concat bs)) (advance (length b) s))"
      using assms(2) that(1) r(2) by (intro readsD [where e = e]) simp_all
    ultimately show ?thesis by simp
  qed
  then show ?thesis by (simp add: reads_def)
qed

lemma reads_return: "w' = w \<Longrightarrow> reads e (State_Monad.return w') (concat []) w"
  by (simp add: reads_def)

lemma reads_tail [reads_intros]: "reads e m b v \<Longrightarrow> reads e m (concat [b]) v"
  by simp

lemma parse_readyE:
  assumes "parse_ready s bs"
  obtains b where "p_buf s = Some b" "result s = PF_PARSE_OK" "length b = unat (len s)"
    "unat (p_pos s) + length bs \<le> unat (len s)" "take (length bs) (drop (unat (p_pos s)) b) = bs"
  using assms by (auto simp: parse_ready_def split: option.splits)

lemma reads_byte [reads_intros]: "reads e pf_get_byte (enc8 w) w"
proof -
  have "run_state pf_get_byte s = (w, advance 1 s)" if ready: "parse_ready s [w]" for s
  proof -
    obtain b where b: "p_buf s = Some b" "result s = PF_PARSE_OK" "length b = unat (len s)"
        "unat (p_pos s) < unat (len s)" "take 1 (drop (unat (p_pos s)) b) = [w]"
      using ready by (elim parse_readyE) simp
    have "hd (take 1 (drop (unat (p_pos s)) b)) = b ! unat (p_pos s)"
      using b(3,4) by (simp add: hd_drop_conv_nth)
    then have "b ! unat (p_pos s) = w" by (simp only: b(5) list.sel)
    then show ?thesis
      using b(1-4) by (simp add: pf_get_byte_def advance_def word_le_nat_alt)
  qed
  then show ?thesis by (simp add: reads_def enc8_def)
qed

lemma reads_mem:
  assumes "length bs = n"
  shows "reads e (pf_get_mem n d) bs (bs @ drop n d)"
proof -
  have "run_state (pf_get_mem n d) s = (bs @ drop n d, advance n s)" if "parse_ready s bs" for s
    using that assms by (elim parse_readyE) (simp add: pf_get_mem_def advance_def)
  then show ?thesis using assms by (simp add: reads_def)
qed

text \<open>Copying exactly as many bytes as the destination holds replaces all of it.\<close>

lemma reads_mem_all [reads_intros]:
  "length bs = n \<Longrightarrow> length d = n \<Longrightarrow> reads e (pf_get_mem n d) bs bs"
  using reads_mem [of bs n e d] by simp

lemma reads_cong: "reads e m bs v \<Longrightarrow> bs = cs \<Longrightarrow> v = w \<Longrightarrow> reads e m cs w"
  by simp

lemma reads_get_state:
  "(\<And>s. is_big_endian s = e \<Longrightarrow> result s = PF_PARSE_OK \<Longrightarrow> reads e (f s) bs v) \<Longrightarrow>
   reads e (State_Monad.get \<bind> f) bs v"
  by (simp add: reads_def parse_ready_def)

lemma reads_if:
  "c \<Longrightarrow> reads e m bs v \<Longrightarrow> reads e (if c then m else n) bs v"
  "\<not> c \<Longrightarrow> reads e n bs v \<Longrightarrow> reads e (if c then m else n) bs v"
  by simp_all

lemma reads_uint16 [reads_intros]: "reads e pf_get_uint16 (enc16 e w) w"
proof -
  let ?hi = "ucast (drop_bit 8 w) :: u8" and ?lo = "ucast w :: u8"
  have "reads True pf_get_uint16 (concat [enc8 ?hi, enc8 ?lo]) w"
    unfolding pf_get_uint16_def
    by (rule reads_get_state, rule reads_if(2), simp, rule reads_if(1), simp,
        (rule reads_bind [OF reads_byte])+, rule reads_return, rule u16_from_bytes)
  moreover have "reads False pf_get_uint16 (concat [enc8 ?lo, enc8 ?hi]) w"
    unfolding pf_get_uint16_def
    by (rule reads_get_state, rule reads_if(2), simp, rule reads_if(2), simp,
        (rule reads_bind [OF reads_byte])+, rule reads_return, subst add.commute, rule u16_from_bytes)
  ultimately show ?thesis
    by (cases e) (simp_all add: enc16_def enc8_def)
qed

lemma reads_uint32 [reads_intros]: "reads e pf_get_uint32 (enc32 e w) w"
proof -
  let ?b3 = "ucast (drop_bit 24 w) :: u8" and ?b2 = "ucast (drop_bit 16 w) :: u8"
  let ?b1 = "ucast (drop_bit 8 w) :: u8" and ?b0 = "ucast w :: u8"
  have "reads True pf_get_uint32 (concat [enc8 ?b3, enc8 ?b2, enc8 ?b1, enc8 ?b0]) w"
    unfolding pf_get_uint32_def
    by (rule reads_get_state, rule reads_if(1), simp,
        (rule reads_bind [OF reads_byte])+, rule reads_return, rule u32_from_bytes)
  moreover have "reads False pf_get_uint32 (concat [enc8 ?b0, enc8 ?b1, enc8 ?b2, enc8 ?b3]) w"
    unfolding pf_get_uint32_def
    by (rule reads_get_state, rule reads_if(2), simp,
        (rule reads_bind [OF reads_byte])+, rule reads_return)
      (use u32_from_bytes [of w] in \<open>simp add: ac_simps\<close>)
  ultimately show ?thesis
    by (cases e) (simp_all add: enc32_def enc8_def)
qed

subsection \<open>The first error is kept\<close>

text \<open>
  A getter is sticky when it changes nothing once a parse error is recorded, so the caller
  may check \<open>result\<close> once at the end.
\<close>

definition sticky :: "'a getter \<Rightarrow> bool" where
  "sticky m \<longleftrightarrow> (\<forall>s. result s \<noteq> PF_PARSE_OK \<longrightarrow> snd (run_state m s) = s)"

lemma sticky_return [sticky_intros]: "sticky (State_Monad.return x)"
  by (simp add: sticky_def)

lemma sticky_bind [sticky_intros]: "sticky m \<Longrightarrow> (\<And>x. sticky (f x)) \<Longrightarrow> sticky (m \<bind> f)"
  by (simp add: sticky_def split_beta)

lemma sticky_get [sticky_intros]: "sticky State_Monad.get"
  by (simp add: sticky_def)

lemma sticky_if [sticky_intros]:
  "(c \<Longrightarrow> sticky m) \<Longrightarrow> (\<not> c \<Longrightarrow> sticky n) \<Longrightarrow> sticky (if c then m else n)"
  by simp

lemma sticky_byte [sticky_intros]: "sticky pf_get_byte"
  by (simp add: sticky_def pf_get_byte_def)

lemma sticky_mem [sticky_intros]: "sticky (pf_get_mem n d)"
  by (simp add: sticky_def pf_get_mem_def)

lemma sticky_uint16 [sticky_intros]: "sticky pf_get_uint16"
  unfolding pf_get_uint16_def by (intro sticky_intros)

lemma sticky_uint32 [sticky_intros]: "sticky pf_get_uint32"
  unfolding pf_get_uint32_def by (intro sticky_intros)

subsection \<open>The cursor stays inside the buffer\<close>

definition cursor_ok :: "get_cursor \<Rightarrow> bool" where
  "cursor_ok s \<longleftrightarrow> p_pos s \<le> len s \<and>
     (case p_buf s of None \<Rightarrow> True | Some b \<Rightarrow> length b = unat (len s))"

text \<open>
  From a state with the cursor inside the buffer, the getter ends in one, it leaves buffer
  and length alone and never moves backwards.
\<close>

definition keeps_cursor :: "'a getter \<Rightarrow> bool" where
  "keeps_cursor m \<longleftrightarrow> (\<forall>s. cursor_ok s \<longrightarrow>
     (let s' = snd (run_state m s) in
       cursor_ok s' \<and> p_buf s' = p_buf s \<and> len s' = len s \<and> p_pos s \<le> p_pos s'))"

lemma keeps_cursorD:
  "keeps_cursor m \<Longrightarrow> cursor_ok s \<Longrightarrow> run_state m s = (v, s') \<Longrightarrow>
   cursor_ok s' \<and> p_buf s' = p_buf s \<and> len s' = len s \<and> p_pos s \<le> p_pos s'"
  by (force simp: keeps_cursor_def Let_def)

lemma keeps_cursor_return [rdwf_intros]: "keeps_cursor (State_Monad.return x)"
  by (simp add: keeps_cursor_def)

lemma keeps_cursor_get [rdwf_intros]: "keeps_cursor State_Monad.get"
  by (simp add: keeps_cursor_def)

lemma keeps_cursor_bind [rdwf_intros]:
  "keeps_cursor m \<Longrightarrow> (\<And>x. keeps_cursor (f x)) \<Longrightarrow> keeps_cursor (m \<bind> f)"
  unfolding keeps_cursor_def Let_def
  by (auto simp: split_beta intro: order_trans)

lemma keeps_cursor_if [rdwf_intros]:
  "(c \<Longrightarrow> keeps_cursor m) \<Longrightarrow> (\<not> c \<Longrightarrow> keeps_cursor n) \<Longrightarrow> keeps_cursor (if c then m else n)"
  by simp

lemma keeps_cursor_set_result [rdwf_intros]: "keeps_cursor (set_result r)"
  by (simp add: keeps_cursor_def set_result_def cursor_ok_def State_Monad.update_def split: option.split)

lemma cursor_forward:
  fixes p l :: u16
  assumes "unat p + n \<le> unat l"
  shows "p \<le> p + of_nat n" "p + of_nat n \<le> l"
proof -
  have "unat p + n < 2 ^ LENGTH(16)"
    using assms unat_u16_less [of l] by (simp del: unat_u16_less)
  from unat_add_of_nat [OF this] assms show "p \<le> p + of_nat n" "p + of_nat n \<le> l"
    by (simp_all add: word_le_nat_alt)
qed

lemma keeps_cursor_mem [rdwf_intros]: "keeps_cursor (pf_get_mem n d)"
  by (auto simp: keeps_cursor_def pf_get_mem_def cursor_ok_def not_less cursor_forward
      split: option.splits)

lemma keeps_cursor_byte [rdwf_intros]: "keeps_cursor pf_get_byte"
proof -
  have "p_pos s \<le> p_pos s + 1 \<and> p_pos s + 1 \<le> len s" if "\<not> len s \<le> p_pos s" for s :: get_cursor
    using that cursor_forward [of "p_pos s" 1 "len s"] by (simp add: word_le_nat_alt)
  then show ?thesis
    by (auto simp: keeps_cursor_def pf_get_byte_def cursor_ok_def split: option.splits)
qed

lemma keeps_cursor_uint16 [rdwf_intros]: "keeps_cursor pf_get_uint16"
  unfolding pf_get_uint16_def by (intro rdwf_intros)

lemma keeps_cursor_uint32 [rdwf_intros]: "keeps_cursor pf_get_uint32"
  unfolding pf_get_uint32_def by (intro rdwf_intros)

subsection \<open>Bit fields\<close>

lemma pf_get_bits_bit:
  "bit (pf_get_bits w pos n) i \<longleftrightarrow> i < n \<and> pos + n \<le> 32 \<and> bit w (pos + i)"
  by (auto simp: pf_get_bits_def bit_simps simp flip: mask_eq_exp_minus_1
      dest: bit_imp_le_length)

end
