(* ===== verification/Block_Types.thy ===== *)
theory Block_Types
  imports Prelude
begin

section \<open>Configuration constants and the structures of the blocks\<close>

text \<open>
  The configuration values are the defaults of \<open>CMakeLists.txt\<close>. The records are the
  structs of \<open>pf_types.h\<close> and \<open>pnet_api.h\<close> that the block reader and writer handle; the
  field names carry a short prefix because Isabelle keeps one name space for all record
  fields. Arrays are lists; their C size is the \<open>_ok\<close> predicate of the record.
\<close>

definition PNET_MAX_AR :: nat where "PNET_MAX_AR = 16"
definition PNET_MAX_API :: nat where "PNET_MAX_API = 1"
definition PNET_MAX_CR :: nat where "PNET_MAX_CR = 2"
definition PNET_MAX_SLOTS :: nat where "PNET_MAX_SLOTS = 4"
definition PNET_MAX_SUBSLOTS :: nat where "PNET_MAX_SUBSLOTS = 4"
definition PNET_MAX_DFP_IOCR :: nat where "PNET_MAX_DFP_IOCR = 0"
definition PNET_MAX_PHYSICAL_PORTS :: nat where "PNET_MAX_PHYSICAL_PORTS = 1"

definition PNET_STATION_NAME_MAX_SIZE :: nat where "PNET_STATION_NAME_MAX_SIZE = 241"
definition PNET_PORT_NAME_MAX_SIZE :: nat where "PNET_PORT_NAME_MAX_SIZE = 15"
definition PNET_LLDP_PORT_ID_MAX_SIZE :: nat where
  "PNET_LLDP_PORT_ID_MAX_SIZE = PNET_STATION_NAME_MAX_SIZE + PNET_PORT_NAME_MAX_SIZE"
definition PNET_LOCATION_MAX_SIZE :: nat where "PNET_LOCATION_MAX_SIZE = 23"

definition PNET_BLOCK_VERSION_HIGH :: u8 where "PNET_BLOCK_VERSION_HIGH = 1"
definition PNET_BLOCK_VERSION_LOW :: u8 where "PNET_BLOCK_VERSION_LOW = 0"

subsection \<open>Block types\<close>

definition PF_BT_IM_1 :: u16 where "PF_BT_IM_1 = 0x0021"
definition PF_BT_IM_2 :: u16 where "PF_BT_IM_2 = 0x0022"
definition PF_BT_IM_3 :: u16 where "PF_BT_IM_3 = 0x0023"
definition PF_BT_PEER_TO_PEER_BOUNDARY :: u16 where "PF_BT_PEER_TO_PEER_BOUNDARY = 0x0224"
definition PF_BT_MAINTENANCE_ITEM :: u16 where "PF_BT_MAINTENANCE_ITEM = 0x0f00"
definition PF_BT_WRITE_RES :: u16 where "PF_BT_WRITE_RES = 0x8008"
definition PF_BT_READ_RES :: u16 where "PF_BT_READ_RES = 0x8009"
definition PF_BT_AR_BLOCK_RES :: u16 where "PF_BT_AR_BLOCK_RES = 0x8101"
definition PF_BT_IOCR_BLOCK_RES :: u16 where "PF_BT_IOCR_BLOCK_RES = 0x8102"
definition PF_BT_ALARM_CR_BLOCK_RES :: u16 where "PF_BT_ALARM_CR_BLOCK_RES = 0x8103"
definition PF_BT_MODULE_DIFF_BLOCK :: u16 where "PF_BT_MODULE_DIFF_BLOCK = 0x8104"
definition PF_BT_AR_SERVER_BLOCK :: u16 where "PF_BT_AR_SERVER_BLOCK = 0x8106"
definition PF_BT_AR_RPC_BLOCK_RES :: u16 where "PF_BT_AR_RPC_BLOCK_RES = 0x8107"
definition PF_BT_AR_VENDOR_BLOCK_RES :: u16 where "PF_BT_AR_VENDOR_BLOCK_RES = 0x8108"
definition PF_BT_APPRDY_PLUG_ALARM_REQ :: u16 where "PF_BT_APPRDY_PLUG_ALARM_REQ = 0x0113"
definition PF_BT_APPRDY_REQ :: u16 where "PF_BT_APPRDY_REQ = 0x0112"
definition PF_USI_MAINTENANCE :: u16 where "PF_USI_MAINTENANCE = 0x8100"

subsection \<open>Common parts\<close>

record pf_uuid =
  data1 :: u32
  data2 :: u16
  data3 :: u16
  data4 :: "u8 list"

definition uuid_ok :: "pf_uuid \<Rightarrow> bool" where
  "uuid_ok u \<longleftrightarrow> length (data4 u) = 8"

record pf_rpc_uuid_type =
  time_low :: u32
  time_mid :: u16
  time_hi_and_version :: u16
  clock_hi_and_reserved :: u8
  clock_low :: u8
  node :: "u8 list"

record pf_rpc_handle =
  rpc_entry_handle :: u32
  handle_uuid :: pf_rpc_uuid_type

definition handle_ok :: "pf_rpc_handle \<Rightarrow> bool" where
  "handle_ok h \<longleftrightarrow> length (node (handle_uuid h)) = 6"

record pf_block_header =
  block_type :: u16
  block_length :: u16
  block_version_high :: u8
  block_version_low :: u8

record pnet_pnio_status =
  error_code :: u8
  error_decode :: u8
  error_code_1 :: u8
  error_code_2 :: u8

subsection \<open>Connect: AR parameters and the expected configuration\<close>

record pf_ar_properties =
  arp_state :: u16
  supervisor_takeover_allowed :: bool
  parameterization_server :: u8
  device_access :: bool
  companion_ar :: u16
  acknowledge_companion_ar :: bool
  combined_object_container :: bool
  startup_mode :: bool
  pull_module_alarm_allowed :: bool

record pf_ar_param =
  ar_type :: u16
  ar_uuid :: pf_uuid
  session_key :: u16
  cm_initiator_mac_add :: "u8 list"
  cm_initiator_object_uuid :: pf_uuid
  ar_properties :: pf_ar_properties
  cm_initiator_activity_timeout_factor :: u16
  cm_initiator_udp_rt_port :: u16
  cm_initiator_station_name_len :: u16
  cm_initiator_station_name :: "u8 list"

record pf_frame_descriptor =
  fd_slot_number :: u16
  fd_subslot_number :: u16
  fd_frame_offset :: u16

record pf_api_entry =
  ae_api :: u32
  ae_nbr_io_data :: u16
  ae_io_data :: "pf_frame_descriptor list"
  ae_nbr_iocs :: u16
  ae_iocs :: "pf_frame_descriptor list"

record pf_data_descriptor =
  dd_data_direction :: u16
  dd_submodule_data_length :: u16
  dd_length_iops :: u8
  dd_length_iocs :: u8

record pf_submodule_properties =
  sp_type :: u8
  sp_sharedInput :: bool
  sp_reduce_input_submodule_data_length :: bool
  sp_reduce_output_submodule_data_length :: bool
  sp_discard_ioxs :: bool

record pf_submodule_state =
  ss_add_info :: u8
  ss_advice_avail :: bool
  ss_maintenance_required :: bool
  ss_maintenance_demanded :: bool
  ss_fault :: bool
  ss_ar_info :: u8
  ss_ident_info :: u8
  ss_format_indicator :: bool

record pf_exp_submodule =
  es_subslot_number :: u16
  es_ident_number :: u32
  es_properties :: pf_submodule_properties
  es_nbr_data_descriptors :: u16
  es_data_descriptor :: "pf_data_descriptor list"
  es_state :: pf_submodule_state

record pf_exp_module =
  em_slot_number :: u16
  em_ident_number :: u32
  em_properties :: u16
  em_state :: u16
  em_nbr_submodules :: u16
  em_submodule :: "pf_exp_submodule list"
  em_nbr_diff_submodules :: u16
  em_diff_submodule :: "u16 list"

record pf_exp_api =
  ea_valid :: bool
  ea_api :: u32
  ea_nbr_modules :: u16
  ea_module :: "pf_exp_module list"
  ea_nbr_diff_modules :: u16
  ea_diff_module :: "u16 list"

record pf_exp_ident =
  ei_nbr_apis :: u16
  ei_api :: "pf_exp_api list"
  ei_nbr_diff_apis :: u16
  ei_diff_api :: "u16 list"

record pf_alarm_cr_tag_header =
  th_vlan_id :: u8
  th_alarm_user_priority :: u8

record pf_alarm_cr_request =
  acr_alarm_cr_type :: u32
  acr_lt_field :: u16
  acr_priority :: bool
  acr_transport_udp :: bool
  acr_rta_timeout_factor :: u16
  acr_rta_retries :: u16
  acr_local_alarm_reference :: u16
  acr_max_alarm_data_length :: u16
  acr_tag_header_high :: pf_alarm_cr_tag_header
  acr_tag_header_low :: pf_alarm_cr_tag_header

record pf_prm_server =
  ps_object_uuid :: pf_uuid
  ps_activity_timeout_factor :: u16
  ps_station_name_len :: u16
  ps_station_name :: "u8 list"

record pf_dfp_iocr =
  di_iocr_reference :: u16
  di_subframe_offset :: u16
  di_subframe_position :: u8
  di_subframe_length :: u8

record pf_ir_info =
  ir_data_uuid :: pf_uuid
  ir_nbr_iocrs :: u16
  ir_dfp_iocrs :: "pf_dfp_iocr list"

record pf_multicast_cr =
  mc_iocr_reference :: u16
  mc_protocol :: u8
  mc_resolution_factor :: u8
  mc_mci_timeout_factor :: u16
  mc_length_provider_station_name :: u16
  mc_provider_station_name :: "u8 list"

record pf_ar_vendor_request =
  vr_ap_structure_identifier :: u32
  vr_api :: u32
  vr_length_data_request :: u16
  vr_data_request :: "u8 list"

subsection \<open>RPC, control and record data\<close>

record pf_control_block =
  cb_ar_uuid :: pf_uuid
  cb_session_key :: u16
  cb_control_command :: u16
  cb_control_block_properties :: u16
  cb_alarm_sequence_number :: u16

text \<open>\<open>args_maximum\<close> and \<open>pnio_status\<close> are the two names of one union member.\<close>

record pf_ndr_data =
  ndr_args_maximum :: u32
  ndr_args_length :: u32
  ndr_maximum_count :: u32
  ndr_offset :: u32
  ndr_actual_count :: u32

record pf_rpc_flags =
  last_fragment :: bool
  fragment :: bool
  no_fack :: bool
  maybe :: bool
  idempotent :: bool
  broadcast :: bool

record pf_rpc_header =
  rpc_version :: u8
  rpc_packet_type :: u8
  rpc_flags :: pf_rpc_flags
  rpc_cancel_pending :: bool
  rpc_is_big_endian :: bool
  rpc_float_repr :: u8
  rpc_reserved :: u8
  rpc_serial_high :: u8
  rpc_object_uuid :: pf_uuid
  rpc_interface_uuid :: pf_uuid
  rpc_activity_uuid :: pf_uuid
  rpc_server_boot_time :: u32
  rpc_interface_version :: u32
  rpc_sequence_nmb :: u32
  rpc_opnum :: u16
  rpc_interface_hint :: u16
  rpc_activity_hint :: u16
  rpc_length_of_body :: u16
  rpc_fragment_nmb :: u16
  rpc_auth_protocol :: u8
  rpc_serial_low :: u8

record pf_iod_read_request =
  rr_sequence_number :: u16
  rr_ar_uuid :: pf_uuid
  rr_api :: u32
  rr_slot_number :: u16
  rr_subslot_number :: u16
  rr_padding :: "u8 list"
  rr_index :: u16
  rr_record_data_length :: u32
  rr_target_ar_uuid :: pf_uuid
  rr_rw_padding :: "u8 list"

record pf_iod_write_request =
  wr_sequence_number :: u16
  wr_ar_uuid :: pf_uuid
  wr_api :: u32
  wr_slot_number :: u16
  wr_subslot_number :: u16
  wr_padding :: "u8 list"
  wr_index :: u16
  wr_record_data_length :: u32
  wr_rw_padding :: "u8 list"

record pf_iod_read_result =
  rs_sequence_number :: u16
  rs_ar_uuid :: pf_uuid
  rs_api :: u32
  rs_slot_number :: u16
  rs_subslot_number :: u16
  rs_index :: u16
  rs_record_data_length :: u32
  rs_add_data_1 :: u16
  rs_add_data_2 :: u16

record pf_iod_write_result = pf_iod_read_result +
  ws_pnio_status :: pnet_pnio_status

record pf_rpc_lookup_req =
  lk_inquiry_type :: u32
  lk_object_id :: u32
  lk_object_uuid :: pf_uuid
  lk_interface_id :: u32
  lk_interface_uuid :: pf_uuid
  lk_interface_ver_major :: u16
  lk_interface_ver_minor :: u16
  lk_version_option :: u32
  lk_rpc_handle :: pf_rpc_handle
  lk_max_entries :: u32

record pnet_im_1 =
  im_tag_function :: "u8 list"
  im_tag_location :: "u8 list"

subsection \<open>Alarms\<close>

record pf_alarm_fixed =
  dst_ref :: u16
  src_ref :: u16
  pdu_type :: u8
  pdu_version :: u8
  window_size :: u8
  tack :: bool
  send_seq_num :: u16
  ack_seq_nbr :: u16

record pf_alarm_data =
  ad_alarm_type :: u16
  ad_api_id :: u32
  ad_slot_nbr :: u16
  ad_subslot_nbr :: u16
  ad_module_ident :: u32
  ad_submodule_ident :: u16
  ad_channel_diagnosis :: bool
  ad_manufacturer_diagnosis :: bool
  ad_submodule_diagnosis :: bool
  ad_ar_diagnosis :: bool
  ad_sequence_number :: u16

record pf_log_book_ts =
  ts_sec_hi :: u16
  ts_sec_lo :: u32
  ts_nano_sec :: u32

subsection \<open>Port data\<close>

record pf_port_data_check =
  pd_slot_number :: u16
  pd_subslot_number :: u16
  pd_block_header :: pf_block_header

record pf_check_peer =
  length_peer_port_name :: u8
  peer_port_name :: "u8 list"
  length_peer_station_name :: u8
  peer_station_name :: "u8 list"

record pf_check_peers =
  number_of_peers :: u8
  peers :: "pf_check_peer list"

record pf_adjust_peer_to_peer_boundary =
  do_not_send_LLDP_frames :: bool
  do_not_send_pctp_delay_request_frames :: bool
  do_not_send_path_delay_request_frames :: bool
  adjust_properties :: u16

subsection \<open>Connect results\<close>

record pf_ar_result =
  cm_responder_mac_add :: "u8 list"
  responder_udp_rt_port :: u16

record pf_iocr_result =
  res_iocr_type :: u16
  res_iocr_reference :: u16
  res_frame_id :: u16

record pf_alarm_cr_result =
  acres_alarm_cr_type :: u16
  acres_local_alarm_reference :: u16
  acres_max_alarm_data_length :: u16

record pf_ar_server =
  length_cm_responder_station_name :: u16
  cm_responder_station_name :: "u8 list"

record pf_ar_vendor_result =
  length_data_response :: u16
  data_response :: "u8 list"

end
