(* ===== verification/Block_Reader.thy ===== *)
theory Block_Reader
  imports Get_Cursor Block_Types
begin

section \<open>The block reader\<close>

text \<open>
  The parsers of \<open>pf_block_reader.c\<close>, in the order of the file. A parser gets the old
  contents of the structure it fills, because after a parse error some members keep them,
  and returns the new contents. \<open>pf_get_iocr_param\<close>, which calls the connect
  checks of \<open>pf_cmdev.c\<close>, is in the theory Conn\_Parse.
\<close>

subsection \<open>Common parts\<close>

definition pf_get_uuid :: "pf_uuid \<Rightarrow> pf_uuid getter" where
  "pf_get_uuid d = do {
     d1 \<leftarrow> pf_get_uint32;
     d2 \<leftarrow> pf_get_uint16;
     d3 \<leftarrow> pf_get_uint16;
     d4 \<leftarrow> pf_get_mem 8 (data4 d);
     State_Monad.return \<lparr>data1 = d1, data2 = d2, data3 = d3, data4 = d4\<rparr>
   }"

definition pf_get_handle :: "pf_rpc_handle \<Rightarrow> pf_rpc_handle getter" where
  "pf_get_handle d = do {
     eh \<leftarrow> pf_get_uint32;
     tl' \<leftarrow> pf_get_uint32;
     tm \<leftarrow> pf_get_uint16;
     th \<leftarrow> pf_get_uint16;
     ch \<leftarrow> pf_get_byte;
     cl \<leftarrow> pf_get_byte;
     nd \<leftarrow> pf_get_mem 6 (node (handle_uuid d));
     State_Monad.return \<lparr>rpc_entry_handle = eh,
       handle_uuid = \<lparr>time_low = tl', time_mid = tm, time_hi_and_version = th,
         clock_hi_and_reserved = ch, clock_low = cl, node = nd\<rparr>\<rparr>
   }"

definition pf_get_frame_descriptor :: "pf_frame_descriptor getter" where
  "pf_get_frame_descriptor = do {
     slot \<leftarrow> pf_get_uint16;
     subslot \<leftarrow> pf_get_uint16;
     offs \<leftarrow> pf_get_uint16;
     State_Monad.return \<lparr>fd_slot_number = slot, fd_subslot_number = subslot, fd_frame_offset = offs\<rparr>
   }"

text \<open>The loops that fill the first \<open>n\<close> elements of an array.\<close>

primrec get_array :: "('a \<Rightarrow> 'a getter) \<Rightarrow> nat \<Rightarrow> nat \<Rightarrow> 'a list \<Rightarrow> 'a list getter" where
  "get_array g 0 ix xs = State_Monad.return xs"
| "get_array g (Suc n) ix xs = do { x \<leftarrow> g (xs ! ix); get_array g n (Suc ix) (store ix x xs) }"

definition pf_get_iocr_api_entry :: "pf_api_entry \<Rightarrow> (int \<times> pf_api_entry) getter" where
  "pf_get_iocr_api_entry d = do {
     api \<leftarrow> pf_get_uint32;
     nio \<leftarrow> pf_get_uint16;
     let d = d\<lparr>ae_api := api, ae_nbr_io_data := nio\<rparr>;
     if unat nio > PNET_MAX_SLOTS * PNET_MAX_SUBSLOTS then State_Monad.return (- 1, d)
     else do {
       io \<leftarrow> get_array (\<lambda>_. pf_get_frame_descriptor) (unat nio) 0 (ae_io_data d);
       ncs \<leftarrow> pf_get_uint16;
       let d = d\<lparr>ae_io_data := io, ae_nbr_iocs := ncs\<rparr>;
       if unat ncs > PNET_MAX_SLOTS * PNET_MAX_SUBSLOTS then State_Monad.return (- 1, d)
       else do {
         cs \<leftarrow> get_array (\<lambda>_. pf_get_frame_descriptor) (unat ncs) 0 (ae_iocs d);
         State_Monad.return (0, d\<lparr>ae_iocs := cs\<rparr>)
       }
     }
   }"

definition get_data_descriptor :: "pf_data_descriptor getter" where
  "get_data_descriptor = do {
     dir \<leftarrow> pf_get_uint16;
     dl \<leftarrow> pf_get_uint16;
     cs \<leftarrow> pf_get_byte;
     ps \<leftarrow> pf_get_byte;
     State_Monad.return \<lparr>dd_data_direction = dir, dd_submodule_data_length = dl,
       dd_length_iops = ps, dd_length_iocs = cs\<rparr>
   }"

definition PNET_DIR_IO :: u8 where "PNET_DIR_IO = 3"

definition pf_get_exp_submodule :: "pf_exp_submodule \<Rightarrow> pf_exp_submodule getter" where
  "pf_get_exp_submodule d = do {
     subslot \<leftarrow> pf_get_uint16;
     ident \<leftarrow> pf_get_uint32;
     t \<leftarrow> pf_get_uint16;
     let props = \<lparr>sp_type = ucast (pf_get_bits (ucast t) 0 2),
       sp_sharedInput = (pf_get_bits (ucast t) 2 1 \<noteq> 0),
       sp_reduce_input_submodule_data_length = (pf_get_bits (ucast t) 3 1 \<noteq> 0),
       sp_reduce_output_submodule_data_length = (pf_get_bits (ucast t) 4 1 \<noteq> 0),
       sp_discard_ioxs = (pf_get_bits (ucast t) 5 1 \<noteq> 0)\<rparr>;
     dd0 \<leftarrow> get_data_descriptor;
     let d = d\<lparr>es_subslot_number := subslot, es_ident_number := ident, es_properties := props,
       es_data_descriptor := store 0 dd0 (es_data_descriptor d), es_nbr_data_descriptors := 1\<rparr>;
     if sp_type props = PNET_DIR_IO then do {
       dd1 \<leftarrow> get_data_descriptor;
       State_Monad.return (d\<lparr>es_data_descriptor := store 1 dd1 (es_data_descriptor d),
         es_nbr_data_descriptors := 2\<rparr>)
     } else State_Monad.return d
   }"

definition pf_get_block_header :: "pf_block_header getter" where
  "pf_get_block_header = do {
     t \<leftarrow> pf_get_uint16;
     l \<leftarrow> pf_get_uint16;
     vh \<leftarrow> pf_get_byte;
     vl \<leftarrow> pf_get_byte;
     State_Monad.return \<lparr>block_type = t, block_length = l,
       block_version_high = vh, block_version_low = vl\<rparr>
   }"

subsection \<open>Connect request\<close>

definition get_ar_properties :: "u32 \<Rightarrow> pf_ar_properties" where
  "get_ar_properties t = \<lparr>
     arp_state = ucast (pf_get_bits t 0 3),
     supervisor_takeover_allowed = (pf_get_bits t 3 1 \<noteq> 0),
     parameterization_server = ucast (pf_get_bits t 4 1),
     device_access = (pf_get_bits t 8 1 \<noteq> 0),
     companion_ar = ucast (pf_get_bits t 9 2),
     acknowledge_companion_ar = (pf_get_bits t 11 1 \<noteq> 0),
     combined_object_container = (pf_get_bits t 29 1 \<noteq> 0),
     startup_mode = (pf_get_bits t 30 1 \<noteq> 0),
     pull_module_alarm_allowed = (pf_get_bits t 31 1 \<noteq> 0)\<rparr>"

definition pf_get_ar_param :: "pf_ar_param \<Rightarrow> pf_ar_param getter" where
  "pf_get_ar_param d = do {
     t \<leftarrow> pf_get_uint16;
     u \<leftarrow> pf_get_uuid (ar_uuid d);
     key \<leftarrow> pf_get_uint16;
     mac \<leftarrow> pf_get_mem 6 (cm_initiator_mac_add d);
     obj \<leftarrow> pf_get_uuid (cm_initiator_object_uuid d);
     props \<leftarrow> pf_get_uint32;
     tf \<leftarrow> pf_get_uint16;
     udp \<leftarrow> pf_get_uint16;
     name_len \<leftarrow> pf_get_uint16;
     let str_len = min (unat name_len) (PNET_STATION_NAME_MAX_SIZE - 1);
     name \<leftarrow> pf_get_mem str_len (cm_initiator_station_name d);
     State_Monad.return \<lparr>ar_type = t, ar_uuid = u, session_key = key,
       cm_initiator_mac_add = mac, cm_initiator_object_uuid = obj,
       ar_properties = get_ar_properties props,
       cm_initiator_activity_timeout_factor = tf, cm_initiator_udp_rt_port = udp,
       cm_initiator_station_name_len = name_len,
       cm_initiator_station_name = name[str_len := 0]\<rparr>
   }"

text \<open>
  \<open>api\<close> is the C pointer into \<open>exp_ident.api\<close>, declared before the loop: it keeps its
  value from one iteration to the next, also when the next API is not found.
\<close>

definition find_exp_api :: "pf_exp_ident \<Rightarrow> u32 \<Rightarrow> nat option \<Rightarrow> nat option" where
  "find_exp_api ei exp_api api =
     foldl (\<lambda>r iy. if ea_valid (ei_api ei ! iy) \<and> ea_api (ei_api ei ! iy) = exp_api
                   then Some iy else r) api [0 ..< unat (ei_nbr_apis ei)]"

definition alloc_exp_api ::
    "pf_exp_ident \<Rightarrow> u32 \<Rightarrow> nat option \<Rightarrow> nat option \<times> pf_exp_ident" where
  "alloc_exp_api ei exp_api api =
     (if api = None \<and> unat (ei_nbr_apis ei) < PNET_MAX_API then
        (let a = unat (ei_nbr_apis ei)
         in (Some a, ei\<lparr>ei_nbr_apis := ei_nbr_apis ei + 1,
               ei_api := store a ((ei_api ei ! a)
                 \<lparr>ea_api := exp_api, ea_nbr_modules := 0, ea_nbr_diff_modules := 0\<rparr>) (ei_api ei)\<rparr>))
      else (api, ei))"

definition get_exp_module :: "pf_exp_api \<Rightarrow> pf_exp_api getter" where
  "get_exp_module ap = do {
     slot \<leftarrow> pf_get_uint16;
     if unat (ea_nbr_modules ap) < PNET_MAX_SLOTS then do {
       let m = unat (ea_nbr_modules ap);
       ident \<leftarrow> pf_get_uint32;
       props \<leftarrow> pf_get_uint16;
       nsub \<leftarrow> pf_get_uint16;
       let md = (ea_module ap ! m)\<lparr>em_slot_number := slot, em_ident_number := ident,
         em_properties := props, em_nbr_submodules := nsub\<rparr>;
       let ap = ap\<lparr>ea_nbr_modules := ea_nbr_modules ap + 1, ea_module := store m md (ea_module ap)\<rparr>;
       if unat nsub \<le> PNET_MAX_SUBSLOTS then do {
         subs \<leftarrow> get_array pf_get_exp_submodule (unat nsub) 0 (em_submodule md);
         State_Monad.return (ap\<lparr>ea_module := store m (md\<lparr>em_submodule := subs\<rparr>) (ea_module ap),
           ea_valid := True\<rparr>)
       } else do {
         set_result PF_PARSE_OUT_OF_EXP_SUBMODULE_RESOURCES;
         State_Monad.return ap
       }
     } else do {
       set_result PF_PARSE_OUT_OF_EXP_SUBMODULE_RESOURCES;
       State_Monad.return ap
     }
   }"

primrec get_exp_apis :: "nat \<Rightarrow> nat option \<Rightarrow> pf_exp_ident \<Rightarrow> pf_exp_ident getter" where
  "get_exp_apis 0 api ei = State_Monad.return ei"
| "get_exp_apis (Suc n) api ei = do {
     exp_api \<leftarrow> pf_get_uint32;
     let (api, ei) = alloc_exp_api ei exp_api (find_exp_api ei exp_api api);
     case api of
       None \<Rightarrow> do {
         set_result PF_PARSE_OUT_OF_API_RESOURCES;
         get_exp_apis n api ei
       }
     | Some a \<Rightarrow> do {
         ap \<leftarrow> get_exp_module (ei_api ei ! a);
         get_exp_apis n api (ei\<lparr>ei_api := store a ap (ei_api ei)\<rparr>)
       }
   }"

definition pf_get_exp_api_module :: "pf_exp_ident \<Rightarrow> pf_exp_ident getter" where
  "pf_get_exp_api_module ei = do {
     nbr_exp_api \<leftarrow> pf_get_uint16;
     get_exp_apis (unat nbr_exp_api) None ei
   }"

definition get_tag_header :: "u16 \<Rightarrow> pf_alarm_cr_tag_header" where
  "get_tag_header t = \<lparr>th_vlan_id = ucast (pf_get_bits (ucast t) 0 12),
     th_alarm_user_priority = ucast (pf_get_bits (ucast t) 13 3)\<rparr>"

definition pf_get_alarm_cr_request :: "pf_alarm_cr_request getter" where
  "pf_get_alarm_cr_request = do {
     t \<leftarrow> pf_get_uint16;
     lt \<leftarrow> pf_get_uint16;
     props \<leftarrow> pf_get_uint32;
     tf \<leftarrow> pf_get_uint16;
     retries \<leftarrow> pf_get_uint16;
     lref \<leftarrow> pf_get_uint16;
     maxlen \<leftarrow> pf_get_uint16;
     hi \<leftarrow> pf_get_uint16;
     lo \<leftarrow> pf_get_uint16;
     State_Monad.return \<lparr>acr_alarm_cr_type = ucast t, acr_lt_field = lt,
       acr_priority = (pf_get_bits props 0 1 \<noteq> 0),
       acr_transport_udp = (pf_get_bits props 1 1 \<noteq> 0),
       acr_rta_timeout_factor = tf, acr_rta_retries = retries,
       acr_local_alarm_reference = lref, acr_max_alarm_data_length = maxlen,
       acr_tag_header_high = get_tag_header hi, acr_tag_header_low = get_tag_header lo\<rparr>
   }"

definition pf_get_ar_prm_server_request :: "pf_prm_server \<Rightarrow> pf_prm_server getter" where
  "pf_get_ar_prm_server_request d = do {
     u \<leftarrow> pf_get_uuid (ps_object_uuid d);
     _ \<leftarrow> pf_get_uint32;
     tf \<leftarrow> pf_get_uint16;
     n \<leftarrow> pf_get_uint16;
     let d = d\<lparr>ps_object_uuid := u, ps_activity_timeout_factor := tf, ps_station_name_len := n\<rparr>;
     if unat n \<ge> PNET_STATION_NAME_MAX_SIZE then do {
       set_result PF_PARSE_ERROR;
       State_Monad.return d
     } else do {
       name \<leftarrow> pf_get_mem (unat n) (ps_station_name d);
       set_result PF_PARSE_OK;
       State_Monad.return (d\<lparr>ps_station_name := name[unat n := 0]\<rparr>)
     }
   }"

definition pf_get_dfp_iocr :: "pf_dfp_iocr getter" where
  "pf_get_dfp_iocr = do {
     r \<leftarrow> pf_get_uint16;
     off \<leftarrow> pf_get_uint16;
     sp \<leftarrow> pf_get_byte;
     sl \<leftarrow> pf_get_byte;
     State_Monad.return \<lparr>di_iocr_reference = r, di_subframe_offset = off,
       di_subframe_position = sp, di_subframe_length = sl\<rparr>
   }"

definition PNET_ERROR_CODE_2_FAULTY_IR_INFO_WRONG_UUID :: u8 where
  "PNET_ERROR_CODE_2_FAULTY_IR_INFO_WRONG_UUID = 5"
definition PNET_ERROR_CODE_2_FAULTY_IR_INFO_WRONG_NBR_IOCRS :: u8 where
  "PNET_ERROR_CODE_2_FAULTY_IR_INFO_WRONG_NBR_IOCRS = 7"

definition pf_get_ir_info_request :: "pf_ir_info \<Rightarrow> (u8 \<times> pf_ir_info) getter" where
  "pf_get_ir_info_request d = do {
     u \<leftarrow> pf_get_uuid (ir_data_uuid d);
     n \<leftarrow> pf_get_uint16;
     let d = d\<lparr>ir_data_uuid := u, ir_nbr_iocrs := n\<rparr>;
     if data1 u = 0 \<and> data2 u = 0 \<and> data3 u = 0 \<and> list_all (\<lambda>b. b = 0) (data4 u)
     then State_Monad.return (PNET_ERROR_CODE_2_FAULTY_IR_INFO_WRONG_UUID, d)
     else if unat n > PNET_MAX_DFP_IOCR
     then State_Monad.return (PNET_ERROR_CODE_2_FAULTY_IR_INFO_WRONG_NBR_IOCRS, d)
     else do {
       xs \<leftarrow> get_array (\<lambda>_. pf_get_dfp_iocr) (unat n) 0 (ir_dfp_iocrs d);
       State_Monad.return (0, d\<lparr>ir_dfp_iocrs := xs\<rparr>)
     }
   }"

definition pf_get_mcr_request :: "pf_multicast_cr \<Rightarrow> pf_multicast_cr getter" where
  "pf_get_mcr_request d = do {
     r \<leftarrow> pf_get_uint16;
     p \<leftarrow> pf_get_byte;
     rf \<leftarrow> pf_get_byte;
     tf \<leftarrow> pf_get_uint16;
     n \<leftarrow> pf_get_uint16;
     let d = d\<lparr>mc_iocr_reference := r, mc_protocol := p, mc_resolution_factor := rf,
       mc_mci_timeout_factor := tf, mc_length_provider_station_name := n\<rparr>;
     if unat n \<ge> PNET_STATION_NAME_MAX_SIZE then do {
       set_result PF_PARSE_ERROR;
       State_Monad.return d
     } else do {
       name \<leftarrow> pf_get_mem (unat n) (mc_provider_station_name d);
       set_result PF_PARSE_OK;
       State_Monad.return (d\<lparr>mc_provider_station_name := name[unat n := 0]\<rparr>)
     }
   }"

definition pf_get_ar_rpc_request :: "u16 getter" where
  "pf_get_ar_rpc_request = pf_get_uint16"

text \<open>\<open>ar_vendor_request\<close> is the array with \<open>PNET_MAX_AR_VENDOR_BLOCKS\<close> entries.\<close>

definition pf_get_ar_vendor_request ::
    "u16 \<Rightarrow> pf_ar_vendor_request list \<Rightarrow> pf_ar_vendor_request list getter" where
  "pf_get_ar_vendor_request ix rs =
     (if unat ix \<ge> length rs then State_Monad.return rs
      else do {
        i \<leftarrow> pf_get_uint32;
        api \<leftarrow> pf_get_uint32;
        n \<leftarrow> pf_get_uint16;
        dat \<leftarrow> pf_get_mem (unat n) (vr_data_request (rs ! unat ix));
        State_Monad.return (rs[unat ix := \<lparr>vr_ap_structure_identifier = i, vr_api = api,
          vr_length_data_request = n, vr_data_request = dat\<rparr>])
      })"

subsection \<open>Control, RPC and record data\<close>

definition pf_get_control :: "pf_control_block \<Rightarrow> pf_control_block getter" where
  "pf_get_control d = do {
     _ \<leftarrow> pf_get_uint16;
     u \<leftarrow> pf_get_uuid (cb_ar_uuid d);
     key \<leftarrow> pf_get_uint16;
     sn \<leftarrow> pf_get_uint16;
     cmd \<leftarrow> pf_get_uint16;
     props \<leftarrow> pf_get_uint16;
     State_Monad.return \<lparr>cb_ar_uuid = u, cb_session_key = key, cb_control_command = cmd,
       cb_control_block_properties = props, cb_alarm_sequence_number = sn\<rparr>
   }"

definition get_ndr :: "pf_ndr_data getter" where
  "get_ndr = do {
     am \<leftarrow> pf_get_uint32;
     al \<leftarrow> pf_get_uint32;
     mc \<leftarrow> pf_get_uint32;
     off \<leftarrow> pf_get_uint32;
     ac \<leftarrow> pf_get_uint32;
     State_Monad.return \<lparr>ndr_args_maximum = am, ndr_args_length = al,
       ndr_maximum_count = mc, ndr_offset = off, ndr_actual_count = ac\<rparr>
   }"

definition ndr_req_ok :: "pf_ndr_data \<Rightarrow> bool" where
  "ndr_req_ok d \<longleftrightarrow> \<not> (ndr_args_maximum d < ndr_args_length d \<or>
     ndr_args_maximum d < ndr_maximum_count d \<or>
     ndr_maximum_count d < ndr_args_length d \<or>
     ndr_args_length d \<noteq> ndr_actual_count d) \<and> ndr_offset d = 0"

definition pf_get_ndr_data_req :: "(int \<times> pf_ndr_data) getter" where
  "pf_get_ndr_data_req = do {
     d \<leftarrow> get_ndr;
     State_Monad.return (if ndr_req_ok d then 0 else - 1, d)
   }"

definition pf_get_ndr_data_rsp :: "(int \<times> pf_ndr_data) getter" where
  "pf_get_ndr_data_rsp = do { d \<leftarrow> get_ndr; State_Monad.return (0, d) }"

definition flag :: "u8 \<Rightarrow> nat \<Rightarrow> bool" where
  "flag b n \<longleftrightarrow> pf_get_bits (ucast b) n 1 \<noteq> 0"

definition get_rpc_flags :: "u8 \<Rightarrow> pf_rpc_flags" where
  "get_rpc_flags b = \<lparr>last_fragment = flag b 1, fragment = flag b 2, no_fack = flag b 3,
     maybe = flag b 4, idempotent = flag b 5, broadcast = flag b 6\<rparr>"

definition set_byte_order :: "bool \<Rightarrow> unit getter" where
  "set_byte_order e = State_Monad.update (is_big_endian_update (\<lambda>_. e))"

definition pf_get_dce_rpc_header :: "pf_rpc_header \<Rightarrow> pf_rpc_header getter" where
  "pf_get_dce_rpc_header d = do {
     v \<leftarrow> pf_get_byte;
     pt \<leftarrow> pf_get_byte;
     fl \<leftarrow> pf_get_byte;
     fl2 \<leftarrow> pf_get_byte;
     dr \<leftarrow> pf_get_byte;
     let be = (pf_get_bits (ucast dr) 4 4 = 0);
     set_byte_order be;
     _ \<leftarrow> pf_get_byte;
     rsv \<leftarrow> pf_get_byte;
     sh \<leftarrow> pf_get_byte;
     ou \<leftarrow> pf_get_uuid (rpc_object_uuid d);
     iu \<leftarrow> pf_get_uuid (rpc_interface_uuid d);
     au \<leftarrow> pf_get_uuid (rpc_activity_uuid d);
     boot \<leftarrow> pf_get_uint32;
     iv \<leftarrow> pf_get_uint32;
     sn \<leftarrow> pf_get_uint32;
     op \<leftarrow> pf_get_uint16;
     ih \<leftarrow> pf_get_uint16;
     ah \<leftarrow> pf_get_uint16;
     lb \<leftarrow> pf_get_uint16;
     fn \<leftarrow> pf_get_uint16;
     ap \<leftarrow> pf_get_byte;
     sl \<leftarrow> pf_get_byte;
     State_Monad.return \<lparr>rpc_version = v, rpc_packet_type = pt AND 0x1f,
       rpc_flags = get_rpc_flags fl, rpc_cancel_pending = flag fl2 1,
       rpc_is_big_endian = be, rpc_float_repr = 0, rpc_reserved = rsv, rpc_serial_high = sh,
       rpc_object_uuid = ou, rpc_interface_uuid = iu, rpc_activity_uuid = au,
       rpc_server_boot_time = boot, rpc_interface_version = iv, rpc_sequence_nmb = sn,
       rpc_opnum = op, rpc_interface_hint = ih, rpc_activity_hint = ah,
       rpc_length_of_body = lb, rpc_fragment_nmb = fn, rpc_auth_protocol = ap,
       rpc_serial_low = sl\<rparr>
   }"

text \<open>The byte-wise copy of a padding array.\<close>

definition get_padding :: "u8 list \<Rightarrow> u8 list getter" where
  "get_padding d = get_array (\<lambda>_. pf_get_byte) (length d) 0 d"

definition pf_get_read_request :: "pf_iod_read_request \<Rightarrow> pf_iod_read_request getter" where
  "pf_get_read_request d = do {
     sn \<leftarrow> pf_get_uint16;
     u \<leftarrow> pf_get_uuid (rr_ar_uuid d);
     api \<leftarrow> pf_get_uint32;
     slot \<leftarrow> pf_get_uint16;
     subslot \<leftarrow> pf_get_uint16;
     p0 \<leftarrow> pf_get_byte;
     p1 \<leftarrow> pf_get_byte;
     ix \<leftarrow> pf_get_uint16;
     rl \<leftarrow> pf_get_uint32;
     tu \<leftarrow> pf_get_uuid (rr_target_ar_uuid d);
     pad \<leftarrow> get_padding (rr_rw_padding d);
     State_Monad.return \<lparr>rr_sequence_number = sn, rr_ar_uuid = u, rr_api = api,
       rr_slot_number = slot, rr_subslot_number = subslot, rr_padding = [p0, p1],
       rr_index = ix, rr_record_data_length = rl, rr_target_ar_uuid = tu, rr_rw_padding = pad\<rparr>
   }"

definition pf_get_epm_lookup_request :: "pf_rpc_lookup_req \<Rightarrow> pf_rpc_lookup_req getter" where
  "pf_get_epm_lookup_request d = do {
     it \<leftarrow> pf_get_uint32;
     oi \<leftarrow> pf_get_uint32;
     ou \<leftarrow> pf_get_uuid (lk_object_uuid d);
     ii \<leftarrow> pf_get_uint32;
     iu \<leftarrow> pf_get_uuid (lk_interface_uuid d);
     vma \<leftarrow> pf_get_uint16;
     vmi \<leftarrow> pf_get_uint16;
     vo \<leftarrow> pf_get_uint32;
     h \<leftarrow> pf_get_handle (lk_rpc_handle d);
     me \<leftarrow> pf_get_uint32;
     State_Monad.return \<lparr>lk_inquiry_type = it, lk_object_id = oi, lk_object_uuid = ou,
       lk_interface_id = ii, lk_interface_uuid = iu, lk_interface_ver_major = vma,
       lk_interface_ver_minor = vmi, lk_version_option = vo, lk_rpc_handle = h,
       lk_max_entries = me\<rparr>
   }"

definition pf_get_write_request :: "pf_iod_write_request \<Rightarrow> pf_iod_write_request getter" where
  "pf_get_write_request d = do {
     sn \<leftarrow> pf_get_uint16;
     u \<leftarrow> pf_get_uuid (wr_ar_uuid d);
     api \<leftarrow> pf_get_uint32;
     slot \<leftarrow> pf_get_uint16;
     subslot \<leftarrow> pf_get_uint16;
     p0 \<leftarrow> pf_get_byte;
     p1 \<leftarrow> pf_get_byte;
     ix \<leftarrow> pf_get_uint16;
     rl \<leftarrow> pf_get_uint32;
     pad \<leftarrow> get_padding (wr_rw_padding d);
     State_Monad.return \<lparr>wr_sequence_number = sn, wr_ar_uuid = u, wr_api = api,
       wr_slot_number = slot, wr_subslot_number = subslot, wr_padding = [p0, p1],
       wr_index = ix, wr_record_data_length = rl, wr_rw_padding = pad\<rparr>
   }"

definition pf_get_im_1 :: "pnet_im_1 \<Rightarrow> pnet_im_1 getter" where
  "pf_get_im_1 d = do {
     f \<leftarrow> pf_get_mem 32 (im_tag_function d);
     l \<leftarrow> pf_get_mem (PNET_LOCATION_MAX_SIZE - 1) (im_tag_location d);
     State_Monad.return \<lparr>im_tag_function = f[32 := 0],
       im_tag_location = l[PNET_LOCATION_MAX_SIZE - 1 := 0]\<rparr>
   }"

subsection \<open>Alarms\<close>

definition pf_get_alarm_fixed :: "pf_alarm_fixed getter" where
  "pf_get_alarm_fixed = do {
     dr \<leftarrow> pf_get_uint16;
     sr \<leftarrow> pf_get_uint16;
     t \<leftarrow> pf_get_byte;
     f \<leftarrow> pf_get_byte;
     sn \<leftarrow> pf_get_uint16;
     an \<leftarrow> pf_get_uint16;
     State_Monad.return \<lparr>dst_ref = dr, src_ref = sr,
       pdu_type = ucast (pf_get_bits (ucast t) 0 4), pdu_version = ucast (pf_get_bits (ucast t) 4 4),
       window_size = ucast (pf_get_bits (ucast f) 0 4), tack = (pf_get_bits (ucast f) 4 1 \<noteq> 0),
       send_seq_num = sn, ack_seq_nbr = an\<rparr>
   }"

text \<open>The alarm specifier: a sequence number and four diagnosis flags.\<close>

definition with_specifier :: "u16 \<Rightarrow> pf_alarm_data \<Rightarrow> pf_alarm_data" where
  "with_specifier t d = d\<lparr>
     ad_sequence_number := ucast (pf_get_bits (ucast t) 0 11),
     ad_channel_diagnosis := (pf_get_bits (ucast t) 11 1 \<noteq> 0),
     ad_manufacturer_diagnosis := (pf_get_bits (ucast t) 12 1 \<noteq> 0),
     ad_submodule_diagnosis := (pf_get_bits (ucast t) 13 1 \<noteq> 0),
     ad_ar_diagnosis := (pf_get_bits (ucast t) 15 1 \<noteq> 0)\<rparr>"

definition pf_get_alarm_data :: "pf_alarm_data \<Rightarrow> pf_alarm_data getter" where
  "pf_get_alarm_data d = do {
     t \<leftarrow> pf_get_uint16;
     api \<leftarrow> pf_get_uint32;
     slot \<leftarrow> pf_get_uint16;
     subslot \<leftarrow> pf_get_uint16;
     mi \<leftarrow> pf_get_uint32;
     si \<leftarrow> pf_get_uint32;
     sp \<leftarrow> pf_get_uint16;
     State_Monad.return (with_specifier sp (d\<lparr>ad_alarm_type := t, ad_api_id := api,
       ad_slot_nbr := slot, ad_subslot_nbr := subslot, ad_module_ident := mi,
       ad_submodule_ident := ucast si\<rparr>))
   }"

definition pf_get_alarm_ack :: "pf_alarm_data \<Rightarrow> pf_alarm_data getter" where
  "pf_get_alarm_ack d = do {
     t \<leftarrow> pf_get_uint16;
     api \<leftarrow> pf_get_uint32;
     slot \<leftarrow> pf_get_uint16;
     subslot \<leftarrow> pf_get_uint16;
     sp \<leftarrow> pf_get_uint16;
     State_Monad.return (with_specifier sp (d\<lparr>ad_alarm_type := t, ad_api_id := api,
       ad_slot_nbr := slot, ad_subslot_nbr := subslot\<rparr>))
   }"

definition pf_get_pnio_status :: "pnet_pnio_status getter" where
  "pf_get_pnio_status = do {
     c \<leftarrow> pf_get_byte;
     d \<leftarrow> pf_get_byte;
     c1 \<leftarrow> pf_get_byte;
     c2 \<leftarrow> pf_get_byte;
     State_Monad.return \<lparr>error_code = c, error_decode = d, error_code_1 = c1, error_code_2 = c2\<rparr>
   }"

subsection \<open>Port data records\<close>

definition pf_get_port_data_check :: "pf_port_data_check getter" where
  "pf_get_port_data_check = do {
     _ \<leftarrow> pf_get_mem 2 [0, 0, 0, 0];
     slot \<leftarrow> pf_get_uint16;
     subslot \<leftarrow> pf_get_uint16;
     h \<leftarrow> pf_get_block_header;
     State_Monad.return \<lparr>pd_slot_number = slot, pd_subslot_number = subslot, pd_block_header = h\<rparr>
   }"

definition get_check_peer :: "pf_check_peer \<Rightarrow> pf_check_peer getter" where
  "get_check_peer d = do {
     n \<leftarrow> pf_get_byte;
     port \<leftarrow> pf_get_mem (unat n) (peer_port_name d);
     m \<leftarrow> pf_get_byte;
     station \<leftarrow> pf_get_mem (unat m) (peer_station_name d);
     State_Monad.return \<lparr>length_peer_port_name = n, peer_port_name = port[unat n := 0],
       length_peer_station_name = m, peer_station_name = station[unat m := 0]\<rparr>
   }"

definition pf_get_port_data_check_check_peers :: "u8 \<Rightarrow> pf_check_peers \<Rightarrow> pf_check_peers getter" where
  "pf_get_port_data_check_check_peers max_peers d = do {
     n \<leftarrow> pf_get_byte;
     let k = (if n > max_peers then max_peers else n);
     ps \<leftarrow> get_array get_check_peer (unat k) 0 (peers d);
     State_Monad.return \<lparr>number_of_peers = k, peers = ps\<rparr>
   }"

text \<open>\<open>pf_port_data_adjust_t\<close> has the layout of \<open>pf_port_data_check_t\<close>.\<close>

definition pf_get_port_data_adjust :: "pf_port_data_check getter" where
  "pf_get_port_data_adjust = do {
     _ \<leftarrow> pf_get_mem 2 [0, 0, 0, 0];
     slot \<leftarrow> pf_get_uint16;
     subslot \<leftarrow> pf_get_uint16;
     h \<leftarrow> pf_get_block_header;
     State_Monad.return \<lparr>pd_slot_number = slot, pd_subslot_number = subslot, pd_block_header = h\<rparr>
   }"

definition pf_get_port_data_adjust_peer_to_peer_boundary ::
    "pf_adjust_peer_to_peer_boundary getter" where
  "pf_get_port_data_adjust_peer_to_peer_boundary = do {
     _ \<leftarrow> pf_get_mem 2 [0, 0, 0, 0];
     t \<leftarrow> pf_get_uint32;
     props \<leftarrow> pf_get_uint16;
     State_Monad.return \<lparr>do_not_send_LLDP_frames = (pf_get_bits t 0 1 = 1),
       do_not_send_pctp_delay_request_frames = (pf_get_bits t 1 1 = 1),
       do_not_send_path_delay_request_frames = (pf_get_bits t 2 1 = 1),
       adjust_properties = props\<rparr>
   }"

definition pf_get_interface_adjust :: "u32 getter" where
  "pf_get_interface_adjust = do {
     _ \<leftarrow> pf_get_mem 2 [0, 0];
     t \<leftarrow> pf_get_uint32;
     State_Monad.return (pf_get_bits t 0 1)
   }"

subsection \<open>Every getter keeps the cursor inside the buffer\<close>

lemma keeps_cursor_case_option [rdwf_intros]:
  "(\<And>x. keeps_cursor (f x)) \<Longrightarrow> keeps_cursor m \<Longrightarrow> keeps_cursor (case a of None \<Rightarrow> m | Some x \<Rightarrow> f x)"
  by (cases a) simp_all

lemma keeps_cursor_set_byte_order [rdwf_intros]: "keeps_cursor (set_byte_order e)"
  by (simp add: keeps_cursor_def set_byte_order_def cursor_ok_def State_Monad.update_def split: option.split)

lemma keeps_cursor_array [rdwf_intros]: "(\<And>x. keeps_cursor (g x)) \<Longrightarrow> keeps_cursor (get_array g n ix xs)"
  by (induction n arbitrary: ix xs) (auto intro!: rdwf_intros)

lemmas getter_defs =
  pf_get_uuid_def pf_get_handle_def pf_get_frame_descriptor_def pf_get_iocr_api_entry_def
  get_data_descriptor_def pf_get_exp_submodule_def pf_get_block_header_def pf_get_ar_param_def
  get_exp_module_def pf_get_exp_api_module_def
  pf_get_alarm_cr_request_def pf_get_ar_prm_server_request_def pf_get_dfp_iocr_def
  pf_get_ir_info_request_def pf_get_mcr_request_def pf_get_ar_rpc_request_def
  pf_get_ar_vendor_request_def pf_get_control_def get_ndr_def pf_get_ndr_data_req_def
  pf_get_ndr_data_rsp_def pf_get_dce_rpc_header_def get_padding_def pf_get_read_request_def
  pf_get_epm_lookup_request_def pf_get_write_request_def pf_get_im_1_def pf_get_alarm_fixed_def
  pf_get_alarm_data_def pf_get_alarm_ack_def pf_get_pnio_status_def pf_get_port_data_check_def
  get_check_peer_def pf_get_port_data_check_check_peers_def pf_get_port_data_adjust_def
  pf_get_port_data_adjust_peer_to_peer_boundary_def pf_get_interface_adjust_def

lemma keeps_cursor_exp_module: "keeps_cursor (get_exp_module ap)"
  unfolding getter_defs Let_def by (intro rdwf_intros)

lemma keeps_cursor_exp_apis: "keeps_cursor (get_exp_apis n api ei)"
proof (induction n arbitrary: api ei)
  case 0
  show ?case by (simp add: keeps_cursor_return)
next
  case (Suc n)
  then show ?case
    by (auto simp: Let_def split: prod.splits intro!: rdwf_intros keeps_cursor_exp_module)
qed

end
