(* ===== verification/Put_Cursor.thy ===== *)
theory Put_Cursor
  imports Prelude
begin

section \<open>The write cursor of the block writer\<close>

text \<open>
  The functions of \<open>pf_block_writer.c\<close> share an output buffer \<open>p_bytes\<close> of \<open>res_len\<close>
  bytes and a position. A byte that does not fit is dropped without an error; the model
  keeps that. The byte order is an argument, as in the code.
\<close>

record put_cursor =
  res_len :: u16
  p_bytes :: "u8 list option"
  put_pos :: u16

type_synonym 'a putter = "(put_cursor, 'a) state"

subsection \<open>Primitive putters\<close>

definition pf_put_byte :: "u8 \<Rightarrow> unit putter" where
  "pf_put_byte val = State_Monad.update (\<lambda>s.
     if unat (put_pos s) + 1 > unat (res_len s) then s
     else case p_bytes s of
       None \<Rightarrow> s
     | Some b \<Rightarrow> s\<lparr>p_bytes := Some (b[unat (put_pos s) := val]), put_pos := put_pos s + 1\<rparr>)"

definition pf_put_mem :: "u8 list \<Rightarrow> unit putter" where
  "pf_put_mem p_src = State_Monad.update (\<lambda>s.
     if unat (put_pos s) + length p_src > unat (res_len s) then s
     else case p_bytes s of
       None \<Rightarrow> s
     | Some b \<Rightarrow> s\<lparr>p_bytes := Some (overwrite (unat (put_pos s)) p_src b),
                  put_pos := put_pos s + of_nat (length p_src)\<rparr>)"

definition pf_put_uint16 :: "bool \<Rightarrow> u16 \<Rightarrow> unit putter" where
  "pf_put_uint16 is_big_endian val =
     (if is_big_endian then do {
        pf_put_byte (ucast (drop_bit 8 val AND 0xff));
        pf_put_byte (ucast (val AND 0xff))
      } else do {
        pf_put_byte (ucast (val AND 0xff));
        pf_put_byte (ucast (drop_bit 8 val AND 0xff))
      })"

definition pf_put_uint32 :: "bool \<Rightarrow> u32 \<Rightarrow> unit putter" where
  "pf_put_uint32 is_big_endian val =
     (if is_big_endian then do {
        pf_put_byte (ucast (drop_bit 24 val AND 0xff));
        pf_put_byte (ucast (drop_bit 16 val AND 0xff));
        pf_put_byte (ucast (drop_bit 8 val AND 0xff));
        pf_put_byte (ucast (val AND 0xff))
      } else do {
        pf_put_byte (ucast (val AND 0xff));
        pf_put_byte (ucast (drop_bit 8 val AND 0xff));
        pf_put_byte (ucast (drop_bit 16 val AND 0xff));
        pf_put_byte (ucast (drop_bit 24 val AND 0xff))
      })"

primrec pf_put_padding :: "nat \<Rightarrow> unit putter" where
  "pf_put_padding 0 = State_Monad.return ()"
| "pf_put_padding (Suc n) = do { pf_put_byte 0; pf_put_padding n }"

definition get_pos :: "u16 putter" where
  "get_pos = do { s \<leftarrow> State_Monad.get; State_Monad.return (put_pos s) }"

text \<open>
  \<open>n_bytes = (uint16_t)(align - (*p_pos - start_position)) % align\<close>: the difference is
  an \<open>int\<close>, cast to 16 bits before the remainder.
\<close>

definition pf_put_padding_align :: "u16 \<Rightarrow> u16 \<Rightarrow> unit putter" where
  "pf_put_padding_align start_position align = do {
     pos \<leftarrow> get_pos;
     pf_put_padding (unat ((align - (pos - start_position)) mod align))
   }"

text \<open>
  A C string source: the bytes before the first zero byte are its characters. The rest of
  the field, up to the terminator's place, is padded with spaces.
\<close>

definition c_str :: "u8 list \<Rightarrow> u8 list" where
  "c_str src = takeWhile (\<lambda>c. c \<noteq> 0) src"

primrec put_spaces :: "nat \<Rightarrow> unit putter" where
  "put_spaces 0 = State_Monad.return ()"
| "put_spaces (Suc n) = do { pf_put_byte 0x20; put_spaces n }"

definition pf_put_str :: "u8 list \<Rightarrow> nat \<Rightarrow> unit putter" where
  "pf_put_str p_src src_size = do {
     s \<leftarrow> State_Monad.get;
     let str = c_str p_src;
     if unat (put_pos s) + src_size > unat (res_len s) then State_Monad.return ()
     else case p_bytes s of
       None \<Rightarrow> State_Monad.return ()
     | Some b \<Rightarrow> do {
         State_Monad.set (s\<lparr>p_bytes := Some (overwrite (unat (put_pos s)) str b),
                           put_pos := put_pos s + of_nat (length str)\<rparr>);
         put_spaces (src_size - 1 - length str)
       }
   }"

text \<open>Insert the low bits of a value into a bit field.\<close>

definition pf_put_bits :: "u32 \<Rightarrow> nat \<Rightarrow> nat \<Rightarrow> u32 \<Rightarrow> u32" where
  "pf_put_bits val len pos bits = bits OR push_bit pos (val AND (BIT len - 1))"

text \<open>
  Writing at an earlier position: the code passes the address of a local \<open>block_pos\<close>
  instead of \<open>p_pos\<close>, so \<open>p_pos\<close> itself does not move.
\<close>

definition put_at :: "u16 \<Rightarrow> unit putter \<Rightarrow> unit putter" where
  "put_at block_pos m = do {
     s \<leftarrow> State_Monad.get;
     State_Monad.set (s\<lparr>put_pos := block_pos\<rparr>);
     m;
     State_Monad.update (put_pos_update (\<lambda>_. put_pos s))
   }"

subsection \<open>What it means to write bytes\<close>

definition room :: "put_cursor \<Rightarrow> nat \<Rightarrow> bool" where
  "room s n \<longleftrightarrow> unat (put_pos s) + n \<le> unat (res_len s) \<and>
     (case p_bytes s of None \<Rightarrow> False | Some b \<Rightarrow> length b = unat (res_len s))"

definition emit :: "u8 list \<Rightarrow> put_cursor \<Rightarrow> put_cursor" where
  "emit bs s = s\<lparr>p_bytes := map_option (overwrite (unat (put_pos s)) bs) (p_bytes s),
                 put_pos := put_pos s + of_nat (length bs)\<rparr>"

definition writes :: "'a putter \<Rightarrow> u8 list \<Rightarrow> 'a \<Rightarrow> bool" where
  "writes m bs v \<longleftrightarrow> (\<forall>s. room s (length bs) \<longrightarrow> run_state m s = (v, emit bs s))"

lemma writesD: "writes m bs v \<Longrightarrow> room s (length bs) \<Longrightarrow> run_state m s = (v, emit bs s)"
  by (simp add: writes_def)

lemma roomE:
  assumes "room s n"
  obtains b where "p_bytes s = Some b" "length b = unat (res_len s)"
    "unat (put_pos s) + n \<le> unat (res_len s)" "unat (put_pos s + of_nat n) = unat (put_pos s) + n"
proof -
  obtain b where b: "p_bytes s = Some b" "length b = unat (res_len s)"
    "unat (put_pos s) + n \<le> unat (res_len s)"
    using assms by (auto simp: room_def split: option.splits)
  moreover have "unat (put_pos s) + n < 2 ^ LENGTH(16)"
    using b(3) unat_u16_less [of "res_len s"] by (simp del: unat_u16_less)
  ultimately show ?thesis using that unat_add_of_nat by blast
qed

lemma room_mono: "room s n \<Longrightarrow> m \<le> n \<Longrightarrow> room s m"
  by (simp add: room_def split: option.splits)

lemma room_emit:
  assumes "room s (length bs + n)"
  shows "room (emit bs s) n"
proof -
  obtain b where "p_bytes s = Some b" "length b = unat (res_len s)"
    "unat (put_pos s) + (length bs + n) \<le> unat (res_len s)"
    using assms by (elim roomE)
  moreover have "unat (put_pos s + of_nat (length bs)) = unat (put_pos s) + length bs"
    using room_mono [OF assms, of "length bs"] by (auto elim: roomE)
  ultimately show ?thesis by (simp add: room_def emit_def)
qed

lemma emit_append:
  assumes "room s (length (bs @ cs))"
  shows "emit cs (emit bs s) = emit (bs @ cs) s"
proof -
  have r: "room s (length bs)" using assms by (rule room_mono) simp
  obtain b where b: "p_bytes s = Some b" "length b = unat (res_len s)"
    "unat (put_pos s) + length (bs @ cs) \<le> unat (res_len s)"
    using assms by (elim roomE)
  have "unat (put_pos s + of_nat (length bs)) = unat (put_pos s) + length bs"
    using r by (elim roomE)
  then show ?thesis
    using b by (simp add: emit_def overwrite_append add.assoc)
qed

lemma emit_Nil [simp]: "room s n \<Longrightarrow> emit [] s = s"
  by (elim roomE) (simp add: emit_def)

lemma writes_bind [writes_intros]:
  assumes "writes m b v" and "writes (f v) (concat bs) w"
  shows "writes (m \<bind> f) (concat (b # bs)) w"
proof -
  have "run_state (m \<bind> f) s = (w, emit (concat (b # bs)) s)"
    if r: "room s (length (concat (b # bs)))" for s
  proof -
    have "run_state m s = (v, emit b s)"
      using assms(1) r by (intro writesD) (auto elim: room_mono)
    moreover have "run_state (f v) (emit b s) = (w, emit (concat bs) (emit b s))"
      using assms(2) r by (intro writesD room_emit) simp_all
    ultimately show ?thesis using r by (simp add: emit_append)
  qed
  then show ?thesis by (simp add: writes_def)
qed

lemma writes_return [writes_intros]: "writes (State_Monad.return v) (concat []) v"
  by (auto simp: writes_def)

lemma writes_tail [writes_intros]: "writes m b v \<Longrightarrow> writes m (concat [b]) v"
  by simp

lemma writes_cong: "writes m bs v \<Longrightarrow> bs = cs \<Longrightarrow> writes m cs v"
  by simp

subsection \<open>Encodings of the primitive values, written\<close>

text \<open>The same encodings as on the reading side.\<close>

lemma writes_byte [writes_intros]: "writes (pf_put_byte w) (enc8 w) ()"
proof -
  have "run_state (pf_put_byte w) s = ((), emit [w] s)" if "room s 1" for s
    using that
    by (elim roomE) (simp add: pf_put_byte_def State_Monad.update_def emit_def overwrite_one)
  then show ?thesis by (simp add: writes_def enc8_def)
qed

lemma writes_mem [writes_intros]: "writes (pf_put_mem bs) bs ()"
proof -
  have "run_state (pf_put_mem bs) s = ((), emit bs s)" if "room s (length bs)" for s
    using that by (elim roomE) (simp add: pf_put_mem_def State_Monad.update_def emit_def)
  then show ?thesis by (simp add: writes_def)
qed

lemma ucast_low_byte: "ucast (w AND 0xff :: 'a::len word) = (ucast w :: u8)"
proof -
  have m: "(0xff :: 'a word) = mask 8" by (simp add: mask_eq_exp_minus_1)
  show ?thesis unfolding m by (auto intro!: bit_eqI simp: bit_simps dest: bit_imp_le_length)
qed

lemma writes_uint16 [writes_intros]: "writes (pf_put_uint16 e w) (enc16 e w) ()"
proof -
  have "writes (pf_put_uint16 True w) (concat [enc8 (ucast (drop_bit 8 w)), enc8 (ucast w)]) ()"
    "writes (pf_put_uint16 False w) (concat [enc8 (ucast w), enc8 (ucast (drop_bit 8 w))]) ()"
    unfolding pf_put_uint16_def ucast_low_byte if_True if_False by (rule writes_intros)+
  then show ?thesis by (cases e) (simp_all add: enc16_def enc8_def)
qed

lemma writes_uint32 [writes_intros]: "writes (pf_put_uint32 e w) (enc32 e w) ()"
proof -
  have "writes (pf_put_uint32 True w) (concat [enc8 (ucast (drop_bit 24 w)),
      enc8 (ucast (drop_bit 16 w)), enc8 (ucast (drop_bit 8 w)), enc8 (ucast w)]) ()"
    "writes (pf_put_uint32 False w) (concat [enc8 (ucast w), enc8 (ucast (drop_bit 8 w)),
      enc8 (ucast (drop_bit 16 w)), enc8 (ucast (drop_bit 24 w))]) ()"
    unfolding pf_put_uint32_def ucast_low_byte if_True if_False by (rule writes_intros)+
  then show ?thesis by (cases e) (simp_all add: enc32_def enc8_def)
qed

lemma writes_padding [writes_intros]: "writes (pf_put_padding n) (replicate n 0) ()"
proof (induction n)
  case 0
  show ?case using writes_return [of "()"] by simp
next
  case (Suc n)
  have "writes (pf_put_padding (Suc n)) (concat [enc8 0, replicate n 0]) ()"
    unfolding pf_put_padding.simps by (rule writes_intros Suc)+
  then show ?case by (simp add: enc8_def)
qed

lemma writes_spaces [writes_intros]: "writes (put_spaces n) (replicate n 0x20) ()"
proof (induction n)
  case 0
  show ?case using writes_return [of "()"] by simp
next
  case (Suc n)
  have "writes (put_spaces (Suc n)) (concat [enc8 0x20, replicate n 0x20]) ()"
    unfolding put_spaces.simps by (rule writes_intros Suc)+
  then show ?case by (simp add: enc8_def)
qed

lemma writes_get_state:
  "(\<And>s. room s (length bs) \<Longrightarrow> run_state (f s) s = (v, emit bs s)) \<Longrightarrow>
   writes (State_Monad.get \<bind> f) bs v"
  by (simp add: writes_def)

text \<open>
  A string field: the characters up to the terminator, then spaces. It is written when the
  buffer has room for the whole field, terminator included.
\<close>

definition enc_str :: "nat \<Rightarrow> u8 list \<Rightarrow> u8 list" where
  "enc_str n src = c_str src @ replicate (n - 1 - length (c_str src)) 0x20"

lemma length_enc_str: "length (c_str src) < n \<Longrightarrow> length (enc_str n src) = n - 1"
  by (simp add: enc_str_def)

lemma run_put_str:
  assumes "room s n" and "length (c_str src) < n"
  shows "run_state (pf_put_str src n) s = ((), emit (enc_str n src) s)"
proof -
  obtain b where b: "p_bytes s = Some b" "length b = unat (res_len s)"
    "unat (put_pos s) + n \<le> unat (res_len s)"
    using assms(1) by (elim roomE)
  let ?k = "n - 1 - length (c_str src)"
  have r: "room s (length (c_str src) + ?k)"
    using assms by (auto intro: room_mono)
  have emit1: "s\<lparr>p_bytes := Some (overwrite (unat (put_pos s)) (c_str src) b),
      put_pos := put_pos s + of_nat (length (c_str src))\<rparr> = emit (c_str src) s"
    using b(1) by (simp add: emit_def)
  have "run_state (put_spaces ?k) (emit (c_str src) s) =
      ((), emit (replicate ?k 0x20) (emit (c_str src) s))"
    using r by (intro writesD [OF writes_spaces] room_emit) simp
  then show ?thesis
    using b r by (simp add: pf_put_str_def emit1 Let_def enc_str_def emit_append)
qed

subsection \<open>Buffer safety\<close>

text \<open>
  Whatever the size of the buffer: the putter keeps the buffer's length and the cursor
  inside it, never moves the cursor backwards, and leaves every byte before the place
  where it started untouched. Buffers of the last two possible sizes are left out: there
  the place of a block length, \<open>block_pos + 2\<close>, wraps around in 16 bits.
\<close>

definition put_ok :: "put_cursor \<Rightarrow> bool" where
  "put_ok s \<longleftrightarrow> put_pos s \<le> res_len s \<and> unat (res_len s) + 2 < 65536 \<and>
     (case p_bytes s of None \<Rightarrow> True | Some b \<Rightarrow> length b = unat (res_len s))"

definition same_prefix :: "nat \<Rightarrow> put_cursor \<Rightarrow> put_cursor \<Rightarrow> bool" where
  "same_prefix n s s' \<longleftrightarrow> res_len s' = res_len s \<and>
     map_option (take n) (p_bytes s') = map_option (take n) (p_bytes s)"

definition keeps_buffer :: "'a putter \<Rightarrow> bool" where
  "keeps_buffer m \<longleftrightarrow> (\<forall>s. put_ok s \<longrightarrow>
     (let s' = snd (run_state m s) in
       put_ok s' \<and> put_pos s \<le> put_pos s' \<and> same_prefix (unat (put_pos s)) s s'))"

lemma same_prefix_refl [simp]: "same_prefix n s s"
  by (simp add: same_prefix_def)

lemma same_prefix_trans: "same_prefix n s t \<Longrightarrow> same_prefix n t u \<Longrightarrow> same_prefix n s u"
  by (simp add: same_prefix_def)

lemma same_prefix_mono:
  assumes "same_prefix n s t" "m \<le> n"
  shows "same_prefix m s t"
proof -
  have "map_option (take m) x = map_option (take m) (map_option (take n) x)" for x :: "u8 list option"
    using assms(2) by (cases x) (simp_all add: min_absorb1)
  then show ?thesis
    using assms(1) by (metis same_prefix_def)
qed

lemma keeps_bufferD:
  assumes "keeps_buffer m" "put_ok s" "run_state m s = (v, s')"
  shows "put_ok s'" "put_pos s \<le> put_pos s'" "same_prefix (unat (put_pos s)) s s'"
  using assms by (force simp: keeps_buffer_def Let_def)+

lemma keeps_bufferI:
  assumes "\<And>s v t. put_ok s \<Longrightarrow> run_state m s = (v, t) \<Longrightarrow>
    put_ok t \<and> put_pos s \<le> put_pos t \<and> same_prefix (unat (put_pos s)) s t"
  shows "keeps_buffer m"
  unfolding keeps_buffer_def Let_def using assms [OF _ surjective_pairing] by blast

lemma keeps_buffer_return [putwf_intros]: "keeps_buffer (State_Monad.return v)"
  by (simp add: keeps_buffer_def)

lemma keeps_buffer_get [putwf_intros]: "keeps_buffer State_Monad.get"
  by (simp add: keeps_buffer_def)

lemma keeps_buffer_bind [putwf_intros]:
  assumes "keeps_buffer m" and "\<And>x. keeps_buffer (f x)"
  shows "keeps_buffer (m \<bind> f)"
proof -
  have "put_ok t \<and> put_pos s \<le> put_pos t \<and> same_prefix (unat (put_pos s)) s t"
    if s: "put_ok s" and run: "run_state (m \<bind> f) s = (w, t)" for s t w
  proof -
    obtain v u where u: "run_state m s = (v, u)" "run_state (f v) u = (w, t)"
      using run by (cases "run_state m s") auto
    note 1 = keeps_bufferD [OF assms(1) s u(1)]
    note 2 = keeps_bufferD [OF assms(2) 1(1) u(2)]
    have "same_prefix (unat (put_pos s)) u t"
      using 1(2) 2(3) by (auto intro: same_prefix_mono simp: word_le_nat_alt)
    then show ?thesis using 1 2 same_prefix_trans order_trans by blast
  qed
  then show ?thesis by (rule keeps_bufferI)
qed

lemma keeps_buffer_if [putwf_intros]:
  "(c \<Longrightarrow> keeps_buffer m) \<Longrightarrow> (\<not> c \<Longrightarrow> keeps_buffer n) \<Longrightarrow> keeps_buffer (if c then m else n)"
  by simp

lemma keeps_buffer_case_option [putwf_intros]:
  "(\<And>x. keeps_buffer (f x)) \<Longrightarrow> keeps_buffer m \<Longrightarrow> keeps_buffer (case a of None \<Rightarrow> m | Some x \<Rightarrow> f x)"
  by (cases a) simp_all

lemma put_forward:
  fixes p l :: u16
  assumes "unat p + n \<le> unat l"
  shows "p \<le> p + of_nat n" "p + of_nat n \<le> l"
proof -
  have "unat p + n < 2 ^ LENGTH(16)"
    using assms unat_u16_less [of l] by (simp del: unat_u16_less)
  from unat_add_of_nat [OF this] assms show "p \<le> p + of_nat n" "p + of_nat n \<le> l"
    by (simp_all add: word_le_nat_alt)
qed

text \<open>Storing bytes that fit at the cursor.\<close>

lemma put_ok_store:
  assumes "put_ok s" "p_bytes s = Some b" "unat (put_pos s) + length xs \<le> unat (res_len s)"
  shows "put_ok (s\<lparr>p_bytes := Some (overwrite (unat (put_pos s)) xs b),
           put_pos := put_pos s + of_nat (length xs)\<rparr>)"
    and "same_prefix (unat (put_pos s)) s (s\<lparr>p_bytes := Some (overwrite (unat (put_pos s)) xs b),
           put_pos := put_pos s + of_nat (length xs)\<rparr>)"
  using assms put_forward [OF assms(3)] by (simp_all add: put_ok_def same_prefix_def)

lemma keeps_buffer_mem [putwf_intros]: "keeps_buffer (pf_put_mem xs)"
  by (auto simp: keeps_buffer_def pf_put_mem_def State_Monad.update_def not_less put_forward
      put_ok_store split: option.split)

lemma keeps_buffer_byte [putwf_intros]: "keeps_buffer (pf_put_byte v)"
proof -
  have "run_state (pf_put_byte v) s = run_state (pf_put_mem [v]) s" if "put_ok s" for s
    using that
    by (auto simp: pf_put_byte_def pf_put_mem_def State_Monad.update_def overwrite_one put_ok_def
        split: option.splits)
  then show ?thesis using keeps_buffer_mem [of "[v]"] by (simp add: keeps_buffer_def)
qed

lemma keeps_buffer_uint16 [putwf_intros]: "keeps_buffer (pf_put_uint16 e v)"
  unfolding pf_put_uint16_def by (intro putwf_intros)

lemma keeps_buffer_uint32 [putwf_intros]: "keeps_buffer (pf_put_uint32 e v)"
  unfolding pf_put_uint32_def by (intro putwf_intros)

lemma keeps_buffer_padding [putwf_intros]: "keeps_buffer (pf_put_padding n)"
  by (induction n) (auto intro: putwf_intros)

lemma keeps_buffer_spaces [putwf_intros]: "keeps_buffer (put_spaces n)"
  by (induction n) (auto intro: putwf_intros)

lemma keeps_buffer_get_pos [putwf_intros]: "keeps_buffer get_pos"
  unfolding get_pos_def by (intro putwf_intros)

lemma keeps_buffer_padding_align [putwf_intros]: "keeps_buffer (pf_put_padding_align a n)"
  unfolding pf_put_padding_align_def by (intro putwf_intros)

lemma keeps_buffer_str [putwf_intros]:
  assumes "length (c_str src) \<le> n"
  shows "keeps_buffer (pf_put_str src n)"
proof -
  let ?k = "n - 1 - length (c_str src)"
  have eq: "run_state (pf_put_str src n) s =
      (if unat (put_pos s) + n > unat (res_len s) then ((), s)
       else run_state (pf_put_mem (c_str src) \<bind> (\<lambda>_. if p_bytes s = None then State_Monad.return () else put_spaces ?k)) s)" for s
    using assms by (auto simp: pf_put_str_def pf_put_mem_def State_Monad.update_def Let_def split: option.split)
  have "keeps_buffer (pf_put_mem (c_str src) \<bind> (\<lambda>_. if b then State_Monad.return () else put_spaces ?k))" for b
    by (intro putwf_intros)
  then show ?thesis by (simp add: keeps_buffer_def Let_def eq)
qed

text \<open>Writing at an earlier place that still lies behind the start is safe.\<close>

lemma put_at_safe:
  assumes m: "keeps_buffer m" and s: "put_ok s" and bp: "bp \<le> res_len s"
    and run: "run_state (put_at bp m) s = (v, t)"
  shows "put_ok t" "put_pos t = put_pos s" "same_prefix (unat bp) s t"
proof -
  let ?s1 = "s\<lparr>put_pos := bp\<rparr>"
  obtain u w where u: "run_state m ?s1 = (w, u)" by (cases "run_state m ?s1")
  have s1: "put_ok ?s1" using s bp by (simp add: put_ok_def split: option.splits)
  have t: "t = u\<lparr>put_pos := put_pos s\<rparr>"
    using run by (simp add: put_at_def State_Monad.update_def u)
  note k = keeps_bufferD [OF m s1 u]
  have same: "res_len u = res_len s" using k(3) by (simp add: same_prefix_def)
  show "put_ok t" using k(1) s same t by (simp add: put_ok_def split: option.splits)
  show "put_pos t = put_pos s" using t by simp
  show "same_prefix (unat bp) s t" using k(3) t by (simp add: same_prefix_def)
qed

lemma put_at_beyond:
  assumes "res_len s \<le> bp"
  shows "run_state (put_at bp (pf_put_uint16 e v)) s = ((), s)"
proof -
  have noop: "run_state (pf_put_byte w) t = ((), t)" if "res_len t \<le> put_pos t" for w t
    using that by (simp add: pf_put_byte_def State_Monad.update_def word_le_nat_alt)
  show ?thesis
    using assms by (simp add: put_at_def pf_put_uint16_def noop State_Monad.update_def)
qed

lemma put_uint16_at_safe:
  assumes "put_ok s" "run_state (put_at bp (pf_put_uint16 e v)) s = (w, t)"
  shows "put_ok t" "put_pos t = put_pos s" "same_prefix (unat bp) s t"
proof -
  have "put_ok t \<and> put_pos t = put_pos s \<and> same_prefix (unat bp) s t"
  proof (cases "res_len s \<le> bp")
    case True
    with assms show ?thesis by (simp add: put_at_beyond)
  next
    case False
    then have "bp \<le> res_len s" by simp
    from put_at_safe [OF keeps_buffer_uint16 assms(1) this assms(2)] show ?thesis by blast
  qed
  then show "put_ok t" "put_pos t = put_pos s" "same_prefix (unat bp) s t" by blast+
qed

subsection \<open>Bit fields\<close>

lemma pf_put_bits_bit:
  "bit (pf_put_bits v n pos b) i \<longleftrightarrow> bit b i \<or> (i < 32 \<and> pos \<le> i \<and> i - pos < n \<and> bit v (i - pos))"
  by (auto simp: pf_put_bits_def bit_simps simp flip: mask_eq_exp_minus_1 dest: bit_imp_le_length)

end
