(* ===== verification/Block_Writer.thy ===== *)
theory Block_Writer
  imports Put_Cursor Block_Types
begin

section \<open>The block writer\<close>

text \<open>
  The functions of \<open>pf_block_writer.c\<close> that write connect, control, record-data and alarm
  structures. Most of them write a block: a header with a preliminary length, the body, and
  then the length over the header, at \<open>block_pos\<close>. This pattern, which the C code repeats
  in every function, is \<open>pf_put_block\<close> here.
\<close>

definition pf_put_block_header :: "bool \<Rightarrow> u16 \<Rightarrow> u16 \<Rightarrow> u8 \<Rightarrow> u8 \<Rightarrow> unit putter" where
  "pf_put_block_header e bh_type bh_length bh_ver_high bh_ver_low = do {
     pf_put_uint16 e bh_type;
     pf_put_uint16 e (bh_length + 6 - 4);
     pf_put_byte bh_ver_high;
     pf_put_byte bh_ver_low
   }"

definition pf_put_block :: "bool \<Rightarrow> u16 \<Rightarrow> 'a putter \<Rightarrow> 'a putter" where
  "pf_put_block e bh_type body = do {
     block_pos \<leftarrow> get_pos;
     pf_put_block_header e bh_type 0 PNET_BLOCK_VERSION_HIGH PNET_BLOCK_VERSION_LOW;
     r \<leftarrow> body;
     pos \<leftarrow> get_pos;
     put_at (block_pos + 2) (pf_put_uint16 e (pos - (block_pos + 4)));
     State_Monad.return r
   }"

subsection \<open>Common parts\<close>

definition pf_put_uuid :: "bool \<Rightarrow> pf_uuid \<Rightarrow> unit putter" where
  "pf_put_uuid e u = do {
     pf_put_uint32 e (data1 u);
     pf_put_uint16 e (data2 u);
     pf_put_uint16 e (data3 u);
     pf_put_mem (data4 u)
   }"

definition pf_put_rpc_uuid :: "bool \<Rightarrow> pf_rpc_uuid_type \<Rightarrow> unit putter" where
  "pf_put_rpc_uuid e u = do {
     pf_put_uint32 e (time_low u);
     pf_put_uint16 e (time_mid u);
     pf_put_uint16 e (time_hi_and_version u);
     pf_put_byte (clock_hi_and_reserved u);
     pf_put_byte (clock_low u);
     pf_put_mem (node u)
   }"

definition pf_put_rpc_handle :: "bool \<Rightarrow> pf_rpc_handle \<Rightarrow> unit putter" where
  "pf_put_rpc_handle e h = do {
     pf_put_uint32 e (rpc_entry_handle h);
     pf_put_rpc_uuid e (handle_uuid h)
   }"

text \<open>\<open>sec_lo\<close> is a \<open>uint32_t\<close>, passed as the \<open>uint16_t\<close> argument of \<open>pf_put_uint16\<close>.\<close>

definition pf_put_time_timestamp :: "bool \<Rightarrow> pf_log_book_ts \<Rightarrow> unit putter" where
  "pf_put_time_timestamp e t = do {
     pf_put_uint16 e (ts_sec_hi t);
     pf_put_uint16 e (ucast (ts_sec_lo t));
     pf_put_uint32 e (ts_nano_sec t)
   }"

text \<open>\<open>0x01000000u * error_code + 0x10000u * error_decode + 0x100u * error_code_1 + error_code_2\<close>\<close>

definition pnio_result :: "pnet_pnio_status \<Rightarrow> u32" where
  "pnio_result s = 0x01000000 * ucast (error_code s) + 0x10000 * ucast (error_decode s)
     + 0x100 * ucast (error_code_1 s) + ucast (error_code_2 s)"

definition pf_put_pnet_status :: "bool \<Rightarrow> pnet_pnio_status \<Rightarrow> unit putter" where
  "pf_put_pnet_status e s = pf_put_uint32 e (pnio_result s)"

subsection \<open>Connect results\<close>

definition pf_put_ar_result :: "bool \<Rightarrow> pf_ar_param \<Rightarrow> pf_ar_result \<Rightarrow> unit putter" where
  "pf_put_ar_result e par res = pf_put_block e PF_BT_AR_BLOCK_RES (do {
     pf_put_uint16 e (ar_type par);
     pf_put_uuid e (ar_uuid par);
     pf_put_uint16 e (session_key par);
     pf_put_mem (cm_responder_mac_add res);
     pf_put_uint16 e (responder_udp_rt_port res)
   })"

definition pf_put_iocr_result :: "bool \<Rightarrow> pf_iocr_result \<Rightarrow> unit putter" where
  "pf_put_iocr_result e r = pf_put_block e PF_BT_IOCR_BLOCK_RES (do {
     pf_put_uint16 e (res_iocr_type r);
     pf_put_uint16 e (res_iocr_reference r);
     pf_put_uint16 e (res_frame_id r)
   })"

definition pf_put_alarm_cr_result :: "bool \<Rightarrow> pf_alarm_cr_result \<Rightarrow> unit putter" where
  "pf_put_alarm_cr_result e r = pf_put_block e PF_BT_ALARM_CR_BLOCK_RES (do {
     pf_put_uint16 e (acres_alarm_cr_type r);
     pf_put_uint16 e (acres_local_alarm_reference r);
     pf_put_uint16 e (acres_max_alarm_data_length r)
   })"

definition PF_IDENT_INFO_NO :: u8 where "PF_IDENT_INFO_NO = 3"
definition PF_MODULE_STATE_NO_MODULE :: u16 where "PF_MODULE_STATE_NO_MODULE = 0"

definition put_flag :: "bool \<Rightarrow> nat \<Rightarrow> u32 \<Rightarrow> u32" where
  "put_flag b = pf_put_bits (if b then 1 else 0) 1"

definition submodule_state_bits :: "pf_submodule_state \<Rightarrow> u32" where
  "submodule_state_bits s =
     (put_flag (ss_format_indicator s) 15
     (pf_put_bits (ucast (ss_ident_info s)) 4 11
     (pf_put_bits (ucast (ss_ar_info s)) 4 7
     (put_flag (ss_fault s) 6
     (put_flag (ss_maintenance_demanded s) 5
     (put_flag (ss_maintenance_required s) 4
     (put_flag (ss_advice_avail s) 3
     (pf_put_bits (ucast (ss_add_info s)) 3 0 0))))))))"

definition pf_put_submodule_diff :: "bool \<Rightarrow> pf_exp_submodule \<Rightarrow> unit putter" where
  "pf_put_submodule_diff e sub = do {
     pf_put_uint16 e (es_subslot_number sub);
     pf_put_uint32 e (if ss_ident_info (es_state sub) = PF_IDENT_INFO_NO then 0 else es_ident_number sub);
     pf_put_uint16 e (ucast (submodule_state_bits (es_state sub)))
   }"

primrec put_all :: "('a \<Rightarrow> unit putter) \<Rightarrow> 'a list \<Rightarrow> unit putter" where
  "put_all f [] = State_Monad.return ()"
| "put_all f (x # xs) = do { f x; put_all f xs }"

text \<open>The elements a loop visits: the first \<open>n\<close> indices, each an index into an array.\<close>

definition select :: "'a list \<Rightarrow> u16 list \<Rightarrow> u16 \<Rightarrow> 'a list" where
  "select xs is n = map (\<lambda>i. xs ! unat (is ! i)) [0 ..< unat n]"

definition pf_put_module_diff :: "bool \<Rightarrow> pf_exp_module \<Rightarrow> unit putter" where
  "pf_put_module_diff e m = do {
     pf_put_uint16 e (em_slot_number m);
     pf_put_uint32 e (if em_state m = PF_MODULE_STATE_NO_MODULE then 0 else em_ident_number m);
     pf_put_uint16 e (em_state m);
     (if em_state m = PF_MODULE_STATE_NO_MODULE then pf_put_uint32 e 0
      else do {
        pf_put_uint16 e (em_nbr_diff_submodules m);
        put_all (pf_put_submodule_diff e)
          (select (em_submodule m) (em_diff_submodule m) (em_nbr_diff_submodules m))
      })
   }"

definition pf_put_api_diff :: "bool \<Rightarrow> pf_exp_api \<Rightarrow> unit putter" where
  "pf_put_api_diff e a = do {
     pf_put_uint32 e (ea_api a);
     pf_put_uint16 e (ea_nbr_diff_modules a);
     put_all (pf_put_module_diff e) (select (ea_module a) (ea_diff_module a) (ea_nbr_diff_modules a))
   }"

text \<open>\<open>None\<close> is the NULL pointer \<open>p_ar\<close>.\<close>

definition pf_put_ar_diff :: "bool \<Rightarrow> pf_exp_ident option \<Rightarrow> unit putter" where
  "pf_put_ar_diff e ar = (case ar of
     None \<Rightarrow> State_Monad.return ()
   | Some ident \<Rightarrow>
       if ei_nbr_diff_apis ident > 0 then pf_put_block e PF_BT_MODULE_DIFF_BLOCK (do {
         pf_put_uint16 e (ei_nbr_diff_apis ident);
         put_all (pf_put_api_diff e) (select (ei_api ident) (ei_diff_api ident) (ei_nbr_diff_apis ident))
       })
       else State_Monad.return ())"

definition pf_put_ar_rpc_result :: "bool \<Rightarrow> u16 \<Rightarrow> unit putter" where
  "pf_put_ar_rpc_result e responder_rpc_server_port =
     pf_put_block e PF_BT_AR_RPC_BLOCK_RES (pf_put_uint16 e responder_rpc_server_port)"

text \<open>Two functions align the end of the block before they insert the length.\<close>

definition pf_put_block_aligned :: "bool \<Rightarrow> u16 \<Rightarrow> unit putter \<Rightarrow> unit putter" where
  "pf_put_block_aligned e bh_type body = do {
     block_pos \<leftarrow> get_pos;
     pf_put_block e bh_type (do { body; pf_put_padding_align block_pos 4 })
   }"

definition pf_put_ar_server_result :: "bool \<Rightarrow> pf_ar_server \<Rightarrow> unit putter" where
  "pf_put_ar_server_result e r = pf_put_block_aligned e PF_BT_AR_SERVER_BLOCK (do {
     pf_put_uint16 e (length_cm_responder_station_name r);
     pf_put_mem (take (unat (length_cm_responder_station_name r)) (cm_responder_station_name r))
   })"

definition pf_put_ar_vendor_result ::
    "bool \<Rightarrow> pf_ar_vendor_request \<Rightarrow> pf_ar_vendor_result \<Rightarrow> unit putter" where
  "pf_put_ar_vendor_result e rq rs = pf_put_block_aligned e PF_BT_AR_VENDOR_BLOCK_RES (do {
     pf_put_uint32 e (vr_ap_structure_identifier rq);
     pf_put_uint32 e (vr_api rq);
     pf_put_uint16 e (length_data_response rs);
     pf_put_mem (take (unat (length_data_response rs)) (data_response rs))
   })"

subsection \<open>Control, RPC and record data\<close>

definition pf_put_control :: "bool \<Rightarrow> u16 \<Rightarrow> pf_control_block \<Rightarrow> unit putter" where
  "pf_put_control e bt r = pf_put_block e bt (do {
     pf_put_byte 0;
     pf_put_byte 0;
     pf_put_uuid e (cb_ar_uuid r);
     pf_put_uint16 e (cb_session_key r);
     pf_put_uint16 e (cb_alarm_sequence_number r);
     pf_put_uint16 e (cb_control_command r);
     pf_put_uint16 e (cb_control_block_properties r)
   })"

definition rpc_flag_bits :: "pf_rpc_flags \<Rightarrow> u32" where
  "rpc_flag_bits f =
     put_flag (broadcast f) 6 (put_flag (idempotent f) 5 (put_flag (maybe f) 4
     (put_flag (no_fack f) 3 (put_flag (fragment f) 2 (put_flag (last_fragment f) 1 0)))))"

text \<open>The result is \<open>*p_pos_body_len\<close>, the place of the body length.\<close>

definition pf_put_dce_rpc_header :: "pf_rpc_header \<Rightarrow> u16 putter" where
  "pf_put_dce_rpc_header r = (let e = rpc_is_big_endian r in do {
     pf_put_byte (rpc_version r);
     pf_put_byte (rpc_packet_type r);
     pf_put_byte (ucast (rpc_flag_bits (rpc_flags r) mod 0x100));
     pf_put_byte 0;
     pf_put_byte (ucast (pf_put_bits (if e then 0 else 1) 4 4 0 mod 0x100));
     pf_put_byte (rpc_float_repr r);
     pf_put_byte (rpc_reserved r);
     pf_put_byte (rpc_serial_high r);
     pf_put_uuid e (rpc_object_uuid r);
     pf_put_uuid e (rpc_interface_uuid r);
     pf_put_uuid e (rpc_activity_uuid r);
     pf_put_uint32 e (rpc_server_boot_time r);
     pf_put_uint32 e (rpc_interface_version r);
     pf_put_uint32 e (rpc_sequence_nmb r);
     pf_put_uint16 e (rpc_opnum r);
     pf_put_uint16 e (rpc_interface_hint r);
     pf_put_uint16 e (rpc_activity_hint r);
     body_len_pos \<leftarrow> get_pos;
     pf_put_uint16 e (rpc_length_of_body r);
     pf_put_uint16 e (rpc_fragment_nmb r);
     pf_put_byte (rpc_auth_protocol r);
     pf_put_byte (rpc_serial_low r);
     State_Monad.return body_len_pos
   })"

definition pf_put_record_data_read :: "bool \<Rightarrow> u16 \<Rightarrow> u8 list \<Rightarrow> unit putter" where
  "pf_put_record_data_read e bt raw = pf_put_block e bt (pf_put_mem raw)"

text \<open>The result is \<open>*p_data_length_pos\<close>, where the caller inserts the data length later.\<close>

definition pf_put_read_result :: "bool \<Rightarrow> pf_iod_read_result \<Rightarrow> u16 putter" where
  "pf_put_read_result e r = pf_put_block e PF_BT_READ_RES (do {
     pf_put_uint16 e (rs_sequence_number r);
     pf_put_uuid e (rs_ar_uuid r);
     pf_put_uint32 e (rs_api r);
     pf_put_uint16 e (rs_slot_number r);
     pf_put_uint16 e (rs_subslot_number r);
     pf_put_byte 0;
     pf_put_byte 0;
     pf_put_uint16 e (rs_index r);
     data_length_pos \<leftarrow> get_pos;
     pf_put_uint32 e (rs_record_data_length r);
     pf_put_uint16 e (rs_add_data_1 r);
     pf_put_uint16 e (rs_add_data_2 r);
     pf_put_padding 20;
     State_Monad.return data_length_pos
   })"

definition pf_put_im_1 :: "bool \<Rightarrow> pnet_im_1 \<Rightarrow> unit putter" where
  "pf_put_im_1 e im = pf_put_block e PF_BT_IM_1 (do {
     pf_put_str (im_tag_function im) 33;
     pf_put_str (im_tag_location im) PNET_LOCATION_MAX_SIZE
   })"

definition pf_put_im_2 :: "bool \<Rightarrow> u8 list \<Rightarrow> unit putter" where
  "pf_put_im_2 e im_date = pf_put_block e PF_BT_IM_2 (pf_put_str im_date 17)"

definition pf_put_im_3 :: "bool \<Rightarrow> u8 list \<Rightarrow> unit putter" where
  "pf_put_im_3 e im_descriptor = pf_put_block e PF_BT_IM_3 (pf_put_str im_descriptor 55)"

definition pf_put_record_data_write :: "bool \<Rightarrow> u16 \<Rightarrow> u8 list \<Rightarrow> unit putter" where
  "pf_put_record_data_write e bt raw = pf_put_block e bt (pf_put_mem raw)"

definition pf_put_write_result :: "bool \<Rightarrow> pf_iod_write_result \<Rightarrow> unit putter" where
  "pf_put_write_result e r = pf_put_block e PF_BT_WRITE_RES (do {
     pf_put_uint16 e (rs_sequence_number r);
     pf_put_uuid e (rs_ar_uuid r);
     pf_put_uint32 e (rs_api r);
     pf_put_uint16 e (rs_slot_number r);
     pf_put_uint16 e (rs_subslot_number r);
     pf_put_byte 0;
     pf_put_byte 0;
     pf_put_uint16 e (rs_index r);
     pf_put_uint32 e (rs_record_data_length r);
     pf_put_uint16 e (rs_add_data_1 r);
     pf_put_uint16 e (rs_add_data_2 r);
     pf_put_pnet_status e (ws_pnio_status r);
     pf_put_padding 16
   })"

subsection \<open>Alarms and port data\<close>

definition pf_put_alarm_fixed :: "bool \<Rightarrow> pf_alarm_fixed \<Rightarrow> unit putter" where
  "pf_put_alarm_fixed e a = do {
     pf_put_uint16 e (dst_ref a);
     pf_put_uint16 e (src_ref a);
     pf_put_byte (ucast (pf_put_bits (ucast (pdu_version a)) 4 4
       (pf_put_bits (ucast (pdu_type a)) 4 0 0)));
     pf_put_byte (ucast (put_flag (tack a) 4 (pf_put_bits (ucast (window_size a)) 4 0 0)));
     pf_put_uint16 e (send_seq_num a);
     pf_put_uint16 e (ack_seq_nbr a)
   }"

definition pf_put_maint_status :: "bool \<Rightarrow> u32 \<Rightarrow> unit putter" where
  "pf_put_maint_status e maint_status = do {
     pf_put_uint16 e PF_USI_MAINTENANCE;
     pf_put_block e PF_BT_MAINTENANCE_ITEM (do {
       pf_put_byte 0;
       pf_put_byte 0;
       pf_put_uint32 e maint_status
     })
   }"

definition boundary_bits :: "pf_adjust_peer_to_peer_boundary \<Rightarrow> u32" where
  "boundary_bits b = put_flag (do_not_send_path_delay_request_frames b) 2
     (put_flag (do_not_send_pctp_delay_request_frames b) 1
     (put_flag (do_not_send_LLDP_frames b) 0 0))"

definition pf_put_peer_to_peer_boundary ::
    "bool \<Rightarrow> pf_adjust_peer_to_peer_boundary \<Rightarrow> unit putter" where
  "pf_put_peer_to_peer_boundary e b = pf_put_block e PF_BT_PEER_TO_PEER_BOUNDARY (do {
     pf_put_padding 2;
     pf_put_uint32 e (boundary_bits b);
     pf_put_uint16 e (adjust_properties b);
     pf_put_padding 2
   })"

end
