(* ===== verification/Block_Codec.thy ===== *)
theory Block_Codec
  imports Block_Reader Block_Writer
begin

section \<open>Reading back what the writer wrote\<close>

text \<open>
  The encodings of the structures, the laws of the block combinator, and the interface
  \<open>wire_format\<close>: a putter and a getter that agree on an encoding. Its interpretations on
  the code's own functions give the round trips.
\<close>

subsection \<open>Blocks\<close>

definition enc_block :: "bool \<Rightarrow> u16 \<Rightarrow> u8 list \<Rightarrow> u8 list" where
  "enc_block e t body = concat [enc16 e t, enc16 e (of_nat (length body + 2)),
     enc8 PNET_BLOCK_VERSION_HIGH, enc8 PNET_BLOCK_VERSION_LOW] @ body"

lemma length_enc_block [simp]: "length (enc_block e t body) = 6 + length body"
  by (simp add: enc_block_def)

lemma overwrite_inner:
  assumes "length x = length y" "p + length (a @ x @ c) \<le> length b"
  shows "overwrite (p + length a) y (overwrite p (a @ x @ c) b) = overwrite p (a @ y @ c) b"
proof (rule nth_equalityI)
  show "length (overwrite (p + length a) y (overwrite p (a @ x @ c) b)) = length (overwrite p (a @ y @ c) b)"
    using assms by (simp add: overwrite_def)
  fix i assume "i < length (overwrite (p + length a) y (overwrite p (a @ x @ c) b))"
  then have "i < length b" using assms by simp
  then show "overwrite (p + length a) y (overwrite p (a @ x @ c) b) ! i = overwrite p (a @ y @ c) b ! i"
    using assms by (auto simp: nth_overwrite nth_append)
qed

lemma writes_block_header [writes_intros]:
  "writes (pf_put_block_header e t n vh vl) (concat [enc16 e t, enc16 e (n + 6 - 4), enc8 vh, enc8 vl]) ()"
  unfolding pf_put_block_header_def by (rule writes_intros)+

lemma run_get_pos [simp]: "run_state get_pos s = (put_pos s, s)"
  by (simp add: get_pos_def)

lemma emit_simps:
  "p_bytes s = Some b \<Longrightarrow> p_bytes (emit bs s) = Some (overwrite (unat (put_pos s)) bs b)"
  "res_len (emit bs s) = res_len s" "put_pos (emit bs s) = put_pos s + of_nat (length bs)"
  by (simp_all add: emit_def)

lemma run_put_at:
  assumes m: "writes m y ()" and r: "room s (length (a @ x @ c))" and l: "length y = length x"
  shows "run_state (put_at (put_pos s + of_nat (length a)) m) (emit (a @ x @ c) s) =
    ((), emit (a @ y @ c) s)"
proof -
  obtain b where b: "p_bytes s = Some b" "length b = unat (res_len s)"
    "unat (put_pos s) + length (a @ x @ c) \<le> unat (res_len s)"
    using r by (elim roomE)
  have pos: "unat (put_pos s + of_nat (length a)) = unat (put_pos s) + length a"
    using room_mono [OF r, of "length a"] by (auto elim: roomE)
  let ?s1 = "(emit (a @ x @ c) s)\<lparr>put_pos := put_pos s + of_nat (length a)\<rparr>"
  have "room ?s1 (length y)"
    using b pos l by (simp add: room_def emit_simps)
  then have "run_state m ?s1 = ((), emit y ?s1)" using m by (intro writesD)
  moreover have "overwrite (unat (put_pos s) + length a) y (overwrite (unat (put_pos s)) (a @ x @ c) b) =
      overwrite (unat (put_pos s)) (a @ y @ c) b"
    using b l by (intro overwrite_inner) simp_all
  ultimately show ?thesis
    using b pos l by (simp add: put_at_def State_Monad.update_def emit_def)
qed

text \<open>
  The block combinator writes the header with the length of the body in it, although the
  length is only known, and patched in, at the end.
\<close>

abbreviation (input) prov_header :: "bool \<Rightarrow> u16 \<Rightarrow> u8 list" where
  "prov_header e t \<equiv> enc16 e t @ enc16 e 2 @ [PNET_BLOCK_VERSION_HIGH, PNET_BLOCK_VERSION_LOW]"

lemma run_block:
  assumes r: "room s (length (enc_block e t bs))"
    and body: "run_state body (emit (prov_header e t) s) = (v, emit bs (emit (prov_header e t) s))"
  shows "run_state (pf_put_block e t body) s = (v, emit (enc_block e t bs) s)"
proof -
  let ?v = "[PNET_BLOCK_VERSION_HIGH, PNET_BLOCK_VERSION_LOW]"
  let ?h = "enc16 e t @ enc16 e 2 @ ?v"
  have r': "room s (length (?h @ bs))" using r by (simp add: numeral_eq_Suc)
  have "room s (length (concat [enc16 e t, enc16 e (0 + 6 - 4), enc8 PNET_BLOCK_VERSION_HIGH,
      enc8 PNET_BLOCK_VERSION_LOW]))"
    using r by (rule room_mono) simp
  from writesD [OF writes_block_header this]
  have h: "run_state (pf_put_block_header e t 0 PNET_BLOCK_VERSION_HIGH PNET_BLOCK_VERSION_LOW) s
      = ((), emit ?h s)"
    by (simp add: enc8_def)
  have "run_state (put_at (put_pos s + of_nat (length (enc16 e t))) (pf_put_uint16 e (of_nat (length bs + 2))))
      (emit (enc16 e t @ enc16 e 2 @ ?v @ bs) s) =
      ((), emit (enc16 e t @ enc16 e (of_nat (length bs + 2)) @ ?v @ bs) s)"
    using r' by (intro run_put_at writes_uint16) simp_all
  moreover have "emit bs (emit ?h s) = emit (enc16 e t @ enc16 e 2 @ ?v @ bs) s"
    using emit_append [OF r'] by simp
  ultimately show ?thesis
    using h body by (simp add: pf_put_block_def enc_block_def enc8_def emit_simps)
qed

lemma writes_block [writes_intros]:
  assumes "writes body bs v"
  shows "writes (pf_put_block e t body) (enc_block e t bs) v"
proof -
  have "run_state (pf_put_block e t body) s = (v, emit (enc_block e t bs) s)"
    if r: "room s (length (enc_block e t bs))" for s
  proof (rule run_block [OF r])
    show "run_state body (emit (prov_header e t) s) = (v, emit bs (emit (prov_header e t) s))"
      using assms r by (intro writesD room_emit) (simp_all add: numeral_eq_Suc)
  qed
  then show ?thesis by (simp add: writes_def)
qed

text \<open>An aligned block: zero bytes fill its length, header included, to a multiple of four.\<close>

definition enc_pad :: "u8 list \<Rightarrow> u8 list" where
  "enc_pad bs = replicate (unat ((4 - (of_nat (length bs) + 6)) mod 4 :: u16)) 0"

lemma writes_block_aligned [writes_intros]:
  assumes "writes body bs ()"
  shows "writes (pf_put_block_aligned e t body) (enc_block e t (bs @ enc_pad bs)) ()"
proof -
  have "run_state (pf_put_block_aligned e t body) s = ((), emit (enc_block e t (bs @ enc_pad bs)) s)"
    if r: "room s (length (enc_block e t (bs @ enc_pad bs)))" for s
  proof -
    let ?u = "emit (prov_header e t) s"
    have u: "room ?u (length (bs @ enc_pad bs))"
      using r by (intro room_emit) (simp add: numeral_eq_Suc)
    have "run_state body ?u = ((), emit bs ?u)"
      using assms u by (auto intro!: writesD elim: room_mono)
    moreover have "put_pos s + 6 + of_nat (length bs) - put_pos s = of_nat (length bs) + (6 :: u16)"
      by simp
    then have "(4 - (put_pos s + 6 + of_nat (length bs) - put_pos s)) mod 4 =
        (4 - (of_nat (length bs) + 6)) mod (4 :: u16)"
      by (simp only:)
    moreover have "run_state (pf_put_padding (length (enc_pad bs))) (emit bs ?u) =
        ((), emit (enc_pad bs) (emit bs ?u))"
    proof (rule writesD)
      show "writes (pf_put_padding (length (enc_pad bs))) (enc_pad bs) ()"
        using writes_padding by (simp add: enc_pad_def)
      show "room (emit bs ?u) (length (enc_pad bs))" by (rule room_emit) (use u in simp)
    qed
    ultimately have "run_state (body \<bind> (\<lambda>_. pf_put_padding_align (put_pos s) 4)) ?u =
        ((), emit (bs @ enc_pad bs) ?u)"
      using u by (simp add: pf_put_padding_align_def emit_simps emit_append enc_pad_def add.assoc
          del: add_diff_cancel_left')
    from run_block [OF r this] show ?thesis
      by (simp add: pf_put_block_aligned_def)
  qed
  then show ?thesis by (simp add: writes_def)
qed

lemma keeps_buffer_block_header [putwf_intros]: "keeps_buffer (pf_put_block_header e t n vh vl)"
  unfolding pf_put_block_header_def by (intro putwf_intros)

text \<open>
  Also in a buffer that is too small a block stays inside the buffer and behind its own
  start: the length goes to \<open>block_pos + 2\<close>, which is not before the block.
\<close>

lemma keeps_buffer_block [putwf_intros]:
  assumes body: "keeps_buffer body"
  shows "keeps_buffer (pf_put_block e t body)"
proof (rule keeps_bufferI)
  fix s v t' assume s: "put_ok s" and run: "run_state (pf_put_block e t body) s = (v, t')"
  obtain u1 where u1: "run_state (pf_put_block_header e t 0 PNET_BLOCK_VERSION_HIGH PNET_BLOCK_VERSION_LOW) s
      = ((), u1)"
    by (cases "run_state (pf_put_block_header e t 0 PNET_BLOCK_VERSION_HIGH PNET_BLOCK_VERSION_LOW) s") auto
  obtain r u2 where u2: "run_state body u1 = (r, u2)" by (cases "run_state body u1")
  have patch: "run_state (put_at (put_pos s + 2) (pf_put_uint16 e (put_pos u2 - (put_pos s + 4)))) u2 = ((), t')"
    using run u1 u2 by (auto simp: pf_put_block_def split: prod.splits)
  note 1 = keeps_bufferD [OF keeps_buffer_block_header s u1]
  note 2 = keeps_bufferD [OF body 1(1) u2]
  note 3 = put_uint16_at_safe [OF 2(1) patch]
  have "unat (put_pos s + of_nat 2) = unat (put_pos s) + 2"
    using s by (intro unat_add_of_nat) (auto simp: put_ok_def word_le_nat_alt)
  then have "same_prefix (unat (put_pos s)) u2 t'"
    using 3(3) by (auto intro: same_prefix_mono)
  moreover have "same_prefix (unat (put_pos s)) u1 u2"
    using 2(3) 1(2) by (auto intro: same_prefix_mono simp: word_le_nat_alt)
  ultimately show "put_ok t' \<and> put_pos s \<le> put_pos t' \<and> same_prefix (unat (put_pos s)) s t'"
    using 1 2 3 by (auto intro: same_prefix_trans order_trans)
qed

subsection \<open>The interface of a wire format\<close>

text \<open>
  \<open>reopen e pos s\<close> reads the buffer that was written, from position \<open>pos\<close>. A wire format is
  a putter and a getter that agree on an encoding of the values satisfying \<open>ok\<close>; the getter
  gets the old contents of its destination.
\<close>

definition reopen :: "bool \<Rightarrow> u16 \<Rightarrow> put_cursor \<Rightarrow> get_cursor" where
  "reopen e pos s = \<lparr>result = PF_PARSE_OK, is_big_endian = e, p_buf = p_bytes s,
     len = res_len s, p_pos = pos\<rparr>"

lemma reopen_simps [simp]:
  "is_big_endian (reopen e p s) = e" "result (reopen e p s) = PF_PARSE_OK" "p_pos (reopen e p s) = p"
  by (simp_all add: reopen_def)

lemma parse_ready_reopen:
  "room s (length bs) \<Longrightarrow> parse_ready (reopen e (put_pos s) (emit bs s)) bs"
  by (elim roomE) (simp add: parse_ready_def reopen_def emit_simps)

lemma advance_reopen:
  "advance (length bs) (reopen e (put_pos s) (emit bs s)) = reopen e (put_pos (emit bs s)) (emit bs s)"
  by (simp add: reopen_def advance_def emit_simps)

lemma write_read:
  assumes "writes m bs u" "reads e g bs v" "room s (length bs)" "run_state m s = (u', t)"
  shows "run_state g (reopen e (put_pos s) t) = (v, reopen e (put_pos t) t)"
proof -
  have "t = emit bs s" using writesD [OF assms(1,3)] assms(4) by simp
  then show ?thesis
    using readsD [OF assms(2) _ parse_ready_reopen [OF assms(3)]] by (simp add: advance_reopen)
qed

locale wire_format =
  fixes e :: bool and put :: "'a \<Rightarrow> unit putter" and get :: "'a \<Rightarrow> 'a getter"
    and enc :: "'a \<Rightarrow> u8 list" and ok :: "'a \<Rightarrow> bool" and size :: nat
  assumes put_enc: "ok x \<Longrightarrow> writes (put x) (enc x) ()"
    and get_enc: "ok x \<Longrightarrow> ok d \<Longrightarrow> reads e (get d) (enc x) x"
    and size_enc: "ok x \<Longrightarrow> length (enc x) = size"
begin

lemma roundtrip:
  assumes "ok x" "ok d" "room s size" "run_state (put x) s = (u, t)"
  shows "run_state (get d) (reopen e (put_pos s) t) = (x, reopen e (put_pos t) t)"
  using assms by (intro write_read [OF put_enc get_enc]) (simp_all add: size_enc)

text \<open>Unambiguous: two values with the same encoding are equal.\<close>

lemma enc_inj:
  assumes "ok x" "ok y" "enc x = enc y" and small: "size < 65536"
  shows "x = y"
proof -
  let ?s = "\<lparr>result = PF_PARSE_OK, is_big_endian = e, p_buf = Some (enc x),
     len = of_nat size, p_pos = 0\<rparr>"
  have "parse_ready ?s (enc x)"
    using size_enc [OF assms(1)] small by (simp add: parse_ready_def unat_of_nat)
  then show ?thesis
    using readsD [OF get_enc [OF assms(1,1)], of ?s] readsD [OF get_enc [OF assms(2,1)], of ?s] assms(3)
    by simp
qed

end

text \<open>A wire format as the body of a block: its header can be read back in front of it.\<close>

definition read_block :: "('a \<Rightarrow> 'a getter) \<Rightarrow> 'a \<Rightarrow> (pf_block_header \<times> 'a) getter" where
  "read_block g d = do { h \<leftarrow> pf_get_block_header; x \<leftarrow> g d; State_Monad.return (h, x) }"

definition block_header_of :: "u16 \<Rightarrow> nat \<Rightarrow> pf_block_header" where
  "block_header_of t n = \<lparr>block_type = t, block_length = of_nat (n + 2),
     block_version_high = PNET_BLOCK_VERSION_HIGH, block_version_low = PNET_BLOCK_VERSION_LOW\<rparr>"

lemma reads_block:
  assumes "reads e (g d) bs x"
  shows "reads e (read_block g d) (enc_block e t bs) (block_header_of t (length bs), x)"
proof -
  have "reads e pf_get_block_header (concat [enc16 e t, enc16 e (of_nat (length bs + 2)),
      enc8 PNET_BLOCK_VERSION_HIGH, enc8 PNET_BLOCK_VERSION_LOW]) (block_header_of t (length bs))"
    unfolding pf_get_block_header_def
    by ((rule reads_intros)+, rule reads_return, simp add: block_header_of_def)
  from reads_bind [OF this reads_bind [OF assms reads_return]]
  show ?thesis by (simp add: read_block_def enc_block_def)
qed

locale block_format = wire_format +
  fixes bt :: u16
begin

lemma block_roundtrip:
  assumes "ok x" "ok d" "room s (6 + size)" "run_state (pf_put_block e bt (put x)) s = (u, t)"
  shows "run_state (read_block get d) (reopen e (put_pos s) t)
    = ((block_header_of bt size, x), reopen e (put_pos t) t)"
  using write_read [OF writes_block [OF put_enc [OF assms(1)]]
      reads_block [where g = get and d = d, OF get_enc [OF assms(1,2)]] _ assms(4)] assms(1,3)
  by (simp add: size_enc)

end

end
