(* ===== verification/Wire_Formats.thy ===== *)
theory Wire_Formats
  imports Block_Codec
begin

section \<open>Wire formats of the stack\<close>

text \<open>
  The encodings of the structures that the stack both writes and reads, the interpretations
  of \<open>wire_format\<close> and \<open>block_format\<close> on the code's putters and getters, and the properties
  of the reader and the writer as a whole: round trips, safety of every function in a
  buffer of any size, and the handling of malformed input.
\<close>

subsection \<open>Encodings\<close>

definition enc_uuid :: "bool \<Rightarrow> pf_uuid \<Rightarrow> u8 list" where
  "enc_uuid e u = concat [enc32 e (data1 u), enc16 e (data2 u), enc16 e (data3 u), data4 u]"

definition enc_handle :: "bool \<Rightarrow> pf_rpc_handle \<Rightarrow> u8 list" where
  "enc_handle e h = (let u = handle_uuid h in
     concat [enc32 e (rpc_entry_handle h), enc32 e (time_low u), enc16 e (time_mid u),
       enc16 e (time_hi_and_version u), enc8 (clock_hi_and_reserved u), enc8 (clock_low u), node u])"

definition enc_status :: "pnet_pnio_status \<Rightarrow> u8 list" where
  "enc_status s = concat [enc8 (error_code s), enc8 (error_decode s), enc8 (error_code_1 s),
     enc8 (error_code_2 s)]"

definition nibbles :: "u8 \<Rightarrow> u8 \<Rightarrow> u8" where
  "nibbles hi lo = push_bit 4 hi OR lo"

definition enc_alarm_fixed :: "bool \<Rightarrow> pf_alarm_fixed \<Rightarrow> u8 list" where
  "enc_alarm_fixed e a = concat [enc16 e (dst_ref a), enc16 e (src_ref a),
     enc8 (nibbles (pdu_version a) (pdu_type a)), enc8 (nibbles (of_bool (tack a)) (window_size a)),
     enc16 e (send_seq_num a), enc16 e (ack_seq_nbr a)]"

definition alarm_fixed_ok :: "pf_alarm_fixed \<Rightarrow> bool" where
  "alarm_fixed_ok a \<longleftrightarrow> pdu_type a < 16 \<and> pdu_version a < 16 \<and> window_size a < 16"

definition enc_control :: "bool \<Rightarrow> pf_control_block \<Rightarrow> u8 list" where
  "enc_control e c = concat [enc16 e 0, enc_uuid e (cb_ar_uuid c), enc16 e (cb_session_key c),
     enc16 e (cb_alarm_sequence_number c), enc16 e (cb_control_command c),
     enc16 e (cb_control_block_properties c)]"

definition control_ok :: "pf_control_block \<Rightarrow> bool" where
  "control_ok c \<longleftrightarrow> uuid_ok (cb_ar_uuid c)"

text \<open>A stored string fills its field: no early terminator, spaces instead.\<close>

definition field_ok :: "nat \<Rightarrow> u8 list \<Rightarrow> bool" where
  "field_ok n s \<longleftrightarrow> length s = Suc n \<and> (\<forall>c \<in> set (take n s). c \<noteq> 0) \<and> s ! n = 0"

definition im_1_ok :: "pnet_im_1 \<Rightarrow> bool" where
  "im_1_ok im \<longleftrightarrow> field_ok 32 (im_tag_function im) \<and> field_ok 22 (im_tag_location im)"

definition enc_im_1 :: "pnet_im_1 \<Rightarrow> u8 list" where
  "enc_im_1 im = take 32 (im_tag_function im) @ take 22 (im_tag_location im)"

subsection \<open>Interpretations\<close>

lemma writes_uuid [writes_intros]: "writes (pf_put_uuid e u) (enc_uuid e u) ()"
  unfolding pf_put_uuid_def enc_uuid_def by (rule writes_intros)+

lemma reads_uuid [reads_intros]:
  "uuid_ok u \<Longrightarrow> uuid_ok d \<Longrightarrow> reads e (pf_get_uuid d) (enc_uuid e u) u"
  unfolding pf_get_uuid_def enc_uuid_def uuid_ok_def
  by ((rule reads_intros | assumption)+, rule reads_return, simp)

lemma length_enc_uuid [simp]: "uuid_ok u \<Longrightarrow> length (enc_uuid e u) = 16"
  by (simp add: enc_uuid_def uuid_ok_def)

interpretation uuid_format: wire_format e "pf_put_uuid e" pf_get_uuid "enc_uuid e" uuid_ok 16 for e
  by unfold_locales (simp_all add: writes_uuid reads_uuid)

lemma writes_handle: "writes (pf_put_rpc_handle e h) (enc_handle e h) ()"
proof -
  let ?u = "handle_uuid h"
  have "writes (pf_put_rpc_uuid e ?u) (concat [enc32 e (time_low ?u), enc16 e (time_mid ?u),
      enc16 e (time_hi_and_version ?u), enc8 (clock_hi_and_reserved ?u), enc8 (clock_low ?u), node ?u]) ()"
    unfolding pf_put_rpc_uuid_def by (rule writes_intros)+
  from writes_bind [OF writes_uint32 this] show ?thesis
    by (simp add: pf_put_rpc_handle_def enc_handle_def Let_def)
qed

lemma reads_handle:
  "handle_ok h \<Longrightarrow> handle_ok d \<Longrightarrow> reads e (pf_get_handle d) (enc_handle e h) h"
  unfolding pf_get_handle_def enc_handle_def handle_ok_def Let_def
  by ((rule reads_intros | assumption)+, rule reads_return, simp)

interpretation handle_format:
  wire_format e "pf_put_rpc_handle e" pf_get_handle "enc_handle e" handle_ok 20 for e
  by unfold_locales (simp_all add: writes_handle reads_handle, simp add: enc_handle_def handle_ok_def Let_def)

lemma pnio_result_bits: "pnio_result s = push_bit 24 (ucast (error_code s))
   OR push_bit 16 (ucast (error_decode s)) OR push_bit 8 (ucast (error_code_1 s)) OR ucast (error_code_2 s)"
proof -
  let ?a = "push_bit 24 (ucast (error_code s)) :: u32"
  let ?b = "push_bit 16 (ucast (error_decode s)) :: u32"
  let ?c = "push_bit 8 (ucast (error_code_1 s)) :: u32"
  let ?d = "ucast (error_code_2 s) :: u32"
  have 1: "?a + ?b = ?a OR ?b" by (rule disjunctive_add) (auto simp: bit_simps dest: bit_imp_le_length)
  have 2: "(?a OR ?b) + ?c = (?a OR ?b) OR ?c" by (rule disjunctive_add) (auto simp: bit_simps dest: bit_imp_le_length)
  have 3: "((?a OR ?b) OR ?c) + ?d = ((?a OR ?b) OR ?c) OR ?d"
    by (rule disjunctive_add) (auto simp: bit_simps dest: bit_imp_le_length)
  have "pnio_result s = ?a + ?b + ?c + ?d"
    by (simp add: pnio_result_def push_bit_eq_mult mult.commute)
  then show ?thesis unfolding 1 2 3 by (simp only: or.assoc)
qed

lemma pnio_result_bytes:
  "ucast (drop_bit 24 (pnio_result s)) = error_code s" "ucast (drop_bit 16 (pnio_result s)) = error_decode s"
  "ucast (drop_bit 8 (pnio_result s)) = error_code_1 s" "ucast (pnio_result s) = error_code_2 s"
  by (rule bit_eqI, auto simp: pnio_result_bits bit_simps dest: bit_imp_le_length)+

lemma writes_status: "writes (pf_put_pnet_status True s) (enc_status s) ()"
  using writes_uint32 [of True "pnio_result s"]
  by (simp add: pf_put_pnet_status_def enc_status_def enc32_def enc8_def pnio_result_bytes Let_def)

lemma reads_status: "reads e pf_get_pnio_status (enc_status s) s"
  unfolding pf_get_pnio_status_def enc_status_def by ((rule reads_intros)+, rule reads_return, simp)

interpretation status_format:
  wire_format True "pf_put_pnet_status True" "\<lambda>_. pf_get_pnio_status" enc_status "\<lambda>_. True" 4
  by unfold_locales (simp_all add: writes_status reads_status, simp add: enc_status_def)

lemma bit_less_16: "lo < 16 \<Longrightarrow> bit (lo :: u8) n \<Longrightarrow> n < 4"
proof -
  assume "lo < 16" and b: "bit lo n"
  then have "take_bit 4 lo = lo"
    by (simp add: take_bit_eq_mod mod_word_less)
  then have "bit (take_bit 4 lo) n" using b by simp
  then show "n < 4" by (simp add: bit_take_bit_iff)
qed

lemma pack_nibbles:
  "lo < 16 \<Longrightarrow> ucast (pf_put_bits (ucast hi) 4 4 (pf_put_bits (ucast lo) 4 0 0)) = nibbles hi lo"
  by (rule bit_eqI)
    (auto simp: pf_put_bits_bit nibbles_def bit_simps dest: bit_less_16)

lemma unpack_nibbles:
  "lo < 16 \<Longrightarrow> ucast (pf_get_bits (ucast (nibbles hi lo)) 0 4) = lo"
  "hi < 16 \<Longrightarrow> lo < 16 \<Longrightarrow> ucast (pf_get_bits (ucast (nibbles hi lo)) 4 4) = hi"
  by (rule bit_eqI, auto simp: pf_get_bits_bit nibbles_def bit_simps dest: bit_less_16)+

lemma put_flag_pack: "lo < 16 \<Longrightarrow> ucast (put_flag b 4 (pf_put_bits (ucast lo) 4 0 0)) = nibbles (of_bool b) lo"
  using pack_nibbles [of lo "of_bool b"] by (cases b) (simp_all add: put_flag_def pf_put_bits_def)

lemma pf_get_bits_1: "pf_get_bits w n 1 \<noteq> 0 \<longleftrightarrow> n < 32 \<and> bit w n"
  unfolding bit_eq_iff
  by (auto simp: pf_get_bits_bit bit_simps dest: bit_imp_le_length intro!: exI [of _ 0])

lemma unpack_flag: "lo < 16 \<Longrightarrow> pf_get_bits (ucast (nibbles (of_bool b) lo)) 4 1 \<noteq> 0 \<longleftrightarrow> b"
  unfolding pf_get_bits_1 by (auto simp: nibbles_def bit_simps dest: bit_less_16)

lemma writes_alarm_fixed:
  "alarm_fixed_ok a \<Longrightarrow> writes (pf_put_alarm_fixed e a) (enc_alarm_fixed e a) ()"
  unfolding pf_put_alarm_fixed_def enc_alarm_fixed_def alarm_fixed_ok_def
  by (simp only: pack_nibbles put_flag_pack, (rule writes_intros)+)

lemma reads_alarm_fixed:
  assumes "alarm_fixed_ok a"
  shows "reads e pf_get_alarm_fixed (enc_alarm_fixed e a) a"
  unfolding pf_get_alarm_fixed_def enc_alarm_fixed_def
  by ((rule reads_intros)+, rule reads_return)
    (use assms unpack_flag [of "window_size a"] unpack_nibbles(1) [of "window_size a"]
      unpack_nibbles [of "pdu_type a"] unpack_nibbles(2) [of "pdu_version a" "pdu_type a"] in
     \<open>simp add: alarm_fixed_ok_def\<close>)

interpretation alarm_fixed_format:
  wire_format e "pf_put_alarm_fixed e" "\<lambda>_. pf_get_alarm_fixed" "enc_alarm_fixed e" alarm_fixed_ok 10 for e
  by unfold_locales (simp_all add: writes_alarm_fixed reads_alarm_fixed, simp add: enc_alarm_fixed_def)

text \<open>The body of a control block, without the block around it.\<close>

definition control_body :: "bool \<Rightarrow> pf_control_block \<Rightarrow> unit putter" where
  "control_body e r = do {
     pf_put_byte 0;
     pf_put_byte 0;
     pf_put_uuid e (cb_ar_uuid r);
     pf_put_uint16 e (cb_session_key r);
     pf_put_uint16 e (cb_alarm_sequence_number r);
     pf_put_uint16 e (cb_control_command r);
     pf_put_uint16 e (cb_control_block_properties r)
   }"

lemma pf_put_control_eq: "pf_put_control e bt r = pf_put_block e bt (control_body e r)"
  by (simp add: pf_put_control_def control_body_def)

lemma writes_control: "writes (control_body e c) (enc_control e c) ()"
proof -
  have "writes (control_body e c) (concat [enc8 0, enc8 0, enc_uuid e (cb_ar_uuid c),
      enc16 e (cb_session_key c), enc16 e (cb_alarm_sequence_number c),
      enc16 e (cb_control_command c), enc16 e (cb_control_block_properties c)]) ()"
    unfolding control_body_def by (rule writes_intros)+
  then show ?thesis
    by (rule writes_cong) (simp add: enc_control_def enc8_def enc16_def Let_def)
qed

lemma reads_control: "control_ok c \<Longrightarrow> control_ok d \<Longrightarrow> reads e (pf_get_control d) (enc_control e c) c"
  unfolding pf_get_control_def enc_control_def control_ok_def
  by ((rule reads_intros | assumption)+, rule reads_return, simp)

interpretation control_format:
  block_format e "control_body e" pf_get_control "enc_control e" control_ok 26 bt for e bt
  by unfold_locales (simp_all add: writes_control reads_control, simp add: enc_control_def control_ok_def)

text \<open>The I and M 1 record: two string fields, written without their terminators.\<close>

definition im_1_body :: "pnet_im_1 \<Rightarrow> unit putter" where
  "im_1_body im = do {
     pf_put_str (im_tag_function im) 33;
     pf_put_str (im_tag_location im) PNET_LOCATION_MAX_SIZE
   }"

lemma c_str_field: "field_ok n s \<Longrightarrow> c_str s = take n s"
proof -
  assume f: "field_ok n s"
  then have s: "s = take n s @ [0]"
    using take_Suc_conv_app_nth [of n s] by (simp add: field_ok_def)
  have "takeWhile (\<lambda>c. c \<noteq> 0) (take n s @ [0]) = take n s"
    using f by (subst takeWhile_append2) (auto simp: field_ok_def)
  then show ?thesis using s by (simp add: c_str_def)
qed

text \<open>
  A string field needs room for its terminator too, which it does not write; the last field
  of the block is therefore refused one byte early. The encoding is what the code produces
  when there is that extra byte.
\<close>

lemma run_im_1_body:
  assumes "im_1_ok im" "room s 55"
  shows "run_state (im_1_body im) s = ((), emit (enc_im_1 im) s)"
proof -
  have c: "c_str (im_tag_function im) = take 32 (im_tag_function im)" "length (im_tag_function im) = 33"
    "c_str (im_tag_location im) = take 22 (im_tag_location im)" "length (im_tag_location im) = 23"
    using assms(1) by (auto simp: im_1_ok_def c_str_field) (auto simp: field_ok_def)
  have f: "enc_str 33 (im_tag_function im) = take 32 (im_tag_function im)"
    "enc_str 23 (im_tag_location im) = take 22 (im_tag_location im)"
    using c by (simp_all add: enc_str_def)
  have 1: "run_state (pf_put_str (im_tag_function im) 33) s = ((), emit (take 32 (im_tag_function im)) s)"
    using run_put_str [of s 33 "im_tag_function im"] c f room_mono [OF assms(2), of 33] by simp
  have "room (emit (take 32 (im_tag_function im)) s) 23"
    using c assms(2) by (intro room_emit) simp
  then have 2: "run_state (pf_put_str (im_tag_location im) 23) (emit (take 32 (im_tag_function im)) s) =
      ((), emit (take 22 (im_tag_location im)) (emit (take 32 (im_tag_function im)) s))"
    using run_put_str [of _ 23 "im_tag_location im"] c f by simp
  have "room s (length (take 32 (im_tag_function im) @ take 22 (im_tag_location im)))"
    using c by (intro room_mono [OF assms(2)]) simp
  from 1 2 emit_append [OF this] show ?thesis
    by (simp add: im_1_body_def PNET_LOCATION_MAX_SIZE_def enc_im_1_def)
qed

lemma field_restore: "field_ok n s \<Longrightarrow> length d = Suc n \<Longrightarrow> (take n s @ drop n d)[n := 0] = s"
  by (rule nth_equalityI) (auto simp: field_ok_def nth_list_update nth_append less_Suc_eq)

lemma reads_im_1:
  assumes "im_1_ok im" "im_1_ok d"
  shows "reads e (pf_get_im_1 d) (enc_im_1 im) im"
proof -
  let ?f = "im_tag_function im" and ?l = "im_tag_location im"
  have l: "length ?f = 33" "length ?l = 23" "length (im_tag_function d) = 33" "length (im_tag_location d) = 23"
    using assms by (simp_all add: im_1_ok_def field_ok_def)
  have f: "reads e (pf_get_mem 32 (im_tag_function d)) (take 32 ?f) (take 32 ?f @ drop 32 (im_tag_function d))"
    and g: "reads e (pf_get_mem 22 (im_tag_location d)) (take 22 ?l) (take 22 ?l @ drop 22 (im_tag_location d))"
    using l by (simp_all add: reads_mem)
  have "(take 32 ?f @ drop 32 (im_tag_function d))[32 := 0] = ?f"
    "(take 22 ?l @ drop 22 (im_tag_location d))[22 := 0] = ?l"
    using assms(1) l by (auto simp: im_1_ok_def intro!: field_restore)
  with reads_bind [OF f reads_bind [OF g reads_return [OF refl]],
      of "\<lambda>a b. \<lparr>im_tag_function = a[32 := 0], im_tag_location = b[22 := 0]\<rparr>"]
  have "reads e (pf_get_im_1 d) (enc_im_1 im) \<lparr>im_tag_function = ?f, im_tag_location = ?l\<rparr>"
    by (simp add: enc_im_1_def pf_get_im_1_def PNET_LOCATION_MAX_SIZE_def)
  then show ?thesis by (cases im) simp
qed

lemma im_1_roundtrip_aux:
  assumes ok: "im_1_ok im" "im_1_ok d" and r: "room s 61" and run: "run_state (pf_put_im_1 e im) s = (u, t)"
  shows "run_state (read_block pf_get_im_1 d) (reopen e (put_pos s) t)
    = ((block_header_of PF_BT_IM_1 54, im), reopen e (put_pos t) t)"
proof -
  have l: "length (enc_im_1 im) = 54" using ok(1) by (simp add: enc_im_1_def im_1_ok_def field_ok_def)
  have r60: "room s (length (enc_block e PF_BT_IM_1 (enc_im_1 im)))"
    using room_mono [OF r, of 60] by (simp add: l)
  have "room (emit (prov_header e PF_BT_IM_1) s) 55"
    using r by (intro room_emit) simp
  then have "run_state (im_1_body im) (emit (prov_header e PF_BT_IM_1) s) =
      ((), emit (enc_im_1 im) (emit (prov_header e PF_BT_IM_1) s))"
    by (rule run_im_1_body [OF ok(1)])
  from run_block [OF r60 this] run
  have t: "t = emit (enc_block e PF_BT_IM_1 (enc_im_1 im)) s"
    by (simp add: pf_put_im_1_def im_1_body_def)
  show ?thesis
    unfolding t using readsD [OF reads_block [where g = pf_get_im_1 and d = d, OF reads_im_1 [OF ok]] _ parse_ready_reopen [OF r60]]
    by (simp add: l advance_reopen [symmetric])
qed

subsection \<open>The RPC header\<close>

text \<open>
  The header says itself in which byte order it is, so its getter switches the byte order of
  the cursor. \<open>reads_to\<close> is \<open>reads\<close> with a new byte order at the end; \<open>emits\<close> is \<open>writes\<close>
  with a result that depends on the position of the cursor.
\<close>

definition reads_to :: "bool \<Rightarrow> bool \<Rightarrow> 'a getter \<Rightarrow> u8 list \<Rightarrow> 'a \<Rightarrow> bool" where
  "reads_to e e' m bs v \<longleftrightarrow> (\<forall>s. is_big_endian s = e \<longrightarrow> parse_ready s bs \<longrightarrow>
     run_state m s = (v, (advance (length bs) s)\<lparr>is_big_endian := e'\<rparr>))"

lemma reads_to_bind:
  assumes "reads e m b v" and "reads_to e e' (f v) (concat bs) w"
  shows "reads_to e e' (m \<bind> f) (concat (b # bs)) w"
proof -
  have "run_state (m \<bind> f) s = (w, (advance (length (concat (b # bs))) s)\<lparr>is_big_endian := e'\<rparr>)"
    if "is_big_endian s = e" "parse_ready s (b @ concat bs)" for s
  proof -
    note r = parse_ready_split [OF that(2)]
    have "run_state m s = (v, advance (length b) s)"
      using readsD [OF assms(1) that(1) r(1)] .
    then show ?thesis using assms(2) that(1) r(2) by (simp add: reads_to_def)
  qed
  then show ?thesis by (simp add: reads_to_def)
qed

lemma reads_to_switch:
  assumes "reads e' (f ()) bs v"
  shows "reads_to e e' (set_byte_order e' \<bind> f) bs v"
proof -
  have "run_state (set_byte_order e' \<bind> f) s = (v, (advance (length bs) s)\<lparr>is_big_endian := e'\<rparr>)"
    if "parse_ready s bs" for s
  proof -
    have "parse_ready (s\<lparr>is_big_endian := e'\<rparr>) bs" using that by (simp add: parse_ready_def split: option.splits)
    then have "run_state (f ()) (s\<lparr>is_big_endian := e'\<rparr>) = (v, advance (length bs) (s\<lparr>is_big_endian := e'\<rparr>))"
      by (intro readsD [OF assms]) simp_all
    then show ?thesis by (simp add: set_byte_order_def State_Monad.update_def advance_def)
  qed
  then show ?thesis by (simp add: reads_to_def)
qed

definition emits :: "u16 putter \<Rightarrow> u8 list \<Rightarrow> nat \<Rightarrow> bool" where
  "emits m bs k \<longleftrightarrow> (\<forall>s. room s (length bs) \<longrightarrow> run_state m s = (put_pos s + of_nat k, emit bs s))"

lemma emits_bind:
  assumes "writes m b v" and "emits (f v) (concat bs) k"
  shows "emits (m \<bind> f) (concat (b # bs)) (length b + k)"
proof -
  have "run_state (m \<bind> f) s = (put_pos s + of_nat (length b + k), emit (concat (b # bs)) s)"
    if r: "room s (length (concat (b # bs)))" for s
  proof -
    have "run_state m s = (v, emit b s)"
      using assms(1) r by (intro writesD) (auto elim: room_mono)
    moreover have "run_state (f v) (emit b s) =
        (put_pos (emit b s) + of_nat k, emit (concat bs) (emit b s))"
      using assms(2) r unfolding emits_def by (auto intro: room_emit)
    ultimately show ?thesis using r by (simp add: emit_append emit_simps)
  qed
  then show ?thesis by (simp add: emits_def)
qed

lemma emits_get_pos: "(\<And>p. writes (f p) bs p) \<Longrightarrow> emits (get_pos \<bind> f) bs 0"
  by (simp add: emits_def writes_def)

lemma emits_cong: "emits m bs k \<Longrightarrow> k = l \<Longrightarrow> emits m bs l"
  by simp

definition header_ok :: "pf_rpc_header \<Rightarrow> bool" where
  "header_ok h \<longleftrightarrow> uuid_ok (rpc_object_uuid h) \<and> uuid_ok (rpc_interface_uuid h) \<and>
     uuid_ok (rpc_activity_uuid h) \<and> rpc_packet_type h < 32 \<and> rpc_float_repr h = 0 \<and>
     \<not> rpc_cancel_pending h"

definition enc_flags :: "pf_rpc_flags \<Rightarrow> u8" where
  "enc_flags f = ucast (rpc_flag_bits f mod 0x100)"

definition enc_drep :: "bool \<Rightarrow> u8" where
  "enc_drep e = ucast (pf_put_bits (if e then 0 else 1) 4 4 0 mod 0x100)"

definition enc_rpc_header :: "pf_rpc_header \<Rightarrow> u8 list" where
  "enc_rpc_header h = (let e = rpc_is_big_endian h in concat [
     enc8 (rpc_version h), enc8 (rpc_packet_type h), enc8 (enc_flags (rpc_flags h)), enc8 0,
     enc8 (enc_drep e), enc8 (rpc_float_repr h), enc8 (rpc_reserved h), enc8 (rpc_serial_high h),
     enc_uuid e (rpc_object_uuid h), enc_uuid e (rpc_interface_uuid h), enc_uuid e (rpc_activity_uuid h),
     enc32 e (rpc_server_boot_time h), enc32 e (rpc_interface_version h), enc32 e (rpc_sequence_nmb h),
     enc16 e (rpc_opnum h), enc16 e (rpc_interface_hint h), enc16 e (rpc_activity_hint h),
     enc16 e (rpc_length_of_body h), enc16 e (rpc_fragment_nmb h), enc8 (rpc_auth_protocol h),
     enc8 (rpc_serial_low h)])"

lemma length_rpc_header: "header_ok h \<Longrightarrow> length (enc_rpc_header h) = 80"
  by (simp add: enc_rpc_header_def header_ok_def Let_def)

lemma put_flag_bit: "bit (put_flag b n w) i \<longleftrightarrow> bit w i \<or> (b \<and> i = n \<and> i < 32)"
  by (auto simp: put_flag_def pf_put_bits_bit bit_simps)

lemma flag_bit: "n < 8 \<Longrightarrow> flag b n \<longleftrightarrow> bit b n"
  unfolding flag_def pf_get_bits_1 by (simp add: bit_simps)

lemma enc_flags_bit: "n < 8 \<Longrightarrow> bit (enc_flags f) n \<longleftrightarrow> bit (rpc_flag_bits f) n"
proof -
  have "w mod 0x100 = take_bit 8 w" for w :: u32 by (simp add: take_bit_eq_mod)
  then show "n < 8 \<Longrightarrow> ?thesis" by (simp add: enc_flags_def bit_simps)
qed

lemma flags_roundtrip: "get_rpc_flags (enc_flags f) = f"
  by (simp add: get_rpc_flags_def flag_bit enc_flags_bit rpc_flag_bits_def put_flag_bit)

lemma drep_roundtrip: "pf_get_bits (ucast (enc_drep e)) 4 4 = 0 \<longleftrightarrow> e"
  by (simp add: enc_drep_def pf_put_bits_def pf_get_bits_def)

lemma flag_zero: "\<not> flag 0 n"
  by (simp add: flag_def pf_get_bits_def)

lemma packet_type_mask: "t < 32 \<Longrightarrow> t AND 0x1f = (t :: u8)"
  using take_bit_eq_mask [of 5 t] by (simp add: take_bit_eq_mod mod_word_less mask_eq_exp_minus_1)

lemma emits_rpc_header:
  assumes "header_ok h"
  shows "emits (pf_put_dce_rpc_header h) (enc_rpc_header h) 74"
  unfolding pf_put_dce_rpc_header_def enc_rpc_header_def Let_def enc_flags_def [symmetric]
    enc_drep_def [symmetric]
  by (rule emits_cong, (rule emits_bind, rule writes_intros)+, rule emits_get_pos,
      (rule writes_intros)+) (use assms in \<open>simp add: header_ok_def\<close>)

lemma reads_rpc_header:
  assumes h: "header_ok h" "header_ok d"
  shows "reads_to e (rpc_is_big_endian h) (pf_get_dce_rpc_header d) (enc_rpc_header h) h"
  using assms unfolding pf_get_dce_rpc_header_def enc_rpc_header_def Let_def header_ok_def
  apply -
  apply (rule reads_to_bind, rule reads_byte)+
  apply (simp only: drep_roundtrip)
  apply (rule reads_to_switch)
  apply ((rule reads_intros | (elim conjE, assumption))+, rule reads_return)
  apply (simp add: flags_roundtrip flag_zero packet_type_mask)
  done

subsection \<open>Round trips\<close>

text \<open>A DCE/RPC header that fits into the buffer is written as 80 bytes; reading them back,
  with a cursor of any byte order, gives the same header and switches the cursor to the byte
  order of the header. The position returned for the body length is where the length field is.\<close>

theorem rpc_header_roundtrip:
  assumes "header_ok h" "header_ok d" "room s 80" "run_state (pf_put_dce_rpc_header h) s = (bp, t)"
  shows "run_state (pf_get_dce_rpc_header d) (reopen e (put_pos s) t)
      = (h, reopen (rpc_is_big_endian h) (put_pos s + 80) t) \<and> bp = put_pos s + 74"
proof -
  have r: "room s (length (enc_rpc_header h))" using assms by (simp add: length_rpc_header)
  then have t: "bp = put_pos s + 74" "t = emit (enc_rpc_header h) s"
    using emits_rpc_header [OF assms(1)] assms(4) by (simp_all add: emits_def)
  have "run_state (pf_get_dce_rpc_header d) (reopen e (put_pos s) t) =
      (h, (advance 80 (reopen e (put_pos s) t))\<lparr>is_big_endian := rpc_is_big_endian h\<rparr>)"
    using reads_rpc_header [OF assms(1,2)] parse_ready_reopen [OF r] assms(1)
    by (simp add: reads_to_def t(2) length_rpc_header)
  then show ?thesis using t(1) by (simp add: reopen_def advance_def)
qed

definition example_header :: pf_rpc_header where
  "example_header = (let u = \<lparr>data1 = 0x12345678, data2 = 0xabcd, data3 = 3, data4 = [0, 1, 2, 3, 4, 5, 6, 7]\<rparr> in
     \<lparr>rpc_version = 4, rpc_packet_type = 2,
      rpc_flags = \<lparr>last_fragment = False, fragment = False, no_fack = True, maybe = False,
        idempotent = True, broadcast = False\<rparr>,
      rpc_cancel_pending = False, rpc_is_big_endian = False, rpc_float_repr = 0, rpc_reserved = 0,
      rpc_serial_high = 1, rpc_object_uuid = u, rpc_interface_uuid = u, rpc_activity_uuid = u,
      rpc_server_boot_time = 9, rpc_interface_version = 1, rpc_sequence_nmb = 7, rpc_opnum = 5,
      rpc_interface_hint = 0xffff, rpc_activity_hint = 0xffff, rpc_length_of_body = 0x0102,
      rpc_fragment_nmb = 0, rpc_auth_protocol = 0, rpc_serial_low = 2\<rparr>)"

definition empty_buffer :: "nat \<Rightarrow> put_cursor" where
  "empty_buffer n = \<lparr>res_len = of_nat n, p_bytes = Some (replicate n 0), put_pos = 0\<rparr>"

lemma room_empty_buffer: "m \<le> n \<Longrightarrow> n < 65536 \<Longrightarrow> room (empty_buffer n) m"
  by (simp add: room_def empty_buffer_def unat_of_nat)

lemma rpc_header_roundtrip_witness:
  "run_state (pf_get_dce_rpc_header example_header)
     (reopen True 0 (snd (run_state (pf_put_dce_rpc_header example_header) (empty_buffer 100))))
   = (example_header, reopen False 80 (snd (run_state (pf_put_dce_rpc_header example_header) (empty_buffer 100))))"
proof -
  have "header_ok example_header" "\<not> rpc_is_big_endian example_header" "put_pos (empty_buffer 100) = 0"
    by (simp_all add: header_ok_def example_header_def uuid_ok_def Let_def empty_buffer_def)
  then show ?thesis
    using rpc_header_roundtrip [OF _ _ room_empty_buffer surjective_pairing,
        of example_header example_header 100 True] by simp
qed

text \<open>A control block of any block type (PrmEnd, ApplicationReady, Release, ...), written with
  its header, is read back by the header parser followed by the control parser, as the RPC
  code reads it: block length 28, version 1.0 and every field as it was.\<close>

theorem control_roundtrip:
  assumes "control_ok c" "control_ok d" "room s 32" "run_state (pf_put_control e bt c) s = (u, t)"
  shows "run_state (read_block pf_get_control d) (reopen e (put_pos s) t)
    = ((block_header_of bt 26, c), reopen e (put_pos t) t)"
  using control_format.block_roundtrip [OF assms(1,2)] assms(3,4) by (simp add: pf_put_control_eq)

definition example_control :: pf_control_block where
  "example_control = \<lparr>cb_ar_uuid = \<lparr>data1 = 1, data2 = 2, data3 = 3, data4 = replicate 8 9\<rparr>,
     cb_session_key = 4, cb_control_command = 1, cb_control_block_properties = 0,
     cb_alarm_sequence_number = 0\<rparr>"

lemma control_roundtrip_witness:
  "fst (run_state (read_block pf_get_control example_control)
     (reopen True 0 (snd (run_state (pf_put_control True 0x0110 example_control) (empty_buffer 40)))))
   = (block_header_of 0x0110 26, example_control)"
proof -
  have "control_ok example_control" "put_pos (empty_buffer 40) = 0"
    by (simp_all add: control_ok_def example_control_def uuid_ok_def empty_buffer_def)
  then show ?thesis
    using control_roundtrip [of example_control example_control "empty_buffer 40" True "0x0110",
        OF _ _ room_empty_buffer surjective_pairing] by simp
qed

text \<open>An I and M 1 record, whose strings fill their fields, is read back unchanged from its block.
  One byte of room behind the record is needed although it is not written.\<close>

theorem im_1_roundtrip:
  assumes "im_1_ok im" "im_1_ok d" "room s 61" "run_state (pf_put_im_1 e im) s = (u, t)"
  shows "run_state (read_block pf_get_im_1 d) (reopen e (put_pos s) t)
    = ((block_header_of PF_BT_IM_1 54, im), reopen e (put_pos t) t)"
  using assms by (rule im_1_roundtrip_aux)

definition example_im_1 :: pnet_im_1 where
  "example_im_1 = \<lparr>im_tag_function = replicate 32 0x41 @ [0], im_tag_location = replicate 22 0x20 @ [0]\<rparr>"

lemma im_1_roundtrip_witness:
  "fst (run_state (read_block pf_get_im_1 example_im_1)
     (reopen False 0 (snd (run_state (pf_put_im_1 False example_im_1) (empty_buffer 64)))))
   = (block_header_of PF_BT_IM_1 54, example_im_1)"
proof -
  have "im_1_ok example_im_1" "put_pos (empty_buffer 64) = 0"
    by (auto simp: im_1_ok_def field_ok_def example_im_1_def nth_append empty_buffer_def)
  then show ?thesis
    using im_1_roundtrip [OF _ _ room_empty_buffer surjective_pairing,
        of example_im_1 example_im_1 64 False] by simp
qed

text \<open>The fixed part of an alarm PDU is packed into ten bytes and unpacked again without loss,
  when PDU type, version and window size are four-bit values.\<close>

theorem alarm_fixed_roundtrip:
  assumes "alarm_fixed_ok a" "room s 10" "run_state (pf_put_alarm_fixed e a) s = (u, t)"
  shows "run_state pf_get_alarm_fixed (reopen e (put_pos s) t) = (a, reopen e (put_pos s + 10) t)"
proof -
  have "put_pos t = put_pos s + 10"
    using writesD [OF writes_alarm_fixed [OF assms(1)], of s e] assms alarm_fixed_format.size_enc [of a e]
    by (auto simp: emit_simps)
  then show ?thesis
    using alarm_fixed_format.roundtrip [OF assms(1,1,2,3)] by simp
qed

definition example_alarm :: pf_alarm_fixed where
  "example_alarm = \<lparr>dst_ref = 7, src_ref = 0xffff, pdu_type = 3, pdu_version = 1, window_size = 1,
     tack = True, send_seq_num = 0xfffe, ack_seq_nbr = 0xffff\<rparr>"

lemma alarm_fixed_roundtrip_witness:
  "fst (run_state pf_get_alarm_fixed
     (reopen True 0 (snd (run_state (pf_put_alarm_fixed True example_alarm) (empty_buffer 10))))) = example_alarm"
proof -
  have "alarm_fixed_ok example_alarm" "put_pos (empty_buffer 10) = 0"
    by (simp_all add: alarm_fixed_ok_def example_alarm_def empty_buffer_def)
  then show ?thesis
    using alarm_fixed_roundtrip [OF _ room_empty_buffer surjective_pairing, of example_alarm 10 True] by simp
qed

subsection \<open>Safety in every buffer\<close>

lemma reader_keeps_cursor:
  "keeps_cursor (pf_get_uuid d1) \<and> keeps_cursor (pf_get_handle d2) \<and>
   keeps_cursor (pf_get_iocr_api_entry d3) \<and> keeps_cursor (pf_get_exp_api_module d4) \<and>
   keeps_cursor pf_get_block_header \<and> keeps_cursor (pf_get_ar_param d5) \<and>
   keeps_cursor pf_get_alarm_cr_request \<and> keeps_cursor (pf_get_ar_prm_server_request d6) \<and>
   keeps_cursor (pf_get_ir_info_request d7) \<and> keeps_cursor (pf_get_mcr_request d8) \<and>
   keeps_cursor pf_get_ar_rpc_request \<and> keeps_cursor (pf_get_ar_vendor_request ix d9) \<and>
   keeps_cursor (pf_get_control d10) \<and> keeps_cursor pf_get_ndr_data_req \<and>
   keeps_cursor pf_get_ndr_data_rsp \<and> keeps_cursor (pf_get_dce_rpc_header d11) \<and>
   keeps_cursor (pf_get_read_request d12) \<and> keeps_cursor (pf_get_epm_lookup_request d13) \<and>
   keeps_cursor (pf_get_write_request d14) \<and> keeps_cursor (pf_get_im_1 d15) \<and>
   keeps_cursor pf_get_alarm_fixed \<and> keeps_cursor (pf_get_alarm_data d16) \<and>
   keeps_cursor (pf_get_alarm_ack d17) \<and> keeps_cursor pf_get_pnio_status \<and>
   keeps_cursor pf_get_port_data_check \<and> keeps_cursor (pf_get_port_data_check_check_peers n d18) \<and>
   keeps_cursor pf_get_port_data_adjust \<and>
   keeps_cursor pf_get_port_data_adjust_peer_to_peer_boundary \<and> keeps_cursor pf_get_interface_adjust"
  unfolding getter_defs Let_def by (intro conjI rdwf_intros keeps_cursor_exp_apis)

lemma keeps_buffer_put_all [putwf_intros]: "(\<And>x. keeps_buffer (f x)) \<Longrightarrow> keeps_buffer (put_all f xs)"
  by (induction xs) (auto intro!: putwf_intros)

lemmas putter_defs =
  pf_put_uuid_def pf_put_rpc_uuid_def pf_put_rpc_handle_def pf_put_time_timestamp_def
  pf_put_pnet_status_def pf_put_ar_result_def pf_put_iocr_result_def pf_put_alarm_cr_result_def
  pf_put_submodule_diff_def pf_put_module_diff_def pf_put_api_diff_def
  pf_put_ar_rpc_result_def pf_put_block_aligned_def pf_put_ar_server_result_def
  pf_put_ar_vendor_result_def pf_put_control_def pf_put_dce_rpc_header_def
  pf_put_record_data_read_def pf_put_read_result_def pf_put_im_1_def pf_put_im_2_def pf_put_im_3_def
  pf_put_record_data_write_def pf_put_write_result_def pf_put_alarm_fixed_def
  pf_put_maint_status_def pf_put_peer_to_peer_boundary_def

lemma keeps_buffer_ar_diff: "keeps_buffer (pf_put_ar_diff e ar)"
  unfolding pf_put_ar_diff_def putter_defs Let_def by (intro putwf_intros)

text \<open>C38: The functions of \<open>pf_block_writer.c\<close> that this theorem names (the basic writers, the answers
  to connect, control, read and write requests, the RPC header, the records I and M 1 to 3, the
  maintenance status, the peer-to-peer boundary and the fixed part of an alarm) stay inside the buffer,
  with the position anywhere in it: they keep the buffer's length, never move the position backwards and
  change nothing in front of the place where they start. The buffer has at most 65533 bytes (\<open>put_ok\<close>),
  since the writer of a block adds to 16-bit positions. The strings of the I and M records have to fit
  their fields, as their C arrays do. The other functions of the writer are not modelled.\<close>

theorem putters_keep_buffer:
  assumes "length (c_str (im_tag_function im)) \<le> 33" "length (c_str (im_tag_location im)) \<le> 23"
    and "length (c_str im2) \<le> 17" "length (c_str im3) \<le> 55"
  shows "keeps_buffer (pf_put_mem xs) \<and> keeps_buffer (pf_put_byte b) \<and> keeps_buffer (pf_put_uint16 e w) \<and>
   keeps_buffer (pf_put_uint32 e d) \<and> keeps_buffer (pf_put_padding_align al pos) \<and>
   keeps_buffer (pf_put_block_header e t n vh vl) \<and> keeps_buffer (pf_put_uuid e u) \<and> keeps_buffer (pf_put_rpc_handle e h) \<and>
   keeps_buffer (pf_put_time_timestamp e ts) \<and> keeps_buffer (pf_put_ar_result e par ar) \<and>
   keeps_buffer (pf_put_iocr_result e ir) \<and> keeps_buffer (pf_put_alarm_cr_result e acr) \<and>
   keeps_buffer (pf_put_ar_diff e diff) \<and> keeps_buffer (pf_put_ar_rpc_result e port) \<and>
   keeps_buffer (pf_put_ar_server_result e srv) \<and> keeps_buffer (pf_put_ar_vendor_result e vq vr) \<and>
   keeps_buffer (pf_put_control e bt cb) \<and> keeps_buffer (pf_put_dce_rpc_header rpc) \<and>
   keeps_buffer (pf_put_record_data_read e bt raw) \<and> keeps_buffer (pf_put_read_result e rr) \<and>
   keeps_buffer (pf_put_im_1 e im) \<and> keeps_buffer (pf_put_im_2 e im2) \<and>
   keeps_buffer (pf_put_im_3 e im3) \<and> keeps_buffer (pf_put_record_data_write e bt raw) \<and>
   keeps_buffer (pf_put_write_result e wr) \<and> keeps_buffer (pf_put_alarm_fixed e af) \<and>
   keeps_buffer (pf_put_maint_status e ms) \<and> keeps_buffer (pf_put_peer_to_peer_boundary e pb)"
  using assms unfolding putter_defs Let_def PNET_LOCATION_MAX_SIZE_def
  by (intro conjI putwf_intros keeps_buffer_ar_diff)

lemma putters_keep_buffer_witness:
  "keeps_buffer (pf_put_im_1 True example_im_1) \<and>
   put_pos (snd (run_state (pf_put_im_1 True example_im_1) (empty_buffer 20))) \<le> 20"
proof -
  have "length (c_str (im_tag_function example_im_1)) \<le> 33" "length (c_str (im_tag_location example_im_1)) \<le> 23"
    by (simp_all add: example_im_1_def c_str_def takeWhile_append)
  then have k: "keeps_buffer (pf_put_im_1 True example_im_1)"
    using putters_keep_buffer [of example_im_1 "[]" "[]"] by (simp add: c_str_def)
  moreover have "put_ok (empty_buffer 20)" by (simp add: put_ok_def empty_buffer_def)
  ultimately show ?thesis
    using keeps_bufferD(1,3) [OF k _ surjective_pairing, of "empty_buffer 20"]
    by (simp add: put_ok_def same_prefix_def empty_buffer_def)
qed

subsection \<open>The length of a block\<close>

lemma same_prefix_bytes:
  assumes "same_prefix n s t" "p_bytes s = Some b"
  obtains b' where "p_bytes t = Some b'" "take n b' = take n b"
  using assms by (auto simp: same_prefix_def)

lemma take_drop_prefix_eq:
  assumes "take n b = take n c" "i + k \<le> n"
  shows "take k (drop i b) = take k (drop i c)"
proof -
  have "take k (drop i (take n x)) = take k (drop i x)" for x :: "'a list"
    using assms(2) by (simp add: drop_take min_absorb1)
  then show ?thesis using assms(1) by metis
qed

text \<open>C36: Whatever the body of a block writes, and also when the buffer is too small for the body and
  part of it is dropped: after the block, its type stands in its first two bytes and the
  length field behind it counts exactly the bytes between the length field and the end of the block.\<close>

theorem block_length_correct:
  assumes body: "keeps_buffer body" and s: "put_ok s" "room s 6"
    and run: "run_state (pf_put_block e t body) s = (v, s')"
  shows "\<exists>b'. p_bytes s' = Some b' \<and> take 2 (drop (unat (put_pos s)) b') = enc16 e t \<and>
    take 2 (drop (unat (put_pos s) + 2) b') = enc16 e (put_pos s' - (put_pos s + 4))"
proof -
  let ?p = "unat (put_pos s)" and ?h = "prov_header e t"
  have "writes (pf_put_block_header e t 0 PNET_BLOCK_VERSION_HIGH PNET_BLOCK_VERSION_LOW) ?h ()"
    by (rule writes_cong [OF writes_block_header]) (simp add: enc8_def)
  then have h: "run_state (pf_put_block_header e t 0 PNET_BLOCK_VERSION_HIGH PNET_BLOCK_VERSION_LOW) s
      = ((), emit ?h s)"
    using s(2) by (intro writesD) simp_all
  obtain u2 where u2: "run_state body (emit ?h s) = (v, u2)"
    and patch: "run_state (put_at (put_pos s + 2) (pf_put_uint16 e (put_pos u2 - (put_pos s + 4)))) u2 = ((), s')"
    using run h by (auto simp: pf_put_block_def split: prod.splits)
  have ok1: "put_ok (emit ?h s)"
    using keeps_bufferD(1) [OF keeps_buffer_block_header s(1) h] .
  note k = keeps_bufferD [OF body ok1 u2]
  obtain b where b: "p_bytes s = Some b" "length b = unat (res_len s)" "?p + 6 \<le> length b"
    "unat (put_pos s + 6) = ?p + 6"
    using s(2) by (elim roomE) simp
  have p2: "unat (put_pos s + 2) = ?p + 2"
    using room_mono [OF s(2), of 2] by (auto elim: roomE)
  have "same_prefix (?p + 6) (emit ?h s) u2" using k(3) b(4) by (simp add: emit_simps)
  then obtain b2 where b2: "p_bytes u2 = Some b2" "take (?p + 6) b2 = take (?p + 6) (overwrite ?p ?h b)"
    using emit_simps(1) [OF b(1)] by (rule same_prefix_bytes)
  have len2: "length b2 = unat (res_len u2)" "res_len u2 = res_len s"
    using k(1,3) b2(1) by (simp_all add: put_ok_def same_prefix_def emit_simps)
  have "room (u2\<lparr>put_pos := put_pos s + 2\<rparr>) 2"
    using b b2(1) len2 p2 by (simp add: room_def)
  then have "run_state (pf_put_uint16 e (put_pos u2 - (put_pos s + 4))) (u2\<lparr>put_pos := put_pos s + 2\<rparr>) =
      ((), emit (enc16 e (put_pos u2 - (put_pos s + 4))) (u2\<lparr>put_pos := put_pos s + 2\<rparr>))"
    by (intro writesD [OF writes_uint16]) simp
  then have s': "put_pos s' = put_pos u2"
    "p_bytes s' = Some (overwrite (?p + 2) (enc16 e (put_pos u2 - (put_pos s + 4))) b2)"
    using patch b2(1) p2 by (auto simp: put_at_def State_Monad.update_def emit_def)
  have fits: "?p + 2 + length (enc16 e (put_pos u2 - (put_pos s + 4))) \<le> length b2"
    using b len2 by simp
  have "take 2 (drop ?p b2) = take 2 (drop ?p (overwrite ?p ?h b))"
    using b2(2) by (rule take_drop_prefix_eq) simp
  also have "\<dots> = enc16 e t"
    using b(3) by (simp add: overwrite_def)
  finally have "take 2 (drop ?p (overwrite (?p + 2) (enc16 e (put_pos u2 - (put_pos s + 4))) b2)) = enc16 e t"
    using fits take_drop_prefix_eq [OF take_overwrite [of "?p + 2" b2], of ?p 2] by simp
  moreover have "take 2 (drop (?p + 2) (overwrite (?p + 2) (enc16 e (put_pos u2 - (put_pos s + 4))) b2)) =
      enc16 e (put_pos u2 - (put_pos s + 4))"
    using take_drop_overwrite [OF fits] by simp
  ultimately show ?thesis using s' by simp
qed

definition cut_off_block :: put_cursor where
  "cut_off_block = snd (run_state (pf_put_block True 0x0021 (pf_put_mem (replicate 10 7))) (empty_buffer 8))"

lemma block_length_correct_witness:
  "\<exists>b'. p_bytes cut_off_block = Some b' \<and> take 2 b' = [0, 0x21] \<and>
    take 2 (drop 2 b') = enc16 True (put_pos cut_off_block - 4)"
proof -
  have "put_ok (empty_buffer 8)" "room (empty_buffer 8) 6" "put_pos (empty_buffer 8) = 0"
    by (simp_all add: put_ok_def room_empty_buffer, simp_all add: empty_buffer_def)
  then show ?thesis
    using block_length_correct [OF keeps_buffer_mem _ _ surjective_pairing,
        of "empty_buffer 8" True "0x0021" "replicate 10 7"]
    by (simp add: cut_off_block_def enc16_def Let_def del: add_2_eq_Suc')
qed

subsection \<open>The NDR header of a request\<close>

definition enc_ndr :: "bool \<Rightarrow> pf_ndr_data \<Rightarrow> u8 list" where
  "enc_ndr e d = concat [enc32 e (ndr_args_maximum d), enc32 e (ndr_args_length d),
     enc32 e (ndr_maximum_count d), enc32 e (ndr_offset d), enc32 e (ndr_actual_count d)]"

lemma reads_ndr: "reads e pf_get_ndr_data_req (enc_ndr e d) (if ndr_req_ok d then 0 else - 1, d)"
proof -
  have "reads e get_ndr (enc_ndr e d) d"
    unfolding get_ndr_def enc_ndr_def by ((rule reads_intros)+, rule reads_return, simp)
  from reads_bind [OF this reads_return [OF refl],
      of "\<lambda>d. (if ndr_req_ok d then 0 else - 1, d)"] show ?thesis
    by (simp add: pf_get_ndr_data_req_def if_distrib if_distribR cong: if_cong)
qed

text \<open>A request's NDR header is accepted exactly when the argument length is the actual count,
  fits the maximum count, which fits the client's maximum, and the offset is zero; accepted or not,
  all five fields are delivered and 20 bytes are consumed.\<close>

theorem ndr_request_checked:
  assumes "parse_ready s (enc_ndr (is_big_endian s) d)"
  shows "\<exists>r. run_state pf_get_ndr_data_req s = ((r, d), s\<lparr>p_pos := p_pos s + 20\<rparr>) \<and>
    (r = 0 \<longleftrightarrow> ndr_args_length d = ndr_actual_count d \<and> ndr_args_length d \<le> ndr_maximum_count d \<and>
       ndr_maximum_count d \<le> ndr_args_maximum d \<and> ndr_offset d = 0)"
proof -
  have "length (enc_ndr (is_big_endian s) d) = 20" by (simp add: enc_ndr_def)
  with readsD [OF reads_ndr _ assms]
  have "run_state pf_get_ndr_data_req s = ((if ndr_req_ok d then 0 else - 1, d), s\<lparr>p_pos := p_pos s + 20\<rparr>)"
    by (simp add: advance_def)
  then show ?thesis
    by (auto simp: ndr_req_ok_def not_less intro: order_trans)
qed

lemma ndr_request_checked_witness:
  "fst (fst (run_state pf_get_ndr_data_req \<lparr>result = PF_PARSE_OK, is_big_endian = False,
     p_buf = Some [0, 1, 0, 0,  9, 0, 0, 0,  0, 1, 0, 0,  0, 0, 0, 0,  9, 0, 0, 0], len = 20, p_pos = 0\<rparr>)) = 0"
proof -
  let ?s = "\<lparr>result = PF_PARSE_OK, is_big_endian = False,
     p_buf = Some [0, 1, 0, 0,  9, 0, 0, 0,  0, 1, 0, 0,  0, 0, 0, 0,  9, 0, 0, 0], len = 20, p_pos = 0\<rparr> :: get_cursor"
  let ?d = "\<lparr>ndr_args_maximum = 256, ndr_args_length = 9, ndr_maximum_count = 256, ndr_offset = 0,
     ndr_actual_count = 9\<rparr>"
  have "parse_ready ?s (enc_ndr (is_big_endian ?s) ?d)"
    by (simp add: parse_ready_def enc_ndr_def enc32_def Let_def drop_bit_eq_div)
  from ndr_request_checked [OF this] show ?thesis by auto
qed

end
