(* ===== verification/Exp_Ident.thy ===== *)
theory Exp_Ident
  imports Block_Reader
begin

section \<open>The expected configuration of a connect request\<close>

text \<open>
  What \<open>pf_get_exp_api_module\<close> guarantees on arbitrary input: it never leaves the arrays of
  \<open>pf_exp_ident_t\<close>, and after a successful parse every count is within its array, so that the
  loops of the other components over these counts are in bounds. Also here: which getters keep
  an earlier parse error, and which do not.
\<close>

subsection \<open>Getters that keep a parse error\<close>

definition keeps_error :: "'a getter \<Rightarrow> bool" where
  "keeps_error m \<longleftrightarrow> (\<forall>s. result s \<noteq> PF_PARSE_OK \<longrightarrow> result (snd (run_state m s)) \<noteq> PF_PARSE_OK)"

named_theorems error_intros "getters after which an earlier error is still an error"

lemma keeps_error_sticky [error_intros]: "sticky m \<Longrightarrow> keeps_error m"
  by (simp add: sticky_def keeps_error_def)

lemma keeps_error_bind [error_intros]:
  "keeps_error m \<Longrightarrow> (\<And>x. keeps_error (f x)) \<Longrightarrow> keeps_error (m \<bind> f)"
  by (simp add: keeps_error_def split_beta)

lemma keeps_error_if [error_intros]:
  "(c \<Longrightarrow> keeps_error m) \<Longrightarrow> (\<not> c \<Longrightarrow> keeps_error n) \<Longrightarrow> keeps_error (if c then m else n)"
  by simp

lemma keeps_error_set_result [error_intros]: "r \<noteq> PF_PARSE_OK \<Longrightarrow> keeps_error (set_result r)"
  by (simp add: keeps_error_def set_result_def State_Monad.update_def)

lemma sticky_array [sticky_intros]: "(\<And>x. sticky (g x)) \<Longrightarrow> sticky (get_array g n ix xs)"
  by (induction n arbitrary: ix xs) (auto intro!: sticky_intros)

text \<open>Once a parse error is recorded, these parsers change neither the result nor the position,
  so a caller may parse a whole request and check the result once, at the end.\<close>

theorem getters_keep_first_error:
  "sticky (pf_get_uuid d1) \<and> sticky (pf_get_handle d2) \<and> sticky (pf_get_iocr_api_entry d3) \<and>
   sticky pf_get_block_header \<and> sticky (pf_get_ar_param d5) \<and> sticky pf_get_alarm_cr_request \<and>
   sticky (pf_get_ir_info_request d7) \<and> sticky pf_get_ar_rpc_request \<and>
   sticky (pf_get_ar_vendor_request ix d9) \<and> sticky (pf_get_control d10) \<and>
   sticky pf_get_ndr_data_req \<and> sticky pf_get_ndr_data_rsp \<and> sticky (pf_get_read_request d12) \<and>
   sticky (pf_get_epm_lookup_request d13) \<and> sticky (pf_get_write_request d14) \<and>
   sticky (pf_get_im_1 d15) \<and> sticky pf_get_alarm_fixed \<and> sticky (pf_get_alarm_data d16) \<and>
   sticky (pf_get_alarm_ack d17) \<and> sticky pf_get_pnio_status \<and> sticky pf_get_port_data_check \<and>
   sticky (pf_get_port_data_check_check_peers n d18) \<and> sticky pf_get_port_data_adjust \<and>
   sticky pf_get_port_data_adjust_peer_to_peer_boundary \<and> sticky pf_get_interface_adjust"
  unfolding getter_defs Let_def by (intro conjI sticky_intros)

lemma run_after_error:
  assumes "result s \<noteq> PF_PARSE_OK"
  shows "run_state pf_get_byte s = (0, s)" "run_state (pf_get_mem n d) s = (d, s)"
    "run_state pf_get_uint16 s = (0, s)" "run_state pf_get_uint32 s = (0, s)"
  using assms by (simp_all add: pf_get_byte_def pf_get_mem_def pf_get_uint16_def pf_get_uint32_def)

text \<open>Two parsers do not keep it: whatever error was recorded before them, the parsers of the
  parameter server and of the multicast CR return with the result set to OK.\<close>

theorem prm_server_and_mcr_erase_errors:
  assumes "result s \<noteq> PF_PARSE_OK"
  shows "result (snd (run_state (pf_get_ar_prm_server_request d) s)) = PF_PARSE_OK \<and>
    result (snd (run_state (pf_get_mcr_request d') s)) = PF_PARSE_OK"
  using assms
  by (simp add: pf_get_ar_prm_server_request_def pf_get_mcr_request_def pf_get_uuid_def Let_def
      run_after_error PNET_STATION_NAME_MAX_SIZE_def set_result_def State_Monad.update_def)

definition failed_cursor :: get_cursor where
  "failed_cursor = \<lparr>result = PF_PARSE_END_OF_INPUT, is_big_endian = True, p_buf = Some [1, 2], len = 2, p_pos = 2\<rparr>"

definition example_prm_server :: pf_prm_server where
  "example_prm_server = \<lparr>ps_object_uuid = \<lparr>data1 = 0, data2 = 0, data3 = 0, data4 = replicate 8 0\<rparr>,
     ps_activity_timeout_factor = 0, ps_station_name_len = 0, ps_station_name = replicate 241 0\<rparr>"

definition example_mcr :: pf_multicast_cr where
  "example_mcr = \<lparr>mc_iocr_reference = 0, mc_protocol = 0, mc_resolution_factor = 0, mc_mci_timeout_factor = 0,
     mc_length_provider_station_name = 0, mc_provider_station_name = replicate 241 0\<rparr>"

lemma prm_server_and_mcr_erase_errors_witness:
  "result (snd (run_state (pf_get_ar_prm_server_request example_prm_server) failed_cursor)) = PF_PARSE_OK"
  using prm_server_and_mcr_erase_errors [of failed_cursor example_prm_server example_mcr]
  by (simp add: failed_cursor_def)

subsection \<open>Bounds of the expected configuration\<close>

text \<open>The array sizes of the structs, and the counts that are checked while parsing.\<close>

definition submodule_sized :: "pf_exp_submodule \<Rightarrow> bool" where
  "submodule_sized sm \<longleftrightarrow> length (es_data_descriptor sm) = 2 \<and> es_nbr_data_descriptors sm \<le> 2"

definition module_sized :: "pf_exp_module \<Rightarrow> bool" where
  "module_sized m \<longleftrightarrow> length (em_submodule m) = PNET_MAX_SUBSLOTS \<and> list_all submodule_sized (em_submodule m)"

definition api_sized :: "pf_exp_api \<Rightarrow> bool" where
  "api_sized a \<longleftrightarrow> length (ea_module a) = PNET_MAX_SLOTS \<and> unat (ea_nbr_modules a) \<le> PNET_MAX_SLOTS \<and>
     list_all module_sized (ea_module a)"

definition ident_sized :: "pf_exp_ident \<Rightarrow> bool" where
  "ident_sized ei \<longleftrightarrow> length (ei_api ei) = PNET_MAX_API \<and> unat (ei_nbr_apis ei) \<le> PNET_MAX_API \<and>
     list_all api_sized (ei_api ei)"

text \<open>The count of submodules is stored before it is checked; an excessive count is a parse error.\<close>

definition api_counts :: "pf_exp_api \<Rightarrow> bool" where
  "api_counts a \<longleftrightarrow> list_all (\<lambda>m. unat (em_nbr_submodules m) \<le> PNET_MAX_SUBSLOTS)
     (take (unat (ea_nbr_modules a)) (ea_module a))"

definition ident_counts :: "pf_exp_ident \<Rightarrow> bool" where
  "ident_counts ei \<longleftrightarrow> list_all api_counts (take (unat (ei_nbr_apis ei)) (ei_api ei))"

text \<open>Assertions about the result value and the parse result.\<close>

definition ensures :: "(pf_get_result \<Rightarrow> bool) \<Rightarrow> 'a getter \<Rightarrow> ('a \<Rightarrow> pf_get_result \<Rightarrow> bool) \<Rightarrow> bool" where
  "ensures P m Q \<longleftrightarrow> (\<forall>s. P (result s) \<longrightarrow> (let (v, s') = run_state m s in Q v (result s')))"

lemma ensures_bind:
  "ensures P m Q \<Longrightarrow> (\<And>v. ensures (Q v) (f v) R) \<Longrightarrow> ensures P (m \<bind> f) R"
  by (fastforce simp: ensures_def split: prod.splits)

lemma ensures_return: "(\<And>r. P r \<Longrightarrow> Q v r) \<Longrightarrow> ensures P (State_Monad.return v) Q"
  by (simp add: ensures_def)

lemma ensures_set_result:
  assumes "r' \<noteq> PF_PARSE_OK" "\<And>r. r \<noteq> PF_PARSE_OK \<Longrightarrow> Q v r"
  shows "ensures P (set_result r' \<bind> (\<lambda>_. State_Monad.return v)) Q"
  using assms by (simp add: ensures_def set_result_def State_Monad.update_def)

lemma ensures_cong: "ensures P m Q \<Longrightarrow> (\<And>r. P' r \<Longrightarrow> P r) \<Longrightarrow> (\<And>v r. Q v r \<Longrightarrow> Q' v r) \<Longrightarrow> ensures P' m Q'"
  by (fastforce simp: ensures_def)

text \<open>A getter that keeps errors keeps what holds in the absence of errors.\<close>

lemma ensures_frame:
  "keeps_error m \<Longrightarrow> ensures (\<lambda>r. r = PF_PARSE_OK \<longrightarrow> A) m (\<lambda>_ r. r = PF_PARSE_OK \<longrightarrow> A)"
  by (fastforce simp: ensures_def keeps_error_def)

lemma ensures_if:
  "(c \<Longrightarrow> ensures P m Q) \<Longrightarrow> (\<not> c \<Longrightarrow> ensures P n Q) \<Longrightarrow> ensures P (if c then m else n) Q"
  by simp

lemma ensures_conj:
  "ensures P m Q \<Longrightarrow> ensures P m Q' \<Longrightarrow> ensures P m (\<lambda>v r. Q v r \<and> Q' v r)"
  by (fastforce simp: ensures_def)

abbreviation returns :: "'a getter \<Rightarrow> ('a \<Rightarrow> bool) \<Rightarrow> bool" where
  "returns m A \<equiv> ensures (\<lambda>_. True) m (\<lambda>v _. A v)"

lemma returns_any: "returns m (\<lambda>_. True)"
  by (simp add: ensures_def)

lemma returns_return: "A v \<Longrightarrow> returns (State_Monad.return v) A"
  by (simp add: ensures_def)

lemma returns_bind: "returns m A \<Longrightarrow> (\<And>v. A v \<Longrightarrow> returns (f v) B) \<Longrightarrow> returns (m \<bind> f) B"
  by (fastforce simp: ensures_def split: prod.splits)

lemma returns_exp_submodule:
  assumes "submodule_sized d"
  shows "returns (pf_get_exp_submodule d) submodule_sized"
  using assms by (simp add: ensures_def pf_get_exp_submodule_def Let_def split_beta submodule_sized_def)

lemma returns_array:
  assumes "\<And>x. S x \<Longrightarrow> returns (g x) S"
  shows "list_all S xs \<Longrightarrow> ix + n \<le> length xs \<Longrightarrow>
    returns (get_array g n ix xs) (\<lambda>ys. list_all S ys \<and> length ys = length xs)"
proof (induction n arbitrary: ix xs)
  case 0
  then show ?case by (simp add: returns_return)
next
  case (Suc n)
  have "returns (g (xs ! ix)) S"
    using Suc.prems by (intro assms) (simp add: list_all_length)
  then have "returns (g (xs ! ix) \<bind> (\<lambda>x. get_array g n (Suc ix) (store ix x xs)))
      (\<lambda>ys. list_all S ys \<and> length ys = length xs)"
  proof (rule returns_bind)
    fix x assume "S x"
    then have "list_all S (xs[ix := x])"
      using Suc.prems by (auto simp: list_all_length nth_list_update)
    then show "returns (get_array g n (Suc ix) (store ix x xs)) (\<lambda>ys. list_all S ys \<and> length ys = length xs)"
      using Suc.IH [of "xs[ix := x]" "Suc ix"] Suc.prems by simp
  qed
  then show ?case by simp
qed

lemma sticky_exp_submodule [sticky_intros]: "sticky (pf_get_exp_submodule d)"
  unfolding pf_get_exp_submodule_def get_data_descriptor_def Let_def by (intro sticky_intros)

lemma list_all_update: "list_all P xs \<Longrightarrow> P x \<Longrightarrow> list_all P (xs[i := x])"
  by (cases "i < length xs") (auto simp: list_all_length nth_list_update)

text \<open>Appending a module behind the last one.\<close>

definition append_module :: "pf_exp_api \<Rightarrow> pf_exp_module \<Rightarrow> pf_exp_api" where
  "append_module ap m = ap\<lparr>ea_nbr_modules := ea_nbr_modules ap + 1,
     ea_module := (ea_module ap)[unat (ea_nbr_modules ap) := m]\<rparr>"

lemma append_module:
  assumes "api_sized ap" "unat (ea_nbr_modules ap) < PNET_MAX_SLOTS"
  shows "module_sized m \<Longrightarrow> api_sized (append_module ap m)"
    and "api_counts ap \<Longrightarrow> unat (em_nbr_submodules m) \<le> PNET_MAX_SUBSLOTS \<Longrightarrow>
      api_counts (append_module ap m)"
proof -
  have "unat (ea_nbr_modules ap + 1) = Suc (unat (ea_nbr_modules ap))"
    using unat_add_of_nat [of "ea_nbr_modules ap" 1] assms(2) by (simp add: PNET_MAX_SLOTS_def)
  then show "module_sized m \<Longrightarrow> api_sized (append_module ap m)"
    and "api_counts ap \<Longrightarrow> unat (em_nbr_submodules m) \<le> PNET_MAX_SUBSLOTS \<Longrightarrow>
      api_counts (append_module ap m)"
    using assms
    by (auto simp: append_module_def api_counts_def api_sized_def list_all_update list_all_length
        nth_list_update less_Suc_eq)
qed

lemma api_valid_simps [simp]:
  "api_sized (a\<lparr>ea_valid := b\<rparr>) = api_sized a" "api_counts (a\<lparr>ea_valid := b\<rparr>) = api_counts a"
  by (simp_all add: api_sized_def api_counts_def)

lemma get_exp_module_append:
  assumes "api_sized ap"
  shows "get_exp_module ap = do {
     slot \<leftarrow> pf_get_uint16;
     if unat (ea_nbr_modules ap) < PNET_MAX_SLOTS then do {
       ident \<leftarrow> pf_get_uint32;
       props \<leftarrow> pf_get_uint16;
       nsub \<leftarrow> pf_get_uint16;
       let md = (ea_module ap ! unat (ea_nbr_modules ap))\<lparr>em_slot_number := slot,
         em_ident_number := ident, em_properties := props, em_nbr_submodules := nsub\<rparr>;
       if unat nsub \<le> PNET_MAX_SUBSLOTS then do {
         subs \<leftarrow> get_array pf_get_exp_submodule (unat nsub) 0 (em_submodule md);
         State_Monad.return ((append_module ap (md\<lparr>em_submodule := subs\<rparr>))\<lparr>ea_valid := True\<rparr>)
       } else do {
         set_result PF_PARSE_OUT_OF_EXP_SUBMODULE_RESOURCES;
         State_Monad.return (append_module ap md)
       }
     } else do {
       set_result PF_PARSE_OUT_OF_EXP_SUBMODULE_RESOURCES;
       State_Monad.return ap
     }
   }"
  using assms unfolding get_exp_module_def append_module_def Let_def by (simp add: api_sized_def cong: if_cong)

lemma ensures_exp_module:
  assumes ap: "api_sized ap"
  shows "ensures (\<lambda>r. r = PF_PARSE_OK \<longrightarrow> api_counts ap) (get_exp_module ap)
    (\<lambda>ap' r. api_sized ap' \<and> (r = PF_PARSE_OK \<longrightarrow> api_counts ap'))"
proof (cases "unat (ea_nbr_modules ap) < PNET_MAX_SLOTS")
  case False
  then show ?thesis
    using ap unfolding get_exp_module_append [OF ap]
    by (auto intro!: ensures_bind [OF ensures_frame] ensures_set_result error_intros sticky_intros)
next
  case True
  let ?m = "unat (ea_nbr_modules ap)"
  have old: "module_sized (ea_module ap ! ?m)"
    using ap True by (simp add: api_sized_def list_all_length)
  have arr: "ensures (\<lambda>r. r = PF_PARSE_OK \<longrightarrow> api_counts ap)
      (get_array pf_get_exp_submodule (unat n) 0 (em_submodule (ea_module ap ! ?m)))
      (\<lambda>subs r. (list_all submodule_sized subs \<and> length subs = PNET_MAX_SUBSLOTS) \<and>
         (r = PF_PARSE_OK \<longrightarrow> api_counts ap))"
    if "unat n \<le> PNET_MAX_SUBSLOTS" for n :: u16
  proof (rule ensures_conj)
    have "returns (get_array pf_get_exp_submodule (unat n) 0 (em_submodule (ea_module ap ! ?m)))
        (\<lambda>subs. list_all submodule_sized subs \<and> length subs = length (em_submodule (ea_module ap ! ?m)))"
      using old that by (intro returns_array returns_exp_submodule) (simp_all add: module_sized_def)
    then show "ensures (\<lambda>r. r = PF_PARSE_OK \<longrightarrow> api_counts ap)
        (get_array pf_get_exp_submodule (unat n) 0 (em_submodule (ea_module ap ! ?m)))
        (\<lambda>subs _. list_all submodule_sized subs \<and> length subs = PNET_MAX_SUBSLOTS)"
      using old by (auto simp: module_sized_def elim!: ensures_cong)
    show "ensures (\<lambda>r. r = PF_PARSE_OK \<longrightarrow> api_counts ap)
        (get_array pf_get_exp_submodule (unat n) 0 (em_submodule (ea_module ap ! ?m)))
        (\<lambda>_ r. r = PF_PARSE_OK \<longrightarrow> api_counts ap)"
      by (intro ensures_frame error_intros sticky_intros)
  qed
  let ?md = "\<lambda>slot ident props n. (ea_module ap ! ?m)\<lparr>em_slot_number := slot,
         em_ident_number := ident, em_properties := props, em_nbr_submodules := n\<rparr>"
  note grow = append_module [OF ap True]
  have full: "ensures (\<lambda>r. r = PF_PARSE_OK \<longrightarrow> api_counts ap) (do {
         subs \<leftarrow> get_array pf_get_exp_submodule (unat n) 0 (em_submodule (?md slot ident props n));
         State_Monad.return ((append_module ap ((?md slot ident props n)\<lparr>em_submodule := subs\<rparr>))\<lparr>ea_valid := True\<rparr>)
       }) (\<lambda>ap' r. api_sized ap' \<and> (r = PF_PARSE_OK \<longrightarrow> api_counts ap'))"
    if "unat n \<le> PNET_MAX_SUBSLOTS" for slot ident props n
    using that by (auto simp: module_sized_def intro!: ensures_bind [OF arr] ensures_return grow)
  have sized: "module_sized (?md slot ident props n)" for slot ident props n
    using old by (simp add: module_sized_def)
  show ?thesis
    unfolding get_exp_module_append [OF ap] Let_def
    using True
    by (auto simp del: pf_exp_module.select_convs intro!: grow sized full ensures_bind [OF ensures_frame]
        ensures_if ensures_set_result error_intros sticky_intros)
qed

definition api_in_use :: "pf_exp_ident \<Rightarrow> nat option \<Rightarrow> bool" where
  "api_in_use ei api \<longleftrightarrow> (case api of None \<Rightarrow> True | Some a \<Rightarrow> a < unat (ei_nbr_apis ei))"

lemma find_exp_api_in_use: "api_in_use ei api \<Longrightarrow> api_in_use ei (find_exp_api ei x api)"
proof -
  have "api_in_use ei (foldl (\<lambda>r iy. if ea_valid (ei_api ei ! iy) \<and> ea_api (ei_api ei ! iy) = x
      then Some iy else r) r is)"
    if "api_in_use ei r" "\<forall>i \<in> set is. i < unat (ei_nbr_apis ei)" for r "is"
    using that by (induction "is" arbitrary: r) (auto simp: api_in_use_def)
  then show "api_in_use ei api \<Longrightarrow> ?thesis" by (simp add: find_exp_api_def)
qed

lemma alloc_exp_api_ok:
  assumes "ident_sized ei" "api_in_use ei api" "alloc_exp_api ei x api = (api', ei')"
  shows "ident_sized ei' \<and> api_in_use ei' api' \<and> (ident_counts ei \<longrightarrow> ident_counts ei')"
proof (cases "api = None \<and> unat (ei_nbr_apis ei) < PNET_MAX_API")
  case True
  have n: "unat (ei_nbr_apis ei + 1) = Suc (unat (ei_nbr_apis ei))"
    using unat_add_of_nat [of "ei_nbr_apis ei" 1] True by (simp add: PNET_MAX_API_def)
  let ?new = "(ei_api ei ! unat (ei_nbr_apis ei))\<lparr>ea_api := x, ea_nbr_modules := 0, ea_nbr_diff_modules := 0\<rparr>"
  have "api_sized ?new" "api_counts ?new"
    using assms(1) True by (auto simp: ident_sized_def api_sized_def api_counts_def list_all_length)
  then show ?thesis
    using assms True n
    by (auto simp: alloc_exp_api_def Let_def ident_sized_def ident_counts_def api_in_use_def
        list_all_update list_all_length nth_list_update less_Suc_eq)
qed (use assms in \<open>auto simp: alloc_exp_api_def\<close>)

lemma keeps_error_exp_module: "keeps_error (get_exp_module ap)"
  unfolding get_exp_module_def Let_def by (intro error_intros sticky_intros) simp_all

lemma ident_update:
  assumes "ident_sized ei" "api_in_use ei (Some a)" "api_sized ap"
  shows "ident_sized (ei\<lparr>ei_api := store a ap (ei_api ei)\<rparr>) \<and>
    api_in_use (ei\<lparr>ei_api := store a ap (ei_api ei)\<rparr>) (Some a) \<and>
    (ident_counts ei \<and> api_counts ap \<longrightarrow> ident_counts (ei\<lparr>ei_api := store a ap (ei_api ei)\<rparr>))"
  using assms by (auto simp: ident_sized_def ident_counts_def api_in_use_def list_all_update
      list_all_length nth_list_update)

text \<open>Reading one module into the API \<open>a\<close> of the configuration.\<close>

lemma ensures_module_update:
  assumes ei: "ident_sized ei" "api_in_use ei (Some a)"
    and rest: "\<And>ei'. ident_sized ei' \<Longrightarrow> api_in_use ei' (Some a) \<Longrightarrow>
      ensures (\<lambda>r. r = PF_PARSE_OK \<longrightarrow> ident_counts ei') (f ei') Q"
  shows "ensures (\<lambda>r. r = PF_PARSE_OK \<longrightarrow> ident_counts ei)
    (get_exp_module (ei_api ei ! a) \<bind> (\<lambda>ap. f (ei\<lparr>ei_api := store a ap (ei_api ei)\<rparr>))) Q"
proof -
  have a: "api_sized (ei_api ei ! a)" "ident_counts ei \<Longrightarrow> api_counts (ei_api ei ! a)"
    using ei by (auto simp: api_in_use_def ident_sized_def ident_counts_def list_all_length)
  have "ensures (\<lambda>r. r = PF_PARSE_OK \<longrightarrow> ident_counts ei) (get_exp_module (ei_api ei ! a)) (\<lambda>ap r.
      (api_sized ap \<and> (r = PF_PARSE_OK \<longrightarrow> api_counts ap)) \<and> (r = PF_PARSE_OK \<longrightarrow> ident_counts ei))"
    by (rule ensures_conj [OF ensures_cong [OF ensures_exp_module [OF a(1)]]
          ensures_frame [OF keeps_error_exp_module]]) (use a in auto)
  then show ?thesis
  proof (rule ensures_bind)
    fix ap
    show "ensures (\<lambda>r. (api_sized ap \<and> (r = PF_PARSE_OK \<longrightarrow> api_counts ap)) \<and>
        (r = PF_PARSE_OK \<longrightarrow> ident_counts ei)) (f (ei\<lparr>ei_api := store a ap (ei_api ei)\<rparr>)) Q"
    proof (cases "api_sized ap")
      case True
      note up = ident_update [OF ei True]
      show ?thesis by (rule ensures_cong [OF rest]) (use up in auto)
    qed (simp add: ensures_def)
  qed
qed

lemma ensures_exp_apis:
  "ident_sized ei \<Longrightarrow> api_in_use ei api \<Longrightarrow>
   ensures (\<lambda>r. r = PF_PARSE_OK \<longrightarrow> ident_counts ei) (get_exp_apis n api ei)
     (\<lambda>ei' r. ident_sized ei' \<and> (r = PF_PARSE_OK \<longrightarrow> ident_counts ei'))"
proof (induction n arbitrary: api ei)
  case 0
  then show ?case by (simp add: ensures_return)
next
  case (Suc n)
  let ?Q = "\<lambda>ei' r. ident_sized ei' \<and> (r = PF_PARSE_OK \<longrightarrow> ident_counts ei')"
  have "ensures (\<lambda>r. r = PF_PARSE_OK \<longrightarrow> ident_counts ei)
      (case alloc_exp_api ei x (find_exp_api ei x api) of (api, ei) \<Rightarrow>
        (case api of
          None \<Rightarrow> do { set_result PF_PARSE_OUT_OF_API_RESOURCES; get_exp_apis n api ei }
        | Some a \<Rightarrow> do {
            ap \<leftarrow> get_exp_module (ei_api ei ! a);
            get_exp_apis n api (ei\<lparr>ei_api := store a ap (ei_api ei)\<rparr>)
          })) ?Q" for x
  proof -
    obtain api' ei' where alloc: "alloc_exp_api ei x (find_exp_api ei x api) = (api', ei')"
      by (cases "alloc_exp_api ei x (find_exp_api ei x api)")
    note ok = alloc_exp_api_ok [OF Suc.prems(1) find_exp_api_in_use [OF Suc.prems(2)] alloc]
    show ?thesis
    proof (cases api')
      case None
      have "ensures P (set_result PF_PARSE_OUT_OF_API_RESOURCES) (\<lambda>_ r. r = PF_PARSE_OK \<longrightarrow> ident_counts ei')" for P
        by (simp add: ensures_def set_result_def State_Monad.update_def)
      then show ?thesis
        using ok None alloc Suc.IH [of ei' api'] by (auto intro: ensures_bind)
    next
      case (Some a)
      then show ?thesis
        using ok alloc Suc.IH [of _ api']
        by (auto intro: ensures_cong [OF ensures_module_update])
    qed
  qed
  then show ?case
    by (auto simp: Let_def intro!: ensures_bind [OF ensures_frame] error_intros sticky_intros)
qed

lemma exp_api_module_counts:
  assumes "ident_sized ei" "ident_counts ei" "run_state (pf_get_exp_api_module ei) s = (ei', s')"
  shows "ident_sized ei' \<and> (result s' = PF_PARSE_OK \<longrightarrow> ident_counts ei')"
proof -
  have "ensures (\<lambda>r. r = PF_PARSE_OK \<longrightarrow> ident_counts ei) (pf_get_exp_api_module ei)
      (\<lambda>ei' r. ident_sized ei' \<and> (r = PF_PARSE_OK \<longrightarrow> ident_counts ei'))"
    unfolding pf_get_exp_api_module_def using assms(1)
    by (intro ensures_bind [OF ensures_frame] ensures_exp_apis error_intros sticky_intros)
      (simp_all add: api_in_use_def)
  then have "case run_state (pf_get_exp_api_module ei) s of (ei', s') \<Rightarrow>
      ident_sized ei' \<and> (result s' = PF_PARSE_OK \<longrightarrow> ident_counts ei')"
    using assms(2) by (simp add: ensures_def)
  then show ?thesis using assms(3) by simp
qed

text \<open>C13: On input of any contents the parser of the expected configuration stays within the arrays
  for APIs, modules, submodules and data descriptors: a store behind an array would make it longer in the
  model (\<open>store\<close>), and all of them have their sizes at the end. Each submodule has at most two data
  descriptors. When the parse result is OK every count of modules and submodules is within its array.\<close>

theorem exp_api_module_bounds:
  assumes "ident_sized ei" "ident_counts ei" "run_state (pf_get_exp_api_module ei) s = (ei', s')"
  shows "ident_sized ei' \<and> (result s' = PF_PARSE_OK \<longrightarrow> ident_counts ei')"
  by (rule exp_api_module_counts [OF assms])

definition empty_submodule :: pf_exp_submodule where
  "empty_submodule = \<lparr>es_subslot_number = 0, es_ident_number = 0,
     es_properties = \<lparr>sp_type = 0, sp_sharedInput = False, sp_reduce_input_submodule_data_length = False,
       sp_reduce_output_submodule_data_length = False, sp_discard_ioxs = False\<rparr>,
     es_nbr_data_descriptors = 0,
     es_data_descriptor = replicate 2 \<lparr>dd_data_direction = 0, dd_submodule_data_length = 0,
       dd_length_iops = 0, dd_length_iocs = 0\<rparr>,
     es_state = \<lparr>ss_add_info = 0, ss_advice_avail = False, ss_maintenance_required = False,
       ss_maintenance_demanded = False, ss_fault = False, ss_ar_info = 0, ss_ident_info = 0,
       ss_format_indicator = False\<rparr>\<rparr>"

definition empty_ident :: pf_exp_ident where
  "empty_ident = \<lparr>ei_nbr_apis = 0,
     ei_api = replicate PNET_MAX_API \<lparr>ea_valid = False, ea_api = 0, ea_nbr_modules = 0,
       ea_module = replicate PNET_MAX_SLOTS \<lparr>em_slot_number = 0, em_ident_number = 0, em_properties = 0,
         em_state = 0, em_nbr_submodules = 0, em_submodule = replicate PNET_MAX_SUBSLOTS empty_submodule,
         em_nbr_diff_submodules = 0, em_diff_submodule = replicate PNET_MAX_SUBSLOTS 0\<rparr>,
       ea_nbr_diff_modules = 0, ea_diff_module = replicate PNET_MAX_SLOTS 0\<rparr>,
     ei_nbr_diff_apis = 0, ei_diff_api = replicate PNET_MAX_API 0\<rparr>"

text \<open>Two API entries, for API 0 and API 7, with one module each.\<close>

definition two_apis :: get_cursor where
  "two_apis = \<lparr>result = PF_PARSE_OK, is_big_endian = True, p_buf = Some [0, 2,
      0, 0, 0, 0,  0, 1,  0, 0, 0, 0,  0, 0,  0, 0,
      0, 0, 0, 7,  0, 2,  0, 0, 0, 0,  0, 0,  0, 0], len = 30, p_pos = 0\<rparr>"

lemma exp_api_module_bounds_witness:
  "ident_sized (fst (run_state (pf_get_exp_api_module empty_ident) two_apis))"
proof -
  have "ident_sized empty_ident" "ident_counts empty_ident"
    by (simp_all add: ident_sized_def ident_counts_def api_sized_def api_counts_def module_sized_def
        submodule_sized_def empty_ident_def empty_submodule_def PNET_MAX_API_def PNET_MAX_SLOTS_def
        PNET_MAX_SUBSLOTS_def numeral_eq_Suc)
  then show ?thesis
    using exp_api_module_bounds [OF _ _ surjective_pairing, of empty_ident two_apis] by simp
qed

text \<open>
  With room for one API only, a second, different API is not refused: its module is added to the
  first API, because the pointer to the API of the previous entry is still set.
\<close>

lemma second_api_merged:
  "(case run_state (pf_get_exp_api_module empty_ident) two_apis of (ei, s) \<Rightarrow>
     (result s, ei_nbr_apis ei, ea_api (ei_api ei ! 0), ea_nbr_modules (ei_api ei ! 0)))
   = (PF_PARSE_OK, 1, 0, 2)"
  by code_simp

end
