(* ===== verification/Scheduler.thy ===== *)
theory Scheduler
  imports Prelude
begin

section \<open>The scheduler\<close>

text \<open>
  \<open>pf_scheduler.c\<close>: an array of timeouts whose entries are linked, by index, into a busy
  queue ordered by deadline and a free queue. Times are \<open>uint32_t\<close> microseconds that wrap
  around; two deadlines are compared by the sign of their difference. An index is a
  natural number here, and \<open>PF_MAX_TIMEOUTS\<close> is \<open>none\<close>, as in the code. The functions return
  \<open>None\<close> where a \<open>CC_ASSERT\<close> of the code fails. Names are compared as pointers by the code;
  a name is the address of the string literal. Mutexes are not modelled: the model is one
  thread of control, which the callbacks of \<open>pf_scheduler_tick\<close> are part of.
\<close>

definition PF_MAX_TIMEOUTS :: nat where "PF_MAX_TIMEOUTS = 75"

text \<open>\<open>2 * PNET_MAX_AR * PNET_MAX_CR + 2 * PNET_MAX_PHYSICAL_PORTS + 9\<close> with 16 ARs, 2 CRs and 1 port.\<close>

definition PF_SCHEDULER_MAX_DELAY_US :: u32 where "PF_SCHEDULER_MAX_DELAY_US = 100000000"
definition UINT32_MAX :: nat where "UINT32_MAX = 4294967295"

type_synonym name_ptr = nat

record ('f, 'a) timeout =
  t_name :: name_ptr
  in_use :: bool
  expiry :: u32
  nxt :: nat
  prv :: nat
  cb :: 'f
  cb_arg :: 'a

record sched_handle =
  h_name :: name_ptr
  timer_index :: nat

record ('f, 'a) sched =
  timeouts :: "('f, 'a) timeout list"
  first_q :: nat
  free_q :: nat
  tick_interval :: u32

text \<open>Assigning to the members of one array entry.\<close>

definition upd :: "nat \<Rightarrow> ('t \<Rightarrow> 't) \<Rightarrow> 't list \<Rightarrow> 't list" where
  "upd i f ts = ts[i := f (ts ! i)]"

subsection \<open>Queue operations\<close>

text \<open>The loop of \<open>pf_scheduler_is_linked\<close>; \<open>n\<close> is what its guard \<open>cnt\<close> leaves.\<close>

primrec is_linked_loop ::
    "nat \<Rightarrow> ('f, 'a) timeout list \<Rightarrow> nat \<Rightarrow> nat \<Rightarrow> bool \<Rightarrow> bool option" where
  "is_linked_loop 0 ts first ix ret = (if first < PF_MAX_TIMEOUTS then None else Some ret)"
| "is_linked_loop (Suc n) ts first ix ret =
     (if first < PF_MAX_TIMEOUTS
      then is_linked_loop n ts (nxt (ts ! first)) ix (ret \<or> first = ix)
      else Some ret)"

definition pf_scheduler_is_linked :: "('f, 'a) timeout list \<Rightarrow> nat \<Rightarrow> nat \<Rightarrow> bool option" where
  "pf_scheduler_is_linked ts first ix =
     (if ix < PF_MAX_TIMEOUTS then is_linked_loop PF_MAX_TIMEOUTS ts first ix False else Some False)"

text \<open>The queue operations get the array and \<open>*p_q\<close>, and return both.\<close>

definition pf_scheduler_unlink ::
    "('f, 'a) timeout list \<Rightarrow> nat \<Rightarrow> nat \<Rightarrow> (('f, 'a) timeout list \<times> nat) option" where
  "pf_scheduler_unlink ts q ix =
     (if ix \<ge> PF_MAX_TIMEOUTS then Some (ts, q)
      else do {
        linked \<leftarrow> pf_scheduler_is_linked ts q ix;
        if \<not> linked then Some (ts, q)
        else do {
          let prev_ix = prv (ts ! ix);
          let next_ix = nxt (ts ! ix);
          let q = (if q = ix then next_ix else q);
          let ts = (if next_ix < PF_MAX_TIMEOUTS then upd next_ix (prv_update (\<lambda>_. prev_ix)) ts else ts);
          let ts = (if prev_ix < PF_MAX_TIMEOUTS then upd prev_ix (nxt_update (\<lambda>_. next_ix)) ts else ts);
          Some (ts, q)
        }
      })"

definition put_first :: "('f, 'a) timeout list \<Rightarrow> nat \<Rightarrow> nat \<Rightarrow> ('f, 'a) timeout list \<times> nat" where
  "put_first ts q ix = (let
     ts = upd ix (\<lambda>t. t\<lparr>prv := PF_MAX_TIMEOUTS, nxt := q\<rparr>) ts;
     ts = (if q < PF_MAX_TIMEOUTS then upd q (prv_update (\<lambda>_. ix)) ts else ts)
     in (ts, ix))"

definition pf_scheduler_link_after ::
    "('f, 'a) timeout list \<Rightarrow> nat \<Rightarrow> nat \<Rightarrow> nat \<Rightarrow> (('f, 'a) timeout list \<times> nat) option" where
  "pf_scheduler_link_after ts q ix pos =
     (if ix \<ge> PF_MAX_TIMEOUTS then Some (ts, q)
      else do {
        linked \<leftarrow> pf_scheduler_is_linked ts q ix;
        if linked then Some (ts, q)
        else if pos \<ge> PF_MAX_TIMEOUTS then Some (put_first ts q ix)
        else if q \<ge> PF_MAX_TIMEOUTS then
          Some (upd ix (\<lambda>t. t\<lparr>prv := PF_MAX_TIMEOUTS, nxt := PF_MAX_TIMEOUTS\<rparr>) ts, ix)
        else do {
          let next_ix = nxt (ts ! pos);
          let ts = (if next_ix < PF_MAX_TIMEOUTS then upd next_ix (prv_update (\<lambda>_. ix)) ts else ts);
          let ts = upd pos (nxt_update (\<lambda>_. ix)) ts;
          Some (upd ix (\<lambda>t. t\<lparr>prv := pos, nxt := next_ix\<rparr>) ts, q)
        }
      })"

definition pf_scheduler_link_before ::
    "('f, 'a) timeout list \<Rightarrow> nat \<Rightarrow> nat \<Rightarrow> nat \<Rightarrow> (('f, 'a) timeout list \<times> nat) option" where
  "pf_scheduler_link_before ts q ix pos =
     (if ix \<ge> PF_MAX_TIMEOUTS then Some (ts, q)
      else do {
        linked \<leftarrow> pf_scheduler_is_linked ts q ix;
        if linked then Some (ts, q)
        else if pos \<ge> PF_MAX_TIMEOUTS then Some (put_first ts q ix)
        else if q \<ge> PF_MAX_TIMEOUTS then
          Some (upd ix (\<lambda>t. t\<lparr>prv := PF_MAX_TIMEOUTS, nxt := PF_MAX_TIMEOUTS\<rparr>) ts, ix)
        else do {
          let prev_ix = prv (ts ! pos);
          let ts = (if prev_ix < PF_MAX_TIMEOUTS then upd prev_ix (nxt_update (\<lambda>_. ix)) ts else ts);
          let ts = upd pos (prv_update (\<lambda>_. ix)) ts;
          Some (upd ix (\<lambda>t. t\<lparr>nxt := pos, prv := prev_ix\<rparr>) ts, if q = pos then ix else q)
        }
      })"

subsection \<open>Handles\<close>

definition pf_scheduler_reset_handle :: "sched_handle \<Rightarrow> sched_handle" where
  "pf_scheduler_reset_handle h = h\<lparr>timer_index := UINT32_MAX\<rparr>"

definition pf_scheduler_init_handle :: "name_ptr \<Rightarrow> sched_handle" where
  "pf_scheduler_init_handle nm = pf_scheduler_reset_handle \<lparr>h_name = nm, timer_index = 0\<rparr>"

definition pf_scheduler_is_running :: "sched_handle \<Rightarrow> bool" where
  "pf_scheduler_is_running h = (if timer_index h = UINT32_MAX then False else True)"

subsection \<open>Delays\<close>

definition pf_scheduler_sanitize_delay :: "u32 \<Rightarrow> u32 \<Rightarrow> bool \<Rightarrow> u32 option" where
  "pf_scheduler_sanitize_delay wanted_delay stack_cycle_time schedule_half_tick_in_advance =
     (if \<not> stack_cycle_time > 0 then None
      else do {
        let wanted_delay = (if wanted_delay > PF_SCHEDULER_MAX_DELAY_US then 0 else wanted_delay);
        let number_of_stack_ticks =
          (if wanted_delay > stack_cycle_time + stack_cycle_time div 2
           then (wanted_delay + stack_cycle_time div 2) div stack_cycle_time else 1);
        if \<not> number_of_stack_ticks \<ge> 1 then None
        else if \<not> number_of_stack_ticks < 0x80000000 then None
        else do {
          let resulting_delay = number_of_stack_ticks * stack_cycle_time;
          Some (if schedule_half_tick_in_advance then resulting_delay - stack_cycle_time div 2
                else resulting_delay)
        }
      })"

subsection \<open>The scheduler's operations\<close>

text \<open>
  \<open>free_name\<close> is the address of the literal \<open><free>\<close>, \<open>no_cb\<close> and \<open>no_arg\<close> the zeroed
  callback and argument. The loop of \<open>pf_scheduler_init\<close> links \<open>ix - 1\<close> for falling \<open>ix\<close>.
\<close>

primrec init_loop ::
    "nat \<Rightarrow> name_ptr \<Rightarrow> ('f, 'a) timeout list \<Rightarrow> nat \<Rightarrow> (('f, 'a) timeout list \<times> nat) option" where
  "init_loop 0 free_name ts q = Some (ts, q)"
| "init_loop (Suc ix) free_name ts q = do {
     let ts = upd ix (\<lambda>t. t\<lparr>t_name := free_name, in_use := False\<rparr>) ts;
     (ts, q) \<leftarrow> pf_scheduler_link_before ts q ix q;
     init_loop ix free_name ts q
   }"

definition pf_scheduler_init ::
    "u32 \<Rightarrow> name_ptr \<Rightarrow> 'f \<Rightarrow> 'a \<Rightarrow> ('f, 'a) sched option" where
  "pf_scheduler_init interval free_name no_cb no_arg =
     (if \<not> interval > 0 then None
      else do {
        let ts = replicate PF_MAX_TIMEOUTS \<lparr>t_name = 0, in_use = False, expiry = 0, nxt = 0, prv = 0,
          cb = no_cb, cb_arg = no_arg\<rparr>;
        (ts, q) \<leftarrow> init_loop PF_MAX_TIMEOUTS free_name ts PF_MAX_TIMEOUTS;
        Some \<lparr>timeouts = ts, first_q = PF_MAX_TIMEOUTS, free_q = q, tick_interval = interval\<rparr>
      })"

text \<open>\<open>later a b\<close>: \<open>(int32_t)(a - b) > 0\<close>.\<close>

definition later :: "u32 \<Rightarrow> u32 \<Rightarrow> bool" where
  "later a b \<longleftrightarrow> 0 < sint (a - b)"

text \<open>
  The search loop of \<open>pf_scheduler_add\<close>; it does not end on a cyclic queue, so it is a
  partial function.
\<close>

partial_function (option) find_pos ::
    "('f, 'a) timeout list \<Rightarrow> u32 \<Rightarrow> nat \<Rightarrow> nat \<Rightarrow> nat option" where
  "find_pos ts w ix_prev ix_this =
     (if ix_this < PF_MAX_TIMEOUTS \<and> later w (expiry (ts ! ix_this))
      then find_pos ts w ix_this (nxt (ts ! ix_this))
      else Some ix_prev)"

text \<open>The three cases of \<open>pf_scheduler_add\<close> for the place in the busy queue.\<close>

definition insert_busy ::
    "('f, 'a) timeout list \<Rightarrow> nat \<Rightarrow> nat \<Rightarrow> (('f, 'a) timeout list \<times> nat) option" where
  "insert_busy ts q ix =
     (if q \<ge> PF_MAX_TIMEOUTS then pf_scheduler_link_before ts q ix PF_MAX_TIMEOUTS
      else if \<not> later (expiry (ts ! ix)) (expiry (ts ! q)) then pf_scheduler_link_before ts q ix q
      else do {
        ix_prev \<leftarrow> find_pos ts (expiry (ts ! ix)) q (nxt (ts ! q));
        pf_scheduler_link_after ts q ix ix_prev
      })"

text \<open>\<open>now\<close> is what \<open>os_get_current_time_us\<close> returns. The result is \<open>0\<close> or \<open>-1\<close>.\<close>

definition pf_scheduler_add ::
    "u32 \<Rightarrow> u32 \<Rightarrow> 'f \<Rightarrow> 'a \<Rightarrow> sched_handle \<Rightarrow> ('f, 'a) sched \<Rightarrow>
     (int \<times> sched_handle \<times> ('f, 'a) sched) option" where
  "pf_scheduler_add now wanted f arg handle s = do {
     delay \<leftarrow> pf_scheduler_sanitize_delay wanted (tick_interval s) True;
     let ix_free = free_q s;
     (ts, fq) \<leftarrow> pf_scheduler_unlink (timeouts s) (free_q s) ix_free;
     let s = s\<lparr>timeouts := ts, free_q := fq\<rparr>;
     if ix_free \<ge> PF_MAX_TIMEOUTS then Some (- 1, handle\<lparr>timer_index := UINT32_MAX\<rparr>, s)
     else do {
       let ts = upd ix_free (\<lambda>t. t\<lparr>in_use := True, t_name := h_name handle, cb := f, cb_arg := arg,
         expiry := now + delay\<rparr>) (timeouts s);
       (ts, bq) \<leftarrow> insert_busy ts (first_q s) ix_free;
       Some (0, handle\<lparr>timer_index := ix_free + 1\<rparr>, s\<lparr>timeouts := ts, first_q := bq\<rparr>)
     }
   }"

text \<open>Taking a busy entry out and freeing it, as \<open>pf_scheduler_remove\<close> and \<open>_tick\<close> do.\<close>

definition release :: "nat \<Rightarrow> ('f, 'a) sched \<Rightarrow> ('f, 'a) sched option" where
  "release ix s = do {
     (ts, bq) \<leftarrow> pf_scheduler_unlink (timeouts s) (first_q s) ix;
     let ts = upd ix (in_use_update (\<lambda>_. False)) ts;
     (ts, fq) \<leftarrow> pf_scheduler_link_before ts (free_q s) ix (free_q s);
     Some (s\<lparr>timeouts := ts, first_q := bq, free_q := fq\<rparr>)
   }"

definition pf_scheduler_remove ::
    "sched_handle \<Rightarrow> ('f, 'a) sched \<Rightarrow> (sched_handle \<times> ('f, 'a) sched) option" where
  "pf_scheduler_remove handle s =
     (if timer_index handle = 0 \<or> timer_index handle > PF_MAX_TIMEOUTS then Some (handle, s)
      else do {
        let ix = timer_index handle - 1;
        if t_name (timeouts s ! ix) \<noteq> h_name handle then Some (handle, s)
        else if \<not> in_use (timeouts s ! ix) then Some (handle, s)
        else do {
          s \<leftarrow> release ix s;
          Some (handle\<lparr>timer_index := UINT32_MAX\<rparr>, s)
        }
      })"

definition pf_scheduler_remove_if_running ::
    "sched_handle \<Rightarrow> ('f, 'a) sched \<Rightarrow> (sched_handle \<times> ('f, 'a) sched) option" where
  "pf_scheduler_remove_if_running handle s =
     (if pf_scheduler_is_running handle then pf_scheduler_remove handle s else Some (handle, s))"

definition pf_scheduler_restart ::
    "u32 \<Rightarrow> u32 \<Rightarrow> 'f \<Rightarrow> 'a \<Rightarrow> sched_handle \<Rightarrow> ('f, 'a) sched \<Rightarrow>
     (int \<times> sched_handle \<times> ('f, 'a) sched) option" where
  "pf_scheduler_restart now delay f arg handle s = do {
     (handle, s) \<leftarrow> pf_scheduler_remove_if_running handle s;
     pf_scheduler_add now delay f arg handle s
   }"

text \<open>
  The scheduler tick at the time \<open>now\<close>. \<open>call\<close> is the execution of a callback, on the
  scheduler and the rest \<open>'e\<close> of the stack; a callback may add and remove timers.
\<close>

partial_function (option) pf_scheduler_tick ::
    "('f \<Rightarrow> 'a \<Rightarrow> u32 \<Rightarrow> ('f, 'a) sched \<times> 'e \<Rightarrow> (('f, 'a) sched \<times> 'e) option) \<Rightarrow> u32 \<Rightarrow>
     ('f, 'a) sched \<times> 'e \<Rightarrow> (('f, 'a) sched \<times> 'e) option" where
  "pf_scheduler_tick call now se =
     (if first_q (fst se) < PF_MAX_TIMEOUTS \<and>
         0 \<le> sint (now - expiry (timeouts (fst se) ! first_q (fst se)))
      then Option.bind (release (first_q (fst se)) (fst se)) (\<lambda>s.
        let t = timeouts (fst se) ! first_q (fst se) in
        Option.bind (call (cb t) (cb_arg t) now (s, snd se)) (\<lambda>se.
        pf_scheduler_tick call now se))
      else Some se)"

end
