(* ===== verification/Timer_Queue.thy ===== *)
theory Timer_Queue
  imports Scheduler
begin

section \<open>The queues of the scheduler as lists\<close>

text \<open>
  A queue of the scheduler is a doubly linked list inside the array. \<open>queue ts q xs\<close> says that
  the links of \<open>ts\<close>, from head \<open>q\<close>, form the list \<open>xs\<close> of indices. The lemmas give the effect
  of the link operations of the code on such lists; \<open>relinked\<close> is their frame: only the links
  of the named entries change.
\<close>

definition head_or :: "nat \<Rightarrow> nat list \<Rightarrow> nat" where
  "head_or n xs = (case xs of [] \<Rightarrow> n | x # _ \<Rightarrow> x)"

definition last_or :: "nat \<Rightarrow> nat list \<Rightarrow> nat" where
  "last_or p xs = (if xs = [] then p else last xs)"

lemma head_or_simps [simp]: "head_or n [] = n" "head_or n (x # xs) = x"
  by (simp_all add: head_or_def)

lemma head_or_append [simp]: "head_or n (xs @ ys) = head_or (head_or n ys) xs"
  by (cases xs) simp_all

lemma last_or_simps [simp]: "last_or p [] = p" "last_or p (x # xs) = last_or x xs"
  "last_or p (xs @ ys) = last_or (last_or p xs) ys"
  by (simp_all add: last_or_def)

lemma last_or_in: "xs \<noteq> [] \<Longrightarrow> last_or p xs \<in> set xs"
  by (simp add: last_or_def)

lemma head_or_in: "xs \<noteq> [] \<Longrightarrow> head_or n xs \<in> set xs"
  by (cases xs) simp_all

primrec dseg :: "('f, 'a) timeout list \<Rightarrow> nat \<Rightarrow> nat list \<Rightarrow> nat \<Rightarrow> bool" where
  "dseg ts p [] n \<longleftrightarrow> True"
| "dseg ts p (x # xs) n \<longleftrightarrow> x < PF_MAX_TIMEOUTS \<and> prv (ts ! x) = p \<and> nxt (ts ! x) = head_or n xs \<and> dseg ts x xs n"

lemma dseg_append [simp]:
  "dseg ts p (xs @ ys) n \<longleftrightarrow> dseg ts p xs (head_or n ys) \<and> dseg ts (last_or p xs) ys n"
  by (induction xs arbitrary: p) auto

lemma dseg_cong:
  "(\<And>x. x \<in> set xs \<Longrightarrow> prv (ts' ! x) = prv (ts ! x) \<and> nxt (ts' ! x) = nxt (ts ! x)) \<Longrightarrow>
   dseg ts' p xs n = dseg ts p xs n"
  by (induction xs arbitrary: p) auto

lemma dseg_less: "dseg ts p xs n \<Longrightarrow> x \<in> set xs \<Longrightarrow> x < PF_MAX_TIMEOUTS"
  by (induction xs arbitrary: p) auto

lemma nth_upd: "i < length ts \<Longrightarrow> upd j f ts ! i = (if i = j then f (ts ! i) else ts ! i)"
  by (simp add: upd_def nth_list_update)

lemma length_upd [simp]: "length (upd i f ts) = length ts"
  by (simp add: upd_def)

lemma nth_upd_other [simp]: "i \<noteq> j \<Longrightarrow> upd j f ts ! i = ts ! i"
  by (simp add: upd_def)

lemma dseg_upd_other [simp]: "j \<notin> set xs \<Longrightarrow> dseg (upd j f ts) p xs n = dseg ts p xs n"
  by (rule dseg_cong) (metis nth_upd_other)

text \<open>Redirecting the end and the front of a segment.\<close>

definition set_nxt :: "nat \<Rightarrow> nat \<Rightarrow> ('f, 'a) timeout list \<Rightarrow> ('f, 'a) timeout list" where
  "set_nxt i m ts = (if i < PF_MAX_TIMEOUTS then upd i (nxt_update (\<lambda>_. m)) ts else ts)"

definition set_prv :: "nat \<Rightarrow> nat \<Rightarrow> ('f, 'a) timeout list \<Rightarrow> ('f, 'a) timeout list" where
  "set_prv i m ts = (if i < PF_MAX_TIMEOUTS then upd i (prv_update (\<lambda>_. m)) ts else ts)"

lemma length_set [simp]: "length (set_nxt i m ts) = length ts" "length (set_prv i m ts) = length ts"
  by (simp_all add: set_nxt_def set_prv_def)

lemma nth_set_other [simp]: "i \<noteq> j \<Longrightarrow> set_nxt j m ts ! i = ts ! i" "i \<noteq> j \<Longrightarrow> set_prv j m ts ! i = ts ! i"
  by (simp_all add: set_nxt_def set_prv_def)

lemma nth_set_same:
  assumes "length ts = PF_MAX_TIMEOUTS" "i < PF_MAX_TIMEOUTS"
  shows "set_nxt i m ts ! i = (ts ! i)\<lparr>nxt := m\<rparr>" "set_prv i m ts ! i = (ts ! i)\<lparr>prv := m\<rparr>"
  using assms by (simp_all add: set_nxt_def set_prv_def nth_upd)

lemma dseg_set_other [simp]:
  "j \<notin> set xs \<Longrightarrow> dseg (set_nxt j m ts) p xs n = dseg ts p xs n"
  "j \<notin> set xs \<Longrightarrow> dseg (set_prv j m ts) p xs n = dseg ts p xs n"
  by (simp_all add: set_nxt_def set_prv_def)

lemma dseg_set_nxt:
  assumes "dseg ts p xs n" "distinct xs" "length ts = PF_MAX_TIMEOUTS" "j = last_or j' xs" "j' \<notin> set xs"
  shows "dseg (set_nxt j m ts) p xs m"
proof (cases xs rule: rev_cases)
  case (snoc ys y)
  then have j: "j = y" using assms(4) by simp
  have "dseg ts p ys y" "y < PF_MAX_TIMEOUTS" "prv (ts ! y) = last_or p ys" "y \<notin> set ys"
    using assms(1,2) snoc by auto
  then show ?thesis
    using snoc j assms(3) by (simp add: nth_set_same)
qed simp

lemma dseg_set_prv:
  assumes "dseg ts p xs n" "distinct xs" "length ts = PF_MAX_TIMEOUTS" "j = head_or j' xs"
  shows "dseg (set_prv j m ts) m xs n"
  using assms by (cases xs) (simp_all add: nth_set_same)

subsection \<open>Queues\<close>

definition queue :: "('f, 'a) timeout list \<Rightarrow> nat \<Rightarrow> nat list \<Rightarrow> bool" where
  "queue ts q xs \<longleftrightarrow> length ts = PF_MAX_TIMEOUTS \<and> q = head_or PF_MAX_TIMEOUTS xs \<and>
     dseg ts PF_MAX_TIMEOUTS xs PF_MAX_TIMEOUTS \<and> distinct xs"

lemma queue_less: "queue ts q xs \<Longrightarrow> x \<in> set xs \<Longrightarrow> x < PF_MAX_TIMEOUTS"
  by (auto simp: queue_def dest: dseg_less)

lemma queue_length: "queue ts q xs \<Longrightarrow> length xs \<le> PF_MAX_TIMEOUTS"
proof -
  assume q: "queue ts q xs"
  then have "set xs \<subseteq> {..<PF_MAX_TIMEOUTS}" by (auto dest: queue_less)
  then have "card (set xs) \<le> card {..<PF_MAX_TIMEOUTS}" by (rule card_mono [rotated]) simp
  then show ?thesis using q by (simp add: queue_def distinct_card)
qed

lemma is_linked_loop:
  "dseg ts p xs PF_MAX_TIMEOUTS \<Longrightarrow> length xs \<le> n \<Longrightarrow>
   is_linked_loop n ts (head_or PF_MAX_TIMEOUTS xs) ix ret = Some (ret \<or> ix \<in> set xs)"
proof (induction xs arbitrary: n p ret)
  case Nil
  then show ?case by (cases n) simp_all
next
  case (Cons x xs)
  then obtain k where "n = Suc k" by (cases n) auto
  with Cons show ?case by auto
qed

text \<open>The guard of \<open>pf_scheduler_is_linked\<close> never fires on a queue, and its answer is right.\<close>

lemma is_linked: "queue ts q xs \<Longrightarrow> ix < PF_MAX_TIMEOUTS \<Longrightarrow> pf_scheduler_is_linked ts q ix = Some (ix \<in> set xs)"
  using queue_length [of ts q xs]
  by (auto simp: pf_scheduler_is_linked_def queue_def is_linked_loop)

text \<open>What the link operations leave alone.\<close>

definition payload :: "('f, 'a) timeout \<Rightarrow> name_ptr \<times> bool \<times> u32 \<times> 'f \<times> 'a" where
  "payload t = (t_name t, in_use t, expiry t, cb t, cb_arg t)"

definition relinked :: "nat set \<Rightarrow> ('f, 'a) timeout list \<Rightarrow> ('f, 'a) timeout list \<Rightarrow> bool" where
  "relinked S ts ts' \<longleftrightarrow> length ts' = length ts \<and> (\<forall>i < length ts. payload (ts' ! i) = payload (ts ! i)) \<and>
     (\<forall>i. i \<notin> S \<longrightarrow> ts' ! i = ts ! i)"

lemma payload_links [simp]: "payload (t\<lparr>nxt := n\<rparr>) = payload t" "payload (t\<lparr>prv := n\<rparr>) = payload t"
  by (simp_all add: payload_def)

lemma payloadD:
  assumes "payload t = payload u"
  shows "t_name t = t_name u" "in_use t = in_use u" "expiry t = expiry u" "cb t = cb u" "cb_arg t = cb_arg u"
  using assms by (simp_all add: payload_def)

lemma relinked_refl [simp]: "relinked S ts ts"
  by (simp add: relinked_def)

lemma relinked_upd:
  assumes "relinked S ts us" "j \<in> S" "\<And>t. payload (f t) = payload t"
  shows "relinked S ts (upd j f us)"
  using assms by (auto simp: relinked_def nth_upd) (metis nth_upd_other)

lemma relinked_set:
  assumes "relinked S ts us" "j < PF_MAX_TIMEOUTS \<Longrightarrow> j \<in> S"
  shows "relinked S ts (set_nxt j m us)" "relinked S ts (set_prv j m us)"
  using assms by (auto simp: set_nxt_def set_prv_def intro!: relinked_upd)

lemma queue_frame:
  assumes "queue ts q xs" "relinked S ts ts'" "set xs \<inter> S = {}"
  shows "queue ts' q xs"
proof -
  have "dseg ts' PF_MAX_TIMEOUTS xs PF_MAX_TIMEOUTS = dseg ts PF_MAX_TIMEOUTS xs PF_MAX_TIMEOUTS"
    using assms(2,3) by (intro dseg_cong) (auto simp: relinked_def)
  then show ?thesis using assms by (simp add: queue_def relinked_def)
qed

subsection \<open>The link operations\<close>

lemma head_or_PF: "head_or PF_MAX_TIMEOUTS xs < PF_MAX_TIMEOUTS \<Longrightarrow> head_or PF_MAX_TIMEOUTS xs \<in> set xs"
  by (cases xs) simp_all

lemma last_or_PF: "last_or PF_MAX_TIMEOUTS xs < PF_MAX_TIMEOUTS \<Longrightarrow> last_or PF_MAX_TIMEOUTS xs \<in> set xs"
  by (cases xs rule: rev_cases) simp_all

lemma unlink_queue:
  assumes q: "queue ts q (as @ ix # bs)"
  shows "\<exists>ts'. pf_scheduler_unlink ts q ix = Some (ts', head_or PF_MAX_TIMEOUTS (as @ bs)) \<and>
    queue ts' (head_or PF_MAX_TIMEOUTS (as @ bs)) (as @ bs) \<and> relinked (set (as @ bs)) ts ts'"
proof -
  let ?N = PF_MAX_TIMEOUTS
  let ?p = "last_or ?N as" and ?n = "head_or ?N bs"
  let ?ts = "set_nxt ?p ?n (set_prv ?n ?p ts)"
  have ix: "ix < ?N" using queue_less [OF q] by simp
  have d: "length ts = ?N" "q = head_or ix as" "dseg ts ?N as ix" "dseg ts ix bs ?N"
    "prv (ts ! ix) = ?p" "nxt (ts ! ix) = ?n" "distinct as" "distinct bs" "set as \<inter> set bs = {}"
    "ix \<notin> set as" "ix \<notin> set bs" "?N \<notin> set as" "?N \<notin> set bs"
    using q queue_less [OF q] by (auto simp: queue_def)
  have notin: "?n \<notin> set as" using d(9,12) by (cases bs) auto
  have notin': "?p \<notin> set bs" using d(9,13) by (cases as rule: rev_cases) auto
  have "(if q = ix then ?n else q) = head_or ?N (as @ bs)"
    using d by (cases as) auto
  then have run: "pf_scheduler_unlink ts q ix = Some (?ts, head_or ?N (as @ bs))"
    using ix is_linked [OF q ix] d(5,6) by (simp add: pf_scheduler_unlink_def Let_def set_nxt_def set_prv_def)
  have "dseg ?ts ?N as ?n"
    using d notin by (intro dseg_set_nxt [where n = ix and j' = ?N]) simp_all
  moreover have "dseg ?ts ?p bs ?N"
    using d notin' dseg_set_prv [OF d(4,8,1) refl, of ?N ?p] by simp
  ultimately have "queue ?ts (head_or ?N (as @ bs)) (as @ bs)"
    using d by (simp add: queue_def)
  moreover have "relinked (set (as @ bs)) ts ?ts"
    by (intro relinked_set relinked_refl) (auto dest: head_or_PF last_or_PF)
  ultimately show ?thesis using run by blast
qed

lemma put_first_queue:
  assumes q: "queue ts q xs" and ix: "ix < PF_MAX_TIMEOUTS" "ix \<notin> set xs"
  shows "\<exists>ts'. put_first ts q ix = (ts', ix) \<and> queue ts' ix (ix # xs) \<and> relinked (insert ix (set xs)) ts ts'"
proof -
  let ?N = PF_MAX_TIMEOUTS
  let ?us = "upd ix (\<lambda>t. t\<lparr>prv := ?N, nxt := q\<rparr>) ts"
  let ?ts = "set_prv q ix ?us"
  have d: "length ts = ?N" "q = head_or ?N xs" "dseg ts ?N xs ?N" "distinct xs"
    using q by (auto simp: queue_def)
  have u: "dseg ?us ?N xs ?N" using d ix by simp
  have "dseg ?ts ix xs ?N"
    using dseg_set_prv [OF u d(4) _ d(2)] d by simp
  moreover have "q \<noteq> ix" using d ix by (cases xs) auto
  ultimately have "queue ?ts ix (ix # xs)"
    using d ix by (simp add: queue_def nth_upd)
  moreover have "relinked (insert ix (set xs)) ts ?ts"
    using d by (intro relinked_set relinked_upd relinked_refl) (auto dest: head_or_PF)
  moreover have "put_first ts q ix = (?ts, ix)"
    by (simp add: put_first_def set_prv_def Let_def)
  ultimately show ?thesis by blast
qed

lemma link_before_queue:
  assumes q: "queue ts q (as @ bs)" and ix: "ix < PF_MAX_TIMEOUTS" "ix \<notin> set (as @ bs)"
    and pos: "pos = head_or PF_MAX_TIMEOUTS bs" "bs = [] \<Longrightarrow> as = []"
  shows "\<exists>ts'. pf_scheduler_link_before ts q ix pos = Some (ts', head_or ix as) \<and>
    queue ts' (head_or ix as) (as @ ix # bs) \<and> relinked (insert ix (set (as @ bs))) ts ts'"
proof (cases bs)
  case Nil
  then show ?thesis
    using put_first_queue [OF q, of ix] q ix pos is_linked [OF q ix(1)]
    by (simp add: pf_scheduler_link_before_def)
next
  case (Cons b bs')
  let ?N = PF_MAX_TIMEOUTS
  let ?p = "last_or ?N as"
  let ?vs = "upd b (prv_update (\<lambda>_. ix)) (set_nxt ?p ix ts)"
  let ?ts = "upd ix (\<lambda>t. t\<lparr>nxt := b, prv := ?p\<rparr>) ?vs"
  have d: "length ts = ?N" "q = head_or b as" "dseg ts ?N as b" "dseg ts ?p bs ?N" "prv (ts ! b) = ?p"
    "distinct as" "distinct bs" "set as \<inter> set bs = {}" "b < ?N" "pos = b" "?N \<notin> set as" "?N \<notin> set bs" "q < ?N"
    using q pos Cons queue_less [OF q] head_or_in [of "as @ bs" ?N] by (auto simp: queue_def)
  have p: "?p \<notin> set bs" using d(8,12) by (cases as rule: rev_cases) auto
  have b: "b \<notin> set as" using d(8) Cons by auto
  have run: "pf_scheduler_link_before ts q ix pos = Some (?ts, head_or ix as)"
  proof -
    have "(if q = b then ix else q) = head_or ix as" using d(2) b by (cases as) auto
    then show ?thesis
      using ix is_linked [OF q ix(1)] d(5,9,10,13) by (simp add: pf_scheduler_link_before_def Let_def set_nxt_def)
  qed
  have "dseg (set_nxt ?p ix ts) ?N as ix"
    using d by (intro dseg_set_nxt [where n = b and j' = ?N]) simp_all
  then have "dseg ?ts ?N as ix" using ix b by simp
  moreover have s: "dseg (set_nxt ?p ix ts) ?p bs ?N" using d(4) p by simp
  have "dseg (set_prv b ix (set_nxt ?p ix ts)) ix bs ?N"
    by (rule dseg_set_prv [OF s d(7), where j' = ?N]) (simp_all add: d(1) Cons)
  then have "dseg ?vs ix bs ?N" using d(9) by (simp add: set_prv_def)
  then have "dseg ?ts ix bs ?N" using ix by simp
  moreover have "nxt (?ts ! ix) = b \<and> prv (?ts ! ix) = ?p" using d(1) ix by (simp add: nth_upd)
  ultimately have "queue ?ts (head_or ix as) (as @ ix # bs)"
    using d ix Cons by (simp add: queue_def)
  moreover have "relinked (insert ix (set (as @ bs))) ts ?ts"
    using Cons by (intro relinked_upd relinked_set relinked_refl) (auto dest: last_or_PF)
  ultimately show ?thesis using run by blast
qed

lemma link_after_queue:
  assumes q: "queue ts q (as @ pos # bs)" and ix: "ix < PF_MAX_TIMEOUTS" "ix \<notin> set (as @ pos # bs)"
  shows "\<exists>ts'. pf_scheduler_link_after ts q ix pos = Some (ts', q) \<and>
    queue ts' q (as @ pos # ix # bs) \<and> relinked (insert ix (set (as @ pos # bs))) ts ts'"
proof -
  let ?N = PF_MAX_TIMEOUTS
  let ?n = "head_or ?N bs"
  let ?us = "set_prv ?n ix ts"
  let ?vs = "upd pos (nxt_update (\<lambda>_. ix)) ?us"
  let ?ts = "upd ix (\<lambda>t. t\<lparr>prv := pos, nxt := ?n\<rparr>) ?vs"
  have d: "length ts = ?N" "q = head_or pos as" "dseg ts ?N (as @ [pos]) ?n" "dseg ts pos bs ?N"
    "nxt (ts ! pos) = ?n" "distinct (as @ [pos])" "distinct bs" "set (as @ [pos]) \<inter> set bs = {}"
    "pos < ?N" "?N \<notin> set (as @ [pos])" "?N \<notin> set bs" "q < ?N"
    using q queue_less [OF q] head_or_in [of "as @ pos # bs" ?N] by (auto simp: queue_def)
  have n: "?n \<notin> set (as @ [pos])" using d(8,10) by (cases bs) auto
  have run: "pf_scheduler_link_after ts q ix pos = Some (?ts, q)"
    using ix is_linked [OF q ix(1)] d by (simp add: pf_scheduler_link_after_def Let_def set_prv_def)
  have "dseg ?us ?N (as @ [pos]) ?n" using d(3) n by simp
  then have "dseg (set_nxt pos ix ?us) ?N (as @ [pos]) ix"
    using d by (intro dseg_set_nxt [where n = ?n and j' = ?N]) simp_all
  then have "dseg ?vs ?N (as @ [pos]) ix" using d(9) by (simp add: set_nxt_def)
  then have "dseg ?ts ?N (as @ [pos]) ix" using ix by simp
  moreover have "dseg ?us ix bs ?N"
    using d by (intro dseg_set_prv [where j' = ?N]) simp_all
  then have "dseg ?ts ix bs ?N" using ix d(8) by simp
  moreover have "nxt (?ts ! ix) = ?n \<and> prv (?ts ! ix) = pos" using d(1) ix by (simp add: nth_upd)
  ultimately have "queue ?ts q (as @ pos # ix # bs)"
    using d ix by (simp add: queue_def)
  moreover have "relinked (insert ix (set (as @ pos # bs))) ts ?ts"
    by (intro relinked_upd relinked_set relinked_refl) (auto dest: head_or_PF)
  ultimately show ?thesis using run by blast
qed

end
