(* ===== verification/Timers.thy ===== *)
theory Timers
  imports Timer_Queue
begin

section \<open>The scheduler refines a pair of lists\<close>

text \<open>
  \<open>sched_rel s busy free\<close> relates a state of the scheduler to the list of running timers, in
  queue order, and the list of free entries: the two partition the array, and exactly the
  running ones are marked \<open>in_use\<close>. Every operation of the scheduler is an operation on these
  lists, and no assertion of the code fails.
\<close>

abbreviation deadline :: "('f, 'a) sched \<Rightarrow> nat \<Rightarrow> u32" where
  "deadline s i \<equiv> expiry (timeouts s ! i)"

definition sched_rel :: "('f, 'a) sched \<Rightarrow> nat list \<Rightarrow> nat list \<Rightarrow> bool" where
  "sched_rel s busy free \<longleftrightarrow> queue (timeouts s) (first_q s) busy \<and> queue (timeouts s) (free_q s) free \<and>
     set busy \<inter> set free = {} \<and> set busy \<union> set free = {..<PF_MAX_TIMEOUTS} \<and>
     (\<forall>i < PF_MAX_TIMEOUTS. in_use (timeouts s ! i) \<longleftrightarrow> i \<in> set busy) \<and> 0 < tick_interval s"

text \<open>Nothing but links changes, except for the entry \<open>ix\<close>.\<close>

definition others_kept :: "nat \<Rightarrow> ('f, 'a) sched \<Rightarrow> ('f, 'a) sched \<Rightarrow> bool" where
  "others_kept ix s s' \<longleftrightarrow> tick_interval s' = tick_interval s \<and>
     (\<forall>i < PF_MAX_TIMEOUTS. i \<noteq> ix \<longrightarrow> payload (timeouts s' ! i) = payload (timeouts s ! i))"

lemma queue_cong:
  assumes "length ts' = length ts" "\<And>i. prv (ts' ! i) = prv (ts ! i) \<and> nxt (ts' ! i) = nxt (ts ! i)"
  shows "queue ts' q xs = queue ts q xs"
  using dseg_cong [of xs ts' ts] assms by (simp add: queue_def)

lemma upd_links:
  assumes "\<And>t. prv (f t) = prv t" "\<And>t. nxt (f t) = nxt t"
  shows "prv (upd j f ts ! i) = prv (ts ! i)" "nxt (upd j f ts ! i) = nxt (ts ! i)"
proof -
  have "prv (upd j f ts ! i) = prv (ts ! i) \<and> nxt (upd j f ts ! i) = nxt (ts ! i)"
  proof (cases "i = j \<and> j < length ts")
    case True
    then show ?thesis using assms by (simp add: upd_def)
  next
    case False
    then have "upd j f ts ! i = ts ! i" by (auto simp: upd_def list_update_beyond not_less)
    then show ?thesis by simp
  qed
  then show "prv (upd j f ts ! i) = prv (ts ! i)" "nxt (upd j f ts ! i) = nxt (ts ! i)" by simp_all
qed

lemma queue_upd:
  assumes "\<And>t. prv (f t) = prv t" "\<And>t. nxt (f t) = nxt t"
  shows "queue (upd j f ts) q xs = queue ts q xs"
  using assms by (intro queue_cong) (simp_all add: upd_links)

lemma release_ok:
  assumes s: "sched_rel s (as @ ix # bs) free"
  shows "\<exists>s'. release ix s = Some s' \<and> sched_rel s' (as @ bs) (ix # free) \<and> others_kept ix s s' \<and>
    payload (timeouts s' ! ix) = payload ((timeouts s ! ix)\<lparr>in_use := False\<rparr>)"
proof -
  have q: "queue (timeouts s) (first_q s) (as @ ix # bs)" "queue (timeouts s) (free_q s) free"
    "set (as @ ix # bs) \<inter> set free = {}" "set (as @ ix # bs) \<union> set free = {..<PF_MAX_TIMEOUTS}"
    "\<forall>i < PF_MAX_TIMEOUTS. in_use (timeouts s ! i) \<longleftrightarrow> i \<in> set (as @ ix # bs)" "0 < tick_interval s"
    using s by (auto simp: sched_rel_def)
  have ix: "ix < PF_MAX_TIMEOUTS" "ix \<notin> set free" "ix \<notin> set (as @ bs)" using q(1,3,4) by (auto simp: queue_def)
  obtain ts1 where u: "pf_scheduler_unlink (timeouts s) (first_q s) ix = Some (ts1, head_or PF_MAX_TIMEOUTS (as @ bs))"
    "queue ts1 (head_or PF_MAX_TIMEOUTS (as @ bs)) (as @ bs)" "relinked (set (as @ bs)) (timeouts s) ts1"
    using unlink_queue [OF q(1)] by blast
  let ?ts2 = "upd ix (in_use_update (\<lambda>_. False)) ts1"
  have "queue ts1 (free_q s) free" using queue_frame [OF q(2) u(3)] q(3) by auto
  then have f2: "queue ?ts2 (free_q s) ([] @ free)" by (simp add: queue_upd)
  obtain ts3 where l: "pf_scheduler_link_before ?ts2 (free_q s) ix (free_q s) = Some (ts3, ix)"
    "queue ts3 ix (ix # free)" "relinked (insert ix (set free)) ?ts2 ts3"
    using link_before_queue [OF f2 ix(1), of "free_q s"] ix(2) q(2) by (auto simp: queue_def)
  let ?s' = "s\<lparr>timeouts := ts3, first_q := head_or PF_MAX_TIMEOUTS (as @ bs), free_q := ix\<rparr>"
  have run: "release ix s = Some ?s'" using u(1) l(1) by (simp add: release_def)
  have len: "length ts1 = PF_MAX_TIMEOUTS" using u(2) by (simp add: queue_def)
  have p3: "payload (ts3 ! i) = payload (?ts2 ! i)" if "i < PF_MAX_TIMEOUTS" for i
    using l(3) that len by (simp add: relinked_def)
  have p1: "payload (ts1 ! i) = payload (timeouts s ! i)" if "i < PF_MAX_TIMEOUTS" for i
    using u(3) that len by (simp add: relinked_def)
  have p: "payload (ts3 ! i) = payload (timeouts s ! i)" if "i < PF_MAX_TIMEOUTS" "i \<noteq> ix" for i
    using p3 p1 that by simp
  have pix: "payload (ts3 ! ix) = payload ((timeouts s ! ix)\<lparr>in_use := False\<rparr>)"
    using p3 [OF ix(1)] p1 [OF ix(1)] ix(1) len by (simp add: nth_upd payload_def)
  have "queue ?ts2 (head_or PF_MAX_TIMEOUTS (as @ bs)) (as @ bs)" using u(2) by (simp add: queue_upd)
  then have b3: "queue ts3 (head_or PF_MAX_TIMEOUTS (as @ bs)) (as @ bs)"
    using l(3) by (rule queue_frame) (use q(3) ix(3) in auto)
  have "in_use (ts3 ! i) \<longleftrightarrow> i \<in> set (as @ bs)" if "i < PF_MAX_TIMEOUTS" for i
    using that q(5) payloadD(2) [OF pix] payloadD(2) [OF p, of i] ix(3) by (cases "i = ix") auto
  then have "sched_rel ?s' (as @ bs) (ix # free)"
    using b3 l(2) q(3,4,6) ix by (auto simp: sched_rel_def)
  moreover have "others_kept ix s ?s'" using p by (simp add: others_kept_def)
  ultimately show ?thesis using run pix by auto
qed

subsection \<open>Initialisation\<close>

lemma init_loop_queue:
  assumes "queue ts q xs" "set xs \<inter> {..<n} = {}" "n \<le> PF_MAX_TIMEOUTS" "\<forall>t \<in> set ts. \<not> in_use t"
  shows "\<exists>ts'. init_loop n nm ts q = Some (ts', head_or PF_MAX_TIMEOUTS ([0 ..< n] @ xs)) \<and>
    queue ts' (head_or PF_MAX_TIMEOUTS ([0 ..< n] @ xs)) ([0 ..< n] @ xs) \<and> (\<forall>t \<in> set ts'. \<not> in_use t)"
  using assms
proof (induction n arbitrary: ts q xs)
  case 0
  then show ?case by (simp add: queue_def)
next
  case (Suc n)
  let ?us = "upd n (\<lambda>t. t\<lparr>t_name := nm, in_use := False\<rparr>) ts"
  have u: "queue ?us q ([] @ xs)" using Suc.prems(1) by (simp add: queue_upd)
  have n: "n < PF_MAX_TIMEOUTS" "n \<notin> set ([] @ xs)" using Suc.prems(2,3) by auto
  obtain ts1 where l: "pf_scheduler_link_before ?us q n q = Some (ts1, n)" "queue ts1 n (n # xs)"
    "relinked (insert n (set xs)) ?us ts1"
    using link_before_queue [OF u n, of q] Suc.prems(1) by (auto simp: queue_def)
  have "length ts = PF_MAX_TIMEOUTS" using Suc.prems(1) by (simp add: queue_def)
  then have "payload (ts1 ! i) = payload (?us ! i)" "\<not> in_use (?us ! i)" if "i < PF_MAX_TIMEOUTS" for i
    using l(3) Suc.prems(4) that by (auto simp: relinked_def nth_upd)
  then have "\<forall>t \<in> set ts1. \<not> in_use t"
    using payloadD(2) l(2) by (metis in_set_conv_nth queue_def)
  moreover have "set (n # xs) \<inter> {..<n} = {}" using Suc.prems(2) by auto
  ultimately show ?case
    using Suc.IH [OF l(2)] l(1) n(1) by auto
qed

lemma pf_scheduler_init_ok:
  assumes "0 < interval"
  shows "\<exists>s. pf_scheduler_init interval nm f a = Some s \<and> sched_rel s [] [0 ..< PF_MAX_TIMEOUTS] \<and>
    tick_interval s = interval"
proof -
  let ?ts = "replicate PF_MAX_TIMEOUTS \<lparr>t_name = 0, in_use = False, expiry = 0, nxt = 0, prv = 0, cb = f, cb_arg = a\<rparr>"
  have "queue ?ts PF_MAX_TIMEOUTS []" by (simp add: queue_def)
  then obtain ts' where i: "init_loop PF_MAX_TIMEOUTS nm ?ts PF_MAX_TIMEOUTS = Some (ts', head_or PF_MAX_TIMEOUTS [0 ..< PF_MAX_TIMEOUTS])"
    "queue ts' (head_or PF_MAX_TIMEOUTS [0 ..< PF_MAX_TIMEOUTS]) [0 ..< PF_MAX_TIMEOUTS]" "\<forall>t \<in> set ts'. \<not> in_use t"
    using init_loop_queue [of ?ts PF_MAX_TIMEOUTS "[]" PF_MAX_TIMEOUTS nm] by auto
  have "length ts' = PF_MAX_TIMEOUTS" using i(2) by (simp add: queue_def)
  then have "sched_rel \<lparr>timeouts = ts', first_q = PF_MAX_TIMEOUTS, free_q = head_or PF_MAX_TIMEOUTS [0 ..< PF_MAX_TIMEOUTS],
      tick_interval = interval\<rparr> [] [0 ..< PF_MAX_TIMEOUTS]"
    using i assms by (auto simp: sched_rel_def queue_def)
  then show ?thesis using i(1) assms by (auto simp: pf_scheduler_init_def)
qed

subsection \<open>Adding a timer\<close>

text \<open>The place of a deadline \<open>w\<close> in a queue: behind the timers that are due before it.\<close>

definition insert_timer :: "(nat \<Rightarrow> u32) \<Rightarrow> u32 \<Rightarrow> nat \<Rightarrow> nat list \<Rightarrow> nat list" where
  "insert_timer dl w x xs = takeWhile (\<lambda>y. later w (dl y)) xs @ x # dropWhile (\<lambda>y. later w (dl y)) xs"

lemma find_pos:
  "dseg ts p xs PF_MAX_TIMEOUTS \<Longrightarrow>
   find_pos ts w prev (head_or PF_MAX_TIMEOUTS xs) = Some (last_or prev (takeWhile (\<lambda>y. later w (expiry (ts ! y))) xs))"
proof (induction xs arbitrary: p prev)
  case Nil
  show ?case by (subst find_pos.simps) simp
next
  case (Cons x xs)
  then show ?case by (subst find_pos.simps) auto
qed

text \<open>The three cases of the insertion are one.\<close>

lemma insert_queue:
  assumes q: "queue ts q busy" and f: "f < PF_MAX_TIMEOUTS" "f \<notin> set busy"
  shows "\<exists>ts' q'. insert_busy ts q f = Some (ts', q') \<and>
    queue ts' q' (insert_timer (\<lambda>y. expiry (ts ! y)) (expiry (ts ! f)) f busy) \<and> relinked (insert f (set busy)) ts ts'"
proof (cases busy)
  case Nil
  then show ?thesis
    using link_before_queue [of ts q "[]" "[]" f PF_MAX_TIMEOUTS] q f
    by (auto simp: insert_busy_def queue_def insert_timer_def)
next
  case (Cons x xs)
  have x: "q = x" "x < PF_MAX_TIMEOUTS" "nxt (ts ! x) = head_or PF_MAX_TIMEOUTS xs" "dseg ts x xs PF_MAX_TIMEOUTS"
    using q Cons by (auto simp: queue_def)
  show ?thesis
  proof (cases "later (expiry (ts ! f)) (expiry (ts ! x))")
    case False
    have "\<exists>ts'. pf_scheduler_link_before ts q f q = Some (ts', head_or f []) \<and>
        queue ts' (head_or f []) ([] @ f # busy) \<and> relinked (insert f (set ([] @ busy))) ts ts'"
      by (rule link_before_queue) (use q f Cons x(1) in simp_all)
    then obtain ts' where "pf_scheduler_link_before ts q f q = Some (ts', f)"
      "queue ts' f (f # busy)" "relinked (insert f (set busy)) ts ts'"
      by auto
    moreover have "insert_timer (\<lambda>y. expiry (ts ! y)) (expiry (ts ! f)) f busy = f # busy"
      using False Cons by (simp add: insert_timer_def)
    ultimately show ?thesis
      using False x(1,2) by (simp add: insert_busy_def)
  next
    case True
    let ?P = "\<lambda>y. later (expiry (ts ! f)) (expiry (ts ! y))"
    obtain as l where asl: "x # takeWhile ?P xs = as @ [l]"
      by (cases "x # takeWhile ?P xs" rule: rev_cases) auto
    have "busy = (x # takeWhile ?P xs) @ dropWhile ?P xs" using Cons by simp
    then have split: "busy = as @ l # dropWhile ?P xs" unfolding asl by simp
    have new: "insert_timer (\<lambda>y. expiry (ts ! y)) (expiry (ts ! f)) f busy = as @ l # f # dropWhile ?P xs"
      using True Cons asl by (simp add: insert_timer_def)
    have "last_or x (takeWhile ?P xs) = l"
      using arg_cong [OF asl, of last] by (simp add: last_or_def)
    then have pos: "find_pos ts (expiry (ts ! f)) q (nxt (ts ! q)) = Some l"
      using find_pos [OF x(4), of "expiry (ts ! f)" x] x(1,3) by simp
    obtain ts' where "pf_scheduler_link_after ts q f l = Some (ts', q)"
      "queue ts' q (as @ l # f # dropWhile ?P xs)" "relinked (insert f (set busy)) ts ts'"
      using link_after_queue [of ts q as l "dropWhile ?P xs" f] q f unfolding split by blast
    then show ?thesis
      using True x(1,2) pos new by (auto simp: insert_busy_def)
  qed
qed

lemma pf_scheduler_add_ok:
  assumes s: "sched_rel s busy free" and d: "pf_scheduler_sanitize_delay wanted (tick_interval s) True = Some d"
  shows "(free = [] \<longrightarrow> pf_scheduler_add now wanted f a h s = Some (- 1, h\<lparr>timer_index := UINT32_MAX\<rparr>, s)) \<and>
    (\<forall>x fs. free = x # fs \<longrightarrow> (\<exists>s'. pf_scheduler_add now wanted f a h s = Some (0, h\<lparr>timer_index := x + 1\<rparr>, s') \<and>
      sched_rel s' (insert_timer (deadline s) (now + d) x busy) fs \<and> others_kept x s s' \<and>
      payload (timeouts s' ! x) = (h_name h, True, now + d, f, a)))"
proof (cases free)
  case Nil
  then have "free_q s = PF_MAX_TIMEOUTS" using s by (simp add: sched_rel_def queue_def)
  then have "pf_scheduler_add now wanted f a h s = Some (- 1, h\<lparr>timer_index := UINT32_MAX\<rparr>, s)"
    using d by (simp add: pf_scheduler_add_def pf_scheduler_unlink_def)
  then show ?thesis using Nil by simp
next
  case (Cons x fs)
  have q: "queue (timeouts s) (first_q s) busy" "queue (timeouts s) (free_q s) ([] @ x # fs)"
    "set busy \<inter> set (x # fs) = {}" "set busy \<union> set (x # fs) = {..<PF_MAX_TIMEOUTS}"
    "\<forall>i < PF_MAX_TIMEOUTS. in_use (timeouts s ! i) \<longleftrightarrow> i \<in> set busy" "0 < tick_interval s"
    using s Cons by (auto simp: sched_rel_def)
  have x: "free_q s = x" "x < PF_MAX_TIMEOUTS" "x \<notin> set busy" "x \<notin> set fs"
    using q(2,3) queue_less [OF q(2)] by (auto simp: queue_def)
  obtain ts1 where u: "pf_scheduler_unlink (timeouts s) (free_q s) x = Some (ts1, head_or PF_MAX_TIMEOUTS fs)"
    "queue ts1 (head_or PF_MAX_TIMEOUTS fs) fs" "relinked (set fs) (timeouts s) ts1"
    using unlink_queue [OF q(2)] by auto
  let ?ts2 = "upd x (\<lambda>t. t\<lparr>in_use := True, t_name := h_name h, cb := f, cb_arg := a, expiry := now + d\<rparr>) ts1"
  have len: "length ts1 = PF_MAX_TIMEOUTS" using u(2) by (simp add: queue_def)
  have "queue ts1 (first_q s) busy" using u(3) by (rule queue_frame [OF q(1)]) (use q(3) in auto)
  then have b2: "queue ?ts2 (first_q s) busy" by (simp add: queue_upd)
  have f2: "queue ?ts2 (head_or PF_MAX_TIMEOUTS fs) fs" using u(2) by (simp add: queue_upd)
  have w: "expiry (?ts2 ! x) = now + d" using len x(2) by (simp add: nth_upd)
  have p2: "payload (?ts2 ! i) = payload (timeouts s ! i)" if "i < PF_MAX_TIMEOUTS" "i \<noteq> x" for i
    using u(3) that len by (simp add: relinked_def)
  have "insert_timer (\<lambda>y. expiry (?ts2 ! y)) (now + d) x busy = insert_timer (deadline s) (now + d) x busy"
  proof -
    have "expiry (?ts2 ! y) = deadline s y" if "y \<in> set busy" for y
      using that x(3) queue_less [OF q(1) that] by (intro payloadD(3) [OF p2]) auto
    then show ?thesis
      unfolding insert_timer_def
      by (intro arg_cong2 [where f = "(@)"] arg_cong2 [where f = Cons] takeWhile_cong dropWhile_cong refl) auto
  qed
  then obtain ts3 bq where l: "insert_busy ?ts2 (first_q s) x = Some (ts3, bq)"
    "queue ts3 bq (insert_timer (deadline s) (now + d) x busy)" "relinked (insert x (set busy)) ?ts2 ts3"
    using insert_queue [OF b2 x(2,3)] w by auto
  let ?s' = "s\<lparr>timeouts := ts3, free_q := head_or PF_MAX_TIMEOUTS fs, first_q := bq\<rparr>"
  have run: "pf_scheduler_add now wanted f a h s = Some (0, h\<lparr>timer_index := x + 1\<rparr>, ?s')"
    using u(1) d x(1,2) l(1) by (simp add: pf_scheduler_add_def Let_def)
  have p3: "payload (ts3 ! i) = payload (?ts2 ! i)" if "i < PF_MAX_TIMEOUTS" for i
    using l(3) that len by (simp add: relinked_def)
  have pix: "payload (ts3 ! x) = (h_name h, True, now + d, f, a)"
    using p3 [OF x(2)] x(2) len by (simp add: nth_upd payload_def)
  have "in_use (ts3 ! i) \<longleftrightarrow> i \<in> insert x (set busy)" if "i < PF_MAX_TIMEOUTS" for i
    using that q(5) pix payloadD(2) [OF p3 [OF that]] payloadD(2) [OF p2 [OF that]]
    by (cases "i = x") (auto simp: payload_def)
  moreover have "set (insert_timer (deadline s) (now + d) x busy) = insert x (set busy)"
    using set_append [of "takeWhile (\<lambda>y. later (now + d) (deadline s y)) busy"
        "dropWhile (\<lambda>y. later (now + d) (deadline s y)) busy"]
    by (simp add: insert_timer_def)
  moreover have "queue ts3 (head_or PF_MAX_TIMEOUTS fs) fs"
    using l(3) by (rule queue_frame [OF f2]) (use q(3) x(4) in auto)
  ultimately have "sched_rel ?s' (insert_timer (deadline s) (now + d) x busy) fs"
    using l(2) q(3,4,6) x by (auto simp: sched_rel_def)
  moreover have "others_kept x s ?s'" using p2 p3 by (simp add: others_kept_def)
  ultimately show ?thesis using run pix Cons by auto
qed

subsection \<open>Removing a timer\<close>

text \<open>A handle of a timer that runs: it has the timer's name and the index of a busy entry.\<close>

definition handle_runs :: "sched_handle \<Rightarrow> ('f, 'a) sched \<Rightarrow> bool" where
  "handle_runs h s \<longleftrightarrow> 0 < timer_index h \<and> timer_index h \<le> PF_MAX_TIMEOUTS \<and>
     t_name (timeouts s ! (timer_index h - 1)) = h_name h \<and> in_use (timeouts s ! (timer_index h - 1))"

lemma pf_scheduler_remove_ok:
  assumes s: "sched_rel s busy free"
  shows "(\<not> handle_runs h s \<longrightarrow> pf_scheduler_remove h s = Some (h, s)) \<and>
    (handle_runs h s \<longrightarrow> (\<exists>s'. pf_scheduler_remove h s = Some (h\<lparr>timer_index := UINT32_MAX\<rparr>, s') \<and>
      sched_rel s' (remove1 (timer_index h - 1) busy) ((timer_index h - 1) # free) \<and>
      others_kept (timer_index h - 1) s s'))"
proof -
  let ?ix = "timer_index h - 1"
  have "pf_scheduler_remove h s = Some (h, s)" if "\<not> handle_runs h s"
    using that by (auto simp: handle_runs_def pf_scheduler_remove_def Let_def)
  moreover have "\<exists>s'. pf_scheduler_remove h s = Some (h\<lparr>timer_index := UINT32_MAX\<rparr>, s') \<and>
      sched_rel s' (remove1 ?ix busy) (?ix # free) \<and> others_kept ?ix s s'" if h: "handle_runs h s"
  proof -
    have "?ix < PF_MAX_TIMEOUTS" using h by (auto simp: handle_runs_def)
    then have "?ix \<in> set busy" using h s by (simp add: sched_rel_def handle_runs_def)
    then obtain as bs where b: "busy = as @ ?ix # bs" "?ix \<notin> set as" by (metis split_list_first)
    obtain s' where "release ?ix s = Some s'" "sched_rel s' (as @ bs) (?ix # free)" "others_kept ?ix s s'"
      using release_ok [of s as ?ix bs free] s b(1) by auto
    moreover have "remove1 ?ix busy = as @ bs" using b by (simp add: remove1_append)
    ultimately show ?thesis
      using h by (auto simp: handle_runs_def pf_scheduler_remove_def Let_def)
  qed
  ultimately show ?thesis by blast
qed

subsection \<open>The delay\<close>

text \<open>The delay in stack ticks: at least one, else the wanted delay rounded to whole ticks.\<close>

definition delay_ticks :: "nat \<Rightarrow> nat \<Rightarrow> nat" where
  "delay_ticks w c = (let w = (if w > 100000000 then 0 else w)
     in if w > c + c div 2 then (w + c div 2) div c else 1)"

lemma delay_ticks_bound:
  assumes "0 < c" "c \<le> 100000000"
  shows "1 \<le> delay_ticks w c" "delay_ticks w c * c \<le> 150000000"
proof -
  have "(x + c div 2) div c * c \<le> 150000000" if "x \<le> 100000000" for x
    using that assms(2) div_times_less_eq_dividend [of "x + c div 2" c] by linarith
  moreover have "1 \<le> (x + c div 2) div c" if "c + c div 2 < x" for x
    using that assms by (simp add: Suc_le_eq div_greater_zero_iff)
  ultimately show "1 \<le> delay_ticks w c" "delay_ticks w c * c \<le> 150000000"
    using assms by (simp_all add: delay_ticks_def Let_def)
qed

lemma unat_u32_add: "unat x + unat y < 4294967296 \<Longrightarrow> unat (x + y :: u32) = unat x + unat y"
  using unat_add_of_nat [of x "unat y"] by simp

lemma sanitize_delay:
  assumes c: "0 < c" "c \<le> PF_SCHEDULER_MAX_DELAY_US"
  shows "\<exists>d. pf_scheduler_sanitize_delay w c half = Some d \<and>
    unat d = delay_ticks (unat w) (unat c) * unat c - (if half then unat c div 2 else 0)"
proof -
  have c': "0 < unat c" "unat c \<le> 100000000"
    using c by (auto simp: word_less_nat_alt word_le_nat_alt PF_SCHEDULER_MAX_DELAY_US_def)
  let ?w = "if w > PF_SCHEDULER_MAX_DELAY_US then 0 else w"
  have w: "unat ?w = (if unat w > 100000000 then 0 else unat w)" "unat ?w \<le> 100000000"
    by (auto simp: word_less_nat_alt PF_SCHEDULER_MAX_DELAY_US_def)
  have half: "unat (c div 2) = unat c div 2" by (simp add: unat_div)
  have s1: "unat (c + c div 2) = unat c + unat c div 2" "unat (?w + c div 2) = unat ?w + unat c div 2"
    using c' w half by (simp_all add: unat_u32_add)
  let ?n = "if ?w > c + c div 2 then (?w + c div 2) div c else 1"
  have n: "unat ?n = delay_ticks (unat w) (unat c)"
    using s1 w(1) by (simp add: delay_ticks_def Let_def word_less_nat_alt unat_div)
  note b = delay_ticks_bound [OF c', of "unat w"]
  have "delay_ticks (unat w) (unat c) \<le> delay_ticks (unat w) (unat c) * unat c" using c' by simp
  then have "unat ?n < 0x80000000" unfolding n using b(2) by linarith
  then have ok: "1 \<le> ?n" "?n < 0x80000000"
    using n b(1) unfolding word_le_nat_alt word_less_nat_alt by simp_all
  have p: "unat (?n * c) = delay_ticks (unat w) (unat c) * unat c"
    using n b(2) by (simp add: unat_mult_lem [THEN iffD1])
  have "c div 2 \<le> ?n * c"
  proof -
    have "1 * unat c \<le> delay_ticks (unat w) (unat c) * unat c" using b(1) by (rule mult_le_mono1)
    then have "unat c div 2 \<le> unat (?n * c)" unfolding p by linarith
    then show ?thesis unfolding word_le_nat_alt half .
  qed
  then have "unat (?n * c - c div 2) = delay_ticks (unat w) (unat c) * unat c - unat c div 2"
    using p half by (simp add: unat_sub)
  then show ?thesis
    using c(1) ok p unfolding pf_scheduler_sanitize_delay_def Let_def by auto
qed

end
