(* ===== verification/Timer_Tick.thy ===== *)
theory Timer_Tick
  imports Timers
begin

section \<open>Deadlines in order, and the tick\<close>

text \<open>
  Deadlines wrap around in 32 bits, so the order of two of them means something only while
  they are less than 2^31 microseconds apart. \<open>timers_ok base s\<close> is the scheduler's invariant
  with all deadlines in the window of that size from \<open>base\<close>, and the busy queue in their order.
  The callbacks that the tick calls are an interface: \<open>timer_callbacks\<close> states what the
  scheduler relies on, and its lemma is that the tick ends with no due timer left.
\<close>

subsection \<open>Signed differences in a window\<close>

definition in_window :: "u32 \<Rightarrow> u32 \<Rightarrow> bool" where
  "in_window base x \<longleftrightarrow> uint (x - base) < 2147483648"

lemma sint_window:
  assumes "in_window base a" "in_window base b"
  shows "sint (a - b) = uint (a - base) - uint (b - base)"
proof -
  let ?x = "uint (a - base)" and ?y = "uint (b - base)"
  have "a - b = (a - base) - (b - base)" by simp
  then have "uint (a - b) = take_bit 32 (?x - ?y)"
    by (simp only: uint_word_ariths take_bit_eq_mod) simp
  then have "sint (a - b) = signed_take_bit 31 (?x - ?y)"
    by (simp add: sint_uint signed_take_bit_take_bit)
  moreover have "- 2147483648 \<le> ?x - ?y" "?x - ?y < 2147483648"
    using assms by (simp_all add: in_window_def) (use uint_ge_0 [of "a - base"] uint_ge_0 [of "b - base"] in linarith)+
  ultimately show ?thesis
    by (simp add: signed_take_bit_int_eq_self)
qed

lemma later_window:
  "in_window base a \<Longrightarrow> in_window base b \<Longrightarrow> later a b \<longleftrightarrow> uint (b - base) < uint (a - base)"
  by (simp add: later_def sint_window)

subsection \<open>The ordered busy queue\<close>

definition timers_ok :: "u32 \<Rightarrow> ('f, 'a) sched \<Rightarrow> nat list \<Rightarrow> nat list \<Rightarrow> bool" where
  "timers_ok base s busy free \<longleftrightarrow> sched_rel s busy free \<and> tick_interval s \<le> PF_SCHEDULER_MAX_DELAY_US \<and>
     (\<forall>i \<in> set busy. in_window base (deadline s i)) \<and>
     sorted (map (\<lambda>i. uint (deadline s i - base)) busy)"

lemma sched_rel_less: "sched_rel s busy free \<Longrightarrow> i \<in> set busy \<Longrightarrow> i < PF_MAX_TIMEOUTS"
  by (auto simp: sched_rel_def dest: queue_less)

lemma others_kept_deadline:
  "others_kept ix s s' \<Longrightarrow> i < PF_MAX_TIMEOUTS \<Longrightarrow> i \<noteq> ix \<Longrightarrow> deadline s' i = deadline s i"
  by (auto simp: others_kept_def intro: payloadD)

lemma sorted_insert:
  fixes t :: "nat \<Rightarrow> int"
  shows "sorted (map t xs) \<Longrightarrow> sorted (map t (takeWhile (\<lambda>y. t y < t x) xs @ x # dropWhile (\<lambda>y. t y < t x) xs))"
proof (induction xs)
  case (Cons y ys)
  show ?case
  proof (cases "t y < t x")
    case True
    have "\<forall>z \<in> set (takeWhile (\<lambda>y. t y < t x) ys @ x # dropWhile (\<lambda>y. t y < t x) ys). t y \<le> t z"
      using Cons.prems True by (auto dest: set_takeWhileD set_dropWhileD)
    then show ?thesis using Cons True by (auto simp: image_Un)
  qed (use Cons.prems in auto)
qed simp

lemma timers_ok_add:
  assumes ok: "timers_ok base s busy free"
    and win: "\<And>d. pf_scheduler_sanitize_delay wanted (tick_interval s) True = Some d \<Longrightarrow> in_window base (now + d)"
  shows "case free of
      [] \<Rightarrow> pf_scheduler_add now wanted f a h s = Some (- 1, h\<lparr>timer_index := UINT32_MAX\<rparr>, s)
    | x # fs \<Rightarrow> \<exists>s' d busy'. pf_scheduler_sanitize_delay wanted (tick_interval s) True = Some d \<and>
        pf_scheduler_add now wanted f a h s = Some (0, h\<lparr>timer_index := x + 1\<rparr>, s') \<and>
        timers_ok base s' busy' fs \<and> set busy' = insert x (set busy) \<and> others_kept x s s' \<and>
        payload (timeouts s' ! x) = (h_name h, True, now + d, f, a)"
proof -
  have rel: "sched_rel s busy free" using ok by (simp add: timers_ok_def)
  then have "0 < tick_interval s" by (simp add: sched_rel_def)
  moreover have tick: "tick_interval s \<le> PF_SCHEDULER_MAX_DELAY_US" using ok by (simp add: timers_ok_def)
  ultimately obtain d where d: "pf_scheduler_sanitize_delay wanted (tick_interval s) True = Some d"
    using sanitize_delay by blast
  show ?thesis
  proof (cases free)
    case Nil
    then show ?thesis using pf_scheduler_add_ok [OF rel d] by simp
  next
    case (Cons x fs)
    obtain s' where s': "pf_scheduler_add now wanted f a h s = Some (0, h\<lparr>timer_index := x + 1\<rparr>, s')"
      "sched_rel s' (insert_timer (deadline s) (now + d) x busy) fs" "others_kept x s s'"
      "payload (timeouts s' ! x) = (h_name h, True, now + d, f, a)"
      using pf_scheduler_add_ok [OF rel d, of now f a h] Cons by blast
    let ?busy = "insert_timer (deadline s) (now + d) x busy" and ?t = "\<lambda>i. uint (deadline s' i - base)"
    have x: "x \<notin> set busy" using rel Cons by (auto simp: sched_rel_def)
    have dx: "deadline s' x = now + d" using s'(4) by (simp add: payload_def)
    have dy: "deadline s' y = deadline s y" if "y \<in> set busy" for y
      using others_kept_deadline [OF s'(3) sched_rel_less [OF rel that]] that x by auto
    have later: "later (now + d) (deadline s y) \<longleftrightarrow> ?t y < ?t x" if "y \<in> set busy" for y
      using that ok d win by (simp add: dx dy timers_ok_def later_window [where base = base])
    have busy: "?busy = takeWhile (\<lambda>y. ?t y < ?t x) busy @ x # dropWhile (\<lambda>y. ?t y < ?t x) busy"
      using later unfolding insert_timer_def
      by (intro arg_cong2 [where f = "(@)"] arg_cong2 [where f = Cons] takeWhile_cong dropWhile_cong refl) auto
    have same: "map ?t busy = map (\<lambda>i. uint (deadline s i - base)) busy" using dy by simp
    have "sorted (map ?t busy)" unfolding same using ok by (simp add: timers_ok_def)
    then have "sorted (map ?t ?busy)" unfolding busy by (rule sorted_insert)
    moreover have set: "set ?busy = insert x (set busy)"
      using set_append [of "takeWhile (\<lambda>y. later (now + d) (deadline s y)) busy"
          "dropWhile (\<lambda>y. later (now + d) (deadline s y)) busy"]
      by (simp add: insert_timer_def)
    moreover have "\<forall>i \<in> set ?busy. in_window base (deadline s' i)"
      using set dx dy ok win [OF d] by (auto simp: timers_ok_def)
    moreover have "tick_interval s' = tick_interval s" using s'(3) by (simp add: others_kept_def)
    ultimately have "timers_ok base s' ?busy fs" using s'(2) tick by (simp add: timers_ok_def)
    then show ?thesis using Cons d s' set by auto
  qed
qed

lemma timers_ok_shrink:
  assumes ok: "timers_ok base s (as @ ix # bs) free"
    and s': "sched_rel s' (as @ bs) (ix # free)" "others_kept ix s s'"
  shows "timers_ok base s' (as @ bs) (ix # free)"
proof -
  have rel: "sched_rel s (as @ ix # bs) free" using ok by (simp add: timers_ok_def)
  then have ne: "y \<noteq> ix" if "y \<in> set (as @ bs)" for y using that by (auto simp: sched_rel_def queue_def)
  have dl: "deadline s' y = deadline s y" if "y \<in> set (as @ bs)" for y
    using others_kept_deadline [OF s'(2) sched_rel_less [OF s'(1) that] ne [OF that]] .
  have same: "map (\<lambda>i. uint (deadline s' i - base)) (as @ bs) = map (\<lambda>i. uint (deadline s i - base)) (as @ bs)"
    using dl by simp
  have "sorted (map (\<lambda>i. uint (deadline s i - base)) (as @ bs))"
    using ok by (simp add: timers_ok_def sorted_append)
  then have "sorted (map (\<lambda>i. uint (deadline s' i - base)) (as @ bs))" unfolding same .
  moreover have "\<forall>i \<in> set (as @ bs). in_window base (deadline s' i)"
    using ok dl by (simp add: timers_ok_def)
  moreover have "tick_interval s' = tick_interval s" using s'(2) by (simp add: others_kept_def)
  ultimately show ?thesis using s'(1) ok by (simp add: timers_ok_def)
qed

lemma timers_ok_release:
  assumes "timers_ok base s (as @ ix # bs) free"
  shows "\<exists>s'. release ix s = Some s' \<and> timers_ok base s' (as @ bs) (ix # free) \<and> others_kept ix s s'"
  using release_ok [of s as ix bs free] timers_ok_shrink [OF assms] assms
  by (auto simp: timers_ok_def)

lemma timers_ok_remove:
  assumes ok: "timers_ok base s busy free"
  shows "\<exists>h' s' busy' free'. pf_scheduler_remove h s = Some (h', s') \<and> timers_ok base s' busy' free' \<and>
    set busy' \<subseteq> set busy \<and> tick_interval s' = tick_interval s \<and> h_name h' = h_name h \<and>
    (\<forall>i \<in> set busy'. payload (timeouts s' ! i) = payload (timeouts s ! i)) \<and>
    (handle_runs h s \<longrightarrow> busy' = remove1 (timer_index h - 1) busy \<and> free' = (timer_index h - 1) # free \<and>
       \<not> pf_scheduler_is_running h') \<and>
    (\<not> handle_runs h s \<longrightarrow> h' = h \<and> s' = s \<and> busy' = busy \<and> free' = free)"
proof (cases "handle_runs h s")
  case False
  have rel: "sched_rel s busy free" using ok by (simp add: timers_ok_def)
  show ?thesis using False pf_scheduler_remove_ok [OF rel, of h] ok by auto
next
  case True
  let ?ix = "timer_index h - 1"
  have rel: "sched_rel s busy free" using ok by (simp add: timers_ok_def)
  have "?ix < PF_MAX_TIMEOUTS" using True by (auto simp: handle_runs_def)
  then have "?ix \<in> set busy" using True rel by (simp add: sched_rel_def handle_runs_def)
  then obtain as bs where b: "busy = as @ ?ix # bs" "?ix \<notin> set as" by (metis split_list_first)
  then have rem: "remove1 ?ix busy = as @ bs" by (simp add: remove1_append)
  obtain s' where s': "pf_scheduler_remove h s = Some (h\<lparr>timer_index := UINT32_MAX\<rparr>, s')"
    "sched_rel s' (as @ bs) (?ix # free)" "others_kept ?ix s s'"
    using pf_scheduler_remove_ok [OF rel, of h] True rem by auto
  have ok': "timers_ok base s' (as @ bs) (?ix # free)"
    using timers_ok_shrink [of base s as ?ix bs free s'] ok b(1) s'(2,3) by simp
  have "distinct busy" using rel by (simp add: sched_rel_def queue_def)
  then have "i \<noteq> ?ix" if "i \<in> set (as @ bs)" for i using that b(1) by auto
  then have "\<forall>i \<in> set (as @ bs). payload (timeouts s' ! i) = payload (timeouts s ! i)"
    using s'(3) sched_rel_less [OF s'(2)] unfolding others_kept_def by blast
  moreover have "set (as @ bs) \<subseteq> set busy" using b(1) by auto
  moreover have "tick_interval s' = tick_interval s" using s'(3) by (simp add: others_kept_def)
  ultimately show ?thesis
    using s'(1) ok' True rem by (auto simp: pf_scheduler_is_running_def)
qed

subsection \<open>The tick\<close>

definition due :: "u32 \<Rightarrow> ('f, 'a) sched \<Rightarrow> nat \<Rightarrow> bool" where
  "due now s i \<longleftrightarrow> 0 \<le> sint (now - deadline s i)"

definition due_set :: "u32 \<Rightarrow> ('f, 'a) sched \<Rightarrow> nat set" where
  "due_set now s = {i. i < PF_MAX_TIMEOUTS \<and> in_use (timeouts s ! i) \<and> due now s i}"

lemma due_set_busy: "sched_rel s busy free \<Longrightarrow> due_set now s = {i \<in> set busy. due now s i}"
  by (auto simp: due_set_def sched_rel_def)

lemma finite_due_set [simp]: "finite (due_set now s)"
  by (simp add: due_set_def)

lemma first_not_due:
  assumes ok: "timers_ok base s busy free" and now: "in_window base now"
    and stop: "\<not> (first_q s < PF_MAX_TIMEOUTS \<and> 0 \<le> sint (now - deadline s (first_q s)))"
  shows "due_set now s = {}"
proof (cases busy)
  case Nil
  then show ?thesis using ok due_set_busy [of s busy free now] by (simp add: timers_ok_def)
next
  case (Cons x xs)
  have x: "first_q s = x" "x < PF_MAX_TIMEOUTS"
    using ok Cons by (auto simp: timers_ok_def sched_rel_def queue_def)
  have win: "in_window base (deadline s i)" if "i \<in> set busy" for i using ok that by (simp add: timers_ok_def)
  have "uint (now - base) < uint (deadline s x - base)"
    using stop x sint_window [OF now win [of x]] Cons by simp
  moreover have "uint (deadline s x - base) \<le> uint (deadline s i - base)" if "i \<in> set busy" for i
    using ok Cons that by (auto simp: timers_ok_def)
  ultimately have "\<not> due now s i" if "i \<in> set busy" for i
    using that sint_window [OF now win [OF that]] by (fastforce simp: due_def)
  then show ?thesis using ok due_set_busy [of s busy free now] by (auto simp: timers_ok_def)
qed

text \<open>
  What the scheduler relies on when it calls back: the callback keeps the invariant of the
  timers and its own, and it leaves no timer due that was not due before. A callback that
  adds a timer for later and removes others does.
\<close>

locale timer_callbacks =
  fixes call :: "'f \<Rightarrow> 'a \<Rightarrow> u32 \<Rightarrow> ('f, 'a) sched \<times> 'e \<Rightarrow> (('f, 'a) sched \<times> 'e) option"
    and base now :: u32 and inv :: "'e \<Rightarrow> bool"
  assumes now_window: "inv e \<Longrightarrow> in_window base now"
    and call_ok: "timers_ok base s busy free \<Longrightarrow> inv e \<Longrightarrow>
      \<exists>s' e' busy' free'. call f a now (s, e) = Some (s', e') \<and> timers_ok base s' busy' free' \<and> inv e' \<and>
        due_set now s' \<subseteq> due_set now s"
begin

lemma tick_ends:
  "timers_ok base s busy free \<Longrightarrow> inv e \<Longrightarrow>
   \<exists>s' e' busy' free'. pf_scheduler_tick call now (s, e) = Some (s', e') \<and>
     timers_ok base s' busy' free' \<and> inv e' \<and> due_set now s' = {}"
proof (induction "card (due_set now s)" arbitrary: s e busy free rule: less_induct)
  case less
  let ?x = "first_q s"
  show ?case
  proof (cases "?x < PF_MAX_TIMEOUTS \<and> 0 \<le> sint (now - deadline s ?x)")
    case False
    then have "pf_scheduler_tick call now (s, e) = Some (s, e)"
      by (subst pf_scheduler_tick.simps) auto
    then show ?thesis using less.prems first_not_due [OF less.prems(1) now_window [OF less.prems(2)] False] by auto
  next
    case True
    then obtain bs where b: "busy = [] @ ?x # bs"
      using less.prems(1) by (cases busy) (auto simp: timers_ok_def sched_rel_def queue_def)
    obtain s1 where s1: "release ?x s = Some s1" "timers_ok base s1 ([] @ bs) (?x # free)" "others_kept ?x s s1"
      using timers_ok_release [of base s "[]" ?x bs free] less.prems(1) b by auto
    let ?t = "timeouts s ! ?x"
    obtain s2 e2 busy2 free2 where s2: "call (cb ?t) (cb_arg ?t) now (s1, e) = Some (s2, e2)"
      "timers_ok base s2 busy2 free2" "inv e2" "due_set now s2 \<subseteq> due_set now s1"
      using call_ok [OF s1(2) less.prems(2)] by blast
    have rel: "sched_rel s (?x # bs) free" "sched_rel s1 bs (?x # free)"
      using less.prems(1) s1(2) b by (simp_all add: timers_ok_def)
    have "due_set now s1 \<subseteq> due_set now s - {?x}"
    proof -
      have "?x \<notin> set bs" using rel(1) by (simp add: sched_rel_def queue_def)
      moreover have "deadline s1 i = deadline s i" if "i \<in> set bs" for i
        using others_kept_deadline [OF s1(3) sched_rel_less [OF rel(2) that]] that \<open>?x \<notin> set bs\<close> by auto
      ultimately show ?thesis
        unfolding due_set_busy [OF rel(1)] due_set_busy [OF rel(2)] by (auto simp: due_def)
    qed
    moreover have "?x \<in> due_set now s"
      using True due_set_busy [OF rel(1)] by (simp add: due_def)
    ultimately have "due_set now s2 \<subset> due_set now s" using s2(4) by blast
    then have "card (due_set now s2) < card (due_set now s)" by (intro psubset_card_mono) simp_all
    from less.hyps [OF this s2(2,3)] show ?thesis
      using True s1(1) s2(1) by (subst pf_scheduler_tick.simps) (auto simp: Let_def)
  qed
qed

end


section \<open>Timers that callbacks start\<close>

text \<open>
  A callback that adds a timer gives it a deadline after the clock, so that it is not due in the
  tick that runs. What is shown here about \<open>pf_scheduler_add\<close> and \<open>pf_scheduler_restart\<close> is what
  the components need for \<open>timer_callbacks\<close>.
\<close>

text \<open>
  The clock during a tick is not behind the tick's time, and delays from it stay inside the
  window of comparable times.
\<close>

definition clock_ok :: "u32 \<Rightarrow> u32 \<Rightarrow> u32 \<Rightarrow> bool" where
  "clock_ok base now t \<longleftrightarrow> uint (now - base) \<le> uint (t - base) \<and> uint (t - base) + 150000000 < 2147483648"

lemma clock_ok_window: "clock_ok base now t \<Longrightarrow> in_window base now"
  by (auto simp: clock_ok_def in_window_def)

lemma delay_positive:
  assumes "pf_scheduler_sanitize_delay w c True = Some d" "0 < c" "c \<le> PF_SCHEDULER_MAX_DELAY_US"
  shows "0 < unat d" "unat d \<le> 150000000"
proof -
  have c: "0 < unat c" "unat c \<le> 100000000"
    using assms(2,3) by (auto simp: word_less_nat_alt word_le_nat_alt PF_SCHEDULER_MAX_DELAY_US_def)
  note b = delay_ticks_bound [OF c, of "unat w"]
  have d: "unat d = delay_ticks (unat w) (unat c) * unat c - unat c div 2"
    using sanitize_delay [OF assms(2,3), of w True] assms(1) by auto
  have "1 * unat c \<le> delay_ticks (unat w) (unat c) * unat c" using b(1) by (rule mult_le_mono1)
  then show "0 < unat d" using d c(1) by linarith
  show "unat d \<le> 150000000" using d b(2) by linarith
qed

text \<open>A deadline after the clock is in the window and not due.\<close>

lemma future_deadline:
  assumes clk: "clock_ok base now t" and d: "0 < unat d" "unat d \<le> 150000000"
  shows "in_window base (t + d)" "\<not> 0 \<le> sint (now - (t + d))"
proof -
  have u: "uint (t - base) = int (unat (t - base))" "uint d = int (unat d)" by simp_all
  have c: "uint (now - base) \<le> uint (t - base)" "uint (t - base) + 150000000 < 2147483648"
    using clk by (simp_all add: clock_ok_def)
  have eq: "t + d - base = (t - base) + d" by simp
  have "unat (t - base) + unat d < 4294967296" using c(2) d(2) u by linarith
  from unat_u32_add [OF this] have "int (unat (t + d - base)) = int (unat (t - base)) + int (unat d)"
    unfolding eq by simp
  then have sum: "uint (t + d - base) = uint (t - base) + uint d" by simp
  have "uint (t + d - base) < 2147483648" unfolding sum using c(2) d(2) u(2) by linarith
  then show w: "in_window base (t + d)" by (simp add: in_window_def)
  have "sint (now - (t + d)) = uint (now - base) - uint (t + d - base)"
    by (rule sint_window [OF clock_ok_window [OF clk] w])
  also have "\<dots> < 0" unfolding sum using c(1) d(1) u(2) by linarith
  finally show "\<not> 0 \<le> sint (now - (t + d))" by simp
qed

lemma add_later:
  assumes ok: "timers_ok base s busy free" and clk: "clock_ok base now t"
  shows "\<exists>r h' s' busy' free'. pf_scheduler_add t w f a h s = Some (r, h', s') \<and>
    timers_ok base s' busy' free' \<and> due_set now s' \<subseteq> due_set now s \<and> h_name h' = h_name h"
proof -
  have rel: "sched_rel s busy free" and c: "0 < tick_interval s" "tick_interval s \<le> PF_SCHEDULER_MAX_DELAY_US"
    using ok by (auto simp: timers_ok_def sched_rel_def)
  have fut: "in_window base (t + d)" "\<not> 0 \<le> sint (now - (t + d))"
    if "pf_scheduler_sanitize_delay w (tick_interval s) True = Some d" for d
    using future_deadline [OF clk delay_positive [OF that c]] by blast+
  note add = timers_ok_add [OF ok fut(1), where f = f and a = a and h = h and wanted = w]
  show ?thesis
  proof (cases free)
    case Nil
    then show ?thesis using add ok by auto
  next
    case (Cons x fs)
    then obtain s' d busy' where s': "pf_scheduler_sanitize_delay w (tick_interval s) True = Some d"
      "pf_scheduler_add t w f a h s = Some (0, h\<lparr>timer_index := x + 1\<rparr>, s')"
      "timers_ok base s' busy' fs" "set busy' = insert x (set busy)" "others_kept x s s'"
      "payload (timeouts s' ! x) = (h_name h, True, t + d, f, a)"
      using add by auto
    have rel': "sched_rel s' busy' fs" using s'(3) by (simp add: timers_ok_def)
    have "\<not> due now s' x" using fut(2) [OF s'(1)] s'(6) by (simp add: due_def payload_def)
    moreover have "x \<notin> set busy" using rel Cons by (auto simp: sched_rel_def)
    then have "deadline s' i = deadline s i" if "i \<in> set busy" for i
      using others_kept_deadline [OF s'(5) sched_rel_less [OF rel that]] that by auto
    ultimately have "due_set now s' \<subseteq> due_set now s"
      unfolding due_set_busy [OF rel] due_set_busy [OF rel'] s'(4) by (auto simp: due_def)
    then show ?thesis using s'(2,3) by auto
  qed
qed

lemma add_laterE:
  assumes "timers_ok base s busy free" "clock_ok base now t"
  obtains r h' s' busy' free' where "pf_scheduler_add t w f a h s = Some (r, h', s')"
    "timers_ok base s' busy' free'" "due_set now s' \<subseteq> due_set now s"
  using add_later [OF assms, of w f a h] by blast

lemma remove_laterE:
  assumes "timers_ok base s busy free"
  obtains h' s' busy' free' where "pf_scheduler_remove_if_running h s = Some (h', s')"
    "timers_ok base s' busy' free'" "due_set now s' \<subseteq> due_set now s"
proof (cases "pf_scheduler_is_running h")
  case False
  then show ?thesis using that [of h s busy free] assms by (simp add: pf_scheduler_remove_if_running_def)
next
  case True
  obtain h' s' busy' free' where r: "pf_scheduler_remove h s = Some (h', s')" "timers_ok base s' busy' free'"
    "set busy' \<subseteq> set busy" "\<forall>i \<in> set busy'. payload (timeouts s' ! i) = payload (timeouts s ! i)"
    using timers_ok_remove [OF assms, of h] by blast
  have rel: "sched_rel s busy free" "sched_rel s' busy' free'" using assms r(2) by (simp_all add: timers_ok_def)
  have "due now s' i \<longleftrightarrow> due now s i" if "i \<in> set busy'" for i
    using r(4) that by (auto simp: due_def payload_def)
  then have "due_set now s' \<subseteq> due_set now s"
    unfolding due_set_busy [OF rel(1)] due_set_busy [OF rel(2)] using r(3) by auto
  then show ?thesis using that r(1,2) True by (simp add: pf_scheduler_remove_if_running_def)
qed

lemma restart_laterE:
  assumes "timers_ok base s busy free" "clock_ok base now t"
  obtains r h' s' busy' free' where "pf_scheduler_restart t w f a h s = Some (r, h', s')"
    "timers_ok base s' busy' free'" "due_set now s' \<subseteq> due_set now s"
proof -
  obtain h1 s1 busy1 free1 where r: "pf_scheduler_remove_if_running h s = Some (h1, s1)"
    "timers_ok base s1 busy1 free1" "due_set now s1 \<subseteq> due_set now s"
    using remove_laterE [OF assms(1)] by blast
  obtain r' h2 s2 busy2 free2 where "pf_scheduler_add t w f a h1 s1 = Some (r', h2, s2)"
    "timers_ok base s2 busy2 free2" "due_set now s2 \<subseteq> due_set now s1"
    using add_laterE [OF r(2) assms(2)] by blast
  then show ?thesis using that r(1,3) by (auto simp: pf_scheduler_restart_def)
qed

lemma timers_ok_init:
  assumes "0 < interval" "interval \<le> PF_SCHEDULER_MAX_DELAY_US"
  shows "\<exists>s. pf_scheduler_init interval nm f a = Some s \<and> timers_ok base s [] [0 ..< PF_MAX_TIMEOUTS] \<and>
    tick_interval s = interval"
  using pf_scheduler_init_ok [OF assms(1), of nm f a] assms(2) by (auto simp: timers_ok_def)

lemma upt_75: "[0 ..< PF_MAX_TIMEOUTS] = 0 # [1 ..< PF_MAX_TIMEOUTS]"
  by (simp add: PF_MAX_TIMEOUTS_def upt_conv_Cons)

subsection \<open>Starting a timer\<close>

lemma handle_runs_added:
  assumes "payload (timeouts s ! x) = (h_name h, True, w, f, a)" "x < PF_MAX_TIMEOUTS"
  shows "handle_runs (h\<lparr>timer_index := x + 1\<rparr>) s"
  using assms by (simp add: handle_runs_def payload_def)

text \<open>The timer that a running handle stands for.\<close>

definition timer_of :: "sched_handle \<Rightarrow> ('f, 'a) sched \<Rightarrow> 'f \<times> 'a \<times> u32" where
  "timer_of h s = (let t = timeouts s ! (timer_index h - 1) in (cb t, cb_arg t, expiry t))"

lemma add_starts:
  assumes ok: "timers_ok base s busy free" and free: "free \<noteq> []"
    and win: "\<And>d. pf_scheduler_sanitize_delay w (tick_interval s) True = Some d \<Longrightarrow> in_window base (now + d)"
  shows "\<exists>h' s' busy' d. pf_scheduler_add now w f a h s = Some (0, h', s') \<and> timers_ok base s' busy' (tl free) \<and>
    handle_runs h' s' \<and> h_name h' = h_name h \<and> timer_of h' s' = (f, a, now + d) \<and>
    pf_scheduler_sanitize_delay w (tick_interval s) True = Some d"
proof -
  obtain x fs where free: "free = x # fs" using free by (cases free) auto
  obtain s' d busy' where s': "pf_scheduler_sanitize_delay w (tick_interval s) True = Some d"
    "pf_scheduler_add now w f a h s = Some (0, h\<lparr>timer_index := x + 1\<rparr>, s')"
    "timers_ok base s' busy' fs" "payload (timeouts s' ! x) = (h_name h, True, now + d, f, a)"
    using timers_ok_add [OF ok win, where wanted = w and f = f and a = a and h = h] free by auto
  have "x < PF_MAX_TIMEOUTS" using ok free by (auto simp: timers_ok_def sched_rel_def)
  then show ?thesis
    using s' free handle_runs_added [OF s'(4)]
    by (auto simp: timer_of_def payload_def)
qed

subsection \<open>The expiration of one timer\<close>

text \<open>
  One round of the loop of \<open>pf_scheduler_tick\<close>: the entry goes back to the free queue, then the callback
  that is stored in it is called. With \<open>expires\<close> a component runs its own timer: nothing happens unless it runs.
\<close>

definition expire ::
    "('f \<Rightarrow> 'a \<Rightarrow> u32 \<Rightarrow> ('f, 'a) sched \<times> 'e \<Rightarrow> (('f, 'a) sched \<times> 'e) option) \<Rightarrow> u32 \<Rightarrow> nat \<Rightarrow>
     ('f, 'a) sched \<times> 'e \<Rightarrow> (('f, 'a) sched \<times> 'e) option" where
  "expire call now ix se = do {
     s \<leftarrow> release ix (fst se);
     call (cb (timeouts (fst se) ! ix)) (cb_arg (timeouts (fst se) ! ix)) now (s, snd se)
   }"

lemma tick_expires:
  "pf_scheduler_tick call now se =
     (if first_q (fst se) < PF_MAX_TIMEOUTS \<and> due now (fst se) (first_q (fst se))
      then Option.bind (expire call now (first_q (fst se)) se) (pf_scheduler_tick call now) else Some se)"
  by (subst pf_scheduler_tick.simps) (simp add: due_def expire_def Let_def)

definition expires ::
    "('f \<Rightarrow> 'a \<Rightarrow> u32 \<Rightarrow> ('f, 'a) sched \<times> 'e \<Rightarrow> (('f, 'a) sched \<times> 'e) option) \<Rightarrow> u32 \<Rightarrow> sched_handle \<Rightarrow>
     ('f, 'a) sched \<times> 'e \<Rightarrow> (('f, 'a) sched \<times> 'e) option" where
  "expires call now h se = (if handle_runs h (fst se) then expire call now (timer_index h - 1) se else None)"

text \<open>The entry of a timer that has run is free, so the callback can start it again.\<close>

lemma expires_running:
  assumes "handle_runs h s" "timers_ok base s busy free"
  obtains s' busy' free' where "timers_ok base s' busy' free'" "free' \<noteq> []" "tick_interval s' = tick_interval s"
    "expires call now h (s, e) = call (fst (timer_of h s)) (fst (snd (timer_of h s))) now (s', e)"
proof -
  let ?ix = "timer_index h - 1"
  have rel: "sched_rel s busy free" using assms(2) by (simp add: timers_ok_def)
  have "?ix < PF_MAX_TIMEOUTS" using assms(1) by (auto simp: handle_runs_def)
  then have "?ix \<in> set busy" using assms(1) rel by (simp add: sched_rel_def handle_runs_def)
  then obtain as bs where b: "busy = as @ ?ix # bs" by (metis split_list)
  obtain s' where s': "release ?ix s = Some s'" "timers_ok base s' (as @ bs) (?ix # free)" "others_kept ?ix s s'"
    using timers_ok_release [of base s as ?ix bs free] assms(2) b by auto
  show ?thesis
    by (rule that [OF s'(2)]) (use s' assms(1) in \<open>simp_all add: expires_def expire_def timer_of_def Let_def others_kept_def\<close>)
qed

text \<open>Starting a timer when an entry is free: it runs until \<open>d\<close> after the clock.\<close>

lemma add_runs:
  assumes "timers_ok base s busy free" "free \<noteq> []" "clock_ok base now t"
  obtains h' s' busy' d where "pf_scheduler_add t w f a h s = Some (0, h', s')" "timers_ok base s' busy' (tl free)"
    "handle_runs h' s'" "timer_of h' s' = (f, a, t + d)" "pf_scheduler_sanitize_delay w (tick_interval s) True = Some d"
    "tick_interval s' = tick_interval s"
proof -
  have c: "0 < tick_interval s" "tick_interval s \<le> PF_SCHEDULER_MAX_DELAY_US"
    using assms(1) by (auto simp: timers_ok_def sched_rel_def)
  have win: "in_window base (t + d)" if "pf_scheduler_sanitize_delay w (tick_interval s) True = Some d" for d
    using future_deadline [OF assms(3) delay_positive [OF that c]] by blast
  obtain x fs where x: "free = x # fs" using assms(2) by (cases free) auto
  obtain s' d busy' where s': "pf_scheduler_sanitize_delay w (tick_interval s) True = Some d"
    "pf_scheduler_add t w f a h s = Some (0, h\<lparr>timer_index := x + 1\<rparr>, s')" "timers_ok base s' busy' fs"
    "others_kept x s s'" "payload (timeouts s' ! x) = (h_name h, True, t + d, f, a)"
    using timers_ok_add [OF assms(1) win, where wanted = w and f = f and a = a and h = h] x by auto
  have "x < PF_MAX_TIMEOUTS" using assms(1) x by (auto simp: timers_ok_def sched_rel_def)
  show ?thesis
    by (rule that [OF s'(2)])
      (use s' x handle_runs_added [OF s'(5) \<open>x < PF_MAX_TIMEOUTS\<close>] in \<open>simp_all add: timer_of_def payload_def others_kept_def\<close>)
qed

end
