(* ===== verification/Stack_Timers.thy ===== *)
theory Stack_Timers
  imports Timer_Tick
begin

section \<open>Timers of LLDP and DCP\<close>

text \<open>
  The scheduler callbacks of \<open>pf_lldp.c\<close> (the transmission timer and the peer timeout of a
  port) and of \<open>pf_dcp.c\<close> (the SAM timeout and the signal LED), with the functions that start
  and stop these timers. Sending, the LED and the port data are seen as events, newest last.
  \<open>clock\<close> is what \<open>os_get_current_time_us\<close> returns while a callback runs. The argument of a
  callback is the port number, or for the LED the number of remaining transitions.
\<close>

datatype stack_cb = Lldp_receive_timeout | Lldp_trigger_sending | Dcp_clear_sam | Dcp_control_signal_led

datatype stack_event = Lldp_send nat | Peer_invalidated nat | Peer_indication nat | Signal_led bool

type_synonym stack_sched = "(stack_cb, u32) sched"

record stack_env =
  clock :: u32
  dcp_sam :: "u8 list"
  dcp_sam_timeout :: sched_handle
  dcp_led_timeout :: sched_handle
  rx_timeout :: "sched_handle list"
  tx_timeout :: "sched_handle list"
  events :: "stack_event list"

type_synonym stack = "stack_sched \<times> stack_env"

definition mac_nil :: "u8 list" where "mac_nil = replicate 6 0"
definition PF_DCP_SAM_TIMEOUT :: u32 where "PF_DCP_SAM_TIMEOUT = 3000000"
definition PF_DCP_SIGNAL_LED_HALF_INTERVAL :: u32 where "PF_DCP_SIGNAL_LED_HALF_INTERVAL = 500000"
definition PF_DCP_SIGNAL_LED_NUMBER_OF_FLASHES :: u32 where "PF_DCP_SIGNAL_LED_NUMBER_OF_FLASHES = 3"
definition PF_LLDP_SEND_INTERVAL :: u32 where "PF_LLDP_SEND_INTERVAL = 5000"
definition LLDP_PEER_MAX_TTL_IN_SECS :: u16 where "LLDP_PEER_MAX_TTL_IN_SECS = 60"

definition event :: "stack_event \<Rightarrow> stack_env \<Rightarrow> stack_env" where
  "event ev e = e\<lparr>events := events e @ [ev]\<rparr>"

text \<open>The entry of a port in the port table; ports count from one.\<close>

definition port_ix :: "u32 \<Rightarrow> nat" where
  "port_ix p = unat p - 1"

subsection \<open>LLDP\<close>

definition pf_lldp_receive_timeout :: "u32 \<Rightarrow> stack \<Rightarrow> stack option" where
  "pf_lldp_receive_timeout p se = (let (s, e) = se;
     e = e\<lparr>rx_timeout := upd (port_ix p) pf_scheduler_reset_handle (rx_timeout e)\<rparr>;
     e = event (Peer_invalidated (unat p)) e;
     e = event (Peer_indication (unat p)) e
     in Some (s, e))"

definition pf_lldp_restart_peer_timeout :: "u32 \<Rightarrow> u16 \<Rightarrow> stack \<Rightarrow> stack option" where
  "pf_lldp_restart_peer_timeout p timeout_in_secs se = do {
     let (s, e) = se;
     (h, s) \<leftarrow> pf_scheduler_remove_if_running (rx_timeout e ! port_ix p) s;
     let e = e\<lparr>rx_timeout := (rx_timeout e)[port_ix p := h]\<rparr>;
     if timeout_in_secs > LLDP_PEER_MAX_TTL_IN_SECS then Some (s, e)
     else do {
       (_, h, s) \<leftarrow> pf_scheduler_add (clock e) (ucast timeout_in_secs * 1000000) Lldp_receive_timeout p
         (rx_timeout e ! port_ix p) s;
       Some (s, e\<lparr>rx_timeout := (rx_timeout e)[port_ix p := h]\<rparr>)
     }
   }"

definition pf_lldp_stop_peer_timeout :: "u32 \<Rightarrow> stack \<Rightarrow> stack option" where
  "pf_lldp_stop_peer_timeout p se = do {
     let (s, e) = se;
     (h, s) \<leftarrow> pf_scheduler_remove_if_running (rx_timeout e ! port_ix p) s;
     Some (s, e\<lparr>rx_timeout := (rx_timeout e)[port_ix p := h]\<rparr>)
   }"

definition pf_lldp_trigger_sending :: "u32 \<Rightarrow> stack \<Rightarrow> stack option" where
  "pf_lldp_trigger_sending p se = do {
     let (s, e) = se;
     let e = event (Lldp_send (unat p)) e;
     (_, h, s) \<leftarrow> pf_scheduler_add (clock e) (PF_LLDP_SEND_INTERVAL * 1000) Lldp_trigger_sending p
       (tx_timeout e ! port_ix p) s;
     Some (s, e\<lparr>tx_timeout := (tx_timeout e)[port_ix p := h]\<rparr>)
   }"

definition pf_lldp_tx_restart :: "u32 \<Rightarrow> bool \<Rightarrow> stack \<Rightarrow> stack option" where
  "pf_lldp_tx_restart p send se = do {
     let (s, e) = se;
     (_, h, s) \<leftarrow> pf_scheduler_restart (clock e) (PF_LLDP_SEND_INTERVAL * 1000) Lldp_trigger_sending p
       (tx_timeout e ! port_ix p) s;
     let e = e\<lparr>tx_timeout := (tx_timeout e)[port_ix p := h]\<rparr>;
     Some (s, if send then event (Lldp_send (unat p)) e else e)
   }"

definition pf_lldp_send_enable :: "u32 \<Rightarrow> stack \<Rightarrow> stack option" where
  "pf_lldp_send_enable p = pf_lldp_tx_restart p True"

definition pf_lldp_send_disable :: "u32 \<Rightarrow> stack \<Rightarrow> stack option" where
  "pf_lldp_send_disable p se = do {
     let (s, e) = se;
     (h, s) \<leftarrow> pf_scheduler_remove_if_running (tx_timeout e ! port_ix p) s;
     Some (s, e\<lparr>tx_timeout := (tx_timeout e)[port_ix p := h]\<rparr>)
   }"

subsection \<open>DCP\<close>

definition pf_dcp_clear_sam :: "stack \<Rightarrow> stack option" where
  "pf_dcp_clear_sam se = (let (s, e) = se
     in Some (s, e\<lparr>dcp_sam := mac_nil, dcp_sam_timeout := pf_scheduler_reset_handle (dcp_sam_timeout e)\<rparr>))"

definition pf_dcp_restart_sam_timeout :: "u8 list \<Rightarrow> stack \<Rightarrow> stack option" where
  "pf_dcp_restart_sam_timeout mac se = do {
     let (s, e) = se;
     let e = e\<lparr>dcp_sam := mac\<rparr>;
     (_, h, s) \<leftarrow> pf_scheduler_restart (clock e) PF_DCP_SAM_TIMEOUT Dcp_clear_sam 0 (dcp_sam_timeout e) s;
     Some (s, e\<lparr>dcp_sam_timeout := h\<rparr>)
   }"

definition pf_dcp_check_sam :: "u8 list \<Rightarrow> stack_env \<Rightarrow> bool" where
  "pf_dcp_check_sam mac e \<longleftrightarrow> dcp_sam e = mac_nil \<or> dcp_sam e = mac"

definition pf_dcp_control_signal_led :: "u32 \<Rightarrow> stack \<Rightarrow> stack option" where
  "pf_dcp_control_signal_led state se = do {
     let (s, e) = se;
     let e = (if state mod 2 = 1 then event (Signal_led True) e else event (Signal_led False) e);
     if state > 0 \<and> state < 200 then do {
       (_, h, s) \<leftarrow> pf_scheduler_add (clock e) PF_DCP_SIGNAL_LED_HALF_INTERVAL Dcp_control_signal_led
         (state - 1) (dcp_led_timeout e) s;
       Some (s, e\<lparr>dcp_led_timeout := h\<rparr>)
     } else Some (s, e\<lparr>dcp_led_timeout := pf_scheduler_reset_handle (dcp_led_timeout e)\<rparr>)
   }"

definition pf_dcp_trigger_signal_led :: "stack \<Rightarrow> (int \<times> stack) option" where
  "pf_dcp_trigger_signal_led se = do {
     let (s, e) = se;
     if \<not> pf_scheduler_is_running (dcp_led_timeout e) then do {
       (_, h, s) \<leftarrow> pf_scheduler_add (clock e) PF_DCP_SIGNAL_LED_HALF_INTERVAL Dcp_control_signal_led
         (2 * PF_DCP_SIGNAL_LED_NUMBER_OF_FLASHES - 1) (dcp_led_timeout e) s;
       Some (0, s, e\<lparr>dcp_led_timeout := h\<rparr>)
     } else Some (0, s, e)
   }"

subsection \<open>The callbacks of the stack\<close>

definition stack_call :: "stack_cb \<Rightarrow> u32 \<Rightarrow> u32 \<Rightarrow> stack \<Rightarrow> stack option" where
  "stack_call f arg current_time se = (case f of
     Lldp_receive_timeout \<Rightarrow> pf_lldp_receive_timeout arg se
   | Lldp_trigger_sending \<Rightarrow> pf_lldp_trigger_sending arg se
   | Dcp_clear_sam \<Rightarrow> pf_dcp_clear_sam se
   | Dcp_control_signal_led \<Rightarrow> pf_dcp_control_signal_led arg se)"

lemma clock_event [simp]: "clock (event ev e) = clock e"
  by (simp add: event_def)



subsection \<open>Starting a timer again\<close>

lemma restart_starts:
  assumes ok: "timers_ok base s busy free" and free: "free \<noteq> [] \<or> handle_runs h s"
    and win: "\<And>d. pf_scheduler_sanitize_delay w (tick_interval s) True = Some d \<Longrightarrow> in_window base (now + d)"
  shows "\<exists>h' s' busy' free' d. pf_scheduler_restart now w f a h s = Some (0, h', s') \<and> timers_ok base s' busy' free' \<and>
    handle_runs h' s' \<and> h_name h' = h_name h \<and> timer_of h' s' = (f, a, now + d) \<and>
    pf_scheduler_sanitize_delay w (tick_interval s) True = Some d"
proof -
  obtain h1 s1 busy1 free1 where r: "pf_scheduler_remove_if_running h s = Some (h1, s1)"
    "timers_ok base s1 busy1 free1" "tick_interval s1 = tick_interval s" "free1 \<noteq> []" "h_name h1 = h_name h"
  proof (cases "pf_scheduler_is_running h")
    case False
    then have "\<not> handle_runs h s"
      by (auto simp: pf_scheduler_is_running_def handle_runs_def UINT32_MAX_def PF_MAX_TIMEOUTS_def split: if_splits)
    then show ?thesis using that [of h s busy free] False free ok
      by (simp add: pf_scheduler_remove_if_running_def)
  next
    case True
    obtain h1 s1 busy1 free1 where r: "pf_scheduler_remove h s = Some (h1, s1)"
      "timers_ok base s1 busy1 free1" "tick_interval s1 = tick_interval s" "h_name h1 = h_name h"
      "handle_runs h s \<longrightarrow> free1 = (timer_index h - 1) # free" "\<not> handle_runs h s \<longrightarrow> free1 = free"
      using timers_ok_remove [OF ok, of h] by blast
    then have "free1 \<noteq> []" using free by auto
    then show ?thesis using that r True by (simp add: pf_scheduler_remove_if_running_def)
  qed
  obtain h' s' busy' d where "pf_scheduler_add now w f a h1 s1 = Some (0, h', s')" "timers_ok base s' busy' (tl free1)"
    "handle_runs h' s'" "h_name h' = h_name h1" "timer_of h' s' = (f, a, now + d)"
    "pf_scheduler_sanitize_delay w (tick_interval s1) True = Some d"
    using add_starts [OF r(2,4), of w now f a h1] win r(3) by auto
  then show ?thesis using r by (auto simp: pf_scheduler_restart_def)
qed

subsection \<open>Properties\<close>

text \<open>C35: Adding a timer whose deadline is in the window of the others' deadlines keeps the busy
  queue ordered by deadline, and puts the timer in: the entry comes from the free list, is in use
  under the handle's name, and no other timer changes. With no free entry it returns -1, a handle
  that is not running and an unchanged scheduler. No assertion fails.\<close>

theorem add_keeps_order:
  assumes ok: "timers_ok base s busy free"
    and win: "\<And>d. pf_scheduler_sanitize_delay wanted (tick_interval s) True = Some d \<Longrightarrow> in_window base (now + d)"
  shows "case free of
      [] \<Rightarrow> pf_scheduler_add now wanted f a h s = Some (- 1, h\<lparr>timer_index := UINT32_MAX\<rparr>, s)
    | x # fs \<Rightarrow> \<exists>s' d busy'. pf_scheduler_sanitize_delay wanted (tick_interval s) True = Some d \<and>
        pf_scheduler_add now wanted f a h s = Some (0, h\<lparr>timer_index := x + 1\<rparr>, s') \<and>
        timers_ok base s' busy' fs \<and> set busy' = insert x (set busy) \<and> others_kept x s s' \<and>
        payload (timeouts s' ! x) = (h_name h, True, now + d, f, a)"
  using timers_ok_add [OF ok win] .

text \<open>A scheduler after initialisation.\<close>

lemma add_keeps_order_witness:
  "\<exists>s s' h'. pf_scheduler_init 1000 1 Dcp_clear_sam (0 :: u32) = Some s \<and>
     pf_scheduler_add 500 3000000 Dcp_clear_sam 0 (pf_scheduler_init_handle 2) s = Some (0, h', s') \<and>
     timer_index h' = 1 \<and> (\<exists>busy. set busy = {0} \<and> timers_ok 0 s' busy [1 ..< PF_MAX_TIMEOUTS])"
proof -
  obtain s where s: "pf_scheduler_init 1000 1 Dcp_clear_sam (0 :: u32) = Some s"
    "timers_ok 0 s [] [0 ..< PF_MAX_TIMEOUTS]" "tick_interval s = 1000"
    using timers_ok_init [of 1000 1 Dcp_clear_sam "0 :: u32" 0] by (auto simp: PF_SCHEDULER_MAX_DELAY_US_def)
  have win: "in_window 0 (500 + d)" if "pf_scheduler_sanitize_delay 3000000 (tick_interval s) True = Some d" for d
    using that s(3) by (simp add: pf_scheduler_sanitize_delay_def PF_SCHEDULER_MAX_DELAY_US_def in_window_def)
  note add = add_keeps_order [OF s(2) win, where f = Dcp_clear_sam and a = 0 and h = "pf_scheduler_init_handle 2"
      and wanted = 3000000]
  obtain s' busy' where "pf_scheduler_add 500 3000000 Dcp_clear_sam 0 (pf_scheduler_init_handle 2) s =
      Some (0, (pf_scheduler_init_handle 2)\<lparr>timer_index := 0 + 1\<rparr>, s')"
    "timers_ok 0 s' busy' [1 ..< PF_MAX_TIMEOUTS]" "set busy' = insert 0 (set [])"
    using add unfolding upt_75 list.case by blast
  then show ?thesis using s(1) by auto
qed

text \<open>Removing a timer takes exactly the entry of the handle out of the busy queue, keeps the
  order, frees the entry, marks the handle as not running and changes no other timer; with a handle
  that names no running timer (invalid, already fired, or reused under another name) nothing
  changes. No assertion fails.\<close>

theorem remove_exact:
  assumes "timers_ok base s busy free"
  shows "if handle_runs h s
    then \<exists>s'. pf_scheduler_remove h s = Some (h\<lparr>timer_index := UINT32_MAX\<rparr>, s') \<and>
      timers_ok base s' (remove1 (timer_index h - 1) busy) ((timer_index h - 1) # free) \<and>
      (\<forall>i \<in> set (remove1 (timer_index h - 1) busy). payload (timeouts s' ! i) = payload (timeouts s ! i))
    else pf_scheduler_remove h s = Some (h, s)"
proof (cases "handle_runs h s")
  case True
  have "sched_rel s busy free" using assms by (simp add: timers_ok_def)
  then have "\<exists>s'. pf_scheduler_remove h s = Some (h\<lparr>timer_index := UINT32_MAX\<rparr>, s')"
    using pf_scheduler_remove_ok [of s busy free h] True by blast
  then show ?thesis using timers_ok_remove [OF assms, of h] True by auto
next
  case False
  then show ?thesis using timers_ok_remove [OF assms, of h] by auto
qed

lemma remove_exact_witness:
  "\<exists>s h. handle_runs h s \<and> (\<exists>s'. pf_scheduler_remove h (s :: stack_sched) = Some (h\<lparr>timer_index := UINT32_MAX\<rparr>, s') \<and>
     (\<exists>busy free. timers_ok 0 s' busy free))"
proof -
  obtain s where s: "timers_ok 0 (s :: stack_sched) [] [0 ..< PF_MAX_TIMEOUTS]" "tick_interval s = 1000"
    using timers_ok_init [of 1000 1 Dcp_clear_sam "0 :: u32" 0] by (auto simp: PF_SCHEDULER_MAX_DELAY_US_def)
  have win: "in_window 0 (500 + d)" if "pf_scheduler_sanitize_delay 3000000 (tick_interval s) True = Some d" for d
    using that s(2) by (simp add: pf_scheduler_sanitize_delay_def PF_SCHEDULER_MAX_DELAY_US_def in_window_def)
  obtain h' and s' :: stack_sched and busy' where
    t: "timers_ok 0 s' busy' (tl [0 ..< PF_MAX_TIMEOUTS])" "handle_runs h' s'"
    using add_starts [OF s(1) _ win, where f = Dcp_clear_sam and a = 0 and h = "pf_scheduler_init_handle 2" and w = 3000000]
    by (auto simp: PF_MAX_TIMEOUTS_def)
  then show ?thesis
    using remove_exact [OF t(1), of h'] by (simp only: if_True) blast
qed

text \<open>The delay used for a timer is a whole number of stack ticks, less half a tick if wanted so:
  one tick for a delay up to one and a half ticks or above the maximum of 100 s, else the wanted
  delay rounded to the nearest whole number of ticks. It does not overflow, and the assertions hold.\<close>

theorem sanitize_delay_rounds:
  assumes "0 < c" "c \<le> PF_SCHEDULER_MAX_DELAY_US"
  shows "\<exists>d n. pf_scheduler_sanitize_delay w c half = Some d \<and>
    unat d = n * unat c - (if half then unat c div 2 else 0) \<and> 1 \<le> n \<and>
    (if w > PF_SCHEDULER_MAX_DELAY_US \<or> unat w \<le> unat c + unat c div 2 then n = 1
     else n * unat c \<le> unat w + unat c div 2 \<and> unat w + unat c div 2 < (n + 1) * unat c)"
proof -
  let ?n = "delay_ticks (unat w) (unat c)"
  have c: "0 < unat c" "unat c \<le> 100000000"
    using assms by (auto simp: word_less_nat_alt word_le_nat_alt PF_SCHEDULER_MAX_DELAY_US_def)
  obtain d where d: "pf_scheduler_sanitize_delay w c half = Some d"
    "unat d = ?n * unat c - (if half then unat c div 2 else 0)"
    using sanitize_delay [OF assms] by blast
  have big: "w > PF_SCHEDULER_MAX_DELAY_US \<longleftrightarrow> unat w > 100000000"
    by (simp add: word_less_nat_alt PF_SCHEDULER_MAX_DELAY_US_def)
  have "if unat w > 100000000 \<or> unat w \<le> unat c + unat c div 2 then ?n = 1
     else ?n * unat c \<le> unat w + unat c div 2 \<and> unat w + unat c div 2 < (?n + 1) * unat c"
  proof (cases "unat w > 100000000 \<or> unat w \<le> unat c + unat c div 2")
    case False
    let ?m = "unat w + unat c div 2"
    have "?n = ?m div unat c" using False by (simp add: delay_ticks_def Let_def)
    moreover have "?m div unat c * unat c \<le> ?m" by (rule div_times_less_eq_dividend)
    moreover have "?m < (?m div unat c + 1) * unat c"
      using dividend_less_div_times [OF c(1), of ?m] by (simp add: algebra_simps)
    ultimately show ?thesis using False by simp
  qed (auto simp: delay_ticks_def Let_def)
  then show ?thesis using d delay_ticks_bound(1) [OF c] unfolding big by blast
qed

lemma sanitize_delay_rounds_witness:
  "\<exists>d. pf_scheduler_sanitize_delay 2600 1000 True = Some d \<and> unat d mod 1000 = 500"
proof -
  have "\<not> (2600 :: u32) > PF_SCHEDULER_MAX_DELAY_US" "(1000 :: u32) \<le> PF_SCHEDULER_MAX_DELAY_US"
    by (simp_all add: PF_SCHEDULER_MAX_DELAY_US_def)
  then obtain d n where d: "pf_scheduler_sanitize_delay 2600 1000 True = Some d"
    "unat d = n * 1000 - 500" "n * 1000 \<le> 3100" "3100 < (n + 1) * 1000"
    using sanitize_delay_rounds [of 1000 2600 True] by auto
  have "n < 4" using d(3) by simp
  moreover have "\<not> n \<le> 2" using d(4) mult_le_mono1 [of "n + 1" 3 1000] by auto
  ultimately have "n = 3" by simp
  then show ?thesis using d by simp
qed


definition example_env :: stack_env where
  "example_env = \<lparr>clock = 4000000, dcp_sam = replicate 6 0, dcp_sam_timeout = pf_scheduler_init_handle 2,
     dcp_led_timeout = pf_scheduler_init_handle 3, rx_timeout = [pf_scheduler_init_handle 4],
     tx_timeout = [pf_scheduler_init_handle 5], events = []\<rparr>"


text \<open>After a DCP set request from a station, DCP accepts requests from this station only, and
  a timer is running whose callback ends this: it is due after the SAM timeout of 3 s, in stack
  ticks, and after it requests from every station are accepted. A SAM timer that was running is
  replaced. This needs a free timer or a running SAM timer.\<close>

theorem sam_excludes_others:
  assumes "timers_ok base s busy free" "clock_ok base now (clock e)"
    and "free \<noteq> [] \<or> handle_runs (dcp_sam_timeout e) s" and "mac \<noteq> mac_nil"
  shows "\<exists>s' e' d. pf_dcp_restart_sam_timeout mac (s, e) = Some (s', e') \<and>
    (\<forall>m. pf_dcp_check_sam m e' \<longleftrightarrow> m = mac) \<and>
    handle_runs (dcp_sam_timeout e') s' \<and> timer_of (dcp_sam_timeout e') s' = (Dcp_clear_sam, 0, clock e + d) \<and>
    pf_scheduler_sanitize_delay 3000000 (tick_interval s) True = Some d \<and>
    (\<forall>s2 t. \<exists>e3. stack_call Dcp_clear_sam 0 t (s2, e') = Some (s2, e3) \<and> (\<forall>m. pf_dcp_check_sam m e3) \<and>
       \<not> pf_scheduler_is_running (dcp_sam_timeout e3))"
proof -
  have c: "0 < tick_interval s" "tick_interval s \<le> PF_SCHEDULER_MAX_DELAY_US"
    using assms(1) by (auto simp: timers_ok_def sched_rel_def)
  have win: "in_window base (clock e + d)"
    if "pf_scheduler_sanitize_delay PF_DCP_SAM_TIMEOUT (tick_interval s) True = Some d" for d
    using future_deadline(1) [OF assms(2) delay_positive [OF that c]] .
  obtain h' s' d where r: "pf_scheduler_restart (clock e) PF_DCP_SAM_TIMEOUT Dcp_clear_sam 0 (dcp_sam_timeout e) s = Some (0, h', s')"
    "handle_runs h' s'" "timer_of h' s' = (Dcp_clear_sam, 0, clock e + d)"
    "pf_scheduler_sanitize_delay PF_DCP_SAM_TIMEOUT (tick_interval s) True = Some d"
    using restart_starts [OF assms(1,3) win] by blast
  let ?e' = "e\<lparr>dcp_sam := mac, dcp_sam_timeout := h'\<rparr>"
  have run: "pf_dcp_restart_sam_timeout mac (s, e) = Some (s', ?e')"
    using r(1) by (simp add: pf_dcp_restart_sam_timeout_def)
  moreover have "pf_dcp_check_sam m ?e' \<longleftrightarrow> m = mac" for m
    using assms(4) by (auto simp: pf_dcp_check_sam_def)
  moreover have "\<exists>e3. stack_call Dcp_clear_sam 0 t (s2, ?e') = Some (s2, e3) \<and> (\<forall>m. pf_dcp_check_sam m e3) \<and>
       \<not> pf_scheduler_is_running (dcp_sam_timeout e3)" for s2 :: stack_sched and t
    by (simp add: stack_call_def pf_dcp_clear_sam_def pf_dcp_check_sam_def pf_scheduler_reset_handle_def
        pf_scheduler_is_running_def)
  ultimately show ?thesis
    using r(2,3,4) by (intro exI [of _ s'] exI [of _ ?e'] exI [of _ d]) (simp add: PF_DCP_SAM_TIMEOUT_def)
qed

lemma sam_excludes_others_witness:
  "\<exists>s s' e'. pf_scheduler_init 1000 1 Dcp_clear_sam (0 :: u32) = Some s \<and>
     pf_dcp_restart_sam_timeout [2, 0, 0, 0, 0, 1] (s, example_env) = Some (s', e') \<and>
     \<not> pf_dcp_check_sam [2, 0, 0, 0, 0, 9] e'"
proof -
  obtain s where s: "pf_scheduler_init 1000 1 Dcp_clear_sam (0 :: u32) = Some s"
    "timers_ok 0 s [] [0 ..< PF_MAX_TIMEOUTS]"
    using timers_ok_init [of 1000 1 Dcp_clear_sam "0 :: u32" 0] by (auto simp: PF_SCHEDULER_MAX_DELAY_US_def)
  have "clock_ok 0 4000000 (clock example_env)" by (simp add: clock_ok_def example_env_def)
  moreover have "[0 ..< PF_MAX_TIMEOUTS] \<noteq> []" by (simp add: PF_MAX_TIMEOUTS_def)
  moreover have "[2, 0, 0, 0, 0, 1] \<noteq> mac_nil" by (simp add: mac_nil_def eval_nat_numeral)
  ultimately obtain s' e' where e': "pf_dcp_restart_sam_timeout [2, 0, 0, 0, 0, 1] (s, example_env) = Some (s', e')"
    "\<forall>m. pf_dcp_check_sam m e' \<longleftrightarrow> m = [2, 0, 0, 0, 0, 1]"
    using sam_excludes_others [OF s(2), of 4000000 example_env "[2, 0, 0, 0, 0, 1]"] by blast
  have "\<not> pf_dcp_check_sam [2, 0, 0, 0, 0, 9] e'" unfolding e'(2) [rule_format] by simp
  then show ?thesis using s(1) e'(1) by blast
qed

end
