(* ===== verification/Plug.thy ===== *)
theory Plug
  imports Prelude Block_Types
begin

section \<open>The plug state machine\<close>

text \<open>
  \<open>pf_plugsm.c\<close>: when a submodule is released by its owner, the ARs that want it get a released
  alarm, one submodule at a time. Further ones wait in a ring buffer \<open>queue\<close> with \<open>count\<close>
  entries from \<open>current\<close>. Calls to other components are outputs; the result of the user's
  \<open>sm_released_cb\<close> is an argument (\<open>None\<close> where no callback is configured). The ring
  buffer is an instance of the interface \<open>bounded_fifo\<close>.
\<close>

definition PF_AR_PLUG_MAX_QUEUE :: nat where
  "PF_AR_PLUG_MAX_QUEUE = PNET_MAX_API * PNET_MAX_SLOTS * PNET_MAX_SUBSLOTS"

datatype plugsm_state =
    PF_PLUGSM_STATE_IDLE
  | PF_PLUGSM_STATE_WFPRMIND
  | PF_PLUGSM_STATE_WFDATAUPDATE
  | PF_PLUGSM_STATE_WFAPLRDYCNF

record plug_item =
  pi_api :: u32
  pi_slot_number :: u16
  pi_subslot_number :: u16
  pi_module_ident :: u32
  pi_submodule_ident :: u32

record pf_ar_plug =
  plug_state :: plugsm_state
  current :: nat
  count :: nat
  queue :: "plug_item list"

text \<open>The calls the state machine makes.\<close>

datatype plug_out =
    Send_released plug_item
  | Sm_released_cb plug_item
  | Generate_submodule_diff plug_item
  | Ccontrol_req_appl_ready

definition current_item :: "pf_ar_plug \<Rightarrow> plug_item" where
  "current_item p = queue p ! current p"

subsection \<open>The ring buffer\<close>

definition enqueue :: "plug_item \<Rightarrow> pf_ar_plug \<Rightarrow> pf_ar_plug" where
  "enqueue x p =
     (if count p \<ge> PF_AR_PLUG_MAX_QUEUE then p
      else let
        i = current p + count p;
        i = (if i \<ge> PF_AR_PLUG_MAX_QUEUE then i - PF_AR_PLUG_MAX_QUEUE else i)
      in p\<lparr>queue := (queue p)[i := x], count := count p + 1\<rparr>)"

definition dequeue :: "pf_ar_plug \<Rightarrow> pf_ar_plug" where
  "dequeue p = (let
     p = p\<lparr>count := count p - 1, current := current p + 1\<rparr>
     in if current p \<ge> PF_AR_PLUG_MAX_QUEUE then p\<lparr>current := 0\<rparr> else p)"

subsection \<open>The operations\<close>

definition pf_plugsm_released_alarm_req :: "plug_item \<Rightarrow> pf_ar_plug \<Rightarrow> pf_ar_plug \<times> plug_out list" where
  "pf_plugsm_released_alarm_req x p = (let p = enqueue x p
     in if plug_state p = PF_PLUGSM_STATE_IDLE
        then (p\<lparr>plug_state := PF_PLUGSM_STATE_WFPRMIND\<rparr>, [Send_released (current_item p)])
        else (p, []))"

definition pf_plugsm_application_ready_cnf :: "pf_ar_plug \<Rightarrow> pf_ar_plug \<times> plug_out list" where
  "pf_plugsm_application_ready_cnf p =
     (if plug_state p = PF_PLUGSM_STATE_WFAPLRDYCNF
      then let p = dequeue p
        in if count p > 0
           then (p\<lparr>plug_state := PF_PLUGSM_STATE_WFPRMIND\<rparr>, [Send_released (current_item p)])
           else (p\<lparr>plug_state := PF_PLUGSM_STATE_IDLE\<rparr>, [])
      else (p, []))"

definition pf_plugsm_prmend_ind :: "int option \<Rightarrow> pf_ar_plug \<Rightarrow> int \<times> pf_ar_plug \<times> plug_out list" where
  "pf_plugsm_prmend_ind cb_result p =
     (if plug_state p = PF_PLUGSM_STATE_WFPRMIND
      then let (ret, out) = (case cb_result of None \<Rightarrow> (0, []) | Some r \<Rightarrow> (r, [Sm_released_cb (current_item p)]))
        in if ret = 0 then (ret, p\<lparr>plug_state := PF_PLUGSM_STATE_WFDATAUPDATE\<rparr>, out)
           else let (p, out') = pf_plugsm_application_ready_cnf (p\<lparr>plug_state := PF_PLUGSM_STATE_WFAPLRDYCNF\<rparr>)
             in (ret, p, out @ out')
      else (0, p, []))"

definition pf_plugsm_application_ready_req :: "pf_ar_plug \<Rightarrow> pf_ar_plug \<times> plug_out list" where
  "pf_plugsm_application_ready_req p =
     (if plug_state p = PF_PLUGSM_STATE_WFDATAUPDATE
      then (p\<lparr>plug_state := PF_PLUGSM_STATE_WFAPLRDYCNF\<rparr>,
            [Generate_submodule_diff (current_item p), Ccontrol_req_appl_ready])
      else (p, []))"

subsection \<open>Bounded queues\<close>

text \<open>The contract of a bounded queue, with the list of its contents as the abstraction.\<close>

locale bounded_fifo =
  fixes items :: "'s \<Rightarrow> 'x list" and ok :: "'s \<Rightarrow> bool" and enq :: "'x \<Rightarrow> 's \<Rightarrow> 's" and deq :: "'s \<Rightarrow> 's"
    and cap :: nat
  assumes enq_room: "ok s \<Longrightarrow> length (items s) < cap \<Longrightarrow> ok (enq x s) \<and> items (enq x s) = items s @ [x]"
    and enq_full: "ok s \<Longrightarrow> length (items s) = cap \<Longrightarrow> enq x s = s"
    and deq_first: "ok s \<Longrightarrow> items s \<noteq> [] \<Longrightarrow> ok (deq s) \<and> items (deq s) = tl (items s)"
    and capacity: "ok s \<Longrightarrow> length (items s) \<le> cap"
begin

lemma enq_ok: "ok s \<Longrightarrow> ok (enq x s)"
  using enq_room [of s x] enq_full [of s x] capacity [of s] by (cases "length (items s) < cap") auto

lemma enq_items: "ok s \<Longrightarrow> items (enq x s) = (if length (items s) < cap then items s @ [x] else items s)"
  using enq_room [of s x] enq_full [of s x] capacity [of s] by auto

lemma fold_enq:
  "ok s \<Longrightarrow> length (items s) + length xs \<le> cap \<Longrightarrow> ok (fold enq xs s) \<and> items (fold enq xs s) = items s @ xs"
proof (induction xs arbitrary: s)
  case (Cons x xs)
  then show ?case using enq_room [of s x] by simp
qed simp

lemma deq_funpow:
  "ok s \<Longrightarrow> n \<le> length (items s) \<Longrightarrow> ok ((deq ^^ n) s) \<and> items ((deq ^^ n) s) = drop n (items s)"
proof (induction n)
  case (Suc n)
  then have "ok ((deq ^^ n) s)" "items ((deq ^^ n) s) = drop n (items s)" by simp_all
  then show ?case using Suc.prems deq_first [of "(deq ^^ n) s"] by (simp add: drop_Suc drop_tl)
qed simp

text \<open>First in, first out: what was put in comes out in the same order.\<close>

lemma first_in_first_out:
  assumes "ok s" "length (items s) + length xs \<le> cap" "n \<le> length (items s)"
  shows "items ((deq ^^ n) (fold enq xs s)) = drop n (items s) @ xs"
  using fold_enq [OF assms(1,2)] deq_funpow [of "fold enq xs s" n] assms(3) by simp

end

text \<open>The contents of the ring buffer, first entry first.\<close>

definition contents :: "pf_ar_plug \<Rightarrow> plug_item list" where
  "contents p = map (\<lambda>k. queue p ! ((current p + k) mod PF_AR_PLUG_MAX_QUEUE)) [0 ..< count p]"

definition ring_ok :: "pf_ar_plug \<Rightarrow> bool" where
  "ring_ok p \<longleftrightarrow> current p < PF_AR_PLUG_MAX_QUEUE \<and> count p \<le> PF_AR_PLUG_MAX_QUEUE \<and>
     length (queue p) = PF_AR_PLUG_MAX_QUEUE"

lemma length_contents [simp]: "length (contents p) = count p"
  by (simp add: contents_def)

lemma contents_Nil: "contents p = [] \<longleftrightarrow> count p = 0"
  using length_contents [of p] by (metis length_0_conv)

lemma wrap: "c < n \<Longrightarrow> k < n \<Longrightarrow> (c + k) mod n = (if c + k < n then c + k else c + k - n)" for c k n :: nat
  by (simp add: le_mod_geq)

lemma ring_index_neq: "c < n \<Longrightarrow> k < m \<Longrightarrow> m < n \<Longrightarrow> (c + m) mod n \<noteq> (c + k) mod n" for c k m n :: nat
  by (simp add: wrap) linarith

lemma enqueue_room:
  assumes "ring_ok p" "count p < PF_AR_PLUG_MAX_QUEUE"
  shows "ring_ok (enqueue x p) \<and> contents (enqueue x p) = contents p @ [x]"
proof -
  let ?n = PF_AR_PLUG_MAX_QUEUE
  let ?i = "(current p + count p) mod ?n"
  have i: "?i = (if current p + count p \<ge> ?n then current p + count p - ?n else current p + count p)"
    using assms by (simp add: wrap ring_ok_def)
  have e: "enqueue x p = p\<lparr>queue := (queue p)[?i := x], count := count p + 1\<rparr>"
    using assms(2) by (simp add: enqueue_def i Let_def)
  have lt: "?i < ?n" using assms by (simp add: ring_ok_def)
  have "contents (enqueue x p) = contents p @ [x]"
    unfolding e contents_def using assms lt ring_index_neq [of "current p" ?n _ "count p"]
    by (auto simp: ring_ok_def)
  moreover have "ring_ok (enqueue x p)" using assms by (simp add: e ring_ok_def)
  ultimately show ?thesis by simp
qed

lemma dequeue_first:
  assumes "ring_ok p" "0 < count p"
  shows "ring_ok (dequeue p) \<and> contents (dequeue p) = tl (contents p)"
proof -
  let ?n = PF_AR_PLUG_MAX_QUEUE
  have d: "dequeue p = p\<lparr>count := count p - 1, current := (current p + 1) mod ?n\<rparr>"
    using assms(1) by (auto simp: dequeue_def ring_ok_def Let_def le_Suc_eq)
  have "contents (dequeue p) = tl (contents p)"
  proof (rule nth_equalityI)
    fix k assume "k < length (contents (dequeue p))"
    then have "k < count p - 1" by (simp add: d)
    then show "contents (dequeue p) ! k = tl (contents p) ! k"
      by (simp add: contents_def d nth_tl mod_add_left_eq)
  qed (simp add: d)
  moreover have "ring_ok (dequeue p)" using assms by (auto simp: d ring_ok_def)
  ultimately show ?thesis by simp
qed

interpretation ring: bounded_fifo contents ring_ok enqueue dequeue PF_AR_PLUG_MAX_QUEUE
proof
  fix p :: pf_ar_plug and x
  assume ok: "ring_ok p"
  show "length (contents p) < PF_AR_PLUG_MAX_QUEUE \<Longrightarrow>
      ring_ok (enqueue x p) \<and> contents (enqueue x p) = contents p @ [x]"
    using enqueue_room ok by simp
  show "length (contents p) = PF_AR_PLUG_MAX_QUEUE \<Longrightarrow> enqueue x p = p" by (simp add: enqueue_def)
  show "contents p \<noteq> [] \<Longrightarrow> ring_ok (dequeue p) \<and> contents (dequeue p) = tl (contents p)"
    using dequeue_first [OF ok] by (simp add: contents_Nil)
  show "length (contents p) \<le> PF_AR_PLUG_MAX_QUEUE" using ok by (simp add: ring_ok_def)
qed

lemma current_contents: "ring_ok p \<Longrightarrow> 0 < count p \<Longrightarrow> current_item p = hd (contents p)"
  by (simp add: current_item_def contents_def ring_ok_def hd_map upt_conv_Cons)

subsection \<open>Runs of the state machine\<close>

text \<open>
  A run records the items that the queue accepted and the calls made. The items of the
  released alarms in the calls are \<open>alarms\<close>.
\<close>

definition initial_plug :: "pf_ar_plug \<Rightarrow> bool" where
  "initial_plug p \<longleftrightarrow> plug_state p = PF_PLUGSM_STATE_IDLE \<and> current p = 0 \<and> count p = 0 \<and>
     length (queue p) = PF_AR_PLUG_MAX_QUEUE"

inductive plug_run :: "pf_ar_plug \<Rightarrow> plug_item list \<Rightarrow> plug_out list \<Rightarrow> bool" where
  start: "initial_plug p \<Longrightarrow> plug_run p [] []"
| released: "plug_run p acc outs \<Longrightarrow> pf_plugsm_released_alarm_req x p = (p', out) \<Longrightarrow>
    plug_run p' (if count p < PF_AR_PLUG_MAX_QUEUE then acc @ [x] else acc) (outs @ out)"
| prmend: "plug_run p acc outs \<Longrightarrow> pf_plugsm_prmend_ind r p = (ret, p', out) \<Longrightarrow> plug_run p' acc (outs @ out)"
| ready_req: "plug_run p acc outs \<Longrightarrow> pf_plugsm_application_ready_req p = (p', out) \<Longrightarrow>
    plug_run p' acc (outs @ out)"
| ready_cnf: "plug_run p acc outs \<Longrightarrow> pf_plugsm_application_ready_cnf p = (p', out) \<Longrightarrow>
    plug_run p' acc (outs @ out)"

definition alarms :: "plug_out list \<Rightarrow> plug_item list" where
  "alarms outs = concat (map (\<lambda>c. case c of Send_released x \<Rightarrow> [x] | _ \<Rightarrow> []) outs)"

lemma alarms_simps [simp]:
  "alarms [] = []" "alarms (xs @ ys) = alarms xs @ alarms ys" "alarms (Send_released x # cs) = x # alarms cs"
  "alarms (Sm_released_cb x # cs) = alarms cs" "alarms (Generate_submodule_diff x # cs) = alarms cs"
  "alarms (Ccontrol_req_appl_ready # cs) = alarms cs"
  by (simp_all add: alarms_def)

text \<open>
  The invariant: idle exactly when nothing is queued; otherwise the alarm of the first entry
  has been sent, and the alarms sent are the accepted items without the waiting ones.
\<close>

definition plug_inv :: "pf_ar_plug \<Rightarrow> plug_item list \<Rightarrow> plug_out list \<Rightarrow> bool" where
  "plug_inv p acc outs \<longleftrightarrow> ring_ok p \<and> (plug_state p = PF_PLUGSM_STATE_IDLE \<longleftrightarrow> count p = 0) \<and>
     acc = alarms outs @ tl (contents p)"

lemma ring_ok_state [simp]: "ring_ok (p\<lparr>plug_state := st\<rparr>) = ring_ok p" "contents (p\<lparr>plug_state := st\<rparr>) = contents p"
  "current_item (p\<lparr>plug_state := st\<rparr>) = current_item p"
  by (simp_all add: ring_ok_def contents_def current_item_def)

lemma enqueue_state [simp]: "plug_state (enqueue x p) = plug_state p" "plug_state (dequeue p) = plug_state p"
  by (simp_all add: enqueue_def dequeue_def Let_def)

lemma plug_inv_released:
  assumes "plug_inv p acc outs" "pf_plugsm_released_alarm_req x p = (p', out)"
  shows "plug_inv p' (if count p < PF_AR_PLUG_MAX_QUEUE then acc @ [x] else acc) (outs @ out)"
proof -
  have ok: "ring_ok p" "ring_ok (enqueue x p)" using assms(1) ring.enq_ok by (auto simp: plug_inv_def)
  have c: "contents (enqueue x p) = (if count p < PF_AR_PLUG_MAX_QUEUE then contents p @ [x] else contents p)"
    using ring.enq_items [OF ok(1), of x] by simp
  have n: "count (enqueue x p) = (if count p < PF_AR_PLUG_MAX_QUEUE then count p + 1 else count p)"
    by (simp add: enqueue_def Let_def)
  show ?thesis
  proof (cases "plug_state p = PF_PLUGSM_STATE_IDLE")
    case True
    then have z: "count p = 0" "contents p = []" using assms(1) contents_Nil by (auto simp: plug_inv_def)
    have room: "0 < PF_AR_PLUG_MAX_QUEUE" by (simp add: PF_AR_PLUG_MAX_QUEUE_def PNET_MAX_API_def PNET_MAX_SLOTS_def PNET_MAX_SUBSLOTS_def)
    have "current_item (enqueue x p) = x"
      using current_contents [OF ok(2)] c n z room by simp
    then show ?thesis
      using assms True ok c n z room by (auto simp: pf_plugsm_released_alarm_req_def Let_def plug_inv_def)
  next
    case False
    then have "contents p \<noteq> []" using assms(1) contents_Nil by (auto simp: plug_inv_def)
    then show ?thesis
      using assms False ok c n by (auto simp: pf_plugsm_released_alarm_req_def Let_def plug_inv_def)
  qed
qed

lemma plug_inv_ready_cnf:
  assumes "plug_inv p acc outs" "pf_plugsm_application_ready_cnf p = (p', out)"
  shows "plug_inv p' acc (outs @ out)"
proof (cases "plug_state p = PF_PLUGSM_STATE_WFAPLRDYCNF")
  case True
  then have n: "0 < count p" and ok: "ring_ok p" using assms(1) by (auto simp: plug_inv_def)
  have d: "ring_ok (dequeue p)" "contents (dequeue p) = tl (contents p)"
    using ring.deq_first [OF ok] n contents_Nil by auto
  have cnt: "count (dequeue p) = count p - 1" by (simp add: dequeue_def Let_def)
  show ?thesis
  proof (cases "count p = 1")
    case True
    then have "tl (contents p) = []" using length_contents [of p] by (cases "contents p") auto
    then show ?thesis
      using assms d cnt True \<open>plug_state p = _\<close> by (auto simp: pf_plugsm_application_ready_cnf_def Let_def plug_inv_def)
  next
    case False
    then have n1: "0 < count (dequeue p)" using n cnt by simp
    have "current_item (dequeue p) = hd (tl (contents p))"
      using current_contents [OF d(1) n1] d(2) by simp
    moreover have "tl (contents p) \<noteq> []" using d(2) n1 contents_Nil [of "dequeue p"] by simp
    ultimately show ?thesis
      using assms d n1 \<open>plug_state p = _\<close> by (auto simp: pf_plugsm_application_ready_cnf_def Let_def plug_inv_def)
  qed
qed (use assms in \<open>auto simp: pf_plugsm_application_ready_cnf_def\<close>)

lemma plug_inv_waiting:
  "plug_inv p acc outs \<Longrightarrow> plug_state p \<noteq> PF_PLUGSM_STATE_IDLE \<Longrightarrow> st \<noteq> PF_PLUGSM_STATE_IDLE \<Longrightarrow> alarms out = [] \<Longrightarrow>
   plug_inv (p\<lparr>plug_state := st\<rparr>) acc (outs @ out)"
  by (simp add: plug_inv_def)

lemma plug_inv_prmend:
  assumes "plug_inv p acc outs" "pf_plugsm_prmend_ind r p = (ret, p', out)"
  shows "plug_inv p' acc (outs @ out)"
proof (cases "plug_state p = PF_PLUGSM_STATE_WFPRMIND")
  case True
  define c where "c = (case r of None \<Rightarrow> (0, []) | Some r \<Rightarrow> (r, [Sm_released_cb (current_item p)]))"
  have a: "alarms (snd c) = []" by (simp add: c_def split: option.split)
  let ?p = "p\<lparr>plug_state := PF_PLUGSM_STATE_WFAPLRDYCNF\<rparr>"
  have w: "plug_inv (p\<lparr>plug_state := st\<rparr>) acc (outs @ snd c)" if "st \<noteq> PF_PLUGSM_STATE_IDLE" for st
    using plug_inv_waiting [OF assms(1) _ that a] True by simp
  obtain q out' where q: "pf_plugsm_application_ready_cnf ?p = (q, out')" by fastforce
  have "plug_inv q acc ((outs @ snd c) @ out')" using plug_inv_ready_cnf [OF w q] by simp
  then show ?thesis
    using assms(2) True w [of PF_PLUGSM_STATE_WFDATAUPDATE] q
    by (auto simp: pf_plugsm_prmend_ind_def c_def [symmetric] Let_def split_beta split: if_splits)
qed (use assms in \<open>auto simp: pf_plugsm_prmend_ind_def\<close>)

lemma plug_run_inv: "plug_run p acc outs \<Longrightarrow> plug_inv p acc outs"
proof (induction rule: plug_run.induct)
  case (start p)
  then show ?case by (simp add: plug_inv_def initial_plug_def ring_ok_def contents_def PF_AR_PLUG_MAX_QUEUE_def
      PNET_MAX_API_def PNET_MAX_SLOTS_def PNET_MAX_SUBSLOTS_def)
next
  case (released p acc outs x p' out)
  then show ?case by (intro plug_inv_released)
next
  case (prmend p acc outs r ret p' out)
  then show ?case by (intro plug_inv_prmend)
next
  case (ready_req p acc outs p' out)
  then show ?case
    using plug_inv_waiting by (auto simp: pf_plugsm_application_ready_req_def split: if_splits)
next
  case (ready_cnf p acc outs p' out)
  then show ?case by (intro plug_inv_ready_cnf)
qed

subsection \<open>Properties\<close>

text \<open>C39: In every run the released alarms sent, followed by the submodules still waiting behind the one
  in progress, are exactly the submodules accepted into the queue, in their order: none is lost,
  sent twice or overtaken. The machine is idle exactly when the queue is empty.\<close>

theorem released_alarms_in_order:
  assumes "plug_run p acc outs"
  shows "acc = alarms outs @ tl (contents p) \<and> (plug_state p = PF_PLUGSM_STATE_IDLE \<longleftrightarrow> contents p = []) \<and>
    (plug_state p = PF_PLUGSM_STATE_IDLE \<longrightarrow> alarms outs = acc) \<and> length (contents p) \<le> PF_AR_PLUG_MAX_QUEUE"
  using plug_run_inv [OF assms] ring.capacity [of p] contents_Nil [of p] by (auto simp: plug_inv_def)

definition example_item :: "u16 \<Rightarrow> plug_item" where
  "example_item n = \<lparr>pi_api = 0, pi_slot_number = n, pi_subslot_number = 1, pi_module_ident = 0x32, pi_submodule_ident = 1\<rparr>"

definition example_plug :: pf_ar_plug where
  "example_plug = \<lparr>plug_state = PF_PLUGSM_STATE_IDLE, current = 0, count = 0,
     queue = replicate PF_AR_PLUG_MAX_QUEUE (example_item 0)\<rparr>"

definition two_released :: pf_ar_plug where
  "two_released = fst (pf_plugsm_released_alarm_req (example_item 2)
     (fst (pf_plugsm_released_alarm_req (example_item 1) example_plug)))"

lemma two_released_run: "plug_run two_released [example_item 1, example_item 2] [Send_released (example_item 1)]"
proof -
  have start: "plug_run example_plug [] []"
    by (rule plug_run.start) (simp add: initial_plug_def example_plug_def)
  note defs = pf_plugsm_released_alarm_req_def enqueue_def example_plug_def Let_def current_item_def
    PF_AR_PLUG_MAX_QUEUE_def PNET_MAX_API_def PNET_MAX_SLOTS_def PNET_MAX_SUBSLOTS_def
  let ?p1 = "fst (pf_plugsm_released_alarm_req (example_item 1) example_plug)"
  have 1: "pf_plugsm_released_alarm_req (example_item 1) example_plug = (?p1, [Send_released (example_item 1)])"
    by (simp add: defs)
  have r1: "plug_run ?p1 [example_item 1] [Send_released (example_item 1)]"
    using plug_run.released [OF start 1] by (simp add: defs)
  have c1: "count ?p1 = 1" "plug_state ?p1 = PF_PLUGSM_STATE_WFPRMIND" by (simp_all add: defs)
  have 2: "pf_plugsm_released_alarm_req (example_item 2) ?p1 = (two_released, [])"
    using c1(2) by (simp add: two_released_def pf_plugsm_released_alarm_req_def Let_def)
  show ?thesis
    using plug_run.released [OF r1 2] c1 by (simp add: PF_AR_PLUG_MAX_QUEUE_def PNET_MAX_API_def
        PNET_MAX_SLOTS_def PNET_MAX_SUBSLOTS_def)
qed

lemma released_alarms_in_order_witness: "tl (contents two_released) = [example_item 2]"
  using released_alarms_in_order [OF two_released_run] by simp

text \<open>The ring buffer is a first-in first-out queue of 16 entries: after putting in a list of
  entries that fits and taking out some of the older ones, the contents are the remaining old
  entries followed by the new ones in order, also across the wrap-around of the indices.\<close>

theorem ring_buffer_fifo:
  assumes "ring_ok p" "length (contents p) + length xs \<le> PF_AR_PLUG_MAX_QUEUE" "n \<le> length (contents p)"
  shows "contents ((dequeue ^^ n) (fold enqueue xs p)) = drop n (contents p) @ xs"
  using assms by (rule ring.first_in_first_out)

lemma ring_buffer_fifo_witness:
  "contents ((dequeue ^^ 1) (fold enqueue [example_item 3, example_item 4] two_released))
   = [example_item 2, example_item 3, example_item 4]"
proof -
  have ok: "ring_ok two_released" "contents two_released = [example_item 1, example_item 2]"
    by code_simp+
  have "length (contents two_released) + length [example_item 3, example_item 4] \<le> PF_AR_PLUG_MAX_QUEUE"
    unfolding ok(2) by (simp add: PF_AR_PLUG_MAX_QUEUE_def PNET_MAX_API_def PNET_MAX_SLOTS_def PNET_MAX_SUBSLOTS_def)
  from ring_buffer_fifo [OF ok(1) this, of 1] show ?thesis unfolding ok(2) by simp
qed

text \<open>One complete exchange with the controller for the submodule in progress.\<close>

definition plug_exchange :: "pf_ar_plug \<times> plug_out list \<Rightarrow> pf_ar_plug \<times> plug_out list" where
  "plug_exchange pc = (let (p, outs) = pc;
     (_, p, out1) = pf_plugsm_prmend_ind (Some 0) p;
     (p, out2) = pf_plugsm_application_ready_req p;
     (p, out3) = pf_plugsm_application_ready_cnf p
     in (p, outs @ out1 @ out2 @ out3))"

lemma plug_exchange_step:
  assumes run: "plug_run p acc outs" and st: "plug_state p = PF_PLUGSM_STATE_WFPRMIND"
    and ex: "plug_exchange (p, outs) = (p', outs')"
  shows "plug_run p' acc outs'" "count p' = count p - 1"
    "plug_state p' = (if count p = 1 then PF_PLUGSM_STATE_IDLE else PF_PLUGSM_STATE_WFPRMIND)"
proof -
  let ?p1 = "p\<lparr>plug_state := PF_PLUGSM_STATE_WFDATAUPDATE\<rparr>"
  let ?p2 = "p\<lparr>plug_state := PF_PLUGSM_STATE_WFAPLRDYCNF\<rparr>"
  have 1: "pf_plugsm_prmend_ind (Some 0) p = (0, ?p1, [Sm_released_cb (current_item p)])"
    using st by (simp add: pf_plugsm_prmend_ind_def)
  have 2: "pf_plugsm_application_ready_req ?p1 = (?p2, [Generate_submodule_diff (current_item p), Ccontrol_req_appl_ready])"
    by (simp add: pf_plugsm_application_ready_req_def)
  obtain q out where 3: "pf_plugsm_application_ready_cnf ?p2 = (q, out)" by fastforce
  have q: "p' = q" "outs' = ((outs @ [Sm_released_cb (current_item p)]) @
      [Generate_submodule_diff (current_item p), Ccontrol_req_appl_ready]) @ out"
    using ex by (simp_all add: plug_exchange_def 1 2 3)
  show "plug_run p' acc outs'"
    unfolding q by (rule plug_run.ready_cnf [OF plug_run.ready_req [OF plug_run.prmend [OF run 1] 2] 3])
  have n: "0 < count p" using plug_run_inv [OF run] st by (auto simp: plug_inv_def)
  have "count (dequeue ?p2) = count p - 1" by (simp add: dequeue_def Let_def)
  then show "count p' = count p - 1"
    "plug_state p' = (if count p = 1 then PF_PLUGSM_STATE_IDLE else PF_PLUGSM_STATE_WFPRMIND)"
    using 3 n unfolding q by (auto simp: pf_plugsm_application_ready_cnf_def Let_def split: if_splits)
qed

text \<open>Every accepted submodule is dealt with: after as many exchanges with the controller as there
  are entries in the queue, the machine is idle and every accepted submodule has had its alarm.\<close>

theorem plug_queue_drains:
  assumes "plug_run p acc outs" "plug_state p = PF_PLUGSM_STATE_WFPRMIND"
    and "(plug_exchange ^^ count p) (p, outs) = (p', outs')"
  shows "plug_state p' = PF_PLUGSM_STATE_IDLE \<and> contents p' = [] \<and> alarms outs' = acc"
  using assms
proof (induction "count p" arbitrary: p outs)
  case 0
  then show ?case using plug_run_inv [of p acc outs] by (auto simp: plug_inv_def)
next
  case (Suc n)
  obtain q out where q: "plug_exchange (p, outs) = (q, out)" by fastforce
  note step = plug_exchange_step [OF Suc.prems(1,2) q]
  have rest: "(plug_exchange ^^ n) (q, out) = (p', outs')"
  proof -
    have "(plug_exchange ^^ Suc n) (p, outs) = (plug_exchange ^^ n) (q, out)"
      by (simp only: funpow_Suc_right o_apply q)
    then show ?thesis using Suc.prems(3) unfolding Suc.hyps(2) [symmetric] by simp
  qed
  have n: "n = count q" using step(2) Suc.hyps(2) by simp
  show ?case
  proof (cases "n = 0")
    case True
    then have "p' = q" "outs' = out" "count q = 0" "plug_state q = PF_PLUGSM_STATE_IDLE"
      using rest step(3) n Suc.hyps(2) by auto
    then show ?thesis
      using plug_run_inv [OF step(1)] contents_Nil [of q] by (auto simp: plug_inv_def)
  next
    case False
    then have "plug_state q = PF_PLUGSM_STATE_WFPRMIND" using step(3) Suc.hyps(2) by simp
    then show ?thesis using Suc.hyps(1) [OF n step(1)] rest unfolding n by blast
  qed
qed

lemma plug_queue_drains_witness:
  "plug_state (fst ((plug_exchange ^^ 2) (two_released, [Send_released (example_item 1)]))) = PF_PLUGSM_STATE_IDLE"
proof -
  have "count two_released = 2" "plug_state two_released = PF_PLUGSM_STATE_WFPRMIND"
    by (simp_all add: two_released_def pf_plugsm_released_alarm_req_def enqueue_def
        example_plug_def Let_def PF_AR_PLUG_MAX_QUEUE_def PNET_MAX_API_def PNET_MAX_SLOTS_def
        PNET_MAX_SUBSLOTS_def)
  then show ?thesis
    using plug_queue_drains [OF two_released_run _ surjective_pairing] by simp
qed

end
