(* ===== verification/Cm_State.thy ===== *)
theory Cm_State
  imports Timer_Tick Block_Types
begin

section \<open>Application relations and their table\<close>

text \<open>
  The part of \<open>pf_ar_t\<close> that the context management uses, and the AR table of \<open>pf_cmrpc.c\<close>:
  \<open>pf_ar_allocate\<close>, \<open>pf_ar_release\<close> and the searches. A pointer to an AR is its index in
  \<open>ars\<close>. Releasing an AR zeroes it: \<open>zero_ar\<close>, whose states are the first enumerators. Calls
  into parts that are not modelled (the user's callbacks, PPM, CPM, alarms, sessions, the device
  tree) are recorded in \<open>outs\<close>, oldest first; where the code uses the result of such a call, the
  result is an argument of the operation.
\<close>

datatype cm_event = PNET_EVENT_ABORT | PNET_EVENT_STARTUP | PNET_EVENT_PRMEND | PNET_EVENT_APPLRDY | PNET_EVENT_DATA

datatype cmdev_state =
    PF_CMDEV_STATE_POWER_ON | PF_CMDEV_STATE_W_CIND | PF_CMDEV_STATE_W_CRES | PF_CMDEV_STATE_W_SUCNF
  | PF_CMDEV_STATE_W_PEIND | PF_CMDEV_STATE_W_PERES | PF_CMDEV_STATE_W_ARDY | PF_CMDEV_STATE_W_ARDYCNF
  | PF_CMDEV_STATE_WDATA | PF_CMDEV_STATE_DATA | PF_CMDEV_STATE_ABORT

datatype cmsu_state = PF_CMSU_STATE_IDLE | PF_CMSU_STATE_STARTUP | PF_CMSU_STATE_RUN | PF_CMSU_STATE_ABORT
datatype cmwrr_state = PF_CMWRR_STATE_IDLE | PF_CMWRR_STATE_STARTUP | PF_CMWRR_STATE_PRMEND | PF_CMWRR_STATE_DATA
datatype cmsm_state = PF_CMSM_STATE_IDLE | PF_CMSM_STATE_RUN
datatype cmio_state = PF_CMIO_STATE_IDLE | PF_CMIO_STATE_STARTUP | PF_CMIO_STATE_WDATA | PF_CMIO_STATE_DATA
datatype cmpbe_state =
    PF_CMPBE_STATE_IDLE | PF_CMPBE_STATE_WFIND | PF_CMPBE_STATE_WFRSP | PF_CMPBE_STATE_WFPEI
  | PF_CMPBE_STATE_WFPER | PF_CMPBE_STATE_WFREQ | PF_CMPBE_STATE_WFCNF

datatype iocr_type =
    PF_IOCR_TYPE_RESERVED_0 | PF_IOCR_TYPE_INPUT | PF_IOCR_TYPE_OUTPUT | PF_IOCR_TYPE_MC_PROVIDER
  | PF_IOCR_TYPE_MC_CONSUMER

datatype ar_state = PF_AR_STATE_PRIMARY | PF_AR_STATE_FIRST | PF_AR_STATE_BACKUP

record iodata_object =
  io_api_id :: u32
  io_slot_nbr :: u16
  io_subslot_nbr :: u16

text \<open>The first \<open>nbr_data_desc\<close> and \<open>nbr_iocrs\<close> entries of the C arrays are the lists.\<close>

record iocr =
  iocr_type :: iocr_type
  data_desc :: "iodata_object list"
  cmio_start :: bool

record ar =
  ar_in_use :: bool
  arep :: nat
  ar_uuid :: pf_uuid
  ar_device_access :: bool
  ar_startup_mode :: bool
  activity_timeout_factor :: u16
  ar_state :: ar_state
  iocrs :: "iocr list"
  ready_4_data :: bool
  alarm_enable :: bool
  err_cls :: u8
  err_code :: u8
  ar_cmdev :: cmdev_state
  ar_cmsu :: cmsu_state
  ar_cmio :: cmio_state
  cmio_timeout :: sched_handle
  cmio_timer_should_reschedule :: bool
  ar_cmwrr :: cmwrr_state
  ar_cmsm :: cmsm_state
  cmsm_timeout :: sched_handle
  ar_cmpbe :: cmpbe_state
  cmpbe_stored_command :: u16

text \<open>An AR after \<open>memset (p_ar, 0, ...)\<close>.\<close>

definition zero_ar :: ar where
  "zero_ar = \<lparr>ar_in_use = False, arep = 0, ar_uuid = \<lparr>data1 = 0, data2 = 0, data3 = 0, data4 = replicate 8 0\<rparr>, ar_device_access = False, ar_startup_mode = False,
     activity_timeout_factor = 0, ar_state = PF_AR_STATE_PRIMARY, iocrs = [], ready_4_data = False,
     alarm_enable = False, err_cls = 0, err_code = 0, ar_cmdev = PF_CMDEV_STATE_POWER_ON,
     ar_cmsu = PF_CMSU_STATE_IDLE, ar_cmio = PF_CMIO_STATE_IDLE, cmio_timeout = \<lparr>h_name = 0, timer_index = 0\<rparr>,
     cmio_timer_should_reschedule = False, ar_cmwrr = PF_CMWRR_STATE_IDLE, ar_cmsm = PF_CMSM_STATE_IDLE,
     cmsm_timeout = \<lparr>h_name = 0, timer_index = 0\<rparr>, ar_cmpbe = PF_CMPBE_STATE_IDLE, cmpbe_stored_command = 0\<rparr>"

datatype cm_cb = Cmsm_timeout | Cmio_timer_expired

datatype control_command =
    PNET_CONTROL_COMMAND_PRM_BEGIN | PNET_CONTROL_COMMAND_PRM_END | PNET_CONTROL_COMMAND_APP_RDY
  | PNET_CONTROL_COMMAND_RELEASE | PNET_CONTROL_COMMAND_RDY_FOR_COMPANION | PNET_CONTROL_COMMAND_RDY_FOR_RTC3

text \<open>
  Calls that may fail. \<open>Failure_reported\<close> is the failure of a timer: the called function sends an
  error indication, which aborts the AR, before it returns.
\<close>

datatype start_call = Cpm_create nat | Cpm_activate_req nat | Ppm_create nat | Ppm_activate_req nat | Alarm_activate
datatype call_result = Success | Failure | Failure_reported

datatype cm_out =
    Fspm_state_ind nat cm_event
  | Fspm_dcontrol_ind nat control_command
  | Fspm_release_ind nat
  | Fspm_ccontrol_cnf nat
  | Cm_call nat start_call
  | Ppm_close_req nat nat
  | Cpm_close_req nat nat
  | Alarm_close nat
  | Alarm_free_endpoint nat
  | Sessions_release nat
  | Device_clear nat
  | Ccontrol_req_apprdy nat
  | Log_book_entry nat
  | Connect_rsp int
  | Lldp_restart_transmission

text \<open>
  \<open>cmio_name\<close> and \<open>cmsm_name\<close> are the addresses of the literals that name the timers, \<open>order\<close> the
  first \<open>cmrpc_nbr_ars\<close> entries of \<open>cmrpc_ar_order\<close>. \<open>call_result\<close> is the result that a call made
  for an AR has.
\<close>

record cm_net =
  cm_sched :: "(cm_cb, nat) sched"
  cm_clock :: u32
  cmio_name :: name_ptr
  cmsm_name :: name_ptr
  ars :: "ar list"
  order :: "nat list"
  call_result :: "nat \<Rightarrow> start_call \<Rightarrow> call_result"
  outs :: "cm_out list"

definition the_ar :: "nat \<Rightarrow> cm_net \<Rightarrow> ar" where
  "the_ar a n = ars n ! a"

definition upd_ar :: "nat \<Rightarrow> (ar \<Rightarrow> ar) \<Rightarrow> cm_net \<Rightarrow> cm_net" where
  "upd_ar a f n = n\<lparr>ars := upd a f (ars n)\<rparr>"

definition emit_outs :: "cm_out list \<Rightarrow> cm_net \<Rightarrow> cm_net" where
  "emit_outs os n = n\<lparr>outs := outs n @ os\<rparr>"

subsection \<open>The AR table\<close>

definition pf_ar_allocate :: "cm_net \<Rightarrow> nat option \<times> cm_net" where
  "pf_ar_allocate n = (case find (\<lambda>i. \<not> ar_in_use (ars n ! i)) [0 ..< length (ars n)] of
     None \<Rightarrow> (None, n)
   | Some ix \<Rightarrow> (let
       n = upd_ar ix (\<lambda>_. zero_ar\<lparr>ar_in_use := True\<rparr>) n;
       n = (if ix < PNET_MAX_AR
            then (upd_ar ix (\<lambda>r. r\<lparr>arep := ix + 1, ar_cmsu := PF_CMSU_STATE_IDLE, ar_cmwrr := PF_CMWRR_STATE_IDLE,
                    cmio_timeout := pf_scheduler_init_handle (cmio_name n), cmio_timer_should_reschedule := False\<rparr>) n)
                  \<lparr>order := order n @ [ix]\<rparr>
            else n)
       in (Some ix, n)))"

definition pf_ar_release :: "nat \<Rightarrow> cm_net \<Rightarrow> cm_net" where
  "pf_ar_release a n =
     (if ar_in_use (the_ar a n)
      then let n = (if arep (the_ar a n) > 0 then n\<lparr>order := remove1 (arep (the_ar a n) - 1) (order n)\<rparr> else n)
        in upd_ar a (\<lambda>_. zero_ar) n
      else n)"

definition pf_ar_find_by_uuid :: "pf_uuid \<Rightarrow> cm_net \<Rightarrow> nat option" where
  "pf_ar_find_by_uuid u n = find (\<lambda>ix. ar_in_use (ars n ! ix) \<and>
     ar_cmdev (ars n ! ix) \<noteq> PF_CMDEV_STATE_POWER_ON \<and> ar_uuid (ars n ! ix) = u) [0 ..< length (ars n)]"

definition pf_ar_find_by_arep :: "nat \<Rightarrow> cm_net \<Rightarrow> nat option" where
  "pf_ar_find_by_arep e n =
     (if e > 0 \<and> e - 1 < length (ars n) \<and> ar_in_use (ars n ! (e - 1)) then Some (e - 1) else None)"

subsection \<open>Access to one AR\<close>

text \<open>What an operation on the AR \<open>a\<close> leaves as it is: the other ARs.\<close>

definition only_ar :: "nat \<Rightarrow> cm_net \<Rightarrow> cm_net \<Rightarrow> bool" where
  "only_ar a n n' \<longleftrightarrow> length (ars n') = length (ars n) \<and> (\<forall>b. b \<noteq> a \<longrightarrow> ars n' ! b = ars n ! b)"

lemma only_ar_refl [simp]: "only_ar a n n"
  by (simp add: only_ar_def)

lemma only_ar_trans: "only_ar a n n' \<Longrightarrow> only_ar a n' n'' \<Longrightarrow> only_ar a n n''"
  by (simp add: only_ar_def)

lemma the_ar_upd_ar [simp]: "a < length (ars n) \<Longrightarrow> the_ar a (upd_ar a f n) = f (the_ar a n)"
  by (simp add: the_ar_def upd_ar_def upd_def)

lemma length_ars_upd_ar [simp]: "length (ars (upd_ar a f n)) = length (ars n)"
  by (simp add: upd_ar_def upd_def)

lemma only_ar_upd_ar [simp]: "only_ar a n (upd_ar a f n)"
  by (simp add: only_ar_def upd_ar_def upd_def)

lemma upd_ar_fields [simp]:
  "cm_sched (upd_ar a f n) = cm_sched n" "cm_clock (upd_ar a f n) = cm_clock n" "order (upd_ar a f n) = order n"
  "outs (upd_ar a f n) = outs n" "call_result (upd_ar a f n) = call_result n" "cmio_name (upd_ar a f n) = cmio_name n" "cmsm_name (upd_ar a f n) = cmsm_name n"
  by (simp_all add: upd_ar_def)

lemma emit_outs_fields [simp]:
  "cm_sched (emit_outs os n) = cm_sched n" "cm_clock (emit_outs os n) = cm_clock n" "ars (emit_outs os n) = ars n"
  "order (emit_outs os n) = order n" "outs (emit_outs os n) = outs n @ os" "the_ar a (emit_outs os n) = the_ar a n"
  "call_result (emit_outs os n) = call_result n" "cmio_name (emit_outs os n) = cmio_name n" "cmsm_name (emit_outs os n) = cmsm_name n"
  by (simp_all add: emit_outs_def the_ar_def)

lemma the_ar_sched [simp]: "the_ar a (n\<lparr>cm_sched := s\<rparr>) = the_ar a n" "the_ar a (n\<lparr>order := p\<rparr>) = the_ar a n"
  by (simp_all add: the_ar_def)

lemma only_ar_simps [simp]:
  "only_ar a n (emit_outs os n') = only_ar a n n'" "only_ar a n (n'\<lparr>cm_sched := s\<rparr>) = only_ar a n n'"
  "only_ar a n (n'\<lparr>order := p\<rparr>) = only_ar a n n'"
  "only_ar a n (upd_ar a f n') = only_ar a n n'"
  by (auto simp: only_ar_def upd_ar_def upd_def)

end
