(* ===== verification/Cm_Machines.thy ===== *)
theory Cm_Machines
  imports Cm_State
begin

section \<open>The state machines of an AR\<close>

text \<open>
  How \<open>pf_cmsu.c\<close>, \<open>pf_cmio.c\<close>, \<open>pf_cmwrr.c\<close>, \<open>pf_cmsm.c\<close>, \<open>pf_cmpbe.c\<close> and \<open>pf_cmrpc.c\<close> take an
  event of CMDEV, how \<open>pf_cmdev_state_ind\<close> sends it to all of them, and the start of an AR by
  CMSU. The timers of CMSM and CMIO are entries of the scheduler that the ARs share. An operation
  is \<open>None\<close> where an assertion of the scheduler fails.
\<close>

definition PF_CMIO_TIMER_PERIOD :: u32 where "PF_CMIO_TIMER_PERIOD = 100000"
definition PF_IDX_DEV_CONN_MON_TRIGGER :: u16 where "PF_IDX_DEV_CONN_MON_TRIGGER = 0xFBFF"
definition PNET_ERROR_CODE_2_CMSU_AR_ADD_PROV_CONS_FAILED :: u8 where "PNET_ERROR_CODE_2_CMSU_AR_ADD_PROV_CONS_FAILED = 1"
definition PNET_ERROR_CODE_2_CMSU_AR_ALARM_OPEN_FAILED :: u8 where "PNET_ERROR_CODE_2_CMSU_AR_ALARM_OPEN_FAILED = 2"
definition PNET_ERROR_CODE_1_CPM :: u8 where "PNET_ERROR_CODE_1_CPM = 0x48"
definition PNET_ERROR_CODE_2_CPM_INVALID :: u8 where "PNET_ERROR_CODE_2_CPM_INVALID = 1"
definition PNET_ERROR_CODE_1_PPM :: u8 where "PNET_ERROR_CODE_1_PPM = 0x49"
definition PNET_ERROR_CODE_2_PPM_INVALID :: u8 where "PNET_ERROR_CODE_2_PPM_INVALID = 1"
definition PNET_ERROR_CODE_1_CMDEV :: u8 where "PNET_ERROR_CODE_1_CMDEV = 0x3D"
definition PNET_ERROR_CODE_2_CMDEV_STATE_CONFLICT :: u8 where "PNET_ERROR_CODE_2_CMDEV_STATE_CONFLICT = 0"

text \<open>The output CRs, whose CPM must have data.\<close>

definition consumes :: "iocr \<Rightarrow> bool" where
  "consumes c \<longleftrightarrow> iocr_type c = PF_IOCR_TYPE_OUTPUT \<or> iocr_type c = PF_IOCR_TYPE_MC_CONSUMER"

subsection \<open>CMIO: waiting for data\<close>

definition stop_consumers :: "ar \<Rightarrow> ar" where
  "stop_consumers r = r\<lparr>iocrs := map (\<lambda>c. if consumes c then c\<lparr>cmio_start := False\<rparr> else c) (iocrs r)\<rparr>"

text \<open>Starting and stopping a timer of an AR.\<close>

definition cmio_add :: "nat \<Rightarrow> cm_net \<Rightarrow> cm_net option" where
  "cmio_add a n = do {
     (_, h, s) \<leftarrow> pf_scheduler_add (cm_clock n) PF_CMIO_TIMER_PERIOD Cmio_timer_expired a
       (cmio_timeout (the_ar a n)) (cm_sched n);
     Some (upd_ar a (cmio_timeout_update (\<lambda>_. h)) (n\<lparr>cm_sched := s\<rparr>))
   }"

definition pf_cmio_cmdev_state_ind :: "nat \<Rightarrow> cm_event \<Rightarrow> cm_net \<Rightarrow> cm_net option" where
  "pf_cmio_cmdev_state_ind a event n = (case ar_cmio (the_ar a n) of
     PF_CMIO_STATE_IDLE \<Rightarrow>
       if event = PNET_EVENT_ABORT
       then Some (upd_ar a (\<lambda>r. r\<lparr>cmio_timer_should_reschedule := False, ar_cmio := PF_CMIO_STATE_STARTUP\<rparr>) n)
       else if event = PNET_EVENT_STARTUP
       then Some (upd_ar a (\<lambda>r. (stop_consumers r)
         \<lparr>cmio_timer_should_reschedule := False, ar_cmio := PF_CMIO_STATE_STARTUP\<rparr>) n)
       else Some n
   | PF_CMIO_STATE_STARTUP \<Rightarrow>
       if event = PNET_EVENT_ABORT
       then Some (upd_ar a (\<lambda>r. r\<lparr>cmio_timer_should_reschedule := False, ar_cmio := PF_CMIO_STATE_IDLE\<rparr>) n)
       else if event = PNET_EVENT_STARTUP
       then Some (upd_ar a (\<lambda>r. (stop_consumers r)\<lparr>ar_cmio := PF_CMIO_STATE_WDATA\<rparr>) n)
       else if event = PNET_EVENT_PRMEND
       then do {
         let n = upd_ar a (cmio_timer_should_reschedule_update (\<lambda>_. True)) n;
         n \<leftarrow> cmio_add a n;
         Some (upd_ar a (ar_cmio_update (\<lambda>_. PF_CMIO_STATE_WDATA)) n)
       }
       else Some n
   | PF_CMIO_STATE_WDATA \<Rightarrow>
       if event = PNET_EVENT_ABORT
       then Some (upd_ar a (\<lambda>r. r\<lparr>cmio_timer_should_reschedule := False, ar_cmio := PF_CMIO_STATE_IDLE\<rparr>) n)
       else if event = PNET_EVENT_DATA
       then do {
         let n = upd_ar a (cmio_timer_should_reschedule_update (\<lambda>_. False)) n;
         (h, s) \<leftarrow> pf_scheduler_remove_if_running (cmio_timeout (the_ar a n)) (cm_sched n);
         Some (upd_ar a (\<lambda>r. r\<lparr>cmio_timeout := h, ar_cmio := PF_CMIO_STATE_DATA\<rparr>) (n\<lparr>cm_sched := s\<rparr>))
       }
       else Some n
   | PF_CMIO_STATE_DATA \<Rightarrow>
       if event = PNET_EVENT_ABORT
       then Some (upd_ar a (\<lambda>r. r\<lparr>cmio_timer_should_reschedule := False, ar_cmio := PF_CMIO_STATE_IDLE\<rparr>) n)
       else Some n)"

subsection \<open>CMWRR: its states\<close>

definition cmwrr_next :: "cmwrr_state \<Rightarrow> cm_event \<Rightarrow> cmwrr_state" where
  "cmwrr_next st event = (case st of
     PF_CMWRR_STATE_IDLE \<Rightarrow> if event = PNET_EVENT_STARTUP then PF_CMWRR_STATE_STARTUP else st
   | PF_CMWRR_STATE_STARTUP \<Rightarrow>
       if event = PNET_EVENT_PRMEND then PF_CMWRR_STATE_PRMEND
       else if event = PNET_EVENT_ABORT then PF_CMWRR_STATE_IDLE else st
   | PF_CMWRR_STATE_PRMEND \<Rightarrow>
       if event = PNET_EVENT_ABORT then PF_CMWRR_STATE_IDLE
       else if event = PNET_EVENT_APPLRDY then PF_CMWRR_STATE_DATA else st
   | PF_CMWRR_STATE_DATA \<Rightarrow> if event = PNET_EVENT_ABORT then PF_CMWRR_STATE_IDLE else st)"

definition pf_cmwrr_cmdev_state_ind :: "nat \<Rightarrow> cm_event \<Rightarrow> cm_net \<Rightarrow> cm_net" where
  "pf_cmwrr_cmdev_state_ind a event n = upd_ar a (\<lambda>r. r\<lparr>ar_cmwrr := cmwrr_next (ar_cmwrr r) event\<rparr>) n"

subsection \<open>CMSM: monitoring the startup\<close>

text \<open>\<open>cm_initiator_activity_timeout_factor * 100 * 1000\<close>, converted to \<open>uint32_t\<close>.\<close>

definition cmsm_delay :: "ar \<Rightarrow> u32" where
  "cmsm_delay r = ucast (activity_timeout_factor r) * 100 * 1000"

definition cmsm_restart :: "nat \<Rightarrow> cm_net \<Rightarrow> cm_net option" where
  "cmsm_restart a n = do {
     (_, h, s) \<leftarrow> pf_scheduler_restart (cm_clock n) (cmsm_delay (the_ar a n)) Cmsm_timeout a
       (cmsm_timeout (the_ar a n)) (cm_sched n);
     Some (upd_ar a (cmsm_timeout_update (\<lambda>_. h)) (n\<lparr>cm_sched := s\<rparr>))
   }"

definition pf_cmsm_activate :: "nat \<Rightarrow> cm_net \<Rightarrow> cm_net" where
  "pf_cmsm_activate a n = upd_ar a (cmsm_timeout_update (\<lambda>_. pf_scheduler_init_handle (cmsm_name n))) n"

definition pf_cmsm_cmdev_state_ind :: "nat \<Rightarrow> cm_event \<Rightarrow> cm_net \<Rightarrow> cm_net option" where
  "pf_cmsm_cmdev_state_ind a event n = (case ar_cmsm (the_ar a n) of
     PF_CMSM_STATE_IDLE \<Rightarrow>
       if event = PNET_EVENT_STARTUP
       then cmsm_restart a (upd_ar a (ar_cmsm_update (\<lambda>_. PF_CMSM_STATE_RUN)) n)
       else Some n
   | PF_CMSM_STATE_RUN \<Rightarrow>
       if event = PNET_EVENT_DATA \<or> event = PNET_EVENT_ABORT
       then do {
         (h, s) \<leftarrow> pf_scheduler_remove_if_running (cmsm_timeout (the_ar a n)) (cm_sched n);
         Some (upd_ar a (\<lambda>r. r\<lparr>cmsm_timeout := h, ar_cmsm := PF_CMSM_STATE_IDLE\<rparr>) (n\<lparr>cm_sched := s\<rparr>))
       }
       else Some n)"

text \<open>An RPC read of the trigger index, and every read and write of records, extend the time.\<close>

definition pf_cmsm_rm_read_ind :: "nat \<Rightarrow> u16 \<Rightarrow> cm_net \<Rightarrow> (int \<times> cm_net) option" where
  "pf_cmsm_rm_read_ind a index n = (case ar_cmsm (the_ar a n) of
     PF_CMSM_STATE_IDLE \<Rightarrow> Some (0, n)
   | PF_CMSM_STATE_RUN \<Rightarrow>
       if index = PF_IDX_DEV_CONN_MON_TRIGGER
       then do { n \<leftarrow> cmsm_restart a n; Some (0, n) }
       else Some (0, n))"

definition pf_cmsm_cm_read_ind :: "nat \<Rightarrow> cm_net \<Rightarrow> (int \<times> cm_net) option" where
  "pf_cmsm_cm_read_ind a n = (case ar_cmsm (the_ar a n) of
     PF_CMSM_STATE_IDLE \<Rightarrow> Some (0, n)
   | PF_CMSM_STATE_RUN \<Rightarrow> do { n \<leftarrow> cmsm_restart a n; Some (0, n) })"

definition pf_cmsm_cm_write_ind :: "nat \<Rightarrow> cm_net \<Rightarrow> (int \<times> cm_net) option" where
  "pf_cmsm_cm_write_ind a n = (case ar_cmsm (the_ar a n) of
     PF_CMSM_STATE_IDLE \<Rightarrow> Some (0, n)
   | PF_CMSM_STATE_RUN \<Rightarrow> do { n \<leftarrow> cmsm_restart a n; Some (0, n) })"

subsection \<open>CMPBE: parameters after startup\<close>

definition pf_cmpbe_cmdev_state_ind :: "nat \<Rightarrow> cm_event \<Rightarrow> cm_net \<Rightarrow> cm_net" where
  "pf_cmpbe_cmdev_state_ind a event n = upd_ar a (\<lambda>r. case ar_cmpbe r of
     PF_CMPBE_STATE_IDLE \<Rightarrow> if event = PNET_EVENT_DATA then r\<lparr>ar_cmpbe := PF_CMPBE_STATE_WFIND\<rparr> else r
   | _ \<Rightarrow> if event = PNET_EVENT_ABORT then r\<lparr>ar_cmpbe := PF_CMPBE_STATE_IDLE\<rparr> else r) n"

subsection \<open>CMRPC: an ABORT frees the AR\<close>

definition pf_cmrpc_cmdev_state_ind :: "nat \<Rightarrow> cm_event \<Rightarrow> cm_net \<Rightarrow> cm_net" where
  "pf_cmrpc_cmdev_state_ind a event n = (case event of
     PNET_EVENT_ABORT \<Rightarrow> pf_ar_release a (emit_outs [Sessions_release a] n)
   | _ \<Rightarrow> n)"

subsection \<open>An ABORT\<close>

text \<open>
  \<open>cmdev_rest\<close> is \<open>pf_cmdev_state_ind\<close> after the call of CMSU. An ABORT is defined first, since the
  operations of CMSU that other events start may end in one.
\<close>

definition cmdev_rest :: "nat \<Rightarrow> cm_event \<Rightarrow> cm_net \<Rightarrow> cm_net option" where
  "cmdev_rest a event n = do {
     n \<leftarrow> pf_cmio_cmdev_state_ind a event n;
     let n = pf_cmwrr_cmdev_state_ind a event n;
     n \<leftarrow> pf_cmsm_cmdev_state_ind a event n;
     let n = pf_cmpbe_cmdev_state_ind a event n;
     let n = pf_cmrpc_cmdev_state_ind a event n;
     Some (if event = PNET_EVENT_ABORT then emit_outs [Device_clear a] n else n)
   }"

definition cmsu_close :: "nat \<Rightarrow> cm_net \<Rightarrow> cm_net" where
  "cmsu_close a n = (let r = the_ar a n;
     closing = concat (map (\<lambda>c.
       (if iocr_type (iocrs r ! c) = PF_IOCR_TYPE_INPUT then [Ppm_close_req a c] else []) @
       (if iocr_type (iocrs r ! c) = PF_IOCR_TYPE_OUTPUT then [Cpm_close_req a c] else []))
       [0 ..< length (iocrs r)]);
     n = emit_outs closing n;
     n = emit_outs [Alarm_close a, Alarm_free_endpoint a] n;
     n = upd_ar a (ar_cmsu_update (\<lambda>_. PF_CMSU_STATE_ABORT)) n
     in upd_ar a (ar_cmsu_update (\<lambda>_. PF_CMSU_STATE_IDLE)) n)"

definition cmsu_abort :: "nat \<Rightarrow> cm_net \<Rightarrow> cm_net" where
  "cmsu_abort a n = (case ar_cmsu (the_ar a n) of
     PF_CMSU_STATE_STARTUP \<Rightarrow> cmsu_close a n
   | PF_CMSU_STATE_RUN \<Rightarrow> cmsu_close a n
   | _ \<Rightarrow> n)"

definition cmdev_abort :: "nat \<Rightarrow> cm_net \<Rightarrow> cm_net option" where
  "cmdev_abort a n = cmdev_rest a PNET_EVENT_ABORT (cmsu_abort a (emit_outs [Fspm_state_ind a PNET_EVENT_ABORT] n))"

text \<open>The four error indications to CMSU, of CMDMC, CPM, PPM and alarms, are the same.\<close>

definition pf_cmsu_cpm_error_ind :: "nat \<Rightarrow> u8 \<Rightarrow> u8 \<Rightarrow> cm_net \<Rightarrow> cm_net option" where
  "pf_cmsu_cpm_error_ind a cls code n = cmdev_abort a (upd_ar a (\<lambda>r. r\<lparr>err_cls := cls, err_code := code\<rparr>) n)"

definition pf_cmsu_ppm_error_ind :: "nat \<Rightarrow> u8 \<Rightarrow> u8 \<Rightarrow> cm_net \<Rightarrow> cm_net option" where
  "pf_cmsu_ppm_error_ind a cls code n = cmdev_abort a (upd_ar a (\<lambda>r. r\<lparr>err_cls := cls, err_code := code\<rparr>) n)"

definition pf_cmsu_alarm_error_ind :: "nat \<Rightarrow> u8 \<Rightarrow> u8 \<Rightarrow> cm_net \<Rightarrow> cm_net option" where
  "pf_cmsu_alarm_error_ind a cls code n = cmdev_abort a (upd_ar a (\<lambda>r. r\<lparr>err_cls := cls, err_code := code\<rparr>) n)"

definition pf_cmsu_cmdmc_error_ind :: "nat \<Rightarrow> u8 \<Rightarrow> u8 \<Rightarrow> cm_net \<Rightarrow> cm_net option" where
  "pf_cmsu_cmdmc_error_ind a cls code n = cmdev_abort a (upd_ar a (\<lambda>r. r\<lparr>err_cls := cls, err_code := code\<rparr>) n)"

subsection \<open>Events to all state machines\<close>

text \<open>
  PRMEND activates the PPM of the input CRs. The AR may be gone after a failure: the loop looks
  at \<open>nbr_iocrs\<close> again before each CREP.
\<close>

definition activate_ppm :: "nat \<Rightarrow> nat \<Rightarrow> cm_net \<Rightarrow> cm_net option" where
  "activate_ppm a crep n =
     (if crep < length (iocrs (the_ar a n)) \<and> iocr_type (iocrs (the_ar a n) ! crep) = PF_IOCR_TYPE_INPUT
      then let n = emit_outs [Cm_call a (Ppm_activate_req crep)] n
        in if call_result n a (Ppm_activate_req crep) = Failure_reported
           then pf_cmsu_ppm_error_ind a PNET_ERROR_CODE_1_PPM PNET_ERROR_CODE_2_PPM_INVALID n
           else Some n
      else Some n)"

fun for_creps :: "(nat \<Rightarrow> 'x \<Rightarrow> 'x option) \<Rightarrow> nat list \<Rightarrow> 'x \<Rightarrow> 'x option" where
  "for_creps f [] x = Some x"
| "for_creps f (c # cs) x = Option.bind (f c x) (for_creps f cs)"

definition pf_cmsu_cmdev_state_ind :: "nat \<Rightarrow> cm_event \<Rightarrow> cm_net \<Rightarrow> cm_net option" where
  "pf_cmsu_cmdev_state_ind a event n =
     (if event = PNET_EVENT_ABORT then Some (cmsu_abort a n)
      else if ar_cmsu (the_ar a n) = PF_CMSU_STATE_STARTUP \<and> event = PNET_EVENT_PRMEND
      then for_creps (activate_ppm a) [0 ..< length (iocrs (the_ar a n))] n
      else Some n)"

definition pf_cmdev_state_ind :: "nat \<Rightarrow> cm_event \<Rightarrow> cm_net \<Rightarrow> cm_net option" where
  "pf_cmdev_state_ind a event n = do {
     n \<leftarrow> pf_cmsu_cmdev_state_ind a event (emit_outs [Fspm_state_ind a event] n);
     cmdev_rest a event n
   }"

definition pf_cmdev_set_state :: "nat \<Rightarrow> cmdev_state \<Rightarrow> cm_net \<Rightarrow> cm_net option" where
  "pf_cmdev_set_state a st n = (let n = upd_ar a (ar_cmdev_update (\<lambda>_. st)) n
     in if st = PF_CMDEV_STATE_ABORT then pf_cmdev_state_ind a PNET_EVENT_ABORT n else Some n)"

subsection \<open>CMSU: starting the machines of an AR\<close>

text \<open>
  \<open>try_start\<close> is one call of the cascade of \<open>pf_cmsu_start_req\<close>: it is made only when all before it
  succeeded, and its failure sets \<open>error_code_2\<close>. \<open>pf_cmdmc_activate_req\<close> does nothing and succeeds,
  and so does \<open>pf_cmsm_activate\<close> for an AR that is not NULL.
\<close>

type_synonym start_progress = "bool \<times> pnet_pnio_status \<times> cm_net"

definition try_start :: "nat \<Rightarrow> start_call \<Rightarrow> u8 \<Rightarrow> start_progress \<Rightarrow> start_progress option" where
  "try_start a c code p = (case p of (ok, st, n) \<Rightarrow>
     if \<not> ok then Some p
     else let n = emit_outs [Cm_call a c] n in
       (case call_result n a c of
          Success \<Rightarrow> Some (True, st, n)
        | Failure \<Rightarrow> Some (False, st\<lparr>error_code_2 := code\<rparr>, n)
        | Failure_reported \<Rightarrow> do {
            n \<leftarrow> pf_cmsu_cpm_error_ind a PNET_ERROR_CODE_1_CPM PNET_ERROR_CODE_2_CPM_INVALID n;
            Some (False, st\<lparr>error_code_2 := code\<rparr>, n)
          }))"

definition start_iocr :: "nat \<Rightarrow> nat \<Rightarrow> start_progress \<Rightarrow> start_progress option" where
  "start_iocr a crep p = (let r = the_ar a (snd (snd p)) in
     if \<not> crep < length (iocrs r) then Some p
     else if iocr_type (iocrs r ! crep) = PF_IOCR_TYPE_OUTPUT
     then do {
       p \<leftarrow> try_start a (Cpm_create crep) PNET_ERROR_CODE_2_CMSU_AR_ADD_PROV_CONS_FAILED p;
       try_start a (Cpm_activate_req crep) PNET_ERROR_CODE_2_CMSU_AR_ADD_PROV_CONS_FAILED p
     }
     else if iocr_type (iocrs r ! crep) = PF_IOCR_TYPE_INPUT
     then try_start a (Ppm_create crep) PNET_ERROR_CODE_2_CMSU_AR_ADD_PROV_CONS_FAILED p
     else Some p)"

definition pf_cmsu_start_req ::
    "nat \<Rightarrow> pnet_pnio_status \<Rightarrow> cm_net \<Rightarrow> (int \<times> pnet_pnio_status \<times> cm_net) option" where
  "pf_cmsu_start_req a stat n = (case ar_cmsu (the_ar a n) of
     PF_CMSU_STATE_IDLE \<Rightarrow> do {
       p \<leftarrow> for_creps (start_iocr a) [0 ..< length (iocrs (the_ar a n))] (True, stat, n);
       (ok, stat, n) \<leftarrow> try_start a Alarm_activate PNET_ERROR_CODE_2_CMSU_AR_ALARM_OPEN_FAILED p;
       let n = (if ok then pf_cmsm_activate a n else n);
       Some (if ok then 0 else - 1, stat, upd_ar a (ar_cmsu_update (\<lambda>_. PF_CMSU_STATE_STARTUP)) n)
     }
   | PF_CMSU_STATE_ABORT \<Rightarrow> Some (- 1, stat, n)
   | _ \<Rightarrow> Some (- 1, stat\<lparr>error_code_1 := PNET_ERROR_CODE_1_CMDEV,
       error_code_2 := PNET_ERROR_CODE_2_CMDEV_STATE_CONFLICT\<rparr>, n))"

end
