(* ===== verification/Cm_Dev.thy ===== *)
theory Cm_Dev
  imports Cm_Machines
begin

section \<open>CMDEV and the requests to an AR\<close>

text \<open>
  The state machine of \<open>pf_cmdev.c\<close> with the handlers that requests, the application, the CPM and
  the timers call: connect, release, DControl and CControl, abort, application ready, and the
  indications to CMIO, CMSM and CMPBE. Results of the user's callbacks are arguments.
\<close>

definition PNET_ERROR_CODE_1_RTA_ERR_CLS_PROTOCOL :: u8 where "PNET_ERROR_CODE_1_RTA_ERR_CLS_PROTOCOL = 0xFD"
definition PNET_ERROR_CODE_2_ABORT_AR_CMI_TIMEOUT :: u8 where "PNET_ERROR_CODE_2_ABORT_AR_CMI_TIMEOUT = 6"
definition PNET_ERROR_CODE_2_ABORT_AR_RELEASE_IND_RECEIVED :: u8 where
  "PNET_ERROR_CODE_2_ABORT_AR_RELEASE_IND_RECEIVED = 0xF"
definition PNET_ERROR_CODE_2_ABORT_PDEV_CHECK_FAILED :: u8 where "PNET_ERROR_CODE_2_ABORT_PDEV_CHECK_FAILED = 0x24"
definition PNET_ERROR_CODE_CONNECT :: u8 where "PNET_ERROR_CODE_CONNECT = 0xDB"
definition PNET_ERROR_DECODE_PNIO :: u8 where "PNET_ERROR_DECODE_PNIO = 0x81"
definition PNET_ERROR_CODE_1_CMRPC :: u8 where "PNET_ERROR_CODE_1_CMRPC = 0x40"
definition PNET_ERROR_CODE_2_CMRPC_PDEV_ALREADY_OWNED :: u8 where "PNET_ERROR_CODE_2_CMRPC_PDEV_ALREADY_OWNED = 9"
definition PNET_ERROR_CODE_2_CMRPC_NO_AR_RESOURCES :: u8 where "PNET_ERROR_CODE_2_CMRPC_NO_AR_RESOURCES = 4"
definition PNET_ERROR_CODE_2_CMRPC_STATE_CONFLICT :: u8 where "PNET_ERROR_CODE_2_CMRPC_STATE_CONFLICT = 6"

definition PF_CONTROL_COMMAND_BIT_PRM_END :: nat where "PF_CONTROL_COMMAND_BIT_PRM_END = 0"
definition PF_CONTROL_COMMAND_BIT_DONE :: nat where "PF_CONTROL_COMMAND_BIT_DONE = 3"
definition PF_CONTROL_COMMAND_BIT_PRM_BEGIN :: nat where "PF_CONTROL_COMMAND_BIT_PRM_BEGIN = 6"

definition pf_set_error :: "u8 \<Rightarrow> u8 \<Rightarrow> u8 \<Rightarrow> u8 \<Rightarrow> pnet_pnio_status" where
  "pf_set_error code decode code_1 code_2 =
     \<lparr>error_code = code, error_decode = decode, error_code_1 = code_1, error_code_2 = code_2\<rparr>"

subsection \<open>CMIO and CMSM\<close>

definition pf_cmdev_cmio_info_ind :: "nat \<Rightarrow> bool \<Rightarrow> cm_net \<Rightarrow> cm_net option" where
  "pf_cmdev_cmio_info_ind a data_possible n = (case ar_cmdev (the_ar a n) of
     PF_CMDEV_STATE_W_ARDY \<Rightarrow> Some (upd_ar a (ready_4_data_update (\<lambda>_. data_possible)) n)
   | PF_CMDEV_STATE_W_ARDYCNF \<Rightarrow> Some (upd_ar a (ready_4_data_update (\<lambda>_. data_possible)) n)
   | PF_CMDEV_STATE_WDATA \<Rightarrow> do {
       let n = upd_ar a (ready_4_data_update (\<lambda>_. data_possible)) n;
       if data_possible then do {
         n \<leftarrow> pf_cmdev_state_ind a PNET_EVENT_DATA n;
         pf_cmdev_set_state a PF_CMDEV_STATE_DATA n
       } else Some n
     }
   | _ \<Rightarrow> Some n)"

definition data_possible :: "ar \<Rightarrow> bool" where
  "data_possible r \<longleftrightarrow> list_all (\<lambda>c. consumes c \<longrightarrow> cmio_start c) (iocrs r)"

definition pf_cmio_timer_expired :: "nat \<Rightarrow> cm_net \<Rightarrow> cm_net option" where
  "pf_cmio_timer_expired a n =
     (if ar_cmio (the_ar a n) = PF_CMIO_STATE_WDATA \<and> cmio_timer_should_reschedule (the_ar a n)
      then do {
        n \<leftarrow> pf_cmdev_cmio_info_ind a (data_possible (the_ar a n)) n;
        cmio_add a n
      }
      else Some (upd_ar a (\<lambda>r. r\<lparr>cmio_timer_should_reschedule := False,
        cmio_timeout := pf_scheduler_reset_handle (cmio_timeout r)\<rparr>) n))"

definition set_cmio_start :: "nat \<Rightarrow> bool \<Rightarrow> ar \<Rightarrow> ar" where
  "set_cmio_start crep start r = r\<lparr>iocrs := upd crep (cmio_start_update (\<lambda>_. start)) (iocrs r)\<rparr>"

definition pf_cmio_cpm_state_ind :: "nat \<Rightarrow> nat \<Rightarrow> bool \<Rightarrow> cm_net \<Rightarrow> (int \<times> cm_net) option" where
  "pf_cmio_cpm_state_ind a crep start n = (case ar_cmio (the_ar a n) of
     PF_CMIO_STATE_IDLE \<Rightarrow> Some (0, n)
   | PF_CMIO_STATE_STARTUP \<Rightarrow>
       if \<not> ar_startup_mode (the_ar a n) \<and> \<not> start
       then do { n \<leftarrow> pf_cmdev_state_ind a PNET_EVENT_ABORT n; Some (0, n) }
       else Some (0, n)
   | PF_CMIO_STATE_WDATA \<Rightarrow>
       if crep < length (iocrs (the_ar a n)) then Some (0, upd_ar a (set_cmio_start crep start) n) else Some (- 1, n)
   | PF_CMIO_STATE_DATA \<Rightarrow>
       if \<not> start then do { n \<leftarrow> pf_cmdev_state_ind a PNET_EVENT_ABORT n; Some (0, n) } else Some (0, n))"

definition pf_cmio_cpm_new_data_ind :: "nat \<Rightarrow> nat \<Rightarrow> bool \<Rightarrow> cm_net \<Rightarrow> int \<times> cm_net" where
  "pf_cmio_cpm_new_data_ind a crep new_data n = (case ar_cmio (the_ar a n) of
     PF_CMIO_STATE_WDATA \<Rightarrow>
       if crep < length (iocrs (the_ar a n)) then (0, upd_ar a (set_cmio_start crep new_data) n) else (- 1, n)
   | _ \<Rightarrow> (0, n))"

definition pf_cmsm_timeout :: "nat \<Rightarrow> cm_net \<Rightarrow> cm_net option" where
  "pf_cmsm_timeout a n = (let
     n = upd_ar a (\<lambda>r. r\<lparr>cmsm_timeout := pf_scheduler_reset_handle (cmsm_timeout r)\<rparr>) n
     in case ar_cmsm (the_ar a n) of
       PF_CMSM_STATE_IDLE \<Rightarrow> Some n
     | PF_CMSM_STATE_RUN \<Rightarrow> do {
         let n = upd_ar a (\<lambda>r. r\<lparr>err_cls := PNET_ERROR_CODE_1_RTA_ERR_CLS_PROTOCOL,
           err_code := PNET_ERROR_CODE_2_ABORT_AR_CMI_TIMEOUT\<rparr>) n;
         n \<leftarrow> pf_cmdev_state_ind a PNET_EVENT_ABORT n;
         Some (upd_ar a (ar_cmsm_update (\<lambda>_. PF_CMSM_STATE_IDLE)) n)
       })"

text \<open>The scheduler's callbacks of the context management.\<close>

definition cm_call :: "cm_cb \<Rightarrow> nat \<Rightarrow> u32 \<Rightarrow> cm_net \<Rightarrow> cm_net option" where
  "cm_call f a current_time n = (case f of
     Cmsm_timeout \<Rightarrow> pf_cmsm_timeout a n
   | Cmio_timer_expired \<Rightarrow> pf_cmio_timer_expired a n)"

subsection \<open>CMPBE\<close>

text \<open>\<open>app\<close> is the result of the user's callback, \<open>pf_fspm_cm_dcontrol_ind\<close>.\<close>

definition pf_cmpbe_rm_dcontrol_ind ::
    "(control_command \<Rightarrow> int) \<Rightarrow> nat \<Rightarrow> u16 \<Rightarrow> cm_net \<Rightarrow> (int \<times> cm_net) option" where
  "pf_cmpbe_rm_dcontrol_ind app a command n = (let
     state = (\<lambda>st. upd_ar a (ar_cmpbe_update (\<lambda>_. st)));
     dcontrol = (\<lambda>c. emit_outs [Fspm_dcontrol_ind a c])
     in case ar_cmpbe (the_ar a n) of
       PF_CMPBE_STATE_IDLE \<Rightarrow> Some (0, n)
     | PF_CMPBE_STATE_WFRSP \<Rightarrow> Some (- 1, n)
     | PF_CMPBE_STATE_WFIND \<Rightarrow>
         if cmpbe_stored_command (the_ar a n) \<noteq> 0
         then let n = upd_ar a (cmpbe_stored_command_update (\<lambda>_. 0)) n;
                n = dcontrol PNET_CONTROL_COMMAND_PRM_BEGIN n
           in if app PNET_CONTROL_COMMAND_PRM_BEGIN = 0
              then Some (0, state PF_CMPBE_STATE_WFPEI (state PF_CMPBE_STATE_WFRSP n))
              else Some (- 1, n)
         else if command = BIT PF_CONTROL_COMMAND_BIT_PRM_BEGIN
         then let n = upd_ar a (alarm_enable_update (\<lambda>_. False)) n;
                n = dcontrol PNET_CONTROL_COMMAND_PRM_BEGIN n
           in Some (app PNET_CONTROL_COMMAND_PRM_BEGIN, state PF_CMPBE_STATE_WFRSP n)
         else Some (- 1, n)
     | PF_CMPBE_STATE_WFPEI \<Rightarrow>
         if command = BIT PF_CONTROL_COMMAND_BIT_PRM_END
         then let n = dcontrol PNET_CONTROL_COMMAND_PRM_END n
           in Some (0, state PF_CMPBE_STATE_WFREQ (state PF_CMPBE_STATE_WFPER n))
         else Some (- 1, n)
     | PF_CMPBE_STATE_WFPER \<Rightarrow>
         if command = BIT PF_CONTROL_COMMAND_BIT_PRM_END then Some (0, state PF_CMPBE_STATE_WFREQ n) else Some (- 1, n)
     | PF_CMPBE_STATE_WFREQ \<Rightarrow>
         if command = BIT PF_CONTROL_COMMAND_BIT_PRM_BEGIN
         then do { n \<leftarrow> pf_cmdev_state_ind a PNET_EVENT_ABORT n; Some (- 1, state PF_CMPBE_STATE_IDLE n) }
         else Some (- 1, n)
     | PF_CMPBE_STATE_WFCNF \<Rightarrow>
         if command = BIT PF_CONTROL_COMMAND_BIT_PRM_BEGIN
         then Some (- 1, upd_ar a (cmpbe_stored_command_update (\<lambda>_. command)) n)
         else Some (- 1, n))"

definition pf_cmpbe_rm_ccontrol_cnf :: "nat \<Rightarrow> u16 \<Rightarrow> cm_net \<Rightarrow> int \<times> cm_net" where
  "pf_cmpbe_rm_ccontrol_cnf a command n =
     (if ar_cmpbe (the_ar a n) = PF_CMPBE_STATE_WFCNF
      then if command = BIT PF_CONTROL_COMMAND_BIT_DONE
        then (0, upd_ar a (\<lambda>r. r\<lparr>alarm_enable := True, ar_cmpbe := PF_CMPBE_STATE_WFIND\<rparr>) n)
        else (- 1, n)
      else (0, n))"

text \<open>Not called by the stack. \<open>pending\<close> is \<open>pf_alarm_pending\<close>, \<open>sent\<close> the result of sending the request.\<close>

definition pf_cmpbe_cm_ccontrol_req :: "bool \<Rightarrow> int \<Rightarrow> nat \<Rightarrow> cm_net \<Rightarrow> int \<times> cm_net" where
  "pf_cmpbe_cm_ccontrol_req pending sent a n =
     (if ar_cmpbe (the_ar a n) = PF_CMPBE_STATE_WFREQ \<and> \<not> pending
      then (sent, upd_ar a (ar_cmpbe_update (\<lambda>_. PF_CMPBE_STATE_WFCNF)) (emit_outs [Ccontrol_req_apprdy a] n))
      else (- 1, n))"

subsection \<open>CMDEV: abort, connect and release\<close>

definition pf_cmdev_cm_abort :: "nat \<Rightarrow> cm_net \<Rightarrow> (int \<times> cm_net) option" where
  "pf_cmdev_cm_abort a n =
     (if ar_device_access (the_ar a n)
      then (case ar_cmdev (the_ar a n) of
          PF_CMDEV_STATE_W_CRES \<Rightarrow> do { n \<leftarrow> pf_cmdev_set_state a PF_CMDEV_STATE_ABORT n; Some (0, n) }
        | PF_CMDEV_STATE_DATA \<Rightarrow> do { n \<leftarrow> pf_cmdev_set_state a PF_CMDEV_STATE_ABORT n; Some (0, n) }
        | _ \<Rightarrow> Some (- 1, n))
      else do { n \<leftarrow> pf_cmdev_set_state a PF_CMDEV_STATE_ABORT n; Some (0, n) })"

definition pf_cmdev_cm_init_req :: "nat \<Rightarrow> cm_net \<Rightarrow> (int \<times> cm_net) option" where
  "pf_cmdev_cm_init_req a n =
     (if ar_cmdev (the_ar a n) = PF_CMDEV_STATE_POWER_ON
      then do { n \<leftarrow> pf_cmdev_set_state a PF_CMDEV_STATE_W_CIND n; Some (0, n) }
      else Some (- 1, n))"

definition pf_cmdev_cm_connect_rsp_neg :: "nat \<Rightarrow> cm_net \<Rightarrow> (int \<times> cm_net) option" where
  "pf_cmdev_cm_connect_rsp_neg a n = do {
     let n = (if \<not> ar_device_access (the_ar a n) then emit_outs [Log_book_entry a] n else n);
     n \<leftarrow> pf_cmdev_set_state a PF_CMDEV_STATE_W_CIND n;
     Some (0, n)
   }"

definition pf_cmdev_cm_connect_rsp_pos ::
    "nat \<Rightarrow> pnet_pnio_status \<Rightarrow> cm_net \<Rightarrow> (int \<times> pnet_pnio_status \<times> cm_net) option" where
  "pf_cmdev_cm_connect_rsp_pos a stat n =
     (if \<not> ar_device_access (the_ar a n)
      then if ar_cmdev (the_ar a n) = PF_CMDEV_STATE_W_CRES
        then do {
          (ret, stat, n) \<leftarrow> pf_cmsu_start_req a stat n;
          n \<leftarrow> pf_cmdev_set_state a PF_CMDEV_STATE_W_SUCNF n;
          if ret = 0 then do {
            n \<leftarrow> pf_cmdev_state_ind a PNET_EVENT_STARTUP n;
            n \<leftarrow> pf_cmdev_set_state a PF_CMDEV_STATE_W_PEIND n;
            Some (ret, stat, n)
          }
          else Some (ret, pf_set_error PNET_ERROR_CODE_CONNECT PNET_ERROR_DECODE_PNIO PNET_ERROR_CODE_1_CMRPC
            PNET_ERROR_CODE_2_CMRPC_PDEV_ALREADY_OWNED, emit_outs [Log_book_entry a] n)
        }
        else Some (- 1, stat, n)
      else if ar_cmdev (the_ar a n) = PF_CMDEV_STATE_W_CRES
        then do {
          n \<leftarrow> pf_cmdev_state_ind a PNET_EVENT_STARTUP n;
          n \<leftarrow> pf_cmdev_set_state a PF_CMDEV_STATE_DATA n;
          Some (0, stat, n)
        }
        else do { n \<leftarrow> pf_cmdev_set_state a PF_CMDEV_STATE_W_CIND n; Some (- 1, stat, n) })"

text \<open>
  \<open>checked\<close>: the request passed \<open>pf_cmdev_check_apdu\<close> and the module difference was made; \<open>app\<close> is
  then the result of the user's connect callback, and \<open>stat\<close> the error status after these.
\<close>

definition pf_cmdev_rm_connect_ind ::
    "bool \<Rightarrow> int \<Rightarrow> pnet_pnio_status \<Rightarrow> nat \<Rightarrow> cm_net \<Rightarrow> (int \<times> pnet_pnio_status \<times> cm_net) option" where
  "pf_cmdev_rm_connect_ind checked app stat a n = do {
     let n = (if checked then upd_ar a (ready_4_data_update (\<lambda>_. False)) n else n);
     if checked \<and> app = 0 then do {
       n \<leftarrow> pf_cmdev_set_state a PF_CMDEV_STATE_W_CRES n;
       pf_cmdev_cm_connect_rsp_pos a stat n
     } else do {
       (ret, n) \<leftarrow> pf_cmdev_cm_connect_rsp_neg a n;
       Some (ret, stat, n)
     }
   }"

text \<open>\<open>app\<close> is the error code that the user's release callback leaves, or \<open>None\<close> where it succeeds.\<close>

definition pf_cmdev_rm_release_ind :: "u8 option \<Rightarrow> nat \<Rightarrow> cm_net \<Rightarrow> (int \<times> cm_net) option" where
  "pf_cmdev_rm_release_ind app a n = (let
     n' = upd_ar a (\<lambda>r. r\<lparr>err_cls := PNET_ERROR_CODE_1_RTA_ERR_CLS_PROTOCOL,
       err_code := PNET_ERROR_CODE_2_ABORT_AR_RELEASE_IND_RECEIVED\<rparr>) n
     in if \<not> ar_device_access (the_ar a n)
        then if ar_cmdev (the_ar a n) \<in> set [PF_CMDEV_STATE_W_PEIND, PF_CMDEV_STATE_W_ARDY,
               PF_CMDEV_STATE_W_ARDYCNF, PF_CMDEV_STATE_WDATA, PF_CMDEV_STATE_DATA]
          then do {
            let n = emit_outs [Fspm_release_ind a] n';
            let n = (case app of None \<Rightarrow> n | Some c \<Rightarrow> upd_ar a (err_code_update (\<lambda>_. c)) n);
            n \<leftarrow> pf_cmdev_set_state a PF_CMDEV_STATE_ABORT n;
            Some (0, n)
          }
          else Some (0, n)
        else if ar_cmdev (the_ar a n) = PF_CMDEV_STATE_DATA
          then do { n \<leftarrow> pf_cmdev_state_ind a PNET_EVENT_ABORT n'; Some (0, n) }
          else Some (0, n))"

subsection \<open>CMDEV: control\<close>

text \<open>
  \<open>pdev\<close> is the result of \<open>pf_cmdev_check_pdev\<close>: a port is fast enough. The result tells whether the
  caller is to send PRMEND once the response has been sent (\<open>p_set_state_prmend\<close>).
\<close>

definition pf_cmdev_rm_dcontrol_ind ::
    "(control_command \<Rightarrow> int) \<Rightarrow> bool \<Rightarrow> nat \<Rightarrow> u16 \<Rightarrow> cm_net \<Rightarrow> (int \<times> bool \<times> cm_net) option" where
  "pf_cmdev_rm_dcontrol_ind app pdev a command n = do {
     (ret, prmend, n) \<leftarrow>
       (if ar_device_access (the_ar a n) then Some (- 1, False, n)
        else case ar_cmdev (the_ar a n) of
          PF_CMDEV_STATE_W_PEIND \<Rightarrow>
            if command = BIT PF_CONTROL_COMMAND_BIT_PRM_END
            then do {
              n \<leftarrow> pf_cmdev_set_state a PF_CMDEV_STATE_W_PERES n;
              let n = emit_outs [Fspm_dcontrol_ind a PNET_CONTROL_COMMAND_PRM_END] n;
              if app PNET_CONTROL_COMMAND_PRM_END = 0 then do {
                n \<leftarrow> pf_cmdev_set_state a PF_CMDEV_STATE_W_ARDY n;
                if pdev then Some (0, True, n)
                else Some (- 1, False, upd_ar a (\<lambda>r. r\<lparr>err_cls := PNET_ERROR_CODE_1_RTA_ERR_CLS_PROTOCOL,
                  err_code := PNET_ERROR_CODE_2_ABORT_PDEV_CHECK_FAILED\<rparr>) n)
              } else Some (- 1, False, n)
            }
            else Some (- 1, False, n)
        | PF_CMDEV_STATE_DATA \<Rightarrow> do {
            (ret, n) \<leftarrow> pf_cmpbe_rm_dcontrol_ind app a command n;
            Some (ret, False, n)
          }
        | _ \<Rightarrow> Some (0, False, n));
     if ret \<noteq> 0 then do { n \<leftarrow> pf_cmdev_state_ind a PNET_EVENT_ABORT n; Some (0, prmend, n) }
     else Some (ret, prmend, n)
   }"

definition pf_cmdev_rm_ccontrol_cnf :: "nat \<Rightarrow> u16 \<Rightarrow> pnet_pnio_status \<Rightarrow> cm_net \<Rightarrow> (int \<times> cm_net) option" where
  "pf_cmdev_rm_ccontrol_cnf a command stat n =
     (if ar_cmdev (the_ar a n) \<noteq> PF_CMDEV_STATE_W_ARDYCNF then Some (- 1, n)
      else if error_code stat = 0 \<and> error_decode stat = 0 \<and> error_code_1 stat = 0 \<and> error_code_2 stat = 0
      then if command = BIT PF_CONTROL_COMMAND_BIT_DONE
        then do {
          let n = upd_ar a (alarm_enable_update (\<lambda>_. True)) n;
          n \<leftarrow> (if ready_4_data (the_ar a n)
               then do {
                 n \<leftarrow> pf_cmdev_state_ind a PNET_EVENT_DATA n;
                 pf_cmdev_set_state a PF_CMDEV_STATE_DATA n
               }
               else pf_cmdev_set_state a PF_CMDEV_STATE_WDATA n);
          Some (0, emit_outs [Fspm_ccontrol_cnf a] n)
        }
        else Some (- 1, n)
      else do {
        n \<leftarrow> pf_cmdev_set_state a PF_CMDEV_STATE_ABORT (emit_outs [Log_book_entry a, Fspm_ccontrol_cnf a] n);
        Some (- 1, n)
      })"

text \<open>
  \<open>owner\<close> is what \<open>pf_ppm_get_ar_iocr_desc\<close> finds for a subslot: the IOPS length and whether the
  application has set the data, in the CR of the AR that owns the subslot. \<open>sent\<close> is the result of
  \<open>pf_cmrpc_rm_ccontrol_req\<close>.
\<close>

definition input_set :: "(iodata_object \<Rightarrow> (u16 \<times> bool) option) \<Rightarrow> ar \<Rightarrow> bool" where
  "input_set owner r \<longleftrightarrow> list_all (\<lambda>c.
     iocr_type c = PF_IOCR_TYPE_INPUT \<or> iocr_type c = PF_IOCR_TYPE_MC_PROVIDER \<longrightarrow>
     list_all (\<lambda>d. case owner d of None \<Rightarrow> False | Some (iops, avail) \<Rightarrow> \<not> (iops > 0 \<and> \<not> avail)) (data_desc c))
     (iocrs r)"

definition pf_cmdev_cm_ccontrol_req ::
    "(iodata_object \<Rightarrow> (u16 \<times> bool) option) \<Rightarrow> int \<Rightarrow> nat \<Rightarrow> cm_net \<Rightarrow> (int \<times> cm_net) option" where
  "pf_cmdev_cm_ccontrol_req owner sent a n =
     (if ar_device_access (the_ar a n)
      then do { n \<leftarrow> pf_cmdev_state_ind a PNET_EVENT_ABORT n; Some (- 1, n) }
      else if ar_cmdev (the_ar a n) = PF_CMDEV_STATE_W_ARDY
      then if input_set owner (the_ar a n)
        then do {
          n \<leftarrow> pf_cmdev_state_ind a PNET_EVENT_APPLRDY n;
          let n = emit_outs [Ccontrol_req_apprdy a] n;
          if sent = 0 then do { n \<leftarrow> pf_cmdev_set_state a PF_CMDEV_STATE_W_ARDYCNF n; Some (0, n) }
          else Some (- 1, n)
        }
        else Some (- 1, n)
      else Some (0, n))"

subsection \<open>Requests from the network and the application\<close>

text \<open>
  What \<open>pf_cmrpc_rm_connect_interpret_ind\<close> extracts from a connect request, as far as it is used
  here, is \<open>conn_request\<close>; it is \<open>None\<close> where parsing fails.
\<close>

record conn_request =
  rq_ar_uuid :: pf_uuid
  rq_device_access :: bool
  rq_startup_mode :: bool
  rq_factor :: u16
  rq_iocrs :: "iocr list"

definition fill_ar :: "conn_request \<Rightarrow> ar \<Rightarrow> ar" where
  "fill_ar q r = r\<lparr>ar_uuid := rq_ar_uuid q, ar_device_access := rq_device_access q,
     ar_startup_mode := rq_startup_mode q, activity_timeout_factor := rq_factor q, iocrs := rq_iocrs q\<rparr>"

definition release_if :: "nat option \<Rightarrow> cm_net \<Rightarrow> cm_net" where
  "release_if p n = (case p of None \<Rightarrow> n | Some a \<Rightarrow> pf_ar_release a n)"

definition pf_cmrpc_rm_connect_ind ::
    "conn_request option \<Rightarrow> bool \<Rightarrow> int \<Rightarrow> pnet_pnio_status \<Rightarrow> pnet_pnio_status \<Rightarrow> cm_net \<Rightarrow> (int \<times> cm_net) option" where
  "pf_cmrpc_rm_connect_ind req checked app app_stat stat n = do {
     (ret, stat, p_ar, p_ar_2, n) \<leftarrow>
       (if error_code stat \<noteq> 0
        then Some (- 1, pf_set_error PNET_ERROR_CODE_CONNECT PNET_ERROR_DECODE_PNIO PNET_ERROR_CODE_1_CMRPC
          PNET_ERROR_CODE_2_CMRPC_STATE_CONFLICT, None, None, n)
        else case pf_ar_allocate n of
          (None, n) \<Rightarrow> Some (- 1, pf_set_error PNET_ERROR_CODE_CONNECT PNET_ERROR_DECODE_PNIO PNET_ERROR_CODE_1_CMRPC
            PNET_ERROR_CODE_2_CMRPC_NO_AR_RESOURCES, None, None, n)
        | (Some a, n) \<Rightarrow> (case req of
            None \<Rightarrow> Some (- 1, stat, Some a, None, n)
          | Some q \<Rightarrow> let n = upd_ar a (fill_ar q) n in
              (case pf_ar_find_by_uuid (rq_ar_uuid q) n of
                Some b \<Rightarrow> Some (- 1, pf_set_error PNET_ERROR_CODE_CONNECT PNET_ERROR_DECODE_PNIO
                  PNET_ERROR_CODE_1_CMDEV PNET_ERROR_CODE_2_CMDEV_STATE_CONFLICT, Some b, Some b, pf_ar_release a n)
              | None \<Rightarrow>
                  if arep (the_ar a n) = 0
                  then Some (- 1, pf_set_error PNET_ERROR_CODE_CONNECT PNET_ERROR_DECODE_PNIO
                    PNET_ERROR_CODE_1_CMRPC PNET_ERROR_CODE_2_CMRPC_NO_AR_RESOURCES, Some a, None, n)
                  else do {
                    let n = upd_ar a (ar_state_update (\<lambda>_. PF_AR_STATE_PRIMARY)) n;
                    (ret, stat, n) \<leftarrow> pf_cmdev_rm_connect_ind checked app app_stat a n;
                    Some (ret, stat, Some a, None, n)
                  })));
     let n = emit_outs [Connect_rsp ret] n;
     (case p_ar_2 of
        Some b \<Rightarrow> do { (_, n) \<leftarrow> pf_cmdev_cm_abort b n; Some (ret, n) }
      | None \<Rightarrow>
          if ret \<noteq> 0 \<or> error_code stat \<noteq> 0 then Some (ret, release_if p_ar n)
          else Some (ret, emit_outs [Lldp_restart_transmission] n))
   }"

text \<open>A DControl request and the PRMEND that follows its response.\<close>

definition dcontrol_request ::
    "(control_command \<Rightarrow> int) \<Rightarrow> bool \<Rightarrow> nat \<Rightarrow> u16 \<Rightarrow> cm_net \<Rightarrow> (int \<times> cm_net) option" where
  "dcontrol_request app pdev a command n = do {
     (ret, prmend, n) \<leftarrow> pf_cmdev_rm_dcontrol_ind app pdev a command n;
     n \<leftarrow> (if prmend then pf_cmdev_state_ind a PNET_EVENT_PRMEND n else Some n);
     Some (ret, n)
   }"

definition pf_cmrpc_rm_ccontrol_cnf :: "nat \<Rightarrow> u16 \<Rightarrow> pnet_pnio_status \<Rightarrow> cm_net \<Rightarrow> (int \<times> cm_net) option" where
  "pf_cmrpc_rm_ccontrol_cnf a command stat n =
     (if command = BIT PF_CONTROL_COMMAND_BIT_DONE
      then do {
        (ret, n) \<leftarrow> pf_cmdev_rm_ccontrol_cnf a command stat n;
        if ret = 0 then Some (pf_cmpbe_rm_ccontrol_cnf a command n) else Some (- 1, n)
      }
      else Some (- 1, n))"

definition pnet_application_ready ::
    "(iodata_object \<Rightarrow> (u16 \<times> bool) option) \<Rightarrow> int \<Rightarrow> nat \<Rightarrow> cm_net \<Rightarrow> (int \<times> cm_net) option" where
  "pnet_application_ready owner sent e n = (case pf_ar_find_by_arep e n of
     None \<Rightarrow> Some (- 1, n)
   | Some a \<Rightarrow> pf_cmdev_cm_ccontrol_req owner sent a n)"

definition pnet_ar_abort :: "nat \<Rightarrow> cm_net \<Rightarrow> (int \<times> cm_net) option" where
  "pnet_ar_abort e n = (case pf_ar_find_by_arep e n of
     None \<Rightarrow> Some (- 1, n)
   | Some a \<Rightarrow> pf_cmdev_cm_abort a n)"

text \<open>The count of aborted ARs is the result.\<close>

definition abort_active_ar :: "u8 \<Rightarrow> nat \<Rightarrow> nat \<times> cm_net \<Rightarrow> (nat \<times> cm_net) option" where
  "abort_active_ar code a = (\<lambda>(k, n).
     if a < length (ars n) \<and> ar_in_use (the_ar a n)
     then do {
       n \<leftarrow> pf_cmdev_state_ind a PNET_EVENT_ABORT
         (upd_ar a (\<lambda>r. r\<lparr>err_cls := PNET_ERROR_CODE_1_RTA_ERR_CLS_PROTOCOL, err_code := code\<rparr>) n);
       Some (k + 1, n)
     }
     else Some (k, n))"

definition pf_cmina_abort_active_ars :: "u8 \<Rightarrow> cm_net \<Rightarrow> (nat \<times> cm_net) option" where
  "pf_cmina_abort_active_ars code n = for_creps (abort_active_ar code) [0 ..< PNET_MAX_AR] (0, n)"

end
