(* ===== verification/Cm_Effects.thy ===== *)
theory Cm_Effects
  imports Cm_Dev
begin

section \<open>What the operations do to the states of an AR\<close>

text \<open>
  \<open>modes\<close> are the states of the machines of an AR, without data and timers. \<open>cm_effect a n n' evs m\<close>
  says what an operation on the AR \<open>a\<close> did: it left the other ARs alone, told the application the
  events \<open>evs\<close> of this AR and none of others, kept the AR table in order, and left the machines in
  the states \<open>m\<close>. Effects compose, and each operation gets a rule with its effect.
\<close>

subsection \<open>Modes and events\<close>

record modes =
  m_use :: bool
  m_da :: bool
  m_dev :: cmdev_state
  m_su :: cmsu_state
  m_io :: cmio_state
  m_wrr :: cmwrr_state
  m_sm :: cmsm_state
  m_pbe :: cmpbe_state
  m_stored :: u16
  m_alarm :: bool

definition modes_of :: "ar \<Rightarrow> modes" where
  "modes_of r = \<lparr>m_use = ar_in_use r, m_da = ar_device_access r, m_dev = ar_cmdev r, m_su = ar_cmsu r,
     m_io = ar_cmio r, m_wrr = ar_cmwrr r, m_sm = ar_cmsm r, m_pbe = ar_cmpbe r,
     m_stored = cmpbe_stored_command r, m_alarm = alarm_enable r\<rparr>"

text \<open>How the machines move on an event, before an ABORT frees the AR.\<close>

definition cmio_next :: "cmio_state \<Rightarrow> cm_event \<Rightarrow> cmio_state" where
  "cmio_next st ev = (case (st, ev) of
     (PF_CMIO_STATE_IDLE, PNET_EVENT_ABORT) \<Rightarrow> PF_CMIO_STATE_STARTUP
   | (_, PNET_EVENT_ABORT) \<Rightarrow> PF_CMIO_STATE_IDLE
   | (PF_CMIO_STATE_IDLE, PNET_EVENT_STARTUP) \<Rightarrow> PF_CMIO_STATE_STARTUP
   | (PF_CMIO_STATE_STARTUP, PNET_EVENT_STARTUP) \<Rightarrow> PF_CMIO_STATE_WDATA
   | (PF_CMIO_STATE_STARTUP, PNET_EVENT_PRMEND) \<Rightarrow> PF_CMIO_STATE_WDATA
   | (PF_CMIO_STATE_WDATA, PNET_EVENT_DATA) \<Rightarrow> PF_CMIO_STATE_DATA
   | _ \<Rightarrow> st)"

definition cmsm_next :: "cmsm_state \<Rightarrow> cm_event \<Rightarrow> cmsm_state" where
  "cmsm_next st ev = (case (st, ev) of
     (PF_CMSM_STATE_IDLE, PNET_EVENT_STARTUP) \<Rightarrow> PF_CMSM_STATE_RUN
   | (PF_CMSM_STATE_RUN, PNET_EVENT_DATA) \<Rightarrow> PF_CMSM_STATE_IDLE
   | (PF_CMSM_STATE_RUN, PNET_EVENT_ABORT) \<Rightarrow> PF_CMSM_STATE_IDLE
   | _ \<Rightarrow> st)"

definition cmpbe_next :: "cmpbe_state \<Rightarrow> cm_event \<Rightarrow> cmpbe_state" where
  "cmpbe_next st ev =
     (if st = PF_CMPBE_STATE_IDLE then if ev = PNET_EVENT_DATA then PF_CMPBE_STATE_WFIND else st
      else if ev = PNET_EVENT_ABORT then PF_CMPBE_STATE_IDLE else st)"

definition ev_modes :: "cm_event \<Rightarrow> modes \<Rightarrow> modes" where
  "ev_modes ev m = m\<lparr>m_io := cmio_next (m_io m) ev, m_wrr := cmwrr_next (m_wrr m) ev,
     m_sm := cmsm_next (m_sm m) ev, m_pbe := cmpbe_next (m_pbe m) ev\<rparr>"

definition no_modes :: modes where
  "no_modes = modes_of zero_ar"

fun fspm_events :: "nat \<Rightarrow> cm_out list \<Rightarrow> cm_event list" where
  "fspm_events a [] = []"
| "fspm_events a (Fspm_state_ind b ev # os) = (if b = a then ev # fspm_events a os else fspm_events a os)"
| "fspm_events a (_ # os) = fspm_events a os"

lemma fspm_events_append [simp]: "fspm_events a (os @ os') = fspm_events a os @ fspm_events a os'"
  by (induction a os rule: fspm_events.induct) auto

text \<open>The AR table: the entries in use, of those that get an AREP, are listed once each.\<close>

definition table_ok :: "cm_net \<Rightarrow> bool" where
  "table_ok n \<longleftrightarrow> length (ars n) = PNET_MAX_AR + 1 \<and> distinct (order n) \<and>
     set (order n) = {i. i < PNET_MAX_AR \<and> ar_in_use (ars n ! i)} \<and>
     (\<forall>i < length (ars n). ar_in_use (ars n ! i) \<longrightarrow> arep (ars n ! i) = (if i < PNET_MAX_AR then i + 1 else 0))"

definition cm_effect :: "nat \<Rightarrow> cm_net \<Rightarrow> cm_net \<Rightarrow> cm_event list \<Rightarrow> modes \<Rightarrow> bool" where
  "cm_effect a n n' evs m \<longleftrightarrow> only_ar a n n' \<and> modes_of (the_ar a n') = m \<and> (table_ok n \<longrightarrow> table_ok n') \<and>
     (\<exists>os. outs n' = outs n @ os \<and> fspm_events a os = evs \<and> (\<forall>b. b \<noteq> a \<longrightarrow> fspm_events b os = []))"

lemma cm_effect_refl: "cm_effect a n n [] (modes_of (the_ar a n))"
  by (simp add: cm_effect_def)

lemma cm_effect_trans:
  assumes "cm_effect a n n1 evs m1" "cm_effect a n1 n2 evs' m2"
  shows "cm_effect a n n2 (evs @ evs') m2"
proof -
  obtain os os' where "outs n1 = outs n @ os" "outs n2 = outs n1 @ os'" "fspm_events a os = evs"
    "fspm_events a os' = evs'" "\<forall>b. b \<noteq> a \<longrightarrow> fspm_events b os = []" "\<forall>b. b \<noteq> a \<longrightarrow> fspm_events b os' = []"
    using assms by (auto simp: cm_effect_def)
  then show ?thesis
    using assms unfolding cm_effect_def by (auto intro: only_ar_trans intro!: exI [of _ "os @ os'"])
qed

lemma cm_effect_trans0: "cm_effect a n n1 [] m1 \<Longrightarrow> cm_effect a n1 n2 evs m2 \<Longrightarrow> cm_effect a n n2 evs m2"
  using cm_effect_trans [of a n n1 "[]" m1 n2 evs m2] by simp

lemma cm_effect_then: "cm_effect a n n1 evs m1 \<Longrightarrow> cm_effect a n1 n2 [] m2 \<Longrightarrow> cm_effect a n n2 evs m2"
  using cm_effect_trans [of a n n1 evs m1 n2 "[]" m2] by simp

lemma cm_effect_modes: "cm_effect a n n' evs m \<Longrightarrow> modes_of (the_ar a n') = m"
  by (simp add: cm_effect_def)

lemma cm_effect_length: "cm_effect a n n' evs m \<Longrightarrow> length (ars n') = length (ars n)"
  by (simp add: cm_effect_def only_ar_def)

lemma modes_simps [simp]:
  "m_use (modes_of r) = ar_in_use r" "m_da (modes_of r) = ar_device_access r" "m_dev (modes_of r) = ar_cmdev r"
  "m_su (modes_of r) = ar_cmsu r" "m_io (modes_of r) = ar_cmio r" "m_wrr (modes_of r) = ar_cmwrr r"
  "m_sm (modes_of r) = ar_cmsm r" "m_pbe (modes_of r) = ar_cmpbe r" "m_stored (modes_of r) = cmpbe_stored_command r"
  "m_alarm (modes_of r) = alarm_enable r"
  by (simp_all add: modes_of_def)

subsection \<open>Elementary effects\<close>

lemma table_ok_upd_ar:
  assumes "\<And>r. ar_in_use (f r) = ar_in_use r" "\<And>r. arep (f r) = arep r" "table_ok n"
  shows "table_ok (upd_ar a f n)"
proof -
  have "ars (upd_ar a f n) ! i = (if i = a \<and> a < length (ars n) then f (ars n ! i) else ars n ! i)" for i
    by (auto simp: upd_ar_def upd_def nth_list_update) (metis list_update_beyond not_le)
  then have "ar_in_use (ars (upd_ar a f n) ! i) = ar_in_use (ars n ! i)"
    "arep (ars (upd_ar a f n) ! i) = arep (ars n ! i)" for i
    using assms(1,2) by simp_all
  then show ?thesis using assms(3) by (simp add: table_ok_def)
qed

lemma effect_upd_ar:
  assumes "a < length (ars n)" "\<And>r. ar_in_use (f r) = ar_in_use r" "\<And>r. arep (f r) = arep r"
  shows "cm_effect a n (upd_ar a f n) [] (modes_of (f (the_ar a n)))"
  using assms table_ok_upd_ar [of f n a] by (auto simp: cm_effect_def)

lemma effect_emit:
  assumes "\<And>b. b \<noteq> a \<Longrightarrow> fspm_events b os = []"
  shows "cm_effect a n (emit_outs os n) (fspm_events a os) (modes_of (the_ar a n))"
  using assms by (auto simp: cm_effect_def table_ok_def)

lemma effect_sched: "cm_effect a n (n\<lparr>cm_sched := s\<rparr>) [] (modes_of (the_ar a n))"
  by (auto simp: cm_effect_def table_ok_def only_ar_def the_ar_def)

lemma effect_cmio_add:
  assumes "cmio_add a n = Some n'" "a < length (ars n)"
  shows "cm_effect a n n' [] (modes_of (the_ar a n))"
proof -
  obtain h s where n': "n' = upd_ar a (cmio_timeout_update (\<lambda>_. h)) (n\<lparr>cm_sched := s\<rparr>)"
    using assms(1) by (auto simp: cmio_add_def split: Option.bind_splits)
  have "cm_effect a (n\<lparr>cm_sched := s\<rparr>) n' [] (modes_of (the_ar a n))"
    using effect_upd_ar [of a "n\<lparr>cm_sched := s\<rparr>" "cmio_timeout_update (\<lambda>_. h)"] assms(2)
    by (simp add: n' modes_of_def)
  from cm_effect_trans [OF effect_sched this] show ?thesis by simp
qed

lemma effect_cmsm_restart:
  assumes "cmsm_restart a n = Some n'" "a < length (ars n)"
  shows "cm_effect a n n' [] (modes_of (the_ar a n))"
proof -
  obtain h s where n': "n' = upd_ar a (cmsm_timeout_update (\<lambda>_. h)) (n\<lparr>cm_sched := s\<rparr>)"
    using assms(1) by (auto simp: cmsm_restart_def split: Option.bind_splits)
  have "cm_effect a (n\<lparr>cm_sched := s\<rparr>) n' [] (modes_of (the_ar a n))"
    using effect_upd_ar [of a "n\<lparr>cm_sched := s\<rparr>" "cmsm_timeout_update (\<lambda>_. h)"] assms(2)
    by (simp add: n' modes_of_def)
  from cm_effect_trans [OF effect_sched this] show ?thesis by simp
qed

text \<open>An update of an AR together with the scheduler.\<close>

lemma effect_upd_sched:
  assumes "a < length (ars n)" "\<And>r. ar_in_use (f r) = ar_in_use r" "\<And>r. arep (f r) = arep r"
  shows "cm_effect a n (upd_ar a f (n\<lparr>cm_sched := s\<rparr>)) [] (modes_of (f (the_ar a n)))"
  using cm_effect_trans [OF effect_sched [of a n s] effect_upd_ar [of a "n\<lparr>cm_sched := s\<rparr>" f]] assms by simp

subsection \<open>The machines\<close>

text \<open>Fields of an AR that a machine's update keeps.\<close>

lemma modes_of_cong:
  "modes_of r' = modes_of r" if "ar_in_use r' = ar_in_use r" "ar_device_access r' = ar_device_access r"
    "ar_cmdev r' = ar_cmdev r" "ar_cmsu r' = ar_cmsu r" "ar_cmio r' = ar_cmio r" "ar_cmwrr r' = ar_cmwrr r"
    "ar_cmsm r' = ar_cmsm r" "ar_cmpbe r' = ar_cmpbe r" "cmpbe_stored_command r' = cmpbe_stored_command r"
    "alarm_enable r' = alarm_enable r"
  using that by (simp add: modes_of_def)

lemma stop_consumers_fields [simp]:
  "ar_in_use (stop_consumers r) = ar_in_use r" "arep (stop_consumers r) = arep r"
  "modes_of (stop_consumers r) = modes_of r"
  by (simp_all add: stop_consumers_def modes_of_def)

lemma modes_of_ios: "modes_of (r\<lparr>ar_cmio := x\<rparr>) = (modes_of r)\<lparr>m_io := x\<rparr>"
  "modes_of (r\<lparr>cmio_timer_should_reschedule := b\<rparr>) = modes_of r"
  "modes_of (r\<lparr>cmio_timeout := h\<rparr>) = modes_of r" "modes_of (r\<lparr>cmsm_timeout := h\<rparr>) = modes_of r"
  "modes_of (r\<lparr>ar_cmwrr := w\<rparr>) = (modes_of r)\<lparr>m_wrr := w\<rparr>" "modes_of (r\<lparr>ar_cmsm := sm\<rparr>) = (modes_of r)\<lparr>m_sm := sm\<rparr>"
  "modes_of (r\<lparr>ar_cmpbe := p\<rparr>) = (modes_of r)\<lparr>m_pbe := p\<rparr>" "modes_of (r\<lparr>ar_cmdev := d\<rparr>) = (modes_of r)\<lparr>m_dev := d\<rparr>"
  "modes_of (r\<lparr>ar_cmsu := u\<rparr>) = (modes_of r)\<lparr>m_su := u\<rparr>" "modes_of (r\<lparr>alarm_enable := b\<rparr>) = (modes_of r)\<lparr>m_alarm := b\<rparr>"
  "modes_of (r\<lparr>cmpbe_stored_command := c\<rparr>) = (modes_of r)\<lparr>m_stored := c\<rparr>"
  "modes_of (r\<lparr>err_cls := c1\<rparr>) = modes_of r" "modes_of (r\<lparr>err_code := c1\<rparr>) = modes_of r"
  "modes_of (r\<lparr>ready_4_data := b\<rparr>) = modes_of r"
  "modes_of (r\<lparr>iocrs := cs\<rparr>) = modes_of r"
  by (simp_all add: modes_of_def)

text \<open>Rules with the modes as an equation, and updates brought into one form.\<close>

lemma effect_updI:
  assumes "a < length (ars n)" "\<And>r. ar_in_use (f r) = ar_in_use r" "\<And>r. arep (f r) = arep r"
    "m = modes_of (f (the_ar a n))"
  shows "cm_effect a n (upd_ar a f n) [] m" "cm_effect a n (upd_ar a f (n\<lparr>cm_sched := s\<rparr>)) [] m"
  using effect_upd_ar [of a n f] effect_upd_sched [of a n f s] assms by auto

lemma effect_reflI: "m = modes_of (the_ar a n) \<Longrightarrow> cm_effect a n n [] m"
  by (simp add: cm_effect_refl)

lemma upd_ar_upd_ar: "upd_ar a f (upd_ar a g n) = upd_ar a (\<lambda>r. f (g r)) n"
  by (cases "a < length (ars n)") (simp_all add: upd_ar_def upd_def list_update_beyond)

lemma upd_ar_cm_sched: "(upd_ar a f n)\<lparr>cm_sched := s\<rparr> = upd_ar a f (n\<lparr>cm_sched := s\<rparr>)"
  by (simp add: upd_ar_def)

lemma cmio_add_eq:
  assumes "cmio_add a n = Some n'"
  shows "\<exists>h s. n' = upd_ar a (cmio_timeout_update (\<lambda>_. h)) (n\<lparr>cm_sched := s\<rparr>)"
  using assms by (auto simp: cmio_add_def split: Option.bind_splits)

lemmas upd_norm = upd_ar_upd_ar upd_ar_cm_sched

lemma effect_cmio:
  assumes "pf_cmio_cmdev_state_ind a ev n = Some n'" "a < length (ars n)"
  shows "cm_effect a n n' [] ((modes_of (the_ar a n))\<lparr>m_io := cmio_next (ar_cmio (the_ar a n)) ev\<rparr>)"
proof (cases "ar_cmio (the_ar a n)")
  case PF_CMIO_STATE_IDLE
  then show ?thesis using assms
    by (cases ev) (auto simp: pf_cmio_cmdev_state_ind_def cmio_next_def modes_of_def stop_consumers_def intro!: effect_updI effect_reflI)
next
  case PF_CMIO_STATE_STARTUP
  then show ?thesis using assms
    by (cases ev) (auto simp: pf_cmio_cmdev_state_ind_def cmio_next_def modes_of_def stop_consumers_def upd_norm Let_def
        split: Option.bind_splits dest!: cmio_add_eq intro!: effect_updI effect_reflI)
next
  case PF_CMIO_STATE_WDATA
  then show ?thesis using assms
    by (cases ev) (auto simp: pf_cmio_cmdev_state_ind_def cmio_next_def modes_of_def stop_consumers_def upd_norm Let_def
        split: Option.bind_splits intro!: effect_updI effect_reflI)
next
  case PF_CMIO_STATE_DATA
  then show ?thesis using assms
    by (cases ev) (auto simp: pf_cmio_cmdev_state_ind_def cmio_next_def modes_of_def stop_consumers_def intro!: effect_updI effect_reflI)
qed

lemma effect_cmwrr:
  assumes "a < length (ars n)"
  shows "cm_effect a n (pf_cmwrr_cmdev_state_ind a ev n) [] ((modes_of (the_ar a n))\<lparr>m_wrr := cmwrr_next (ar_cmwrr (the_ar a n)) ev\<rparr>)"
  unfolding pf_cmwrr_cmdev_state_ind_def using assms by (intro effect_updI) (simp_all add: modes_of_ios)

lemma cmsm_restart_eq:
  assumes "cmsm_restart a n = Some n'"
  shows "\<exists>h s. n' = upd_ar a (cmsm_timeout_update (\<lambda>_. h)) (n\<lparr>cm_sched := s\<rparr>)"
  using assms by (auto simp: cmsm_restart_def split: Option.bind_splits)

lemma effect_cmsm:
  assumes "pf_cmsm_cmdev_state_ind a ev n = Some n'" "a < length (ars n)"
  shows "cm_effect a n n' [] ((modes_of (the_ar a n))\<lparr>m_sm := cmsm_next (ar_cmsm (the_ar a n)) ev\<rparr>)"
proof (cases "ar_cmsm (the_ar a n)")
  case PF_CMSM_STATE_IDLE
  then show ?thesis using assms
    by (cases ev) (auto simp: pf_cmsm_cmdev_state_ind_def cmsm_next_def modes_of_def upd_norm
        dest!: cmsm_restart_eq intro!: effect_updI effect_reflI)
next
  case PF_CMSM_STATE_RUN
  then show ?thesis using assms
    by (cases ev) (auto simp: pf_cmsm_cmdev_state_ind_def cmsm_next_def modes_of_def upd_norm
        split: Option.bind_splits intro!: effect_updI effect_reflI)
qed

lemma effect_cmpbe:
  assumes "a < length (ars n)"
  shows "cm_effect a n (pf_cmpbe_cmdev_state_ind a ev n) [] ((modes_of (the_ar a n))\<lparr>m_pbe := cmpbe_next (ar_cmpbe (the_ar a n)) ev\<rparr>)"
  unfolding pf_cmpbe_cmdev_state_ind_def using assms
  by (intro effect_updI) (auto simp: modes_of_def cmpbe_next_def split: cmpbe_state.splits)

subsection \<open>Release, ABORT and the other events\<close>

lemma effect_release:
  assumes "a < length (ars n)" "ar_in_use (the_ar a n)"
  shows "cm_effect a n (pf_ar_release a n) [] no_modes"
proof -
  let ?n = "pf_ar_release a n"
  have ars: "ars ?n = (ars n)[a := zero_ar]" and outs: "outs ?n = outs n"
    using assms(2) by (simp_all add: pf_ar_release_def Let_def upd_ar_def upd_def)
  have "only_ar a n ?n" by (simp add: only_ar_def ars)
  moreover have "modes_of (the_ar a ?n) = no_modes" using assms(1) by (simp add: the_ar_def ars no_modes_def)
  moreover have "table_ok ?n" if ok: "table_ok n"
  proof -
    have arep: "arep (the_ar a n) = (if a < PNET_MAX_AR then a + 1 else 0)"
      using ok assms by (simp add: table_ok_def the_ar_def)
    then have order: "order ?n = (if a < PNET_MAX_AR then remove1 a (order n) else order n)"
      using assms(2) by (simp add: pf_ar_release_def Let_def)
    have "ar_in_use (ars ?n ! i) \<longleftrightarrow> i \<noteq> a \<and> ar_in_use (ars n ! i)" for i
      using assms(1) by (cases "i = a") (simp_all add: ars zero_ar_def)
    moreover have "ars ?n ! i = ars n ! i" if "i \<noteq> a" for i using that by (simp add: ars)
    ultimately show ?thesis
      using ok unfolding table_ok_def order by (auto simp: ars)
  qed
  ultimately show ?thesis by (simp add: cm_effect_def outs)
qed

lemma effect_release_not_in_use: "\<not> ar_in_use (the_ar a n) \<Longrightarrow> pf_ar_release a n = n"
  by (simp add: pf_ar_release_def)

lemma effect_emitI:
  "(\<And>b. b \<noteq> a \<Longrightarrow> fspm_events b os = []) \<Longrightarrow> evs = fspm_events a os \<Longrightarrow> m = modes_of (the_ar a n) \<Longrightarrow>
   cm_effect a n (emit_outs os n) evs m"
  using effect_emit [of a os n] by simp

text \<open>All machines but CMSU.\<close>

lemma effect_rest:
  assumes "cmdev_rest a ev n = Some n'" "a < length (ars n)"
  shows "cm_effect a n n' [] (if ev = PNET_EVENT_ABORT \<and> ar_in_use (the_ar a n) then no_modes
    else ev_modes ev (modes_of (the_ar a n)))" (is ?effect)
    and "ev = PNET_EVENT_ABORT \<Longrightarrow> ar_in_use (the_ar a n) \<Longrightarrow> the_ar a n' = zero_ar" (is "_ \<Longrightarrow> _ \<Longrightarrow> ?zero")
proof -
  let ?m = "modes_of (the_ar a n)"
  obtain n1 where n1: "pf_cmio_cmdev_state_ind a ev n = Some n1"
    using assms(1) by (auto simp: cmdev_rest_def Let_def split: Option.bind_splits)
  let ?n2 = "pf_cmwrr_cmdev_state_ind a ev n1"
  obtain n3 where n3: "pf_cmsm_cmdev_state_ind a ev ?n2 = Some n3"
    using assms(1) n1 by (auto simp: cmdev_rest_def Let_def split: Option.bind_splits)
  let ?n4 = "pf_cmpbe_cmdev_state_ind a ev n3"
  have n': "n' = (if ev = PNET_EVENT_ABORT then emit_outs [Device_clear a] (pf_ar_release a (emit_outs [Sessions_release a] ?n4)) else ?n4)"
    using assms(1) n1 n3 by (auto simp: cmdev_rest_def Let_def pf_cmrpc_cmdev_state_ind_def split: cm_event.splits)
  note e1 = effect_cmio [OF n1 assms(2)]
  have e2: "cm_effect a n ?n2 [] (?m\<lparr>m_io := cmio_next (m_io ?m) ev, m_wrr := cmwrr_next (m_wrr ?m) ev\<rparr>)"
    using cm_effect_trans [OF e1 effect_cmwrr [of a n1 ev]] assms(2) cm_effect_length [OF e1] cm_effect_modes [OF e1]
      modes_simps(6) [of "the_ar a n1"] by simp
  have e3: "cm_effect a n n3 [] (?m\<lparr>m_io := cmio_next (m_io ?m) ev, m_wrr := cmwrr_next (m_wrr ?m) ev,
      m_sm := cmsm_next (m_sm ?m) ev\<rparr>)"
    using cm_effect_trans [OF e2 effect_cmsm [OF n3]] assms(2) cm_effect_length [OF e2] cm_effect_modes [OF e2]
      modes_simps(7) [of "the_ar a ?n2"] by simp
  have e4: "cm_effect a n ?n4 [] (ev_modes ev ?m)"
    using cm_effect_trans [OF e3 effect_cmpbe [of a n3 ev]] assms(2) cm_effect_length [OF e3] cm_effect_modes [OF e3]
      modes_simps(8) [of "the_ar a n3"] by (simp add: ev_modes_def)
  let ?n5 = "emit_outs [Sessions_release a] ?n4"
  have e5: "cm_effect a n ?n5 [] (ev_modes ev ?m)"
    using cm_effect_trans [OF e4 effect_emit [of a "[Sessions_release a]" ?n4]] cm_effect_modes [OF e4] by simp
  have len: "a < length (ars ?n5)" using cm_effect_length [OF e5] assms(2) by simp
  have use: "ar_in_use (the_ar a ?n5) = ar_in_use (the_ar a n)"
    using cm_effect_modes [OF e5] modes_simps(1) [of "the_ar a ?n5"] by (simp add: ev_modes_def)
  show ?effect
  proof (cases "ev = PNET_EVENT_ABORT")
    case True
    have e6: "cm_effect a n (pf_ar_release a ?n5) [] (if ar_in_use (the_ar a n) then no_modes else ev_modes ev ?m)"
      using cm_effect_trans [OF e5 effect_release [OF len]] e5 use effect_release_not_in_use [of a ?n5] by auto
    show ?thesis
      using cm_effect_trans [OF e6 effect_emit [of a "[Device_clear a]" "pf_ar_release a ?n5"]] cm_effect_modes [OF e6]
      by (simp add: n' True)
  next
    case False
    then show ?thesis using e4 by (simp add: n')
  qed
  show ?zero if "ev = PNET_EVENT_ABORT" "ar_in_use (the_ar a n)"
    using that use len by (simp add: n' pf_ar_release_def Let_def)
qed

lemma concat_no_fspm: "(\<And>c. c \<in> set cs \<Longrightarrow> fspm_events b (f c) = []) \<Longrightarrow> fspm_events b (concat (map f cs)) = []"
  by (induction cs) auto

lemma effect_cmsu_close:
  assumes "a < length (ars n)"
  shows "cm_effect a n (cmsu_close a n) [] ((modes_of (the_ar a n))\<lparr>m_su := PF_CMSU_STATE_IDLE\<rparr>)"
proof -
  let ?out = "concat (map (\<lambda>c.
       (if iocr_type (iocrs (the_ar a n) ! c) = PF_IOCR_TYPE_INPUT then [Ppm_close_req a c] else []) @
       (if iocr_type (iocrs (the_ar a n) ! c) = PF_IOCR_TYPE_OUTPUT then [Cpm_close_req a c] else []))
       [0 ..< length (iocrs (the_ar a n))])"
  let ?n1 = "emit_outs ?out n"
  let ?n2 = "emit_outs [Alarm_close a, Alarm_free_endpoint a] ?n1"
  have no: "fspm_events b ?out = []" for b by (rule concat_no_fspm) auto
  have "cm_effect a n ?n1 [] (modes_of (the_ar a n))"
    by (rule effect_emitI) (simp_all add: no)
  moreover have "cm_effect a ?n1 ?n2 [] (modes_of (the_ar a n))"
    by (rule effect_emitI) simp_all
  moreover have "cm_effect a ?n2 (cmsu_close a n) [] ((modes_of (the_ar a n))\<lparr>m_su := PF_CMSU_STATE_IDLE\<rparr>)"
    unfolding cmsu_close_def Let_def upd_ar_upd_ar using assms by (intro effect_updI) (simp_all add: modes_of_ios)
  ultimately show ?thesis by (rule cm_effect_trans0 [OF cm_effect_trans0])
qed

definition cmsu_aborted :: "cmsu_state \<Rightarrow> cmsu_state" where
  "cmsu_aborted st = (if st = PF_CMSU_STATE_STARTUP \<or> st = PF_CMSU_STATE_RUN then PF_CMSU_STATE_IDLE else st)"

lemma effect_cmsu_abort:
  assumes "a < length (ars n)"
  shows "cm_effect a n (cmsu_abort a n) [] ((modes_of (the_ar a n))\<lparr>m_su := cmsu_aborted (ar_cmsu (the_ar a n))\<rparr>)"
  using effect_cmsu_close [OF assms] cm_effect_refl [of a n]
  by (cases "ar_cmsu (the_ar a n)") (simp_all add: cmsu_abort_def cmsu_aborted_def modes_of_def)

text \<open>An ABORT of an AR in use.\<close>

lemma effect_abort:
  assumes "cmdev_abort a n = Some n'" "a < length (ars n)" "ar_in_use (the_ar a n)"
  shows "cm_effect a n n' [PNET_EVENT_ABORT] no_modes" "the_ar a n' = zero_ar"
proof -
  let ?n1 = "emit_outs [Fspm_state_ind a PNET_EVENT_ABORT] n"
  have e1: "cm_effect a n ?n1 [PNET_EVENT_ABORT] (modes_of (the_ar a n))"
    by (rule effect_emitI) simp_all
  have e2: "cm_effect a ?n1 (cmsu_abort a ?n1) [] ((modes_of (the_ar a n))\<lparr>m_su := cmsu_aborted (ar_cmsu (the_ar a n))\<rparr>)"
    using effect_cmsu_abort [of a ?n1] assms(2) by simp
  have "ar_in_use (the_ar a (cmsu_abort a ?n1))"
    using cm_effect_modes [OF e2] modes_simps(1) [of "the_ar a (cmsu_abort a ?n1)"] assms(3) by simp
  moreover have "a < length (ars (cmsu_abort a ?n1))" using cm_effect_length [OF e2] assms(2) by simp
  ultimately have "cm_effect a (cmsu_abort a ?n1) n' [] no_modes" and "the_ar a n' = zero_ar"
    using effect_rest [of a PNET_EVENT_ABORT "cmsu_abort a ?n1" n'] assms(1) by (simp_all add: cmdev_abort_def)
  then show "cm_effect a n n' [PNET_EVENT_ABORT] no_modes" "the_ar a n' = zero_ar"
    using cm_effect_then [OF cm_effect_then [OF e1 e2]] by blast+
qed

lemma state_ind_abort: "pf_cmdev_state_ind a PNET_EVENT_ABORT n = cmdev_abort a n"
  by (simp add: pf_cmdev_state_ind_def pf_cmsu_cmdev_state_ind_def cmdev_abort_def)

lemma effect_error_ind:
  assumes "pf_cmsu_cpm_error_ind a cls code n = Some n' \<or> pf_cmsu_ppm_error_ind a cls code n = Some n' \<or>
      pf_cmsu_alarm_error_ind a cls code n = Some n' \<or> pf_cmsu_cmdmc_error_ind a cls code n = Some n'"
    "a < length (ars n)" "ar_in_use (the_ar a n)"
  shows "cm_effect a n n' [PNET_EVENT_ABORT] no_modes" "the_ar a n' = zero_ar"
proof -
  let ?n = "upd_ar a (\<lambda>r. r\<lparr>err_cls := cls, err_code := code\<rparr>) n"
  have "cmdev_abort a ?n = Some n'"
    using assms(1) by (auto simp: pf_cmsu_cpm_error_ind_def pf_cmsu_ppm_error_ind_def pf_cmsu_alarm_error_ind_def
      pf_cmsu_cmdmc_error_ind_def)
  moreover have "cm_effect a n ?n [] (modes_of (the_ar a n))"
    using assms(2) by (intro effect_updI) (simp_all add: modes_of_def)
  ultimately show "cm_effect a n n' [PNET_EVENT_ABORT] no_modes" "the_ar a n' = zero_ar"
    using effect_abort [of a ?n n'] assms(2,3) by (auto intro: cm_effect_trans0)
qed

text \<open>The event that the user is told, for all events but PRMEND and ABORT.\<close>

lemma effect_event:
  assumes "pf_cmdev_state_ind a ev n = Some n'" "a < length (ars n)"
    and ev: "ev \<noteq> PNET_EVENT_ABORT" "ev = PNET_EVENT_PRMEND \<Longrightarrow> ar_cmsu (the_ar a n) \<noteq> PF_CMSU_STATE_STARTUP"
  shows "cm_effect a n n' [ev] (ev_modes ev (modes_of (the_ar a n)))"
proof -
  let ?n1 = "emit_outs [Fspm_state_ind a ev] n"
  have "cm_effect a n ?n1 [ev] (modes_of (the_ar a n))"
    by (rule effect_emitI) simp_all
  moreover have "cmdev_rest a ev ?n1 = Some n'"
    using assms(1) ev
    by (cases "ev = PNET_EVENT_PRMEND") (simp_all add: pf_cmdev_state_ind_def pf_cmsu_cmdev_state_ind_def)
  ultimately show ?thesis
    using effect_rest(1) [of a ev ?n1 n'] assms(2) ev by (auto intro: cm_effect_then)
qed

subsection \<open>PRMEND and the start\<close>

text \<open>A loop over CREPs either runs through or is cut short by an ABORT.\<close>

lemma effect_activate_ppm:
  assumes "for_creps (activate_ppm a) cs n = Some n'" "a < length (ars n)" "ar_in_use (the_ar a n)"
  shows "cm_effect a n n' [] (modes_of (the_ar a n)) \<and> ar_in_use (the_ar a n') \<or>
    cm_effect a n n' [PNET_EVENT_ABORT] no_modes"
  using assms
proof (induction cs arbitrary: n)
  case Nil
  then show ?case by (auto intro: cm_effect_refl)
next
  case (Cons c cs)
  let ?n1 = "emit_outs [Cm_call a (Ppm_activate_req c)] n"
  obtain n2 where n2: "activate_ppm a c n = Some n2" "for_creps (activate_ppm a) cs n2 = Some n'"
    using Cons.prems(1) by (auto split: Option.bind_splits)
  have e1: "cm_effect a n ?n1 [] (modes_of (the_ar a n))" by (rule effect_emitI) simp_all
  consider "n2 = n \<or> n2 = ?n1" | "pf_cmsu_ppm_error_ind a PNET_ERROR_CODE_1_PPM PNET_ERROR_CODE_2_PPM_INVALID ?n1 = Some n2"
    using n2(1) by (auto simp: activate_ppm_def Let_def split: if_splits)
  then show ?case
  proof cases
    case 1
    then have e: "cm_effect a n n2 [] (modes_of (the_ar a n))" using e1 cm_effect_refl by auto
    have "a < length (ars n2)" "ar_in_use (the_ar a n2)" using 1 Cons.prems(2,3) by auto
    from Cons.IH [OF n2(2) this] show ?thesis
      using cm_effect_trans0 [OF e] cm_effect_modes [OF e] by auto
  next
    case 2
    note e = effect_error_ind [of a _ _ ?n1 n2, OF disjI2 [OF disjI1 [OF 2]]]
    have z: "cm_effect a n n2 [PNET_EVENT_ABORT] no_modes" "the_ar a n2 = zero_ar"
      using e Cons.prems(2,3) cm_effect_trans0 [OF e1] by auto
    have "for_creps (activate_ppm a) cs n2 = Some n2" for cs
      using z(2) by (induction cs) (simp_all add: activate_ppm_def zero_ar_def)
    then show ?thesis using z(1) n2(2) by simp
  qed
qed

lemma no_modes_event: "ev \<noteq> PNET_EVENT_STARTUP \<Longrightarrow> ev \<noteq> PNET_EVENT_DATA \<Longrightarrow> ev \<noteq> PNET_EVENT_ABORT \<Longrightarrow> ev_modes ev no_modes = no_modes"
  by (cases ev) (simp_all add: ev_modes_def no_modes_def modes_of_def zero_ar_def cmio_next_def cmsm_next_def cmwrr_next_def
      cmpbe_next_def)

lemma no_modes_use [simp]: "m_use no_modes = False"
  by (simp add: no_modes_def zero_ar_def)

lemma effect_prmend:
  assumes "pf_cmdev_state_ind a PNET_EVENT_PRMEND n = Some n'" "a < length (ars n)" "ar_in_use (the_ar a n)"
  shows "cm_effect a n n' [PNET_EVENT_PRMEND] (ev_modes PNET_EVENT_PRMEND (modes_of (the_ar a n))) \<or>
    cm_effect a n n' [PNET_EVENT_PRMEND, PNET_EVENT_ABORT] no_modes"
proof (cases "ar_cmsu (the_ar a n) = PF_CMSU_STATE_STARTUP")
  case False
  then show ?thesis using effect_event [OF assms(1,2)] by simp
next
  case True
  let ?n1 = "emit_outs [Fspm_state_ind a PNET_EVENT_PRMEND] n"
  have e1: "cm_effect a n ?n1 [PNET_EVENT_PRMEND] (modes_of (the_ar a n))" by (rule effect_emitI) simp_all
  obtain n2 where n2: "for_creps (activate_ppm a) [0 ..< length (iocrs (the_ar a ?n1))] ?n1 = Some n2"
    "cmdev_rest a PNET_EVENT_PRMEND n2 = Some n'"
    using assms(1) True by (auto simp: pf_cmdev_state_ind_def pf_cmsu_cmdev_state_ind_def split: Option.bind_splits)
  consider "cm_effect a ?n1 n2 [] (modes_of (the_ar a ?n1))" | "cm_effect a ?n1 n2 [PNET_EVENT_ABORT] no_modes"
    using effect_activate_ppm [OF n2(1)] assms(2,3) by auto
  then show ?thesis
  proof cases
    case 1
    have e2: "cm_effect a n n2 [PNET_EVENT_PRMEND] (modes_of (the_ar a n))" using cm_effect_then [OF e1 1] by simp
    show ?thesis
      using cm_effect_then [OF e2 effect_rest(1) [OF n2(2)]] cm_effect_length [OF e2] cm_effect_modes [OF e2] assms(2)
      by simp
  next
    case 2
    have e2: "cm_effect a n n2 [PNET_EVENT_PRMEND, PNET_EVENT_ABORT] no_modes" using cm_effect_trans [OF e1 2] by simp
    show ?thesis
      using cm_effect_then [OF e2 effect_rest(1) [OF n2(2)]] cm_effect_length [OF e2] cm_effect_modes [OF e2] assms(2)
      by (simp add: no_modes_event)
  qed
qed

end
