(* ===== verification/Cm_Agreement.thy ===== *)
theory Cm_Agreement
  imports Cm_Effects
begin

section \<open>The machines of an AR agree\<close>

text \<open>
  In the rest states of an AR, between two requests, the states of its machines belong together:
  \<open>agrees\<close>. And what the application is told of an AR follows the life cycle \<open>phase\<close>: STARTUP,
  PRMEND, APPLRDY, DATA, with an ABORT at any time. \<open>steps_ok\<close> is what an operation keeps of both,
  and every handler of the context management is shown to keep it.
\<close>

subsection \<open>Starting\<close>

lemma for_creps_inv:
  assumes "\<And>c x y. c \<in> set cs \<Longrightarrow> P x \<Longrightarrow> f c x = Some y \<Longrightarrow> P y" "for_creps f cs x = Some y" "P x"
  shows "P y"
  using assms
proof (induction cs arbitrary: x)
  case (Cons c cs)
  obtain z where z: "f c x = Some z" "for_creps f cs z = Some y"
    using Cons.prems(2) by (auto split: Option.bind_splits)
  have P: "P z" using Cons.prems(1) [OF _ Cons.prems(3) z(1)] by simp
  have keep: "P y'" if "c' \<in> set cs" "P x'" "f c' x' = Some y'" for c' x' y'
    using Cons.prems(1) [of c' x' y'] that by simp
  show ?case by (rule Cons.IH [OF keep z(2) P])
qed simp

definition start_inv :: "nat \<Rightarrow> cm_net \<Rightarrow> start_progress \<Rightarrow> bool" where
  "start_inv a n0 = (\<lambda>(ok, st, n). cm_effect a n0 n [] (modes_of (the_ar a n0)) \<or>
     \<not> ok \<and> cm_effect a n0 n [PNET_EVENT_ABORT] no_modes)"

lemma try_start_inv:
  assumes "try_start a c code p = Some p'" "start_inv a n0 p" "a < length (ars n0)" "ar_in_use (the_ar a n0)"
  shows "start_inv a n0 p'"
proof -
  obtain ok st n where p: "p = (ok, st, n)" by (cases p)
  show ?thesis
  proof (cases ok)
    case False
    then show ?thesis using assms by (simp add: try_start_def p)
  next
    case True
    let ?n1 = "emit_outs [Cm_call a c] n"
    have e: "cm_effect a n0 n [] (modes_of (the_ar a n0))" using assms(2) True by (simp add: start_inv_def p)
    have "cm_effect a n ?n1 [] (modes_of (the_ar a n))" by (rule effect_emitI) simp_all
    then have e1: "cm_effect a n0 ?n1 [] (modes_of (the_ar a n0))"
      using cm_effect_trans0 [OF e] cm_effect_modes [OF e] by simp
    show ?thesis
    proof (cases "call_result ?n1 a c")
      case Failure_reported
      then obtain n2 where n2: "pf_cmsu_cpm_error_ind a PNET_ERROR_CODE_1_CPM PNET_ERROR_CODE_2_CPM_INVALID ?n1 = Some n2"
        "p' = (False, st\<lparr>error_code_2 := code\<rparr>, n2)"
        using assms(1) True by (auto simp: try_start_def p Let_def split: Option.bind_splits)
      have "a < length (ars ?n1)" "ar_in_use (the_ar a ?n1)"
        using cm_effect_length [OF e1] cm_effect_modes [OF e1] modes_simps(1) [of "the_ar a ?n1"] assms(3,4) by simp_all
      from effect_error_ind(1) [OF disjI1 [OF n2(1)] this] show ?thesis
        using cm_effect_trans0 [OF e1] by (simp add: start_inv_def n2(2))
    qed (use assms(1) True e1 in \<open>auto simp: try_start_def p Let_def start_inv_def\<close>)
  qed
qed

lemma start_iocr_inv:
  assumes "start_iocr a c p = Some p'" "start_inv a n0 p" "a < length (ars n0)" "ar_in_use (the_ar a n0)"
  shows "start_inv a n0 p'"
  using assms by (auto simp: start_iocr_def Let_def split: if_splits Option.bind_splits intro: try_start_inv)

lemma effect_start_req:
  assumes "pf_cmsu_start_req a stat n = Some (ret, stat', n')" "a < length (ars n)" "ar_in_use (the_ar a n)"
    "ar_cmsu (the_ar a n) = PF_CMSU_STATE_IDLE"
  shows "cm_effect a n n' [] ((modes_of (the_ar a n))\<lparr>m_su := PF_CMSU_STATE_STARTUP\<rparr>) \<or>
    ret \<noteq> 0 \<and> cm_effect a n n' [PNET_EVENT_ABORT] (no_modes\<lparr>m_su := PF_CMSU_STATE_STARTUP\<rparr>)"
proof -
  obtain p ok n1 where p: "for_creps (start_iocr a) [0 ..< length (iocrs (the_ar a n))] (True, stat, n) = Some p"
    "try_start a Alarm_activate PNET_ERROR_CODE_2_CMSU_AR_ALARM_OPEN_FAILED p = Some (ok, stat', n1)"
    "ret = (if ok then 0 else - 1)"
    "n' = upd_ar a (ar_cmsu_update (\<lambda>_. PF_CMSU_STATE_STARTUP)) (if ok then pf_cmsm_activate a n1 else n1)"
    using assms(1,4) by (auto simp: pf_cmsu_start_req_def Let_def split: Option.bind_splits prod.splits)
  have "start_inv a n (True, stat, n)" by (simp add: start_inv_def cm_effect_refl)
  with p(1) have "start_inv a n p"
    using for_creps_inv [where P = "start_inv a n" and f = "start_iocr a"] start_iocr_inv assms(2,3) by blast
  with p(2) have inv: "start_inv a n (ok, stat', n1)" using try_start_inv assms(2,3) by blast
  have "cm_effect a n1 n' [] ((modes_of (the_ar a n1))\<lparr>m_su := PF_CMSU_STATE_STARTUP\<rparr>)" if "a < length (ars n1)"
    unfolding p(4) pf_cmsm_activate_def using that
    by (cases ok) (simp_all add: upd_ar_upd_ar, (intro effect_updI, simp_all add: modes_of_ios)+)
  then show ?thesis
    using inv assms(2) p(3) cm_effect_length cm_effect_modes
    unfolding start_inv_def by (cases ok) (auto dest: cm_effect_length cm_effect_modes intro: cm_effect_then)
qed

subsection \<open>The states that belong together\<close>

datatype phase = Closed | Starting | Parameterized | Ready | Exchanging

definition life :: "phase \<Rightarrow> cm_event \<Rightarrow> phase option" where
  "life ph ev = (case (ph, ev) of
     (_, PNET_EVENT_ABORT) \<Rightarrow> Some Closed
   | (Closed, PNET_EVENT_STARTUP) \<Rightarrow> Some Starting
   | (Starting, PNET_EVENT_PRMEND) \<Rightarrow> Some Parameterized
   | (Parameterized, PNET_EVENT_APPLRDY) \<Rightarrow> Some Ready
   | (Ready, PNET_EVENT_APPLRDY) \<Rightarrow> Some Ready
   | (Ready, PNET_EVENT_DATA) \<Rightarrow> Some Exchanging
   | _ \<Rightarrow> None)"

fun lives :: "phase \<Rightarrow> cm_event list \<Rightarrow> phase option" where
  "lives ph [] = Some ph"
| "lives ph (ev # evs) = Option.bind (life ph ev) (\<lambda>ph. lives ph evs)"

lemma lives_append: "lives ph (evs @ evs') = Option.bind (lives ph evs) (\<lambda>ph. lives ph evs')"
  by (induction evs arbitrary: ph) (auto split: Option.bind_splits)

definition machines :: "modes \<Rightarrow> cmsu_state \<times> cmio_state \<times> cmwrr_state \<times> cmsm_state \<times> cmpbe_state" where
  "machines m = (m_su m, m_io m, m_wrr m, m_sm m, m_pbe m)"

definition agrees :: "phase \<Rightarrow> modes \<Rightarrow> bool" where
  "agrees ph m \<longleftrightarrow>
     (if \<not> m_use m
      then ph = Closed \<and> snd (machines m) = (PF_CMIO_STATE_IDLE, PF_CMWRR_STATE_IDLE, PF_CMSM_STATE_IDLE, PF_CMPBE_STATE_IDLE) \<and>
        \<not> m_alarm m
      else m_stored m = 0 \<and> (case m_dev m of
        PF_CMDEV_STATE_W_CIND \<Rightarrow> ph = Closed \<and> \<not> m_alarm m \<and>
          machines m = (PF_CMSU_STATE_IDLE, PF_CMIO_STATE_IDLE, PF_CMWRR_STATE_IDLE, PF_CMSM_STATE_IDLE, PF_CMPBE_STATE_IDLE)
      | PF_CMDEV_STATE_W_PEIND \<Rightarrow> \<not> m_da m \<and> ph = Starting \<and> \<not> m_alarm m \<and>
          machines m = (PF_CMSU_STATE_STARTUP, PF_CMIO_STATE_STARTUP, PF_CMWRR_STATE_STARTUP, PF_CMSM_STATE_RUN, PF_CMPBE_STATE_IDLE)
      | PF_CMDEV_STATE_W_ARDY \<Rightarrow> \<not> m_da m \<and> \<not> m_alarm m \<and>
          (ph = Parameterized \<and>
             machines m = (PF_CMSU_STATE_STARTUP, PF_CMIO_STATE_WDATA, PF_CMWRR_STATE_PRMEND, PF_CMSM_STATE_RUN, PF_CMPBE_STATE_IDLE) \<or>
           ph = Ready \<and>
             machines m = (PF_CMSU_STATE_STARTUP, PF_CMIO_STATE_WDATA, PF_CMWRR_STATE_DATA, PF_CMSM_STATE_RUN, PF_CMPBE_STATE_IDLE))
      | PF_CMDEV_STATE_W_ARDYCNF \<Rightarrow> \<not> m_da m \<and> ph = Ready \<and> \<not> m_alarm m \<and>
          machines m = (PF_CMSU_STATE_STARTUP, PF_CMIO_STATE_WDATA, PF_CMWRR_STATE_DATA, PF_CMSM_STATE_RUN, PF_CMPBE_STATE_IDLE)
      | PF_CMDEV_STATE_WDATA \<Rightarrow> \<not> m_da m \<and> ph = Ready \<and> m_alarm m \<and>
          machines m = (PF_CMSU_STATE_STARTUP, PF_CMIO_STATE_WDATA, PF_CMWRR_STATE_DATA, PF_CMSM_STATE_RUN, PF_CMPBE_STATE_IDLE)
      | PF_CMDEV_STATE_DATA \<Rightarrow>
          if m_da m
          then ph = Starting \<and> \<not> m_alarm m \<and>
            machines m = (PF_CMSU_STATE_IDLE, PF_CMIO_STATE_STARTUP, PF_CMWRR_STATE_STARTUP, PF_CMSM_STATE_RUN, PF_CMPBE_STATE_IDLE)
          else ph = Exchanging \<and>
            (m_alarm m \<and>
               machines m = (PF_CMSU_STATE_STARTUP, PF_CMIO_STATE_DATA, PF_CMWRR_STATE_DATA, PF_CMSM_STATE_IDLE, PF_CMPBE_STATE_WFIND) \<or>
             \<not> m_alarm m \<and>
               machines m = (PF_CMSU_STATE_STARTUP, PF_CMIO_STATE_DATA, PF_CMWRR_STATE_DATA, PF_CMSM_STATE_IDLE, PF_CMPBE_STATE_WFRSP))
      | _ \<Rightarrow> False))"

text \<open>What an operation between two rest states does to an AR.\<close>

definition steps_ok :: "nat \<Rightarrow> cm_net \<Rightarrow> cm_net \<Rightarrow> bool" where
  "steps_ok a n n' \<longleftrightarrow> (\<exists>evs m. cm_effect a n n' evs m \<and>
     (\<forall>ph. agrees ph (modes_of (the_ar a n)) \<longrightarrow> (\<exists>ph'. lives ph evs = Some ph' \<and> agrees ph' m)))"

lemma steps_okI:
  "cm_effect a n n' evs m \<Longrightarrow>
   (\<And>ph. agrees ph (modes_of (the_ar a n)) \<Longrightarrow> \<exists>ph'. lives ph evs = Some ph' \<and> agrees ph' m) \<Longrightarrow> steps_ok a n n'"
  by (auto simp: steps_ok_def)

lemma steps_ok_same: "cm_effect a n n' [] (modes_of (the_ar a n)) \<Longrightarrow> steps_ok a n n'"
  by (rule steps_okI [where evs = "[]"]) simp_all

lemma steps_ok_refl [simp]: "steps_ok a n n"
  by (rule steps_ok_same [OF cm_effect_refl])

lemma agrees_no_modes [simp]: "agrees Closed no_modes"
  by (simp add: agrees_def no_modes_def zero_ar_def modes_of_def machines_def)

lemma life_abort [simp]: "life ph PNET_EVENT_ABORT = Some Closed"
  by (cases ph) (simp_all add: life_def)

lemma steps_ok_abort: "cm_effect a n n' [PNET_EVENT_ABORT] no_modes \<Longrightarrow> steps_ok a n n'"
  by (rule steps_okI [where evs = "[PNET_EVENT_ABORT]" and m = no_modes]) simp_all

lemma steps_ok_trans:
  assumes "steps_ok a n n1" "steps_ok a n1 n2"
  shows "steps_ok a n n2"
proof -
  obtain evs m evs' m' where e: "cm_effect a n n1 evs m" "cm_effect a n1 n2 evs' m'"
    "\<And>ph. agrees ph (modes_of (the_ar a n)) \<Longrightarrow> \<exists>ph'. lives ph evs = Some ph' \<and> agrees ph' m"
    "\<And>ph. agrees ph (modes_of (the_ar a n1)) \<Longrightarrow> \<exists>ph'. lives ph evs' = Some ph' \<and> agrees ph' m'"
    using assms by (auto simp: steps_ok_def)
  from e(1) have "modes_of (the_ar a n1) = m" by (rule cm_effect_modes)
  then show ?thesis
    using e(3,4) by (intro steps_okI [OF cm_effect_trans [OF e(1,2)]]) (fastforce simp: lives_append)
qed

end
