(* ===== verification/Cm_Handlers.thy ===== *)
theory Cm_Handlers
  imports Cm_Agreement
begin

section \<open>Every handler keeps the agreement\<close>

text \<open>
  One lemma per handler of the context management: started in a rest state of its AR, it ends in
  one, and what it tells the application continues the life cycle. The indications that abort an
  AR first, then CMDEV from connect to release, then the AR table.
\<close>

subsection \<open>Steps inside a handler\<close>

lemma effect_set_state:
  assumes "pf_cmdev_set_state a st n = Some n'" "st \<noteq> PF_CMDEV_STATE_ABORT" "a < length (ars n)"
  shows "cm_effect a n n' [] ((modes_of (the_ar a n))\<lparr>m_dev := st\<rparr>)"
proof -
  have n': "n' = upd_ar a (ar_cmdev_update (\<lambda>_. st)) n" using assms(1,2) by (simp add: pf_cmdev_set_state_def)
  show ?thesis unfolding n' using assms(3) by (intro effect_updI) (simp_all add: modes_of_ios)
qed

lemma effect_set_abort:
  assumes "pf_cmdev_set_state a PF_CMDEV_STATE_ABORT n = Some n'" "a < length (ars n)" "ar_in_use (the_ar a n)"
  shows "cm_effect a n n' [PNET_EVENT_ABORT] no_modes"
proof -
  let ?n = "upd_ar a (ar_cmdev_update (\<lambda>_. PF_CMDEV_STATE_ABORT)) n"
  have "cmdev_abort a ?n = Some n'" using assms(1) by (simp add: pf_cmdev_set_state_def state_ind_abort)
  moreover have "cm_effect a n ?n [] (modes_of (the_ar a ?n))" using assms(2) by (intro effect_updI) simp_all
  ultimately show ?thesis using effect_abort(1) [of a ?n n'] assms(2,3) by (auto intro: cm_effect_trans0)
qed

text \<open>Data of an AR that is no state, and outputs that are no state indication.\<close>

lemma effect_data:
  assumes "a < length (ars n)" "\<And>r. ar_in_use (f r) = ar_in_use r" "\<And>r. arep (f r) = arep r"
    "\<And>r. modes_of (f r) = modes_of r"
  shows "cm_effect a n (upd_ar a f n) [] (modes_of (the_ar a n))"
  using effect_updI [of a n f] assms by simp

lemma effect_quiet: "(\<And>b. fspm_events b os = []) \<Longrightarrow> cm_effect a n (emit_outs os n) [] (modes_of (the_ar a n))"
  by (rule effect_emitI) simp_all

lemma after_data:
  assumes "cm_effect a n n1 [] (modes_of (the_ar a n))" "a < length (ars n)"
  shows "a < length (ars n1)" "modes_of (the_ar a n1) = modes_of (the_ar a n)"
    "ar_in_use (the_ar a n1) = ar_in_use (the_ar a n)"
  using cm_effect_length [OF assms(1)] cm_effect_modes [OF assms(1)] assms(2) modes_simps(1) [of "the_ar a n1"]
  by simp_all

lemma steps_ok_data: "cm_effect a n n1 [] (modes_of (the_ar a n)) \<Longrightarrow> steps_ok a n1 n2 \<Longrightarrow> steps_ok a n n2"
  using steps_ok_same steps_ok_trans by blast

lemma effect_event_abort:
  "pf_cmdev_state_ind a PNET_EVENT_ABORT n = Some n' \<Longrightarrow> a < length (ars n) \<Longrightarrow> ar_in_use (the_ar a n) \<Longrightarrow>
   cm_effect a n n' [PNET_EVENT_ABORT] no_modes"
  using effect_abort(1) by (simp add: state_ind_abort)

lemma event_abort_ok:
  "pf_cmdev_state_ind a PNET_EVENT_ABORT n = Some n' \<Longrightarrow> a < length (ars n) \<Longrightarrow> ar_in_use (the_ar a n) \<Longrightarrow>
   steps_ok a n n'"
  by (rule steps_ok_abort, rule effect_event_abort)

text \<open>An operation that ends in an ABORT.\<close>

lemma quiet_then_abort:
  assumes "cm_effect a n n1 [] m" "m_use m" "pf_cmdev_state_ind a PNET_EVENT_ABORT n1 = Some n'" "a < length (ars n)"
  shows "steps_ok a n n'"
  using steps_ok_abort [OF cm_effect_trans0 [OF assms(1) effect_event_abort [OF assms(3)]]]
    cm_effect_length [OF assms(1)] cm_effect_modes [OF assms(1)] assms(2,4) by auto

subsection \<open>Errors, aborts and timers\<close>

lemma error_ind_ok:
  "pf_cmsu_cpm_error_ind a cls code n = Some n' \<or> pf_cmsu_ppm_error_ind a cls code n = Some n' \<or>
   pf_cmsu_alarm_error_ind a cls code n = Some n' \<or> pf_cmsu_cmdmc_error_ind a cls code n = Some n' \<Longrightarrow>
   a < length (ars n) \<Longrightarrow> ar_in_use (the_ar a n) \<Longrightarrow> steps_ok a n n'"
  by (rule steps_ok_abort, rule effect_error_ind(1))

lemma cm_abort_ok:
  "pf_cmdev_cm_abort a n = Some (ret, n') \<Longrightarrow> a < length (ars n) \<Longrightarrow> ar_in_use (the_ar a n) \<Longrightarrow> steps_ok a n n'"
  by (auto simp: pf_cmdev_cm_abort_def split: if_splits Option.bind_splits cmdev_state.splits
      intro: steps_ok_abort effect_set_abort)

lemma cmsm_restart_ok: "cmsm_restart a n = Some n' \<Longrightarrow> a < length (ars n) \<Longrightarrow> steps_ok a n n'"
  by (rule steps_ok_same, rule effect_cmsm_restart)

lemma cmsm_reads_ok:
  "pf_cmsm_rm_read_ind a index n = Some (ret, n') \<or> pf_cmsm_cm_read_ind a n = Some (ret, n') \<or>
   pf_cmsm_cm_write_ind a n = Some (ret, n') \<Longrightarrow> a < length (ars n) \<Longrightarrow> steps_ok a n n'"
  by (auto simp: pf_cmsm_rm_read_ind_def pf_cmsm_cm_read_ind_def pf_cmsm_cm_write_ind_def
      split: if_splits Option.bind_splits cmsm_state.splits intro: cmsm_restart_ok)

text \<open>The startup time is over. The timer of a freed AR finds its CMSM in IDLE.\<close>

lemma effect_cmsm_timeout:
  assumes "pf_cmsm_timeout a n = Some n'" "a < length (ars n)" "ar_cmsm (the_ar a n) = PF_CMSM_STATE_RUN" "ar_in_use (the_ar a n)"
  shows "cm_effect a n n' [PNET_EVENT_ABORT] no_modes"
proof -
  let ?n = "upd_ar a (\<lambda>r. r\<lparr>cmsm_timeout := pf_scheduler_reset_handle (cmsm_timeout r)\<rparr>) n"
  let ?n1 = "upd_ar a (\<lambda>r. r\<lparr>err_cls := PNET_ERROR_CODE_1_RTA_ERR_CLS_PROTOCOL,
         err_code := PNET_ERROR_CODE_2_ABORT_AR_CMI_TIMEOUT\<rparr>) ?n"
  obtain n2 where n2: "pf_cmdev_state_ind a PNET_EVENT_ABORT ?n1 = Some n2"
    "n' = upd_ar a (ar_cmsm_update (\<lambda>_. PF_CMSM_STATE_IDLE)) n2"
    using assms(1-3) by (auto simp: pf_cmsm_timeout_def Let_def split: Option.bind_splits)
  have e1: "cm_effect a n ?n1 [] (modes_of (the_ar a n))"
    unfolding upd_ar_upd_ar using assms(2) by (intro effect_data) (simp_all add: modes_of_def)
  have "cm_effect a ?n1 n2 [PNET_EVENT_ABORT] no_modes"
    using effect_event_abort [OF n2(1)] assms(2,4) by simp
  then have e2: "cm_effect a n n2 [PNET_EVENT_ABORT] no_modes" by (rule cm_effect_trans0 [OF e1])
  have "cm_effect a n2 n' [] no_modes"
    unfolding n2(2) using cm_effect_length [OF e2] cm_effect_modes [OF e2] assms(2)
    by (intro effect_updI) (simp_all add: modes_of_ios no_modes_def, simp add: modes_of_def zero_ar_def)
  then show ?thesis by (rule cm_effect_then [OF e2])
qed

lemma cmsm_timeout_ok:
  assumes "pf_cmsm_timeout a n = Some n'" "a < length (ars n)" "ar_cmsm (the_ar a n) = PF_CMSM_STATE_RUN \<Longrightarrow> ar_in_use (the_ar a n)"
  shows "steps_ok a n n'"
proof (cases "ar_cmsm (the_ar a n)")
  case PF_CMSM_STATE_IDLE
  have "cm_effect a n (upd_ar a (\<lambda>r. r\<lparr>cmsm_timeout := pf_scheduler_reset_handle (cmsm_timeout r)\<rparr>) n) [] (modes_of (the_ar a n))"
    using assms(2) by (intro effect_data) (simp_all add: modes_of_def)
  then show ?thesis using assms PF_CMSM_STATE_IDLE by (auto simp: pf_cmsm_timeout_def intro: steps_ok_same)
next
  case PF_CMSM_STATE_RUN
  then show ?thesis using effect_cmsm_timeout [OF assms(1,2)] assms(3) by (intro steps_ok_abort) simp
qed

subsection \<open>CMIO\<close>

lemmas agree_simps = agrees_def machines_def ev_modes_def cmio_next_def cmwrr_next_def cmsm_next_def cmpbe_next_def life_def

text \<open>CMDEV goes to DATA, from the confirmation or from the timer of CMIO.\<close>

lemma effect_go_data:
  assumes "pf_cmdev_state_ind a PNET_EVENT_DATA n = Some n1" "pf_cmdev_set_state a PF_CMDEV_STATE_DATA n1 = Some n'"
    "a < length (ars n)"
  shows "cm_effect a n n' [PNET_EVENT_DATA] ((ev_modes PNET_EVENT_DATA (modes_of (the_ar a n)))\<lparr>m_dev := PF_CMDEV_STATE_DATA\<rparr>)"
proof -
  have e1: "cm_effect a n n1 [PNET_EVENT_DATA] (ev_modes PNET_EVENT_DATA (modes_of (the_ar a n)))"
    using effect_event [OF assms(1,3)] by simp
  show ?thesis
    using cm_effect_then [OF e1 effect_set_state [OF assms(2)]] cm_effect_length [OF e1] cm_effect_modes [OF e1] assms(3)
    by simp
qed

lemma cmio_info_ok:
  assumes "pf_cmdev_cmio_info_ind a possible n = Some n'" "a < length (ars n)" "ar_in_use (the_ar a n)"
  shows "steps_ok a n n'"
proof -
  let ?n = "upd_ar a (ready_4_data_update (\<lambda>_. possible)) n"
  have e: "cm_effect a n ?n [] (modes_of (the_ar a n))" using assms(2) by (intro effect_data) (simp_all add: modes_of_def)
  consider "n' = n" | "n' = ?n" | n1 where "ar_cmdev (the_ar a n) = PF_CMDEV_STATE_WDATA"
    "pf_cmdev_state_ind a PNET_EVENT_DATA ?n = Some n1" "pf_cmdev_set_state a PF_CMDEV_STATE_DATA n1 = Some n'"
    using assms(1) by (auto simp: pf_cmdev_cmio_info_ind_def Let_def split: cmdev_state.splits if_splits Option.bind_splits)
  then show ?thesis
  proof cases
    case 3
    from effect_go_data [OF 3(2,3)] have e1: "cm_effect a ?n n' [PNET_EVENT_DATA]
        ((ev_modes PNET_EVENT_DATA (modes_of (the_ar a n)))\<lparr>m_dev := PF_CMDEV_STATE_DATA\<rparr>)"
      using assms(2) by (simp add: modes_of_ios)
    show ?thesis
      by (rule steps_okI [OF cm_effect_trans0 [OF e e1]])
        (use 3(1) assms(3) in \<open>auto simp: agree_simps\<close>)
  qed (use e in \<open>auto intro: steps_ok_same\<close>)
qed

lemma cmio_timer_ok:
  assumes "pf_cmio_timer_expired a n = Some n'" "a < length (ars n)"
    "ar_cmio (the_ar a n) = PF_CMIO_STATE_WDATA \<Longrightarrow> ar_in_use (the_ar a n)"
  shows "steps_ok a n n'"
proof (cases "ar_cmio (the_ar a n) = PF_CMIO_STATE_WDATA \<and> cmio_timer_should_reschedule (the_ar a n)")
  case True
  then obtain n1 where n1: "pf_cmdev_cmio_info_ind a (data_possible (the_ar a n)) n = Some n1" "cmio_add a n1 = Some n'"
    using assms(1) by (auto simp: pf_cmio_timer_expired_def split: Option.bind_splits)
  have s1: "steps_ok a n n1" using cmio_info_ok [OF n1(1)] assms True by simp
  then have "a < length (ars n1)" using assms(2) by (auto simp: steps_ok_def dest: cm_effect_length)
  then show ?thesis using steps_ok_trans [OF s1 steps_ok_same [OF effect_cmio_add [OF n1(2)]]] by blast
next
  case False
  then have "n' = upd_ar a (\<lambda>r. r\<lparr>cmio_timer_should_reschedule := False,
        cmio_timeout := pf_scheduler_reset_handle (cmio_timeout r)\<rparr>) n"
    using assms(1) by (auto simp: pf_cmio_timer_expired_def)
  then show ?thesis using assms(2) by (auto simp: modes_of_def intro!: steps_ok_same effect_data)
qed

lemma set_cmio_start_modes [simp]: "modes_of (set_cmio_start c b r) = modes_of r"
  "ar_in_use (set_cmio_start c b r) = ar_in_use r" "arep (set_cmio_start c b r) = arep r"
  by (simp_all add: set_cmio_start_def modes_of_def)

lemma cmio_start_ok: "a < length (ars n) \<Longrightarrow> steps_ok a n (upd_ar a (set_cmio_start c b) n)"
  by (intro steps_ok_same effect_data) simp_all

lemma cpm_state_ok:
  assumes "pf_cmio_cpm_state_ind a crep start n = Some (ret, n')" "a < length (ars n)" "ar_in_use (the_ar a n)"
  shows "steps_ok a n n'"
  using assms unfolding pf_cmio_cpm_state_ind_def
  by (auto split: cmio_state.splits if_splits Option.bind_splits
      dest: event_abort_ok intro: cmio_start_ok)

lemma cpm_new_data_ok:
  assumes "pf_cmio_cpm_new_data_ind a crep new n = (ret, n')" "a < length (ars n)"
  shows "steps_ok a n n'"
  using assms unfolding pf_cmio_cpm_new_data_ind_def
  by (auto split: cmio_state.splits if_splits intro: cmio_start_ok)

subsection \<open>Control\<close>

text \<open>In a rest state CMPBE is in IDLE, WFIND or WFRSP, and no command is stored.\<close>

lemma cmpbe_dcontrol_effect:
  assumes "pf_cmpbe_rm_dcontrol_ind app a command n = Some (ret, n')" "a < length (ars n)" "ar_in_use (the_ar a n)"
    "agrees ph (modes_of (the_ar a n))" "ar_cmdev (the_ar a n) = PF_CMDEV_STATE_DATA" "\<not> ar_device_access (the_ar a n)"
  shows "cm_effect a n n' [] (modes_of (the_ar a n)) \<or> cm_effect a n n' []
    ((modes_of (the_ar a n))\<lparr>m_pbe := PF_CMPBE_STATE_WFRSP, m_alarm := False\<rparr>)"
proof -
  have "ar_cmpbe (the_ar a n) = PF_CMPBE_STATE_WFIND \<and> cmpbe_stored_command (the_ar a n) = 0 \<or>
      ar_cmpbe (the_ar a n) = PF_CMPBE_STATE_WFRSP"
    using assms(3-6) by (auto simp: agrees_def machines_def)
  then consider "n' = n" | "n' = upd_ar a (ar_cmpbe_update (\<lambda>_. PF_CMPBE_STATE_WFRSP)) (emit_outs [Fspm_dcontrol_ind a PNET_CONTROL_COMMAND_PRM_BEGIN]
      (upd_ar a (alarm_enable_update (\<lambda>_. False)) n))"
    using assms(1) by (auto simp: pf_cmpbe_rm_dcontrol_ind_def Let_def split: if_splits)
  then show ?thesis
  proof cases
    case 2
    let ?n1 = "upd_ar a (alarm_enable_update (\<lambda>_. False)) n"
    let ?n2 = "emit_outs [Fspm_dcontrol_ind a PNET_CONTROL_COMMAND_PRM_BEGIN] ?n1"
    have e1: "cm_effect a n ?n1 [] ((modes_of (the_ar a n))\<lparr>m_alarm := False\<rparr>)"
      using assms(2) by (intro effect_updI) (simp_all add: modes_of_ios)
    have e2: "cm_effect a n ?n2 [] ((modes_of (the_ar a n))\<lparr>m_alarm := False\<rparr>)"
      using cm_effect_trans0 [OF e1 effect_quiet [of _ a ?n1]] cm_effect_modes [OF e1] by simp
    have "cm_effect a ?n2 n' [] ((modes_of (the_ar a n))\<lparr>m_pbe := PF_CMPBE_STATE_WFRSP, m_alarm := False\<rparr>)"
      unfolding 2 using assms(2) by (intro effect_updI) (simp_all add: modes_of_ios)
    then show ?thesis using cm_effect_trans0 [OF e2] by blast
  qed (simp add: cm_effect_refl)
qed

lemma quiet_set_state:
  assumes "cm_effect a n n1 [] m" "pf_cmdev_set_state a st n1 = Some n'" "st \<noteq> PF_CMDEV_STATE_ABORT" "a < length (ars n)"
  shows "cm_effect a n n' [] (m\<lparr>m_dev := st\<rparr>)"
  using cm_effect_trans0 [OF assms(1) effect_set_state [OF assms(2,3)]] cm_effect_length [OF assms(1)]
    cm_effect_modes [OF assms(1)] assms(4) by simp

lemma quiet_emit: "cm_effect a n n1 [] m \<Longrightarrow> (\<And>b. fspm_events b os = []) \<Longrightarrow> cm_effect a n (emit_outs os n1) [] m"
  using cm_effect_trans0 [OF _ effect_quiet] cm_effect_modes by blast

lemma effect_W_PEIND:
  assumes "a < length (ars n)" "pf_cmdev_set_state a PF_CMDEV_STATE_W_PERES n = Some n1"
  shows "cm_effect a n (emit_outs [Fspm_dcontrol_ind a c] n1) [] ((modes_of (the_ar a n))\<lparr>m_dev := PF_CMDEV_STATE_W_PERES\<rparr>)"
  using quiet_emit [OF effect_set_state [OF assms(2) _ assms(1)]] by simp

lemma agrees_prm_begin:
  "m_use m \<Longrightarrow> \<not> m_da m \<Longrightarrow> m_dev m = PF_CMDEV_STATE_DATA \<Longrightarrow> agrees ph m \<Longrightarrow>
   agrees ph (m\<lparr>m_pbe := PF_CMPBE_STATE_WFRSP, m_alarm := False\<rparr>)"
  by (auto simp: agrees_def machines_def)

lemma dcontrol_ok:
  assumes "dcontrol_request app pdev a command n = Some (ret, n')" "a < length (ars n)" "ar_in_use (the_ar a n)"
    "agrees ph0 (modes_of (the_ar a n))"
  shows "steps_ok a n n'"
proof -
  obtain prmend n0 where ind: "pf_cmdev_rm_dcontrol_ind app pdev a command n = Some (ret, prmend, n0)"
    and rest: "(if prmend then pf_cmdev_state_ind a PNET_EVENT_PRMEND n0 else Some n0) = Some n'"
    using assms(1) by (auto simp: dcontrol_request_def split: Option.bind_splits if_splits)
  let ?m = "modes_of (the_ar a n)"
  show ?thesis
  proof (cases "ar_cmdev (the_ar a n) = PF_CMDEV_STATE_W_PEIND \<and> \<not> ar_device_access (the_ar a n) \<and>
      command = BIT PF_CONTROL_COMMAND_BIT_PRM_END \<and> app PNET_CONTROL_COMMAND_PRM_END = 0 \<and> pdev")
    case True
    then obtain n1 where n1: "pf_cmdev_set_state a PF_CMDEV_STATE_W_PERES n = Some n1"
      "pf_cmdev_set_state a PF_CMDEV_STATE_W_ARDY (emit_outs [Fspm_dcontrol_ind a PNET_CONTROL_COMMAND_PRM_END] n1) = Some n0"
      "prmend"
      using ind by (auto simp: pf_cmdev_rm_dcontrol_ind_def Let_def split: Option.bind_splits if_splits)
    have e: "cm_effect a n n0 [] (?m\<lparr>m_dev := PF_CMDEV_STATE_W_ARDY\<rparr>)"
      using quiet_set_state [OF effect_W_PEIND [OF assms(2) n1(1)] n1(2)] assms(2) by simp
    have use: "a < length (ars n0)" "ar_in_use (the_ar a n0)"
      using cm_effect_length [OF e] cm_effect_modes [OF e] modes_simps(1) [of "the_ar a n0"] assms(2,3) by simp_all
    have "pf_cmdev_state_ind a PNET_EVENT_PRMEND n0 = Some n'" using rest n1(3) by simp
    from effect_prmend [OF this use] show ?thesis
    proof
      assume "cm_effect a n0 n' [PNET_EVENT_PRMEND] (ev_modes PNET_EVENT_PRMEND (modes_of (the_ar a n0)))"
      from cm_effect_trans0 [OF e this] show ?thesis
        by (rule steps_okI) (use True assms(3) cm_effect_modes [OF e] in \<open>auto simp: agree_simps\<close>)
    next
      assume "cm_effect a n0 n' [PNET_EVENT_PRMEND, PNET_EVENT_ABORT] no_modes"
      from cm_effect_trans0 [OF e this] show ?thesis
        by (rule steps_okI) (use True assms(3) in \<open>auto simp: agrees_def machines_def life_def no_modes_def zero_ar_def modes_of_def\<close>)
    qed
  next
    case False
    consider (same) "n0 = n" "\<not> prmend" | (abort) "pf_cmdev_state_ind a PNET_EVENT_ABORT n = Some n0" "\<not> prmend"
      | (peind) n1 where "pf_cmdev_set_state a PF_CMDEV_STATE_W_PERES n = Some n1" "\<not> prmend"
        "pf_cmdev_state_ind a PNET_EVENT_ABORT (emit_outs [Fspm_dcontrol_ind a PNET_CONTROL_COMMAND_PRM_END] n1) = Some n0"
      | (pdev) n1 n2 where "pf_cmdev_set_state a PF_CMDEV_STATE_W_PERES n = Some n1" "\<not> prmend"
        "pf_cmdev_set_state a PF_CMDEV_STATE_W_ARDY (emit_outs [Fspm_dcontrol_ind a PNET_CONTROL_COMMAND_PRM_END] n1) = Some n2"
        "pf_cmdev_state_ind a PNET_EVENT_ABORT (upd_ar a (\<lambda>r. r\<lparr>err_cls := PNET_ERROR_CODE_1_RTA_ERR_CLS_PROTOCOL,
            err_code := PNET_ERROR_CODE_2_ABORT_PDEV_CHECK_FAILED\<rparr>) n2) = Some n0"
      | (data) r n1 where "\<not> ar_device_access (the_ar a n)" "ar_cmdev (the_ar a n) = PF_CMDEV_STATE_DATA" "\<not> prmend"
        "pf_cmpbe_rm_dcontrol_ind app a command n = Some (r, n1)"
        "n0 = n1 \<or> pf_cmdev_state_ind a PNET_EVENT_ABORT n1 = Some n0"
      using ind False
      by (cases "ar_device_access (the_ar a n)"; cases "ar_cmdev (the_ar a n)")
        (auto simp: pf_cmdev_rm_dcontrol_ind_def Let_def split: Option.bind_splits if_splits)
    then show ?thesis
    proof cases
      case peind
      show ?thesis
        using quiet_then_abort [OF effect_W_PEIND [OF assms(2) peind(1)] _ peind(3)] rest peind(2) assms(2,3) by simp
    next
      case pdev
      have e: "cm_effect a n n2 [] (?m\<lparr>m_dev := PF_CMDEV_STATE_W_ARDY\<rparr>)"
        using quiet_set_state [OF effect_W_PEIND [OF assms(2) pdev(1)] pdev(3)] assms(2) by simp
      have len: "a < length (ars n2)" using cm_effect_length [OF e] assms(2) by simp
      have "cm_effect a n (upd_ar a (\<lambda>r. r\<lparr>err_cls := PNET_ERROR_CODE_1_RTA_ERR_CLS_PROTOCOL,
            err_code := PNET_ERROR_CODE_2_ABORT_PDEV_CHECK_FAILED\<rparr>) n2) [] (?m\<lparr>m_dev := PF_CMDEV_STATE_W_ARDY\<rparr>)"
        using cm_effect_trans0 [OF e effect_data [OF len]] cm_effect_modes [OF e] by (simp add: modes_of_ios)
      then show ?thesis using quiet_then_abort [OF _ _ pdev(4)] rest pdev(2) assms(2,3) by simp
    next
      case data
      have "cm_effect a n n1 [] ?m \<or> cm_effect a n n1 [] (?m\<lparr>m_pbe := PF_CMPBE_STATE_WFRSP, m_alarm := False\<rparr>)"
        using cmpbe_dcontrol_effect [OF data(4) assms(2-4) data(2,1)] .
      then obtain m where e: "cm_effect a n n1 [] m" "m_use m" "agrees ph (modes_of (the_ar a n)) \<Longrightarrow> agrees ph m" for ph
        using assms(3) data(1,2) agrees_prm_begin [of ?m]
        by (elim disjE that [of ?m] that [of "?m\<lparr>m_pbe := PF_CMPBE_STATE_WFRSP, m_alarm := False\<rparr>"]) simp_all
      show ?thesis
      proof (cases "n0 = n1")
        case True
        have "steps_ok a n n1" by (rule steps_okI [OF e(1)]) (use e(3) in auto)
        then show ?thesis using True rest data(3) by simp
      next
        case F: False
        then show ?thesis using quiet_then_abort [OF e(1,2) _ assms(2)] data(3,5) rest by simp
      qed
    qed (use rest assms(2,3) event_abort_ok in auto)
  qed
qed

lemma ccontrol_cnf_ok:
  assumes "pf_cmrpc_rm_ccontrol_cnf a command stat n = Some (ret, n')" "a < length (ars n)" "ar_in_use (the_ar a n)"
    "agrees ph0 (modes_of (the_ar a n))"
  shows "steps_ok a n n'"
proof -
  let ?m = "modes_of (the_ar a n)" and ?quiet = "emit_outs [Log_book_entry a, Fspm_ccontrol_cnf a] n"
  let ?n1 = "upd_ar a (alarm_enable_update (\<lambda>_. True)) n"
  have e1: "cm_effect a n ?n1 [] (?m\<lparr>m_alarm := True\<rparr>)"
    using assms(2) by (intro effect_updI) (simp_all add: modes_of_ios)
  have cnf: "pf_cmpbe_rm_ccontrol_cnf a c n2 = (0, n2)" if "ar_cmpbe (the_ar a n2) \<noteq> PF_CMPBE_STATE_WFCNF" for c n2
    using that by (simp add: pf_cmpbe_rm_ccontrol_cnf_def)
  consider (same) "n' = n" | (abort) "pf_cmdev_set_state a PF_CMDEV_STATE_ABORT ?quiet = Some n'"
    | (data) n2 n3 where "ar_cmdev (the_ar a n) = PF_CMDEV_STATE_W_ARDYCNF"
      "pf_cmdev_state_ind a PNET_EVENT_DATA ?n1 = Some n2" "pf_cmdev_set_state a PF_CMDEV_STATE_DATA n2 = Some n3"
      "n' = snd (pf_cmpbe_rm_ccontrol_cnf a command (emit_outs [Fspm_ccontrol_cnf a] n3))"
    | (wdata) n3 where "ar_cmdev (the_ar a n) = PF_CMDEV_STATE_W_ARDYCNF" "pf_cmdev_set_state a PF_CMDEV_STATE_WDATA ?n1 = Some n3"
      "n' = snd (pf_cmpbe_rm_ccontrol_cnf a command (emit_outs [Fspm_ccontrol_cnf a] n3))"
    using assms(1) by (auto simp: pf_cmrpc_rm_ccontrol_cnf_def pf_cmdev_rm_ccontrol_cnf_def Let_def
        split: if_splits Option.bind_splits)
  then show ?thesis
  proof cases
    case abort
    have "cm_effect a n ?quiet [] ?m" by (rule effect_quiet) simp
    then show ?thesis
      using effect_set_abort [OF abort] assms(2,3) steps_ok_abort steps_ok_data by simp
  next
    case data
    let ?m' = "(ev_modes PNET_EVENT_DATA (?m\<lparr>m_alarm := True\<rparr>))\<lparr>m_dev := PF_CMDEV_STATE_DATA\<rparr>"
    have "cm_effect a ?n1 n3 [PNET_EVENT_DATA] ?m'"
      using effect_go_data [OF data(2,3)] assms(2) by (simp add: modes_of_ios)
    from cm_effect_trans0 [OF e1 this] have e3: "cm_effect a n n3 [PNET_EVENT_DATA] ?m'" .
    then have "cm_effect a n (emit_outs [Fspm_ccontrol_cnf a] n3) [PNET_EVENT_DATA] ?m'"
      using cm_effect_then [OF e3 effect_quiet [of "[Fspm_ccontrol_cnf a]" a n3]] cm_effect_modes [OF e3] by simp
    moreover have pbe: "ar_cmpbe (the_ar a n3) \<noteq> PF_CMPBE_STATE_WFCNF"
      using cm_effect_modes [OF e3] modes_simps(8) [of "the_ar a n3"] assms(3,4) data(1) by (auto simp: agree_simps)
    ultimately have "cm_effect a n n' [PNET_EVENT_DATA] ?m'" using data(4) cnf by simp
    then show ?thesis by (rule steps_okI) (use data(1) assms(3) in \<open>auto simp: agree_simps\<close>)
  next
    case wdata
    let ?m' = "?m\<lparr>m_alarm := True, m_dev := PF_CMDEV_STATE_WDATA\<rparr>"
    have e3: "cm_effect a n n3 [] ?m'" using quiet_set_state [OF e1 wdata(2) _ assms(2)] by simp
    then have "cm_effect a n (emit_outs [Fspm_ccontrol_cnf a] n3) [] ?m'"
      using quiet_emit [of a n n3 ?m' "[Fspm_ccontrol_cnf a]"] by simp
    moreover have pbe: "ar_cmpbe (the_ar a n3) \<noteq> PF_CMPBE_STATE_WFCNF"
      using cm_effect_modes [OF e3] modes_simps(8) [of "the_ar a n3"] assms(3,4) wdata(1) by (auto simp: agree_simps)
    ultimately have "cm_effect a n n' [] ?m'" using wdata(3) cnf by simp
    then show ?thesis by (rule steps_okI) (use wdata(1) assms(3) in \<open>auto simp: agree_simps\<close>)
  qed simp
qed

text \<open>The application declares that it is ready.\<close>

lemma ccontrol_req_ok:
  assumes "pf_cmdev_cm_ccontrol_req owner sent a n = Some (ret, n')" "a < length (ars n)" "ar_in_use (the_ar a n)"
  shows "steps_ok a n n'"
proof -
  consider (same) "n' = n" | (abort) "pf_cmdev_state_ind a PNET_EVENT_ABORT n = Some n'"
    | (ready) n1 where "ar_cmdev (the_ar a n) = PF_CMDEV_STATE_W_ARDY" "pf_cmdev_state_ind a PNET_EVENT_APPLRDY n = Some n1"
      "n' = emit_outs [Ccontrol_req_apprdy a] n1 \<or>
       pf_cmdev_set_state a PF_CMDEV_STATE_W_ARDYCNF (emit_outs [Ccontrol_req_apprdy a] n1) = Some n'"
    using assms(1) by (auto simp: pf_cmdev_cm_ccontrol_req_def Let_def split: if_splits Option.bind_splits)
  then show ?thesis
  proof cases
    case ready
    let ?m = "ev_modes PNET_EVENT_APPLRDY (modes_of (the_ar a n))" and ?n = "emit_outs [Ccontrol_req_apprdy a] n1"
    have e1: "cm_effect a n n1 [PNET_EVENT_APPLRDY] ?m" using effect_event [OF ready(2) assms(2)] by simp
    have e2: "cm_effect a n ?n [PNET_EVENT_APPLRDY] ?m"
      using cm_effect_then [OF e1 effect_quiet [of "[Ccontrol_req_apprdy a]" a n1]] cm_effect_modes [OF e1] by simp
    from ready(3) show ?thesis
    proof
      assume "n' = ?n"
      then show ?thesis using e2 ready(1) assms(3) by (intro steps_okI [OF e2 [folded \<open>n' = ?n\<close>]]) (auto simp: agree_simps)
    next
      assume s: "pf_cmdev_set_state a PF_CMDEV_STATE_W_ARDYCNF ?n = Some n'"
      have "cm_effect a n n' [PNET_EVENT_APPLRDY] (?m\<lparr>m_dev := PF_CMDEV_STATE_W_ARDYCNF\<rparr>)"
        using cm_effect_then [OF e2 effect_set_state [OF s]] cm_effect_length [OF e2] cm_effect_modes [OF e2] assms(2) by simp
      then show ?thesis by (rule steps_okI) (use ready(1) assms(3) in \<open>auto simp: agree_simps\<close>)
    qed
  qed (use event_abort_ok assms(2,3) in auto)
qed

lemma release_ind_ok:
  assumes "pf_cmdev_rm_release_ind app a n = Some (ret, n')" "a < length (ars n)" "ar_in_use (the_ar a n)"
  shows "steps_ok a n n'"
proof -
  let ?m = "modes_of (the_ar a n)"
  let ?n1 = "upd_ar a (\<lambda>r. r\<lparr>err_cls := PNET_ERROR_CODE_1_RTA_ERR_CLS_PROTOCOL,
       err_code := PNET_ERROR_CODE_2_ABORT_AR_RELEASE_IND_RECEIVED\<rparr>) n"
  let ?n2 = "emit_outs [Fspm_release_ind a] ?n1"
  let ?n3 = "case app of None \<Rightarrow> ?n2 | Some c \<Rightarrow> upd_ar a (err_code_update (\<lambda>_. c)) ?n2"
  have e1: "cm_effect a n ?n1 [] ?m" using assms(2) by (intro effect_updI) (simp_all add: modes_of_ios)
  have e2: "cm_effect a n ?n2 [] ?m" by (rule quiet_emit [OF e1]) simp
  have e3: "cm_effect a n ?n3 [] ?m"
    using cm_effect_trans0 [OF e2 effect_data [of a ?n2]] cm_effect_modes [OF e2] assms(2) e2
    by (cases app) (simp_all add: modes_of_ios)
  consider "n' = n" | "pf_cmdev_state_ind a PNET_EVENT_ABORT ?n1 = Some n'" | "pf_cmdev_set_state a PF_CMDEV_STATE_ABORT ?n3 = Some n'"
    using assms(1) by (auto simp: pf_cmdev_rm_release_ind_def Let_def split: if_splits Option.bind_splits)
  then show ?thesis
  proof cases
    case 2
    show ?thesis by (rule quiet_then_abort [OF e1 _ 2 assms(2)]) (simp add: assms(3))
  next
    case 3
    have "steps_ok a ?n3 n'"
      using effect_set_abort [OF 3] after_data [OF e3 assms(2)] assms(3) by (intro steps_ok_abort) simp
    then show ?thesis by (rule steps_ok_data [OF e3])
  qed simp
qed

subsection \<open>Connect\<close>

lemma start_req_status:
  assumes "pf_cmsu_start_req a stat n = Some (0, stat', n')"
  shows "stat' = stat"
proof (cases "ar_cmsu (the_ar a n)")
  case PF_CMSU_STATE_IDLE
  let ?P = "\<lambda>(ok, st, m :: cm_net). ok \<longrightarrow> st = stat"
  obtain p n1 where p: "for_creps (start_iocr a) [0 ..< length (iocrs (the_ar a n))] (True, stat, n) = Some p"
    "try_start a Alarm_activate PNET_ERROR_CODE_2_CMSU_AR_ALARM_OPEN_FAILED p = Some (True, stat', n1)"
    using assms PF_CMSU_STATE_IDLE by (auto simp: pf_cmsu_start_req_def Let_def split: Option.bind_splits prod.splits if_splits)
  have keep: "?P y" if "try_start a c code x = Some y" "?P x" for a c code x y
    using that by (auto simp: try_start_def Let_def split: prod.splits if_splits call_result.splits Option.bind_splits)
  have keep_iocr: "?P y" if "start_iocr a c x = Some y" "?P x" for c x y
    using that keep by (auto simp: start_iocr_def Let_def split: if_splits Option.bind_splits)
  have "?P p"
    using for_creps_inv [where P = ?P and f = "start_iocr a", OF _ p(1)] keep_iocr by blast
  then show ?thesis using keep [OF p(2)] by simp
qed (use assms in \<open>simp_all add: pf_cmsu_start_req_def\<close>)

definition fresh :: "bool \<Rightarrow> modes" where
  "fresh da = no_modes\<lparr>m_use := True, m_da := da\<rparr>"

lemma fresh_simps [simp]:
  "m_use (fresh da)" "m_da (fresh da) = da" "m_dev (fresh da) = PF_CMDEV_STATE_POWER_ON" "m_su (fresh da) = PF_CMSU_STATE_IDLE"
  "m_io (fresh da) = PF_CMIO_STATE_IDLE" "m_wrr (fresh da) = PF_CMWRR_STATE_IDLE" "m_sm (fresh da) = PF_CMSM_STATE_IDLE"
  "m_pbe (fresh da) = PF_CMPBE_STATE_IDLE" "m_stored (fresh da) = 0" "\<not> m_alarm (fresh da)"
  by (simp_all add: fresh_def no_modes_def zero_ar_def)

lemma modes_fresh:
  assumes "modes_of r = fresh da"
  shows "ar_in_use r" "ar_device_access r = da" "ar_cmdev r = PF_CMDEV_STATE_POWER_ON" "ar_cmsu r = PF_CMSU_STATE_IDLE"
  using assms modes_simps(1-4) [of r] by simp_all

lemma rsp_pos_cases:
  assumes "pf_cmdev_cm_connect_rsp_pos a stat n = Some (ret, stat', n')" "a < length (ars n)"
    "modes_of (the_ar a n) = (fresh da)\<lparr>m_dev := PF_CMDEV_STATE_W_CRES\<rparr>"
  shows "(\<exists>m. cm_effect a n n' [PNET_EVENT_STARTUP] m \<and> agrees Starting m \<and> ret = 0 \<and> stat' = stat) \<or>
    ret \<noteq> 0 \<and> (\<exists>m. cm_effect a n n' [] m \<and> m_use m \<or> cm_effect a n n' [PNET_EVENT_ABORT] m \<and> agrees Closed m \<and> \<not> m_use m)"
proof -
  let ?m = "(fresh da)\<lparr>m_dev := PF_CMDEV_STATE_W_CRES\<rparr>"
  have r: "ar_in_use (the_ar a n)" "ar_device_access (the_ar a n) = da" "ar_cmdev (the_ar a n) = PF_CMDEV_STATE_W_CRES"
    "ar_cmsu (the_ar a n) = PF_CMSU_STATE_IDLE"
    using assms(3) modes_simps(1-4) [of "the_ar a n"] by simp_all
  show ?thesis
  proof (cases da)
    case True
    then obtain n1 where n1: "pf_cmdev_state_ind a PNET_EVENT_STARTUP n = Some n1"
      "pf_cmdev_set_state a PF_CMDEV_STATE_DATA n1 = Some n'" "ret = 0" "stat' = stat"
      using assms(1) r by (auto simp: pf_cmdev_cm_connect_rsp_pos_def split: Option.bind_splits)
    have e1: "cm_effect a n n1 [PNET_EVENT_STARTUP] (ev_modes PNET_EVENT_STARTUP ?m)"
      using effect_event [OF n1(1) assms(2)] assms(3) by simp
    have "cm_effect a n n' [PNET_EVENT_STARTUP] ((ev_modes PNET_EVENT_STARTUP ?m)\<lparr>m_dev := PF_CMDEV_STATE_DATA\<rparr>)"
      using cm_effect_then [OF e1 effect_set_state [OF n1(2)]] cm_effect_length [OF e1] cm_effect_modes [OF e1] assms(2) by simp
    moreover have "agrees Starting ((ev_modes PNET_EVENT_STARTUP ?m)\<lparr>m_dev := PF_CMDEV_STATE_DATA\<rparr>)"
      using True by (simp add: agree_simps)
    ultimately show ?thesis using n1(3,4) by blast
  next
    case False
    then obtain st1 n1 n2 where n1: "pf_cmsu_start_req a stat n = Some (ret, st1, n1)"
      "pf_cmdev_set_state a PF_CMDEV_STATE_W_SUCNF n1 = Some n2"
      "ret = 0 \<longrightarrow> stat' = st1 \<and> (\<exists>n3. pf_cmdev_state_ind a PNET_EVENT_STARTUP n2 = Some n3 \<and>
         pf_cmdev_set_state a PF_CMDEV_STATE_W_PEIND n3 = Some n')"
      "ret \<noteq> 0 \<longrightarrow> n' = emit_outs [Log_book_entry a] n2"
      using assms(1) r by (auto simp: pf_cmdev_cm_connect_rsp_pos_def split: Option.bind_splits if_splits prod.splits)
    consider (run) "cm_effect a n n1 [] (?m\<lparr>m_su := PF_CMSU_STATE_STARTUP\<rparr>)"
      | (dead) "ret \<noteq> 0" "cm_effect a n n1 [PNET_EVENT_ABORT] (no_modes\<lparr>m_su := PF_CMSU_STATE_STARTUP\<rparr>)"
      using effect_start_req [OF n1(1) assms(2) r(1,4)] assms(3) by auto
    then show ?thesis
    proof cases
      case run
      note e1 = run
      let ?m2 = "?m\<lparr>m_su := PF_CMSU_STATE_STARTUP, m_dev := PF_CMDEV_STATE_W_SUCNF\<rparr>"
      have e2: "cm_effect a n n2 [] ?m2" using quiet_set_state [OF e1 n1(2) _ assms(2)] by simp
      show ?thesis
      proof (cases "ret = 0")
        case True
        then obtain n3 where n3: "pf_cmdev_state_ind a PNET_EVENT_STARTUP n2 = Some n3"
          "pf_cmdev_set_state a PF_CMDEV_STATE_W_PEIND n3 = Some n'" "stat' = stat"
          using n1(1,3) start_req_status by auto
        have "cm_effect a n2 n3 [PNET_EVENT_STARTUP] (ev_modes PNET_EVENT_STARTUP ?m2)"
          using effect_event [OF n3(1)] cm_effect_length [OF e2] cm_effect_modes [OF e2] assms(2) by simp
        note e3 = cm_effect_trans0 [OF e2 this]
        have "cm_effect a n n' [PNET_EVENT_STARTUP] ((ev_modes PNET_EVENT_STARTUP ?m2)\<lparr>m_dev := PF_CMDEV_STATE_W_PEIND\<rparr>)"
          using cm_effect_then [OF e3 effect_set_state [OF n3(2)]] cm_effect_length [OF e3] cm_effect_modes [OF e3] assms(2)
          by simp
        moreover have "agrees Starting ((ev_modes PNET_EVENT_STARTUP ?m2)\<lparr>m_dev := PF_CMDEV_STATE_W_PEIND\<rparr>)"
          using False by (simp add: agree_simps)
        ultimately show ?thesis using True n3(3) by blast
      next
        case F: False
        then have "cm_effect a n n' [] ?m2" using quiet_emit [OF e2, of "[Log_book_entry a]"] n1(4) by simp
        then show ?thesis using F by - (rule disjI2, rule conjI, simp, rule exI [of _ ?m2], simp)
      qed
    next
      case dead
      let ?m2 = "no_modes\<lparr>m_su := PF_CMSU_STATE_STARTUP, m_dev := PF_CMDEV_STATE_W_SUCNF\<rparr>"
      have e2: "cm_effect a n n2 [PNET_EVENT_ABORT] ?m2"
        using cm_effect_then [OF dead(2) effect_set_state [OF n1(2)]] cm_effect_length [OF dead(2)]
          cm_effect_modes [OF dead(2)] assms(2) by simp
      have "cm_effect a n n' [PNET_EVENT_ABORT] ?m2"
        using cm_effect_then [OF e2 effect_quiet [of "[Log_book_entry a]" a n2]] cm_effect_modes [OF e2] n1(4) dead(1) by simp
      moreover have "agrees Closed ?m2" by (simp add: agrees_def machines_def no_modes_def zero_ar_def modes_of_def)
      ultimately show ?thesis using dead(1) by - (rule disjI2, rule conjI, simp, rule exI [of _ ?m2], simp)
    qed
  qed
qed

lemma rsp_neg_eq:
  assumes "pf_cmdev_cm_connect_rsp_neg a n = Some (ret, n')"
  shows "pf_cmdev_set_state a PF_CMDEV_STATE_W_CIND
      (if \<not> ar_device_access (the_ar a n) then emit_outs [Log_book_entry a] n else n) = Some n' \<and> ret = 0"
  using assms by (auto simp: pf_cmdev_cm_connect_rsp_neg_def Let_def split: Option.bind_splits)

lemma connect_ind_cases:
  assumes "pf_cmdev_rm_connect_ind checked app stat a n = Some (ret, stat', n')" "a < length (ars n)"
    "modes_of (the_ar a n) = fresh da"
  shows "(\<exists>m. cm_effect a n n' [] m \<and> m_use m \<and> agrees Closed m \<and> ret = 0 \<and> stat' = stat \<and> \<not> (checked \<and> app = 0)) \<or>
    (\<exists>m. cm_effect a n n' [PNET_EVENT_STARTUP] m \<and> agrees Starting m \<and> ret = 0 \<and> stat' = stat \<and> checked \<and> app = 0) \<or>
    ret \<noteq> 0 \<and> (\<exists>m. cm_effect a n n' [] m \<and> m_use m \<or> cm_effect a n n' [PNET_EVENT_ABORT] m \<and> agrees Closed m \<and> \<not> m_use m)"
proof -
  let ?n = "if checked then upd_ar a (ready_4_data_update (\<lambda>_. False)) n else n"
  have e: "cm_effect a n ?n [] (fresh da)"
    using effect_data [of a n "ready_4_data_update (\<lambda>_. False)"] assms(2,3) cm_effect_refl [of a n]
    by (simp add: modes_of_ios)
  have len: "a < length (ars ?n)" using assms(2) by simp
  show ?thesis
  proof (cases "checked \<and> app = 0")
    case True
    then obtain n1 where n1: "pf_cmdev_set_state a PF_CMDEV_STATE_W_CRES ?n = Some n1"
      "pf_cmdev_cm_connect_rsp_pos a stat n1 = Some (ret, stat', n')"
      using assms(1) by (auto simp: pf_cmdev_rm_connect_ind_def Let_def split: Option.bind_splits)
    have e1: "cm_effect a n n1 [] ((fresh da)\<lparr>m_dev := PF_CMDEV_STATE_W_CRES\<rparr>)"
      using quiet_set_state [OF e n1(1) _ assms(2)] by simp
    have "a < length (ars n1)" using cm_effect_length [OF e1] assms(2) by simp
    from rsp_pos_cases [OF n1(2) this cm_effect_modes [OF e1]] show ?thesis
      using True cm_effect_trans0 [OF e1] by blast
  next
    case False
    then obtain n1 where n1: "pf_cmdev_cm_connect_rsp_neg a ?n = Some (ret, n1)" "n' = n1" "stat' = stat"
      using assms(1) by (auto simp: pf_cmdev_rm_connect_ind_def Let_def split: Option.bind_splits)
    let ?n2 = "if \<not> ar_device_access (the_ar a ?n) then emit_outs [Log_book_entry a] ?n else ?n"
    have e2: "cm_effect a n ?n2 [] (fresh da)" using quiet_emit [OF e, of "[Log_book_entry a]"] e by simp
    have s: "pf_cmdev_set_state a PF_CMDEV_STATE_W_CIND ?n2 = Some n'" "ret = 0"
      using rsp_neg_eq [OF n1(1)] n1(2) by blast+
    have "cm_effect a n n' [] ((fresh da)\<lparr>m_dev := PF_CMDEV_STATE_W_CIND\<rparr>)"
      using quiet_set_state [OF e2 s(1) _ assms(2)] by simp
    moreover have "agrees Closed ((fresh da)\<lparr>m_dev := PF_CMDEV_STATE_W_CIND\<rparr>)" by (simp add: agree_simps)
    ultimately show ?thesis using s(2) n1(3) False by (intro disjI1 exI conjI) simp_all
  qed
qed

subsection \<open>The invariant\<close>

definition cm_ok :: "cm_net \<Rightarrow> bool" where
  "cm_ok n \<longleftrightarrow> table_ok n \<and>
     (\<forall>a < length (ars n). \<exists>ph. lives Closed (fspm_events a (outs n)) = Some ph \<and> agrees ph (modes_of (the_ar a n)))"

lemma cm_ok_step:
  assumes "cm_ok n" "steps_ok a n n'"
  shows "cm_ok n'"
proof -
  obtain evs m os where e: "cm_effect a n n' evs m"
    "\<And>ph. agrees ph (modes_of (the_ar a n)) \<Longrightarrow> \<exists>ph'. lives ph evs = Some ph' \<and> agrees ph' m"
    "outs n' = outs n @ os" "fspm_events a os = evs" "\<And>b. b \<noteq> a \<Longrightarrow> fspm_events b os = []"
    using assms(2) by (auto simp: steps_ok_def cm_effect_def)
  have "\<exists>ph. lives Closed (fspm_events b (outs n')) = Some ph \<and> agrees ph (modes_of (the_ar b n'))"
    if b: "b < length (ars n')" for b
  proof -
    have "b < length (ars n)" using b cm_effect_length [OF e(1)] by simp
    then obtain ph where ph: "lives Closed (fspm_events b (outs n)) = Some ph" "agrees ph (modes_of (the_ar b n))"
      using assms(1) by (auto simp: cm_ok_def)
    show ?thesis
    proof (cases "b = a")
      case True
      then show ?thesis using ph e(2-4) cm_effect_modes [OF e(1)] by (auto simp: lives_append)
    next
      case False
      then have "the_ar b n' = the_ar b n" using e(1) by (simp add: cm_effect_def only_ar_def the_ar_def)
      then show ?thesis using ph e(3,5) False by simp
    qed
  qed
  moreover have "table_ok n'" using assms(1) e(1) by (simp add: cm_ok_def cm_effect_def)
  ultimately show ?thesis by (simp add: cm_ok_def)
qed

lemma cm_okD:
  assumes "cm_ok n" "a < length (ars n)"
  shows "\<exists>ph. agrees ph (modes_of (the_ar a n))"
  using assms by (auto simp: cm_ok_def)

lemma cm_ok_quiet: "cm_ok n \<Longrightarrow> (\<And>b. fspm_events b os = []) \<Longrightarrow> cm_ok (emit_outs os n)"
  using cm_ok_step steps_ok_same effect_quiet by blast

lemma find_upt: "find P [0 ..< k] = Some i \<Longrightarrow> i < k \<and> P i"
  by (auto simp: find_Some_iff)

lemma allocate_effect:
  assumes "pf_ar_allocate n = (Some a, n')" "table_ok n"
  shows "a < length (ars n)" "\<not> ar_in_use (the_ar a n)" "cm_effect a n n' [] (fresh False)"
proof -
  have f: "find (\<lambda>i. \<not> ar_in_use (ars n ! i)) [0 ..< length (ars n)] = Some a"
    using assms(1) by (auto simp: pf_ar_allocate_def Let_def split: option.splits)
  then show a: "a < length (ars n)" "\<not> ar_in_use (the_ar a n)" using find_upt [OF f] by (simp_all add: the_ar_def)
  let ?f = "\<lambda>r. r\<lparr>arep := a + 1, ar_cmsu := PF_CMSU_STATE_IDLE, ar_cmwrr := PF_CMWRR_STATE_IDLE,
      cmio_timeout := pf_scheduler_init_handle (cmio_name n), cmio_timer_should_reschedule := False\<rparr>"
  let ?z = "zero_ar\<lparr>ar_in_use := True\<rparr>"
  let ?r = "if a < PNET_MAX_AR then ?f ?z else ?z" and ?ord = "if a < PNET_MAX_AR then order n @ [a] else order n"
  have n': "ars n' = (ars n)[a := ?r]" "order n' = ?ord" "outs n' = outs n"
    using assms(1) a(1) f by (auto simp: pf_ar_allocate_def Let_def upd_ar_def upd_def the_ar_def)
  have "only_ar a n n'" by (simp add: only_ar_def n'(1))
  moreover have "modes_of (the_ar a n') = fresh False"
    using a(1) by (simp add: the_ar_def n'(1) modes_of_def fresh_def no_modes_def zero_ar_def)
  moreover have "table_ok n'"
  proof -
    have use: "ar_in_use (ars n' ! i) \<longleftrightarrow> i = a \<or> ar_in_use (ars n ! i)" for i
      using a(1) by (cases "i = a") (simp_all add: n'(1))
    have rep: "arep (ars n' ! i) = (if i = a then if a < PNET_MAX_AR then a + 1 else 0 else arep (ars n ! i))" for i
      using a(1) by (cases "i = a") (simp_all add: n'(1) zero_ar_def)
    have "a \<notin> set (order n)" using assms(2) a(2) by (simp add: table_ok_def the_ar_def)
    then show ?thesis
      using assms(2) unfolding table_ok_def use rep n'(2) by (auto simp: n'(1))
  qed
  ultimately show "cm_effect a n n' [] (fresh False)" by (auto simp: cm_effect_def n'(3))
qed

lemma find_by_uuid_in_use: "pf_ar_find_by_uuid u n = Some b \<Longrightarrow> b < length (ars n) \<and> ar_in_use (the_ar b n) \<and> ar_cmdev (the_ar b n) \<noteq> PF_CMDEV_STATE_POWER_ON"
  unfolding pf_ar_find_by_uuid_def the_ar_def by (drule find_upt) simp

lemma find_by_arep_in_use: "pf_ar_find_by_arep e n = Some a \<Longrightarrow> a < length (ars n) \<and> ar_in_use (the_ar a n)"
  by (auto simp: pf_ar_find_by_arep_def the_ar_def split: if_splits)

lemma fill_ar_simps [simp]:
  "modes_of (fill_ar q r) = (modes_of r)\<lparr>m_da := rq_device_access q\<rparr>" "ar_in_use (fill_ar q r) = ar_in_use r"
  "arep (fill_ar q r) = arep r"
  by (simp_all add: fill_ar_def modes_of_def)

lemma fresh_da [simp]: "(fresh d)\<lparr>m_da := d'\<rparr> = fresh d'"
  by (simp add: fresh_def)

text \<open>From the allocation to the release of the AR of a connect request.\<close>

lemma steps_ok_open:
  assumes "cm_effect a n n' [] m" "agrees Closed m" "\<not> ar_in_use (the_ar a n)"
  shows "steps_ok a n n'"
  by (rule steps_okI [OF assms(1)]) (use assms(2,3) in \<open>auto simp: agrees_def split: if_splits\<close>)

lemma effect_release_any:
  assumes "cm_effect a n n1 evs m" "a < length (ars n)"
  shows "cm_effect a n (pf_ar_release a n1) evs (if m_use m then no_modes else m)"
proof (cases "m_use m")
  case True
  then have "ar_in_use (the_ar a n1)" using cm_effect_modes [OF assms(1)] by auto
  then show ?thesis using cm_effect_then [OF assms(1) effect_release] cm_effect_length [OF assms(1)] assms(2) True by simp
next
  case False
  then have "\<not> ar_in_use (the_ar a n1)" using cm_effect_modes [OF assms(1)] by auto
  then show ?thesis using assms(1) False effect_release_not_in_use by simp
qed

lemma connect_failed_ok:
  assumes "cm_ok n" "cm_effect a n n1 [] m" "m_use m" "a < length (ars n)" "\<not> ar_in_use (the_ar a n)"
  shows "cm_ok (emit_outs [Connect_rsp r] (pf_ar_release a n1))" "cm_ok (pf_ar_release a (emit_outs [Connect_rsp r] n1))"
proof -
  have "cm_effect a n (pf_ar_release a n1) [] no_modes"
    using effect_release_any [OF assms(2,4)] assms(3) by simp
  then have "cm_ok (pf_ar_release a n1)" by (rule cm_ok_step [OF assms(1) steps_ok_open [OF _ agrees_no_modes assms(5)]])
  then show "cm_ok (emit_outs [Connect_rsp r] (pf_ar_release a n1))" using cm_ok_quiet by simp
  have "cm_effect a n (emit_outs [Connect_rsp r] n1) [] m" using quiet_emit [OF assms(2)] by simp
  from effect_release_any [OF this assms(4)] have "cm_effect a n (pf_ar_release a (emit_outs [Connect_rsp r] n1)) [] no_modes"
    using assms(3) by simp
  then show "cm_ok (pf_ar_release a (emit_outs [Connect_rsp r] n1))"
    by (rule cm_ok_step [OF assms(1) steps_ok_open [OF _ agrees_no_modes assms(5)]])
qed

lemma connect_checked_ok:
  assumes "cm_ok n" "cm_effect a n n3 [] (fresh da)" "a < length (ars n)" "\<not> ar_in_use (the_ar a n)"
    "pf_cmdev_rm_connect_ind checked app app_stat a n3 = Some (ret, stat', n4)"
    and accepted: "checked \<and> app = 0 \<Longrightarrow> error_code app_stat = 0"
    and n': "n' = (if ret \<noteq> 0 \<or> error_code stat' \<noteq> 0 then pf_ar_release a (emit_outs [Connect_rsp ret] n4)
              else emit_outs [Lldp_restart_transmission] (emit_outs [Connect_rsp ret] n4))"
  shows "cm_ok n'"
proof -
  have len3: "a < length (ars n3)" using cm_effect_length [OF assms(2)] assms(3) by simp
  have final: "cm_effect a n n' evs (if (ret \<noteq> 0 \<or> error_code stat' \<noteq> 0) \<and> m_use m then no_modes else m)"
    if e: "cm_effect a n3 n4 evs m" for evs m
  proof -
    have e4: "cm_effect a n n4 evs m" by (rule cm_effect_trans0 [OF assms(2) e])
    have e5: "cm_effect a n (emit_outs [Connect_rsp ret] n4) evs m"
      using cm_effect_then [OF e4 effect_quiet] cm_effect_modes [OF e4] by simp
    have "cm_effect a n (emit_outs [Lldp_restart_transmission] (emit_outs [Connect_rsp ret] n4)) evs m"
      using cm_effect_then [OF e5 effect_quiet] cm_effect_modes [OF e5] by simp
    then show ?thesis
      using effect_release_any [OF e5 assms(3)] n' by (cases "ret \<noteq> 0 \<or> error_code stat' \<noteq> 0") (simp_all split del: if_split)
  qed
  have fin: "cm_ok n'" if "cm_effect a n n' evs m" "lives Closed evs = Some ph" "agrees ph m" for evs m ph
    by (rule cm_ok_step [OF assms(1)], rule steps_okI [OF that(1)])
      (use assms(4) that(2,3) in \<open>auto simp: agrees_def [of _ "modes_of (the_ar a n)"]\<close>)
  from connect_ind_cases [OF assms(5) len3 cm_effect_modes [OF assms(2)]] show ?thesis
  proof (elim disjE exE conjE)
    fix m assume m: "cm_effect a n3 n4 [PNET_EVENT_STARTUP] m" "agrees Starting m" "ret = 0" "stat' = app_stat" "checked" "app = 0"
    then have "cm_effect a n n' [PNET_EVENT_STARTUP] m" using final [OF m(1)] accepted by simp
    then show ?thesis by (rule fin [where ph = Starting]) (simp_all add: life_def m(2))
  qed (use fin [OF final] in simp_all)
qed

lemma connect_ok:
  assumes "pf_cmrpc_rm_connect_ind req checked app app_stat stat n = Some (ret, n')" "cm_ok n"
    and accepted: "checked \<and> app = 0 \<Longrightarrow> error_code app_stat = 0"
  shows "cm_ok n'"
proof (cases "error_code stat \<noteq> 0 \<or> fst (pf_ar_allocate n) = None")
  case True
  then have "n' = emit_outs [Connect_rsp (- 1)] n"
    using assms(1) by (auto simp: pf_cmrpc_rm_connect_ind_def Let_def release_if_def pf_ar_allocate_def
        split: if_splits option.splits)
  then show ?thesis using cm_ok_quiet [OF assms(2)] by simp
next
  case False
  then obtain a n1 where n1: "pf_ar_allocate n = (Some a, n1)" "error_code stat = 0"
    by (cases "pf_ar_allocate n") auto
  have tab: "table_ok n" using assms(2) by (simp add: cm_ok_def)
  note alloc = allocate_effect [OF n1(1) tab]
  note run = assms(1) [unfolded pf_cmrpc_rm_connect_ind_def, simplified n1, simplified]
  note failed = connect_failed_ok [OF assms(2) _ _ alloc(1,2)]
  show ?thesis
  proof (cases req)
    case None
    then have "n' = pf_ar_release a (emit_outs [Connect_rsp ret] n1)" using run by (auto simp: Let_def release_if_def)
    then show ?thesis using failed(2) [OF alloc(3)] by simp
  next
    case (Some q)
    let ?n2 = "upd_ar a (fill_ar q) n1"
    have len1: "a < length (ars n1)" using cm_effect_length [OF alloc(3)] alloc(1) by simp
    have "cm_effect a n1 ?n2 [] (fresh (rq_device_access q))"
      using len1 cm_effect_modes [OF alloc(3)] by (intro effect_updI) simp_all
    note e2 = cm_effect_trans0 [OF alloc(3) this]
    show ?thesis
    proof (cases "pf_ar_find_by_uuid (rq_ar_uuid q) ?n2")
      case (Some b)
      let ?n3 = "emit_outs [Connect_rsp (- 1)] (pf_ar_release a ?n2)"
      obtain r where r: "pf_cmdev_cm_abort b ?n3 = Some (r, n')"
        using run Some \<open>req = Some q\<close> by (auto simp: Let_def split: Option.bind_splits)
      have b: "b < length (ars ?n2)" "ar_in_use (the_ar b ?n2)" "ar_cmdev (the_ar b ?n2) \<noteq> PF_CMDEV_STATE_POWER_ON"
        using find_by_uuid_in_use [OF Some] by simp_all
      then have "b \<noteq> a" using modes_fresh(3) [OF cm_effect_modes [OF e2]] by auto
      have "cm_effect a n ?n3 [] no_modes"
        using quiet_emit [OF effect_release_any [OF e2 alloc(1)], of "[Connect_rsp (- 1)]"] by simp
      then have "only_ar a n ?n2" "only_ar a n ?n3" using e2 by (simp_all add: cm_effect_def)
      then have "the_ar b ?n3 = the_ar b ?n2" "length (ars ?n3) = length (ars ?n2)"
        using \<open>b \<noteq> a\<close> by (simp_all add: only_ar_def the_ar_def)
      then have "steps_ok b ?n3 n'" using cm_abort_ok [OF r] b by simp
      moreover have "cm_ok ?n3" using failed(1) [OF e2] by simp
      ultimately show ?thesis using cm_ok_step by blast
    next
      case None
      show ?thesis
      proof (cases "arep (the_ar a ?n2) = 0")
        case True
        then have "n' = pf_ar_release a (emit_outs [Connect_rsp ret] ?n2)"
          using run None \<open>req = Some q\<close> by (auto simp: Let_def release_if_def)
        then show ?thesis using failed(2) [OF e2] by simp
      next
        case False
        let ?n3 = "upd_ar a (ar_state_update (\<lambda>_. PF_AR_STATE_PRIMARY)) ?n2"
        obtain stat' n4 where n4: "pf_cmdev_rm_connect_ind checked app app_stat a ?n3 = Some (ret, stat', n4)"
          "n' = (if ret \<noteq> 0 \<or> error_code stat' \<noteq> 0 then pf_ar_release a (emit_outs [Connect_rsp ret] n4)
            else emit_outs [Lldp_restart_transmission] (emit_outs [Connect_rsp ret] n4))"
          using run None \<open>req = Some q\<close> False
          by (auto simp: Let_def release_if_def split: Option.bind_splits prod.splits if_splits)
        have "cm_effect a ?n2 ?n3 [] (fresh (rq_device_access q))"
          using effect_data [of a ?n2 "ar_state_update (\<lambda>_. PF_AR_STATE_PRIMARY)"] len1 cm_effect_modes [OF e2]
          by (simp add: modes_of_def)
        from connect_checked_ok [OF assms(2) cm_effect_trans0 [OF e2 this] alloc(1,2) n4(1) accepted n4(2)]
        show ?thesis by blast
      qed
    qed
  qed
qed

lemma abort_active_ok:
  assumes "pf_cmina_abort_active_ars code n = Some (k, n')" "cm_ok n"
  shows "cm_ok n'"
proof -
  have keep: "cm_ok m'" if "abort_active_ar code a (i, m) = Some (j, m')" "cm_ok m" for a i m j m'
  proof (cases "a < length (ars m) \<and> ar_in_use (the_ar a m)")
    case True
    let ?m = "upd_ar a (\<lambda>r. r\<lparr>err_cls := PNET_ERROR_CODE_1_RTA_ERR_CLS_PROTOCOL, err_code := code\<rparr>) m"
    have e: "cm_effect a m ?m [] (modes_of (the_ar a m))" using True by (intro effect_updI) (simp_all add: modes_of_ios)
    have "pf_cmdev_state_ind a PNET_EVENT_ABORT ?m = Some m'"
      using that(1) True by (auto simp: abort_active_ar_def split: Option.bind_splits)
    from quiet_then_abort [OF e _ this] have "steps_ok a m m'" using True by simp
    then show ?thesis by (rule cm_ok_step [OF that(2)])
  qed (use that in \<open>auto simp: abort_active_ar_def\<close>)
  have "(\<lambda>(i, m). cm_ok m) (k, n')"
    by (rule for_creps_inv [OF _ assms(1) [unfolded pf_cmina_abort_active_ars_def]])
      (use keep assms(2) in auto)
  then show ?thesis by simp
qed

text \<open>In a rest state, a machine that waits for its timer belongs to an AR in use.\<close>

lemma agrees_running:
  "agrees ph (modes_of r) \<Longrightarrow> ar_cmsm r = PF_CMSM_STATE_RUN \<or> ar_cmio r = PF_CMIO_STATE_WDATA \<Longrightarrow> ar_in_use r"
  by (auto simp: agrees_def machines_def split: if_splits)

lemma timer_ok:
  assumes "cm_call f a t n = Some n'" "a < length (ars n)" "cm_ok n"
  shows "cm_ok n'"
proof -
  obtain ph where "agrees ph (modes_of (the_ar a n))" using cm_okD [OF assms(3,2)] by blast
  then have "steps_ok a n n'"
    using assms(1,2) agrees_running [of ph "the_ar a n"] cmsm_timeout_ok [of a n n'] cmio_timer_ok [of a n n']
    by (cases f) (simp_all add: cm_call_def)
  then show ?thesis by (rule cm_ok_step [OF assms(3)])
qed

end
