(* ===== verification/Cm_Timers.thy ===== *)
theory Cm_Timers
  imports Cm_Dev Timer_Tick
begin

section \<open>The timers of the context management\<close>

text \<open>
  No operation of the context management runs into an assertion of the scheduler, and none leaves
  a timer that is due at once. \<open>later base now n0 n\<close> says of a state \<open>n\<close> that its timers are in order
  and that no more timers are due at \<open>now\<close> than in \<open>n0\<close>; \<open>ends\<close> says of an operation that it
  returns, in such a state. The collection \<open>ends_rules\<close> has a rule for each operation. With these
  the context management provides the interface \<open>timer_callbacks\<close>.
\<close>

definition later_net :: "u32 \<Rightarrow> u32 \<Rightarrow> cm_net \<Rightarrow> cm_net \<Rightarrow> bool" where
  "later_net base now n0 n \<longleftrightarrow> (\<exists>busy free. timers_ok base (cm_sched n) busy free) \<and>
     clock_ok base now (cm_clock n) \<and> due_set now (cm_sched n) \<subseteq> due_set now (cm_sched n0)"

definition ends :: "u32 \<Rightarrow> u32 \<Rightarrow> cm_net \<Rightarrow> ('x \<Rightarrow> cm_net) \<Rightarrow> 'x option \<Rightarrow> bool" where
  "ends base now n0 p r \<longleftrightarrow> (\<exists>x. r = Some x \<and> later_net base now n0 (p x))"

named_theorems ends_rules

lemma later_simps [simp]:
  "later_net base now n0 (upd_ar a f n) = later_net base now n0 n"
  "later_net base now n0 (emit_outs os n) = later_net base now n0 n"
  "later_net base now n0 (n\<lparr>order := l\<rparr>) = later_net base now n0 n"
  by (simp_all add: later_net_def)

lemma ends_Some [ends_rules]: "later_net base now n0 (p x) \<Longrightarrow> ends base now n0 p (Some x)"
  by (simp add: ends_def)

lemma ends_bind:
  "ends base now n0 p r \<Longrightarrow> (\<And>x. later_net base now n0 (p x) \<Longrightarrow> ends base now n0 q (f x)) \<Longrightarrow>
   ends base now n0 q (Option.bind r f)"
  by (auto simp: ends_def)

lemmas ends_bind_net [ends_rules] = ends_bind [where p = "\<lambda>n. n"]
lemmas ends_bind_snd = ends_bind [where p = snd]
lemmas ends_bind_snd2 = ends_bind [where p = "\<lambda>x. snd (snd x)"]

subsection \<open>The machines\<close>

lemma ends_cmio_add [ends_rules]:
  assumes "later_net base now n0 n"
  shows "ends base now n0 (\<lambda>n. n) (cmio_add a n)"
proof -
  obtain busy free where t: "timers_ok base (cm_sched n) busy free" "clock_ok base now (cm_clock n)"
    "due_set now (cm_sched n) \<subseteq> due_set now (cm_sched n0)"
    using assms by (auto simp: later_net_def)
  obtain r h' s' busy' free' where "pf_scheduler_add (cm_clock n) PF_CMIO_TIMER_PERIOD Cmio_timer_expired a
      (cmio_timeout (the_ar a n)) (cm_sched n) = Some (r, h', s')"
    "timers_ok base s' busy' free'" "due_set now s' \<subseteq> due_set now (cm_sched n)"
    using add_laterE [OF t(1,2)] by blast
  then show ?thesis using t(2,3) by (auto simp: cmio_add_def ends_def later_net_def)
qed

lemma ends_cmsm_restart [ends_rules]:
  assumes "later_net base now n0 n"
  shows "ends base now n0 (\<lambda>n. n) (cmsm_restart a n)"
proof -
  obtain busy free where t: "timers_ok base (cm_sched n) busy free" "clock_ok base now (cm_clock n)"
    "due_set now (cm_sched n) \<subseteq> due_set now (cm_sched n0)"
    using assms by (auto simp: later_net_def)
  obtain r h' s' busy' free' where "pf_scheduler_restart (cm_clock n) (cmsm_delay (the_ar a n)) Cmsm_timeout a
      (cmsm_timeout (the_ar a n)) (cm_sched n) = Some (r, h', s')"
    "timers_ok base s' busy' free'" "due_set now s' \<subseteq> due_set now (cm_sched n)"
    using restart_laterE [OF t(1,2)] by blast
  then show ?thesis using t(2,3) by (auto simp: cmsm_restart_def ends_def later_net_def)
qed

lemma ends_remove:
  assumes "later_net base now n0 n"
  shows "ends base now n0 (\<lambda>n. n) (Option.bind (pf_scheduler_remove_if_running h (cm_sched n))
    (\<lambda>(h, s). Some (upd_ar a (f h) (n\<lparr>cm_sched := s\<rparr>))))"
proof -
  obtain busy free where t: "timers_ok base (cm_sched n) busy free" "clock_ok base now (cm_clock n)"
    "due_set now (cm_sched n) \<subseteq> due_set now (cm_sched n0)"
    using assms by (auto simp: later_net_def)
  obtain h' s' busy' free' where "pf_scheduler_remove_if_running h (cm_sched n) = Some (h', s')"
    "timers_ok base s' busy' free'" "due_set now s' \<subseteq> due_set now (cm_sched n)"
    using remove_laterE [OF t(1)] by blast
  then show ?thesis using t(2,3) by (auto simp: ends_def later_net_def)
qed

lemma ends_cmio [ends_rules]: "later_net base now n0 n \<Longrightarrow> ends base now n0 (\<lambda>n. n) (pf_cmio_cmdev_state_ind a ev n)"
  using ends_remove [of base now n0 "upd_ar a (cmio_timer_should_reschedule_update (\<lambda>_. False)) n"
      "cmio_timeout (the_ar a (upd_ar a (cmio_timer_should_reschedule_update (\<lambda>_. False)) n))" a
      "\<lambda>h r. r\<lparr>cmio_timeout := h, ar_cmio := PF_CMIO_STATE_DATA\<rparr>"]
  by (cases "ar_cmio (the_ar a n)") (auto simp: pf_cmio_cmdev_state_ind_def Let_def intro!: ends_rules)

lemma ends_cmsm [ends_rules]: "later_net base now n0 n \<Longrightarrow> ends base now n0 (\<lambda>n. n) (pf_cmsm_cmdev_state_ind a ev n)"
  using ends_remove [of base now n0 n "cmsm_timeout (the_ar a n)" a
      "\<lambda>h r. r\<lparr>cmsm_timeout := h, ar_cmsm := PF_CMSM_STATE_IDLE\<rparr>"]
  by (cases "ar_cmsm (the_ar a n)") (auto simp: pf_cmsm_cmdev_state_ind_def intro!: ends_rules)

lemma later_release [simp]: "later_net base now n0 (pf_ar_release a n) = later_net base now n0 n"
  by (simp add: pf_ar_release_def Let_def)

lemma later_quiet [simp]:
  "later_net base now n0 (pf_cmwrr_cmdev_state_ind a ev n) = later_net base now n0 n"
  "later_net base now n0 (pf_cmpbe_cmdev_state_ind a ev n) = later_net base now n0 n"
  "later_net base now n0 (pf_cmrpc_cmdev_state_ind a ev n) = later_net base now n0 n"
  "later_net base now n0 (pf_cmsm_activate a n) = later_net base now n0 n"
  by (simp_all add: pf_cmwrr_cmdev_state_ind_def pf_cmpbe_cmdev_state_ind_def pf_cmrpc_cmdev_state_ind_def
      pf_cmsm_activate_def split: cm_event.split)

lemma later_abort [simp]: "later_net base now n0 (cmsu_abort a n) = later_net base now n0 n"
  by (simp add: cmsu_abort_def cmsu_close_def Let_def split: cmsu_state.split)

lemma ends_rest [ends_rules]: "later_net base now n0 n \<Longrightarrow> ends base now n0 (\<lambda>n. n) (cmdev_rest a ev n)"
  by (auto simp: cmdev_rest_def Let_def intro!: ends_rules)

lemma ends_abort [ends_rules]: "later_net base now n0 n \<Longrightarrow> ends base now n0 (\<lambda>n. n) (cmdev_abort a n)"
  by (auto simp: cmdev_abort_def intro!: ends_rules)

lemma ends_error_ind [ends_rules]:
  "later_net base now n0 n \<Longrightarrow> ends base now n0 (\<lambda>n. n) (pf_cmsu_cpm_error_ind a cls code n)"
  "later_net base now n0 n \<Longrightarrow> ends base now n0 (\<lambda>n. n) (pf_cmsu_ppm_error_ind a cls code n)"
  "later_net base now n0 n \<Longrightarrow> ends base now n0 (\<lambda>n. n) (pf_cmsu_alarm_error_ind a cls code n)"
  "later_net base now n0 n \<Longrightarrow> ends base now n0 (\<lambda>n. n) (pf_cmsu_cmdmc_error_ind a cls code n)"
  by (auto simp: pf_cmsu_cpm_error_ind_def pf_cmsu_ppm_error_ind_def pf_cmsu_alarm_error_ind_def
      pf_cmsu_cmdmc_error_ind_def intro!: ends_rules)

lemma ends_for_creps:
  assumes "\<And>c x. later_net base now n0 (p x) \<Longrightarrow> ends base now n0 p (f c x)" "later_net base now n0 (p x)"
  shows "ends base now n0 p (for_creps f cs x)"
  using assms(2) by (induction cs arbitrary: x) (auto intro: ends_Some ends_bind assms(1))

lemma ends_activate_ppm: "later_net base now n0 n \<Longrightarrow> ends base now n0 (\<lambda>n. n) (activate_ppm a c n)"
  by (auto simp: activate_ppm_def Let_def intro!: ends_rules)

lemma ends_cmsu [ends_rules]: "later_net base now n0 n \<Longrightarrow> ends base now n0 (\<lambda>n. n) (pf_cmsu_cmdev_state_ind a ev n)"
  by (auto simp: pf_cmsu_cmdev_state_ind_def intro!: ends_rules ends_for_creps ends_activate_ppm)

lemma ends_state_ind [ends_rules]: "later_net base now n0 n \<Longrightarrow> ends base now n0 (\<lambda>n. n) (pf_cmdev_state_ind a ev n)"
  by (auto simp: pf_cmdev_state_ind_def intro!: ends_rules)

lemma ends_set_state [ends_rules]: "later_net base now n0 n \<Longrightarrow> ends base now n0 (\<lambda>n. n) (pf_cmdev_set_state a st n)"
  by (auto simp: pf_cmdev_set_state_def Let_def intro!: ends_rules)

subsection \<open>The handlers\<close>

abbreviation ends_start :: "u32 \<Rightarrow> u32 \<Rightarrow> cm_net \<Rightarrow> (bool \<times> pnet_pnio_status \<times> cm_net) option \<Rightarrow> bool" where
  "ends_start base now n0 \<equiv> ends base now n0 (\<lambda>x. snd (snd x))"

lemma ends_try_start:
  assumes "later_net base now n0 (snd (snd p))"
  shows "ends_start base now n0 (try_start a c code p)"
  using assms
  by (cases p) (auto simp: try_start_def Let_def split: call_result.split intro!: ends_rules)

lemma ends_start_iocr:
  assumes "later_net base now n0 (snd (snd p))"
  shows "ends_start base now n0 (start_iocr a c p)"
  using assms by (auto simp: start_iocr_def Let_def intro!: ends_Some ends_bind_snd2 ends_try_start)

lemma ends_start_req:
  assumes "later_net base now n0 n"
  shows "ends base now n0 (\<lambda>x. snd (snd x)) (pf_cmsu_start_req a stat n)"
  using assms
  by (cases "ar_cmsu (the_ar a n)")
    (auto simp: pf_cmsu_start_req_def Let_def intro!: ends_Some ends_bind_snd2 ends_for_creps ends_start_iocr ends_try_start)

lemma ends_cmio_info [ends_rules]: "later_net base now n0 n \<Longrightarrow> ends base now n0 (\<lambda>n. n) (pf_cmdev_cmio_info_ind a b n)"
  by (cases "ar_cmdev (the_ar a n)") (auto simp: pf_cmdev_cmio_info_ind_def Let_def intro!: ends_rules)

lemma ends_timer: "later_net base now n0 n \<Longrightarrow> ends base now n0 (\<lambda>n. n) (cm_call f a t n)"
  by (cases f) (auto simp: cm_call_def pf_cmsm_timeout_def pf_cmio_timer_expired_def Let_def
      split: cmsm_state.split intro!: ends_rules)

lemma ends_cpm_state:
  "later_net base now n0 n \<Longrightarrow> ends base now n0 snd (pf_cmio_cpm_state_ind a c b n)"
  by (cases "ar_cmio (the_ar a n)") (auto simp: pf_cmio_cpm_state_ind_def intro!: ends_rules)

lemma ends_cmpbe: "later_net base now n0 n \<Longrightarrow> ends base now n0 snd (pf_cmpbe_rm_dcontrol_ind app a command n)"
  by (cases "ar_cmpbe (the_ar a n)") (auto simp: pf_cmpbe_rm_dcontrol_ind_def Let_def intro!: ends_rules)

lemma ends_cm_abort: "later_net base now n0 n \<Longrightarrow> ends base now n0 snd (pf_cmdev_cm_abort a n)"
  by (cases "ar_cmdev (the_ar a n)") (auto simp: pf_cmdev_cm_abort_def intro!: ends_rules)

lemma ends_rsp_neg: "later_net base now n0 n \<Longrightarrow> ends base now n0 snd (pf_cmdev_cm_connect_rsp_neg a n)"
  by (auto simp: pf_cmdev_cm_connect_rsp_neg_def Let_def intro!: ends_rules)

lemma ends_rsp_pos: "later_net base now n0 n \<Longrightarrow> ends base now n0 (\<lambda>x. snd (snd x)) (pf_cmdev_cm_connect_rsp_pos a stat n)"
  by (auto simp: pf_cmdev_cm_connect_rsp_pos_def intro!: ends_rules ends_bind [OF ends_start_req])

lemma ends_connect_ind:
  "later_net base now n0 n \<Longrightarrow> ends base now n0 (\<lambda>x. snd (snd x)) (pf_cmdev_rm_connect_ind checked app stat a n)"
  by (auto simp: pf_cmdev_rm_connect_ind_def Let_def intro!: ends_rules ends_rsp_pos ends_bind_snd ends_rsp_neg)

lemma ends_release: "later_net base now n0 n \<Longrightarrow> ends base now n0 snd (pf_cmdev_rm_release_ind rel a n)"
  by (cases rel) (auto simp: pf_cmdev_rm_release_ind_def Let_def intro!: ends_rules)

lemma ends_dcontrol_ind:
  "later_net base now n0 n \<Longrightarrow> ends base now n0 (\<lambda>x. snd (snd x)) (pf_cmdev_rm_dcontrol_ind app pdev a command n)"
  by (cases "ar_cmdev (the_ar a n)")
    (auto simp: pf_cmdev_rm_dcontrol_ind_def Let_def intro!: ends_bind_snd2 ends_rules ends_bind_snd ends_cmpbe)

lemma ends_dcontrol: "later_net base now n0 n \<Longrightarrow> ends base now n0 snd (dcontrol_request app pdev a command n)"
  by (auto simp: dcontrol_request_def intro!: ends_bind [OF ends_dcontrol_ind] ends_rules)

lemma later_ccontrol [simp]:
  "later_net base now n0 (snd (pf_cmpbe_rm_ccontrol_cnf a command n)) = later_net base now n0 n"
  by (simp add: pf_cmpbe_rm_ccontrol_cnf_def)

lemma ends_ccontrol_cnf: "later_net base now n0 n \<Longrightarrow> ends base now n0 snd (pf_cmrpc_rm_ccontrol_cnf a command stat n)"
proof -
  assume "later_net base now n0 n"
  then have "ends base now n0 snd (pf_cmdev_rm_ccontrol_cnf a command stat n)"
    by (auto simp: pf_cmdev_rm_ccontrol_cnf_def Let_def intro!: ends_rules)
  then show ?thesis
    using \<open>later_net base now n0 n\<close> by (auto simp: pf_cmrpc_rm_ccontrol_cnf_def intro!: ends_bind_snd ends_Some)
qed

lemma ends_ccontrol_req: "later_net base now n0 n \<Longrightarrow> ends base now n0 snd (pf_cmdev_cm_ccontrol_req owner sent a n)"
  by (auto simp: pf_cmdev_cm_ccontrol_req_def Let_def intro!: ends_rules)

lemma later_allocate: "later_net base now n0 n \<Longrightarrow> later_net base now n0 (snd (pf_ar_allocate n))"
  by (auto simp: pf_ar_allocate_def Let_def split: option.split)

lemma ends_connect: "later_net base now n0 n \<Longrightarrow> ends base now n0 snd (pf_cmrpc_rm_connect_ind req checked app app_stat stat n)"
proof -
  assume n: "later_net base now n0 n"
  obtain p n1 where a: "pf_ar_allocate n = (p, n1)" by (cases "pf_ar_allocate n")
  then have n1: "later_net base now n0 n1" using later_allocate [OF n] by simp
  show ?thesis
    unfolding pf_cmrpc_rm_connect_ind_def Let_def
    by (rule ends_bind [where p = "\<lambda>x. snd (snd (snd (snd x)))"])
      (use n n1 in \<open>auto simp: a release_if_def split: option.split intro!: ends_Some ends_bind [OF ends_connect_ind]
        ends_bind_snd ends_cm_abort\<close>)
qed

lemma ends_app_ready: "later_net base now n0 n \<Longrightarrow> ends base now n0 snd (pnet_application_ready owner sent e n)"
  by (auto simp: pnet_application_ready_def split: option.split intro!: ends_Some ends_ccontrol_req)

lemma ends_app_abort: "later_net base now n0 n \<Longrightarrow> ends base now n0 snd (pnet_ar_abort e n)"
  by (auto simp: pnet_ar_abort_def split: option.split intro!: ends_Some ends_cm_abort)

lemma ends_abort_active: "later_net base now n0 n \<Longrightarrow> ends base now n0 snd (pf_cmina_abort_active_ars code n)"
  unfolding pf_cmina_abort_active_ars_def
  by (rule ends_for_creps) (auto simp: abort_active_ar_def intro!: ends_rules)

subsection \<open>The callbacks\<close>

text \<open>The tick works on the scheduler, and the callback on the whole state that has the scheduler in it.\<close>

definition cm_callback :: "cm_cb \<Rightarrow> nat \<Rightarrow> u32 \<Rightarrow> (cm_cb, nat) sched \<times> cm_net \<Rightarrow> ((cm_cb, nat) sched \<times> cm_net) option" where
  "cm_callback f a t = (\<lambda>(s, n). map_option (\<lambda>n. (cm_sched n, n)) (cm_call f a t (n\<lparr>cm_sched := s\<rparr>)))"

lemma cm_callback_ok:
  assumes "timers_ok base s busy free" "clock_ok base now (cm_clock n)"
  shows "\<exists>s' n' busy' free'. cm_callback f a t (s, n) = Some (s', n') \<and> timers_ok base s' busy' free' \<and>
    clock_ok base now (cm_clock n') \<and> due_set now s' \<subseteq> due_set now s"
proof -
  have "later_net base now (n\<lparr>cm_sched := s\<rparr>) (n\<lparr>cm_sched := s\<rparr>)" using assms by (auto simp: later_net_def)
  from ends_timer [OF this, of f a t] show ?thesis by (auto simp: ends_def later_net_def cm_callback_def)
qed

interpretation cm_timers: timer_callbacks cm_callback base now "\<lambda>n. clock_ok base now (cm_clock n)" for base now
  by unfold_locales (erule clock_ok_window, erule (1) cm_callback_ok)

text \<open>C17: A scheduler tick over the startup monitoring of CMSM and the polling timer of CMIO comes to an
  end, although the CMIO callback starts its own timer again and a timeout aborts an AR, which removes timers
  while the tick runs: no assertion of the scheduler fails, and at the end no timer is due.\<close>

theorem cm_tick_ends:
  assumes "timers_ok base (cm_sched n) busy free" "clock_ok base now (cm_clock n)"
  shows "\<exists>s' n'. pf_scheduler_tick cm_callback now (cm_sched n, n) = Some (s', n') \<and>
    (\<forall>i < PF_MAX_TIMEOUTS. in_use (timeouts s' ! i) \<longrightarrow> sint (now - deadline s' i) < 0)"
proof -
  obtain s' n' where t: "pf_scheduler_tick cm_callback now (cm_sched n, n) = Some (s', n')"
    "due_set now s' = {}"
    using cm_timers.tick_ends [OF assms] by blast
  then have "\<forall>i < PF_MAX_TIMEOUTS. in_use (timeouts s' ! i) \<longrightarrow> sint (now - deadline s' i) < 0"
    by (auto simp: due_set_def due_def)
  then show ?thesis using t(1) by blast
qed

definition example_start :: "(cm_cb, nat) sched \<Rightarrow> cm_net" where
  "example_start s = \<lparr>cm_sched = s, cm_clock = 5000000, cmio_name = 10, cmsm_name = 20,
     ars = replicate (PNET_MAX_AR + 1) zero_ar, order = [], call_result = (\<lambda>_ _. Success), outs = []\<rparr>"

lemma example_init: "\<exists>s. pf_scheduler_init 1000 1 Cmsm_timeout (0 :: nat) = Some s \<and> timers_ok 0 s [] [0 ..< PF_MAX_TIMEOUTS]"
  using timers_ok_init [of 1000 1 Cmsm_timeout "0 :: nat" 0] by (auto simp: PF_SCHEDULER_MAX_DELAY_US_def)

lemma example_clock: "clock_ok 0 5000000 (cm_clock (example_start s))"
  by (simp add: clock_ok_def example_start_def)

lemma cm_tick_ends_witness:
  "\<exists>s n s' n'. pf_scheduler_init 1000 1 Cmsm_timeout (0 :: nat) = Some s \<and> cmio_add 3 (example_start s) = Some n \<and>
     pf_scheduler_tick cm_callback 5000000 (cm_sched n, n) = Some (s', n')"
proof -
  obtain s where s: "pf_scheduler_init 1000 1 Cmsm_timeout (0 :: nat) = Some s" "timers_ok 0 s [] [0 ..< PF_MAX_TIMEOUTS]"
    using example_init by blast
  have "timers_ok 0 (cm_sched (example_start s)) [] [0 ..< PF_MAX_TIMEOUTS]" using s(2) by (simp add: example_start_def)
  then have "later_net 0 5000000 (example_start s) (example_start s)"
    using example_clock [of s] unfolding later_net_def by blast
  then obtain n where n: "cmio_add 3 (example_start s) = Some n" "later_net 0 5000000 (example_start s) n"
    using ends_cmio_add [of 0 5000000 "example_start s" "example_start s" 3] by (auto simp: ends_def)
  then show ?thesis using cm_tick_ends [of 0 n _ _ 5000000] s(1) by (fastforce simp: later_net_def)
qed

definition returns_net :: "u32 \<Rightarrow> ('x \<times> cm_net) option \<Rightarrow> bool" where
  "returns_net base r \<longleftrightarrow> (\<exists>x n. r = Some (x, n) \<and> (\<exists>busy free. timers_ok base (cm_sched n) busy free))"

lemma ends_returns: "ends base now n0 snd r \<Longrightarrow> returns_net base r"
  by (auto simp: returns_net_def ends_def later_net_def)

text \<open>Every request, application call and indication to the context management returns, and leaves
  the timers in order: none of the assertions of the scheduler can fail in a connect, release, DControl or
  CControl, an application ready or abort, a reset, an indication of the CPM, an error indication or a timer.\<close>

theorem requests_return:
  assumes "timers_ok base (cm_sched n) busy free" "clock_ok base now (cm_clock n)"
  shows "returns_net base (pf_cmrpc_rm_connect_ind req checked app app_stat stat n) \<and>
    returns_net base (pf_cmdev_rm_release_ind rel a n) \<and>
    returns_net base (dcontrol_request dc pdev a command n) \<and>
    returns_net base (pf_cmrpc_rm_ccontrol_cnf a command stat n) \<and>
    returns_net base (pnet_application_ready owner sent e n) \<and>
    returns_net base (pnet_ar_abort e n) \<and>
    returns_net base (pf_cmina_abort_active_ars code n) \<and>
    returns_net base (pf_cmio_cpm_state_ind a crep start n) \<and>
    returns_net base (map_option (Pair ()) (pf_cmsu_cpm_error_ind a cls err n)) \<and>
    returns_net base (map_option (Pair ()) (cm_call f a t n))"
proof -
  have n: "later_net base now n n" using assms by (auto simp: later_net_def)
  have net: "returns_net base (map_option (Pair ()) r)" if "ends base now n (\<lambda>n. n) r" for r
    using that by (auto simp: returns_net_def ends_def later_net_def)
  show ?thesis
    by (intro conjI ends_returns [OF ends_connect [OF n]] ends_returns [OF ends_release [OF n]]
      ends_returns [OF ends_dcontrol [OF n]] ends_returns [OF ends_ccontrol_cnf [OF n]]
      ends_returns [OF ends_app_ready [OF n]] ends_returns [OF ends_app_abort [OF n]]
      ends_returns [OF ends_abort_active [OF n]] ends_returns [OF ends_cpm_state [OF n]]
      net [OF ends_error_ind(1) [OF n]] net [OF ends_timer [OF n]])
qed

lemma requests_return_witness:
  "\<exists>s ret n'. pf_scheduler_init 1000 1 Cmsm_timeout (0 :: nat) = Some s \<and>
     pf_cmrpc_rm_connect_ind None True 0 (pf_set_error 0 0 0 0) (pf_set_error 0 0 0 0) (example_start s) = Some (ret, n')"
proof -
  obtain s where s: "pf_scheduler_init 1000 1 Cmsm_timeout (0 :: nat) = Some s" "timers_ok 0 s [] [0 ..< PF_MAX_TIMEOUTS]"
    using example_init by blast
  have "timers_ok 0 (cm_sched (example_start s)) [] [0 ..< PF_MAX_TIMEOUTS]" using s(2) by (simp add: example_start_def)
  note r = requests_return [OF this example_clock, THEN conjunct1]
  have "returns_net 0 (pf_cmrpc_rm_connect_ind None True 0 (pf_set_error 0 0 0 0) (pf_set_error 0 0 0 0) (example_start s))"
    by (rule r)
  then show ?thesis using s(1) unfolding returns_net_def by blast
qed

end
