(* ===== verification/Cm_Step.thy ===== *)
theory Cm_Step
  imports Cm_Handlers Cm_Timers
begin

section \<open>The context management as a transition system\<close>

text \<open>
  The context management as a transition system: \<open>cm_step\<close> is one request from the network, one
  call of the application, one indication of the CPM, PPM, alarms or of a timer. \<open>reachable\<close> are the
  states after \<open>pf_cmrpc_init\<close>. The invariant \<open>cm_ok\<close> holds in all of them.
\<close>

definition pf_cmrpc_init :: "cm_net \<Rightarrow> cm_net" where
  "pf_cmrpc_init n = n\<lparr>ars := replicate (PNET_MAX_AR + 1) zero_ar, order := []\<rparr>"

text \<open>
  What the code relies on in the user's callback: a connect that is accepted carries no error code.
  The clock and the results of called functions change at any time.
\<close>

inductive cm_step :: "cm_net \<Rightarrow> cm_net \<Rightarrow> bool" where
  environment: "cm_step n (n\<lparr>cm_clock := t, call_result := r\<rparr>)"
| connect: "pf_cmrpc_rm_connect_ind req checked app app_stat stat n = Some (ret, n') \<Longrightarrow>
    (checked \<and> app = 0 \<longrightarrow> error_code app_stat = 0) \<Longrightarrow> cm_step n n'"
| release_req: "pf_ar_find_by_uuid u n = Some a \<Longrightarrow> pf_cmdev_rm_release_ind rel a n = Some (ret, n') \<Longrightarrow> cm_step n n'"
| dcontrol: "pf_ar_find_by_uuid u n = Some a \<Longrightarrow> dcontrol_request dc pdev a command n = Some (ret, n') \<Longrightarrow> cm_step n n'"
| ccontrol_cnf: "a < length (ars n) \<Longrightarrow> ar_in_use (the_ar a n) \<Longrightarrow>
    pf_cmrpc_rm_ccontrol_cnf a command stat n = Some (ret, n') \<Longrightarrow> cm_step n n'"
| record_read: "pf_ar_find_by_uuid u n = Some a \<Longrightarrow> pf_cmsm_cm_read_ind a n = Some (ret, n') \<Longrightarrow> cm_step n n'"
| trigger_read: "pf_ar_find_by_uuid u n = Some a \<Longrightarrow> pf_cmsm_rm_read_ind a index n = Some (ret, n') \<Longrightarrow> cm_step n n'"
| record_write: "pf_ar_find_by_uuid u n = Some a \<Longrightarrow> pf_cmsm_cm_write_ind a n = Some (ret, n') \<Longrightarrow> cm_step n n'"
| app_ready: "pnet_application_ready owner sent e n = Some (ret, n') \<Longrightarrow> cm_step n n'"
| app_abort: "pnet_ar_abort e n = Some (ret, n') \<Longrightarrow> cm_step n n'"
| reset: "pf_cmina_abort_active_ars code n = Some (k, n') \<Longrightarrow> cm_step n n'"
| cpm_state: "a < length (ars n) \<Longrightarrow> ar_in_use (the_ar a n) \<Longrightarrow>
    pf_cmio_cpm_state_ind a crep start n = Some (ret, n') \<Longrightarrow> cm_step n n'"
| cpm_data: "a < length (ars n) \<Longrightarrow> ar_in_use (the_ar a n) \<Longrightarrow>
    pf_cmio_cpm_new_data_ind a crep new_data n = (ret, n') \<Longrightarrow> cm_step n n'"
| cpm_error: "a < length (ars n) \<Longrightarrow> ar_in_use (the_ar a n) \<Longrightarrow>
    pf_cmsu_cpm_error_ind a cls code n = Some n' \<Longrightarrow> cm_step n n'"
| ppm_error: "a < length (ars n) \<Longrightarrow> ar_in_use (the_ar a n) \<Longrightarrow>
    pf_cmsu_ppm_error_ind a cls code n = Some n' \<Longrightarrow> cm_step n n'"
| alarm_error: "a < length (ars n) \<Longrightarrow> ar_in_use (the_ar a n) \<Longrightarrow>
    pf_cmsu_alarm_error_ind a cls code n = Some n' \<Longrightarrow> cm_step n n'"
| timer: "a < length (ars n) \<Longrightarrow> cm_call f a t n = Some n' \<Longrightarrow> cm_step n n'"

inductive reachable :: "cm_net \<Rightarrow> bool" where
  start: "outs n = [] \<Longrightarrow> reachable (pf_cmrpc_init n)"
| step: "reachable n \<Longrightarrow> cm_step n n' \<Longrightarrow> reachable n'"

lemma cm_ok_init: "outs n = [] \<Longrightarrow> cm_ok (pf_cmrpc_init n)"
  by (auto simp: cm_ok_def table_ok_def pf_cmrpc_init_def the_ar_def zero_ar_def
      nth_append agrees_def machines_def modes_of_def PNET_MAX_AR_def)

lemma cm_ok_environment: "cm_ok n \<Longrightarrow> cm_ok (n\<lparr>cm_clock := t, call_result := r\<rparr>)"
  by (simp add: cm_ok_def table_ok_def the_ar_def)

lemmas find_ar = find_by_uuid_in_use find_by_arep_in_use

lemma cm_ok_cm_step:
  assumes "cm_step n n'" "cm_ok n"
  shows "cm_ok n'"
  using assms
proof (induction rule: cm_step.induct)
  case (connect req checked app app_stat stat n ret n')
  then show ?case using connect_ok by blast
next
  case (release_req u n a rel ret n')
  then show ?case using find_ar(1) release_ind_ok cm_ok_step by metis
next
  case (dcontrol u n a dc pdev command ret n')
  then have a: "a < length (ars n)" "ar_in_use (the_ar a n)" using find_ar(1) by blast+
  obtain ph where "agrees ph (modes_of (the_ar a n))" using cm_okD [OF dcontrol.prems a(1)] by blast
  from dcontrol_ok [OF dcontrol(2) a this] show ?case by (rule cm_ok_step [OF dcontrol.prems])
next
  case (ccontrol_cnf a n command stat ret n')
  obtain ph where "agrees ph (modes_of (the_ar a n))" using cm_okD [OF ccontrol_cnf.prems ccontrol_cnf(1)] by blast
  from ccontrol_cnf_ok [OF ccontrol_cnf(3,1,2) this] show ?case by (rule cm_ok_step [OF ccontrol_cnf.prems])
next
  case (record_read u n a ret n')
  then show ?case using find_ar(1) cmsm_reads_ok cm_ok_step by metis
next
  case (trigger_read u n a index ret n')
  then show ?case using find_ar(1) cmsm_reads_ok cm_ok_step by metis
next
  case (record_write u n a ret n')
  then show ?case using find_ar(1) cmsm_reads_ok cm_ok_step by metis
next
  case (app_ready owner sent e n ret n')
  then show ?case using ccontrol_req_ok cm_ok_step
    by (fastforce simp: pnet_application_ready_def split: option.splits dest: find_ar(2))
next
  case (app_abort e n ret n')
  then show ?case using cm_abort_ok cm_ok_step
    by (fastforce simp: pnet_ar_abort_def split: option.splits dest: find_ar(2))
next
  case (reset code n k n')
  then show ?case using abort_active_ok by blast
next
  case (cpm_state a n crep start ret n')
  then show ?case using cpm_state_ok cm_ok_step by blast
next
  case (cpm_data a n crep new_data ret n')
  then show ?case using cpm_new_data_ok cm_ok_step by blast
next
  case (timer a n f t n')
  then show ?case using timer_ok by blast
qed (use cm_ok_environment error_ind_ok cm_ok_step in \<open>blast+\<close>)

lemma reachable_ok: "reachable n \<Longrightarrow> cm_ok n"
  by (induction rule: reachable.induct) (auto intro: cm_ok_init cm_ok_cm_step)

end
