(* ===== verification/Cm_Life.thy ===== *)
theory Cm_Life
  imports Cm_Step
begin

section \<open>An example AR\<close>

text \<open>
  The life of one AR, with a scheduler all of whose timers other components use, so that no
  timer can be started: connect, end of parameters, application ready, its confirmation, data.
  The examples are evaluated lazily: the congruence rules keep \<open>simp\<close> out of what is not reached.
\<close>

definition busy_sched :: "(cm_cb, nat) sched" where
  "busy_sched = \<lparr>timeouts = map (\<lambda>i. \<lparr>t_name = 1, in_use = True, expiry = 0,
       nxt = i + 1, prv = if i = 0 then PF_MAX_TIMEOUTS else i - 1,
       cb = Cmsm_timeout, cb_arg = PNET_MAX_AR\<rparr>) [0 ..< PF_MAX_TIMEOUTS],
     first_q = 0, free_q = PF_MAX_TIMEOUTS, tick_interval = 1000\<rparr>"

lemma dseg_upt:
  assumes "length ts = PF_MAX_TIMEOUTS" "j \<le> PF_MAX_TIMEOUTS" "\<And>k. k < PF_MAX_TIMEOUTS \<Longrightarrow> nxt (ts ! k) = k + 1"
    "\<And>k. k < PF_MAX_TIMEOUTS \<Longrightarrow> prv (ts ! k) = (if k = 0 then PF_MAX_TIMEOUTS else k - 1)"
  shows "dseg ts PF_MAX_TIMEOUTS [0 ..< j] j"
  using assms(2)
proof (induction j)
  case (Suc j)
  have "dseg ts PF_MAX_TIMEOUTS [0 ..< j] j" using Suc by simp
  moreover have "last_or PF_MAX_TIMEOUTS [0 ..< j] = (if j = 0 then PF_MAX_TIMEOUTS else j - 1)" by (simp add: last_or_def)
  ultimately show ?case using Suc.prems assms(3,4) [of j] by simp
qed simp

lemma busy_sched_ok: "timers_ok 0 busy_sched [0 ..< PF_MAX_TIMEOUTS] []"
proof -
  have ts: "length (timeouts busy_sched) = PF_MAX_TIMEOUTS" "\<And>k. k < PF_MAX_TIMEOUTS \<Longrightarrow> nxt (timeouts busy_sched ! k) = k + 1"
    "\<And>k. k < PF_MAX_TIMEOUTS \<Longrightarrow> prv (timeouts busy_sched ! k) = (if k = 0 then PF_MAX_TIMEOUTS else k - 1)"
    "\<And>k. k < PF_MAX_TIMEOUTS \<Longrightarrow> in_use (timeouts busy_sched ! k) \<and> expiry (timeouts busy_sched ! k) = 0"
    by (simp_all add: busy_sched_def)
  have "sched_rel busy_sched [0 ..< PF_MAX_TIMEOUTS] []"
    using dseg_upt [OF ts(1) _ ts(2,3), of PF_MAX_TIMEOUTS] ts(1,4)
    by (auto simp: sched_rel_def queue_def upt_75 busy_sched_def)
  moreover have zero: "map (\<lambda>i. uint (expiry (timeouts busy_sched ! i) - 0)) [0 ..< PF_MAX_TIMEOUTS] = map (\<lambda>_. 0) [0 ..< PF_MAX_TIMEOUTS]"
    using ts(4) by simp
  moreover have "sorted (map (\<lambda>_. 0 :: int) xs)" for xs :: "nat list" by (induction xs) auto
  ultimately show ?thesis
    unfolding timers_ok_def zero using ts(4) by (simp add: in_window_def busy_sched_def PF_SCHEDULER_MAX_DELAY_US_def)
qed

definition example_request :: conn_request where
  "example_request = \<lparr>rq_ar_uuid = \<lparr>data1 = 1, data2 = 0, data3 = 0, data4 = replicate 8 0\<rparr>,
     rq_device_access = False, rq_startup_mode = True, rq_factor = 200,
     rq_iocrs = [\<lparr>iocr_type = PF_IOCR_TYPE_INPUT, data_desc = [], cmio_start = False\<rparr>,
       \<lparr>iocr_type = PF_IOCR_TYPE_OUTPUT, data_desc = [], cmio_start = False\<rparr>]\<rparr>"

definition no_error :: pnet_pnio_status where "no_error = pf_set_error 0 0 0 0"

definition run_connect :: "cm_net option" where
  "run_connect = map_option snd (pf_cmrpc_rm_connect_ind (Some example_request) True 0 no_error no_error (example_start busy_sched))"

definition run_prmend :: "cm_net option" where
  "run_prmend = do {
     n \<leftarrow> run_connect;
     (_, n) \<leftarrow> dcontrol_request (\<lambda>_. 0) True 0 (BIT PF_CONTROL_COMMAND_BIT_PRM_END) n;
     Some n
   }"

definition run_ready :: "cm_net option" where
  "run_ready = do { n \<leftarrow> run_prmend; (_, n) \<leftarrow> pnet_application_ready (\<lambda>_. None) 0 1 n; Some n }"

definition run_data :: "cm_net option" where
  "run_data = do {
     n \<leftarrow> run_ready;
     (_, n) \<leftarrow> pf_cmrpc_rm_ccontrol_cnf 0 (BIT PF_CONTROL_COMMAND_BIT_DONE) no_error n;
     (_, n) \<leftarrow> pf_cmio_cpm_state_ind 0 1 True n;
     cm_call Cmio_timer_expired 0 5000000 n
   }"

lemma bind_weak_cong: "x = y \<Longrightarrow> Option.bind x f = Option.bind y f"
  by simp

lemma map_option_weak_cong: "x = y \<Longrightarrow> map_option f x = map_option f y"
  by simp

lemmas lazy = bind_weak_cong map_option_weak_cong let_weak_cong if_weak_cong option.case_cong_weak prod.case_cong_weak

lemmas cm_eval =
  PF_MAX_TIMEOUTS_def PF_SCHEDULER_MAX_DELAY_US_def UINT32_MAX_def upd_def pf_scheduler_is_linked_def
  pf_scheduler_unlink_def put_first_def pf_scheduler_link_after_def pf_scheduler_link_before_def
  pf_scheduler_reset_handle_def pf_scheduler_init_handle_def pf_scheduler_is_running_def
  pf_scheduler_sanitize_delay_def later_def insert_busy_def pf_scheduler_add_def release_def pf_scheduler_remove_def
  pf_scheduler_remove_if_running_def pf_scheduler_restart_def zero_ar_def the_ar_def upd_ar_def emit_outs_def
  pf_ar_allocate_def pf_ar_release_def pf_ar_find_by_uuid_def pf_ar_find_by_arep_def PF_CMIO_TIMER_PERIOD_def
  PF_IDX_DEV_CONN_MON_TRIGGER_def PNET_ERROR_CODE_2_CMSU_AR_ADD_PROV_CONS_FAILED_def
  PNET_ERROR_CODE_2_CMSU_AR_ALARM_OPEN_FAILED_def PNET_ERROR_CODE_1_CPM_def PNET_ERROR_CODE_2_CPM_INVALID_def
  PNET_ERROR_CODE_1_PPM_def PNET_ERROR_CODE_2_PPM_INVALID_def PNET_ERROR_CODE_1_CMDEV_def
  PNET_ERROR_CODE_2_CMDEV_STATE_CONFLICT_def consumes_def stop_consumers_def cmio_add_def
  pf_cmio_cmdev_state_ind_def cmwrr_next_def pf_cmwrr_cmdev_state_ind_def cmsm_delay_def cmsm_restart_def
  pf_cmsm_activate_def pf_cmsm_cmdev_state_ind_def pf_cmsm_rm_read_ind_def pf_cmsm_cm_read_ind_def
  pf_cmsm_cm_write_ind_def pf_cmpbe_cmdev_state_ind_def pf_cmrpc_cmdev_state_ind_def cmdev_rest_def cmsu_close_def
  cmsu_abort_def cmdev_abort_def pf_cmsu_cpm_error_ind_def pf_cmsu_ppm_error_ind_def pf_cmsu_alarm_error_ind_def
  pf_cmsu_cmdmc_error_ind_def activate_ppm_def pf_cmsu_cmdev_state_ind_def pf_cmdev_state_ind_def
  pf_cmdev_set_state_def try_start_def start_iocr_def pf_cmsu_start_req_def
  PNET_ERROR_CODE_1_RTA_ERR_CLS_PROTOCOL_def PNET_ERROR_CODE_2_ABORT_AR_CMI_TIMEOUT_def
  PNET_ERROR_CODE_2_ABORT_AR_RELEASE_IND_RECEIVED_def PNET_ERROR_CODE_2_ABORT_PDEV_CHECK_FAILED_def
  PNET_ERROR_CODE_CONNECT_def PNET_ERROR_DECODE_PNIO_def PNET_ERROR_CODE_1_CMRPC_def
  PNET_ERROR_CODE_2_CMRPC_PDEV_ALREADY_OWNED_def PNET_ERROR_CODE_2_CMRPC_NO_AR_RESOURCES_def
  PNET_ERROR_CODE_2_CMRPC_STATE_CONFLICT_def PF_CONTROL_COMMAND_BIT_PRM_END_def PF_CONTROL_COMMAND_BIT_DONE_def
  PF_CONTROL_COMMAND_BIT_PRM_BEGIN_def pf_set_error_def pf_cmdev_cmio_info_ind_def data_possible_def
  pf_cmio_timer_expired_def set_cmio_start_def pf_cmio_cpm_state_ind_def pf_cmio_cpm_new_data_ind_def
  pf_cmsm_timeout_def cm_call_def pf_cmpbe_rm_dcontrol_ind_def pf_cmpbe_rm_ccontrol_cnf_def pf_cmdev_cm_abort_def
  pf_cmdev_cm_init_req_def pf_cmdev_cm_connect_rsp_neg_def pf_cmdev_cm_connect_rsp_pos_def
  pf_cmdev_rm_connect_ind_def pf_cmdev_rm_release_ind_def pf_cmdev_rm_dcontrol_ind_def pf_cmdev_rm_ccontrol_cnf_def
  input_set_def pf_cmdev_cm_ccontrol_req_def fill_ar_def release_if_def pf_cmrpc_rm_connect_ind_def
  dcontrol_request_def pf_cmrpc_rm_ccontrol_cnf_def pnet_application_ready_def pnet_ar_abort_def abort_active_ar_def
  pf_cmina_abort_active_ars_def
  example_start_def example_request_def no_error_def run_connect_def run_prmend_def run_ready_def run_data_def
  PNET_MAX_AR_def upt_conv_Cons

lemma busy_sched_simps [simp]: "free_q busy_sched = PF_MAX_TIMEOUTS" "tick_interval busy_sched = 1000"
  by (simp_all add: busy_sched_def)

definition shows_ar :: "(ar \<Rightarrow> bool) \<Rightarrow> cm_net option \<Rightarrow> bool" where
  "shows_ar P r = (case r of None \<Rightarrow> False | Some n \<Rightarrow> length (ars n) = PNET_MAX_AR + 1 \<and> ar_in_use (the_ar 0 n) \<and> P (the_ar 0 n))"

lemma run_connect: "shows_ar (\<lambda>r. ar_cmdev r = PF_CMDEV_STATE_W_PEIND \<and> ar_cmsm r = PF_CMSM_STATE_RUN) run_connect"
  by (simp add: shows_ar_def cm_eval cong: lazy)

lemma run_ready: "shows_ar (\<lambda>r. ar_cmdev r = PF_CMDEV_STATE_W_ARDYCNF \<and> \<not> alarm_enable r) run_ready"
  by (simp add: shows_ar_def cm_eval cong: lazy)

lemma run_data: "shows_ar (\<lambda>r. ar_cmdev r = PF_CMDEV_STATE_DATA \<and> \<not> ar_device_access r \<and> alarm_enable r \<and>
   ar_cmpbe r = PF_CMPBE_STATE_WFIND) run_data"
  by (simp add: shows_ar_def cm_eval cong: lazy)

lemma reachable_start: "reachable (example_start s)"
proof -
  have "reachable (pf_cmrpc_init (example_start s))" by (rule reachable.start) (simp add: example_start_def)
  then show ?thesis by (simp add: example_start_def pf_cmrpc_init_def)
qed

lemma run_connect_reachable: "run_connect = Some n \<Longrightarrow> reachable n"
proof -
  assume "run_connect = Some n"
  then obtain r where r: "pf_cmrpc_rm_connect_ind (Some example_request) True 0 no_error no_error (example_start busy_sched) = Some (r, n)"
    by (auto simp: run_connect_def)
  show ?thesis by (rule reachable.step [OF reachable_start cm_step.connect [OF r]]) (simp add: no_error_def pf_set_error_def)
qed

lemma shows_arD: "shows_ar P r \<Longrightarrow> \<exists>n. r = Some n \<and> length (ars n) = PNET_MAX_AR + 1 \<and> ar_in_use (the_ar 0 n) \<and> P (the_ar 0 n)"
  by (simp add: shows_ar_def split: option.splits)

text \<open>The requests name the AR by its UUID.\<close>

definition uuid_of :: "nat \<Rightarrow> cm_net option \<Rightarrow> nat option" where
  "uuid_of a r = (case r of None \<Rightarrow> None | Some n \<Rightarrow> pf_ar_find_by_uuid (rq_ar_uuid example_request) n)"

lemma run_uuid: "uuid_of 0 run_connect = Some 0" "uuid_of 0 run_data = Some 0"
  by (simp_all add: uuid_of_def cm_eval cong: lazy)

lemma run_ready_reachable: "run_ready = Some n \<Longrightarrow> reachable n"
proof -
  assume "run_ready = Some n"
  then obtain n1 n2 r1 r2 where n: "run_connect = Some n1"
    "dcontrol_request (\<lambda>_. 0) True 0 (BIT PF_CONTROL_COMMAND_BIT_PRM_END) n1 = Some (r1, n2)"
    "pnet_application_ready (\<lambda>_. None) 0 1 n2 = Some (r2, n)"
    by (auto simp: run_ready_def run_prmend_def split: Option.bind_splits)
  have "pf_ar_find_by_uuid (rq_ar_uuid example_request) n1 = Some 0"
    using run_uuid(1) unfolding uuid_of_def n(1) by simp
  from reachable.step [OF run_connect_reachable [OF n(1)] cm_step.dcontrol [OF this n(2)]]
  show ?thesis by (rule reachable.step) (rule cm_step.app_ready [OF n(3)])
qed

lemma run_data_reachable: "run_data = Some n \<Longrightarrow> reachable n"
proof -
  assume d: "run_data = Some n"
  then obtain n1 n2 n3 r1 r2 where n: "run_ready = Some n1"
    "pf_cmrpc_rm_ccontrol_cnf 0 (BIT PF_CONTROL_COMMAND_BIT_DONE) no_error n1 = Some (r1, n2)"
    "pf_cmio_cpm_state_ind 0 1 True n2 = Some (r2, n3)" "cm_call Cmio_timer_expired 0 5000000 n3 = Some n"
    by (auto simp: run_data_def split: Option.bind_splits)
  have use: "shows_ar (\<lambda>_. True) (do { n \<leftarrow> run_ready;
      (_, n) \<leftarrow> pf_cmrpc_rm_ccontrol_cnf 0 (BIT PF_CONTROL_COMMAND_BIT_DONE) no_error n; Some n })"
    "shows_ar (\<lambda>_. True) (do { n \<leftarrow> run_ready;
      (_, n) \<leftarrow> pf_cmrpc_rm_ccontrol_cnf 0 (BIT PF_CONTROL_COMMAND_BIT_DONE) no_error n;
      (_, n) \<leftarrow> pf_cmio_cpm_state_ind 0 1 True n; Some n })"
    by (simp_all add: shows_ar_def cm_eval cong: lazy)
  have len: "length (ars n1) = 17" "ar_in_use (the_ar 0 n1)"
    using shows_arD [OF run_ready] unfolding n(1) by (simp_all add: PNET_MAX_AR_def)
  have len2: "length (ars n2) = 17" "ar_in_use (the_ar 0 n2)" 
    using shows_arD [OF use(1)] unfolding n(1) Option.bind_lunit n(2) by (simp_all add: PNET_MAX_AR_def)
  have len3: "length (ars n3) = 17" 
    using shows_arD [OF use(2)] unfolding n(1) Option.bind_lunit n(2) prod.case n(3) by (simp add: PNET_MAX_AR_def)
  have "cm_step n1 n2" using len n(2) by (intro cm_step.ccontrol_cnf [of 0]) simp_all
  moreover have "cm_step n2 n3" using len2 n(3) by (intro cm_step.cpm_state [of 0]) simp_all
  moreover have "cm_step n3 n" using len3 n(4) by (intro cm_step.timer [of 0]) simp_all
  ultimately show ?thesis using run_ready_reachable [OF n(1)] reachable.step by blast
qed


section \<open>The life of an application relation\<close>

text \<open>What holds of the ARs in all reachable states.\<close>

subsection \<open>Agreement and life cycle\<close>

text \<open>C1: In every state that the context management can reach, the states of CMDEV, CMSU, CMIO, CMWRR, CMSM and
  CMPBE of each AR belong together, also those of an AR that is not in use, and the events that the application
  was told of the AR are a life: it is started, parameterized, ready and exchanging data in this order, and an abort
  is possible at any time. The states fit the phase of this life.\<close>

theorem machines_agree:
  assumes "reachable n" "a < length (ars n)"
  shows "\<exists>ph. lives Closed (fspm_events a (outs n)) = Some ph \<and> agrees ph (modes_of (the_ar a n))"
  using reachable_ok [OF assms(1)] assms(2) by (simp add: cm_ok_def)

lemma machines_agree_witness:
  "\<exists>n. run_data = Some n \<and> ar_cmdev (the_ar 0 n) = PF_CMDEV_STATE_DATA \<and> agrees Exchanging (modes_of (the_ar 0 n))"
proof -
  obtain n where n: "run_data = Some n" "length (ars n) = 17" "ar_in_use (the_ar 0 n)"
    "ar_cmdev (the_ar 0 n) = PF_CMDEV_STATE_DATA" "\<not> ar_device_access (the_ar 0 n)"
    using shows_arD [OF run_data] by (auto simp: PNET_MAX_AR_def)
  obtain ph where "agrees ph (modes_of (the_ar 0 n))"
    using machines_agree [OF run_data_reachable [OF n(1)], of 0] n(2) by auto
  moreover from this have "ph = Exchanging" using n by (simp add: agrees_def)
  ultimately show ?thesis using n by blast
qed

text \<open>The history that belongs to a phase.\<close>

definition closed :: "cm_event list \<Rightarrow> bool" where
  "closed evs \<longleftrightarrow> evs = [] \<or> last evs = PNET_EVENT_ABORT"

definition history :: "phase \<Rightarrow> cm_event list \<Rightarrow> bool" where
  "history ph evs \<longleftrightarrow> (\<exists>pre k. closed pre \<and> evs = pre @ (case ph of
     Closed \<Rightarrow> []
   | Starting \<Rightarrow> [PNET_EVENT_STARTUP]
   | Parameterized \<Rightarrow> [PNET_EVENT_STARTUP, PNET_EVENT_PRMEND]
   | Ready \<Rightarrow> [PNET_EVENT_STARTUP, PNET_EVENT_PRMEND] @ replicate (Suc k) PNET_EVENT_APPLRDY
   | Exchanging \<Rightarrow> [PNET_EVENT_STARTUP, PNET_EVENT_PRMEND] @ replicate (Suc k) PNET_EVENT_APPLRDY @ [PNET_EVENT_DATA]))"

lemma history_step: "life ph ev = Some ph' \<Longrightarrow> history ph evs \<Longrightarrow> history ph' (evs @ [ev])"
proof -
  assume l: "life ph ev = Some ph'" and h: "history ph evs"
  have abort: "history Closed (evs @ [PNET_EVENT_ABORT])" by (simp add: history_def closed_def)
  have rep: "replicate (Suc k) x @ [x] = replicate (Suc (Suc k)) x" for k and x :: cm_event
    by (metis replicate_append_same replicate_Suc)
  obtain pre k where pk: "closed pre" "evs = pre @ (case ph of
     Closed \<Rightarrow> []
   | Starting \<Rightarrow> [PNET_EVENT_STARTUP]
   | Parameterized \<Rightarrow> [PNET_EVENT_STARTUP, PNET_EVENT_PRMEND]
   | Ready \<Rightarrow> [PNET_EVENT_STARTUP, PNET_EVENT_PRMEND] @ replicate (Suc k) PNET_EVENT_APPLRDY
   | Exchanging \<Rightarrow> [PNET_EVENT_STARTUP, PNET_EVENT_PRMEND] @ replicate (Suc k) PNET_EVENT_APPLRDY @ [PNET_EVENT_DATA])"
    using h by (auto simp: history_def)
  show ?thesis
  proof (cases "ev = PNET_EVENT_ABORT")
    case True
    then show ?thesis using l abort by simp
  next
    case False
    then consider (s) "ph = Closed" "ph' = Starting" "ev = PNET_EVENT_STARTUP"
      | (p) "ph = Starting" "ph' = Parameterized" "ev = PNET_EVENT_PRMEND"
      | (r) "ph = Parameterized" "ph' = Ready" "ev = PNET_EVENT_APPLRDY"
      | (r2) "ph = Ready" "ph' = Ready" "ev = PNET_EVENT_APPLRDY"
      | (d) "ph = Ready" "ph' = Exchanging" "ev = PNET_EVENT_DATA"
      using l by (cases ph; cases ev) (simp_all add: life_def)
    then show ?thesis
    proof cases
      case r
      then show ?thesis using pk unfolding history_def by (intro exI [of _ pre] exI [of _ 0]) simp
    next
      case r2
      then show ?thesis using pk rep [of k] unfolding history_def by (intro exI [of _ pre] exI [of _ "Suc k"]) simp
    qed (use pk in \<open>auto simp: history_def\<close>)
  qed
qed

lemma lives_history: "lives Closed evs = Some ph \<Longrightarrow> history ph evs"
proof (induction evs arbitrary: ph rule: rev_induct)
  case Nil
  then show ?case by (simp add: history_def closed_def)
next
  case (snoc ev evs)
  then obtain ph0 where "lives Closed evs = Some ph0" "life ph0 ev = Some ph"
    by (auto simp: lives_append split: Option.bind_splits)
  then show ?case using snoc.IH history_step by blast
qed

text \<open>C2: Data is exchanged only after the whole startup. Whenever CMDEV of an AR, other than one for device access,
  is in DATA, the last events that the application was told of it, since the AR was closed the last time, are STARTUP,
  PRMEND, APPLRDY, which the application may have repeated, and DATA.\<close>

theorem data_needs_startup:
  assumes "reachable n" "a < length (ars n)" "ar_in_use (the_ar a n)"
    "ar_cmdev (the_ar a n) = PF_CMDEV_STATE_DATA" "\<not> ar_device_access (the_ar a n)"
  shows "\<exists>pre k. fspm_events a (outs n) =
      pre @ [PNET_EVENT_STARTUP, PNET_EVENT_PRMEND] @ replicate (Suc k) PNET_EVENT_APPLRDY @ [PNET_EVENT_DATA] \<and>
    (pre = [] \<or> last pre = PNET_EVENT_ABORT)"
proof -
  obtain ph where ph: "lives Closed (fspm_events a (outs n)) = Some ph" "agrees ph (modes_of (the_ar a n))"
    using reachable_ok [OF assms(1)] assms(2) by (auto simp: cm_ok_def)
  have "ph = Exchanging" using ph(2) assms(3-5) by (simp add: agrees_def)
  then show ?thesis using lives_history [OF ph(1)] by (auto simp: history_def closed_def)
qed

lemma data_needs_startup_witness:
  "\<exists>n pre k. run_data = Some n \<and> fspm_events 0 (outs n) =
      pre @ [PNET_EVENT_STARTUP, PNET_EVENT_PRMEND] @ replicate (Suc k) PNET_EVENT_APPLRDY @ [PNET_EVENT_DATA]"
proof -
  obtain n where n: "run_data = Some n" "length (ars n) = 17" "ar_in_use (the_ar 0 n)"
    "ar_cmdev (the_ar 0 n) = PF_CMDEV_STATE_DATA" "\<not> ar_device_access (the_ar 0 n)"
    using shows_arD [OF run_data] by (auto simp: PNET_MAX_AR_def)
  then show ?thesis using data_needs_startup [OF run_data_reachable [OF n(1)], of 0] by auto
qed

end
