(* ===== verification/Cm_Requests.thy ===== *)
theory Cm_Requests
  imports Cm_Life
begin

section \<open>What single requests do\<close>

text \<open>
  The AR table and the alarm switch in all reachable states, and what a startup timeout, a change
  of parameters while data is exchanged, a connect with a UUID that is in use, a refused connect,
  a reset and the start of an AR do.
\<close>

lemma effect_events:
  assumes "cm_effect a n n' evs m"
  shows "fspm_events a (outs n') = fspm_events a (outs n) @ evs"
    "b \<noteq> a \<Longrightarrow> the_ar b n' = the_ar b n" "b \<noteq> a \<Longrightarrow> fspm_events b (outs n') = fspm_events b (outs n)"
  using assms by (auto simp: cm_effect_def only_ar_def the_ar_def)

lemma effect_closed:
  assumes "cm_effect a n n' evs no_modes"
  shows "\<not> ar_in_use (the_ar a n')"
  using cm_effect_modes [OF assms] modes_simps(1) [of "the_ar a n'"] by simp

lemma reachable_agrees: "reachable n \<Longrightarrow> a < length (ars n) \<Longrightarrow> \<exists>ph. agrees ph (modes_of (the_ar a n))"
  using cm_okD reachable_ok by blast

subsection \<open>The AR table\<close>

text \<open>C19: In every reachable state the list of the AR indices in use has no index twice, and it has exactly the
  entries of the table that are in use, without the extra entry for refused requests; and the AREP of each of them
  leads back to it.\<close>

theorem ar_table_consistent:
  assumes "reachable n"
  shows "distinct (order n) \<and> set (order n) = {i. i < PNET_MAX_AR \<and> ar_in_use (the_ar i n)} \<and>
    (\<forall>i < PNET_MAX_AR. ar_in_use (the_ar i n) \<longrightarrow> pf_ar_find_by_arep (arep (the_ar i n)) n = Some i)"
  using reachable_ok [OF assms]
  by (auto simp: cm_ok_def table_ok_def the_ar_def pf_ar_find_by_arep_def)

lemma ar_table_consistent_witness:
  "\<exists>n. run_data = Some n \<and> 0 \<in> set (order n) \<and> pf_ar_find_by_arep (arep (the_ar 0 n)) n = Some 0"
proof -
  obtain n where n: "run_data = Some n" "ar_in_use (the_ar 0 n)" using shows_arD [OF run_data] by auto
  then show ?thesis using ar_table_consistent [OF run_data_reachable [OF n(1)]] by (auto simp: PNET_MAX_AR_def)
qed

subsection \<open>Alarms\<close>

text \<open>C31: Alarms are sent only for an AR that completed its startup: in every reachable state, an AR whose alarms are
  enabled is in use and not for device access, CMDEV is in WDATA or DATA, and no change of parameters is going on.\<close>

theorem alarms_after_startup:
  assumes "reachable n" "a < length (ars n)" "alarm_enable (the_ar a n)"
  shows "ar_in_use (the_ar a n) \<and> \<not> ar_device_access (the_ar a n) \<and>
    (ar_cmdev (the_ar a n) = PF_CMDEV_STATE_WDATA \<and> ar_cmpbe (the_ar a n) = PF_CMPBE_STATE_IDLE \<or>
     ar_cmdev (the_ar a n) = PF_CMDEV_STATE_DATA \<and> ar_cmpbe (the_ar a n) = PF_CMPBE_STATE_WFIND)"
proof -
  obtain ph where "agrees ph (modes_of (the_ar a n))" using reachable_agrees [OF assms(1,2)] by blast
  then show ?thesis using assms(3) by (auto simp: agrees_def machines_def split: if_splits cmdev_state.splits)
qed

lemma alarms_after_startup_witness:
  "\<exists>n. run_data = Some n \<and> alarm_enable (the_ar 0 n) \<and> ar_cmdev (the_ar 0 n) = PF_CMDEV_STATE_DATA \<and>
     ar_cmpbe (the_ar 0 n) = PF_CMPBE_STATE_WFIND"
proof -
  obtain n where n: "run_data = Some n" "length (ars n) = 17" "alarm_enable (the_ar 0 n)"
    "ar_cmdev (the_ar 0 n) = PF_CMDEV_STATE_DATA"
    using shows_arD [OF run_data] by (auto simp: PNET_MAX_AR_def)
  show ?thesis using alarms_after_startup [OF run_data_reachable [OF n(1)], of 0] n by auto
qed

subsection \<open>The startup timeout\<close>

text \<open>C18: When the startup of an AR takes too long, the timeout of CMSM closes it: the callback returns, the AR is
  free again, the application is told an ABORT, and no other AR is touched. This holds in every reachable state in
  which CMSM monitors the AR, with the timers in order.\<close>

theorem startup_timeout_closes:
  assumes "reachable n" "a < length (ars n)" "ar_cmsm (the_ar a n) = PF_CMSM_STATE_RUN"
    and "timers_ok base (cm_sched n) busy free" "clock_ok base now (cm_clock n)"
  shows "\<exists>n'. pf_cmsm_timeout a n = Some n' \<and> \<not> ar_in_use (the_ar a n') \<and>
    fspm_events a (outs n') = fspm_events a (outs n) @ [PNET_EVENT_ABORT] \<and>
    (\<forall>b. b \<noteq> a \<longrightarrow> the_ar b n' = the_ar b n \<and> fspm_events b (outs n') = fspm_events b (outs n))"
proof -
  obtain ph where "agrees ph (modes_of (the_ar a n))" using reachable_agrees [OF assms(1,2)] by blast
  then have use: "ar_in_use (the_ar a n)" using agrees_running assms(3) by blast
  have "later_net base now n n" using assms(4,5) by (auto simp: later_net_def)
  from ends_timer [OF this, of Cmsm_timeout a now] obtain n' where n': "pf_cmsm_timeout a n = Some n'"
    by (auto simp: ends_def cm_call_def)
  have e: "cm_effect a n n' [PNET_EVENT_ABORT] no_modes" by (rule effect_cmsm_timeout [OF n' assms(2,3) use])
  show ?thesis using n' effect_closed [OF e] effect_events [OF e] by blast
qed

lemma startup_timeout_closes_witness:
  "\<exists>n n'. run_connect = Some n \<and> ar_in_use (the_ar 0 n) \<and> pf_cmsm_timeout 0 n = Some n' \<and> \<not> ar_in_use (the_ar 0 n')"
proof -
  obtain n where n: "run_connect = Some n" "length (ars n) = 17" "ar_in_use (the_ar 0 n)"
    "ar_cmsm (the_ar 0 n) = PF_CMSM_STATE_RUN"
    using shows_arD [OF run_connect] by (auto simp: PNET_MAX_AR_def)
  obtain r where r: "pf_cmrpc_rm_connect_ind (Some example_request) True 0 no_error no_error (example_start busy_sched) = Some (r, n)"
    using n(1) by (auto simp: run_connect_def)
  have "later_net 0 5000000 (example_start busy_sched) (example_start busy_sched)"
    using busy_sched_ok example_clock [of busy_sched] unfolding later_net_def by (auto simp: example_start_def)
  from ends_connect [OF this, of "Some example_request" True 0 no_error no_error] obtain busy free where
    t: "timers_ok 0 (cm_sched n) busy free" "clock_ok 0 5000000 (cm_clock n)"
    by (auto simp: ends_def later_net_def r)
  show ?thesis using startup_timeout_closes [OF run_connect_reachable [OF n(1)], of 0, OF _ n(4) t] n(1-3) by auto
qed

subsection \<open>A change of parameters while data is exchanged\<close>

lemma dcontrol_in_data:
  assumes "dcontrol_request app pdev a command n = Some (ret, n')"
    "ar_cmdev (the_ar a n) = PF_CMDEV_STATE_DATA" "\<not> ar_device_access (the_ar a n)"
  shows "ret = 0 \<and> (\<exists>r n1. pf_cmpbe_rm_dcontrol_ind app a command n = Some (r, n1) \<and>
    (if r \<noteq> 0 then pf_cmdev_state_ind a PNET_EVENT_ABORT n1 = Some n' else n' = n1))"
  using assms by (auto simp: dcontrol_request_def pf_cmdev_rm_dcontrol_ind_def split: Option.bind_splits if_splits)

text \<open>A controller that changes parameters while data is exchanged loses its connection. The DControl request
  with PRM_BEGIN is accepted and alarms are disabled; CMPBE then waits for the response of the application in a
  state that no operation leaves, so that every further DControl request, the PRM_END that ends the
  change of parameters too, aborts the AR, although it is answered with success.\<close>

theorem parameter_change_aborts:
  assumes "reachable n" "a < length (ars n)" "ar_in_use (the_ar a n)" "ar_cmdev (the_ar a n) = PF_CMDEV_STATE_DATA"
    "\<not> ar_device_access (the_ar a n)" "ar_cmpbe (the_ar a n) = PF_CMPBE_STATE_WFIND"
    and first: "dcontrol_request app pdev a (BIT PF_CONTROL_COMMAND_BIT_PRM_BEGIN) n = Some (r1, n1)"
      "app PNET_CONTROL_COMMAND_PRM_BEGIN = 0"
    and second: "dcontrol_request app' pdev' a command n1 = Some (r2, n2)"
  shows "r1 = 0 \<and> ar_cmdev (the_ar a n1) = PF_CMDEV_STATE_DATA \<and> \<not> alarm_enable (the_ar a n1) \<and>
    r2 = 0 \<and> \<not> ar_in_use (the_ar a n2) \<and> fspm_events a (outs n2) = fspm_events a (outs n) @ [PNET_EVENT_ABORT]"
proof -
  obtain ph where ph: "agrees ph (modes_of (the_ar a n))" using reachable_agrees [OF assms(1,2)] by blast
  then have "cmpbe_stored_command (the_ar a n) = 0" using assms(3) by (simp add: agrees_def)
  then have n1: "r1 = 0" "n1 = upd_ar a (ar_cmpbe_update (\<lambda>_. PF_CMPBE_STATE_WFRSP))
      (emit_outs [Fspm_dcontrol_ind a PNET_CONTROL_COMMAND_PRM_BEGIN] (upd_ar a (alarm_enable_update (\<lambda>_. False)) n))"
    using dcontrol_in_data [OF first(1) assms(4,5)] assms(6) first(2)
    by (simp_all add: pf_cmpbe_rm_dcontrol_ind_def Let_def)
  have ar1: "the_ar a n1 = (the_ar a n)\<lparr>alarm_enable := False, ar_cmpbe := PF_CMPBE_STATE_WFRSP\<rparr>"
    "length (ars n1) = length (ars n)" "fspm_events a (outs n1) = fspm_events a (outs n)"
    using assms(2) by (simp_all add: n1(2))
  have "pf_cmpbe_rm_dcontrol_ind app' a command n1 = Some (- 1, n1)" by (simp add: pf_cmpbe_rm_dcontrol_ind_def ar1(1))
  then have n2: "r2 = 0" "pf_cmdev_state_ind a PNET_EVENT_ABORT n1 = Some n2"
    using dcontrol_in_data [OF second] assms(4,5) by (simp_all add: ar1(1))
  have e: "cm_effect a n1 n2 [PNET_EVENT_ABORT] no_modes"
    using effect_event_abort [OF n2(2)] assms(2,3) by (simp add: ar1)
  show ?thesis using n1(1) n2(1) assms(4) effect_closed [OF e] effect_events(1) [OF e] by (simp add: ar1)
qed

definition run_change :: "cm_net option" where
  "run_change = do {
     n \<leftarrow> run_data;
     (_, n) \<leftarrow> dcontrol_request (\<lambda>_. 0) True 0 (BIT PF_CONTROL_COMMAND_BIT_PRM_BEGIN) n;
     (_, n) \<leftarrow> dcontrol_request (\<lambda>_. 0) True 0 (BIT PF_CONTROL_COMMAND_BIT_PRM_END) n;
     Some n
   }"

lemma run_change: "run_change \<noteq> None"
proof -
  have "case run_change of None \<Rightarrow> False | Some n \<Rightarrow> True" by (simp add: run_change_def cm_eval cong: lazy)
  then show ?thesis by (auto split: option.splits)
qed

lemma parameter_change_aborts_witness:
  "\<exists>n n1 n2 r1 r2. run_data = Some n \<and> ar_in_use (the_ar 0 n) \<and>
     dcontrol_request (\<lambda>_. 0) True 0 (BIT PF_CONTROL_COMMAND_BIT_PRM_BEGIN) n = Some (r1, n1) \<and>
     dcontrol_request (\<lambda>_. 0) True 0 (BIT PF_CONTROL_COMMAND_BIT_PRM_END) n1 = Some (r2, n2) \<and> \<not> ar_in_use (the_ar 0 n2)"
proof -
  obtain n where n: "run_data = Some n" "length (ars n) = 17" "ar_in_use (the_ar 0 n)"
    "ar_cmdev (the_ar 0 n) = PF_CMDEV_STATE_DATA" "\<not> ar_device_access (the_ar 0 n)" "ar_cmpbe (the_ar 0 n) = PF_CMPBE_STATE_WFIND"
    using shows_arD [OF run_data] by (auto simp: PNET_MAX_AR_def)
  obtain r1 n1 r2 n2 where d:
    "dcontrol_request (\<lambda>_. 0) True 0 (BIT PF_CONTROL_COMMAND_BIT_PRM_BEGIN) n = Some (r1, n1)"
    "dcontrol_request (\<lambda>_. 0) True 0 (BIT PF_CONTROL_COMMAND_BIT_PRM_END) n1 = Some (r2, n2)"
    using run_change unfolding run_change_def n(1) Option.bind_lunit by (auto split: Option.bind_splits)
  have "\<not> ar_in_use (the_ar 0 n2)"
    using parameter_change_aborts [OF run_data_reachable [OF n(1)] _ n(3-6) d(1) _ d(2)] n(2) by simp
  then show ?thesis using n(1,3) d by blast
qed

subsection \<open>A connect with a UUID that is in use\<close>

lemma find_only:
  assumes "only_ar a n n'" "a < length (ars n)" "\<not> ar_in_use (the_ar a n)" "ar_cmdev (the_ar a n') = PF_CMDEV_STATE_POWER_ON"
  shows "pf_ar_find_by_uuid u n' = pf_ar_find_by_uuid u n"
proof -
  have "length (ars n') = length (ars n)" using assms(1) by (simp add: only_ar_def)
  moreover have "(ar_in_use (ars n' ! i) \<and> ar_cmdev (ars n' ! i) \<noteq> PF_CMDEV_STATE_POWER_ON \<and> ar_uuid (ars n' ! i) = u) =
      (ar_in_use (ars n ! i) \<and> ar_cmdev (ars n ! i) \<noteq> PF_CMDEV_STATE_POWER_ON \<and> ar_uuid (ars n ! i) = u)" for i
    using assms by (cases "i = a") (simp_all add: only_ar_def the_ar_def)
  ultimately show ?thesis by (simp add: pf_ar_find_by_uuid_def)
qed

lemma allocate_some:
  assumes "\<exists>i < length (ars n). \<not> ar_in_use (ars n ! i)"
  shows "\<exists>a n'. pf_ar_allocate n = (Some a, n')"
proof -
  have "find (\<lambda>i. \<not> ar_in_use (ars n ! i)) [0 ..< length (ars n)] \<noteq> None" using assms by (auto simp: find_None_iff)
  then show ?thesis by (auto simp: pf_ar_allocate_def Let_def)
qed

text \<open>The AR of a connect request before it is checked.\<close>

lemma connect_prepared:
  assumes "reachable n" "\<exists>i < length (ars n). \<not> ar_in_use (ars n ! i)"
  obtains a n1 where "pf_ar_allocate n = (Some a, n1)" "a < length (ars n)" "\<not> ar_in_use (the_ar a n)"
    "cm_effect a n (upd_ar a (fill_ar q) n1) [] (fresh (rq_device_access q))"
    "pf_ar_find_by_uuid u (upd_ar a (fill_ar q) n1) = pf_ar_find_by_uuid u n"
proof -
  obtain a n1 where a: "pf_ar_allocate n = (Some a, n1)" using allocate_some [OF assms(2)] by blast
  have tab: "table_ok n" using reachable_ok [OF assms(1)] by (simp add: cm_ok_def)
  note alloc = allocate_effect [OF a tab]
  let ?n2 = "upd_ar a (fill_ar q) n1"
  have len: "a < length (ars n1)" using cm_effect_length [OF alloc(3)] alloc(1) by simp
  have "cm_effect a n1 ?n2 [] (fresh (rq_device_access q))"
    using len cm_effect_modes [OF alloc(3)] by (intro effect_updI) simp_all
  note e = cm_effect_trans0 [OF alloc(3) this]
  have "only_ar a n ?n2" using e by (simp add: cm_effect_def)
  from find_only [OF this alloc(1,2) modes_fresh(3) [OF cm_effect_modes [OF e]]]
  show ?thesis using that a alloc(1,2) e by blast
qed

text \<open>C26: A connect request with the UUID of an AR that is already open is refused, and the open AR is aborted:
  its application is told an ABORT and the AR is free afterwards, and so is the one allocated for the request,
  while all other ARs stay as they are. This holds unless the open AR is one whose connect was refused before
  (CMDEV in W_CIND).\<close>

theorem duplicate_uuid_aborts:
  assumes "reachable n" "\<exists>i < length (ars n). \<not> ar_in_use (ars n ! i)" "error_code stat = 0"
    "pf_ar_find_by_uuid (rq_ar_uuid q) n = Some b" "ar_cmdev (the_ar b n) \<noteq> PF_CMDEV_STATE_W_CIND"
    "pf_cmrpc_rm_connect_ind (Some q) checked app app_stat stat n = Some (ret, n')"
  shows "ret = - 1 \<and> \<not> ar_in_use (the_ar b n') \<and> fspm_events b (outs n') = fspm_events b (outs n) @ [PNET_EVENT_ABORT] \<and>
    (\<forall>c < length (ars n). c \<noteq> b \<longrightarrow> ar_in_use (the_ar c n') = ar_in_use (the_ar c n) \<and>
       fspm_events c (outs n') = fspm_events c (outs n))"
proof -
  obtain a n1 where p: "pf_ar_allocate n = (Some a, n1)" "a < length (ars n)" "\<not> ar_in_use (the_ar a n)"
    "cm_effect a n (upd_ar a (fill_ar q) n1) [] (fresh (rq_device_access q))"
    "pf_ar_find_by_uuid (rq_ar_uuid q) (upd_ar a (fill_ar q) n1) = pf_ar_find_by_uuid (rq_ar_uuid q) n"
    by (rule connect_prepared [OF assms(1,2)])
  let ?n2 = "upd_ar a (fill_ar q) n1" and ?n3 = "emit_outs [Connect_rsp (- 1)] (pf_ar_release a (upd_ar a (fill_ar q) n1))"
  obtain r where r: "ret = - 1" "pf_cmdev_cm_abort b ?n3 = Some (r, n')"
    using assms(3,4,6) p(1,5) by (auto simp: pf_cmrpc_rm_connect_ind_def Let_def split: Option.bind_splits)
  have b: "b < length (ars n)" "ar_in_use (the_ar b n)" using find_by_uuid_in_use [OF assms(4)] by simp_all
  then have ba: "b \<noteq> a" using p(3) by auto
  have e3: "cm_effect a n ?n3 [] no_modes"
    using quiet_emit [OF effect_release_any [OF p(4,2)], of "[Connect_rsp (- 1)]"] by simp
  have b3: "the_ar b ?n3 = the_ar b n" "b < length (ars ?n3)"
    using effect_events(2) [OF e3 ba] cm_effect_length [OF e3] b(1) by simp_all
  obtain ph where "agrees ph (modes_of (the_ar b n))" using reachable_agrees [OF assms(1) b(1)] by blast
  then have "ar_device_access (the_ar b n) \<Longrightarrow> ar_cmdev (the_ar b n) = PF_CMDEV_STATE_DATA"
    using b(2) assms(5) by (auto simp: agrees_def split: cmdev_state.splits)
  then have "pf_cmdev_set_state b PF_CMDEV_STATE_ABORT ?n3 = Some n'"
    using r(2) unfolding pf_cmdev_cm_abort_def b3(1) by (auto split: if_splits Option.bind_splits)
  from effect_set_abort [OF this b3(2)] have e: "cm_effect b ?n3 n' [PNET_EVENT_ABORT] no_modes"
    using b(2) b3(1) by simp
  have other: "ar_in_use (the_ar c n') = ar_in_use (the_ar c n) \<and> fspm_events c (outs n') = fspm_events c (outs n)" if "c \<noteq> b" for c
  proof (cases "c = a")
    case True
    then show ?thesis
      using effect_events(2,3) [OF e that] effect_closed [OF e3] effect_events(1) [OF e3] p(3) by simp
  next
    case False
    then show ?thesis using effect_events(2,3) [OF e that] effect_events(2,3) [OF e3 False] by simp
  qed
  show ?thesis
    using r(1) effect_closed [OF e] effect_events(1) [OF e] effect_events(3) [OF e3 ba] other by simp
qed

lemma duplicate_uuid_aborts_witness:
  "\<exists>n n' ret. run_data = Some n \<and> ar_in_use (the_ar 0 n) \<and> \<not> ar_in_use (the_ar 0 n') \<and>
     pf_cmrpc_rm_connect_ind (Some example_request) True 0 no_error no_error n = Some (ret, n')"
proof -
  obtain n where n: "run_data = Some n" "length (ars n) = 17" "ar_in_use (the_ar 0 n)"
    "ar_cmdev (the_ar 0 n) = PF_CMDEV_STATE_DATA"
    using shows_arD [OF run_data] by (auto simp: PNET_MAX_AR_def)
  have again: "case (do { n \<leftarrow> run_data; (_, n') \<leftarrow> pf_cmrpc_rm_connect_ind (Some example_request) True 0 no_error no_error n;
      Some (n, n') }) of None \<Rightarrow> False | Some (n, n') \<Rightarrow> \<not> ar_in_use (the_ar 1 n)"
    by (simp add: cm_eval cong: lazy)
  then obtain ret n' where c: "pf_cmrpc_rm_connect_ind (Some example_request) True 0 no_error no_error n = Some (ret, n')"
    "\<not> ar_in_use (the_ar 1 n)"
    unfolding n(1) Option.bind_lunit by (auto split: Option.bind_splits option.splits)
  have "pf_ar_find_by_uuid (rq_ar_uuid example_request) n = Some 0"
    using run_uuid(2) unfolding uuid_of_def n(1) by simp
  moreover have "\<exists>i < length (ars n). \<not> ar_in_use (ars n ! i)" using n(2) c(2) by (auto simp: the_ar_def intro!: exI [of _ 1])
  ultimately have "\<not> ar_in_use (the_ar 0 n')"
    using duplicate_uuid_aborts [OF run_data_reachable [OF n(1)] _ _ _ _ c(1), of 0] n(4)
    by (simp add: no_error_def pf_set_error_def)
  then show ?thesis using n(1,3) c(1) by blast
qed

subsection \<open>A connect that the application refuses\<close>

text \<open>C40: When the application refuses a connect request without giving an error code, the stack answers the
  request with success and keeps the AR: it stays allocated with CMDEV in W_CIND, and a release request of the
  controller does not free it either. This holds in every reachable state with a free AR, and the documentation of the
  callback says that such a request is refused.\<close>

theorem refused_connect_keeps_ar:
  assumes "reachable n" "\<exists>i < PNET_MAX_AR. \<not> ar_in_use (ars n ! i)" "error_code stat = 0"
    "pf_ar_find_by_uuid (rq_ar_uuid q) n = None"
    "pf_cmrpc_rm_connect_ind (Some q) True app app_stat stat n = Some (ret, n')"
    and refused: "app \<noteq> 0" "error_code app_stat = 0"
  shows "ret = 0 \<and> (\<exists>a < length (ars n). \<not> ar_in_use (the_ar a n) \<and> ar_in_use (the_ar a n') \<and>
    ar_cmdev (the_ar a n') = PF_CMDEV_STATE_W_CIND \<and> (\<forall>rel. pf_cmdev_rm_release_ind rel a n' = Some (0, n')))"
proof -
  have len: "length (ars n) = PNET_MAX_AR + 1" using reachable_ok [OF assms(1)] by (simp add: cm_ok_def table_ok_def)
  then have free: "\<exists>i < length (ars n). \<not> ar_in_use (ars n ! i)" using assms(2) by (metis add.commute less_Suc_eq plus_1_eq_Suc)
  obtain a n1 where p: "pf_ar_allocate n = (Some a, n1)" "a < length (ars n)" "\<not> ar_in_use (the_ar a n)"
    "cm_effect a n (upd_ar a (fill_ar q) n1) [] (fresh (rq_device_access q))"
    "pf_ar_find_by_uuid (rq_ar_uuid q) (upd_ar a (fill_ar q) n1) = pf_ar_find_by_uuid (rq_ar_uuid q) n"
    by (rule connect_prepared [OF assms(1) free])
  let ?n2 = "upd_ar a (fill_ar q) n1"
  have len2: "a < length (ars ?n2)" using cm_effect_length [OF p(4)] p(2) by simp
  have "a < PNET_MAX_AR"
  proof -
    have "find (\<lambda>i. \<not> ar_in_use (ars n ! i)) [0 ..< length (ars n)] = Some a"
      using p(1) by (auto simp: pf_ar_allocate_def Let_def split: option.splits)
    then have "\<forall>j < a. ar_in_use (ars n ! j)" by (auto simp: find_Some_iff)
    then show ?thesis using assms(2) by (meson less_le_trans not_le)
  qed
  moreover have "table_ok ?n2" using p(4) reachable_ok [OF assms(1)] by (simp add: cm_ok_def cm_effect_def)
  ultimately have arep: "arep (the_ar a ?n2) \<noteq> 0"
    using len2 modes_fresh(1) [OF cm_effect_modes [OF p(4)]] by (simp add: table_ok_def the_ar_def)
  let ?n3 = "upd_ar a (ar_state_update (\<lambda>_. PF_AR_STATE_PRIMARY)) ?n2"
  obtain ret' stat' n4 where n4: "pf_cmdev_rm_connect_ind True app app_stat a ?n3 = Some (ret', stat', n4)"
    "ret = ret'" "n' = (if ret' \<noteq> 0 \<or> error_code stat' \<noteq> 0 then pf_ar_release a (emit_outs [Connect_rsp ret'] n4)
       else emit_outs [Lldp_restart_transmission] (emit_outs [Connect_rsp ret'] n4))"
    using assms(3-5) p(1,5) arep
    by (auto simp: pf_cmrpc_rm_connect_ind_def Let_def release_if_def split: Option.bind_splits prod.splits if_splits)
  let ?n3' = "upd_ar a (ready_4_data_update (\<lambda>_. False)) ?n3"
  have neg: "pf_cmdev_cm_connect_rsp_neg a ?n3' = Some (ret', n4)" "stat' = app_stat"
    using n4(1) refused(1) by (auto simp: pf_cmdev_rm_connect_ind_def Let_def split: Option.bind_splits)
  have ret: "ret' = 0" using rsp_neg_eq [OF neg(1)] by blast
  have "n4 = upd_ar a (ar_cmdev_update (\<lambda>_. PF_CMDEV_STATE_W_CIND))
      (if \<not> ar_device_access (the_ar a ?n3') then emit_outs [Log_book_entry a] ?n3' else ?n3')"
    using rsp_neg_eq [OF neg(1)] by (simp add: pf_cmdev_set_state_def split del: if_split)
  then have n4_ar: "ar_cmdev (the_ar a n4) = PF_CMDEV_STATE_W_CIND" "ar_in_use (the_ar a n4)"
    using len2 modes_fresh(1) [OF cm_effect_modes [OF p(4)]] by simp_all
  have n': "the_ar a n' = the_ar a n4" using ret neg(2) refused(2) n4(3) by simp
  have "pf_cmdev_rm_release_ind rel a n' = Some (0, n')" for rel
    using n4_ar by (simp add: pf_cmdev_rm_release_ind_def Let_def n')
  then show ?thesis using ret n4(2) n4_ar p(2,3) n' by auto
qed

lemma refused_connect_keeps_ar_witness:
  "\<exists>s ret n'. pf_cmrpc_rm_connect_ind (Some example_request) True (- 1) no_error no_error (example_start s) = Some (ret, n') \<and>
     ret = 0 \<and> (\<exists>a. ar_in_use (the_ar a n') \<and> ar_cmdev (the_ar a n') = PF_CMDEV_STATE_W_CIND)"
proof -
  have "later_net 0 5000000 (example_start busy_sched) (example_start busy_sched)"
    using busy_sched_ok example_clock [of busy_sched] unfolding later_net_def by (auto simp: example_start_def)
  from ends_connect [OF this, of "Some example_request" True "- 1" no_error no_error] obtain ret n' where
    c: "pf_cmrpc_rm_connect_ind (Some example_request) True (- 1) no_error no_error (example_start busy_sched) = Some (ret, n')"
    by (auto simp: ends_def)
  have "pf_ar_find_by_uuid u (example_start s) = None" for u s
    by (auto simp: pf_ar_find_by_uuid_def find_None_iff example_start_def zero_ar_def PNET_MAX_AR_def nth_append)
  moreover have "\<exists>i < PNET_MAX_AR. \<not> ar_in_use (ars (example_start s) ! i)" for s
    by (auto simp: example_start_def zero_ar_def PNET_MAX_AR_def intro!: exI [of _ 0])
  ultimately show ?thesis
    using refused_connect_keeps_ar [OF reachable_start _ _ _ c] c by (fastforce simp: no_error_def pf_set_error_def)
qed

end
