(* ===== verification/Cm_Cascades.thy ===== *)
theory Cm_Cascades
  imports Cm_Requests
begin

section \<open>Reset and start\<close>

text \<open>The two loops of the context management: over all ARs at a reset, over the IOCRs of an AR at its start.\<close>

lemma for_creps_upt:
  assumes "\<And>i x y. i < m \<Longrightarrow> P i x \<Longrightarrow> f i x = Some y \<Longrightarrow> P (Suc i) y" "for_creps f [0 ..< m] x = Some y" "P 0 x"
  shows "P m y"
proof -
  have "P m y" if "for_creps f [k ..< m] x = Some y" "k \<le> m" "P k x" for k x
    using that
  proof (induction "m - k" arbitrary: k x)
    case (Suc j)
    then have k: "k < m" by linarith
    obtain z where z: "f k x = Some z" "for_creps f [Suc k ..< m] z = Some y"
      using Suc.prems(1) k by (auto simp: upt_conv_Cons split: Option.bind_splits)
    have j: "j = m - Suc k" using Suc.hyps(2) by linarith
    show ?case by (rule Suc.hyps(1) [OF j z(2)]) (use k assms(1) [OF k Suc.prems(3) z(1)] in simp_all)
  qed simp
  then show ?thesis using assms(2,3) by simp
qed

subsection \<open>A reset closes every AR\<close>

definition in_use_below :: "nat \<Rightarrow> cm_net \<Rightarrow> nat set" where
  "in_use_below j n = {i. i < j \<and> ar_in_use (the_ar i n)}"

lemma in_use_below_Suc: "in_use_below (Suc j) n = (if ar_in_use (the_ar j n) then insert j (in_use_below j n) else in_use_below j n)"
  by (auto simp: in_use_below_def less_Suc_eq)

text \<open>A reset of the device (a change of the IP settings or a factory reset) closes every AR: afterwards no AR is
  in use, the list of AREPs is empty, and the result counts the ARs that were aborted. For each of them the application
  was told exactly one ABORT, and nothing for the others.\<close>

theorem reset_closes_all:
  assumes "reachable n" "pf_cmina_abort_active_ars code n = Some (k, n')"
  shows "(\<forall>a < PNET_MAX_AR. \<not> ar_in_use (the_ar a n')) \<and> order n' = [] \<and> k = card (in_use_below PNET_MAX_AR n) \<and>
    (\<forall>a < PNET_MAX_AR. fspm_events a (outs n') =
      fspm_events a (outs n) @ (if ar_in_use (the_ar a n) then [PNET_EVENT_ABORT] else []))"
proof -
  have ok: "cm_ok n" by (rule reachable_ok [OF assms(1)])
  have len: "length (ars n) = PNET_MAX_AR + 1" using ok by (simp add: cm_ok_def table_ok_def)
  define P where "P j x \<longleftrightarrow> (case x of (i, m) \<Rightarrow> length (ars m) = length (ars n) \<and> i = card (in_use_below j n) \<and>
      (\<forall>a < j. \<not> ar_in_use (the_ar a m) \<and> fspm_events a (outs m) =
        fspm_events a (outs n) @ (if ar_in_use (the_ar a n) then [PNET_EVENT_ABORT] else [])) \<and>
      (\<forall>a \<ge> j. the_ar a m = the_ar a n \<and> fspm_events a (outs m) = fspm_events a (outs n)))" for j and x :: "nat \<times> cm_net"
  have step: "P (Suc j) y" if j: "j < PNET_MAX_AR" and x: "P j x" and y: "abort_active_ar code j x = Some y" for j x y
  proof -
    obtain i m where xm: "x = (i, m)" by (cases x)
    have jl: "j < length (ars m)" and same: "the_ar j m = the_ar j n" using x j len by (simp_all add: P_def xm)
    have fin: "finite (in_use_below j n)" by (simp add: in_use_below_def)
    show ?thesis
    proof (cases "ar_in_use (the_ar j n)")
      case True
      let ?m = "upd_ar j (\<lambda>r. r\<lparr>err_cls := PNET_ERROR_CODE_1_RTA_ERR_CLS_PROTOCOL, err_code := code\<rparr>) m"
      obtain m' where m': "pf_cmdev_state_ind j PNET_EVENT_ABORT ?m = Some m'" "y = (i + 1, m')"
        using y jl True same by (auto simp: abort_active_ar_def xm split: Option.bind_splits)
      have e0: "cm_effect j m ?m [] (modes_of (the_ar j m))" using jl by (intro effect_updI) (simp_all add: modes_of_ios)
      have "cm_effect j ?m m' [PNET_EVENT_ABORT] no_modes" using effect_event_abort [OF m'(1)] jl True same by simp
      then have e: "cm_effect j m m' [PNET_EVENT_ABORT] no_modes" by (rule cm_effect_trans0 [OF e0])
      have "j \<notin> in_use_below j n" by (simp add: in_use_below_def)
      then have "i + 1 = card (in_use_below (Suc j) n)" using x True fin by (simp add: P_def xm in_use_below_Suc)
      then show ?thesis
        using x True effect_closed [OF e] effect_events [OF e] cm_effect_length [OF e]
        unfolding P_def xm m'(2) by (auto simp: less_Suc_eq)
    next
      case False
      then have "y = (i, m)" using y same by (simp add: abort_active_ar_def xm)
      then show ?thesis using x False same by (auto simp: P_def xm less_Suc_eq in_use_below_Suc)
    qed
  qed
  have "P PNET_MAX_AR (k, n')"
    by (rule for_creps_upt [where P = P, OF step assms(2) [unfolded pf_cmina_abort_active_ars_def]])
      (simp_all add: P_def in_use_below_def)
  then have r: "k = card (in_use_below PNET_MAX_AR n)" "\<forall>a < PNET_MAX_AR. \<not> ar_in_use (the_ar a n') \<and>
      fspm_events a (outs n') = fspm_events a (outs n) @ (if ar_in_use (the_ar a n) then [PNET_EVENT_ABORT] else [])"
    by (simp_all add: P_def)
  have "cm_ok n'" by (rule abort_active_ok [OF assms(2) ok])
  then have "set (order n') = {}" using r(2) by (auto simp: cm_ok_def table_ok_def the_ar_def)
  then show ?thesis using r by simp
qed

lemma reset_closes_all_witness:
  "\<exists>n k n'. run_data = Some n \<and> ar_in_use (the_ar 0 n) \<and> pf_cmina_abort_active_ars 31 n = Some (k, n') \<and>
     \<not> ar_in_use (the_ar 0 n')"
proof -
  obtain n where n: "run_data = Some n" "ar_in_use (the_ar 0 n)" using shows_arD [OF run_data] by auto
  have "case (do { n \<leftarrow> run_data; pf_cmina_abort_active_ars 31 n }) of None \<Rightarrow> False | Some (k, n') \<Rightarrow> True"
    by (simp add: cm_eval cong: lazy)
  then obtain k n' where r: "pf_cmina_abort_active_ars 31 n = Some (k, n')"
    unfolding n(1) Option.bind_lunit by (auto split: option.splits)
  then show ?thesis
    using reset_closes_all [OF run_data_reachable [OF n(1)] r] n by (auto simp: PNET_MAX_AR_def)
qed

subsection \<open>The start of an AR\<close>

text \<open>The calls that start an AR, in their order, and those that are made until one fails.\<close>

definition iocr_calls :: "ar \<Rightarrow> nat \<Rightarrow> start_call list" where
  "iocr_calls r c = (case iocr_type (iocrs r ! c) of
     PF_IOCR_TYPE_OUTPUT \<Rightarrow> [Cpm_create c, Cpm_activate_req c]
   | PF_IOCR_TYPE_INPUT \<Rightarrow> [Ppm_create c]
   | _ \<Rightarrow> [])"

fun made :: "(start_call \<Rightarrow> call_result) \<Rightarrow> start_call list \<Rightarrow> start_call list" where
  "made res [] = []"
| "made res (c # cs) = c # (if res c = Success then made res cs else [])"

fun calls_of :: "nat \<Rightarrow> cm_out list \<Rightarrow> start_call list" where
  "calls_of a [] = []"
| "calls_of a (Cm_call b c # os) = (if b = a then c # calls_of a os else calls_of a os)"
| "calls_of a (_ # os) = calls_of a os"

lemma calls_of_append [simp]: "calls_of a (os @ os') = calls_of a os @ calls_of a os'"
  by (induction a os rule: calls_of.induct) auto

lemma made_append: "made res (cs @ cs') = made res cs @ (if list_all (\<lambda>c. res c = Success) cs then made res cs' else [])"
  by (induction cs) auto

text \<open>An ABORT makes none of these calls.\<close>

lemma outs_sched_add: "cmio_add a n = Some n' \<Longrightarrow> outs n' = outs n" "cmsm_restart a n = Some n' \<Longrightarrow> outs n' = outs n"
  by (auto simp: cmio_add_def cmsm_restart_def split: Option.bind_splits)

lemma outs_rest:
  assumes "cmdev_rest a PNET_EVENT_ABORT n = Some n'"
  shows "calls_of b (outs n') = calls_of b (outs n)"
proof -
  obtain n1 where n1: "pf_cmio_cmdev_state_ind a PNET_EVENT_ABORT n = Some n1" "outs n1 = outs n"
    using assms by (cases "ar_cmio (the_ar a n)") (auto simp: cmdev_rest_def pf_cmio_cmdev_state_ind_def split: Option.bind_splits)
  let ?n2 = "pf_cmwrr_cmdev_state_ind a PNET_EVENT_ABORT n1"
  obtain n3 where n3: "pf_cmsm_cmdev_state_ind a PNET_EVENT_ABORT ?n2 = Some n3" "outs n3 = outs n"
    using assms n1 by (cases "ar_cmsm (the_ar a ?n2)")
      (auto simp: cmdev_rest_def pf_cmsm_cmdev_state_ind_def pf_cmwrr_cmdev_state_ind_def Let_def split: Option.bind_splits)
  have "n' = emit_outs [Device_clear a] (pf_ar_release a (emit_outs [Sessions_release a] (pf_cmpbe_cmdev_state_ind a PNET_EVENT_ABORT n3)))"
    using assms n1(1) n3(1) by (simp add: cmdev_rest_def pf_cmrpc_cmdev_state_ind_def)
  then show ?thesis using n3(2) by (simp add: pf_ar_release_def pf_cmpbe_cmdev_state_ind_def Let_def)
qed

lemma outs_close: "calls_of b (outs (cmsu_close a n)) = calls_of b (outs n)"
proof -
  have "calls_of b (concat (map (\<lambda>c. (if P c then [Ppm_close_req a c] else []) @ (if Q c then [Cpm_close_req a c] else [])) cs)) = []"
    for P Q and cs :: "nat list"
    by (induction cs) auto
  then show ?thesis by (simp add: cmsu_close_def Let_def)
qed

lemma outs_error_ind:
  assumes "pf_cmsu_cpm_error_ind a cls code n = Some n'"
  shows "calls_of b (outs n') = calls_of b (outs n)"
proof -
  let ?n = "upd_ar a (\<lambda>r. r\<lparr>err_cls := cls, err_code := code\<rparr>) n"
  let ?n1 = "cmsu_abort a (emit_outs [Fspm_state_ind a PNET_EVENT_ABORT] ?n)"
  have "cmdev_rest a PNET_EVENT_ABORT ?n1 = Some n'" using assms by (simp add: pf_cmsu_cpm_error_ind_def cmdev_abort_def)
  from outs_rest [OF this] have "calls_of b (outs n') = calls_of b (outs ?n1)" .
  also have "\<dots> = calls_of b (outs n)"
    using outs_close [of b a "emit_outs [Fspm_state_ind a PNET_EVENT_ABORT] ?n"]
    by (simp add: cmsu_abort_def split: cmsu_state.split)
  finally show ?thesis .
qed

definition started :: "nat \<Rightarrow> cm_net \<Rightarrow> start_call list \<Rightarrow> start_progress \<Rightarrow> bool" where
  "started a n0 cs = (\<lambda>(ok, st, n). calls_of a (outs n) = calls_of a (outs n0) @ made (call_result n0 a) cs \<and>
     ok = list_all (\<lambda>c. call_result n0 a c = Success) cs \<and>
     (ok \<longrightarrow> iocrs (the_ar a n) = iocrs (the_ar a n0) \<and> call_result n = call_result n0))"

lemma started_stop:
  "started a n0 cs (False, st, n) \<Longrightarrow> started a n0 (cs @ cs') (False, st, n)"
  by (auto simp: started_def made_append)

lemma started_try:
  assumes "started a n0 cs p" "try_start a c code p = Some p'"
  shows "started a n0 (cs @ [c]) p'"
proof -
  obtain ok st n where p: "p = (ok, st, n)" by (cases p)
  show ?thesis
  proof (cases ok)
    case False
    then show ?thesis using assms started_stop [of a n0 cs st n "[c]"] by (auto simp: try_start_def p)
  next
    case True
    let ?n1 = "emit_outs [Cm_call a c] n"
    have res: "call_result n a c = call_result n0 a c" using assms(1) True by (simp add: started_def p)
    show ?thesis
    proof (cases "call_result n a c")
      case Failure_reported
      then obtain n2 st' where n2: "pf_cmsu_cpm_error_ind a PNET_ERROR_CODE_1_CPM PNET_ERROR_CODE_2_CPM_INVALID ?n1 = Some n2"
        "p' = (False, st', n2)"
        using assms(2) True by (auto simp: try_start_def p Let_def split: Option.bind_splits)
      then show ?thesis
        using assms(1) True res Failure_reported outs_error_ind [OF n2(1), of a] by (simp add: started_def p made_append)
    qed (use assms True res in \<open>auto simp: try_start_def p Let_def started_def made_append\<close>)
  qed
qed

lemma started_iocr:
  assumes "started a n0 cs p" "start_iocr a c p = Some p'" "c < length (iocrs (the_ar a n0))"
  shows "started a n0 (cs @ iocr_calls (the_ar a n0) c) p'"
proof -
  obtain ok st n where p: "p = (ok, st, n)" by (cases p)
  show ?thesis
  proof (cases ok)
    case False
    then have "try_start a c code p = Some p" for c code by (simp add: try_start_def p)
    then have "p' = p" using assms(2) by (auto simp: start_iocr_def Let_def split: if_splits Option.bind_splits)
    then show ?thesis using assms(1) False started_stop p by simp
  next
    case True
    then have same: "iocrs (the_ar a n) = iocrs (the_ar a n0)" using assms(1) by (simp add: started_def p)
    show ?thesis
    proof (cases "iocr_type (iocrs (the_ar a n0) ! c)")
      case PF_IOCR_TYPE_OUTPUT
      then obtain p1 where "try_start a (Cpm_create c) PNET_ERROR_CODE_2_CMSU_AR_ADD_PROV_CONS_FAILED p = Some p1"
        "try_start a (Cpm_activate_req c) PNET_ERROR_CODE_2_CMSU_AR_ADD_PROV_CONS_FAILED p1 = Some p'"
        using assms(2,3) same by (auto simp: start_iocr_def Let_def p split: Option.bind_splits)
      from started_try [OF started_try [OF assms(1) this(1)] this(2)] show ?thesis
        using PF_IOCR_TYPE_OUTPUT by (simp add: iocr_calls_def)
    next
      case PF_IOCR_TYPE_INPUT
      then have "try_start a (Ppm_create c) PNET_ERROR_CODE_2_CMSU_AR_ADD_PROV_CONS_FAILED p = Some p'"
        using assms(2,3) same by (simp add: start_iocr_def Let_def p)
      from started_try [OF assms(1) this] show ?thesis
        using PF_IOCR_TYPE_INPUT by (simp add: iocr_calls_def)
    qed (use assms same in \<open>simp_all add: start_iocr_def Let_def p iocr_calls_def\<close>)
  qed
qed

text \<open>C25: The start of an AR makes its calls in the order of the IOCRs: for an output CR the CPM is created and
  activated, for an input CR the PPM is created, and the alarms are activated last. It stops at the first call that
  fails, and it succeeds exactly if none fails.\<close>

theorem start_stops_at_failure:
  assumes "pf_cmsu_start_req a stat n = Some (ret, stat', n')" "ar_cmsu (the_ar a n) = PF_CMSU_STATE_IDLE"
  shows "let calls = concat (map (iocr_calls (the_ar a n)) [0 ..< length (iocrs (the_ar a n))]) @ [Alarm_activate] in
    calls_of a (outs n') = calls_of a (outs n) @ made (call_result n a) calls \<and>
    ret = (if list_all (\<lambda>c. call_result n a c = Success) calls then 0 else - 1)"
proof -
  let ?calls = "\<lambda>i. concat (map (iocr_calls (the_ar a n)) [0 ..< i])" and ?m = "length (iocrs (the_ar a n))"
  obtain p ok n1 where p: "for_creps (start_iocr a) [0 ..< ?m] (True, stat, n) = Some p"
    "try_start a Alarm_activate PNET_ERROR_CODE_2_CMSU_AR_ALARM_OPEN_FAILED p = Some (ok, stat', n1)"
    "ret = (if ok then 0 else - 1)"
    "n' = upd_ar a (ar_cmsu_update (\<lambda>_. PF_CMSU_STATE_STARTUP)) (if ok then pf_cmsm_activate a n1 else n1)"
    using assms by (auto simp: pf_cmsu_start_req_def Let_def split: Option.bind_splits prod.splits)
  have "started a n (?calls ?m) p"
  proof (rule for_creps_upt [where P = "\<lambda>i. started a n (?calls i)", OF _ p(1)])
    show "started a n (?calls (Suc i)) y" if "i < ?m" "started a n (?calls i) x" "start_iocr a i x = Some y" for i x y
      using started_iocr [OF that(2,3,1)] by simp
    show "started a n (?calls 0) (True, stat, n)" by (simp add: started_def)
  qed
  from started_try [OF this p(2)] have "started a n (?calls ?m @ [Alarm_activate]) (ok, stat', n1)" .
  then show ?thesis using p(3,4) by (simp add: started_def pf_cmsm_activate_def Let_def)
qed

definition one_fails :: cm_net where
  "one_fails = (example_start busy_sched)\<lparr>
     ars := replicate (PNET_MAX_AR + 1) (zero_ar\<lparr>ar_in_use := True, iocrs := rq_iocrs example_request\<rparr>),
     call_result := (\<lambda>a c. if c = Cpm_create 1 then Failure else Success)\<rparr>"

lemma start_stops_at_failure_witness:
  "\<exists>ret stat' n'. pf_cmsu_start_req 3 no_error one_fails = Some (ret, stat', n') \<and> ret = - 1 \<and>
     calls_of 3 (outs n') = [Ppm_create 0, Cpm_create 1]"
proof -
  have "case pf_cmsu_start_req 3 no_error one_fails of None \<Rightarrow> False | Some _ \<Rightarrow> True"
    by (simp add: cm_eval one_fails_def cong: lazy)
  then obtain ret stat' n' where r: "pf_cmsu_start_req 3 no_error one_fails = Some (ret, stat', n')"
    by (auto split: option.splits)
  have idle: "ar_cmsu (the_ar 3 one_fails) = PF_CMSU_STATE_IDLE"
    by (simp add: one_fails_def the_ar_def zero_ar_def PNET_MAX_AR_def)
  have "[0 ..< length (iocrs (the_ar 3 one_fails))] = [0, 1]" "iocrs (the_ar 3 one_fails) = rq_iocrs example_request"
    by (simp_all add: one_fails_def the_ar_def PNET_MAX_AR_def example_request_def upt_conv_Cons)
  then show ?thesis
    using start_stops_at_failure [OF r idle] r
    by (simp add: iocr_calls_def example_request_def one_fails_def example_start_def)
qed

end
