(* ===== verification/Alarm_Blocks.thy ===== *)
theory Alarm_Blocks
  imports Wire_Formats
begin

section \<open>The blocks of alarm frames\<close>

text \<open>
  \<open>pf_put_alarm_block\<close> and \<open>pf_put_diag_item\<close> of \<open>pf_block_writer.c\<close>, with the diagnosis items of
  \<open>pf_types.h\<close>, and the encodings that they write. A C union is a record with all its members;
  the code reads only the member that it has written, which \<open>usi\<close> selects.
\<close>

definition PF_FRAME_BUFFER_SIZE :: nat where "PF_FRAME_BUFFER_SIZE = 1500"
definition PF_BT_ALARM_NOTIFICATION_HIGH :: u16 where "PF_BT_ALARM_NOTIFICATION_HIGH = 1"
definition PF_BT_ALARM_NOTIFICATION_LOW :: u16 where "PF_BT_ALARM_NOTIFICATION_LOW = 2"
definition PF_BT_ALARM_ACK_HIGH :: u16 where "PF_BT_ALARM_ACK_HIGH = 0x8001"
definition PF_BT_ALARM_ACK_LOW :: u16 where "PF_BT_ALARM_ACK_LOW = 0x8002"
definition PF_USI_CHANNEL_DIAGNOSIS :: u16 where "PF_USI_CHANNEL_DIAGNOSIS = 0x8000"
definition PF_USI_EXTENDED_CHANNEL_DIAGNOSIS :: u16 where "PF_USI_EXTENDED_CHANNEL_DIAGNOSIS = 0x8002"
definition PF_USI_QUALIFIED_CHANNEL_DIAGNOSIS :: u16 where "PF_USI_QUALIFIED_CHANNEL_DIAGNOSIS = 0x8003"

record pf_diag_std =
  ext_ch_add_value :: u32
  qual_ch_qualifier :: u32
  ch_nbr :: u16
  ch_properties :: u16
  ch_error_type :: u16
  ext_ch_error_type :: u16

text \<open>The first \<open>len\<close> bytes of \<open>manuf_data\<close> are the list \<open>di_manuf_data\<close>.\<close>

record pf_diag_item =
  di_std :: pf_diag_std
  di_manuf_data :: "u8 list"
  di_in_use :: bool
  di_usi :: u16
  di_next :: u16

text \<open>The payload is a diagnosis item or, for manufacturer data, \<open>pl_len\<close> bytes of \<open>pl_data\<close>.\<close>

record pf_alarm_payload =
  pl_usi :: u16
  pl_len :: u16
  pl_data :: "u8 list"
  pl_item :: pf_diag_item

definition is_notification :: "u16 \<Rightarrow> bool" where
  "is_notification bh_type \<longleftrightarrow>
     bh_type = PF_BT_ALARM_NOTIFICATION_LOW \<or> bh_type = PF_BT_ALARM_NOTIFICATION_HIGH"

subsection \<open>The putters\<close>

definition pf_put_diag_item :: "bool \<Rightarrow> pf_diag_item \<Rightarrow> bool \<Rightarrow> unit putter" where
  "pf_put_diag_item e p_item insert_usi = do {
     (if insert_usi then pf_put_uint16 e (di_usi p_item) else State_Monad.return ());
     let std = di_std p_item;
     if di_usi p_item = PF_USI_CHANNEL_DIAGNOSIS then do {
       pf_put_uint16 e (ch_nbr std);
       pf_put_uint16 e (ch_properties std);
       pf_put_uint16 e (ch_error_type std)
     } else if di_usi p_item = PF_USI_EXTENDED_CHANNEL_DIAGNOSIS then do {
       pf_put_uint16 e (ch_nbr std);
       pf_put_uint16 e (ch_properties std);
       pf_put_uint16 e (ch_error_type std);
       pf_put_uint16 e (ext_ch_error_type std);
       pf_put_uint32 e (ext_ch_add_value std)
     } else if di_usi p_item = PF_USI_QUALIFIED_CHANNEL_DIAGNOSIS then do {
       pf_put_uint16 e (ch_nbr std);
       pf_put_uint16 e (ch_properties std);
       pf_put_uint16 e (ch_error_type std);
       pf_put_uint16 e (ext_ch_error_type std);
       pf_put_uint32 e (ext_ch_add_value std);
       pf_put_uint32 e (qual_ch_qualifier std)
     } else pf_put_mem (di_manuf_data p_item)
   }"

text \<open>The bits of the alarm specifier.\<close>

definition specifier_bits :: "pf_alarm_data \<Rightarrow> u16" where
  "specifier_bits d = ucast (put_flag (ad_ar_diagnosis d) 15
     (put_flag (ad_submodule_diagnosis d) 13
     (put_flag (ad_manufacturer_diagnosis d) 12
     (put_flag (ad_channel_diagnosis d) 11
     (pf_put_bits (ucast (ad_sequence_number d)) 11 0 0)))))"

text \<open>The part of a notification that depends on the payload's USI.\<close>

definition put_payload :: "bool \<Rightarrow> u32 \<Rightarrow> pf_alarm_payload \<Rightarrow> unit putter" where
  "put_payload e maint_status p =
     (if pl_usi p = 0 then State_Monad.return ()
      else if pl_usi p = PF_USI_MAINTENANCE then State_Monad.return ()
      else if pl_usi p = PF_USI_CHANNEL_DIAGNOSIS \<or> pl_usi p = PF_USI_EXTENDED_CHANNEL_DIAGNOSIS \<or>
        pl_usi p = PF_USI_QUALIFIED_CHANNEL_DIAGNOSIS
      then do {
        (if maint_status \<noteq> 0 then pf_put_maint_status e maint_status else State_Monad.return ());
        pf_put_diag_item e (pl_item p) True
      }
      else do {
        pf_put_uint16 e (pl_usi p);
        if pl_len p > 0 then pf_put_mem (take (unat (pl_len p)) (pl_data p)) else State_Monad.return ()
      })"

text \<open>
  The status of an acknowledgement is written with \<open>PF_FRAME_BUFFER_SIZE\<close> as the size of the
  buffer; all callers pass this size as \<open>res_len\<close> too. \<open>status\<close> is not NULL for an acknowledgement.
\<close>

definition with_res_len :: "u16 \<Rightarrow> unit putter \<Rightarrow> unit putter" where
  "with_res_len n m = do {
     s \<leftarrow> State_Monad.get;
     State_Monad.set (s\<lparr>res_len := n\<rparr>);
     m;
     State_Monad.update (res_len_update (\<lambda>_. res_len s))
   }"

definition pf_put_alarm_block ::
    "bool \<Rightarrow> u16 \<Rightarrow> pf_alarm_data \<Rightarrow> u32 \<Rightarrow> pf_alarm_payload \<Rightarrow> pnet_pnio_status \<Rightarrow> unit putter" where
  "pf_put_alarm_block e bh_type d maint_status payload status = pf_put_block e bh_type (do {
     pf_put_uint16 e (ad_alarm_type d);
     pf_put_uint32 e (ad_api_id d);
     pf_put_uint16 e (ad_slot_nbr d);
     pf_put_uint16 e (ad_subslot_nbr d);
     (if is_notification bh_type then do {
       pf_put_uint32 e (ad_module_ident d);
       pf_put_uint32 e (ucast (ad_submodule_ident d))
     } else State_Monad.return ());
     pf_put_uint16 e (specifier_bits d);
     if is_notification bh_type then put_payload e maint_status payload
     else with_res_len (of_nat PF_FRAME_BUFFER_SIZE) (pf_put_pnet_status True status)
   })"

subsection \<open>What they write\<close>

definition enc_std :: "bool \<Rightarrow> u16 \<Rightarrow> pf_diag_std \<Rightarrow> u8 list" where
  "enc_std e usi d = concat [enc16 e (ch_nbr d), enc16 e (ch_properties d), enc16 e (ch_error_type d)] @
     (if usi = PF_USI_CHANNEL_DIAGNOSIS then []
      else enc16 e (ext_ch_error_type d) @ enc32 e (ext_ch_add_value d) @
        (if usi = PF_USI_EXTENDED_CHANNEL_DIAGNOSIS then [] else enc32 e (qual_ch_qualifier d)))"

definition is_std :: "u16 \<Rightarrow> bool" where
  "is_std usi \<longleftrightarrow> usi = PF_USI_CHANNEL_DIAGNOSIS \<or> usi = PF_USI_EXTENDED_CHANNEL_DIAGNOSIS \<or>
     usi = PF_USI_QUALIFIED_CHANNEL_DIAGNOSIS"

definition enc_diag_item :: "bool \<Rightarrow> pf_diag_item \<Rightarrow> u8 list" where
  "enc_diag_item e d = enc16 e (di_usi d) @
     (if is_std (di_usi d) then enc_std e (di_usi d) (di_std d) else di_manuf_data d)"

definition enc_maint :: "bool \<Rightarrow> u32 \<Rightarrow> u8 list" where
  "enc_maint e m = enc16 e PF_USI_MAINTENANCE @ enc_block e PF_BT_MAINTENANCE_ITEM ([0, 0] @ enc32 e m)"

definition enc_payload :: "bool \<Rightarrow> u32 \<Rightarrow> pf_alarm_payload \<Rightarrow> u8 list" where
  "enc_payload e m p =
     (if pl_usi p = 0 \<or> pl_usi p = PF_USI_MAINTENANCE then []
      else if is_std (pl_usi p) then (if m = 0 then [] else enc_maint e m) @ enc_diag_item e (pl_item p)
      else enc16 e (pl_usi p) @ take (unat (pl_len p)) (pl_data p))"

definition enc_alarm_data :: "bool \<Rightarrow> bool \<Rightarrow> pf_alarm_data \<Rightarrow> u8 list" where
  "enc_alarm_data e notification d = concat [enc16 e (ad_alarm_type d), enc32 e (ad_api_id d),
     enc16 e (ad_slot_nbr d), enc16 e (ad_subslot_nbr d)] @
     (if notification then enc32 e (ad_module_ident d) @ enc32 e (ucast (ad_submodule_ident d)) else []) @
     enc16 e (specifier_bits d)"

definition enc_alarm_block :: "bool \<Rightarrow> u16 \<Rightarrow> pf_alarm_data \<Rightarrow> u32 \<Rightarrow> pf_alarm_payload \<Rightarrow> pnet_pnio_status \<Rightarrow> u8 list" where
  "enc_alarm_block e bt d m p status = enc_block e bt (enc_alarm_data e (is_notification bt) d @
     (if is_notification bt then enc_payload e m p else enc_status status))"

text \<open>Putters one after the other, as appended encodings.\<close>

lemma writes_seq: "writes m b v \<Longrightarrow> writes (f v) c w \<Longrightarrow> writes (m \<bind> f) (b @ c) w"
  using writes_bind [of m b v f "[c]" w] by simp

lemma writes_then: "writes m b () \<Longrightarrow> writes n c w \<Longrightarrow> writes (m \<bind> (\<lambda>_. n)) (b @ c) w"
  by (rule writes_seq)

lemma writes_skip: "writes (State_Monad.return v) [] v"
  using writes_return [of v] by simp

lemma writes_if: "(c \<Longrightarrow> writes m a v) \<Longrightarrow> (\<not> c \<Longrightarrow> writes n b v) \<Longrightarrow> writes (if c then m else n) (if c then a else b) v"
  by simp

lemma writes_maint_status: "writes (pf_put_maint_status e m) (enc_maint e m) ()"
proof -
  have "writes (do { pf_put_byte 0; pf_put_byte 0; pf_put_uint32 e m }) (concat [enc8 0, enc8 0, enc32 e m]) ()"
    by (rule writes_intros)+
  from writes_seq [OF writes_uint16 writes_block [OF this]] show ?thesis
    by (simp add: pf_put_maint_status_def enc_maint_def enc8_def)
qed

lemma writes_diag_item: "writes (pf_put_diag_item e d True) (enc_diag_item e d) ()"
proof -
  have b: "writes (do { pf_put_uint16 e a; pf_put_uint16 e b; pf_put_uint16 e c })
      (concat [enc16 e a, enc16 e b, enc16 e c]) ()" for a b c
    by (rule writes_intros)+
  have x: "writes (do { pf_put_uint16 e a; pf_put_uint16 e b; pf_put_uint16 e c; pf_put_uint16 e f; pf_put_uint32 e g })
      (concat [enc16 e a, enc16 e b, enc16 e c, enc16 e f, enc32 e g]) ()" for a b c f g
    by (rule writes_intros)+
  have q: "writes (do { pf_put_uint16 e a; pf_put_uint16 e b; pf_put_uint16 e c; pf_put_uint16 e f; pf_put_uint32 e g;
      pf_put_uint32 e h }) (concat [enc16 e a, enc16 e b, enc16 e c, enc16 e f, enc32 e g, enc32 e h]) ()" for a b c f g h
    by (rule writes_intros)+
  show ?thesis
    unfolding pf_put_diag_item_def enc_diag_item_def if_True Let_def
    by (rule writes_seq [OF writes_uint16])
      (use b x q writes_mem in \<open>auto simp: enc_std_def is_std_def PF_USI_CHANNEL_DIAGNOSIS_def
        PF_USI_EXTENDED_CHANNEL_DIAGNOSIS_def PF_USI_QUALIFIED_CHANNEL_DIAGNOSIS_def\<close>)
qed

lemma writes_payload: "writes (put_payload e m p) (enc_payload e m p) ()"
proof -
  have s: "writes (do { (if m \<noteq> 0 then pf_put_maint_status e m else State_Monad.return ());
      pf_put_diag_item e (pl_item p) True }) ((if m = 0 then [] else enc_maint e m) @ enc_diag_item e (pl_item p)) ()"
    by (rule writes_then [OF _ writes_diag_item]) (simp add: writes_maint_status writes_skip)
  have d: "writes (do { pf_put_uint16 e (pl_usi p);
      if pl_len p > 0 then pf_put_mem (take (unat (pl_len p)) (pl_data p)) else State_Monad.return () })
      (enc16 e (pl_usi p) @ take (unat (pl_len p)) (pl_data p)) ()"
    by (rule writes_then [OF writes_uint16]) (auto simp: writes_mem writes_skip not_less)
  show ?thesis
    using s d writes_skip [of "()"] by (auto simp: put_payload_def enc_payload_def is_std_def)
qed

text \<open>In a frame buffer the size that the status is written with is the size of the buffer.\<close>

lemma run_status:
  assumes "room s 4" "res_len s = of_nat PF_FRAME_BUFFER_SIZE"
  shows "run_state (with_res_len (of_nat PF_FRAME_BUFFER_SIZE) (pf_put_pnet_status True st)) s =
    ((), emit (enc_status st) s)"
proof -
  let ?n = "of_nat PF_FRAME_BUFFER_SIZE :: u16" and ?m = "pf_put_pnet_status True st"
  have run: "run_state ?m s = ((), emit (enc_status st) s)"
    using assms by (intro writesD [OF writes_status]) (simp add: enc_status_def numeral_eq_Suc)
  have same: "s\<lparr>res_len := ?n\<rparr> = s" "(emit (enc_status st) s)\<lparr>res_len := ?n\<rparr> = emit (enc_status st) s"
    unfolding assms(2) [symmetric] by (simp_all add: emit_def)
  have "run_state (with_res_len ?n ?m) s = (case run_state ?m (s\<lparr>res_len := ?n\<rparr>) of
      (_, s') \<Rightarrow> ((), s'\<lparr>res_len := res_len s\<rparr>))"
    by (simp add: with_res_len_def State_Monad.update_def)
  then show ?thesis by (simp only: assms(2) same run prod.case)
qed

lemma writes_alarm_data:
  "writes (do {
     pf_put_uint16 e (ad_alarm_type d);
     pf_put_uint32 e (ad_api_id d);
     pf_put_uint16 e (ad_slot_nbr d);
     pf_put_uint16 e (ad_subslot_nbr d);
     (if n then do {
       pf_put_uint32 e (ad_module_ident d);
       pf_put_uint32 e (ucast (ad_submodule_ident d))
     } else State_Monad.return ());
     pf_put_uint16 e (specifier_bits d)
   }) (enc_alarm_data e n d) ()"
  unfolding enc_alarm_data_def concat.simps append_assoc append_Nil2
  by (intro writes_then writes_uint16 writes_uint32 writes_if writes_skip)

lemma alarm_block_parts:
  "pf_put_alarm_block e bt d m p st = pf_put_block e bt (do {
     do {
       pf_put_uint16 e (ad_alarm_type d);
       pf_put_uint32 e (ad_api_id d);
       pf_put_uint16 e (ad_slot_nbr d);
       pf_put_uint16 e (ad_subslot_nbr d);
       (if is_notification bt then do {
         pf_put_uint32 e (ad_module_ident d);
         pf_put_uint32 e (ucast (ad_submodule_ident d))
       } else State_Monad.return ());
       pf_put_uint16 e (specifier_bits d)
     };
     if is_notification bt then put_payload e m p
     else with_res_len (of_nat PF_FRAME_BUFFER_SIZE) (pf_put_pnet_status True st)
   })"
  by (simp add: pf_put_alarm_block_def)

lemma run_bind:
  "run_state m s = (v, emit bs s) \<Longrightarrow> run_state (f v) (emit bs s) = (w, emit cs (emit bs s)) \<Longrightarrow>
   room s (length (bs @ cs)) \<Longrightarrow> run_state (m \<bind> f) s = (w, emit (bs @ cs) s)"
  by (simp add: emit_append)

text \<open>What an alarm block is in a frame buffer that has room for it.\<close>

lemma run_alarm_block:
  assumes r: "room s (length (enc_alarm_block e bt d m p st))" and l: "res_len s = of_nat PF_FRAME_BUFFER_SIZE"
  shows "run_state (pf_put_alarm_block e bt d m p st) s = ((), emit (enc_alarm_block e bt d m p st) s)"
proof -
  let ?t = "if is_notification bt then enc_payload e m p else enc_status st"
  let ?s = "emit (prov_header e bt) s"
  have r': "room ?s (length (enc_alarm_data e (is_notification bt) d @ ?t))"
    by (rule room_emit, rule room_mono [OF r]) (simp add: enc_alarm_block_def)
  then have 1: "room ?s (length (enc_alarm_data e (is_notification bt) d))"
    by (rule room_mono) simp
  have 2: "room (emit (enc_alarm_data e (is_notification bt) d) ?s) (length ?t)"
    by (rule room_emit) (use r' in simp)
  have 3: "run_state (if is_notification bt then put_payload e m p
      else with_res_len (of_nat PF_FRAME_BUFFER_SIZE) (pf_put_pnet_status True st))
    (emit (enc_alarm_data e (is_notification bt) d) ?s) = ((), emit ?t (emit (enc_alarm_data e (is_notification bt) d) ?s))"
  proof (cases "is_notification bt")
    case True
    then show ?thesis using writesD [OF writes_payload] 2 by simp
  next
    case False
    then show ?thesis using run_status 2 l by (simp add: emit_simps enc_status_def numeral_eq_Suc)
  qed
  show ?thesis
    unfolding alarm_block_parts enc_alarm_block_def
    by (rule run_block [OF r [unfolded enc_alarm_block_def]], rule run_bind [OF writesD [OF writes_alarm_data 1] 3 r'])
qed

subsection \<open>Reading alarm data\<close>

lemma bit_less_2048: "w < 2048 \<Longrightarrow> bit (w :: u16) n \<Longrightarrow> n < 11"
proof -
  assume "w < 2048" and b: "bit w n"
  then have "take_bit 11 w = w"
    by (simp add: take_bit_eq_mod mod_word_less)
  then have "bit (take_bit 11 w) n" using b by simp
  then show "n < 11" by (simp add: bit_take_bit_iff)
qed

lemma bit_put_flag: "bit (put_flag b k w) n \<longleftrightarrow> bit w n \<or> n = k \<and> k < 32 \<and> b"
  by (cases b) (auto simp: put_flag_def pf_put_bits_bit bit_simps)

lemma bit_put_seq: "bit (pf_put_bits (ucast (w :: u16)) 11 0 0) n \<longleftrightarrow> n < 11 \<and> bit w n"
  by (auto simp: pf_put_bits_bit bit_simps)

lemma specifier_bit:
  "bit (specifier_bits d) n \<longleftrightarrow> n < 11 \<and> bit (ad_sequence_number d) n \<or> n = 11 \<and> ad_channel_diagnosis d \<or>
     n = 12 \<and> ad_manufacturer_diagnosis d \<or> n = 13 \<and> ad_submodule_diagnosis d \<or> n = 15 \<and> ad_ar_diagnosis d"
  unfolding specifier_bits_def bit_unsigned_iff bit_put_flag bit_put_seq by auto

lemma with_specifier_bits:
  assumes "ad_sequence_number d < 2048"
  shows "with_specifier (specifier_bits d) c = c\<lparr>ad_sequence_number := ad_sequence_number d,
    ad_channel_diagnosis := ad_channel_diagnosis d, ad_manufacturer_diagnosis := ad_manufacturer_diagnosis d,
    ad_submodule_diagnosis := ad_submodule_diagnosis d, ad_ar_diagnosis := ad_ar_diagnosis d\<rparr>"
proof -
  have "ucast (pf_get_bits (ucast (specifier_bits d)) 0 11) = ad_sequence_number d"
    by (rule bit_eqI) (auto simp: pf_get_bits_bit bit_simps specifier_bit dest: bit_less_2048 [OF assms])
  then show ?thesis
    unfolding with_specifier_def pf_get_bits_1 bit_unsigned_iff specifier_bit by simp
qed

lemma reads_alarm_data:
  assumes "ad_sequence_number d < 2048"
  shows "reads e (pf_get_alarm_data c) (enc_alarm_data e True d) d"
proof -
  have eq: "enc_alarm_data e True d = concat [enc16 e (ad_alarm_type d), enc32 e (ad_api_id d),
     enc16 e (ad_slot_nbr d), enc16 e (ad_subslot_nbr d), enc32 e (ad_module_ident d),
     enc32 e (ucast (ad_submodule_ident d)), enc16 e (specifier_bits d)]"
    by (simp add: enc_alarm_data_def)
  have u: "ucast (ucast (w :: u16) :: u32) = w" for w
    by (rule bit_eqI) (auto simp: bit_simps)
  show ?thesis
    unfolding pf_get_alarm_data_def eq
    by ((rule reads_intros)+, rule reads_return) (simp add: with_specifier_bits [OF assms] u)
qed

end
