(* ===== verification/Alarm_Queue.thy ===== *)
theory Alarm_Queue
  imports Plug Alarm_Blocks
begin

section \<open>The alarm queues\<close>

text \<open>
  The queues of \<open>pf_alarm.c\<close>: a ring of \<open>PNET_MAX_ALARMS\<close> items with an accountant, which both the
  receive queue (frames) and the send queue (alarms) use. A queue is available between
  \<open>pf_alarm_queue_mutex_create\<close> and \<open>pf_alarm_queue_mutex_destroy\<close>. Both queues are instances of the
  interface \<open>bounded_fifo\<close>.
\<close>

definition PNET_MAX_ALARMS :: nat where "PNET_MAX_ALARMS = 2"

text \<open>An incoming frame; its buffer is the list of its bytes, \<open>None\<close> for NULL.\<close>

record pf_apmr_msg =
  frame_id_pos :: u16
  msg_buf :: "u8 list option"

text \<open>\<open>pf_alarm_data_t\<close> with its payload.\<close>

record alarm_data = pf_alarm_data +
  ad_payload :: pf_alarm_payload

record pf_queue_accountant =
  write_index :: nat
  read_index :: nat
  q_count :: nat
  q_mutex :: bool

record 'x alarm_queue =
  accountant :: pf_queue_accountant
  q_items :: "'x list"

subsection \<open>The accountant\<close>

definition pf_alarm_queue_mutex_create :: "pf_queue_accountant \<Rightarrow> pf_queue_accountant" where
  "pf_alarm_queue_mutex_create c = (if \<not> q_mutex c then c\<lparr>q_mutex := True\<rparr> else c)"

definition pf_alarm_queue_mutex_destroy :: "pf_queue_accountant \<Rightarrow> pf_queue_accountant" where
  "pf_alarm_queue_mutex_destroy c = (if q_mutex c then c\<lparr>q_mutex := False\<rparr> else c)"

definition pf_alarm_queue_is_available :: "pf_queue_accountant \<Rightarrow> bool" where
  "pf_alarm_queue_is_available c \<longleftrightarrow> q_mutex c"

definition pf_alarm_queue_accountant_reset :: "pf_queue_accountant \<Rightarrow> pf_queue_accountant" where
  "pf_alarm_queue_accountant_reset c = c\<lparr>q_count := 0, read_index := 0, write_index := 0\<rparr>"

text \<open>The next index and the accountant, or \<open>None\<close> for the result \<open>-1\<close>.\<close>

definition pf_alarm_queue_get_writeindex :: "pf_queue_accountant \<Rightarrow> (nat \<times> pf_queue_accountant) option" where
  "pf_alarm_queue_get_writeindex c =
     (if q_count c \<ge> PNET_MAX_ALARMS then None
      else let
        i = write_index c;
        c = c\<lparr>write_index := write_index c + 1\<rparr>;
        c = (if write_index c \<ge> PNET_MAX_ALARMS then c\<lparr>write_index := 0\<rparr> else c)
      in Some (i, c\<lparr>q_count := q_count c + 1\<rparr>))"

definition pf_alarm_queue_get_readindex :: "pf_queue_accountant \<Rightarrow> (nat \<times> pf_queue_accountant) option" where
  "pf_alarm_queue_get_readindex c =
     (if q_count c = 0 then None
      else let
        i = read_index c;
        c = c\<lparr>read_index := read_index c + 1\<rparr>;
        c = (if read_index c \<ge> PNET_MAX_ALARMS then c\<lparr>read_index := 0\<rparr> else c)
      in Some (i, c\<lparr>q_count := q_count c - 1\<rparr>))"

subsection \<open>The receive queue\<close>

definition no_msg :: pf_apmr_msg where
  "no_msg = \<lparr>frame_id_pos = 0, msg_buf = None\<rparr>"

text \<open>Resetting the queue also returns the buffers that it frees.\<close>

definition pf_alarm_receive_queue_reset ::
    "pf_apmr_msg alarm_queue \<Rightarrow> u8 list list \<times> pf_apmr_msg alarm_queue" where
  "pf_alarm_receive_queue_reset q =
     (if \<not> pf_alarm_queue_is_available (accountant q) then ([], q)
      else (List.map_filter msg_buf (q_items q),
        q\<lparr>accountant := pf_alarm_queue_accountant_reset (accountant q), q_items := map (\<lambda>_. no_msg) (q_items q)\<rparr>))"

definition pf_alarm_receive_queue_post ::
    "pf_apmr_msg \<Rightarrow> pf_apmr_msg alarm_queue \<Rightarrow> int \<times> pf_apmr_msg alarm_queue" where
  "pf_alarm_receive_queue_post p_alarm_frame q =
     (if \<not> pf_alarm_queue_is_available (accountant q) then (- 1, q)
      else case pf_alarm_queue_get_writeindex (accountant q) of
        None \<Rightarrow> (- 1, q)
      | Some (i, c) \<Rightarrow> (0, q\<lparr>accountant := c, q_items := (q_items q)[i := p_alarm_frame]\<rparr>))"

definition pf_alarm_receive_queue_fetch ::
    "pf_apmr_msg alarm_queue \<Rightarrow> (pf_apmr_msg \<times> pf_apmr_msg alarm_queue) option" where
  "pf_alarm_receive_queue_fetch q =
     (if \<not> pf_alarm_queue_is_available (accountant q) then None
      else case pf_alarm_queue_get_readindex (accountant q) of
        None \<Rightarrow> None
      | Some (i, c) \<Rightarrow> Some (q_items q ! i, q\<lparr>accountant := c, q_items := (q_items q)[i := no_msg]\<rparr>))"

subsection \<open>The send queue\<close>

definition zero_diag_item :: pf_diag_item where
  "zero_diag_item = \<lparr>di_std = \<lparr>ext_ch_add_value = 0, qual_ch_qualifier = 0, ch_nbr = 0, ch_properties = 0,
     ch_error_type = 0, ext_ch_error_type = 0\<rparr>, di_manuf_data = [], di_in_use = False, di_usi = 0, di_next = 0\<rparr>"

definition zero_alarm_data :: alarm_data where
  "zero_alarm_data = \<lparr>ad_alarm_type = 0, ad_api_id = 0, ad_slot_nbr = 0, ad_subslot_nbr = 0, ad_module_ident = 0,
     ad_submodule_ident = 0, ad_channel_diagnosis = False, ad_manufacturer_diagnosis = False,
     ad_submodule_diagnosis = False, ad_ar_diagnosis = False, ad_sequence_number = 0,
     ad_payload = \<lparr>pl_usi = 0, pl_len = 0, pl_data = [], pl_item = zero_diag_item\<rparr>\<rparr>"

definition pf_alarm_send_queue_reset :: "alarm_data alarm_queue \<Rightarrow> alarm_data alarm_queue" where
  "pf_alarm_send_queue_reset q =
     (if \<not> pf_alarm_queue_is_available (accountant q) then q
      else q\<lparr>accountant := pf_alarm_queue_accountant_reset (accountant q),
             q_items := map (\<lambda>_. zero_alarm_data) (q_items q)\<rparr>)"

definition pf_alarm_send_queue_post :: "alarm_data \<Rightarrow> alarm_data alarm_queue \<Rightarrow> int \<times> alarm_data alarm_queue" where
  "pf_alarm_send_queue_post p_alarm_data q =
     (if \<not> pf_alarm_queue_is_available (accountant q) then (- 1, q)
      else case pf_alarm_queue_get_writeindex (accountant q) of
        None \<Rightarrow> (- 1, q)
      | Some (i, c) \<Rightarrow> (0, q\<lparr>accountant := c, q_items := (q_items q)[i := p_alarm_data]\<rparr>))"

definition pf_alarm_send_queue_fetch :: "alarm_data alarm_queue \<Rightarrow> (alarm_data \<times> alarm_data alarm_queue) option" where
  "pf_alarm_send_queue_fetch q =
     (if \<not> pf_alarm_queue_is_available (accountant q) then None
      else case pf_alarm_queue_get_readindex (accountant q) of
        None \<Rightarrow> None
      | Some (i, c) \<Rightarrow> Some (q_items q ! i, q\<lparr>accountant := c\<rparr>))"

subsection \<open>The rings as queues\<close>

text \<open>The contents, first entry first, and the state of an available queue.\<close>

definition q_contents :: "'x alarm_queue \<Rightarrow> 'x list" where
  "q_contents q = map (\<lambda>k. q_items q ! ((read_index (accountant q) + k) mod PNET_MAX_ALARMS)) [0 ..< q_count (accountant q)]"

definition q_ok :: "'x alarm_queue \<Rightarrow> bool" where
  "q_ok q \<longleftrightarrow> q_mutex (accountant q) \<and> read_index (accountant q) < PNET_MAX_ALARMS \<and>
     q_count (accountant q) \<le> PNET_MAX_ALARMS \<and> length (q_items q) = PNET_MAX_ALARMS \<and>
     write_index (accountant q) = (read_index (accountant q) + q_count (accountant q)) mod PNET_MAX_ALARMS"

text \<open>Putting an item at the write index and taking the one at the read index, whose slot gets \<open>f\<close>.\<close>

definition put_item :: "'x \<Rightarrow> 'x alarm_queue \<Rightarrow> 'x alarm_queue" where
  "put_item x q = (case pf_alarm_queue_get_writeindex (accountant q) of
     None \<Rightarrow> q | Some (i, c) \<Rightarrow> q\<lparr>accountant := c, q_items := (q_items q)[i := x]\<rparr>)"

definition take_item :: "('x \<Rightarrow> 'x) \<Rightarrow> 'x alarm_queue \<Rightarrow> 'x alarm_queue" where
  "take_item f q = (case pf_alarm_queue_get_readindex (accountant q) of
     None \<Rightarrow> q | Some (i, c) \<Rightarrow> q\<lparr>accountant := c, q_items := (q_items q)[i := f (q_items q ! i)]\<rparr>)"

lemma length_q_contents [simp]: "length (q_contents q) = q_count (accountant q)"
  by (simp add: q_contents_def)

lemma q_contents_Nil: "q_contents q = [] \<longleftrightarrow> q_count (accountant q) = 0"
  using length_q_contents [of q] by (metis length_0_conv)

lemma max_alarms_pos: "0 < PNET_MAX_ALARMS"
  by (simp add: PNET_MAX_ALARMS_def)

lemma wrap_suc: "i < n \<Longrightarrow> (if i + 1 \<ge> n then 0 else i + 1) = (i + 1) mod n" for i n :: nat
  by (auto simp: le_Suc_eq)

lemma put_item_room:
  assumes "q_ok q" "q_count (accountant q) < PNET_MAX_ALARMS"
  shows "q_ok (put_item x q) \<and> q_contents (put_item x q) = q_contents q @ [x]"
proof -
  let ?n = PNET_MAX_ALARMS and ?c = "accountant q"
  have w: "write_index ?c < ?n" using assms(1) max_alarms_pos by (simp add: q_ok_def)
  have p: "put_item x q = q\<lparr>accountant := ?c\<lparr>write_index := (write_index ?c + 1) mod ?n, q_count := q_count ?c + 1\<rparr>,
      q_items := (q_items q)[write_index ?c := x]\<rparr>"
    using assms(2) w by (auto simp: put_item_def pf_alarm_queue_get_writeindex_def Let_def le_Suc_eq)
  have "q_ok (put_item x q)"
    using assms by (simp add: p q_ok_def mod_Suc_eq)
  moreover have "q_contents (put_item x q) = q_contents q @ [x]"
    unfolding p q_contents_def using assms w ring_index_neq [of "read_index ?c" ?n _ "q_count ?c"]
    by (auto simp: q_ok_def)
  ultimately show ?thesis by simp
qed

lemma take_item_first:
  assumes "q_ok q" "0 < q_count (accountant q)"
  shows "q_ok (take_item f q) \<and> q_contents (take_item f q) = tl (q_contents q)"
proof -
  let ?n = PNET_MAX_ALARMS and ?c = "accountant q"
  have r: "read_index ?c < ?n" using assms(1) by (simp add: q_ok_def)
  have t: "take_item f q = q\<lparr>accountant := ?c\<lparr>read_index := (read_index ?c + 1) mod ?n, q_count := q_count ?c - 1\<rparr>,
      q_items := (q_items q)[read_index ?c := f (q_items q ! read_index ?c)]\<rparr>"
    using assms(2) r by (auto simp: take_item_def pf_alarm_queue_get_readindex_def Let_def le_Suc_eq)
  obtain m where m: "q_count ?c = Suc m" using assms(2) by (auto simp: gr0_conv_Suc)
  have "q_ok (take_item f q)"
    using assms(1) by (simp add: t m q_ok_def mod_add_left_eq max_alarms_pos)
  moreover have "q_contents (take_item f q) = tl (q_contents q)"
  proof (rule nth_equalityI)
    fix k assume "k < length (q_contents (take_item f q))"
    then have k: "k < q_count ?c - 1" by (simp add: t)
    then have "(read_index ?c + Suc k) mod ?n \<noteq> (read_index ?c + 0) mod ?n"
      using r assms(1) by (intro ring_index_neq [of _ _ 0 "Suc k"]) (auto simp: q_ok_def)
    then have "(read_index ?c + Suc k) mod ?n \<noteq> read_index ?c" using r by simp
    then show "q_contents (take_item f q) ! k = tl (q_contents q) ! k"
      using k by (simp add: q_contents_def t m nth_tl mod_add_left_eq del: upt_Suc)
  qed (simp add: t)
  ultimately show ?thesis by simp
qed

interpretation alarm_ring: bounded_fifo q_contents q_ok put_item "take_item f" PNET_MAX_ALARMS for f :: "'x \<Rightarrow> 'x"
proof
  fix q :: "'x alarm_queue" and x
  assume ok: "q_ok q"
  show "length (q_contents q) < PNET_MAX_ALARMS \<Longrightarrow> q_ok (put_item x q) \<and> q_contents (put_item x q) = q_contents q @ [x]"
    using put_item_room ok by simp
  show "length (q_contents q) = PNET_MAX_ALARMS \<Longrightarrow> put_item x q = q"
    by (simp add: put_item_def pf_alarm_queue_get_writeindex_def)
  show "q_contents q \<noteq> [] \<Longrightarrow> q_ok (take_item f q) \<and> q_contents (take_item f q) = tl (q_contents q)"
    using take_item_first [OF ok] by (simp add: q_contents_Nil)
  show "length (q_contents q) \<le> PNET_MAX_ALARMS" using ok by (simp add: q_ok_def)
qed

lemma q_contents_hd: "q_ok q \<Longrightarrow> 0 < q_count (accountant q) \<Longrightarrow> q_items q ! read_index (accountant q) = hd (q_contents q)"
  by (simp add: q_contents_def q_ok_def hd_map upt_conv_Cons)

subsection \<open>The operations of the code\<close>

lemma send_queue_post:
  assumes "q_ok q"
  shows "pf_alarm_send_queue_post d q = (if length (q_contents q) < PNET_MAX_ALARMS then 0 else - 1, put_item d q)"
  using assms by (auto simp: pf_alarm_send_queue_post_def put_item_def q_ok_def pf_alarm_queue_is_available_def
      pf_alarm_queue_get_writeindex_def Let_def)

lemma receive_queue_post:
  assumes "q_ok q"
  shows "pf_alarm_receive_queue_post d q = (if length (q_contents q) < PNET_MAX_ALARMS then 0 else - 1, put_item d q)"
  using assms by (auto simp: pf_alarm_receive_queue_post_def put_item_def q_ok_def pf_alarm_queue_is_available_def
      pf_alarm_queue_get_writeindex_def Let_def)

lemma send_queue_fetch:
  assumes "q_ok q"
  shows "pf_alarm_send_queue_fetch q =
    (if q_contents q = [] then None else Some (hd (q_contents q), take_item (\<lambda>x. x) q))"
  using assms q_contents_hd [OF assms]
  by (auto simp: pf_alarm_send_queue_fetch_def take_item_def q_ok_def pf_alarm_queue_is_available_def q_contents_Nil
      pf_alarm_queue_get_readindex_def Let_def)

lemma receive_queue_fetch:
  assumes "q_ok q"
  shows "pf_alarm_receive_queue_fetch q =
    (if q_contents q = [] then None else Some (hd (q_contents q), take_item (\<lambda>_. no_msg) q))"
  using assms q_contents_hd [OF assms]
  by (auto simp: pf_alarm_receive_queue_fetch_def take_item_def q_ok_def pf_alarm_queue_is_available_def q_contents_Nil
      pf_alarm_queue_get_readindex_def Let_def)

lemma queue_resets:
  "q_mutex (accountant q) \<Longrightarrow> length (q_items q) = PNET_MAX_ALARMS \<Longrightarrow>
    q_ok (snd (pf_alarm_receive_queue_reset q)) \<and> q_contents (snd (pf_alarm_receive_queue_reset q)) = []"
  "q_mutex (accountant p) \<Longrightarrow> length (q_items p) = PNET_MAX_ALARMS \<Longrightarrow>
    q_ok (pf_alarm_send_queue_reset p) \<and> q_contents (pf_alarm_send_queue_reset p) = []"
  by (auto simp: pf_alarm_receive_queue_reset_def pf_alarm_send_queue_reset_def pf_alarm_queue_is_available_def
      pf_alarm_queue_accountant_reset_def q_ok_def q_contents_def PNET_MAX_ALARMS_def)

end
