(* ===== verification/Alarm_State.thy ===== *)
theory Alarm_State
  imports Alarm_Queue Timer_Tick Cm_Dev
begin

section \<open>The state of the alarm component\<close>

text \<open>
  The alarm part of \<open>pf_ar_t\<close> and of \<open>pnet_t\<close>. Each AR has an APMS and APMR (transport) and an
  ALPMI and ALPMR (protocol) for low priority, index 0, and one for high priority, index 1. A pointer
  to an APMX is the pair of the AR and this index. An operation is \<open>None\<close> where an assertion fails
  or a NULL pointer is followed. Frames are lists of bytes. \<open>al_outs\<close> records, oldest first, what the
  component does outside: frames sent, calls of the application, and the buffers that it allocates,
  takes over and frees. The result of an allocation or of sending may depend on all that happened
  before: it is a function of the number of entries of \<open>al_outs\<close>.
\<close>

definition ALARM_VLAN_PRIO_LOW :: u16 where "ALARM_VLAN_PRIO_LOW = 5"
definition ALARM_VLAN_PRIO_HIGH :: u16 where "ALARM_VLAN_PRIO_HIGH = 6"
definition PF_FRAME_ID_ALARM_HIGH :: u16 where "PF_FRAME_ID_ALARM_HIGH = 0xfc01"
definition PF_FRAME_ID_ALARM_LOW :: u16 where "PF_FRAME_ID_ALARM_LOW = 0xfe01"

definition PF_RTA_PDU_TYPE_DATA :: u8 where "PF_RTA_PDU_TYPE_DATA = 1"
definition PF_RTA_PDU_TYPE_NACK :: u8 where "PF_RTA_PDU_TYPE_NACK = 2"
definition PF_RTA_PDU_TYPE_ACK :: u8 where "PF_RTA_PDU_TYPE_ACK = 3"
definition PF_RTA_PDU_TYPE_ERR :: u8 where "PF_RTA_PDU_TYPE_ERR = 4"
definition PF_ALARM_PDU_TYPE_VERSION_1 :: u8 where "PF_ALARM_PDU_TYPE_VERSION_1 = 1"
definition PF_ALARM_NUMBER_OF_PRIORITY_LEVELS :: nat where "PF_ALARM_NUMBER_OF_PRIORITY_LEVELS = 2"

datatype alpmi_state = PF_ALPMI_STATE_W_START | PF_ALPMI_STATE_W_ALARM | PF_ALPMI_STATE_W_ACK
datatype alpmr_state =
    PF_ALPMR_STATE_W_START | PF_ALPMR_STATE_W_NOTIFY | PF_ALPMR_STATE_W_USER_ACK | PF_ALPMR_STATE_W_TACK
datatype apms_state = PF_APMS_STATE_CLOSED | PF_APMS_STATE_OPEN | PF_APMS_STATE_WTACK
datatype apmr_state = PF_APMR_STATE_CLOSED | PF_APMR_STATE_OPEN | PF_APMR_STATE_WCNF

text \<open>Other components have timers in the same scheduler.\<close>

datatype alarm_cb = Apms_timeout | Other_timer

type_synonym apmx_ptr = "nat \<times> nat"

record apmx =
  ax_p_ar :: "nat option"
  ax_p_alpmx :: "apmx_ptr option"
  ax_da :: "u8 list"
  ax_src_ref :: u16
  ax_dst_ref :: u16
  apms_state :: apms_state
  apmr_state :: apmr_state
  send_seq_count :: u16
  send_seq_count_o :: u16
  exp_seq_count :: u16
  exp_seq_count_o :: u16
  alarm_receive_q :: "pf_apmr_msg alarm_queue"
  p_rta :: "u8 list option"
  high_priority :: bool
  vlan_prio :: u16
  block_type_alarm_notify :: u16
  block_type_alarm_ack :: u16
  ax_frame_id :: u16
  timeout_us :: u32
  resend_timeout :: sched_handle
  resend_counter :: u32

record alpmx =
  alpmx_da :: "u8 list"
  prev_sequence_number :: u16
  sequence_number :: u16
  alpmi_state :: alpmi_state
  alpmr_state :: alpmr_state

record alarm_ar =
  al_in_use :: bool
  al_arep :: nat
  al_enable :: bool
  al_err_cls :: u8
  al_err_code :: u8
  al_cmsu :: cmsu_state
  cm_initiator_mac_add :: "u8 list"
  alarm_cr_request :: pf_alarm_cr_request
  alarm_cr_result :: pf_alarm_cr_result
  pull_module_allowed :: bool
  apmxs :: "apmx list"
  alpmxs :: "alpmx list"
  alarm_send_q :: "alarm_data alarm_queue list"

record alarm_endpoint =
  ep_active :: bool
  ep_ar :: "nat option"

datatype ownsm_state = PF_OWNSM_STATE_FREE | PF_OWNSM_STATE_SOL | PF_OWNSM_STATE_IOS | PF_OWNSM_STATE_IOC

record pf_subslot =
  ownsm_state :: ownsm_state
  owner :: "nat option"
  diag_list :: u16

text \<open>The argument of the application's callback is a \<open>pf_alarm_data\<close> without the idents.\<close>

datatype alarm_out =
    Buf_alloc bool
  | Buf_taken
  | Buf_free
  | Eth_send "u8 list"
  | Fspm_state_abort nat
  | Fspm_alarm_ind nat pf_alarm_data u16 u16 "u8 list"
  | Fspm_alarm_cnf nat pnet_pnio_status
  | Fspm_alarm_ack_cnf nat int
  | Fspm_log_book nat pnet_pnio_status
  | Frame_id_map_add u16
  | Frame_id_map_remove u16

text \<open>
  \<open>subslot_of\<close> is the lookup in the device tree by API, slot and subslot, \<open>apmx_name\<close> the address of
  the literal that names the resend timers.
\<close>

record alarm_net =
  al_sched :: "(alarm_cb, apmx_ptr) sched"
  al_clock :: u32
  apmx_name :: name_ptr
  global_alarm_enable :: bool
  al_ars :: "alarm_ar list"
  alarm_endpoints :: "alarm_endpoint list"
  device_mac :: "u8 list"
  subslot_of :: "u32 \<Rightarrow> u16 \<Rightarrow> u16 \<Rightarrow> pf_subslot option"
  diag_items :: "pf_diag_item list"
  alloc_ok :: "nat \<Rightarrow> bool"
  send_ok :: "nat \<Rightarrow> bool"
  al_outs :: "alarm_out list"

subsection \<open>A released AR\<close>

definition zero_queue :: "'x \<Rightarrow> 'x alarm_queue" where
  "zero_queue x = \<lparr>accountant = \<lparr>write_index = 0, read_index = 0, q_count = 0, q_mutex = False\<rparr>,
     q_items = replicate PNET_MAX_ALARMS x\<rparr>"

definition zero_apmx :: apmx where
  "zero_apmx = \<lparr>ax_p_ar = None, ax_p_alpmx = None, ax_da = replicate 6 0, ax_src_ref = 0, ax_dst_ref = 0,
     apms_state = PF_APMS_STATE_CLOSED, apmr_state = PF_APMR_STATE_CLOSED, send_seq_count = 0, send_seq_count_o = 0,
     exp_seq_count = 0, exp_seq_count_o = 0, alarm_receive_q = zero_queue no_msg, p_rta = None, high_priority = False,
     vlan_prio = 0, block_type_alarm_notify = 0, block_type_alarm_ack = 0, ax_frame_id = 0, timeout_us = 0,
     resend_timeout = \<lparr>h_name = 0, timer_index = 0\<rparr>, resend_counter = 0\<rparr>"

definition zero_alpmx :: alpmx where
  "zero_alpmx = \<lparr>alpmx_da = replicate 6 0, prev_sequence_number = 0, sequence_number = 0,
     alpmi_state = PF_ALPMI_STATE_W_START, alpmr_state = PF_ALPMR_STATE_W_START\<rparr>"

definition zero_cr_request :: pf_alarm_cr_request where
  "zero_cr_request = \<lparr>acr_alarm_cr_type = 0, acr_lt_field = 0, acr_priority = False, acr_transport_udp = False,
     acr_rta_timeout_factor = 0, acr_rta_retries = 0, acr_local_alarm_reference = 0, acr_max_alarm_data_length = 0,
     acr_tag_header_high = \<lparr>th_vlan_id = 0, th_alarm_user_priority = 0\<rparr>,
     acr_tag_header_low = \<lparr>th_vlan_id = 0, th_alarm_user_priority = 0\<rparr>\<rparr>"

definition zero_alarm_ar :: alarm_ar where
  "zero_alarm_ar = \<lparr>al_in_use = False, al_arep = 0, al_enable = False, al_err_cls = 0, al_err_code = 0,
     al_cmsu = PF_CMSU_STATE_IDLE, cm_initiator_mac_add = replicate 6 0, alarm_cr_request = zero_cr_request,
     alarm_cr_result = \<lparr>acres_alarm_cr_type = 0, acres_local_alarm_reference = 0, acres_max_alarm_data_length = 0\<rparr>,
     pull_module_allowed = False, apmxs = replicate 2 zero_apmx, alpmxs = replicate 2 zero_alpmx,
     alarm_send_q = replicate 2 (zero_queue zero_alarm_data)\<rparr>"

subsection \<open>Access\<close>

definition al_ar :: "nat \<Rightarrow> alarm_net \<Rightarrow> alarm_ar" where
  "al_ar a n = al_ars n ! a"

definition upd_al :: "nat \<Rightarrow> (alarm_ar \<Rightarrow> alarm_ar) \<Rightarrow> alarm_net \<Rightarrow> alarm_net" where
  "upd_al a f n = n\<lparr>al_ars := upd a f (al_ars n)\<rparr>"

definition apmx_at :: "apmx_ptr \<Rightarrow> alarm_net \<Rightarrow> apmx" where
  "apmx_at p n = apmxs (al_ar (fst p) n) ! snd p"

definition upd_apmx :: "apmx_ptr \<Rightarrow> (apmx \<Rightarrow> apmx) \<Rightarrow> alarm_net \<Rightarrow> alarm_net" where
  "upd_apmx p f n = upd_al (fst p) (\<lambda>r. r\<lparr>apmxs := upd (snd p) f (apmxs r)\<rparr>) n"

definition alpmx_at :: "apmx_ptr \<Rightarrow> alarm_net \<Rightarrow> alpmx" where
  "alpmx_at p n = alpmxs (al_ar (fst p) n) ! snd p"

definition upd_alpmx :: "apmx_ptr \<Rightarrow> (alpmx \<Rightarrow> alpmx) \<Rightarrow> alarm_net \<Rightarrow> alarm_net" where
  "upd_alpmx p f n = upd_al (fst p) (\<lambda>r. r\<lparr>alpmxs := upd (snd p) f (alpmxs r)\<rparr>) n"

definition al_emit :: "alarm_out list \<Rightarrow> alarm_net \<Rightarrow> alarm_net" where
  "al_emit os n = n\<lparr>al_outs := al_outs n @ os\<rparr>"

text \<open>Setting the error of an AR, for its abort.\<close>

definition set_err :: "nat \<Rightarrow> u8 \<Rightarrow> u8 \<Rightarrow> alarm_net \<Rightarrow> alarm_net" where
  "set_err a cls code n = upd_al a (\<lambda>r. r\<lparr>al_err_cls := cls, al_err_code := code\<rparr>) n"

text \<open>Freeing the saved frame of an APMX.\<close>

definition free_rta :: "apmx_ptr \<Rightarrow> alarm_net \<Rightarrow> alarm_net" where
  "free_rta p n =
     (if p_rta (apmx_at p n) \<noteq> None then al_emit [Buf_free] (upd_apmx p (p_rta_update (\<lambda>_. None)) n) else n)"

end
