(* ===== verification/Alarm_Send.thy ===== *)
theory Alarm_Send
  imports Alarm_State
begin

section \<open>Sending alarms and closing the alarm component\<close>

text \<open>
  The frames of \<open>pf_alarm_apms_a_data_req\<close>, the closing of an AR's alarms, the abort of an AR as the
  alarm component takes part in it, and the sender APMS with its retransmissions.
\<close>

definition PNAL_ETHTYPE_VLAN :: u16 where "PNAL_ETHTYPE_VLAN = 0x8100"
definition PNAL_ETHTYPE_PROFINET :: u16 where "PNAL_ETHTYPE_PROFINET = 0x8892"
definition PNET_ERROR_CODE_RTA_ERROR :: u8 where "PNET_ERROR_CODE_RTA_ERROR = 0xCF"
definition PNET_ERROR_CODE_1_ALPMI :: u8 where "PNET_ERROR_CODE_1_ALPMI = 0x41"
definition PNET_ERROR_CODE_1_ALPMR :: u8 where "PNET_ERROR_CODE_1_ALPMR = 0x42"
definition PNET_ERROR_CODE_1_APMR :: u8 where "PNET_ERROR_CODE_1_APMR = 0x46"
definition PNET_ERROR_CODE_1_APMS :: u8 where "PNET_ERROR_CODE_1_APMS = 0x47"
definition PNET_ERROR_CODE_2_ALPMI_INVALID :: u8 where "PNET_ERROR_CODE_2_ALPMI_INVALID = 2"
definition PNET_ERROR_CODE_2_ALPMR_INVALID :: u8 where "PNET_ERROR_CODE_2_ALPMR_INVALID = 2"
definition PNET_ERROR_CODE_2_ABORT_AR_ALARM_SEND_CNF_NEG :: u8 where "PNET_ERROR_CODE_2_ABORT_AR_ALARM_SEND_CNF_NEG = 8"

subsection \<open>Frames\<close>

text \<open>
  The contents of a frame: an alarm notification, an alarm acknowledgement, an error or nothing. The
  code passes \<open>p_alarm_data\<close> and \<open>p_pnio_status\<close> and selects by the PDU type and by what is NULL.
\<close>

definition put_var_part ::
    "apmx \<Rightarrow> pf_alarm_fixed \<Rightarrow> alarm_data \<Rightarrow> u32 \<Rightarrow> pnet_pnio_status option \<Rightarrow> unit putter" where
  "put_var_part x fixed d maint_status p_pnio_status =
     (if pdu_type fixed = PF_RTA_PDU_TYPE_DATA then
        (case p_pnio_status of
           Some st \<Rightarrow> pf_put_alarm_block True (block_type_alarm_ack x) (pf_alarm_data.truncate d) maint_status
             (ad_payload zero_alarm_data) st
         | None \<Rightarrow> pf_put_alarm_block True (block_type_alarm_notify x) (pf_alarm_data.truncate d) maint_status
             (ad_payload d) \<lparr>error_code = 0, error_decode = 0, error_code_1 = 0, error_code_2 = 0\<rparr>)
      else if pdu_type fixed = PF_RTA_PDU_TYPE_ERR then
        (case p_pnio_status of Some st \<Rightarrow> pf_put_pnet_status True st | None \<Rightarrow> State_Monad.return ())
      else State_Monad.return ())"

definition put_frame ::
    "u8 list \<Rightarrow> apmx \<Rightarrow> pf_alarm_fixed \<Rightarrow> alarm_data \<Rightarrow> u32 \<Rightarrow> pnet_pnio_status option \<Rightarrow> unit putter" where
  "put_frame mac x fixed d maint_status p_pnio_status = do {
     pf_put_mem (ax_da x);
     pf_put_mem mac;
     pf_put_uint16 True PNAL_ETHTYPE_VLAN;
     pf_put_uint16 True (push_bit 13 (vlan_prio x AND 7));
     pf_put_uint16 True PNAL_ETHTYPE_PROFINET;
     pf_put_uint16 True (ax_frame_id x);
     pf_put_alarm_fixed True fixed;
     var_part_len_pos \<leftarrow> get_pos;
     pf_put_uint16 True 0;
     put_var_part x fixed d maint_status p_pnio_status;
     pos \<leftarrow> get_pos;
     put_at var_part_len_pos (pf_put_uint16 True (pos - (var_part_len_pos + 2)))
   }"

text \<open>The bytes from 0 to \<open>p_rta->len\<close>. What the rest of the buffer holds is never sent.\<close>

definition frame_buffer :: put_cursor where
  "frame_buffer = \<lparr>res_len = of_nat PF_FRAME_BUFFER_SIZE, p_bytes = Some (replicate PF_FRAME_BUFFER_SIZE 0), put_pos = 0\<rparr>"

definition build_frame ::
    "u8 list \<Rightarrow> apmx \<Rightarrow> pf_alarm_fixed \<Rightarrow> alarm_data \<Rightarrow> u32 \<Rightarrow> pnet_pnio_status option \<Rightarrow> u8 list" where
  "build_frame mac x fixed d maint_status p_pnio_status = (let
     s = snd (run_state (put_frame mac x fixed d maint_status p_pnio_status) frame_buffer)
     in case p_bytes s of None \<Rightarrow> [] | Some b \<Rightarrow> take (unat (put_pos s)) b)"

text \<open>An allocated buffer has a payload; the branch of the code for one without does nothing else.\<close>

definition pf_alarm_apms_a_data_req ::
    "apmx_ptr \<Rightarrow> pf_alarm_fixed \<Rightarrow> alarm_data \<Rightarrow> u32 \<Rightarrow> pnet_pnio_status option \<Rightarrow> alarm_net \<Rightarrow>
     (int \<times> alarm_net) option" where
  "pf_alarm_apms_a_data_req p fixed d maint_status p_pnio_status n = do {
     b \<leftarrow> ax_p_ar (apmx_at p n);
     if acr_transport_udp (alarm_cr_request (al_ar b n)) then Some (- 1, n)
     else if \<not> alloc_ok n (length (al_outs n)) then Some (- 1, al_emit [Buf_alloc False] n)
     else if pdu_type fixed = PF_RTA_PDU_TYPE_ERR \<and> p_pnio_status = None then None
     else do {
       let n = al_emit [Buf_alloc True] n;
       let frame = build_frame (device_mac n) (apmx_at p n) fixed d maint_status p_pnio_status;
       let ret = (if send_ok n (length (al_outs n)) then 0 else - 1);
       let n = al_emit [Eth_send frame] n;
       Some (ret,
         if tack fixed \<and> p_rta (apmx_at p n) = None
         then upd_apmx p (p_rta_update (\<lambda>_. Some frame)) n
         else al_emit [Buf_free] n)
     }
   }"

text \<open>The fixed part of a frame that an APMX sends.\<close>

definition alarm_fixed :: "apmx \<Rightarrow> u8 \<Rightarrow> bool \<Rightarrow> u16 \<Rightarrow> pf_alarm_fixed" where
  "alarm_fixed x type tck seq = \<lparr>dst_ref = ax_dst_ref x, src_ref = ax_src_ref x, pdu_type = type,
     pdu_version = PF_ALARM_PDU_TYPE_VERSION_1, window_size = 1, tack = tck, send_seq_num = seq,
     ack_seq_nbr = exp_seq_count_o x\<rparr>"

definition pf_alarm_apmr_send_ack :: "apmx_ptr \<Rightarrow> alarm_net \<Rightarrow> (int \<times> alarm_net) option" where
  "pf_alarm_apmr_send_ack p n = (let x = apmx_at p n in
     pf_alarm_apms_a_data_req p (alarm_fixed x PF_RTA_PDU_TYPE_ACK False (send_seq_count_o x)) zero_alarm_data 0 None n)"

definition pf_alarm_apmr_send_nack :: "apmx_ptr \<Rightarrow> alarm_net \<Rightarrow> (int \<times> alarm_net) option" where
  "pf_alarm_apmr_send_nack p n = (let x = apmx_at p n in
     pf_alarm_apms_a_data_req p (alarm_fixed x PF_RTA_PDU_TYPE_NACK False (send_seq_count_o x)) zero_alarm_data 0 None n)"

subsection \<open>Closing\<close>

definition pf_alarm_alpmx_close :: "nat \<Rightarrow> alarm_net \<Rightarrow> alarm_net" where
  "pf_alarm_alpmx_close a n = upd_al a (\<lambda>r. r\<lparr>alpmxs := map (\<lambda>y. y\<lparr>alpmi_state := PF_ALPMI_STATE_W_START,
     alpmr_state := PF_ALPMR_STATE_W_START\<rparr>) (alpmxs r)\<rparr>) n"

text \<open>The first endpoint of an AR gets or loses its mark; no active endpoint means no frame handler.\<close>

definition mark_endpoint :: "nat \<Rightarrow> (alarm_endpoint \<Rightarrow> alarm_endpoint) \<Rightarrow> alarm_net \<Rightarrow> alarm_net" where
  "mark_endpoint a f n = (case find (\<lambda>i. ep_ar (alarm_endpoints n ! i) = Some a) [0 ..< length (alarm_endpoints n)] of
     None \<Rightarrow> n | Some i \<Rightarrow> n\<lparr>alarm_endpoints := upd i f (alarm_endpoints n)\<rparr>)"

definition no_active_endpoint :: "alarm_net \<Rightarrow> bool" where
  "no_active_endpoint n \<longleftrightarrow> list_all (\<lambda>e. \<not> ep_active e) (alarm_endpoints n)"

definition close_apms :: "apmx_ptr \<Rightarrow> alarm_net \<Rightarrow> alarm_net option" where
  "close_apms p n =
     (if apms_state (apmx_at p n) \<noteq> PF_APMS_STATE_CLOSED
      then do {
        (h, s) \<leftarrow> pf_scheduler_remove_if_running (resend_timeout (apmx_at p n)) (al_sched n);
        Some (upd_apmx p (\<lambda>x. x\<lparr>resend_timeout := h, ax_p_ar := None, apms_state := PF_APMS_STATE_CLOSED\<rparr>)
          (n\<lparr>al_sched := s\<rparr>))
      } else Some n)"

definition close_apmr :: "apmx_ptr \<Rightarrow> alarm_net \<Rightarrow> alarm_net" where
  "close_apmr p n =
     (if apmr_state (apmx_at p n) \<noteq> PF_APMR_STATE_CLOSED
      then let (bufs, q) = pf_alarm_receive_queue_reset (alarm_receive_q (apmx_at p n))
        in upd_apmx p (\<lambda>x. x\<lparr>apmr_state := PF_APMR_STATE_CLOSED,
             alarm_receive_q := q\<lparr>accountant := pf_alarm_queue_mutex_destroy (accountant q)\<rparr>\<rparr>)
             (al_emit (map (\<lambda>_. Buf_free) bufs) n)
      else n)"

definition close_one :: "nat \<Rightarrow> nat \<Rightarrow> alarm_net \<Rightarrow> alarm_net option" where
  "close_one a ix n = do {
     n \<leftarrow> close_apms (a, ix) n;
     Some (close_apmr (a, ix) (free_rta (a, ix) n))
   }"

definition close_status :: "u8 \<Rightarrow> pnet_pnio_status" where
  "close_status code = \<lparr>error_code = PNET_ERROR_CODE_RTA_ERROR, error_decode = PNET_ERROR_DECODE_PNIO,
     error_code_1 = PNET_ERROR_CODE_1_RTA_ERR_CLS_PROTOCOL, error_code_2 = code\<rparr>"

definition pf_alarm_apmx_close :: "nat \<Rightarrow> u8 \<Rightarrow> alarm_net \<Rightarrow> alarm_net option" where
  "pf_alarm_apmx_close a code n = do {
     let x = apmx_at (a, 0) n;
     n \<leftarrow> (if apms_state x \<noteq> PF_APMS_STATE_CLOSED
       then map_option snd (pf_alarm_apms_a_data_req (a, 0)
         (alarm_fixed x PF_RTA_PDU_TYPE_ERR False (send_seq_count x)) zero_alarm_data 0 (Some (close_status code)) n)
       else Some n);
     let n = mark_endpoint a (\<lambda>e. e\<lparr>ep_active := False\<rparr>) n;
     let n = (if no_active_endpoint n
       then al_emit [Frame_id_map_remove PF_FRAME_ID_ALARM_HIGH, Frame_id_map_remove PF_FRAME_ID_ALARM_LOW] n else n);
     for_creps (close_one a) [0 ..< length (apmxs (al_ar a n))] n
   }"

definition close_send_q :: "alarm_data alarm_queue \<Rightarrow> alarm_data alarm_queue" where
  "close_send_q q = (let q = pf_alarm_send_queue_reset q
     in q\<lparr>accountant := pf_alarm_queue_mutex_destroy (accountant q)\<rparr>)"

definition pf_alarm_close :: "nat \<Rightarrow> alarm_net \<Rightarrow> alarm_net option" where
  "pf_alarm_close a n = (let
     n = upd_al a (\<lambda>r. r\<lparr>alarm_send_q := map close_send_q (alarm_send_q r)\<rparr>) n;
     n = pf_alarm_alpmx_close a n
     in pf_alarm_apmx_close a (al_err_code (al_ar a n)) n)"

definition pf_alarm_free_endpoint :: "nat \<Rightarrow> alarm_net \<Rightarrow> alarm_net" where
  "pf_alarm_free_endpoint a n = mark_endpoint a (\<lambda>e. e\<lparr>ep_active := False, ep_ar := None\<rparr>) n"

text \<open>The endpoint number, from 1, or 0 when all are taken.\<close>

definition pf_alarm_allocate_endpoint :: "nat \<Rightarrow> alarm_net \<Rightarrow> nat \<times> alarm_net" where
  "pf_alarm_allocate_endpoint a n =
     (case find (\<lambda>i. ep_ar (alarm_endpoints n ! i) = None) [0 ..< length (alarm_endpoints n)] of
        None \<Rightarrow> (0, n)
      | Some i \<Rightarrow> (i + 1, n\<lparr>alarm_endpoints := upd i (\<lambda>e. e\<lparr>ep_active := False, ep_ar := Some a\<rparr>) (alarm_endpoints n)\<rparr>))"

subsection \<open>The abort of an AR\<close>

text \<open>
  \<open>pf_cmsu_alarm_error_ind\<close> sends an ABORT to all machines of the AR, as far as it concerns alarms:
  CMSU closes them when the AR is started, and CMRPC frees the AR, which zeroes it.
\<close>

definition al_abort :: "nat \<Rightarrow> alarm_net \<Rightarrow> alarm_net option" where
  "al_abort a n = do {
     let n = al_emit [Fspm_state_abort a] n;
     n \<leftarrow> (if al_cmsu (al_ar a n) = PF_CMSU_STATE_STARTUP \<or> al_cmsu (al_ar a n) = PF_CMSU_STATE_RUN
       then do {
         n \<leftarrow> pf_alarm_close a n;
         Some (upd_al a (al_cmsu_update (\<lambda>_. PF_CMSU_STATE_IDLE)) (pf_alarm_free_endpoint a n))
       } else Some n);
     Some (if al_in_use (al_ar a n) then upd_al a (\<lambda>_. zero_alarm_ar) n else n)
   }"

definition pf_alarm_error_ind :: "apmx_ptr \<Rightarrow> u8 \<Rightarrow> u8 \<Rightarrow> alarm_net \<Rightarrow> alarm_net option" where
  "pf_alarm_error_ind p cls code n = do {
     b \<leftarrow> ax_p_ar (apmx_at p n);
     al_abort b (set_err b cls code n)
   }"

text \<open>The code often sets the error of the AR first, and passes it on.\<close>

definition error_of_ar :: "apmx_ptr \<Rightarrow> u8 \<Rightarrow> u8 \<Rightarrow> alarm_net \<Rightarrow> alarm_net option" where
  "error_of_ar p cls code n = do {
     b \<leftarrow> ax_p_ar (apmx_at p n);
     let n = set_err b cls code n;
     pf_alarm_error_ind p (al_err_cls (al_ar b n)) (al_err_code (al_ar b n)) n
   }"

subsection \<open>Confirmations to ALPMI and ALPMR\<close>

definition pf_alarm_alpmi_apms_a_data_cnf :: "apmx_ptr \<Rightarrow> int \<Rightarrow> alarm_net \<Rightarrow> alarm_net option" where
  "pf_alarm_alpmi_apms_a_data_cnf p res n = do {
     y \<leftarrow> ax_p_alpmx (apmx_at p n);
     if res \<noteq> 0 then error_of_ar p PNET_ERROR_CODE_1_ALPMI PNET_ERROR_CODE_2_ALPMI_INVALID n else Some n
   }"

definition pf_alarm_alpmr_apms_a_data_cnf :: "apmx_ptr \<Rightarrow> int \<Rightarrow> alarm_net \<Rightarrow> alarm_net option" where
  "pf_alarm_alpmr_apms_a_data_cnf p res n = do {
     y \<leftarrow> ax_p_alpmx (apmx_at p n);
     case alpmr_state (alpmx_at y n) of
       PF_ALPMR_STATE_W_START \<Rightarrow> Some n
     | PF_ALPMR_STATE_W_TACK \<Rightarrow>
         if res \<noteq> 0 then error_of_ar p PNET_ERROR_CODE_1_ALPMR PNET_ERROR_CODE_2_ALPMR_INVALID n
         else do {
           b \<leftarrow> ax_p_ar (apmx_at p n);
           Some (upd_alpmx y (alpmr_state_update (\<lambda>_. PF_ALPMR_STATE_W_NOTIFY)) (al_emit [Fspm_alarm_ack_cnf b res] n))
         }
     | _ \<Rightarrow> if res \<noteq> 0 then error_of_ar p PNET_ERROR_CODE_1_ALPMR PNET_ERROR_CODE_2_ALPMR_INVALID n else Some n
   }"

subsection \<open>APMS\<close>

definition next_seq :: "u16 \<Rightarrow> u16" where
  "next_seq s = (s + 1) AND 0x7fff"

definition pf_alarm_apms_a_data_ind :: "apmx_ptr \<Rightarrow> pf_alarm_fixed \<Rightarrow> alarm_net \<Rightarrow> alarm_net option" where
  "pf_alarm_apms_a_data_ind p fixed n =
     (if (pdu_type fixed = PF_RTA_PDU_TYPE_ACK \<or> pdu_type fixed = PF_RTA_PDU_TYPE_DATA) \<and>
         apms_state (apmx_at p n) = PF_APMS_STATE_WTACK \<and> ack_seq_nbr fixed = send_seq_count (apmx_at p n)
      then do {
        let n = upd_apmx p (\<lambda>x. x\<lparr>send_seq_count_o := send_seq_count x, send_seq_count := next_seq (send_seq_count x)\<rparr>) n;
        let n = free_rta p n;
        n \<leftarrow> pf_alarm_alpmi_apms_a_data_cnf p 0 n;
        n \<leftarrow> pf_alarm_alpmr_apms_a_data_cnf p 0 n;
        Some (upd_apmx p (apms_state_update (\<lambda>_. PF_APMS_STATE_OPEN)) n)
      } else Some n)"

definition start_resend :: "apmx_ptr \<Rightarrow> alarm_net \<Rightarrow> (int \<times> alarm_net) option" where
  "start_resend p n = do {
     (r, h, s) \<leftarrow> pf_scheduler_add (al_clock n) (timeout_us (apmx_at p n)) Apms_timeout p (resend_timeout (apmx_at p n)) (al_sched n);
     Some (r, upd_apmx p (resend_timeout_update (\<lambda>_. h)) (n\<lparr>al_sched := s\<rparr>))
   }"

definition pf_alarm_apms_apms_a_data_req ::
    "apmx_ptr \<Rightarrow> alarm_data \<Rightarrow> u32 \<Rightarrow> pnet_pnio_status option \<Rightarrow> alarm_net \<Rightarrow> (int \<times> alarm_net) option" where
  "pf_alarm_apms_apms_a_data_req p d maint_status p_pnio_status n =
     (if apms_state (apmx_at p n) \<noteq> PF_APMS_STATE_OPEN
      then do {
        n \<leftarrow> pf_alarm_alpmi_apms_a_data_cnf p (- 1) n;
        n \<leftarrow> pf_alarm_alpmr_apms_a_data_cnf p (- 1) n;
        Some (- 1, n)
      }
      else do {
        let x = apmx_at p n;
        b \<leftarrow> ax_p_ar x;
        let n = upd_apmx p (resend_counter_update (\<lambda>_. ucast (acr_rta_retries (alarm_cr_request (al_ar b n))))) n;
        (ret, n) \<leftarrow> pf_alarm_apms_a_data_req p (alarm_fixed x PF_RTA_PDU_TYPE_DATA True (send_seq_count x)) d maint_status
          p_pnio_status n;
        let n = upd_apmx p (apms_state_update (\<lambda>_. PF_APMS_STATE_WTACK)) n;
        (r, n) \<leftarrow> start_resend p n;
        Some (if r \<noteq> 0 then - 1 else ret, n)
      })"

text \<open>The resend timer.\<close>

definition pf_alarm_apms_timeout :: "apmx_ptr \<Rightarrow> alarm_net \<Rightarrow> alarm_net option" where
  "pf_alarm_apms_timeout p n = (let
     n = upd_apmx p (\<lambda>x. x\<lparr>resend_timeout := pf_scheduler_reset_handle (resend_timeout x)\<rparr>) n
     in if apms_state (apmx_at p n) = PF_APMS_STATE_WTACK
        then case p_rta (apmx_at p n) of
          None \<Rightarrow> Some n
        | Some frame \<Rightarrow>
            if resend_counter (apmx_at p n) > 0
            then do {
              let n = upd_apmx p (\<lambda>x. x\<lparr>resend_counter := resend_counter x - 1\<rparr>) n;
              b \<leftarrow> ax_p_ar (apmx_at p n);
              let n = (if acr_transport_udp (alarm_cr_request (al_ar b n)) then n else al_emit [Eth_send frame] n);
              (_, n) \<leftarrow> start_resend p n;
              Some n
            }
            else do {
              let n = upd_apmx p (apms_state_update (\<lambda>_. PF_APMS_STATE_OPEN)) n;
              error_of_ar p PNET_ERROR_CODE_1_APMS PNET_ERROR_CODE_2_ABORT_AR_ALARM_SEND_CNF_NEG n
            }
        else Some (free_rta p n))"

end
