(* ===== verification/Alarm_Receive.thy ===== *)
theory Alarm_Receive
  imports Alarm_Send
begin

section \<open>Activating alarms and receiving them\<close>

text \<open>
  The activation of an AR's alarms, the handler of incoming alarm frames, the receiver APMR with the
  protocol machines ALPMI and ALPMR behind it, and the loop over a receive queue.
\<close>

definition PNET_ERROR_CODE_2_ALPMI_WRONG_STATE :: u8 where "PNET_ERROR_CODE_2_ALPMI_WRONG_STATE = 3"
definition PNET_ERROR_CODE_2_ALPMR_WRONG_STATE :: u8 where "PNET_ERROR_CODE_2_ALPMR_WRONG_STATE = 3"
definition PNET_ERROR_CODE_2_APMS_INVALID_STATE :: u8 where "PNET_ERROR_CODE_2_APMS_INVALID_STATE = 0"
definition PNET_ERROR_CODE_2_APMR_INVALID_STATE :: u8 where "PNET_ERROR_CODE_2_APMR_INVALID_STATE = 0"
definition PNET_ERROR_CODE_2_ABORT_CODE_SEQ :: u8 where "PNET_ERROR_CODE_2_ABORT_CODE_SEQ = 1"
definition PNET_ERROR_CODE_2_ABORT_AR_ALARM_IND_ERROR :: u8 where "PNET_ERROR_CODE_2_ABORT_AR_ALARM_IND_ERROR = 0x0b"
definition PNET_ERROR_CODE_2_ABORT_AR_PROTOCOL_VIOLATION :: u8 where "PNET_ERROR_CODE_2_ABORT_AR_PROTOCOL_VIOLATION = 0x12"
definition PNET_ERROR_CODE_PNIO :: u8 where "PNET_ERROR_CODE_PNIO = 0x81"

subsection \<open>Activation\<close>

definition pf_alarm_init :: "alarm_net \<Rightarrow> alarm_net" where
  "pf_alarm_init n = n\<lparr>global_alarm_enable := True\<rparr>"

text \<open>One round of the loops; \<open>ret\<close> is the result so far.\<close>

definition activate_alpmx :: "nat \<Rightarrow> nat \<Rightarrow> int \<times> alarm_net \<Rightarrow> int \<times> alarm_net" where
  "activate_alpmx a ix r = (case r of (ret, n) \<Rightarrow> let y = alpmx_at (a, ix) n in
     if alpmi_state y = PF_ALPMI_STATE_W_START \<and> alpmr_state y = PF_ALPMR_STATE_W_START
     then (ret, upd_alpmx (a, ix) (\<lambda>y. y\<lparr>alpmx_da := cm_initiator_mac_add (al_ar a n), prev_sequence_number := 0xffff,
       sequence_number := 0, alpmr_state := PF_ALPMR_STATE_W_NOTIFY, alpmi_state := PF_ALPMI_STATE_W_ALARM\<rparr>) n)
     else if alpmi_state y \<noteq> PF_ALPMI_STATE_W_START
     then (- 1, set_err a PNET_ERROR_CODE_1_ALPMI PNET_ERROR_CODE_2_ALPMI_WRONG_STATE n)
     else (- 1, set_err a PNET_ERROR_CODE_1_ALPMR PNET_ERROR_CODE_2_ALPMR_WRONG_STATE n))"

definition pf_alarm_alpmx_activate :: "nat \<Rightarrow> alarm_net \<Rightarrow> int \<times> alarm_net" where
  "pf_alarm_alpmx_activate a n = fold (activate_alpmx a) [0 ..< length (alpmxs (al_ar a n))] (0, n)"

text \<open>The members that depend on the priority, and an APMX that is opened.\<close>

definition set_priority :: "nat \<Rightarrow> apmx \<Rightarrow> apmx" where
  "set_priority ix x =
     (if ix = 0
      then x\<lparr>high_priority := False, vlan_prio := ALARM_VLAN_PRIO_LOW,
        block_type_alarm_notify := PF_BT_ALARM_NOTIFICATION_LOW, block_type_alarm_ack := PF_BT_ALARM_ACK_LOW,
        ax_frame_id := PF_FRAME_ID_ALARM_LOW\<rparr>
      else x\<lparr>high_priority := True, vlan_prio := ALARM_VLAN_PRIO_HIGH,
        block_type_alarm_notify := PF_BT_ALARM_NOTIFICATION_HIGH, block_type_alarm_ack := PF_BT_ALARM_ACK_HIGH,
        ax_frame_id := PF_FRAME_ID_ALARM_HIGH\<rparr>)"

definition open_apmx :: "nat \<Rightarrow> nat \<Rightarrow> name_ptr \<Rightarrow> alarm_ar \<Rightarrow> apmx \<Rightarrow> u8 list list \<times> apmx" where
  "open_apmx a ix name r x = (let
     x = x\<lparr>ax_da := cm_initiator_mac_add r,
       ax_src_ref := acres_local_alarm_reference (alarm_cr_result r),
       ax_dst_ref := acr_local_alarm_reference (alarm_cr_request r),
       send_seq_count := 0xffff, send_seq_count_o := 0xfffe, exp_seq_count := 0xffff, exp_seq_count_o := 0xfffe\<rparr>;
     x = set_priority ix x;
     q = alarm_receive_q x;
     (bufs, q) = pf_alarm_receive_queue_reset (q\<lparr>accountant := pf_alarm_queue_mutex_create (accountant q)\<rparr>)
     in (bufs, x\<lparr>alarm_receive_q := q, timeout_us := 100 * 1000 * ucast (acr_rta_timeout_factor (alarm_cr_request r)),
       resend_counter := 0, ax_p_ar := Some a, ax_p_alpmx := Some (a, ix), resend_timeout := pf_scheduler_init_handle name,
       apms_state := PF_APMS_STATE_OPEN, apmr_state := PF_APMR_STATE_OPEN\<rparr>))"

definition activate_apmx :: "nat \<Rightarrow> nat \<Rightarrow> int \<times> alarm_net \<Rightarrow> int \<times> alarm_net" where
  "activate_apmx a ix r = (case r of (ret, n) \<Rightarrow> let x = apmx_at (a, ix) n in
     if apms_state x \<noteq> PF_APMS_STATE_CLOSED
     then (- 1, set_err a PNET_ERROR_CODE_1_APMS PNET_ERROR_CODE_2_APMS_INVALID_STATE n)
     else if apmr_state x \<noteq> PF_APMR_STATE_CLOSED
     then (- 1, set_err a PNET_ERROR_CODE_1_APMR PNET_ERROR_CODE_2_APMR_INVALID_STATE n)
     else let (bufs, x) = open_apmx a ix (apmx_name n) (al_ar a n) x
       in (ret, upd_apmx (a, ix) (\<lambda>_. x) (al_emit (map (\<lambda>_. Buf_free) bufs) n)))"

definition pf_alarm_apmx_activate :: "nat \<Rightarrow> alarm_net \<Rightarrow> int \<times> alarm_net" where
  "pf_alarm_apmx_activate a n = (let
     (ret, n) = fold (activate_apmx a) [0 ..< length (apmxs (al_ar a n))] (0, n);
     n = (if no_active_endpoint n
       then al_emit [Frame_id_map_add PF_FRAME_ID_ALARM_LOW, Frame_id_map_add PF_FRAME_ID_ALARM_HIGH] n else n)
     in (ret, mark_endpoint a (\<lambda>e. e\<lparr>ep_active := True\<rparr>) n))"

definition open_send_q :: "alarm_data alarm_queue \<Rightarrow> alarm_data alarm_queue" where
  "open_send_q q = pf_alarm_send_queue_reset (q\<lparr>accountant := pf_alarm_queue_mutex_create (accountant q)\<rparr>)"

definition pf_alarm_activate :: "nat \<Rightarrow> alarm_net \<Rightarrow> int \<times> alarm_net" where
  "pf_alarm_activate a n = (let
     n = upd_al a (\<lambda>r. r\<lparr>alarm_send_q := map open_send_q (alarm_send_q r)\<rparr>) n;
     (r1, n) = pf_alarm_alpmx_activate a n;
     (r2, n) = pf_alarm_apmx_activate a n
     in (if r1 \<noteq> 0 \<or> r2 \<noteq> 0 then - 1 else 0, n))"

subsection \<open>Incoming frames\<close>

definition frame_cursor :: "u8 list \<Rightarrow> u16 \<Rightarrow> get_cursor" where
  "frame_cursor buf pos = \<lparr>result = PF_PARSE_OK, is_big_endian = True, p_buf = Some buf, len = of_nat (length buf),
     p_pos = pos\<rparr>"

text \<open>The handler of the two alarm frame IDs; the result 1 means that the buffer is taken.\<close>

definition pf_alarm_apmr_frame_handler :: "u16 \<Rightarrow> u8 list option \<Rightarrow> u16 \<Rightarrow> alarm_net \<Rightarrow> int \<times> alarm_net" where
  "pf_alarm_apmr_frame_handler frame_id buf_ptr pos n = (let
     priority = (if frame_id = PF_FRAME_ID_ALARM_HIGH then 1 else 0)
     in case buf_ptr of
       None \<Rightarrow> (1, n)
     | Some buf \<Rightarrow> (let
         alarm_endpoint = unat (fst (run_state pf_get_uint16 (frame_cursor buf (pos + 2))));
         ar = (if alarm_endpoint > 0 \<and> alarm_endpoint \<le> length (alarm_endpoints n) \<and>
                  ep_active (alarm_endpoints n ! (alarm_endpoint - 1))
               then ep_ar (alarm_endpoints n ! (alarm_endpoint - 1)) else None)
         in case ar of
           None \<Rightarrow> (0, n)
         | Some a \<Rightarrow> (let
             (ret, q) = pf_alarm_receive_queue_post \<lparr>frame_id_pos = pos, msg_buf = buf_ptr\<rparr>
               (alarm_receive_q (apmx_at (a, priority) n))
             in if ret = 0
                then (1, al_emit [Buf_taken] (upd_apmx (a, priority) (alarm_receive_q_update (\<lambda>_. q)) n))
                else (0, n))))"

subsection \<open>ALPMI and ALPMR\<close>

definition pf_alarm_alpmi_apmr_a_data_ind :: "apmx_ptr \<Rightarrow> pnet_pnio_status \<Rightarrow> alarm_net \<Rightarrow> (int \<times> alarm_net) option" where
  "pf_alarm_alpmi_apmr_a_data_ind p p_pnio_status n = do {
     y \<leftarrow> ax_p_alpmx (apmx_at p n);
     case alpmi_state (alpmx_at y n) of
       PF_ALPMI_STATE_W_ACK \<Rightarrow> do {
         b \<leftarrow> ax_p_ar (apmx_at p n);
         Some (0, al_emit [Fspm_alarm_cnf b p_pnio_status] (upd_alpmx y (alpmi_state_update (\<lambda>_. PF_ALPMI_STATE_W_ALARM)) n))
       }
     | _ \<Rightarrow> Some (0, n)
   }"

text \<open>The argument of the application's callback.\<close>

definition alarm_arg :: "pf_alarm_data \<Rightarrow> pf_alarm_data" where
  "alarm_arg d = d\<lparr>ad_module_ident := 0, ad_submodule_ident := 0\<rparr>"

definition pf_alarm_alpmr_apmr_a_data_ind ::
    "apmx_ptr \<Rightarrow> pf_alarm_data \<Rightarrow> u16 \<Rightarrow> u16 \<Rightarrow> u8 list \<Rightarrow> alarm_net \<Rightarrow> (int \<times> alarm_net) option" where
  "pf_alarm_alpmr_apmr_a_data_ind p d data_len data_usi p_data n = do {
     y \<leftarrow> ax_p_alpmx (apmx_at p n);
     case alpmr_state (alpmx_at y n) of
       PF_ALPMR_STATE_W_START \<Rightarrow> Some (0, n)
     | PF_ALPMR_STATE_W_NOTIFY \<Rightarrow> do {
         b \<leftarrow> ax_p_ar (apmx_at p n);
         Some (0, al_emit [Fspm_alarm_ind b (alarm_arg d) data_len data_usi p_data]
           (upd_alpmx y (alpmr_state_update (\<lambda>_. PF_ALPMR_STATE_W_USER_ACK)) n))
       }
     | _ \<Rightarrow> do {
         n \<leftarrow> error_of_ar p PNET_ERROR_CODE_1_RTA_ERR_CLS_PROTOCOL PNET_ERROR_CODE_2_ABORT_AR_PROTOCOL_VIOLATION n;
         Some (- 1, n)
       }
   }"

subsection \<open>APMR\<close>

definition set_apmr :: "apmx_ptr \<Rightarrow> apmr_state \<Rightarrow> alarm_net \<Rightarrow> alarm_net" where
  "set_apmr p st n = upd_apmx p (apmr_state_update (\<lambda>_. st)) n"

text \<open>Accepting a DATA frame: the acknowledgement in it, the next expected number, the answer.\<close>

definition accept_data :: "apmx_ptr \<Rightarrow> pf_alarm_fixed \<Rightarrow> alarm_net \<Rightarrow> (int \<times> alarm_net) option" where
  "accept_data p fixed n = do {
     n \<leftarrow> pf_alarm_apms_a_data_ind p fixed n;
     let n = upd_apmx p (\<lambda>x. x\<lparr>exp_seq_count_o := exp_seq_count x, exp_seq_count := next_seq (exp_seq_count x)\<rparr>) n;
     pf_alarm_apmr_send_ack p n
   }"

definition deliver_ack :: "apmx_ptr \<Rightarrow> pf_alarm_fixed \<Rightarrow> get_cursor \<Rightarrow> alarm_net \<Rightarrow> (int \<times> alarm_net) option" where
  "deliver_ack p fixed g n = do {
     (ret, n) \<leftarrow> accept_data p fixed n;
     if ret \<noteq> 0 then Some (ret, n)
     else do {
       let n = set_apmr p PF_APMR_STATE_WCNF n;
       let st = fst (run_state pf_get_pnio_status g);
       (ret, n) \<leftarrow> pf_alarm_alpmi_apmr_a_data_ind p st n;
       Some (ret, if ret = 0 then set_apmr p PF_APMR_STATE_OPEN n else n)
     }
   }"

text \<open>The data of a notification and its USI.\<close>

definition get_notification :: "(pf_alarm_data \<times> u16) getter" where
  "get_notification = do {
     d \<leftarrow> pf_get_alarm_data (pf_alarm_data.truncate zero_alarm_data);
     usi \<leftarrow> pf_get_uint16;
     State_Monad.return (d, usi)
   }"

text \<open>\<open>data_len\<close> shrinks by the distance from \<open>start_pos\<close>; \<open>p_data\<close> is the rest of the buffer.\<close>

definition deliver_notification ::
    "apmx_ptr \<Rightarrow> pf_alarm_fixed \<Rightarrow> u16 \<Rightarrow> u16 \<Rightarrow> get_cursor \<Rightarrow> alarm_net \<Rightarrow> (int \<times> alarm_net) option" where
  "deliver_notification p fixed data_len start_pos g n = do {
     (ret, n) \<leftarrow> accept_data p fixed n;
     if ret \<noteq> 0 then Some (ret, n)
     else do {
       let n = set_apmr p PF_APMR_STATE_WCNF n;
       let ((d, data_usi), g) = run_state get_notification g;
       (ret, n) \<leftarrow> (if result g = PF_PARSE_OK
         then pf_alarm_alpmr_apmr_a_data_ind p d (data_len - (p_pos g - start_pos)) data_usi
           (case p_buf g of None \<Rightarrow> [] | Some b \<Rightarrow> drop (unat (p_pos g)) b) n
         else Some (- 1, n));
       Some (ret, if ret = 0 then set_apmr p PF_APMR_STATE_OPEN n else n)
     }
   }"

definition pf_alarm_apmr_a_data_ind ::
    "apmx_ptr \<Rightarrow> pf_alarm_fixed \<Rightarrow> u16 \<Rightarrow> get_cursor \<Rightarrow> alarm_net \<Rightarrow> (int \<times> alarm_net) option" where
  "pf_alarm_apmr_a_data_ind p fixed data_len g n = (let x = apmx_at p n; start_pos = p_pos g in
     case apmr_state x of
       PF_APMR_STATE_CLOSED \<Rightarrow> Some (0, n)
     | PF_APMR_STATE_WCNF \<Rightarrow> Some (- 1, n)
     | PF_APMR_STATE_OPEN \<Rightarrow>
         if \<not> tack fixed then Some (0, n)
         else if send_seq_num fixed = exp_seq_count x then
           (let (h, g) = run_state pf_get_block_header g in
            if block_type h = block_type_alarm_ack x then deliver_ack p fixed g n
            else if block_type h = block_type_alarm_notify x then deliver_notification p fixed data_len start_pos g n
            else do {
              n \<leftarrow> error_of_ar p PNET_ERROR_CODE_1_RTA_ERR_CLS_PROTOCOL PNET_ERROR_CODE_2_ABORT_AR_ALARM_IND_ERROR n;
              Some (- 1, n)
            })
         else if send_seq_num fixed = exp_seq_count_o x then do {
           n \<leftarrow> pf_alarm_apms_a_data_ind p fixed n;
           (_, n) \<leftarrow> pf_alarm_apmr_send_ack p n;
           Some (0, n)
         }
         else do {
           b \<leftarrow> ax_p_ar x;
           let n = set_err b PNET_ERROR_CODE_1_RTA_ERR_CLS_PROTOCOL PNET_ERROR_CODE_2_ABORT_CODE_SEQ n;
           let n = al_emit [Fspm_log_book b \<lparr>error_code = PNET_ERROR_CODE_PNIO, error_decode = PNET_ERROR_DECODE_PNIO,
             error_code_1 = al_err_cls (al_ar b n), error_code_2 = al_err_code (al_ar b n)\<rparr>] n;
           (_, n) \<leftarrow> pf_alarm_apmr_send_nack p n;
           Some (0, n)
         })"

text \<open>An ERR frame of four bytes aborts the AR.\<close>

definition error_frame :: "apmx_ptr \<Rightarrow> u16 \<Rightarrow> get_cursor \<Rightarrow> alarm_net \<Rightarrow> (int \<times> alarm_net) option" where
  "error_frame p var_part_len g n =
     (if var_part_len = 4
      then let st = fst (run_state pf_get_pnio_status g) in do {
        n \<leftarrow> (if apmr_state (apmx_at p n) = PF_APMR_STATE_OPEN
          then pf_alarm_error_ind p (error_code_1 st) (error_code_2 st) n
          else pf_alarm_error_ind p PNET_ERROR_CODE_1_APMR PNET_ERROR_CODE_2_APMR_INVALID_STATE n);
        Some (0, n)
      }
      else Some (0, n))"

text \<open>The body of the loop, for one frame: its fixed part and the length of its variable part first.\<close>

definition get_alarm_head :: "(pf_alarm_fixed \<times> u16) getter" where
  "get_alarm_head = do { f \<leftarrow> pf_get_alarm_fixed; l \<leftarrow> pf_get_uint16; State_Monad.return (f, l) }"

definition handle_frame :: "apmx_ptr \<Rightarrow> pf_apmr_msg \<Rightarrow> alarm_net \<Rightarrow> (int \<times> alarm_net) option" where
  "handle_frame p inputmsg n = do {
     buf \<leftarrow> msg_buf inputmsg;
     let ((fixed, var_part_len), g) = run_state get_alarm_head (frame_cursor buf (frame_id_pos inputmsg + 2));
     (ret, n) \<leftarrow>
       (if pdu_version fixed = PF_ALARM_PDU_TYPE_VERSION_1 then
          if pdu_type fixed = PF_RTA_PDU_TYPE_ACK then
            (if var_part_len = 0 then do { n \<leftarrow> pf_alarm_apms_a_data_ind p fixed n; Some (0, n) } else Some (0, n))
          else if pdu_type fixed = PF_RTA_PDU_TYPE_NACK then Some (0, n)
          else if pdu_type fixed = PF_RTA_PDU_TYPE_DATA then pf_alarm_apmr_a_data_ind p fixed var_part_len g n
          else if pdu_type fixed = PF_RTA_PDU_TYPE_ERR then error_frame p var_part_len g n
          else Some (0, n)
        else Some (0, n));
     Some (ret, al_emit [Buf_free] n)
   }"

text \<open>The while loop over one receive queue.\<close>

partial_function (option) receive_loop :: "apmx_ptr \<Rightarrow> int \<Rightarrow> alarm_net \<Rightarrow> (int \<times> alarm_net) option" where
  "receive_loop p ret n =
     (if ret = 0 \<and> apmr_state (apmx_at p n) \<noteq> PF_APMR_STATE_CLOSED
      then case pf_alarm_receive_queue_fetch (alarm_receive_q (apmx_at p n)) of
        None \<Rightarrow> Some (ret, n)
      | Some (inputmsg, q) \<Rightarrow>
          Option.bind (handle_frame p inputmsg (upd_apmx p (alarm_receive_q_update (\<lambda>_. q)) n))
            (\<lambda>(ret, n). receive_loop p ret n)
      else Some (ret, n))"

definition receive_prio :: "nat \<Rightarrow> nat \<Rightarrow> int \<times> alarm_net \<Rightarrow> (int \<times> alarm_net) option" where
  "receive_prio a ix r = (case r of (ret, n) \<Rightarrow> if ret = 0 then receive_loop (a, ix) ret n else Some (ret, n))"

definition pf_alarm_apmr_periodic :: "nat \<Rightarrow> alarm_net \<Rightarrow> (int \<times> alarm_net) option" where
  "pf_alarm_apmr_periodic a n = for_creps (receive_prio a) [0 ..< length (apmxs (al_ar a n))] (0, n)"

end
