(* ===== verification/Alarm_Requests.thy ===== *)
theory Alarm_Requests
  imports Alarm_State Alarm_Receive
begin

section \<open>The diagnosis summary in an alarm\<close>

text \<open>
  Each notification carries a summary of the diagnosis items of its subslot: four flags, the alarm
  specifier, and the maintenance status. The AR that the alarm is for may be NULL.
  \<open>pf_alarm_add_diag_item_to_summary\<close> adds one item,
  \<open>pf_alarm_get_diag_summary\<close> all items of the subslot's list.
\<close>

definition PF_DIAG_QUALIFIED_SEVERITY_MASK :: u32 where "PF_DIAG_QUALIFIED_SEVERITY_MASK = NOT 7"
definition PF_DIAG_BIT_MAINTENANCE_REQUIRED :: u32 where "PF_DIAG_BIT_MAINTENANCE_REQUIRED = BIT 0"
definition PF_DIAG_BIT_MAINTENANCE_DEMANDED :: u32 where "PF_DIAG_BIT_MAINTENANCE_DEMANDED = BIT 1"
definition PF_DIAG_QUALIFIER_MASK_FAULT :: u32 where "PF_DIAG_QUALIFIER_MASK_FAULT = 0xF8000000"
definition PF_DIAG_QUALIFIER_MASK_DEMANDED :: u32 where "PF_DIAG_QUALIFIER_MASK_DEMANDED = 0x07FE0000"
definition PF_DIAG_QUALIFIER_MASK_REQUIRED :: u32 where "PF_DIAG_QUALIFIER_MASK_REQUIRED = 0x0001FF80"
definition PNET_DIAG_CH_PROP_MAINT_FAULT :: u16 where "PNET_DIAG_CH_PROP_MAINT_FAULT = 0"
definition PNET_DIAG_CH_PROP_MAINT_REQUIRED :: u16 where "PNET_DIAG_CH_PROP_MAINT_REQUIRED = 1"
definition PNET_DIAG_CH_PROP_MAINT_DEMANDED :: u16 where "PNET_DIAG_CH_PROP_MAINT_DEMANDED = 2"
definition PNET_DIAG_CH_PROP_MAINT_QUALIFIED :: u16 where "PNET_DIAG_CH_PROP_MAINT_QUALIFIED = 3"
definition PF_DIAG_CH_PROP_SPEC_APPEARS :: u16 where "PF_DIAG_CH_PROP_SPEC_APPEARS = 1"

definition PF_DIAG_CH_PROP_MAINT_GET :: "u16 \<Rightarrow> u16" where
  "PF_DIAG_CH_PROP_MAINT_GET x = drop_bit 9 (x AND 0x0600)"

definition PF_DIAG_CH_PROP_SPEC_GET :: "u16 \<Rightarrow> u16" where
  "PF_DIAG_CH_PROP_SPEC_GET x = drop_bit 11 (x AND 0x1800)"

text \<open>The severity of an item in standard format: given directly, or by a bit of its qualifier.\<close>

definition has_severity :: "u16 \<Rightarrow> u32 \<Rightarrow> pf_diag_std \<Rightarrow> bool" where
  "has_severity maint qualifier_mask std = (let
     severity_qualifier = qual_ch_qualifier std AND PF_DIAG_QUALIFIED_SEVERITY_MASK
     in if PF_DIAG_CH_PROP_MAINT_GET (ch_properties std) = maint then True
        else if PF_DIAG_CH_PROP_MAINT_GET (ch_properties std) = PNET_DIAG_CH_PROP_MAINT_QUALIFIED
        then severity_qualifier AND qualifier_mask > 0
        else False)"

type_synonym 'z summary = "'z pf_alarm_data_scheme \<times> u32"

definition pf_alarm_add_diag_item_to_summary :: "nat option \<Rightarrow> pf_subslot \<Rightarrow> pf_diag_item \<Rightarrow> 'z summary \<Rightarrow> 'z summary" where
  "pf_alarm_add_diag_item_to_summary a p_subslot p_diag_item s = (case s of (spec, maint_status) \<Rightarrow> let
     is_same_ar = ((ownsm_state p_subslot = PF_OWNSM_STATE_IOC \<or> ownsm_state p_subslot = PF_OWNSM_STATE_IOS) \<and>
       owner p_subslot = a);
     std = di_std p_diag_item
     in if di_usi p_diag_item < PF_USI_CHANNEL_DIAGNOSIS
        then let
          spec = spec\<lparr>ad_manufacturer_diagnosis := True, ad_submodule_diagnosis := True\<rparr>
          in (if is_same_ar then spec\<lparr>ad_ar_diagnosis := True\<rparr> else spec, maint_status)
        else let
          severity_qualifier = qual_ch_qualifier std AND PF_DIAG_QUALIFIED_SEVERITY_MASK;
          is_maintenance_required =
            has_severity PNET_DIAG_CH_PROP_MAINT_REQUIRED PF_DIAG_QUALIFIER_MASK_REQUIRED std;
          is_maintenance_demanded =
            has_severity PNET_DIAG_CH_PROP_MAINT_DEMANDED PF_DIAG_QUALIFIER_MASK_DEMANDED std;
          is_fault = has_severity PNET_DIAG_CH_PROP_MAINT_FAULT PF_DIAG_QUALIFIER_MASK_FAULT std;
          is_appears = (PF_DIAG_CH_PROP_SPEC_GET (ch_properties std) = PF_DIAG_CH_PROP_SPEC_APPEARS);
          maint_status = maint_status OR severity_qualifier;
          maint_status = (if is_maintenance_required then maint_status OR PF_DIAG_BIT_MAINTENANCE_REQUIRED else maint_status);
          maint_status = (if is_maintenance_demanded then maint_status OR PF_DIAG_BIT_MAINTENANCE_DEMANDED else maint_status);
          spec = (if is_appears then spec\<lparr>ad_channel_diagnosis := True\<rparr> else spec);
          spec = (if is_appears \<and> is_fault then spec\<lparr>ad_submodule_diagnosis := True\<rparr> else spec);
          spec = (if is_appears \<and> is_fault \<and> is_same_ar then spec\<lparr>ad_ar_diagnosis := True\<rparr> else spec)
          in (spec, maint_status))"

text \<open>The device's array of diagnosis items, and the loop over a list in it.\<close>

definition pf_cmdev_get_diag_item :: "pf_diag_item list \<Rightarrow> u16 \<Rightarrow> pf_diag_item option" where
  "pf_cmdev_get_diag_item items item_ix = (if unat item_ix < length items then Some (items ! unat item_ix) else None)"

partial_function (option) add_diag_list ::
    "pf_diag_item list \<Rightarrow> nat option \<Rightarrow> pf_subslot \<Rightarrow> u16 \<Rightarrow> 'z summary \<Rightarrow> 'z summary option" where
  "add_diag_list items a sub item_ix s = (case pf_cmdev_get_diag_item items item_ix of
     None \<Rightarrow> Some s
   | Some i \<Rightarrow> add_diag_list items a sub (di_next i) (pf_alarm_add_diag_item_to_summary a sub i s))"

definition pf_alarm_get_diag_summary ::
    "nat \<Rightarrow> pf_diag_item option \<Rightarrow> alarm_net \<Rightarrow> 'z pf_alarm_data_scheme \<Rightarrow> 'z summary option" where
  "pf_alarm_get_diag_summary a p_diag_item n d = (let
     s = (d\<lparr>ad_channel_diagnosis := False, ad_manufacturer_diagnosis := False, ad_submodule_diagnosis := False,
       ad_ar_diagnosis := False\<rparr>, 0)
     in case subslot_of n (ad_api_id d) (ad_slot_nbr d) (ad_subslot_nbr d) of
       None \<Rightarrow> Some s
     | Some sub \<Rightarrow> (let
         s = (case p_diag_item of None \<Rightarrow> s | Some i \<Rightarrow> pf_alarm_add_diag_item_to_summary (Some a) sub i s)
         in add_diag_list (diag_items n) (Some a) sub (diag_list sub) s))"


section \<open>Requests to the alarm component and its periodic work\<close>

text \<open>
  Alarms of the application wait in the send queues; \<open>pf_alarm_periodic\<close> handles, for each AR, the
  received frames and then at most one waiting alarm, high priority first. The application
  acknowledges an alarm of the controller with \<open>pf_alarm_alpmr_alarm_ack\<close>. The idents of modules and
  submodules, and where they are missing, are arguments: the device tree is not modelled.
\<close>

definition PF_ALARM_TYPE_DIAGNOSIS :: u16 where "PF_ALARM_TYPE_DIAGNOSIS = 1"
definition PF_ALARM_TYPE_PROCESS :: u16 where "PF_ALARM_TYPE_PROCESS = 2"
definition PF_ALARM_TYPE_PULL :: u16 where "PF_ALARM_TYPE_PULL = 3"
definition PF_ALARM_TYPE_PLUG :: u16 where "PF_ALARM_TYPE_PLUG = 4"
definition PF_ALARM_TYPE_RELEASED :: u16 where "PF_ALARM_TYPE_RELEASED = 9"
definition PF_ALARM_TYPE_PLUG_WRONG_MODULE :: u16 where "PF_ALARM_TYPE_PLUG_WRONG_MODULE = 0x0a"
definition PF_ALARM_TYPE_DIAGNOSIS_DISAPPEARS :: u16 where "PF_ALARM_TYPE_DIAGNOSIS_DISAPPEARS = 0x0c"
definition PF_ALARM_TYPE_PORT_DATA_CHANGE :: u16 where "PF_ALARM_TYPE_PORT_DATA_CHANGE = 0x0e"
definition PF_ALARM_TYPE_PULL_MODULE :: u16 where "PF_ALARM_TYPE_PULL_MODULE = 0x1f"
definition PF_WRT_ERROR_REMOTE_MISMATCH :: u16 where "PF_WRT_ERROR_REMOTE_MISMATCH = 0x8001"

text \<open>
  The largest payload that \<open>pf_alarm.c\<close> accepts at compile time; the default of \<open>CMakeLists.txt\<close> is
  larger and refused. The size of a diagnosis item is that of the structure on the target.
\<close>

definition PNET_MAX_ALARM_PAYLOAD_DATA_SIZE :: nat where "PNET_MAX_ALARM_PAYLOAD_DATA_SIZE = 1408"
definition sizeof_diag_item :: u16 where "sizeof_diag_item = 60"

subsection \<open>Sending the next alarm\<close>

definition next_sequence :: "apmx_ptr \<Rightarrow> alarm_net \<Rightarrow> alarm_net" where
  "next_sequence y n = upd_alpmx y (\<lambda>y. y\<lparr>prev_sequence_number := sequence_number y,
     sequence_number := (sequence_number y + 1) mod 0x0800\<rparr>) n"

definition pf_alarm_send_internal :: "nat \<Rightarrow> apmx_ptr \<Rightarrow> alarm_data \<Rightarrow> alarm_net \<Rightarrow> (int \<times> alarm_net) option" where
  "pf_alarm_send_internal a p d n =
     (if \<not> global_alarm_enable n \<or> \<not> al_enable (al_ar a n) then None
      else do {
        y \<leftarrow> ax_p_alpmx (apmx_at p n);
        if alpmi_state (alpmx_at y n) \<noteq> PF_ALPMI_STATE_W_ALARM then None
        else do {
          (d, maint_status) \<leftarrow> pf_alarm_get_diag_summary a None n d;
          let d = d\<lparr>ad_sequence_number := sequence_number (alpmx_at y n)\<rparr>;
          let n = next_sequence y n;
          (ret, n) \<leftarrow> pf_alarm_apms_apms_a_data_req p d maint_status None n;
          if ret = 0
          then do {
            y \<leftarrow> ax_p_alpmx (apmx_at p n);
            Some (ret, upd_alpmx y (alpmi_state_update (\<lambda>_. PF_ALPMI_STATE_W_ACK)) n)
          }
          else Some (ret, n)
        }
      })"

text \<open>The loop over the priorities: \<open>Some True\<close> in the result stops it.\<close>

definition send_prio :: "nat \<Rightarrow> nat \<Rightarrow> alarm_net \<Rightarrow> (bool \<times> alarm_net) option" where
  "send_prio a prio n = do {
     y \<leftarrow> ax_p_alpmx (apmx_at (a, prio) n);
     if alpmi_state (alpmx_at y n) = PF_ALPMI_STATE_W_ALARM
     then case pf_alarm_send_queue_fetch (alarm_send_q (al_ar a n) ! prio) of
       None \<Rightarrow> Some (False, n)
     | Some (d, q) \<Rightarrow> do {
         let n = upd_al a (\<lambda>r. r\<lparr>alarm_send_q := (alarm_send_q r)[prio := q]\<rparr>) n;
         (_, n) \<leftarrow> pf_alarm_send_internal a (a, prio) d n;
         Some (True, n)
       }
     else Some (False, n)
   }"

definition pf_alarm_almpi_periodic :: "nat \<Rightarrow> alarm_net \<Rightarrow> alarm_net option" where
  "pf_alarm_almpi_periodic a n =
     (if al_enable (al_ar a n)
      then do {
        (sent, n) \<leftarrow> send_prio a 1 n;
        if sent then Some n else map_option snd (send_prio a 0 n)
      }
      else Some n)"

definition periodic_ar :: "nat \<Rightarrow> alarm_net \<Rightarrow> alarm_net option" where
  "periodic_ar a n =
     (if al_in_use (al_ar a n)
      then do {
        (_, n) \<leftarrow> pf_alarm_apmr_periodic a n;
        pf_alarm_almpi_periodic a n
      }
      else Some n)"

definition pf_alarm_periodic :: "alarm_net \<Rightarrow> alarm_net option" where
  "pf_alarm_periodic n =
     (if global_alarm_enable n then for_creps periodic_ar [0 ..< length (al_ars n)] n else Some n)"

subsection \<open>Switching alarms on and off\<close>

definition pf_alarm_enable :: "nat \<Rightarrow> alarm_net \<Rightarrow> alarm_net" where
  "pf_alarm_enable a n = upd_al a (al_enable_update (\<lambda>_. True)) n"

definition pf_alarm_disable :: "nat \<Rightarrow> alarm_net \<Rightarrow> alarm_net" where
  "pf_alarm_disable a n = upd_al a (al_enable_update (\<lambda>_. False)) n"

definition pf_alarm_pending :: "alarm_ar \<Rightarrow> bool" where
  "pf_alarm_pending r = False"

subsection \<open>The application's acknowledgement\<close>

definition pf_alarm_alpmr_alarm_ack :: "nat \<Rightarrow> pf_alarm_data \<Rightarrow> pnet_pnio_status \<Rightarrow> alarm_net \<Rightarrow> (int \<times> alarm_net) option" where
  "pf_alarm_alpmr_alarm_ack a p_alarm_argument p_pnio_status n =
     (case alpmr_state (alpmx_at (a, 1) n) of
        PF_ALPMR_STATE_W_USER_ACK \<Rightarrow> do {
          let d = zero_alarm_data\<lparr>ad_alarm_type := ad_alarm_type p_alarm_argument, ad_api_id := ad_api_id p_alarm_argument,
            ad_slot_nbr := ad_slot_nbr p_alarm_argument, ad_subslot_nbr := ad_subslot_nbr p_alarm_argument,
            ad_channel_diagnosis := ad_channel_diagnosis p_alarm_argument,
            ad_manufacturer_diagnosis := ad_manufacturer_diagnosis p_alarm_argument,
            ad_submodule_diagnosis := ad_submodule_diagnosis p_alarm_argument,
            ad_ar_diagnosis := ad_ar_diagnosis p_alarm_argument,
            ad_sequence_number := ad_sequence_number p_alarm_argument\<rparr>;
          let n = next_sequence (a, 1) n;
          (ret, n) \<leftarrow> pf_alarm_apms_apms_a_data_req (a, 1) d 0 (Some p_pnio_status) n;
          Some (ret, upd_alpmx (a, 1) (alpmr_state_update (\<lambda>_. PF_ALPMR_STATE_W_TACK)) n)
        }
      | _ \<Rightarrow> Some (- 1, set_err a PNET_ERROR_CODE_1_ALPMI PNET_ERROR_CODE_2_ALPMI_WRONG_STATE n))"

definition pnet_alarm_send_ack :: "nat \<Rightarrow> pf_alarm_data \<Rightarrow> pnet_pnio_status \<Rightarrow> alarm_net \<Rightarrow> (int \<times> alarm_net) option" where
  "pnet_alarm_send_ack e p_alarm_argument p_pnio_status n =
     (if e > 0 \<and> e - 1 < length (al_ars n) \<and> al_in_use (al_ar (e - 1) n)
      then pf_alarm_alpmr_alarm_ack (e - 1) p_alarm_argument p_pnio_status n
      else Some (- 1, n))"

subsection \<open>Putting alarms into the send queue\<close>

text \<open>The arguments of \<open>pf_alarm_send_alarm\<close> that do not depend on the place.\<close>

definition pf_alarm_send_alarm ::
    "nat \<Rightarrow> u16 \<Rightarrow> bool \<Rightarrow> u32 \<Rightarrow> u16 \<Rightarrow> u16 \<Rightarrow> u32 \<Rightarrow> u32 \<Rightarrow> u16 \<Rightarrow> u16 \<Rightarrow> (u8 list \<times> pf_diag_item) option \<Rightarrow> alarm_net \<Rightarrow>
     int \<times> alarm_net" where
  "pf_alarm_send_alarm a type high_prio api slot subslot module_ident submodule_ident usi payload_len p_payload n =
     (if \<not> global_alarm_enable n \<or> \<not> al_enable (al_ar a n) then (- 1, n)
      else if unat payload_len > PNET_MAX_ALARM_PAYLOAD_DATA_SIZE then (- 1, n)
      else if payload_len > acr_max_alarm_data_length (alarm_cr_request (al_ar a n)) then (- 1, n)
      else if payload_len > 0 \<and> p_payload = None then (- 1, n)
      else let
        d = zero_alarm_data\<lparr>ad_alarm_type := type, ad_api_id := api, ad_slot_nbr := slot, ad_subslot_nbr := subslot,
          ad_module_ident := module_ident, ad_submodule_ident := ucast submodule_ident,
          ad_payload := \<lparr>pl_usi = usi, pl_len = payload_len,
            pl_data = (case p_payload of Some (bs, _) \<Rightarrow> take (unat payload_len) bs | None \<Rightarrow> []),
            pl_item = (case p_payload of Some (_, i) \<Rightarrow> (if payload_len > 0 then i else zero_diag_item) | None \<Rightarrow> zero_diag_item)\<rparr>\<rparr>;
        prio = (if high_prio then 1 else 0);
        (ret, q) = pf_alarm_send_queue_post d (alarm_send_q (al_ar a n) ! prio)
      in (ret, upd_al a (\<lambda>r. r\<lparr>alarm_send_q := (alarm_send_q r)[prio := q]\<rparr>) n))"

definition pf_alarm_send_process ::
    "nat \<Rightarrow> u32 \<Rightarrow> u16 \<Rightarrow> u16 \<Rightarrow> u32 option \<Rightarrow> u32 option \<Rightarrow> u16 \<Rightarrow> u16 \<Rightarrow> u8 list option \<Rightarrow> alarm_net \<Rightarrow> int \<times> alarm_net" where
  "pf_alarm_send_process a api slot subslot module_ident submodule_ident usi payload_len p_payload n =
     (if usi \<ge> PF_USI_CHANNEL_DIAGNOSIS then (- 1, n)
      else case (module_ident, submodule_ident) of
        (Some m, Some s) \<Rightarrow> pf_alarm_send_alarm a PF_ALARM_TYPE_PROCESS True api slot subslot m s usi payload_len
          (map_option (\<lambda>bs. (bs, zero_diag_item)) p_payload) n
      | _ \<Rightarrow> (- 1, n))"

definition pf_alarm_send_diagnosis ::
    "nat \<Rightarrow> u32 \<Rightarrow> u16 \<Rightarrow> u16 \<Rightarrow> u32 option \<Rightarrow> u32 option \<Rightarrow> pf_diag_item option \<Rightarrow> alarm_net \<Rightarrow> int \<times> alarm_net" where
  "pf_alarm_send_diagnosis a api slot subslot module_ident submodule_ident p_diag_item n = (case p_diag_item of
     None \<Rightarrow> (- 1, n)
   | Some i \<Rightarrow> (let
       type = (if di_usi i \<ge> PF_USI_CHANNEL_DIAGNOSIS \<and> ch_error_type (di_std i) = PF_WRT_ERROR_REMOTE_MISMATCH
         then PF_ALARM_TYPE_PORT_DATA_CHANGE else PF_ALARM_TYPE_DIAGNOSIS)
       in case (module_ident, submodule_ident) of
         (Some m, Some s) \<Rightarrow>
           if di_usi i < PF_USI_CHANNEL_DIAGNOSIS
           then pf_alarm_send_alarm a type False api slot subslot m s (di_usi i) (of_nat (length (di_manuf_data i)))
             (Some (di_manuf_data i, zero_diag_item)) n
           else pf_alarm_send_alarm a type False api slot subslot m s (di_usi i) sizeof_diag_item (Some ([], i)) n
       | _ \<Rightarrow> (- 1, n)))"

definition pf_alarm_send_usi_diagnosis_disappears ::
    "nat \<Rightarrow> u32 \<Rightarrow> u16 \<Rightarrow> u16 \<Rightarrow> u32 option \<Rightarrow> u32 option \<Rightarrow> u16 \<Rightarrow> alarm_net \<Rightarrow> (int \<times> alarm_net) option" where
  "pf_alarm_send_usi_diagnosis_disappears a api slot subslot module_ident submodule_ident usi n =
     (if \<not> usi < PF_USI_CHANNEL_DIAGNOSIS then None
      else case (module_ident, submodule_ident) of
        (Some m, Some s) \<Rightarrow> Some (pf_alarm_send_alarm a PF_ALARM_TYPE_DIAGNOSIS_DISAPPEARS False api slot subslot m s usi 0 None n)
      | _ \<Rightarrow> Some (- 1, n))"

definition pf_alarm_send_pull :: "nat \<Rightarrow> u32 \<Rightarrow> u16 \<Rightarrow> u16 \<Rightarrow> alarm_net \<Rightarrow> int \<times> alarm_net" where
  "pf_alarm_send_pull a api slot subslot n = (let
     type = (if subslot = 0 \<and> pull_module_allowed (al_ar a n) then PF_ALARM_TYPE_PULL_MODULE else PF_ALARM_TYPE_PULL)
     in (0, snd (pf_alarm_send_alarm a type False api slot subslot 0 0 0 0 None n)))"

definition pf_alarm_send_plug :: "nat \<Rightarrow> u32 \<Rightarrow> u16 \<Rightarrow> u16 \<Rightarrow> u32 \<Rightarrow> u32 \<Rightarrow> alarm_net \<Rightarrow> int \<times> alarm_net" where
  "pf_alarm_send_plug a api slot subslot m s n =
     (0, snd (pf_alarm_send_alarm a PF_ALARM_TYPE_PLUG False api slot subslot m s 0 0 None n))"

definition pf_alarm_send_plug_wrong :: "nat \<Rightarrow> u32 \<Rightarrow> u16 \<Rightarrow> u16 \<Rightarrow> u32 \<Rightarrow> u32 \<Rightarrow> alarm_net \<Rightarrow> int \<times> alarm_net" where
  "pf_alarm_send_plug_wrong a api slot subslot m s n =
     (0, snd (pf_alarm_send_alarm a PF_ALARM_TYPE_PLUG_WRONG_MODULE False api slot subslot m s 0 0 None n))"

definition pf_alarm_send_released :: "nat \<Rightarrow> u32 \<Rightarrow> u16 \<Rightarrow> u16 \<Rightarrow> u32 \<Rightarrow> u32 \<Rightarrow> alarm_net \<Rightarrow> int \<times> alarm_net" where
  "pf_alarm_send_released a api slot subslot m s n =
     (0, snd (pf_alarm_send_alarm a PF_ALARM_TYPE_RELEASED False api slot subslot m s 0 0 None n))"

end
