(* ===== verification/Alarm_Effects.thy ===== *)
theory Alarm_Effects
  imports Alarm_Requests
begin

section \<open>Access to the alarm state\<close>

text \<open>
  Rules for reading what an update wrote. \<open>valid p n\<close>: the pointer \<open>p\<close> is in the tables of \<open>n\<close>.
\<close>

definition valid :: "apmx_ptr \<Rightarrow> alarm_net \<Rightarrow> bool" where
  "valid p n \<longleftrightarrow> fst p < length (al_ars n) \<and> snd p < length (apmxs (al_ar (fst p) n)) \<and>
     length (alpmxs (al_ar (fst p) n)) = length (apmxs (al_ar (fst p) n))"

lemma upd_nth [simp]: "i < length xs \<Longrightarrow> upd i f xs ! j = (if i = j then f (xs ! i) else xs ! j)"
  by (auto simp: upd_def)

lemma al_ar_upd_al: "a < length (al_ars n) \<Longrightarrow> al_ar b (upd_al a f n) = (if b = a then f (al_ar a n) else al_ar b n)"
  by (simp add: al_ar_def upd_al_def)

lemma al_ar_emit [simp]: "al_ar a (al_emit os n) = al_ar a n"
  by (simp add: al_ar_def al_emit_def)

lemma upd_al_fields [simp]:
  "al_sched (upd_al a f n) = al_sched n" "al_clock (upd_al a f n) = al_clock n" "apmx_name (upd_al a f n) = apmx_name n"
  "global_alarm_enable (upd_al a f n) = global_alarm_enable n" "alarm_endpoints (upd_al a f n) = alarm_endpoints n"
  "device_mac (upd_al a f n) = device_mac n" "subslot_of (upd_al a f n) = subslot_of n"
  "diag_items (upd_al a f n) = diag_items n" "alloc_ok (upd_al a f n) = alloc_ok n" "send_ok (upd_al a f n) = send_ok n"
  "al_outs (upd_al a f n) = al_outs n" "length (al_ars (upd_al a f n)) = length (al_ars n)"
  by (simp_all add: upd_al_def)

lemma al_emit_fields [simp]:
  "al_sched (al_emit os n) = al_sched n" "al_clock (al_emit os n) = al_clock n" "apmx_name (al_emit os n) = apmx_name n"
  "global_alarm_enable (al_emit os n) = global_alarm_enable n" "alarm_endpoints (al_emit os n) = alarm_endpoints n"
  "device_mac (al_emit os n) = device_mac n" "subslot_of (al_emit os n) = subslot_of n"
  "diag_items (al_emit os n) = diag_items n" "alloc_ok (al_emit os n) = alloc_ok n" "send_ok (al_emit os n) = send_ok n"
  "al_outs (al_emit os n) = al_outs n @ os" "al_ars (al_emit os n) = al_ars n"
  by (simp_all add: al_emit_def)

lemma upd_apmx_fields [simp]:
  "al_sched (upd_apmx p f n) = al_sched n" "al_clock (upd_apmx p f n) = al_clock n" "apmx_name (upd_apmx p f n) = apmx_name n"
  "global_alarm_enable (upd_apmx p f n) = global_alarm_enable n" "alarm_endpoints (upd_apmx p f n) = alarm_endpoints n"
  "device_mac (upd_apmx p f n) = device_mac n" "subslot_of (upd_apmx p f n) = subslot_of n"
  "diag_items (upd_apmx p f n) = diag_items n" "alloc_ok (upd_apmx p f n) = alloc_ok n" "send_ok (upd_apmx p f n) = send_ok n"
  "al_outs (upd_apmx p f n) = al_outs n" "length (al_ars (upd_apmx p f n)) = length (al_ars n)"
  by (simp_all add: upd_apmx_def)

lemma upd_alpmx_fields [simp]:
  "al_sched (upd_alpmx p f n) = al_sched n" "al_clock (upd_alpmx p f n) = al_clock n" "apmx_name (upd_alpmx p f n) = apmx_name n"
  "global_alarm_enable (upd_alpmx p f n) = global_alarm_enable n" "alarm_endpoints (upd_alpmx p f n) = alarm_endpoints n"
  "device_mac (upd_alpmx p f n) = device_mac n" "subslot_of (upd_alpmx p f n) = subslot_of n"
  "diag_items (upd_alpmx p f n) = diag_items n" "alloc_ok (upd_alpmx p f n) = alloc_ok n" "send_ok (upd_alpmx p f n) = send_ok n"
  "al_outs (upd_alpmx p f n) = al_outs n" "length (al_ars (upd_alpmx p f n)) = length (al_ars n)"
  by (simp_all add: upd_alpmx_def)

text \<open>Members of an AR besides the tables of its machines.\<close>

lemma al_ar_upd_apmx [simp]:
  assumes "valid p n"
  shows "al_in_use (al_ar b (upd_apmx p f n)) = al_in_use (al_ar b n)"
    "al_enable (al_ar b (upd_apmx p f n)) = al_enable (al_ar b n)"
    "al_cmsu (al_ar b (upd_apmx p f n)) = al_cmsu (al_ar b n)"
    "al_err_cls (al_ar b (upd_apmx p f n)) = al_err_cls (al_ar b n)"
    "al_err_code (al_ar b (upd_apmx p f n)) = al_err_code (al_ar b n)"
    "alarm_cr_request (al_ar b (upd_apmx p f n)) = alarm_cr_request (al_ar b n)"
    "alarm_cr_result (al_ar b (upd_apmx p f n)) = alarm_cr_result (al_ar b n)"
    "alarm_send_q (al_ar b (upd_apmx p f n)) = alarm_send_q (al_ar b n)"
    "alpmxs (al_ar b (upd_apmx p f n)) = alpmxs (al_ar b n)"
    "length (apmxs (al_ar b (upd_apmx p f n))) = length (apmxs (al_ar b n))"
  using assms by (auto simp: upd_apmx_def al_ar_upd_al valid_def)

lemma al_ar_upd_alpmx [simp]:
  assumes "valid p n"
  shows "al_in_use (al_ar b (upd_alpmx p f n)) = al_in_use (al_ar b n)"
    "al_enable (al_ar b (upd_alpmx p f n)) = al_enable (al_ar b n)"
    "al_cmsu (al_ar b (upd_alpmx p f n)) = al_cmsu (al_ar b n)"
    "al_err_cls (al_ar b (upd_alpmx p f n)) = al_err_cls (al_ar b n)"
    "al_err_code (al_ar b (upd_alpmx p f n)) = al_err_code (al_ar b n)"
    "alarm_cr_request (al_ar b (upd_alpmx p f n)) = alarm_cr_request (al_ar b n)"
    "alarm_cr_result (al_ar b (upd_alpmx p f n)) = alarm_cr_result (al_ar b n)"
    "alarm_send_q (al_ar b (upd_alpmx p f n)) = alarm_send_q (al_ar b n)"
    "apmxs (al_ar b (upd_alpmx p f n)) = apmxs (al_ar b n)"
    "length (alpmxs (al_ar b (upd_alpmx p f n))) = length (alpmxs (al_ar b n))"
  using assms by (auto simp: upd_alpmx_def al_ar_upd_al valid_def)

lemma apmx_at_simps [simp]:
  "valid p n \<Longrightarrow> apmx_at q (upd_apmx p f n) = (if q = p then f (apmx_at p n) else apmx_at q n)"
  "valid p n \<Longrightarrow> apmx_at q (upd_alpmx p g n) = apmx_at q n"
  "apmx_at q (al_emit os n) = apmx_at q n"
  by (auto simp: apmx_at_def upd_apmx_def al_ar_upd_al valid_def prod_eq_iff)

lemma alpmx_at_simps [simp]:
  "valid p n \<Longrightarrow> alpmx_at q (upd_alpmx p g n) = (if q = p then g (alpmx_at p n) else alpmx_at q n)"
  "valid p n \<Longrightarrow> alpmx_at q (upd_apmx p f n) = alpmx_at q n"
  "alpmx_at q (al_emit os n) = alpmx_at q n"
  by (auto simp: alpmx_at_def upd_alpmx_def al_ar_upd_al valid_def prod_eq_iff)

lemma valid_simps [simp]:
  "valid p n \<Longrightarrow> valid q (upd_apmx p f n) = valid q n" "valid p n \<Longrightarrow> valid q (upd_alpmx p g n) = valid q n"
  "valid q (al_emit os n) = valid q n" "valid q (n\<lparr>al_sched := s\<rparr>) = valid q n"
  by (simp_all add: valid_def [of q]) (simp add: al_ar_def)

lemma sched_simps [simp]:
  "al_ar a (n\<lparr>al_sched := s\<rparr>) = al_ar a n" "apmx_at p (n\<lparr>al_sched := s\<rparr>) = apmx_at p n"
  "alpmx_at p (n\<lparr>al_sched := s\<rparr>) = alpmx_at p n"
  by (simp_all add: al_ar_def apmx_at_def alpmx_at_def)

lemma al_emit_append [simp]: "al_emit ys (al_emit xs n) = al_emit (xs @ ys) n"
  by (simp add: al_emit_def)


section \<open>What the operations of an open APMX do\<close>

text \<open>
  An activated APMX is \<open>linked\<close> to its AR and its protocol machines. For a linked APMX the operations
  that do not abort the AR have closed forms: \<open>tacked\<close> is what an acknowledgement changes, \<open>sent\<close> what
  sending a frame changes.
\<close>

definition linked :: "apmx_ptr \<Rightarrow> alarm_net \<Rightarrow> bool" where
  "linked p n \<longleftrightarrow> valid p n \<and> ax_p_ar (apmx_at p n) = Some (fst p) \<and> ax_p_alpmx (apmx_at p n) = Some p"

lemma linkedD:
  assumes "linked p n"
  shows "valid p n" "ax_p_ar (apmx_at p n) = Some (fst p)" "ax_p_alpmx (apmx_at p n) = Some p"
  using assms by (simp_all add: linked_def)

lemma linked_emit [simp]: "linked p (al_emit os n) = linked p n"
  by (simp add: linked_def)

lemma linked_alpmx [simp]: "valid q n \<Longrightarrow> linked p (upd_alpmx q f n) = linked p n"
  by (simp add: linked_def)

lemma linked_apmx:
  "valid q n \<Longrightarrow> (\<And>x. ax_p_ar (f x) = ax_p_ar x) \<Longrightarrow> (\<And>x. ax_p_alpmx (f x) = ax_p_alpmx x) \<Longrightarrow>
   linked p (upd_apmx q f n) = linked p n"
  by (simp add: linked_def)

lemma linked_sched [simp]: "linked p (n\<lparr>al_sched := s\<rparr>) = linked p n"
  by (simp add: linked_def)

lemma free_rta_simps [simp]:
  assumes "valid p n"
  shows "valid q (free_rta p n) = valid q n" "alpmx_at q (free_rta p n) = alpmx_at q n"
    "apmx_at q (free_rta p n) = (if q = p then (apmx_at p n)\<lparr>p_rta := None\<rparr> else apmx_at q n)"
    "linked q (free_rta p n) = linked q n"
    "al_outs (free_rta p n) = al_outs n @ (if p_rta (apmx_at p n) = None then [] else [Buf_free])"
  using assms by (auto simp: free_rta_def linked_apmx)

subsection \<open>An acknowledgement\<close>

definition is_tack :: "apmx \<Rightarrow> pf_alarm_fixed \<Rightarrow> bool" where
  "is_tack x f \<longleftrightarrow> (pdu_type f = PF_RTA_PDU_TYPE_ACK \<or> pdu_type f = PF_RTA_PDU_TYPE_DATA) \<and>
     apms_state x = PF_APMS_STATE_WTACK \<and> ack_seq_nbr f = send_seq_count x"

definition tacked :: "apmx_ptr \<Rightarrow> alarm_net \<Rightarrow> alarm_net" where
  "tacked p n = (let
     n = upd_apmx p (\<lambda>x. x\<lparr>send_seq_count_o := send_seq_count x, send_seq_count := next_seq (send_seq_count x)\<rparr>) n;
     n = free_rta p n;
     n = (if alpmr_state (alpmx_at p n) = PF_ALPMR_STATE_W_TACK
       then upd_alpmx p (alpmr_state_update (\<lambda>_. PF_ALPMR_STATE_W_NOTIFY)) (al_emit [Fspm_alarm_ack_cnf (fst p) 0] n) else n)
     in upd_apmx p (apms_state_update (\<lambda>_. PF_APMS_STATE_OPEN)) n)"

lemma apms_a_data_ind_eq:
  assumes "linked p n"
  shows "pf_alarm_apms_a_data_ind p f n = Some (if is_tack (apmx_at p n) f then tacked p n else n)"
proof -
  let ?n = "free_rta p (upd_apmx p (\<lambda>x. x\<lparr>send_seq_count_o := send_seq_count x, send_seq_count := next_seq (send_seq_count x)\<rparr>) n)"
  note v = linkedD [OF assms]
  have l: "ax_p_alpmx (apmx_at p ?n) = Some p" "ax_p_ar (apmx_at p ?n) = Some (fst p)" using v by simp_all
  have "pf_alarm_alpmi_apms_a_data_cnf p 0 ?n = Some ?n"
    by (simp add: pf_alarm_alpmi_apms_a_data_cnf_def l)
  moreover have "pf_alarm_alpmr_apms_a_data_cnf p 0 ?n = Some (if alpmr_state (alpmx_at p ?n) = PF_ALPMR_STATE_W_TACK
      then upd_alpmx p (alpmr_state_update (\<lambda>_. PF_ALPMR_STATE_W_NOTIFY)) (al_emit [Fspm_alarm_ack_cnf (fst p) 0] ?n) else ?n)"
    by (simp add: pf_alarm_alpmr_apms_a_data_cnf_def l split: alpmr_state.split)
  ultimately show ?thesis
    unfolding pf_alarm_apms_a_data_ind_def conj_assoc is_tack_def [symmetric] Let_def tacked_def by simp
qed

lemma tacked_simps [simp]:
  assumes "valid p n"
  shows "valid q (tacked p n) = valid q n" "linked q (tacked p n) = linked q n"
    "apmx_at q (tacked p n) = (if q = p then (apmx_at p n)\<lparr>send_seq_count_o := send_seq_count (apmx_at p n),
       send_seq_count := next_seq (send_seq_count (apmx_at p n)), p_rta := None, apms_state := PF_APMS_STATE_OPEN\<rparr>
       else apmx_at q n)"
    "alpmx_at q (tacked p n) = (if q = p \<and> alpmr_state (alpmx_at p n) = PF_ALPMR_STATE_W_TACK
       then (alpmx_at p n)\<lparr>alpmr_state := PF_ALPMR_STATE_W_NOTIFY\<rparr> else alpmx_at q n)"
    "al_outs (tacked p n) = al_outs n @ (if p_rta (apmx_at p n) = None then [] else [Buf_free]) @
       (if alpmr_state (alpmx_at p n) = PF_ALPMR_STATE_W_TACK then [Fspm_alarm_ack_cnf (fst p) 0] else [])"
  using assms by (auto simp: tacked_def Let_def linked_apmx)

subsection \<open>Sending\<close>

text \<open>The result and the state after sending a frame, when its contents are as its type says.\<close>

definition sent :: "apmx_ptr \<Rightarrow> pf_alarm_fixed \<Rightarrow> alarm_data \<Rightarrow> u32 \<Rightarrow> pnet_pnio_status option \<Rightarrow> alarm_net \<Rightarrow> int \<times> alarm_net" where
  "sent p f d m st n =
     (if acr_transport_udp (alarm_cr_request (al_ar (fst p) n)) then (- 1, n)
      else if \<not> alloc_ok n (length (al_outs n)) then (- 1, al_emit [Buf_alloc False] n)
      else let frame = build_frame (device_mac n) (apmx_at p n) f d m st;
        n' = al_emit [Buf_alloc True, Eth_send frame] n
      in (if send_ok n (length (al_outs n) + 1) then 0 else - 1,
          if tack f \<and> p_rta (apmx_at p n) = None then upd_apmx p (p_rta_update (\<lambda>_. Some frame)) n'
          else al_emit [Buf_free] n'))"

lemma a_data_req_eq:
  assumes "linked p n" "pdu_type f \<noteq> PF_RTA_PDU_TYPE_ERR \<or> st \<noteq> None"
  shows "pf_alarm_apms_a_data_req p f d m st n = Some (sent p f d m st n)"
  using linkedD [OF assms(1)] assms(2) by (auto simp: pf_alarm_apms_a_data_req_def sent_def Let_def)

lemma sent_simps [simp]:
  assumes "valid p n"
  shows "valid q (snd (sent p f d m st n)) = valid q n" "linked q (snd (sent p f d m st n)) = linked q n"
    "alpmx_at q (snd (sent p f d m st n)) = alpmx_at q n"
    "q \<noteq> p \<Longrightarrow> apmx_at q (snd (sent p f d m st n)) = apmx_at q n"
    "\<not> tack f \<Longrightarrow> apmx_at q (snd (sent p f d m st n)) = apmx_at q n"
  using assms by (auto simp: sent_def Let_def linked_apmx)

lemma sent_apmx [simp]:
  assumes "valid p n"
  shows "apms_state (apmx_at p (snd (sent p f d m st n))) = apms_state (apmx_at p n)"
    "apmr_state (apmx_at p (snd (sent p f d m st n))) = apmr_state (apmx_at p n)"
    "send_seq_count (apmx_at p (snd (sent p f d m st n))) = send_seq_count (apmx_at p n)"
    "send_seq_count_o (apmx_at p (snd (sent p f d m st n))) = send_seq_count_o (apmx_at p n)"
    "exp_seq_count (apmx_at p (snd (sent p f d m st n))) = exp_seq_count (apmx_at p n)"
    "exp_seq_count_o (apmx_at p (snd (sent p f d m st n))) = exp_seq_count_o (apmx_at p n)"
    "resend_counter (apmx_at p (snd (sent p f d m st n))) = resend_counter (apmx_at p n)"
    "ax_p_ar (apmx_at p (snd (sent p f d m st n))) = ax_p_ar (apmx_at p n)"
    "ax_p_alpmx (apmx_at p (snd (sent p f d m st n))) = ax_p_alpmx (apmx_at p n)"
  using assms by (auto simp: sent_def Let_def)

text \<open>The transport acknowledgement.\<close>

definition ack_of :: "apmx \<Rightarrow> pf_alarm_fixed" where
  "ack_of x = alarm_fixed x PF_RTA_PDU_TYPE_ACK False (send_seq_count_o x)"

lemma ack_of_simps [simp]: "\<not> tack (ack_of x)" "pdu_type (ack_of x) = PF_RTA_PDU_TYPE_ACK"
  "PF_RTA_PDU_TYPE_ACK \<noteq> PF_RTA_PDU_TYPE_ERR" "PF_RTA_PDU_TYPE_NACK \<noteq> PF_RTA_PDU_TYPE_ERR"
  "PF_RTA_PDU_TYPE_DATA \<noteq> PF_RTA_PDU_TYPE_ERR" "PF_RTA_PDU_TYPE_DATA \<noteq> PF_RTA_PDU_TYPE_ACK"
  "PF_RTA_PDU_TYPE_DATA \<noteq> PF_RTA_PDU_TYPE_NACK" "ack_seq_nbr (ack_of x) = exp_seq_count_o x"
  by (simp_all add: ack_of_def alarm_fixed_def PF_RTA_PDU_TYPE_ACK_def PF_RTA_PDU_TYPE_ERR_def PF_RTA_PDU_TYPE_NACK_def
      PF_RTA_PDU_TYPE_DATA_def)

lemma send_ack_eq:
  "linked p n \<Longrightarrow> pf_alarm_apmr_send_ack p n = Some (sent p (ack_of (apmx_at p n)) zero_alarm_data 0 None n)"
  unfolding pf_alarm_apmr_send_ack_def Let_def ack_of_def [symmetric] by (rule a_data_req_eq) simp_all

subsection \<open>Accepting a frame\<close>

definition after_tack :: "apmx_ptr \<Rightarrow> pf_alarm_fixed \<Rightarrow> alarm_net \<Rightarrow> alarm_net" where
  "after_tack p f n = (if is_tack (apmx_at p n) f then tacked p n else n)"

lemma after_tack_simps [simp]:
  assumes "valid p n"
  shows "valid q (after_tack p f n) = valid q n" "linked q (after_tack p f n) = linked q n"
    "q \<noteq> p \<Longrightarrow> apmx_at q (after_tack p f n) = apmx_at q n" "q \<noteq> p \<Longrightarrow> alpmx_at q (after_tack p f n) = alpmx_at q n"
    "exp_seq_count (apmx_at p (after_tack p f n)) = exp_seq_count (apmx_at p n)"
    "exp_seq_count_o (apmx_at p (after_tack p f n)) = exp_seq_count_o (apmx_at p n)"
    "apmr_state (apmx_at p (after_tack p f n)) = apmr_state (apmx_at p n)"
    "alpmi_state (alpmx_at p (after_tack p f n)) = alpmi_state (alpmx_at p n)"
    "ax_p_ar (apmx_at p (after_tack p f n)) = ax_p_ar (apmx_at p n)"
    "ax_p_alpmx (apmx_at p (after_tack p f n)) = ax_p_alpmx (apmx_at p n)"
  using assms by (auto simp: after_tack_def)

lemma after_tack_alpmr:
  "valid p n \<Longrightarrow> alpmr_state (alpmx_at p n) \<noteq> PF_ALPMR_STATE_W_TACK \<Longrightarrow> alpmx_at p (after_tack p f n) = alpmx_at p n"
  by (auto simp: after_tack_def)

definition expect_next :: "apmx_ptr \<Rightarrow> alarm_net \<Rightarrow> alarm_net" where
  "expect_next p n = upd_apmx p (\<lambda>x. x\<lparr>exp_seq_count_o := exp_seq_count x, exp_seq_count := next_seq (exp_seq_count x)\<rparr>) n"

lemma expect_next_simps [simp]:
  assumes "valid p n"
  shows "valid q (expect_next p n) = valid q n" "linked q (expect_next p n) = linked q n"
    "alpmx_at q (expect_next p n) = alpmx_at q n"
    "apmx_at q (expect_next p n) = (if q = p then (apmx_at p n)\<lparr>exp_seq_count_o := exp_seq_count (apmx_at p n),
       exp_seq_count := next_seq (exp_seq_count (apmx_at p n))\<rparr> else apmx_at q n)"
    "al_outs (expect_next p n) = al_outs n"
  using assms by (auto simp: expect_next_def linked_apmx)

lemma accept_data_eq:
  assumes "linked p n"
  shows "accept_data p f n = Some (let n' = expect_next p (after_tack p f n)
    in sent p (ack_of (apmx_at p n')) zero_alarm_data 0 None n')"
proof -
  have "linked p (expect_next p (after_tack p f n))"
    using assms linkedD(1) [OF assms] by simp
  from send_ack_eq [OF this] show ?thesis
    by (simp add: accept_data_def apms_a_data_ind_eq [OF assms] after_tack_def [symmetric] expect_next_def [symmetric] Let_def)
qed

end
