(* ===== verification/Alarm_Frames.thy ===== *)
theory Alarm_Frames
  imports Alarm_Effects
begin

section \<open>What alarm frames look like, sent and received\<close>

text \<open>
  \<open>build_frame_eq\<close> is the layout of the frames that APMS sends, \<open>parse_fixed\<close> what the receive loop
  reads from one. From both follows what an alarm of one station becomes at another.
\<close>

definition enc_var :: "apmx \<Rightarrow> pf_alarm_fixed \<Rightarrow> alarm_data \<Rightarrow> u32 \<Rightarrow> pnet_pnio_status option \<Rightarrow> u8 list" where
  "enc_var x fixed d m st =
     (if pdu_type fixed = PF_RTA_PDU_TYPE_DATA then
        (case st of
           Some s \<Rightarrow> enc_alarm_block True (block_type_alarm_ack x) (pf_alarm_data.truncate d) m (ad_payload zero_alarm_data) s
         | None \<Rightarrow> enc_alarm_block True (block_type_alarm_notify x) (pf_alarm_data.truncate d) m (ad_payload d)
             \<lparr>error_code = 0, error_decode = 0, error_code_1 = 0, error_code_2 = 0\<rparr>)
      else if pdu_type fixed = PF_RTA_PDU_TYPE_ERR then (case st of Some s \<Rightarrow> enc_status s | None \<Rightarrow> [])
      else [])"

definition enc_header :: "u8 list \<Rightarrow> apmx \<Rightarrow> u8 list" where
  "enc_header mac x = ax_da x @ mac @ enc16 True PNAL_ETHTYPE_VLAN @ enc16 True (push_bit 13 (vlan_prio x AND 7)) @
     enc16 True PNAL_ETHTYPE_PROFINET @ enc16 True (ax_frame_id x)"

lemma run_var_part:
  assumes "room s (length (enc_var x fixed d m st))" "res_len s = of_nat PF_FRAME_BUFFER_SIZE"
  shows "run_state (put_var_part x fixed d m st) s = ((), emit (enc_var x fixed d m st) s)"
  using assms run_alarm_block writesD [OF writes_status] writesD [OF writes_skip]
  by (auto simp: put_var_part_def enc_var_def split: option.split)

lemma room_frame_buffer: "n \<le> PF_FRAME_BUFFER_SIZE \<Longrightarrow> room frame_buffer n"
  by (simp add: room_def frame_buffer_def PF_FRAME_BUFFER_SIZE_def)

lemma frame_parts:
  "put_frame mac x fixed d m st = do {
     do {
       pf_put_mem (ax_da x);
       pf_put_mem mac;
       pf_put_uint16 True PNAL_ETHTYPE_VLAN;
       pf_put_uint16 True (push_bit 13 (vlan_prio x AND 7));
       pf_put_uint16 True PNAL_ETHTYPE_PROFINET;
       pf_put_uint16 True (ax_frame_id x);
       pf_put_alarm_fixed True fixed
     };
     v \<leftarrow> get_pos;
     pf_put_uint16 True 0;
     put_var_part x fixed d m st;
     pos \<leftarrow> get_pos;
     put_at v (pf_put_uint16 True (pos - (v + 2)))
   }"
  by (simp add: put_frame_def)

lemma taken_frame:
  assumes "length f \<le> PF_FRAME_BUFFER_SIZE"
  shows "(case p_bytes (emit f frame_buffer) of None \<Rightarrow> [] | Some b \<Rightarrow> take (unat (put_pos (emit f frame_buffer))) b) = f"
proof -
  have "unat (of_nat (length f) :: u16) = length f"
    using assms by (simp add: unat_of_nat PF_FRAME_BUFFER_SIZE_def)
  then show ?thesis by (simp add: emit_def frame_buffer_def overwrite_def)
qed

text \<open>The layout of a frame.\<close>

lemma build_frame_eq:
  assumes ok: "alarm_fixed_ok fixed"
    and fits: "length (enc_header mac x @ enc_alarm_fixed True fixed) + 2 + length (enc_var x fixed d m st) \<le> PF_FRAME_BUFFER_SIZE"
  shows "build_frame mac x fixed d m st = enc_header mac x @ enc_alarm_fixed True fixed @
    enc16 True (of_nat (length (enc_var x fixed d m st))) @ enc_var x fixed d m st"
proof -
  let ?h = "enc_header mac x @ enc_alarm_fixed True fixed" and ?v = "enc_var x fixed d m st"
  let ?l = "of_nat (length ?v) :: u16" and ?b = frame_buffer
  have w: "writes (do {
      pf_put_mem (ax_da x); pf_put_mem mac; pf_put_uint16 True PNAL_ETHTYPE_VLAN;
      pf_put_uint16 True (push_bit 13 (vlan_prio x AND 7)); pf_put_uint16 True PNAL_ETHTYPE_PROFINET;
      pf_put_uint16 True (ax_frame_id x); pf_put_alarm_fixed True fixed }) ?h ()"
    unfolding enc_header_def append_assoc
    by (intro writes_then writes_mem writes_uint16 writes_alarm_fixed ok)
  have r: "room ?b (length (?h @ enc16 True 0 @ ?v))"
    using fits by (intro room_frame_buffer) simp
  have 1: "run_state (pf_put_uint16 True 0) (emit ?h ?b) = ((), emit (enc16 True 0) (emit ?h ?b))"
    by (intro writesD [OF writes_uint16] room_emit room_mono [OF r]) simp
  have 2: "run_state (put_var_part x fixed d m st) (emit (enc16 True 0) (emit ?h ?b)) =
      ((), emit ?v (emit (enc16 True 0) (emit ?h ?b)))"
    by (intro run_var_part room_emit room_mono [OF r]) (simp_all add: emit_simps frame_buffer_def)
  have 3: "emit ?v (emit (enc16 True 0) (emit ?h ?b)) = emit (?h @ enc16 True 0 @ ?v) ?b"
    using emit_append [OF room_mono [OF r], of ?h "enc16 True 0"] emit_append [of ?b "?h @ enc16 True 0" ?v] r by simp
  have p: "put_pos ?b = 0" by (simp add: frame_buffer_def)
  have pos: "put_pos (emit (?h @ enc16 True 0 @ ?v) ?b) - (put_pos ?b + of_nat (length ?h) + 2) = ?l"
    by (simp add: emit_simps p)
  have 4: "run_state (put_at (put_pos ?b + of_nat (length ?h)) (pf_put_uint16 True ?l)) (emit (?h @ enc16 True 0 @ ?v) ?b) =
      ((), emit (?h @ enc16 True ?l @ ?v) ?b)"
    by (rule run_put_at [OF writes_uint16 r]) simp
  have h0: "run_state (do {
      pf_put_mem (ax_da x); pf_put_mem mac; pf_put_uint16 True PNAL_ETHTYPE_VLAN;
      pf_put_uint16 True (push_bit 13 (vlan_prio x AND 7)); pf_put_uint16 True PNAL_ETHTYPE_PROFINET;
      pf_put_uint16 True (ax_frame_id x); pf_put_alarm_fixed True fixed }) ?b = ((), emit ?h ?b)"
    by (rule writesD [OF w]) (rule room_mono [OF r], simp)
  have run: "run_state (put_frame mac x fixed d m st) ?b = ((), emit (?h @ enc16 True ?l @ ?v) ?b)"
    unfolding frame_parts
    by (subst run_state_bind, subst h0)
      (simp only: prod.case run_state_bind run_get_pos 1 2 3 pos 4 emit_simps(3) [of ?h ?b])
  show ?thesis
    unfolding build_frame_def Let_def run snd_conv using fits by (subst taken_frame) simp_all
qed

subsection \<open>Parsing a received frame\<close>

lemma frame_cursor_simps [simp]:
  "is_big_endian (frame_cursor b p) = True" "p_pos (frame_cursor b p) = p" "p_buf (frame_cursor b p) = Some b"
  "result (frame_cursor b p) = PF_PARSE_OK"
  by (simp_all add: frame_cursor_def)

lemma advance_frame: "advance k (frame_cursor b p) = frame_cursor b (p + of_nat k)"
  by (simp add: advance_def frame_cursor_def)

text \<open>What comes next in a frame is read, and the cursor moves behind it.\<close>

lemma read_frame:
  assumes "reads True m bs v" "buf = pre @ bs @ rest" "length buf < 65536"
  shows "run_state m (frame_cursor buf (of_nat (length pre))) = (v, frame_cursor buf (of_nat (length (pre @ bs))))"
proof -
  have "unat (of_nat (length buf) :: u16) = length buf" "unat (of_nat (length pre) :: u16) = length pre"
    using assms(2,3) by (simp_all add: unat_of_nat del: of_nat_add)
  then have "parse_ready (frame_cursor buf (of_nat (length pre))) bs"
    using assms(2) by (simp add: parse_ready_def frame_cursor_def del: of_nat_add)
  from readsD [OF assms(1) _ this] show ?thesis
    by (simp add: advance_frame)
qed

lemma reads_seq: "reads e m b v \<Longrightarrow> reads e (f v) c w \<Longrightarrow> reads e (m \<bind> f) (b @ c) w"
  using reads_bind [of e m b v f "[c]" w] by simp

lemma reads_done: "reads e (State_Monad.return w) [] w"
  using reads_return [of w w e] by simp

lemma reads_pair: "reads e m b v \<Longrightarrow> reads e k c w \<Longrightarrow>
  reads e (do { x \<leftarrow> m; y \<leftarrow> k; State_Monad.return (x, y) }) (b @ c) (v, w)"
  by (rule reads_seq, assumption, rule reads_seq [where c = "[]", simplified], assumption, rule reads_done)

lemma reads_header_of: "reads e pf_get_block_header (concat [enc16 e t, enc16 e l, enc8 PNET_BLOCK_VERSION_HIGH,
    enc8 PNET_BLOCK_VERSION_LOW]) \<lparr>block_type = t, block_length = l, block_version_high = PNET_BLOCK_VERSION_HIGH,
      block_version_low = PNET_BLOCK_VERSION_LOW\<rparr>"
  unfolding pf_get_block_header_def by ((rule reads_intros)+, rule reads_return, simp)

text \<open>A frame that is a header of \<open>pre\<close>, a fixed part and a block, as the receive loop takes it apart.\<close>

definition block_head :: "u16 \<Rightarrow> u8 list \<Rightarrow> u8 list" where
  "block_head t body = concat [enc16 True t, enc16 True (of_nat (length body + 2)), enc8 PNET_BLOCK_VERSION_HIGH,
     enc8 PNET_BLOCK_VERSION_LOW]"

lemma enc_block_head: "enc_block True t body = block_head t body @ body"
  by (simp add: enc_block_def block_head_def)

lemma length_block_head [simp]: "length (block_head t body) = 6"
  by (simp add: block_head_def)

lemma length_enc_alarm_fixed [simp]: "length (enc_alarm_fixed e f) = 10"
  by (simp add: enc_alarm_fixed_def)

lemma parse_frame:
  assumes "alarm_fixed_ok f" "buf = pre @ enc_alarm_fixed True f @ enc16 True l @ enc_block True t body"
    "length buf < 65536"
  shows "run_state get_alarm_head
      (frame_cursor buf (of_nat (length pre))) = ((f, l), frame_cursor buf (of_nat (length pre + 12)))"
    "\<exists>h. run_state pf_get_block_header (frame_cursor buf (of_nat (length pre + 12))) =
      (h, frame_cursor buf (of_nat (length pre + 18))) \<and> block_type h = t"
proof -
  have "reads True get_alarm_head
      (enc_alarm_fixed True f @ enc16 True l) (f, l)"
    unfolding get_alarm_head_def by (intro reads_pair reads_alarm_fixed reads_uint16 assms(1))
  from read_frame [OF this _ assms(3), of pre "enc_block True t body"] assms(2)
  show "run_state get_alarm_head
      (frame_cursor buf (of_nat (length pre))) = ((f, l), frame_cursor buf (of_nat (length pre + 12)))"
    by (simp add: add.commute)
  let ?pre = "pre @ enc_alarm_fixed True f @ enc16 True l"
  have "buf = ?pre @ block_head t body @ body" by (simp add: assms(2) enc_block_head)
  from read_frame [OF reads_header_of [of True t "of_nat (length body + 2)", folded block_head_def] this assms(3)]
  show "\<exists>h. run_state pf_get_block_header (frame_cursor buf (of_nat (length pre + 12))) =
      (h, frame_cursor buf (of_nat (length pre + 18))) \<and> block_type h = t"
    by (simp add: add.commute)
qed

end
