(* ===== verification/Alarm_Activation.thy ===== *)
theory Alarm_Activation
  imports Alarm_Effects
begin

section \<open>The activation of an AR's alarms\<close>

text \<open>
  \<open>pf_alarm_activate\<close> on an AR whose machines are closed opens all of them: both priorities of the
  transport and of the protocol, with empty queues. At the end an example of an activated station.
\<close>

text \<open>The machines of an AR in the states that \<open>memset\<close> and closing leave.\<close>

definition closed_alarms :: "nat \<Rightarrow> alarm_net \<Rightarrow> bool" where
  "closed_alarms a n \<longleftrightarrow> a < length (al_ars n) \<and> length (apmxs (al_ar a n)) = 2 \<and> length (alpmxs (al_ar a n)) = 2 \<and>
     length (alarm_send_q (al_ar a n)) = 2 \<and>
     list_all (\<lambda>x. apms_state x = PF_APMS_STATE_CLOSED \<and> apmr_state x = PF_APMR_STATE_CLOSED \<and>
       p_rta x = None \<and> length (q_items (alarm_receive_q x)) = PNET_MAX_ALARMS) (apmxs (al_ar a n)) \<and>
     list_all (\<lambda>y. alpmi_state y = PF_ALPMI_STATE_W_START \<and> alpmr_state y = PF_ALPMR_STATE_W_START) (alpmxs (al_ar a n)) \<and>
     list_all (\<lambda>q. length (q_items q) = PNET_MAX_ALARMS) (alarm_send_q (al_ar a n))"

text \<open>An APMX as activation leaves it.\<close>

definition opened :: "nat \<Rightarrow> nat \<Rightarrow> alarm_ar \<Rightarrow> apmx \<Rightarrow> bool" where
  "opened a ix r x \<longleftrightarrow> ax_p_ar x = Some a \<and> ax_p_alpmx x = Some (a, ix) \<and> ax_da x = cm_initiator_mac_add r \<and>
     ax_src_ref x = acres_local_alarm_reference (alarm_cr_result r) \<and>
     ax_dst_ref x = acr_local_alarm_reference (alarm_cr_request r) \<and>
     apms_state x = PF_APMS_STATE_OPEN \<and> apmr_state x = PF_APMR_STATE_OPEN \<and>
     send_seq_count x = 0xffff \<and> send_seq_count_o x = 0xfffe \<and> exp_seq_count x = 0xffff \<and> exp_seq_count_o x = 0xfffe \<and>
     q_ok (alarm_receive_q x) \<and> q_contents (alarm_receive_q x) = [] \<and>
     block_type_alarm_notify x = (if ix = 0 then PF_BT_ALARM_NOTIFICATION_LOW else PF_BT_ALARM_NOTIFICATION_HIGH) \<and>
     block_type_alarm_ack x = (if ix = 0 then PF_BT_ALARM_ACK_LOW else PF_BT_ALARM_ACK_HIGH) \<and>
     ax_frame_id x = (if ix = 0 then PF_FRAME_ID_ALARM_LOW else PF_FRAME_ID_ALARM_HIGH) \<and>
     timeout_us x = 100 * 1000 * ucast (acr_rta_timeout_factor (alarm_cr_request r)) \<and> resend_counter x = 0 \<and>
     p_rta x = None"

lemma open_apmx_opened:
  assumes "length (q_items (alarm_receive_q x)) = PNET_MAX_ALARMS" "p_rta x = None"
  shows "opened a ix r (snd (open_apmx a ix name r x))"
proof -
  have "q_mutex (pf_alarm_queue_mutex_create c)" for c by (simp add: pf_alarm_queue_mutex_create_def)
  then show ?thesis using assms
    by (simp add: opened_def open_apmx_def set_priority_def pf_alarm_receive_queue_reset_def pf_alarm_queue_is_available_def
        pf_alarm_queue_accountant_reset_def q_ok_def q_contents_def Let_def max_alarms_pos)
qed

lemma two [simp]: "[0 ..< 2] = [0, 1]" by (simp add: upt_rec)

lemma all_two: "length xs = 2 \<Longrightarrow> list_all P xs \<longleftrightarrow> P (xs ! 0) \<and> P (xs ! 1)"
  by (auto simp: list_all_length less_2_cases_iff)

text \<open>One round each of the two loops, on machines that are closed.\<close>

lemma activate_alpmx_closed:
  assumes "alpmi_state (alpmx_at (a, ix) n) = PF_ALPMI_STATE_W_START" "alpmr_state (alpmx_at (a, ix) n) = PF_ALPMR_STATE_W_START"
  shows "activate_alpmx a ix (r, n) = (r, upd_alpmx (a, ix) (\<lambda>y. y\<lparr>alpmx_da := cm_initiator_mac_add (al_ar a n),
    prev_sequence_number := 0xffff, sequence_number := 0, alpmr_state := PF_ALPMR_STATE_W_NOTIFY,
    alpmi_state := PF_ALPMI_STATE_W_ALARM\<rparr>) n)"
  using assms by (simp add: activate_alpmx_def Let_def)

lemma activate_apmx_closed:
  assumes "apms_state (apmx_at (a, ix) n) = PF_APMS_STATE_CLOSED" "apmr_state (apmx_at (a, ix) n) = PF_APMR_STATE_CLOSED"
  shows "\<exists>os. activate_apmx a ix (r, n) = (r, upd_apmx (a, ix) (\<lambda>_. snd (open_apmx a ix (apmx_name n) (al_ar a n) (apmx_at (a, ix) n)))
    (al_emit os n)) \<and> set os \<subseteq> {Buf_free}"
  using assms by (auto simp: activate_apmx_def Let_def case_prod_beta)

text \<open>All machines of an AR after activation.\<close>

definition opened_ar :: "nat \<Rightarrow> alarm_net \<Rightarrow> bool" where
  "opened_ar a n \<longleftrightarrow> a < length (al_ars n) \<and> length (apmxs (al_ar a n)) = 2 \<and> length (alpmxs (al_ar a n)) = 2 \<and>
     length (alarm_send_q (al_ar a n)) = 2 \<and> opened a 0 (al_ar a n) (apmx_at (a, 0) n) \<and> opened a 1 (al_ar a n) (apmx_at (a, 1) n) \<and>
     list_all (\<lambda>y. alpmi_state y = PF_ALPMI_STATE_W_ALARM \<and> alpmr_state y = PF_ALPMR_STATE_W_NOTIFY \<and>
       sequence_number y = 0) (alpmxs (al_ar a n)) \<and>
     list_all (\<lambda>q. q_ok q \<and> q_contents q = []) (alarm_send_q (al_ar a n))"

lemma open_send_q_ok: "length (q_items q) = PNET_MAX_ALARMS \<Longrightarrow> q_ok (open_send_q q) \<and> q_contents (open_send_q q) = []"
  by (simp add: open_send_q_def pf_alarm_send_queue_reset_def pf_alarm_queue_is_available_def pf_alarm_queue_mutex_create_def
      pf_alarm_queue_accountant_reset_def q_ok_def q_contents_def max_alarms_pos)

text \<open>The members of an AR that alarms only read.\<close>

definition ar_params :: "alarm_ar \<Rightarrow> u8 list \<times> pf_alarm_cr_request \<times> pf_alarm_cr_result \<times> bool \<times> bool \<times> cmsu_state" where
  "ar_params r = (cm_initiator_mac_add r, alarm_cr_request r, alarm_cr_result r, al_in_use r, al_enable r, al_cmsu r)"

lemma ar_params_upd [simp]:
  assumes "valid p n"
  shows "ar_params (al_ar b (upd_apmx p f n)) = ar_params (al_ar b n)"
    "ar_params (al_ar b (upd_alpmx p g n)) = ar_params (al_ar b n)"
  using assms by (auto simp: upd_apmx_def upd_alpmx_def al_ar_upd_al valid_def ar_params_def)

lemma initiator_upd [simp]:
  "valid p n \<Longrightarrow> cm_initiator_mac_add (al_ar b (upd_alpmx p g n)) = cm_initiator_mac_add (al_ar b n)"
  using ar_params_upd(2) [of p n b g] by (simp add: ar_params_def)

lemma mark_endpoint_simps [simp]:
  "al_ar b (mark_endpoint a f n) = al_ar b n" "al_ars (mark_endpoint a f n) = al_ars n"
  "apmx_at p (mark_endpoint a f n) = apmx_at p n" "alpmx_at p (mark_endpoint a f n) = alpmx_at p n"
  "al_sched (mark_endpoint a f n) = al_sched n" "al_outs (mark_endpoint a f n) = al_outs n"
  "alloc_ok (mark_endpoint a f n) = alloc_ok n" "send_ok (mark_endpoint a f n) = send_ok n"
  "device_mac (mark_endpoint a f n) = device_mac n"
  by (auto simp: mark_endpoint_def al_ar_def apmx_at_def alpmx_at_def split: option.split)

lemma opened_cong:
  "opened a ix r x \<Longrightarrow> ar_params r' = ar_params r \<Longrightarrow> opened a ix r' x"
  by (simp add: opened_def ar_params_def)

text \<open>All that the opening of an APMX leaves alone.\<close>

definition keeps_rest :: "nat \<Rightarrow> alarm_net \<Rightarrow> alarm_net \<Rightarrow> bool" where
  "keeps_rest a n m \<longleftrightarrow> (\<forall>q. alpmx_at q m = alpmx_at q n) \<and> (\<forall>q. valid q m = valid q n) \<and>
     ar_params (al_ar a m) = ar_params (al_ar a n) \<and>
     alpmxs (al_ar a m) = alpmxs (al_ar a n) \<and> alarm_send_q (al_ar a m) = alarm_send_q (al_ar a n) \<and>
     length (apmxs (al_ar a m)) = length (apmxs (al_ar a n)) \<and> length (al_ars m) = length (al_ars n)"

lemma keeps_rest_trans: "keeps_rest a n m \<Longrightarrow> keeps_rest a m k \<Longrightarrow> keeps_rest a n k"
  by (simp add: keeps_rest_def)

lemma opened_keeps: "opened a ix (al_ar a n) x \<Longrightarrow> keeps_rest a n m \<Longrightarrow> opened a ix (al_ar a m) x"
  by (erule opened_cong) (simp_all add: keeps_rest_def)

lemma activate_apmx_step:
  assumes "valid (a, ix) n" "apms_state (apmx_at (a, ix) n) = PF_APMS_STATE_CLOSED"
    "apmr_state (apmx_at (a, ix) n) = PF_APMR_STATE_CLOSED" "length (q_items (alarm_receive_q (apmx_at (a, ix) n))) = PNET_MAX_ALARMS"
    "p_rta (apmx_at (a, ix) n) = None"
  shows "\<exists>m. activate_apmx a ix (r, n) = (r, m) \<and> opened a ix (al_ar a m) (apmx_at (a, ix) m) \<and>
    (\<forall>q. q \<noteq> (a, ix) \<longrightarrow> apmx_at q m = apmx_at q n) \<and> keeps_rest a n m"
proof -
  let ?x = "snd (open_apmx a ix (apmx_name n) (al_ar a n) (apmx_at (a, ix) n))"
  obtain os where act: "activate_apmx a ix (r, n) = (r, upd_apmx (a, ix) (\<lambda>_. ?x) (al_emit os n))"
    using activate_apmx_closed [OF assms(2,3), of r] by blast
  let ?m = "upd_apmx (a, ix) (\<lambda>_. ?x) (al_emit os n)"
  have k: "keeps_rest a n ?m" using assms(1) by (simp add: keeps_rest_def)
  have "opened a ix (al_ar a n) (apmx_at (a, ix) ?m)"
    using open_apmx_opened [OF assms(4,5)] assms(1) by simp
  then have "opened a ix (al_ar a ?m) (apmx_at (a, ix) ?m)" using k by (rule opened_keeps)
  then show ?thesis using act k assms(1) by auto
qed

lemma nth_alpmx: "alpmxs (al_ar a n) ! i = alpmx_at (a, i) n"
  by (simp add: alpmx_at_def)

lemma alpmx_stage:
  assumes "valid (a, 0) n" "valid (a, 1) n" "length (alpmxs (al_ar a n)) = 2"
    and "\<And>i. i < 2 \<Longrightarrow> alpmi_state (alpmx_at (a, i) n) = PF_ALPMI_STATE_W_START"
    and "\<And>i. i < 2 \<Longrightarrow> alpmr_state (alpmx_at (a, i) n) = PF_ALPMR_STATE_W_START"
  obtains m where "pf_alarm_alpmx_activate a n = (0, m)" "valid (a, 0) m" "valid (a, 1) m"
    "list_all (\<lambda>y. alpmi_state y = PF_ALPMI_STATE_W_ALARM \<and> alpmr_state y = PF_ALPMR_STATE_W_NOTIFY \<and>
      sequence_number y = 0) (alpmxs (al_ar a m))"
    "apmxs (al_ar a m) = apmxs (al_ar a n)" "length (al_ars m) = length (al_ars n)" "length (alpmxs (al_ar a m)) = 2"
    "alarm_send_q (al_ar a m) = alarm_send_q (al_ar a n)" "ar_params (al_ar a m) = ar_params (al_ar a n)"
proof -
  let ?f = "\<lambda>y. y\<lparr>alpmx_da := cm_initiator_mac_add (al_ar a n), prev_sequence_number := 0xffff, sequence_number := 0,
    alpmr_state := PF_ALPMR_STATE_W_NOTIFY, alpmi_state := PF_ALPMI_STATE_W_ALARM\<rparr>"
  let ?m = "upd_alpmx (a, 1) ?f (upd_alpmx (a, 0) ?f n)"
  have act: "pf_alarm_alpmx_activate a n = (0, ?m)"
    using assms by (simp add: pf_alarm_alpmx_activate_def activate_alpmx_closed)
  have all: "list_all (\<lambda>y. alpmi_state y = PF_ALPMI_STATE_W_ALARM \<and> alpmr_state y = PF_ALPMR_STATE_W_NOTIFY \<and>
      sequence_number y = 0) (alpmxs (al_ar a ?m))"
    using assms by (simp add: all_two nth_alpmx)
  show ?thesis using that [OF act _ _ all] assms by simp
qed

lemma activate_opens:
  assumes "closed_alarms a n"
  shows "fst (pf_alarm_activate a n) = 0 \<and> opened_ar a (snd (pf_alarm_activate a n)) \<and>
    ar_params (al_ar a (snd (pf_alarm_activate a n))) = ar_params (al_ar a n)"
proof -
  let ?n0 = "upd_al a (\<lambda>r. r\<lparr>alarm_send_q := map open_send_q (alarm_send_q r)\<rparr>) n"
  have c: "a < length (al_ars n)" "length (apmxs (al_ar a n)) = 2" "length (alpmxs (al_ar a n)) = 2"
    "length (alarm_send_q (al_ar a n)) = 2"
    using assms by (simp_all add: closed_alarms_def)
  have v: "valid (a, 0) ?n0" "valid (a, 1) ?n0" using c by (simp_all add: valid_def al_ar_upd_al)
  have y: "alpmi_state (alpmx_at (a, i) ?n0) = PF_ALPMI_STATE_W_START" "alpmr_state (alpmx_at (a, i) ?n0) = PF_ALPMR_STATE_W_START"
    and x: "apms_state (apmx_at (a, i) ?n0) = PF_APMS_STATE_CLOSED" "apmr_state (apmx_at (a, i) ?n0) = PF_APMR_STATE_CLOSED"
      "length (q_items (alarm_receive_q (apmx_at (a, i) ?n0))) = PNET_MAX_ALARMS" "p_rta (apmx_at (a, i) ?n0) = None" if "i < 2" for i
    using assms c that by (auto simp: closed_alarms_def list_all_length alpmx_at_def apmx_at_def al_ar_upd_al)
  obtain n1 where 1: "pf_alarm_alpmx_activate a ?n0 = (0, n1)" and n1: "valid (a, 0) n1" "valid (a, 1) n1"
    "list_all (\<lambda>y. alpmi_state y = PF_ALPMI_STATE_W_ALARM \<and> alpmr_state y = PF_ALPMR_STATE_W_NOTIFY \<and>
      sequence_number y = 0) (alpmxs (al_ar a n1))"
    "apmxs (al_ar a n1) = apmxs (al_ar a n)" "length (al_ars n1) = length (al_ars n)" "length (alpmxs (al_ar a n1)) = 2"
    "alarm_send_q (al_ar a n1) = alarm_send_q (al_ar a ?n0)"
    "ar_params (al_ar a n1) = ar_params (al_ar a n)"
    using alpmx_stage [of a ?n0] v y c by (auto simp: al_ar_upd_al ar_params_def)
  have x1: "apmx_at (a, i) n1 = apmx_at (a, i) ?n0" for i using n1(4) c by (simp add: apmx_at_def al_ar_upd_al)
  obtain m where m: "activate_apmx a 0 (0, n1) = (0, m)" "opened a 0 (al_ar a m) (apmx_at (a, 0) m)"
    "\<forall>q. q \<noteq> (a, 0) \<longrightarrow> apmx_at q m = apmx_at q n1" "keeps_rest a n1 m"
    using activate_apmx_step [OF n1(1), of 0] x [of 0] by (auto simp: x1)
  have v1: "valid (a, 1) m" and x2: "apmx_at (a, 1) m = apmx_at (a, 1) ?n0"
    using n1(2) m(3,4) by (simp_all add: keeps_rest_def x1)
  obtain k where k: "activate_apmx a 1 (0, m) = (0, k)" "opened a 1 (al_ar a k) (apmx_at (a, 1) k)"
    "\<forall>q. q \<noteq> (a, 1) \<longrightarrow> apmx_at q k = apmx_at q m" "keeps_rest a m k"
    using activate_apmx_step [OF v1, of 0] x [of 1] unfolding x2 by auto
  let ?k = "mark_endpoint a (\<lambda>e. e\<lparr>ep_active := True\<rparr>) (if no_active_endpoint k
    then al_emit [Frame_id_map_add PF_FRAME_ID_ALARM_LOW, Frame_id_map_add PF_FRAME_ID_ALARM_HIGH] k else k)"
  have len: "length (apmxs (al_ar a n1)) = 2" using n1(4) c by simp
  have eq: "pf_alarm_activate a n = (0, ?k)"
    using m(1) k(1) by (simp add: pf_alarm_activate_def pf_alarm_apmx_activate_def 1 len Let_def)
  have r: "keeps_rest a n1 k" using m(4) k(4) by (rule keeps_rest_trans)
  have "opened a 0 (al_ar a k) (apmx_at (a, 0) k)" using opened_keeps [OF m(2) k(4)] k(3) by simp
  moreover have "list_all (\<lambda>y. alpmi_state y = PF_ALPMI_STATE_W_ALARM \<and> alpmr_state y = PF_ALPMR_STATE_W_NOTIFY \<and>
      sequence_number y = 0) (alpmxs (al_ar a k))"
    using n1(3) r by (simp add: keeps_rest_def)
  moreover have "list_all (\<lambda>q. q_ok q \<and> q_contents q = []) (alarm_send_q (al_ar a k))"
    using assms c r by (auto simp: keeps_rest_def n1(7) al_ar_upd_al closed_alarms_def list_all_iff open_send_q_ok)
  moreover have "length (alarm_send_q (al_ar a k)) = 2" using r n1(7) c by (simp add: keeps_rest_def al_ar_upd_al)
  ultimately have "opened_ar a k"
    using c n1 r k(2) len by (simp add: opened_ar_def keeps_rest_def)
  moreover have "ar_params (al_ar a k) = ar_params (al_ar a n)"
    using r n1(8) by (simp add: keeps_rest_def)
  ultimately show ?thesis by (auto simp: eq opened_ar_def)
qed

text \<open>\<open>pf_alarm_activate\<close> on closed machines succeeds and opens both priorities: each APMX is linked
  to its AR and its protocol machines, has the addresses and references of the connect, the block
  types, frame ID and first sequence numbers of its priority and an empty receive queue; ALPMI waits
  for an alarm and ALPMR for a notification with sequence number 0; the send queues are empty.\<close>

theorem activation_opens:
  assumes "closed_alarms a n"
  shows "fst (pf_alarm_activate a n) = 0 \<and> opened_ar a (snd (pf_alarm_activate a n))"
  using activate_opens [OF assms] by simp

text \<open>What activation cannot change.\<close>

definition al_env :: "alarm_net \<Rightarrow> alarm_net" where
  "al_env n = n\<lparr>al_ars := [], alarm_endpoints := [], al_outs := []\<rparr>"

lemma al_env_simps [simp]:
  "al_env (upd_al a f n) = al_env n" "al_env (upd_apmx p g n) = al_env n" "al_env (upd_alpmx p h n) = al_env n"
  "al_env (al_emit os n) = al_env n" "al_env (set_err a c d n) = al_env n" "al_env (mark_endpoint a e n) = al_env n"
  by (auto simp: al_env_def set_err_def mark_endpoint_def upd_apmx_def upd_alpmx_def upd_al_def al_emit_def split: option.split)

lemma fold_keeps: "(\<And>i r. f (snd (g i r)) = f (snd r)) \<Longrightarrow> f (snd (fold g is r)) = f (snd r)"
  by (induction "is" arbitrary: r) simp_all

lemma activate_env: "al_env (snd (pf_alarm_activate a n)) = al_env n"
proof -
  have "al_env (snd (activate_alpmx a ix r)) = al_env (snd r)" for ix r
    by (simp add: activate_alpmx_def Let_def split: prod.split)
  from fold_keeps [of al_env "activate_alpmx a", OF this]
  have 1: "al_env (snd (pf_alarm_alpmx_activate a m)) = al_env m" for m
    by (simp add: pf_alarm_alpmx_activate_def)
  have "al_env (snd (activate_apmx a ix r)) = al_env (snd r)" for ix r
    by (simp add: activate_apmx_def Let_def split: prod.split)
  from fold_keeps [of al_env "activate_apmx a", OF this]
  have 2: "al_env (snd (pf_alarm_apmx_activate a m)) = al_env m" for m
    by (simp add: pf_alarm_apmx_activate_def Let_def case_prod_beta)
  show ?thesis by (simp add: pf_alarm_activate_def Let_def case_prod_beta 1 2)
qed

text \<open>A station with one AR whose alarms are activated.\<close>

definition example_alarm_ar :: alarm_ar where
  "example_alarm_ar = zero_alarm_ar\<lparr>al_in_use := True, al_arep := 1, al_enable := True, al_cmsu := PF_CMSU_STATE_RUN,
     cm_initiator_mac_add := [2, 0, 0, 0, 0, 1],
     alarm_cr_request := zero_cr_request\<lparr>acr_rta_timeout_factor := 1, acr_rta_retries := 3, acr_local_alarm_reference := 1,
       acr_max_alarm_data_length := 200\<rparr>,
     alarm_cr_result := \<lparr>acres_alarm_cr_type = 1, acres_local_alarm_reference = 1, acres_max_alarm_data_length = 200\<rparr>\<rparr>"

definition example_stopped :: alarm_net where
  "example_stopped = pf_alarm_init
     \<lparr>al_sched = the (pf_scheduler_init 1000 0 Other_timer (0, 0)), al_clock = 0, apmx_name = 1, global_alarm_enable = False,
      al_ars = [example_alarm_ar], alarm_endpoints = [\<lparr>ep_active = False, ep_ar = Some 0\<rparr>],
      device_mac = [2, 0, 0, 0, 0, 2], subslot_of = (\<lambda>_ _ _. None), diag_items = [],
      alloc_ok = (\<lambda>_. True), send_ok = (\<lambda>_. True), al_outs = []\<rparr>"

definition example_station :: alarm_net where
  "example_station = snd (pf_alarm_activate 0 example_stopped)"

lemma example_closed: "closed_alarms 0 example_stopped"
  by (simp add: closed_alarms_def example_stopped_def pf_alarm_init_def al_ar_def example_alarm_ar_def zero_alarm_ar_def
      zero_queue_def zero_apmx_def zero_alpmx_def numeral_2_eq_2 list_all_iff)

lemma example_opened: "opened_ar 0 example_station" "ar_params (al_ar 0 example_station) = ar_params example_alarm_ar"
  using activate_opens [OF example_closed]
  by (simp_all add: example_station_def) (simp add: example_stopped_def pf_alarm_init_def al_ar_def)

lemma env_fields:
  assumes "al_env m = al_env n"
  shows "al_sched m = al_sched n" "al_clock m = al_clock n" "device_mac m = device_mac n" "alloc_ok m = alloc_ok n"
    "send_ok m = send_ok n" "global_alarm_enable m = global_alarm_enable n" "subslot_of m = subslot_of n"
    "diag_items m = diag_items n"
  using assms by (cases m, cases n, simp add: al_env_def)+

lemma example_env [simp]: "alloc_ok example_station = (\<lambda>_. True)" "send_ok example_station = (\<lambda>_. True)"
  "al_sched example_station = al_sched example_stopped" "al_clock example_station = 0"
  "device_mac example_station = [2, 0, 0, 0, 0, 2]" "global_alarm_enable example_station"
  "subslot_of example_station = (\<lambda>_ _ _. None)"
  using env_fields [OF activate_env [of 0 example_stopped]]
  by (simp_all add: example_station_def) (simp_all add: example_stopped_def pf_alarm_init_def)

lemma activation_opens_witness:
  "fst (pf_alarm_activate 0 example_stopped) = 0 \<and> opened_ar 0 (snd (pf_alarm_activate 0 example_stopped))"
  by (rule activation_opens [OF example_closed])

end
