(* ===== verification/Alarm_Transfer.thy ===== *)
theory Alarm_Transfer
  imports Alarm_Frames Alarm_Activation
begin

section \<open>Delivery of alarms to the application\<close>

text \<open>
  An alarm frame of one station, received in sequence by another, becomes the indication of this
  alarm to the application; an acknowledgement becomes a confirmation.
\<close>

definition is_indication :: "alarm_out \<Rightarrow> bool" where
  "is_indication out = (case out of Fspm_alarm_ind _ _ _ _ _ \<Rightarrow> True | _ \<Rightarrow> False)"

definition is_confirmation :: "alarm_out \<Rightarrow> bool" where
  "is_confirmation out = (case out of Fspm_alarm_cnf _ _ \<Rightarrow> True | _ \<Rightarrow> False)"

definition indications :: "alarm_net \<Rightarrow> alarm_out list" where
  "indications n = filter is_indication (al_outs n)"

definition confirmations :: "alarm_net \<Rightarrow> alarm_out list" where
  "confirmations n = filter is_confirmation (al_outs n)"

text \<open>Buffers are available, and the interface sends.\<close>

definition services :: "alarm_net \<Rightarrow> bool" where
  "services n \<longleftrightarrow> (\<forall>k. alloc_ok n k \<and> send_ok n k)"

lemma out_kinds [simp]:
  "is_indication (Fspm_alarm_ind b d l u x)" "is_confirmation (Fspm_alarm_cnf b st)"
  "\<not> is_indication (Fspm_alarm_cnf b st)" "\<not> is_confirmation (Fspm_alarm_ind b d l u x)"
  "\<not> is_indication (Buf_alloc ok)" "\<not> is_indication Buf_free" "\<not> is_indication (Eth_send x)"
  "\<not> is_indication (Fspm_alarm_ack_cnf b r)" "\<not> is_confirmation (Fspm_alarm_ack_cnf b r)"
  "\<not> is_confirmation (Buf_alloc ok)" "\<not> is_confirmation Buf_free" "\<not> is_confirmation (Eth_send x)"
  by (simp_all add: is_indication_def is_confirmation_def)

lemma outs_quiet [simp]:
  assumes "valid p n"
  shows "indications (upd_apmx p f n) = indications n" "confirmations (upd_apmx p f n) = confirmations n"
    "indications (upd_alpmx p g n) = indications n" "confirmations (upd_alpmx p g n) = confirmations n"
    "indications (after_tack p h n) = indications n" "confirmations (after_tack p h n) = confirmations n"
    "indications (expect_next p n) = indications n" "confirmations (expect_next p n) = confirmations n"
    "indications (snd (sent p h d m st n)) = indications n" "confirmations (snd (sent p h d m st n)) = confirmations n"
    "indications (set_apmr p s n) = indications n" "confirmations (set_apmr p s n) = confirmations n"
  using assms by (simp_all add: indications_def confirmations_def after_tack_def sent_def Let_def set_apmr_def)

lemma outs_emit [simp]:
  "indications (al_emit os n) = indications n @ filter is_indication os"
  "confirmations (al_emit os n) = confirmations n @ filter is_confirmation os"
  by (simp_all add: indications_def confirmations_def)

text \<open>What the steps before a delivery leave alone.\<close>

lemma fixed_parts [simp]:
  assumes "valid p n"
  shows "alarm_cr_request (al_ar b (after_tack p f n)) = alarm_cr_request (al_ar b n)"
    "alarm_cr_request (al_ar b (expect_next p n)) = alarm_cr_request (al_ar b n)"
    "alloc_ok (after_tack p f n) = alloc_ok n" "send_ok (after_tack p f n) = send_ok n"
    "alloc_ok (expect_next p n) = alloc_ok n" "send_ok (expect_next p n) = send_ok n"
  using assms by (simp_all add: after_tack_def tacked_def free_rta_def expect_next_def Let_def)

lemma set_apmr_simps [simp]:
  assumes "valid p n"
  shows "valid q (set_apmr p s n) = valid q n" "linked q (set_apmr p s n) = linked q n"
    "alpmx_at q (set_apmr p s n) = alpmx_at q n"
    "apmx_at q (set_apmr p s n) = (if q = p then (apmx_at p n)\<lparr>apmr_state := s\<rparr> else apmx_at q n)"
  using assms by (auto simp: set_apmr_def linked_apmx)

text \<open>An APMX that can take the frame with the number \<open>seq\<close> and answer it.\<close>

definition takes :: "apmx_ptr \<Rightarrow> u16 \<Rightarrow> alarm_net \<Rightarrow> bool" where
  "takes p seq n \<longleftrightarrow> linked p n \<and> apmr_state (apmx_at p n) = PF_APMR_STATE_OPEN \<and> exp_seq_count (apmx_at p n) = seq \<and>
     \<not> acr_transport_udp (alarm_cr_request (al_ar (fst p) n)) \<and> services n \<and>
     is_notification (block_type_alarm_notify (apmx_at p n)) \<and> \<not> is_notification (block_type_alarm_ack (apmx_at p n))"

text \<open>The state after \<open>accept_data\<close>.\<close>

definition accepted :: "apmx_ptr \<Rightarrow> pf_alarm_fixed \<Rightarrow> alarm_net \<Rightarrow> alarm_net" where
  "accepted p f n = (let n' = expect_next p (after_tack p f n)
     in snd (sent p (ack_of (apmx_at p n')) zero_alarm_data 0 None n'))"

lemma accept_takes:
  assumes "takes p seq n"
  shows "accept_data p f n = Some (0, accepted p f n)"
proof -
  have l: "linked p n" "valid p n" using assms linkedD by (auto simp: takes_def)
  let ?n = "expect_next p (after_tack p f n)"
  have "fst (sent p (ack_of (apmx_at p ?n)) zero_alarm_data 0 None ?n) = 0"
    using assms l by (simp add: sent_def takes_def services_def)
  then have "sent p (ack_of (apmx_at p ?n)) zero_alarm_data 0 None ?n = (0, accepted p f n)"
    unfolding accepted_def Let_def by (metis prod.collapse)
  then show ?thesis by (simp add: accept_data_eq [OF l(1)] Let_def)
qed

lemma accepted_simps [simp]:
  assumes "valid p n"
  shows "valid q (accepted p f n) = valid q n" "linked q (accepted p f n) = linked q n"
    "indications (accepted p f n) = indications n" "confirmations (accepted p f n) = confirmations n"
    "exp_seq_count (apmx_at p (accepted p f n)) = next_seq (exp_seq_count (apmx_at p n))"
    "exp_seq_count_o (apmx_at p (accepted p f n)) = exp_seq_count (apmx_at p n)"
    "alpmi_state (alpmx_at p (accepted p f n)) = alpmi_state (alpmx_at p n)"
    "ax_p_ar (apmx_at p (accepted p f n)) = ax_p_ar (apmx_at p n)"
    "ax_p_alpmx (apmx_at p (accepted p f n)) = ax_p_alpmx (apmx_at p n)"
    "alpmr_state (alpmx_at p n) \<noteq> PF_ALPMR_STATE_W_TACK \<Longrightarrow> alpmx_at p (accepted p f n) = alpmx_at p n"
  using assms by (simp_all add: accepted_def Let_def after_tack_alpmr)

subsection \<open>A DATA frame in sequence\<close>

text \<open>
  The fixed part of the DATA frames of a station whose APMX is \<open>xs\<close>. The frame ID is at byte 18,
  behind the addresses, the VLAN tag and the type.
\<close>

definition data_of :: "apmx \<Rightarrow> pf_alarm_fixed" where
  "data_of xs = alarm_fixed xs PF_RTA_PDU_TYPE_DATA True (send_seq_count xs)"

lemma data_of_simps [simp]:
  "pdu_type (data_of xs) = PF_RTA_PDU_TYPE_DATA" "pdu_version (data_of xs) = PF_ALARM_PDU_TYPE_VERSION_1"
  "tack (data_of xs)" "send_seq_num (data_of xs) = send_seq_count xs" "ack_seq_nbr (data_of xs) = exp_seq_count_o xs"
  "alarm_fixed_ok (data_of xs)"
  by (simp_all add: data_of_def alarm_fixed_def alarm_fixed_ok_def PF_RTA_PDU_TYPE_DATA_def PF_ALARM_PDU_TYPE_VERSION_1_def)

lemma bind_result: "Option.bind r (\<lambda>(a, b). Some (f a b)) = map_option (\<lambda>(a, b). f a b) r"
  by (cases r) auto

lemma length_enc_header [simp]: "length (enc_header mac x) = length (ax_da x) + length mac + 8"
  by (simp add: enc_header_def)

lemma data_frame_bytes:
  assumes "length mac = 6" "length (ax_da xs) = 6" "enc_var xs (data_of xs) d m st = enc_block True bt body"
    and "38 + length body \<le> PF_FRAME_BUFFER_SIZE"
  shows "build_frame mac xs (data_of xs) d m st = enc_header mac xs @ enc_alarm_fixed True (data_of xs) @
      enc16 True (of_nat (6 + length body)) @ enc_block True bt body"
    "drop 38 (build_frame mac xs (data_of xs) d m st) = body"
proof -
  show *: "build_frame mac xs (data_of xs) d m st = enc_header mac xs @ enc_alarm_fixed True (data_of xs) @
      enc16 True (of_nat (6 + length body)) @ enc_block True bt body"
    using build_frame_eq [of "data_of xs" mac xs d m st] assms by simp
  show "drop 38 (build_frame mac xs (data_of xs) d m st) = body"
    using assms(1,2) by (simp add: * enc_block_head)
qed

text \<open>The loop's body hands such a frame to one of the two protocol machines, by its block type.\<close>

lemma handle_data_frame:
  assumes t: "takes p (send_seq_count xs) n" and a: "length mac = 6" "length (ax_da xs) = 6"
    and v: "enc_var xs (data_of xs) d m st = enc_block True bt body" and fits: "38 + length body \<le> PF_FRAME_BUFFER_SIZE"
    and g: "g = frame_cursor (build_frame mac xs (data_of xs) d m st) 38"
  shows "handle_frame p \<lparr>frame_id_pos = 18, msg_buf = Some (build_frame mac xs (data_of xs) d m st)\<rparr> n =
    map_option (\<lambda>(r, n). (r, al_emit [Buf_free] n))
      (if bt = block_type_alarm_ack (apmx_at p n) then deliver_ack p (data_of xs) g n
       else if bt = block_type_alarm_notify (apmx_at p n)
       then deliver_notification p (data_of xs) (of_nat (6 + length body)) 32 g n
       else do {
         n \<leftarrow> error_of_ar p PNET_ERROR_CODE_1_RTA_ERR_CLS_PROTOCOL PNET_ERROR_CODE_2_ABORT_AR_ALARM_IND_ERROR n;
         Some (- 1, n)
       })" (is "_ = map_option _ ?r")
proof -
  let ?buf = "build_frame mac xs (data_of xs) d m st" and ?l = "of_nat (6 + length body) :: u16"
  have len: "length (enc_header mac xs) = 20" using a by simp
  note buf = data_frame_bytes(1) [OF a v fits]
  have small: "length ?buf < 65536" using fits len by (simp add: buf PF_FRAME_BUFFER_SIZE_def)
  obtain h where 1: "run_state get_alarm_head (frame_cursor ?buf 20) = ((data_of xs, ?l), frame_cursor ?buf 32)"
    and 2: "run_state pf_get_block_header (frame_cursor ?buf 32) = (h, frame_cursor ?buf 38)" "block_type h = bt"
    using parse_frame [OF data_of_simps(6) buf small, unfolded len] by auto
  have "pf_alarm_apmr_a_data_ind p (data_of xs) ?l (frame_cursor ?buf 32) n = ?r"
    using t by (simp add: pf_alarm_apmr_a_data_ind_def takes_def 2 g Let_def)
  then have "handle_frame p \<lparr>frame_id_pos = 18, msg_buf = Some ?buf\<rparr> n = (do { (r, n) \<leftarrow> ?r; Some (r, al_emit [Buf_free] n) })"
    unfolding handle_frame_def by (simp add: 1)
  then show ?thesis by (simp only: bind_result)
qed

subsection \<open>A notification\<close>

text \<open>A payload of manufacturer data.\<close>

definition manufacturer_payload :: "pf_alarm_payload \<Rightarrow> bool" where
  "manufacturer_payload p \<longleftrightarrow> 0 < pl_usi p \<and> pl_usi p < PF_USI_CHANNEL_DIAGNOSIS \<and>
     unat (pl_len p) = length (pl_data p) \<and> length (pl_data p) \<le> PNET_MAX_ALARM_PAYLOAD_DATA_SIZE"

lemma enc_manufacturer_payload:
  "manufacturer_payload p \<Longrightarrow> enc_payload e m p = enc16 e (pl_usi p) @ pl_data p"
  by (auto simp: manufacturer_payload_def enc_payload_def is_std_def PF_USI_CHANNEL_DIAGNOSIS_def PF_USI_MAINTENANCE_def
      PF_USI_EXTENDED_CHANNEL_DIAGNOSIS_def PF_USI_QUALIFIED_CHANNEL_DIAGNOSIS_def)

lemma length_enc_notification [simp]: "length (enc_alarm_data e True d) = 20"
  by (simp add: enc_alarm_data_def)

lemma run_notification:
  assumes "buf = pre @ enc_alarm_data True True d @ enc16 True usi @ bs" "length pre = 38"
    and "ad_sequence_number d < 2048" "length buf < 65536"
  shows "run_state get_notification (frame_cursor buf 38) = ((d, usi), frame_cursor buf 60)"
proof -
  have "reads True get_notification (enc_alarm_data True True d @ enc16 True usi) (d, usi)"
    unfolding get_notification_def by (intro reads_pair reads_alarm_data reads_uint16 assms(3))
  from read_frame [OF this _ assms(4), of pre bs] show ?thesis
    by (simp add: assms(1,2))
qed

lemma deliver_notification_takes:
  assumes t: "takes p seq n" and r: "alpmr_state (alpmx_at p n) = PF_ALPMR_STATE_W_NOTIFY"
    and g: "run_state get_notification g = ((d, usi), frame_cursor buf 60)"
  shows "deliver_notification p f l 32 g n = Some (0, set_apmr p PF_APMR_STATE_OPEN
    (al_emit [Fspm_alarm_ind (fst p) (alarm_arg d) (l - 28) usi (drop 60 buf)]
      (upd_alpmx p (alpmr_state_update (\<lambda>_. PF_ALPMR_STATE_W_USER_ACK)) (set_apmr p PF_APMR_STATE_WCNF (accepted p f n)))))"
proof -
  have l: "linked p n" "valid p n" using t linkedD by (auto simp: takes_def)
  show ?thesis
    using l r linkedD [OF l(1)]
    by (simp add: deliver_notification_def accept_takes [OF t] g pf_alarm_alpmr_apmr_a_data_ind_def Let_def)
qed

lemma enc_var_notification:
  assumes "is_notification (block_type_alarm_notify xs)" "manufacturer_payload (ad_payload d)"
  shows "enc_var xs (data_of xs) d m None = enc_block True (block_type_alarm_notify xs)
    (enc_alarm_data True True (pf_alarm_data.truncate d) @ enc16 True (pl_usi (ad_payload d)) @ pl_data (ad_payload d))"
  by (simp add: enc_var_def enc_alarm_block_def assms enc_manufacturer_payload)


section \<open>Notifications from one station to another\<close>

text \<open>
  A notification in a frame that one station builds reaches the application of the station that
  receives it, and reaches it once, however often the frame arrives.
\<close>

lemma opened_takes:
  assumes "opened_ar a n" "i < 2" "services n" "\<not> acr_transport_udp (alarm_cr_request (al_ar a n))"
  shows "takes (a, i) 0xffff n" "alpmr_state (alpmx_at (a, i) n) = PF_ALPMR_STATE_W_NOTIFY"
    "alpmi_state (alpmx_at (a, i) n) = PF_ALPMI_STATE_W_ALARM" "apms_state (apmx_at (a, i) n) = PF_APMS_STATE_OPEN"
proof -
  have o: "opened a i (al_ar a n) (apmx_at (a, i) n)" and i: "i = 0 \<or> i = 1"
    using assms(1,2) by (auto simp: opened_ar_def less_2_cases_iff)
  have "valid (a, i) n" using assms(1,2) by (simp add: opened_ar_def valid_def)
  with o i assms(3,4) show "takes (a, i) 0xffff n" "apms_state (apmx_at (a, i) n) = PF_APMS_STATE_OPEN"
    by (auto simp: takes_def linked_def opened_def is_notification_def PF_BT_ALARM_NOTIFICATION_LOW_def
        PF_BT_ALARM_NOTIFICATION_HIGH_def PF_BT_ALARM_ACK_LOW_def PF_BT_ALARM_ACK_HIGH_def)
  show "alpmr_state (alpmx_at (a, i) n) = PF_ALPMR_STATE_W_NOTIFY" "alpmi_state (alpmx_at (a, i) n) = PF_ALPMI_STATE_W_ALARM"
    using assms(1,2) by (auto simp: opened_ar_def list_all_length alpmx_at_def)
qed

lemma truncate_simps [simp]: "ad_sequence_number (pf_alarm_data.truncate d) = ad_sequence_number d"
  by (simp add: pf_alarm_data.truncate_def)

text \<open>The state of the receiver after a notification.\<close>

definition delivered :: "apmx_ptr \<Rightarrow> pf_alarm_fixed \<Rightarrow> pf_alarm_data \<Rightarrow> pf_alarm_payload \<Rightarrow> alarm_net \<Rightarrow> alarm_net" where
  "delivered p f d pl n = al_emit [Buf_free] (set_apmr p PF_APMR_STATE_OPEN
     (al_emit [Fspm_alarm_ind (fst p) (alarm_arg d) (pl_len pl) (pl_usi pl) (pl_data pl)]
       (upd_alpmx p (alpmr_state_update (\<lambda>_. PF_ALPMR_STATE_W_USER_ACK)) (set_apmr p PF_APMR_STATE_WCNF (accepted p f n)))))"

lemma handle_notification:
  assumes t: "takes p (send_seq_count xs) n" and r: "alpmr_state (alpmx_at p n) = PF_ALPMR_STATE_W_NOTIFY"
    and a: "length mac = 6" "length (ax_da xs) = 6"
    and bt: "block_type_alarm_notify xs = block_type_alarm_notify (apmx_at p n)"
    and d: "manufacturer_payload (ad_payload d)" "ad_sequence_number d < 2048"
  shows "handle_frame p \<lparr>frame_id_pos = 18, msg_buf = Some (build_frame mac xs (data_of xs) d m None)\<rparr> n =
    Some (0, delivered p (data_of xs) (pf_alarm_data.truncate d) (ad_payload d) n)"
proof -
  let ?pl = "ad_payload d" and ?d = "pf_alarm_data.truncate d" and ?buf = "build_frame mac xs (data_of xs) d m None"
  let ?bt = "block_type_alarm_notify xs" and ?body = "enc_alarm_data True True ?d @ enc16 True (pl_usi ?pl) @ pl_data ?pl"
  have n: "is_notification ?bt" "\<not> is_notification (block_type_alarm_ack (apmx_at p n))" using t by (auto simp: takes_def bt)
  note v = enc_var_notification [OF n(1) d(1), of m]
  have len: "unat (pl_len ?pl) = length (pl_data ?pl)" "length (pl_data ?pl) \<le> 1408"
    using d(1) by (simp_all add: manufacturer_payload_def PNET_MAX_ALARM_PAYLOAD_DATA_SIZE_def)
  have fits: "38 + length ?body \<le> PF_FRAME_BUFFER_SIZE" using len by (simp add: PF_FRAME_BUFFER_SIZE_def)
  note buf = data_frame_bytes [OF a v fits]
  have "length (take 38 ?buf) = 38" "length ?buf < 65536" using buf(1) a fits by (simp_all add: PF_FRAME_BUFFER_SIZE_def)
  moreover have split: "?buf = take 38 ?buf @ ?body" using buf(2) by (metis append_take_drop_id)
  ultimately have get: "run_state get_notification (frame_cursor ?buf 38) = ((?d, pl_usi ?pl), frame_cursor ?buf 60)"
    using d(2) by (intro run_notification [where pre = "take 38 ?buf"]) simp_all
  have "drop 60 ?buf = drop 22 (drop 38 ?buf)" by simp
  then have rest: "drop 60 ?buf = pl_data ?pl" unfolding buf(2) by simp
  have l: "of_nat (6 + length ?body) - 28 = pl_len ?pl"
    by (simp flip: len(1))
  have "?bt \<noteq> block_type_alarm_ack (apmx_at p n)" using n by auto
  then show ?thesis
    unfolding handle_data_frame [OF t a v fits refl] deliver_notification_takes [OF t r get] rest l
    by (simp add: bt delivered_def)
qed

lemma indication_of [simp]: "is_indication (Fspm_alarm_ind a d l u bs)" "\<not> is_confirmation (Fspm_alarm_ind a d l u bs)"
  by (simp_all add: is_indication_def is_confirmation_def)

lemma delivered_simps [simp]:
  assumes "valid p n"
  shows "valid q (delivered p f d pl n) = valid q n" "linked q (delivered p f d pl n) = linked q n"
    "indications (delivered p f d pl n) = indications n @ [Fspm_alarm_ind (fst p) (alarm_arg d) (pl_len pl) (pl_usi pl) (pl_data pl)]"
    "confirmations (delivered p f d pl n) = confirmations n"
    "apmr_state (apmx_at p (delivered p f d pl n)) = PF_APMR_STATE_OPEN"
    "exp_seq_count (apmx_at p (delivered p f d pl n)) = next_seq (exp_seq_count (apmx_at p n))"
    "exp_seq_count_o (apmx_at p (delivered p f d pl n)) = exp_seq_count (apmx_at p n)"
    "alpmr_state (alpmx_at p (delivered p f d pl n)) = PF_ALPMR_STATE_W_USER_ACK"
    "alpmi_state (alpmx_at p (delivered p f d pl n)) = alpmi_state (alpmx_at p n)"
  using assms by (simp_all add: delivered_def)

text \<open>C6: A notification with manufacturer data that one APMX puts into a frame is indicated to the
  application of the station that receives the frame in sequence, exactly once, with the same place,
  alarm type, specifier, sequence number, USI and data; the receiver then expects the next number and
  waits for the application's acknowledgement.\<close>

theorem alarm_delivered:
  assumes "takes p (send_seq_count xs) n" "alpmr_state (alpmx_at p n) = PF_ALPMR_STATE_W_NOTIFY"
    "length mac = 6" "length (ax_da xs) = 6" "block_type_alarm_notify xs = block_type_alarm_notify (apmx_at p n)"
    "manufacturer_payload (ad_payload d)" "ad_sequence_number d < 2048"
  shows "\<exists>n'. handle_frame p \<lparr>frame_id_pos = 18, msg_buf = Some (build_frame mac xs (data_of xs) d m None)\<rparr> n = Some (0, n') \<and>
    indications n' = indications n @ [Fspm_alarm_ind (fst p) (alarm_arg (pf_alarm_data.truncate d))
      (pl_len (ad_payload d)) (pl_usi (ad_payload d)) (pl_data (ad_payload d))] \<and>
    exp_seq_count (apmx_at p n') = next_seq (send_seq_count xs) \<and> apmr_state (apmx_at p n') = PF_APMR_STATE_OPEN \<and>
    alpmr_state (alpmx_at p n') = PF_ALPMR_STATE_W_USER_ACK"
proof -
  have "valid p n" "exp_seq_count (apmx_at p n) = send_seq_count xs" using assms(1) linkedD(1) by (auto simp: takes_def)
  then show ?thesis by (simp add: handle_notification [OF assms])
qed

definition example_notification :: alarm_data where
  "example_notification = zero_alarm_data\<lparr>ad_alarm_type := PF_ALARM_TYPE_PROCESS, ad_slot_nbr := 1, ad_subslot_nbr := 1,
     ad_module_ident := 50, ad_submodule_ident := 305, ad_sequence_number := 7,
     ad_payload := \<lparr>pl_usi = 0x1000, pl_len = 3, pl_data = [1, 2, 3], pl_item = zero_diag_item\<rparr>\<rparr>"

lemma example_takes:
  "takes (0, 1) 0xffff example_station" "alpmr_state (alpmx_at (0, 1) example_station) = PF_ALPMR_STATE_W_NOTIFY"
  "send_seq_count (apmx_at (0, 1) example_station) = 0xffff" "length (ax_da (apmx_at (0, 1) example_station)) = 6"
  "apms_state (apmx_at (0, 1) example_station) = PF_APMS_STATE_OPEN"
  "alpmi_state (alpmx_at (0, 1) example_station) = PF_ALPMI_STATE_W_ALARM"
proof -
  have s: "services example_station" "\<not> acr_transport_udp (alarm_cr_request (al_ar 0 example_station))"
    using example_opened(2) by (simp_all add: services_def ar_params_def example_alarm_ar_def zero_cr_request_def)
  show "takes (0, 1) 0xffff example_station" "alpmr_state (alpmx_at (0, 1) example_station) = PF_ALPMR_STATE_W_NOTIFY"
    "apms_state (apmx_at (0, 1) example_station) = PF_APMS_STATE_OPEN"
    "alpmi_state (alpmx_at (0, 1) example_station) = PF_ALPMI_STATE_W_ALARM"
    using opened_takes [OF example_opened(1) _ s, of 1] by simp_all
  show "send_seq_count (apmx_at (0, 1) example_station) = 0xffff" "length (ax_da (apmx_at (0, 1) example_station)) = 6"
    using example_opened by (simp_all add: opened_ar_def opened_def ar_params_def example_alarm_ar_def)
qed

lemma example_payload: "manufacturer_payload (ad_payload example_notification)" "ad_sequence_number example_notification < 2048"
  by (simp_all add: example_notification_def manufacturer_payload_def PF_USI_CHANNEL_DIAGNOSIS_def
      PNET_MAX_ALARM_PAYLOAD_DATA_SIZE_def)

lemma alarm_delivered_witness:
  "\<exists>n'. handle_frame (0, 1) \<lparr>frame_id_pos = 18, msg_buf = Some (build_frame [2, 0, 0, 0, 0, 2] (apmx_at (0, 1) example_station)
      (data_of (apmx_at (0, 1) example_station)) example_notification 0 None)\<rparr> example_station = Some (0, n') \<and>
    indications n' = indications example_station @ [Fspm_alarm_ind 0
      (alarm_arg (pf_alarm_data.truncate example_notification)) 3 0x1000 [1, 2, 3]]"
  using alarm_delivered [OF _ _ _ _ refl example_payload, of "(0, 1)" example_station
      "[2, 0, 0, 0, 0, 2]" 0] example_takes
  by (auto simp: example_notification_def)

end
