(* ===== verification/Alarm_Acks.thy ===== *)
theory Alarm_Acks
  imports Alarm_Transfer
begin

section \<open>Acknowledgements and repeated frames\<close>

text \<open>
  What a station does with a transport acknowledgement, with a frame that it has already accepted, and
  with the acknowledgement of its own alarm.
\<close>

lemma parse_head:
  assumes "alarm_fixed_ok f" "buf = pre @ enc_alarm_fixed True f @ enc16 True l @ rest" "length buf < 65536"
  shows "run_state get_alarm_head (frame_cursor buf (of_nat (length pre))) = ((f, l), frame_cursor buf (of_nat (length pre + 12)))"
proof -
  have "reads True get_alarm_head (enc_alarm_fixed True f @ enc16 True l) (f, l)"
    unfolding get_alarm_head_def by (intro reads_pair reads_alarm_fixed reads_uint16 assms(1))
  from read_frame [OF this _ assms(3), of pre rest] assms(2) show ?thesis
    by (simp add: add.commute)
qed

lemma ack_of_ok [simp]: "alarm_fixed_ok (ack_of x)" "pdu_version (ack_of x) = PF_ALARM_PDU_TYPE_VERSION_1"
  by (simp_all add: ack_of_def alarm_fixed_def alarm_fixed_ok_def PF_RTA_PDU_TYPE_ACK_def PF_ALARM_PDU_TYPE_VERSION_1_def)

lemma enc_var_ack [simp]: "enc_var xs (ack_of x) d m st = []"
  by (simp add: enc_var_def PF_RTA_PDU_TYPE_ACK_def PF_RTA_PDU_TYPE_DATA_def PF_RTA_PDU_TYPE_ERR_def)

text \<open>A transport acknowledgement ends the sender's wait when it has the number that the sender waits for.\<close>

lemma handle_ack:
  assumes "linked p n" "length mac = 6" "length (ax_da xs) = 6"
  shows "handle_frame p \<lparr>frame_id_pos = 18, msg_buf = Some (build_frame mac xs (ack_of x) d m st)\<rparr> n =
    Some (0, al_emit [Buf_free] (after_tack p (ack_of x) n))"
proof -
  let ?buf = "build_frame mac xs (ack_of x) d m st"
  have len: "length (enc_header mac xs) = 20" using assms(2,3) by simp
  have buf: "?buf = enc_header mac xs @ enc_alarm_fixed True (ack_of x) @ enc16 True 0 @ []"
    using build_frame_eq [of "ack_of x" mac xs d m st] len by (simp add: PF_FRAME_BUFFER_SIZE_def)
  have "run_state get_alarm_head (frame_cursor ?buf 20) = ((ack_of x, 0), frame_cursor ?buf 32)"
    using parse_head [OF ack_of_ok(1) buf, unfolded len] len by (simp add: buf)
  then show ?thesis
    by (simp add: handle_frame_def apms_a_data_ind_eq [OF assms(1)] after_tack_def)
qed

subsection \<open>A repeated frame\<close>

text \<open>The number that follows another is a different one, also from the first number 0xffff and at the wrap.\<close>

lemma next_seq_less: "next_seq s < 0x8000"
proof -
  have "next_seq s = take_bit 15 (s + 1)" by (simp add: next_seq_def take_bit_eq_mask mask_eq_exp_minus_1)
  then show ?thesis by (simp add: take_bit_eq_mod word_mod_less_divisor)
qed

lemma next_seq_neq: "next_seq s \<noteq> s"
proof
  assume eq: "next_seq s = s"
  have "bit (next_seq s) 0 \<noteq> bit s 0"
    by (simp add: next_seq_def bit_0 even_and_iff)
  then show False using eq by simp
qed

lemma handle_repeated:
  assumes l: "linked p n" and o: "apmr_state (apmx_at p n) = PF_APMR_STATE_OPEN"
    "exp_seq_count_o (apmx_at p n) = send_seq_count xs" "exp_seq_count (apmx_at p n) \<noteq> send_seq_count xs"
    and a: "length mac = 6" "length (ax_da xs) = 6" and v: "enc_var xs (data_of xs) d m st = enc_block True bt body"
    and fits: "38 + length body \<le> PF_FRAME_BUFFER_SIZE"
  shows "handle_frame p \<lparr>frame_id_pos = 18, msg_buf = Some (build_frame mac xs (data_of xs) d m st)\<rparr> n =
    Some (0, al_emit [Buf_free] (let n' = after_tack p (data_of xs) n
      in snd (sent p (ack_of (apmx_at p n')) zero_alarm_data 0 None n')))"
proof -
  let ?buf = "build_frame mac xs (data_of xs) d m st" and ?l = "of_nat (6 + length body) :: u16"
  let ?n = "after_tack p (data_of xs) n"
  have len: "length (enc_header mac xs) = 20" using a by simp
  note buf = data_frame_bytes(1) [OF a v fits]
  have "length ?buf < 65536" using fits len by (simp add: buf PF_FRAME_BUFFER_SIZE_def)
  then have h: "run_state get_alarm_head (frame_cursor ?buf 20) = ((data_of xs, ?l), frame_cursor ?buf 32)"
    using parse_head [OF data_of_simps(6) buf, unfolded len] by simp
  have "linked p ?n" using l linkedD(1) [OF l] by simp
  from send_ack_eq [OF this] apms_a_data_ind_eq [OF l, of "data_of xs"]
  have "pf_alarm_apmr_a_data_ind p (data_of xs) ?l (frame_cursor ?buf 32) n =
      Some (0, snd (sent p (ack_of (apmx_at p ?n)) zero_alarm_data 0 None ?n))"
    using o by (simp add: pf_alarm_apmr_a_data_ind_def after_tack_def [symmetric] case_prod_beta Let_def)
  then show ?thesis by (simp add: handle_frame_def h Let_def)
qed

text \<open>What accepting a frame leaves alone.\<close>

lemma after_tack_kept [simp]:
  assumes "valid p n"
  shows "ax_da (apmx_at p (after_tack p f n)) = ax_da (apmx_at p n)" "device_mac (after_tack p f n) = device_mac n"
    "block_type_alarm_notify (apmx_at p (after_tack p f n)) = block_type_alarm_notify (apmx_at p n)"
    "block_type_alarm_ack (apmx_at p (after_tack p f n)) = block_type_alarm_ack (apmx_at p n)"
    "takes p s (after_tack p f n) = takes p s n" "timeout_us (apmx_at p (after_tack p f n)) = timeout_us (apmx_at p n)"
    "al_sched (after_tack p f n) = al_sched n"
  using assms by (simp_all add: takes_def services_def) (simp_all add: after_tack_def tacked_def free_rta_def Let_def)

lemma takes_emit [simp]: "takes p s (al_emit os n) = takes p s n"
  by (simp add: takes_def services_def)

lemma accepted_kept [simp]:
  assumes "valid p n"
  shows "ax_da (apmx_at p (accepted p f n)) = ax_da (apmx_at p n)" "device_mac (accepted p f n) = device_mac n"
    "block_type_alarm_notify (apmx_at p (accepted p f n)) = block_type_alarm_notify (apmx_at p n)"
    "block_type_alarm_ack (apmx_at p (accepted p f n)) = block_type_alarm_ack (apmx_at p n)"
    "alloc_ok (accepted p f n) = alloc_ok n" "send_ok (accepted p f n) = send_ok n"
    "alarm_cr_request (al_ar a (accepted p f n)) = alarm_cr_request (al_ar a n)"
    "al_sched (accepted p f n) = al_sched n" "timeout_us (apmx_at p (accepted p f n)) = timeout_us (apmx_at p n)"
  using assms by (auto simp: accepted_def sent_def Let_def) (auto simp: expect_next_def)

lemma set_apmr_kept [simp]:
  assumes "valid p n"
  shows "alloc_ok (set_apmr p s n) = alloc_ok n" "send_ok (set_apmr p s n) = send_ok n"
    "alarm_cr_request (al_ar a (set_apmr p s n)) = alarm_cr_request (al_ar a n)" "device_mac (set_apmr p s n) = device_mac n"
    "al_sched (set_apmr p s n) = al_sched n"
  using assms by (simp_all add: set_apmr_def)

text \<open>Several copies of a frame, one after the other, and the acknowledgement that a station sends again.\<close>

fun handle_copies :: "nat \<Rightarrow> apmx_ptr \<Rightarrow> pf_apmr_msg \<Rightarrow> alarm_net \<Rightarrow> alarm_net option" where
  "handle_copies 0 p msg n = Some n"
| "handle_copies (Suc k) p msg n = do { (_, n) \<leftarrow> handle_frame p msg n; handle_copies k p msg n }"

definition ack_frame :: "apmx_ptr \<Rightarrow> alarm_net \<Rightarrow> u8 list" where
  "ack_frame p n = build_frame (device_mac n) (apmx_at p n) (ack_of (apmx_at p n)) zero_alarm_data 0 None"

lemma sent_ack:
  assumes "services n" "\<not> acr_transport_udp (alarm_cr_request (al_ar (fst p) n))"
  shows "snd (sent p (ack_of (apmx_at p n)) zero_alarm_data 0 None n) =
    al_emit [Buf_alloc True, Eth_send (ack_frame p n), Buf_free] n"
  using assms by (simp add: sent_def services_def ack_frame_def al_emit_def)

lemma emit_emit: "al_emit xs (al_emit ys n) = al_emit (ys @ xs) n" "al_emit [] n = n"
  by (simp_all add: al_emit_def)

lemma not_tack_again: "valid p n \<Longrightarrow> \<not> is_tack (apmx_at p (after_tack p f n)) f"
  by (auto simp: after_tack_def tacked_def is_tack_def Let_def)

lemma is_tack_cong: "apms_state x = apms_state y \<Longrightarrow> send_seq_count x = send_seq_count y \<Longrightarrow> is_tack x f = is_tack y f"
  by (simp add: is_tack_def)

text \<open>A copy changes nothing: the acknowledgement is sent again, and both buffers are freed.\<close>

lemma repeated_copies:
  assumes "linked p n" "apmr_state (apmx_at p n) = PF_APMR_STATE_OPEN" "exp_seq_count_o (apmx_at p n) = send_seq_count xs"
    "exp_seq_count (apmx_at p n) \<noteq> send_seq_count xs"
    and fix_parts: "length mac = 6" "length (ax_da xs) = 6" "enc_var xs (data_of xs) d m st = enc_block True bt body"
    "38 + length body \<le> PF_FRAME_BUFFER_SIZE"
    and "\<not> is_tack (apmx_at p n) (data_of xs)" "services n" "\<not> acr_transport_udp (alarm_cr_request (al_ar (fst p) n))"
  shows "handle_copies k p \<lparr>frame_id_pos = 18, msg_buf = Some (build_frame mac xs (data_of xs) d m st)\<rparr> n =
    Some (al_emit (concat (replicate k [Buf_alloc True, Eth_send (ack_frame p n), Buf_free, Buf_free])) n)"
  using assms
proof (induction k arbitrary: n)
  case 0
  then show ?case by (simp add: emit_emit)
next
  case (Suc k)
  let ?os = "[Buf_alloc True, Eth_send (ack_frame p n), Buf_free, Buf_free]"
  have same: "after_tack p (data_of xs) n = n" using Suc.prems(9) by (simp add: after_tack_def)
  note h = handle_repeated [OF Suc.prems(1-8), unfolded Let_def same sent_ack [OF Suc.prems(10,11)]]
  have "services (al_emit ?os n)" "ack_frame p (al_emit ?os n) = ack_frame p n"
    using Suc.prems(10) by (simp_all add: services_def ack_frame_def)
  with Suc.IH [of "al_emit ?os n"] Suc.prems show ?case
    by (simp add: h emit_emit)
qed

text \<open>C12: However often a frame with a notification arrives, one after the other, the application gets
  the alarm once. The first copy is indicated, and the next number is expected. Each further copy is
  acknowledged again, with the number of the notification, and apart from that frame and the use of its
  buffers nothing changes: not the protocol machines, not what is indicated or confirmed. The payload
  is in the manufacturer's format, and buffers are available.\<close>

theorem notification_once:
  assumes "takes p (send_seq_count xs) n" "alpmr_state (alpmx_at p n) = PF_ALPMR_STATE_W_NOTIFY"
    "length mac = 6" "length (ax_da xs) = 6" "block_type_alarm_notify xs = block_type_alarm_notify (apmx_at p n)"
    "manufacturer_payload (ad_payload d)" "ad_sequence_number d < 2048"
  shows "\<exists>n'. handle_frame p \<lparr>frame_id_pos = 18, msg_buf = Some (build_frame mac xs (data_of xs) d m None)\<rparr> n = Some (0, n') \<and>
    indications n' = indications n @ [Fspm_alarm_ind (fst p) (alarm_arg (pf_alarm_data.truncate d))
      (pl_len (ad_payload d)) (pl_usi (ad_payload d)) (pl_data (ad_payload d))] \<and>
    exp_seq_count (apmx_at p n') = next_seq (send_seq_count xs) \<and>
    alpmr_state (alpmx_at p n') = PF_ALPMR_STATE_W_USER_ACK \<and>
    ack_seq_nbr (ack_of (apmx_at p n')) = send_seq_count xs \<and>
    handle_copies (Suc k) p \<lparr>frame_id_pos = 18, msg_buf = Some (build_frame mac xs (data_of xs) d m None)\<rparr> n =
      Some (al_emit (concat (replicate k [Buf_alloc True, Eth_send (ack_frame p n'), Buf_free, Buf_free])) n')"
proof -
  let ?n = "delivered p (data_of xs) (pf_alarm_data.truncate d) (ad_payload d) n"
  have l: "linked p n" "valid p n" "exp_seq_count (apmx_at p n) = send_seq_count xs" using assms(1) linkedD by (auto simp: takes_def)
  have bt: "is_notification (block_type_alarm_notify xs)" using assms(1,5) by (simp add: takes_def)
  have fits: "38 + length (enc_alarm_data True True (pf_alarm_data.truncate d) @ enc16 True (pl_usi (ad_payload d)) @
      pl_data (ad_payload d)) \<le> PF_FRAME_BUFFER_SIZE"
    using assms(6) by (simp add: manufacturer_payload_def PNET_MAX_ALARM_PAYLOAD_DATA_SIZE_def PF_FRAME_BUFFER_SIZE_def)
  have "linked p ?n" "apmr_state (apmx_at p ?n) = PF_APMR_STATE_OPEN" "exp_seq_count_o (apmx_at p ?n) = send_seq_count xs"
    "exp_seq_count (apmx_at p ?n) \<noteq> send_seq_count xs"
    using l by (simp_all add: next_seq_neq)
  moreover have "\<not> is_tack (apmx_at p ?n) (data_of xs)"
    using not_tack_again [OF l(2), of "data_of xs"] l(2)
    by (subst is_tack_cong [where y = "apmx_at p (after_tack p (data_of xs) n)"]) (simp_all add: delivered_def accepted_def Let_def)
  moreover have "services ?n" "\<not> acr_transport_udp (alarm_cr_request (al_ar (fst p) ?n))"
    using assms(1) l(2) by (simp_all add: takes_def services_def delivered_def)
  ultimately show ?thesis
    using l repeated_copies [OF _ _ _ _ assms(3,4) enc_var_notification [OF bt assms(6)] fits, of p ?n k m]
    by (simp add: handle_notification [OF assms])
qed

lemma notification_once_witness:
  "\<exists>n'. handle_copies 3 (0, 1) \<lparr>frame_id_pos = 18, msg_buf = Some (build_frame [2, 0, 0, 0, 0, 2] (apmx_at (0, 1) example_station)
      (data_of (apmx_at (0, 1) example_station)) example_notification 0 None)\<rparr> example_station = Some n' \<and>
    indications n' = indications example_station @ [Fspm_alarm_ind 0
      (alarm_arg (pf_alarm_data.truncate example_notification)) 3 0x1000 [1, 2, 3]]"
proof -
  have i: "indications (al_emit [Buf_alloc True, Eth_send x, Buf_free, Buf_free, Buf_alloc True, Eth_send x, Buf_free, Buf_free] y) =
      indications y" for x y
    by (simp add: indications_def)
  show ?thesis
    using notification_once [OF _ _ _ _ refl example_payload, of "(0, 1)" example_station "[2, 0, 0, 0, 0, 2]" 0 2] example_takes
    by (auto simp: example_notification_def numeral_3_eq_3 numeral_2_eq_2 i)
qed

subsection \<open>The acknowledgement of an alarm\<close>

lemma enc_var_alarm_ack:
  assumes "\<not> is_notification (block_type_alarm_ack xs)"
  shows "enc_var xs (data_of xs) d m (Some st) = enc_block True (block_type_alarm_ack xs)
    (enc_alarm_data True False (pf_alarm_data.truncate d) @ enc_status st)"
  by (simp add: enc_var_def enc_alarm_block_def assms)

text \<open>
  What \<open>pf_get_pnio_status\<close> reads behind the block header of an acknowledgement: not the status, but
  the alarm type and the upper half of the API.
\<close>

definition type_and_api :: "'z pf_alarm_data_scheme \<Rightarrow> pnet_pnio_status" where
  "type_and_api d = \<lparr>error_code = ucast (drop_bit 8 (ad_alarm_type d)), error_decode = ucast (ad_alarm_type d),
     error_code_1 = ucast (drop_bit 24 (ad_api_id d)), error_code_2 = ucast (drop_bit 16 (ad_api_id d))\<rparr>"

lemma run_ack_status:
  assumes "drop 38 buf = enc_alarm_data True False d @ bs" "38 \<le> length buf" "length buf < 65536"
  shows "fst (run_state pf_get_pnio_status (frame_cursor buf 38)) = type_and_api d"
proof -
  have "buf = take 38 buf @ enc_status (type_and_api d) @ drop 4 (drop 38 buf)"
    unfolding assms(1) by (subst append_take_drop_id [of 38 buf, symmetric], subst assms(1))
      (simp add: enc_alarm_data_def enc_status_def type_and_api_def enc16_def enc32_def enc8_def)
  from read_frame [OF reads_status [of True] this assms(3)] assms(2) show ?thesis by simp
qed

text \<open>The state of the receiver after the acknowledgement of its alarm.\<close>

definition confirmed :: "apmx_ptr \<Rightarrow> pf_alarm_fixed \<Rightarrow> pnet_pnio_status \<Rightarrow> alarm_net \<Rightarrow> alarm_net" where
  "confirmed p f st n = al_emit [Buf_free] (set_apmr p PF_APMR_STATE_OPEN (al_emit [Fspm_alarm_cnf (fst p) st]
     (upd_alpmx p (alpmi_state_update (\<lambda>_. PF_ALPMI_STATE_W_ALARM)) (set_apmr p PF_APMR_STATE_WCNF (accepted p f n)))))"

lemma deliver_ack_takes:
  assumes t: "takes p seq n" and w: "alpmi_state (alpmx_at p n) = PF_ALPMI_STATE_W_ACK"
    and g: "fst (run_state pf_get_pnio_status g) = st"
  shows "map_option (\<lambda>(r, n). (r, al_emit [Buf_free] n)) (deliver_ack p f g n) = Some (0, confirmed p f st n)"
proof -
  have l: "linked p n" "valid p n" using t linkedD by (auto simp: takes_def)
  show ?thesis
    using l w linkedD [OF l(1)]
    by (simp add: deliver_ack_def accept_takes [OF t] g pf_alarm_alpmi_apmr_a_data_ind_def Let_def confirmed_def)
qed

lemma confirmed_simps [simp]:
  assumes "valid p n"
  shows "valid q (confirmed p f st n) = valid q n" "linked q (confirmed p f st n) = linked q n"
    "indications (confirmed p f st n) = indications n"
    "confirmations (confirmed p f st n) = confirmations n @ [Fspm_alarm_cnf (fst p) st]"
    "apmr_state (apmx_at p (confirmed p f st n)) = PF_APMR_STATE_OPEN"
    "exp_seq_count (apmx_at p (confirmed p f st n)) = next_seq (exp_seq_count (apmx_at p n))"
    "exp_seq_count_o (apmx_at p (confirmed p f st n)) = exp_seq_count (apmx_at p n)"
    "alpmi_state (alpmx_at p (confirmed p f st n)) = PF_ALPMI_STATE_W_ALARM"
  using assms by (simp_all add: confirmed_def)

lemma handle_alarm_ack:
  assumes t: "takes p (send_seq_count xs) n" and w: "alpmi_state (alpmx_at p n) = PF_ALPMI_STATE_W_ACK"
    and a: "length mac = 6" "length (ax_da xs) = 6" and bt: "block_type_alarm_ack xs = block_type_alarm_ack (apmx_at p n)"
  shows "handle_frame p \<lparr>frame_id_pos = 18, msg_buf = Some (build_frame mac xs (data_of xs) d m (Some st))\<rparr> n =
    Some (0, confirmed p (data_of xs) (type_and_api (pf_alarm_data.truncate d)) n)"
proof -
  let ?d = "pf_alarm_data.truncate d" and ?buf = "build_frame mac xs (data_of xs) d m (Some st)"
  let ?body = "enc_alarm_data True False ?d @ enc_status st"
  have "\<not> is_notification (block_type_alarm_ack xs)" using t by (simp add: takes_def bt)
  note v = enc_var_alarm_ack [OF this, of d m st]
  have fits: "38 + length ?body \<le> PF_FRAME_BUFFER_SIZE"
    by (simp add: enc_alarm_data_def enc_status_def enc8_def PF_FRAME_BUFFER_SIZE_def)
  note buf = data_frame_bytes [OF a v fits]
  have "38 \<le> length ?buf" "length ?buf < 65536" using buf(1) a fits by (simp_all add: PF_FRAME_BUFFER_SIZE_def)
  from run_ack_status [OF buf(2) this]
  have g: "fst (run_state pf_get_pnio_status (frame_cursor ?buf 38)) = type_and_api ?d" .
  show ?thesis
    unfolding handle_data_frame [OF t a v fits refl] by (simp add: bt deliver_ack_takes [OF t w g])
qed

text \<open>C34: The status in the acknowledgement of an alarm does not reach the application. The code reads
  it directly behind the block header, where the acknowledgement has the alarm type and the API, so the
  confirmation carries bytes of these, whatever the status was.\<close>

theorem ack_status_lost:
  assumes "takes p (send_seq_count xs) n" "alpmi_state (alpmx_at p n) = PF_ALPMI_STATE_W_ACK"
    "length mac = 6" "length (ax_da xs) = 6" "block_type_alarm_ack xs = block_type_alarm_ack (apmx_at p n)"
  shows "\<exists>n'. handle_frame p \<lparr>frame_id_pos = 18, msg_buf = Some (build_frame mac xs (data_of xs) d m (Some st))\<rparr> n = Some (0, n') \<and>
    confirmations n' = confirmations n @ [Fspm_alarm_cnf (fst p)
      \<lparr>error_code = ucast (drop_bit 8 (ad_alarm_type d)), error_decode = ucast (ad_alarm_type d),
       error_code_1 = ucast (drop_bit 24 (ad_api_id d)), error_code_2 = ucast (drop_bit 16 (ad_api_id d))\<rparr>]"
proof -
  have "valid p n" using assms(1) linkedD(1) by (auto simp: takes_def)
  then show ?thesis
    by (simp add: handle_alarm_ack [OF assms] type_and_api_def pf_alarm_data.truncate_def)
qed

lemma takes_alpmx [simp]: "valid q n \<Longrightarrow> takes p seq (upd_alpmx q f n) = takes p seq n"
  by (simp add: takes_def services_def)

lemma ack_status_lost_witness:
  "\<exists>n'. handle_frame (0, 1) \<lparr>frame_id_pos = 18, msg_buf = Some (build_frame [2, 0, 0, 0, 0, 2] (apmx_at (0, 1) example_station)
      (data_of (apmx_at (0, 1) example_station)) example_notification 0 (Some (close_status 5)))\<rparr>
      (upd_alpmx (0, 1) (alpmi_state_update (\<lambda>_. PF_ALPMI_STATE_W_ACK)) example_station) = Some (0, n') \<and>
    confirmations n' = confirmations example_station @ [Fspm_alarm_cnf 0
      \<lparr>error_code = 0, error_decode = 2, error_code_1 = 0, error_code_2 = 0\<rparr>]"
proof -
  have "valid (0, 1) example_station" using example_takes(1) linkedD(1) by (auto simp: takes_def)
  then show ?thesis
    using ack_status_lost [of "(0, 1)" "apmx_at (0, 1) example_station" "upd_alpmx (0, 1) (alpmi_state_update
        (\<lambda>_. PF_ALPMI_STATE_W_ACK)) example_station" "[2, 0, 0, 0, 0, 2]" example_notification 0 "close_status 5"] example_takes
    by (auto simp: example_notification_def PF_ALARM_TYPE_PROCESS_def zero_alarm_data_def)
qed


section \<open>Sending with retransmission\<close>

text \<open>A timer is free, and the retransmission delay is one that the scheduler takes.\<close>

definition timer_ready :: "apmx_ptr \<Rightarrow> alarm_net \<Rightarrow> bool" where
  "timer_ready p n \<longleftrightarrow> (\<exists>busy x fs d. sched_rel (al_sched n) busy (x # fs) \<and>
     pf_scheduler_sanitize_delay (timeout_us (apmx_at p n)) (tick_interval (al_sched n)) True = Some d)"

lemma start_resend_ready:
  assumes "timer_ready p n"
  obtains h s where "start_resend p n = Some (0, upd_apmx p (resend_timeout_update (\<lambda>_. h)) (n\<lparr>al_sched := s\<rparr>))"
proof -
  obtain busy x fs d where r: "sched_rel (al_sched n) busy (x # fs)"
    "pf_scheduler_sanitize_delay (timeout_us (apmx_at p n)) (tick_interval (al_sched n)) True = Some d"
    using assms by (auto simp: timer_ready_def)
  obtain s where "pf_scheduler_add (al_clock n) (timeout_us (apmx_at p n)) Apms_timeout p (resend_timeout (apmx_at p n)) (al_sched n) =
      Some (0, (resend_timeout (apmx_at p n))\<lparr>timer_index := x + 1\<rparr>, s)"
    using pf_scheduler_add_ok [OF r, of "al_clock n" Apms_timeout p "resend_timeout (apmx_at p n)"] by blast
  then show ?thesis using that by (simp add: start_resend_def)
qed

text \<open>The parts of the state that sending and receiving on one APMX leave alone.\<close>

definition quiet :: "apmx_ptr \<Rightarrow> alarm_net \<Rightarrow> alarm_net \<Rightarrow> bool" where
  "quiet p n m \<longleftrightarrow> (\<forall>q. valid q m = valid q n) \<and> (\<forall>q. linked q m = linked q n) \<and> (\<forall>q. q \<noteq> p \<longrightarrow> apmx_at q m = apmx_at q n) \<and>
     alarm_cr_request (al_ar (fst p) m) = alarm_cr_request (al_ar (fst p) n) \<and> alloc_ok m = alloc_ok n \<and> send_ok m = send_ok n \<and>
     device_mac m = device_mac n"

lemma build_frame_cong:
  "ax_da x = ax_da y \<Longrightarrow> vlan_prio x = vlan_prio y \<Longrightarrow> ax_frame_id x = ax_frame_id y \<Longrightarrow>
   block_type_alarm_ack x = block_type_alarm_ack y \<Longrightarrow> block_type_alarm_notify x = block_type_alarm_notify y \<Longrightarrow>
   build_frame mac x f d m st = build_frame mac y f d m st"
  by (simp only: build_frame_def put_frame_def put_var_part_def)

lemma upd_apmx_upd_apmx: "valid p n \<Longrightarrow> upd_apmx p f (upd_apmx p g n) = upd_apmx p (\<lambda>x. f (g x)) n"
  by (simp add: upd_apmx_def upd_al_def upd_def valid_def al_ar_def)

lemma data_req_eq:
  assumes l: "linked p n" and o: "apms_state (apmx_at p n) = PF_APMS_STATE_OPEN" "p_rta (apmx_at p n) = None"
    and e: "services n" "\<not> acr_transport_udp (alarm_cr_request (al_ar (fst p) n))" "timer_ready p n"
  obtains m h where "pf_alarm_apms_apms_a_data_req p d ms st n = Some (0, m)"
    "apmx_at p m = (apmx_at p n)\<lparr>apms_state := PF_APMS_STATE_WTACK, resend_timeout := h,
       resend_counter := ucast (acr_rta_retries (alarm_cr_request (al_ar (fst p) n))),
       p_rta := Some (build_frame (device_mac n) (apmx_at p n) (data_of (apmx_at p n)) d ms st)\<rparr>"
    "al_outs m = al_outs n @ [Buf_alloc True,
       Eth_send (build_frame (device_mac n) (apmx_at p n) (data_of (apmx_at p n)) d ms st)]"
    "quiet p n m" "\<And>q. alpmx_at q m = alpmx_at q n"
proof -
  note v = linkedD [OF l]
  let ?x = "apmx_at p n" and ?n1 = "upd_apmx p (resend_counter_update (\<lambda>_. ucast (acr_rta_retries (alarm_cr_request (al_ar (fst p) n))))) n"
  let ?n2 = "snd (sent p (data_of ?x) d ms st ?n1)"
  let ?n3 = "upd_apmx p (apms_state_update (\<lambda>_. PF_APMS_STATE_WTACK)) ?n2"
  let ?f = "build_frame (device_mac n) ?x (data_of ?x) d ms st"
  have f: "build_frame (device_mac n) (?x\<lparr>resend_counter := k\<rparr>) (data_of ?x) d ms st = ?f" for k
    by (rule build_frame_cong) simp_all
  have l1: "linked p ?n1" using l v by (simp add: linked_apmx)
  have s: "fst (sent p (data_of ?x) d ms st ?n1) = 0"
    using e(1,2) v by (simp add: sent_def services_def Let_def)
  have n2: "?n2 = upd_apmx p (p_rta_update (\<lambda>_. Some ?f)) (al_emit [Buf_alloc True, Eth_send ?f] ?n1)"
    using e(1,2) v o(2) by (simp add: sent_def services_def Let_def f)
  have "timer_ready p ?n3" using e(3) v unfolding n2 by (simp add: timer_ready_def)
  then obtain h sc where r: "start_resend p ?n3 = Some (0, upd_apmx p (resend_timeout_update (\<lambda>_. h)) (?n3\<lparr>al_sched := sc\<rparr>))"
    by (rule start_resend_ready)
  let ?m = "upd_apmx p (resend_timeout_update (\<lambda>_. h)) (?n3\<lparr>al_sched := sc\<rparr>)"
  have req: "pf_alarm_apms_apms_a_data_req p d ms st n = Some (0, ?m)"
    using o(1) v a_data_req_eq [OF l1, of "data_of ?x" st d ms] s r
    by (simp add: pf_alarm_apms_apms_a_data_req_def data_of_def [symmetric] Let_def case_prod_beta)
  show ?thesis
    by (rule that [OF req, of h]) (use v l1 in \<open>simp_all add: n2 quiet_def linked_apmx\<close>)
qed

end
