(* ===== verification/Alarm_Exchange.thy ===== *)
theory Alarm_Exchange
  imports Alarm_Acks
begin

section \<open>A complete exchange\<close>

text \<open>
  One alarm from end to end: notification, transport acknowledgement, the application's
  acknowledgement, its transport acknowledgement. Between the steps the stations are in the
  states that \<open>station\<close> describes.
\<close>

text \<open>The frames that a station has sent.\<close>

definition frames :: "alarm_net \<Rightarrow> u8 list list" where
  "frames n = List.map_filter (\<lambda>out. case out of Eth_send f \<Rightarrow> Some f | _ \<Rightarrow> None) (al_outs n)"

lemma frames_emit [simp]: "frames (al_emit os n) = frames n @
    List.map_filter (\<lambda>out. case out of Eth_send f \<Rightarrow> Some f | _ \<Rightarrow> None) os"
  by (simp add: frames_def List.map_filter_def)

lemma frames_upd [simp]:
  "frames (upd_apmx p f n) = frames n" "frames (upd_alpmx p g n) = frames n" "frames (set_apmr p s n) = frames n"
  "frames (expect_next p n) = frames n"
  by (simp_all add: frames_def set_apmr_def expect_next_def)

lemma frames_tack [simp]: "valid p n \<Longrightarrow> frames (after_tack p f n) = frames n"
  by (simp add: after_tack_def frames_def List.map_filter_def)

definition station ::
    "apmx_ptr \<Rightarrow> apms_state \<Rightarrow> u16 \<Rightarrow> u16 \<Rightarrow> alpmi_state \<Rightarrow> alpmr_state \<Rightarrow> u16 \<times> u16 \<Rightarrow> alarm_net \<Rightarrow> bool" where
  "station p s seq expected ai ar types n \<longleftrightarrow> takes p expected n \<and> apms_state (apmx_at p n) = s \<and>
     send_seq_count (apmx_at p n) = seq \<and> alpmi_state (alpmx_at p n) = ai \<and> alpmr_state (alpmx_at p n) = ar \<and>
     (s = PF_APMS_STATE_OPEN \<longrightarrow> p_rta (apmx_at p n) = None) \<and> length (ax_da (apmx_at p n)) = 6 \<and> length (device_mac n) = 6 \<and>
     (block_type_alarm_notify (apmx_at p n), block_type_alarm_ack (apmx_at p n)) = types"

lemma stationD:
  assumes "station p s seq expected ai ar types n"
  shows "takes p expected n" "linked p n" "valid p n" "apms_state (apmx_at p n) = s" "send_seq_count (apmx_at p n) = seq"
    "alpmi_state (alpmx_at p n) = ai" "alpmr_state (alpmx_at p n) = ar" "length (ax_da (apmx_at p n)) = 6"
    "length (device_mac n) = 6" "block_type_alarm_notify (apmx_at p n) = fst types"
    "block_type_alarm_ack (apmx_at p n) = snd types" "apmr_state (apmx_at p n) = PF_APMR_STATE_OPEN"
    "exp_seq_count (apmx_at p n) = expected" "services n" "\<not> acr_transport_udp (alarm_cr_request (al_ar (fst p) n))"
    "s = PF_APMS_STATE_OPEN \<Longrightarrow> p_rta (apmx_at p n) = None"
  using assms linkedD by (auto simp: station_def takes_def)

text \<open>A transport acknowledgement in a frame.\<close>

definition is_ack_frame :: "u16 \<Rightarrow> u8 list \<Rightarrow> bool" where
  "is_ack_frame seq b \<longleftrightarrow> (\<exists>mac xs x d m st. b = build_frame mac xs (ack_of x) d m st \<and> exp_seq_count_o x = seq \<and>
     length mac = 6 \<and> length (ax_da xs) = 6)"

lemma quiet_tack: "apms_state (apmx_at p n) \<noteq> PF_APMS_STATE_WTACK \<Longrightarrow> after_tack p f n = n"
  by (simp add: after_tack_def is_tack_def)

lemma frames_accepted:
  assumes "takes p seq n" "length (ax_da (apmx_at p n)) = 6" "length (device_mac n) = 6"
  shows "\<exists>b. frames (accepted p f n) = frames n @ [b] \<and> is_ack_frame seq b"
proof -
  let ?m = "expect_next p (after_tack p f n)"
  have v: "valid p n" using assms(1) linkedD(1) by (auto simp: takes_def)
  have "ax_da (apmx_at p (after_tack p f n)) = ax_da (apmx_at p n)" "device_mac (after_tack p f n) = device_mac n"
    using v by (simp_all add: after_tack_def tacked_def free_rta_def Let_def)
  then have "is_ack_frame seq (build_frame (device_mac ?m) (apmx_at p ?m) (ack_of (apmx_at p ?m)) zero_alarm_data 0 None)"
    unfolding is_ack_frame_def using assms v
    by (intro exI [of _ "device_mac ?m"] exI [of _ "apmx_at p ?m"] exI [of _ zero_alarm_data] exI [of _ 0] exI [of _ None])
      (simp add: takes_def expect_next_def)
  then show ?thesis
    using assms v by (simp add: accepted_def sent_def Let_def takes_def services_def List.map_filter_def)
qed

text \<open>The acknowledgement that the sender waits for.\<close>

lemma station_tack:
  assumes "station p PF_APMS_STATE_WTACK seq expected ai ar types n" "is_ack_frame seq b"
  obtains n' where "handle_frame p \<lparr>frame_id_pos = 18, msg_buf = Some b\<rparr> n = Some (0, n')"
    "station p PF_APMS_STATE_OPEN (next_seq seq) expected ai
      (if ar = PF_ALPMR_STATE_W_TACK then PF_ALPMR_STATE_W_NOTIFY else ar) types n'"
    "indications n' = indications n" "confirmations n' = confirmations n" "frames n' = frames n"
proof -
  note st = stationD [OF assms(1)]
  obtain mac xs x d m sta where b: "b = build_frame mac xs (ack_of x) d m sta" "exp_seq_count_o x = seq"
    "length mac = 6" "length (ax_da xs) = 6" using assms(2) by (auto simp: is_ack_frame_def)
  have is_ack: "after_tack p (ack_of x) n = tacked p n" using st b(2) by (simp add: after_tack_def is_tack_def)
  show ?thesis
  proof (rule that)
    show "handle_frame p \<lparr>frame_id_pos = 18, msg_buf = Some b\<rparr> n = Some (0, al_emit [Buf_free] (after_tack p (ack_of x) n))"
      unfolding b(1) by (rule handle_ack [OF st(2) b(3,4)])
    have "takes p expected (after_tack p (ack_of x) n)" "device_mac (after_tack p (ack_of x) n) = device_mac n"
      using st by simp_all
    then show "station p PF_APMS_STATE_OPEN (next_seq seq) expected ai
        (if ar = PF_ALPMR_STATE_W_TACK then PF_ALPMR_STATE_W_NOTIFY else ar) types (al_emit [Buf_free] (after_tack p (ack_of x) n))"
      unfolding is_ack using st by (auto simp: station_def)
  qed (use st in \<open>simp_all add: List.map_filter_def\<close>)
qed

lemma accepted_open [simp]:
  assumes "valid p n" "apms_state (apmx_at p n) \<noteq> PF_APMS_STATE_WTACK"
  shows "apms_state (apmx_at p (accepted p f n)) = apms_state (apmx_at p n)"
    "send_seq_count (apmx_at p (accepted p f n)) = send_seq_count (apmx_at p n)"
    "p_rta (apmx_at p (accepted p f n)) = p_rta (apmx_at p n)"
  using assms by (simp_all add: accepted_def quiet_tack Let_def)

text \<open>A notification in sequence, while the receiver itself waits for nothing.\<close>

lemma station_notified:
  assumes st0: "station p PF_APMS_STATE_OPEN seq (send_seq_count xs) ai PF_ALPMR_STATE_W_NOTIFY types n"
    and f: "length mac = 6" "length (ax_da xs) = 6" "block_type_alarm_notify xs = fst types"
    "manufacturer_payload (ad_payload d)" "ad_sequence_number d < 2048"
  obtains n' b where
    "handle_frame p \<lparr>frame_id_pos = 18, msg_buf = Some (build_frame mac xs (data_of xs) d m None)\<rparr> n = Some (0, n')"
    "station p PF_APMS_STATE_OPEN seq (next_seq (send_seq_count xs)) ai PF_ALPMR_STATE_W_USER_ACK types n'"
    "indications n' = indications n @ [Fspm_alarm_ind (fst p) (alarm_arg (pf_alarm_data.truncate d))
      (pl_len (ad_payload d)) (pl_usi (ad_payload d)) (pl_data (ad_payload d))]"
    "confirmations n' = confirmations n" "frames n' = frames n @ [b]" "is_ack_frame (send_seq_count xs) b"
    "timer_ready p n' = timer_ready p n"
proof -
  note st = stationD [OF st0]
  let ?n = "delivered p (data_of xs) (pf_alarm_data.truncate d) (ad_payload d) n"
  obtain b where b: "frames (accepted p (data_of xs) n) = frames n @ [b]" "is_ack_frame (send_seq_count xs) b"
    using frames_accepted [OF st(1,8,9)] by blast
  have h: "handle_frame p \<lparr>frame_id_pos = 18, msg_buf = Some (build_frame mac xs (data_of xs) d m None)\<rparr> n = Some (0, ?n)"
    using st f by (intro handle_notification) simp_all
  have "takes p (next_seq (send_seq_count xs)) ?n"
    using st by (simp add: takes_def services_def delivered_def)
  then have s: "station p PF_APMS_STATE_OPEN seq (next_seq (send_seq_count xs)) ai PF_ALPMR_STATE_W_USER_ACK types ?n"
    using st by (simp add: station_def) (simp add: delivered_def)
  show ?thesis
    by (rule that [OF h s]) (use st b in \<open>simp_all add: delivered_def List.map_filter_def timer_ready_def\<close>)
qed

text \<open>The acknowledgement of the station's own alarm.\<close>

lemma station_confirmed:
  assumes st0: "station p PF_APMS_STATE_OPEN seq (send_seq_count xs) PF_ALPMI_STATE_W_ACK ar types n"
    and f: "length mac = 6" "length (ax_da xs) = 6" "block_type_alarm_ack xs = snd types" "ar \<noteq> PF_ALPMR_STATE_W_TACK"
  obtains n' b where
    "handle_frame p \<lparr>frame_id_pos = 18, msg_buf = Some (build_frame mac xs (data_of xs) d m (Some sta))\<rparr> n = Some (0, n')"
    "station p PF_APMS_STATE_OPEN seq (next_seq (send_seq_count xs)) PF_ALPMI_STATE_W_ALARM ar types n'"
    "indications n' = indications n"
    "confirmations n' = confirmations n @ [Fspm_alarm_cnf (fst p) (type_and_api (pf_alarm_data.truncate d))]"
    "frames n' = frames n @ [b]" "is_ack_frame (send_seq_count xs) b"
proof -
  note st = stationD [OF st0]
  let ?n = "confirmed p (data_of xs) (type_and_api (pf_alarm_data.truncate d)) n"
  obtain b where b: "frames (accepted p (data_of xs) n) = frames n @ [b]" "is_ack_frame (send_seq_count xs) b"
    using frames_accepted [OF st(1,8,9)] by blast
  have h: "handle_frame p \<lparr>frame_id_pos = 18, msg_buf = Some (build_frame mac xs (data_of xs) d m (Some sta))\<rparr> n = Some (0, ?n)"
    using st f by (intro handle_alarm_ack) simp_all
  have "takes p (next_seq (send_seq_count xs)) ?n"
    using st by (simp add: takes_def services_def confirmed_def)
  then have s: "station p PF_APMS_STATE_OPEN seq (next_seq (send_seq_count xs)) PF_ALPMI_STATE_W_ALARM ar types ?n"
    using st f(4) by (simp add: station_def) (simp add: confirmed_def)
  show ?thesis
    by (rule that [OF h s]) (use st b in \<open>simp_all add: confirmed_def List.map_filter_def\<close>)
qed

subsection \<open>Sending\<close>

lemma takes_quiet: "quiet p n m \<Longrightarrow> takes p e m = (linked p m \<and> apmr_state (apmx_at p m) = PF_APMR_STATE_OPEN \<and>
    exp_seq_count (apmx_at p m) = e \<and> \<not> acr_transport_udp (alarm_cr_request (al_ar (fst p) n)) \<and> services n \<and>
    is_notification (block_type_alarm_notify (apmx_at p m)) \<and> \<not> is_notification (block_type_alarm_ack (apmx_at p m)))"
  by (simp add: takes_def quiet_def services_def)

lemma station_sends:
  assumes st0: "station p PF_APMS_STATE_OPEN seq expected ai ar types n" and t: "timer_ready p n"
  obtains n' where "pf_alarm_apms_apms_a_data_req p d ms st n = Some (0, n')"
    "station p PF_APMS_STATE_WTACK seq expected ai ar types n'"
    "frames n' = frames n @ [build_frame (device_mac n) (apmx_at p n) (data_of (apmx_at p n)) d ms st]"
    "indications n' = indications n" "confirmations n' = confirmations n" "ax_p_alpmx (apmx_at p n') = Some p"
proof -
  note st = stationD [OF st0]
  obtain m h where m: "pf_alarm_apms_apms_a_data_req p d ms st n = Some (0, m)"
    "apmx_at p m = (apmx_at p n)\<lparr>apms_state := PF_APMS_STATE_WTACK, resend_timeout := h,
       resend_counter := ucast (acr_rta_retries (alarm_cr_request (al_ar (fst p) n))),
       p_rta := Some (build_frame (device_mac n) (apmx_at p n) (data_of (apmx_at p n)) d ms st)\<rparr>"
    "al_outs m = al_outs n @ [Buf_alloc True,
       Eth_send (build_frame (device_mac n) (apmx_at p n) (data_of (apmx_at p n)) d ms st)]"
    "quiet p n m" "\<And>q. alpmx_at q m = alpmx_at q n"
    using data_req_eq [OF st(2,4) st(16) st(14,15) t, of d ms st] by blast
  have l: "linked p m" using m(4) st(2) unfolding quiet_def by blast
  have "takes p expected m" using st(1) l by (simp add: takes_quiet [OF m(4)] m(2)) (simp add: takes_def)
  then have "station p PF_APMS_STATE_WTACK seq expected ai ar types m"
    using st m(4) by (simp add: station_def m(2,5) quiet_def)
  from that [OF m(1) this] linkedD(3) [OF l] show ?thesis
    by (simp add: frames_def indications_def confirmations_def m(3) List.map_filter_def)
qed

lemma station_alpmx:
  assumes "station p s seq expected ai ar types n"
    "alpmi_state (f (alpmx_at p n)) = ai'" "alpmr_state (f (alpmx_at p n)) = ar'"
  shows "station p s seq expected ai' ar' types (upd_alpmx p f n)"
  using stationD [OF assms(1)] assms(2,3) by (simp add: station_def)

lemma outs_next_sequence [simp]:
  "frames (next_sequence p n) = frames n" "indications (next_sequence p n) = indications n"
  "confirmations (next_sequence p n) = confirmations n"
  by (simp_all add: frames_def indications_def confirmations_def next_sequence_def)

lemma next_sequence_simps [simp]:
  assumes "valid p n"
  shows "apmx_at q (next_sequence p n) = apmx_at q n" "device_mac (next_sequence p n) = device_mac n"
    "timer_ready q (next_sequence p n) = timer_ready q n"
    "station q s seq expected ai ar types (next_sequence p n) = station q s seq expected ai ar types n"
  using assms by (simp_all add: next_sequence_def timer_ready_def station_def)

text \<open>The application's alarm leaves its queue.\<close>

lemma station_notifies:
  assumes st0: "station p PF_APMS_STATE_OPEN seq expected PF_ALPMI_STATE_W_ALARM ar types n" and t: "timer_ready p n"
    and en: "global_alarm_enable n" "al_enable (al_ar a n)" and sum: "pf_alarm_get_diag_summary a None n d = Some (d', ms)"
  obtains n' where "pf_alarm_send_internal a p d n = Some (0, n')"
    "station p PF_APMS_STATE_WTACK seq expected PF_ALPMI_STATE_W_ACK ar types n'"
    "frames n' = frames n @ [build_frame (device_mac n) (apmx_at p n) (data_of (apmx_at p n))
       (d'\<lparr>ad_sequence_number := sequence_number (alpmx_at p n)\<rparr>) ms None]"
    "indications n' = indications n" "confirmations n' = confirmations n"
proof -
  note st = stationD [OF st0]
  let ?d = "d'\<lparr>ad_sequence_number := sequence_number (alpmx_at p n)\<rparr>"
  have "station p PF_APMS_STATE_OPEN seq expected PF_ALPMI_STATE_W_ALARM ar types (next_sequence p n)" "timer_ready p (next_sequence p n)"
    using st(3) st0 t by simp_all
  from station_sends [OF this, of ?d ms None] obtain m where
    m: "pf_alarm_apms_apms_a_data_req p ?d ms None (next_sequence p n) = Some (0, m)"
    "station p PF_APMS_STATE_WTACK seq expected PF_ALPMI_STATE_W_ALARM ar types m"
    "frames m = frames n @ [build_frame (device_mac n) (apmx_at p n) (data_of (apmx_at p n)) ?d ms None]"
    "indications m = indications n" "confirmations m = confirmations n" "ax_p_alpmx (apmx_at p m) = Some p"
    using st(3) by auto
  let ?m = "upd_alpmx p (alpmi_state_update (\<lambda>_. PF_ALPMI_STATE_W_ACK)) m"
  have "pf_alarm_send_internal a p d n = Some (0, ?m)"
    using en st linkedD [OF st(2)] m(6) by (simp add: pf_alarm_send_internal_def sum m(1))
  moreover have "station p PF_APMS_STATE_WTACK seq expected PF_ALPMI_STATE_W_ACK ar types ?m"
    by (rule station_alpmx [OF m(2)]) (simp_all add: stationD [OF m(2)])
  ultimately show ?thesis using that m(3-5) stationD(3) [OF m(2)] by simp
qed

text \<open>The application's acknowledgement.\<close>

lemma station_acknowledges:
  assumes st0: "station (a, 1) PF_APMS_STATE_OPEN seq expected ai PF_ALPMR_STATE_W_USER_ACK types n" and t: "timer_ready (a, 1) n"
  obtains n' d where "pf_alarm_alpmr_alarm_ack a arg st n = Some (0, n')"
    "station (a, 1) PF_APMS_STATE_WTACK seq expected ai PF_ALPMR_STATE_W_TACK types n'"
    "frames n' = frames n @ [build_frame (device_mac n) (apmx_at (a, 1) n) (data_of (apmx_at (a, 1) n)) d 0 (Some st)]"
    "type_and_api (pf_alarm_data.truncate d) = type_and_api arg"
    "indications n' = indications n" "confirmations n' = confirmations n"
proof -
  let ?p = "(a, 1)"
  let ?d = "zero_alarm_data\<lparr>ad_alarm_type := ad_alarm_type arg, ad_api_id := ad_api_id arg,
    ad_slot_nbr := ad_slot_nbr arg, ad_subslot_nbr := ad_subslot_nbr arg, ad_channel_diagnosis := ad_channel_diagnosis arg,
    ad_manufacturer_diagnosis := ad_manufacturer_diagnosis arg, ad_submodule_diagnosis := ad_submodule_diagnosis arg,
    ad_ar_diagnosis := ad_ar_diagnosis arg, ad_sequence_number := ad_sequence_number arg\<rparr>"
  note s = stationD [OF st0]
  have "station ?p PF_APMS_STATE_OPEN seq expected ai PF_ALPMR_STATE_W_USER_ACK types (next_sequence ?p n)" "timer_ready ?p (next_sequence ?p n)"
    using s(3) st0 t by simp_all
  from station_sends [OF this, of ?d 0 "Some st"] obtain m where
    m: "pf_alarm_apms_apms_a_data_req ?p ?d 0 (Some st) (next_sequence ?p n) = Some (0, m)"
    "station ?p PF_APMS_STATE_WTACK seq expected ai PF_ALPMR_STATE_W_USER_ACK types m"
    "frames m = frames n @ [build_frame (device_mac n) (apmx_at ?p n) (data_of (apmx_at ?p n)) ?d 0 (Some st)]"
    "indications m = indications n" "confirmations m = confirmations n"
    using s(3) by auto
  let ?m = "upd_alpmx ?p (alpmr_state_update (\<lambda>_. PF_ALPMR_STATE_W_TACK)) m"
  have "pf_alarm_alpmr_alarm_ack a arg st n = Some (0, ?m)"
    using s(7) by (simp add: pf_alarm_alpmr_alarm_ack_def Let_def m(1) del: One_nat_def)
  moreover have "station ?p PF_APMS_STATE_WTACK seq expected ai PF_ALPMR_STATE_W_TACK types ?m"
    by (rule station_alpmx [OF m(2)]) (use stationD [OF m(2)] in simp_all)
  moreover have "type_and_api (pf_alarm_data.truncate ?d) = type_and_api arg"
    by (simp add: type_and_api_def pf_alarm_data.truncate_def)
  ultimately show ?thesis using that [of ?m ?d] m(3-5) stationD(3) [OF m(2)] by simp
qed

subsection \<open>From end to end\<close>

text \<open>
  The application of the first station sends the alarm \<open>d\<close>, that of the second acknowledges it with
  \<open>arg\<close> and \<open>st\<close>. Each station handles the last frame of the other.
\<close>

definition receive_last :: "apmx_ptr \<Rightarrow> alarm_net \<Rightarrow> alarm_net \<Rightarrow> (int \<times> alarm_net) option" where
  "receive_last p z n = handle_frame p \<lparr>frame_id_pos = 18, msg_buf = Some (last (frames z))\<rparr> n"

definition notify_phase :: "nat \<Rightarrow> nat \<Rightarrow> alarm_data \<Rightarrow> alarm_net \<times> alarm_net \<Rightarrow> (alarm_net \<times> alarm_net) option" where
  "notify_phase a b d s = (case s of (x, y) \<Rightarrow> do {
     (_, x) \<leftarrow> pf_alarm_send_internal a (a, 1) d x;
     (_, y) \<leftarrow> receive_last (b, 1) x y;
     (_, x) \<leftarrow> receive_last (a, 1) y x;
     Some (x, y)
   })"

definition ack_phase ::
    "nat \<Rightarrow> nat \<Rightarrow> pf_alarm_data \<Rightarrow> pnet_pnio_status \<Rightarrow> alarm_net \<times> alarm_net \<Rightarrow> (alarm_net \<times> alarm_net) option" where
  "ack_phase a b arg st s = (case s of (x, y) \<Rightarrow> do {
     (_, y) \<leftarrow> pf_alarm_alpmr_alarm_ack b arg st y;
     (_, x) \<leftarrow> receive_last (a, 1) y x;
     (_, y) \<leftarrow> receive_last (b, 1) x y;
     Some (x, y)
   })"

definition alarm_exchange ::
    "nat \<Rightarrow> nat \<Rightarrow> alarm_data \<Rightarrow> pf_alarm_data \<Rightarrow> pnet_pnio_status \<Rightarrow> alarm_net \<times> alarm_net \<Rightarrow> (alarm_net \<times> alarm_net) option" where
  "alarm_exchange a b d arg st s = Option.bind (notify_phase a b d s) (ack_phase a b arg st)"

lemma notify_phase_ok:
  assumes "station (a, 1) PF_APMS_STATE_OPEN s e PF_ALPMI_STATE_W_ALARM PF_ALPMR_STATE_W_NOTIFY types x"
    and "station (b, 1) PF_APMS_STATE_OPEN e s PF_ALPMI_STATE_W_ALARM PF_ALPMR_STATE_W_NOTIFY types y"
    and "timer_ready (a, 1) x" "timer_ready (b, 1) y" "global_alarm_enable x" "al_enable (al_ar a x)"
    and "pf_alarm_get_diag_summary a None x d = Some (d', ms)" "manufacturer_payload (ad_payload d')"
    and "sequence_number (alpmx_at (a, 1) x) < 0x800"
  obtains x' y' where "notify_phase a b d (x, y) = Some (x', y')"
    "station (a, 1) PF_APMS_STATE_OPEN (next_seq s) e PF_ALPMI_STATE_W_ACK PF_ALPMR_STATE_W_NOTIFY types x'"
    "station (b, 1) PF_APMS_STATE_OPEN e (next_seq s) PF_ALPMI_STATE_W_ALARM PF_ALPMR_STATE_W_USER_ACK types y'"
    "indications y' = indications y @ [Fspm_alarm_ind b
      (alarm_arg (pf_alarm_data.truncate (d'\<lparr>ad_sequence_number := sequence_number (alpmx_at (a, 1) x)\<rparr>)))
      (pl_len (ad_payload d')) (pl_usi (ad_payload d')) (pl_data (ad_payload d'))]"
    "indications x' = indications x" "confirmations x' = confirmations x" "confirmations y' = confirmations y"
    "length (frames x') = length (frames x) + 1" "length (frames y') = length (frames y) + 1" "timer_ready (b, 1) y'"
proof -
  let ?d = "d'\<lparr>ad_sequence_number := sequence_number (alpmx_at (a, 1) x)\<rparr>"
  note sx = stationD [OF assms(1)]
  obtain x1 where x1: "pf_alarm_send_internal a (a, 1) d x = Some (0, x1)"
    "station (a, 1) PF_APMS_STATE_WTACK s e PF_ALPMI_STATE_W_ACK PF_ALPMR_STATE_W_NOTIFY types x1"
    "frames x1 = frames x @ [build_frame (device_mac x) (apmx_at (a, 1) x) (data_of (apmx_at (a, 1) x)) ?d ms None]"
    "indications x1 = indications x" "confirmations x1 = confirmations x"
    using station_notifies [OF assms(1,3,5-7)] by blast
  obtain y1 t where y1: "receive_last (b, 1) x1 y = Some (0, y1)"
    "station (b, 1) PF_APMS_STATE_OPEN e (next_seq s) PF_ALPMI_STATE_W_ALARM PF_ALPMR_STATE_W_USER_ACK types y1"
    "indications y1 = indications y @ [Fspm_alarm_ind b (alarm_arg (pf_alarm_data.truncate ?d))
      (pl_len (ad_payload d')) (pl_usi (ad_payload d')) (pl_data (ad_payload d'))]"
    "confirmations y1 = confirmations y" "frames y1 = frames y @ [t]" "is_ack_frame s t" "timer_ready (b, 1) y1"
    using station_notified [of "(b, 1)" e "apmx_at (a, 1) x" PF_ALPMI_STATE_W_ALARM types y "device_mac x" ?d ms]
      assms(2,4,8,9) sx by (auto simp: receive_last_def x1(3))
  obtain x2 where x2: "receive_last (a, 1) y1 x1 = Some (0, x2)"
    "station (a, 1) PF_APMS_STATE_OPEN (next_seq s) e PF_ALPMI_STATE_W_ACK PF_ALPMR_STATE_W_NOTIFY types x2"
    "indications x2 = indications x1" "confirmations x2 = confirmations x1" "frames x2 = frames x1"
    using station_tack [OF x1(2) y1(6)] by (auto simp: receive_last_def y1(5))
  have "notify_phase a b d (x, y) = Some (x2, y1)"
    using x1(1) y1(1) x2(1) by (simp add: notify_phase_def del: One_nat_def)
  then show ?thesis using that x1 y1 x2 by simp
qed

lemma ack_phase_ok:
  assumes "station (a, 1) PF_APMS_STATE_OPEN s e PF_ALPMI_STATE_W_ACK PF_ALPMR_STATE_W_NOTIFY types x"
    and "station (b, 1) PF_APMS_STATE_OPEN e s PF_ALPMI_STATE_W_ALARM PF_ALPMR_STATE_W_USER_ACK types y" "timer_ready (b, 1) y"
  obtains x' y' where "ack_phase a b arg st (x, y) = Some (x', y')"
    "station (a, 1) PF_APMS_STATE_OPEN s (next_seq e) PF_ALPMI_STATE_W_ALARM PF_ALPMR_STATE_W_NOTIFY types x'"
    "station (b, 1) PF_APMS_STATE_OPEN (next_seq e) s PF_ALPMI_STATE_W_ALARM PF_ALPMR_STATE_W_NOTIFY types y'"
    "confirmations x' = confirmations x @ [Fspm_alarm_cnf a (type_and_api arg)]"
    "indications x' = indications x" "indications y' = indications y" "confirmations y' = confirmations y"
    "length (frames x') = length (frames x) + 1" "length (frames y') = length (frames y) + 1"
proof -
  obtain y1 d where y1: "pf_alarm_alpmr_alarm_ack b arg st y = Some (0, y1)"
    "station (b, 1) PF_APMS_STATE_WTACK e s PF_ALPMI_STATE_W_ALARM PF_ALPMR_STATE_W_TACK types y1"
    "frames y1 = frames y @ [build_frame (device_mac y) (apmx_at (b, 1) y) (data_of (apmx_at (b, 1) y)) d 0 (Some st)]"
    "type_and_api (pf_alarm_data.truncate d) = type_and_api arg" "indications y1 = indications y" "confirmations y1 = confirmations y"
    using station_acknowledges [OF assms(2,3)] by blast
  obtain x1 t where x1: "receive_last (a, 1) y1 x = Some (0, x1)"
    "station (a, 1) PF_APMS_STATE_OPEN s (next_seq e) PF_ALPMI_STATE_W_ALARM PF_ALPMR_STATE_W_NOTIFY types x1"
    "indications x1 = indications x" "confirmations x1 = confirmations x @ [Fspm_alarm_cnf a (type_and_api arg)]"
    "frames x1 = frames x @ [t]" "is_ack_frame e t"
    using station_confirmed [of "(a, 1)" s "apmx_at (b, 1) y" PF_ALPMR_STATE_W_NOTIFY types x "device_mac y" d 0 st]
      assms(1) stationD [OF assms(2)] y1(3,4) by (auto simp: receive_last_def)
  obtain y2 where y2: "receive_last (b, 1) x1 y1 = Some (0, y2)"
    "station (b, 1) PF_APMS_STATE_OPEN (next_seq e) s PF_ALPMI_STATE_W_ALARM PF_ALPMR_STATE_W_NOTIFY types y2"
    "indications y2 = indications y1" "confirmations y2 = confirmations y1" "frames y2 = frames y1"
    using station_tack [OF y1(2) x1(6)] by (auto simp: receive_last_def x1(5))
  have "ack_phase a b arg st (x, y) = Some (x1, y2)"
    using x1(1) y1(1) y2(1) by (simp add: ack_phase_def del: One_nat_def)
  then show ?thesis using that x1 y1 y2 by simp
qed

text \<open>C3: From two stations that are in step, one alarm of the application that has left its queue and
  carries manufacturer data (a USI from 1 to 0x7fff, with at most 1408 bytes) takes both through all states
  and back: the other application gets exactly this alarm, the first one exactly one confirmation, and the
  stations are in step again, with all sequence numbers one further. A lossless exchange takes four frames.
  Alarms are enabled for the AR and in the stack, both stations have a free timer and buffers, and the alarms
  travel in Ethernet frames. An alarm without a payload (USI 0) is not covered: the receiver does not take it.\<close>

theorem alarm_exchanged:
  assumes "station (a, 1) PF_APMS_STATE_OPEN s e PF_ALPMI_STATE_W_ALARM PF_ALPMR_STATE_W_NOTIFY types x"
    and "station (b, 1) PF_APMS_STATE_OPEN e s PF_ALPMI_STATE_W_ALARM PF_ALPMR_STATE_W_NOTIFY types y"
    and "timer_ready (a, 1) x" "timer_ready (b, 1) y" "global_alarm_enable x" "al_enable (al_ar a x)"
    and "pf_alarm_get_diag_summary a None x d = Some (d', ms)" "manufacturer_payload (ad_payload d')"
    and "sequence_number (alpmx_at (a, 1) x) < 0x800"
  shows "\<exists>x' y'. alarm_exchange a b d arg st (x, y) = Some (x', y') \<and>
    indications y' = indications y @ [Fspm_alarm_ind b
      (alarm_arg (pf_alarm_data.truncate (d'\<lparr>ad_sequence_number := sequence_number (alpmx_at (a, 1) x)\<rparr>)))
      (pl_len (ad_payload d')) (pl_usi (ad_payload d')) (pl_data (ad_payload d'))] \<and>
    confirmations x' = confirmations x @ [Fspm_alarm_cnf a (type_and_api arg)] \<and>
    indications x' = indications x \<and> confirmations y' = confirmations y \<and>
    length (frames x') = length (frames x) + 2 \<and> length (frames y') = length (frames y) + 2 \<and>
    station (a, 1) PF_APMS_STATE_OPEN (next_seq s) (next_seq e) PF_ALPMI_STATE_W_ALARM PF_ALPMR_STATE_W_NOTIFY types x' \<and>
    station (b, 1) PF_APMS_STATE_OPEN (next_seq e) (next_seq s) PF_ALPMI_STATE_W_ALARM PF_ALPMR_STATE_W_NOTIFY types y'"
  by (rule notify_phase_ok [OF assms], rule ack_phase_ok [of a "next_seq s" e types _ b _ arg st], assumption+)
    (simp add: alarm_exchange_def)

lemma example_station_opened:
  "station (0, 1) PF_APMS_STATE_OPEN 0xffff 0xffff PF_ALPMI_STATE_W_ALARM PF_ALPMR_STATE_W_NOTIFY
     (PF_BT_ALARM_NOTIFICATION_HIGH, PF_BT_ALARM_ACK_HIGH) example_station"
  using example_takes example_opened by (simp add: station_def opened_ar_def opened_def)

lemma example_timer: "timer_ready (0, 1) example_station"
proof -
  obtain s where s: "pf_scheduler_init 1000 0 Other_timer (0 :: nat, 0 :: nat) = Some s" "sched_rel s [] [0 ..< PF_MAX_TIMEOUTS]" "tick_interval s = 1000"
    using pf_scheduler_init_ok [of 1000 0 Other_timer "(0 :: nat, 0 :: nat)"] by auto
  have "al_sched example_station = s" by (simp add: example_stopped_def pf_alarm_init_def s(1))
  moreover have "timeout_us (apmx_at (0, 1) example_station) = 100000"
    using example_opened by (simp add: opened_ar_def opened_def ar_params_def example_alarm_ar_def zero_cr_request_def)
  ultimately show ?thesis using s(2,3) unfolding timer_ready_def upt_75
    by (auto simp: pf_scheduler_sanitize_delay_def)
qed

lemma alarm_exchanged_witness:
  "\<exists>x' y'. alarm_exchange 0 0 example_notification (pf_alarm_data.truncate example_notification) (close_status 0)
      (example_station, example_station) = Some (x', y') \<and>
    length (indications y') = length (indications example_station) + 1 \<and>
    station (0, 1) PF_APMS_STATE_OPEN 0 0 PF_ALPMI_STATE_W_ALARM PF_ALPMR_STATE_W_NOTIFY
      (PF_BT_ALARM_NOTIFICATION_HIGH, PF_BT_ALARM_ACK_HIGH) x'"
proof -
  have sum: "pf_alarm_get_diag_summary 0 None example_station example_notification = Some (example_notification, 0)"
    by (simp add: pf_alarm_get_diag_summary_def example_notification_def zero_alarm_data_def)
  have "global_alarm_enable example_station" "al_enable (al_ar 0 example_station)"
    "sequence_number (alpmx_at (0, 1) example_station) < 0x800"
    using example_opened by (simp_all add: ar_params_def example_alarm_ar_def opened_ar_def list_all_length alpmx_at_def)
  from alarm_exchanged [OF example_station_opened example_station_opened example_timer example_timer this(1,2) sum example_payload(1) this(3)]
  show ?thesis by (fastforce simp: next_seq_def)
qed

subsection \<open>An alarm without a payload\<close>

lemma run_empty_notification:
  assumes "buf = pre @ enc_alarm_data True True d" "length pre = 38" "ad_sequence_number d < 2048"
  shows "result (snd (run_state get_notification (frame_cursor buf 38))) \<noteq> PF_PARSE_OK"
proof -
  have "length buf = 58" using assms(1,2) by simp
  then have "run_state (pf_get_alarm_data (pf_alarm_data.truncate zero_alarm_data)) (frame_cursor buf 38) = (d, frame_cursor buf 58)"
    using read_frame [OF reads_alarm_data [OF assms(3)], of buf pre "[]" "pf_alarm_data.truncate zero_alarm_data"] assms(1,2)
    by simp
  moreover have "result (snd (run_state pf_get_uint16 (frame_cursor buf 58))) \<noteq> PF_PARSE_OK"
    using \<open>length buf = 58\<close> by (simp add: pf_get_uint16_def pf_get_byte_def frame_cursor_def split: prod.split)
  ultimately show ?thesis by (simp add: get_notification_def split_beta)
qed

text \<open>C28: A notification without a payload, which the writer puts into a frame without a USI, is
  acknowledged but not indicated when the frame arrives as it was written, without padding: the receiver
  reads a USI behind its end. The protocol machine of the receiver stays in WCNF, so that every later DATA
  frame of this priority, of whatever contents, is refused without an answer.\<close>

theorem empty_notification_blocks:
  assumes "takes p (send_seq_count xs) n" "length (ax_da (apmx_at p n)) = 6" "length (device_mac n) = 6"
    and "length mac = 6" "length (ax_da xs) = 6" "block_type_alarm_notify xs = block_type_alarm_notify (apmx_at p n)"
    and "pl_usi (ad_payload d) = 0" "ad_sequence_number d < 2048"
  shows "\<exists>n' b. handle_frame p \<lparr>frame_id_pos = 18, msg_buf = Some (build_frame mac xs (data_of xs) d m None)\<rparr> n = Some (- 1, n') \<and>
    frames n' = frames n @ [b] \<and> is_ack_frame (send_seq_count xs) b \<and> indications n' = indications n \<and>
    apmr_state (apmx_at p n') = PF_APMR_STATE_WCNF \<and>
    (\<forall>f l g. pf_alarm_apmr_a_data_ind p f l g n' = Some (- 1, n'))"
proof -
  let ?d = "pf_alarm_data.truncate d" and ?buf = "build_frame mac xs (data_of xs) d m None" and ?f = "data_of xs"
  let ?n = "al_emit [Buf_free] (set_apmr p PF_APMR_STATE_WCNF (accepted p ?f n))"
  have l: "valid p n" using assms(1) linkedD(1) by (auto simp: takes_def)
  have n: "is_notification (block_type_alarm_notify xs)" "block_type_alarm_notify (apmx_at p n) \<noteq> block_type_alarm_ack (apmx_at p n)"
    using assms(1,6) by (auto simp: takes_def)
  have v: "enc_var xs ?f d m None = enc_block True (block_type_alarm_notify xs) (enc_alarm_data True True ?d)"
    using n(1) assms(7) by (simp add: enc_var_def enc_alarm_block_def enc_payload_def)
  have fits: "38 + length (enc_alarm_data True True ?d) \<le> PF_FRAME_BUFFER_SIZE" by (simp add: PF_FRAME_BUFFER_SIZE_def)
  note buf = data_frame_bytes [OF assms(4,5) v fits]
  have "?buf = take 38 ?buf @ enc_alarm_data True True ?d" "length (take 38 ?buf) = 38"
    using buf assms(4,5) by (metis append_take_drop_id, simp)
  then have bad: "result (snd (run_state get_notification (frame_cursor ?buf 38))) \<noteq> PF_PARSE_OK"
    using assms(8) by (intro run_empty_notification [of _ "take 38 ?buf" ?d]) simp_all
  then have "deliver_notification p ?f k 32 (frame_cursor ?buf 38) n = Some (- 1, set_apmr p PF_APMR_STATE_WCNF (accepted p ?f n))" for k
    by (simp add: deliver_notification_def accept_takes [OF assms(1)] split_beta Let_def)
  then have h: "handle_frame p \<lparr>frame_id_pos = 18, msg_buf = Some ?buf\<rparr> n = Some (- 1, ?n)"
    using n(2) assms(6) by (simp add: handle_data_frame [OF assms(1,4,5) v fits refl])
  obtain b where b: "frames (accepted p ?f n) = frames n @ [b]" "is_ack_frame (send_seq_count xs) b"
    using frames_accepted [OF assms(1-3)] by blast
  have w: "apmr_state (apmx_at p ?n) = PF_APMR_STATE_WCNF" using l by simp
  then have "pf_alarm_apmr_a_data_ind p f k g ?n = Some (- 1, ?n)" for f k g
    by (simp add: pf_alarm_apmr_a_data_ind_def Let_def)
  then show ?thesis
    using h b w l by (intro exI [of _ ?n] exI [of _ b]) (simp add: List.map_filter_def)
qed

lemma empty_notification_blocks_witness:
  "\<exists>n'. handle_frame (0, 1) \<lparr>frame_id_pos = 18, msg_buf = Some (build_frame [2, 0, 0, 0, 0, 2] (apmx_at (0, 1) example_station)
      (data_of (apmx_at (0, 1) example_station)) (zero_alarm_data\<lparr>ad_alarm_type := 3\<rparr>) 0 None)\<rparr> example_station =
      Some (- 1, n') \<and> indications n' = indications example_station"
  using empty_notification_blocks [of "(0, 1)" "apmx_at (0, 1) example_station" example_station "[2, 0, 0, 0, 0, 2]"
      "zero_alarm_data\<lparr>ad_alarm_type := 3\<rparr>" 0]
    stationD [OF example_station_opened] example_takes
  by (auto simp: zero_alarm_data_def)

end
