(* ===== verification/Alarm_Abort.thy ===== *)
theory Alarm_Abort
  imports Alarm_Exchange
begin

section \<open>Closing and aborting\<close>

text \<open>
  An abort always completes and leaves the AR zeroed. \<open>al_timers\<close>: the scheduler is in order. \<open>proceeds\<close>
  relates a state to a later one: outputs are only added, and the tables keep their shape.
\<close>

definition al_timers :: "alarm_net \<Rightarrow> bool" where
  "al_timers n \<longleftrightarrow> (\<exists>base now busy free. timers_ok base (al_sched n) busy free \<and> clock_ok base now (al_clock n))"

definition proceeds :: "alarm_net \<Rightarrow> alarm_net \<Rightarrow> bool" where
  "proceeds n m \<longleftrightarrow> (\<exists>os. al_outs m = al_outs n @ os) \<and> length (al_ars m) = length (al_ars n) \<and>
     (\<forall>p. valid p m = valid p n) \<and> (\<forall>a. al_in_use (al_ar a m) = al_in_use (al_ar a n)) \<and>
     (\<forall>a. length (apmxs (al_ar a m)) = length (apmxs (al_ar a n))) \<and> (al_timers n \<longrightarrow> al_timers m)"

lemma proceeds_refl [simp]: "proceeds n n"
  by (simp add: proceeds_def)

lemma proceeds_trans: "proceeds n m \<Longrightarrow> proceeds m k \<Longrightarrow> proceeds n k"
  by (auto simp: proceeds_def)

lemma proceeds_emit [simp]: "proceeds n (al_emit os n)"
  by (simp add: proceeds_def al_timers_def)

lemma proceeds_apmx [simp]: "valid p n \<Longrightarrow> proceeds n (upd_apmx p f n)"
  by (simp add: proceeds_def al_timers_def)

lemma proceeds_mark [simp]: "proceeds n (mark_endpoint a f n)"
  by (auto simp: proceeds_def al_timers_def valid_def mark_endpoint_def al_ar_def split: option.split)

lemma proceeds_al:
  assumes "a < length (al_ars n)" "\<And>r. al_in_use (f r) = al_in_use r" "\<And>r. length (apmxs (f r)) = length (apmxs r)"
    "\<And>r. length (alpmxs (f r)) = length (alpmxs r)"
  shows "proceeds n (upd_al a f n)"
  using assms by (auto simp: proceeds_def al_timers_def valid_def al_ar_upd_al)

lemma proceeds_sent [simp]: "valid p n \<Longrightarrow> proceeds n (snd (sent p f d m st n))"
  by (auto simp: sent_def Let_def proceeds_def al_timers_def)

lemma proceeds_free_rta [simp]: "valid p n \<Longrightarrow> proceeds n (free_rta p n)"
  by (auto simp: free_rta_def proceeds_def al_timers_def)

lemma close_apms_proceeds:
  assumes "valid p n" "al_timers n"
  obtains m where "close_apms p n = Some m" "proceeds n m"
proof -
  obtain base now busy free where t: "timers_ok base (al_sched n) busy free" "clock_ok base now (al_clock n)"
    using assms(2) by (auto simp: al_timers_def)
  obtain h s busy' free' where r: "pf_scheduler_remove_if_running (resend_timeout (apmx_at p n)) (al_sched n) = Some (h, s)"
    "timers_ok base s busy' free'" by (rule remove_laterE [OF t(1)])
  have "al_timers (n\<lparr>al_sched := s\<rparr>)" using r(2) t(2) unfolding al_timers_def by auto
  then have "proceeds n (n\<lparr>al_sched := s\<rparr>)" by (simp add: proceeds_def)
  then have "proceeds n (upd_apmx p (\<lambda>x. x\<lparr>resend_timeout := h, ax_p_ar := None, apms_state := PF_APMS_STATE_CLOSED\<rparr>)
      (n\<lparr>al_sched := s\<rparr>))"
    using assms(1) by (intro proceeds_trans [OF _ proceeds_apmx]) simp_all
  then show ?thesis using that r(1) by (cases "apms_state (apmx_at p n) = PF_APMS_STATE_CLOSED") (simp_all add: close_apms_def)
qed

lemma close_one_proceeds:
  assumes "valid (a, ix) n" "al_timers n"
  obtains m where "close_one a ix n = Some m" "proceeds n m"
proof -
  obtain m where m: "close_apms (a, ix) n = Some m" "proceeds n m" using close_apms_proceeds [OF assms] .
  have v: "valid (a, ix) m" using m(2) assms(1) by (simp add: proceeds_def)
  have f: "proceeds m (free_rta (a, ix) m)" using v by simp
  have "proceeds (free_rta (a, ix) m) (close_apmr (a, ix) (free_rta (a, ix) m))"
    using v by (auto simp: close_apmr_def Let_def split: prod.split intro!: proceeds_trans [OF proceeds_emit proceeds_apmx])
  then show ?thesis using that m f by (auto simp: close_one_def intro: proceeds_trans)
qed

lemma close_all_proceeds:
  assumes "\<And>i. i \<in> set is \<Longrightarrow> valid (a, i) n" "al_timers n"
  obtains m where "for_creps (close_one a) is n = Some m" "proceeds n m"
  using assms
proof (induction "is" arbitrary: n thesis)
  case Nil
  then show ?case by simp
next
  case (Cons i js)
  obtain k where k: "close_one a i n = Some k" "proceeds n k" using close_one_proceeds [of a i n] Cons.prems(2,3) by auto
  obtain m where "for_creps (close_one a) js k = Some m" "proceeds k m"
    using Cons.IH [of k] Cons.prems(2,3) k(2) by (auto simp: proceeds_def)
  then show ?case using Cons.prems(1) k proceeds_trans by auto
qed

text \<open>The APMX of an AR are all activated.\<close>

definition alarms_linked :: "nat \<Rightarrow> alarm_net \<Rightarrow> bool" where
  "alarms_linked a n \<longleftrightarrow> length (apmxs (al_ar a n)) = 2 \<and> linked (a, 0) n \<and> linked (a, 1) n"

lemma alarms_linkedD:
  assumes "alarms_linked a n"
  shows "linked (a, 0) n" "linked (a, 1) n" "valid (a, 0) n" "valid (a, 1) n" "a < length (al_ars n)"
    "length (apmxs (al_ar a n)) = 2"
  using assms linkedD(1) [of "(a, 0)" n] linkedD(1) [of "(a, 1)" n] by (auto simp: alarms_linked_def valid_def)

lemma apmx_close_proceeds:
  assumes "alarms_linked a n" "al_timers n"
  obtains m where "pf_alarm_apmx_close a code n = Some m" "proceeds n m"
proof -
  note l = alarms_linkedD [OF assms(1)]
  let ?x = "apmx_at (a, 0) n"
  let ?n1 = "if apms_state ?x \<noteq> PF_APMS_STATE_CLOSED then snd (sent (a, 0)
    (alarm_fixed ?x PF_RTA_PDU_TYPE_ERR False (send_seq_count ?x)) zero_alarm_data 0 (Some (close_status code)) n) else n"
  let ?n2 = "mark_endpoint a (\<lambda>e. e\<lparr>ep_active := False\<rparr>) ?n1"
  let ?n3 = "if no_active_endpoint ?n2 then al_emit [Frame_id_map_remove PF_FRAME_ID_ALARM_HIGH,
    Frame_id_map_remove PF_FRAME_ID_ALARM_LOW] ?n2 else ?n2"
  have p: "proceeds n ?n3"
    using l by (auto intro: proceeds_trans [OF proceeds_trans [OF _ proceeds_mark] proceeds_emit]
        proceeds_trans [OF _ proceeds_mark])
  then have "length (apmxs (al_ar a ?n3)) = 2" "valid (a, i) ?n3 = valid (a, i) n" "al_timers ?n3" for i
    using l assms(2) by (auto simp: proceeds_def)
  moreover have "valid (a, i) n" if "i \<in> set [0 ..< 2]" for i
    using that l by (auto simp: less_2_cases_iff)
  ultimately obtain m where m: "for_creps (close_one a) [0 ..< length (apmxs (al_ar a ?n3))] ?n3 = Some m" "proceeds ?n3 m"
    using close_all_proceeds [of "[0 ..< 2]" a ?n3] by metis
  have "(if apms_state ?x \<noteq> PF_APMS_STATE_CLOSED
      then map_option snd (pf_alarm_apms_a_data_req (a, 0)
        (alarm_fixed ?x PF_RTA_PDU_TYPE_ERR False (send_seq_count ?x)) zero_alarm_data 0 (Some (close_status code)) n)
      else Some n) = Some ?n1"
    using a_data_req_eq [OF l(1)] by simp
  then have "pf_alarm_apmx_close a code n = Some m"
    unfolding pf_alarm_apmx_close_def Let_def by (simp only: bind.simps m(1))
  then show ?thesis using that proceeds_trans [OF p m(2)] by blast
qed

lemma linked_upd_al:
  assumes "a < length (al_ars n)" "\<And>r. apmxs (f r) = apmxs r" "\<And>r. length (alpmxs (f r)) = length (alpmxs r)"
  shows "linked p (upd_al a f n) = linked p n"
  using assms by (auto simp: linked_def valid_def apmx_at_def al_ar_upd_al)

lemma linked_emit_al [simp]: "alarms_linked a (al_emit os n) = alarms_linked a n"
  by (simp add: alarms_linked_def)

lemma al_timers_kept [simp]: "al_timers (al_emit os n) = al_timers n" "al_timers (upd_al a f n) = al_timers n"
  "al_timers (upd_apmx p g n) = al_timers n" "al_timers (upd_alpmx p h n) = al_timers n"
  by (simp_all add: al_timers_def)

lemma close_proceeds:
  assumes "alarms_linked a n" "al_timers n"
  obtains m where "pf_alarm_close a n = Some m" "proceeds n m"
proof -
  note l = alarms_linkedD [OF assms(1)]
  let ?n1 = "upd_al a (\<lambda>r. r\<lparr>alarm_send_q := map close_send_q (alarm_send_q r)\<rparr>) n"
  let ?n2 = "pf_alarm_alpmx_close a ?n1"
  have 1: "proceeds n ?n1" "linked p ?n1 = linked p n" for p
    using l by (simp_all add: proceeds_al linked_upd_al)
  have 2: "proceeds ?n1 ?n2" "linked p ?n2 = linked p ?n1" for p
    unfolding pf_alarm_alpmx_close_def using l by (simp_all add: proceeds_al linked_upd_al)
  have "length (apmxs (al_ar a ?n2)) = 2" using 1(1) 2(1) l by (simp add: proceeds_def)
  then have "alarms_linked a ?n2" using 1(2) 2(2) l by (simp add: alarms_linked_def)
  moreover have "al_timers ?n2" using 1(1) 2(1) assms(2) by (simp add: proceeds_def)
  ultimately obtain m where "pf_alarm_apmx_close a (al_err_code (al_ar a ?n2)) ?n2 = Some m" "proceeds ?n2 m"
    by (rule apmx_close_proceeds)
  then show ?thesis using that 1(1) 2(1) by (auto simp: pf_alarm_close_def Let_def intro: proceeds_trans)
qed

text \<open>An abort: the application is told, and the AR is zeroed.\<close>

lemma abort_zeroes:
  assumes "alarms_linked a n" "al_timers n" "al_in_use (al_ar a n)"
  obtains m os where "al_abort a n = Some m" "al_ar a m = zero_alarm_ar" "al_outs m = al_outs n @ Fspm_state_abort a # os"
    "length (al_ars m) = length (al_ars n)" "al_timers m"
proof -
  let ?n = "al_emit [Fspm_state_abort a] n"
  note l = alarms_linkedD [OF assms(1)]
  obtain c where c: "pf_alarm_close a ?n = Some c" "proceeds ?n c" using close_proceeds [of a ?n] assms by auto
  let ?started = "al_cmsu (al_ar a ?n) = PF_CMSU_STATE_STARTUP \<or> al_cmsu (al_ar a ?n) = PF_CMSU_STATE_RUN"
  define k where "k = (if ?started then upd_al a (al_cmsu_update (\<lambda>_. PF_CMSU_STATE_IDLE)) (pf_alarm_free_endpoint a c) else ?n)"
  have "a < length (al_ars c)" using c(2) l by (simp add: proceeds_def)
  then have k: "proceeds ?n k"
    unfolding k_def pf_alarm_free_endpoint_def
    by (auto intro!: proceeds_trans [OF proceeds_trans [OF c(2) proceeds_mark] proceeds_al])
  have "al_in_use (al_ar a k)" "length (al_ars k) = length (al_ars n)" "al_timers k"
    using k assms by (simp_all add: proceeds_def)
  moreover have "al_abort a n = Some (upd_al a (\<lambda>_. zero_alarm_ar) k)"
    using c(1) \<open>al_in_use (al_ar a k)\<close> assms(3) by (cases ?started) (simp_all add: al_abort_def Let_def k_def)
  moreover obtain os where "al_outs k = al_outs n @ Fspm_state_abort a # os" using k by (auto simp: proceeds_def)
  ultimately show ?thesis using that l by (simp add: al_ar_upd_al)
qed

lemma alarms_linked_err [simp]: "a < length (al_ars n) \<Longrightarrow> alarms_linked b (set_err a c d n) = alarms_linked b n"
  by (simp add: alarms_linked_def set_err_def linked_upd_al al_ar_upd_al)

lemma error_of_ar_zeroes:
  assumes "alarms_linked a n" "al_timers n" "al_in_use (al_ar a n)" "ix < 2"
  obtains m os where "error_of_ar (a, ix) cls code n = Some m" "al_ar a m = zero_alarm_ar"
    "al_outs m = al_outs n @ Fspm_state_abort a # os" "length (al_ars m) = length (al_ars n)" "al_timers m"
proof -
  note l = alarms_linkedD [OF assms(1)]
  let ?n = "set_err a cls code n" and ?m = "set_err a cls code (set_err a cls code n)"
  have "linked (a, ix) n" using assms(4) l by (auto simp: less_2_cases_iff)
  then have "linked (a, ix) ?n" using l by (simp add: set_err_def linked_upd_al)
  then have p: "ax_p_ar (apmx_at (a, ix) ?n) = Some a" "ax_p_ar (apmx_at (a, ix) n) = Some a"
    using \<open>linked (a, ix) n\<close> linkedD(2) by fastforce+
  have "al_err_cls (al_ar a ?n) = cls" "al_err_code (al_ar a ?n) = code" using l by (simp_all add: set_err_def al_ar_upd_al)
  then have "error_of_ar (a, ix) cls code n = al_abort a ?m"
    using p by (simp add: error_of_ar_def pf_alarm_error_ind_def Let_def)
  moreover have "alarms_linked a ?m" "al_timers ?m" "al_in_use (al_ar a ?m)" "al_outs ?m = al_outs n" "length (al_ars ?m) = length (al_ars n)"
    using assms l by (simp_all add: set_err_def al_ar_upd_al alarms_linked_def linked_upd_al)
  ultimately show ?thesis using that abort_zeroes [of a ?m] by metis
qed

subsection \<open>Sending while the sender waits\<close>

lemma apmx_zero [simp]: "al_ar a m = zero_alarm_ar \<Longrightarrow> ix < 2 \<Longrightarrow> apmx_at (a, ix) m = zero_apmx"
  by (simp add: apmx_at_def zero_alarm_ar_def)

lemma data_req_waiting:
  assumes "alarms_linked a n" "al_timers n" "al_in_use (al_ar a n)" "ix < 2" "apms_state (apmx_at (a, ix) n) \<noteq> PF_APMS_STATE_OPEN"
  shows "pf_alarm_apms_apms_a_data_req (a, ix) d ms st n = None"
proof -
  have "linked (a, ix) n" using assms(4) alarms_linkedD [OF assms(1)] by (auto simp: less_2_cases_iff)
  moreover obtain m where "error_of_ar (a, ix) PNET_ERROR_CODE_1_ALPMI PNET_ERROR_CODE_2_ALPMI_INVALID n = Some m"
    "al_ar a m = zero_alarm_ar" by (rule error_of_ar_zeroes [OF assms(1-4)])
  ultimately show ?thesis
    using assms(4,5) linkedD(3) by (simp add: pf_alarm_apms_apms_a_data_req_def pf_alarm_alpmi_apms_a_data_cnf_def
        pf_alarm_alpmr_apms_a_data_cnf_def zero_apmx_def)
qed

lemma alarms_linked_quiet:
  assumes "valid p n"
  shows "alarms_linked a (upd_alpmx p f n) = alarms_linked a n"
  using assms by (simp add: alarms_linked_def)

text \<open>A change of the send queues only.\<close>

lemma send_q_upd [simp]:
  assumes "a < length (al_ars n)"
  shows "apmx_at p (upd_al a (\<lambda>r. r\<lparr>alarm_send_q := g r\<rparr>) n) = apmx_at p n"
    "alpmx_at p (upd_al a (\<lambda>r. r\<lparr>alarm_send_q := g r\<rparr>) n) = alpmx_at p n"
    "alarms_linked b (upd_al a (\<lambda>r. r\<lparr>alarm_send_q := g r\<rparr>) n) = alarms_linked b n"
    "al_in_use (al_ar b (upd_al a (\<lambda>r. r\<lparr>alarm_send_q := g r\<rparr>) n)) = al_in_use (al_ar b n)"
    "al_enable (al_ar b (upd_al a (\<lambda>r. r\<lparr>alarm_send_q := g r\<rparr>) n)) = al_enable (al_ar b n)"
  using assms by (auto simp: apmx_at_def alpmx_at_def al_ar_upd_al alarms_linked_def linked_upd_al)

text \<open>While the device's acknowledgement of an alarm waits for its transport acknowledgement, an
  alarm of the application that leaves the send queue cannot be sent: the code aborts the AR, which
  zeroes it, and then follows the zeroed pointer to the protocol machine (no defined result).\<close>

theorem alarm_while_ack_waits:
  assumes "alarms_linked a n" "al_timers n" "al_in_use (al_ar a n)" "global_alarm_enable n" "al_enable (al_ar a n)"
    and "alpmi_state (alpmx_at (a, 1) n) = PF_ALPMI_STATE_W_ALARM" "apms_state (apmx_at (a, 1) n) = PF_APMS_STATE_WTACK"
    and "pf_alarm_send_queue_fetch (alarm_send_q (al_ar a n) ! 1) = Some (d, q)"
  shows "pf_alarm_almpi_periodic a n = None"
proof -
  let ?n = "upd_al a (\<lambda>r. r\<lparr>alarm_send_q := (alarm_send_q r)[1 := q]\<rparr>) n"
  note l = alarms_linkedD [OF assms(1)]
  note at = send_q_upd(1,2) [OF l(5)]
  have lk: "alarms_linked a ?n" using assms(1) l by simp
  then have v: "valid (a, 1) ?n" using alarms_linkedD(4) by blast
  then have "alarms_linked a (next_sequence (a, 1) ?n)" "al_timers (next_sequence (a, 1) ?n)"
    "al_in_use (al_ar a (next_sequence (a, 1) ?n))" "apms_state (apmx_at (a, 1) (next_sequence (a, 1) ?n)) \<noteq> PF_APMS_STATE_OPEN"
    using lk assms(2,3,7) l by (simp_all add: next_sequence_def alarms_linked_quiet al_ar_upd_al at del: One_nat_def)
  note none = data_req_waiting [OF this(1-3) _ this(4), of d' ms st for d' ms st]
  have p: "ax_p_alpmx (apmx_at (a, 1) n) = Some (a, 1)" using l(2) by (rule linkedD)
  have "pf_alarm_send_internal a (a, 1) d ?n = None"
    by (cases "pf_alarm_get_diag_summary a None ?n d")
      (simp_all add: pf_alarm_send_internal_def at p none case_prod_beta Let_def del: One_nat_def)
  then have "send_prio a 1 n = None"
    using p assms(6,8) by (simp add: send_prio_def del: One_nat_def)
  then show ?thesis using assms(5) by (simp add: pf_alarm_almpi_periodic_def del: One_nat_def)
qed

subsection \<open>Retransmission\<close>

text \<open>
  The resend timer of an APMX, run by the scheduler: nothing happens unless it is started. The callbacks of
  other components are not run here.
\<close>

definition alarm_call ::
    "alarm_cb \<Rightarrow> apmx_ptr \<Rightarrow> u32 \<Rightarrow> (alarm_cb, apmx_ptr) sched \<times> alarm_net \<Rightarrow> ((alarm_cb, apmx_ptr) sched \<times> alarm_net) option" where
  "alarm_call f p now sn = (case f of
     Apms_timeout \<Rightarrow> do { n \<leftarrow> pf_alarm_apms_timeout p ((snd sn)\<lparr>al_sched := fst sn\<rparr>); Some (al_sched n, n) }
   | Other_timer \<Rightarrow> None)"

definition resend_expires :: "apmx_ptr \<Rightarrow> alarm_net \<Rightarrow> alarm_net option" where
  "resend_expires p n = map_option snd (expires alarm_call (al_clock n) (resend_timeout (apmx_at p n)) (al_sched n, n))"

text \<open>It expires several times, with nothing else in between.\<close>

fun timeouts_of :: "nat \<Rightarrow> apmx_ptr \<Rightarrow> alarm_net \<Rightarrow> alarm_net option" where
  "timeouts_of 0 p n = Some n"
| "timeouts_of (Suc k) p n = do { n \<leftarrow> resend_expires p n; timeouts_of k p n }"

text \<open>The resend timer of \<open>p\<close> runs, until \<open>t\<close>.\<close>

definition resend_runs :: "apmx_ptr \<Rightarrow> u32 \<Rightarrow> alarm_net \<Rightarrow> bool" where
  "resend_runs p t n \<longleftrightarrow> handle_runs (resend_timeout (apmx_at p n)) (al_sched n) \<and>
     timer_of (resend_timeout (apmx_at p n)) (al_sched n) = (Apms_timeout, p, t)"

lemma resend_expires_eq:
  assumes "resend_runs p t n" "al_timers n"
  obtains s where "al_timers (n\<lparr>al_sched := s\<rparr>)" "tick_interval s = tick_interval (al_sched n)"
    "\<exists>busy free base now. timers_ok base s busy free \<and> clock_ok base now (al_clock n) \<and> free \<noteq> []"
    "resend_expires p n = pf_alarm_apms_timeout p (n\<lparr>al_sched := s\<rparr>)"
proof -
  obtain base now busy free where t: "timers_ok base (al_sched n) busy free" "clock_ok base now (al_clock n)"
    using assms(2) by (auto simp: al_timers_def)
  have r: "handle_runs (resend_timeout (apmx_at p n)) (al_sched n)"
    "timer_of (resend_timeout (apmx_at p n)) (al_sched n) = (Apms_timeout, p, t)"
    using assms(1) by (simp_all add: resend_runs_def)
  obtain s busy' free' where s: "timers_ok base s busy' free'" "free' \<noteq> []" "tick_interval s = tick_interval (al_sched n)"
    "expires alarm_call (al_clock n) (resend_timeout (apmx_at p n)) (al_sched n, n) =
       alarm_call Apms_timeout p (al_clock n) (s, n)"
    using expires_running [OF r(1) t(1), of alarm_call "al_clock n" n] unfolding r(2) fst_conv snd_conv by blast
  have e: "resend_expires p n = pf_alarm_apms_timeout p (n\<lparr>al_sched := s\<rparr>)"
    unfolding resend_expires_def s(4)
    by (cases "pf_alarm_apms_timeout p (n\<lparr>al_sched := s\<rparr>)") (simp_all add: alarm_call_def)
  have "al_timers (n\<lparr>al_sched := s\<rparr>)" using s(1) t(2) unfolding al_timers_def by auto
  then show ?thesis by (rule that [OF _ s(3) _ e]) (use s(1,2) t(2) in blast)
qed

text \<open>An APMX that waits for the acknowledgement of \<open>frame\<close>, with \<open>k\<close> retransmissions left.\<close>

definition waits :: "apmx_ptr \<Rightarrow> u8 list \<Rightarrow> nat \<Rightarrow> alarm_net \<Rightarrow> bool" where
  "waits p frame k n \<longleftrightarrow> snd p < 2 \<and> alarms_linked (fst p) n \<and> al_timers n \<and> al_in_use (al_ar (fst p) n) \<and>
     \<not> acr_transport_udp (alarm_cr_request (al_ar (fst p) n)) \<and> apms_state (apmx_at p n) = PF_APMS_STATE_WTACK \<and>
     p_rta (apmx_at p n) = Some frame \<and> unat (resend_counter (apmx_at p n)) = k \<and> (\<exists>t. resend_runs p t n)"

lemma start_resend_runs:
  assumes "timers_ok base (al_sched n) busy free" "free \<noteq> []" "clock_ok base now (al_clock n)"
  obtains r h s d where "start_resend p n = Some (r, upd_apmx p (resend_timeout_update (\<lambda>_. h)) (n\<lparr>al_sched := s\<rparr>))"
    "al_timers (n\<lparr>al_sched := s\<rparr>)" "handle_runs h s" "timer_of h s = (Apms_timeout, p, al_clock n + d)"
    "pf_scheduler_sanitize_delay (timeout_us (apmx_at p n)) (tick_interval (al_sched n)) True = Some d"
    "tick_interval s = tick_interval (al_sched n)"
proof -
  obtain h s busy' d where a: "pf_scheduler_add (al_clock n) (timeout_us (apmx_at p n)) Apms_timeout p
      (resend_timeout (apmx_at p n)) (al_sched n) = Some (0, h, s)" "timers_ok base s busy' (tl free)"
    "handle_runs h s" "timer_of h s = (Apms_timeout, p, al_clock n + d)"
    "pf_scheduler_sanitize_delay (timeout_us (apmx_at p n)) (tick_interval (al_sched n)) True = Some d"
    "tick_interval s = tick_interval (al_sched n)"
    by (rule add_runs [OF assms])
  have "al_timers (n\<lparr>al_sched := s\<rparr>)" using a(2) assms(3) unfolding al_timers_def by auto
  then show ?thesis using that [OF _ _ a(3-6)] a(1) by (simp add: start_resend_def)
qed

lemma alarms_linked_apmx:
  "valid p n \<Longrightarrow> (\<And>x. ax_p_ar (f x) = ax_p_ar x) \<Longrightarrow> (\<And>x. ax_p_alpmx (f x) = ax_p_alpmx x) \<Longrightarrow>
   alarms_linked a (upd_apmx p f n) = alarms_linked a n"
  by (simp add: alarms_linked_def linked_apmx)

lemma alarms_linked_sched [simp]: "alarms_linked a (n\<lparr>al_sched := s\<rparr>) = alarms_linked a n"
  by (simp add: alarms_linked_def)

lemma waits_linked: "waits p f k n \<Longrightarrow> linked p n \<and> valid p n"
  using alarms_linkedD [of "fst p" n] by (cases p) (auto simp: waits_def less_2_cases_iff)

text \<open>What the retransmissions keep: the clock and the interval of the resend timer.\<close>

abbreviation (input) resend_delay :: "apmx_ptr \<Rightarrow> alarm_net \<Rightarrow> u32 option" where
  "resend_delay p n \<equiv> pf_scheduler_sanitize_delay (timeout_us (apmx_at p n)) (tick_interval (al_sched n)) True"

lemma timeout_resends:
  assumes "waits p frame (Suc k) n"
  obtains m d where "resend_expires p n = Some m" "waits p frame k m" "al_outs m = al_outs n @ [Eth_send frame]"
    "resend_delay p n = Some d" "resend_runs p (al_clock n + d) m" "al_clock m = al_clock n" "resend_delay p m = resend_delay p n"
proof -
  have l: "linked p n" "valid p n" using waits_linked [OF assms] by auto
  obtain t where t: "resend_runs p t n" using assms by (auto simp: waits_def)
  have at: "al_timers n" using assms by (simp add: waits_def)
  obtain s0 base now busy free where s0: "tick_interval s0 = tick_interval (al_sched n)" "timers_ok base s0 busy free"
    "clock_ok base now (al_clock n)" "free \<noteq> []" "resend_expires p n = pf_alarm_apms_timeout p (n\<lparr>al_sched := s0\<rparr>)"
    by (rule resend_expires_eq [OF t at]) blast
  let ?n0 = "n\<lparr>al_sched := s0\<rparr>"
  let ?n1 = "upd_apmx p (\<lambda>x. x\<lparr>resend_counter := resend_counter x - 1\<rparr>)
    (upd_apmx p (\<lambda>x. x\<lparr>resend_timeout := pf_scheduler_reset_handle (resend_timeout x)\<rparr>) ?n0)"
  let ?n2 = "al_emit [Eth_send frame] ?n1"
  have "resend_counter (apmx_at p n) \<noteq> 0" using assms by (auto simp: waits_def)
  then have c: "resend_counter (apmx_at p n) > 0" "unat (resend_counter (apmx_at p n) - 1) = k"
    using assms by (simp_all add: waits_def word_gt_0 unat_minus_one)
  have "timers_ok base (al_sched ?n2) busy free" "clock_ok base now (al_clock ?n2)" using s0 by simp_all
  note start = start_resend_runs [OF this(1) s0(4) this(2), of p]
  obtain r h s d where r: "start_resend p ?n2 = Some (r, upd_apmx p (resend_timeout_update (\<lambda>_. h)) (?n2\<lparr>al_sched := s\<rparr>))"
    "al_timers (?n2\<lparr>al_sched := s\<rparr>)" "handle_runs h s" "timer_of h s = (Apms_timeout, p, al_clock n + d)"
    "resend_delay p n = Some d" "tick_interval s = tick_interval (al_sched n)"
    by (rule start) (use l s0(1) in simp_all)
  let ?m = "upd_apmx p (resend_timeout_update (\<lambda>_. h)) (?n2\<lparr>al_sched := s\<rparr>)"
  have runs: "resend_runs p (al_clock n + d) ?m" using l r(3,4) by (simp add: resend_runs_def)
  have "resend_expires p n = Some ?m"
    using assms l c(1) linkedD [OF l(1)] r(1) by (simp add: s0(5) pf_alarm_apms_timeout_def waits_def)
  moreover have "waits p frame k ?m"
    using assms l c r(2) runs by (auto simp: waits_def alarms_linked_apmx)
  ultimately show ?thesis using that [OF _ _ _ r(5) runs] r(6) l by simp
qed

lemma timeouts_resend:
  "waits p frame k n \<Longrightarrow> \<exists>m. timeouts_of k p n = Some m \<and> waits p frame 0 m \<and>
     al_outs m = al_outs n @ replicate k (Eth_send frame)"
proof (induction k arbitrary: n)
  case (Suc k)
  obtain m where m: "resend_expires p n = Some m" "waits p frame k m" "al_outs m = al_outs n @ [Eth_send frame]"
    by (rule timeout_resends [OF Suc.prems])
  with Suc.IH [OF m(2)] show ?case by (auto simp: replicate_app_Cons_same)
qed simp

lemma timeouts_restart:
  "waits p frame k n \<Longrightarrow> j < k \<Longrightarrow> \<exists>m d. timeouts_of (Suc j) p n = Some m \<and> resend_delay p n = Some d \<and>
     resend_runs p (al_clock n + d) m"
proof (induction j arbitrary: n k)
  case 0
  obtain m d where "resend_expires p n = Some m" "resend_delay p n = Some d" "resend_runs p (al_clock n + d) m"
    by (rule timeout_resends [of p frame "k - 1" n]) (use 0 in simp_all)
  then show ?case by simp
next
  case (Suc j)
  obtain m where m: "resend_expires p n = Some m" "waits p frame (k - 1) m" "al_clock m = al_clock n"
    "resend_delay p m = resend_delay p n"
    by (rule timeout_resends [of p frame "k - 1" n]) (use Suc.prems in simp_all)
  have "j < k - 1" using Suc.prems(2) by simp
  from Suc.IH [OF m(2) this] show ?case unfolding m(3,4) by (subst timeouts_of.simps(2)) (simp add: m(1))
qed

text \<open>C20: Without an acknowledgement an alarm frame is sent again on Ethernet, byte for byte the same,
  exactly as often as the retry counter says: each expiration of the resend timer, except for the last,
  sends it and starts the timer again for the same APMX, with the timeout of the AR; without that start the
  timer would not expire again. The next expiration aborts the AR, of which the application is told and which
  is zeroed. Alarms over UDP are left out: there the code sends nothing.\<close>

theorem retransmission_bounded:
  assumes "waits (a, ix) frame k n"
  shows "\<exists>m m' os. timeouts_of k (a, ix) n = Some m \<and> al_outs m = al_outs n @ replicate k (Eth_send frame) \<and>
    (\<forall>j < k. \<exists>y d. timeouts_of (Suc j) (a, ix) n = Some y \<and>
      pf_scheduler_sanitize_delay (timeout_us (apmx_at (a, ix) n)) (tick_interval (al_sched n)) True = Some d \<and>
      resend_runs (a, ix) (al_clock n + d) y) \<and>
    resend_expires (a, ix) m = Some m' \<and> al_outs m' = al_outs m @ Fspm_state_abort a # os \<and>
    al_ar a m' = zero_alarm_ar"
proof -
  obtain m where m: "timeouts_of k (a, ix) n = Some m" "waits (a, ix) frame 0 m"
    "al_outs m = al_outs n @ replicate k (Eth_send frame)" using timeouts_resend [OF assms] by blast
  have l: "valid (a, ix) m" using waits_linked [OF m(2)] by blast
  obtain t where t: "resend_runs (a, ix) t m" "al_timers m" using m(2) by (auto simp: waits_def)
  obtain s where s: "al_timers (m\<lparr>al_sched := s\<rparr>)" "resend_expires (a, ix) m = pf_alarm_apms_timeout (a, ix) (m\<lparr>al_sched := s\<rparr>)"
    by (rule resend_expires_eq [OF t]) blast
  let ?n = "upd_apmx (a, ix) (apms_state_update (\<lambda>_. PF_APMS_STATE_OPEN))
    (upd_apmx (a, ix) (\<lambda>x. x\<lparr>resend_timeout := pf_scheduler_reset_handle (resend_timeout x)\<rparr>) (m\<lparr>al_sched := s\<rparr>))"
  have "alarms_linked a ?n" "al_timers ?n" "al_in_use (al_ar a ?n)" "ix < 2"
    using m(2) l s(1) by (simp_all add: waits_def alarms_linked_apmx)
  then obtain m' os where "error_of_ar (a, ix) PNET_ERROR_CODE_1_APMS PNET_ERROR_CODE_2_ABORT_AR_ALARM_SEND_CNF_NEG ?n = Some m'"
    "al_ar a m' = zero_alarm_ar" "al_outs m' = al_outs ?n @ Fspm_state_abort a # os" by (rule error_of_ar_zeroes)
  moreover have "resend_counter (apmx_at (a, ix) m) = 0" using m(2) by (simp add: waits_def unat_eq_0)
  ultimately have e: "resend_expires (a, ix) m = Some m' \<and> al_outs m' = al_outs m @ Fspm_state_abort a # os \<and>
      al_ar a m' = zero_alarm_ar"
    using m(2) l by (simp add: s(2) pf_alarm_apms_timeout_def waits_def)
  have "\<forall>j < k. \<exists>y d. timeouts_of (Suc j) (a, ix) n = Some y \<and> resend_delay (a, ix) n = Some d \<and>
      resend_runs (a, ix) (al_clock n + d) y"
    using timeouts_restart [OF assms] by blast
  then show ?thesis using m(1,3) e by blast
qed

subsection \<open>Examples\<close>

lemma example_linked:
  "alarms_linked 0 example_station" "al_timers example_station" "al_in_use (al_ar 0 example_station)"
  "al_enable (al_ar 0 example_station)" "\<not> acr_transport_udp (alarm_cr_request (al_ar 0 example_station))"
proof -
  show "alarms_linked 0 example_station"
    using example_opened(1) by (simp add: opened_ar_def opened_def alarms_linked_def linked_def valid_def)
  obtain s where s: "pf_scheduler_init 1000 0 Other_timer (0 :: nat, 0 :: nat) = Some s" "timers_ok 0 s [] [0 ..< PF_MAX_TIMEOUTS]"
    using timers_ok_init [of 1000 0 Other_timer "(0 :: nat, 0 :: nat)" 0] by (auto simp: PF_SCHEDULER_MAX_DELAY_US_def)
  have "clock_ok 0 0 0" by (simp add: clock_ok_def)
  then show "al_timers example_station"
    using s unfolding al_timers_def by (auto simp: example_stopped_def pf_alarm_init_def)
  show "al_in_use (al_ar 0 example_station)" "al_enable (al_ar 0 example_station)"
    "\<not> acr_transport_udp (alarm_cr_request (al_ar 0 example_station))"
    using example_opened(2) by (simp_all add: ar_params_def example_alarm_ar_def zero_alarm_ar_def zero_cr_request_def)
qed

text \<open>The example while it waits for an acknowledgement, with its resend timer started.\<close>

definition example_sent :: alarm_net where
  "example_sent = upd_apmx (0, 1) (\<lambda>x. x\<lparr>apms_state := PF_APMS_STATE_WTACK, p_rta := Some [1, 2, 3], resend_counter := 3\<rparr>)
     example_station"

definition example_waiting :: alarm_net where
  "example_waiting = snd (the (start_resend (0, 1) example_sent))"

lemma example_timers_free: "timers_ok 0 (al_sched example_station) [] [0 ..< PF_MAX_TIMEOUTS]" "clock_ok 0 0 (al_clock example_station)"
proof -
  obtain s where s: "pf_scheduler_init 1000 0 Other_timer (0 :: nat, 0 :: nat) = Some s" "timers_ok 0 s [] [0 ..< PF_MAX_TIMEOUTS]"
    using timers_ok_init [of 1000 0 Other_timer "(0 :: nat, 0 :: nat)" 0] by (auto simp: PF_SCHEDULER_MAX_DELAY_US_def)
  then show "timers_ok 0 (al_sched example_station) [] [0 ..< PF_MAX_TIMEOUTS]" "clock_ok 0 0 (al_clock example_station)"
    by (simp_all add: example_stopped_def pf_alarm_init_def clock_ok_def)
qed

lemma example_waiting:
  obtains h s where "example_waiting = upd_apmx (0, 1) (resend_timeout_update (\<lambda>_. h)) (example_sent\<lparr>al_sched := s\<rparr>)"
    "al_timers (example_sent\<lparr>al_sched := s\<rparr>)" "handle_runs h s" "\<exists>t. timer_of h s = (Apms_timeout, (0, 1), t)"
proof -
  have v: "valid (0, 1) example_station" using alarms_linkedD(4) [OF example_linked(1)] .
  have "timers_ok 0 (al_sched example_sent) [] [0 ..< PF_MAX_TIMEOUTS]" "clock_ok 0 0 (al_clock example_sent)"
    using example_timers_free v by (simp_all add: example_sent_def)
  note start = start_resend_runs [OF this(1) _ this(2), of "(0, 1)"]
  obtain r h s d where "start_resend (0, 1) example_sent = Some (r, upd_apmx (0, 1) (resend_timeout_update (\<lambda>_. h)) (example_sent\<lparr>al_sched := s\<rparr>))"
    "al_timers (example_sent\<lparr>al_sched := s\<rparr>)" "handle_runs h s" "timer_of h s = (Apms_timeout, (0, 1), al_clock example_sent + d)"
    by (rule start) (simp add: PF_MAX_TIMEOUTS_def)
  then show ?thesis using that [of h s] by (simp add: example_waiting_def)
qed

lemma example_waits: "waits (0, 1) [1, 2, 3] 3 example_waiting"
proof -
  have v: "valid (0, 1) example_station" using alarms_linkedD(4) [OF example_linked(1)] .
  obtain h s where w: "example_waiting = upd_apmx (0, 1) (resend_timeout_update (\<lambda>_. h)) (example_sent\<lparr>al_sched := s\<rparr>)"
    "al_timers (example_sent\<lparr>al_sched := s\<rparr>)" "handle_runs h s" "\<exists>t. timer_of h s = (Apms_timeout, (0, 1), t)"
    by (rule example_waiting)
  show ?thesis
    unfolding w(1) using w(2-4) example_linked v by (simp add: waits_def example_sent_def alarms_linked_apmx resend_runs_def)
qed

lemma retransmission_bounded_witness:
  "\<exists>m m' os. timeouts_of 3 (0, 1) example_waiting = Some m \<and>
     al_outs m = al_outs example_waiting @ replicate 3 (Eth_send [1, 2, 3]) \<and>
     resend_expires (0, 1) m = Some m' \<and> al_outs m' = al_outs m @ Fspm_state_abort 0 # os"
  using retransmission_bounded [OF example_waits] by blast

lemma alarm_while_ack_waits_witness:
  "pf_alarm_almpi_periodic 0 (snd (pf_alarm_send_process 0 0 1 1 (Some 50) (Some 305) 0x1000 3 (Some [1, 2, 3]) example_waiting)) = None"
proof -
  note w = example_waits [unfolded waits_def, simplified]
  have v: "valid (0, 1) example_station" "0 < length (al_ars example_station)" using alarms_linkedD [OF example_linked(1)] by auto
  define q where "q = alarm_send_q (al_ar 0 example_waiting) ! Suc 0"
  obtain h s where eq: "example_waiting = upd_apmx (0, 1) (resend_timeout_update (\<lambda>_. h)) (example_sent\<lparr>al_sched := s\<rparr>)"
    by (rule example_waiting)
  have q: "q_ok q" "q_contents q = []" "Suc 0 < length (alarm_send_q (al_ar 0 example_waiting))"
    and en: "global_alarm_enable example_waiting" "al_enable (al_ar 0 example_waiting)"
      "acr_max_alarm_data_length (alarm_cr_request (al_ar 0 example_waiting)) = 200"
      "alpmi_state (alpmx_at (0, Suc 0) example_waiting) = PF_ALPMI_STATE_W_ALARM" "0 < length (al_ars example_waiting)"
    using example_opened v example_linked(4) example_takes(6)
    by (simp_all add: opened_ar_def list_all_length eq example_sent_def q_def ar_params_def example_alarm_ar_def)
  obtain d where "snd (pf_alarm_send_process 0 0 1 1 (Some 50) (Some 305) 0x1000 3 (Some [1, 2, 3]) example_waiting) =
      upd_al 0 (\<lambda>r. r\<lparr>alarm_send_q := (alarm_send_q r)[Suc 0 := put_item d q]\<rparr>) example_waiting" (is "_ = ?n")
    using en send_queue_post [OF q(1)]
    by (simp add: pf_alarm_send_process_def pf_alarm_send_alarm_def PF_USI_CHANNEL_DIAGNOSIS_def PNET_MAX_ALARM_PAYLOAD_DATA_SIZE_def
        q_def [symmetric])
  moreover have "q_ok (put_item d q) \<and> q_contents (put_item d q) = [d]"
    using put_item_room [OF q(1), of d] q(2) length_q_contents [of q] by (simp add: PNET_MAX_ALARMS_def)
  moreover have "alarm_send_q (al_ar 0 ?n) ! Suc 0 = put_item d q" using q(3) en(5) by (simp add: al_ar_upd_al)
  ultimately show ?thesis
    using alarm_while_ack_waits [of 0 ?n d "take_item (\<lambda>x. x) (put_item d q)"] en w send_queue_fetch [of "put_item d q"]
    by simp
qed

end
