(* ===== verification/Eth_Frames.thy ===== *)
theory Eth_Frames
  imports Alarm_Send
begin

section \<open>Reception of Ethernet frames\<close>

text \<open>
  \<open>pf_eth_recv\<close> of \<open>common/pf_eth.c\<close> and the table that gives each frame ID its handler. A buffer
  \<open>pnal_buf\<close> has all bytes of its payload array and the number of bytes that are in use; reading or
  writing outside of the array is \<open>None\<close>. The type of the handlers and the state that they change are
  parameters. Positions in a frame are \<open>uint16_t\<close> in the code; an array has less than 65536 bytes.
\<close>

definition PNAL_ETHTYPE_LLDP :: u16 where "PNAL_ETHTYPE_LLDP = 0x88CC"
definition PF_ETH_MAX_MAP :: nat where "PF_ETH_MAX_MAP = PNET_MAX_API * PNET_MAX_AR * PNET_MAX_CR * 2 + 4 + 2"

record pnal_buf =
  buf_payload :: "u8 list"
  buf_len :: u16

definition peek :: "nat \<Rightarrow> nat \<Rightarrow> u8 list \<Rightarrow> u8 list option" where
  "peek pos n b = (if pos + n \<le> length b then Some (take n (drop pos b)) else None)"

definition poke :: "nat \<Rightarrow> u8 list \<Rightarrow> u8 list \<Rightarrow> u8 list option" where
  "poke pos xs b = (if pos + length xs \<le> length b then Some (overwrite pos xs b) else None)"

text \<open>\<open>ntohs\<close> of the two bytes at a position.\<close>

definition peek16 :: "nat \<Rightarrow> u8 list \<Rightarrow> u16 option" where
  "peek16 pos b = (if pos + 1 < length b then Some (push_bit 8 (ucast (b ! pos)) + ucast (b ! (pos + 1))) else None)"

lemma peek16_less: "peek16 pos b = Some w \<Longrightarrow> pos + 1 < length b"
  by (simp add: peek16_def split: if_splits)

subsection \<open>The table of frame IDs\<close>

record 'h frame_id_entry =
  fm_in_use :: bool
  fm_frame_id :: u16
  fm_handler :: 'h

definition find_frame_id :: "u16 \<Rightarrow> 'h frame_id_entry list \<Rightarrow> nat option" where
  "find_frame_id i m = find (\<lambda>ix. fm_in_use (m ! ix) \<and> fm_frame_id (m ! ix) = i) [0 ..< length m]"

definition pf_eth_frame_id_map_add :: "u16 \<Rightarrow> 'h \<Rightarrow> 'h frame_id_entry list \<Rightarrow> 'h frame_id_entry list" where
  "pf_eth_frame_id_map_add i h m = (case find (\<lambda>ix. \<not> fm_in_use (m ! ix)) [0 ..< length m] of
     None \<Rightarrow> m
   | Some ix \<Rightarrow> upd ix (\<lambda>e. e\<lparr>fm_frame_id := i, fm_handler := h, fm_in_use := True\<rparr>) m)"

definition pf_eth_frame_id_map_remove :: "u16 \<Rightarrow> 'h frame_id_entry list \<Rightarrow> 'h frame_id_entry list" where
  "pf_eth_frame_id_map_remove i m = (case find_frame_id i m of
     None \<Rightarrow> m
   | Some ix \<Rightarrow> upd ix (fm_in_use_update (\<lambda>_. False)) m)"

subsection \<open>A received frame\<close>

text \<open>The Ethertype behind all VLAN tags, and its position.\<close>

function skip_vlan :: "u8 list \<Rightarrow> nat \<Rightarrow> (nat \<times> u16) option" where
  "skip_vlan b pos = (case peek16 pos b of
     None \<Rightarrow> None
   | Some eth_type \<Rightarrow> if eth_type = PNAL_ETHTYPE_VLAN then skip_vlan b (pos + 4) else Some (pos, eth_type))"
  by pat_completeness auto
termination
  by (relation "measure (\<lambda>(b, pos). length b - pos)") (auto dest!: peek16_less)

declare skip_vlan.simps [simp del]

text \<open>\<open>handle\<close> runs a frame handler, \<open>lldp\<close> is \<open>pf_lldp_recv\<close> with the search for the port.\<close>

definition pf_eth_recv ::
    "('h \<Rightarrow> u16 \<Rightarrow> pnal_buf \<Rightarrow> nat \<Rightarrow> 's \<Rightarrow> (int \<times> 's) option) \<Rightarrow> (pnal_buf \<Rightarrow> nat \<Rightarrow> 's \<Rightarrow> (int \<times> 's) option) \<Rightarrow>
     'h frame_id_entry list \<Rightarrow> pnal_buf \<Rightarrow> 's \<Rightarrow> (int \<times> 's) option" where
  "pf_eth_recv handle lldp m buf s = do {
     (eth_type_pos, eth_type) \<leftarrow> skip_vlan (buf_payload buf) 12;
     let frame_pos = eth_type_pos + 2;
     if eth_type = PNAL_ETHTYPE_PROFINET then do {
       frame_id \<leftarrow> peek16 frame_pos (buf_payload buf);
       case find_frame_id frame_id m of
         Some ix \<Rightarrow> handle (fm_handler (m ! ix)) frame_id buf frame_pos s
       | None \<Rightarrow> Some (0, s)
     }
     else if eth_type = PNAL_ETHTYPE_LLDP then lldp buf frame_pos s
     else Some (0, s)
   }"

subsection \<open>The table as a map\<close>

text \<open>
  \<open>handler_of m\<close> is the map that \<open>m\<close> stands for. It is one when no frame ID is entered twice, which
  the code does not check.
\<close>

definition handler_of :: "'h frame_id_entry list \<Rightarrow> u16 \<Rightarrow> 'h option" where
  "handler_of m i = map_option (\<lambda>ix. fm_handler (m ! ix)) (find_frame_id i m)"

definition ids_distinct :: "'h frame_id_entry list \<Rightarrow> bool" where
  "ids_distinct m \<longleftrightarrow> (\<forall>i < length m. \<forall>j < length m. fm_in_use (m ! i) \<longrightarrow> fm_in_use (m ! j) \<longrightarrow>
     fm_frame_id (m ! i) = fm_frame_id (m ! j) \<longrightarrow> i = j)"

definition has_room :: "'h frame_id_entry list \<Rightarrow> bool" where
  "has_room m \<longleftrightarrow> (\<exists>ix < length m. \<not> fm_in_use (m ! ix))"

lemma find_uptD: "find P [0 ..< n] = Some i \<Longrightarrow> i < n \<and> P i \<and> (\<forall>j < i. \<not> P j)"
  by (auto simp: find_Some_iff)

lemma find_unique:
  assumes "i < n" "P i" "\<And>j. j < n \<Longrightarrow> P j \<Longrightarrow> j = i"
  shows "find P [0 ..< n] = Some i"
proof (cases "find P [0 ..< n]")
  case None
  then show ?thesis using assms(1,2) by (auto simp: find_None_iff)
next
  case (Some j)
  with find_uptD [OF Some] assms(3) [of j] show ?thesis by simp
qed

lemma handler_of_iff:
  assumes "ids_distinct m"
  shows "handler_of m i = Some h \<longleftrightarrow> (\<exists>ix < length m. fm_in_use (m ! ix) \<and> fm_frame_id (m ! ix) = i \<and> fm_handler (m ! ix) = h)"
proof
  assume "handler_of m i = Some h"
  then show "\<exists>ix < length m. fm_in_use (m ! ix) \<and> fm_frame_id (m ! ix) = i \<and> fm_handler (m ! ix) = h"
    by (auto simp: handler_of_def find_frame_id_def dest!: find_uptD)
next
  assume "\<exists>ix < length m. fm_in_use (m ! ix) \<and> fm_frame_id (m ! ix) = i \<and> fm_handler (m ! ix) = h"
  then obtain ix where ix: "ix < length m" "fm_in_use (m ! ix)" "fm_frame_id (m ! ix) = i" "fm_handler (m ! ix) = h" by blast
  have "find_frame_id i m = Some ix"
    unfolding find_frame_id_def by (rule find_unique) (use ix assms in \<open>auto simp: ids_distinct_def\<close>)
  then show "handler_of m i = Some h" by (simp add: handler_of_def ix)
qed

lemma handler_of_ext:
  assumes "\<And>i h. handler_of m i = Some h \<longleftrightarrow> f i = Some h"
  shows "handler_of m = f"
proof
  fix i
  show "handler_of m i = f i" using assms [of i "the (handler_of m i)"] assms [of i "the (f i)"]
    by (cases "handler_of m i"; cases "f i") simp_all
qed

lemma map_add_spec:
  assumes "ids_distinct m" "has_room m" "handler_of m i = None"
  shows "ids_distinct (pf_eth_frame_id_map_add i h m)"
    and "handler_of (pf_eth_frame_id_map_add i h m) = (handler_of m)(i \<mapsto> h)"
proof -
  obtain ix where f: "find (\<lambda>ix. \<not> fm_in_use (m ! ix)) [0 ..< length m] = Some ix"
    using assms(2) by (cases "find (\<lambda>ix. \<not> fm_in_use (m ! ix)) [0 ..< length m]") (auto simp: has_room_def find_None_iff)
  then have ix: "ix < length m" "\<not> fm_in_use (m ! ix)" by (auto dest: find_uptD)
  have no: "\<not> (fm_in_use (m ! k) \<and> fm_frame_id (m ! k) = i)" if "k < length m" for k
    using assms(3) handler_of_iff [OF assms(1), of i "fm_handler (m ! k)"] that by auto
  let ?m = "pf_eth_frame_id_map_add i h m"
  have e: "length ?m = length m" "\<And>k. k < length m \<Longrightarrow> ?m ! k =
      (if k = ix then (m ! ix)\<lparr>fm_frame_id := i, fm_handler := h, fm_in_use := True\<rparr> else m ! k)"
    using f ix by (auto simp: pf_eth_frame_id_map_add_def upd_def)
  have d: "j = k" if "j < length m" "k < length m" "fm_in_use (m ! j)" "fm_in_use (m ! k)"
      "fm_frame_id (m ! j) = fm_frame_id (m ! k)" for j k
    using assms(1) that by (simp add: ids_distinct_def)
  show "ids_distinct ?m" unfolding ids_distinct_def e(1)
    by (intro allI impI) (use d no in \<open>simp add: e(2) split: if_splits; blast\<close>)
  then show "handler_of ?m = (handler_of m)(i \<mapsto> h)"
    by (intro handler_of_ext) (use no ix in \<open>auto simp: handler_of_iff [OF assms(1)] handler_of_iff e split: if_splits\<close>)
qed

lemma map_remove_spec:
  assumes "ids_distinct m"
  shows "ids_distinct (pf_eth_frame_id_map_remove i m)"
    and "handler_of (pf_eth_frame_id_map_remove i m) = (handler_of m)(i := None)"
proof -
  let ?m = "pf_eth_frame_id_map_remove i m"
  have e: "length ?m = length m \<and> (\<forall>k < length m. ?m ! k =
      (if fm_in_use (m ! k) \<and> fm_frame_id (m ! k) = i then (m ! k)\<lparr>fm_in_use := False\<rparr> else m ! k))"
  proof (cases "find_frame_id i m")
    case None
    then have "\<not> (fm_in_use (m ! k) \<and> fm_frame_id (m ! k) = i)" if "k < length m" for k
      using that by (auto simp: find_frame_id_def find_None_iff)
    then show ?thesis by (auto simp: pf_eth_frame_id_map_remove_def None)
  next
    case (Some ix)
    then have ix: "ix < length m" "fm_in_use (m ! ix)" "fm_frame_id (m ! ix) = i"
      by (auto simp: find_frame_id_def dest: find_uptD)
    then have "?m = m[ix := (m ! ix)\<lparr>fm_in_use := False\<rparr>]" using Some by (simp add: pf_eth_frame_id_map_remove_def upd_def)
    then show ?thesis using ix assms by (auto simp: nth_list_update ids_distinct_def)
  qed
  then show d: "ids_distinct ?m" using assms unfolding ids_distinct_def by auto
  show "handler_of ?m = (handler_of m)(i := None)"
  proof (rule handler_of_ext)
    fix j k
    show "(handler_of ?m j = Some k) = (((handler_of m)(i := None)) j = Some k)"
      unfolding handler_of_iff [OF d] fun_upd_apply using e
      by (cases "j = i") (auto simp: handler_of_iff [OF assms], fastforce)
  qed
qed

text \<open>What the clients of the table rely on.\<close>

locale frame_table =
  fixes add :: "u16 \<Rightarrow> 'h \<Rightarrow> 't \<Rightarrow> 't" and remove :: "u16 \<Rightarrow> 't \<Rightarrow> 't"
    and handler :: "'t \<Rightarrow> u16 \<Rightarrow> 'h option" and ok room :: "'t \<Rightarrow> bool"
  assumes add_ok: "ok m \<Longrightarrow> room m \<Longrightarrow> handler m i = None \<Longrightarrow> ok (add i h m)"
    and add_handler: "ok m \<Longrightarrow> room m \<Longrightarrow> handler m i = None \<Longrightarrow> handler (add i h m) = (handler m)(i \<mapsto> h)"
    and remove_ok: "ok m \<Longrightarrow> ok (remove i m)"
    and remove_handler: "ok m \<Longrightarrow> handler (remove i m) = (handler m)(i := None)"
begin

lemma open_close:
  assumes "ok m" "room m" "handler m i = None"
  shows "handler (remove i (add i h m)) = handler m"
  using assms by (auto simp: add_ok add_handler remove_handler fun_eq_iff)

lemma others_kept:
  assumes "ok m" "j \<noteq> i"
  shows "handler (remove i m) j = handler m j"
    and "room m \<Longrightarrow> handler m i = None \<Longrightarrow> handler (add i h m) j = handler m j"
  using assms by (auto simp: add_handler remove_handler)

end

interpretation eth_map: frame_table pf_eth_frame_id_map_add pf_eth_frame_id_map_remove handler_of ids_distinct has_room
  by unfold_locales (auto simp: map_add_spec map_remove_spec)

subsection \<open>Frames that reach a handler\<close>

lemma recv_handler:
  assumes "skip_vlan (buf_payload b) 12 = Some (pos, PNAL_ETHTYPE_PROFINET)" "peek16 (pos + 2) (buf_payload b) = Some i"
    "handler_of m i = Some h"
  shows "pf_eth_recv handle lldp m b s = handle h i b (pos + 2) s"
  using assms by (auto simp: pf_eth_recv_def handler_of_def split: option.splits)

end
