(* ===== verification/Cyclic_State.thy ===== *)
theory Cyclic_State
  imports Eth_Frames
begin

section \<open>The state of cyclic data\<close>

text \<open>
  The part of \<open>pf_ar_t\<close>, \<open>pf_iocr_t\<close>, \<open>pf_ppm_t\<close>, \<open>pf_cpm_t\<close> and \<open>pnet_t\<close> that
  \<open>common/pf_ppm.c\<close>, \<open>common/pf_cpm.c\<close> and their software drivers use; and how CRs are closed, also
  by an abort of their AR. A pointer to a CR is the pair of the AR and its CREP. \<open>cy_outs\<close> records,
  oldest first, what is done outside. The result of an allocation and of sending is a function of the
  number of entries of \<open>cy_outs\<close>. Members that are only written or printed (\<open>errline\<close>, \<open>max_exec\<close>,
  \<open>rxa\<close>, \<open>new_data\<close> of \<open>pf_cpm_t\<close>) are left out.
\<close>

definition PNET_ERROR_CODE_2_CPM_INVALID_STATE :: u8 where "PNET_ERROR_CODE_2_CPM_INVALID_STATE = 0"
definition PNET_ERROR_CODE_2_PPM_INVALID_STATE :: u8 where "PNET_ERROR_CODE_2_PPM_INVALID_STATE = 0"
definition PNET_ERROR_CODE_2_ABORT_AR_CONSUMER_DHT_EXPIRED :: u8 where "PNET_ERROR_CODE_2_ABORT_AR_CONSUMER_DHT_EXPIRED = 5"
definition PNET_DATA_STATUS_BIT_STATE :: nat where "PNET_DATA_STATUS_BIT_STATE = 0"
definition PNET_DATA_STATUS_BIT_REDUNDANCY :: nat where "PNET_DATA_STATUS_BIT_REDUNDANCY = 1"
definition PNET_DATA_STATUS_BIT_DATA_VALID :: nat where "PNET_DATA_STATUS_BIT_DATA_VALID = 2"
definition PNET_DATA_STATUS_BIT_PROVIDER_STATE :: nat where "PNET_DATA_STATUS_BIT_PROVIDER_STATE = 4"
definition PNET_DATA_STATUS_BIT_STATION_PROBLEM_INDICATOR :: nat where "PNET_DATA_STATUS_BIT_STATION_PROBLEM_INDICATOR = 5"

datatype cpm_state = PF_CPM_STATE_W_START | PF_CPM_STATE_FRUN | PF_CPM_STATE_RUN
datatype ppm_state = PF_PPM_STATE_W_START | PF_PPM_STATE_RUN

text \<open>A pointer to a buffer: freeing does not set it to NULL.\<close>

datatype buf_ptr = Null_buf | Live_buf pnal_buf | Freed_buf

definition live :: "buf_ptr \<Rightarrow> pnal_buf option" where
  "live p = (case p of Live_buf b \<Rightarrow> Some b | _ \<Rightarrow> None)"

record cpm =
  cpm_state :: cpm_state
  cpm_errcnt :: u32
  recv_cnt :: u32
  free_cnt :: u32
  cpm_sa :: "u8 list"
  nbr_frame_id :: u16
  cpm_frame_id0 :: u16
  cpm_frame_id1 :: u16
  cpm_data_hold_factor :: u16
  p_buffer_app :: buf_ptr
  p_buffer_cpm :: buf_ptr
  new_buf :: bool
  cpm_frame_id_pos :: nat
  cpm_data_status :: u8
  cpm_buffer_length :: u16
  cpm_buffer_pos :: nat
  dht :: u16
  cpm_cycle :: int
  cpm_control_interval :: u32
  cpm_ci_running :: bool
  cpm_ci_timeout :: sched_handle
  cpm_cmio_start :: bool

record ppm =
  ppm_state :: ppm_state
  next_exec :: u32
  ppm_sa :: "u8 list"
  ppm_da :: "u8 list"
  first_transmit :: bool
  p_send_buffer :: buf_ptr
  ppm_cycle :: u16
  transfer_status :: u8
  ppm_data_status :: u8
  ppm_buffer_length :: u16
  ppm_buffer_pos :: u16
  cycle_counter_offset :: u16
  data_status_offset :: u16
  transfer_status_offset :: u16
  buffer_data :: "u8 list"
  trx_cnt :: u32
  ppm_send_clock_factor :: u16
  ppm_reduction_ratio :: u16
  ppm_control_interval :: u32
  ppm_ci_running :: bool
  ppm_ci_timeout :: sched_handle

record io_object = iodata_object +
  io_in_use :: bool
  io_data_offset :: u16
  io_data_length :: u16
  io_iops_offset :: u16
  io_iops_length :: u16
  io_iocs_offset :: u16
  io_iocs_length :: u16
  io_data_avail :: bool

record iocr_param =
  ip_iocr_type :: iocr_type
  ip_c_sdu_length :: u16
  ip_frame_id :: u16
  ip_send_clock_factor :: u16
  ip_reduction_ratio :: u16
  ip_data_hold_factor :: u16
  ip_vlan_id :: u16
  ip_iocr_user_priority :: u16

text \<open>The first \<open>nbr_data_desc\<close> entries of \<open>data_desc\<close> are the list.\<close>

record io_cr =
  cr_p_ar :: "nat option"
  cr_crep :: nat
  cr_cpm :: cpm
  cr_ppm :: ppm
  cr_in_length :: u16
  cr_data_desc :: "io_object list"
  cr_param :: iocr_param

text \<open>\<open>cy_crs\<close> is the array of \<open>PNET_MAX_CR\<close> CRs, of which \<open>cy_nbr_iocrs\<close> are used.\<close>

record cyc_ar =
  cy_in_use :: bool
  cy_arep :: nat
  cy_err_cls :: u8
  cy_err_code :: u8
  cy_cmsu :: cmsu_state
  cy_cmio :: cmio_state
  cy_startup_mode :: bool
  cy_initiator_mac :: "u8 list"
  cy_responder_mac :: "u8 list"
  cy_nbr_iocrs :: nat
  cy_crs :: "io_cr list"

type_synonym cr_ptr = "nat \<times> nat"

datatype cyc_cb = Cpm_control_interval_expired | Ppm_drv_sw_send | Other_cyc_timer
datatype frame_handler = Cpm_c_data_ind cr_ptr | Other_frame_handler

datatype cyc_out =
    Cy_alloc bool
  | Cy_free
  | Cy_free_null
  | Cy_send "u8 list"
  | Cy_data_status_changed nat nat u8 u8
  | Cy_abort_ind nat u8 u8

record cyc_net =
  cy_sched :: "(cyc_cb, cr_ptr) sched"
  cy_clock :: u32
  cpm_name :: name_ptr
  ppm_name :: name_ptr
  cy_ars :: "cyc_ar list"
  eth_id_map :: "frame_handler frame_id_entry list"
  cpm_instance_cnt :: u32
  ppm_instance_cnt :: u32
  cy_subslot_of :: "u32 \<Rightarrow> u16 \<Rightarrow> u16 \<Rightarrow> pf_subslot option"
  cy_alloc :: "nat \<Rightarrow> pnal_buf option"
  cy_send_ok :: "nat \<Rightarrow> bool"
  cy_outs :: "cyc_out list"

subsection \<open>A released AR\<close>

definition zero_handle :: sched_handle where
  "zero_handle = \<lparr>h_name = 0, timer_index = 0\<rparr>"

definition zero_cpm :: cpm where
  "zero_cpm = \<lparr>cpm_state = PF_CPM_STATE_W_START, cpm_errcnt = 0, recv_cnt = 0, free_cnt = 0, cpm_sa = replicate 6 0,
     nbr_frame_id = 0, cpm_frame_id0 = 0, cpm_frame_id1 = 0, cpm_data_hold_factor = 0, p_buffer_app = Null_buf,
     p_buffer_cpm = Null_buf, new_buf = False, cpm_frame_id_pos = 0, cpm_data_status = 0, cpm_buffer_length = 0,
     cpm_buffer_pos = 0, dht = 0, cpm_cycle = 0, cpm_control_interval = 0, cpm_ci_running = False,
     cpm_ci_timeout = zero_handle, cpm_cmio_start = False\<rparr>"

definition zero_ppm :: ppm where
  "zero_ppm = \<lparr>ppm_state = PF_PPM_STATE_W_START, next_exec = 0, ppm_sa = replicate 6 0, ppm_da = replicate 6 0,
     first_transmit = False, p_send_buffer = Null_buf, ppm_cycle = 0, transfer_status = 0, ppm_data_status = 0,
     ppm_buffer_length = 0, ppm_buffer_pos = 0, cycle_counter_offset = 0, data_status_offset = 0,
     transfer_status_offset = 0, buffer_data = replicate PF_FRAME_BUFFER_SIZE 0, trx_cnt = 0,
     ppm_send_clock_factor = 0, ppm_reduction_ratio = 0, ppm_control_interval = 0, ppm_ci_running = False,
     ppm_ci_timeout = zero_handle\<rparr>"

definition zero_cr :: io_cr where
  "zero_cr = \<lparr>cr_p_ar = None, cr_crep = 0, cr_cpm = zero_cpm, cr_ppm = zero_ppm, cr_in_length = 0, cr_data_desc = [],
     cr_param = \<lparr>ip_iocr_type = PF_IOCR_TYPE_RESERVED_0, ip_c_sdu_length = 0, ip_frame_id = 0, ip_send_clock_factor = 0,
       ip_reduction_ratio = 0, ip_data_hold_factor = 0, ip_vlan_id = 0, ip_iocr_user_priority = 0\<rparr>\<rparr>"

definition zero_cyc_ar :: cyc_ar where
  "zero_cyc_ar = \<lparr>cy_in_use = False, cy_arep = 0, cy_err_cls = 0, cy_err_code = 0, cy_cmsu = PF_CMSU_STATE_IDLE,
     cy_cmio = PF_CMIO_STATE_IDLE, cy_startup_mode = False, cy_initiator_mac = replicate 6 0,
     cy_responder_mac = replicate 6 0, cy_nbr_iocrs = 0, cy_crs = replicate PNET_MAX_CR zero_cr\<rparr>"

subsection \<open>Access\<close>

definition cy_ar :: "nat \<Rightarrow> cyc_net \<Rightarrow> cyc_ar" where
  "cy_ar a n = cy_ars n ! a"

definition upd_cy :: "nat \<Rightarrow> (cyc_ar \<Rightarrow> cyc_ar) \<Rightarrow> cyc_net \<Rightarrow> cyc_net" where
  "upd_cy a f n = n\<lparr>cy_ars := upd a f (cy_ars n)\<rparr>"

definition cr_at :: "cr_ptr \<Rightarrow> cyc_net \<Rightarrow> io_cr" where
  "cr_at p n = cy_crs (cy_ar (fst p) n) ! snd p"

definition upd_cr :: "cr_ptr \<Rightarrow> (io_cr \<Rightarrow> io_cr) \<Rightarrow> cyc_net \<Rightarrow> cyc_net" where
  "upd_cr p f n = upd_cy (fst p) (\<lambda>r. r\<lparr>cy_crs := upd (snd p) f (cy_crs r)\<rparr>) n"

abbreviation cpm_at :: "cr_ptr \<Rightarrow> cyc_net \<Rightarrow> cpm" where "cpm_at p n \<equiv> cr_cpm (cr_at p n)"
abbreviation ppm_at :: "cr_ptr \<Rightarrow> cyc_net \<Rightarrow> ppm" where "ppm_at p n \<equiv> cr_ppm (cr_at p n)"

definition upd_cpm :: "cr_ptr \<Rightarrow> (cpm \<Rightarrow> cpm) \<Rightarrow> cyc_net \<Rightarrow> cyc_net" where
  "upd_cpm p f n = upd_cr p (\<lambda>c. c\<lparr>cr_cpm := f (cr_cpm c)\<rparr>) n"

definition upd_ppm :: "cr_ptr \<Rightarrow> (ppm \<Rightarrow> ppm) \<Rightarrow> cyc_net \<Rightarrow> cyc_net" where
  "upd_ppm p f n = upd_cr p (\<lambda>c. c\<lparr>cr_ppm := f (cr_ppm c)\<rparr>) n"

definition cy_emit :: "cyc_out list \<Rightarrow> cyc_net \<Rightarrow> cyc_net" where
  "cy_emit os n = n\<lparr>cy_outs := cy_outs n @ os\<rparr>"

definition cy_set_err :: "nat \<Rightarrow> u8 \<Rightarrow> u8 \<Rightarrow> cyc_net \<Rightarrow> cyc_net" where
  "cy_set_err a cls code n = upd_cy a (\<lambda>r. r\<lparr>cy_err_cls := cls, cy_err_code := code\<rparr>) n"

text \<open>\<open>pnal_buf_free\<close> of a pointer, which the code may have freed before.\<close>

definition free_buf :: "buf_ptr \<Rightarrow> cyc_net \<Rightarrow> cyc_net option" where
  "free_buf p n = (case p of
     Null_buf \<Rightarrow> Some (cy_emit [Cy_free_null] n) | Live_buf _ \<Rightarrow> Some (cy_emit [Cy_free] n) | Freed_buf \<Rightarrow> None)"

definition freed :: "buf_ptr \<Rightarrow> buf_ptr" where
  "freed p = (case p of Null_buf \<Rightarrow> Null_buf | _ \<Rightarrow> Freed_buf)"

subsection \<open>Closing\<close>

definition pf_ppm_drv_sw_close_req :: "cr_ptr \<Rightarrow> cyc_net \<Rightarrow> cyc_net option" where
  "pf_ppm_drv_sw_close_req p n = do {
     (h, s) \<leftarrow> pf_scheduler_remove_if_running (ppm_ci_timeout (ppm_at p n)) (cy_sched n);
     Some (upd_ppm p (ppm_ci_timeout_update (\<lambda>_. h)) (n\<lparr>cy_sched := s\<rparr>))
   }"

definition pf_ppm_close_req :: "cr_ptr \<Rightarrow> cyc_net \<Rightarrow> cyc_net option" where
  "pf_ppm_close_req p n = do {
     let n = upd_ppm p (ppm_ci_running_update (\<lambda>_. False)) n;
     n \<leftarrow> pf_ppm_drv_sw_close_req p n;
     n \<leftarrow> free_buf (p_send_buffer (ppm_at p n)) n;
     let n = upd_ppm p (\<lambda>m. m\<lparr>p_send_buffer := freed (p_send_buffer m), ppm_state := PF_PPM_STATE_W_START, ppm_data_status := 0\<rparr>) n;
     Some (n\<lparr>ppm_instance_cnt := ppm_instance_cnt n - 1\<rparr>)
   }"

text \<open>The buffers of a CPM are freed when they are not NULL.\<close>

definition free_cpm_buf :: "buf_ptr \<Rightarrow> cyc_net \<Rightarrow> cyc_net option" where
  "free_cpm_buf p n = (if p = Null_buf then Some n else free_buf p n)"

definition pf_cpm_driver_sw_close_req :: "cr_ptr \<Rightarrow> cyc_net \<Rightarrow> cyc_net option" where
  "pf_cpm_driver_sw_close_req p n = do {
     let n = upd_cpm p (cpm_ci_running_update (\<lambda>_. False)) n;
     (h, s) \<leftarrow> pf_scheduler_remove_if_running (cpm_ci_timeout (cpm_at p n)) (cy_sched n);
     let n = upd_cpm p (cpm_ci_timeout_update (\<lambda>_. h)) (n\<lparr>cy_sched := s\<rparr>);
     let n = n\<lparr>eth_id_map := pf_eth_frame_id_map_remove (cpm_frame_id0 (cpm_at p n)) (eth_id_map n)\<rparr>;
     let n = (if nbr_frame_id (cpm_at p n) = 2
       then n\<lparr>eth_id_map := pf_eth_frame_id_map_remove (cpm_frame_id1 (cpm_at p n)) (eth_id_map n)\<rparr> else n);
     n \<leftarrow> free_cpm_buf (p_buffer_cpm (cpm_at p n)) n;
     n \<leftarrow> free_cpm_buf (p_buffer_app (cpm_at p n)) n;
     Some (upd_cpm p (\<lambda>m. m\<lparr>p_buffer_cpm := freed (p_buffer_cpm m), p_buffer_app := freed (p_buffer_app m)\<rparr>) n)
   }"

definition pf_cpm_close_req :: "cr_ptr \<Rightarrow> cyc_net \<Rightarrow> cyc_net option" where
  "pf_cpm_close_req p n = do {
     let n = upd_cpm p (cpm_state_update (\<lambda>_. PF_CPM_STATE_W_START)) n;
     n \<leftarrow> pf_cpm_driver_sw_close_req p n;
     Some (n\<lparr>cpm_instance_cnt := cpm_instance_cnt n - 1\<rparr>)
   }"

text \<open>
  \<open>pf_cmdev_state_ind\<close> with an ABORT, as far as it concerns cyclic data: CMSU closes the CRs when the
  AR is started, and CMRPC frees the AR, which zeroes it. The output is the event ABORT for the
  application, with the error codes that it can read then.
\<close>

definition close_cr :: "nat \<Rightarrow> nat \<Rightarrow> cyc_net \<Rightarrow> cyc_net option" where
  "close_cr a c n = (case ip_iocr_type (cr_param (cr_at (a, c) n)) of
     PF_IOCR_TYPE_INPUT \<Rightarrow> pf_ppm_close_req (a, c) n
   | PF_IOCR_TYPE_OUTPUT \<Rightarrow> pf_cpm_close_req (a, c) n
   | _ \<Rightarrow> Some n)"

definition cyc_abort :: "nat \<Rightarrow> cyc_net \<Rightarrow> cyc_net option" where
  "cyc_abort a n = do {
     let n = cy_emit [Cy_abort_ind a (cy_err_cls (cy_ar a n)) (cy_err_code (cy_ar a n))] n;
     n \<leftarrow> (if cy_cmsu (cy_ar a n) = PF_CMSU_STATE_STARTUP \<or> cy_cmsu (cy_ar a n) = PF_CMSU_STATE_RUN
       then do {
         n \<leftarrow> for_creps (close_cr a) [0 ..< cy_nbr_iocrs (cy_ar a n)] n;
         Some (upd_cy a (cy_cmsu_update (\<lambda>_. PF_CMSU_STATE_IDLE)) n)
       } else Some n);
     Some (if cy_in_use (cy_ar a n) then upd_cy a (\<lambda>_. zero_cyc_ar) n else n)
   }"

definition cyc_error_ind :: "nat \<Rightarrow> u8 \<Rightarrow> u8 \<Rightarrow> cyc_net \<Rightarrow> cyc_net option" where
  "cyc_error_ind a cls code n = cyc_abort a (cy_set_err a cls code n)"

text \<open>
  \<open>pf_cmio_cpm_state_ind\<close> and \<open>pf_cmio_cpm_new_data_ind\<close> on this state; their results are not used. CMIO
  has the flag \<open>cmio_start\<close> in the CPM.
\<close>

definition cyc_state_ind :: "cr_ptr \<Rightarrow> bool \<Rightarrow> cyc_net \<Rightarrow> cyc_net option" where
  "cyc_state_ind p start n = (let r = cy_ar (fst p) n in case cy_cmio r of
     PF_CMIO_STATE_IDLE \<Rightarrow> Some n
   | PF_CMIO_STATE_STARTUP \<Rightarrow> if \<not> cy_startup_mode r \<and> \<not> start then cyc_abort (fst p) n else Some n
   | PF_CMIO_STATE_WDATA \<Rightarrow>
       Some (if snd p < cy_nbr_iocrs r then upd_cpm p (cpm_cmio_start_update (\<lambda>_. start)) n else n)
   | PF_CMIO_STATE_DATA \<Rightarrow> if \<not> start then cyc_abort (fst p) n else Some n)"

definition cyc_new_data_ind :: "cr_ptr \<Rightarrow> bool \<Rightarrow> cyc_net \<Rightarrow> cyc_net" where
  "cyc_new_data_ind p new_data n = (let r = cy_ar (fst p) n in case cy_cmio r of
     PF_CMIO_STATE_WDATA \<Rightarrow> if snd p < cy_nbr_iocrs r then upd_cpm p (cpm_cmio_start_update (\<lambda>_. new_data)) n else n
   | _ \<Rightarrow> n)"

subsection \<open>The CR of a submodule\<close>

text \<open>
  \<open>pf_ppm_get_ar_iocr_desc\<close> and \<open>pf_cpm_get_ar_iocr_desc\<close> differ in the types of CRs, \<open>dir\<close>, that
  they search.
\<close>

definition is_desc :: "u32 \<Rightarrow> u16 \<Rightarrow> u16 \<Rightarrow> io_object \<Rightarrow> bool" where
  "is_desc api slot subslot d \<longleftrightarrow> io_in_use d \<and> io_api_id d = api \<and> io_slot_nbr d = slot \<and> io_subslot_nbr d = subslot"

definition find_desc :: "u32 \<Rightarrow> u16 \<Rightarrow> u16 \<Rightarrow> io_cr \<Rightarrow> nat option" where
  "find_desc api slot subslot c = find (\<lambda>i. is_desc api slot subslot (cr_data_desc c ! i)) [0 ..< length (cr_data_desc c)]"

definition get_ar_iocr_desc ::
    "(iocr_type \<Rightarrow> bool) \<Rightarrow> u32 \<Rightarrow> u16 \<Rightarrow> u16 \<Rightarrow> cyc_net \<Rightarrow> (cr_ptr \<times> nat) option" where
  "get_ar_iocr_desc dir api slot subslot n = do {
     s \<leftarrow> cy_subslot_of n api slot subslot;
     a \<leftarrow> (if ownsm_state s = PF_OWNSM_STATE_IOC \<or> ownsm_state s = PF_OWNSM_STATE_IOS then owner s else None);
     c \<leftarrow> find (\<lambda>c. dir (ip_iocr_type (cr_param (cr_at (a, c) n))) \<and> find_desc api slot subslot (cr_at (a, c) n) \<noteq> None)
       [0 ..< cy_nbr_iocrs (cy_ar a n)];
     i \<leftarrow> find_desc api slot subslot (cr_at (a, c) n);
     Some ((a, c), i)
   }"

definition pf_ppm_get_ar_iocr_desc :: "u32 \<Rightarrow> u16 \<Rightarrow> u16 \<Rightarrow> cyc_net \<Rightarrow> (cr_ptr \<times> nat) option" where
  "pf_ppm_get_ar_iocr_desc = get_ar_iocr_desc (\<lambda>t. t = PF_IOCR_TYPE_INPUT \<or> t = PF_IOCR_TYPE_MC_PROVIDER)"

definition pf_cpm_get_ar_iocr_desc :: "u32 \<Rightarrow> u16 \<Rightarrow> u16 \<Rightarrow> cyc_net \<Rightarrow> (cr_ptr \<times> nat) option" where
  "pf_cpm_get_ar_iocr_desc = get_ar_iocr_desc (\<lambda>t. t = PF_IOCR_TYPE_OUTPUT \<or> t = PF_IOCR_TYPE_MC_CONSUMER)"

end
