(* ===== verification/Cyclic_Provider.thy ===== *)
theory Cyclic_Provider
  imports Cyclic_State
begin

section \<open>The provider of cyclic data\<close>

text \<open>
  \<open>common/pf_ppm.c\<close> with its software driver \<open>common/pf_ppm_driver_sw.c\<close>: the cycle counter, the
  frames, create, activate and the timer that sends, and the application's access to data, IOPS and
  IOCS. \<open>None\<close> is an access outside of a buffer or through a NULL or freed pointer, a division by
  zero, and an overflow of \<open>int\<close>.
\<close>

subsection \<open>The cycle counter\<close>

text \<open>\<open>send_clock_factor * reduction_ratio\<close>, computed as \<open>int\<close>.\<close>

definition transmission_interval :: "u16 \<Rightarrow> u16 \<Rightarrow> u32 option" where
  "transmission_interval send_clock_factor reduction_ratio =
     (if unat send_clock_factor * unat reduction_ratio < 2 ^ 31
      then Some (ucast send_clock_factor * ucast reduction_ratio) else None)"

definition pf_ppm_calculate_cyclecounter :: "u32 \<Rightarrow> u16 \<Rightarrow> u16 \<Rightarrow> u16 option" where
  "pf_ppm_calculate_cyclecounter timestamp send_clock_factor reduction_ratio = do {
     i \<leftarrow> transmission_interval send_clock_factor reduction_ratio;
     let raw_cyclecounter = ((32 * ucast timestamp) div 1000 :: 64 word);
     if i = 0 then None
     else let number_of_transmissions = (ucast (raw_cyclecounter div ucast i) :: u32)
       in Some (ucast (number_of_transmissions * i))
   }"

definition pf_ppm_calculate_next_cyclecounter :: "u16 \<Rightarrow> u16 \<Rightarrow> u16 \<Rightarrow> u16 option" where
  "pf_ppm_calculate_next_cyclecounter previous send_clock_factor reduction_ratio = do {
     i \<leftarrow> transmission_interval send_clock_factor reduction_ratio;
     if i = 0 then None
     else let number_of_previous_transmissions = (ucast (ucast previous div i) :: u16)
       in Some (ucast ((ucast number_of_previous_transmissions + 1) * i))
   }"

text \<open>The time between two frames in microseconds.\<close>

definition control_interval_of :: "iocr_param \<Rightarrow> u32" where
  "control_interval_of ip = (ucast (ip_send_clock_factor ip) * ucast (ip_reduction_ratio ip) * 1000) div 32"

subsection \<open>Frames\<close>

definition pf_ppm_init_buf :: "ppm \<Rightarrow> u16 \<Rightarrow> iocr_param \<Rightarrow> pnal_buf \<Rightarrow> pnal_buf option" where
  "pf_ppm_init_buf m frame_id header buf = do {
     let k = ppm_buffer_length m;
     b \<leftarrow> poke 0 (replicate (unat k) 0) (buf_payload buf);
     b \<leftarrow> poke 0 (ppm_da m @ ppm_sa m @ enc16 True PNAL_ETHTYPE_VLAN @
       enc16 True ((ip_vlan_id header AND 0x0FFF) OR push_bit 13 (ip_iocr_user_priority header AND 7)) @
       enc16 True PNAL_ETHTYPE_PROFINET @ enc16 True frame_id) b;
     Some \<lparr>buf_payload = b, buf_len = k\<rparr>
   }"

definition pf_ppm_finish_buffer :: "u16 \<Rightarrow> ppm \<Rightarrow> ppm option" where
  "pf_ppm_finish_buffer data_length m = do {
     buf \<leftarrow> live (p_send_buffer m);
     cycle \<leftarrow> pf_ppm_calculate_next_cyclecounter (ppm_cycle m) (ppm_send_clock_factor m) (ppm_reduction_ratio m);
     d \<leftarrow> peek 0 (unat data_length) (buffer_data m);
     b \<leftarrow> poke (unat (ppm_buffer_pos m)) d (buf_payload buf);
     b \<leftarrow> poke (unat (cycle_counter_offset m)) (enc16 True cycle) b;
     b \<leftarrow> poke (unat (data_status_offset m)) [ppm_data_status m] b;
     b \<leftarrow> poke (unat (transfer_status_offset m)) [transfer_status m] b;
     Some (m\<lparr>ppm_cycle := cycle, p_send_buffer := Live_buf (buf\<lparr>buf_payload := b\<rparr>)\<rparr>)
   }"

subsection \<open>Create\<close>

definition pf_ppm_init_cr_config :: "cyc_ar \<Rightarrow> iocr_param \<Rightarrow> ppm \<Rightarrow> ppm" where
  "pf_ppm_init_cr_config r ip m = (let pos = 2 * 6 + 4 + 2 + 2; n = ip_c_sdu_length ip in
     m\<lparr>first_transmit := False, ppm_sa := cy_responder_mac r, ppm_da := cy_initiator_mac r, ppm_buffer_pos := pos,
       ppm_cycle := 0, transfer_status := 0, cycle_counter_offset := pos + n, data_status_offset := pos + n + 2,
       transfer_status_offset := pos + n + 2 + 1, ppm_buffer_length := pos + n + 2 + 1 + 1,
       ppm_data_status := BIT PNET_DATA_STATUS_BIT_STATE OR BIT PNET_DATA_STATUS_BIT_DATA_VALID OR
         BIT PNET_DATA_STATUS_BIT_STATION_PROBLEM_INDICATOR,
       ppm_control_interval := control_interval_of ip,
       ppm_send_clock_factor := ip_send_clock_factor ip, ppm_reduction_ratio := ip_reduction_ratio ip\<rparr>)"

text \<open>\<open>pf_ppm_drv_sw_create\<close> does nothing and returns 0.\<close>

definition ppm_invalid_state :: "nat \<Rightarrow> cyc_net \<Rightarrow> cyc_net" where
  "ppm_invalid_state a n = cy_set_err a PNET_ERROR_CODE_1_PPM PNET_ERROR_CODE_2_PPM_INVALID_STATE n"

definition pf_ppm_create :: "cr_ptr \<Rightarrow> cyc_net \<Rightarrow> (int \<times> cyc_net) option" where
  "pf_ppm_create p n = (let
     n = n\<lparr>ppm_instance_cnt := ppm_instance_cnt n + 1\<rparr>
     in if ppm_state (ppm_at p n) \<noteq> PF_PPM_STATE_W_START then Some (- 1, ppm_invalid_state (fst p) n)
     else let
       n = upd_ppm p (pf_ppm_init_cr_config (cy_ar (fst p) n) (cr_param (cr_at p n))) n;
       new = cy_alloc n (length (cy_outs n));
       n = cy_emit [Cy_alloc (new \<noteq> None)] n
       in (case new of
         None \<Rightarrow> Some (- 1, ppm_invalid_state (fst p) (upd_ppm p (p_send_buffer_update (\<lambda>_. Null_buf)) n))
       | Some buf \<Rightarrow> do {
           buf \<leftarrow> pf_ppm_init_buf (ppm_at p n) (ip_frame_id (cr_param (cr_at p n))) (cr_param (cr_at p n)) buf;
           Some (0, upd_ppm p (p_send_buffer_update (\<lambda>_. Live_buf buf)) n)
         }))"

subsection \<open>Activation and sending\<close>

definition pf_ppm_state_ind :: "nat \<Rightarrow> bool \<Rightarrow> cyc_net \<Rightarrow> cyc_net option" where
  "pf_ppm_state_ind a err n =
     (if err then cyc_error_ind a PNET_ERROR_CODE_1_PPM PNET_ERROR_CODE_2_PPM_INVALID n else Some n)"

definition ppm_add :: "u32 \<Rightarrow> cr_ptr \<Rightarrow> cyc_net \<Rightarrow> (int \<times> cyc_net) option" where
  "ppm_add delay p n = do {
     (ret, h, s) \<leftarrow> pf_scheduler_add (cy_clock n) delay Ppm_drv_sw_send p (ppm_ci_timeout (ppm_at p n)) (cy_sched n);
     Some (ret, upd_ppm p (ppm_ci_timeout_update (\<lambda>_. h)) (n\<lparr>cy_sched := s\<rparr>))
   }"

definition finish_buffer_of :: "cr_ptr \<Rightarrow> cyc_net \<Rightarrow> cyc_net option" where
  "finish_buffer_of p n = do {
     m \<leftarrow> pf_ppm_finish_buffer (cr_in_length (cr_at p n)) (ppm_at p n);
     Some (upd_ppm p (\<lambda>_. m) n)
   }"

definition pf_ppm_drv_sw_activate_req :: "cr_ptr \<Rightarrow> cyc_net \<Rightarrow> (int \<times> cyc_net) option" where
  "pf_ppm_drv_sw_activate_req p n =
     ppm_add (ppm_control_interval (ppm_at p n)) p
       (upd_ppm p (ppm_ci_timeout_update (\<lambda>_. pf_scheduler_init_handle (ppm_name n))) n)"

definition pf_ppm_activate_req :: "cr_ptr \<Rightarrow> cyc_net \<Rightarrow> (int \<times> cyc_net) option" where
  "pf_ppm_activate_req p n =
     (if ppm_state (ppm_at p n) = PF_PPM_STATE_RUN then Some (- 1, ppm_invalid_state (fst p) n)
      else do {
        let n = upd_ppm p (\<lambda>m. m\<lparr>next_exec := cy_clock n + ppm_control_interval m, ppm_state := PF_PPM_STATE_RUN,
          ppm_ci_running := True\<rparr>) n;
        n \<leftarrow> finish_buffer_of p n;
        (ret, n) \<leftarrow> pf_ppm_drv_sw_activate_req p n;
        n \<leftarrow> (if ret \<noteq> 0 then pf_ppm_state_ind (fst p) True n else Some n);
        Some (ret, n)
      })"

text \<open>
  The timer's callback. When sending fails the timer is not started again. The frame that is sent is
  the bytes of the buffer up to its length.
\<close>

definition pf_ppm_drv_sw_send :: "cr_ptr \<Rightarrow> u32 \<Rightarrow> cyc_net \<Rightarrow> cyc_net option" where
  "pf_ppm_drv_sw_send p current_time n = (let
     n = upd_ppm p (\<lambda>m. m\<lparr>ppm_ci_timeout := pf_scheduler_reset_handle (ppm_ci_timeout m)\<rparr>) n
     in if \<not> ppm_ci_running (ppm_at p n) then Some n
     else do {
       n \<leftarrow> finish_buffer_of p n;
       buf \<leftarrow> live (p_send_buffer (ppm_at p n));
       frame \<leftarrow> peek 0 (unat (buf_len buf)) (buf_payload buf);
       let sent = cy_send_ok n (length (cy_outs n));
       let n = cy_emit [Cy_send frame] n;
       if \<not> sent then Some n
       else do {
         let n = upd_ppm p (\<lambda>m. m\<lparr>next_exec := next_exec m + ppm_control_interval m\<rparr>) n;
         (ret, n) \<leftarrow> ppm_add (next_exec (ppm_at p n) - current_time) p n;
         if ret = 0 then
           Some (upd_ppm p (\<lambda>m. m\<lparr>trx_cnt := trx_cnt m + 1, first_transmit := True\<rparr>) n)
         else do {
           a \<leftarrow> cr_p_ar (cr_at p n);
           pf_ppm_state_ind a True n
         }
       }
     })"

subsection \<open>Data of the application\<close>

definition pf_ppm_drv_sw_write_frame_buffer :: "u16 \<Rightarrow> u8 list \<Rightarrow> cr_ptr \<Rightarrow> cyc_net \<Rightarrow> cyc_net option" where
  "pf_ppm_drv_sw_write_frame_buffer offset xs p n = do {
     b \<leftarrow> poke (unat offset) xs (buffer_data (ppm_at p n));
     Some (upd_ppm p (buffer_data_update (\<lambda>_. b)) n)
   }"

definition pf_ppm_drv_sw_write_data_and_iops ::
    "cr_ptr \<Rightarrow> io_object \<Rightarrow> u8 list option \<Rightarrow> u16 \<Rightarrow> u8 list \<Rightarrow> cyc_net \<Rightarrow> cyc_net option" where
  "pf_ppm_drv_sw_write_data_and_iops p d p_data data_len iops n = do {
     n \<leftarrow> (case p_data of
       None \<Rightarrow> Some n
     | Some xs \<Rightarrow> do { xs \<leftarrow> peek 0 (unat data_len) xs; pf_ppm_drv_sw_write_frame_buffer (io_data_offset d) xs p n });
     pf_ppm_drv_sw_write_frame_buffer (io_iops_offset d) iops p n
   }"

definition desc_at :: "cr_ptr \<Rightarrow> nat \<Rightarrow> cyc_net \<Rightarrow> io_object" where
  "desc_at p i n = cr_data_desc (cr_at p n) ! i"

text \<open>
  \<open>p_data\<close> may be NULL; \<open>iops\<close> and \<open>iocs\<close> are the \<open>iops_len\<close> and \<open>iocs_len\<close> bytes that the caller gives.
\<close>

definition pf_ppm_set_data_and_iops ::
    "u32 \<Rightarrow> u16 \<Rightarrow> u16 \<Rightarrow> u8 list option \<Rightarrow> u16 \<Rightarrow> u8 list \<Rightarrow> cyc_net \<Rightarrow> (int \<times> cyc_net) option" where
  "pf_ppm_set_data_and_iops api slot subslot p_data data_len iops n =
     (case pf_ppm_get_ar_iocr_desc api slot subslot n of
        None \<Rightarrow> Some (- 1, n)
      | Some (p, i) \<Rightarrow> let d = desc_at p i n in
          if unat (io_data_offset d) + unat data_len \<ge> PF_FRAME_BUFFER_SIZE \<or>
             unat (io_iops_offset d) + length iops \<ge> PF_FRAME_BUFFER_SIZE then Some (- 1, n)
          else if data_len = io_data_length d \<and> length iops = unat (io_iops_length d) then do {
            n \<leftarrow> pf_ppm_drv_sw_write_data_and_iops p d p_data data_len iops n;
            Some (0, upd_cr p (\<lambda>c. c\<lparr>cr_data_desc := upd i (io_data_avail_update (\<lambda>_. True)) (cr_data_desc c)\<rparr>) n)
          }
          else Some (- 1, n))"

definition pf_ppm_set_iocs :: "u32 \<Rightarrow> u16 \<Rightarrow> u16 \<Rightarrow> u8 list \<Rightarrow> cyc_net \<Rightarrow> (int \<times> cyc_net) option" where
  "pf_ppm_set_iocs api slot subslot iocs n =
     (case pf_ppm_get_ar_iocr_desc api slot subslot n of
        None \<Rightarrow> Some (- 1, n)
      | Some (p, i) \<Rightarrow> let d = desc_at p i n in
          if length iocs = unat (io_iocs_length d) then do {
            n \<leftarrow> pf_ppm_drv_sw_write_frame_buffer (io_iocs_offset d) iocs p n;
            Some (0, n)
          }
          else if io_iocs_length d = 0 then Some (0, n)
          else Some (- 1, n))"

text \<open>
  The arguments of the getters point to arrays of the caller; each length is that of the array before
  the call and of the copied bytes after it. \<open>io_result\<close> has them all; the rest of an array is as
  before.
\<close>

record io_result =
  rd_new_flag :: bool
  rd_data :: "u8 list"
  rd_data_len :: u16
  rd_iops :: "u8 list"
  rd_iops_len :: u8

definition copy_out :: "u16 \<Rightarrow> nat \<Rightarrow> u8 list \<Rightarrow> u8 list \<Rightarrow> u8 list option" where
  "copy_out offset k b dest = do { xs \<leftarrow> peek (unat offset) k b; poke 0 xs dest }"

definition pf_ppm_get_data_and_iops ::
    "u32 \<Rightarrow> u16 \<Rightarrow> u16 \<Rightarrow> io_result \<Rightarrow> cyc_net \<Rightarrow> (int \<times> io_result \<times> cyc_net) option" where
  "pf_ppm_get_data_and_iops api slot subslot rd n =
     (case pf_ppm_get_ar_iocr_desc api slot subslot n of
        None \<Rightarrow> Some (- 1, rd, n)
      | Some (p, i) \<Rightarrow> let d = desc_at p i n in
        (case ppm_state (ppm_at p n) of
           PF_PPM_STATE_W_START \<Rightarrow> Some (- 1, rd, ppm_invalid_state (fst p) n)
         | PF_PPM_STATE_RUN \<Rightarrow>
             if unat (io_data_offset d) + unat (io_data_length d) \<ge> PF_FRAME_BUFFER_SIZE \<or>
                unat (io_iops_offset d) + unat (io_iops_length d) \<ge> PF_FRAME_BUFFER_SIZE then Some (- 1, rd, n)
             else if rd_data_len rd \<ge> io_data_length d \<and> unat (rd_iops_len rd) \<ge> unat (io_iops_length d) then do {
               let b = buffer_data (ppm_at p n);
               xs \<leftarrow> copy_out (io_data_offset d) (unat (io_data_length d)) b (rd_data rd);
               ys \<leftarrow> copy_out (io_iops_offset d) (unat (io_iops_length d)) b (rd_iops rd);
               Some (0, rd\<lparr>rd_data := xs, rd_data_len := io_data_length d, rd_iops := ys,
                 rd_iops_len := ucast (io_iops_length d)\<rparr>, n)
             }
             else Some (- 1, rd, n)))"

text \<open>\<open>dest\<close> is the caller's array for the IOCS, with \<open>iocs_len\<close> bytes.\<close>

definition pf_ppm_get_iocs ::
    "u32 \<Rightarrow> u16 \<Rightarrow> u16 \<Rightarrow> u8 list \<Rightarrow> u8 \<Rightarrow> cyc_net \<Rightarrow> (int \<times> u8 list \<times> u8 \<times> cyc_net) option" where
  "pf_ppm_get_iocs api slot subslot dest iocs_len n =
     (case pf_ppm_get_ar_iocr_desc api slot subslot n of
        None \<Rightarrow> Some (- 1, dest, iocs_len, n)
      | Some (p, i) \<Rightarrow> let d = desc_at p i n in
        (case ppm_state (ppm_at p n) of
           PF_PPM_STATE_W_START \<Rightarrow> Some (- 1, dest, iocs_len, ppm_invalid_state (fst p) n)
         | PF_PPM_STATE_RUN \<Rightarrow>
             if unat iocs_len \<ge> unat (io_iocs_length d) then do {
               let iocs_len = ucast (io_iocs_length d);
               xs \<leftarrow> copy_out (io_iocs_offset d) (unat iocs_len) (buffer_data (ppm_at p n)) dest;
               Some (0, xs, iocs_len, n)
             }
             else Some (- 1, dest, iocs_len, n)))"

subsection \<open>The data status\<close>

text \<open>The software driver's \<open>write_data_status\<close> does nothing and returns 0.\<close>

definition set_status_bit :: "nat \<Rightarrow> bool \<Rightarrow> ppm \<Rightarrow> ppm" where
  "set_status_bit i v m = m\<lparr>ppm_data_status := (if v then ppm_data_status m OR BIT i else ppm_data_status m AND NOT (BIT i))\<rparr>"

definition pf_ppm_set_data_status_state :: "bool \<Rightarrow> cr_ptr \<Rightarrow> cyc_net \<Rightarrow> int \<times> cyc_net" where
  "pf_ppm_set_data_status_state primary p n = (0, upd_ppm p (set_status_bit PNET_DATA_STATUS_BIT_STATE primary) n)"

definition pf_ppm_set_data_status_redundancy :: "bool \<Rightarrow> cr_ptr \<Rightarrow> cyc_net \<Rightarrow> int \<times> cyc_net" where
  "pf_ppm_set_data_status_redundancy redundant p n =
     (0, upd_ppm p (set_status_bit PNET_DATA_STATUS_BIT_REDUNDANCY redundant) n)"

definition pf_ppm_set_data_status_provider :: "bool \<Rightarrow> cr_ptr \<Rightarrow> cyc_net \<Rightarrow> int \<times> cyc_net" where
  "pf_ppm_set_data_status_provider run p n =
     (0, upd_ppm p (set_status_bit PNET_DATA_STATUS_BIT_PROVIDER_STATE run) n)"

definition pf_ppm_get_data_status :: "ppm \<Rightarrow> int \<times> u8" where
  "pf_ppm_get_data_status m = (0, ppm_data_status m)"

definition pf_ppm_set_problem_indicator :: "nat \<Rightarrow> bool \<Rightarrow> cyc_net \<Rightarrow> cyc_net" where
  "pf_ppm_set_problem_indicator a problem_indicator n = upd_cy a (\<lambda>r. r\<lparr>cy_crs := map (\<lambda>c.
     if ip_iocr_type (cr_param c) = PF_IOCR_TYPE_INPUT \<or> ip_iocr_type (cr_param c) = PF_IOCR_TYPE_MC_PROVIDER
     then c\<lparr>cr_ppm := set_status_bit PNET_DATA_STATUS_BIT_STATION_PROBLEM_INDICATOR (\<not> problem_indicator) (cr_ppm c)\<rparr>
     else c) (cy_crs r)\<rparr>) n"

text \<open>\<open>pnet_set_primary_state\<close> and its siblings set a bit in all CRs of all ARs in use.\<close>

definition all_crs :: "cyc_net \<Rightarrow> cr_ptr list" where
  "all_crs n = concat (map (\<lambda>a. if cy_in_use (cy_ar a n) then map (Pair a) [0 ..< cy_nbr_iocrs (cy_ar a n)] else [])
     [0 ..< PNET_MAX_AR])"

definition for_all_crs :: "(cr_ptr \<Rightarrow> cyc_net \<Rightarrow> int \<times> cyc_net) \<Rightarrow> cyc_net \<Rightarrow> int \<times> cyc_net" where
  "for_all_crs f n = fold (\<lambda>p (ret, n). let (r, n) = f p n in (if r \<noteq> 0 then - 1 else ret, n)) (all_crs n) (0, n)"

definition pnet_set_primary_state :: "bool \<Rightarrow> cyc_net \<Rightarrow> int \<times> cyc_net" where
  "pnet_set_primary_state primary = for_all_crs (pf_ppm_set_data_status_state primary)"

definition pnet_set_redundancy_state :: "bool \<Rightarrow> cyc_net \<Rightarrow> int \<times> cyc_net" where
  "pnet_set_redundancy_state redundant = for_all_crs (pf_ppm_set_data_status_redundancy redundant)"

definition pnet_set_provider_state :: "bool \<Rightarrow> cyc_net \<Rightarrow> int \<times> cyc_net" where
  "pnet_set_provider_state run = for_all_crs (pf_ppm_set_data_status_provider run)"

definition pnet_input_set_data_and_iops ::
    "u32 \<Rightarrow> u16 \<Rightarrow> u16 \<Rightarrow> u8 list option \<Rightarrow> u16 \<Rightarrow> u8 \<Rightarrow> cyc_net \<Rightarrow> (int \<times> cyc_net) option" where
  "pnet_input_set_data_and_iops api slot subslot p_data data_len iops n =
     pf_ppm_set_data_and_iops api slot subslot p_data data_len [iops] n"

definition pnet_output_set_iocs :: "u32 \<Rightarrow> u16 \<Rightarrow> u16 \<Rightarrow> u8 \<Rightarrow> cyc_net \<Rightarrow> (int \<times> cyc_net) option" where
  "pnet_output_set_iocs api slot subslot iocs n = pf_ppm_set_iocs api slot subslot [iocs] n"

end
