(* ===== verification/Cyclic_Consumer.thy ===== *)
theory Cyclic_Consumer
  imports Cyclic_Provider
begin

section \<open>The consumer of cyclic data\<close>

text \<open>
  \<open>common/pf_cpm.c\<close> with its software driver \<open>common/pf_cpm_driver_sw.c\<close>: create and activate, the
  handler of received frames with the swap of buffers, the timer that watches over the frames, and
  the application's access to data, IOPS and IOCS; and the entry of frames and timers, \<open>cyc_recv\<close> and
  \<open>cyc_call\<close>.
\<close>

subsection \<open>Checks of a frame\<close>

text \<open>The cycle counter of a frame must be ahead of the last one by 1 to 61440 units.\<close>

definition pf_cpm_check_cycle :: "int \<Rightarrow> u16 \<Rightarrow> int" where
  "pf_cpm_check_cycle prev now = (let diff = now - word_of_int prev in if diff \<ge> 1 \<and> diff \<le> 61440 then 0 else - 1)"

definition pf_cpm_check_src_addr :: "cpm \<Rightarrow> pnal_buf \<Rightarrow> int option" where
  "pf_cpm_check_src_addr m buf = do { sa \<leftarrow> peek 6 6 (buf_payload buf); Some (if sa = cpm_sa m then 0 else - 1) }"

subsection \<open>Create and activate\<close>

definition pf_cpm_set_state :: "cpm_state \<Rightarrow> cr_ptr \<Rightarrow> cyc_net \<Rightarrow> cyc_net" where
  "pf_cpm_set_state st p n = upd_cpm p (cpm_state_update (\<lambda>_. st)) n"

definition pf_cpm_create :: "cr_ptr \<Rightarrow> cyc_net \<Rightarrow> int \<times> cyc_net" where
  "pf_cpm_create p n =
     (0, pf_cpm_set_state PF_CPM_STATE_W_START p (n\<lparr>cpm_instance_cnt := cpm_instance_cnt n + 1\<rparr>))"

definition cpm_add :: "cr_ptr \<Rightarrow> cyc_net \<Rightarrow> (int \<times> cyc_net) option" where
  "cpm_add p n = do {
     (ret, h, s) \<leftarrow> pf_scheduler_add (cy_clock n) (cpm_control_interval (cpm_at p n)) Cpm_control_interval_expired p
       (cpm_ci_timeout (cpm_at p n)) (cy_sched n);
     Some (ret, upd_cpm p (cpm_ci_timeout_update (\<lambda>_. h)) (n\<lparr>cy_sched := s\<rparr>))
   }"

definition pf_cpm_driver_sw_activate_req :: "cr_ptr \<Rightarrow> cyc_net \<Rightarrow> (int \<times> cyc_net) option" where
  "pf_cpm_driver_sw_activate_req p n = do {
     let n = n\<lparr>eth_id_map := pf_eth_frame_id_map_add (cpm_frame_id0 (cpm_at p n)) (Cpm_c_data_ind p) (eth_id_map n)\<rparr>;
     let n = (if nbr_frame_id (cpm_at p n) = 2
       then let n = upd_cpm p (\<lambda>m. m\<lparr>cpm_frame_id1 := cpm_frame_id0 m + 1\<rparr>) n
         in n\<lparr>eth_id_map := pf_eth_frame_id_map_add (cpm_frame_id1 (cpm_at p n)) (Cpm_c_data_ind p) (eth_id_map n)\<rparr>
       else n);
     let n = upd_cpm p (cpm_ci_timeout_update (\<lambda>_. pf_scheduler_init_handle (cpm_name n))) n;
     (ret, n) \<leftarrow> cpm_add p n;
     Some (ret, if ret \<noteq> 0 then n else upd_cpm p (cpm_ci_running_update (\<lambda>_. True)) n)
   }"

definition cpm_config :: "cyc_ar \<Rightarrow> iocr_param \<Rightarrow> cpm \<Rightarrow> cpm" where
  "cpm_config r ip m = (let pos = 2 * 6 + 2 + 2 in
     m\<lparr>cpm_data_hold_factor := ip_data_hold_factor ip, cpm_control_interval := control_interval_of ip, cpm_cycle := - 1,
       dht := 0, recv_cnt := 0, cpm_sa := cy_initiator_mac r, cpm_buffer_pos := pos, cpm_data_status := 0,
       cpm_buffer_length := of_nat pos + ip_c_sdu_length ip + 2 + 1 + 1, nbr_frame_id := 1,
       cpm_frame_id0 := ip_frame_id ip\<rparr>)"

definition cpm_invalid_state :: "nat \<Rightarrow> cyc_net \<Rightarrow> cyc_net" where
  "cpm_invalid_state a n = cy_set_err a PNET_ERROR_CODE_1_CPM PNET_ERROR_CODE_2_CPM_INVALID_STATE n"

definition pf_cpm_activate_req :: "cr_ptr \<Rightarrow> cyc_net \<Rightarrow> (int \<times> cyc_net) option" where
  "pf_cpm_activate_req p n = (case cpm_state (cpm_at p n) of
     PF_CPM_STATE_W_START \<Rightarrow> do {
       let n = upd_cpm p (cpm_config (cy_ar (fst p) n) (cr_param (cr_at p n))) n;
       (ret, n) \<leftarrow> pf_cpm_driver_sw_activate_req p n;
       n \<leftarrow> (if ret = 0 then Some (pf_cpm_set_state PF_CPM_STATE_FRUN p n)
         else cyc_error_ind (fst p) PNET_ERROR_CODE_1_CPM PNET_ERROR_CODE_2_CPM_INVALID n);
       Some (ret, n)
     }
   | _ \<Rightarrow> Some (- 1, cpm_invalid_state (fst p) n))"

subsection \<open>The timer\<close>

text \<open>\<open>pf_cpm_state_ind\<close> tells CMIO; \<open>pf_cmdmc_cpm_state_ind\<close> does nothing.\<close>

definition pf_cpm_state_ind :: "nat \<Rightarrow> nat \<Rightarrow> bool \<Rightarrow> cyc_net \<Rightarrow> cyc_net option" where
  "pf_cpm_state_ind a crep start n = cyc_state_ind (a, crep) start n"

definition dht_step :: "cr_ptr \<Rightarrow> cyc_net \<Rightarrow> cyc_net option" where
  "dht_step p n =
     (if cpm_state (cpm_at p n) \<noteq> PF_CPM_STATE_RUN then Some n
      else if dht (cpm_at p n) \<ge> cpm_data_hold_factor (cpm_at p n) then do {
        a \<leftarrow> cr_p_ar (cr_at p n);
        let n = cy_set_err a PNET_ERROR_CODE_1_RTA_ERR_CLS_PROTOCOL PNET_ERROR_CODE_2_ABORT_AR_CONSUMER_DHT_EXPIRED n;
        let n = upd_cpm p (\<lambda>m. m\<lparr>dht := 0, cpm_ci_running := False\<rparr>) n;
        n \<leftarrow> pf_cpm_state_ind a (cr_crep (cr_at p n)) False n;
        Some (pf_cpm_set_state PF_CPM_STATE_W_START p n)
      }
      else Some (upd_cpm p (\<lambda>m. m\<lparr>dht := dht m + 1\<rparr>) n))"

definition pf_cpm_control_interval_expired :: "cr_ptr \<Rightarrow> cyc_net \<Rightarrow> cyc_net option" where
  "pf_cpm_control_interval_expired p n = (let
     n = upd_cpm p (\<lambda>m. m\<lparr>cpm_ci_timeout := pf_scheduler_reset_handle (cpm_ci_timeout m)\<rparr>) n
     in if \<not> cpm_ci_running (cpm_at p n) then Some n
     else do {
       n \<leftarrow> dht_step p n;
       if \<not> cpm_ci_running (cpm_at p n) then Some n
       else do {
         (ret, n) \<leftarrow> cpm_add p n;
         if ret = 0 then Some n
         else do {
           a \<leftarrow> cr_p_ar (cr_at p n);
           cyc_error_ind a PNET_ERROR_CODE_1_CPM PNET_ERROR_CODE_2_CPM_INVALID n
         }
       }
     })"

subsection \<open>A received frame\<close>

text \<open>
  \<open>cpm_accept\<close> is the branch for a frame that is taken, \<open>cpm_drop\<close> frees the buffer that the code
  has at the end: the frame itself, or the one that it took the place of.
\<close>

definition pf_cpm_put_buf :: "pnal_buf \<Rightarrow> cpm \<Rightarrow> buf_ptr \<times> cpm" where
  "pf_cpm_put_buf buf m = (p_buffer_cpm m, m\<lparr>p_buffer_cpm := Live_buf buf, new_buf := True\<rparr>)"

definition cpm_drop :: "cr_ptr \<Rightarrow> buf_ptr \<Rightarrow> cyc_net \<Rightarrow> (int \<times> cyc_net) option" where
  "cpm_drop p b n =
     (if b = Null_buf then Some (1, n)
      else do { n \<leftarrow> free_buf b (upd_cpm p (\<lambda>m. m\<lparr>free_cnt := free_cnt m + 1\<rparr>) n); Some (1, n) })"

definition cpm_accept :: "cr_ptr \<Rightarrow> pnal_buf \<Rightarrow> nat \<Rightarrow> bool \<Rightarrow> u16 \<Rightarrow> u8 \<Rightarrow> cyc_net \<Rightarrow> (buf_ptr \<times> cyc_net) option" where
  "cpm_accept p buf fpos update_data cycle data_status n = do {
     a \<leftarrow> cr_p_ar (cr_at p n);
     let q = (a, cr_crep (cr_at p n));
     n \<leftarrow> (if cpm_state (cpm_at p n) = PF_CPM_STATE_FRUN then pf_cpm_state_ind a (snd q) True n else Some n);
     let (b, n) = (if update_data
       then let (b, m) = pf_cpm_put_buf buf (cpm_at p n)
         in (b, cyc_new_data_ind q True
           (upd_cpm p (\<lambda>_. m\<lparr>cpm_frame_id_pos := fpos, cpm_buffer_pos := fpos + 2\<rparr>) n))
       else (Live_buf buf, cyc_new_data_ind q False n));
     let changes = cpm_data_status (cpm_at p n) XOR data_status;
     let n = upd_cpm p (\<lambda>m. m\<lparr>dht := 0, cpm_cycle := uint cycle, cpm_data_status := data_status\<rparr>) n;
     let n = (if changes \<noteq> 0
       then cy_emit [Cy_data_status_changed (cy_arep (cy_ar a n)) (snd q) changes data_status] n else n);
     Some (b, pf_cpm_set_state PF_CPM_STATE_RUN p n)
   }"

definition pf_cpm_c_data_ind :: "cr_ptr \<Rightarrow> u16 \<Rightarrow> pnal_buf \<Rightarrow> nat \<Rightarrow> cyc_net \<Rightarrow> (int \<times> cyc_net) option" where
  "pf_cpm_c_data_ind p frame_id buf fpos n = (let
     n = upd_cpm p (\<lambda>m. m\<lparr>recv_cnt := recv_cnt m + 1\<rparr>) n
     in if cpm_state (cpm_at p n) = PF_CPM_STATE_W_START
     then do {
       a \<leftarrow> cr_p_ar (cr_at p n);
       let n = upd_cpm p (\<lambda>m. m\<lparr>cpm_errcnt := cpm_errcnt m + 1\<rparr>) (cpm_invalid_state a n);
       cpm_drop p (Live_buf buf) n
     }
     else do {
       apdu \<leftarrow> peek (unat (buf_len buf - 4)) 4 (buf_payload buf);
       let cycle = ucast (apdu ! 0) * 0x100 + ucast (apdu ! 1);
       let data_status = apdu ! 2;
       let transfer_status = apdu ! 3;
       let data_valid = (data_status AND 4 \<noteq> 0);
       let backup = (data_status AND 1 = 0);
       let primary = (data_status AND 1 \<noteq> 0);
       let frame_len = buf_len buf - of_nat fpos + (2 * 6 + 2);
       src \<leftarrow> pf_cpm_check_src_addr (cpm_at p n) buf;
       let frame_structure = (transfer_status = 0 \<and> src = 0 \<and> frame_len = cpm_buffer_length (cpm_at p n));
       let c_sdu_structure = (pf_cpm_check_cycle (cpm_cycle (cpm_at p n)) cycle = 0);
       let dht_reload = (frame_structure \<and> c_sdu_structure \<and> (data_valid \<or> backup));
       let update_data = (frame_structure \<and> c_sdu_structure \<and> data_valid \<and> (primary \<or> backup));
       if \<not> data_valid then cpm_drop p (Live_buf buf) n
       else if dht_reload then do {
         (b, n) \<leftarrow> cpm_accept p buf fpos update_data cycle data_status n;
         cpm_drop p b n
       }
       else cpm_drop p (Live_buf buf) n
     })"

subsection \<open>Data of the application\<close>

text \<open>\<open>pf_cpm_get_buf\<close> makes the newest frame the application's, and says whether it did.\<close>

definition pf_cpm_get_buf :: "cpm \<Rightarrow> bool \<times> cpm" where
  "pf_cpm_get_buf m =
     (if new_buf m
      then (True, m\<lparr>p_buffer_app := p_buffer_cpm m, p_buffer_cpm := p_buffer_app m, new_buf := False\<rparr>)
      else (False, m))"

text \<open>Reading \<open>k\<close> bytes at an offset of the data into the array \<open>dest\<close>; nothing for 0 bytes.\<close>

definition copy_frame :: "cpm \<Rightarrow> pnal_buf \<Rightarrow> u16 \<Rightarrow> u16 \<Rightarrow> u8 list \<Rightarrow> u8 list option" where
  "copy_frame m buf offset k dest = do {
     xs \<leftarrow> peek (cpm_buffer_pos m + unat offset) (unat k) (buf_payload buf);
     poke 0 xs dest
   }"

definition pf_cpm_driver_sw_get_data_and_iops ::
    "cr_ptr \<Rightarrow> io_object \<Rightarrow> io_result \<Rightarrow> cyc_net \<Rightarrow> (int \<times> io_result \<times> cyc_net) option" where
  "pf_cpm_driver_sw_get_data_and_iops p d rd n = (let
     (flag, m) = pf_cpm_get_buf (cpm_at p n);
     n = upd_cpm p (\<lambda>_. m) n;
     rd = rd\<lparr>rd_new_flag := flag\<rparr>
     in if p_buffer_app m = Null_buf then Some (- 1, rd\<lparr>rd_new_flag := False\<rparr>, n)
     else do {
       buf \<leftarrow> live (p_buffer_app m);
       xs \<leftarrow> (if io_data_length d > 0 then copy_frame m buf (io_data_offset d) (io_data_length d) (rd_data rd)
         else Some (rd_data rd));
       ys \<leftarrow> (if io_iops_length d > 0 then copy_frame m buf (io_iops_offset d) (io_iops_length d) (rd_iops rd)
         else Some (rd_iops rd));
       Some (0, rd\<lparr>rd_data := xs, rd_iops := ys\<rparr>, n)
     })"

definition pf_cpm_get_data_and_iops ::
    "u32 \<Rightarrow> u16 \<Rightarrow> u16 \<Rightarrow> io_result \<Rightarrow> cyc_net \<Rightarrow> (int \<times> io_result \<times> cyc_net) option" where
  "pf_cpm_get_data_and_iops api slot subslot rd n =
     (case pf_cpm_get_ar_iocr_desc api slot subslot n of
        None \<Rightarrow> Some (- 1, rd, n)
      | Some (p, i) \<Rightarrow> let d = desc_at p i n in
          if cpm_state (cpm_at p n) = PF_CPM_STATE_W_START then Some (- 1, rd, cpm_invalid_state (fst p) n)
          else if rd_data_len rd < io_data_length d \<or> unat (rd_iops_len rd) < unat (io_iops_length d)
          then Some (- 1, rd\<lparr>rd_data_len := 0, rd_new_flag := False\<rparr>, n)
          else do {
            let rd = rd\<lparr>rd_data_len := io_data_length d, rd_iops_len := ucast (io_iops_length d)\<rparr>;
            (ret, rd, n) \<leftarrow> pf_cpm_driver_sw_get_data_and_iops p d rd n;
            Some (ret, if ret \<noteq> 0 then rd\<lparr>rd_data_len := 0, rd_iops_len := 0\<rparr> else rd, n)
          })"

definition pf_cpm_driver_sw_get_iocs :: "cr_ptr \<Rightarrow> io_object \<Rightarrow> u8 list \<Rightarrow> cyc_net \<Rightarrow> (int \<times> u8 list \<times> cyc_net) option" where
  "pf_cpm_driver_sw_get_iocs p d dest n = (let
     (_, m) = pf_cpm_get_buf (cpm_at p n);
     n = upd_cpm p (\<lambda>_. m) n
     in if p_buffer_app m = Null_buf then Some (- 1, dest, n)
     else do {
       buf \<leftarrow> live (p_buffer_app m);
       xs \<leftarrow> copy_frame m buf (io_iocs_offset d) (io_iocs_length d) dest;
       Some (0, xs, n)
     })"

definition pf_cpm_get_iocs ::
    "u32 \<Rightarrow> u16 \<Rightarrow> u16 \<Rightarrow> u8 list \<Rightarrow> u8 \<Rightarrow> cyc_net \<Rightarrow> (int \<times> u8 list \<times> u8 \<times> cyc_net) option" where
  "pf_cpm_get_iocs api slot subslot dest iocs_len n =
     (case pf_cpm_get_ar_iocr_desc api slot subslot n of
        None \<Rightarrow> Some (- 1, dest, iocs_len, n)
      | Some (p, i) \<Rightarrow> let d = desc_at p i n in
          if cpm_state (cpm_at p n) = PF_CPM_STATE_W_START then Some (- 1, dest, iocs_len, cpm_invalid_state (fst p) n)
          else if unat iocs_len < unat (io_iocs_length d) then Some (- 1, dest, iocs_len, n)
          else if io_iocs_length d = 0 then Some (- 1, dest, iocs_len, n)
          else do {
            (ret, xs, n) \<leftarrow> pf_cpm_driver_sw_get_iocs p d dest n;
            Some (ret, xs, ucast (io_iocs_length d), n)
          })"

definition pf_cpm_get_data_status :: "cpm \<Rightarrow> int \<times> u8" where
  "pf_cpm_get_data_status m = (0, cpm_data_status m)"

text \<open>The arrays for IOPS and IOCS have one byte.\<close>

definition pnet_output_get_data_and_iops ::
    "u32 \<Rightarrow> u16 \<Rightarrow> u16 \<Rightarrow> u8 list \<Rightarrow> u16 \<Rightarrow> u8 \<Rightarrow> cyc_net \<Rightarrow> (int \<times> io_result \<times> cyc_net) option" where
  "pnet_output_get_data_and_iops api slot subslot dest data_len iops n = pf_cpm_get_data_and_iops api slot subslot
     \<lparr>rd_new_flag = False, rd_data = dest, rd_data_len = data_len, rd_iops = [iops], rd_iops_len = 1\<rparr> n"

definition pnet_input_get_iocs :: "u32 \<Rightarrow> u16 \<Rightarrow> u16 \<Rightarrow> u8 \<Rightarrow> cyc_net \<Rightarrow> (int \<times> u8 list \<times> u8 \<times> cyc_net) option" where
  "pnet_input_get_iocs api slot subslot iocs n = pf_cpm_get_iocs api slot subslot [iocs] 1 n"

subsection \<open>Entry of frames and timers\<close>

text \<open>Frames for other handlers, and timers of other components, are left to \<open>other\<close>.\<close>

definition cyc_recv :: "(pnal_buf \<Rightarrow> nat \<Rightarrow> cyc_net \<Rightarrow> (int \<times> cyc_net) option) \<Rightarrow> pnal_buf \<Rightarrow> cyc_net \<Rightarrow> (int \<times> cyc_net) option" where
  "cyc_recv other buf n = pf_eth_recv (\<lambda>h frame_id buf frame_pos n. case h of
       Cpm_c_data_ind p \<Rightarrow> pf_cpm_c_data_ind p frame_id buf frame_pos n
     | Other_frame_handler \<Rightarrow> other buf frame_pos n) other (eth_id_map n) buf n"

definition cyc_call :: "cyc_cb \<Rightarrow> cr_ptr \<Rightarrow> u32 \<Rightarrow> cyc_net \<Rightarrow> cyc_net option" where
  "cyc_call f p current_time n = (case f of
     Cpm_control_interval_expired \<Rightarrow> pf_cpm_control_interval_expired p n
   | Ppm_drv_sw_send \<Rightarrow> pf_ppm_drv_sw_send p current_time n
   | Other_cyc_timer \<Rightarrow> Some n)"

end
