(* ===== verification/Cyclic_Counter.thy ===== *)
theory Cyclic_Counter
  imports Cyclic_Consumer Alarm_Effects
begin

section \<open>Access to the state of cyclic data\<close>

text \<open>
  Rules for reading what an update wrote. \<open>cr_valid p n\<close>: the pointer \<open>p\<close> is in the tables of \<open>n\<close>.
\<close>

definition cr_valid :: "cr_ptr \<Rightarrow> cyc_net \<Rightarrow> bool" where
  "cr_valid p n \<longleftrightarrow> fst p < length (cy_ars n) \<and> snd p < length (cy_crs (cy_ar (fst p) n))"

lemma cy_ar_upd_cy: "a < length (cy_ars n) \<Longrightarrow> cy_ar b (upd_cy a f n) = (if b = a then f (cy_ar a n) else cy_ar b n)"
  by (simp add: cy_ar_def upd_cy_def)

lemma upd_cy_fields [simp]:
  "cy_sched (upd_cy a f n) = cy_sched n" "cy_clock (upd_cy a f n) = cy_clock n" "cpm_name (upd_cy a f n) = cpm_name n"
  "ppm_name (upd_cy a f n) = ppm_name n" "eth_id_map (upd_cy a f n) = eth_id_map n"
  "cpm_instance_cnt (upd_cy a f n) = cpm_instance_cnt n" "ppm_instance_cnt (upd_cy a f n) = ppm_instance_cnt n"
  "cy_subslot_of (upd_cy a f n) = cy_subslot_of n" "cy_alloc (upd_cy a f n) = cy_alloc n"
  "cy_send_ok (upd_cy a f n) = cy_send_ok n" "cy_outs (upd_cy a f n) = cy_outs n"
  "length (cy_ars (upd_cy a f n)) = length (cy_ars n)"
  by (simp_all add: upd_cy_def)

lemma upd_cr_fields [simp]:
  "cy_sched (upd_cr p f n) = cy_sched n" "cy_clock (upd_cr p f n) = cy_clock n" "cpm_name (upd_cr p f n) = cpm_name n"
  "ppm_name (upd_cr p f n) = ppm_name n" "eth_id_map (upd_cr p f n) = eth_id_map n"
  "cpm_instance_cnt (upd_cr p f n) = cpm_instance_cnt n" "ppm_instance_cnt (upd_cr p f n) = ppm_instance_cnt n"
  "cy_subslot_of (upd_cr p f n) = cy_subslot_of n" "cy_alloc (upd_cr p f n) = cy_alloc n"
  "cy_send_ok (upd_cr p f n) = cy_send_ok n" "cy_outs (upd_cr p f n) = cy_outs n"
  "length (cy_ars (upd_cr p f n)) = length (cy_ars n)"
  by (simp_all add: upd_cr_def)

lemma cy_emit_fields [simp]:
  "cy_sched (cy_emit os n) = cy_sched n" "cy_clock (cy_emit os n) = cy_clock n" "cpm_name (cy_emit os n) = cpm_name n"
  "ppm_name (cy_emit os n) = ppm_name n" "eth_id_map (cy_emit os n) = eth_id_map n"
  "cpm_instance_cnt (cy_emit os n) = cpm_instance_cnt n" "ppm_instance_cnt (cy_emit os n) = ppm_instance_cnt n"
  "cy_subslot_of (cy_emit os n) = cy_subslot_of n" "cy_alloc (cy_emit os n) = cy_alloc n"
  "cy_send_ok (cy_emit os n) = cy_send_ok n" "cy_outs (cy_emit os n) = cy_outs n @ os" "cy_ars (cy_emit os n) = cy_ars n"
  by (simp_all add: cy_emit_def)

text \<open>Updates of other members of \<open>cyc_net\<close>.\<close>

lemma cy_ar_quiet [simp]:
  "cy_ar a (cy_emit os n) = cy_ar a n" "cy_ar a (n\<lparr>cy_sched := s\<rparr>) = cy_ar a n" "cy_ar a (n\<lparr>eth_id_map := m\<rparr>) = cy_ar a n"
  "cy_ar a (n\<lparr>cpm_instance_cnt := k\<rparr>) = cy_ar a n" "cy_ar a (n\<lparr>ppm_instance_cnt := k\<rparr>) = cy_ar a n"
  by (simp_all add: cy_ar_def)

lemma cr_at_quiet [simp]:
  "cr_at p (cy_emit os n) = cr_at p n" "cr_at p (n\<lparr>cy_sched := s\<rparr>) = cr_at p n" "cr_at p (n\<lparr>eth_id_map := m\<rparr>) = cr_at p n"
  "cr_at p (n\<lparr>cpm_instance_cnt := k\<rparr>) = cr_at p n" "cr_at p (n\<lparr>ppm_instance_cnt := k\<rparr>) = cr_at p n"
  by (simp_all add: cr_at_def)

lemma cr_valid_quiet [simp]:
  "cr_valid p (cy_emit os n) = cr_valid p n" "cr_valid p (n\<lparr>cy_sched := s\<rparr>) = cr_valid p n"
  "cr_valid p (n\<lparr>eth_id_map := m\<rparr>) = cr_valid p n" "cr_valid p (n\<lparr>cpm_instance_cnt := k\<rparr>) = cr_valid p n"
  "cr_valid p (n\<lparr>ppm_instance_cnt := k\<rparr>) = cr_valid p n"
  by (simp_all add: cr_valid_def)

lemma cy_ar_upd_cr [simp]:
  assumes "cr_valid p n"
  shows "cy_in_use (cy_ar b (upd_cr p f n)) = cy_in_use (cy_ar b n)" "cy_arep (cy_ar b (upd_cr p f n)) = cy_arep (cy_ar b n)"
    "cy_err_cls (cy_ar b (upd_cr p f n)) = cy_err_cls (cy_ar b n)" "cy_err_code (cy_ar b (upd_cr p f n)) = cy_err_code (cy_ar b n)"
    "cy_cmsu (cy_ar b (upd_cr p f n)) = cy_cmsu (cy_ar b n)" "cy_cmio (cy_ar b (upd_cr p f n)) = cy_cmio (cy_ar b n)"
    "cy_startup_mode (cy_ar b (upd_cr p f n)) = cy_startup_mode (cy_ar b n)"
    "cy_initiator_mac (cy_ar b (upd_cr p f n)) = cy_initiator_mac (cy_ar b n)"
    "cy_responder_mac (cy_ar b (upd_cr p f n)) = cy_responder_mac (cy_ar b n)"
    "cy_nbr_iocrs (cy_ar b (upd_cr p f n)) = cy_nbr_iocrs (cy_ar b n)"
    "length (cy_crs (cy_ar b (upd_cr p f n))) = length (cy_crs (cy_ar b n))"
  using assms by (auto simp: upd_cr_def cy_ar_upd_cy cr_valid_def)

lemma cr_at_upd_cr: "cr_valid p n \<Longrightarrow> cr_at q (upd_cr p f n) = (if q = p then f (cr_at p n) else cr_at q n)"
  by (auto simp: cr_at_def upd_cr_def cy_ar_upd_cy cr_valid_def prod_eq_iff)

lemma cr_valid_upd_cr [simp]: "cr_valid p n \<Longrightarrow> cr_valid q (upd_cr p f n) = cr_valid q n"
  by (auto simp: cr_valid_def [of q])

lemma cr_at_upd [simp]:
  assumes "cr_valid p n"
  shows "cr_at q (upd_cpm p f n) = (if q = p then (cr_at p n)\<lparr>cr_cpm := f (cpm_at p n)\<rparr> else cr_at q n)"
    "cr_at q (upd_ppm p g n) = (if q = p then (cr_at p n)\<lparr>cr_ppm := g (ppm_at p n)\<rparr> else cr_at q n)"
    "cr_valid q (upd_cpm p f n) = cr_valid q n" "cr_valid q (upd_ppm p g n) = cr_valid q n"
  using assms by (simp_all add: upd_cpm_def upd_ppm_def cr_at_upd_cr)

lemma cy_ar_upd [simp]:
  assumes "cr_valid p n"
  shows "cy_in_use (cy_ar b (upd_cpm p f n)) = cy_in_use (cy_ar b n)" "cy_arep (cy_ar b (upd_cpm p f n)) = cy_arep (cy_ar b n)"
    "cy_cmsu (cy_ar b (upd_cpm p f n)) = cy_cmsu (cy_ar b n)" "cy_cmio (cy_ar b (upd_cpm p f n)) = cy_cmio (cy_ar b n)"
    "cy_startup_mode (cy_ar b (upd_cpm p f n)) = cy_startup_mode (cy_ar b n)"
    "cy_nbr_iocrs (cy_ar b (upd_cpm p f n)) = cy_nbr_iocrs (cy_ar b n)"
    "length (cy_crs (cy_ar b (upd_cpm p f n))) = length (cy_crs (cy_ar b n))"
    "cy_in_use (cy_ar b (upd_ppm p g n)) = cy_in_use (cy_ar b n)" "cy_arep (cy_ar b (upd_ppm p g n)) = cy_arep (cy_ar b n)"
    "cy_cmsu (cy_ar b (upd_ppm p g n)) = cy_cmsu (cy_ar b n)" "cy_cmio (cy_ar b (upd_ppm p g n)) = cy_cmio (cy_ar b n)"
    "cy_startup_mode (cy_ar b (upd_ppm p g n)) = cy_startup_mode (cy_ar b n)"
    "cy_nbr_iocrs (cy_ar b (upd_ppm p g n)) = cy_nbr_iocrs (cy_ar b n)"
    "length (cy_crs (cy_ar b (upd_ppm p g n))) = length (cy_crs (cy_ar b n))"
  using assms by (simp_all add: upd_cpm_def upd_ppm_def)

lemma mac_upd [simp]:
  assumes "cr_valid p n"
  shows "cy_initiator_mac (cy_ar b (upd_cpm p f n)) = cy_initiator_mac (cy_ar b n)"
    "cy_responder_mac (cy_ar b (upd_cpm p f n)) = cy_responder_mac (cy_ar b n)"
    "cy_initiator_mac (cy_ar b (upd_ppm p g n)) = cy_initiator_mac (cy_ar b n)"
    "cy_responder_mac (cy_ar b (upd_ppm p g n)) = cy_responder_mac (cy_ar b n)"
  using assms by (simp_all add: upd_cpm_def upd_ppm_def)

lemma upd_cpm_fields [simp]:
  "cy_sched (upd_cpm p f n) = cy_sched n" "cy_clock (upd_cpm p f n) = cy_clock n" "cpm_name (upd_cpm p f n) = cpm_name n"
  "ppm_name (upd_cpm p f n) = ppm_name n" "eth_id_map (upd_cpm p f n) = eth_id_map n"
  "cpm_instance_cnt (upd_cpm p f n) = cpm_instance_cnt n" "ppm_instance_cnt (upd_cpm p f n) = ppm_instance_cnt n"
  "cy_subslot_of (upd_cpm p f n) = cy_subslot_of n" "cy_alloc (upd_cpm p f n) = cy_alloc n"
  "cy_send_ok (upd_cpm p f n) = cy_send_ok n" "cy_outs (upd_cpm p f n) = cy_outs n"
  "length (cy_ars (upd_cpm p f n)) = length (cy_ars n)"
  by (simp_all add: upd_cpm_def)

lemma upd_ppm_fields [simp]:
  "cy_sched (upd_ppm p f n) = cy_sched n" "cy_clock (upd_ppm p f n) = cy_clock n" "cpm_name (upd_ppm p f n) = cpm_name n"
  "ppm_name (upd_ppm p f n) = ppm_name n" "eth_id_map (upd_ppm p f n) = eth_id_map n"
  "cpm_instance_cnt (upd_ppm p f n) = cpm_instance_cnt n" "ppm_instance_cnt (upd_ppm p f n) = ppm_instance_cnt n"
  "cy_subslot_of (upd_ppm p f n) = cy_subslot_of n" "cy_alloc (upd_ppm p f n) = cy_alloc n"
  "cy_send_ok (upd_ppm p f n) = cy_send_ok n" "cy_outs (upd_ppm p f n) = cy_outs n"
  "length (cy_ars (upd_ppm p f n)) = length (cy_ars n)"
  by (simp_all add: upd_ppm_def)

text \<open>An AR beside its CRs.\<close>

lemma cr_at_upd_cy:
  assumes "a < length (cy_ars n)" "\<And>r. cy_crs (f r) = cy_crs r"
  shows "cr_at p (upd_cy a f n) = cr_at p n" "cr_valid p (upd_cy a f n) = cr_valid p n"
  using assms by (auto simp: cr_at_def cr_valid_def cy_ar_upd_cy)

lemma set_err_simps [simp]:
  assumes "a < length (cy_ars n)"
  shows "cr_at p (cy_set_err a cls code n) = cr_at p n" "cr_valid p (cy_set_err a cls code n) = cr_valid p n"
    "cy_cmio (cy_ar b (cy_set_err a cls code n)) = cy_cmio (cy_ar b n)"
    "cy_cmsu (cy_ar b (cy_set_err a cls code n)) = cy_cmsu (cy_ar b n)"
    "cy_startup_mode (cy_ar b (cy_set_err a cls code n)) = cy_startup_mode (cy_ar b n)"
    "cy_in_use (cy_ar b (cy_set_err a cls code n)) = cy_in_use (cy_ar b n)"
    "cy_nbr_iocrs (cy_ar b (cy_set_err a cls code n)) = cy_nbr_iocrs (cy_ar b n)"
  using assms by (auto simp: cy_set_err_def cr_at_upd_cy cy_ar_upd_cy)

lemma set_err_fields [simp]:
  "cy_sched (cy_set_err a cls code n) = cy_sched n" "cy_clock (cy_set_err a cls code n) = cy_clock n"
  "eth_id_map (cy_set_err a cls code n) = eth_id_map n" "cy_outs (cy_set_err a cls code n) = cy_outs n"
  "length (cy_ars (cy_set_err a cls code n)) = length (cy_ars n)"
  by (simp_all add: cy_set_err_def)

lemma cr_valid_fst: "cr_valid p n \<Longrightarrow> fst p < length (cy_ars n)"
  by (simp add: cr_valid_def)

text \<open>Changes of PPM and CPM do not move submodules.\<close>

lemma desc_cong:
  assumes "cy_subslot_of z = cy_subslot_of y" "\<And>a. cy_nbr_iocrs (cy_ar a z) = cy_nbr_iocrs (cy_ar a y)"
    "\<And>q. cr_param (cr_at q z) = cr_param (cr_at q y)" "\<And>q. cr_data_desc (cr_at q z) = cr_data_desc (cr_at q y)"
  shows "get_ar_iocr_desc dir api slot subslot z = get_ar_iocr_desc dir api slot subslot y"
proof -
  have "find_desc api slot subslot (cr_at q z) = find_desc api slot subslot (cr_at q y)" for q
    by (simp add: find_desc_def assms(4))
  then show ?thesis unfolding get_ar_iocr_desc_def assms(1-3) by simp
qed


section \<open>The cycle counter\<close>

text \<open>
  The provider counts its frames in units of 31.25 microseconds, modulo 2^16; the consumer takes a
  frame when its counter is ahead of the last one. \<open>interval\<close> is the time between two frames in
  these units.
\<close>

definition interval :: "u16 \<Rightarrow> u16 \<Rightarrow> nat" where
  "interval scf rr = unat scf * unat rr"

lemma unat_widen [simp]:
  "unat (ucast (x :: u16) :: u32) = unat x" "unat (ucast (y :: u32) :: 64 word) = unat y"
  using mod_less [OF less_trans [OF unat_u16_less [of x], of 4294967296]]
    mod_less [OF less_trans [OF unat_u32_less [of y], of 18446744073709551616]]
  by (simp_all add: unsigned_ucast_eq take_bit_eq_mod)

lemma unat_cut: "unat (ucast x :: 'b::len word) = unat x mod 2 ^ LENGTH('b)"
  by (simp add: unsigned_ucast_eq take_bit_eq_mod)

lemma transmission_interval_word:
  assumes "interval scf rr < 2 ^ 31"
  shows "\<exists>w. transmission_interval scf rr = Some w \<and> unat w = interval scf rr"
  using assms
  by (auto simp: transmission_interval_def interval_def unat_word_ariths)

lemma next_counter:
  assumes "0 < interval scf rr" "interval scf rr < 2 ^ 31"
  shows "\<exists>d. pf_ppm_calculate_next_cyclecounter c scf rr = Some d \<and>
    unat d = ((unat c div interval scf rr + 1) * interval scf rr) mod 2 ^ 16"
proof -
  define i where "i = interval scf rr"
  obtain w where w: "transmission_interval scf rr = Some w" "unat w = i"
    using transmission_interval_word assms(2) by (auto simp: i_def)
  define q where "q = (ucast (ucast c div w) :: u16)"
  have small: "unat c div i < 2 ^ 16" using le_less_trans [OF div_le_dividend unat_u16_less] by simp
  have "unat (ucast c div w :: u32) = unat c div i" by (simp add: unat_div w(2))
  then have q: "unat q = unat c div i" using small by (simp add: q_def unat_cut)
  have "unat c div i * i \<le> unat c" by simp
  moreover have "i < 2147483648" using assms(2) by (simp add: i_def)
  ultimately have "unat c div i * i + 1 * i < 4294967296" using unat_u16_less [of c] by linarith
  then have "(unat c div i + 1) * i < 2 ^ 32" by (simp add: add.commute)
  then have "unat ((ucast q + 1) * w :: u32) = (unat c div i + 1) * i"
    using small by (simp add: unat_word_ariths w(2) q)
  then have "unat (ucast ((ucast q + 1) * w) :: u16) = ((unat c div i + 1) * i) mod 2 ^ 16"
    by (simp add: unat_cut)
  moreover have "w \<noteq> 0" using assms(1) w(2) by (auto simp: i_def)
  ultimately show ?thesis using w(1) by (simp add: pf_ppm_calculate_next_cyclecounter_def q_def i_def Let_def)
qed

lemma check_cycle_iff:
  "pf_cpm_check_cycle (uint c) d = 0 \<longleftrightarrow> 1 \<le> unat (d - c) \<and> unat (d - c) \<le> 61440"
proof -
  have "(d - c \<ge> 1) = (unat (d - c) \<ge> 1)" "(d - c \<le> 61440) = (unat (d - c) \<le> 61440)"
    by (simp_all add: word_le_nat_alt)
  then show ?thesis by (simp add: pf_cpm_check_cycle_def Let_def)
qed

lemma ahead:
  fixes c d :: u16
  assumes "unat d = (unat c + k) mod 2 ^ 16" "k < 2 ^ 16"
  shows "unat (d - c) = k"
proof -
  have "d = c + of_nat k" using assms(1) by (simp add: word_unat_eq_iff unat_word_ariths unat_of_nat mod_simps)
  then show ?thesis using assms(2) by (simp add: unat_of_nat)
qed

lemma next_frame_fits:
  assumes "0 < unat scf * unat rr" "unat scf * unat rr \<le> 61440"
  shows "\<exists>d. pf_ppm_calculate_next_cyclecounter c scf rr = Some d \<and>
    unat d = ((unat c div (unat scf * unat rr) + 1) * (unat scf * unat rr)) mod 2 ^ 16 \<and>
    pf_cpm_check_cycle (uint c) d = 0"
proof -
  let ?i = "interval scf rr"
  obtain d where d: "pf_ppm_calculate_next_cyclecounter c scf rr = Some d" "unat d = ((unat c div ?i + 1) * ?i) mod 2 ^ 16"
    using next_counter [of scf rr c] assms by (auto simp: interval_def)
  have less: "unat c mod ?i < ?i" using assms(1) by (simp add: interval_def)
  moreover have "unat c div ?i * ?i + unat c mod ?i = unat c" by (rule div_mult_mod_eq)
  ultimately have "(unat c div ?i + 1) * ?i = unat c + (?i - unat c mod ?i)" unfolding distrib_right by linarith
  then have "unat (d - c) = ?i - unat c mod ?i"
    using d(2) assms by (intro ahead) (simp_all add: interval_def)
  then have "1 \<le> unat (d - c) \<and> unat (d - c) \<le> 61440"
    using less assms(2) unfolding interval_def by linarith
  then show ?thesis using d by (simp only: check_cycle_iff) (simp add: interval_def)
qed

text \<open>C8: The counter of the next frame is the next multiple of the interval, modulo 2^16, for every
  counter and every interval from 1 to 61440 units; a consumer whose last frame had the old counter takes a
  frame with the new one. So no frame is refused at the wrap-around.\<close>

theorem next_frame_accepted:
  assumes "0 < unat scf * unat rr" "unat scf * unat rr \<le> 61440"
  shows "\<exists>d. pf_ppm_calculate_next_cyclecounter c scf rr = Some d \<and>
    unat d = ((unat c div (unat scf * unat rr) + 1) * (unat scf * unat rr)) mod 2 ^ 16 \<and>
    pf_cpm_check_cycle (uint c) d = 0"
  by (rule next_frame_fits [OF assms])

text \<open>For a send clock factor of 2 and a reduction ratio of 4, at the wrap-around.\<close>

lemma next_frame_accepted_witness:
  "\<exists>d. pf_ppm_calculate_next_cyclecounter 65528 2 4 = Some d \<and> unat d = 0 \<and> pf_cpm_check_cycle 65528 d = 0"
  using next_frame_accepted [of 2 4 65528] by simp

subsection \<open>The counters of a run\<close>

primrec cycles :: "u16 \<Rightarrow> u16 \<Rightarrow> nat \<Rightarrow> u16 option" where
  "cycles scf rr 0 = Some 0"
| "cycles scf rr (Suc k) = do { c \<leftarrow> cycles scf rr k; pf_ppm_calculate_next_cyclecounter c scf rr }"

text \<open>When the interval divides 2^16, as it does for all powers of two, the \<open>k\<close>-th frame after the
  creation of a PPM has the counter \<open>k\<close> times the interval, modulo 2^16: the counter always is a
  multiple of the interval and wraps around to 0.\<close>

theorem counter_of_frame:
  assumes "unat scf * unat rr dvd 2 ^ 16"
  shows "\<exists>c. cycles scf rr k = Some c \<and> unat c = (k * (unat scf * unat rr)) mod 2 ^ 16"
proof (induction k)
  case (Suc k)
  let ?i = "interval scf rr"
  have i: "?i dvd 2 ^ 16" using assms by (simp add: interval_def)
  have pos: "0 < ?i" using i by (auto intro: Nat.gr0I)
  have le: "?i \<le> 2 ^ 16" using i by (auto dest: dvd_imp_le)
  obtain c where c: "cycles scf rr k = Some c" "unat c = (k * ?i) mod 2 ^ 16" using Suc.IH by (auto simp: interval_def)
  have "?i dvd unat c" unfolding c(2) using i by (simp add: dvd_mod)
  then have "(unat c div ?i + 1) * ?i = unat c + ?i" by (simp add: algebra_simps)
  then have "((unat c div ?i + 1) * ?i) mod 2 ^ 16 = (Suc k * ?i) mod 2 ^ 16" by (simp add: c(2) mod_simps add.commute)
  with next_counter [OF pos, of c] le c(1) show ?case by (auto simp: interval_def)
qed simp

lemma counter_of_frame_witness: "\<exists>c. cycles 32 1 4096 = Some c \<and> unat c = 0"
  using counter_of_frame [of 32 1 4096] by simp

text \<open>For other intervals the counter is no multiple of the interval after the wrap-around.\<close>

lemma not_a_multiple: "pf_ppm_calculate_next_cyclecounter 65472 32 3 = Some 32"
  by (simp add: pf_ppm_calculate_next_cyclecounter_def transmission_interval_def)

text \<open>A CPM that never saw a frame refuses a first frame with a counter of 61440 or more.\<close>

lemma first_frame_refused: "pf_cpm_check_cycle (- 1) d = 0 \<longleftrightarrow> unat d < 61440"
proof -
  have u: "unat (d + 1) = (if unat d = 65535 then 0 else unat d + 1)"
    using le_less_trans [OF Suc_leI [OF unat_u16_less [of d]], of 65537] by (auto simp: unat_word_ariths mod_Suc)
  have "(d + 1 \<ge> 1 \<and> d + 1 \<le> 61440) = (unat d < 61440)"
    unfolding word_le_nat_alt u by (cases "unat d = 65535") auto
  then show ?thesis by (simp add: pf_cpm_check_cycle_def)
qed

text \<open>The counter of a time is the last multiple of the interval, before it is cut to 16 bits.\<close>

lemma counter_of_time:
  assumes "0 < interval scf rr" "interval scf rr < 2 ^ 31"
  shows "\<exists>c. pf_ppm_calculate_cyclecounter t scf rr = Some c \<and>
    unat c = ((32 * unat t div 1000) div interval scf rr * interval scf rr) mod 2 ^ 16"
proof -
  define i where "i = interval scf rr"
  obtain w where w: "transmission_interval scf rr = Some w" "unat w = i"
    using transmission_interval_word assms(2) by (auto simp: i_def)
  have t: "unat t < 2 ^ 32" using unat_u32_less [of t] by simp
  have "32 * unat t < 18446744073709551616" using unat_u32_less [of t] by linarith
  then have "unat (32 * ucast t :: 64 word) = 32 * unat t" by (simp add: unat_word_ariths)
  moreover define x where "x = ((32 * ucast t) div 1000 :: 64 word)"
  ultimately have raw: "unat x = 32 * unat t div 1000" by (simp add: unat_div)
  have "32 * unat t div 1000 < 4294967296" using unat_u32_less [of t] by linarith
  then have r: "unat x < 2 ^ 32" by (simp add: raw)
  have "unat x div i < 2 ^ 32" using le_less_trans [OF div_le_dividend r] .
  then have m: "unat (ucast (x div ucast w) :: u32) = unat x div i" by (simp add: unat_cut unat_div w(2))
  have "unat x div i * i < 2 ^ 32" using le_less_trans [OF div_times_less_eq_dividend r] .
  then have "unat (ucast (x div ucast w) * w :: u32) = unat x div i * i" by (simp add: unat_word_ariths m w(2))
  then have "unat (ucast (ucast (x div ucast w) * w :: u32) :: u16) = (unat x div i * i) mod 2 ^ 16" by (simp add: unat_cut)
  moreover have "w \<noteq> 0" using assms(1) w(2) by (auto simp: i_def)
  ultimately show ?thesis
    using w(1) raw [symmetric] by (simp add: pf_ppm_calculate_cyclecounter_def i_def x_def Let_def)
qed

end
