(* ===== verification/Cyclic_Exchange.thy ===== *)
theory Cyclic_Exchange
  imports Cyclic_Counter
begin

section \<open>Cyclic frames\<close>

text \<open>
  The bytes of a cyclic frame: \<open>header\<close> has 20 bytes with the addresses, a VLAN tag, the Ethertype and
  the frame ID; then \<open>n\<close> bytes of data, the cycle counter, the data status and the transfer status.
\<close>

definition frame_header :: "u8 list \<Rightarrow> u8 list \<Rightarrow> u16 \<Rightarrow> u16 \<Rightarrow> u8 list" where
  "frame_header da sa tag frame_id = da @ sa @ enc16 True PNAL_ETHTYPE_VLAN @ enc16 True tag @
     enc16 True PNAL_ETHTYPE_PROFINET @ enc16 True frame_id"

definition cyclic_frame :: "u8 list \<Rightarrow> u8 list \<Rightarrow> u16 \<Rightarrow> u8 \<Rightarrow> u8 \<Rightarrow> u8 list" where
  "cyclic_frame header d cycle ds ts = header @ d @ enc16 True cycle @ [ds, ts]"

lemma length_frame [simp]:
  "length (frame_header da sa tag i) = length da + length sa + 8"
  "length (cyclic_frame h d c ds ts) = length h + length d + 4"
  by (simp_all add: frame_header_def cyclic_frame_def)

subsection \<open>Reading and writing\<close>

lemma peek_append: "peek (length xs) (length ys) (xs @ ys @ zs) = Some ys"
  by (simp add: peek_def)

lemma peek_at: "pos = length xs \<Longrightarrow> k = length ys \<Longrightarrow> peek pos k (xs @ ys @ zs) = Some ys"
  by (simp add: peek_def)

lemma peek16_at: "pos = length xs \<Longrightarrow> peek16 pos (xs @ enc16 True w @ zs) = Some w"
  using u16_from_bytes [of w] by (simp add: peek16_def enc16_def Let_def nth_append)

lemma poke_length: "poke pos xs b = Some b' \<Longrightarrow> length b' = length b"
  by (auto simp: poke_def split: if_splits)

subsection \<open>The frame that a provider sends\<close>

text \<open>
  \<open>provider_ok m header n k\<close>: the PPM has a buffer for frames with this header and \<open>n\<close> bytes of data, of
  which it fills the first \<open>k\<close>.
\<close>

definition provider_ok :: "ppm \<Rightarrow> u8 list \<Rightarrow> nat \<Rightarrow> nat \<Rightarrow> bool" where
  "provider_ok m header n k \<longleftrightarrow> (\<exists>b. p_send_buffer m = Live_buf b \<and> n + 24 \<le> length (buf_payload b) \<and>
       take 20 (buf_payload b) = header \<and> buf_len b = of_nat (n + 24)) \<and>
     n + 24 < 65536 \<and> k \<le> n \<and> k \<le> length (buffer_data m) \<and> ppm_buffer_pos m = 20 \<and>
     cycle_counter_offset m = of_nat (n + 20) \<and> data_status_offset m = of_nat (n + 22) \<and>
     transfer_status_offset m = of_nat (n + 23) \<and>
     0 < interval (ppm_send_clock_factor m) (ppm_reduction_ratio m) \<and>
     interval (ppm_send_clock_factor m) (ppm_reduction_ratio m) \<le> 61440"

lemma finish_buffer:
  assumes "provider_ok m header n k" "k < 65536"
  obtains c b d where "pf_ppm_calculate_next_cyclecounter (ppm_cycle m) (ppm_send_clock_factor m) (ppm_reduction_ratio m) = Some c"
    "pf_ppm_finish_buffer (of_nat k) m = Some (m\<lparr>ppm_cycle := c, p_send_buffer := Live_buf b\<rparr>)"
    "buf_len b = of_nat (n + 24)" "n + 24 \<le> length (buf_payload b)"
    "take (n + 24) (buf_payload b) = cyclic_frame header d c (ppm_data_status m) (transfer_status m)"
    "length d = n" "take k d = take k (buffer_data m)" "provider_ok (m\<lparr>ppm_cycle := c, p_send_buffer := Live_buf b\<rparr>) header n k"
proof -
  obtain b where b: "p_send_buffer m = Live_buf b" "n + 24 \<le> length (buf_payload b)"
      "take 20 (buf_payload b) = header" "buf_len b = of_nat (n + 24)"
    and n: "n + 24 < 65536" "k \<le> n" "k \<le> length (buffer_data m)" and pos: "ppm_buffer_pos m = 20"
      "cycle_counter_offset m = of_nat (n + 20)" "data_status_offset m = of_nat (n + 22)"
      "transfer_status_offset m = of_nat (n + 23)"
    and i: "0 < interval (ppm_send_clock_factor m) (ppm_reduction_ratio m)"
      "interval (ppm_send_clock_factor m) (ppm_reduction_ratio m) \<le> 61440"
    using assms(1) unfolding provider_ok_def by blast
  obtain c where c: "pf_ppm_calculate_next_cyclecounter (ppm_cycle m) (ppm_send_clock_factor m) (ppm_reduction_ratio m) = Some c"
    using next_counter [OF i(1), of "ppm_cycle m"] i(2) by auto
  have u: "unat (of_nat (n + j) :: u16) = n + j" if "j \<le> 24" for j
    using n(1) that by (simp add: unat_of_nat del: of_nat_add)
  define P where "P = buf_payload b"
  define xs where "xs = take k (buffer_data m)"
  have xs: "length xs = k" using n(3) by (simp add: xs_def)
  define P1 where "P1 = overwrite 20 xs P"
  define P2 where "P2 = overwrite (n + 20) (enc16 True c @ [ppm_data_status m, transfer_status m]) P1"
  have len: "n + 24 \<le> length P" "length P1 = length P" "length P2 = length P" "length (enc16 True c) = 2"
    using b(2) xs n(2) by (simp_all add: P_def P1_def P2_def)
  have "overwrite (n + 22) [ppm_data_status m] (overwrite (n + 20) (enc16 True c) P1) =
      overwrite (n + 20) (enc16 True c @ [ppm_data_status m]) P1"
    using overwrite_append [of "n + 20" "enc16 True c" "[ppm_data_status m]" P1] len by (simp add: numeral_eq_Suc)
  moreover have "overwrite (n + 23) [transfer_status m] (overwrite (n + 20) (enc16 True c @ [ppm_data_status m]) P1) = P2"
    using overwrite_append [of "n + 20" "enc16 True c @ [ppm_data_status m]" "[transfer_status m]" P1] len
    by (simp add: P2_def numeral_eq_Suc)
  ultimately have f: "pf_ppm_finish_buffer (of_nat k) m = Some (m\<lparr>ppm_cycle := c, p_send_buffer := Live_buf (b\<lparr>buf_payload := P2\<rparr>)\<rparr>)"
    using n assms(2) b(1) c pos len u [of 20] u [of 22] u [of 23] xs
    by (simp add: pf_ppm_finish_buffer_def live_def peek_def poke_def unat_of_nat Let_def flip: P_def xs_def P1_def)
  define d where "d = xs @ take (n - k) (drop (k + 20) P)"
  have hd: "length header = 20" using b(2,3) by auto
  have "take (n + 20) P1 = header @ d"
    using b(3) len(1) n(2) xs hd by (simp add: P1_def overwrite_def d_def P_def add.commute)
  moreover have "length d = n" using len(1) n(2) xs by (simp add: d_def)
  ultimately have t: "take (n + 24) P2 = cyclic_frame header d c (ppm_data_status m) (transfer_status m)"
    using len hd by (simp add: P2_def overwrite_def cyclic_frame_def)
  have "take 20 P2 = take 20 (take (n + 24) P2)" by (simp add: min_def)
  also have "\<dots> = header" unfolding t by (simp add: cyclic_frame_def hd)
  finally have "take 20 P2 = header" .
  then have "provider_ok (m\<lparr>ppm_cycle := c, p_send_buffer := Live_buf (b\<lparr>buf_payload := P2\<rparr>)\<rparr>) header n k"
    using assms(1) len(1,3) by (simp add: provider_ok_def b(4))
  then show ?thesis
    using that [of c "b\<lparr>buf_payload := P2\<rparr>" d] c f t len n(2) xs b(4) by (simp add: d_def xs_def)
qed

text \<open>A new PPM has a buffer for the frames of its CR.\<close>

lemma upd_ppm_const: "cr_valid p x \<Longrightarrow> upd_ppm p f x = upd_ppm p (\<lambda>_. f (ppm_at p x)) x"
  by (simp add: upd_ppm_def upd_cr_def upd_cy_def upd_def cr_valid_def cr_at_def cy_ar_def)

lemma create_provides:
  assumes "cr_valid p x" "ppm_state (ppm_at p x) = PF_PPM_STATE_W_START" "cy_alloc x (length (cy_outs x)) = Some b"
    and "n = unat (ip_c_sdu_length (cr_param (cr_at p x)))" "n + 24 \<le> length (buf_payload b)" "n + 24 < 65536"
    and "length (cy_initiator_mac (cy_ar (fst p) x)) = 6" "length (cy_responder_mac (cy_ar (fst p) x)) = 6"
    and "k \<le> n" "k \<le> length (buffer_data (ppm_at p x))"
    and "0 < interval (ip_send_clock_factor (cr_param (cr_at p x))) (ip_reduction_ratio (cr_param (cr_at p x)))"
      "interval (ip_send_clock_factor (cr_param (cr_at p x))) (ip_reduction_ratio (cr_param (cr_at p x))) \<le> 61440"
  obtains y tag where "pf_ppm_create p x = Some (0, y)"
    "provider_ok (ppm_at p y) (frame_header (cy_initiator_mac (cy_ar (fst p) x)) (cy_responder_mac (cy_ar (fst p) x)) tag
      (ip_frame_id (cr_param (cr_at p x)))) n k"
    "transfer_status (ppm_at p y) = 0" "ppm_data_status (ppm_at p y) = 0x25" "ppm_cycle (ppm_at p y) = 0"
    "ppm_send_clock_factor (ppm_at p y) = ip_send_clock_factor (cr_param (cr_at p x))"
    "ppm_reduction_ratio (ppm_at p y) = ip_reduction_ratio (cr_param (cr_at p x))"
    "ppm_state (ppm_at p y) = PF_PPM_STATE_W_START" "cr_in_length (cr_at p y) = cr_in_length (cr_at p x)"
    "cr_data_desc (cr_at p y) = cr_data_desc (cr_at p x)" "cr_valid p y" "cy_sched y = cy_sched x" "cy_send_ok y = cy_send_ok x"
    "pf_ppm_get_ar_iocr_desc api slot subslot y = pf_ppm_get_ar_iocr_desc api slot subslot x"
proof -
  let ?ip = "cr_param (cr_at p x)" and ?r = "cy_ar (fst p) x"
  define tag where "tag = (ip_vlan_id ?ip AND 0x0FFF) OR push_bit 13 (ip_iocr_user_priority ?ip AND 7)"
  define h where "h = frame_header (cy_initiator_mac ?r) (cy_responder_mac ?r) tag (ip_frame_id ?ip)"
  let ?m = "pf_ppm_init_cr_config ?r ?ip (ppm_at p x)"
  have sdu: "ip_c_sdu_length ?ip = of_nat n" unfolding assms(4) by simp
  have "ppm_buffer_length ?m = ip_c_sdu_length ?ip + of_nat 24"
    by (simp add: pf_ppm_init_cr_config_def Let_def)
  then have l: "unat (ppm_buffer_length ?m) = n + 24"
    using unat_add_of_nat [of "ip_c_sdu_length ?ip" 24] assms(6) unfolding assms(4) by simp
  have h: "length h = 20" using assms(7,8) by (simp add: h_def)
  define B where "B = overwrite 0 h (overwrite 0 (replicate (n + 24) 0) (buf_payload b))"
  have B: "length B = length (buf_payload b)" "take 20 B = h"
    using assms(5) h by (simp_all add: B_def overwrite_def)
  have m: "ppm_da ?m = cy_initiator_mac ?r" "ppm_sa ?m = cy_responder_mac ?r" by (simp_all add: pf_ppm_init_cr_config_def Let_def)
  have "poke 0 (replicate (n + 24) 0) (buf_payload b) = Some (overwrite 0 (replicate (n + 24) 0) (buf_payload b))"
    "poke 0 h (overwrite 0 (replicate (n + 24) 0) (buf_payload b)) = Some B"
    using assms(5) h by (simp_all add: poke_def B_def)
  then have i: "pf_ppm_init_buf ?m (ip_frame_id ?ip) ?ip b = Some \<lparr>buf_payload = B, buf_len = ppm_buffer_length ?m\<rparr>"
    unfolding pf_ppm_init_buf_def Let_def l m by (simp add: h_def frame_header_def tag_def)
  have bl: "ppm_buffer_length ?m = of_nat (n + 24)" using l by (metis of_nat_unat ucast_id)
  let ?m' = "?m\<lparr>p_send_buffer := Live_buf \<lparr>buf_payload = B, buf_len = ppm_buffer_length ?m\<rparr>\<rparr>"
  let ?n1 = "cy_emit [Cy_alloc True] (upd_ppm p (\<lambda>_. ?m) (x\<lparr>ppm_instance_cnt := ppm_instance_cnt x + 1\<rparr>))"
  let ?y = "upd_ppm p (p_send_buffer_update (\<lambda>_. Live_buf \<lparr>buf_payload = B, buf_len = ppm_buffer_length ?m\<rparr>)) ?n1"
  have "upd_ppm p (pf_ppm_init_cr_config ?r ?ip) (x\<lparr>ppm_instance_cnt := ppm_instance_cnt x + 1\<rparr>) =
      upd_ppm p (\<lambda>_. ?m) (x\<lparr>ppm_instance_cnt := ppm_instance_cnt x + 1\<rparr>)"
    using upd_ppm_const [of p "x\<lparr>ppm_instance_cnt := ppm_instance_cnt x + 1\<rparr>" "pf_ppm_init_cr_config ?r ?ip"] assms(1) by simp
  then have "pf_ppm_create p x = Some (0, ?y)"
    using assms(1-3) i by (simp add: pf_ppm_create_def Let_def)
  moreover have "provider_ok (ppm_at p ?y) (frame_header (cy_initiator_mac ?r) (cy_responder_mac ?r) tag (ip_frame_id ?ip)) n k"
    using assms(1,6,9-12) B assms(5) bl by (simp add: provider_ok_def h_def sdu) (simp add: pf_ppm_init_cr_config_def Let_def sdu)
  ultimately show ?thesis
  proof (rule that)
    show "pf_ppm_get_ar_iocr_desc api slot subslot ?y = pf_ppm_get_ar_iocr_desc api slot subslot x"
      unfolding pf_ppm_get_ar_iocr_desc_def using assms(1) by (subst desc_cong [of _ x]) auto
  qed (use assms(1,2) in \<open>simp_all add: pf_ppm_init_cr_config_def Let_def PNET_DATA_STATUS_BIT_STATE_def
         PNET_DATA_STATUS_BIT_DATA_VALID_def PNET_DATA_STATUS_BIT_STATION_PROBLEM_INDICATOR_def\<close>)
qed


section \<open>From one application to the other\<close>

text \<open>
  The application of a provider writes data, the provider sends a frame, a consumer on another station
  takes it and its application reads the data.
\<close>

subsection \<open>Sending\<close>

definition timers_free :: "nat \<Rightarrow> ('f, 'a) sched \<Rightarrow> bool" where
  "timers_free k s \<longleftrightarrow> (\<exists>busy free. sched_rel s busy free \<and> k \<le> length free \<and> tick_interval s \<le> PF_SCHEDULER_MAX_DELAY_US)"

lemma timers_free_add:
  assumes "timers_free (Suc k) s"
  obtains h' s' where "pf_scheduler_add now w f a h s = Some (0, h', s')" "timers_free k s'"
proof -
  obtain busy x fs where r: "sched_rel s busy (x # fs)" "k \<le> length fs" "tick_interval s \<le> PF_SCHEDULER_MAX_DELAY_US"
    using assms unfolding timers_free_def by (metis Suc_le_length_iff)
  then have "0 < tick_interval s" by (simp add: sched_rel_def)
  then obtain d where d: "pf_scheduler_sanitize_delay w (tick_interval s) True = Some d" using sanitize_delay r(3) by blast
  obtain s' busy' where "pf_scheduler_add now w f a h s = Some (0, h\<lparr>timer_index := x + 1\<rparr>, s')" "sched_rel s' busy' fs"
    "others_kept x s s'" using pf_scheduler_add_ok [OF r(1) d, of now f a h] by blast
  then show ?thesis using that r(2,3) by (auto simp: timers_free_def others_kept_def)
qed

text \<open>\<open>sends p header n x\<close>: the PPM runs, Ethernet takes the next frame and a timer is free.\<close>

definition sends :: "cr_ptr \<Rightarrow> u8 list \<Rightarrow> nat \<Rightarrow> cyc_net \<Rightarrow> bool" where
  "sends p header n x \<longleftrightarrow> cr_valid p x \<and> ppm_ci_running (ppm_at p x) \<and> transfer_status (ppm_at p x) = 0 \<and>
     provider_ok (ppm_at p x) header n (unat (cr_in_length (cr_at p x))) \<and> cy_send_ok x (length (cy_outs x)) \<and>
     timers_free 1 (cy_sched x)"

lemma send_frame:
  assumes "sends p header n x"
  obtains c d y where "pf_ppm_calculate_next_cyclecounter (ppm_cycle (ppm_at p x)) (ppm_send_clock_factor (ppm_at p x))
      (ppm_reduction_ratio (ppm_at p x)) = Some c"
    "pf_ppm_drv_sw_send p t x = Some y"
    "cy_outs y = cy_outs x @ [Cy_send (cyclic_frame header d c (ppm_data_status (ppm_at p x)) 0)]"
    "length d = n" "take (unat (cr_in_length (cr_at p x))) d = take (unat (cr_in_length (cr_at p x))) (buffer_data (ppm_at p x))"
proof -
  let ?n1 = "upd_ppm p (\<lambda>m. m\<lparr>ppm_ci_timeout := pf_scheduler_reset_handle (ppm_ci_timeout m)\<rparr>) x"
  let ?k = "unat (cr_in_length (cr_at p x))"
  have v: "cr_valid p x" and running: "ppm_ci_running (ppm_at p x)" "cy_send_ok x (length (cy_outs x))" "timers_free 1 (cy_sched x)"
    and ts: "transfer_status (ppm_at p x) = 0" and ok: "provider_ok (ppm_at p x) header n ?k"
    using assms by (simp_all add: sends_def)
  have ok1: "provider_ok (ppm_at p ?n1) header n ?k" using ok v by (simp add: provider_ok_def)
  obtain c b d where f: "pf_ppm_calculate_next_cyclecounter (ppm_cycle (ppm_at p ?n1)) (ppm_send_clock_factor (ppm_at p ?n1))
      (ppm_reduction_ratio (ppm_at p ?n1)) = Some c"
    "pf_ppm_finish_buffer (of_nat ?k) (ppm_at p ?n1) = Some ((ppm_at p ?n1)\<lparr>ppm_cycle := c, p_send_buffer := Live_buf b\<rparr>)"
    "buf_len b = of_nat (n + 24)" "n + 24 \<le> length (buf_payload b)"
    "take (n + 24) (buf_payload b) = cyclic_frame header d c (ppm_data_status (ppm_at p ?n1)) (transfer_status (ppm_at p ?n1))"
    "length d = n" "take ?k d = take ?k (buffer_data (ppm_at p ?n1))"
    by (rule finish_buffer [OF ok1]) simp
  let ?m = "(ppm_at p ?n1)\<lparr>ppm_cycle := c, p_send_buffer := Live_buf b\<rparr>"
  let ?frame = "cyclic_frame header d c (ppm_data_status (ppm_at p x)) 0"
  let ?n2 = "cy_emit [Cy_send ?frame] (upd_ppm p (\<lambda>_. ?m) ?n1)"
  let ?n3 = "upd_ppm p (\<lambda>m. m\<lparr>next_exec := next_exec m + ppm_control_interval m\<rparr>) ?n2"
  have fin: "finish_buffer_of p ?n1 = Some (upd_ppm p (\<lambda>_. ?m) ?n1)"
    using f(2) v by (simp add: finish_buffer_of_def)
  have "unat (of_nat (n + 24) :: u16) = n + 24" using ok by (simp add: provider_ok_def unat_of_nat del: of_nat_add)
  then have pk: "peek 0 (unat (buf_len b)) (buf_payload b) = Some ?frame"
    using f(3-5) v ts by (simp add: peek_def)
  obtain h' s' where add: "pf_scheduler_add (cy_clock ?n3) (next_exec (ppm_at p ?n3) - t) Ppm_drv_sw_send p (ppm_ci_timeout (ppm_at p ?n3)) (cy_sched ?n3) =
      Some (0, h', s')"
    by (rule timers_free_add [of 0 "cy_sched ?n3"]) (use running in auto)
  obtain y where y: "pf_ppm_drv_sw_send p t x = Some y" "cy_outs y = cy_outs ?n2"
    using v running fin pk add by (simp add: pf_ppm_drv_sw_send_def Let_def live_def ppm_add_def)
  show ?thesis by (rule that [OF _ y(1), of c d]) (use f y(2) v in simp_all)
qed

subsection \<open>Receiving\<close>

text \<open>
  \<open>listens q sa frame_id n y\<close>: the CPM takes frames with this ID and \<open>n\<close> bytes of data from the
  address \<open>sa\<close>, and has no freed buffer.
\<close>

definition listens :: "cr_ptr \<Rightarrow> u8 list \<Rightarrow> u16 \<Rightarrow> nat \<Rightarrow> cyc_net \<Rightarrow> bool" where
  "listens q sa i n y \<longleftrightarrow> cr_valid q y \<and> cpm_state (cpm_at q y) \<noteq> PF_CPM_STATE_W_START \<and> cpm_sa (cpm_at q y) = sa \<and>
     cpm_buffer_length (cpm_at q y) = of_nat (n + 20) \<and> handler_of (eth_id_map y) i = Some (Cpm_c_data_ind q) \<and>
     cr_p_ar (cr_at q y) = Some (fst q) \<and> cr_crep (cr_at q y) = snd q \<and>
     p_buffer_cpm (cpm_at q y) \<noteq> Freed_buf \<and> p_buffer_app (cpm_at q y) \<noteq> Freed_buf"

text \<open>CMIO never aborts an AR when a CPM starts.\<close>

lemma start_ind:
  assumes "cr_valid q y"
  obtains z where "cyc_state_ind q True y = Some z"
    "z = y \<or> z = upd_cpm q (cpm_cmio_start_update (\<lambda>_. True)) y"
  using that by (cases "cy_cmio (cy_ar (fst q) y)") (auto simp: cyc_state_ind_def Let_def split: if_splits)

lemma new_data_cases: "cyc_new_data_ind q b y = y \<or> cyc_new_data_ind q b y = upd_cpm q (cpm_cmio_start_update (\<lambda>_. b)) y"
  by (auto simp: cyc_new_data_ind_def Let_def split: cmio_state.split)

lemma upd_cpm_upd_cpm: "cr_valid q y \<Longrightarrow> upd_cpm q f (upd_cpm q g y) = upd_cpm q (\<lambda>m. f (g m)) y"
  by (simp add: upd_cpm_def upd_cr_def upd_cy_def upd_def cr_valid_def cy_ar_def)

text \<open>\<open>took\<close> is what a frame that is taken changes: only the CPM, and what is told to the application.\<close>

definition took :: "pnal_buf \<Rightarrow> nat \<Rightarrow> u16 \<Rightarrow> u8 \<Rightarrow> cpm \<Rightarrow> cpm \<Rightarrow> bool" where
  "took buf pos c ds m m' \<longleftrightarrow> (\<exists>start rc fc. m' = m\<lparr>cpm_cmio_start := start, recv_cnt := rc, free_cnt := fc,
     p_buffer_cpm := Live_buf buf, new_buf := True, cpm_frame_id_pos := pos, cpm_buffer_pos := pos + 2, dht := 0,
     cpm_cycle := uint c, cpm_data_status := ds, cpm_state := PF_CPM_STATE_RUN\<rparr>)"

lemma new_data_upd:
  assumes "cr_valid q y" "z = y \<or> z = upd_cpm q (cpm_cmio_start_update (\<lambda>_. True)) y"
  obtains start where "cyc_new_data_ind q b (upd_cpm q (\<lambda>_. m) z) = upd_cpm q (\<lambda>_. m\<lparr>cpm_cmio_start := start\<rparr>) y"
proof -
  have z: "upd_cpm q (\<lambda>_. m) z = upd_cpm q (\<lambda>_. m) y" using assms by (auto simp: upd_cpm_upd_cpm)
  show ?thesis
  proof (cases "cyc_new_data_ind q b (upd_cpm q (\<lambda>_. m) y) = upd_cpm q (\<lambda>_. m) y")
    case True
    have e: "m\<lparr>cpm_cmio_start := cpm_cmio_start m\<rparr> = m" by simp
    show ?thesis by (rule that [of "cpm_cmio_start m"]) (simp only: z True e)
  next
    case False
    then have "cyc_new_data_ind q b (upd_cpm q (\<lambda>_. m) y) = upd_cpm q (cpm_cmio_start_update (\<lambda>_. b)) (upd_cpm q (\<lambda>_. m) y)"
      using new_data_cases by blast
    then show ?thesis by (intro that [of b]) (simp only: z upd_cpm_upd_cpm [OF assms(1)])
  qed
qed

lemma accept:
  assumes v: "cr_valid q y" and me: "cr_p_ar (cr_at q y) = Some (fst q)" "cr_crep (cr_at q y) = snd q"
  obtains m' os where "cpm_accept q buf pos True c ds y =
      Some (p_buffer_cpm (cpm_at q y), cy_emit os (upd_cpm q (\<lambda>_. m') y))"
    "took buf pos c ds (cpm_at q y) m'"
    "os = (if cpm_data_status (cpm_at q y) XOR ds \<noteq> 0
       then [Cy_data_status_changed (cy_arep (cy_ar (fst q) y)) (snd q) (cpm_data_status (cpm_at q y) XOR ds) ds] else [])"
proof -
  obtain z0 where z0: "cyc_state_ind q True y = Some z0" "z0 = y \<or> z0 = upd_cpm q (cpm_cmio_start_update (\<lambda>_. True)) y"
    by (rule start_ind [OF v])
  define z where "z = (if cpm_state (cpm_at q y) = PF_CPM_STATE_FRUN then z0 else y)"
  have z: "(if cpm_state (cpm_at q y) = PF_CPM_STATE_FRUN then pf_cpm_state_ind (fst q) (snd q) True y else Some y) = Some z"
    "z = y \<or> z = upd_cpm q (cpm_cmio_start_update (\<lambda>_. True)) y"
    using z0(2) by (simp_all add: z_def pf_cpm_state_ind_def z0(1))
  let ?m = "(cpm_at q z)\<lparr>p_buffer_cpm := Live_buf buf, new_buf := True, cpm_frame_id_pos := pos, cpm_buffer_pos := pos + 2\<rparr>"
  obtain start where n: "cyc_new_data_ind q True (upd_cpm q (\<lambda>_. ?m) z) = upd_cpm q (\<lambda>_. ?m\<lparr>cpm_cmio_start := start\<rparr>) y"
    by (rule new_data_upd [OF v z(2)])
  let ?c = "cpm_data_status (cpm_at q y) XOR ds"
  let ?os = "if ?c \<noteq> 0 then [Cy_data_status_changed (cy_arep (cy_ar (fst q) y)) (snd q) ?c ds] else []"
  let ?m' = "?m\<lparr>cpm_cmio_start := start, dht := 0, cpm_cycle := uint c, cpm_data_status := ds, cpm_state := PF_CPM_STATE_RUN\<rparr>"
  have zb: "p_buffer_cpm (cpm_at q z) = p_buffer_cpm (cpm_at q y)" "cpm_data_status (cpm_at q z) = cpm_data_status (cpm_at q y)"
    using z(2) v by auto
  have emit: "upd_cpm q f (cy_emit os n) = cy_emit os (upd_cpm q f n)" for f os n
    by (simp add: upd_cpm_def upd_cr_def upd_cy_def cy_emit_def)
  have "cpm_accept q buf pos True c ds y = Some (p_buffer_cpm (cpm_at q y), cy_emit ?os (upd_cpm q (\<lambda>_. ?m') y))"
    unfolding cpm_accept_def me Let_def bind.bind_lunit snd_conv prod.collapse z(1) if_True pf_cpm_put_buf_def case_prod_conv n
    using v by (simp add: zb upd_cpm_upd_cpm pf_cpm_set_state_def emit)
  moreover have "took buf pos c ds (cpm_at q y) ?m'"
    unfolding took_def
    by (rule exI [of _ start], rule exI [of _ "recv_cnt (cpm_at q y)"], rule exI [of _ "free_cnt (cpm_at q y)"])
       (use z(2) v in auto)
  ultimately show ?thesis by (rule that) simp
qed

text \<open>The replaced buffer goes back; a received frame is counted.\<close>

lemma drop_ok:
  assumes "cr_valid q y" "b \<noteq> Freed_buf"
  obtains fc os where "cpm_drop q b y = Some (1, cy_emit os (upd_cpm q (free_cnt_update (\<lambda>_. fc)) y))"
    "os = (if b = Null_buf then [] else [Cy_free])"
proof (cases b)
  case Null_buf
  have "upd_cpm q (free_cnt_update (\<lambda>_. free_cnt (cpm_at q y))) y = y"
    using assms(1)
    by (simp add: upd_cpm_def upd_cr_def upd_cy_def upd_def cr_valid_def cr_at_def cy_ar_def)
  with Null_buf show ?thesis by (intro that [of "[]" "free_cnt (cpm_at q y)"]) (simp_all add: cpm_drop_def cy_emit_def)
next
  case (Live_buf b')
  have "upd_cpm q (\<lambda>m. m\<lparr>free_cnt := free_cnt m + 1\<rparr>) y = upd_cpm q (free_cnt_update (\<lambda>_. free_cnt (cpm_at q y) + 1)) y"
    using assms(1) by (simp add: upd_cpm_def upd_cr_def upd_cy_def upd_def cr_valid_def cr_at_def cy_ar_def)
  with Live_buf show ?thesis
    by (intro that [of "[Cy_free]" "free_cnt (cpm_at q y) + 1"]) (simp_all add: cpm_drop_def free_buf_def)
qed (use assms(2) in simp)

text \<open>The buffer with a received frame: the bytes behind the frame are arbitrary.\<close>

definition received :: "u8 list \<Rightarrow> u8 list \<Rightarrow> pnal_buf" where
  "received frame rest = \<lparr>buf_payload = frame @ rest, buf_len = of_nat (length frame)\<rparr>"

lemma took_counts:
  assumes "took buf pos c ds (m\<lparr>recv_cnt := r\<rparr>) m'"
  shows "took buf pos c ds m (m'\<lparr>free_cnt := k\<rparr>)"
proof -
  obtain start rc fc where "m' = (m\<lparr>recv_cnt := r\<rparr>)\<lparr>cpm_cmio_start := start, recv_cnt := rc, free_cnt := fc,
     p_buffer_cpm := Live_buf buf, new_buf := True, cpm_frame_id_pos := pos, cpm_buffer_pos := pos + 2, dht := 0,
     cpm_cycle := uint c, cpm_data_status := ds, cpm_state := PF_CPM_STATE_RUN\<rparr>"
    using assms unfolding took_def by blast
  then show ?thesis unfolding took_def by (intro exI [of _ start] exI [of _ rc] exI [of _ k]) simp
qed

lemma cycle_of_bytes: "ucast (enc16 True c ! 0) * 0x100 + ucast (enc16 True c ! 1) = (c :: u16)"
  using u16_from_bytes [of c] by (simp add: enc16_def Let_def push_bit_eq_mult mult.commute)

text \<open>Such a frame is accepted when its counter fits, and dropped else.\<close>

lemma data_ind_cases:
  assumes l: "listens q sa i n y" and a: "length da = 6" "length sa = 6" "length d = n" "n + 24 < 65536" and ds: "ds AND 4 \<noteq> 0"
  shows "pf_cpm_c_data_ind q i' (received (cyclic_frame (frame_header da sa tag i) d c ds 0) rest) 18 y =
    (let buf = received (cyclic_frame (frame_header da sa tag i) d c ds 0) rest;
         z = upd_cpm q (\<lambda>m. m\<lparr>recv_cnt := recv_cnt m + 1\<rparr>) y
     in if pf_cpm_check_cycle (cpm_cycle (cpm_at q y)) c = 0
        then do { (b, z) \<leftarrow> cpm_accept q buf 18 True c ds z; cpm_drop q b z }
        else cpm_drop q (Live_buf buf) z)"
proof -
  let ?h = "frame_header da sa tag i"
  let ?buf = "received (cyclic_frame ?h d c ds 0) rest"
  let ?y = "upd_cpm q (\<lambda>m. m\<lparr>recv_cnt := recv_cnt m + 1\<rparr>) y"
  note L = l [unfolded listens_def]
  have h: "length ?h = 20" using a by simp
  have len: "buf_len ?buf = of_nat (n + 24)" using h a by (simp add: received_def)
  have pos: "unat (buf_len ?buf - 4) = n + 20"
  proof -
    have "buf_len ?buf - 4 = of_nat (n + 20)" unfolding len by simp
    then show ?thesis using a(4) by (simp add: unat_of_nat del: of_nat_add)
  qed
  have "peek (n + 20) 4 (buf_payload ?buf) = Some (enc16 True c @ [ds, 0])"
    using h a(3) peek_at [of "n + 20" "?h @ d" 4 "enc16 True c @ [ds, 0]" rest] by (simp add: received_def cyclic_frame_def)
  then have apdu: "peek (unat (buf_len ?buf - 4)) 4 (buf_payload ?buf) = Some (enc16 True c @ [ds, 0])" by (simp only: pos)
  have "buf_payload ?buf = da @ sa @ drop 12 (buf_payload ?buf)"
    using a by (simp add: received_def cyclic_frame_def frame_header_def)
  with a peek_at [of 6 da 6 sa "drop 12 (buf_payload ?buf)"] have src: "peek 6 6 (buf_payload ?buf) = Some sa" by metis
  have bytes: "(enc16 True c @ [ds, 0]) ! 2 = ds" "(enc16 True c @ [ds, 0]) ! 3 = 0"
    "ucast ((enc16 True c @ [ds, 0]) ! 0) * 0x100 + ucast ((enc16 True c @ [ds, 0]) ! 1) = c"
    using cycle_of_bytes [of c] by (simp_all add: nth_append enc16_def Let_def)
  have flen: "buf_len ?buf - of_nat 18 + (2 * 6 + 2) = cpm_buffer_length (cpm_at q ?y)"
    unfolding len using L by simp
  show ?thesis
    unfolding pf_cpm_c_data_ind_def Let_def apdu bind.bind_lunit pf_cpm_check_src_addr_def src bytes flen
    using L ds by auto
qed

lemma data_refused:
  assumes l: "listens q sa i n y" and a: "length da = 6" "length sa = 6" "length d = n" "n + 24 < 65536"
    and c: "pf_cpm_check_cycle (cpm_cycle (cpm_at q y)) c \<noteq> 0" and ds: "ds AND 4 \<noteq> 0"
  shows "pf_cpm_c_data_ind q i' (received (cyclic_frame (frame_header da sa tag i) d c ds 0) rest) 18 y =
    Some (1, cy_emit [Cy_free] (upd_cpm q (\<lambda>m. m\<lparr>recv_cnt := recv_cnt m + 1, free_cnt := free_cnt m + 1\<rparr>) y))"
  using c l by (simp add: data_ind_cases [OF l a ds] Let_def cpm_drop_def free_buf_def upd_cpm_upd_cpm listens_def)

lemma data_ind:
  assumes l: "listens q sa i n y" and a: "length da = 6" "length sa = 6" "length d = n" "n + 24 < 65536"
    and c: "pf_cpm_check_cycle (cpm_cycle (cpm_at q y)) c = 0" and ds: "ds AND 4 \<noteq> 0"
  obtains m' os z where "pf_cpm_c_data_ind q i' (received (cyclic_frame (frame_header da sa tag i) d c ds 0) rest) 18 y = Some (1, z)"
    "took (received (cyclic_frame (frame_header da sa tag i) d c ds 0) rest) 18 c ds (cpm_at q y) m'"
    "z = cy_emit os (upd_cpm q (\<lambda>_. m') y)"
proof -
  let ?buf = "received (cyclic_frame (frame_header da sa tag i) d c ds 0) rest"
  let ?y = "upd_cpm q (\<lambda>m. m\<lparr>recv_cnt := recv_cnt m + 1\<rparr>) y"
  note L = l [unfolded listens_def]
  have v: "cr_valid q ?y" and me: "cr_p_ar (cr_at q ?y) = Some (fst q)" "cr_crep (cr_at q ?y) = snd q" using L by simp_all
  obtain m1 os1 where acc: "cpm_accept q ?buf 18 True c ds ?y = Some (p_buffer_cpm (cpm_at q ?y), cy_emit os1 (upd_cpm q (\<lambda>_. m1) ?y))"
    and took1: "took ?buf 18 c ds (cpm_at q ?y) m1"
    by (rule accept [OF v me])
  let ?z1 = "cy_emit os1 (upd_cpm q (\<lambda>_. m1) ?y)"
  have nf: "p_buffer_cpm (cpm_at q ?y) \<noteq> Freed_buf" and v1: "cr_valid q ?z1" using L by simp_all
  obtain fc os2 where drop: "cpm_drop q (p_buffer_cpm (cpm_at q ?y)) ?z1 = Some (1, cy_emit os2 (upd_cpm q (free_cnt_update (\<lambda>_. fc)) ?z1))"
    by (rule drop_ok [OF v1 nf])
  have ind: "pf_cpm_c_data_ind q i' ?buf 18 y = Some (1, cy_emit os2 (upd_cpm q (free_cnt_update (\<lambda>_. fc)) ?z1))"
    using c acc drop by (simp add: data_ind_cases [OF l a ds] Let_def)
  show ?thesis
  proof (rule that [OF ind])
    show "took ?buf 18 c ds (cpm_at q y) (m1\<lparr>free_cnt := fc\<rparr>)"
      using took1 L by (intro took_counts) simp
    show "cy_emit os2 (upd_cpm q (free_cnt_update (\<lambda>_. fc)) ?z1) = cy_emit (os1 @ os2) (upd_cpm q (\<lambda>_. m1\<lparr>free_cnt := fc\<rparr>) y)"
      using L by (simp add: upd_cpm_def upd_cr_def upd_cy_def upd_def cr_valid_def cr_at_def cy_ar_def cy_emit_def)
  qed
qed

text \<open>The VLAN tag of the frame is skipped, and its ID leads to the CPM.\<close>

lemma frame_type:
  assumes "length da = 6" "length sa = 6"
  shows "skip_vlan (frame_header da sa tag i @ xs) 12 = Some (16, PNAL_ETHTYPE_PROFINET)"
    "peek16 18 (frame_header da sa tag i @ xs) = Some i"
proof -
  let ?b = "frame_header da sa tag i @ xs"
  have "peek16 12 ?b = Some PNAL_ETHTYPE_VLAN" "peek16 16 ?b = Some PNAL_ETHTYPE_PROFINET" "peek16 18 ?b = Some i"
    using assms peek16_at [of 12 "da @ sa" PNAL_ETHTYPE_VLAN "enc16 True tag @ enc16 True PNAL_ETHTYPE_PROFINET @ enc16 True i @ xs"]
      peek16_at [of 16 "da @ sa @ enc16 True PNAL_ETHTYPE_VLAN @ enc16 True tag" PNAL_ETHTYPE_PROFINET "enc16 True i @ xs"]
      peek16_at [of 18 "da @ sa @ enc16 True PNAL_ETHTYPE_VLAN @ enc16 True tag @ enc16 True PNAL_ETHTYPE_PROFINET" i xs]
    by (simp_all add: frame_header_def)
  then show "skip_vlan ?b 12 = Some (16, PNAL_ETHTYPE_PROFINET)" "peek16 18 ?b = Some i"
    by (simp_all add: skip_vlan.simps [of ?b 12] skip_vlan.simps [of ?b 16]) (simp add: PNAL_ETHTYPE_PROFINET_def PNAL_ETHTYPE_VLAN_def)
qed

lemma recv_frame:
  assumes "length da = 6" "length sa = 6" "handler_of (eth_id_map y) i = Some (Cpm_c_data_ind q)"
  shows "cyc_recv other (received (cyclic_frame (frame_header da sa tag i) d c ds ts) rest) y =
    pf_cpm_c_data_ind q i (received (cyclic_frame (frame_header da sa tag i) d c ds ts) rest) 18 y"
proof -
  let ?buf = "received (cyclic_frame (frame_header da sa tag i) d c ds ts) rest"
  have p: "buf_payload ?buf = frame_header da sa tag i @ d @ enc16 True c @ [ds, ts] @ rest"
    by (simp add: received_def cyclic_frame_def)
  have "skip_vlan (buf_payload ?buf) 12 = Some (16, PNAL_ETHTYPE_PROFINET)" "peek16 (16 + 2) (buf_payload ?buf) = Some i"
    unfolding p using frame_type [OF assms(1,2)] by simp_all
  then show ?thesis unfolding cyc_recv_def by (subst recv_handler [OF _ _ assms(3)]) auto
qed

end
