(* ===== verification/Cyclic_Delivery.thy ===== *)
theory Cyclic_Delivery
  imports Cyclic_Exchange
begin

section \<open>Delivery of cyclic data\<close>

text \<open>
  What the application of a provider writes is what the application of the consumer reads. Starting of
  both ends, and an example of two stations.
\<close>

subsection \<open>Writing and reading by the applications\<close>

text \<open>The data and the IOPS have their own places in the first \<open>k\<close> bytes of a frame.\<close>

definition desc_fits :: "io_object \<Rightarrow> nat \<Rightarrow> u8 list \<Rightarrow> u8 list \<Rightarrow> bool" where
  "desc_fits d k xs ys \<longleftrightarrow> length xs = unat (io_data_length d) \<and> length ys = unat (io_iops_length d) \<and>
     unat (io_data_offset d) + length xs \<le> k \<and> unat (io_iops_offset d) + length ys \<le> k \<and>
     (unat (io_data_offset d) + length xs \<le> unat (io_iops_offset d) \<or>
      unat (io_iops_offset d) + length ys \<le> unat (io_data_offset d))"

definition slice :: "u16 \<Rightarrow> u16 \<Rightarrow> 'x list \<Rightarrow> 'x list" where
  "slice offset k xs = take (unat k) (drop (unat offset) xs)"

lemma slice_take:
  assumes "unat offset + unat j \<le> k"
  shows "slice offset j (take k xs) = slice offset j xs"
  using assms by (simp add: slice_def drop_take min_def)

lemma slice_overwrite:
  assumes "length ys = unat j" "unat offset + unat j \<le> length b"
  shows "slice offset j (overwrite (unat offset) ys b) = ys"
  using assms by (simp add: slice_def overwrite_def)

lemma slice_overwrite_other:
  assumes "r + length ys \<le> length b" "unat offset + unat j \<le> length b"
    "unat offset + unat j \<le> r \<or> r + length ys \<le> unat offset"
  shows "slice offset j (overwrite r ys b) = slice offset j b"
proof (rule nth_equalityI)
  show "length (slice offset j (overwrite r ys b)) = length (slice offset j b)" using assms by (simp add: slice_def)
  fix i assume "i < length (slice offset j (overwrite r ys b))"
  then have "i < unat j" "unat offset + i < length b" using assms by (simp_all add: slice_def)
  then show "slice offset j (overwrite r ys b) ! i = slice offset j b ! i"
    using assms by (auto simp: slice_def nth_overwrite)
qed

lemma set_data:
  assumes s: "sends p header n x" and f: "pf_ppm_get_ar_iocr_desc api slot subslot x = Some (p, i)"
    "desc_fits (desc_at p i x) (unat (cr_in_length (cr_at p x))) xs ys" "unat (cr_in_length (cr_at p x)) < PF_FRAME_BUFFER_SIZE"
  obtains x1 where "pf_ppm_set_data_and_iops api slot subslot (Some xs) (of_nat (length xs)) ys x = Some (0, x1)"
    "sends p header n x1" "cy_outs x1 = cy_outs x" "cr_in_length (cr_at p x1) = cr_in_length (cr_at p x)"
    "ppm_data_status (ppm_at p x1) = ppm_data_status (ppm_at p x)" "ppm_cycle (ppm_at p x1) = ppm_cycle (ppm_at p x)"
    "ppm_send_clock_factor (ppm_at p x1) = ppm_send_clock_factor (ppm_at p x)"
    "ppm_reduction_ratio (ppm_at p x1) = ppm_reduction_ratio (ppm_at p x)"
    "slice (io_data_offset (desc_at p i x)) (io_data_length (desc_at p i x)) (buffer_data (ppm_at p x1)) = xs"
    "slice (io_iops_offset (desc_at p i x)) (io_iops_length (desc_at p i x)) (buffer_data (ppm_at p x1)) = ys"
proof -
  let ?d = "desc_at p i x" and ?k = "unat (cr_in_length (cr_at p x))" and ?b = "buffer_data (ppm_at p x)"
  have v: "cr_valid p x" and k: "?k \<le> length ?b" using s by (simp_all add: sends_def provider_ok_def)
  have fits: "length xs = unat (io_data_length ?d)" "length ys = unat (io_iops_length ?d)"
    "unat (io_data_offset ?d) + length xs \<le> length ?b" "unat (io_iops_offset ?d) + length ys \<le> length ?b"
    "unat (io_data_offset ?d) + length xs < PF_FRAME_BUFFER_SIZE" "unat (io_iops_offset ?d) + length ys < PF_FRAME_BUFFER_SIZE"
    "unat (io_data_offset ?d) + length xs \<le> unat (io_iops_offset ?d) \<or> unat (io_iops_offset ?d) + length ys \<le> unat (io_data_offset ?d)"
    using f(2,3) k unfolding desc_fits_def by linarith+
  have lx: "of_nat (length xs) = io_data_length ?d" "unat (of_nat (length xs) :: u16) = length xs" using fits(1) by simp_all
  define B where "B = overwrite (unat (io_iops_offset ?d)) ys (overwrite (unat (io_data_offset ?d)) xs ?b)"
  let ?x1 = "upd_cr p (\<lambda>c. c\<lparr>cr_data_desc := upd i (io_data_avail_update (\<lambda>_. True)) (cr_data_desc c)\<rparr>)
    (upd_ppm p (buffer_data_update (\<lambda>_. B)) (upd_ppm p (buffer_data_update (\<lambda>_. overwrite (unat (io_data_offset ?d)) xs ?b)) x))"
  have set: "pf_ppm_set_data_and_iops api slot subslot (Some xs) (of_nat (length xs)) ys x = Some (0, ?x1)"
    using f(1) fits lx v
    by (simp add: pf_ppm_set_data_and_iops_def pf_ppm_drv_sw_write_data_and_iops_def pf_ppm_drv_sw_write_frame_buffer_def
        Let_def peek_def poke_def B_def not_le)
  have at: "cr_at p ?x1 = (cr_at p x)\<lparr>cr_ppm := (ppm_at p x)\<lparr>buffer_data := B\<rparr>,
      cr_data_desc := upd i (io_data_avail_update (\<lambda>_. True)) (cr_data_desc (cr_at p x))\<rparr>"
    using v by (simp add: cr_at_upd_cr)
  have lB: "length B = length ?b" using fits by (simp add: B_def)
  have sl: "slice (io_data_offset ?d) (io_data_length ?d) B = xs" "slice (io_iops_offset ?d) (io_iops_length ?d) B = ys"
    using fits by (auto simp: B_def slice_overwrite slice_overwrite_other)
  have "sends p header n ?x1" using s v lB by (simp add: sends_def at provider_ok_def)
  with set show ?thesis by (rule that) (simp_all add: at sl)
qed

lemma copy_frame_received:
  assumes "length h = 20" "unat offset + unat k \<le> length d" "cpm_buffer_pos m = 20" "unat k \<le> length dest"
  obtains out where "copy_frame m (received (cyclic_frame h d c ds ts) rest) offset k dest = Some out"
    "take (unat k) out = slice offset k d" "length out = length dest"
  using assms by (simp add: copy_frame_def peek_def poke_def received_def cyclic_frame_def overwrite_def slice_def)

lemma get_data:
  assumes f: "pf_cpm_get_ar_iocr_desc api slot subslot z = Some (q, j)" and v: "cr_valid q z"
    and m: "took (received (cyclic_frame h d c ds ts) rest) 18 c ds m (cpm_at q z)"
    and h: "length h = 20" and fits: "desc_fits (desc_at q j z) (length d) xs ys"
    and rd: "io_data_length (desc_at q j z) \<le> rd_data_len rd" "unat (io_iops_length (desc_at q j z)) \<le> unat (rd_iops_len rd)"
      "length xs \<le> length (rd_data rd)" "length ys \<le> length (rd_iops rd)"
    and sl: "slice (io_data_offset (desc_at q j z)) (io_data_length (desc_at q j z)) d = xs"
      "slice (io_iops_offset (desc_at q j z)) (io_iops_length (desc_at q j z)) d = ys"
  shows "\<exists>rd' z'. pf_cpm_get_data_and_iops api slot subslot rd z = Some (0, rd', z') \<and> rd_new_flag rd' \<and>
    rd_data_len rd' = of_nat (length xs) \<and> take (length xs) (rd_data rd') = xs \<and> take (length ys) (rd_iops rd') = ys"
proof -
  let ?d = "desc_at q j z" and ?buf = "received (cyclic_frame h d c ds ts) rest"
  have m': "cpm_state (cpm_at q z) = PF_CPM_STATE_RUN" "new_buf (cpm_at q z)" "p_buffer_cpm (cpm_at q z) = Live_buf ?buf"
    "cpm_buffer_pos (cpm_at q z) = 20" using m by (auto simp: took_def)
  define m1 where "m1 = snd (pf_cpm_get_buf (cpm_at q z))"
  have b: "pf_cpm_get_buf (cpm_at q z) = (True, m1)" "p_buffer_app m1 = Live_buf ?buf" "cpm_buffer_pos m1 = 20"
    using m' by (simp_all add: m1_def pf_cpm_get_buf_def)
  have l: "length xs = unat (io_data_length ?d)" "length ys = unat (io_iops_length ?d)"
    "unat (io_data_offset ?d) + unat (io_data_length ?d) \<le> length d" "unat (io_iops_offset ?d) + unat (io_iops_length ?d) \<le> length d"
    using fits by (simp_all add: desc_fits_def)
  obtain o1 where o1: "copy_frame m1 ?buf (io_data_offset ?d) (io_data_length ?d) (rd_data rd) = Some o1" "take (length xs) o1 = xs"
    using copy_frame_received [OF h l(3) b(3), of "rd_data rd" c ds ts rest] rd(3) sl(1) l(1) by metis
  obtain o2 where o2: "copy_frame m1 ?buf (io_iops_offset ?d) (io_iops_length ?d) (rd_iops rd) = Some o2" "take (length ys) o2 = ys"
    using copy_frame_received [OF h l(4) b(3), of "rd_iops rd" c ds ts rest] rd(4) sl(2) l(2) by metis
  have nz: "(0 < io_data_length ?d) = (xs \<noteq> [])" "(0 < io_iops_length ?d) = (ys \<noteq> [])"
    unfolding word_less_nat_alt l(1) [symmetric] l(2) [symmetric] by simp_all
  have "of_nat (length xs) = io_data_length ?d" using l(1) by simp
  moreover have "\<exists>rd' z'. pf_cpm_get_data_and_iops api slot subslot rd z = Some (0, rd', z') \<and> rd_new_flag rd' \<and>
    rd_data_len rd' = io_data_length ?d \<and> take (length xs) (rd_data rd') = xs \<and> take (length ys) (rd_iops rd') = ys"
    using f m' b o1 o2 rd v
    by (simp add: pf_cpm_get_data_and_iops_def pf_cpm_driver_sw_get_data_and_iops_def Let_def live_def nz not_less)
  ultimately show ?thesis by simp
qed

subsection \<open>From application to application\<close>

text \<open>The last frame that the CPM took is the last one that the PPM sent, or there was none.\<close>

definition in_step :: "ppm \<Rightarrow> cpm \<Rightarrow> bool" where
  "in_step m m' \<longleftrightarrow> cpm_cycle m' = uint (ppm_cycle m) \<or> cpm_cycle m' = - 1"

lemma in_step_accepts:
  assumes "in_step m m'" "0 < interval (ppm_send_clock_factor m) (ppm_reduction_ratio m)"
    "interval (ppm_send_clock_factor m) (ppm_reduction_ratio m) \<le> 61440"
    "pf_ppm_calculate_next_cyclecounter (ppm_cycle m) (ppm_send_clock_factor m) (ppm_reduction_ratio m) = Some c"
  shows "pf_cpm_check_cycle (cpm_cycle m') c = 0 \<longleftrightarrow> \<not> (cpm_cycle m' = - 1 \<and> 61440 \<le> unat c)"
proof -
  obtain d where d: "pf_ppm_calculate_next_cyclecounter (ppm_cycle m) (ppm_send_clock_factor m) (ppm_reduction_ratio m) = Some d"
    "pf_cpm_check_cycle (uint (ppm_cycle m)) d = 0"
    using next_frame_fits [of "ppm_send_clock_factor m" "ppm_reduction_ratio m" "ppm_cycle m"] assms(2,3) by (auto simp: interval_def)
  have "uint (ppm_cycle m) \<noteq> - 1" by (metis neg_0_le_iff_le not_one_le_zero uint_ge_0)
  then show ?thesis using assms(1,4) d by (auto simp: in_step_def first_frame_refused)
qed

text \<open>C7: What the application of a provider writes for a submodule is what the application of the
  consumer reads after the next frame, marked as new, whatever else is in the frame and for every
  position of the data in it. Every frame after the first is taken, and the first one when its cycle
  counter is below 61440; with a higher counter the first frame is dropped, and nothing but two statistics
  changes in the consumer.\<close>

theorem cyclic_data_delivered:
  assumes "sends p (frame_header da sa tag frame_id) n x" "length da = 6" "length sa = 6"
    and "pf_ppm_get_ar_iocr_desc api slot subslot x = Some (p, i)" "ppm_data_status (ppm_at p x) AND 4 \<noteq> 0"
    and "desc_fits (desc_at p i x) (unat (cr_in_length (cr_at p x))) xs ys" "unat (cr_in_length (cr_at p x)) < PF_FRAME_BUFFER_SIZE"
    and "listens q sa frame_id n y" "in_step (ppm_at p x) (cpm_at q y)"
    and "pf_cpm_get_ar_iocr_desc api' slot' subslot' y = Some (q, j)"
    and "io_data_offset (desc_at q j y) = io_data_offset (desc_at p i x)" "io_data_length (desc_at q j y) = io_data_length (desc_at p i x)"
      "io_iops_offset (desc_at q j y) = io_iops_offset (desc_at p i x)" "io_iops_length (desc_at q j y) = io_iops_length (desc_at p i x)"
    and "io_data_length (desc_at q j y) \<le> rd_data_len rd" "unat (io_iops_length (desc_at q j y)) \<le> unat (rd_iops_len rd)"
      "length xs \<le> length (rd_data rd)" "length ys \<le> length (rd_iops rd)"
  shows "\<exists>c x1 x2 frame y1.
    pf_ppm_set_data_and_iops api slot subslot (Some xs) (of_nat (length xs)) ys x = Some (0, x1) \<and>
    pf_ppm_drv_sw_send p t x1 = Some x2 \<and> cy_outs x2 = cy_outs x @ [Cy_send frame] \<and>
    pf_ppm_calculate_next_cyclecounter (ppm_cycle (ppm_at p x)) (ppm_send_clock_factor (ppm_at p x))
      (ppm_reduction_ratio (ppm_at p x)) = Some c \<and>
    cyc_recv other (received frame rest) y = Some (1, y1) \<and>
    (if cpm_cycle (cpm_at q y) = - 1 \<and> 61440 \<le> unat c
     then y1 = cy_emit [Cy_free] (upd_cpm q (\<lambda>m. m\<lparr>recv_cnt := recv_cnt m + 1, free_cnt := free_cnt m + 1\<rparr>) y)
     else \<exists>rd' y2. pf_cpm_get_data_and_iops api' slot' subslot' rd y1 = Some (0, rd', y2) \<and> rd_new_flag rd' \<and>
       rd_data_len rd' = of_nat (length xs) \<and> take (length xs) (rd_data rd') = xs \<and> take (length ys) (rd_iops rd') = ys)"
proof -
  let ?h = "frame_header da sa tag frame_id" and ?k = "unat (cr_in_length (cr_at p x))" and ?d = "desc_at p i x"
  obtain x1 where x1: "pf_ppm_set_data_and_iops api slot subslot (Some xs) (of_nat (length xs)) ys x = Some (0, x1)"
    "sends p ?h n x1" "cy_outs x1 = cy_outs x" "cr_in_length (cr_at p x1) = cr_in_length (cr_at p x)"
    "ppm_data_status (ppm_at p x1) = ppm_data_status (ppm_at p x)" "ppm_cycle (ppm_at p x1) = ppm_cycle (ppm_at p x)"
    "ppm_send_clock_factor (ppm_at p x1) = ppm_send_clock_factor (ppm_at p x)"
    "ppm_reduction_ratio (ppm_at p x1) = ppm_reduction_ratio (ppm_at p x)"
    "slice (io_data_offset ?d) (io_data_length ?d) (buffer_data (ppm_at p x1)) = xs"
    "slice (io_iops_offset ?d) (io_iops_length ?d) (buffer_data (ppm_at p x1)) = ys"
    by (rule set_data [OF assms(1,4,6,7)])
  obtain c d x2 where x2: "pf_ppm_calculate_next_cyclecounter (ppm_cycle (ppm_at p x)) (ppm_send_clock_factor (ppm_at p x))
      (ppm_reduction_ratio (ppm_at p x)) = Some c"
    "pf_ppm_drv_sw_send p t x1 = Some x2"
    "cy_outs x2 = cy_outs x @ [Cy_send (cyclic_frame ?h d c (ppm_data_status (ppm_at p x)) 0)]"
    "length d = n" "take ?k d = take ?k (buffer_data (ppm_at p x1))"
    using send_frame [OF x1(2), of t] x1(3-8) by metis
  have ok: "provider_ok (ppm_at p x) ?h n ?k" using assms(1) by (simp add: sends_def)
  let ?frame = "cyclic_frame ?h d c (ppm_data_status (ppm_at p x)) 0"
  have cyc: "pf_cpm_check_cycle (cpm_cycle (cpm_at q y)) c = 0 \<longleftrightarrow> \<not> (cpm_cycle (cpm_at q y) = - 1 \<and> 61440 \<le> unat c)"
    by (rule in_step_accepts [OF assms(9) _ _ x2(1)]) (use ok in \<open>simp_all add: provider_ok_def\<close>)
  have n: "n + 24 < 65536" "?k \<le> n" using ok by (simp_all add: provider_ok_def)
  note L = assms(8) [unfolded listens_def]
  show ?thesis
  proof (cases "pf_cpm_check_cycle (cpm_cycle (cpm_at q y)) c = 0")
    case False
    let ?y1 = "cy_emit [Cy_free] (upd_cpm q (\<lambda>m. m\<lparr>recv_cnt := recv_cnt m + 1, free_cnt := free_cnt m + 1\<rparr>) y)"
    have "cyc_recv other (received ?frame rest) y = Some (1, ?y1)"
      using recv_frame [OF assms(2,3), of y frame_id q] data_refused [OF assms(8,2,3) x2(4) n(1) False assms(5)] L by simp
    then show ?thesis using x1(1) x2(1-3) cyc False by (intro exI [of _ c] exI [of _ x1] exI [of _ x2]) auto
  next
    case True
    obtain m' os y1 where y1: "pf_cpm_c_data_ind q frame_id (received ?frame rest) 18 y = Some (1, y1)"
      "took (received ?frame rest) 18 c (ppm_data_status (ppm_at p x)) (cpm_at q y) m'" "y1 = cy_emit os (upd_cpm q (\<lambda>_. m') y)"
      by (rule data_ind [OF assms(8,2,3) x2(4) n(1) True assms(5)])
    have recv: "cyc_recv other (received ?frame rest) y = Some (1, y1)"
      using recv_frame [OF assms(2,3), of y frame_id q] y1(1) L by simp
    have v: "cr_valid q y1" and d: "desc_at q j y1 = desc_at q j y" and m: "cpm_at q y1 = m'"
      using L by (simp_all add: y1(3) desc_at_def)
    have desc: "pf_cpm_get_ar_iocr_desc api' slot' subslot' y1 = Some (q, j)"
      using assms(10) L unfolding y1(3) pf_cpm_get_ar_iocr_desc_def by (subst desc_cong [of _ y]) auto
    have sl: "slice (io_data_offset ?d) (io_data_length ?d) d = xs" "slice (io_iops_offset ?d) (io_iops_length ?d) d = ys"
    proof -
      have "slice o1 k1 d = slice o1 k1 (buffer_data (ppm_at p x1))" if "unat o1 + unat k1 \<le> ?k" for o1 k1
        using slice_take [OF that, of d] slice_take [OF that, of "buffer_data (ppm_at p x1)"] x2(5) by simp
      then show "slice (io_data_offset ?d) (io_data_length ?d) d = xs" "slice (io_iops_offset ?d) (io_iops_length ?d) d = ys"
        using x1(9,10) assms(6) by (simp_all add: desc_fits_def)
    qed
    have "length ?h = 20" using assms(2,3) by simp
    moreover have "desc_fits (desc_at q j y1) (length d) xs ys"
      using assms(6,11-14) n(2) x2(4) unfolding desc_fits_def d by auto
    ultimately obtain rd' y2 where "pf_cpm_get_data_and_iops api' slot' subslot' rd y1 = Some (0, rd', y2)" "rd_new_flag rd'"
      "rd_data_len rd' = of_nat (length xs)" "take (length xs) (rd_data rd') = xs" "take (length ys) (rd_iops rd') = ys"
      using get_data [OF desc v, of ?h d c "ppm_data_status (ppm_at p x)" 0 rest "cpm_at q y" xs ys rd]
        y1(2) assms(11-18) sl unfolding m d by auto
    with x1(1) x2(1-3) recv cyc True show ?thesis by (intro exI [of _ c] exI [of _ x1] exI [of _ x2]) auto
  qed
qed

subsection \<open>Starting\<close>

text \<open>A new PPM that is activated runs, and so does a CPM whose frame ID has no handler yet.\<close>

lemma activate_sends:
  assumes v: "cr_valid p x" and w: "ppm_state (ppm_at p x) = PF_PPM_STATE_W_START" "transfer_status (ppm_at p x) = 0"
    and ok: "provider_ok (ppm_at p x) header n (unat (cr_in_length (cr_at p x)))"
    and e: "timers_free 2 (cy_sched x)" "cy_send_ok x (length (cy_outs x))"
  obtains y where "pf_ppm_activate_req p x = Some (0, y)" "sends p header n y"
    "pf_ppm_get_ar_iocr_desc api slot subslot y = pf_ppm_get_ar_iocr_desc api slot subslot x"
    "pf_ppm_calculate_next_cyclecounter (ppm_cycle (ppm_at p x)) (ppm_send_clock_factor (ppm_at p x)) (ppm_reduction_ratio (ppm_at p x)) =
      Some (ppm_cycle (ppm_at p y))"
    "ppm_send_clock_factor (ppm_at p y) = ppm_send_clock_factor (ppm_at p x)"
    "ppm_reduction_ratio (ppm_at p y) = ppm_reduction_ratio (ppm_at p x)" "ppm_data_status (ppm_at p y) = ppm_data_status (ppm_at p x)"
    "cr_data_desc (cr_at p y) = cr_data_desc (cr_at p x)" "cr_in_length (cr_at p y) = cr_in_length (cr_at p x)"
proof -
  let ?k = "unat (cr_in_length (cr_at p x))"
  let ?n1 = "upd_ppm p (\<lambda>m. m\<lparr>next_exec := cy_clock x + ppm_control_interval m, ppm_state := PF_PPM_STATE_RUN,
    ppm_ci_running := True\<rparr>) x"
  have ok1: "provider_ok (ppm_at p ?n1) header n ?k" using ok v by (simp add: provider_ok_def)
  obtain c b where f: "pf_ppm_calculate_next_cyclecounter (ppm_cycle (ppm_at p ?n1)) (ppm_send_clock_factor (ppm_at p ?n1))
      (ppm_reduction_ratio (ppm_at p ?n1)) = Some c"
    "pf_ppm_finish_buffer (of_nat ?k) (ppm_at p ?n1) = Some ((ppm_at p ?n1)\<lparr>ppm_cycle := c, p_send_buffer := Live_buf b\<rparr>)"
    "provider_ok ((ppm_at p ?n1)\<lparr>ppm_cycle := c, p_send_buffer := Live_buf b\<rparr>) header n ?k"
    by (rule finish_buffer [OF ok1]) simp
  let ?m = "(ppm_at p ?n1)\<lparr>ppm_cycle := c, p_send_buffer := Live_buf b\<rparr>"
  let ?n2 = "upd_ppm p (\<lambda>_. ?m) ?n1"
  let ?n3 = "upd_ppm p (ppm_ci_timeout_update (\<lambda>_. pf_scheduler_init_handle (ppm_name ?n2))) ?n2"
  obtain h' s' where add: "pf_scheduler_add (cy_clock ?n3) (ppm_control_interval (ppm_at p ?n2)) Ppm_drv_sw_send p
      (ppm_ci_timeout (ppm_at p ?n3)) (cy_sched ?n3) = Some (0, h', s')" and s': "timers_free 1 s'"
    by (rule timers_free_add [of 1 "cy_sched ?n3"]) (use e in \<open>auto simp: numeral_2_eq_2\<close>)
  let ?y = "upd_ppm p (ppm_ci_timeout_update (\<lambda>_. h')) (?n3\<lparr>cy_sched := s'\<rparr>)"
  have fin: "finish_buffer_of p ?n1 = Some ?n2" using f(2) v by (simp add: finish_buffer_of_def)
  have "pf_ppm_activate_req p x = Some (0, ?y)"
    unfolding pf_ppm_activate_req_def Let_def fin bind.bind_lunit pf_ppm_drv_sw_activate_req_def ppm_add_def add
    using w by simp
  moreover have "sends p header n ?y" using f(3) v w e s' by (simp add: sends_def provider_ok_def)
  moreover have "pf_ppm_get_ar_iocr_desc api slot subslot ?y = pf_ppm_get_ar_iocr_desc api slot subslot x"
    unfolding pf_ppm_get_ar_iocr_desc_def using v by (subst desc_cong [of _ x]) auto
  ultimately show ?thesis by (rule that) (use f(1) v in simp_all)
qed

lemma activate_listens:
  assumes v: "cr_valid q y" and w: "cpm_state (cpm_at q y) = PF_CPM_STATE_W_START"
    and me: "cr_p_ar (cr_at q y) = Some (fst q)" "cr_crep (cr_at q y) = snd q"
    and b: "p_buffer_cpm (cpm_at q y) \<noteq> Freed_buf" "p_buffer_app (cpm_at q y) \<noteq> Freed_buf"
    and t: "ids_distinct (eth_id_map y)" "has_room (eth_id_map y)"
      "handler_of (eth_id_map y) (ip_frame_id (cr_param (cr_at q y))) = None" "timers_free 1 (cy_sched y)"
  obtains z where "pf_cpm_activate_req q y = Some (0, z)"
    "listens q (cy_initiator_mac (cy_ar (fst q) y)) (ip_frame_id (cr_param (cr_at q y)))
      (unat (ip_c_sdu_length (cr_param (cr_at q y)))) z"
    "pf_cpm_get_ar_iocr_desc api slot subslot z = pf_cpm_get_ar_iocr_desc api slot subslot y"
    "cpm_cycle (cpm_at q z) = - 1" "cr_data_desc (cr_at q z) = cr_data_desc (cr_at q y)"
proof -
  let ?ip = "cr_param (cr_at q y)"
  let ?n1 = "upd_cpm q (cpm_config (cy_ar (fst q) y) ?ip) y"
  have c: "cpm_frame_id0 (cpm_at q ?n1) = ip_frame_id ?ip" "nbr_frame_id (cpm_at q ?n1) = 1"
    using v by (simp_all add: cpm_config_def Let_def)
  let ?n2 = "?n1\<lparr>eth_id_map := pf_eth_frame_id_map_add (ip_frame_id ?ip) (Cpm_c_data_ind q) (eth_id_map ?n1)\<rparr>"
  let ?n3 = "upd_cpm q (cpm_ci_timeout_update (\<lambda>_. pf_scheduler_init_handle (cpm_name ?n2))) ?n2"
  obtain h' s' where add: "pf_scheduler_add (cy_clock ?n3) (cpm_control_interval (cpm_at q ?n3)) Cpm_control_interval_expired q
      (cpm_ci_timeout (cpm_at q ?n3)) (cy_sched ?n3) = Some (0, h', s')"
    by (rule timers_free_add [of 0 "cy_sched ?n3"]) (use t(4) in auto)
  let ?n4 = "upd_cpm q (cpm_ci_timeout_update (\<lambda>_. h')) (?n3\<lparr>cy_sched := s'\<rparr>)"
  let ?z = "pf_cpm_set_state PF_CPM_STATE_FRUN q (upd_cpm q (cpm_ci_running_update (\<lambda>_. True)) ?n4)"
  have drv: "pf_cpm_driver_sw_activate_req q ?n1 = Some (0, upd_cpm q (cpm_ci_running_update (\<lambda>_. True)) ?n4)"
    unfolding pf_cpm_driver_sw_activate_req_def Let_def c cpm_add_def using add c v by simp
  have "pf_cpm_activate_req q y = Some (0, ?z)" unfolding pf_cpm_activate_req_def w Let_def using drv by simp
  moreover have "listens q (cy_initiator_mac (cy_ar (fst q) y)) (ip_frame_id ?ip) (unat (ip_c_sdu_length ?ip)) ?z"
    using v me b eth_map.add_handler [OF t(1-3)]
    by (simp add: listens_def pf_cpm_set_state_def cpm_config_def Let_def)
  moreover have "pf_cpm_get_ar_iocr_desc api slot subslot ?z = pf_cpm_get_ar_iocr_desc api slot subslot y"
    unfolding pf_cpm_get_ar_iocr_desc_def using v by (subst desc_cong [of _ y]) (auto simp: pf_cpm_set_state_def)
  ultimately show ?thesis by (rule that) (use v in \<open>simp_all add: pf_cpm_set_state_def cpm_config_def Let_def\<close>)
qed

subsection \<open>An example\<close>

text \<open>A station with one CR and one submodule of two bytes, before its CR is created.\<close>

definition example_object :: io_object where
  "example_object = \<lparr>io_api_id = 0, io_slot_nbr = 1, io_subslot_nbr = 1, io_in_use = True, io_data_offset = 0,
     io_data_length = 2, io_iops_offset = 2, io_iops_length = 1, io_iocs_offset = 3, io_iocs_length = 0, io_data_avail = False\<rparr>"

definition example_cr :: "iocr_type \<Rightarrow> io_cr" where
  "example_cr t = zero_cr\<lparr>cr_p_ar := Some 0, cr_in_length := 3, cr_data_desc := [example_object],
     cr_param := \<lparr>ip_iocr_type = t, ip_c_sdu_length = 40, ip_frame_id = 0x8001, ip_send_clock_factor = 32,
       ip_reduction_ratio = 1, ip_data_hold_factor = 3, ip_vlan_id = 0, ip_iocr_user_priority = 6\<rparr>\<rparr>"

definition example_cyclic :: "iocr_type \<Rightarrow> u8 list \<Rightarrow> u8 list \<Rightarrow> cyc_net" where
  "example_cyclic t initiator responder = \<lparr>cy_sched = the (pf_scheduler_init 1000 0 Other_cyc_timer (0, 0)), cy_clock = 0,
     cpm_name = 1, ppm_name = 2,
     cy_ars = [zero_cyc_ar\<lparr>cy_in_use := True, cy_arep := 1, cy_cmsu := PF_CMSU_STATE_RUN, cy_cmio := PF_CMIO_STATE_DATA,
       cy_initiator_mac := initiator, cy_responder_mac := responder, cy_nbr_iocrs := 1, cy_crs := [example_cr t, zero_cr]\<rparr>],
     eth_id_map = replicate PF_ETH_MAX_MAP \<lparr>fm_in_use = False, fm_frame_id = 0, fm_handler = Other_frame_handler\<rparr>,
     cpm_instance_cnt = 0, ppm_instance_cnt = 0,
     cy_subslot_of = (\<lambda>_ _ _. Some \<lparr>ownsm_state = PF_OWNSM_STATE_IOC, owner = Some 0, diag_list = 0\<rparr>),
     cy_alloc = (\<lambda>_. Some \<lparr>buf_payload = replicate PF_FRAME_BUFFER_SIZE 0, buf_len = 0\<rparr>), cy_send_ok = (\<lambda>_. True), cy_outs = []\<rparr>"

lemma example_timers: "timers_free 75 (the (pf_scheduler_init 1000 nm f a) :: ('f, 'a) sched)"
proof -
  have "(0 :: u32) < 1000" "(1000 :: u32) \<le> PF_SCHEDULER_MAX_DELAY_US" by (simp_all add: PF_SCHEDULER_MAX_DELAY_US_def)
  with timers_ok_init [OF this, of nm f a] show ?thesis unfolding timers_free_def
    by (intro exI [of _ "[]"] exI [of _ "[0 ..< PF_MAX_TIMEOUTS]"]) (auto simp: timers_ok_def PF_MAX_TIMEOUTS_def)
qed

lemma timers_free_less: "timers_free k s \<Longrightarrow> j \<le> k \<Longrightarrow> timers_free j s"
  unfolding timers_free_def by (meson le_trans)

lemma example_at [simp]:
  "cr_valid (0, 0) (example_cyclic t i r)" "cr_at (0, 0) (example_cyclic t i r) = example_cr t"
  "cy_initiator_mac (cy_ar 0 (example_cyclic t i r)) = i" "cy_responder_mac (cy_ar 0 (example_cyclic t i r)) = r"
  "timers_free 2 (cy_sched (example_cyclic t i r))" "timers_free (Suc 0) (cy_sched (example_cyclic t i r))"
  "cy_outs (example_cyclic t i r) = []" "cy_send_ok (example_cyclic t i r) = (\<lambda>_. True)"
  by (simp_all add: cr_valid_def cr_at_def cy_ar_def example_cyclic_def timers_free_less [OF example_timers])

lemma example_desc:
  "pf_ppm_get_ar_iocr_desc 0 1 1 (example_cyclic PF_IOCR_TYPE_INPUT i r) = Some ((0, 0), 0)"
  "pf_cpm_get_ar_iocr_desc 0 1 1 (example_cyclic PF_IOCR_TYPE_OUTPUT i r) = Some ((0, 0), 0)"
  by (simp_all add: pf_ppm_get_ar_iocr_desc_def pf_cpm_get_ar_iocr_desc_def get_ar_iocr_desc_def find_desc_def is_desc_def
      example_cyclic_def cy_ar_def cr_at_def example_cr_def example_object_def)

lemma example_map: "ids_distinct (eth_id_map (example_cyclic t i r))" "has_room (eth_id_map (example_cyclic t i r))"
  "handler_of (eth_id_map (example_cyclic t i r)) j = None"
  by (auto simp: example_cyclic_def ids_distinct_def has_room_def handler_of_def find_frame_id_def find_None_iff PF_ETH_MAX_MAP_def
      PNET_MAX_API_def PNET_MAX_AR_def PNET_MAX_CR_def intro!: exI [of _ 0])

lemma example_provider:
  assumes "length da = 6" "length sa = 6"
  obtains x0 x tag where "pf_ppm_create (0, 0) (example_cyclic PF_IOCR_TYPE_INPUT da sa) = Some (0, x0)"
    "pf_ppm_activate_req (0, 0) x0 = Some (0, x)" "sends (0, 0) (frame_header da sa tag 0x8001) 40 x"
    "pf_ppm_get_ar_iocr_desc 0 1 1 x = Some ((0, 0), 0)" "cr_in_length (cr_at (0, 0) x) = 3"
    "cr_data_desc (cr_at (0, 0) x) = [example_object]" "ppm_data_status (ppm_at (0, 0) x) = 0x25"
    "ppm_cycle (ppm_at (0, 0) x) = 32" "interval (ppm_send_clock_factor (ppm_at (0, 0) x)) (ppm_reduction_ratio (ppm_at (0, 0) x)) = 32"
proof -
  let ?e = "example_cyclic PF_IOCR_TYPE_INPUT da sa"
  have c: "cr_in_length (example_cr t) = 3" "cr_data_desc (example_cr t) = [example_object]"
    "ip_frame_id (cr_param (example_cr t)) = 0x8001" "ip_send_clock_factor (cr_param (example_cr t)) = 32"
    "ip_reduction_ratio (cr_param (example_cr t)) = 1" "ip_c_sdu_length (cr_param (example_cr t)) = 40"
    "cr_ppm (example_cr t) = zero_ppm" for t
    by (simp_all add: example_cr_def zero_cr_def)
  have z: "ppm_state zero_ppm = PF_PPM_STATE_W_START" "length (buffer_data zero_ppm) = PF_FRAME_BUFFER_SIZE"
    by (simp_all add: zero_ppm_def)
  have al: "cy_alloc ?e k = Some \<lparr>buf_payload = replicate PF_FRAME_BUFFER_SIZE 0, buf_len = 0\<rparr>" for k by (simp add: example_cyclic_def)
  obtain x0 tag where x0: "pf_ppm_create (0, 0) ?e = Some (0, x0)"
    "provider_ok (ppm_at (0, 0) x0) (frame_header da sa tag 0x8001) 40 3"
    "transfer_status (ppm_at (0, 0) x0) = 0" "ppm_data_status (ppm_at (0, 0) x0) = 0x25"
    "ppm_cycle (ppm_at (0, 0) x0) = 0" "ppm_send_clock_factor (ppm_at (0, 0) x0) = 32" "ppm_reduction_ratio (ppm_at (0, 0) x0) = 1"
    "ppm_state (ppm_at (0, 0) x0) = PF_PPM_STATE_W_START" "cr_in_length (cr_at (0, 0) x0) = 3"
    "cr_data_desc (cr_at (0, 0) x0) = [example_object]" "cr_valid (0, 0) x0" "cy_sched x0 = cy_sched ?e" "cy_send_ok x0 = cy_send_ok ?e"
    "pf_ppm_get_ar_iocr_desc 0 1 1 x0 = pf_ppm_get_ar_iocr_desc 0 1 1 ?e"
    by (rule create_provides [of "(0, 0)" ?e "\<lparr>buf_payload = replicate PF_FRAME_BUFFER_SIZE 0, buf_len = 0\<rparr>" 40 3 0 1 1])
       (use assms in \<open>simp_all add: c z al PF_FRAME_BUFFER_SIZE_def interval_def\<close>)
  have e: "timers_free 2 (cy_sched x0)" "cy_send_ok x0 (length (cy_outs x0))" by (simp_all add: x0)
  have ok: "provider_ok (ppm_at (0, 0) x0) (frame_header da sa tag 0x8001) 40 (unat (cr_in_length (cr_at (0, 0) x0)))"
    using x0 by simp
  have n: "pf_ppm_calculate_next_cyclecounter 0 32 1 = Some 32"
    by (simp add: pf_ppm_calculate_next_cyclecounter_def transmission_interval_def)
  show ?thesis
    by (rule activate_sends [OF x0(11,8,3) ok e, of 0 1 1], rule that [OF x0(1)])
       (use n in \<open>auto simp: x0 example_desc interval_def\<close>)
qed

lemma example_consumer:
  obtains y0 y where "pf_cpm_create (0, 0) (example_cyclic PF_IOCR_TYPE_OUTPUT i r) = (0 :: int, y0)"
    "pf_cpm_activate_req (0, 0) y0 = Some (0, y)" "listens (0, 0) i 0x8001 40 y"
    "pf_cpm_get_ar_iocr_desc 0 1 1 y = Some ((0, 0), 0)" "cpm_cycle (cpm_at (0, 0) y) = - 1"
    "cr_data_desc (cr_at (0, 0) y) = [example_object]"
proof -
  let ?e = "example_cyclic PF_IOCR_TYPE_OUTPUT i r"
  define y0 where "y0 = snd (pf_cpm_create (0, 0) ?e)"
  have c: "cr_cpm (example_cr t) = zero_cpm" "cr_p_ar (example_cr t) = Some 0" "cr_crep (example_cr t) = 0"
    "ip_frame_id (cr_param (example_cr t)) = 0x8001" "ip_c_sdu_length (cr_param (example_cr t)) = 40"
    "cr_data_desc (example_cr t) = [example_object]" for t
    by (simp_all add: example_cr_def zero_cr_def)
  have y0: "pf_cpm_create (0, 0) ?e = (0, y0)" "cr_valid (0, 0) y0" "cr_at (0, 0) y0 = example_cr PF_IOCR_TYPE_OUTPUT"
    "eth_id_map y0 = eth_id_map ?e" "cy_sched y0 = cy_sched ?e" "cy_initiator_mac (cy_ar 0 y0) = i"
    by (simp_all add: y0_def pf_cpm_create_def pf_cpm_set_state_def c zero_cpm_def) 
  have d: "pf_cpm_get_ar_iocr_desc 0 1 1 y0 = Some ((0, 0), 0)"
    unfolding pf_cpm_get_ar_iocr_desc_def y0_def
    by (subst desc_cong [of _ ?e]) (simp_all add: pf_cpm_create_def pf_cpm_set_state_def example_desc flip: pf_cpm_get_ar_iocr_desc_def)
  show ?thesis
    by (rule activate_listens [of "(0, 0)" y0 0 1 1], rule_tac [11] that [OF y0(1)])
       (simp_all add: y0 c d zero_cpm_def example_map)
qed

theorem cyclic_data_delivered_witness:
  "\<exists>x y x1 x2 frame y1 rd' y2.
    pf_ppm_set_data_and_iops 0 1 1 (Some [7, 8]) 2 [0x80] x = Some (0, x1) \<and>
    pf_ppm_drv_sw_send (0, 0) 0 x1 = Some x2 \<and> cy_outs x2 = cy_outs x @ [Cy_send frame] \<and>
    cyc_recv (\<lambda>_ _ n. Some (0, n)) (received frame []) y = Some (1, y1) \<and>
    pf_cpm_get_data_and_iops 0 1 1 \<lparr>rd_new_flag = False, rd_data = [0, 0], rd_data_len = 2, rd_iops = [0], rd_iops_len = 1\<rparr> y1 =
      Some (0, rd', y2) \<and> rd_new_flag rd' \<and> rd_data_len rd' = 2 \<and> take 2 (rd_data rd') = [7, 8] \<and> take 1 (rd_iops rd') = [0x80]"
proof -
  let ?da = "[2, 0, 0, 0, 0, 1]" and ?sa = "[2, 0, 0, 0, 0, 2]"
  obtain x0 x tag where x: "sends (0, 0) (frame_header ?da ?sa tag 0x8001) 40 x"
    "pf_ppm_get_ar_iocr_desc 0 1 1 x = Some ((0, 0), 0)" "cr_in_length (cr_at (0, 0) x) = 3"
    "cr_data_desc (cr_at (0, 0) x) = [example_object]" "ppm_data_status (ppm_at (0, 0) x) = 0x25"
    "ppm_cycle (ppm_at (0, 0) x) = 32" "interval (ppm_send_clock_factor (ppm_at (0, 0) x)) (ppm_reduction_ratio (ppm_at (0, 0) x)) = 32"
    by (rule example_provider [of ?da ?sa]) simp_all
  obtain y where y: "listens (0, 0) ?sa 0x8001 40 y"
    "pf_cpm_get_ar_iocr_desc 0 1 1 y = Some ((0, 0), 0)" "cpm_cycle (cpm_at (0, 0) y) = - 1"
    "cr_data_desc (cr_at (0, 0) y) = [example_object]"
    by (rule example_consumer [of ?sa ?da]) blast
  have d: "desc_at (0, 0) 0 x = example_object" "desc_at (0, 0) 0 y = example_object" by (simp_all add: desc_at_def x y)
  have s: "in_step (ppm_at (0, 0) x) (cpm_at (0, 0) y)" by (simp add: in_step_def x y)
  have "0 < unat (ppm_send_clock_factor (ppm_at (0, 0) x)) \<and> 0 < unat (ppm_reduction_ratio (ppm_at (0, 0) x))"
    using x(7) by (metis interval_def mult_0 mult_0_right gr0I zero_neq_numeral)
  then obtain c where c: "pf_ppm_calculate_next_cyclecounter (ppm_cycle (ppm_at (0, 0) x)) (ppm_send_clock_factor (ppm_at (0, 0) x))
      (ppm_reduction_ratio (ppm_at (0, 0) x)) = Some c" "unat c = 64"
    using next_frame_fits [of "ppm_send_clock_factor (ppm_at (0, 0) x)" "ppm_reduction_ratio (ppm_at (0, 0) x)"
        "ppm_cycle (ppm_at (0, 0) x)"] x(6,7) by (auto simp: interval_def)
  let ?rd = "\<lparr>rd_new_flag = False, rd_data = [0, 0], rd_data_len = 2, rd_iops = [0], rd_iops_len = 1\<rparr> :: io_result"
  have p: "ppm_data_status (ppm_at (0, 0) x) AND 4 \<noteq> 0" "desc_fits (desc_at (0, 0) 0 x) (unat (cr_in_length (cr_at (0, 0) x))) [7, 8] [0x80]"
    "unat (cr_in_length (cr_at (0, 0) x)) < PF_FRAME_BUFFER_SIZE" "io_data_length (desc_at (0, 0) 0 y) \<le> rd_data_len ?rd"
    "unat (io_iops_length (desc_at (0, 0) 0 y)) \<le> unat (rd_iops_len ?rd)"
    by (simp_all add: d x example_object_def desc_fits_def PF_FRAME_BUFFER_SIZE_def)
  have l: "length [7, 8 :: u8] = 2" "length [0x80 :: u8] = 1" "length ?da = 6" "length ?sa = 6" by simp_all
  have "io_data_offset (desc_at (0, 0) 0 y) = io_data_offset (desc_at (0, 0) 0 x)" "length [7, 8 :: u8] \<le> length (rd_data ?rd)"
    "length [0x80 :: u8] \<le> length (rd_iops ?rd)"
    by (simp_all add: d)
  from cyclic_data_delivered [OF x(1) l(3,4) x(2) p(1-3) y(1) s y(2) this(1) _ _ _ p(4,5) this(2,3), unfolded d l, OF refl refl refl,
    of 0 "\<lambda>_ _ n. Some (0, n)" "[]", unfolded c(1) option.inject]
  obtain x1 x2 frame y1 where w: "pf_ppm_set_data_and_iops 0 1 1 (Some [7, 8]) (of_nat 2) [0x80] x = Some (0, x1)"
    "pf_ppm_drv_sw_send (0, 0) 0 x1 = Some x2" "cy_outs x2 = cy_outs x @ [Cy_send frame]"
    "cyc_recv (\<lambda>_ _ n. Some (0, n)) (received frame []) y = Some (1, y1)"
    and r: "if cpm_cycle (cpm_at (0, 0) y) = - 1 \<and> 61440 \<le> unat c
     then y1 = cy_emit [Cy_free] (upd_cpm (0, 0) (\<lambda>m. m\<lparr>recv_cnt := recv_cnt m + 1, free_cnt := free_cnt m + 1\<rparr>) y)
     else \<exists>rd' y2. pf_cpm_get_data_and_iops 0 1 1 ?rd y1 = Some (0, rd', y2) \<and> rd_new_flag rd' \<and>
       rd_data_len rd' = of_nat 2 \<and> take 2 (rd_data rd') = [7, 8] \<and> take 1 (rd_iops rd') = [0x80]"
    by (elim exE conjE) (hypsubst, rule that)
  have c64: "\<not> (cpm_cycle (cpm_at (0, 0) y) = - 1 \<and> 61440 \<le> unat c)" "(of_nat 2 :: u16) = 2" using c(2) by simp_all
  obtain rd' y2 where "pf_cpm_get_data_and_iops 0 1 1 ?rd y1 = Some (0, rd', y2)" "rd_new_flag rd'" "rd_data_len rd' = 2"
    "take 2 (rd_data rd') = [7, 8]" "take 1 (rd_iops rd') = [0x80]"
    using r unfolding if_not_P [OF c64(1)] c64(2) by (elim exE conjE) (rule that)
  then show ?thesis using w unfolding c64(2) by (intro exI conjI) assumption+
qed

end
