(* ===== verification/Cyclic_Abort.thy ===== *)
theory Cyclic_Abort
  imports Cyclic_Delivery
begin

section \<open>An abort gives everything back\<close>

text \<open>
  When an AR is aborted its CRs are closed: their timers are stopped, their frame IDs have no handler
  any more, and each buffer that they hold is freed exactly once.
\<close>

subsection \<open>Timers\<close>

text \<open>No timer runs in \<open>s'\<close> that did not run in \<open>s\<close>.\<close>

definition stops :: "('f, 'a) sched \<Rightarrow> ('f, 'a) sched \<Rightarrow> bool" where
  "stops s s' \<longleftrightarrow> (\<exists>busy free busy' free'. sched_rel s busy free \<and> sched_rel s' busy' free' \<and> length free \<le> length free' \<and>
     (\<forall>h. handle_runs h s' \<longrightarrow> handle_runs h s))"

lemma sched_rel_lengths:
  assumes "sched_rel s busy free" "sched_rel s busy' free'"
  shows "length free = length free'"
proof -
  have "set busy = set busy'"
  proof -
    have "i \<in> set busy \<longleftrightarrow> i \<in> set busy'" for i
      using assms unfolding sched_rel_def by (metis Un_iff lessThan_iff)
    then show ?thesis by blast
  qed
  moreover have "set f = {..<PF_MAX_TIMEOUTS} - set b" "distinct f" if "sched_rel s b f" for b f
    using that by (auto simp: sched_rel_def queue_def)
  ultimately show ?thesis using assms by (metis distinct_card)
qed

lemma stops_refl: "sched_rel s busy free \<Longrightarrow> stops s s"
  unfolding stops_def by blast

lemma stops_trans: "stops s t \<Longrightarrow> stops t u \<Longrightarrow> stops s u"
  unfolding stops_def by (metis le_trans sched_rel_lengths)

lemma remove_stops:
  assumes rel: "sched_rel s busy free"
  obtains h' s' where "pf_scheduler_remove_if_running h s = Some (h', s')" "stops s s'" "\<not> handle_runs h s'"
proof (cases "handle_runs h s")
  case False
  then have "pf_scheduler_remove_if_running h s = Some (h, s)"
    using pf_scheduler_remove_ok [OF rel, of h] by (simp add: pf_scheduler_remove_if_running_def)
  then show ?thesis using False stops_refl [OF rel] that by blast
next
  case True
  let ?ix = "timer_index h - 1"
  obtain s' where s': "pf_scheduler_remove h s = Some (h\<lparr>timer_index := UINT32_MAX\<rparr>, s')"
    "sched_rel s' (remove1 ?ix busy) (?ix # free)" "others_kept ?ix s s'"
    using pf_scheduler_remove_ok [OF rel, of h] True by blast
  have run: "pf_scheduler_is_running h"
    using True by (auto simp: handle_runs_def pf_scheduler_is_running_def PF_MAX_TIMEOUTS_def UINT32_MAX_def)
  have "?ix \<in> {..<PF_MAX_TIMEOUTS}" using True by (auto simp: handle_runs_def)
  moreover have "?ix \<notin> set (remove1 ?ix busy)" using s'(2) by (auto simp: sched_rel_def)
  ultimately have off: "\<not> in_use (timeouts s' ! ?ix)" using s'(2) by (auto simp: sched_rel_def)
  have "handle_runs k s" if k: "handle_runs k s'" for k
  proof -
    have "timer_index k - 1 \<noteq> ?ix" using k off by (auto simp: handle_runs_def)
    moreover have "timer_index k - 1 < PF_MAX_TIMEOUTS" using k by (auto simp: handle_runs_def)
    ultimately have "payload (timeouts s' ! (timer_index k - 1)) = payload (timeouts s ! (timer_index k - 1))"
      using s'(3) by (simp add: others_kept_def)
    then show ?thesis using k by (simp add: handle_runs_def payload_def)
  qed
  then have "stops s s'" using rel s'(2) unfolding stops_def by (metis le_Suc_eq length_Cons le_refl)
  moreover have "\<not> handle_runs h s'" using off by (simp add: handle_runs_def)
  ultimately show ?thesis using that s'(1) run by (simp add: pf_scheduler_remove_if_running_def)
qed

subsection \<open>Closing one CR\<close>

text \<open>What a CR of each type holds: its timer, its frame IDs, and its buffers.\<close>

definition held :: "io_cr \<Rightarrow> buf_ptr list" where
  "held c = (case ip_iocr_type (cr_param c) of
     PF_IOCR_TYPE_INPUT \<Rightarrow> [p_send_buffer (cr_ppm c)]
   | PF_IOCR_TYPE_OUTPUT \<Rightarrow> [p_buffer_cpm (cr_cpm c), p_buffer_app (cr_cpm c)]
   | _ \<Rightarrow> [])"

definition buffers :: "buf_ptr list \<Rightarrow> nat" where
  "buffers ps = length (filter (\<lambda>p. p \<noteq> Null_buf) ps)"

definition timer_off :: "io_cr \<Rightarrow> (cyc_cb, cr_ptr) sched \<Rightarrow> bool" where
  "timer_off c s \<longleftrightarrow> (case ip_iocr_type (cr_param c) of
     PF_IOCR_TYPE_INPUT \<Rightarrow> \<not> handle_runs (ppm_ci_timeout (cr_ppm c)) s
   | PF_IOCR_TYPE_OUTPUT \<Rightarrow> \<not> handle_runs (cpm_ci_timeout (cr_cpm c)) s
   | _ \<Rightarrow> True)"

definition unheard :: "io_cr \<Rightarrow> (u16 \<Rightarrow> 'h option) \<Rightarrow> bool" where
  "unheard c f \<longleftrightarrow> ip_iocr_type (cr_param c) = PF_IOCR_TYPE_OUTPUT \<longrightarrow> f (cpm_frame_id0 (cr_cpm c)) = None"

text \<open>\<open>closes x y k\<close>: from \<open>x\<close> to \<open>y\<close> things are only stopped, removed and freed, \<open>k\<close> buffers.\<close>

definition closes :: "cyc_net \<Rightarrow> cyc_net \<Rightarrow> nat \<Rightarrow> bool" where
  "closes x y k \<longleftrightarrow> stops (cy_sched x) (cy_sched y) \<and> ids_distinct (eth_id_map y) \<and>
     handler_of (eth_id_map y) \<subseteq>\<^sub>m handler_of (eth_id_map x) \<and>
     (\<exists>os. cy_outs y = cy_outs x @ os \<and> count_list os Cy_free = k \<and> set os \<subseteq> {Cy_free, Cy_free_null})"

lemma closes_trans: "closes x y j \<Longrightarrow> closes y z k \<Longrightarrow> closes x z (j + k)"
  unfolding closes_def by (auto intro: stops_trans map_le_trans)

lemma free_buf_ok:
  assumes "b \<noteq> Freed_buf"
  obtains os where "free_buf b n = Some (cy_emit os n)" "count_list os Cy_free = buffers [b]" "set os \<subseteq> {Cy_free, Cy_free_null}"
proof (cases "b = Null_buf")
  case True
  show ?thesis by (rule that [of "[Cy_free_null]"]) (simp_all add: True free_buf_def buffers_def)
next
  case False
  then obtain b' where "b = Live_buf b'" using assms by (cases b) auto
  then show ?thesis by (intro that [of "[Cy_free]"]) (simp_all add: free_buf_def buffers_def)
qed

lemma free_cpm_buf_ok:
  assumes "b \<noteq> Freed_buf"
  obtains os where "free_cpm_buf b n = Some (cy_emit os n)" "count_list os Cy_free = buffers [b]" "set os \<subseteq> {Cy_free, Cy_free_null}"
proof (cases "b = Null_buf")
  case True
  then show ?thesis using that [of "[]"] by (simp add: free_cpm_buf_def buffers_def cy_emit_def)
next
  case False
  with assms obtain os where "free_buf b n = Some (cy_emit os n)" "count_list os Cy_free = buffers [b]" "set os \<subseteq> {Cy_free, Cy_free_null}"
    using free_buf_ok [of b] by blast
  with False show ?thesis using that by (simp add: free_cpm_buf_def)
qed

definition only_cr :: "cr_ptr \<Rightarrow> cyc_net \<Rightarrow> cyc_net \<Rightarrow> bool" where
  "only_cr p x y \<longleftrightarrow> (\<forall>q. q \<noteq> p \<longrightarrow> cr_at q y = cr_at q x) \<and> (\<forall>q. cr_valid q y = cr_valid q x) \<and>
     length (cy_ars y) = length (cy_ars x) \<and> (\<forall>b. cy_in_use (cy_ar b y) = cy_in_use (cy_ar b x) \<and> cy_nbr_iocrs (cy_ar b y) = cy_nbr_iocrs (cy_ar b x))"

lemma ppm_close:
  assumes v: "cr_valid p x" and rel: "sched_rel (cy_sched x) busy free" and d: "ids_distinct (eth_id_map x)"
    and b: "p_send_buffer (ppm_at p x) \<noteq> Freed_buf"
  obtains y where "pf_ppm_close_req p x = Some y" "only_cr p x y" "closes x y (buffers [p_send_buffer (ppm_at p x)])"
    "\<not> handle_runs (ppm_ci_timeout (ppm_at p x)) (cy_sched y)" "cr_param (cr_at p y) = cr_param (cr_at p x)"
proof -
  obtain h s where r: "pf_scheduler_remove_if_running (ppm_ci_timeout (ppm_at p x)) (cy_sched x) = Some (h, s)"
    "stops (cy_sched x) s" "\<not> handle_runs (ppm_ci_timeout (ppm_at p x)) s"
    by (rule remove_stops [OF rel])
  let ?x1 = "upd_ppm p (ppm_ci_timeout_update (\<lambda>_. h)) ((upd_ppm p (ppm_ci_running_update (\<lambda>_. False)) x)\<lparr>cy_sched := s\<rparr>)"
  obtain os where f: "free_buf (p_send_buffer (ppm_at p x)) ?x1 = Some (cy_emit os ?x1)"
    "count_list os Cy_free = buffers [p_send_buffer (ppm_at p x)]" "set os \<subseteq> {Cy_free, Cy_free_null}"
    by (rule free_buf_ok [OF b])
  let ?x2 = "upd_ppm p (\<lambda>m. m\<lparr>p_send_buffer := freed (p_send_buffer m), ppm_state := PF_PPM_STATE_W_START, ppm_data_status := 0\<rparr>)
    (cy_emit os ?x1)"
  let ?y = "?x2\<lparr>ppm_instance_cnt := ppm_instance_cnt ?x2 - 1\<rparr>"
  show ?thesis
  proof (rule that)
    show "pf_ppm_close_req p x = Some ?y"
      using v r f(1) by (simp add: pf_ppm_close_req_def pf_ppm_drv_sw_close_req_def)
    show "only_cr p x ?y" using v by (simp add: only_cr_def)
    show "closes x ?y (buffers [p_send_buffer (ppm_at p x)])"
      using r(2) d f(2,3) by (simp add: closes_def)
  qed (use r v in simp_all)
qed

lemma map_remove_le: "ids_distinct m \<Longrightarrow> handler_of (pf_eth_frame_id_map_remove i m) \<subseteq>\<^sub>m handler_of m"
  by (auto simp: eth_map.remove_handler map_le_def)

lemma map_le_None: "m \<subseteq>\<^sub>m f \<Longrightarrow> f i = None \<Longrightarrow> m i = None"
  by (cases "m i") (auto simp: map_le_def dom_def dest: spec [of _ i])

lemma count_two: "count_list (xs @ ys) a = count_list xs a + count_list ys a"
  by (induction xs) auto

lemma cpm_close:
  assumes v: "cr_valid p x" and rel: "sched_rel (cy_sched x) busy free" and d: "ids_distinct (eth_id_map x)"
    and b: "p_buffer_cpm (cpm_at p x) \<noteq> Freed_buf" "p_buffer_app (cpm_at p x) \<noteq> Freed_buf"
  obtains y where "pf_cpm_close_req p x = Some y" "only_cr p x y"
    "closes x y (buffers [p_buffer_cpm (cpm_at p x), p_buffer_app (cpm_at p x)])"
    "\<not> handle_runs (cpm_ci_timeout (cpm_at p x)) (cy_sched y)" "handler_of (eth_id_map y) (cpm_frame_id0 (cpm_at p x)) = None"
    "cr_param (cr_at p y) = cr_param (cr_at p x)"
proof -
  let ?m = "cpm_at p x"
  obtain h s where r: "pf_scheduler_remove_if_running (cpm_ci_timeout ?m) (cy_sched x) = Some (h, s)"
    "stops (cy_sched x) s" "\<not> handle_runs (cpm_ci_timeout ?m) s"
    by (rule remove_stops [OF rel])
  define t1 where "t1 = pf_eth_frame_id_map_remove (cpm_frame_id0 ?m) (eth_id_map x)"
  define t2 where "t2 = (if nbr_frame_id ?m = 2 then pf_eth_frame_id_map_remove (cpm_frame_id1 ?m) t1 else t1)"
  have t1: "ids_distinct t1" "handler_of t1 \<subseteq>\<^sub>m handler_of (eth_id_map x)" "handler_of t1 (cpm_frame_id0 ?m) = None"
    using d by (simp_all add: t1_def eth_map.remove_ok map_remove_le eth_map.remove_handler)
  have "ids_distinct t2 \<and> handler_of t2 \<subseteq>\<^sub>m handler_of t1"
    using t1(1) by (simp add: t2_def eth_map.remove_ok map_remove_le)
  then have t2: "ids_distinct t2" "handler_of t2 \<subseteq>\<^sub>m handler_of (eth_id_map x)" "handler_of t2 (cpm_frame_id0 ?m) = None"
    using map_le_trans [OF _ t1(2)] map_le_None [of "handler_of t2" "handler_of t1" "cpm_frame_id0 ?m"] t1(3) by simp_all
  let ?x0 = "upd_cpm p (cpm_state_update (\<lambda>_. PF_CPM_STATE_W_START)) x"
  let ?x1 = "(upd_cpm p (cpm_ci_timeout_update (\<lambda>_. h)) ((upd_cpm p (cpm_ci_running_update (\<lambda>_. False)) ?x0)\<lparr>cy_sched := s\<rparr>))\<lparr>eth_id_map := t2\<rparr>"
  obtain o1 where o1: "free_cpm_buf (p_buffer_cpm ?m) ?x1 = Some (cy_emit o1 ?x1)" "count_list o1 Cy_free = buffers [p_buffer_cpm ?m]"
    "set o1 \<subseteq> {Cy_free, Cy_free_null}"
    by (rule free_cpm_buf_ok [OF b(1)])
  obtain o2 where o2: "free_cpm_buf (p_buffer_app ?m) (cy_emit o1 ?x1) = Some (cy_emit o2 (cy_emit o1 ?x1))"
    "count_list o2 Cy_free = buffers [p_buffer_app ?m]" "set o2 \<subseteq> {Cy_free, Cy_free_null}"
    by (rule free_cpm_buf_ok [OF b(2)])
  let ?x2 = "upd_cpm p (\<lambda>m. m\<lparr>p_buffer_cpm := freed (p_buffer_cpm m), p_buffer_app := freed (p_buffer_app m)\<rparr>)
    (cy_emit o2 (cy_emit o1 ?x1))"
  let ?y = "?x2\<lparr>cpm_instance_cnt := cpm_instance_cnt ?x2 - 1\<rparr>"
  have drv: "pf_cpm_driver_sw_close_req p ?x0 = Some ?x2"
    using v r(1) o1(1) o2(1) by (cases "nbr_frame_id ?m = 2") (simp_all add: pf_cpm_driver_sw_close_req_def Let_def t1_def t2_def)
  show ?thesis
  proof (rule that)
    show "pf_cpm_close_req p x = Some ?y" by (simp add: pf_cpm_close_req_def drv)
    show "only_cr p x ?y" using v by (simp add: only_cr_def)
    show "closes x ?y (buffers [p_buffer_cpm ?m, p_buffer_app ?m])"
      using r(2) t2(1,2) o1(2,3) o2(2,3) by (auto simp: closes_def count_two buffers_def)
  qed (use r(3) t2(3) v in simp_all)
qed

subsection \<open>Closing all CRs\<close>

text \<open>\<open>closable p x\<close>: the CR has not been closed before.\<close>

definition closable :: "cr_ptr \<Rightarrow> cyc_net \<Rightarrow> bool" where
  "closable p x \<longleftrightarrow> cr_valid p x \<and> Freed_buf \<notin> set (held (cr_at p x))"

lemma closes_rel:
  assumes "closes x y k"
  obtains busy free where "sched_rel (cy_sched y) busy free"
  using assms unfolding closes_def stops_def by blast

lemma close_one:
  assumes c: "closable (a, c) x" and rel: "sched_rel (cy_sched x) busy free" and d: "ids_distinct (eth_id_map x)"
  obtains y where "close_cr a c x = Some y" "only_cr (a, c) x y" "closes x y (buffers (held (cr_at (a, c) x)))"
    "timer_off (cr_at (a, c) x) (cy_sched y)" "unheard (cr_at (a, c) x) (handler_of (eth_id_map y))"
proof (cases "ip_iocr_type (cr_param (cr_at (a, c) x))")
  case PF_IOCR_TYPE_INPUT
  then have b: "cr_valid (a, c) x" "p_send_buffer (ppm_at (a, c) x) \<noteq> Freed_buf" using c by (auto simp: closable_def held_def)
  show ?thesis
    by (rule ppm_close [OF b(1) rel d b(2)], rule that)
       (use PF_IOCR_TYPE_INPUT in \<open>simp_all add: close_cr_def held_def timer_off_def unheard_def\<close>)
next
  case PF_IOCR_TYPE_OUTPUT
  then have b: "cr_valid (a, c) x" "p_buffer_cpm (cpm_at (a, c) x) \<noteq> Freed_buf" "p_buffer_app (cpm_at (a, c) x) \<noteq> Freed_buf"
    using c by (auto simp: closable_def held_def)
  show ?thesis
    by (rule cpm_close [OF b(1) rel d b(2,3)], rule that)
       (use PF_IOCR_TYPE_OUTPUT in \<open>simp_all add: close_cr_def held_def timer_off_def unheard_def\<close>)
qed (rule that [of x], use stops_refl [OF rel] d in
   \<open>simp_all add: close_cr_def held_def timer_off_def unheard_def only_cr_def closes_def buffers_def\<close>)+

text \<open>What is closed stays closed.\<close>

lemma closes_keep:
  assumes "closes x y k"
  shows "timer_off c (cy_sched x) \<Longrightarrow> timer_off c (cy_sched y)"
    and "unheard c (handler_of (eth_id_map x)) \<Longrightarrow> unheard c (handler_of (eth_id_map y))"
  using assms map_le_None by (auto simp: closes_def stops_def timer_off_def unheard_def split: iocr_type.splits)

lemma close_all:
  assumes "distinct cs" "\<forall>c \<in> set cs. closable (a, c) x" "sched_rel (cy_sched x) busy free" "ids_distinct (eth_id_map x)"
  obtains y where "for_creps (close_cr a) cs x = Some y" "closes x y (\<Sum>c\<leftarrow>cs. buffers (held (cr_at (a, c) x)))"
    "\<forall>c \<in> set cs. timer_off (cr_at (a, c) x) (cy_sched y) \<and> unheard (cr_at (a, c) x) (handler_of (eth_id_map y))"
    "\<forall>b. cy_in_use (cy_ar b y) = cy_in_use (cy_ar b x)"
    "\<forall>q. fst q \<noteq> a \<longrightarrow> cr_at q y = cr_at q x" "length (cy_ars y) = length (cy_ars x)"
proof -
  have "\<exists>y. for_creps (close_cr a) cs x = Some y \<and> closes x y (\<Sum>c\<leftarrow>cs. buffers (held (cr_at (a, c) x))) \<and>
    (\<forall>c \<in> set cs. timer_off (cr_at (a, c) x) (cy_sched y) \<and> unheard (cr_at (a, c) x) (handler_of (eth_id_map y))) \<and>
    (\<forall>b. cy_in_use (cy_ar b y) = cy_in_use (cy_ar b x)) \<and>
    (\<forall>q. fst q \<noteq> a \<longrightarrow> cr_at q y = cr_at q x) \<and> length (cy_ars y) = length (cy_ars x)"
    using assms
  proof (induction cs arbitrary: x busy free)
    case Nil
    then show ?case using stops_refl [OF Nil.prems(3)] by (simp add: closes_def)
  next
    case (Cons c cs)
    have c: "closable (a, c) x" using Cons.prems(2) by simp
    obtain z where z: "close_cr a c x = Some z" "only_cr (a, c) x z" "closes x z (buffers (held (cr_at (a, c) x)))"
      "timer_off (cr_at (a, c) x) (cy_sched z)" "unheard (cr_at (a, c) x) (handler_of (eth_id_map z))"
      by (rule close_one [OF c Cons.prems(3,4)])
    obtain busy1 free1 where rel: "sched_rel (cy_sched z) busy1 free1" by (rule closes_rel [OF z(3)])
    have same: "cr_at (a, d) z = cr_at (a, d) x" if "d \<in> set cs" for d
      using z(2) that Cons.prems(1) by (auto simp: only_cr_def)
    have "\<forall>d \<in> set cs. closable (a, d) z"
      using Cons.prems(2) z(2) same by (auto simp: closable_def only_cr_def)
    moreover have "distinct cs" "ids_distinct (eth_id_map z)" using Cons.prems(1) z(3) by (simp_all add: closes_def)
    ultimately obtain y where y: "for_creps (close_cr a) cs z = Some y"
      "closes z y (\<Sum>c\<leftarrow>cs. buffers (held (cr_at (a, c) z)))"
      "\<forall>c \<in> set cs. timer_off (cr_at (a, c) z) (cy_sched y) \<and> unheard (cr_at (a, c) z) (handler_of (eth_id_map y))"
      "\<forall>b. cy_in_use (cy_ar b y) = cy_in_use (cy_ar b z)"
      "\<forall>q. fst q \<noteq> a \<longrightarrow> cr_at q y = cr_at q z" "length (cy_ars y) = length (cy_ars z)"
      using Cons.IH [of z busy1 free1] rel by blast
    have sum: "(\<Sum>c\<leftarrow>cs. buffers (held (cr_at (a, c) z))) = (\<Sum>c\<leftarrow>cs. buffers (held (cr_at (a, c) x)))"
      using same by (intro arg_cong [of _ _ sum_list] map_cong) simp_all
    have "for_creps (close_cr a) (c # cs) x = Some y" using z(1) y(1) by simp
    moreover have "closes x y (\<Sum>c\<leftarrow>c # cs. buffers (held (cr_at (a, c) x)))"
      using closes_trans [OF z(3) y(2)] by (simp add: sum)
    moreover have "\<forall>d \<in> set (c # cs). timer_off (cr_at (a, d) x) (cy_sched y) \<and> unheard (cr_at (a, d) x) (handler_of (eth_id_map y))"
      using y(3) same closes_keep [OF y(2)] z(4,5) by simp
    moreover have "(\<forall>b. cy_in_use (cy_ar b y) = cy_in_use (cy_ar b x)) \<and> (\<forall>q. fst q \<noteq> a \<longrightarrow> cr_at q y = cr_at q x) \<and>
        length (cy_ars y) = length (cy_ars x)"
      using y(4-6) z(2) by (auto simp: only_cr_def)
    ultimately show ?case by blast
  qed
  then show ?thesis using that by blast
qed

lemma closable_cong:
  assumes "cr_valid p y = cr_valid p x" "cr_param (cr_at p y) = cr_param (cr_at p x)"
    "p_send_buffer (ppm_at p y) = p_send_buffer (ppm_at p x)" "p_buffer_cpm (cpm_at p y) = p_buffer_cpm (cpm_at p x)"
    "p_buffer_app (cpm_at p y) = p_buffer_app (cpm_at p x)"
  shows "closable p y = closable p x"
  using assms by (simp add: closable_def held_def split: iocr_type.split)

subsection \<open>The abort\<close>

lemma abort_ok:
  assumes "a < length (cy_ars x)" "cy_in_use (cy_ar a x)" "cy_cmsu (cy_ar a x) = PF_CMSU_STATE_STARTUP \<or> cy_cmsu (cy_ar a x) = PF_CMSU_STATE_RUN"
    and "\<forall>c < cy_nbr_iocrs (cy_ar a x). closable (a, c) x" "sched_rel (cy_sched x) busy free" "ids_distinct (eth_id_map x)"
  shows "\<exists>y os. cyc_abort a x = Some y \<and> cy_ar a y = zero_cyc_ar \<and> length (cy_ars y) = length (cy_ars x) \<and> (\<forall>q. fst q \<noteq> a \<longrightarrow> cr_at q y = cr_at q x) \<and>
    (\<forall>c < cy_nbr_iocrs (cy_ar a x). timer_off (cr_at (a, c) x) (cy_sched y) \<and>
      unheard (cr_at (a, c) x) (handler_of (eth_id_map y))) \<and>
    cy_outs y = cy_outs x @ Cy_abort_ind a (cy_err_cls (cy_ar a x)) (cy_err_code (cy_ar a x)) # os \<and>
    count_list os Cy_free = (\<Sum>c\<leftarrow>[0 ..< cy_nbr_iocrs (cy_ar a x)]. buffers (held (cr_at (a, c) x)))"
proof -
  let ?ind = "Cy_abort_ind a (cy_err_cls (cy_ar a x)) (cy_err_code (cy_ar a x))"
  let ?x = "cy_emit [?ind] x" and ?cs = "[0 ..< cy_nbr_iocrs (cy_ar a x)]"
  have cl: "\<forall>c \<in> set ?cs. closable (a, c) ?x" using assms(4) by (simp add: closable_def)
  have rel: "sched_rel (cy_sched ?x) busy free" and ids: "ids_distinct (eth_id_map ?x)" using assms(5,6) by simp_all
  obtain z where z: "for_creps (close_cr a) ?cs ?x = Some z" "closes ?x z (\<Sum>c\<leftarrow>?cs. buffers (held (cr_at (a, c) ?x)))"
    "\<forall>c \<in> set ?cs. timer_off (cr_at (a, c) ?x) (cy_sched z) \<and> unheard (cr_at (a, c) ?x) (handler_of (eth_id_map z))"
    "\<forall>b. cy_in_use (cy_ar b z) = cy_in_use (cy_ar b ?x)" "\<forall>q. fst q \<noteq> a \<longrightarrow> cr_at q z = cr_at q ?x" "length (cy_ars z) = length (cy_ars ?x)"
    by (rule close_all [OF distinct_upt cl rel ids])
  let ?z = "upd_cy a (cy_cmsu_update (\<lambda>_. PF_CMSU_STATE_IDLE)) z"
  have a: "a < length (cy_ars z)" "a < length (cy_ars ?z)" using assms(1) z(6) by simp_all
  have "cyc_abort a x = Some (upd_cy a (\<lambda>_. zero_cyc_ar) ?z)"
    using assms(2,3) z(1,4) a by (auto simp: cyc_abort_def Let_def cy_ar_upd_cy)
  moreover obtain os where "cy_outs z = cy_outs x @ ?ind # os"
    "count_list os Cy_free = (\<Sum>c\<leftarrow>?cs. buffers (held (cr_at (a, c) x)))"
    using z(2) by (auto simp: closes_def)
  moreover have "cr_at q (upd_cy a (\<lambda>_. zero_cyc_ar) ?z) = cr_at q x" if "fst q \<noteq> a" for q
  proof -
    have "cr_at q z = cr_at q x" using spec [OF z(5), of q] that by simp
    then show ?thesis using that a by (simp add: cr_at_def cy_ar_upd_cy)
  qed
  moreover have "\<forall>c < cy_nbr_iocrs (cy_ar a x). timer_off (cr_at (a, c) x) (cy_sched z) \<and> unheard (cr_at (a, c) x) (handler_of (eth_id_map z))"
    using z(3) by simp
  ultimately show ?thesis
    by (intro exI [of _ "upd_cy a (\<lambda>_. zero_cyc_ar) ?z"] exI [of _ os]) (use a z(6) in \<open>simp add: cy_ar_upd_cy\<close>)
qed

text \<open>C11: An abort of a started AR returns and gives everything back: the timers of its CRs do not run
  any more, the frame IDs of its consumers have no handler, each buffer that its CRs hold is freed once,
  the AR is free, and the application is told, with the error codes.\<close>

theorem abort_gives_back:
  assumes "a < length (cy_ars x)" "cy_in_use (cy_ar a x)" "cy_cmsu (cy_ar a x) = PF_CMSU_STATE_STARTUP \<or> cy_cmsu (cy_ar a x) = PF_CMSU_STATE_RUN"
    and "\<forall>c < cy_nbr_iocrs (cy_ar a x). closable (a, c) x" "sched_rel (cy_sched x) busy free" "ids_distinct (eth_id_map x)"
  shows "\<exists>y os. cyc_abort a x = Some y \<and> cy_ar a y = zero_cyc_ar \<and> (\<forall>q. fst q \<noteq> a \<longrightarrow> cr_at q y = cr_at q x) \<and>
    (\<forall>c < cy_nbr_iocrs (cy_ar a x). timer_off (cr_at (a, c) x) (cy_sched y) \<and>
      unheard (cr_at (a, c) x) (handler_of (eth_id_map y))) \<and>
    cy_outs y = cy_outs x @ Cy_abort_ind a (cy_err_cls (cy_ar a x)) (cy_err_code (cy_ar a x)) # os \<and>
    count_list os Cy_free = (\<Sum>c\<leftarrow>[0 ..< cy_nbr_iocrs (cy_ar a x)]. buffers (held (cr_at (a, c) x)))"
  using abort_ok [OF assms] by blast

theorem abort_gives_back_witness:
  "\<exists>x y os. p_buffer_cpm (cpm_at (0, 0) x) \<noteq> Null_buf \<and> cyc_abort 0 x = Some y \<and> cy_ar 0 y = zero_cyc_ar \<and>
    timer_off (cr_at (0, 0) x) (cy_sched y) \<and> unheard (cr_at (0, 0) x) (handler_of (eth_id_map y)) \<and>
    cy_outs y = Cy_abort_ind 0 0 0 # os \<and> count_list os Cy_free = 1"
proof -
  let ?e = "example_cyclic PF_IOCR_TYPE_OUTPUT [] []"
  define x where "x = upd_cpm (0, 0) (\<lambda>m. m\<lparr>p_buffer_cpm := Live_buf \<lparr>buf_payload = [], buf_len = 0\<rparr>\<rparr>) ?e"
  have ar: "cy_cmsu (cy_ar 0 ?e) = PF_CMSU_STATE_RUN" "cy_in_use (cy_ar 0 ?e)" "cy_nbr_iocrs (cy_ar 0 ?e) = 1"
    "cy_err_cls (cy_ar 0 ?e) = 0" "cy_err_code (cy_ar 0 ?e) = 0"
    by (simp_all add: example_cyclic_def cy_ar_def zero_cyc_ar_def)
  have e: "cy_err_cls (cy_ar 0 x) = 0" "cy_err_code (cy_ar 0 x) = 0"
    using ar by (simp_all add: x_def upd_cpm_def)
  have cr: "cr_cpm (example_cr t) = zero_cpm" "ip_iocr_type (cr_param (example_cr t)) = t" for t
    by (simp_all add: example_cr_def zero_cr_def)
  obtain busy free where rel: "sched_rel (cy_sched x) busy free"
    using example_at(5) [of PF_IOCR_TYPE_OUTPUT "[]" "[]"] unfolding timers_free_def x_def by auto
  have held: "buffers (held (cr_at (0, 0) x)) = 1" by (simp add: x_def cr held_def buffers_def zero_cpm_def)
  have n: "cy_nbr_iocrs (cy_ar 0 x) = 1" "cy_outs x = []" by (simp_all add: x_def ar)
  have st: "0 < length (cy_ars x)" "cy_cmsu (cy_ar 0 x) = PF_CMSU_STATE_RUN" "cy_in_use (cy_ar 0 x)" "ids_distinct (eth_id_map x)"
    using cr_valid_fst [OF example_at(1)] by (simp_all add: x_def ar example_map)
  have "closable (0, 0) x" by (simp add: x_def closable_def held_def cr zero_cpm_def)
  then have "\<exists>y os. cyc_abort 0 x = Some y \<and> cy_ar 0 y = zero_cyc_ar \<and>
      timer_off (cr_at (0, 0) x) (cy_sched y) \<and> unheard (cr_at (0, 0) x) (handler_of (eth_id_map y)) \<and>
      cy_outs y = Cy_abort_ind 0 0 0 # os \<and> count_list os Cy_free = 1"
    using abort_gives_back [of 0 x, OF _ _ _ _ rel] st by (auto simp: n e held)
  moreover have "p_buffer_cpm (cpm_at (0, 0) x) \<noteq> Null_buf" by (simp add: x_def cr)
  ultimately show ?thesis by blast
qed

end
