(* ===== verification/Cyclic_Watch.thy ===== *)
theory Cyclic_Watch
  imports Cyclic_Abort
begin

section \<open>The data hold watchdog\<close>

text \<open>
  A consumer that receives nothing aborts its AR after as many control intervals as the data hold factor
  says. And what frames that are not taken leave alone.
\<close>

subsection \<open>The timer of a consumer\<close>

text \<open>The scheduler runs a timer of the cyclic data: nothing happens unless the timer is started.\<close>

definition cyc_timer ::
    "cyc_cb \<Rightarrow> cr_ptr \<Rightarrow> u32 \<Rightarrow> (cyc_cb, cr_ptr) sched \<times> cyc_net \<Rightarrow> ((cyc_cb, cr_ptr) sched \<times> cyc_net) option" where
  "cyc_timer f p now sn = do { n \<leftarrow> cyc_call f p now ((snd sn)\<lparr>cy_sched := fst sn\<rparr>); Some (cy_sched n, n) }"

definition watch_expires :: "cr_ptr \<Rightarrow> cyc_net \<Rightarrow> cyc_net option" where
  "watch_expires p x =
     map_option snd (expires cyc_timer (cy_clock x) (cpm_ci_timeout (cpm_at p x)) (cy_sched x, x))"

text \<open>The watchdog timer of \<open>p\<close> runs, until \<open>t\<close>.\<close>

definition watch_runs :: "cr_ptr \<Rightarrow> u32 \<Rightarrow> cyc_net \<Rightarrow> bool" where
  "watch_runs p t x \<longleftrightarrow> handle_runs (cpm_ci_timeout (cpm_at p x)) (cy_sched x) \<and>
     timer_of (cpm_ci_timeout (cpm_at p x)) (cy_sched x) = (Cpm_control_interval_expired, p, t)"

lemma expires_frees:
  assumes "handle_runs h s" "timers_free 0 s"
  obtains s' where "timers_free 1 s'" "tick_interval s' = tick_interval s"
    "expires call now h (s, e) = call (fst (timer_of h s)) (fst (snd (timer_of h s))) now (s', e)"
proof -
  let ?ix = "timer_index h - 1"
  obtain busy free where rel: "sched_rel s busy free" and t: "tick_interval s \<le> PF_SCHEDULER_MAX_DELAY_US"
    using assms(2) by (auto simp: timers_free_def)
  have "?ix < PF_MAX_TIMEOUTS" using assms(1) by (auto simp: handle_runs_def)
  then have "?ix \<in> set busy" using assms(1) rel by (simp add: sched_rel_def handle_runs_def)
  then obtain as bs where b: "busy = as @ ?ix # bs" by (metis split_list)
  obtain s' where s': "release ?ix s = Some s'" "sched_rel s' (as @ bs) (?ix # free)" "others_kept ?ix s s'"
    using release_ok [of s as ?ix bs free] rel b by auto
  have "timers_free 1 s'"
    using s'(2,3) t unfolding timers_free_def by (intro exI [of _ "as @ bs"] exI [of _ "?ix # free"]) (simp add: others_kept_def)
  then show ?thesis
    by (rule that) (use s' assms(1) in \<open>simp_all add: expires_def expire_def timer_of_def Let_def others_kept_def\<close>)
qed

lemma timers_free_runs:
  assumes "timers_free (Suc k) s"
  obtains h' s' d where "pf_scheduler_add now w f a h s = Some (0, h', s')" "timers_free k s'" "handle_runs h' s'"
    "timer_of h' s' = (f, a, now + d)" "pf_scheduler_sanitize_delay w (tick_interval s) True = Some d" "tick_interval s' = tick_interval s"
proof -
  obtain busy x fs where r: "sched_rel s busy (x # fs)" "k \<le> length fs" "tick_interval s \<le> PF_SCHEDULER_MAX_DELAY_US"
    using assms unfolding timers_free_def by (metis Suc_le_length_iff)
  then have "0 < tick_interval s" by (simp add: sched_rel_def)
  then obtain d where d: "pf_scheduler_sanitize_delay w (tick_interval s) True = Some d" using sanitize_delay r(3) by blast
  obtain s' where s': "pf_scheduler_add now w f a h s = Some (0, h\<lparr>timer_index := x + 1\<rparr>, s')" "others_kept x s s'"
    "sched_rel s' (insert_timer (deadline s) (now + d) x busy) fs" "payload (timeouts s' ! x) = (h_name h, True, now + d, f, a)"
    using pf_scheduler_add_ok [OF r(1) d, of now f a h] by blast
  have "x < PF_MAX_TIMEOUTS" using r(1) by (auto simp: sched_rel_def)
  from handle_runs_added [OF s'(4) this] have "handle_runs (h\<lparr>timer_index := x + 1\<rparr>) s'" .
  moreover have "timers_free k s'" using s'(2,3) r(2,3) by (auto simp: timers_free_def others_kept_def)
  ultimately show ?thesis using that [OF s'(1)] s'(2,4) d by (simp add: timer_of_def payload_def others_kept_def)
qed

lemma watch_expires_eq:
  assumes "watch_runs p t x" "timers_free 0 (cy_sched x)"
  obtains s where "timers_free 1 s" "tick_interval s = tick_interval (cy_sched x)"
    "watch_expires p x = pf_cpm_control_interval_expired p (x\<lparr>cy_sched := s\<rparr>)"
proof -
  have r: "handle_runs (cpm_ci_timeout (cpm_at p x)) (cy_sched x)"
    "timer_of (cpm_ci_timeout (cpm_at p x)) (cy_sched x) = (Cpm_control_interval_expired, p, t)"
    using assms(1) by (simp_all add: watch_runs_def)
  obtain s where s: "timers_free 1 s" "tick_interval s = tick_interval (cy_sched x)"
    "expires cyc_timer (cy_clock x) (cpm_ci_timeout (cpm_at p x)) (cy_sched x, x) =
       cyc_timer Cpm_control_interval_expired p (cy_clock x) (s, x)"
    using expires_frees [OF r(1) assms(2), of cyc_timer "cy_clock x" x] unfolding r(2) fst_conv snd_conv by blast
  have "watch_expires p x = pf_cpm_control_interval_expired p (x\<lparr>cy_sched := s\<rparr>)"
    unfolding watch_expires_def s(3)
    by (cases "pf_cpm_control_interval_expired p (x\<lparr>cy_sched := s\<rparr>)") (simp_all add: cyc_timer_def cyc_call_def)
  then show ?thesis by (rule that [OF s(1,2)])
qed

subsection \<open>Silence\<close>

definition watches :: "cr_ptr \<Rightarrow> cyc_net \<Rightarrow> bool" where
  "watches p x \<longleftrightarrow> cr_valid p x \<and> snd p < PNET_MAX_CR \<and> cpm_state (cpm_at p x) = PF_CPM_STATE_RUN \<and> cpm_ci_running (cpm_at p x) \<and>
     cr_p_ar (cr_at p x) = Some (fst p) \<and> cr_crep (cr_at p x) = snd p \<and> timers_free 0 (cy_sched x) \<and> (\<exists>t. watch_runs p t x) \<and>
     cy_cmio (cy_ar (fst p) x) = PF_CMIO_STATE_DATA \<and> cy_cmsu (cy_ar (fst p) x) = PF_CMSU_STATE_RUN \<and>
     cy_in_use (cy_ar (fst p) x) \<and> (\<forall>c < cy_nbr_iocrs (cy_ar (fst p) x). closable (fst p, c) x) \<and> ids_distinct (eth_id_map x)"

lemma upd_cpm_id:
  assumes "cr_valid p y" "f (cpm_at p y) = cpm_at p y"
  shows "upd_cpm p f y = y"
proof -
  have "f (cr_cpm (cy_crs (cy_ars y ! fst p) ! snd p)) = cr_cpm (cy_crs (cy_ars y ! fst p) ! snd p)"
    using assms(2) by (simp add: cr_at_def cy_ar_def)
  then show ?thesis
    using assms(1) by (simp add: upd_cpm_def upd_cr_def upd_cy_def upd_def cr_valid_def cy_ar_def)
qed

lemma watch_step:
  assumes w: "watches p x" and d: "dht (cpm_at p x) < cpm_data_hold_factor (cpm_at p x)"
  obtains y e where "watch_expires p x = Some y" "watches p y"
    "dht (cpm_at p y) = dht (cpm_at p x) + 1" "cpm_data_hold_factor (cpm_at p y) = cpm_data_hold_factor (cpm_at p x)"
    "cy_outs y = cy_outs x" "watch_runs p (cy_clock y + e) y"
    "pf_scheduler_sanitize_delay (cpm_control_interval (cpm_at p y)) (tick_interval (cy_sched y)) True = Some e"
proof -
  note W = w [unfolded watches_def]
  obtain t where t: "watch_runs p t x" "timers_free 0 (cy_sched x)" using W by blast
  obtain s0 where s0: "timers_free 1 s0" "tick_interval s0 = tick_interval (cy_sched x)"
    "watch_expires p x = pf_cpm_control_interval_expired p (x\<lparr>cy_sched := s0\<rparr>)"
    by (rule watch_expires_eq [OF t])
  have nd: "(cpm_data_hold_factor (cpm_at p x) \<le> dht (cpm_at p x)) = False" using d by simp
  let ?x1 = "upd_cpm p (\<lambda>m. m\<lparr>dht := dht m + 1\<rparr>)
    (upd_cpm p (\<lambda>m. m\<lparr>cpm_ci_timeout := pf_scheduler_reset_handle (cpm_ci_timeout m)\<rparr>) (x\<lparr>cy_sched := s0\<rparr>))"
  obtain h s e where add: "pf_scheduler_add (cy_clock ?x1) (cpm_control_interval (cpm_at p ?x1)) Cpm_control_interval_expired p
      (cpm_ci_timeout (cpm_at p ?x1)) (cy_sched ?x1) = Some (0, h, s)"
    "timers_free 0 s" "handle_runs h s" "timer_of h s = (Cpm_control_interval_expired, p, cy_clock ?x1 + e)"
    "pf_scheduler_sanitize_delay (cpm_control_interval (cpm_at p ?x1)) (tick_interval (cy_sched ?x1)) True = Some e"
    "tick_interval s = tick_interval (cy_sched ?x1)"
    by (rule timers_free_runs [of 0 "cy_sched ?x1"]) (use s0 in auto)
  let ?y = "upd_cpm p (cpm_ci_timeout_update (\<lambda>_. h)) (?x1\<lparr>cy_sched := s\<rparr>)"
  have r: "watch_runs p (cy_clock ?y + e) ?y" using W add(3,4) by (simp add: watch_runs_def)
  show ?thesis
  proof (rule that [OF _ _ _ _ _ r])
    show "watch_expires p x = Some ?y"
      using W add(1) by (simp add: s0(3) pf_cpm_control_interval_expired_def dht_step_def cpm_add_def Let_def nd)
    have "closable q ?y = closable q x" for q by (rule closable_cong) (use W in simp_all)
    then show "watches p ?y" unfolding watches_def using W add(2) r by (intro conjI exI [of _ "cy_clock ?y + e"]) simp_all
  qed (use W add(5,6) in simp_all)
qed

lemma watch_end:
  assumes w: "watches p x" and d: "\<not> dht (cpm_at p x) < cpm_data_hold_factor (cpm_at p x)"
  obtains y os where "watch_expires p x = Some y" "cy_ar (fst p) y = zero_cyc_ar"
    "cy_outs y = cy_outs x @ Cy_abort_ind (fst p) PNET_ERROR_CODE_1_RTA_ERR_CLS_PROTOCOL
       PNET_ERROR_CODE_2_ABORT_AR_CONSUMER_DHT_EXPIRED # os"
proof -
  note W = w [unfolded watches_def]
  obtain t where t: "watch_runs p t x" "timers_free 0 (cy_sched x)" using W by blast
  obtain s0 where s0: "timers_free 1 s0" "watch_expires p x = pf_cpm_control_interval_expired p (x\<lparr>cy_sched := s0\<rparr>)"
    by (rule watch_expires_eq [OF t])
  have nd: "cpm_data_hold_factor (cpm_at p x) \<le> dht (cpm_at p x)" using d by simp
  have a: "fst p < length (cy_ars x)" using W by (simp add: cr_valid_def)
  let ?x1 = "upd_cpm p (\<lambda>m. m\<lparr>cpm_ci_timeout := pf_scheduler_reset_handle (cpm_ci_timeout m)\<rparr>) (x\<lparr>cy_sched := s0\<rparr>)"
  let ?x2 = "upd_cpm p (\<lambda>m. m\<lparr>dht := 0, cpm_ci_running := False\<rparr>) (cy_set_err (fst p) PNET_ERROR_CODE_1_RTA_ERR_CLS_PROTOCOL
    PNET_ERROR_CODE_2_ABORT_AR_CONSUMER_DHT_EXPIRED ?x1)"
  obtain busy free where rel: "sched_rel (cy_sched ?x2) busy free" using s0(1) by (auto simp: timers_free_def)
  have cl: "closable q ?x2 = closable q x" for q by (rule closable_cong) (use W a in simp_all)
  have e: "cy_err_cls (cy_ar (fst p) ?x2) = PNET_ERROR_CODE_1_RTA_ERR_CLS_PROTOCOL"
    "cy_err_code (cy_ar (fst p) ?x2) = PNET_ERROR_CODE_2_ABORT_AR_CONSUMER_DHT_EXPIRED"
    using W a by (simp_all add: upd_cpm_def cy_set_err_def cy_ar_upd_cy cr_at_upd_cy)
  have "\<exists>y os. cyc_abort (fst p) ?x2 = Some y \<and> cy_ar (fst p) y = zero_cyc_ar \<and> length (cy_ars y) = length (cy_ars ?x2) \<and>
      cy_outs y = cy_outs ?x2 @ Cy_abort_ind (fst p) (cy_err_cls (cy_ar (fst p) ?x2)) (cy_err_code (cy_ar (fst p) ?x2)) # os"
    using abort_ok [of "fst p" ?x2, OF _ _ _ _ rel] W a by (simp add: cl) blast
  then obtain y os where y: "cyc_abort (fst p) ?x2 = Some y" "cy_ar (fst p) y = zero_cyc_ar" "length (cy_ars y) = length (cy_ars x)"
    "cy_outs y = cy_outs x @ Cy_abort_ind (fst p) PNET_ERROR_CODE_1_RTA_ERR_CLS_PROTOCOL
       PNET_ERROR_CODE_2_ABORT_AR_CONSUMER_DHT_EXPIRED # os"
    unfolding e using W a by auto
  let ?y = "pf_cpm_set_state PF_CPM_STATE_W_START p y"
  have v: "cr_valid p y" "cr_at p y = zero_cr"
    using W a y(2,3) by (simp_all add: cr_valid_def cr_at_def zero_cyc_ar_def)
  then have same: "?y = y"
    by (simp add: pf_cpm_set_state_def upd_cpm_id zero_cr_def zero_cpm_def)
  show ?thesis
  proof (rule that [of ?y os])
    show "watch_expires p x = Some ?y"
      using W a nd y(1) v unfolding same
      by (simp add: s0(2) pf_cpm_control_interval_expired_def dht_step_def pf_cpm_state_ind_def cyc_state_ind_def Let_def same zero_cr_def zero_cpm_def)
  qed (use y in \<open>simp_all add: same\<close>)
qed

text \<open>
  The timer expires again and again. \<open>env k\<close> is what the rest of the stack does before the expiration
  \<open>k\<close>; \<open>silent\<close> says that it is not a frame for this consumer and not the end of its AR, and leaves its
  timer running.
\<close>

primrec expirations :: "cr_ptr \<Rightarrow> (nat \<Rightarrow> cyc_net \<Rightarrow> cyc_net) \<Rightarrow> nat \<Rightarrow> cyc_net \<Rightarrow> cyc_net option" where
  "expirations p env 0 x = Some x"
| "expirations p env (Suc k) x = do { y \<leftarrow> expirations p env k x; watch_expires p (env k y) }"

definition silent :: "cr_ptr \<Rightarrow> cyc_net \<Rightarrow> cyc_net \<Rightarrow> bool" where
  "silent p x y \<longleftrightarrow> watches p y \<and> dht (cpm_at p y) = dht (cpm_at p x) \<and>
     cpm_data_hold_factor (cpm_at p y) = cpm_data_hold_factor (cpm_at p x)"

lemma unat_inc:
  fixes a b :: "'l::len word"
  assumes "a < b"
  shows "unat (a + 1) = unat a + 1"
proof -
  have "unat a + 1 < 2 ^ LENGTH('l)" using assms unsigned_less [of b, where ?'a = nat] unfolding word_less_nat_alt by linarith
  then show ?thesis by (simp add: unat_word_ariths)
qed

lemma silent_step:
  assumes "silent p y x" "unat (dht (cpm_at p y)) < unat (cpm_data_hold_factor (cpm_at p y))"
  obtains z e where "watch_expires p x = Some z" "watches p z" "unat (dht (cpm_at p z)) = unat (dht (cpm_at p y)) + 1"
    "cpm_data_hold_factor (cpm_at p z) = cpm_data_hold_factor (cpm_at p y)" "watch_runs p (cy_clock z + e) z"
    "pf_scheduler_sanitize_delay (cpm_control_interval (cpm_at p z)) (tick_interval (cy_sched z)) True = Some e"
proof -
  have w: "watches p x" and d: "dht (cpm_at p x) < cpm_data_hold_factor (cpm_at p x)"
    using assms by (simp_all add: silent_def word_less_nat_alt)
  obtain z e where z: "watch_expires p x = Some z" "watches p z" "dht (cpm_at p z) = dht (cpm_at p x) + 1"
    "cpm_data_hold_factor (cpm_at p z) = cpm_data_hold_factor (cpm_at p x)" "watch_runs p (cy_clock z + e) z"
    "pf_scheduler_sanitize_delay (cpm_control_interval (cpm_at p z)) (tick_interval (cy_sched z)) True = Some e"
    by (rule watch_step [OF w d])
  have "unat (dht (cpm_at p z)) = unat (dht (cpm_at p y)) + 1" using assms(1) unat_inc [OF d] by (simp add: z(3) silent_def)
  then show ?thesis using that z assms(1) by (simp add: silent_def)
qed

lemma silent_run:
  assumes "watches p x" "unat (dht (cpm_at p x)) + n \<le> unat (cpm_data_hold_factor (cpm_at p x))"
    and "\<And>j y. j < n \<Longrightarrow> expirations p env j x = Some y \<Longrightarrow> silent p y (env j y)"
  shows "\<exists>y. expirations p env n x = Some y \<and> watches p y \<and> unat (dht (cpm_at p y)) = unat (dht (cpm_at p x)) + n \<and>
    cpm_data_hold_factor (cpm_at p y) = cpm_data_hold_factor (cpm_at p x) \<and>
    (0 < n \<longrightarrow> (\<exists>e. watch_runs p (cy_clock y + e) y \<and>
      pf_scheduler_sanitize_delay (cpm_control_interval (cpm_at p y)) (tick_interval (cy_sched y)) True = Some e))"
  using assms
proof (induction n)
  case (Suc n)
  obtain y where y: "expirations p env n x = Some y" "unat (dht (cpm_at p y)) = unat (dht (cpm_at p x)) + n"
    "cpm_data_hold_factor (cpm_at p y) = cpm_data_hold_factor (cpm_at p x)"
    using Suc.IH Suc.prems by auto
  have s: "silent p y (env n y)" using Suc.prems(3) [OF _ y(1)] by simp
  have l: "unat (dht (cpm_at p y)) < unat (cpm_data_hold_factor (cpm_at p y))" using y(2,3) Suc.prems(2) by simp
  obtain z e where "watch_expires p (env n y) = Some z" "watches p z" "unat (dht (cpm_at p z)) = unat (dht (cpm_at p y)) + 1"
    "cpm_data_hold_factor (cpm_at p z) = cpm_data_hold_factor (cpm_at p y)" "watch_runs p (cy_clock z + e) z"
    "pf_scheduler_sanitize_delay (cpm_control_interval (cpm_at p z)) (tick_interval (cy_sched z)) True = Some e"
    by (rule silent_step [OF s l])
  then show ?case using y by auto
qed simp

text \<open>C10: A consumer that gets no frame aborts its AR: as long as its counter has not reached the data
  hold factor each expiration of its timer counts and starts the timer again, for the same consumer and
  with its control interval, and the expiration after that ends the AR with the error code for an expired
  data hold timer. An expiration takes place only when the timer runs.\<close>

theorem silence_aborts:
  assumes "watches p x" "unat (dht (cpm_at p x)) + n = unat (cpm_data_hold_factor (cpm_at p x))"
    and "\<And>j y. j \<le> n \<Longrightarrow> expirations p env j x = Some y \<Longrightarrow> silent p y (env j y)"
  shows "(\<forall>j < n. \<exists>y e. expirations p env (Suc j) x = Some y \<and> watches p y \<and>
      pf_scheduler_sanitize_delay (cpm_control_interval (cpm_at p y)) (tick_interval (cy_sched y)) True = Some e \<and>
      watch_runs p (cy_clock y + e) y) \<and>
    (\<exists>y z os. expirations p env n x = Some y \<and> expirations p env (Suc n) x = Some z \<and> cy_ar (fst p) z = zero_cyc_ar \<and>
      cy_outs z = cy_outs (env n y) @ Cy_abort_ind (fst p) PNET_ERROR_CODE_1_RTA_ERR_CLS_PROTOCOL
        PNET_ERROR_CODE_2_ABORT_AR_CONSUMER_DHT_EXPIRED # os)"
proof
  show "\<forall>j < n. \<exists>y e. expirations p env (Suc j) x = Some y \<and> watches p y \<and>
      pf_scheduler_sanitize_delay (cpm_control_interval (cpm_at p y)) (tick_interval (cy_sched y)) True = Some e \<and>
      watch_runs p (cy_clock y + e) y"
  proof (intro allI impI)
    fix j assume "j < n"
    then show "\<exists>y e. expirations p env (Suc j) x = Some y \<and> watches p y \<and>
        pf_scheduler_sanitize_delay (cpm_control_interval (cpm_at p y)) (tick_interval (cy_sched y)) True = Some e \<and>
        watch_runs p (cy_clock y + e) y"
      using silent_run [OF assms(1), of "Suc j" env] assms(2,3) by fastforce
  qed
  obtain y where y: "expirations p env n x = Some y" "unat (dht (cpm_at p y)) = unat (dht (cpm_at p x)) + n"
    "cpm_data_hold_factor (cpm_at p y) = cpm_data_hold_factor (cpm_at p x)"
    using silent_run [OF assms(1), of n env] assms(2,3) by fastforce
  have s: "silent p y (env n y)" by (rule assms(3) [OF _ y(1)]) simp
  then have w: "watches p (env n y)" and d: "\<not> dht (cpm_at p (env n y)) < cpm_data_hold_factor (cpm_at p (env n y))"
    using y(2,3) assms(2) by (simp_all add: silent_def word_less_nat_alt)
  obtain z os where z: "watch_expires p (env n y) = Some z" "cy_ar (fst p) z = zero_cyc_ar"
    "cy_outs z = cy_outs (env n y) @ Cy_abort_ind (fst p) PNET_ERROR_CODE_1_RTA_ERR_CLS_PROTOCOL
       PNET_ERROR_CODE_2_ABORT_AR_CONSUMER_DHT_EXPIRED # os"
    by (rule watch_end [OF w d])
  then show "\<exists>y z os. expirations p env n x = Some y \<and> expirations p env (Suc n) x = Some z \<and> cy_ar (fst p) z = zero_cyc_ar \<and>
      cy_outs z = cy_outs (env n y) @ Cy_abort_ind (fst p) PNET_ERROR_CODE_1_RTA_ERR_CLS_PROTOCOL
        PNET_ERROR_CODE_2_ABORT_AR_CONSUMER_DHT_EXPIRED # os"
    using y(1) by auto
qed

lemma silent_env:
  assumes "\<And>j y. watches p y \<Longrightarrow> silent p y (env j y)" "watches p x"
    "unat (dht (cpm_at p x)) + n \<le> unat (cpm_data_hold_factor (cpm_at p x))"
  shows "j \<le> n \<Longrightarrow> expirations p env j x = Some y \<Longrightarrow> silent p y (env j y)"
proof (induction j arbitrary: y rule: less_induct)
  case (less j)
  have "unat (dht (cpm_at p x)) + j \<le> unat (cpm_data_hold_factor (cpm_at p x))" using less.prems(1) assms(3) by linarith
  moreover have "silent p z (env i z)" if "i < j" "expirations p env i x = Some z" for i z
    using less.IH [OF that(1) _ that(2)] that(1) less.prems(1) by simp
  ultimately have "\<exists>z. expirations p env j x = Some z \<and> watches p z" using silent_run [OF assms(2), of j env] by blast
  then show ?case using less.prems(2) assms(1) by auto
qed

theorem silence_aborts_witness:
  "\<exists>x y z os. unat (cpm_data_hold_factor (cpm_at (0, 0) x)) = 3 \<and> watches (0, 0) x \<and>
    expirations (0, 0) (\<lambda>_ x. x) 3 x = Some y \<and> expirations (0, 0) (\<lambda>_ x. x) 4 x = Some z \<and> cy_ar 0 z = zero_cyc_ar \<and>
    cy_outs z = cy_outs y @ Cy_abort_ind 0 PNET_ERROR_CODE_1_RTA_ERR_CLS_PROTOCOL
        PNET_ERROR_CODE_2_ABORT_AR_CONSUMER_DHT_EXPIRED # os"
proof -
  let ?e = "example_cyclic PF_IOCR_TYPE_OUTPUT [] []"
  have f1: "timers_free (Suc 0) (cy_sched ?e)" by (rule example_at(6))
  obtain h s d where t: "timers_free 0 s" "handle_runs h s" "timer_of h s = (Cpm_control_interval_expired, (0 :: nat, 0 :: nat), 0 + d)"
    by (rule timers_free_runs [OF f1, of 0 1000 Cpm_control_interval_expired "(0, 0)" "pf_scheduler_init_handle 0"])
  define x where "x = upd_cpm (0, 0) (\<lambda>m. m\<lparr>cpm_state := PF_CPM_STATE_RUN, cpm_ci_running := True, cpm_data_hold_factor := 3,
    cpm_ci_timeout := h\<rparr>) (?e\<lparr>cy_sched := s\<rparr>)"
  have ar: "cy_cmio (cy_ar 0 ?e) = PF_CMIO_STATE_DATA" "cy_cmsu (cy_ar 0 ?e) = PF_CMSU_STATE_RUN" "cy_in_use (cy_ar 0 ?e)"
    "cy_nbr_iocrs (cy_ar 0 ?e) = 1"
    by (simp_all add: example_cyclic_def cy_ar_def)
  have cr: "cr_p_ar (example_cr t) = Some 0" "cr_crep (example_cr t) = 0" "cr_cpm (example_cr t) = zero_cpm"
    "ip_iocr_type (cr_param (example_cr t)) = t" for t
    by (simp_all add: example_cr_def zero_cr_def)
  have w: "watches (0, 0) x"
    using t by (simp add: watches_def watch_runs_def x_def ar cr closable_def held_def zero_cpm_def PNET_MAX_CR_def example_map)
  have f: "unat (dht (cpm_at (0, 0) x)) + 3 = unat (cpm_data_hold_factor (cpm_at (0, 0) x))"
    by (simp add: x_def cr zero_cpm_def)
  have s: "silent (0, 0) y y" if "j \<le> 3" "expirations (0, 0) (\<lambda>_ x. x) j x = Some y" for j y
    by (rule silent_env [of "(0, 0)" "\<lambda>_ x. x", OF _ w _ that]) (use f in \<open>simp_all add: silent_def\<close>)
  obtain y z os where "expirations (0, 0) (\<lambda>_ x. x) 3 x = Some y" "expirations (0, 0) (\<lambda>_ x. x) (Suc 3) x = Some z"
    "cy_ar (fst (0, 0 :: nat)) z = zero_cyc_ar"
    "cy_outs z = cy_outs y @ Cy_abort_ind (fst (0, 0 :: nat)) PNET_ERROR_CODE_1_RTA_ERR_CLS_PROTOCOL
        PNET_ERROR_CODE_2_ABORT_AR_CONSUMER_DHT_EXPIRED # os"
    using silence_aborts [of "(0, 0)" x 3 "\<lambda>_ x. x", OF w f s] by fastforce
  moreover have "unat (cpm_data_hold_factor (cpm_at (0, 0) x)) = 3" by (simp add: x_def)
  moreover have four: "Suc 3 = (4 :: nat)" by simp
  ultimately show ?thesis using w unfolding four fst_conv by blast
qed

end
