(* ===== verification/Cyclic_Errors.thy ===== *)
theory Cyclic_Errors
  imports Cyclic_Watch
begin

section \<open>Frames that are not taken, and starts that fail\<close>

text \<open>
  Which frames a consumer takes, and what the others leave alone; a provider whose frame cannot be sent;
  a consumer whose timer cannot be started.
\<close>

subsection \<open>Which frames are taken\<close>

definition frame_cycle :: "pnal_buf \<Rightarrow> u16" where
  "frame_cycle buf = (let k = unat (buf_len buf) in
     ucast (buf_payload buf ! (k - 4)) * 0x100 + ucast (buf_payload buf ! (k - 3)))"

text \<open>
  The transfer status is 0, the data are valid, the source is the controller, the length without VLAN
  tags is the expected one, and the counter is ahead of the last one by 1 to 61440.
\<close>

definition acceptable :: "cpm \<Rightarrow> pnal_buf \<Rightarrow> nat \<Rightarrow> bool" where
  "acceptable m buf pos \<longleftrightarrow> (let b = buf_payload buf; k = unat (buf_len buf); d = (uint (frame_cycle buf) - cpm_cycle m) mod 65536 in
     b ! (k - 1) = 0 \<and> b ! (k - 2) AND 4 \<noteq> 0 \<and> take 6 (drop 6 b) = cpm_sa m \<and>
     k + 14 = unat (cpm_buffer_length m) + pos \<and> 1 \<le> d \<and> d \<le> 61440)"

lemma check_cycle_ahead: "pf_cpm_check_cycle prev now = 0 \<longleftrightarrow> 1 \<le> (uint now - prev) mod 65536 \<and> (uint now - prev) mod 65536 \<le> 61440"
proof -
  have "uint (now - word_of_int prev) = (uint now - prev) mod 65536"
    by (simp add: uint_word_ariths uint_word_of_int mod_simps)
  then show ?thesis by (simp add: pf_cpm_check_cycle_def Let_def word_le_def)
qed

lemma frame_length:
  fixes a b :: u16
  assumes "pos \<le> unat a" "unat a + 14 < 65536"
  shows "a - of_nat pos + (2 * 6 + 2) = b \<longleftrightarrow> unat a + 14 = unat b + pos"
proof -
  have "a - of_nat pos + (2 * 6 + 2) = of_nat (unat a + 14 - pos)" using assms(1) by (simp add: of_nat_diff)
  moreover have "unat (of_nat (unat a + 14 - pos) :: u16) = unat a + 14 - pos"
    using assms by (simp add: unat_of_nat del: of_nat_diff of_nat_add)
  ultimately have "a - of_nat pos + (2 * 6 + 2) = b \<longleftrightarrow> unat a + 14 - pos = unat b" by (metis word_unat_eq_iff)
  then show ?thesis using assms(1) by auto
qed

lemma apdu_bytes:
  assumes "4 \<le> unat (buf_len buf)" "unat (buf_len buf) \<le> length (buf_payload buf)"
  obtains apdu where "peek (unat (buf_len buf - 4)) 4 (buf_payload buf) = Some apdu"
    "ucast (apdu ! 0) * 0x100 + ucast (apdu ! 1) = frame_cycle buf"
    "apdu ! 2 = buf_payload buf ! (unat (buf_len buf) - 2)" "apdu ! 3 = buf_payload buf ! (unat (buf_len buf) - 1)"
proof -
  let ?k = "unat (buf_len buf)" and ?b = "buf_payload buf"
  have "4 \<le> buf_len buf" using assms(1) by (simp add: word_le_nat_alt)
  then have pos: "unat (buf_len buf - 4) = ?k - 4" by (simp add: unat_sub)
  have at: "take 4 (drop (?k - 4) ?b) ! i = ?b ! (?k - 4 + i)" if "i < 4" for i using that assms by simp
  show ?thesis
  proof (rule that)
    show "peek (unat (buf_len buf - 4)) 4 ?b = Some (take 4 (drop (?k - 4) ?b))"
      unfolding pos peek_def using assms by simp
    have "?k - 4 + 1 = ?k - 3" "?k - 4 + 2 = ?k - 2" "?k - 4 + 3 = ?k - 1" using assms(1) by simp_all
    then show "ucast (take 4 (drop (?k - 4) ?b) ! 0) * 0x100 + ucast (take 4 (drop (?k - 4) ?b) ! 1) = frame_cycle buf"
      "take 4 (drop (?k - 4) ?b) ! 2 = ?b ! (?k - 2)" "take 4 (drop (?k - 4) ?b) ! 3 = ?b ! (?k - 1)"
      unfolding frame_cycle_def Let_def using at [of 0] at [of 1] at [of 2] at [of 3] by simp_all
  qed
qed

lemma upd_cpm_emit: "upd_cpm p f (cy_emit os x) = cy_emit os (upd_cpm p f x)"
  by (simp add: upd_cpm_def upd_cr_def upd_cy_def cy_emit_def)

lemma cy_emit_emit: "cy_emit os (cy_emit os' x) = cy_emit (os' @ os) x"
  by (simp add: cy_emit_def)

text \<open>C30: A consumer that runs takes exactly the acceptable frames. A frame that is not acceptable
  is freed and counted, and changes nothing else: neither the data that the application reads, nor the
  data status, nor the counters of cycles and of the watchdog. A frame that is taken becomes the newest
  data, restarts the watchdog and sets the state RUN.\<close>

theorem frames_taken:
  assumes "cr_valid p x" "cpm_state (cpm_at p x) \<noteq> PF_CPM_STATE_W_START" "cr_p_ar (cr_at p x) = Some (fst p)" "cr_crep (cr_at p x) = snd p"
    and "p_buffer_cpm (cpm_at p x) \<noteq> Freed_buf" "12 \<le> unat (buf_len buf)" "unat (buf_len buf) \<le> length (buf_payload buf)"
    and "pos \<le> unat (buf_len buf)" "unat (buf_len buf) + 14 < 65536"
  shows "\<exists>y. pf_cpm_c_data_ind p i buf pos x = Some (1, y) \<and>
    (if acceptable (cpm_at p x) buf pos
     then \<exists>m' os. y = cy_emit os (upd_cpm p (\<lambda>_. m') x) \<and>
       took buf pos (frame_cycle buf) (buf_payload buf ! (unat (buf_len buf) - 2)) (cpm_at p x) m'
     else y = cy_emit [Cy_free] (upd_cpm p (\<lambda>m. m\<lparr>recv_cnt := recv_cnt m + 1, free_cnt := free_cnt m + 1\<rparr>) x))"
proof -
  let ?x = "upd_cpm p (\<lambda>m. m\<lparr>recv_cnt := recv_cnt m + 1\<rparr>) x" and ?ds = "buf_payload buf ! (unat (buf_len buf) - 2)"
  obtain apdu where apdu: "peek (unat (buf_len buf - 4)) 4 (buf_payload buf) = Some apdu"
    "ucast (apdu ! 0) * 0x100 + ucast (apdu ! 1) = frame_cycle buf"
    "apdu ! 2 = ?ds" "apdu ! 3 = buf_payload buf ! (unat (buf_len buf) - 1)"
    by (rule apdu_bytes) (use assms in simp_all)
  have src: "peek 6 6 (buf_payload buf) = Some (take 6 (drop 6 (buf_payload buf)))" using assms by (simp add: peek_def)
  have v: "cr_valid p ?x" and me: "cr_p_ar (cr_at p ?x) = Some (fst p)" "cr_crep (cr_at p ?x) = snd p" using assms(1,3,4) by simp_all
  let ?reload = "buf_payload buf ! (unat (buf_len buf) - 1) = 0 \<and> take 6 (drop 6 (buf_payload buf)) = cpm_sa (cpm_at p x) \<and>
    buf_len buf - of_nat pos + (2 * 6 + 2) = cpm_buffer_length (cpm_at p x) \<and> pf_cpm_check_cycle (cpm_cycle (cpm_at p x)) (frame_cycle buf) = 0"
  have ok: "acceptable (cpm_at p x) buf pos \<longleftrightarrow> ?ds AND 4 \<noteq> 0 \<and> ?reload"
    unfolding acceptable_def Let_def frame_length [OF assms(8,9)] check_cycle_ahead by blast
  have ind: "pf_cpm_c_data_ind p i buf pos x =
    (if acceptable (cpm_at p x) buf pos
     then do { (b, n) \<leftarrow> cpm_accept p buf pos True (frame_cycle buf) ?ds ?x; cpm_drop p b n }
     else cpm_drop p (Live_buf buf) ?x)"
    unfolding ok pf_cpm_c_data_ind_def Let_def apdu(1) bind.bind_lunit pf_cpm_check_src_addr_def src apdu(2-4)
    using assms(1,2) by auto
  show ?thesis
  proof (cases "acceptable (cpm_at p x) buf pos")
    case True
    obtain m1 os1 where acc: "cpm_accept p buf pos True (frame_cycle buf) ?ds ?x =
        Some (p_buffer_cpm (cpm_at p ?x), cy_emit os1 (upd_cpm p (\<lambda>_. m1) ?x))"
      and took1: "took buf pos (frame_cycle buf) ?ds (cpm_at p ?x) m1"
      by (rule accept [OF v me])
    let ?z = "cy_emit os1 (upd_cpm p (\<lambda>_. m1) ?x)"
    have nf: "p_buffer_cpm (cpm_at p ?x) \<noteq> Freed_buf" and v1: "cr_valid p ?z" using assms by simp_all
    obtain fc os2 where drop: "cpm_drop p (p_buffer_cpm (cpm_at p ?x)) ?z = Some (1, cy_emit os2 (upd_cpm p (free_cnt_update (\<lambda>_. fc)) ?z))"
      by (rule drop_ok [OF v1 nf])
    have e: "cy_emit os2 (upd_cpm p (free_cnt_update (\<lambda>_. fc)) ?z) = cy_emit (os1 @ os2) (upd_cpm p (\<lambda>_. m1\<lparr>free_cnt := fc\<rparr>) x)"
      using assms(1) v by (simp add: upd_cpm_emit upd_cpm_upd_cpm cy_emit_emit)
    have "took buf pos (frame_cycle buf) ?ds (cpm_at p x) (m1\<lparr>free_cnt := fc\<rparr>)"
      using took1 assms(1) by (intro took_counts) simp
    moreover have "pf_cpm_c_data_ind p i buf pos x = Some (1, cy_emit (os1 @ os2) (upd_cpm p (\<lambda>_. m1\<lparr>free_cnt := fc\<rparr>) x))"
      using ind True acc drop e by simp
    ultimately show ?thesis using True by auto
  next
    case False
    have "pf_cpm_c_data_ind p i buf pos x = cpm_drop p (Live_buf buf) ?x" using ind False by simp
    then show ?thesis using False assms(1) by (simp add: cpm_drop_def free_buf_def upd_cpm_upd_cpm)
  qed
qed

theorem frames_taken_witness:
  "\<exists>x y z m' os. acceptable (cpm_at (0, 0) x) (received (replicate 60 0 @ [0, 1, 5, 0]) []) 16 \<and>
    pf_cpm_c_data_ind (0, 0) 0x8001 (received (replicate 60 0 @ [0, 1, 5, 0]) []) 16 x = Some (1, y) \<and>
    y = cy_emit os (upd_cpm (0, 0) (\<lambda>_. m') x) \<and> new_buf m' \<and> cpm_cycle m' = 1 \<and>
    \<not> acceptable (cpm_at (0, 0) x) (received (replicate 60 0 @ [0, 1, 1, 0]) []) 16 \<and>
    pf_cpm_c_data_ind (0, 0) 0x8001 (received (replicate 60 0 @ [0, 1, 1, 0]) []) 16 x = Some (1, z) \<and>
    z = cy_emit [Cy_free] (upd_cpm (0, 0) (\<lambda>m. m\<lparr>recv_cnt := recv_cnt m + 1, free_cnt := free_cnt m + 1\<rparr>) x)"
proof -
  define x where "x = upd_cpm (0, 0) (\<lambda>m. m\<lparr>cpm_state := PF_CPM_STATE_RUN, cpm_buffer_length := 62\<rparr>)
    (example_cyclic PF_IOCR_TYPE_OUTPUT [] [])"
  let ?good = "received (replicate 60 0 @ [0, 1, 5, 0]) []" and ?bad = "received (replicate 60 0 @ [0, 1, 1, 0]) []"
  have c: "cr_cpm (example_cr t) = zero_cpm" "cr_p_ar (example_cr t) = Some 0" "cr_crep (example_cr t) = 0" for t
    by (simp_all add: example_cr_def zero_cr_def)
  have l: "unat (buf_len ?good) = 64" "unat (buf_len ?bad) = 64" by (simp_all add: received_def)
  have f: "frame_cycle ?good = 1" by (simp add: frame_cycle_def l Let_def) (simp add: received_def nth_append)
  have a: "acceptable (cpm_at (0, 0) x) ?good 16" "\<not> acceptable (cpm_at (0, 0) x) ?bad 16"
    by (simp_all add: acceptable_def f l Let_def) (simp_all add: received_def nth_append x_def c zero_cpm_def)
  have x: "cr_valid (0, 0) x" "cpm_state (cpm_at (0, 0) x) \<noteq> PF_CPM_STATE_W_START" "cr_p_ar (cr_at (0, 0) x) = Some (fst (0, 0 :: nat))"
    "cr_crep (cr_at (0, 0) x) = snd (0 :: nat, 0)" "p_buffer_cpm (cpm_at (0, 0) x) \<noteq> Freed_buf"
    by (simp_all add: x_def c zero_cpm_def)
  obtain y m' os where y: "pf_cpm_c_data_ind (0, 0) 0x8001 ?good 16 x = Some (1, y)" "y = cy_emit os (upd_cpm (0, 0) (\<lambda>_. m') x)"
    "took ?good 16 1 (buf_payload ?good ! (unat (buf_len ?good) - 2)) (cpm_at (0, 0) x) m'"
    using frames_taken [OF x, where buf = ?good and pos = 16 and i = "0x8001"] a(1) by (auto simp: l f) (auto simp: received_def)
  have "new_buf m'" "cpm_cycle m' = 1" using y(3) by (auto simp: took_def)
  moreover have "\<exists>z. pf_cpm_c_data_ind (0, 0) 0x8001 ?bad 16 x = Some (1, z) \<and>
      z = cy_emit [Cy_free] (upd_cpm (0, 0) (\<lambda>m. m\<lparr>recv_cnt := recv_cnt m + 1, free_cnt := free_cnt m + 1\<rparr>) x)"
    using frames_taken [OF x, where buf = ?bad and pos = 16 and i = "0x8001"] a(2) by (auto simp: l) (auto simp: received_def)
  ultimately show ?thesis using a y(1,2) by blast
qed

subsection \<open>A frame that cannot be sent\<close>

text \<open>When Ethernet does not take a cyclic frame, the provider stops for good and nobody is told: its
  timer is not started again, although its state does not change, and nothing is reported to the
  application or to the AR.\<close>

theorem failed_send_is_final:
  assumes "cr_valid p x" "ppm_ci_running (ppm_at p x)"
    and "provider_ok (ppm_at p x) header n (unat (cr_in_length (cr_at p x)))" "\<not> cy_send_ok x (length (cy_outs x))"
  shows "\<exists>y frame. pf_ppm_drv_sw_send p t x = Some y \<and> cy_outs y = cy_outs x @ [Cy_send frame] \<and> cy_sched y = cy_sched x \<and>
    \<not> pf_scheduler_is_running (ppm_ci_timeout (ppm_at p y)) \<and> ppm_state (ppm_at p y) = ppm_state (ppm_at p x) \<and>
    trx_cnt (ppm_at p y) = trx_cnt (ppm_at p x) \<and> (\<forall>a. cy_in_use (cy_ar a y) = cy_in_use (cy_ar a x))"
proof -
  let ?n1 = "upd_ppm p (\<lambda>m. m\<lparr>ppm_ci_timeout := pf_scheduler_reset_handle (ppm_ci_timeout m)\<rparr>) x"
  let ?k = "unat (cr_in_length (cr_at p x))"
  have ok1: "provider_ok (ppm_at p ?n1) header n ?k" using assms(1,3) by (simp add: provider_ok_def)
  obtain c b d where f: "pf_ppm_calculate_next_cyclecounter (ppm_cycle (ppm_at p ?n1)) (ppm_send_clock_factor (ppm_at p ?n1))
      (ppm_reduction_ratio (ppm_at p ?n1)) = Some c"
    "pf_ppm_finish_buffer (of_nat ?k) (ppm_at p ?n1) = Some ((ppm_at p ?n1)\<lparr>ppm_cycle := c, p_send_buffer := Live_buf b\<rparr>)"
    "buf_len b = of_nat (n + 24)" "n + 24 \<le> length (buf_payload b)"
    by (rule finish_buffer [OF ok1]) simp
  let ?m = "(ppm_at p ?n1)\<lparr>ppm_cycle := c, p_send_buffer := Live_buf b\<rparr>"
  let ?n2 = "upd_ppm p (\<lambda>_. ?m) ?n1"
  have fin: "finish_buffer_of p ?n1 = Some ?n2" using f(2) assms(1) by (simp add: finish_buffer_of_def)
  have "unat (buf_len b) = n + 24"
    using assms(3) unfolding f(3) by (simp add: provider_ok_def unat_of_nat del: of_nat_add)
  then obtain frame where frame: "peek 0 (unat (buf_len b)) (buf_payload b) = Some frame" using f(4) by (simp add: peek_def)
  have "pf_ppm_drv_sw_send p t x = Some (cy_emit [Cy_send frame] ?n2)"
    using assms(1,2,4) fin frame by (simp add: pf_ppm_drv_sw_send_def Let_def live_def)
  then show ?thesis
    using assms(1)
    by (intro exI [of _ "cy_emit [Cy_send frame] ?n2"] exI [of _ frame])
       (simp add: pf_scheduler_is_running_def pf_scheduler_reset_handle_def)
qed

lemma send_ok_quiet [simp]:
  "cr_at p (x\<lparr>cy_send_ok := f\<rparr>) = cr_at p x" "cr_valid p (x\<lparr>cy_send_ok := f\<rparr>) = cr_valid p x"
  by (simp_all add: cr_at_def cr_valid_def cy_ar_def)

theorem failed_send_is_final_witness:
  "\<exists>x y frame. ppm_ci_running (ppm_at (0, 0) x) \<and> pf_ppm_drv_sw_send (0, 0) 0 x = Some y \<and>
    cy_outs y = cy_outs x @ [Cy_send frame] \<and> cy_sched y = cy_sched x \<and>
    \<not> pf_scheduler_is_running (ppm_ci_timeout (ppm_at (0, 0) y))"
proof -
  let ?da = "[2, 0, 0, 0, 0, 1]" and ?sa = "[2, 0, 0, 0, 0, 2]"
  obtain x0 tag where x0: "sends (0, 0) (frame_header ?da ?sa tag 0x8001) 40 x0" by (rule example_provider [of ?da ?sa]) simp_all
  define x where "x = x0\<lparr>cy_send_ok := \<lambda>_. False\<rparr>"
  have "cr_valid (0, 0) x" "ppm_ci_running (ppm_at (0, 0) x)"
    "provider_ok (ppm_at (0, 0) x) (frame_header ?da ?sa tag 0x8001) 40 (unat (cr_in_length (cr_at (0, 0) x)))"
    "\<not> cy_send_ok x (length (cy_outs x))"
    using x0 by (simp_all add: sends_def x_def)
  with failed_send_is_final [of "(0, 0)" x _ 40 0] show ?thesis by blast
qed

subsection \<open>A consumer that cannot be started\<close>

lemma no_timer:
  assumes "sched_rel s busy []" "tick_interval s \<le> PF_SCHEDULER_MAX_DELAY_US"
  shows "pf_scheduler_add now w f a h s = Some (- 1, h\<lparr>timer_index := UINT32_MAX\<rparr>, s)"
proof -
  have "0 < tick_interval s" using assms(1) by (simp add: sched_rel_def)
  then obtain d where "pf_scheduler_sanitize_delay w (tick_interval s) True = Some d" using sanitize_delay assms(2) by blast
  then show ?thesis using pf_scheduler_add_ok [OF assms(1), of w d now f a h] by simp
qed

text \<open>When no timer is free a consumer cannot be activated. Its AR is aborted and zeroed, but while
  the AR is being started CMSU does not close the CR, so the frame ID keeps its handler: the next frame
  with this ID, from anyone, dereferences the zeroed pointer of the CR to its AR.\<close>

theorem failed_activation_keeps_handler:
  assumes "cr_valid p x" "snd p < PNET_MAX_CR" "cpm_state (cpm_at p x) = PF_CPM_STATE_W_START" "cy_in_use (cy_ar (fst p) x)"
    and "cy_cmsu (cy_ar (fst p) x) = PF_CMSU_STATE_IDLE"
    and "sched_rel (cy_sched x) busy []" "tick_interval (cy_sched x) \<le> PF_SCHEDULER_MAX_DELAY_US"
    and "ids_distinct (eth_id_map x)" "has_room (eth_id_map x)" "handler_of (eth_id_map x) (ip_frame_id (cr_param (cr_at p x))) = None"
  shows "\<exists>y. pf_cpm_activate_req p x = Some (- 1, y) \<and> cy_ar (fst p) y = zero_cyc_ar \<and>
    handler_of (eth_id_map y) (ip_frame_id (cr_param (cr_at p x))) = Some (Cpm_c_data_ind p) \<and>
    (\<forall>other buf pos. skip_vlan (buf_payload buf) 12 = Some (pos, PNAL_ETHTYPE_PROFINET) \<longrightarrow>
      peek16 (pos + 2) (buf_payload buf) = Some (ip_frame_id (cr_param (cr_at p x))) \<longrightarrow> cyc_recv other buf y = None)"
proof -
  let ?ip = "cr_param (cr_at p x)" and ?a = "fst p"
  let ?n1 = "upd_cpm p (cpm_config (cy_ar ?a x) ?ip) x"
  let ?m = "pf_eth_frame_id_map_add (ip_frame_id ?ip) (Cpm_c_data_ind p) (eth_id_map x)"
  have c: "cpm_frame_id0 (cpm_at p ?n1) = ip_frame_id ?ip" "nbr_frame_id (cpm_at p ?n1) = 1"
    using assms(1) by (simp_all add: cpm_config_def Let_def)
  let ?n2 = "?n1\<lparr>eth_id_map := ?m\<rparr>"
  let ?n3 = "upd_cpm p (cpm_ci_timeout_update (\<lambda>_. pf_scheduler_init_handle (cpm_name ?n2))) ?n2"
  let ?h = "cpm_ci_timeout (cpm_at p ?n3)"
  have add: "pf_scheduler_add (cy_clock ?n3) (cpm_control_interval (cpm_at p ?n3)) Cpm_control_interval_expired p ?h (cy_sched ?n3) =
      Some (- 1, ?h\<lparr>timer_index := UINT32_MAX\<rparr>, cy_sched ?n3)"
    by (rule no_timer) (use assms in simp_all)
  let ?n4 = "upd_cpm p (cpm_ci_timeout_update (\<lambda>_. ?h\<lparr>timer_index := UINT32_MAX\<rparr>)) (?n3\<lparr>cy_sched := cy_sched ?n3\<rparr>)"
  have drv: "pf_cpm_driver_sw_activate_req p ?n1 = Some (- 1, ?n4)"
    unfolding pf_cpm_driver_sw_activate_req_def Let_def c cpm_add_def using add c assms(1) by simp
  let ?n5 = "cy_set_err ?a PNET_ERROR_CODE_1_CPM PNET_ERROR_CODE_2_CPM_INVALID ?n4"
  let ?y = "upd_cy ?a (\<lambda>_. zero_cyc_ar) (cy_emit [Cy_abort_ind ?a (cy_err_cls (cy_ar ?a ?n5)) (cy_err_code (cy_ar ?a ?n5))] ?n5)"
  have a: "?a < length (cy_ars x)" using assms(1) by (simp add: cr_valid_def)
  have ab: "cyc_error_ind ?a PNET_ERROR_CODE_1_CPM PNET_ERROR_CODE_2_CPM_INVALID ?n4 = Some ?y"
    using assms(1,4,5) a by (simp add: cyc_error_ind_def cyc_abort_def Let_def)
  have act: "pf_cpm_activate_req p x = Some (- 1, ?y)"
    unfolding pf_cpm_activate_req_def assms(3) Let_def using drv ab by simp
  have "cy_ar ?a ?y = zero_cyc_ar" "eth_id_map ?y = ?m" "cr_valid p ?y" "cr_at p ?y = zero_cr"
    using a assms(2) by (simp_all add: cy_ar_upd_cy cr_valid_def cr_at_def) (simp_all add: zero_cyc_ar_def)
  with act obtain y where y: "pf_cpm_activate_req p x = Some (- 1, y)" "cy_ar ?a y = zero_cyc_ar" "eth_id_map y = ?m"
    "cr_valid p y" "cr_at p y = zero_cr"
    by blast
  have hd: "handler_of (eth_id_map y) (ip_frame_id ?ip) = Some (Cpm_c_data_ind p)"
    unfolding y(3) using eth_map.add_handler [OF assms(8-10)] by simp
  have none: "pf_cpm_c_data_ind p i buf pos y = None" for i buf pos
    using y(4,5) by (simp add: pf_cpm_c_data_ind_def Let_def zero_cr_def zero_cpm_def)
  have "cyc_recv other buf y = None" if "skip_vlan (buf_payload buf) 12 = Some (pos, PNAL_ETHTYPE_PROFINET)"
      "peek16 (pos + 2) (buf_payload buf) = Some (ip_frame_id ?ip)" for other buf pos
    unfolding cyc_recv_def by (subst recv_handler [OF that hd]) (simp add: none)
  then show ?thesis using y(1,2) hd by blast
qed

text \<open>Timers can be started until none is free.\<close>

lemma fill_timers:
  assumes "sched_rel (s :: ('f, 'a) sched) busy free" "tick_interval s \<le> PF_SCHEDULER_MAX_DELAY_US"
  shows "\<exists>(s' :: ('f, 'a) sched) busy'. sched_rel s' busy' [] \<and> tick_interval s' \<le> PF_SCHEDULER_MAX_DELAY_US"
  using assms
proof (induction free arbitrary: s busy)
  case (Cons x fs)
  have "0 < tick_interval s" using Cons.prems(1) by (simp add: sched_rel_def)
  then obtain d where d: "pf_scheduler_sanitize_delay 0 (tick_interval s) True = Some d" using sanitize_delay Cons.prems(2) by blast
  obtain s' busy' where "sched_rel s' busy' fs" "others_kept x s s'"
    using pf_scheduler_add_ok [OF Cons.prems(1) d, of 0] by blast
  then show ?case using Cons.IH Cons.prems(2) by (simp add: others_kept_def)
qed blast

theorem failed_activation_keeps_handler_witness:
  "\<exists>x y. cpm_state (cpm_at (0, 0) x) = PF_CPM_STATE_W_START \<and> handler_of (eth_id_map x) 0x8001 = None \<and>
    pf_cpm_activate_req (0, 0) x = Some (- 1, y) \<and> cy_ar 0 y = zero_cyc_ar \<and>
    handler_of (eth_id_map y) 0x8001 = Some (Cpm_c_data_ind (0, 0)) \<and>
    cyc_recv (\<lambda>_ _ n. Some (0, n)) (received (frame_header (replicate 6 0) (replicate 6 0) 0 0x8001) []) y = None"
proof -
  let ?e = "example_cyclic PF_IOCR_TYPE_OUTPUT [] []"
  obtain busy free where "sched_rel (cy_sched ?e) busy free" "tick_interval (cy_sched ?e) \<le> PF_SCHEDULER_MAX_DELAY_US"
    using example_at(5) [of PF_IOCR_TYPE_OUTPUT "[]" "[]"] unfolding timers_free_def by blast
  then obtain s :: "(cyc_cb, cr_ptr) sched" and busy where s: "sched_rel s busy []" "tick_interval s \<le> PF_SCHEDULER_MAX_DELAY_US"
    using fill_timers by blast
  define x where "x = upd_cy 0 (cy_cmsu_update (\<lambda>_. PF_CMSU_STATE_IDLE)) (?e\<lparr>cy_sched := s\<rparr>)"
  have l: "0 < length (cy_ars (?e\<lparr>cy_sched := s\<rparr>))" by (simp add: example_cyclic_def)
  have c: "cr_cpm (example_cr t) = zero_cpm" "ip_frame_id (cr_param (example_cr t)) = 0x8001" for t
    by (simp_all add: example_cr_def zero_cr_def)
  have in_use: "cy_in_use (cy_ar 0 ?e)" by (simp add: example_cyclic_def cy_ar_def)
  have x: "cr_valid (0, 0) x" "snd (0, 0) < PNET_MAX_CR" "cpm_state (cpm_at (0, 0) x) = PF_CPM_STATE_W_START"
    "cy_in_use (cy_ar (fst (0, 0)) x)" "cy_cmsu (cy_ar (fst (0, 0)) x) = PF_CMSU_STATE_IDLE" "sched_rel (cy_sched x) busy []"
    "tick_interval (cy_sched x) \<le> PF_SCHEDULER_MAX_DELAY_US" "ids_distinct (eth_id_map x)" "has_room (eth_id_map x)"
    "handler_of (eth_id_map x) (ip_frame_id (cr_param (cr_at (0, 0) x))) = None" "ip_frame_id (cr_param (cr_at (0, 0) x)) = 0x8001"
    using l s in_use by (simp_all add: x_def cr_at_upd_cy cy_ar_upd_cy c zero_cpm_def PNET_MAX_CR_def example_map)
  obtain y where y: "pf_cpm_activate_req (0, 0) x = Some (- 1, y)" "cy_ar (fst (0, 0 :: nat)) y = zero_cyc_ar"
    "handler_of (eth_id_map y) (ip_frame_id (cr_param (cr_at (0, 0) x))) = Some (Cpm_c_data_ind (0, 0))"
    "\<forall>other buf pos. skip_vlan (buf_payload buf) 12 = Some (pos, PNAL_ETHTYPE_PROFINET) \<longrightarrow>
      peek16 (pos + 2) (buf_payload buf) = Some (ip_frame_id (cr_param (cr_at (0, 0) x))) \<longrightarrow> cyc_recv other buf y = None"
    using failed_activation_keeps_handler [OF x(1-10)] by blast
  have f: "skip_vlan (frame_header (replicate 6 0) (replicate 6 0) 0 0x8001) 12 = Some (16, PNAL_ETHTYPE_PROFINET)"
    "peek16 18 (frame_header (replicate 6 0) (replicate 6 0) 0 0x8001) = Some 0x8001"
    using frame_type [of "replicate 6 0" "replicate 6 0" 0 "0x8001" "[]"] by simp_all
  have "cyc_recv (\<lambda>_ _ n. Some (0, n)) (received (frame_header (replicate 6 0) (replicate 6 0) 0 0x8001) []) y = None"
    by (rule y(4) [rule_format, of _ 16]) (simp_all add: received_def f x(11))
  then show ?thesis using x(3,10,11) y(1-3) by (metis fst_conv)
qed

end
