(* ===== verification/Dev_Tree.thy ===== *)
theory Dev_Tree
  imports Alarm_Requests Plug
begin

section \<open>The device tree\<close>

text \<open>
  The real identification in \<open>pf_device_t\<close>: an array of APIs, each with its slots, each with its
  subslots; and the pool of diagnosis items. A pointer to an API, a slot or a subslot is its index,
  with the indices above it. Also the searches in the expected identification of an AR, which
  \<open>pf_cmdev.c\<close> compares with the real one.
\<close>

definition PNET_MAX_DIAG_ITEMS :: nat where "PNET_MAX_DIAG_ITEMS = 100"
definition PNET_MAX_DIAG_MANUF_DATA_SIZE :: nat where "PNET_MAX_DIAG_MANUF_DATA_SIZE = 50"
definition PF_DIAG_IX_NULL :: u16 where "PF_DIAG_IX_NULL = 0xFFFF"

datatype submodule_dir = PNET_DIR_NO_IO | PNET_DIR_INPUT | PNET_DIR_OUTPUT | PNET_DIR_IO

record pf_submod_diag_summary =
  ds_maintenance_required :: bool
  ds_maintenance_demanded :: bool
  ds_fault :: bool

text \<open>The fields of \<open>pf_subslot\<close>, which the alarms use, and the others.\<close>

record real_subslot = pf_subslot +
  sub_in_use :: bool
  subslot_number :: u16
  sub_ident_number :: u32
  length_input :: u16
  length_output :: u16
  sub_direction :: submodule_dir
  diag_summary :: pf_submod_diag_summary

record real_slot =
  slot_in_use :: bool
  slot_number :: u16
  slot_ident_number :: u32
  subslots :: "real_subslot list"

record real_api =
  api_in_use :: bool
  real_api_id :: u32
  slots :: "real_slot list"

record pf_device =
  real_ident :: "real_api list"
  dev_items :: "pf_diag_item list"
  diag_items_free :: u16

type_synonym slot_ptr = "nat \<times> nat"
type_synonym subslot_ptr = "nat \<times> nat \<times> nat"

subsection \<open>Access\<close>

definition slot_at :: "pf_device \<Rightarrow> slot_ptr \<Rightarrow> real_slot" where
  "slot_at d p = slots (real_ident d ! fst p) ! snd p"

definition subslot_at :: "pf_device \<Rightarrow> subslot_ptr \<Rightarrow> real_subslot" where
  "subslot_at d p = subslots (slot_at d (fst p, fst (snd p))) ! snd (snd p)"

definition upd_slot :: "slot_ptr \<Rightarrow> (real_slot \<Rightarrow> real_slot) \<Rightarrow> pf_device \<Rightarrow> pf_device" where
  "upd_slot p f d = d\<lparr>real_ident := upd (fst p) (\<lambda>a. a\<lparr>slots := upd (snd p) f (slots a)\<rparr>) (real_ident d)\<rparr>"

definition upd_subslot :: "subslot_ptr \<Rightarrow> (real_subslot \<Rightarrow> real_subslot) \<Rightarrow> pf_device \<Rightarrow> pf_device" where
  "upd_subslot p f d = upd_slot (fst p, fst (snd p)) (\<lambda>s. s\<lparr>subslots := upd (snd (snd p)) f (subslots s)\<rparr>) d"

definition upd_item :: "u16 \<Rightarrow> (pf_diag_item \<Rightarrow> pf_diag_item) \<Rightarrow> pf_device \<Rightarrow> pf_device" where
  "upd_item i f d = d\<lparr>dev_items := upd (unat i) f (dev_items d)\<rparr>"

subsection \<open>Searches\<close>

definition pf_cmdev_get_api :: "u32 \<Rightarrow> pf_device \<Rightarrow> nat option" where
  "pf_cmdev_get_api api d =
     find (\<lambda>a. api_in_use (real_ident d ! a) \<and> real_api_id (real_ident d ! a) = api) [0 ..< length (real_ident d)]"

definition pf_cmdev_get_slot :: "nat \<Rightarrow> u16 \<Rightarrow> pf_device \<Rightarrow> slot_ptr option" where
  "pf_cmdev_get_slot a slot_nbr d = map_option (Pair a)
     (find (\<lambda>s. slot_in_use (slot_at d (a, s)) \<and> slot_number (slot_at d (a, s)) = slot_nbr)
       [0 ..< length (slots (real_ident d ! a))])"

definition pf_cmdev_get_subslot :: "slot_ptr \<Rightarrow> u16 \<Rightarrow> pf_device \<Rightarrow> subslot_ptr option" where
  "pf_cmdev_get_subslot p subslot_nbr d = map_option (\<lambda>b. (fst p, snd p, b))
     (find (\<lambda>b. sub_in_use (subslot_at d (fst p, snd p, b)) \<and> subslot_number (subslot_at d (fst p, snd p, b)) = subslot_nbr)
       [0 ..< length (subslots (slot_at d p))])"

definition pf_cmdev_get_slot_full :: "u32 \<Rightarrow> u16 \<Rightarrow> pf_device \<Rightarrow> slot_ptr option" where
  "pf_cmdev_get_slot_full api slot_nbr d = do {
     a \<leftarrow> pf_cmdev_get_api api d;
     pf_cmdev_get_slot a slot_nbr d
   }"

definition pf_cmdev_get_subslot_full :: "u32 \<Rightarrow> u16 \<Rightarrow> u16 \<Rightarrow> pf_device \<Rightarrow> subslot_ptr option" where
  "pf_cmdev_get_subslot_full api slot_nbr subslot_nbr d = do {
     a \<leftarrow> pf_cmdev_get_api api d;
     p \<leftarrow> pf_cmdev_get_slot a slot_nbr d;
     pf_cmdev_get_subslot p subslot_nbr d
   }"

definition pf_cmdev_get_module_ident :: "u32 \<Rightarrow> u16 \<Rightarrow> pf_device \<Rightarrow> u32 option" where
  "pf_cmdev_get_module_ident api slot_nbr d =
     map_option (\<lambda>p. slot_ident_number (slot_at d p)) (pf_cmdev_get_slot_full api slot_nbr d)"

definition pf_cmdev_get_submodule_ident :: "u32 \<Rightarrow> u16 \<Rightarrow> u16 \<Rightarrow> pf_device \<Rightarrow> u32 option" where
  "pf_cmdev_get_submodule_ident api slot_nbr subslot_nbr d =
     map_option (\<lambda>p. sub_ident_number (subslot_at d p)) (pf_cmdev_get_subslot_full api slot_nbr subslot_nbr d)"

text \<open>The lookup that the alarm component uses.\<close>

definition tree_subslot :: "pf_device \<Rightarrow> u32 \<Rightarrow> u16 \<Rightarrow> u16 \<Rightarrow> pf_subslot option" where
  "tree_subslot d api slot_nbr subslot_nbr =
     map_option (\<lambda>p. pf_subslot.truncate (subslot_at d p)) (pf_cmdev_get_subslot_full api slot_nbr subslot_nbr d)"

subsection \<open>Traversal\<close>

text \<open>
  \<open>pf_cmdev_cfg_traverse\<close> calls a function for the device, for each API, slot and subslot in use; a
  function may be missing, and then the levels below are not visited. Its own result is always \<open>-1\<close>.
  The state of the functions is \<open>'x\<close>.
\<close>

type_synonym ('p, 'x) visit = "('p \<Rightarrow> 'x \<Rightarrow> int \<times> 'x) option"

definition visit_all :: "(nat \<Rightarrow> 'x \<Rightarrow> 'x) \<Rightarrow> (nat \<Rightarrow> bool) \<Rightarrow> nat \<Rightarrow> 'x \<Rightarrow> 'x" where
  "visit_all f used n x = fold (\<lambda>i x. if used i then f i x else x) [0 ..< n] x"

definition pf_cmdev_cfg_traverse ::
    "pf_device \<Rightarrow> (unit, 'x) visit \<Rightarrow> (nat, 'x) visit \<Rightarrow> (slot_ptr, 'x) visit \<Rightarrow> (subslot_ptr, 'x) visit \<Rightarrow> 'x \<Rightarrow> int \<times> 'x" where
  "pf_cmdev_cfg_traverse d p_ftn_dev p_ftn_api p_ftn_slot p_ftn_sub x = (- 1, case p_ftn_dev of
     None \<Rightarrow> x
   | Some dev \<Rightarrow> (let (r, x) = dev () x in if r \<noteq> 0 then x else case p_ftn_api of
       None \<Rightarrow> x
     | Some api \<Rightarrow> visit_all (\<lambda>a x. let (r, x) = api a x in if r \<noteq> 0 then x else case p_ftn_slot of
           None \<Rightarrow> x
         | Some slot \<Rightarrow> visit_all (\<lambda>s x. let (r, x) = slot (a, s) x in if r \<noteq> 0 then x else case p_ftn_sub of
               None \<Rightarrow> x
             | Some sub \<Rightarrow> visit_all (\<lambda>b x. snd (sub (a, s, b) x)) (\<lambda>b. sub_in_use (subslot_at d (a, s, b)))
                 (length (subslots (slot_at d (a, s)))) x)
             (\<lambda>s. slot_in_use (slot_at d (a, s))) (length (slots (real_ident d ! a))) x)
         (\<lambda>a. api_in_use (real_ident d ! a)) (length (real_ident d)) x))"

subsection \<open>The expected identification of an AR\<close>

definition pf_cmdev_get_exp_api :: "pf_exp_ident \<Rightarrow> u32 \<Rightarrow> nat option" where
  "pf_cmdev_get_exp_api e api = find (\<lambda>a. ea_api (ei_api e ! a) = api) [0 ..< unat (ei_nbr_apis e)]"

definition pf_cmdev_get_exp_mod :: "pf_exp_ident \<Rightarrow> u32 \<Rightarrow> u16 \<Rightarrow> slot_ptr option" where
  "pf_cmdev_get_exp_mod e api slot_nbr = do {
     a \<leftarrow> pf_cmdev_get_exp_api e api;
     m \<leftarrow> find (\<lambda>m. em_slot_number (ea_module (ei_api e ! a) ! m) = slot_nbr) [0 ..< unat (ea_nbr_modules (ei_api e ! a))];
     Some (a, m)
   }"

definition exp_mod_at :: "pf_exp_ident \<Rightarrow> slot_ptr \<Rightarrow> pf_exp_module" where
  "exp_mod_at e p = ea_module (ei_api e ! fst p) ! snd p"

definition exp_sub_at :: "pf_exp_ident \<Rightarrow> subslot_ptr \<Rightarrow> pf_exp_submodule" where
  "exp_sub_at e p = em_submodule (exp_mod_at e (fst p, fst (snd p))) ! snd (snd p)"

definition pf_cmdev_get_exp_sub :: "pf_exp_ident \<Rightarrow> u32 \<Rightarrow> u16 \<Rightarrow> u16 \<Rightarrow> subslot_ptr option" where
  "pf_cmdev_get_exp_sub e api slot_nbr subslot_nbr = do {
     p \<leftarrow> pf_cmdev_get_exp_mod e api slot_nbr;
     s \<leftarrow> find (\<lambda>s. es_subslot_number (exp_sub_at e (fst p, snd p, s)) = subslot_nbr)
       [0 ..< unat (em_nbr_submodules (exp_mod_at e p))];
     Some (fst p, snd p, s)
   }"

subsection \<open>A cleared tree\<close>

definition zero_subslot :: real_subslot where
  "zero_subslot = \<lparr>ownsm_state = PF_OWNSM_STATE_FREE, owner = None, diag_list = 0, sub_in_use = False,
     subslot_number = 0, sub_ident_number = 0, length_input = 0, length_output = 0, sub_direction = PNET_DIR_NO_IO,
     diag_summary = \<lparr>ds_maintenance_required = False, ds_maintenance_demanded = False, ds_fault = False\<rparr>\<rparr>"

definition zero_slot :: real_slot where
  "zero_slot = \<lparr>slot_in_use = False, slot_number = 0, slot_ident_number = 0,
     subslots = replicate PNET_MAX_SUBSLOTS zero_subslot\<rparr>"

definition zero_api :: real_api where
  "zero_api = \<lparr>api_in_use = False, real_api_id = 0, slots = replicate PNET_MAX_SLOTS zero_slot\<rparr>"

definition zero_device :: pf_device where
  "zero_device = \<lparr>real_ident = replicate PNET_MAX_API zero_api,
     dev_items = replicate PNET_MAX_DIAG_ITEMS zero_diag_item, diag_items_free = 0\<rparr>"

subsection \<open>New entries\<close>

text \<open>The first entry of an array that is not in use, where there is one.\<close>

definition first_free :: "('x \<Rightarrow> bool) \<Rightarrow> 'x list \<Rightarrow> nat option" where
  "first_free used xs = find (\<lambda>i. \<not> used (xs ! i)) [0 ..< length xs]"

definition pf_cmdev_new_api :: "u32 \<Rightarrow> pf_device \<Rightarrow> nat option \<times> pf_device" where
  "pf_cmdev_new_api api d = (if pf_cmdev_get_api api d \<noteq> None then (None, d)
     else case first_free api_in_use (real_ident d) of
       None \<Rightarrow> (None, d)
     | Some ix \<Rightarrow> (Some ix, d\<lparr>real_ident := (real_ident d)[ix := zero_api\<lparr>real_api_id := api, api_in_use := True\<rparr>]\<rparr>))"

definition pf_cmdev_new_slot :: "nat \<Rightarrow> u16 \<Rightarrow> pf_device \<Rightarrow> slot_ptr option \<times> pf_device" where
  "pf_cmdev_new_slot a slot_nbr d = (if pf_cmdev_get_slot a slot_nbr d \<noteq> None then (None, d)
     else case first_free slot_in_use (slots (real_ident d ! a)) of
       None \<Rightarrow> (None, d)
     | Some ix \<Rightarrow> (Some (a, ix), upd_slot (a, ix) (\<lambda>_. zero_slot\<lparr>slot_number := slot_nbr, slot_in_use := True\<rparr>) d))"

definition pf_cmdev_new_subslot :: "slot_ptr \<Rightarrow> u16 \<Rightarrow> pf_device \<Rightarrow> subslot_ptr option \<times> pf_device" where
  "pf_cmdev_new_subslot p subslot_nbr d = (if pf_cmdev_get_subslot p subslot_nbr d \<noteq> None then (None, d)
     else case first_free sub_in_use (subslots (slot_at d p)) of
       None \<Rightarrow> (None, d)
     | Some ix \<Rightarrow> (Some (fst p, snd p, ix), upd_subslot (fst p, snd p, ix)
         (\<lambda>_. zero_subslot\<lparr>subslot_number := subslot_nbr, diag_list := PF_DIAG_IX_NULL, sub_in_use := True\<rparr>) d))"

subsection \<open>The pool of diagnosis items\<close>

definition pf_cmdev_new_diag :: "pf_device \<Rightarrow> (u16 option \<times> pf_device) option" where
  "pf_cmdev_new_diag d = (let item_ix = diag_items_free d
     in if item_ix = PF_DIAG_IX_NULL then Some (None, d)
        else do {
          i \<leftarrow> pf_cmdev_get_diag_item (dev_items d) item_ix;
          Some (Some item_ix, upd_item item_ix (\<lambda>_. zero_diag_item\<lparr>di_in_use := True\<rparr>) (d\<lparr>diag_items_free := di_next i\<rparr>))
        })"

definition pf_cmdev_free_diag :: "u16 \<Rightarrow> pf_device \<Rightarrow> pf_device" where
  "pf_cmdev_free_diag item_ix d =
     (if unat item_ix < length (dev_items d)
      then (upd_item item_ix (\<lambda>i. i\<lparr>di_in_use := False, di_next := diag_items_free d\<rparr>) d)\<lparr>diag_items_free := item_ix\<rparr>
      else d)"

partial_function (option) next_usi :: "pf_diag_item list \<Rightarrow> u16 \<Rightarrow> u16 \<Rightarrow> u16 \<Rightarrow> u16 option" where
  "next_usi items low_usi_limit ix resulting_value = (case pf_cmdev_get_diag_item items ix of
     None \<Rightarrow> Some resulting_value
   | Some i \<Rightarrow> next_usi items low_usi_limit (di_next i)
       (if di_usi i > low_usi_limit \<and> di_usi i < resulting_value then di_usi i else resulting_value))"

definition pf_cmdev_get_next_diagnosis_usi :: "pf_device \<Rightarrow> u16 \<Rightarrow> u16 \<Rightarrow> u16 option option" where
  "pf_cmdev_get_next_diagnosis_usi d list_head low_usi_limit =
     map_option (\<lambda>v. if v \<noteq> 0xFFFF then Some v else None) (next_usi (dev_items d) low_usi_limit list_head 0xFFFF)"

subsection \<open>Initialisation\<close>

text \<open>\<open>pf_cmdev_init\<close>, the first time: all items are in the free list, and the API 0 exists.\<close>

definition pf_cmdev_init :: "pf_device" where
  "pf_cmdev_init = (let
     n = PNET_MAX_DIAG_ITEMS;
     items = map (\<lambda>ix. zero_diag_item\<lparr>di_next := of_nat (ix + 1)\<rparr>) [0 ..< n - 1] @ [zero_diag_item\<lparr>di_next := PF_DIAG_IX_NULL\<rparr>];
     d = zero_device\<lparr>diag_items_free := 0, dev_items := items\<rparr>
     in snd (pf_cmdev_new_api 0 d))"

end
