(* ===== verification/Dev_Plug.thy ===== *)
theory Dev_Plug
  imports Dev_Tree Cyclic_Provider
begin

section \<open>Plugging and pulling of modules and submodules\<close>

text \<open>
  The operations of \<open>pf_cmdev.c\<close> on the device tree: plug and pull, with the alarms that they send,
  and \<open>pf_device_clear\<close>, which takes the submodules of an aborted AR and offers them to the ARs that
  are left. \<open>dev_net\<close> has the parts of \<open>pnet_t\<close> that they use: the device, the alarms, the cyclic
  data, the order of the ARs, and of each AR its expected identification and its plug machine.
\<close>

record dev_net =
  dn_dev :: pf_device
  dn_alarm :: alarm_net
  dn_cyc :: cyc_net
  dn_order :: "nat list"
  dn_exp :: "pf_exp_ident list"
  dn_plug :: "pf_ar_plug list"
  use_qualified_diagnosis :: bool

text \<open>An operation of the alarm component as an operation of the whole.\<close>

definition with_alarm :: "(alarm_net \<Rightarrow> 'r \<times> alarm_net) \<Rightarrow> dev_net \<Rightarrow> 'r \<times> dev_net" where
  "with_alarm f n = (let (r, al) = f (dn_alarm n) in (r, n\<lparr>dn_alarm := al\<rparr>))"

definition has_owner :: "real_subslot \<Rightarrow> bool" where
  "has_owner s \<longleftrightarrow> ownsm_state s = PF_OWNSM_STATE_IOC \<or> ownsm_state s = PF_OWNSM_STATE_IOS"

subsection \<open>Modules\<close>

definition pf_cmdev_plug_module :: "u32 \<Rightarrow> u16 \<Rightarrow> u32 \<Rightarrow> pf_device \<Rightarrow> int \<times> pf_device" where
  "pf_cmdev_plug_module api slot_nbr module_ident d = (case pf_cmdev_get_api api d of
     None \<Rightarrow> (- 1, d)
   | Some a \<Rightarrow> (case pf_cmdev_get_slot a slot_nbr d of
       Some p \<Rightarrow> (if slot_ident_number (slot_at d p) = module_ident then (0, d) else (- 1, d))
     | None \<Rightarrow> (case pf_cmdev_new_slot a slot_nbr d of
         (None, d) \<Rightarrow> (- 1, d)
       | (Some p, d) \<Rightarrow> (0, upd_slot p (slot_ident_number_update (\<lambda>_. module_ident)) d))))"

subsection \<open>Pulling a submodule\<close>

definition pf_cmdev_pull_submodule :: "u32 \<Rightarrow> u16 \<Rightarrow> u16 \<Rightarrow> dev_net \<Rightarrow> (int \<times> dev_net) option" where
  "pf_cmdev_pull_submodule api slot_nbr subslot_nbr n = (case pf_cmdev_get_subslot_full api slot_nbr subslot_nbr (dn_dev n) of
     None \<Rightarrow> Some (- 1, n)
   | Some q \<Rightarrow> (let
       n = n\<lparr>dn_dev := upd_subslot q (sub_in_use_update (\<lambda>_. False)) (dn_dev n)\<rparr>;
       s = subslot_at (dn_dev n) q
       in if has_owner s
          then do {
            a \<leftarrow> owner s;
            Some (with_alarm (pf_alarm_send_pull a api slot_nbr subslot_nbr) n)
          }
          else Some (- 1, n)))"

subsection \<open>Plugging a submodule\<close>

text \<open>The new submodule, and its first AR in the order of connections that expects it.\<close>

definition expects :: "dev_net \<Rightarrow> u32 \<Rightarrow> u16 \<Rightarrow> u16 \<Rightarrow> nat \<Rightarrow> bool" where
  "expects n api slot_nbr subslot_nbr a \<longleftrightarrow> pf_cmdev_get_exp_sub (dn_exp n ! a) api slot_nbr subslot_nbr \<noteq> None"

definition give_to_ar :: "u32 \<Rightarrow> u16 \<Rightarrow> u16 \<Rightarrow> u32 \<Rightarrow> u32 \<Rightarrow> subslot_ptr \<Rightarrow> dev_net \<Rightarrow> int \<times> dev_net" where
  "give_to_ar api slot_nbr subslot_nbr module_ident submod_ident q n =
     (case find (expects n api slot_nbr subslot_nbr) (dn_order n) of
        None \<Rightarrow> (0, n)
      | Some a \<Rightarrow> (let
          n = n\<lparr>dn_dev := upd_subslot q (\<lambda>s. s\<lparr>ownsm_state := PF_OWNSM_STATE_IOC, owner := Some a\<rparr>) (dn_dev n)\<rparr>
          in case pf_cmdev_get_exp_sub (dn_exp n ! a) api slot_nbr subslot_nbr of
            None \<Rightarrow> (0, n)
          | Some e \<Rightarrow>
              if es_ident_number (exp_sub_at (dn_exp n ! a) e) = submod_ident
              then with_alarm (pf_alarm_send_plug a api slot_nbr subslot_nbr module_ident submod_ident) n
              else with_alarm (pf_alarm_send_plug_wrong a api slot_nbr subslot_nbr module_ident submod_ident) n))"

definition pf_cmdev_plug_submodule ::
    "u32 \<Rightarrow> u16 \<Rightarrow> u16 \<Rightarrow> u32 \<Rightarrow> u32 \<Rightarrow> submodule_dir \<Rightarrow> u16 \<Rightarrow> u16 \<Rightarrow> bool \<Rightarrow> dev_net \<Rightarrow> (int \<times> dev_net) option" where
  "pf_cmdev_plug_submodule api slot_nbr subslot_nbr module_ident submod_ident dir len_input len_output update n =
     (case pf_cmdev_get_api api (dn_dev n) of
        None \<Rightarrow> Some (- 1, n)
      | Some a \<Rightarrow> do {
          (already_plugged, n) \<leftarrow> (case pf_cmdev_get_slot a slot_nbr (dn_dev n) of
             None \<Rightarrow> Some (False, n\<lparr>dn_dev := snd (pf_cmdev_plug_module api slot_nbr module_ident (dn_dev n))\<rparr>)
           | Some p \<Rightarrow> (case pf_cmdev_get_subslot p subslot_nbr (dn_dev n) of
               None \<Rightarrow> Some (False, n)
             | Some q \<Rightarrow>
                 if update then do {
                   (_, n) \<leftarrow> pf_cmdev_pull_submodule api slot_nbr subslot_nbr n;
                   Some (False, n)
                 }
                 else Some (sub_ident_number (subslot_at (dn_dev n) q) = submod_ident, n)));
          if already_plugged then Some (0, n)
          else case pf_cmdev_get_slot a slot_nbr (dn_dev n) of
            None \<Rightarrow> Some (- 1, n)
          | Some p \<Rightarrow> (case pf_cmdev_new_subslot p subslot_nbr (dn_dev n) of
              (None, _) \<Rightarrow> Some (- 1, n)
            | (Some q, d) \<Rightarrow> (let
                d = upd_subslot q (\<lambda>s. s\<lparr>sub_ident_number := submod_ident, sub_direction := dir, length_input := len_input,
                  length_output := len_output, ownsm_state := PF_OWNSM_STATE_FREE, owner := None\<rparr>) d
                in Some (give_to_ar api slot_nbr subslot_nbr module_ident submod_ident q (n\<lparr>dn_dev := d\<rparr>))))
        })"

subsection \<open>Pulling a module\<close>

text \<open>The loop over the subslots ends at the first submodule that cannot be pulled.\<close>

fun pull_subslots :: "u32 \<Rightarrow> u16 \<Rightarrow> slot_ptr \<Rightarrow> nat list \<Rightarrow> dev_net \<Rightarrow> (int \<times> dev_net) option" where
  "pull_subslots api slot_nbr p [] n = Some (0, n)"
| "pull_subslots api slot_nbr p (b # bs) n = (let s = subslot_at (dn_dev n) (fst p, snd p, b)
     in if sub_in_use s
        then do {
          (r, n) \<leftarrow> pf_cmdev_pull_submodule api slot_nbr (subslot_number s) n;
          if r \<noteq> 0 then Some (- 1, n) else pull_subslots api slot_nbr p bs n
        }
        else pull_subslots api slot_nbr p bs n)"

definition pf_cmdev_pull_module :: "u32 \<Rightarrow> u16 \<Rightarrow> dev_net \<Rightarrow> (int \<times> dev_net) option" where
  "pf_cmdev_pull_module api slot_nbr n = (case pf_cmdev_get_slot_full api slot_nbr (dn_dev n) of
     None \<Rightarrow> Some (- 1, n)
   | Some p \<Rightarrow> do {
       (ret, n) \<leftarrow> pull_subslots api slot_nbr p [0 ..< length (subslots (slot_at (dn_dev n) p))] n;
       Some (ret, if ret = 0 then n\<lparr>dn_dev := upd_slot p (slot_in_use_update (\<lambda>_. False)) (dn_dev n)\<rparr> else n)
     })"

subsection \<open>The interface for the application\<close>

definition pnet_plug_module :: "u32 \<Rightarrow> u16 \<Rightarrow> u32 \<Rightarrow> dev_net \<Rightarrow> int \<times> dev_net" where
  "pnet_plug_module api slot module_ident n = (let (r, d) = pf_cmdev_plug_module api slot module_ident (dn_dev n)
     in (r, n\<lparr>dn_dev := d\<rparr>))"

definition pnet_plug_submodule ::
    "u32 \<Rightarrow> u16 \<Rightarrow> u16 \<Rightarrow> u32 \<Rightarrow> u32 \<Rightarrow> submodule_dir \<Rightarrow> u16 \<Rightarrow> u16 \<Rightarrow> dev_net \<Rightarrow> (int \<times> dev_net) option" where
  "pnet_plug_submodule api slot subslot module_ident submodule_ident dir len_input len_output =
     pf_cmdev_plug_submodule api slot subslot module_ident submodule_ident dir len_input len_output False"

definition pnet_pull_module :: "u32 \<Rightarrow> u16 \<Rightarrow> dev_net \<Rightarrow> (int \<times> dev_net) option" where
  "pnet_pull_module api slot n = pf_cmdev_pull_module api slot n"

definition pnet_pull_submodule :: "u32 \<Rightarrow> u16 \<Rightarrow> u16 \<Rightarrow> dev_net \<Rightarrow> (int \<times> dev_net) option" where
  "pnet_pull_submodule api slot subslot n = pf_cmdev_pull_submodule api slot subslot n"

subsection \<open>The end of an AR\<close>

text \<open>\<open>pf_plugsm_released_alarm_req\<close> with the alarm that it sends.\<close>

definition released_alarm_req :: "nat \<Rightarrow> plug_item \<Rightarrow> dev_net \<Rightarrow> dev_net" where
  "released_alarm_req a x n = (let (p, os) = pf_plugsm_released_alarm_req x (dn_plug n ! a)
     in fold (\<lambda>out n. case out of
          Send_released i \<Rightarrow> snd (with_alarm (pf_alarm_send_released a (pi_api i) (pi_slot_number i) (pi_subslot_number i)
            (pi_module_ident i) (pi_submodule_ident i)) n)
        | _ \<Rightarrow> n) os (n\<lparr>dn_plug := (dn_plug n)[a := p]\<rparr>))"

definition wants :: "dev_net \<Rightarrow> u32 \<Rightarrow> u16 \<Rightarrow> u16 \<Rightarrow> nat \<Rightarrow> bool" where
  "wants n api slot_nbr subslot_nbr a \<longleftrightarrow> pf_cmdev_get_exp_mod (dn_exp n ! a) api slot_nbr \<noteq> None \<and>
     pf_cmdev_get_exp_sub (dn_exp n ! a) api slot_nbr subslot_nbr \<noteq> None"

definition clear_subslot :: "nat \<Rightarrow> subslot_ptr \<Rightarrow> dev_net \<Rightarrow> dev_net" where
  "clear_subslot p_ar q n = (let s = subslot_at (dn_dev n) q in
     if has_owner s \<and> owner s = Some p_ar
     then let
       api = real_api_id (real_ident (dn_dev n) ! fst q);
       slot = slot_at (dn_dev n) (fst q, fst (snd q));
       n = n\<lparr>dn_dev := upd_subslot q (\<lambda>s. s\<lparr>ownsm_state := PF_OWNSM_STATE_FREE, owner := None\<rparr>) (dn_dev n)\<rparr>
     in case find (wants n api (slot_number slot) (subslot_number s)) (dn_order n) of
          None \<Rightarrow> n
        | Some a \<Rightarrow> (let
            n = n\<lparr>dn_dev := upd_subslot q (\<lambda>s. s\<lparr>ownsm_state := PF_OWNSM_STATE_IOC, owner := Some a\<rparr>) (dn_dev n)\<rparr>;
            e = dn_exp n ! a
            in case (pf_cmdev_get_exp_mod e api (slot_number slot), pf_cmdev_get_exp_sub e api (slot_number slot) (subslot_number s)) of
              (Some m, Some u) \<Rightarrow>
                if em_ident_number (exp_mod_at e m) = slot_ident_number slot \<and>
                   es_ident_number (exp_sub_at e u) = sub_ident_number s
                then released_alarm_req a \<lparr>pi_api = api, pi_slot_number = slot_number slot,
                  pi_subslot_number = subslot_number s, pi_module_ident = slot_ident_number slot,
                  pi_submodule_ident = sub_ident_number s\<rparr> n
                else n
            | _ \<Rightarrow> n)
     else n)"

text \<open>All places of the tree, in the order of the three loops, also those that are not in use.\<close>

definition all_subslots :: "pf_device \<Rightarrow> subslot_ptr list" where
  "all_subslots d = concat (map (\<lambda>a. concat (map (\<lambda>s. map (\<lambda>b. (a, s, b)) [0 ..< length (subslots (slot_at d (a, s)))])
     [0 ..< length (slots (real_ident d ! a))])) [0 ..< length (real_ident d)])"

definition pf_device_clear :: "nat \<Rightarrow> dev_net \<Rightarrow> dev_net" where
  "pf_device_clear p_ar n = fold (clear_subslot p_ar) (all_subslots (dn_dev n)) n"

end
