(* ===== verification/Diag_Ops.thy ===== *)
theory Diag_Ops
  imports Dev_Plug
begin

section \<open>Diagnosis\<close>

text \<open>
  \<open>pf_diag.c\<close>: each subslot has a chain of diagnosis items in the pool of the device, linked by their
  indices. Adding, updating and removing an item changes the chain, the summary of the subslot and
  the problem indicator in the cyclic data, and sends alarms. An item in standard format and one in
  the format of the manufacturer share memory in the C code; the format is given by the USI, and no
  operation reads an item in the other format, so both are fields here. Loops over a chain are
  partial functions: a chain without an end is \<open>None\<close>.
\<close>

definition PF_USI_ALARM_MULTIPLE :: u16 where "PF_USI_ALARM_MULTIPLE = 0x8001"
definition PNET_CHANNEL_WHOLE_SUBMODULE :: u16 where "PNET_CHANNEL_WHOLE_SUBMODULE = 0x8000"
definition PNET_DIAG_CH_PROP_TYPE_UNSPECIFIED :: u16 where "PNET_DIAG_CH_PROP_TYPE_UNSPECIFIED = 0"
definition PNET_DIAG_CH_INDIVIDUAL_CHANNEL :: u16 where "PNET_DIAG_CH_INDIVIDUAL_CHANNEL = 0"
definition PNET_DIAG_CH_CHANNEL_GROUP :: u16 where "PNET_DIAG_CH_CHANNEL_GROUP = 1"
definition PNET_DIAG_CH_PROP_DIR_MANUF_SPEC :: u16 where "PNET_DIAG_CH_PROP_DIR_MANUF_SPEC = 0"
definition PF_DIAG_CH_PROP_SPEC_ALL_DISAPPEARS :: u16 where "PF_DIAG_CH_PROP_SPEC_ALL_DISAPPEARS = 0"
definition PF_DIAG_CH_PROP_SPEC_DISAPPEARS :: u16 where "PF_DIAG_CH_PROP_SPEC_DISAPPEARS = 2"
definition PF_DIAG_CH_PROP_SPEC_DIS_OTHERS_REMAIN :: u16 where "PF_DIAG_CH_PROP_SPEC_DIS_OTHERS_REMAIN = 3"

subsection \<open>The channel properties\<close>

text \<open>A value that is too wide for its field reaches into the next fields, as in the macros.\<close>

definition PF_DIAG_CH_PROP_TYPE_SET :: "u16 \<Rightarrow> u16 \<Rightarrow> u16" where
  "PF_DIAG_CH_PROP_TYPE_SET x v = (x AND NOT 0x00ff) OR v"

definition PF_DIAG_CH_PROP_ACC_GET :: "u16 \<Rightarrow> u16" where
  "PF_DIAG_CH_PROP_ACC_GET x = drop_bit 8 (x AND 0x0100)"

definition PF_DIAG_CH_PROP_ACC_SET :: "u16 \<Rightarrow> u16 \<Rightarrow> u16" where
  "PF_DIAG_CH_PROP_ACC_SET x v = (x AND NOT 0x0100) OR push_bit 8 v"

definition PF_DIAG_CH_PROP_MAINT_SET :: "u16 \<Rightarrow> u16 \<Rightarrow> u16" where
  "PF_DIAG_CH_PROP_MAINT_SET x v = (x AND NOT 0x0600) OR push_bit 9 v"

definition PF_DIAG_CH_PROP_SPEC_SET :: "u16 \<Rightarrow> u16 \<Rightarrow> u16" where
  "PF_DIAG_CH_PROP_SPEC_SET x v = (x AND NOT 0x1800) OR push_bit 11 v"

definition PF_DIAG_CH_PROP_DIR_GET :: "u16 \<Rightarrow> u16" where
  "PF_DIAG_CH_PROP_DIR_GET x = drop_bit 13 (x AND 0xe000)"

definition PF_DIAG_CH_PROP_DIR_SET :: "u16 \<Rightarrow> u16 \<Rightarrow> u16" where
  "PF_DIAG_CH_PROP_DIR_SET x v = (x AND NOT 0xe000) OR push_bit 13 v"

definition set_spec :: "u16 \<Rightarrow> pf_diag_item \<Rightarrow> pf_diag_item" where
  "set_spec v i = i\<lparr>di_std := (di_std i)\<lparr>ch_properties := PF_DIAG_CH_PROP_SPEC_SET (ch_properties (di_std i)) v\<rparr>\<rparr>"

definition set_maint :: "u16 \<Rightarrow> pf_diag_item \<Rightarrow> pf_diag_item" where
  "set_maint v i = i\<lparr>di_std := (di_std i)\<lparr>ch_properties := PF_DIAG_CH_PROP_MAINT_SET (ch_properties (di_std i)) v\<rparr>\<rparr>"

text \<open>Where a diagnosis is.\<close>

record diag_source =
  src_api :: u32
  src_slot :: u16
  src_subslot :: u16
  src_ch :: u16
  src_ch_grouping :: u16
  src_ch_direction :: u16

abbreviation item_of :: "pf_device \<Rightarrow> u16 \<Rightarrow> pf_diag_item option" where
  "item_of d ix \<equiv> pf_cmdev_get_diag_item (dev_items d) ix"

subsection \<open>The problem indicator of the AR\<close>

definition is_problem_item :: "pf_diag_item \<Rightarrow> bool" where
  "is_problem_item i \<longleftrightarrow> di_in_use i \<and> (di_usi i < PF_USI_CHANNEL_DIAGNOSIS \<or>
     PF_DIAG_CH_PROP_MAINT_GET (ch_properties (di_std i)) = PNET_DIAG_CH_PROP_MAINT_FAULT)"

partial_function (option) chain_problem :: "pf_device \<Rightarrow> u16 \<Rightarrow> bool \<Rightarrow> bool option" where
  "chain_problem d ix is_problem = (case item_of d ix of
     None \<Rightarrow> Some is_problem
   | Some i \<Rightarrow> chain_problem d (di_next i) (is_problem \<or> is_problem_item i))"

definition pf_diag_update_station_problem_indicator :: "nat \<Rightarrow> subslot_ptr \<Rightarrow> dev_net \<Rightarrow> dev_net option" where
  "pf_diag_update_station_problem_indicator a q n = do {
     is_problem \<leftarrow> chain_problem (dn_dev n) (diag_list (subslot_at (dn_dev n) q)) False;
     Some (n\<lparr>dn_cyc := pf_ppm_set_problem_indicator a is_problem (dn_cyc n)\<rparr>)
   }"

subsection \<open>The summary of the submodule\<close>

text \<open>
  The alarm specifier and the maintenance status are not cleared between the items; the AR is NULL
  in all calls.
\<close>

definition add_to_summary ::
    "pf_subslot \<Rightarrow> pf_diag_item \<Rightarrow> unit summary \<times> pf_submod_diag_summary \<Rightarrow> unit summary \<times> pf_submod_diag_summary" where
  "add_to_summary sub i x = (case x of (s, g) \<Rightarrow>
     if di_in_use i
     then let
       s = pf_alarm_add_diag_item_to_summary None sub i s;
       g = (if ad_submodule_diagnosis (fst s) then g\<lparr>ds_fault := True\<rparr> else g);
       g = (if snd s AND PF_DIAG_BIT_MAINTENANCE_REQUIRED \<noteq> 0 then g\<lparr>ds_maintenance_required := True\<rparr> else g);
       g = (if snd s AND PF_DIAG_BIT_MAINTENANCE_DEMANDED \<noteq> 0 then g\<lparr>ds_maintenance_demanded := True\<rparr> else g)
       in (s, g)
     else (s, g))"

partial_function (option) chain_summary ::
    "pf_device \<Rightarrow> pf_subslot \<Rightarrow> u16 \<Rightarrow> unit summary \<times> pf_submod_diag_summary \<Rightarrow>
     (unit summary \<times> pf_submod_diag_summary) option" where
  "chain_summary d sub ix x = (case item_of d ix of
     None \<Rightarrow> Some x
   | Some i \<Rightarrow> chain_summary d sub (di_next i) (add_to_summary sub i x))"

definition no_summary :: pf_submod_diag_summary where
  "no_summary = \<lparr>ds_maintenance_required = False, ds_maintenance_demanded = False, ds_fault = False\<rparr>"

definition no_alarm_spec :: pf_alarm_data where
  "no_alarm_spec = pf_alarm_data.truncate zero_alarm_data"

definition pf_diag_update_submodule_state :: "subslot_ptr \<Rightarrow> pf_device \<Rightarrow> pf_device option" where
  "pf_diag_update_submodule_state q d = (let s = subslot_at d q in do {
     (_, g) \<leftarrow> chain_summary d (pf_subslot.truncate s) (diag_list s) ((no_alarm_spec, 0), no_summary);
     Some (upd_subslot q (diag_summary_update (\<lambda>_. g)) d)
   })"

subsection \<open>Finding an entry\<close>

definition diag_matches :: "diag_source \<Rightarrow> u16 \<Rightarrow> u16 \<Rightarrow> u16 \<Rightarrow> pf_diag_item \<Rightarrow> bool" where
  "diag_matches p_diag_source error_type ext_error_type usi i \<longleftrightarrow>
     (if di_usi i \<ge> PF_USI_CHANNEL_DIAGNOSIS
      then ch_nbr (di_std i) = src_ch p_diag_source \<and> ch_error_type (di_std i) = error_type \<and>
        ext_ch_error_type (di_std i) = ext_error_type \<and>
        PF_DIAG_CH_PROP_ACC_GET (ch_properties (di_std i)) = src_ch_grouping p_diag_source \<and>
        PF_DIAG_CH_PROP_DIR_GET (ch_properties (di_std i)) = src_ch_direction p_diag_source
      else di_usi i = usi)"

text \<open>An entry that is found is taken out of the chain.\<close>

definition unlink_diag :: "subslot_ptr \<Rightarrow> u16 \<Rightarrow> u16 \<Rightarrow> pf_device \<Rightarrow> pf_device option" where
  "unlink_diag q prev_ix next_ix d =
     (if prev_ix \<noteq> PF_DIAG_IX_NULL
      then map_option (\<lambda>_. upd_item prev_ix (di_next_update (\<lambda>_. next_ix)) d) (item_of d prev_ix)
      else Some (upd_subslot q (diag_list_update (\<lambda>_. next_ix)) d))"

partial_function (option) find_in_chain ::
    "(pf_diag_item \<Rightarrow> bool) \<Rightarrow> subslot_ptr \<Rightarrow> u16 \<Rightarrow> u16 \<Rightarrow> pf_device \<Rightarrow> (u16 \<times> pf_device) option" where
  "find_in_chain P q prev_ix item_ix d = (case item_of d item_ix of
     None \<Rightarrow> Some (PF_DIAG_IX_NULL, d)
   | Some i \<Rightarrow> if P i then map_option (Pair item_ix) (unlink_diag q prev_ix (di_next i) d)
       else find_in_chain P q item_ix (di_next i) d)"

text \<open>The result is the subslot, where there is one, and the index of the entry.\<close>

definition pf_diag_find_entry ::
    "diag_source \<Rightarrow> u16 \<Rightarrow> u16 \<Rightarrow> u16 \<Rightarrow> pf_device \<Rightarrow> (subslot_ptr option \<times> u16 \<times> pf_device) option" where
  "pf_diag_find_entry p_diag_source error_type ext_error_type usi d =
     (case pf_cmdev_get_subslot_full (src_api p_diag_source) (src_slot p_diag_source) (src_subslot p_diag_source) d of
        None \<Rightarrow> Some (None, PF_DIAG_IX_NULL, d)
      | Some q \<Rightarrow> map_option (Pair (Some q))
          (find_in_chain (diag_matches p_diag_source error_type ext_error_type usi) q PF_DIAG_IX_NULL
            (diag_list (subslot_at d q)) d))"

subsection \<open>Adding\<close>

text \<open>The alarms for a new entry, after it is linked; \<open>old_item\<close> is what an overwritten entry was.\<close>

definition send_diagnosis :: "nat \<Rightarrow> diag_source \<Rightarrow> pf_diag_item \<Rightarrow> dev_net \<Rightarrow> int \<times> dev_net" where
  "send_diagnosis a s i n = with_alarm (pf_alarm_send_diagnosis a (src_api s) (src_slot s) (src_subslot s)
     (pf_cmdev_get_module_ident (src_api s) (src_slot s) (dn_dev n))
     (pf_cmdev_get_submodule_ident (src_api s) (src_slot s) (src_subslot s) (dn_dev n)) (Some i)) n"

definition report_entry :: "diag_source \<Rightarrow> subslot_ptr \<Rightarrow> pf_diag_item \<Rightarrow> pf_diag_item option \<Rightarrow> dev_net \<Rightarrow> (int \<times> dev_net) option" where
  "report_entry p_diag_source q i old_item n =
     (if has_owner (subslot_at (dn_dev n) q)
      then do {
        a \<leftarrow> owner (subslot_at (dn_dev n) q);
        let (ret, n) = send_diagnosis a p_diag_source i n;
        n \<leftarrow> pf_diag_update_station_problem_indicator a q n;
        Some (case old_item of
          None \<Rightarrow> (ret, n)
        | Some old \<Rightarrow>
            if di_usi old \<ge> PF_USI_CHANNEL_DIAGNOSIS
            then send_diagnosis a p_diag_source (set_spec PF_DIAG_CH_PROP_SPEC_DIS_OTHERS_REMAIN old) n
            else (ret, n))
      }
      else Some (- 1, n))"

text \<open>Linking an entry at the head of the chain, with the summary that follows from it.\<close>

definition link_diag :: "subslot_ptr \<Rightarrow> u16 \<Rightarrow> pf_device \<Rightarrow> pf_device" where
  "link_diag q ix d = upd_subslot q (diag_list_update (\<lambda>_. ix))
     (upd_item ix (di_next_update (\<lambda>_. diag_list (subslot_at d q))) d)"

definition std_of :: "diag_source \<Rightarrow> u16 \<Rightarrow> u16 \<Rightarrow> u16 \<Rightarrow> u16 \<Rightarrow> u32 \<Rightarrow> u32 \<Rightarrow> pf_diag_std" where
  "std_of p_diag_source ch_bits severity error_type ext_error_type add_value qualifier =
     \<lparr>ext_ch_add_value = add_value, qual_ch_qualifier = qualifier, ch_nbr = src_ch p_diag_source,
      ch_properties = PF_DIAG_CH_PROP_SPEC_SET (PF_DIAG_CH_PROP_DIR_SET (PF_DIAG_CH_PROP_MAINT_SET
        (PF_DIAG_CH_PROP_ACC_SET (PF_DIAG_CH_PROP_TYPE_SET 0 ch_bits)
          (if src_ch_grouping p_diag_source = PNET_DIAG_CH_CHANNEL_GROUP then 1 else 0)) severity)
        (src_ch_direction p_diag_source)) PF_DIAG_CH_PROP_SPEC_APPEARS,
      ch_error_type = error_type, ext_ch_error_type = ext_error_type\<rparr>"

text \<open>The checks of the arguments that \<open>pf_diag_add\<close>, \<open>pf_diag_update\<close> and \<open>pf_diag_remove\<close> share.\<close>

definition bad_usi :: "u16 \<Rightarrow> bool" where
  "bad_usi usi \<longleftrightarrow> usi > PF_USI_QUALIFIED_CHANNEL_DIAGNOSIS \<or> usi = PF_USI_ALARM_MULTIPLE"

definition bad_error_types :: "u16 \<Rightarrow> u16 \<Rightarrow> u16 \<Rightarrow> bool" where
  "bad_error_types usi error_type ext_error_type \<longleftrightarrow>
     usi < PF_USI_CHANNEL_DIAGNOSIS \<and> error_type \<noteq> 0 \<or> usi \<le> PF_USI_CHANNEL_DIAGNOSIS \<and> ext_error_type \<noteq> 0"

definition bad_manuf_data :: "u16 \<Rightarrow> u16 \<Rightarrow> u8 list option \<Rightarrow> bool" where
  "bad_manuf_data usi manuf_data_len p_manuf_data \<longleftrightarrow>
     usi \<ge> PF_USI_CHANNEL_DIAGNOSIS \<and> (p_manuf_data \<noteq> None \<or> manuf_data_len \<noteq> 0) \<or>
     manuf_data_len > 0 \<and> p_manuf_data = None \<or>
     unat manuf_data_len > PNET_MAX_DIAG_MANUF_DATA_SIZE"

definition manuf_bytes :: "u16 \<Rightarrow> u8 list option \<Rightarrow> u8 list" where
  "manuf_bytes manuf_data_len p = (case p of None \<Rightarrow> [] | Some bs \<Rightarrow> take (unat manuf_data_len) bs)"

definition remove_refused :: "u16 \<Rightarrow> u16 \<Rightarrow> u16 \<Rightarrow> u16 \<Rightarrow> bool" where
  "remove_refused ch error_type ext_error_type usi \<longleftrightarrow>
     bad_usi usi \<or> bad_error_types usi error_type ext_error_type \<or> ch > PNET_CHANNEL_WHOLE_SUBMODULE"

definition update_refused :: "u16 \<Rightarrow> u16 \<Rightarrow> u16 \<Rightarrow> u32 \<Rightarrow> u16 \<Rightarrow> u16 \<Rightarrow> u8 list option \<Rightarrow> bool" where
  "update_refused ch error_type ext_error_type add_value usi manuf_data_len p_manuf_data \<longleftrightarrow>
     remove_refused ch error_type ext_error_type usi \<or> usi \<le> PF_USI_CHANNEL_DIAGNOSIS \<and> add_value \<noteq> 0 \<or>
     bad_manuf_data usi manuf_data_len p_manuf_data"

definition add_refused :: "u16 \<Rightarrow> u16 \<Rightarrow> u16 \<Rightarrow> u16 \<Rightarrow> u32 \<Rightarrow> u32 \<Rightarrow> u16 \<Rightarrow> u16 \<Rightarrow> u8 list option \<Rightarrow> bool" where
  "add_refused ch severity error_type ext_error_type add_value qualifier usi manuf_data_len p_manuf_data \<longleftrightarrow>
     update_refused ch error_type ext_error_type add_value usi manuf_data_len p_manuf_data \<or>
     usi \<noteq> PF_USI_QUALIFIED_CHANNEL_DIAGNOSIS \<and> qualifier \<noteq> 0 \<or>
     usi \<noteq> PF_USI_QUALIFIED_CHANNEL_DIAGNOSIS \<and> severity = PNET_DIAG_CH_PROP_MAINT_QUALIFIED \<or>
     qualifier \<noteq> 0 \<and> severity \<noteq> PNET_DIAG_CH_PROP_MAINT_QUALIFIED"

definition pf_diag_add ::
    "diag_source \<Rightarrow> u16 \<Rightarrow> u16 \<Rightarrow> u16 \<Rightarrow> u16 \<Rightarrow> u32 \<Rightarrow> u32 \<Rightarrow> u16 \<Rightarrow> u16 \<Rightarrow> u8 list option \<Rightarrow> dev_net \<Rightarrow> (int \<times> dev_net) option" where
  "pf_diag_add p_diag_source ch_bits severity error_type ext_error_type add_value qualifier usi manuf_data_len p_manuf_data n = (let
     qualifier = qualifier AND PF_DIAG_QUALIFIED_SEVERITY_MASK
     in if add_refused (src_ch p_diag_source) severity error_type ext_error_type add_value qualifier usi manuf_data_len p_manuf_data
        then Some (- 1, n)
        else do {
          (sub, item_ix, d) \<leftarrow> pf_diag_find_entry p_diag_source error_type ext_error_type usi (dn_dev n);
          case sub of
            None \<Rightarrow> Some (- 1, n\<lparr>dn_dev := d\<rparr>)
          | Some q \<Rightarrow> do {
              (ix, overwrite, d) \<leftarrow> (if item_ix = PF_DIAG_IX_NULL
                 then map_option (\<lambda>(ix, d). (ix, False, d)) (pf_cmdev_new_diag d)
                 else Some (Some item_ix, True, d));
              case ix of
                None \<Rightarrow> Some (- 1, n\<lparr>dn_dev := d\<rparr>)
              | Some ix \<Rightarrow> do {
                  old_item \<leftarrow> item_of d ix;
                  let d = (if usi < PF_USI_CHANNEL_DIAGNOSIS
                    then upd_item ix (\<lambda>i. i\<lparr>di_usi := usi, di_manuf_data := manuf_bytes manuf_data_len p_manuf_data\<rparr>) d
                    else upd_item ix (\<lambda>i. i\<lparr>di_usi := usi,
                      di_std := std_of p_diag_source ch_bits severity error_type ext_error_type add_value qualifier\<rparr>) d);
                  let d = link_diag q ix d;
                  d \<leftarrow> pf_diag_update_submodule_state q d;
                  i \<leftarrow> item_of d ix;
                  report_entry p_diag_source q i (if overwrite then Some old_item else None) (n\<lparr>dn_dev := d\<rparr>)
                }
            }
        })"

subsection \<open>Updating\<close>

definition pf_diag_update ::
    "diag_source \<Rightarrow> u16 \<Rightarrow> u16 \<Rightarrow> u32 \<Rightarrow> u16 \<Rightarrow> u16 \<Rightarrow> u8 list option \<Rightarrow> dev_net \<Rightarrow> (int \<times> dev_net) option" where
  "pf_diag_update p_diag_source error_type ext_error_type add_value usi manuf_data_len p_manuf_data n =
     (if update_refused (src_ch p_diag_source) error_type ext_error_type add_value usi manuf_data_len p_manuf_data
      then Some (- 1, n)
      else do {
        (sub, item_ix, d) \<leftarrow> pf_diag_find_entry p_diag_source error_type ext_error_type usi (dn_dev n);
        case (sub, item_of d item_ix) of
          (Some q, Some old_item) \<Rightarrow> do {
            let d = (if di_usi old_item < PF_USI_CHANNEL_DIAGNOSIS
              then upd_item item_ix (di_manuf_data_update (\<lambda>_. manuf_bytes manuf_data_len p_manuf_data)) d
              else upd_item item_ix (\<lambda>i. let i = set_spec PF_DIAG_CH_PROP_SPEC_APPEARS i
                in i\<lparr>di_std := (di_std i)\<lparr>ext_ch_add_value := add_value\<rparr>\<rparr>) d);
            let d = link_diag q item_ix d;
            d \<leftarrow> pf_diag_update_submodule_state q d;
            i \<leftarrow> item_of d item_ix;
            report_entry p_diag_source q i (Some old_item) (n\<lparr>dn_dev := d\<rparr>)
          }
        | _ \<Rightarrow> Some (- 1, n\<lparr>dn_dev := d\<rparr>)
      })"

subsection \<open>Removing\<close>

text \<open>The alarm for a removed entry, which is out of the chain, and the AR that gets it.\<close>

definition report_removed ::
    "diag_source \<Rightarrow> u16 \<Rightarrow> subslot_ptr \<Rightarrow> u16 \<Rightarrow> dev_net \<Rightarrow> (int \<times> nat option \<times> dev_net) option" where
  "report_removed p_diag_source usi q item_ix n = (let s = subslot_at (dn_dev n) q in
     if has_owner s
     then do {
       a \<leftarrow> owner s;
       let n = n\<lparr>dn_dev := upd_item item_ix (\<lambda>i.
         if diag_list s \<noteq> PF_DIAG_IX_NULL
         then (if di_usi i \<ge> PF_USI_CHANNEL_DIAGNOSIS then set_spec PF_DIAG_CH_PROP_SPEC_DISAPPEARS i else i)
         else set_spec PF_DIAG_CH_PROP_SPEC_ALL_DISAPPEARS (set_maint PNET_DIAG_CH_PROP_MAINT_FAULT
           (i\<lparr>di_usi := PF_USI_EXTENDED_CHANNEL_DIAGNOSIS\<rparr>))) (dn_dev n)\<rparr>;
       i \<leftarrow> item_of (dn_dev n) item_ix;
       (ret, n) \<leftarrow> (if usi \<ge> PF_USI_CHANNEL_DIAGNOSIS
         then Some (send_diagnosis a p_diag_source i n)
         else do {
           (r, al) \<leftarrow> pf_alarm_send_usi_diagnosis_disappears a (src_api p_diag_source) (src_slot p_diag_source)
             (src_subslot p_diag_source) (pf_cmdev_get_module_ident (src_api p_diag_source) (src_slot p_diag_source) (dn_dev n))
             (pf_cmdev_get_submodule_ident (src_api p_diag_source) (src_slot p_diag_source) (src_subslot p_diag_source) (dn_dev n))
             usi (dn_alarm n);
           Some (r, n\<lparr>dn_alarm := al\<rparr>)
         });
       Some (ret, Some a, n)
     }
     else Some (- 1, None, n))"

definition pf_diag_remove :: "diag_source \<Rightarrow> u16 \<Rightarrow> u16 \<Rightarrow> u16 \<Rightarrow> dev_net \<Rightarrow> (int \<times> dev_net) option" where
  "pf_diag_remove p_diag_source error_type ext_error_type usi n =
     (if remove_refused (src_ch p_diag_source) error_type ext_error_type usi
      then Some (- 1, n)
      else do {
        (sub, item_ix, d) \<leftarrow> pf_diag_find_entry p_diag_source error_type ext_error_type usi (dn_dev n);
        let n = n\<lparr>dn_dev := d\<rparr>;
        case sub of
          None \<Rightarrow> Some (- 1, n)
        | Some q \<Rightarrow>
            if item_ix = PF_DIAG_IX_NULL then Some (- 1, n)
            else do {
              (ret, a, n) \<leftarrow> (if item_of (dn_dev n) item_ix \<noteq> None
                then do {
                  (ret, a, n) \<leftarrow> report_removed p_diag_source usi q item_ix n;
                  d \<leftarrow> pf_diag_update_submodule_state q (dn_dev n);
                  Some (ret, a, n\<lparr>dn_dev := d\<rparr>)
                }
                else Some (- 1, None, n));
              let n = n\<lparr>dn_dev := pf_cmdev_free_diag item_ix (dn_dev n)\<rparr>;
              n \<leftarrow> (case a of None \<Rightarrow> Some n | Some a \<Rightarrow> pf_diag_update_station_problem_indicator a q n);
              Some (ret, n)
            }
      })"

subsection \<open>Diagnosis in standard format\<close>

definition pf_diag_get_preferred_usi :: "dev_net \<Rightarrow> u16" where
  "pf_diag_get_preferred_usi n =
     (if use_qualified_diagnosis n then PF_USI_QUALIFIED_CHANNEL_DIAGNOSIS else PF_USI_EXTENDED_CHANNEL_DIAGNOSIS)"

definition pf_diag_std_add ::
    "diag_source \<Rightarrow> u16 \<Rightarrow> u16 \<Rightarrow> u16 \<Rightarrow> u16 \<Rightarrow> u32 \<Rightarrow> u32 \<Rightarrow> dev_net \<Rightarrow> (int \<times> dev_net) option" where
  "pf_diag_std_add p_diag_source ch_bits severity error_type ext_error_type add_value qualifier n =
     pf_diag_add p_diag_source ch_bits severity error_type ext_error_type add_value qualifier
       (pf_diag_get_preferred_usi n) 0 None n"

definition pf_diag_std_update :: "diag_source \<Rightarrow> u16 \<Rightarrow> u16 \<Rightarrow> u32 \<Rightarrow> dev_net \<Rightarrow> (int \<times> dev_net) option" where
  "pf_diag_std_update p_diag_source error_type ext_error_type add_value n =
     pf_diag_update p_diag_source error_type ext_error_type add_value (pf_diag_get_preferred_usi n) 0 None n"

definition pf_diag_std_remove :: "diag_source \<Rightarrow> u16 \<Rightarrow> u16 \<Rightarrow> dev_net \<Rightarrow> (int \<times> dev_net) option" where
  "pf_diag_std_remove p_diag_source error_type ext_error_type n =
     pf_diag_remove p_diag_source error_type ext_error_type (pf_diag_get_preferred_usi n) n"

subsection \<open>Diagnosis in the format of the manufacturer\<close>

definition whole_submodule :: "u32 \<Rightarrow> u16 \<Rightarrow> u16 \<Rightarrow> diag_source" where
  "whole_submodule api slot_nbr subslot_nbr = \<lparr>src_api = api, src_slot = slot_nbr, src_subslot = subslot_nbr,
     src_ch = PNET_CHANNEL_WHOLE_SUBMODULE, src_ch_grouping = PNET_DIAG_CH_INDIVIDUAL_CHANNEL,
     src_ch_direction = PNET_DIAG_CH_PROP_DIR_MANUF_SPEC\<rparr>"

definition pf_diag_usi_add ::
    "u32 \<Rightarrow> u16 \<Rightarrow> u16 \<Rightarrow> u16 \<Rightarrow> u16 \<Rightarrow> u8 list option \<Rightarrow> dev_net \<Rightarrow> (int \<times> dev_net) option" where
  "pf_diag_usi_add api slot_nbr subslot_nbr usi manuf_data_len p_manuf_data n =
     (if usi \<ge> PF_USI_CHANNEL_DIAGNOSIS then Some (- 1, n)
      else pf_diag_add (whole_submodule api slot_nbr subslot_nbr) PNET_DIAG_CH_PROP_TYPE_UNSPECIFIED
        PNET_DIAG_CH_PROP_MAINT_FAULT 0 0 0 0 usi manuf_data_len p_manuf_data n)"

definition pf_diag_usi_update ::
    "u32 \<Rightarrow> u16 \<Rightarrow> u16 \<Rightarrow> u16 \<Rightarrow> u16 \<Rightarrow> u8 list option \<Rightarrow> dev_net \<Rightarrow> (int \<times> dev_net) option" where
  "pf_diag_usi_update api slot_nbr subslot_nbr usi manuf_data_len p_manuf_data n =
     (if usi \<ge> PF_USI_CHANNEL_DIAGNOSIS then Some (- 1, n)
      else pf_diag_update (whole_submodule api slot_nbr subslot_nbr) 0 0 0 usi manuf_data_len p_manuf_data n)"

definition pf_diag_usi_remove :: "u32 \<Rightarrow> u16 \<Rightarrow> u16 \<Rightarrow> u16 \<Rightarrow> dev_net \<Rightarrow> (int \<times> dev_net) option" where
  "pf_diag_usi_remove api slot_nbr subslot_nbr usi n =
     (if usi \<ge> PF_USI_CHANNEL_DIAGNOSIS then Some (- 1, n)
      else pf_diag_remove (whole_submodule api slot_nbr subslot_nbr) 0 0 usi n)"

end
