(* ===== verification/Diag_Chains.thy ===== *)
theory Diag_Chains
  imports Diag_Ops
begin

section \<open>Reading and updating the device tree\<close>

text \<open>
  What an update of one subslot, one slot or one item changes, and what a search returns: places in
  the tree that are in use at all three levels.
\<close>

definition place :: "pf_device \<Rightarrow> subslot_ptr \<Rightarrow> bool" where
  "place d q \<longleftrightarrow> fst q < length (real_ident d) \<and> fst (snd q) < length (slots (real_ident d ! fst q)) \<and>
     snd (snd q) < length (subslots (slot_at d (fst q, fst (snd q))))"

definition alive :: "pf_device \<Rightarrow> subslot_ptr \<Rightarrow> bool" where
  "alive d q \<longleftrightarrow> place d q \<and> api_in_use (real_ident d ! fst q) \<and> slot_in_use (slot_at d (fst q, fst (snd q))) \<and>
     sub_in_use (subslot_at d q)"

lemma alive_place: "alive d q \<Longrightarrow> place d q"
  by (simp add: alive_def)

subsection \<open>Updates\<close>

lemma upd_subslot_simps [simp]:
  "dev_items (upd_subslot q f d) = dev_items d" "diag_items_free (upd_subslot q f d) = diag_items_free d"
  "length (real_ident (upd_subslot q f d)) = length (real_ident d)"
  by (simp_all add: upd_subslot_def upd_slot_def upd_def)

lemma upd_item_simps [simp]:
  "real_ident (upd_item i f d) = real_ident d" "diag_items_free (upd_item i f d) = diag_items_free d"
  "length (dev_items (upd_item i f d)) = length (dev_items d)"
  by (simp_all add: upd_item_def upd_def)

lemma slot_at_cong: "real_ident d' = real_ident d \<Longrightarrow> slot_at d' p = slot_at d p"
  by (simp add: slot_at_def)

lemma subslot_at_cong: "real_ident d' = real_ident d \<Longrightarrow> subslot_at d' q = subslot_at d q"
  by (simp add: subslot_at_def slot_at_def)

lemma place_cong: "real_ident d' = real_ident d \<Longrightarrow> place d' q = place d q"
  by (simp add: place_def slot_at_def)

lemma alive_cong: "real_ident d' = real_ident d \<Longrightarrow> alive d' q = alive d q"
  using place_cong [of d' d q] subslot_at_cong [of d' d q] slot_at_cong [of d' d] by (simp add: alive_def)

lemma tree_upd_item [simp]:
  "subslot_at (upd_item i f d) q = subslot_at d q" "slot_at (upd_item i f d) p = slot_at d p"
  "alive (upd_item i f d) q = alive d q" "place (upd_item i f d) q = place d q"
  by (rule subslot_at_cong slot_at_cong alive_cong place_cong; simp)+

lemma tree_free [simp]:
  "subslot_at (d\<lparr>diag_items_free := k\<rparr>) q = subslot_at d q" "slot_at (d\<lparr>diag_items_free := k\<rparr>) p = slot_at d p"
  "alive (d\<lparr>diag_items_free := k\<rparr>) q = alive d q" "place (d\<lparr>diag_items_free := k\<rparr>) q = place d q"
  by (rule subslot_at_cong slot_at_cong alive_cong place_cong; simp)+

lemma upd_entry_nth: "i < length xs \<Longrightarrow> upd i f xs ! j = (if j = i then f (xs ! i) else xs ! j)"
  by (auto simp: upd_def)

lemma slot_at_upd_subslot:
  assumes "place d q"
  shows "slot_at (upd_subslot q f d) p =
    (if p = (fst q, fst (snd q)) then (slot_at d p)\<lparr>subslots := upd (snd (snd q)) f (subslots (slot_at d p))\<rparr> else slot_at d p)"
  using assms by (cases p) (auto simp: slot_at_def upd_subslot_def upd_slot_def place_def upd_entry_nth)

lemma subslot_at_upd_subslot:
  assumes "place d q"
  shows "subslot_at (upd_subslot q f d) r = (if r = q then f (subslot_at d q) else subslot_at d r)"
  using assms by (cases q, cases r) (auto simp: subslot_at_def slot_at_upd_subslot place_def upd_entry_nth)

lemma subslot_at_upd_same [simp]: "place d q \<Longrightarrow> subslot_at (upd_subslot q f d) q = f (subslot_at d q)"
  by (simp add: subslot_at_upd_subslot)

lemma real_ident_upd_subslot [simp]:
  "api_in_use (real_ident (upd_subslot q f d) ! a) = api_in_use (real_ident d ! a)"
  "real_api_id (real_ident (upd_subslot q f d) ! a) = real_api_id (real_ident d ! a)"
  "length (slots (real_ident (upd_subslot q f d) ! a)) = length (slots (real_ident d ! a))"
proof -
  have "\<exists>x. real_ident (upd_subslot q f d) ! a = (real_ident d ! a)\<lparr>slots := x\<rparr> \<and> length x = length (slots (real_ident d ! a))"
  proof (cases "a = fst q \<and> a < length (real_ident d)")
    case True
    then show ?thesis by (auto simp: upd_subslot_def upd_slot_def upd_def)
  next
    case False
    then have "real_ident (upd_subslot q f d) ! a = real_ident d ! a"
      by (cases "a = fst q") (auto simp: upd_subslot_def upd_slot_def upd_def list_update_beyond)
    then show ?thesis by (intro exI [of _ "slots (real_ident d ! a)"]) simp
  qed
  then show "api_in_use (real_ident (upd_subslot q f d) ! a) = api_in_use (real_ident d ! a)"
    "real_api_id (real_ident (upd_subslot q f d) ! a) = real_api_id (real_ident d ! a)"
    "length (slots (real_ident (upd_subslot q f d) ! a)) = length (slots (real_ident d ! a))"
    by auto
qed

lemma place_upd_subslot [simp]: "place d q \<Longrightarrow> place (upd_subslot q f d) r = place d r"
  by (auto simp: place_def slot_at_upd_subslot)

lemma alive_upd_subslot:
  assumes "place d q" "\<And>s. sub_in_use (f s) = sub_in_use s"
  shows "alive (upd_subslot q f d) r = alive d r"
  using assms by (auto simp: alive_def slot_at_upd_subslot subslot_at_upd_subslot)

subsection \<open>Searches\<close>

lemma get_subslot_full_alive:
  assumes "pf_cmdev_get_subslot_full api slot_nbr subslot_nbr d = Some q"
  shows "alive d q"
  using assms
  by (auto simp: pf_cmdev_get_subslot_full_def pf_cmdev_get_api_def pf_cmdev_get_slot_def pf_cmdev_get_subslot_def
      bind_eq_Some_conv find_Some_iff alive_def place_def)

text \<open>Updates that keep numbers and use keep the searches.\<close>

lemma find_cong_upt: "(\<And>i. i < n \<Longrightarrow> P i = Q i) \<Longrightarrow> find P [0 ..< n] = find Q [0 ..< n]"
  by (rule find_cong) auto

lemma get_api_upd_subslot [simp]: "pf_cmdev_get_api api (upd_subslot q f d) = pf_cmdev_get_api api d"
  by (simp add: pf_cmdev_get_api_def)

lemma get_slot_upd_subslot:
  assumes "place d q"
  shows "pf_cmdev_get_slot a slot_nbr (upd_subslot q f d) = pf_cmdev_get_slot a slot_nbr d"
proof -
  have "slot_in_use (slot_at (upd_subslot q f d) p) = slot_in_use (slot_at d p)"
    "slot_number (slot_at (upd_subslot q f d) p) = slot_number (slot_at d p)" for p
    using assms by (simp_all add: slot_at_upd_subslot)
  then show ?thesis by (simp add: pf_cmdev_get_slot_def)
qed

lemma get_subslot_upd_subslot:
  assumes "place d q" "\<And>s. sub_in_use (f s) = sub_in_use s" "\<And>s. subslot_number (f s) = subslot_number s"
  shows "pf_cmdev_get_subslot p subslot_nbr (upd_subslot q f d) = pf_cmdev_get_subslot p subslot_nbr d"
proof -
  have "sub_in_use (subslot_at (upd_subslot q f d) r) = sub_in_use (subslot_at d r)"
    "subslot_number (subslot_at (upd_subslot q f d) r) = subslot_number (subslot_at d r)" for r
    using assms by (simp_all add: subslot_at_upd_subslot)
  moreover have "length (subslots (slot_at (upd_subslot q f d) p)) = length (subslots (slot_at d p))"
    using assms by (simp add: slot_at_upd_subslot)
  ultimately show ?thesis by (simp add: pf_cmdev_get_subslot_def)
qed

lemma get_subslot_full_upd_subslot:
  assumes "place d q" "\<And>s. sub_in_use (f s) = sub_in_use s" "\<And>s. subslot_number (f s) = subslot_number s"
  shows "pf_cmdev_get_subslot_full api slot_nbr subslot_nbr (upd_subslot q f d) =
    pf_cmdev_get_subslot_full api slot_nbr subslot_nbr d"
  using assms by (simp add: pf_cmdev_get_subslot_full_def get_slot_upd_subslot get_subslot_upd_subslot)

lemma get_subslot_full_cong:
  assumes "real_ident d' = real_ident d"
  shows "pf_cmdev_get_subslot_full api slot_nbr subslot_nbr d' = pf_cmdev_get_subslot_full api slot_nbr subslot_nbr d"
  using assms by (simp add: pf_cmdev_get_subslot_full_def pf_cmdev_get_api_def pf_cmdev_get_slot_def
      pf_cmdev_get_subslot_def slot_at_def subslot_at_def)


section \<open>The chains of diagnosis items\<close>

text \<open>
  What the chains in the pool stand for. \<open>chain\<close> relates the index at the head to the list of the
  indices, \<open>diag_rel\<close> says that the free list and the chains of all subslots in use are such lists,
  and share no item. The loops of \<open>pf_diag.c\<close> over a chain are folds over the list, so they end.
\<close>

fun chain :: "pf_diag_item list \<Rightarrow> u16 \<Rightarrow> u16 list \<Rightarrow> bool" where
  "chain xs ix [] \<longleftrightarrow> ix = PF_DIAG_IX_NULL"
| "chain xs ix (j # js) \<longleftrightarrow> ix = j \<and> unat j < length xs \<and> chain xs (di_next (xs ! unat j)) js"

abbreviation pool_sized :: "'a list \<Rightarrow> bool" where
  "pool_sized xs \<equiv> length xs \<le> 0xFFFF"

definition diag_rel :: "pf_device \<Rightarrow> (subslot_ptr \<Rightarrow> u16 list) \<Rightarrow> u16 list \<Rightarrow> bool" where
  "diag_rel d C F \<longleftrightarrow> pool_sized (dev_items d) \<and> chain (dev_items d) (diag_items_free d) F \<and>
     (\<forall>q. alive d q \<longrightarrow> chain (dev_items d) (diag_list (subslot_at d q)) (C q) \<and> set (C q) \<inter> set F = {} \<and>
       (\<forall>j\<in>set (C q). di_in_use (dev_items d ! unat j))) \<and>
     (\<forall>q r. alive d q \<longrightarrow> alive d r \<longrightarrow> q \<noteq> r \<longrightarrow> set (C q) \<inter> set (C r) = {})"

lemma diag_relD:
  assumes "diag_rel d C F"
  shows "pool_sized (dev_items d)" "chain (dev_items d) (diag_items_free d) F"
    "alive d q \<Longrightarrow> chain (dev_items d) (diag_list (subslot_at d q)) (C q)"
    "alive d q \<Longrightarrow> set (C q) \<inter> set F = {}"
    "alive d q \<Longrightarrow> j \<in> set (C q) \<Longrightarrow> di_in_use (dev_items d ! unat j)"
    "alive d q \<Longrightarrow> alive d r \<Longrightarrow> q \<noteq> r \<Longrightarrow> set (C q) \<inter> set (C r) = {}"
  using assms unfolding diag_rel_def by blast+

subsection \<open>Chains and lists\<close>

lemma unat_null [simp]: "unat PF_DIAG_IX_NULL = 65535"
  by (simp add: PF_DIAG_IX_NULL_def)

lemma item_of_null: "pool_sized xs \<Longrightarrow> pf_cmdev_get_diag_item xs PF_DIAG_IX_NULL = None"
  by (simp add: pf_cmdev_get_diag_item_def)

lemma item_of_some: "unat j < length xs \<Longrightarrow> pf_cmdev_get_diag_item xs j = Some (xs ! unat j)"
  by (simp add: pf_cmdev_get_diag_item_def)

lemma not_null: "pool_sized xs \<Longrightarrow> unat j < length xs \<Longrightarrow> j \<noteq> PF_DIAG_IX_NULL"
  by auto

lemma chain_bound: "chain xs ix js \<Longrightarrow> j \<in> set js \<Longrightarrow> unat j < length xs"
  by (induction js arbitrary: ix) auto

lemma chain_not_null:
  assumes "pool_sized xs" "chain xs ix js"
  shows "PF_DIAG_IX_NULL \<notin> set js"
  using chain_bound [OF assms(2), of PF_DIAG_IX_NULL] assms(1) by auto

lemma chain_unique:
  assumes "pool_sized xs" "chain xs ix js" "chain xs ix ks"
  shows "js = ks"
  using assms(2,3)
proof (induction js arbitrary: ix ks)
  case Nil
  then show ?case using assms(1) by (cases ks) (auto dest: not_null)
next
  case (Cons j js)
  then show ?case using assms(1) by (cases ks) (auto dest: not_null)
qed

lemma chain_append:
  "chain xs ix (pre @ j # post) \<Longrightarrow> chain xs j (j # post)"
  by (induction pre arbitrary: ix) auto

lemma chain_distinct:
  assumes "pool_sized xs" "chain xs ix js"
  shows "distinct js"
  using assms(2)
proof (induction js arbitrary: ix)
  case (Cons j js)
  have "j \<notin> set js"
  proof
    assume "j \<in> set js"
    then obtain pre post where js: "js = pre @ j # post" by (auto simp: in_set_conv_decomp)
    have "chain xs ix (j # js)" using Cons.prems by simp
    moreover have "chain xs j (j # post)" using Cons.prems chain_append [of xs _ pre j post] by (auto simp: js)
    ultimately have "j # js = j # post" using assms(1) by (auto intro: chain_unique)
    then show False by (simp add: js)
  qed
  then show ?case using Cons by auto
qed simp

lemma chain_update:
  assumes "\<And>j. j \<in> set js \<Longrightarrow> di_next (ys ! unat j) = di_next (xs ! unat j)" "length ys = length xs"
  shows "chain ys ix js = chain xs ix js"
  using assms by (induction js arbitrary: ix) auto

lemma items_upd_item:
  "unat i < length (dev_items d) \<Longrightarrow>
   dev_items (upd_item i f d) ! unat j = (if j = i then f (dev_items d ! unat i) else dev_items d ! unat j)"
  by (simp add: upd_item_def upd_entry_nth word_unat_eq_iff)

lemma chain_upd_item:
  assumes "i \<notin> set js \<or> (\<forall>x. di_next (f x) = di_next x)" "unat i < length (dev_items d)"
  shows "chain (dev_items (upd_item i f d)) ix js = chain (dev_items d) ix js"
  using assms by (intro chain_update) (auto simp: items_upd_item)

subsection \<open>Loops over a chain\<close>

lemma chain_problem_list:
  assumes "pool_sized (dev_items d)" "chain (dev_items d) ix js"
  shows "chain_problem d ix b = Some (b \<or> (\<exists>j\<in>set js. is_problem_item (dev_items d ! unat j)))"
  using assms(2)
proof (induction js arbitrary: ix b)
  case Nil
  then show ?case using assms(1) by (subst chain_problem.simps) (simp add: item_of_null)
next
  case (Cons j js)
  then show ?case by (subst chain_problem.simps) (auto simp: item_of_some)
qed

lemma chain_summary_list:
  assumes "pool_sized (dev_items d)" "chain (dev_items d) ix js"
  shows "chain_summary d sub ix x = Some (fold (\<lambda>j. add_to_summary sub (dev_items d ! unat j)) js x)"
  using assms(2)
proof (induction js arbitrary: ix x)
  case Nil
  then show ?case using assms(1) by (subst chain_summary.simps) (simp add: item_of_null)
next
  case (Cons j js)
  then show ?case by (subst chain_summary.simps) (simp add: item_of_some)
qed

lemma next_usi_list:
  assumes "pool_sized xs" "chain xs ix js"
  shows "next_usi xs low ix v =
    Some (fold (\<lambda>j v. if di_usi (xs ! unat j) > low \<and> di_usi (xs ! unat j) < v then di_usi (xs ! unat j) else v) js v)"
  using assms(2)
proof (induction js arbitrary: ix v)
  case Nil
  then show ?case using assms(1) by (subst next_usi.simps) (simp add: item_of_null)
next
  case (Cons j js)
  then show ?case by (subst next_usi.simps) (simp add: item_of_some)
qed

lemma add_diag_list_list:
  assumes "pool_sized xs" "chain xs ix js"
  shows "add_diag_list xs a sub ix s = Some (fold (\<lambda>j. pf_alarm_add_diag_item_to_summary a sub (xs ! unat j)) js s)"
  using assms(2)
proof (induction js arbitrary: ix s)
  case Nil
  then show ?case using assms(1) by (subst add_diag_list.simps) (simp add: item_of_null)
next
  case (Cons j js)
  then show ?case by (subst add_diag_list.simps) (simp add: item_of_some)
qed

lemma find_in_chain_none:
  assumes "pool_sized (dev_items d)" "chain (dev_items d) ix js" "\<forall>j\<in>set js. \<not> P (dev_items d ! unat j)"
  shows "find_in_chain P q prev ix d = Some (PF_DIAG_IX_NULL, d)"
  using assms(2,3)
proof (induction js arbitrary: ix prev)
  case Nil
  then show ?case using assms(1) by (subst find_in_chain.simps) (simp add: item_of_null)
next
  case (Cons j js)
  then show ?case by (subst find_in_chain.simps) (simp add: item_of_some)
qed

lemma find_in_chain_some:
  assumes "chain (dev_items d) ix (pre @ j # post)" "\<forall>k\<in>set pre. \<not> P (dev_items d ! unat k)" "P (dev_items d ! unat j)"
  shows "find_in_chain P q prev ix d =
    map_option (Pair j) (unlink_diag q (last (prev # pre)) (di_next (dev_items d ! unat j)) d)"
  using assms
proof (induction pre arbitrary: ix prev)
  case Nil
  then show ?case by (subst find_in_chain.simps) (simp add: item_of_some)
next
  case (Cons k pre)
  then show ?case by (subst find_in_chain.simps) (simp add: item_of_some)
qed

end
