(* ===== verification/Diag_Links.thy ===== *)
theory Diag_Links
  imports Diag_Chains
begin

section \<open>Linking, unlinking, taking and freeing items\<close>

text \<open>
  The elementary steps of the operations, each with the lists that the chains stand for afterwards.
  An item is \<open>loose\<close> when no chain has it. \<open>diag_only\<close> is what the operations change of the tree: the
  head of the chain and the summary of one subslot.
\<close>

definition loose :: "pf_device \<Rightarrow> (subslot_ptr \<Rightarrow> u16 list) \<Rightarrow> u16 list \<Rightarrow> u16 \<Rightarrow> bool" where
  "loose d C F j \<longleftrightarrow> unat j < length (dev_items d) \<and> j \<notin> set F \<and> (\<forall>r. alive d r \<longrightarrow> j \<notin> set (C r))"

lemma looseD:
  assumes "loose d C F j"
  shows "unat j < length (dev_items d)" "j \<notin> set F" "alive d r \<Longrightarrow> j \<notin> set (C r)"
  using assms unfolding loose_def by blast+

lemma same_next: "\<exists>x. i = i\<lparr>di_next := x\<rparr>"
  by (rule exI [of _ "di_next i"]) simp

definition diag_only :: "subslot_ptr \<Rightarrow> pf_device \<Rightarrow> pf_device \<Rightarrow> bool" where
  "diag_only q d d' \<longleftrightarrow> length (dev_items d') = length (dev_items d) \<and>
     (\<forall>api slot subslot. pf_cmdev_get_subslot_full api slot subslot d' = pf_cmdev_get_subslot_full api slot subslot d) \<and>
     (\<forall>r. alive d' r = alive d r) \<and> (\<forall>r. r \<noteq> q \<longrightarrow> subslot_at d' r = subslot_at d r) \<and>
     (\<exists>h g. subslot_at d' q = (subslot_at d q)\<lparr>diag_list := h, diag_summary := g\<rparr>)"

lemma diag_onlyD:
  assumes "diag_only q d d'"
  shows "length (dev_items d') = length (dev_items d)" "alive d' r = alive d r"
    "r \<noteq> q \<Longrightarrow> subslot_at d' r = subslot_at d r"
    "has_owner (subslot_at d' q) = has_owner (subslot_at d q)" "owner (subslot_at d' q) = owner (subslot_at d q)"
    "pf_cmdev_get_subslot_full api slot subslot d' = pf_cmdev_get_subslot_full api slot subslot d"
proof -
  obtain h g where q: "subslot_at d' q = (subslot_at d q)\<lparr>diag_list := h, diag_summary := g\<rparr>"
    using assms unfolding diag_only_def by blast
  show "length (dev_items d') = length (dev_items d)" "alive d' r = alive d r"
    "r \<noteq> q \<Longrightarrow> subslot_at d' r = subslot_at d r"
    "pf_cmdev_get_subslot_full api slot subslot d' = pf_cmdev_get_subslot_full api slot subslot d"
    using assms unfolding diag_only_def by blast+
  show "has_owner (subslot_at d' q) = has_owner (subslot_at d q)" "owner (subslot_at d' q) = owner (subslot_at d q)"
    by (simp_all add: q has_owner_def)
qed

lemma diag_only_refl [simp]: "diag_only q d d"
  unfolding diag_only_def by (auto intro!: exI [of _ "diag_list (subslot_at d q)"] exI [of _ "diag_summary (subslot_at d q)"])

lemma diag_only_trans: "diag_only q d d' \<Longrightarrow> diag_only q d' d'' \<Longrightarrow> diag_only q d d''"
  unfolding diag_only_def by (elim conjE exE) (intro conjI exI, auto)

lemma diag_only_steps [simp]:
  "diag_only q d (upd_item i f d)" "diag_only q d (d\<lparr>diag_items_free := k\<rparr>)"
  unfolding diag_only_def
  by (auto intro!: exI [of _ "diag_list (subslot_at d q)"] exI [of _ "diag_summary (subslot_at d q)"] get_subslot_full_cong)

lemma diag_only_subslot:
  assumes "place d q" "\<And>s. \<exists>h g. f s = s\<lparr>diag_list := h, diag_summary := g\<rparr>"
  shows "diag_only q d (upd_subslot q f d)"
proof -
  have f: "sub_in_use (f s) = sub_in_use s" "subslot_number (f s) = subslot_number s" for s using assms(2) [of s] by auto
  show ?thesis
    using assms f by (simp add: diag_only_def alive_upd_subslot subslot_at_upd_subslot get_subslot_full_upd_subslot)
qed

lemma diag_only_head: "place d q \<Longrightarrow> diag_only q d (upd_subslot q (diag_list_update (\<lambda>_. h)) d)"
  by (rule diag_only_subslot, assumption, rule_tac exI [of _ h], rule_tac x = "diag_summary s" in exI) simp

lemma diag_only_summary: "place d q \<Longrightarrow> diag_only q d (upd_subslot q (diag_summary_update (\<lambda>_. g)) d)"
  by (rule diag_only_subslot, assumption, rule_tac x = "diag_list s" in exI, rule_tac exI [of _ g]) simp

subsection \<open>What keeps the relation\<close>

lemma diag_rel_cong:
  assumes "diag_rel d C F" "length (dev_items d') = length (dev_items d)" "diag_items_free d' = diag_items_free d"
    "\<And>r. alive d' r = alive d r" "\<And>r. alive d r \<Longrightarrow> diag_list (subslot_at d' r) = diag_list (subslot_at d r)"
    "\<And>j. j \<in> set F \<Longrightarrow> di_next (dev_items d' ! unat j) = di_next (dev_items d ! unat j)"
    "\<And>r j. alive d r \<Longrightarrow> j \<in> set (C r) \<Longrightarrow> di_next (dev_items d' ! unat j) = di_next (dev_items d ! unat j) \<and>
       di_in_use (dev_items d' ! unat j) = di_in_use (dev_items d ! unat j)"
  shows "diag_rel d' C F"
proof -
  have "chain (dev_items d') (diag_items_free d') F"
    using diag_relD(2) [OF assms(1)] assms(2,3,6) chain_update [of F "dev_items d'" "dev_items d"] by simp
  moreover have "chain (dev_items d') (diag_list (subslot_at d' r)) (C r)" if "alive d r" for r
    using diag_relD(3) [OF assms(1) that] assms(2,5,7) that chain_update [of "C r" "dev_items d'" "dev_items d"] by simp
  ultimately show ?thesis
    using assms(1,2,4,7) unfolding diag_rel_def by metis
qed

lemma diag_rel_upd_loose:
  assumes "diag_rel d C F" "loose d C F j"
  shows "diag_rel (upd_item j f d) C F" "loose (upd_item j f d) C F k = loose d C F k"
proof -
  show "diag_rel (upd_item j f d) C F"
    by (rule diag_rel_cong [OF assms(1)]) (use assms(2) in \<open>auto simp: loose_def items_upd_item\<close>)
  show "loose (upd_item j f d) C F k = loose d C F k" by (simp add: loose_def)
qed

lemma diag_rel_summary:
  assumes "diag_rel d C F" "place d q"
  shows "diag_rel (upd_subslot q (diag_summary_update (\<lambda>_. g)) d) C F"
  by (rule diag_rel_cong [OF assms(1)]) (use assms(2) in \<open>auto simp: alive_upd_subslot subslot_at_upd_subslot\<close>)

lemma diag_rel_C_cong:
  assumes "diag_rel d C F" "\<And>r. alive d r \<Longrightarrow> C' r = C r"
  shows "diag_rel d C' F"
  using assms unfolding diag_rel_def by metis

subsection \<open>Unlinking\<close>

lemma chain_unlink:
  assumes "chain xs ix (pre @ k # j # post)" "distinct (pre @ k # j # post)"
    and ys: "length ys = length xs" "\<And>i. i \<noteq> k \<Longrightarrow> di_next (ys ! unat i) = di_next (xs ! unat i)"
      "di_next (ys ! unat k) = di_next (xs ! unat j)"
  shows "chain ys ix (pre @ k # post)"
  using assms(1,2)
proof (induction pre arbitrary: ix)
  case Nil
  then have "chain xs (di_next (xs ! unat j)) post" "k \<notin> set post" by auto
  then have "chain ys (di_next (xs ! unat j)) post" using ys
    by (subst chain_update [where xs = xs]) (metis, assumption+)
  then show ?case using Nil ys by simp
next
  case (Cons i pre)
  then show ?case using ys by simp
qed

lemma diag_rel_unlink:
  assumes "diag_rel d C F" "alive d q" "C q = pre @ j # post"
  obtains d' where "unlink_diag q (last (PF_DIAG_IX_NULL # pre)) (di_next (dev_items d ! unat j)) d = Some d'"
    "diag_rel d' (C(q := pre @ post)) F" "loose d' (C(q := pre @ post)) F j" "diag_only q d d'"
    "diag_items_free d' = diag_items_free d"
    "\<And>i :: u16. \<exists>x. dev_items d' ! unat i = (dev_items d ! unat i)\<lparr>di_next := x\<rparr>"
proof -
  let ?C = "C(q := pre @ post)"
  note R = diag_relD [OF assms(1)]
  have sized: "pool_sized (dev_items d)" by (rule R)
  have ch: "chain (dev_items d) (diag_list (subslot_at d q)) (pre @ j # post)" using R(3) [OF assms(2)] assms(3) by simp
  have dist: "distinct (pre @ j # post)" by (rule chain_distinct [OF sized ch])
  have bound: "\<And>i. i \<in> set (pre @ j # post) \<Longrightarrow> unat i < length (dev_items d)" by (rule chain_bound [OF ch])
  have place: "place d q" by (rule alive_place [OF assms(2)])
  have other: "j \<notin> set F" "\<And>r. alive d r \<Longrightarrow> r \<noteq> q \<Longrightarrow> set (C r) \<inter> set (C q) = {}"
    using R(4) [OF assms(2)] R(6) [OF _ assms(2)] assms(3) by auto
  define step where "step d' \<longleftrightarrow> length (dev_items d') = length (dev_items d) \<and> diag_items_free d' = diag_items_free d \<and>
    diag_only q d d' \<and> (\<forall>i :: u16. \<exists>x. dev_items d' ! unat i = (dev_items d ! unat i)\<lparr>di_next := x\<rparr>) \<and>
    (\<forall>i. i \<notin> set pre \<longrightarrow> dev_items d' ! unat i = dev_items d ! unat i) \<and>
    chain (dev_items d') (diag_list (subslot_at d' q)) (pre @ post)" for d'
  have result: "diag_rel d' ?C F \<and> loose d' ?C F j" if "step d'" for d'
  proof
    note S = that [unfolded step_def]
    have only: "diag_only q d d'" and len: "length (dev_items d') = length (dev_items d)" using S by blast+
    have same: "dev_items d' ! unat i = dev_items d ! unat i" if "i \<notin> set pre" for i using S that by blast
    have use: "di_in_use (dev_items d' ! unat i) = di_in_use (dev_items d ! unat i)" for i :: u16
    proof -
      obtain x where "dev_items d' ! unat i = (dev_items d ! unat i)\<lparr>di_next := x\<rparr>" using S by blast
      then show ?thesis by simp
    qed
    have disj: "set (C r) \<inter> set pre = {}" if "alive d r" "r \<noteq> q" for r
      using other(2) [OF that] assms(3) by auto
    have free: "chain (dev_items d') (diag_items_free d') F"
    proof -
      have "i \<notin> set pre" if "i \<in> set F" for i using R(4) [OF assms(2)] assms(3) that by auto
      then show ?thesis using chain_update [of F "dev_items d'" "dev_items d"] same len R(2) S by simp
    qed
    have C: "chain (dev_items d') (diag_list (subslot_at d' r)) (?C r)" if "alive d r" for r
    proof (cases "r = q")
      case True
      then show ?thesis using S by simp
    next
      case False
      have "i \<notin> set pre" if "i \<in> set (C r)" for i using disj [OF \<open>alive d r\<close> False] that by blast
      then have "chain (dev_items d') (diag_list (subslot_at d r)) (C r) = chain (dev_items d) (diag_list (subslot_at d r)) (C r)"
        using same len by (intro chain_update) simp_all
      then show ?thesis using False R(3) [OF that] diag_onlyD(3) [OF only False] by simp
    qed
    have sub: "set (?C r) \<subseteq> set (C r)" for r using assms(3) by auto
    show "diag_rel d' ?C F"
      unfolding diag_rel_def diag_onlyD(2) [OF only]
    proof (intro conjI allI impI ballI)
      show "pool_sized (dev_items d')" using sized len by simp
      show "chain (dev_items d') (diag_items_free d') F" by (rule free)
    next
      fix r assume r: "alive d r"
      show "chain (dev_items d') (diag_list (subslot_at d' r)) (?C r)" by (rule C [OF r])
      show "set (?C r) \<inter> set F = {}" using sub [of r] R(4) [OF r] by blast
      show "di_in_use (dev_items d' ! unat i)" if "i \<in> set (?C r)" for i using sub [of r] R(5) [OF r] that use by blast
      show "set (?C r) \<inter> set (?C p) = {}" if "alive d p" "r \<noteq> p" for p
        using sub [of r] sub [of p] R(6) [OF r that(1) that(2)] by blast
    qed
    show "loose d' ?C F j"
      unfolding loose_def diag_onlyD(2) [OF only]
    proof (intro conjI allI impI)
      show "unat j < length (dev_items d')" using bound [of j] len by simp
      show "j \<notin> set F" by (rule other)
      show "j \<notin> set (?C r)" if "alive d r" for r
        using other(2) [OF that] dist assms(3) by (cases "r = q") auto
    qed
  qed
  show ?thesis
  proof (cases pre rule: rev_cases)
    case Nil
    let ?d = "upd_subslot q (diag_list_update (\<lambda>_. di_next (dev_items d ! unat j))) d"
    have "unlink_diag q (last (PF_DIAG_IX_NULL # pre)) (di_next (dev_items d ! unat j)) d = Some ?d"
      by (simp add: Nil unlink_diag_def)
    moreover have st: "step ?d"
      unfolding step_def using ch place Nil by (auto simp: diag_only_head intro: same_next)
    moreover have "\<exists>x. dev_items ?d ! unat i = (dev_items d ! unat i)\<lparr>di_next := x\<rparr>" for i :: u16 using st unfolding step_def by blast
    ultimately show ?thesis using result [of ?d] that [of ?d] unfolding step_def by blast
  next
    case (snoc p k)
    let ?d = "upd_item k (di_next_update (\<lambda>_. di_next (dev_items d ! unat j))) d"
    have k: "unat k < length (dev_items d)" using bound [of k] snoc by simp
    have "unlink_diag q (last (PF_DIAG_IX_NULL # pre)) (di_next (dev_items d ! unat j)) d = Some ?d"
      using not_null [OF sized k] by (simp add: snoc unlink_diag_def item_of_some [OF k])
    moreover have "chain (dev_items ?d) (diag_list (subslot_at d q)) (p @ k # post)"
      by (rule chain_unlink [of "dev_items d" _ p k j post]) (use ch dist snoc k in \<open>simp_all add: items_upd_item\<close>)
    then have st: "step ?d"
      unfolding step_def using k snoc by (auto simp: items_upd_item intro: same_next)
    moreover have "\<exists>x. dev_items ?d ! unat i = (dev_items d ! unat i)\<lparr>di_next := x\<rparr>" for i :: u16 using st unfolding step_def by blast
    ultimately show ?thesis using result [of ?d] that [of ?d] unfolding step_def by blast
  qed
qed

subsection \<open>Linking, taking and freeing\<close>

lemma diag_rel_link:
  assumes "diag_rel d C F" "alive d q" "loose d C F j" "di_in_use (dev_items d ! unat j)"
  shows "diag_rel (link_diag q j d) (C(q := j # C q)) F" "diag_only q d (link_diag q j d)"
    "\<exists>x. dev_items (link_diag q j d) ! unat (i :: u16) = (dev_items d ! unat i)\<lparr>di_next := x\<rparr>"
    "diag_items_free (link_diag q j d) = diag_items_free d"
proof -
  let ?h = "diag_list (subslot_at d q)"
  let ?m = "upd_item j (di_next_update (\<lambda>_. ?h)) d"
  have d': "link_diag q j d = upd_subslot q (diag_list_update (\<lambda>_. j)) ?m" by (simp add: link_diag_def)
  have place: "place ?m q" using alive_place [OF assms(2)] by simp
  have j: "unat j < length (dev_items d)" "j \<notin> set F" "\<And>r. alive d r \<Longrightarrow> j \<notin> set (C r)"
    using looseD [OF assms(3)] by blast+
  have alive: "alive (link_diag q j d) r = alive d r" for r
    using place by (simp add: d' alive_upd_subslot)
  note R = diag_relD [OF diag_rel_upd_loose(1) [OF assms(1,3), of "di_next_update (\<lambda>_. ?h)"]]
  have head: "diag_list (subslot_at (link_diag q j d) r) = (if r = q then j else diag_list (subslot_at d r))" for r
    using place by (simp add: d' subslot_at_upd_subslot)
  show "diag_rel (link_diag q j d) (C(q := j # C q)) F"
    unfolding diag_rel_def alive
  proof (intro conjI allI impI ballI)
    show "pool_sized (dev_items (link_diag q j d))" "chain (dev_items (link_diag q j d)) (diag_items_free (link_diag q j d)) F"
      using R(1,2) by (simp_all add: d')
  next
    fix r assume r: "alive d r"
    have r': "alive ?m r" using r by simp
    show "chain (dev_items (link_diag q j d)) (diag_list (subslot_at (link_diag q j d) r)) ((C(q := j # C q)) r)"
      using R(3) [OF r'] j(1) by (cases "r = q") (simp_all add: head, simp_all add: d' items_upd_item)
    show "set ((C(q := j # C q)) r) \<inter> set F = {}" using R(4) [OF r'] j(2) by auto
    show "di_in_use (dev_items (link_diag q j d) ! unat i)" if "i \<in> set ((C(q := j # C q)) r)" for i
      using R(5) [OF r', of i] j(1) assms(4) that by (cases "i = j") (auto simp: d' items_upd_item split: if_splits)
    show "set ((C(q := j # C q)) r) \<inter> set ((C(q := j # C q)) p) = {}" if "alive d p" "r \<noteq> p" for p
      using R(6) [OF r', of p] j(3) [OF r] j(3) [OF that(1)] that by (auto split: if_splits)
  qed
  show "diag_only q d (link_diag q j d)"
    unfolding d' by (rule diag_only_trans [OF diag_only_steps(1) diag_only_head [OF place]])
  show "\<exists>x. dev_items (link_diag q j d) ! unat i = (dev_items d ! unat i)\<lparr>di_next := x\<rparr>"
    using j(1) by (cases "i = j") (auto simp: d' items_upd_item intro: same_next)
  show "diag_items_free (link_diag q j d) = diag_items_free d" by (simp add: d')
qed

lemma new_diag_none: "diag_rel d C [] \<Longrightarrow> pf_cmdev_new_diag d = Some (None, d)"
  using diag_relD(2) [of d C "[]"] by (simp add: pf_cmdev_new_diag_def)

lemma new_diag_some:
  assumes "diag_rel d C (j # F)"
  obtains d' where "pf_cmdev_new_diag d = Some (Some j, d')" "diag_rel d' C F" "loose d' C F j"
    "dev_items d' = (dev_items d)[unat j := zero_diag_item\<lparr>di_in_use := True\<rparr>]" "diag_only q d d'"
proof -
  let ?m = "d\<lparr>diag_items_free := di_next (dev_items d ! unat j)\<rparr>"
  let ?d = "upd_item j (\<lambda>_. zero_diag_item\<lparr>di_in_use := True\<rparr>) ?m"
  note R = diag_relD [OF assms]
  have j: "diag_items_free d = j" "unat j < length (dev_items d)" "chain (dev_items d) (di_next (dev_items d ! unat j)) F"
    using R(2) by auto
  have rel: "diag_rel ?m C F" using assms j unfolding diag_rel_def tree_free by auto
  have "j \<notin> set F" using chain_distinct [OF R(1,2)] by simp
  then have loose: "loose ?m C F j" using j R(4) by (auto simp: loose_def)
  show ?thesis
  proof
    show "pf_cmdev_new_diag d = Some (Some j, ?d)"
      using j not_null [OF R(1) j(2)] by (simp add: pf_cmdev_new_diag_def item_of_some)
    show "diag_rel ?d C F" "loose ?d C F j" using diag_rel_upd_loose [OF rel loose] loose by simp_all
    show "dev_items ?d = (dev_items d)[unat j := zero_diag_item\<lparr>di_in_use := True\<rparr>]" by (simp add: upd_item_def upd_def)
    show "diag_only q d ?d" by (rule diag_only_trans [OF diag_only_steps(2) diag_only_steps(1)])
  qed
qed

lemma free_diag_rel:
  assumes "diag_rel d C F" "loose d C F j"
  shows "diag_rel (pf_cmdev_free_diag j d) C (j # F)" "diag_only q d (pf_cmdev_free_diag j d)"
    "dev_items (pf_cmdev_free_diag j d) = (dev_items d)[unat j := (dev_items d ! unat j)\<lparr>di_in_use := False, di_next := diag_items_free d\<rparr>]"
proof -
  let ?m = "upd_item j (\<lambda>i. i\<lparr>di_in_use := False, di_next := diag_items_free d\<rparr>) d"
  have j: "unat j < length (dev_items d)" "\<And>r. alive d r \<Longrightarrow> j \<notin> set (C r)" using looseD [OF assms(2)] by blast+
  have d': "pf_cmdev_free_diag j d = ?m\<lparr>diag_items_free := j\<rparr>" using j by (simp add: pf_cmdev_free_diag_def)
  note M = diag_rel_upd_loose(1) [OF assms, of "\<lambda>i. i\<lparr>di_in_use := False, di_next := diag_items_free d\<rparr>"]
  have alive: "alive (pf_cmdev_free_diag j d) r = alive d r" "subslot_at (pf_cmdev_free_diag j d) r = subslot_at d r" for r
    by (simp_all add: d')
  show "diag_rel (pf_cmdev_free_diag j d) C (j # F)"
    unfolding diag_rel_def alive
  proof (intro conjI allI impI ballI)
    show "pool_sized (dev_items (pf_cmdev_free_diag j d))" using diag_relD(1) [OF assms(1)] by (simp add: d')
    show "chain (dev_items (pf_cmdev_free_diag j d)) (diag_items_free (pf_cmdev_free_diag j d)) (j # F)"
      using diag_relD(2) [OF M] j(1) by (simp add: d') (simp add: items_upd_item)
  next
    fix r assume r: "alive d r"
    then have r': "alive ?m r" by simp
    show "chain (dev_items (pf_cmdev_free_diag j d)) (diag_list (subslot_at d r)) (C r)"
      "\<And>i. i \<in> set (C r) \<Longrightarrow> di_in_use (dev_items (pf_cmdev_free_diag j d) ! unat i)"
      using diag_relD(3,5) [OF M r'] by (simp_all add: d')
    show "set (C r) \<inter> set (j # F) = {}" using diag_relD(4) [OF M r'] j(2) [OF r] by simp
    show "set (C r) \<inter> set (C p) = {}" if "alive d p" "r \<noteq> p" for p
      using diag_relD(6) [OF assms(1) r that] .
  qed
  show "diag_only q d (pf_cmdev_free_diag j d)"
    unfolding d' by (rule diag_only_trans [OF diag_only_steps(1) diag_only_steps(2)])
  show "dev_items (pf_cmdev_free_diag j d) = (dev_items d)[unat j := (dev_items d ! unat j)\<lparr>di_in_use := False, di_next := diag_items_free d\<rparr>]"
    by (simp add: d') (simp add: upd_item_def upd_def)
qed

end
