(* ===== verification/Diag_Lists.thy ===== *)
theory Diag_Lists
  imports Diag_Links
begin

section \<open>Diagnosis as lists\<close>

text \<open>
  The abstract view: each subslot has a list of diagnoses, without indices, links and the memory of
  the other format. \<open>pf_diag_find_entry\<close> takes the first match out of the list.
\<close>

datatype diagnosis = Manuf_diag u16 "u8 list" | Std_diag u16 pf_diag_std

definition diagnosis_of :: "pf_diag_item \<Rightarrow> diagnosis" where
  "diagnosis_of i = (if di_usi i < PF_USI_CHANNEL_DIAGNOSIS then Manuf_diag (di_usi i) (di_manuf_data i)
     else Std_diag (di_usi i) (di_std i))"

definition diags :: "pf_device \<Rightarrow> (subslot_ptr \<Rightarrow> u16 list) \<Rightarrow> subslot_ptr \<Rightarrow> diagnosis list" where
  "diags d C q = map (\<lambda>j. diagnosis_of (dev_items d ! unat j)) (C q)"

fun same_diag :: "diag_source \<Rightarrow> u16 \<Rightarrow> u16 \<Rightarrow> u16 \<Rightarrow> diagnosis \<Rightarrow> bool" where
  "same_diag s error_type ext_error_type usi (Manuf_diag u _) = (u = usi)"
| "same_diag s error_type ext_error_type usi (Std_diag _ x) = (ch_nbr x = src_ch s \<and> ch_error_type x = error_type \<and>
     ext_ch_error_type x = ext_error_type \<and> PF_DIAG_CH_PROP_ACC_GET (ch_properties x) = src_ch_grouping s \<and>
     PF_DIAG_CH_PROP_DIR_GET (ch_properties x) = src_ch_direction s)"

fun remove_first :: "('x \<Rightarrow> bool) \<Rightarrow> 'x list \<Rightarrow> 'x list" where
  "remove_first P [] = []"
| "remove_first P (x # xs) = (if P x then xs else x # remove_first P xs)"

lemma diag_matches_diagnosis: "diag_matches s e x u i = same_diag s e x u (diagnosis_of i)"
  by (auto simp: diag_matches_def diagnosis_of_def)

lemma diagnosis_of_next [simp]: "diagnosis_of (i\<lparr>di_next := x\<rparr>) = diagnosis_of i"
  "diagnosis_of (i\<lparr>di_in_use := b\<rparr>) = diagnosis_of i"
  by (simp_all add: diagnosis_of_def)

lemma remove_first_none: "\<forall>x\<in>set xs. \<not> P x \<Longrightarrow> remove_first P xs = xs"
  by (induction xs) auto

lemma remove_first_append: "\<forall>x\<in>set xs. \<not> P x \<Longrightarrow> P y \<Longrightarrow> remove_first P (xs @ y # ys) = xs @ ys"
  by (induction xs) auto

text \<open>A step that concerns one subslot.\<close>

definition diag_step :: "subslot_ptr \<Rightarrow> pf_device \<Rightarrow> (subslot_ptr \<Rightarrow> u16 list) \<Rightarrow> pf_device \<Rightarrow> (subslot_ptr \<Rightarrow> u16 list) \<Rightarrow> bool" where
  "diag_step q d C d' C' \<longleftrightarrow> diag_only q d d' \<and> (\<forall>r. alive d r \<longrightarrow> r \<noteq> q \<longrightarrow> C' r = C r \<and> diags d' C' r = diags d C r)"

lemma diag_stepD:
  assumes "diag_step q d C d' C'"
  shows "diag_only q d d'" "alive d r \<Longrightarrow> r \<noteq> q \<Longrightarrow> C' r = C r" "alive d r \<Longrightarrow> r \<noteq> q \<Longrightarrow> diags d' C' r = diags d C r"
  using assms unfolding diag_step_def by blast+

lemma diag_step_trans:
  assumes "diag_step q d C d' C'" "diag_step q d' C' d'' C''"
  shows "diag_step q d C d'' C''"
  using assms diag_only_trans diag_onlyD(2) unfolding diag_step_def by metis

lemma diag_step_refl [simp]: "diag_step q d C d C"
  by (simp add: diag_step_def)

lemma diags_cong:
  "(\<And>j. j \<in> set (C r) \<Longrightarrow> diagnosis_of (dev_items d' ! unat j) = diagnosis_of (dev_items d ! unat j)) \<Longrightarrow> diags d' C r = diags d C r"
  by (simp add: diags_def)

lemma step_upd_loose:
  assumes "loose d C F j"
  shows "diag_step q d C (upd_item j f d) C" "alive d q \<Longrightarrow> diags (upd_item j f d) C q = diags d C q"
proof -
  have "diags (upd_item j f d) C r = diags d C r" if "alive d r" for r
    by (rule diags_cong) (use looseD(1) [OF assms] looseD(3) [OF assms that] in \<open>auto simp: items_upd_item\<close>)
  then show "diag_step q d C (upd_item j f d) C" "alive d q \<Longrightarrow> diags (upd_item j f d) C q = diags d C q"
    by (simp_all add: diag_step_def)
qed

lemma step_summary:
  assumes "place d q"
  shows "diag_step q d C (upd_subslot q (diag_summary_update (\<lambda>_. g)) d) C"
    "diags (upd_subslot q (diag_summary_update (\<lambda>_. g)) d) C r = diags d C r"
  using diag_only_summary [OF assms] by (simp_all add: diag_step_def diags_def)

lemma step_link:
  assumes "diag_rel d C F" "alive d q" "loose d C F j" "di_in_use (dev_items d ! unat j)"
  shows "diag_step q d C (link_diag q j d) (C(q := j # C q))"
    "diags (link_diag q j d) (C(q := j # C q)) q = diagnosis_of (dev_items d ! unat j) # diags d C q"
proof -
  note L = diag_rel_link [OF assms]
  have same: "diagnosis_of (dev_items (link_diag q j d) ! unat i) = diagnosis_of (dev_items d ! unat i)" for i :: u16
    using L(3) [of i] by auto
  show "diag_step q d C (link_diag q j d) (C(q := j # C q))"
    using L(2) same by (simp add: diag_step_def diags_def)
  show "diags (link_diag q j d) (C(q := j # C q)) q = diagnosis_of (dev_items d ! unat j) # diags d C q"
    by (simp add: diags_def same)
qed

subsection \<open>Finding\<close>

lemma find_entry_none:
  assumes "diag_rel d C F" "pf_cmdev_get_subslot_full (src_api s) (src_slot s) (src_subslot s) d = Some q"
    "\<forall>x\<in>set (diags d C q). \<not> same_diag s e x' u x"
  shows "pf_diag_find_entry s e x' u d = Some (Some q, PF_DIAG_IX_NULL, d)"
proof -
  have q: "alive d q" by (rule get_subslot_full_alive [OF assms(2)])
  have "find_in_chain (diag_matches s e x' u) q PF_DIAG_IX_NULL (diag_list (subslot_at d q)) d = Some (PF_DIAG_IX_NULL, d)"
    using assms(3)
    by (intro find_in_chain_none [OF diag_relD(1) [OF assms(1)] diag_relD(3) [OF assms(1) q]])
       (auto simp: diags_def diag_matches_diagnosis)
  then show ?thesis by (simp add: pf_diag_find_entry_def assms(2))
qed

lemma find_entry_some:
  assumes "diag_rel d C F" "pf_cmdev_get_subslot_full (src_api s) (src_slot s) (src_subslot s) d = Some q"
    "find (same_diag s e x' u) (diags d C q) = Some x"
  obtains j d' C' where "pf_diag_find_entry s e x' u d = Some (Some q, j, d')" "diag_rel d' C' F" "loose d' C' F j"
    "diag_step q d C d' C'" "diags d' C' q = remove_first (same_diag s e x' u) (diags d C q)"
    "diagnosis_of (dev_items d' ! unat j) = x" "di_in_use (dev_items d' ! unat j)"
proof -
  let ?P = "\<lambda>j. same_diag s e x' u (diagnosis_of (dev_items d ! unat j))"
  have q: "alive d q" by (rule get_subslot_full_alive [OF assms(2)])
  obtain i where i: "i < length (C q)" "?P (C q ! i)" "x = diagnosis_of (dev_items d ! unat (C q ! i))" "\<forall>k<i. \<not> ?P (C q ! k)"
    using assms(3) by (auto simp: diags_def find_Some_iff)
  let ?pre = "take i (C q)" and ?j = "C q ! i" and ?post = "drop (Suc i) (C q)"
  have C: "C q = ?pre @ ?j # ?post" by (rule id_take_nth_drop [OF i(1)])
  have pre: "\<forall>k\<in>set ?pre. \<not> ?P k" using i(1,4) by (auto simp: in_set_conv_nth)
  obtain d' where d': "unlink_diag q (last (PF_DIAG_IX_NULL # ?pre)) (di_next (dev_items d ! unat ?j)) d = Some d'"
    "diag_rel d' (C(q := ?pre @ ?post)) F" "loose d' (C(q := ?pre @ ?post)) F ?j" "diag_only q d d'"
    "\<And>i :: u16. \<exists>x. dev_items d' ! unat i = (dev_items d ! unat i)\<lparr>di_next := x\<rparr>"
    using diag_rel_unlink [OF assms(1) q C] by metis
  have same: "diagnosis_of (dev_items d' ! unat i) = diagnosis_of (dev_items d ! unat i) \<and>
    di_in_use (dev_items d' ! unat i) = di_in_use (dev_items d ! unat i)" for i :: u16
    using d'(5) [of i] by auto
  have "chain (dev_items d) (diag_list (subslot_at d q)) (?pre @ ?j # ?post)"
    using diag_relD(3) [OF assms(1) q] C by simp
  note F = find_in_chain_some [OF this, of "diag_matches s e x' u" q PF_DIAG_IX_NULL]
  show ?thesis
  proof
    show "pf_diag_find_entry s e x' u d = Some (Some q, ?j, d')"
      using F pre i(2) d'(1) by (simp add: pf_diag_find_entry_def assms(2) diag_matches_diagnosis)
    show "diag_rel d' (C(q := ?pre @ ?post)) F" "loose d' (C(q := ?pre @ ?post)) F ?j" by (rule d')+
    show "diag_step q d C d' (C(q := ?pre @ ?post))" using d'(4) same by (simp add: diag_step_def diags_def)
    show "diagnosis_of (dev_items d' ! unat ?j) = x" using same i(3) by simp
    show "di_in_use (dev_items d' ! unat ?j)" using same diag_relD(5) [OF assms(1) q, of ?j] i(1) by simp
    have "diags d C q = map (\<lambda>j. diagnosis_of (dev_items d ! unat j)) ?pre @ x # map (\<lambda>j. diagnosis_of (dev_items d ! unat j)) ?post"
      unfolding diags_def i(3) by (subst C) simp
    moreover have "same_diag s e x' u x" using i by simp
    ultimately have "remove_first (same_diag s e x' u) (diags d C q) =
      map (\<lambda>j. diagnosis_of (dev_items d ! unat j)) ?pre @ map (\<lambda>j. diagnosis_of (dev_items d ! unat j)) ?post"
      using pre by (simp add: remove_first_append)
    then show "diags d' (C(q := ?pre @ ?post)) q = remove_first (same_diag s e x' u) (diags d C q)"
      using same by (simp add: diags_def)
  qed
qed


section \<open>The summary of a submodule\<close>

text \<open>
  The flags that \<open>pf_diag_update_submodule_state\<close> computes item by item, as a property of the list.
  A manufacturer's diagnosis is a fault. One in standard format is a fault when it appears and its
  severity, given directly or by the bits of its qualifier, says so; for maintenance the severity
  alone counts.
\<close>

fun fault_diag :: "diagnosis \<Rightarrow> bool" where
  "fault_diag (Manuf_diag _ _) = True"
| "fault_diag (Std_diag _ s) = (PF_DIAG_CH_PROP_SPEC_GET (ch_properties s) = PF_DIAG_CH_PROP_SPEC_APPEARS \<and>
     has_severity PNET_DIAG_CH_PROP_MAINT_FAULT PF_DIAG_QUALIFIER_MASK_FAULT s)"

fun required_diag :: "diagnosis \<Rightarrow> bool" where
  "required_diag (Manuf_diag _ _) = False"
| "required_diag (Std_diag _ s) = has_severity PNET_DIAG_CH_PROP_MAINT_REQUIRED PF_DIAG_QUALIFIER_MASK_REQUIRED s"

fun demanded_diag :: "diagnosis \<Rightarrow> bool" where
  "demanded_diag (Manuf_diag _ _) = False"
| "demanded_diag (Std_diag _ s) = has_severity PNET_DIAG_CH_PROP_MAINT_DEMANDED PF_DIAG_QUALIFIER_MASK_DEMANDED s"

definition summary_of :: "diagnosis list \<Rightarrow> pf_submod_diag_summary" where
  "summary_of xs = \<lparr>ds_maintenance_required = (\<exists>x\<in>set xs. required_diag x),
     ds_maintenance_demanded = (\<exists>x\<in>set xs. demanded_diag x), ds_fault = (\<exists>x\<in>set xs. fault_diag x)\<rparr>"

lemma and_BIT: "(w AND BIT k \<noteq> 0) = bit w k" for w :: u32
  by (simp add: bit_iff_and_push_bit_not_eq_0)

lemma severity_low_bits:
  "\<not> bit (w AND PF_DIAG_QUALIFIED_SEVERITY_MASK) 0" "\<not> bit (w AND PF_DIAG_QUALIFIED_SEVERITY_MASK) (Suc 0)"
  by (simp_all add: PF_DIAG_QUALIFIED_SEVERITY_MASK_def bit_and_iff bit_not_iff)

lemma item_summary:
  fixes m :: u32 and spec :: pf_alarm_data
  assumes "pf_alarm_add_diag_item_to_summary None sub i (spec, m) = (spec', m')"
  shows "ad_submodule_diagnosis spec' = (ad_submodule_diagnosis spec \<or> fault_diag (diagnosis_of i))"
    "bit m' 0 = (bit m 0 \<or> required_diag (diagnosis_of i))"
    "bit m' (Suc 0) = (bit m (Suc 0) \<or> demanded_diag (diagnosis_of i))"
  using assms severity_low_bits [of "qual_ch_qualifier (di_std i)"]
  by (auto simp: pf_alarm_add_diag_item_to_summary_def Let_def diagnosis_of_def bit_or_iff bit_push_bit_iff
      PF_DIAG_BIT_MAINTENANCE_REQUIRED_def PF_DIAG_BIT_MAINTENANCE_DEMANDED_def split: if_splits)

definition summary_rel :: "diagnosis list \<Rightarrow> unit summary \<times> pf_submod_diag_summary \<Rightarrow> bool" where
  "summary_rel xs x \<longleftrightarrow> (case x of ((spec, m), g) \<Rightarrow> g = summary_of xs \<and>
     ad_submodule_diagnosis spec = ds_fault g \<and> bit m 0 = ds_maintenance_required g \<and> bit m (Suc 0) = ds_maintenance_demanded g)"

lemma summary_rel_add:
  assumes "summary_rel xs x" "di_in_use i"
  shows "summary_rel (xs @ [diagnosis_of i]) (add_to_summary sub i x)"
proof -
  obtain spec m g where x: "x = ((spec, m), g)" by (cases x) auto
  obtain spec' m' where s: "pf_alarm_add_diag_item_to_summary None sub i (spec, m) = (spec', m')" by force
  note I = item_summary [OF s]
  have "g = summary_of xs" "ad_submodule_diagnosis spec = ds_fault g" "bit m 0 = ds_maintenance_required g"
    "bit m (Suc 0) = ds_maintenance_demanded g" using assms(1) by (simp_all add: summary_rel_def x)
  then show ?thesis
    using I assms(2) and_BIT [of m' 0] and_BIT [of m' "Suc 0"]
    by (auto simp: summary_rel_def add_to_summary_def x s Let_def summary_of_def
        PF_DIAG_BIT_MAINTENANCE_REQUIRED_def PF_DIAG_BIT_MAINTENANCE_DEMANDED_def)
qed

lemma summary_fold:
  assumes "\<forall>j\<in>set js. di_in_use (f j)" "summary_rel xs x"
  shows "summary_rel (xs @ map (\<lambda>j. diagnosis_of (f j)) js) (fold (\<lambda>j. add_to_summary sub (f j)) js x)"
  using assms
proof (induction js arbitrary: xs x)
  case (Cons j js)
  have "summary_rel ((xs @ [diagnosis_of (f j)]) @ map (\<lambda>j. diagnosis_of (f j)) js)
    (fold (\<lambda>j. add_to_summary sub (f j)) js (add_to_summary sub (f j) x))"
    using Cons.prems by (intro Cons.IH summary_rel_add) simp_all
  then show ?case by simp
qed simp

lemma summary_of_list:
  assumes "\<forall>j\<in>set js. di_in_use (f j)"
  shows "snd (fold (\<lambda>j. add_to_summary sub (f j)) js ((no_alarm_spec, 0), no_summary)) = summary_of (map (\<lambda>j. diagnosis_of (f j)) js)"
proof -
  have "summary_rel [] ((no_alarm_spec, 0), no_summary)"
    by (simp add: summary_rel_def summary_of_def no_summary_def no_alarm_spec_def zero_alarm_data_def pf_alarm_data.defs)
  from summary_fold [OF assms this, of sub] show ?thesis by (auto simp: summary_rel_def split: prod.splits)
qed

end
