(* ===== verification/Diag_Refines.thy ===== *)
theory Diag_Refines
  imports Diag_Lists
begin

section \<open>What the diagnosis operations do to the lists\<close>

text \<open>
  Adding puts a diagnosis at the head of the list of its subslot, in place of the first one with the
  same identification; updating moves it there with its new contents; removing takes it out. The
  lists of the other subslots stay, and the pool loses no item. Each operation ends, also when
  alarms cannot be sent.
\<close>

definition owned :: "real_subslot \<Rightarrow> bool" where
  "owned s \<longleftrightarrow> (has_owner s \<longrightarrow> owner s \<noteq> None)"

subsection \<open>Alarms, indicator and summary\<close>

lemma with_alarm_dev [simp]: "dn_dev (snd (with_alarm f n)) = dn_dev n"
  by (simp add: with_alarm_def split_beta)

lemma send_diagnosis_dev: "send_diagnosis a s i n = (r, n') \<Longrightarrow> dn_dev n' = dn_dev n"
  using with_alarm_dev unfolding send_diagnosis_def by (metis snd_conv)

lemma problem_indicator_ok:
  assumes "diag_rel (dn_dev n) C F" "alive (dn_dev n) q"
  shows "pf_diag_update_station_problem_indicator a q n = Some (n\<lparr>dn_cyc := pf_ppm_set_problem_indicator a
    (\<exists>j\<in>set (C q). is_problem_item (dev_items (dn_dev n) ! unat j)) (dn_cyc n)\<rparr>)"
  by (simp add: pf_diag_update_station_problem_indicator_def
      chain_problem_list [OF diag_relD(1) [OF assms(1)] diag_relD(3) [OF assms(1,2)]])

fun problem_diag :: "diagnosis \<Rightarrow> bool" where
  "problem_diag (Manuf_diag _ _) = True"
| "problem_diag (Std_diag _ s) = (PF_DIAG_CH_PROP_MAINT_GET (ch_properties s) = PNET_DIAG_CH_PROP_MAINT_FAULT)"

lemma problem_of_list:
  assumes "diag_rel d C F" "alive d q"
  shows "(\<exists>j\<in>set (C q). is_problem_item (dev_items d ! unat j)) = (\<exists>x\<in>set (diags d C q). problem_diag x)"
proof -
  have "is_problem_item i = problem_diag (diagnosis_of i)" if "di_in_use i" for i
    using that by (simp add: is_problem_item_def diagnosis_of_def)
  then show ?thesis using diag_relD(5) [OF assms] by (auto simp: diags_def)
qed

text \<open>The problem indicator that a report sets in the cyclic data.\<close>

definition reported_cyc :: "pf_device \<Rightarrow> (subslot_ptr \<Rightarrow> u16 list) \<Rightarrow> subslot_ptr \<Rightarrow> cyc_net \<Rightarrow> cyc_net" where
  "reported_cyc d C q cyc = (if has_owner (subslot_at d q)
     then pf_ppm_set_problem_indicator (the (owner (subslot_at d q))) (\<exists>x\<in>set (diags d C q). problem_diag x) cyc else cyc)"

lemma send_diagnosis_cyc: "send_diagnosis a s i n = (r, n') \<Longrightarrow> dn_cyc n' = dn_cyc n"
  by (auto simp: send_diagnosis_def with_alarm_def split_beta)

lemma report_entry_ok:
  assumes "diag_rel (dn_dev n) C F" "alive (dn_dev n) q" "owned (subslot_at (dn_dev n) q)"
  obtains ret n' where "report_entry s q i old n = Some (ret, n')" "dn_dev n' = dn_dev n"
    "dn_cyc n' = reported_cyc (dn_dev n) C q (dn_cyc n)"
proof (cases "has_owner (subslot_at (dn_dev n) q)")
  case False
  then show ?thesis using that [of "- 1" n] by (simp add: report_entry_def reported_cyc_def)
next
  case True
  then obtain a where a: "owner (subslot_at (dn_dev n) q) = Some a" using assms(3) by (auto simp: owned_def)
  obtain r m where m: "send_diagnosis a s i n = (r, m)" by force
  have dev: "dn_dev m = dn_dev n" "dn_cyc m = dn_cyc n" using send_diagnosis_dev [OF m] send_diagnosis_cyc [OF m] by simp_all
  then obtain m' where m': "pf_diag_update_station_problem_indicator a q m = Some m'" "dn_dev m' = dn_dev n"
    "dn_cyc m' = reported_cyc (dn_dev n) C q (dn_cyc n)"
    using problem_indicator_ok [of m C F q a] problem_of_list [OF assms(1,2)] assms(1,2) True a
    by (simp add: reported_cyc_def)
  show ?thesis
  proof (cases "old = None \<or> di_usi (the old) < PF_USI_CHANNEL_DIAGNOSIS")
    case True
    then have "report_entry s q i old n = Some (r, m')"
      using \<open>has_owner _\<close> a m m'(1) by (cases old) (auto simp: report_entry_def)
    then show ?thesis using m'(2,3) by (rule that)
  next
    case False
    then obtain i' where i': "old = Some i'" "PF_USI_CHANNEL_DIAGNOSIS \<le> di_usi i'" by (auto simp: not_less)
    obtain r' m'' where m'': "send_diagnosis a s (set_spec PF_DIAG_CH_PROP_SPEC_DIS_OTHERS_REMAIN i') m' = (r', m'')" by force
    have "report_entry s q i old n = Some (r', m'')"
      using True a m m'(1) m'' i' by (simp add: report_entry_def)
    then show ?thesis
      using send_diagnosis_dev [OF m''] send_diagnosis_cyc [OF m''] m'(2,3) by (intro that [of r' m'']) simp_all
  qed
qed

lemma submodule_state_ok:
  assumes "diag_rel d C F" "alive d q"
  obtains g where "pf_diag_update_submodule_state q d = Some (upd_subslot q (diag_summary_update (\<lambda>_. g)) d)"
    "g = snd (fold (\<lambda>j. add_to_summary (pf_subslot.truncate (subslot_at d q)) (dev_items d ! unat j)) (C q)
      ((no_alarm_spec, 0), no_summary))"
  using that by (simp add: pf_diag_update_submodule_state_def Let_def split_beta
      chain_summary_list [OF diag_relD(1) [OF assms(1)] diag_relD(3) [OF assms]])

text \<open>The summary does not change the lists, nor the relation, and is that of the list.\<close>

abbreviation summarised :: "pf_device \<Rightarrow> (subslot_ptr \<Rightarrow> u16 list) \<Rightarrow> subslot_ptr \<Rightarrow> bool" where
  "summarised d C q \<equiv> diag_summary (subslot_at d q) = summary_of (diags d C q)"

lemma after_summary:
  assumes "diag_rel d C F" "alive d q"
  obtains d' where "pf_diag_update_submodule_state q d = Some d'" "diag_rel d' C F" "diag_step q d C d' C"
    "diags d' C q = diags d C q" "dev_items d' = dev_items d" "summarised d' C q"
proof -
  obtain g where g: "pf_diag_update_submodule_state q d = Some (upd_subslot q (diag_summary_update (\<lambda>_. g)) d)"
    "g = snd (fold (\<lambda>j. add_to_summary (pf_subslot.truncate (subslot_at d q)) (dev_items d ! unat j)) (C q)
      ((no_alarm_spec, 0), no_summary))"
    by (rule submodule_state_ok [OF assms])
  have place: "place d q" by (rule alive_place [OF assms(2)])
  have "g = summary_of (diags d C q)"
    unfolding g(2) diags_def using diag_relD(5) [OF assms] by (intro summary_of_list) simp
  then have "summarised (upd_subslot q (diag_summary_update (\<lambda>_. g)) d) C q"
    using place step_summary(2) [OF place, of g C q] by simp
  then show ?thesis
    using g(1) diag_rel_summary [OF assms(1) place] step_summary [OF place] that by (metis upd_subslot_simps(1))
qed

text \<open>From a loose entry with its new contents to the end of \<open>pf_diag_add\<close> and \<open>pf_diag_update\<close>.\<close>

lemma enter_entry:
  assumes "diag_rel d C F" "alive d q" "loose d C F j" "\<And>i. di_in_use (f i) = di_in_use i"
    "di_in_use (dev_items d ! unat j)" "owned (subslot_at d q)"
  obtains ret n' C' where
    "do { d \<leftarrow> pf_diag_update_submodule_state q (link_diag q j (upd_item j f d));
          i \<leftarrow> item_of d j;
          report_entry s q i old (n\<lparr>dn_dev := d\<rparr>) } = Some (ret, n')"
    "diag_rel (dn_dev n') C' F" "diag_step q d C (dn_dev n') C'"
    "diags (dn_dev n') C' q = diagnosis_of (f (dev_items d ! unat j)) # diags d C q" "summarised (dn_dev n') C' q"
    "dn_cyc n' = reported_cyc (dn_dev n') C' q (dn_cyc n)"
proof -
  let ?u = "upd_item j f d" and ?C = "C(q := j # C q)"
  have j: "unat j < length (dev_items d)" by (rule looseD [OF assms(3)])
  note U = diag_rel_upd_loose(1) [OF assms(1,3), of f] step_upd_loose(1) [OF assms(3), of q f]
    step_upd_loose(2) [OF assms(3,2), of f]
  have loose: "loose ?u C F j" using diag_rel_upd_loose(2) [OF assms(1,3)] assms(3) by simp
  have q: "alive ?u q" using assms(2) by simp
  have item: "dev_items ?u ! unat j = f (dev_items d ! unat j)" using j by (simp add: items_upd_item)
  have used: "di_in_use (dev_items ?u ! unat j)" using item assms(4,5) by simp
  note L = diag_rel_link(1) [OF U(1) q loose used] step_link [OF U(1) q loose used]
  let ?l = "link_diag q j ?u"
  have ql: "alive ?l q" using diag_onlyD(2) [OF diag_stepD(1) [OF L(2)]] q by simp
  obtain d' where d': "pf_diag_update_submodule_state q ?l = Some d'" "diag_rel d' ?C F" "diag_step q ?l ?C d' ?C"
    "diags d' ?C q = diags ?l ?C q" "summarised d' ?C q" using after_summary [OF L(1) ql] by metis
  have step: "diag_step q d C d' ?C" by (rule diag_step_trans [OF U(2) diag_step_trans [OF L(2) d'(3)]])
  have q': "alive d' q" and own: "owned (subslot_at d' q)"
    using diag_onlyD(2,4,5) [OF diag_stepD(1) [OF step]] assms(2,6) by (simp_all add: owned_def)
  have "length (dev_items d') = length (dev_items d)" by (rule diag_onlyD(1) [OF diag_stepD(1) [OF step]])
  then obtain i where i: "item_of d' j = Some i" using j by (simp add: item_of_some)
  obtain ret n' where R: "report_entry s q i old (n\<lparr>dn_dev := d'\<rparr>) = Some (ret, n')" "dn_dev n' = d'"
    "dn_cyc n' = reported_cyc d' ?C q (dn_cyc n)"
    by (rule report_entry_ok [where n = "n\<lparr>dn_dev := d'\<rparr>" and C = ?C and F = F and q = q and s = s and i = i and old = old])
      (use d'(2) q' own that in auto)
  show ?thesis
  proof
    show "do { d \<leftarrow> pf_diag_update_submodule_state q ?l; i \<leftarrow> item_of d j; report_entry s q i old (n\<lparr>dn_dev := d\<rparr>) } = Some (ret, n')"
      by (simp add: d'(1) i R(1))
    show "diag_rel (dn_dev n') ?C F" "diag_step q d C (dn_dev n') ?C" using d'(2) step by (simp_all add: R(2))
    show "diags (dn_dev n') ?C q = diagnosis_of (f (dev_items d ! unat j)) # diags d C q"
      by (simp add: R(2) d'(4) L(3) item U(3))
    show "summarised (dn_dev n') ?C q" using d'(5) by (simp add: R(2))
    show "dn_cyc n' = reported_cyc (dn_dev n') ?C q (dn_cyc n)" using R(2,3) by simp
  qed
qed

subsection \<open>Adding\<close>

definition new_diagnosis ::
    "diag_source \<Rightarrow> u16 \<Rightarrow> u16 \<Rightarrow> u16 \<Rightarrow> u16 \<Rightarrow> u32 \<Rightarrow> u32 \<Rightarrow> u16 \<Rightarrow> u16 \<Rightarrow> u8 list option \<Rightarrow> diagnosis" where
  "new_diagnosis s ch_bits severity error_type ext_error_type add_value qualifier usi manuf_data_len p_manuf_data =
     (if usi < PF_USI_CHANNEL_DIAGNOSIS then Manuf_diag usi (manuf_bytes manuf_data_len p_manuf_data)
      else Std_diag usi (std_of s ch_bits severity error_type ext_error_type add_value
        (qualifier AND PF_DIAG_QUALIFIED_SEVERITY_MASK)))"

text \<open>The step of \<open>pf_diag_add\<close> that writes the entry.\<close>

definition write_entry ::
    "diag_source \<Rightarrow> u16 \<Rightarrow> u16 \<Rightarrow> u16 \<Rightarrow> u16 \<Rightarrow> u32 \<Rightarrow> u32 \<Rightarrow> u16 \<Rightarrow> u16 \<Rightarrow> u8 list option \<Rightarrow> pf_diag_item \<Rightarrow> pf_diag_item" where
  "write_entry s ch_bits severity error_type ext_error_type add_value qualifier usi manuf_data_len p_manuf_data =
     (if usi < PF_USI_CHANNEL_DIAGNOSIS
      then (\<lambda>i. i\<lparr>di_usi := usi, di_manuf_data := manuf_bytes manuf_data_len p_manuf_data\<rparr>)
      else (\<lambda>i. i\<lparr>di_usi := usi, di_std := std_of s ch_bits severity error_type ext_error_type add_value
        (qualifier AND PF_DIAG_QUALIFIED_SEVERITY_MASK)\<rparr>))"

lemma write_entry_simps [simp]:
  "di_in_use (write_entry s b v e x a c u l p i) = di_in_use i"
  "diagnosis_of (write_entry s b v e x a c u l p i) = new_diagnosis s b v e x a c u l p"
  by (simp_all add: write_entry_def diagnosis_of_def new_diagnosis_def)

lemma pf_diag_add_write:
  "pf_diag_add s b v e x a c u l p n =
     (if add_refused (src_ch s) v e x a (c AND PF_DIAG_QUALIFIED_SEVERITY_MASK) u l p then Some (- 1, n)
      else do {
        (sub, item_ix, d) \<leftarrow> pf_diag_find_entry s e x u (dn_dev n);
        case sub of
          None \<Rightarrow> Some (- 1, n\<lparr>dn_dev := d\<rparr>)
        | Some q \<Rightarrow> do {
            (ix, overwrite, d) \<leftarrow> (if item_ix = PF_DIAG_IX_NULL
               then map_option (\<lambda>(ix, d). (ix, False, d)) (pf_cmdev_new_diag d)
               else Some (Some item_ix, True, d));
            case ix of
              None \<Rightarrow> Some (- 1, n\<lparr>dn_dev := d\<rparr>)
            | Some ix \<Rightarrow> do {
                old_item \<leftarrow> item_of d ix;
                do { d \<leftarrow> pf_diag_update_submodule_state q (link_diag q ix (upd_item ix (write_entry s b v e x a c u l p) d));
                     i \<leftarrow> item_of d ix;
                     report_entry s q i (if overwrite then Some old_item else None) (n\<lparr>dn_dev := d\<rparr>) }
              }
          }
      })"
  unfolding pf_diag_add_def Let_def write_entry_def by (cases "u < PF_USI_CHANNEL_DIAGNOSIS") (simp_all only: if_True if_False)

lemma diag_add_ok:
  assumes rel: "diag_rel (dn_dev n) C F"
    and q: "pf_cmdev_get_subslot_full (src_api s) (src_slot s) (src_subslot s) (dn_dev n) = Some q"
    and own: "owned (subslot_at (dn_dev n) q)"
    and args: "\<not> add_refused (src_ch s) v e x a (c AND PF_DIAG_QUALIFIED_SEVERITY_MASK) u l p"
    and room: "(\<exists>y\<in>set (diags (dn_dev n) C q). same_diag s e x u y) \<or> F \<noteq> []"
  obtains ret n' C' F' where "pf_diag_add s b v e x a c u l p n = Some (ret, n')" "diag_rel (dn_dev n') C' F'"
    "diag_step q (dn_dev n) C (dn_dev n') C'"
    "diags (dn_dev n') C' q = new_diagnosis s b v e x a c u l p # remove_first (same_diag s e x u) (diags (dn_dev n) C q)"
    "F' = (if \<exists>y\<in>set (diags (dn_dev n) C q). same_diag s e x u y then F else tl F)" "summarised (dn_dev n') C' q"
    "dn_cyc n' = reported_cyc (dn_dev n') C' q (dn_cyc n)"
proof (cases "\<exists>y\<in>set (diags (dn_dev n) C q). same_diag s e x u y")
  case True
  then obtain y where "find (same_diag s e x u) (diags (dn_dev n) C q) = Some y"
    by (cases "find (same_diag s e x u) (diags (dn_dev n) C q)") (auto simp: find_None_iff)
  from find_entry_some [OF rel q this] obtain j d C1 where
    E: "pf_diag_find_entry s e x u (dn_dev n) = Some (Some q, j, d)" "diag_rel d C1 F" "loose d C1 F j"
      "diag_step q (dn_dev n) C d C1" "diags d C1 q = remove_first (same_diag s e x u) (diags (dn_dev n) C q)"
      "di_in_use (dev_items d ! unat j)" by metis
  have j: "unat j < length (dev_items d)" "j \<noteq> PF_DIAG_IX_NULL"
    using looseD(1) [OF E(3)] not_null [OF diag_relD(1) [OF E(2)]] by auto
  have q1: "alive d q" "owned (subslot_at d q)"
    using get_subslot_full_alive [OF q] own diag_onlyD(2,4,5) [OF diag_stepD(1) [OF E(4)]] by (simp_all add: owned_def)
  obtain ret n' C' where R: "do { d' \<leftarrow> pf_diag_update_submodule_state q (link_diag q j (upd_item j (write_entry s b v e x a c u l p) d));
      i \<leftarrow> item_of d' j; report_entry s q i (Some (dev_items d ! unat j)) (n\<lparr>dn_dev := d'\<rparr>) } = Some (ret, n')"
    "diag_rel (dn_dev n') C' F" "diag_step q d C1 (dn_dev n') C'"
    "diags (dn_dev n') C' q = new_diagnosis s b v e x a c u l p # diags d C1 q" "summarised (dn_dev n') C' q"
    "dn_cyc n' = reported_cyc (dn_dev n') C' q (dn_cyc n)"
    apply (rule enter_entry [where f = "write_entry s b v e x a c u l p" and s = s and n = n and old = "Some (dev_items d ! unat j)",
      OF E(2) q1(1) E(3) write_entry_simps(1) E(6) q1(2), unfolded write_entry_simps(2)])
    subgoal premises p by (rule p(1) [OF p(2) p(3) p(4) p(5) p(6) p(7)])
    done
  show ?thesis
  proof
    show "pf_diag_add s b v e x a c u l p n = Some (ret, n')"
      unfolding pf_diag_add_write by (simp add: args E(1) j item_of_some R(1))
    show "diag_rel (dn_dev n') C' F" by (rule R)
    show "diag_step q (dn_dev n) C (dn_dev n') C'" by (rule diag_step_trans [OF E(4) R(3)])
  qed (use True R(4,5,6) E(5) in simp_all)
next
  case False
  then obtain j F' where F: "F = j # F'" using room by (cases F) auto
  note N = find_entry_none [OF rel q, of e x u]
  from new_diag_some [OF rel [unfolded F], of q] obtain d where
    E: "pf_cmdev_new_diag (dn_dev n) = Some (Some j, d)" "diag_rel d C F'" "loose d C F' j"
      "dev_items d = (dev_items (dn_dev n))[unat j := zero_diag_item\<lparr>di_in_use := True\<rparr>]" "diag_only q (dn_dev n) d" by metis
  have j: "unat j < length (dev_items d)" by (rule looseD(1) [OF E(3)])
  then have j': "di_in_use (dev_items d ! unat j)" using E(4) by simp
  have other: "j \<notin> set (C r)" if "alive (dn_dev n) r" for r
    using diag_relD(4) [OF rel that] F by auto
  have same: "diags d C r = diags (dn_dev n) C r" if "alive (dn_dev n) r" for r
    by (rule diags_cong) (use other [OF that] E(4) in \<open>metis nth_list_update_neq word_unat_eq_iff\<close>)
  have step: "diag_step q (dn_dev n) C d C" using E(5) same by (simp add: diag_step_def)
  have q0: "alive (dn_dev n) q" by (rule get_subslot_full_alive [OF q])
  have q1: "alive d q" "owned (subslot_at d q)"
    using q0 own diag_onlyD(2,4,5) [OF E(5)] by (simp_all add: owned_def)
  obtain ret n' C' where R: "do { d \<leftarrow> pf_diag_update_submodule_state q (link_diag q j (upd_item j (write_entry s b v e x a c u l p) d));
      i \<leftarrow> item_of d j; report_entry s q i None (n\<lparr>dn_dev := d\<rparr>) } = Some (ret, n')"
    "diag_rel (dn_dev n') C' F'" "diag_step q d C (dn_dev n') C'"
    "diags (dn_dev n') C' q = new_diagnosis s b v e x a c u l p # diags d C q" "summarised (dn_dev n') C' q"
    "dn_cyc n' = reported_cyc (dn_dev n') C' q (dn_cyc n)"
    apply (rule enter_entry [where f = "write_entry s b v e x a c u l p" and s = s and n = n and old = None,
      OF E(2) q1(1) E(3) write_entry_simps(1) j' q1(2), unfolded write_entry_simps(2)])
    subgoal premises p by (rule p(1) [OF p(2) p(3) p(4) p(5) p(6) p(7)])
    done
  show ?thesis
  proof
    show "pf_diag_add s b v e x a c u l p n = Some (ret, n')"
      unfolding pf_diag_add_write using False by (simp add: args N E(1) j item_of_some R(1))
    show "diag_rel (dn_dev n') C' F'" by (rule R)
    show "diag_step q (dn_dev n) C (dn_dev n') C'" by (rule diag_step_trans [OF step R(3)])
    show "diags (dn_dev n') C' q = new_diagnosis s b v e x a c u l p # remove_first (same_diag s e x u) (diags (dn_dev n) C q)"
      using False R(4) same [OF q0] by (simp add: remove_first_none)
    show "F' = (if \<exists>y\<in>set (diags (dn_dev n) C q). same_diag s e x u y then F else tl F)" using False F by simp
    show "summarised (dn_dev n') C' q" "dn_cyc n' = reported_cyc (dn_dev n') C' q (dn_cyc n)" by (rule R)+
  qed
qed

lemma diag_add_overflow:
  assumes "diag_rel (dn_dev n) C []"
    and "pf_cmdev_get_subslot_full (src_api s) (src_slot s) (src_subslot s) (dn_dev n) = Some q"
    and "\<forall>y\<in>set (diags (dn_dev n) C q). \<not> same_diag s e x u y"
  shows "pf_diag_add s b v e x a c u l p n = Some (- 1, n)"
  unfolding pf_diag_add_write by (simp add: find_entry_none [OF assms] new_diag_none [OF assms(1)])


section \<open>Updating and removing\<close>

text \<open>
  The counterparts of \<open>diag_add_ok\<close>: an update moves the diagnosis to the head with its new contents,
  a removal takes it out of the list and gives its item back to the pool.
\<close>

subsection \<open>Updating\<close>

definition updated_diagnosis :: "u32 \<Rightarrow> u16 \<Rightarrow> u8 list option \<Rightarrow> diagnosis \<Rightarrow> diagnosis" where
  "updated_diagnosis add_value manuf_data_len p_manuf_data x = (case x of
     Manuf_diag u _ \<Rightarrow> Manuf_diag u (manuf_bytes manuf_data_len p_manuf_data)
   | Std_diag u s \<Rightarrow> Std_diag u (s\<lparr>ch_properties := PF_DIAG_CH_PROP_SPEC_SET (ch_properties s) PF_DIAG_CH_PROP_SPEC_APPEARS,
       ext_ch_add_value := add_value\<rparr>))"

definition update_entry :: "u32 \<Rightarrow> u16 \<Rightarrow> u8 list option \<Rightarrow> pf_diag_item \<Rightarrow> pf_diag_item \<Rightarrow> pf_diag_item" where
  "update_entry add_value manuf_data_len p_manuf_data old =
     (if di_usi old < PF_USI_CHANNEL_DIAGNOSIS
      then di_manuf_data_update (\<lambda>_. manuf_bytes manuf_data_len p_manuf_data)
      else (\<lambda>i. let i = set_spec PF_DIAG_CH_PROP_SPEC_APPEARS i in i\<lparr>di_std := (di_std i)\<lparr>ext_ch_add_value := add_value\<rparr>\<rparr>))"

lemma update_entry_simps [simp]:
  "di_in_use (update_entry a l p old i) = di_in_use i"
  "diagnosis_of (update_entry a l p i i) = updated_diagnosis a l p (diagnosis_of i)"
  by (simp_all add: update_entry_def diagnosis_of_def updated_diagnosis_def set_spec_def Let_def)

lemma diag_update_ok:
  assumes rel: "diag_rel (dn_dev n) C F"
    and q: "pf_cmdev_get_subslot_full (src_api s) (src_slot s) (src_subslot s) (dn_dev n) = Some q"
    and own: "owned (subslot_at (dn_dev n) q)"
    and args: "\<not> update_refused (src_ch s) e x a u l p"
    and found: "find (same_diag s e x u) (diags (dn_dev n) C q) = Some y"
  obtains ret n' C' where "pf_diag_update s e x a u l p n = Some (ret, n')" "diag_rel (dn_dev n') C' F"
    "diag_step q (dn_dev n) C (dn_dev n') C'"
    "diags (dn_dev n') C' q = updated_diagnosis a l p y # remove_first (same_diag s e x u) (diags (dn_dev n) C q)"
    "summarised (dn_dev n') C' q" "dn_cyc n' = reported_cyc (dn_dev n') C' q (dn_cyc n)"
proof -
  from find_entry_some [OF rel q found] obtain j d C1 where
    E: "pf_diag_find_entry s e x u (dn_dev n) = Some (Some q, j, d)" "diag_rel d C1 F" "loose d C1 F j"
      "diag_step q (dn_dev n) C d C1" "diags d C1 q = remove_first (same_diag s e x u) (diags (dn_dev n) C q)"
      "diagnosis_of (dev_items d ! unat j) = y" "di_in_use (dev_items d ! unat j)" by metis
  have j: "unat j < length (dev_items d)" by (rule looseD(1) [OF E(3)])
  have q1: "alive d q" "owned (subslot_at d q)"
    using get_subslot_full_alive [OF q] own diag_onlyD(2,4,5) [OF diag_stepD(1) [OF E(4)]] by (simp_all add: owned_def)
  let ?f = "update_entry a l p (dev_items d ! unat j)"
  obtain ret n' C' where R: "do { d' \<leftarrow> pf_diag_update_submodule_state q (link_diag q j (upd_item j ?f d));
      i \<leftarrow> item_of d' j; report_entry s q i (Some (dev_items d ! unat j)) (n\<lparr>dn_dev := d'\<rparr>) } = Some (ret, n')"
    "diag_rel (dn_dev n') C' F" "diag_step q d C1 (dn_dev n') C'"
    "diags (dn_dev n') C' q = updated_diagnosis a l p (diagnosis_of (dev_items d ! unat j)) # diags d C1 q" "summarised (dn_dev n') C' q"
    "dn_cyc n' = reported_cyc (dn_dev n') C' q (dn_cyc n)"
    apply (rule enter_entry [where f = ?f and s = s and n = n and old = "Some (dev_items d ! unat j)",
      OF E(2) q1(1) E(3) update_entry_simps(1) E(7) q1(2), unfolded update_entry_simps(2)])
    subgoal premises p by (rule p(1) [OF p(2) p(3) p(4) p(5) p(6) p(7)])
    done
  show ?thesis
  proof
    show "pf_diag_update s e x a u l p n = Some (ret, n')"
      using R(1) by (simp add: pf_diag_update_def args E(1) item_of_some [OF j] update_entry_def Let_def if_distrib if_distribR
          split: if_splits)
    show "diag_rel (dn_dev n') C' F" by (rule R)
    show "diag_step q (dn_dev n) C (dn_dev n') C'" by (rule diag_step_trans [OF E(4) R(3)])
  qed (use R(4,5,6) E(5,6) in simp_all)
qed

lemma diag_update_unknown:
  assumes "diag_rel (dn_dev n) C F"
    and "pf_cmdev_get_subslot_full (src_api s) (src_slot s) (src_subslot s) (dn_dev n) = Some q"
    and "\<forall>y\<in>set (diags (dn_dev n) C q). \<not> same_diag s e x u y"
  shows "pf_diag_update s e x a u l p n = Some (- 1, n)"
  using diag_relD(1) [OF assms(1)] by (simp add: pf_diag_update_def find_entry_none [OF assms] item_of_null)

subsection \<open>Removing\<close>

lemma upd_item_same: "unat j < length (dev_items d) \<Longrightarrow> upd_item j (\<lambda>i. i) d = d"
  by (simp add: upd_item_def upd_def)

lemma report_removed_ok:
  assumes "unat j < length (dev_items (dn_dev n))" "owned (subslot_at (dn_dev n) q)"
  obtains ret a n' f where "report_removed s u q j n = Some (ret, a, n')" "dn_dev n' = upd_item j f (dn_dev n)"
    "dn_cyc n' = dn_cyc n" "a = (if has_owner (subslot_at (dn_dev n) q) then owner (subslot_at (dn_dev n) q) else None)"
proof (cases "has_owner (subslot_at (dn_dev n) q)")
  case False
  then have "report_removed s u q j n = Some (- 1, None, n)" by (simp add: report_removed_def)
  then show ?thesis using False upd_item_same [OF assms(1)] by (intro that [of "- 1" None n "\<lambda>i. i"]) simp_all
next
  case True
  then obtain a where a: "owner (subslot_at (dn_dev n) q) = Some a" using assms(2) by (auto simp: owned_def)
  define f where "f = (\<lambda>i. if diag_list (subslot_at (dn_dev n) q) \<noteq> PF_DIAG_IX_NULL
    then (if di_usi i \<ge> PF_USI_CHANNEL_DIAGNOSIS then set_spec PF_DIAG_CH_PROP_SPEC_DISAPPEARS i else i)
    else set_spec PF_DIAG_CH_PROP_SPEC_ALL_DISAPPEARS (set_maint PNET_DIAG_CH_PROP_MAINT_FAULT
      (i\<lparr>di_usi := PF_USI_EXTENDED_CHANNEL_DIAGNOSIS\<rparr>)))"
  let ?m = "n\<lparr>dn_dev := upd_item j f (dn_dev n)\<rparr>"
  have i: "item_of (dn_dev ?m) j = Some (f (dev_items (dn_dev n) ! unat j))"
    using assms(1) by (simp add: item_of_some items_upd_item)
  show ?thesis
  proof (cases "u \<ge> PF_USI_CHANNEL_DIAGNOSIS")
    case std: True
    obtain r m where m: "send_diagnosis a s (f (dev_items (dn_dev n) ! unat j)) ?m = (r, m)" by force
    have "report_removed s u q j n = Some (r, Some a, m)"
      unfolding report_removed_def Let_def f_def [symmetric] using True a i std m by simp
    then show ?thesis
      using send_diagnosis_dev [OF m] send_diagnosis_cyc [OF m] True a by (intro that [of r "Some a" m f]) simp_all
  next
    case False
    let ?c = "pf_alarm_send_usi_diagnosis_disappears a (src_api s) (src_slot s) (src_subslot s)
      (pf_cmdev_get_module_ident (src_api s) (src_slot s) (dn_dev ?m))
      (pf_cmdev_get_submodule_ident (src_api s) (src_slot s) (src_subslot s) (dn_dev ?m)) u (dn_alarm ?m)"
    have "?c \<noteq> None" using False by (simp add: pf_alarm_send_usi_diagnosis_disappears_def not_le split: option.splits)
    then obtain r al where al: "?c = Some (r, al)" by force
    have "report_removed s u q j n = Some (r, Some a, ?m\<lparr>dn_alarm := al\<rparr>)"
      unfolding report_removed_def Let_def f_def [symmetric] using True a i False al by simp
    then show ?thesis using True a by (intro that [of r "Some a" "?m\<lparr>dn_alarm := al\<rparr>" f]) simp_all
  qed
qed

lemma diag_remove_ok:
  assumes rel: "diag_rel (dn_dev n) C F"
    and q: "pf_cmdev_get_subslot_full (src_api s) (src_slot s) (src_subslot s) (dn_dev n) = Some q"
    and own: "owned (subslot_at (dn_dev n) q)"
    and args: "\<not> remove_refused (src_ch s) e x u"
    and found: "\<exists>y\<in>set (diags (dn_dev n) C q). same_diag s e x u y"
  obtains ret n' C' j where "pf_diag_remove s e x u n = Some (ret, n')" "diag_rel (dn_dev n') C' (j # F)"
    "diag_step q (dn_dev n) C (dn_dev n') C'"
    "diags (dn_dev n') C' q = remove_first (same_diag s e x u) (diags (dn_dev n) C q)" "summarised (dn_dev n') C' q"
    "dn_cyc n' = reported_cyc (dn_dev n') C' q (dn_cyc n)"
proof -
  obtain y where "find (same_diag s e x u) (diags (dn_dev n) C q) = Some y"
    using found by (cases "find (same_diag s e x u) (diags (dn_dev n) C q)") (auto simp: find_None_iff)
  from find_entry_some [OF rel q this] obtain j d C1 where
    E: "pf_diag_find_entry s e x u (dn_dev n) = Some (Some q, j, d)" "diag_rel d C1 F" "loose d C1 F j"
      "diag_step q (dn_dev n) C d C1" "diags d C1 q = remove_first (same_diag s e x u) (diags (dn_dev n) C q)" by metis
  have j: "unat j < length (dev_items d)" "j \<noteq> PF_DIAG_IX_NULL"
    using looseD(1) [OF E(3)] not_null [OF diag_relD(1) [OF E(2)]] by auto
  have q1: "alive d q" "owned (subslot_at d q)"
    using get_subslot_full_alive [OF q] own diag_onlyD(2,4,5) [OF diag_stepD(1) [OF E(4)]] by (simp_all add: owned_def)
  let ?n = "n\<lparr>dn_dev := d\<rparr>"
  obtain ret a m f where m: "report_removed s u q j ?n = Some (ret, a, m)" "dn_dev m = upd_item j f d" "dn_cyc m = dn_cyc n"
    "a = (if has_owner (subslot_at d q) then owner (subslot_at d q) else None)"
    by (rule report_removed_ok [where j = j and n = ?n and q = q and s = s and u = u]) (use j(1) q1(2) that in auto)
  note U = diag_rel_upd_loose(1) [OF E(2,3), of f] step_upd_loose(1) [OF E(3), of q f] step_upd_loose(2) [OF E(3) q1(1), of f]
  have lu: "loose (upd_item j f d) C1 F j" using diag_rel_upd_loose(2) [OF E(2,3)] E(3) by simp
  have qu: "alive (upd_item j f d) q" using q1(1) by simp
  obtain d2 where d2: "pf_diag_update_submodule_state q (dn_dev m) = Some d2" "diag_rel d2 C1 F" "diag_step q (upd_item j f d) C1 d2 C1"
    "diags d2 C1 q = diags (upd_item j f d) C1 q" "dev_items d2 = dev_items (upd_item j f d)"
    "summarised d2 C1 q"
    unfolding m(2) using after_summary [OF U(1) qu] by metis
  have s2: "diag_step q (dn_dev n) C d2 C1" by (rule diag_step_trans [OF E(4) diag_step_trans [OF U(2) d2(3)]])
  have al2: "alive d2 r = alive (dn_dev n) r" for r by (rule diag_onlyD(2) [OF diag_stepD(1) [OF s2]])
  have l2: "loose d2 C1 F j"
    using E(3) diag_onlyD(2) [OF diag_stepD(1) [OF E(4)]] al2 d2(5) by (simp add: loose_def)
  let ?d3 = "pf_cmdev_free_diag j d2"
  note Fr = free_diag_rel [OF d2(2) l2]
  have same: "diags ?d3 C1 r = diags d2 C1 r" if "alive d2 r" for r
    by (rule diags_cong) (use looseD(3) [OF l2 that] Fr(3) in \<open>metis nth_list_update_neq word_unat_eq_iff\<close>)
  have s3: "diag_step q (dn_dev n) C ?d3 C1"
    using diag_step_trans [OF s2, of ?d3 C1] Fr(2) same by (simp add: diag_step_def)
  have q3: "alive ?d3 q" using diag_onlyD(2) [OF Fr(2), of q] al2 get_subslot_full_alive [OF q] by simp
  have own3: "has_owner (subslot_at ?d3 q) = has_owner (subslot_at d q)" "owner (subslot_at ?d3 q) = owner (subslot_at d q)"
    using diag_onlyD(4,5) [OF diag_stepD(1) [OF s3]] diag_onlyD(4,5) [OF diag_stepD(1) [OF E(4)]] by simp_all
  have problem: "(\<exists>k\<in>set (C1 q). is_problem_item (dev_items ?d3 ! unat k)) = (\<exists>x\<in>set (diags ?d3 C1 q). problem_diag x)"
    by (rule problem_of_list [OF Fr(1) q3])
  obtain n' where n': "(case a of None \<Rightarrow> Some (m\<lparr>dn_dev := ?d3\<rparr>) | Some a \<Rightarrow>
      pf_diag_update_station_problem_indicator a q (m\<lparr>dn_dev := ?d3\<rparr>)) = Some n'" "dn_dev n' = ?d3"
      "dn_cyc n' = reported_cyc ?d3 C1 q (dn_cyc n)"
  proof (cases "has_owner (subslot_at d q)")
    case False
    then show ?thesis using that [of "m\<lparr>dn_dev := ?d3\<rparr>"] m(3,4) own3 by (simp add: reported_cyc_def)
  next
    case True
    then obtain b where "owner (subslot_at d q) = Some b" using q1(2) by (auto simp: owned_def)
    then show ?thesis
      using True that problem_indicator_ok [of "m\<lparr>dn_dev := ?d3\<rparr>" C1 "j # F" q b] Fr(1) q3 m(3,4) own3 problem
      by (simp add: reported_cyc_def)
  qed
  show ?thesis
  proof
    show "pf_diag_remove s e x u n = Some (ret, n')"
      by (simp add: pf_diag_remove_def args E(1) j item_of_some m(1) d2(1) n'(1))
    show "diag_rel (dn_dev n') C1 (j # F)" using Fr(1) by (simp add: n'(2))
    show "diag_step q (dn_dev n) C (dn_dev n') C1" using s3 by (simp add: n'(2))
    show "diags (dn_dev n') C1 q = remove_first (same_diag s e x u) (diags (dn_dev n) C q)"
      using same [of q] al2 get_subslot_full_alive [OF q] by (simp add: n'(2) d2(4) U(3) E(5))
    have "subslot_at ?d3 q = subslot_at d2 q" by (simp add: pf_cmdev_free_diag_def)
    then show "summarised (dn_dev n') C1 q"
      using same [of q] al2 get_subslot_full_alive [OF q] d2(6) by (simp add: n'(2))
    show "dn_cyc n' = reported_cyc (dn_dev n') C1 q (dn_cyc n)" using n'(2,3) by simp
  qed
qed

lemma diag_remove_unknown:
  assumes "diag_rel (dn_dev n) C F"
    and "pf_cmdev_get_subslot_full (src_api s) (src_slot s) (src_subslot s) (dn_dev n) = Some q"
    and "\<forall>y\<in>set (diags (dn_dev n) C q). \<not> same_diag s e x u y"
  shows "pf_diag_remove s e x u n = Some (- 1, n)"
  by (simp add: pf_diag_remove_def find_entry_none [OF assms])

end
