(* ===== verification/Dev_Steps.thy ===== *)
theory Dev_Steps
  imports Diag_Refines
begin

section \<open>All operations on the device tree\<close>

text \<open>
  \<open>tree_ok\<close> is the invariant of the tree and its pool: the chains are lists that share no item, each
  submodule has the summary of its list, and a submodule that an AR owns has its owner. It holds after the initialisation, every operation keeps
  it, and with it every operation returns. \<open>dev_step\<close> has all of them as steps.
\<close>

definition tree_ok :: "pf_device \<Rightarrow> bool" where
  "tree_ok d \<longleftrightarrow> (\<exists>C F. diag_rel d C F \<and> (\<forall>q. alive d q \<longrightarrow> summarised d C q)) \<and> (\<forall>q. alive d q \<longrightarrow> owned (subslot_at d q))"

lemma tree_okD: "tree_ok d \<Longrightarrow> alive d q \<Longrightarrow> owned (subslot_at d q)"
  unfolding tree_ok_def by blast

lemma diag_rel_shrink:
  assumes "diag_rel d C F" "dev_items d' = dev_items d" "diag_items_free d' = diag_items_free d"
    "\<And>r. alive d' r \<Longrightarrow> alive d r \<and> diag_list (subslot_at d' r) = diag_list (subslot_at d r)"
  shows "diag_rel d' C F"
  using assms unfolding diag_rel_def by metis

abbreviation same_diags :: "real_subslot \<Rightarrow> real_subslot \<Rightarrow> bool" where
  "same_diags s t \<equiv> diag_list s = diag_list t \<and> diag_summary s = diag_summary t"

lemma tree_ok_shrink:
  assumes "tree_ok d" "dev_items d' = dev_items d" "diag_items_free d' = diag_items_free d"
    "\<And>r. alive d' r \<Longrightarrow> alive d r \<and> same_diags (subslot_at d' r) (subslot_at d r) \<and> owned (subslot_at d' r)"
  shows "tree_ok d'"
proof -
  obtain C F where C: "diag_rel d C F" "\<And>q. alive d q \<Longrightarrow> summarised d C q" using assms(1) unfolding tree_ok_def by blast
  have "diag_rel d' C F" by (rule diag_rel_shrink [OF C(1)]) (use assms in blast)+
  moreover have "summarised d' C q" if "alive d' q" for q
    using assms(4) [OF that] C(2) [of q] by (simp add: diags_def assms(2))
  ultimately show ?thesis using assms(4) unfolding tree_ok_def by blast
qed

lemma tree_ok_upd_subslot:
  assumes "tree_ok d" "place d q" "\<And>s. same_diags (f s) s" "\<And>s. sub_in_use (f s) \<Longrightarrow> sub_in_use s"
    "\<And>s. owned s \<Longrightarrow> owned (f s)"
  shows "tree_ok (upd_subslot q f d)"
proof (rule tree_ok_shrink [OF assms(1)])
  fix r assume r: "alive (upd_subslot q f d) r"
  then have "alive d r"
    using assms(2,4) by (auto simp: alive_def slot_at_upd_subslot subslot_at_upd_subslot split: if_splits)
  then show "alive d r \<and> same_diags (subslot_at (upd_subslot q f d) r) (subslot_at d r) \<and>
    owned (subslot_at (upd_subslot q f d) r)"
    using assms(2,3,5) tree_okD [OF assms(1), of r] by (cases "r = q") (simp_all add: subslot_at_upd_subslot)
qed simp_all

subsection \<open>Slots\<close>

lemma upd_slot_simps [simp]:
  "dev_items (upd_slot p f d) = dev_items d" "diag_items_free (upd_slot p f d) = diag_items_free d"
  "length (real_ident (upd_slot p f d)) = length (real_ident d)"
  by (simp_all add: upd_slot_def upd_def)

definition slot_place :: "pf_device \<Rightarrow> slot_ptr \<Rightarrow> bool" where
  "slot_place d p \<longleftrightarrow> fst p < length (real_ident d) \<and> snd p < length (slots (real_ident d ! fst p))"

lemma slot_at_upd_slot:
  "slot_place d p \<Longrightarrow> slot_at (upd_slot p f d) r = (if r = p then f (slot_at d p) else slot_at d r)"
  by (cases p, cases r) (auto simp: slot_place_def slot_at_def upd_slot_def upd_entry_nth)

lemma api_upd_slot:
  assumes "slot_place d p"
  shows "api_in_use (real_ident (upd_slot p f d) ! a) = api_in_use (real_ident d ! a)"
    "length (slots (real_ident (upd_slot p f d) ! a)) = length (slots (real_ident d ! a))"
    "real_api_id (real_ident (upd_slot p f d) ! a) = real_api_id (real_ident d ! a)"
  using assms by (auto simp: slot_place_def upd_slot_def upd_entry_nth)

lemma tree_ok_upd_slot:
  assumes "tree_ok d" "slot_place d p"
    "\<And>b. b < length (subslots (f (slot_at d p))) \<Longrightarrow> slot_in_use (f (slot_at d p)) \<Longrightarrow> sub_in_use (subslots (f (slot_at d p)) ! b) \<Longrightarrow>
       slot_in_use (slot_at d p) \<and> b < length (subslots (slot_at d p)) \<and> subslots (f (slot_at d p)) ! b = subslots (slot_at d p) ! b"
  shows "tree_ok (upd_slot p f d)"
proof (rule tree_ok_shrink [OF assms(1)])
  fix r assume r: "alive (upd_slot p f d) r"
  have "alive d r \<and> subslot_at (upd_slot p f d) r = subslot_at d r"
  proof (cases "(fst r, fst (snd r)) = p")
    case True
    then show ?thesis using r assms(3) [of "snd (snd r)"]
      by (auto simp: alive_def place_def subslot_at_def slot_at_upd_slot [OF assms(2)] api_upd_slot [OF assms(2)])
  next
    case False
    then show ?thesis using r
      by (auto simp: alive_def place_def subslot_at_def slot_at_upd_slot [OF assms(2)] api_upd_slot [OF assms(2)])
  qed
  then show "alive d r \<and> same_diags (subslot_at (upd_slot p f d) r) (subslot_at d r) \<and>
    owned (subslot_at (upd_slot p f d) r)"
    using tree_okD [OF assms(1)] by simp
qed simp_all

lemma get_slot_place:
  assumes "pf_cmdev_get_api api d = Some a" "pf_cmdev_get_slot a slot_nbr d = Some p"
  shows "slot_place d p" "slot_in_use (slot_at d p)" "fst p = a" "api_in_use (real_ident d ! a)"
  using assms by (auto simp: pf_cmdev_get_api_def pf_cmdev_get_slot_def find_Some_iff slot_place_def)

lemma first_free_Some: "first_free u xs = Some i \<Longrightarrow> i < length xs \<and> \<not> u (xs ! i)"
  by (auto simp: first_free_def find_Some_iff)

lemma plug_module_ok:
  assumes "tree_ok d"
  shows "tree_ok (snd (pf_cmdev_plug_module api slot_nbr m d))"
proof (cases "pf_cmdev_get_api api d")
  case None
  then show ?thesis using assms by (simp add: pf_cmdev_plug_module_def)
next
  case (Some a)
  show ?thesis
  proof (cases "pf_cmdev_get_slot a slot_nbr d = None \<and> first_free slot_in_use (slots (real_ident d ! a)) \<noteq> None")
    case False
    then show ?thesis using assms Some
      by (auto simp: pf_cmdev_plug_module_def pf_cmdev_new_slot_def split: option.splits)
  next
    case True
    then obtain ix where ix: "pf_cmdev_get_slot a slot_nbr d = None" "first_free slot_in_use (slots (real_ident d ! a)) = Some ix"
      by auto
    have p: "slot_place d (a, ix)"
      using Some first_free_Some [OF ix(2)] by (auto simp: slot_place_def pf_cmdev_get_api_def find_Some_iff)
    let ?d = "upd_slot (a, ix) (\<lambda>_. zero_slot\<lparr>slot_number := slot_nbr, slot_in_use := True\<rparr>) d"
    have 1: "tree_ok ?d" by (rule tree_ok_upd_slot [OF assms p]) (auto simp: zero_slot_def zero_subslot_def)
    have "slot_place ?d (a, ix)" using p by (simp add: slot_place_def api_upd_slot [OF p])
    then have "tree_ok (upd_slot (a, ix) (slot_ident_number_update (\<lambda>_. m)) ?d)"
      by (intro tree_ok_upd_slot [OF 1]) auto
    then show ?thesis using Some ix by (simp add: pf_cmdev_plug_module_def pf_cmdev_new_slot_def)
  qed
qed

subsection \<open>Submodules\<close>

lemma with_alarm_obtain: obtains r n' where "with_alarm f n = (r, n')" "dn_dev n' = dn_dev n"
  by (metis with_alarm_dev prod.collapse)

lemma pull_submodule_ok:
  assumes "tree_ok (dn_dev n)"
  obtains ret n' where "pf_cmdev_pull_submodule api slot_nbr subslot_nbr n = Some (ret, n')" "tree_ok (dn_dev n')"
proof (cases "pf_cmdev_get_subslot_full api slot_nbr subslot_nbr (dn_dev n)")
  case None
  then show ?thesis using assms that by (simp add: pf_cmdev_pull_submodule_def)
next
  case (Some q)
  have q: "alive (dn_dev n) q" by (rule get_subslot_full_alive [OF Some])
  let ?d = "upd_subslot q (sub_in_use_update (\<lambda>_. False)) (dn_dev n)"
  have ok: "tree_ok ?d" by (rule tree_ok_upd_subslot [OF assms alive_place [OF q]]) (auto simp: owned_def has_owner_def)
  have "owned (subslot_at ?d q)"
    using tree_okD [OF assms q] alive_place [OF q] by (simp add: owned_def has_owner_def)
  then obtain r m where "pf_cmdev_pull_submodule api slot_nbr subslot_nbr n = Some (r, m)" "dn_dev m = ?d"
    using that with_alarm_dev [of _ "n\<lparr>dn_dev := ?d\<rparr>"]
    by (cases "has_owner (subslot_at ?d q)") (auto simp: pf_cmdev_pull_submodule_def Some Let_def owned_def prod_eq_iff)
  then show ?thesis using ok that by metis
qed

lemma new_subslot_ok:
  assumes "tree_ok d" "pf_cmdev_get_api api d = Some a" "pf_cmdev_get_slot a slot_nbr d = Some p"
    "pf_cmdev_new_subslot p subslot_nbr d = (Some q, d')"
  shows "tree_ok d'" "place d' q" "alive d' q" "\<not> alive d q"
    "subslot_at d' q = zero_subslot\<lparr>subslot_number := subslot_nbr, diag_list := PF_DIAG_IX_NULL, sub_in_use := True\<rparr>"
proof -
  obtain ix where ix: "first_free sub_in_use (subslots (slot_at d p)) = Some ix" "q = (fst p, snd p, ix)"
    "d' = upd_subslot q (\<lambda>_. zero_subslot\<lparr>subslot_number := subslot_nbr, diag_list := PF_DIAG_IX_NULL, sub_in_use := True\<rparr>) d"
    using assms(4) by (auto simp: pf_cmdev_new_subslot_def split: if_splits option.splits)
  note S = get_slot_place [OF assms(2,3)]
  have q: "place d q" using S(1,2) first_free_Some [OF ix(1)] by (simp add: ix(2) place_def slot_place_def)
  show "\<not> alive d q" using first_free_Some [OF ix(1)] by (simp add: ix(2) alive_def subslot_at_def)
  show p': "place d' q" using q by (simp add: ix(3))
  show sub: "subslot_at d' q = zero_subslot\<lparr>subslot_number := subslot_nbr, diag_list := PF_DIAG_IX_NULL, sub_in_use := True\<rparr>"
    using q by (simp add: ix(3))
  show "alive d' q" using S(2) S(4) [folded S(3)] q p' sub by (simp add: alive_def ix(3) slot_at_upd_subslot) (simp add: ix(2))
  have al: "alive d' r = alive d r" "subslot_at d' r = subslot_at d r" if "r \<noteq> q" for r
    using q that by (auto simp: ix(3) alive_def slot_at_upd_subslot subslot_at_upd_subslot)
  obtain C F where rel: "diag_rel d C F" and sum: "\<And>r. alive d r \<Longrightarrow> summarised d C r"
    using assms(1) unfolding tree_ok_def by blast
  have "diag_rel d' (C(q := [])) F"
    unfolding diag_rel_def
  proof (intro conjI allI impI ballI)
    show "pool_sized (dev_items d')" "chain (dev_items d') (diag_items_free d') F"
      using diag_relD(1,2) [OF rel] by (simp_all add: ix(3))
  next
    fix r assume r: "alive d' r"
    show "chain (dev_items d') (diag_list (subslot_at d' r)) ((C(q := [])) r)"
      "set ((C(q := [])) r) \<inter> set F = {}"
      "\<And>j. j \<in> set ((C(q := [])) r) \<Longrightarrow> di_in_use (dev_items d' ! unat j)"
      using r al [of r] diag_relD(3,4,5) [OF rel, of r] sub by (cases "r = q"; simp add: ix(3))+
    show "set ((C(q := [])) r) \<inter> set ((C(q := [])) t) = {}" if "alive d' t" "r \<noteq> t" for t
      using r that al [of r] al [of t] diag_relD(6) [OF rel, of r t] by (cases "r = q"; cases "t = q"; simp)
  qed
  moreover have "summarised d' (C(q := [])) r" if "alive d' r" for r
    using that al [of r] sum [of r] sub
    by (cases "r = q") (simp_all add: diags_def summary_of_def zero_subslot_def ix(3))
  moreover have "owned (subslot_at d' r)" if "alive d' r" for r
    using that al [of r] tree_okD [OF assms(1), of r] sub by (cases "r = q") (simp_all add: owned_def has_owner_def zero_subslot_def)
  ultimately show "tree_ok d'" unfolding tree_ok_def by blast
qed

lemma give_to_ar_ok:
  assumes "tree_ok (dn_dev n)" "place (dn_dev n) q"
  obtains r n' where "give_to_ar api slot_nbr subslot_nbr m s q n = (r, n')" "tree_ok (dn_dev n')"
proof -
  have "tree_ok (upd_subslot q (\<lambda>s. s\<lparr>ownsm_state := PF_OWNSM_STATE_IOC, owner := Some a\<rparr>) (dn_dev n))" for a
    by (rule tree_ok_upd_subslot [OF assms]) (simp_all add: owned_def)
  then have "tree_ok (dn_dev (snd (give_to_ar api slot_nbr subslot_nbr m s q n)))"
    using assms(1) by (auto simp: give_to_ar_def Let_def split: option.splits)
  then show ?thesis using that by (metis prod.collapse)
qed

lemma get_api_snd_plug [simp]:
  "pf_cmdev_get_api api (snd (pf_cmdev_plug_module api' slot_nbr m d)) = pf_cmdev_get_api api d"
proof -
  have "pf_cmdev_get_api api (upd_slot p f d) = pf_cmdev_get_api api d" for p f d
  proof -
    have "api_in_use (real_ident (upd_slot p f d) ! a) = api_in_use (real_ident d ! a) \<and>
      real_api_id (real_ident (upd_slot p f d) ! a) = real_api_id (real_ident d ! a)" if "a < length (real_ident d)" for a
      using that by (cases "a = fst p") (auto simp: upd_slot_def upd_def)
    then show ?thesis unfolding pf_cmdev_get_api_def upd_slot_simps by (intro find_cong_upt) simp
  qed
  then show ?thesis
    by (auto simp: pf_cmdev_plug_module_def pf_cmdev_new_slot_def split: option.splits)
qed

lemma plug_submodule_ok:
  assumes ok: "tree_ok (dn_dev n)"
  obtains ret n' where "pf_cmdev_plug_submodule api slot_nbr subslot_nbr m s dir li lo update n = Some (ret, n')" "tree_ok (dn_dev n')"
proof (cases "pf_cmdev_get_api api (dn_dev n)")
  case None
  then show ?thesis using ok that by (simp add: pf_cmdev_plug_submodule_def)
next
  case (Some a)
  define pre where "pre = (case pf_cmdev_get_slot a slot_nbr (dn_dev n) of
      None \<Rightarrow> Some (False, n\<lparr>dn_dev := snd (pf_cmdev_plug_module api slot_nbr m (dn_dev n))\<rparr>)
    | Some p \<Rightarrow> (case pf_cmdev_get_subslot p subslot_nbr (dn_dev n) of
        None \<Rightarrow> Some (False, n)
      | Some q \<Rightarrow>
          if update then do { (_, n) \<leftarrow> pf_cmdev_pull_submodule api slot_nbr subslot_nbr n; Some (False, n) }
          else Some (sub_ident_number (subslot_at (dn_dev n) q) = s, n)))"
  obtain r k where k: "pf_cmdev_pull_submodule api slot_nbr subslot_nbr n = Some (r, k)" "tree_ok (dn_dev k)"
    by (rule pull_submodule_ok [OF ok])
  have api_k: "pf_cmdev_get_api api (dn_dev k) = Some a"
    using k(1) Some with_alarm_dev
    by (auto simp: pf_cmdev_pull_submodule_def Let_def prod_eq_iff bind_eq_Some_conv split: option.splits if_splits)
  have "\<exists>b n1. pre = Some (b, n1) \<and> tree_ok (dn_dev n1) \<and> pf_cmdev_get_api api (dn_dev n1) = Some a"
    using ok plug_module_ok [OF ok, of api slot_nbr m] k api_k Some
    by (cases update) (auto simp: pre_def split: option.splits)
  then obtain b n1 where n1: "pre = Some (b, n1)" "tree_ok (dn_dev n1)" "pf_cmdev_get_api api (dn_dev n1) = Some a"
    by blast
  have body: "pf_cmdev_plug_submodule api slot_nbr subslot_nbr m s dir li lo update n =
    (if b then Some (0, n1)
     else case pf_cmdev_get_slot a slot_nbr (dn_dev n1) of
       None \<Rightarrow> Some (- 1, n1)
     | Some p \<Rightarrow> (case pf_cmdev_new_subslot p subslot_nbr (dn_dev n1) of
         (None, _) \<Rightarrow> Some (- 1, n1)
       | (Some q, d) \<Rightarrow> (let
           d = upd_subslot q (\<lambda>x. x\<lparr>sub_ident_number := s, sub_direction := dir, length_input := li,
             length_output := lo, ownsm_state := PF_OWNSM_STATE_FREE, owner := None\<rparr>) d
           in Some (give_to_ar api slot_nbr subslot_nbr m s q (n1\<lparr>dn_dev := d\<rparr>)))))"
    using n1(1) by (simp add: pf_cmdev_plug_submodule_def Some pre_def [symmetric])
  show ?thesis
  proof (cases "b \<or> pf_cmdev_get_slot a slot_nbr (dn_dev n1) = None")
    case True
    then show ?thesis using body n1(2) that by (cases b) simp_all
  next
    case False
    then obtain p where p: "pf_cmdev_get_slot a slot_nbr (dn_dev n1) = Some p" by auto
    show ?thesis
    proof (cases "fst (pf_cmdev_new_subslot p subslot_nbr (dn_dev n1))")
      case None
      then show ?thesis using body False p n1(2) that by (cases "pf_cmdev_new_subslot p subslot_nbr (dn_dev n1)") simp
    next
      case (Some q)
      then obtain d where d: "pf_cmdev_new_subslot p subslot_nbr (dn_dev n1) = (Some q, d)" by (metis prod.collapse)
      note N = new_subslot_ok [OF n1(2,3) p d]
      let ?d = "upd_subslot q (\<lambda>x. x\<lparr>sub_ident_number := s, sub_direction := dir, length_input := li,
        length_output := lo, ownsm_state := PF_OWNSM_STATE_FREE, owner := None\<rparr>) d"
      have "tree_ok ?d" by (rule tree_ok_upd_subslot [OF N(1,2)]) (simp_all add: owned_def has_owner_def)
      then obtain r' n' where "give_to_ar api slot_nbr subslot_nbr m s q (n1\<lparr>dn_dev := ?d\<rparr>) = (r', n')" "tree_ok (dn_dev n')"
        using give_to_ar_ok [of "n1\<lparr>dn_dev := ?d\<rparr>" q api slot_nbr subslot_nbr m s] N(2) by auto
      then show ?thesis using body False p d that by simp
    qed
  qed
qed

subsection \<open>Modules with submodules, and the end of an AR\<close>

lemma pull_subslots_ok:
  assumes "tree_ok (dn_dev n)"
  shows "\<exists>ret n'. pull_subslots api slot_nbr p bs n = Some (ret, n') \<and> tree_ok (dn_dev n')"
  using assms
proof (induction bs arbitrary: n)
  case (Cons b bs)
  show ?case
  proof (cases "sub_in_use (subslot_at (dn_dev n) (fst p, snd p, b))")
    case True
    obtain r k where k: "pf_cmdev_pull_submodule api slot_nbr (subslot_number (subslot_at (dn_dev n) (fst p, snd p, b))) n = Some (r, k)"
      "tree_ok (dn_dev k)" by (rule pull_submodule_ok [OF Cons.prems])
    then show ?thesis using True Cons.IH [OF k(2)] by simp
  next
    case False
    then show ?thesis using Cons by simp
  qed
qed simp

lemma pull_subslots_shape:
  "pull_subslots api slot_nbr p bs n = Some (ret, n') \<Longrightarrow> slot_place (dn_dev n') r = slot_place (dn_dev n) r"
proof (induction bs arbitrary: n)
  case (Cons b bs)
  have *: "slot_place (dn_dev m) r = slot_place (dn_dev n) r"
    if "pf_cmdev_pull_submodule api slot_nbr x n = Some (i, m)" for x i m
    using that with_alarm_dev
    by (auto simp: pf_cmdev_pull_submodule_def Let_def prod_eq_iff bind_eq_Some_conv slot_place_def split: option.splits if_splits)
  show ?case
  proof (cases "sub_in_use (subslot_at (dn_dev n) (fst p, snd p, b))")
    case True
    then obtain i m where m: "pf_cmdev_pull_submodule api slot_nbr (subslot_number (subslot_at (dn_dev n) (fst p, snd p, b))) n = Some (i, m)"
      using Cons.prems by (auto simp: Let_def bind_eq_Some_conv)
    show ?thesis
      using Cons.prems True m * [OF m] Cons.IH [of m] by (cases "i = 0") (auto simp: Let_def)
  next
    case False
    then show ?thesis using Cons by (simp add: Let_def)
  qed
qed simp

lemma pull_module_ok:
  assumes "tree_ok (dn_dev n)"
  obtains ret n' where "pf_cmdev_pull_module api slot_nbr n = Some (ret, n')" "tree_ok (dn_dev n')"
proof (cases "pf_cmdev_get_slot_full api slot_nbr (dn_dev n)")
  case None
  then show ?thesis using assms that by (simp add: pf_cmdev_pull_module_def)
next
  case (Some p)
  obtain ret m where m: "pull_subslots api slot_nbr p [0 ..< length (subslots (slot_at (dn_dev n) p))] n = Some (ret, m)"
    "tree_ok (dn_dev m)" using pull_subslots_ok [OF assms] by blast
  have "slot_place (dn_dev n) p"
    using Some by (auto simp: pf_cmdev_get_slot_full_def bind_eq_Some_conv intro: get_slot_place)
  then have "slot_place (dn_dev m) p" using pull_subslots_shape [OF m(1)] by simp
  then have "tree_ok (upd_slot p (slot_in_use_update (\<lambda>_. False)) (dn_dev m))"
    by (intro tree_ok_upd_slot [OF m(2)]) auto
  then show ?thesis using that m by (cases "ret = 0") (simp_all add: pf_cmdev_pull_module_def Some)
qed

lemma fold_observed: "(\<And>x n. g (f x n) = g n) \<Longrightarrow> g (fold f xs n) = g n"
  by (induction xs arbitrary: n) simp_all

lemma released_alarm_req_dev [simp]: "dn_dev (released_alarm_req a x n) = dn_dev n"
  unfolding released_alarm_req_def Let_def split_beta by (subst fold_observed [where g = dn_dev]) (auto split: plug_out.splits)

lemma clear_subslot_ok:
  assumes "tree_ok (dn_dev n)" "place (dn_dev n) q"
  shows "tree_ok (dn_dev (clear_subslot a q n))" "place (dn_dev (clear_subslot a q n)) r = place (dn_dev n) r"
proof -
  let ?f = "\<lambda>s. s\<lparr>ownsm_state := PF_OWNSM_STATE_FREE, owner := None\<rparr>"
  let ?g = "\<lambda>a s. s\<lparr>ownsm_state := PF_OWNSM_STATE_IOC, owner := Some a\<rparr>"
  have 1: "tree_ok (upd_subslot q ?f (dn_dev n))"
    by (rule tree_ok_upd_subslot [OF assms]) (simp_all add: owned_def has_owner_def)
  have 2: "tree_ok (upd_subslot q (?g b) (upd_subslot q ?f (dn_dev n)))" for b
    by (rule tree_ok_upd_subslot [OF 1]) (simp_all add: owned_def assms)
  show "tree_ok (dn_dev (clear_subslot a q n))"
    using 1 2 assms(1) by (auto simp: clear_subslot_def Let_def split: option.splits)
  show "place (dn_dev (clear_subslot a q n)) r = place (dn_dev n) r"
    using assms(2) by (auto simp: clear_subslot_def Let_def split: option.splits)
qed

lemma all_subslots_place: "q \<in> set (all_subslots d) \<longleftrightarrow> place d q"
  by (cases q) (auto simp: all_subslots_def place_def image_iff intro!: bexI)

lemma device_clear_ok:
  assumes "tree_ok (dn_dev n)"
  shows "tree_ok (dn_dev (pf_device_clear a n))"
proof -
  have "tree_ok (dn_dev (fold (clear_subslot a) qs n))" if "tree_ok (dn_dev n)" "\<forall>q\<in>set qs. place (dn_dev n) q" for qs n
    using that by (induction qs arbitrary: n) (auto simp: clear_subslot_ok)
  then show ?thesis using assms by (simp add: pf_device_clear_def all_subslots_place)
qed

subsection \<open>Diagnosis\<close>

lemma tree_ok_step:
  assumes "tree_ok d" "diag_rel d C F" "\<And>r. alive d r \<Longrightarrow> summarised d C r"
    "diag_rel d' C' F'" "diag_step q d C d' C'" "summarised d' C' q"
  shows "tree_ok d'"
proof -
  note S = diag_stepD [OF assms(5)]
  have "summarised d' C' r" if "alive d' r" for r
    using that assms(3) [of r] assms(6) S(3) [of r] diag_onlyD(2,3) [OF S(1), of r] by (cases "r = q") simp_all
  moreover have "owned (subslot_at d' r)" if "alive d' r" for r
    using that tree_okD [OF assms(1), of r] diag_onlyD(2,3) [OF S(1), of r] diag_onlyD(4,5) [OF S(1)]
    by (cases "r = q") (simp_all add: owned_def)
  ultimately show ?thesis using assms(4) unfolding tree_ok_def by blast
qed

lemma diag_add_keeps:
  assumes "tree_ok (dn_dev n)"
  obtains ret n' where "pf_diag_add s b v e x a c u l p n = Some (ret, n')" "tree_ok (dn_dev n')"
proof (cases "add_refused (src_ch s) v e x a (c AND PF_DIAG_QUALIFIED_SEVERITY_MASK) u l p \<or>
    pf_cmdev_get_subslot_full (src_api s) (src_slot s) (src_subslot s) (dn_dev n) = None")
  case True
  then have "pf_diag_add s b v e x a c u l p n = Some (- 1, n)"
    unfolding pf_diag_add_write by (auto simp: pf_diag_find_entry_def)
  then show ?thesis using assms by (rule that)
next
  case False
  then obtain q where q: "pf_cmdev_get_subslot_full (src_api s) (src_slot s) (src_subslot s) (dn_dev n) = Some q" by auto
  obtain C F where C: "diag_rel (dn_dev n) C F" "\<And>r. alive (dn_dev n) r \<Longrightarrow> summarised (dn_dev n) C r"
    using assms unfolding tree_ok_def by blast
  show ?thesis
  proof (cases "(\<exists>y\<in>set (diags (dn_dev n) C q). same_diag s e x u y) \<or> F \<noteq> []")
    case True
    from False diag_add_ok [OF C(1) q tree_okD [OF assms get_subslot_full_alive [OF q]] _ True]
    obtain ret n' C' F' where R: "pf_diag_add s b v e x a c u l p n = Some (ret, n')" "diag_rel (dn_dev n') C' F'"
      "diag_step q (dn_dev n) C (dn_dev n') C'" "summarised (dn_dev n') C' q" by metis
    show ?thesis using R(1) tree_ok_step [OF assms C R(2,3,4)] by (rule that)
  next
    case False
    then have "pf_diag_add s b v e x a c u l p n = Some (- 1, n)"
      using diag_add_overflow [OF _ q, of C] C(1) by auto
    then show ?thesis using assms by (rule that)
  qed
qed

lemma diag_update_keeps:
  assumes "tree_ok (dn_dev n)"
  obtains ret n' where "pf_diag_update s e x a u l p n = Some (ret, n')" "tree_ok (dn_dev n')"
proof (cases "update_refused (src_ch s) e x a u l p \<or>
    pf_cmdev_get_subslot_full (src_api s) (src_slot s) (src_subslot s) (dn_dev n) = None")
  case True
  then have "pf_diag_update s e x a u l p n = Some (- 1, n)"
    by (auto simp: pf_diag_update_def pf_diag_find_entry_def)
  then show ?thesis using assms by (rule that)
next
  case False
  then obtain q where q: "pf_cmdev_get_subslot_full (src_api s) (src_slot s) (src_subslot s) (dn_dev n) = Some q" by auto
  obtain C F where C: "diag_rel (dn_dev n) C F" "\<And>r. alive (dn_dev n) r \<Longrightarrow> summarised (dn_dev n) C r"
    using assms unfolding tree_ok_def by blast
  show ?thesis
  proof (cases "find (same_diag s e x u) (diags (dn_dev n) C q)")
    case None
    then have "pf_diag_update s e x a u l p n = Some (- 1, n)"
      by (intro diag_update_unknown [OF C(1) q]) (simp add: find_None_iff)
    then show ?thesis using assms by (rule that)
  next
    case (Some y)
    from False diag_update_ok [OF C(1) q tree_okD [OF assms get_subslot_full_alive [OF q]] _ Some]
    obtain ret n' C' where R: "pf_diag_update s e x a u l p n = Some (ret, n')" "diag_rel (dn_dev n') C' F"
      "diag_step q (dn_dev n) C (dn_dev n') C'" "summarised (dn_dev n') C' q" by metis
    show ?thesis using R(1) tree_ok_step [OF assms C R(2,3,4)] by (rule that)
  qed
qed

lemma diag_remove_keeps:
  assumes "tree_ok (dn_dev n)"
  obtains ret n' where "pf_diag_remove s e x u n = Some (ret, n')" "tree_ok (dn_dev n')"
proof (cases "remove_refused (src_ch s) e x u \<or>
    pf_cmdev_get_subslot_full (src_api s) (src_slot s) (src_subslot s) (dn_dev n) = None")
  case True
  then have "pf_diag_remove s e x u n = Some (- 1, n)"
    by (auto simp: pf_diag_remove_def pf_diag_find_entry_def)
  then show ?thesis using assms by (rule that)
next
  case False
  then obtain q where q: "pf_cmdev_get_subslot_full (src_api s) (src_slot s) (src_subslot s) (dn_dev n) = Some q" by auto
  obtain C F where C: "diag_rel (dn_dev n) C F" "\<And>r. alive (dn_dev n) r \<Longrightarrow> summarised (dn_dev n) C r"
    using assms unfolding tree_ok_def by blast
  show ?thesis
  proof (cases "\<exists>y\<in>set (diags (dn_dev n) C q). same_diag s e x u y")
    case no: False
    then have "pf_diag_remove s e x u n = Some (- 1, n)"
      by (intro diag_remove_unknown [OF C(1) q]) simp
    then show ?thesis using assms by (rule that)
  next
    case True
    from False diag_remove_ok [OF C(1) q tree_okD [OF assms get_subslot_full_alive [OF q]] _ True]
    obtain ret n' C' j where R: "pf_diag_remove s e x u n = Some (ret, n')" "diag_rel (dn_dev n') C' (j # F)"
      "diag_step q (dn_dev n) C (dn_dev n') C'" "summarised (dn_dev n') C' q" by metis
    show ?thesis using R(1) tree_ok_step [OF assms C R(2,3,4)] by (rule that)
  qed
qed

subsection \<open>The start\<close>

lemma new_api_pool [simp]:
  "dev_items (snd (pf_cmdev_new_api api d)) = dev_items d" "diag_items_free (snd (pf_cmdev_new_api api d)) = diag_items_free d"
  "length (real_ident (snd (pf_cmdev_new_api api d))) = length (real_ident d)"
  by (simp_all add: pf_cmdev_new_api_def split: option.splits)

lemma new_api_slots:
  "(\<And>a. a < length (real_ident d) \<Longrightarrow> slots (real_ident d ! a) = slots zero_api) \<Longrightarrow> a < length (real_ident d) \<Longrightarrow>
   slots (real_ident (snd (pf_cmdev_new_api api d)) ! a) = slots zero_api"
  by (auto simp: pf_cmdev_new_api_def nth_list_update dest!: first_free_Some split: option.splits)

lemma init_chain:
  "k \<le> 100 \<Longrightarrow> chain (dev_items pf_cmdev_init) (if k < 100 then of_nat k else PF_DIAG_IX_NULL) (map of_nat [k ..< 100])"
proof (induction "100 - k" arbitrary: k)
  case 0
  then show ?case by simp
next
  case (Suc m)
  have items: "dev_items pf_cmdev_init = map (\<lambda>ix. zero_diag_item\<lparr>di_next := of_nat (ix + 1)\<rparr>) [0 ..< 99] @
      [zero_diag_item\<lparr>di_next := PF_DIAG_IX_NULL\<rparr>]"
    by (simp add: pf_cmdev_init_def PNET_MAX_DIAG_ITEMS_def Let_def)
  have k: "k < 100" using Suc by simp
  have "unat (of_nat k :: u16) = k" using k by (simp add: unat_of_nat)
  moreover have "di_next (dev_items pf_cmdev_init ! k) = (if Suc k < 100 then of_nat (Suc k) else PF_DIAG_IX_NULL)"
  proof (cases "k < 99")
    case True
    then show ?thesis unfolding items by (simp add: nth_append)
  next
    case False
    then have "k = 99" using k by simp
    then show ?thesis unfolding items by (simp add: nth_append)
  qed
  moreover have "chain (dev_items pf_cmdev_init) (if Suc k < 100 then of_nat (Suc k) else PF_DIAG_IX_NULL) (map of_nat [Suc k ..< 100])"
    using Suc k by (intro Suc.hyps(1)) simp_all
  moreover have "map of_nat [k ..< 100] = (of_nat k :: u16) # map of_nat [Suc k ..< 100]"
    using k by (simp add: upt_conv_Cons)
  moreover have "length (dev_items pf_cmdev_init) = 100" unfolding items by simp
  ultimately show ?case using k by simp
qed

lemma init_ok: "diag_rel pf_cmdev_init (\<lambda>_. []) (map of_nat [0 ..< 100])" "\<not> alive pf_cmdev_init q" "tree_ok pf_cmdev_init"
proof -
  have len: "length (dev_items pf_cmdev_init) = 100" "diag_items_free pf_cmdev_init = 0"
    by (simp_all add: pf_cmdev_init_def PNET_MAX_DIAG_ITEMS_def Let_def)
  have slots: "slots (real_ident pf_cmdev_init ! a) = replicate PNET_MAX_SLOTS zero_slot" if "a < PNET_MAX_API" for a
    using that unfolding pf_cmdev_init_def Let_def by (subst new_api_slots) (simp_all add: zero_device_def zero_api_def)
  have n: "length (real_ident pf_cmdev_init) = PNET_MAX_API"
    by (simp add: pf_cmdev_init_def Let_def zero_device_def)
  show 1: "\<not> alive pf_cmdev_init q" for q
    by (auto simp: alive_def place_def slot_at_def slots n zero_slot_def)
  show 2: "diag_rel pf_cmdev_init (\<lambda>_. []) (map of_nat [0 ..< 100])"
    using init_chain [of 0] 1 by (simp add: diag_rel_def len)
  show "tree_ok pf_cmdev_init" unfolding tree_ok_def using 1 2 by blast
qed

subsection \<open>The transition system\<close>

text \<open>
  The calls of the application, the end of an AR, and the two things that the check of a connect
  request does to the device: it may create an API, and it gives a free submodule to the AR. The
  other components do not write to the device.
\<close>

inductive dev_step :: "dev_net \<Rightarrow> dev_net \<Rightarrow> bool" where
  plug_module: "pnet_plug_module api slot m n = (r, n') \<Longrightarrow> dev_step n n'"
| plug_submodule: "pf_cmdev_plug_submodule api slot subslot m s dir li lo update n = Some (r, n') \<Longrightarrow> dev_step n n'"
| pull_module: "pf_cmdev_pull_module api slot n = Some (r, n') \<Longrightarrow> dev_step n n'"
| pull_submodule: "pf_cmdev_pull_submodule api slot subslot n = Some (r, n') \<Longrightarrow> dev_step n n'"
| diag_add: "pf_diag_add s b v e x a c u l p n = Some (r, n') \<Longrightarrow> dev_step n n'"
| diag_update: "pf_diag_update s e x a u l p n = Some (r, n') \<Longrightarrow> dev_step n n'"
| diag_remove: "pf_diag_remove s e x u n = Some (r, n') \<Longrightarrow> dev_step n n'"
| ar_end: "dev_step n (pf_device_clear a n)"
| new_api: "pf_cmdev_new_api api (dn_dev n) = (p, d) \<Longrightarrow> dev_step n (n\<lparr>dn_dev := d\<rparr>)"
| take_over: "pf_cmdev_get_subslot_full api slot subslot (dn_dev n) = Some q \<Longrightarrow>
    ownsm_state (subslot_at (dn_dev n) q) = PF_OWNSM_STATE_FREE \<Longrightarrow>
    dev_step n (n\<lparr>dn_dev := upd_subslot q (\<lambda>x. x\<lparr>ownsm_state := PF_OWNSM_STATE_IOC, owner := Some a\<rparr>) (dn_dev n)\<rparr>)"
| other: "dn_dev n' = dn_dev n \<Longrightarrow> dev_step n n'"

inductive dev_reachable :: "dev_net \<Rightarrow> bool" where
  start: "dn_dev n = pf_cmdev_init \<Longrightarrow> dev_reachable n"
| step: "dev_reachable n \<Longrightarrow> dev_step n n' \<Longrightarrow> dev_reachable n'"

lemma new_api_ok:
  assumes "tree_ok d" "pf_cmdev_new_api api d = (p, d')"
  shows "tree_ok d'"
proof (cases "pf_cmdev_get_api api d = None \<and> first_free api_in_use (real_ident d) \<noteq> None")
  case True
  then obtain ix where ix: "first_free api_in_use (real_ident d) = Some ix" by auto
  have d': "d' = d\<lparr>real_ident := (real_ident d)[ix := zero_api\<lparr>real_api_id := api, api_in_use := True\<rparr>]\<rparr>"
    using assms(2) True ix by (simp add: pf_cmdev_new_api_def)
  show ?thesis
  proof (rule tree_ok_shrink [OF assms(1)])
    fix r assume r: "alive d' r"
    have "fst r \<noteq> ix"
      using r first_free_Some [OF ix] by (auto simp: alive_def place_def slot_at_def d' zero_api_def zero_slot_def)
    then have "alive d r \<and> subslot_at d' r = subslot_at d r"
      using r by (auto simp: alive_def place_def slot_at_def subslot_at_def d')
    then show "alive d r \<and> same_diags (subslot_at d' r) (subslot_at d r) \<and> owned (subslot_at d' r)"
      using tree_okD [OF assms(1)] by simp
  qed (simp_all add: d')
next
  case False
  then have "pf_cmdev_new_api api d = (None, d)" by (auto simp: pf_cmdev_new_api_def)
  then show ?thesis using assms by simp
qed

lemma take_over_ok:
  assumes "tree_ok d" "alive d q"
  shows "tree_ok (upd_subslot q (\<lambda>x. x\<lparr>ownsm_state := PF_OWNSM_STATE_IOC, owner := Some a\<rparr>) d)"
  by (rule tree_ok_upd_subslot [OF assms(1) alive_place [OF assms(2)]]) (simp_all add: owned_def)

lemma dev_step_ok:
  assumes "dev_step n n'" "tree_ok (dn_dev n)"
  shows "tree_ok (dn_dev n')"
  using assms
proof (cases rule: dev_step.cases)
  case (plug_module api slot m r)
  then show ?thesis using plug_module_ok [OF assms(2), of api slot m] by (simp add: pnet_plug_module_def split_beta) auto
next
  case (plug_submodule api slot subslot m s dir li lo update r)
  then show ?thesis by (metis plug_submodule_ok [OF assms(2)] option.inject prod.inject)
next
  case (pull_module api slot r)
  then show ?thesis by (metis pull_module_ok [OF assms(2)] option.inject prod.inject)
next
  case (pull_submodule api slot subslot r)
  then show ?thesis by (metis pull_submodule_ok [OF assms(2)] option.inject prod.inject)
next
  case (diag_add s b v e x a c u l p r)
  then show ?thesis by (metis diag_add_keeps [OF assms(2)] option.inject prod.inject)
next
  case (diag_update s e x a u l p r)
  then show ?thesis by (metis diag_update_keeps [OF assms(2)] option.inject prod.inject)
next
  case (diag_remove s e x u r)
  then show ?thesis by (metis diag_remove_keeps [OF assms(2)] option.inject prod.inject)
next
  case (ar_end a)
  then show ?thesis using device_clear_ok [OF assms(2)] by simp
next
  case (new_api api p d)
  then show ?thesis using new_api_ok [OF assms(2)] by simp
next
  case (take_over api slot subslot q a)
  then show ?thesis using take_over_ok [OF assms(2) get_subslot_full_alive] by simp
next
  case other
  then show ?thesis using assms(2) by simp
qed

lemma dev_reachable_ok: "dev_reachable n \<Longrightarrow> tree_ok (dn_dev n)"
  by (induction rule: dev_reachable.induct) (simp_all add: init_ok dev_step_ok)

end
