(* ===== verification/Diag_Props.thy ===== *)
theory Diag_Props
  imports Dev_Steps Alarm_Activation Cyclic_Delivery
begin

section \<open>Properties of diagnosis and of the device tree\<close>

text \<open>
  An example device with two submodules in one slot, both owned by the first AR, and the properties
  of diagnosis and of plugging over all states.
\<close>

definition example_subslot :: "u16 \<Rightarrow> real_subslot" where
  "example_subslot nbr = zero_subslot\<lparr>sub_in_use := True, subslot_number := nbr, diag_list := PF_DIAG_IX_NULL,
     ownsm_state := PF_OWNSM_STATE_IOC, owner := Some 0\<rparr>"

definition example_slot :: real_slot where
  "example_slot = zero_slot\<lparr>slot_in_use := True, slot_number := 1,
     subslots := [example_subslot 1, example_subslot 2, zero_subslot, zero_subslot]\<rparr>"

definition example_tree :: pf_device where
  "example_tree = upd_slot (0, 0) (\<lambda>_. example_slot) pf_cmdev_init"

definition example_device :: dev_net where
  "example_device = \<lparr>dn_dev = example_tree, dn_alarm = example_station, dn_cyc = example_cyclic PF_IOCR_TYPE_INPUT [] [],
     dn_order = [0], dn_exp = [], dn_plug = [], use_qualified_diagnosis = False\<rparr>"

lemma init_ident: "real_ident pf_cmdev_init = [zero_api\<lparr>real_api_id := 0, api_in_use := True\<rparr>]"
  by (simp add: pf_cmdev_init_def pf_cmdev_new_api_def pf_cmdev_get_api_def first_free_def zero_device_def PNET_MAX_API_def
      zero_api_def Let_def)

lemma example_ident: "real_ident example_tree = [\<lparr>api_in_use = True, real_api_id = 0, slots = [example_slot, zero_slot, zero_slot, zero_slot]\<rparr>]"
  by (simp add: example_tree_def upd_slot_def init_ident upd_def zero_api_def PNET_MAX_SLOTS_def numeral_eq_Suc)

lemma example_lookup:
  "pf_cmdev_get_subslot_full 0 1 1 example_tree = Some (0, 0, 0)"
  "pf_cmdev_get_subslot_full 0 1 2 example_tree = Some (0, 0, Suc 0)"
  "pf_cmdev_get_slot_full 0 1 example_tree = Some (0, 0)"
  by (simp_all add: pf_cmdev_get_subslot_full_def pf_cmdev_get_slot_full_def pf_cmdev_get_api_def pf_cmdev_get_slot_def
      pf_cmdev_get_subslot_def slot_at_def subslot_at_def example_ident example_slot_def example_subslot_def zero_slot_def
      upt_conv_Cons)

lemma example_place: "slot_place pf_cmdev_init (0, 0)"
  by (simp add: slot_place_def init_ident zero_api_def PNET_MAX_SLOTS_def)

lemma example_subslots:
  "subslot_at example_tree (0, 0, 0) = example_subslot 1" "subslot_at example_tree (0, 0, Suc 0) = example_subslot 2"
  by (simp_all add: example_tree_def subslot_at_def slot_at_upd_slot [OF example_place] example_slot_def)

lemma example_alive:
  "alive example_tree q \<longleftrightarrow> q = (0, 0, 0) \<or> q = (0, 0, Suc 0)"
proof
  assume al: "alive example_tree q"
  then have "fst q = 0" by (simp add: alive_def place_def example_ident)
  moreover have "fst (snd q) = 0"
    using al \<open>fst q = 0\<close> by (simp add: alive_def place_def slot_at_def example_ident nth_Cons' zero_slot_def split: if_splits)
  moreover have "snd (snd q) = 0 \<or> snd (snd q) = Suc 0"
    using al calculation
    by (simp add: alive_def place_def slot_at_def subslot_at_def example_ident example_slot_def nth_Cons' zero_subslot_def
        split: if_splits)
  ultimately show "q = (0, 0, 0) \<or> q = (0, 0, Suc 0)" by (cases q) auto
next
  assume "q = (0, 0, 0) \<or> q = (0, 0, Suc 0)"
  then show "alive example_tree q" using example_lookup(1,2) [THEN get_subslot_full_alive] by auto
qed

lemma example_rel: "diag_rel example_tree (\<lambda>_. []) (map of_nat [0 ..< 100])"
proof -
  have items: "dev_items example_tree = dev_items pf_cmdev_init" "diag_items_free example_tree = diag_items_free pf_cmdev_init"
    by (simp_all add: example_tree_def)
  show ?thesis
    using diag_relD(1,2) [OF init_ok(1)] example_subslots
    by (simp add: diag_rel_def items example_alive) (simp add: example_subslot_def)
qed

lemma example_tree_ok: "tree_ok example_tree"
  unfolding tree_ok_def
proof (intro conjI allI impI exI)
  show "diag_rel example_tree (\<lambda>_. []) (map of_nat [0 ..< 100])" by (rule example_rel)
  show "summarised example_tree (\<lambda>_. []) q" "owned (subslot_at example_tree q)" if "alive example_tree q" for q
    using that example_subslots
    by (auto simp: example_alive diags_def summary_of_def owned_def example_subslot_def zero_subslot_def)
qed

subsection \<open>The invariant\<close>

text \<open>C4: Whatever the application plugs, pulls, adds, updates and removes, in any order, whenever ARs
  end, and whatever submodules connect requests give to ARs and APIs they create: the free list and the diagnosis lists of the plugged submodules are finite and share no
  item, each submodule's summary is exactly that of its list, and no operation on them runs on
  without end or follows a missing owner.\<close>

theorem device_consistent:
  assumes "dev_reachable n"
  shows "tree_ok (dn_dev n) \<and> pf_diag_add s b v e x a c u l p n \<noteq> None \<and> pf_diag_update s e x a u l p n \<noteq> None \<and>
    pf_diag_remove s e x u n \<noteq> None \<and> pf_cmdev_pull_submodule api slot subslot n \<noteq> None \<and> pf_cmdev_pull_module api slot n \<noteq> None \<and>
    pf_cmdev_plug_submodule api slot subslot m i dir li lo update n \<noteq> None"
proof -
  have ok: "tree_ok (dn_dev n)" by (rule dev_reachable_ok [OF assms])
  have "pf_diag_add s b v e x a c u l p n \<noteq> None" by (rule diag_add_keeps [OF ok]) auto
  moreover have "pf_diag_update s e x a u l p n \<noteq> None" by (rule diag_update_keeps [OF ok]) auto
  moreover have "pf_diag_remove s e x u n \<noteq> None" by (rule diag_remove_keeps [OF ok]) auto
  moreover have "pf_cmdev_pull_submodule api slot subslot n \<noteq> None" by (rule pull_submodule_ok [OF ok]) auto
  moreover have "pf_cmdev_pull_module api slot n \<noteq> None" by (rule pull_module_ok [OF ok]) auto
  moreover have "pf_cmdev_plug_submodule api slot subslot m i dir li lo update n \<noteq> None" by (rule plug_submodule_ok [OF ok]) auto
  ultimately show ?thesis using ok by simp
qed

definition fresh_device :: dev_net where
  "fresh_device = example_device\<lparr>dn_dev := pf_cmdev_init\<rparr>"

lemma device_consistent_witness:
  "\<exists>r n. pf_cmdev_plug_submodule 0 1 1 7 8 PNET_DIR_INPUT 2 0 False fresh_device = Some (r, n) \<and>
     tree_ok (dn_dev n) \<and> pf_diag_add (whole_submodule 0 1 1) 0 0 0 0 0 0 5 1 (Some [42]) n \<noteq> None"
proof -
  obtain r n where n: "pf_cmdev_plug_submodule 0 1 1 7 8 PNET_DIR_INPUT 2 0 False fresh_device = Some (r, n)"
    by (rule plug_submodule_ok [of fresh_device]) (auto simp: fresh_device_def init_ok)
  have "dev_reachable fresh_device" by (rule dev_reachable.start) (simp add: fresh_device_def)
  then have "dev_reachable n" using n by (blast intro: dev_reachable.step dev_step.plug_submodule)
  note D = device_consistent [OF this]
  show ?thesis by (intro exI [of _ r] exI [of _ n] conjI) (use n D in simp_all)
qed

subsection \<open>Adding, updating, removing\<close>

text \<open>C5: Adding a diagnosis to a plugged submodule puts it at the head of the submodule's list. A
  diagnosis with the same identification is replaced, and no item is taken; otherwise one item of
  the pool is taken. No other submodule's list changes, and the summary of the submodule is that of
  the new list.\<close>

theorem added_diagnosis:
  assumes "diag_rel (dn_dev n) C F"
    and "pf_cmdev_get_subslot_full (src_api s) (src_slot s) (src_subslot s) (dn_dev n) = Some q"
    and "owned (subslot_at (dn_dev n) q)"
    and "\<not> add_refused (src_ch s) v e x a (c AND PF_DIAG_QUALIFIED_SEVERITY_MASK) u l p"
    and "(\<exists>y\<in>set (diags (dn_dev n) C q). same_diag s e x u y) \<or> F \<noteq> []"
  shows "\<exists>ret n' C' F'. pf_diag_add s b v e x a c u l p n = Some (ret, n') \<and> diag_rel (dn_dev n') C' F' \<and>
    diags (dn_dev n') C' q = new_diagnosis s b v e x a c u l p # remove_first (same_diag s e x u) (diags (dn_dev n) C q) \<and>
    (\<forall>r. alive (dn_dev n) r \<longrightarrow> r \<noteq> q \<longrightarrow> diags (dn_dev n') C' r = diags (dn_dev n) C r) \<and>
    F' = (if \<exists>y\<in>set (diags (dn_dev n) C q). same_diag s e x u y then F else tl F) \<and>
    diag_summary (subslot_at (dn_dev n') q) = summary_of (diags (dn_dev n') C' q)"
proof -
  obtain ret n' C' F' where R: "pf_diag_add s b v e x a c u l p n = Some (ret, n')" "diag_rel (dn_dev n') C' F'"
    "diag_step q (dn_dev n) C (dn_dev n') C'"
    "diags (dn_dev n') C' q = new_diagnosis s b v e x a c u l p # remove_first (same_diag s e x u) (diags (dn_dev n) C q)"
    "F' = (if \<exists>y\<in>set (diags (dn_dev n) C q). same_diag s e x u y then F else tl F)" "summarised (dn_dev n') C' q"
    using diag_add_ok [OF assms] by metis
  show ?thesis using R diag_stepD(3) [OF R(3)] by (intro exI conjI allI impI)
qed

definition example_source :: "u16 \<Rightarrow> diag_source" where
  "example_source subslot = \<lparr>src_api = 0, src_slot = 1, src_subslot = subslot, src_ch = 3, src_ch_grouping = 0, src_ch_direction = 1\<rparr>"

lemma example_accepted: "\<not> add_refused (src_ch (example_source k)) v 0x10 0 0 (0 AND PF_DIAG_QUALIFIED_SEVERITY_MASK) 0x8002 0 None"
  if "v \<noteq> 3"
  using that by (simp add: add_refused_def update_refused_def remove_refused_def bad_usi_def bad_error_types_def bad_manuf_data_def
      PF_USI_QUALIFIED_CHANNEL_DIAGNOSIS_def PF_USI_ALARM_MULTIPLE_def PF_USI_CHANNEL_DIAGNOSIS_def
      PNET_DIAG_CH_PROP_MAINT_QUALIFIED_def example_source_def PNET_CHANNEL_WHOLE_SUBMODULE_def PNET_MAX_DIAG_MANUF_DATA_SIZE_def)

lemma example_dev [simp]: "dn_dev example_device = example_tree"
  by (simp add: example_device_def)

lemma example_sources:
  "pf_cmdev_get_subslot_full (src_api (example_source 1)) (src_slot (example_source 1)) (src_subslot (example_source 1)) example_tree = Some (0, 0, 0)"
  "pf_cmdev_get_subslot_full (src_api (example_source 2)) (src_slot (example_source 2)) (src_subslot (example_source 2)) example_tree = Some (0, 0, Suc 0)"
  using example_lookup by (simp_all add: example_source_def)

lemma added_diagnosis_witness:
  "\<exists>ret n' C' F'. pf_diag_add (example_source 1) 0 0 0x10 0 0 0 0x8002 0 None example_device = Some (ret, n') \<and>
     diag_rel (dn_dev n') C' F' \<and> length F' = 99 \<and>
     diags (dn_dev n') C' (0, 0, 0) = [new_diagnosis (example_source 1) 0 0 0x10 0 0 0 0x8002 0 None]"
proof -
  have "\<exists>ret n' C' F'. pf_diag_add (example_source 1) 0 0 0x10 0 0 0 0x8002 0 None example_device = Some (ret, n') \<and> diag_rel (dn_dev n') C' F' \<and>
    diags (dn_dev n') C' (0, 0, 0) = new_diagnosis (example_source 1) 0 0 0x10 0 0 0 0x8002 0 None #
      remove_first (same_diag (example_source 1) 0x10 0 0x8002) (diags (dn_dev example_device) (\<lambda>_. []) (0, 0, 0)) \<and>
    (\<forall>r. alive (dn_dev example_device) r \<longrightarrow> r \<noteq> (0, 0, 0) \<longrightarrow> diags (dn_dev n') C' r = diags (dn_dev example_device) (\<lambda>_. []) r) \<and>
    F' = (if \<exists>y\<in>set (diags (dn_dev example_device) (\<lambda>_. []) (0, 0, 0)). same_diag (example_source 1) 0x10 0 0x8002 y
      then map of_nat [0 ..< 100] else tl (map of_nat [0 ..< 100])) \<and>
    diag_summary (subslot_at (dn_dev n') (0, 0, 0)) = summary_of (diags (dn_dev n') C' (0, 0, 0))"
    by (rule added_diagnosis)
      (use example_rel example_sources(1) example_accepted example_subslots in \<open>simp_all add: owned_def example_subslot_def\<close>)
  then show ?thesis by (elim exE conjE) (intro exI conjI, assumption+, simp_all add: diags_def)
qed

text \<open>C21: Removing a diagnosis that was not there before it was added gives back the lists of all
  submodules and the number of free items. The summary of the submodule, which the addition has
  changed, is that of the old list again, and no other submodule is touched.\<close>

theorem add_remove_diagnosis:
  assumes "diag_rel (dn_dev n) C F"
    and "pf_cmdev_get_subslot_full (src_api s) (src_slot s) (src_subslot s) (dn_dev n) = Some q"
    and "owned (subslot_at (dn_dev n) q)"
    and "\<not> add_refused (src_ch s) v e x a (c AND PF_DIAG_QUALIFIED_SEVERITY_MASK) u l p"
    and "\<forall>y\<in>set (diags (dn_dev n) C q). \<not> same_diag s e x u y" and "F \<noteq> []"
    and "same_diag s e x u (new_diagnosis s b v e x a c u l p)"
    and "\<not> remove_refused (src_ch s) e x u"
  shows "\<exists>r n1 r' n2 C' F'. pf_diag_add s b v e x a c u l p n = Some (r, n1) \<and> pf_diag_remove s e x u n1 = Some (r', n2) \<and>
    diag_rel (dn_dev n2) C' F' \<and> length F' = length F \<and>
    (\<forall>t. alive (dn_dev n) t \<longrightarrow> diags (dn_dev n2) C' t = diags (dn_dev n) C t) \<and>
    diag_summary (subslot_at (dn_dev n1) q) = summary_of (new_diagnosis s b v e x a c u l p # diags (dn_dev n) C q) \<and>
    diag_summary (subslot_at (dn_dev n2) q) = summary_of (diags (dn_dev n) C q) \<and>
    (\<forall>t. t \<noteq> q \<longrightarrow> subslot_at (dn_dev n2) t = subslot_at (dn_dev n) t)"
proof -
  have room: "(\<exists>y\<in>set (diags (dn_dev n) C q). same_diag s e x u y) \<or> F \<noteq> []" using assms(6) by simp
  obtain r n1 C1 F1 where R: "pf_diag_add s b v e x a c u l p n = Some (r, n1)" "diag_rel (dn_dev n1) C1 F1"
    "diag_step q (dn_dev n) C (dn_dev n1) C1"
    "diags (dn_dev n1) C1 q = new_diagnosis s b v e x a c u l p # remove_first (same_diag s e x u) (diags (dn_dev n) C q)"
    "F1 = (if \<exists>y\<in>set (diags (dn_dev n) C q). same_diag s e x u y then F else tl F)" "summarised (dn_dev n1) C1 q"
    using diag_add_ok [OF assms(1-4) room] by metis
  note S = diag_stepD [OF R(3)]
  have q1: "pf_cmdev_get_subslot_full (src_api s) (src_slot s) (src_subslot s) (dn_dev n1) = Some q"
    using diag_onlyD(6) [OF S(1)] assms(2) by simp
  have own1: "owned (subslot_at (dn_dev n1) q)" using diag_onlyD(4,5) [OF S(1)] assms(3) by (simp add: owned_def)
  have list: "diags (dn_dev n1) C1 q = new_diagnosis s b v e x a c u l p # diags (dn_dev n) C q"
    using R(4) assms(5) by (simp add: remove_first_none)
  have "\<exists>y\<in>set (diags (dn_dev n1) C1 q). same_diag s e x u y" using assms(7) list by simp
  from diag_remove_ok [OF R(2) q1 own1 assms(8) this] obtain r' n2 C2 j where
    Q: "pf_diag_remove s e x u n1 = Some (r', n2)" "diag_rel (dn_dev n2) C2 (j # F1)" "diag_step q (dn_dev n1) C1 (dn_dev n2) C2"
      "diags (dn_dev n2) C2 q = remove_first (same_diag s e x u) (diags (dn_dev n1) C1 q)" "summarised (dn_dev n2) C2 q" by metis
  have "length (j # F1) = length F" using R(5) assms(5,6) by simp
  moreover have "diags (dn_dev n2) C2 t = diags (dn_dev n) C t" if "alive (dn_dev n) t" for t
    using that Q(4) list assms(7) S(3) [of t] diag_stepD(3) [OF Q(3), of t] diag_onlyD(2) [OF S(1), of t] by (cases "t = q") simp_all
  moreover have "diag_summary (subslot_at (dn_dev n2) q) = summary_of (diags (dn_dev n) C q)"
    using Q(4,5) list assms(7) by simp
  moreover have "subslot_at (dn_dev n2) t = subslot_at (dn_dev n) t" if "t \<noteq> q" for t
    using that diag_onlyD(3) [OF S(1)] diag_onlyD(3) [OF diag_stepD(1) [OF Q(3)]] by simp
  moreover have "diag_summary (subslot_at (dn_dev n1) q) = summary_of (new_diagnosis s b v e x a c u l p # diags (dn_dev n) C q)"
    using R(6) list by simp
  ultimately show ?thesis using R(1) Q(1,2) by (intro exI [of _ r] exI [of _ n1] exI [of _ r'] exI [of _ n2] exI [of _ C2]
    exI [of _ "j # F1"] conjI allI impI)
qed

lemma same_new_diagnosis:
  "same_diag (example_source k) 0x10 0 0x8002 (new_diagnosis (example_source k) 0 v 0x10 0 0 0 0x8002 0 None)" if "v < 3"
proof -
  have "v = 0 \<or> v = 1 \<or> v = 2" using that by (auto simp: word_less_nat_alt word_unat_eq_iff)
  then show ?thesis
    by (elim disjE) (simp_all add: new_diagnosis_def PF_USI_CHANNEL_DIAGNOSIS_def std_of_def example_source_def
        PF_DIAG_CH_PROP_ACC_GET_def PF_DIAG_CH_PROP_DIR_GET_def PF_DIAG_CH_PROP_SPEC_SET_def PF_DIAG_CH_PROP_DIR_SET_def
        PF_DIAG_CH_PROP_MAINT_SET_def PF_DIAG_CH_PROP_ACC_SET_def PF_DIAG_CH_PROP_TYPE_SET_def PNET_DIAG_CH_CHANNEL_GROUP_def
        PF_DIAG_CH_PROP_SPEC_APPEARS_def)
qed

lemma example_removable: "\<not> remove_refused (src_ch (example_source k)) 0x10 0 0x8002"
  using example_accepted [of 0 k] by (simp add: add_refused_def update_refused_def)

lemma add_remove_diagnosis_witness:
  "\<exists>r n1 r' n2 C' F'. pf_diag_add (example_source 1) 0 0 0x10 0 0 0 0x8002 0 None example_device = Some (r, n1) \<and>
     pf_diag_remove (example_source 1) 0x10 0 0x8002 n1 = Some (r', n2) \<and> diag_rel (dn_dev n2) C' F' \<and> length F' = 100 \<and>
     diags (dn_dev n2) C' (0, 0, 0) = [] \<and> diag_summary (subslot_at (dn_dev n2) (0, 0, 0)) = summary_of []"
proof -
  have "\<exists>r n1 r' n2 C' F'. pf_diag_add (example_source 1) 0 0 0x10 0 0 0 0x8002 0 None example_device = Some (r, n1) \<and>
     pf_diag_remove (example_source 1) 0x10 0 0x8002 n1 = Some (r', n2) \<and> diag_rel (dn_dev n2) C' F' \<and>
     length F' = length (map of_nat [0 ..< 100] :: u16 list) \<and>
     (\<forall>t. alive (dn_dev example_device) t \<longrightarrow> diags (dn_dev n2) C' t = diags (dn_dev example_device) (\<lambda>_. []) t) \<and>
     diag_summary (subslot_at (dn_dev n1) (0, 0, 0)) = summary_of (new_diagnosis (example_source 1) 0 0 0x10 0 0 0 0x8002 0 None #
       diags (dn_dev example_device) (\<lambda>_. []) (0, 0, 0)) \<and>
     diag_summary (subslot_at (dn_dev n2) (0, 0, 0)) = summary_of (diags (dn_dev example_device) (\<lambda>_. []) (0, 0, 0)) \<and>
     (\<forall>t. t \<noteq> (0, 0, 0) \<longrightarrow> subslot_at (dn_dev n2) t = subslot_at (dn_dev example_device) t)"
    by (rule add_remove_diagnosis [where q = "(0, 0, 0)"])
      (use example_rel example_sources(1) example_accepted example_subslots same_new_diagnosis example_removable in
        \<open>simp_all add: owned_def example_subslot_def diags_def\<close>)
  then show ?thesis
    by (elim exE conjE) (intro exI conjI, assumption+, simp, use example_alive in \<open>auto simp: diags_def\<close>)
qed

subsection \<open>The problem indicator\<close>

text \<open>C32: The station problem indicator in the cyclic data of an AR follows only the submodule that
  changed last: when a diagnosis is added to, updated on or removed from one submodule, the
  indicator of all input CRs of the owner is set when the submodule's new list has a fault and is
  cleared otherwise, whatever the lists of the owner's other submodules hold. So it is cleared while
  another submodule still has a fault.\<close>

theorem problem_indicator_last_change:
  assumes "diag_rel (dn_dev n) C F"
    and "pf_cmdev_get_subslot_full (src_api s) (src_slot s) (src_subslot s) (dn_dev n) = Some q"
    and "has_owner (subslot_at (dn_dev n) q)" and "owner (subslot_at (dn_dev n) q) = Some a"
  shows "(\<not> add_refused (src_ch s) v e x val (c AND PF_DIAG_QUALIFIED_SEVERITY_MASK) u l p \<longrightarrow>
      (\<exists>y\<in>set (diags (dn_dev n) C q). same_diag s e x u y) \<or> F \<noteq> [] \<longrightarrow>
      (\<exists>ret n'. pf_diag_add s b v e x val c u l p n = Some (ret, n') \<and>
        dn_cyc n' = pf_ppm_set_problem_indicator a (problem_diag (new_diagnosis s b v e x val c u l p) \<or>
          (\<exists>y\<in>set (remove_first (same_diag s e x u) (diags (dn_dev n) C q)). problem_diag y)) (dn_cyc n))) \<and>
    (\<forall>y. \<not> update_refused (src_ch s) e x val u l p \<longrightarrow> find (same_diag s e x u) (diags (dn_dev n) C q) = Some y \<longrightarrow>
      (\<exists>ret n'. pf_diag_update s e x val u l p n = Some (ret, n') \<and>
        dn_cyc n' = pf_ppm_set_problem_indicator a (problem_diag (updated_diagnosis val l p y) \<or>
          (\<exists>y\<in>set (remove_first (same_diag s e x u) (diags (dn_dev n) C q)). problem_diag y)) (dn_cyc n))) \<and>
    (\<not> remove_refused (src_ch s) e x u \<longrightarrow> (\<exists>y\<in>set (diags (dn_dev n) C q). same_diag s e x u y) \<longrightarrow>
      (\<exists>ret n'. pf_diag_remove s e x u n = Some (ret, n') \<and>
        dn_cyc n' = pf_ppm_set_problem_indicator a
          (\<exists>y\<in>set (remove_first (same_diag s e x u) (diags (dn_dev n) C q)). problem_diag y) (dn_cyc n)))"
    (is "(?add_ok \<longrightarrow> ?room \<longrightarrow> ?added) \<and> (\<forall>y. ?update_ok \<longrightarrow> ?found y \<longrightarrow> ?updated y) \<and> (?remove_ok \<longrightarrow> ?known \<longrightarrow> ?removed)")
proof (intro conjI allI impI)
  have own: "owned (subslot_at (dn_dev n) q)" using assms(4) by (simp add: owned_def)
  have report: "reported_cyc d C' q (dn_cyc n) =
      pf_ppm_set_problem_indicator a (\<exists>y\<in>set (diags d C' q). problem_diag y) (dn_cyc n)" if "diag_step q (dn_dev n) C d C'" for d C'
    using assms(3,4) diag_onlyD(4,5) [OF diag_stepD(1) [OF that]] by (simp add: reported_cyc_def)
  show ?added if ok: ?add_ok and room: ?room
  proof -
    obtain ret n' C' where "pf_diag_add s b v e x val c u l p n = Some (ret, n')" "diag_step q (dn_dev n) C (dn_dev n') C'"
      "diags (dn_dev n') C' q = new_diagnosis s b v e x val c u l p # remove_first (same_diag s e x u) (diags (dn_dev n) C q)"
      "dn_cyc n' = reported_cyc (dn_dev n') C' q (dn_cyc n)"
      using diag_add_ok [OF assms(1,2) own ok room] by metis
    then show ?thesis using report by simp
  qed
  show "?updated y" if ok: ?update_ok and found: "?found y" for y
  proof -
    obtain ret n' C' where "pf_diag_update s e x val u l p n = Some (ret, n')" "diag_step q (dn_dev n) C (dn_dev n') C'"
      "diags (dn_dev n') C' q = updated_diagnosis val l p y # remove_first (same_diag s e x u) (diags (dn_dev n) C q)"
      "dn_cyc n' = reported_cyc (dn_dev n') C' q (dn_cyc n)"
      using diag_update_ok [OF assms(1,2) own ok found] by metis
    then show ?thesis using report by simp
  qed
  show ?removed if ok: ?remove_ok and known: ?known
  proof -
    obtain ret n' C' where "pf_diag_remove s e x u n = Some (ret, n')" "diag_step q (dn_dev n) C (dn_dev n') C'"
      "diags (dn_dev n') C' q = remove_first (same_diag s e x u) (diags (dn_dev n) C q)"
      "dn_cyc n' = reported_cyc (dn_dev n') C' q (dn_cyc n)"
      using diag_remove_ok [OF assms(1,2) own ok known] by metis
    then show ?thesis using report by simp
  qed
qed

lemma example_maintenance:
  "\<not> problem_diag (new_diagnosis (example_source k) 0 1 0x10 0 0 0 0x8002 0 None)"
  "problem_diag (new_diagnosis (example_source k) 0 0 0x10 0 0 0 0x8002 0 None)"
  by (simp_all add: new_diagnosis_def PF_USI_CHANNEL_DIAGNOSIS_def std_of_def example_source_def
      PF_DIAG_CH_PROP_MAINT_GET_def PF_DIAG_CH_PROP_SPEC_SET_def PF_DIAG_CH_PROP_DIR_SET_def PNET_DIAG_CH_PROP_MAINT_FAULT_def
      PF_DIAG_CH_PROP_MAINT_SET_def PF_DIAG_CH_PROP_ACC_SET_def PF_DIAG_CH_PROP_TYPE_SET_def PNET_DIAG_CH_CHANNEL_GROUP_def
      PF_DIAG_CH_PROP_SPEC_APPEARS_def)

lemma example_updatable: "\<not> update_refused (src_ch (example_source k)) 0x10 0 0 0x8002 0 None"
  using example_accepted [of 0 k] by (simp add: add_refused_def)

lemma first_fault:
  obtains r n C F where "pf_diag_add (example_source 1) 0 0 0x10 0 0 0 0x8002 0 None example_device = Some (r, n)"
    "diag_rel (dn_dev n) C F" "F \<noteq> []" "diag_step (0, 0, 0) example_tree (\<lambda>_. []) (dn_dev n) C"
    "diags (dn_dev n) C (0, 0, 0) = [new_diagnosis (example_source 1) 0 0 0x10 0 0 0 0x8002 0 None]"
proof -
  have E: "owned (subslot_at (dn_dev example_device) (0, 0, 0))" "diag_rel (dn_dev example_device) (\<lambda>_. []) (map of_nat [0 ..< 100])"
    using example_subslots example_rel by (simp_all add: owned_def example_subslot_def)
  have A: "\<not> add_refused (src_ch (example_source 1)) 0 0x10 0 0 (0 AND PF_DIAG_QUALIFIED_SEVERITY_MASK) 0x8002 0 None"
    by (rule example_accepted) simp
  obtain r n C F where R: "pf_diag_add (example_source 1) 0 0 0x10 0 0 0 0x8002 0 None example_device = Some (r, n)"
    "diag_rel (dn_dev n) C F" "diag_step (0, 0, 0) (dn_dev example_device) (\<lambda>_. []) (dn_dev n) C"
    "diags (dn_dev n) C (0, 0, 0) = new_diagnosis (example_source 1) 0 0 0x10 0 0 0 0x8002 0 None #
      remove_first (same_diag (example_source 1) 0x10 0 0x8002) (diags (dn_dev example_device) (\<lambda>_. []) (0, 0, 0))"
    "F = (if \<exists>y\<in>set (diags (dn_dev example_device) (\<lambda>_. []) (0, 0, 0)). same_diag (example_source 1) 0x10 0 0x8002 y
      then map of_nat [0 ..< 100] else tl (map of_nat [0 ..< 100]))"
    by (rule diag_add_ok [OF E(2) _ E(1) A]) (use example_sources(1) that in auto)
  moreover have "F \<noteq> []" using R(5) by (simp add: diags_def upt_conv_Cons)
  ultimately show ?thesis by (intro that [of r n C F]) (simp_all add: diags_def)
qed

text \<open>A fault of the first submodule, then a maintenance request of the second one; and the first
  fault is updated, or removed.\<close>

lemma problem_indicator_last_change_witness:
  "\<exists>r n1 C. pf_diag_add (example_source 1) 0 0 0x10 0 0 0 0x8002 0 None example_device = Some (r, n1) \<and>
     dn_cyc n1 = pf_ppm_set_problem_indicator 0 True (dn_cyc example_device) \<and>
     (\<exists>F. diag_rel (dn_dev n1) C F) \<and> (\<exists>y\<in>set (diags (dn_dev n1) C (0, 0, 0)). problem_diag y) \<and>
     (\<exists>r n2. pf_diag_add (example_source 2) 0 1 0x10 0 0 0 0x8002 0 None n1 = Some (r, n2) \<and>
       dn_cyc n2 = pf_ppm_set_problem_indicator 0 False (dn_cyc n1)) \<and>
     (\<exists>r n2. pf_diag_update (example_source 1) 0x10 0 0 0x8002 0 None n1 = Some (r, n2) \<and>
       dn_cyc n2 = pf_ppm_set_problem_indicator 0 (problem_diag (updated_diagnosis 0 0 None
         (new_diagnosis (example_source 1) 0 0 0x10 0 0 0 0x8002 0 None))) (dn_cyc n1)) \<and>
     (\<exists>r n2. pf_diag_remove (example_source 1) 0x10 0 0x8002 n1 = Some (r, n2) \<and>
       dn_cyc n2 = pf_ppm_set_problem_indicator 0 False (dn_cyc n1))"
proof -
  have A: "\<not> add_refused (src_ch (example_source k)) v 0x10 0 0 (0 AND PF_DIAG_QUALIFIED_SEVERITY_MASK) 0x8002 0 None" if "v \<noteq> 3" for k v
    by (rule example_accepted [OF that])
  obtain r n1 C F where R: "pf_diag_add (example_source 1) 0 0 0x10 0 0 0 0x8002 0 None example_device = Some (r, n1)"
    "diag_rel (dn_dev n1) C F" "F \<noteq> []" "diag_step (0, 0, 0) example_tree (\<lambda>_. []) (dn_dev n1) C"
    "diags (dn_dev n1) C (0, 0, 0) = [new_diagnosis (example_source 1) 0 0 0x10 0 0 0 0x8002 0 None]"
    by (rule first_fault)
  note S = diag_stepD [OF R(4)]
  have sub: "subslot_at (dn_dev n1) (0, 0, Suc 0) = example_subslot 2"
    "has_owner (subslot_at (dn_dev n1) (0, 0, 0))" "owner (subslot_at (dn_dev n1) (0, 0, 0)) = Some 0"
    using diag_onlyD(3) [OF S(1), of "(0, 0, Suc 0)"] diag_onlyD(4,5) [OF S(1)] example_subslots
    by (simp_all add: has_owner_def example_subslot_def)
  have list: "diags (dn_dev n1) C (0, 0, Suc 0) = []"
    using S(3) [of "(0, 0, Suc 0)"] example_alive by (simp add: diags_def)
  have q: "pf_cmdev_get_subslot_full (src_api (example_source k)) (src_slot (example_source k)) (src_subslot (example_source k)) (dn_dev n1) =
      pf_cmdev_get_subslot_full (src_api (example_source k)) (src_slot (example_source k)) (src_subslot (example_source k)) example_tree" for k
    by (rule diag_onlyD(6) [OF S(1)])
  have first: "\<exists>ret n'. pf_diag_add (example_source 1) 0 0 0x10 0 0 0 0x8002 0 None example_device = Some (ret, n') \<and>
    dn_cyc n' = pf_ppm_set_problem_indicator 0 True (dn_cyc example_device)"
    using problem_indicator_last_change [where n = example_device and s = "example_source 1" and q = "(0, 0, 0)" and a = 0 and b = 0
        and v = 0 and e = "0x10" and x = 0 and val = 0 and c = 0 and u = "0x8002" and l = 0 and p = None, OF example_rel [folded example_dev]]
      example_sources(1) example_subslots A [of 0 1] example_maintenance(2) [of 1]
    by (simp add: has_owner_def example_subslot_def diags_def upt_conv_Cons)
  have second: "\<exists>ret n'. pf_diag_add (example_source 2) 0 1 0x10 0 0 0 0x8002 0 None n1 = Some (ret, n') \<and>
    dn_cyc n' = pf_ppm_set_problem_indicator 0 False (dn_cyc n1)"
    using problem_indicator_last_change [OF R(2) trans [OF q example_sources(2)], where a = 0 and b = 0 and v = 1 and e = "0x10" and x = 0
        and val = 0 and c = 0 and u = "0x8002" and l = 0 and p = None] R(3) sub list A [of 1 2] example_maintenance(1) [of 2]
    by (simp add: has_owner_def example_subslot_def)
  note third = problem_indicator_last_change [OF R(2) trans [OF q example_sources(1)] sub(2,3), where e = "0x10" and x = 0 and val = 0
      and u = "0x8002" and l = 0 and p = None]
  have "find (same_diag (example_source 1) 0x10 0 0x8002) (diags (dn_dev n1) C (0, 0, 0)) =
      Some (new_diagnosis (example_source 1) 0 0 0x10 0 0 0 0x8002 0 None)"
    "\<exists>y\<in>set (diags (dn_dev n1) C (0, 0, 0)). same_diag (example_source 1) 0x10 0 0x8002 y"
    "remove_first (same_diag (example_source 1) 0x10 0 0x8002) (diags (dn_dev n1) C (0, 0, 0)) = []"
    using R(5) same_new_diagnosis [of 0 1] by simp_all
  note L = this
  have upd: "\<exists>ret n'. pf_diag_update (example_source 1) 0x10 0 0 0x8002 0 None n1 = Some (ret, n') \<and>
    dn_cyc n' = pf_ppm_set_problem_indicator 0 (problem_diag (updated_diagnosis 0 0 None
      (new_diagnosis (example_source 1) 0 0 0x10 0 0 0 0x8002 0 None))) (dn_cyc n1)"
    using third L example_updatable [of 1] by simp
  have rem: "\<exists>ret n'. pf_diag_remove (example_source 1) 0x10 0 0x8002 n1 = Some (ret, n') \<and>
    dn_cyc n' = pf_ppm_set_problem_indicator 0 False (dn_cyc n1)"
    using third L example_removable [of 1] by simp
  have "\<exists>y\<in>set (diags (dn_dev n1) C (0, 0, 0)). problem_diag y" using R(5) example_maintenance(2) by simp
  moreover have "dn_cyc n1 = pf_ppm_set_problem_indicator 0 True (dn_cyc example_device)" using first R(1) by simp
  ultimately show ?thesis using R(1,2) second upd rem by blast
qed

end
