(* ===== verification/Dev_Plugging.thy ===== *)
theory Dev_Plugging
  imports Diag_Props
begin

section \<open>What plugging and the end of an AR do to submodules\<close>

text \<open>
  What becomes of the diagnosis of a pulled submodule, when a module can be pulled, and who owns the
  submodules of an AR that ended.
\<close>

subsection \<open>Pulling\<close>

lemma pull_submodule_dev:
  assumes "pf_cmdev_get_subslot_full api slot_nbr subslot_nbr (dn_dev n) = Some q" "owned (subslot_at (dn_dev n) q)"
  obtains n' where "pf_cmdev_pull_submodule api slot_nbr subslot_nbr n =
      Some (if has_owner (subslot_at (dn_dev n) q) then 0 else - 1, n')"
    "dn_dev n' = upd_subslot q (sub_in_use_update (\<lambda>_. False)) (dn_dev n)"
proof -
  have q: "place (dn_dev n) q" by (rule alive_place [OF get_subslot_full_alive [OF assms(1)]])
  let ?n = "n\<lparr>dn_dev := upd_subslot q (sub_in_use_update (\<lambda>_. False)) (dn_dev n)\<rparr>"
  have own: "has_owner (subslot_at (dn_dev ?n) q) = has_owner (subslot_at (dn_dev n) q)"
    "owner (subslot_at (dn_dev ?n) q) = owner (subslot_at (dn_dev n) q)" using q by (simp_all add: has_owner_def)
  show ?thesis
  proof (cases "has_owner (subslot_at (dn_dev n) q)")
    case False
    then show ?thesis using that [of ?n] own assms(1) by (simp add: pf_cmdev_pull_submodule_def Let_def)
  next
    case True
    then obtain a where a: "owner (subslot_at (dn_dev n) q) = Some a" using assms(2) by (auto simp: owned_def)
    obtain r m where m: "with_alarm (pf_alarm_send_pull a api slot_nbr subslot_nbr) ?n = (r, m)" "dn_dev m = dn_dev ?n"
      by (rule with_alarm_obtain)
    moreover have "r = 0" using m(1) by (auto simp: with_alarm_def pf_alarm_send_pull_def split_beta Let_def)
    ultimately show ?thesis using that [of m] own True a assms(1) by (simp add: pf_cmdev_pull_submodule_def Let_def)
  qed
qed

text \<open>C33: Pulling a submodule loses its diagnosis items: they are in no list of a plugged submodule
  and not in the free list afterwards, and stay marked as in use, so that the pool of the whole
  device shrinks with each pull of a submodule that has a diagnosis.\<close>

theorem pull_loses_items:
  assumes "diag_rel (dn_dev n) C F"
    and "pf_cmdev_get_subslot_full api slot_nbr subslot_nbr (dn_dev n) = Some q"
    and "owned (subslot_at (dn_dev n) q)"
  shows "\<exists>ret n'. pf_cmdev_pull_submodule api slot_nbr subslot_nbr n = Some (ret, n') \<and> diag_rel (dn_dev n') C F \<and>
    \<not> alive (dn_dev n') q \<and> (\<forall>j\<in>set (C q). loose (dn_dev n') C F j \<and> di_in_use (dev_items (dn_dev n') ! unat j))"
proof -
  have q: "alive (dn_dev n) q" by (rule get_subslot_full_alive [OF assms(2)])
  obtain ret n' where n': "pf_cmdev_pull_submodule api slot_nbr subslot_nbr n = Some (ret, n')"
    "dn_dev n' = upd_subslot q (sub_in_use_update (\<lambda>_. False)) (dn_dev n)"
    using pull_submodule_dev [OF assms(2,3)] by metis
  have al: "alive (dn_dev n') r \<longleftrightarrow> alive (dn_dev n) r \<and> r \<noteq> q" for r
    using alive_place [OF q] by (auto simp: n'(2) alive_def slot_at_upd_subslot subslot_at_upd_subslot)
  have rel: "diag_rel (dn_dev n') C F"
    by (rule diag_rel_shrink [OF assms(1)])
      (use al alive_place [OF q] in \<open>simp_all add: n'(2) subslot_at_upd_subslot\<close>)
  moreover have "loose (dn_dev n') C F j" if j: "j \<in> set (C q)" for j
    unfolding loose_def
  proof (intro conjI allI impI)
    show "unat j < length (dev_items (dn_dev n'))" using chain_bound [OF diag_relD(3) [OF assms(1) q] j] by (simp add: n'(2))
    show "j \<notin> set F" using diag_relD(4) [OF assms(1) q] j by auto
    show "j \<notin> set (C r)" if "alive (dn_dev n') r" for r
      using diag_relD(6) [OF assms(1) q, of r] al [of r] that j by auto
  qed
  moreover have "di_in_use (dev_items (dn_dev n') ! unat j)" if "j \<in> set (C q)" for j
    using diag_relD(5) [OF assms(1) q that] by (simp add: n'(2))
  ultimately show ?thesis using n'(1) al [of q] by blast
qed

text \<open>A diagnosis is added, its submodule pulled: 99 of the 100 items are left.\<close>

lemma pull_loses_items_witness:
  "\<exists>r n1 C F r' n2. pf_diag_add (example_source 1) 0 0 0x10 0 0 0 0x8002 0 None example_device = Some (r, n1) \<and>
     length F = 99 \<and> length (C (0, 0, 0)) = 1 \<and> pf_cmdev_pull_submodule 0 1 1 n1 = Some (r', n2) \<and>
     diag_rel (dn_dev n2) C F \<and> (\<forall>j\<in>set (C (0, 0, 0)). loose (dn_dev n2) C F j)"
proof -
  obtain r n1 C F where R: "pf_diag_add (example_source 1) 0 0 0x10 0 0 0 0x8002 0 None example_device = Some (r, n1)"
    "diag_rel (dn_dev n1) C F" "diag_step (0, 0, 0) (dn_dev example_device) (\<lambda>_. []) (dn_dev n1) C"
    "diags (dn_dev n1) C (0, 0, 0) = new_diagnosis (example_source 1) 0 0 0x10 0 0 0 0x8002 0 None #
      remove_first (same_diag (example_source 1) 0x10 0 0x8002) (diags (dn_dev example_device) (\<lambda>_. []) (0, 0, 0))"
    "F = (if \<exists>y\<in>set (diags (dn_dev example_device) (\<lambda>_. []) (0, 0, 0)). same_diag (example_source 1) 0x10 0 0x8002 y
      then map of_nat [0 ..< 100] else tl (map of_nat [0 ..< 100]))"
    by (rule diag_add_ok [of example_device "\<lambda>_. []" "map of_nat [0 ..< 100]" "example_source 1" "(0, 0, 0)" 0 "0x10" 0 0 0 "0x8002" 0 None 0])
      (use example_rel example_sources(1) example_accepted [of 0 1] example_subslots that in
        \<open>auto simp: owned_def example_subslot_def\<close>)
  note S = diag_stepD [OF R(3)]
  have q: "pf_cmdev_get_subslot_full 0 1 1 (dn_dev n1) = Some (0, 0, 0)"
    using diag_onlyD(6) [OF S(1)] example_lookup(1) by simp
  have "owned (subslot_at (dn_dev n1) (0, 0, 0))"
    using diag_onlyD(5) [OF S(1)] example_subslots by (simp add: owned_def example_subslot_def)
  from pull_loses_items [OF R(2) q this] obtain r' n2 where
    "pf_cmdev_pull_submodule 0 1 1 n1 = Some (r', n2)" "diag_rel (dn_dev n2) C F" "\<forall>j\<in>set (C (0, 0, 0)). loose (dn_dev n2) C F j"
    by blast
  moreover have "length F = 99" using R(5) by (simp add: diags_def)
  moreover have "length (C (0, 0, 0)) = 1" using arg_cong [OF R(4), of length] by (simp add: diags_def)
  ultimately show ?thesis using R(1) by blast
qed

text \<open>A module with a submodule that no AR owns cannot be pulled at once: the first such submodule
  is pulled, but the answer is an error, the module stays plugged, and the submodules behind it stay
  plugged too. Without a connection the application has to call once for each submodule, and the
  last call succeeds.\<close>

theorem pull_module_without_ar:
  assumes "pf_cmdev_get_slot_full api slot_nbr (dn_dev n) = Some p"
    and "b < length (subslots (slot_at (dn_dev n) p))" and "sub_in_use (subslot_at (dn_dev n) (fst p, snd p, b))"
    and "\<forall>i<b. \<not> sub_in_use (subslot_at (dn_dev n) (fst p, snd p, i))"
    and "pf_cmdev_get_subslot_full api slot_nbr (subslot_number (subslot_at (dn_dev n) (fst p, snd p, b))) (dn_dev n) = Some (fst p, snd p, b)"
    and "\<not> has_owner (subslot_at (dn_dev n) (fst p, snd p, b))"
  shows "pf_cmdev_pull_module api slot_nbr n =
    Some (- 1, n\<lparr>dn_dev := upd_subslot (fst p, snd p, b) (sub_in_use_update (\<lambda>_. False)) (dn_dev n)\<rparr>)"
proof -
  let ?q = "(fst p, snd p, b)"
  let ?n = "n\<lparr>dn_dev := upd_subslot ?q (sub_in_use_update (\<lambda>_. False)) (dn_dev n)\<rparr>"
  have "place (dn_dev n) ?q" by (rule alive_place [OF get_subslot_full_alive [OF assms(5)]])
  then have pull: "pf_cmdev_pull_submodule api slot_nbr (subslot_number (subslot_at (dn_dev n) ?q)) n = Some (- 1, ?n)"
    using assms(5,6) by (simp add: pf_cmdev_pull_submodule_def Let_def has_owner_def)
  have skip: "pull_subslots api slot_nbr p (is @ js) n = pull_subslots api slot_nbr p js n"
    if "\<forall>i\<in>set is. \<not> sub_in_use (subslot_at (dn_dev n) (fst p, snd p, i))" for "is" js
    using that by (induction "is") simp_all
  have "[0 ..< length (subslots (slot_at (dn_dev n) p))] = [0 ..< b] @ b # [Suc b ..< length (subslots (slot_at (dn_dev n) p))]"
    using assms(2) by (metis le_add_same_cancel1 less_imp_le upt_conv_Cons upt_add_eq_append zero_le le_add_diff_inverse)
  then have "pull_subslots api slot_nbr p [0 ..< length (subslots (slot_at (dn_dev n) p))] n = Some (- 1, ?n)"
    using skip [of "[0 ..< b]"] assms(3,4) pull by simp
  then show ?thesis by (simp add: pf_cmdev_pull_module_def assms(1))
qed

definition unowned_slot :: real_slot where
  "unowned_slot = example_slot\<lparr>subslots := map (\<lambda>s. s\<lparr>ownsm_state := PF_OWNSM_STATE_FREE, owner := None\<rparr>) (subslots example_slot)\<rparr>"

definition unowned_device :: dev_net where
  "unowned_device = example_device\<lparr>dn_dev := upd_slot (0, 0) (\<lambda>_. unowned_slot) pf_cmdev_init\<rparr>"

lemma unowned_ident:
  "real_ident (dn_dev unowned_device) = [\<lparr>api_in_use = True, real_api_id = 0, slots = [unowned_slot, zero_slot, zero_slot, zero_slot]\<rparr>]"
  by (simp add: unowned_device_def upd_slot_def init_ident upd_def zero_api_def PNET_MAX_SLOTS_def numeral_eq_Suc)

lemma pull_module_without_ar_witness:
  "fst (the (pf_cmdev_pull_module 0 1 unowned_device)) = - 1"
  using pull_module_without_ar [of 0 1 unowned_device "(0, 0)" 0]
  by (simp add: pf_cmdev_get_slot_full_def pf_cmdev_get_subslot_full_def pf_cmdev_get_api_def pf_cmdev_get_slot_def
      pf_cmdev_get_subslot_def slot_at_def subslot_at_def unowned_ident unowned_slot_def example_slot_def example_subslot_def
      has_owner_def upt_conv_Cons)

subsection \<open>The end of an AR\<close>

text \<open>What becomes of a place of the tree when the AR \<open>a\<close> ends: the numbers, the idents and the
  expectations of the ARs do not change, only the owner.\<close>

definition handed_over :: "dev_net \<Rightarrow> nat \<Rightarrow> subslot_ptr \<Rightarrow> real_subslot" where
  "handed_over n a q = (let s = subslot_at (dn_dev n) q in
     if has_owner s \<and> owner s = Some a
     then (case find (wants n (real_api_id (real_ident (dn_dev n) ! fst q)) (slot_number (slot_at (dn_dev n) (fst q, fst (snd q))))
         (subslot_number s)) (dn_order n) of
       None \<Rightarrow> s\<lparr>ownsm_state := PF_OWNSM_STATE_FREE, owner := None\<rparr>
     | Some b \<Rightarrow> s\<lparr>ownsm_state := PF_OWNSM_STATE_IOC, owner := Some b\<rparr>)
     else s)"

definition same_numbers :: "dev_net \<Rightarrow> dev_net \<Rightarrow> bool" where
  "same_numbers n m \<longleftrightarrow> dn_order m = dn_order n \<and> dn_exp m = dn_exp n \<and>
     (\<forall>a. real_api_id (real_ident (dn_dev m) ! a) = real_api_id (real_ident (dn_dev n) ! a)) \<and>
     (\<forall>p. slot_number (slot_at (dn_dev m) p) = slot_number (slot_at (dn_dev n) p)) \<and>
     (\<forall>q. place (dn_dev m) q = place (dn_dev n) q)"

lemma with_alarm_rest [simp]:
  "dn_order (snd (with_alarm f n)) = dn_order n" "dn_exp (snd (with_alarm f n)) = dn_exp n"
  by (simp_all add: with_alarm_def split_beta)

lemma released_alarm_req_rest [simp]:
  "dn_order (released_alarm_req a x n) = dn_order n" "dn_exp (released_alarm_req a x n) = dn_exp n"
  unfolding released_alarm_req_def Let_def split_beta
  by (subst fold_observed [where g = dn_order], auto split: plug_out.splits)
    (subst fold_observed [where g = dn_exp], auto split: plug_out.splits)

lemma wants_dev [simp]: "wants (n\<lparr>dn_dev := d\<rparr>) = wants n"
  by (intro ext) (simp add: wants_def)

lemma find_wants:
  assumes "find (wants n api slot_nbr subslot_nbr) xs = Some b"
  obtains m u where "pf_cmdev_get_exp_mod (dn_exp n ! b) api slot_nbr = Some m"
    "pf_cmdev_get_exp_sub (dn_exp n ! b) api slot_nbr subslot_nbr = Some u"
  using assms by (auto simp: find_Some_iff wants_def)

lemma clear_subslot_result:
  assumes "place (dn_dev n) q"
  shows "subslot_at (dn_dev (clear_subslot a q n)) r = (if r = q then handed_over n a q else subslot_at (dn_dev n) r)"
    "same_numbers n (clear_subslot a q n)"
proof -
  show "subslot_at (dn_dev (clear_subslot a q n)) r = (if r = q then handed_over n a q else subslot_at (dn_dev n) r)"
    using assms by (auto simp: clear_subslot_def handed_over_def Let_def subslot_at_upd_subslot elim!: find_wants split: option.splits)
  show "same_numbers n (clear_subslot a q n)"
    using assms by (auto simp: same_numbers_def clear_subslot_def Let_def slot_at_upd_subslot split: option.splits)
qed

lemma handed_over_same:
  assumes "same_numbers n m" "subslot_at (dn_dev m) r = subslot_at (dn_dev n) r"
  shows "handed_over m a r = handed_over n a r"
proof -
  have "wants m = wants n" using assms(1) by (intro ext) (simp add: wants_def same_numbers_def)
  moreover have "dn_order m = dn_order n" "real_api_id (real_ident (dn_dev m) ! fst r) = real_api_id (real_ident (dn_dev n) ! fst r)"
    "slot_number (slot_at (dn_dev m) (fst r, fst (snd r))) = slot_number (slot_at (dn_dev n) (fst r, fst (snd r)))"
    using assms(1) unfolding same_numbers_def by blast+
  ultimately show ?thesis unfolding handed_over_def Let_def assms(2) by simp
qed

lemma clear_all:
  assumes "distinct qs" "\<forall>q\<in>set qs. place (dn_dev n) q"
  shows "subslot_at (dn_dev (fold (clear_subslot a) qs n)) r =
    (if r \<in> set qs then handed_over n a r else subslot_at (dn_dev n) r)"
  using assms
proof (induction qs arbitrary: n)
  case (Cons q qs)
  let ?m = "clear_subslot a q n"
  have q: "place (dn_dev n) q" using Cons.prems by simp
  note R = clear_subslot_result [OF q, of a]
  have "\<forall>p\<in>set qs. place (dn_dev ?m) p" using Cons.prems(2) R(2) unfolding same_numbers_def by (metis list.set_intros(2))
  then have IH: "subslot_at (dn_dev (fold (clear_subslot a) qs ?m)) r =
    (if r \<in> set qs then handed_over ?m a r else subslot_at (dn_dev ?m) r)"
    using Cons by simp
  show ?case
  proof (cases "r = q")
    case True
    then show ?thesis using IH R(1) [of r] Cons.prems by simp
  next
    case False
    then show ?thesis using IH R(1) [of r] handed_over_same [OF R(2), of r a] by simp
  qed
qed simp

lemma distinct_concat_map:
  assumes "distinct xs" "\<And>x. x \<in> set xs \<Longrightarrow> distinct (f x)"
    "\<And>x y. x \<in> set xs \<Longrightarrow> y \<in> set xs \<Longrightarrow> x \<noteq> y \<Longrightarrow> set (f x) \<inter> set (f y) = {}"
  shows "distinct (concat (map f xs))"
  using assms
proof (induction xs)
  case (Cons x xs)
  have "set (f x) \<inter> (\<Union>y\<in>set xs. set (f y)) = {}" using Cons.prems(1) Cons.prems(3) [of x] by fastforce
  then show ?case using Cons by simp
qed simp

lemma distinct_all_subslots: "distinct (all_subslots d)"
  unfolding all_subslots_def by (intro distinct_concat_map) (auto simp: distinct_map inj_on_def)

text \<open>C24: When an AR that is no longer in the order of connections ends, each submodule that it owned
  goes to the first AR of the order that expects its module and submodule, or becomes free; all other
  submodules keep their owner, and none is left with the AR that ended.\<close>

theorem ar_end_hands_over:
  assumes "place (dn_dev n) q" and "a \<notin> set (dn_order n)"
  shows "subslot_at (dn_dev (pf_device_clear a n)) q = handed_over n a q \<and>
    \<not> (has_owner (handed_over n a q) \<and> owner (handed_over n a q) = Some a)"
proof
  show "subslot_at (dn_dev (pf_device_clear a n)) q = handed_over n a q"
    unfolding pf_device_clear_def using assms(1)
    by (subst clear_all [OF distinct_all_subslots]) (simp_all add: all_subslots_place)
  show "\<not> (has_owner (handed_over n a q) \<and> owner (handed_over n a q) = Some a)"
    using assms(2) by (auto simp: handed_over_def Let_def has_owner_def find_Some_iff split: option.splits)
qed

lemma ar_end_hands_over_witness:
  "\<not> has_owner (subslot_at (dn_dev (pf_device_clear 0 (example_device\<lparr>dn_order := []\<rparr>))) (0, 0, 0))"
  using ar_end_hands_over [of "example_device\<lparr>dn_order := []\<rparr>" "(0, 0, 0)" 0] example_alive [of "(0, 0, 0)"] alive_place
    example_subslots
  by (simp add: handed_over_def Let_def has_owner_def example_subslot_def)

end
