(* ===== verification/Conn_Checks.thy ===== *)
theory Conn_Checks
  imports Dev_Plug
begin

section \<open>Connect requests: data\<close>

text \<open>
  What a connect request asks for, as the parsers store it in \<open>pf_ar_t\<close>: the AR parameters, up to
  \<open>PNET_MAX_CR\<close> IOCRs, the expected identification, the alarm CR. Enumerations that come from the
  frame are words, because the frame may have other values. The areas of an IOCR's data are the
  \<open>io_object\<close> entries that the cyclic data use later.
\<close>

subsection \<open>Values of enumerations\<close>

definition PF_ART_IOCAR_SINGLE :: u16 where "PF_ART_IOCAR_SINGLE = 1"
definition PF_ART_IOSAR :: u16 where "PF_ART_IOSAR = 6"
definition PF_PS_EXTERNAL_PARAMETER_SERVER :: u8 where "PF_PS_EXTERNAL_PARAMETER_SERVER = 0"
definition PF_RT_CLASS_1 :: u32 where "PF_RT_CLASS_1 = 1"
definition PF_RT_CLASS_2 :: u32 where "PF_RT_CLASS_2 = 2"
definition PF_RT_CLASS_3 :: u32 where "PF_RT_CLASS_3 = 3"
definition PF_RT_CLASS_UDP :: u32 where "PF_RT_CLASS_UDP = 4"
definition PF_RT_CLASS_STREAM :: u32 where "PF_RT_CLASS_STREAM = 5"
definition PF_DIRECTION_INPUT :: u16 where "PF_DIRECTION_INPUT = 1"
definition PF_DIRECTION_OUTPUT :: u16 where "PF_DIRECTION_OUTPUT = 2"
definition PF_ALARM_CR :: u32 where "PF_ALARM_CR = 1"
definition PNAL_ETHTYPE_IP :: u16 where "PNAL_ETHTYPE_IP = 0x0800"
definition PNET_SUBSLOT_DAP_INTERFACE_1_IDENT :: u16 where "PNET_SUBSLOT_DAP_INTERFACE_1_IDENT = 0x8000"

datatype status_type = PF_DEV_STATUS_TYPE_IOCS | PF_DEV_STATUS_TYPE_IOPS

definition iocr_code :: "iocr_type \<Rightarrow> u16" where
  "iocr_code t = (case t of PF_IOCR_TYPE_RESERVED_0 \<Rightarrow> 0 | PF_IOCR_TYPE_INPUT \<Rightarrow> 1 | PF_IOCR_TYPE_OUTPUT \<Rightarrow> 2
     | PF_IOCR_TYPE_MC_PROVIDER \<Rightarrow> 3 | PF_IOCR_TYPE_MC_CONSUMER \<Rightarrow> 4)"

definition dir_code :: "submodule_dir \<Rightarrow> u8" where
  "dir_code d = (case d of PNET_DIR_NO_IO \<Rightarrow> 0 | PNET_DIR_INPUT \<Rightarrow> 1 | PNET_DIR_OUTPUT \<Rightarrow> 2 | PNET_DIR_IO \<Rightarrow> 3)"

subsection \<open>Errors\<close>

definition PNET_ERROR_CODE_1_CONN_FAULTY_AR_BLOCK_REQ :: u8 where "PNET_ERROR_CODE_1_CONN_FAULTY_AR_BLOCK_REQ = 1"
definition PNET_ERROR_CODE_1_CONN_FAULTY_IOCR_BLOCK_REQ :: u8 where "PNET_ERROR_CODE_1_CONN_FAULTY_IOCR_BLOCK_REQ = 2"
definition PNET_ERROR_CODE_1_CONN_FAULTY_EXP_BLOCK_REQ :: u8 where "PNET_ERROR_CODE_1_CONN_FAULTY_EXP_BLOCK_REQ = 3"
definition PNET_ERROR_CODE_1_CONN_FAULTY_ALARM_BLOCK_REQ :: u8 where "PNET_ERROR_CODE_1_CONN_FAULTY_ALARM_BLOCK_REQ = 4"
definition PNET_ERROR_CODE_1_CONN_FAULTY_AR_RPC_BLOCK_REQ :: u8 where "PNET_ERROR_CODE_1_CONN_FAULTY_AR_RPC_BLOCK_REQ = 7"
definition PNET_ERROR_CODE_2_CMRPC_ARGSLENGTH_INVALID :: u8 where "PNET_ERROR_CODE_2_CMRPC_ARGSLENGTH_INVALID = 0"
definition PNET_ERROR_CODE_2_CMRPC_UNKNOWN_BLOCKS :: u8 where "PNET_ERROR_CODE_2_CMRPC_UNKNOWN_BLOCKS = 1"
definition PNET_ERROR_CODE_2_CMRPC_IOCR_MISSING :: u8 where "PNET_ERROR_CODE_2_CMRPC_IOCR_MISSING = 2"
definition PNET_ERROR_CODE_2_CMRPC_WRONG_BLOCK_COUNT :: u8 where "PNET_ERROR_CODE_2_CMRPC_WRONG_BLOCK_COUNT = 3"
definition PNET_ERROR_CODE_2_CMRPC_OUT_OF_PCA_RESOURCES :: u8 where "PNET_ERROR_CODE_2_CMRPC_OUT_OF_PCA_RESOURCES = 7"

text \<open>
  A check gives no error, or the last error that it stored in the result; the code overwrites an
  error that is there.
\<close>

type_synonym fault = "pnet_pnio_status option"

definition conn_error :: "u8 \<Rightarrow> u8 \<Rightarrow> fault" where
  "conn_error code_1 code_2 = Some (pf_set_error PNET_ERROR_CODE_CONNECT PNET_ERROR_DECODE_PNIO code_1 code_2)"

abbreviation (input) ar_error :: "u8 \<Rightarrow> fault" where
  "ar_error \<equiv> conn_error PNET_ERROR_CODE_1_CONN_FAULTY_AR_BLOCK_REQ"

abbreviation (input) iocr_error :: "u8 \<Rightarrow> fault" where
  "iocr_error \<equiv> conn_error PNET_ERROR_CODE_1_CONN_FAULTY_IOCR_BLOCK_REQ"

abbreviation (input) exp_error :: "u8 \<Rightarrow> fault" where
  "exp_error \<equiv> conn_error PNET_ERROR_CODE_1_CONN_FAULTY_EXP_BLOCK_REQ"

abbreviation (input) alarm_error :: "u8 \<Rightarrow> fault" where
  "alarm_error \<equiv> conn_error PNET_ERROR_CODE_1_CONN_FAULTY_ALARM_BLOCK_REQ"

text \<open>The next check of an \<open>else if\<close> chain, and one more check after another.\<close>

definition or_fault :: "fault \<Rightarrow> fault \<Rightarrow> fault" where
  "or_fault e f = (case e of None \<Rightarrow> f | Some x \<Rightarrow> Some x)"

definition then_fault :: "fault \<Rightarrow> fault \<Rightarrow> fault" where
  "then_fault e f = (case f of None \<Rightarrow> e | Some x \<Rightarrow> Some x)"

lemma no_fault [simp]:
  "or_fault None f = f" "or_fault (Some x) f = Some x" "then_fault e None = e" "then_fault e (Some x) = Some x"
  "or_fault e f = None \<longleftrightarrow> e = None \<and> f = None" "then_fault e f = None \<longleftrightarrow> e = None \<and> f = None"
  by (auto simp: or_fault_def then_fault_def split: option.splits)

lemma conn_error_Some [simp]: "conn_error a b \<noteq> None" "conn_error a b = None \<longleftrightarrow> False"
  by (simp_all add: conn_error_def)

subsection \<open>The IOCRs and the AR\<close>

record pf_iocr_param =
  cp_iocr_type :: u16
  cp_iocr_reference :: u16
  cp_lt_field :: u16
  cp_rt_class :: u32
  cp_reserved_1 :: u16
  cp_reserved_2 :: u16
  cp_reserved_3 :: u16
  cp_c_sdu_length :: u16
  cp_frame_id :: u16
  cp_send_clock_factor :: u16
  cp_reduction_ratio :: u16
  cp_phase :: u16
  cp_sequence :: u16
  cp_frame_send_offset :: u32
  cp_watchdog_factor :: u32
  cp_data_hold_factor :: u16
  cp_vlan_id :: u16
  cp_iocr_user_priority :: u16
  cp_multicast_mac_add :: "u8 list"
  cp_nbr_apis :: u16
  cp_apis :: "pf_api_entry list"

text \<open>The first \<open>nbr_data_desc\<close> entries of \<open>data_desc\<close> are the list; the other entries are clear.\<close>

record conn_iocr =
  ci_in_length :: u16
  ci_out_length :: u16
  ci_data_desc :: "io_object list"
  ci_param :: pf_iocr_param

text \<open>\<open>ca_iocrs\<close> are the first \<open>nbr_iocrs\<close> entries of the array.\<close>

record conn_ar =
  ca_param :: pf_ar_param
  ca_nbr_ar_param :: u16
  ca_iocrs :: "conn_iocr list"
  ca_input_cr_cnt :: u16
  ca_output_cr_cnt :: u16
  ca_mcr_cons_cnt :: u16
  ca_rtc3_present :: bool
  ca_exp_ident :: pf_exp_ident
  ca_alarm_cr_request :: pf_alarm_cr_request
  ca_nbr_alarm_cr :: u16
  ca_initiator_rpc_server_port :: u16
  ca_nbr_rpc_server :: u16
  ca_ir_info_valid :: bool

abbreviation ca_properties :: "conn_ar \<Rightarrow> pf_ar_properties" where
  "ca_properties r \<equiv> ar_properties (ca_param r)"

abbreviation has_iocr_type :: "iocr_type \<Rightarrow> pf_iocr_param \<Rightarrow> bool" where
  "has_iocr_type t p \<equiv> cp_iocr_type p = iocr_code t"


section \<open>Connect requests: checks of the parameters\<close>

text \<open>
  The checks of \<open>pf_cmdev.c\<close> on the AR parameters, the IOCR parameters, the alarm CR and the RPC
  port. The long \<open>else if\<close> chain of the IOCR check is split in four parts.
\<close>

subsection \<open>AR parameters\<close>

text \<open>The bytes of a UUID in memory, whose order does not matter here.\<close>

definition uuid_memory :: "pf_uuid \<Rightarrow> u8 list" where
  "uuid_memory u = enc32 True (data1 u) @ enc16 True (data2 u) @ enc16 True (data3 u) @ data4 u"

primrec pf_cmdev_check_zero :: "u8 list \<Rightarrow> int" where
  "pf_cmdev_check_zero [] = 0"
| "pf_cmdev_check_zero (b # bs) = (if b = 0 then pf_cmdev_check_zero bs else - 1)"

definition pf_cmdev_check_cm_initiator_object_uuid :: "pf_uuid \<Rightarrow> int" where
  "pf_cmdev_check_cm_initiator_object_uuid u =
     (if data1 u = 0xDEA00000 \<and> data2 u = 0x6c97 \<and> data3 u = 0x11D1 \<and> data4 u ! 0 = 0x82 \<and> data4 u ! 1 = 0x71
      then 0 else - 1)"

definition is_print :: "u8 \<Rightarrow> bool" where
  "is_print c \<longleftrightarrow> 0x20 \<le> c \<and> c \<le> 0x7E"

text \<open>A string is its bytes with the terminating zero.\<close>

definition pf_cmdev_check_visible_string :: "u8 list \<Rightarrow> int" where
  "pf_cmdev_check_visible_string s =
     (if hd s \<noteq> 0 \<and> hd (dropWhile (\<lambda>c. c \<noteq> 0 \<and> is_print c) s) = 0 then 0 else - 1)"

definition pf_cmdev_check_ar_type :: "u16 \<Rightarrow> int" where
  "pf_cmdev_check_ar_type t = (if t = PF_ART_IOCAR_SINGLE then 0 else - 1)"

definition pf_cmdev_check_ar_param :: "pf_ar_param \<Rightarrow> fault" where
  "pf_cmdev_check_ar_param p =
     (if pf_cmdev_check_ar_type (ar_type p) \<noteq> 0 then ar_error 4
      else if pf_cmdev_check_zero (uuid_memory (pf_ar_param.ar_uuid p)) = 0 then ar_error 5
      else if pf_ar_param.cm_initiator_mac_add p ! 0 AND 1 \<noteq> 0 then ar_error 7
      else if pf_cmdev_check_cm_initiator_object_uuid (cm_initiator_object_uuid p) \<noteq> 0 then ar_error 8
      else if arp_state (ar_properties p) \<noteq> 1 then ar_error 9
      else if parameterization_server (ar_properties p) = PF_PS_EXTERNAL_PARAMETER_SERVER then ar_error 9
      else if device_access (ar_properties p) \<and> ar_type p \<noteq> PF_ART_IOSAR then ar_error 9
      else if companion_ar (ar_properties p) = 3 then ar_error 9
      else if cm_initiator_activity_timeout_factor p < 1 \<or> cm_initiator_activity_timeout_factor p > 1000 then ar_error 10
      else if cm_initiator_station_name_len p = 0 \<or>
        unat (cm_initiator_station_name_len p) > PNET_STATION_NAME_MAX_SIZE - 1 then ar_error 12
      else if pf_cmdev_check_visible_string (cm_initiator_station_name p) \<noteq> 0 then ar_error 13
      else None)"

subsection \<open>IOCR parameters\<close>

definition multicast :: "pf_iocr_param \<Rightarrow> bool" where
  "multicast p \<longleftrightarrow> has_iocr_type PF_IOCR_TYPE_MC_CONSUMER p \<or> has_iocr_type PF_IOCR_TYPE_MC_PROVIDER p"

text \<open>The block as a whole: type, Ethernet type, real time class, reserved bits, length.\<close>

definition iocr_form_fault :: "bool \<Rightarrow> pf_iocr_param \<Rightarrow> fault" where
  "iocr_form_fault startup p =
     (if cp_iocr_type p < iocr_code PF_IOCR_TYPE_INPUT \<or> cp_iocr_type p > iocr_code PF_IOCR_TYPE_MC_CONSUMER then iocr_error 4
      else if cp_rt_class p \<noteq> PF_RT_CLASS_UDP \<and> cp_lt_field p \<noteq> PNAL_ETHTYPE_PROFINET then iocr_error 6
      else if cp_rt_class p = PF_RT_CLASS_UDP \<and> cp_lt_field p \<noteq> PNAL_ETHTYPE_IP then iocr_error 6
      else if \<not> startup \<and> (cp_rt_class p < PF_RT_CLASS_1 \<or> cp_rt_class p > PF_RT_CLASS_STREAM) then iocr_error 7
      else if startup \<and> (cp_rt_class p < PF_RT_CLASS_2 \<or> cp_rt_class p > PF_RT_CLASS_STREAM) then iocr_error 7
      else if cp_reserved_1 p \<noteq> 0 \<or> cp_reserved_3 p \<noteq> 0 then iocr_error 7
      else if cp_rt_class p = PF_RT_CLASS_UDP \<and> (cp_c_sdu_length p < 12 \<or> cp_c_sdu_length p > 1440) \<or>
        (cp_rt_class p = PF_RT_CLASS_1 \<or> cp_rt_class p = PF_RT_CLASS_2 \<or> cp_rt_class p = PF_RT_CLASS_3 \<or>
         cp_rt_class p = PF_RT_CLASS_STREAM) \<and> (cp_c_sdu_length p < 40 \<or> cp_c_sdu_length p > 1440) then iocr_error 8
      else None)"

definition outside :: "u16 \<Rightarrow> u16 \<Rightarrow> u16 \<Rightarrow> bool" where
  "outside lo hi x \<longleftrightarrow> x < lo \<or> x > hi"

definition iocr_frame_id_fault :: "pf_iocr_param \<Rightarrow> fault" where
  "iocr_frame_id_fault p =
     (if multicast p \<and>
        (cp_rt_class p = PF_RT_CLASS_1 \<and> outside 0xF800 0xFBFF (cp_frame_id p) \<or>
         cp_rt_class p = PF_RT_CLASS_2 \<and> outside 0xBC00 0xBFFF (cp_frame_id p) \<or>
         cp_rt_class p = PF_RT_CLASS_3 \<and> outside 0x0100 0x7FFF (cp_frame_id p) \<or>
         cp_rt_class p = PF_RT_CLASS_UDP \<and> outside 0xF800 0xFBFF (cp_frame_id p)) then iocr_error 9
      else if has_iocr_type PF_IOCR_TYPE_INPUT p \<and>
        (cp_rt_class p = PF_RT_CLASS_1 \<and> outside 0xC000 0xF7FF (cp_frame_id p) \<or>
         cp_rt_class p = PF_RT_CLASS_2 \<and> outside 0x8000 0xBBFF (cp_frame_id p) \<or>
         cp_rt_class p = PF_RT_CLASS_3 \<and> outside 0x0100 0x7FFF (cp_frame_id p) \<or>
         cp_rt_class p = PF_RT_CLASS_UDP \<and> outside 0xC000 0xF7FF (cp_frame_id p)) then iocr_error 9
      else None)"

text \<open>The data hold time in units of the check, in 32 bits.\<close>

definition hold_time :: "pf_iocr_param \<Rightarrow> u32" where
  "hold_time p = (ucast (cp_data_hold_factor p) * ucast (cp_reduction_ratio p) * ucast (cp_send_clock_factor p) * 1000) div 32"

definition iocr_timing_fault :: "pf_iocr_param \<Rightarrow> fault" where
  "iocr_timing_fault p = (let
     rtc = cp_rt_class p = PF_RT_CLASS_1 \<or> cp_rt_class p = PF_RT_CLASS_2 \<or> cp_rt_class p = PF_RT_CLASS_3;
     udp = cp_rt_class p = PF_RT_CLASS_UDP;
     scf = cp_send_clock_factor p;
     rr = cp_reduction_ratio p
     in if scf \<notin> {1, 2, 4, 8, 16, 32, 64, 128} then iocr_error 10
        else if rtc \<and> ((rr < 1 \<or> rr > 512) \<or> rr \<ge> 256 \<and> scf > 64 \<or> rr = 512 \<and> scf > 32) then iocr_error 11
        else if udp \<and> ((rr < 1 \<or> rr > 16384) \<or> rr \<ge> 8192 \<and> scf > 64 \<or> rr = 16384 \<and> scf > 32) then iocr_error 11
        else if cp_phase p = 0 \<or> cp_phase p > rr then iocr_error 12
        else if cp_frame_send_offset p \<noteq> 0xffffffff \<and>
          (unat (cp_frame_send_offset p) \<ge> unat scf * 31250 \<or>
           cp_frame_send_offset p \<ge> 0x003d0900 \<and> cp_frame_send_offset p \<le> 0xfffffffe) then iocr_error 14
        else if (cp_data_hold_factor p < 1 \<or> cp_data_hold_factor p > 0x1e00) \<or>
          udp \<and> hold_time p > 61440000 \<or> rtc \<and> hold_time p > 1920000 then iocr_error 16
        else None)"

definition iocr_rest_fault :: "pf_ar_param \<Rightarrow> pf_iocr_param \<Rightarrow> fault" where
  "iocr_rest_fault ar p =
     (if cp_vlan_id p \<noteq> 0 then iocr_error 17
      else if cp_iocr_user_priority p \<noteq> 6 then iocr_error 17
      else if multicast p \<and> cp_multicast_mac_add p ! 0 AND 1 = 0 then iocr_error 18
      else if cp_nbr_apis p = 0 then iocr_error 19
      else if cp_rt_class p = PF_RT_CLASS_UDP \<and> pf_cmdev_check_zero (pf_ar_param.cm_initiator_mac_add ar) \<noteq> 0 then ar_error 7
      else if cp_rt_class p = PF_RT_CLASS_UDP \<and> cm_initiator_udp_rt_port ar \<le> 0x03FF then ar_error 11
      else None)"

definition iocr_param_fault :: "pf_ar_param \<Rightarrow> pf_iocr_param \<Rightarrow> fault" where
  "iocr_param_fault ar p =
     (if device_access (ar_properties ar) then conn_error PNET_ERROR_CODE_1_CMRPC PNET_ERROR_CODE_2_CMRPC_UNKNOWN_BLOCKS
      else or_fault (iocr_form_fault (startup_mode (ar_properties ar)) p) (or_fault (iocr_frame_id_fault p)
        (or_fault (iocr_timing_fault p) (iocr_rest_fault ar p))))"

text \<open>All IOCRs of the AR are checked; the last error stays.\<close>

definition pf_cmdev_check_iocr_param :: "pf_ar_param \<Rightarrow> pf_iocr_param list \<Rightarrow> fault" where
  "pf_cmdev_check_iocr_param ar ps = fold (\<lambda>p e. then_fault e (iocr_param_fault ar p)) ps None"

definition pf_cmdev_check_iocr_param_full :: "nat \<Rightarrow> pf_ar_param \<Rightarrow> pf_iocr_param list \<Rightarrow> fault" where
  "pf_cmdev_check_iocr_param_full min_device_interval ar ps = (case pf_cmdev_check_iocr_param ar ps of
     Some e \<Rightarrow> Some e
   | None \<Rightarrow> fold (\<lambda>p e. then_fault e
       (if min_device_interval > unat (cp_send_clock_factor p) * unat (cp_reduction_ratio p) then iocr_error 11 else None))
       ps None)"

subsection \<open>The alarm CR and the RPC port\<close>

definition pf_cmdev_check_alarm_cr :: "pf_ar_param \<Rightarrow> pf_alarm_cr_request \<Rightarrow> fault" where
  "pf_cmdev_check_alarm_cr ar r =
     (if device_access (ar_properties ar) then conn_error PNET_ERROR_CODE_1_CMRPC PNET_ERROR_CODE_2_CMRPC_UNKNOWN_BLOCKS
      else if acr_alarm_cr_type r \<noteq> PF_ALARM_CR then alarm_error 4
      else if \<not> acr_transport_udp r \<and> acr_lt_field r \<noteq> PNAL_ETHTYPE_PROFINET \<or>
        acr_transport_udp r \<and> acr_lt_field r \<noteq> PNAL_ETHTYPE_IP then alarm_error 5
      else if acr_rta_timeout_factor r < 1 \<or> acr_rta_timeout_factor r > 0x64 then alarm_error 7
      else if acr_rta_retries r < 3 \<or> acr_rta_retries r > 15 then alarm_error 8
      else if acr_max_alarm_data_length r < 200 \<or> acr_max_alarm_data_length r > 1432 then alarm_error 10
      else if th_vlan_id (acr_tag_header_high r) \<noteq> 0 then alarm_error 11
      else if th_alarm_user_priority (acr_tag_header_high r) \<noteq> 6 then alarm_error 11
      else if th_vlan_id (acr_tag_header_low r) \<noteq> 0 then alarm_error 12
      else if th_alarm_user_priority (acr_tag_header_low r) \<noteq> 5 then alarm_error 12
      else None)"

definition pf_cmdev_check_ar_rpc :: "u16 \<Rightarrow> fault" where
  "pf_cmdev_check_ar_rpc port =
     (if port < 0x0400 then conn_error PNET_ERROR_CODE_1_CONN_FAULTY_AR_RPC_BLOCK_REQ 4 else None)"

end
