(* ===== verification/Conn_Desc.thy ===== *)
theory Conn_Desc
  imports Conn_Checks
begin

section \<open>Connect requests: the layout of the IO data\<close>

text \<open>
  From the IOCR parameters and the expected submodules \<open>pf_cmdev.c\<close> makes the data descriptors of
  each IOCR: for each subslot where its data, its IOPS and its IOCS are in the C-SDU. Then it checks
  that the entries belong to expected submodules and that the areas do not overlap. \<open>None\<close> is a write
  behind the array \<open>data_desc\<close>.
\<close>

subsection \<open>Loops\<close>

primrec each :: "('x \<Rightarrow> 's \<Rightarrow> 's option) \<Rightarrow> 'x list \<Rightarrow> 's \<Rightarrow> 's option" where
  "each f [] s = Some s"
| "each f (x # xs) s = do { s \<leftarrow> f x s; each f xs s }"

text \<open>The entries of an IOCR with their API, in the order of the nested loops.\<close>

definition used_apis :: "pf_iocr_param \<Rightarrow> pf_api_entry list" where
  "used_apis p = take (unat (cp_nbr_apis p)) (cp_apis p)"

definition used_io_data :: "pf_api_entry \<Rightarrow> pf_frame_descriptor list" where
  "used_io_data a = take (unat (ae_nbr_io_data a)) (ae_io_data a)"

definition used_iocs :: "pf_api_entry \<Rightarrow> pf_frame_descriptor list" where
  "used_iocs a = take (unat (ae_nbr_iocs a)) (ae_iocs a)"

definition io_data_entries :: "pf_iocr_param \<Rightarrow> (u32 \<times> pf_frame_descriptor) list" where
  "io_data_entries p = concat (map (\<lambda>a. map (Pair (ae_api a)) (used_io_data a)) (used_apis p))"

definition iocs_entries :: "pf_iocr_param \<Rightarrow> (u32 \<times> pf_frame_descriptor) list" where
  "iocs_entries p = concat (map (\<lambda>a. map (Pair (ae_api a)) (used_iocs a)) (used_apis p))"

subsection \<open>The data descriptor of an expected submodule\<close>

definition pf_cmdev_calculate_exp_sub_data_descriptor_direction :: "u8 \<Rightarrow> u16 \<Rightarrow> status_type \<Rightarrow> u16 option" where
  "pf_cmdev_calculate_exp_sub_data_descriptor_direction submodule_dir data_dir status =
     (let in_ps = data_dir = PF_DIRECTION_INPUT \<and> status = PF_DEV_STATUS_TYPE_IOPS \<or>
        data_dir = PF_DIRECTION_OUTPUT \<and> status = PF_DEV_STATUS_TYPE_IOCS;
      out_ps = data_dir = PF_DIRECTION_INPUT \<and> status = PF_DEV_STATUS_TYPE_IOCS \<or>
        data_dir = PF_DIRECTION_OUTPUT \<and> status = PF_DEV_STATUS_TYPE_IOPS
      in if submodule_dir = dir_code PNET_DIR_NO_IO \<or> submodule_dir = dir_code PNET_DIR_INPUT
         then (if in_ps then Some PF_DIRECTION_INPUT else None)
         else if submodule_dir = dir_code PNET_DIR_IO
         then Some (if in_ps then PF_DIRECTION_INPUT else PF_DIRECTION_OUTPUT)
         else if submodule_dir = dir_code PNET_DIR_OUTPUT
         then (if out_ps then Some PF_DIRECTION_OUTPUT else None)
         else None)"

definition used_descriptors :: "pf_exp_submodule \<Rightarrow> pf_data_descriptor list" where
  "used_descriptors s = take (unat (es_nbr_data_descriptors s)) (es_data_descriptor s)"

definition pf_cmdev_get_exp_sub_data_descriptor :: "pf_exp_submodule \<Rightarrow> u16 \<Rightarrow> status_type \<Rightarrow> pf_data_descriptor option" where
  "pf_cmdev_get_exp_sub_data_descriptor s dir status = do {
     d \<leftarrow> pf_cmdev_calculate_exp_sub_data_descriptor_direction (sp_type (es_properties s)) dir status;
     find (\<lambda>x. dd_data_direction x = d) (used_descriptors s)
   }"

subsection \<open>Setting up the descriptors\<close>

definition MAX_DATA_DESC :: nat where "MAX_DATA_DESC = PNET_MAX_API * PNET_MAX_SLOTS * PNET_MAX_SUBSLOTS"

definition object_key :: "io_object \<Rightarrow> u32 \<times> u16 \<times> u16" where
  "object_key d = (io_api_id d, io_slot_nbr d, io_subslot_nbr d)"

definition new_object :: "u32 \<times> u16 \<times> u16 \<Rightarrow> io_object" where
  "new_object k = \<lparr>io_api_id = fst k, io_slot_nbr = fst (snd k), io_subslot_nbr = snd (snd k), io_in_use = True,
     io_data_offset = 0, io_data_length = 0, io_iops_offset = 0, io_iops_length = 0, io_iocs_offset = 0,
     io_iocs_length = 0, io_data_avail = False\<rparr>"

text \<open>The descriptor of a subslot is used again, or a new one is taken.\<close>

definition object_for :: "u32 \<times> u16 \<times> u16 \<Rightarrow> io_object list \<Rightarrow> (nat \<times> io_object list) option" where
  "object_for k ds = (case find (\<lambda>i. object_key (ds ! i) = k) [0 ..< length ds] of
     Some i \<Rightarrow> Some (i, ds)
   | None \<Rightarrow> if length ds < MAX_DATA_DESC then Some (length ds, ds @ [new_object k]) else None)"

definition set_data_iops :: "u16 \<Rightarrow> pf_exp_submodule \<Rightarrow> pf_data_descriptor \<Rightarrow> u16 \<Rightarrow> io_object \<Rightarrow> io_object" where
  "set_data_iops dir s desc frame_offset d = (let
     reduced = dir = PF_DIRECTION_INPUT \<and> sp_reduce_input_submodule_data_length (es_properties s) \<or>
       dir = PF_DIRECTION_OUTPUT \<and> sp_reduce_output_submodule_data_length (es_properties s);
     d = (if reduced then d\<lparr>io_data_length := 0, io_data_offset := 0\<rparr>
          else d\<lparr>io_data_length := dd_submodule_data_length desc, io_data_offset := frame_offset\<rparr>)
     in if sp_discard_ioxs (es_properties s)
        then d\<lparr>io_data_length := 0, io_data_offset := 0, io_iops_length := 0, io_iops_offset := 0\<rparr>
        else d\<lparr>io_iops_length := ucast (dd_length_iops desc), io_iops_offset := io_data_offset d + io_data_length d\<rparr>)"

definition set_iocs :: "pf_exp_submodule \<Rightarrow> pf_data_descriptor \<Rightarrow> u16 \<Rightarrow> io_object \<Rightarrow> io_object" where
  "set_iocs s desc frame_offset d =
     (if sp_discard_ioxs (es_properties s) then d\<lparr>io_iocs_offset := 0, io_iocs_length := 0\<rparr>
      else d\<lparr>io_iocs_offset := frame_offset, io_iocs_length := ucast (dd_length_iocs desc)\<rparr>)"

definition add_length :: "u16 \<Rightarrow> u16 \<Rightarrow> conn_iocr \<Rightarrow> conn_iocr" where
  "add_length dir k c = (if dir = PF_DIRECTION_INPUT then c\<lparr>ci_in_length := ci_in_length c + k\<rparr>
     else if dir = PF_DIRECTION_OUTPUT then c\<lparr>ci_out_length := ci_out_length c + k\<rparr> else c)"

definition setup_data_iops_entry :: "pf_exp_ident \<Rightarrow> u16 \<Rightarrow> u32 \<times> pf_frame_descriptor \<Rightarrow> conn_iocr \<Rightarrow> conn_iocr option" where
  "setup_data_iops_entry e dir x c = (let (api, fd) = x in
     case pf_cmdev_get_exp_sub e api (fd_slot_number fd) (fd_subslot_number fd) of
       None \<Rightarrow> Some c
     | Some p \<Rightarrow> (case pf_cmdev_get_exp_sub_data_descriptor (exp_sub_at e p) dir PF_DEV_STATUS_TYPE_IOPS of
         None \<Rightarrow> Some c
       | Some desc \<Rightarrow> do {
           (i, ds) \<leftarrow> object_for (api, fd_slot_number fd, fd_subslot_number fd) (ci_data_desc c);
           let d = set_data_iops dir (exp_sub_at e p) desc (fd_frame_offset fd) (ds ! i);
           Some (add_length dir (io_data_length d + io_iops_length d + io_iocs_length d) (c\<lparr>ci_data_desc := ds[i := d]\<rparr>))
         }))"

text \<open>Here a subslot that is not expected makes the result \<open>-1\<close>, without an error in \<open>p_stat\<close>.\<close>

definition setup_iocs_entry :: "pf_exp_ident \<Rightarrow> u16 \<Rightarrow> u32 \<times> pf_frame_descriptor \<Rightarrow> int \<times> conn_iocr \<Rightarrow> (int \<times> conn_iocr) option" where
  "setup_iocs_entry e dir x rc = (let (api, fd) = x; (ret, c) = rc in
     case pf_cmdev_get_exp_sub e api (fd_slot_number fd) (fd_subslot_number fd) of
       None \<Rightarrow> Some (- 1, c)
     | Some p \<Rightarrow> (case pf_cmdev_get_exp_sub_data_descriptor (exp_sub_at e p) dir PF_DEV_STATUS_TYPE_IOCS of
         None \<Rightarrow> Some (ret, c)
       | Some desc \<Rightarrow> do {
           (i, ds) \<leftarrow> object_for (api, fd_slot_number fd, fd_subslot_number fd) (ci_data_desc c);
           let d = set_iocs (exp_sub_at e p) desc (fd_frame_offset fd) (ds ! i);
           Some (ret, add_length dir (io_iocs_length d) (c\<lparr>ci_data_desc := ds[i := d]\<rparr>))
         }))"

definition pf_cmdev_iocr_setup_data_iops :: "pf_exp_ident \<Rightarrow> u16 \<Rightarrow> conn_iocr \<Rightarrow> conn_iocr option" where
  "pf_cmdev_iocr_setup_data_iops e dir c = each (setup_data_iops_entry e dir) (io_data_entries (ci_param c)) c"

definition pf_cmdev_iocr_setup_iocs :: "pf_exp_ident \<Rightarrow> u16 \<Rightarrow> conn_iocr \<Rightarrow> (int \<times> conn_iocr) option" where
  "pf_cmdev_iocr_setup_iocs e dir c = each (setup_iocs_entry e dir) (iocs_entries (ci_param c)) (0, c)"

definition iocr_direction :: "pf_iocr_param \<Rightarrow> u16" where
  "iocr_direction p = (if has_iocr_type PF_IOCR_TYPE_INPUT p \<or> has_iocr_type PF_IOCR_TYPE_MC_PROVIDER p
     then PF_DIRECTION_INPUT else PF_DIRECTION_OUTPUT)"

definition pf_cmdev_iocr_setup_desc :: "pf_exp_ident \<Rightarrow> conn_iocr \<Rightarrow> (int \<times> conn_iocr) option" where
  "pf_cmdev_iocr_setup_desc e c = (let dir = iocr_direction (ci_param c) in do {
     c \<leftarrow> pf_cmdev_iocr_setup_data_iops e dir (c\<lparr>ci_in_length := 0, ci_out_length := 0, ci_data_desc := []\<rparr>);
     pf_cmdev_iocr_setup_iocs e dir c
   })"

subsection \<open>Overlap\<close>

definition pf_cmdev_check_no_straddle :: "u16 \<Rightarrow> u16 \<Rightarrow> u16 \<Rightarrow> u16 \<Rightarrow> int" where
  "pf_cmdev_check_no_straddle start_1 length_1 start_2 length_2 =
     (if length_1 > 0 \<and> length_2 > 0
      then if start_1 \<le> start_2
           then (if unat start_1 + unat length_1 > unat start_2 then - 1 else 0)
           else (if unat start_1 < unat start_2 + unat length_2 then - 1 else 0)
      else 0)"

definition straddles_object :: "u16 \<Rightarrow> u16 \<Rightarrow> io_object \<Rightarrow> bool" where
  "straddles_object start k d \<longleftrightarrow> k > 0 \<and>
     (pf_cmdev_check_no_straddle start k (io_data_offset d) (io_data_length d) \<noteq> 0 \<or>
      pf_cmdev_check_no_straddle start k (io_iocs_offset d) (io_iocs_length d) \<noteq> 0 \<or>
      pf_cmdev_check_no_straddle start k (io_iops_offset d) (io_iops_length d) \<noteq> 0)"

definition pf_cmdev_check_iocr_overlap :: "io_object list \<Rightarrow> nat \<Rightarrow> fault" where
  "pf_cmdev_check_iocr_overlap ds ix_this = (let d = ds ! ix_this in
     if list_ex (\<lambda>x. straddles_object (io_data_offset d) (io_data_length d) x \<or>
         straddles_object (io_iops_offset d) (io_iops_length d) x) (take ix_this ds)
     then iocr_error 24
     else if list_ex (straddles_object (io_iocs_offset d) (io_iocs_length d)) (take ix_this ds)
     then iocr_error 28
     else None)"

end
