(* ===== verification/Conn_Layout.thy ===== *)
theory Conn_Layout
  imports Conn_Desc Exp_Ident
begin

section \<open>The layout of the IO data of an IOCR\<close>

text \<open>
  What \<open>pf_cmdev_iocr_setup_desc\<close> makes: each subslot has one descriptor, and the array of descriptors
  is never left, because each descriptor belongs to an expected submodule and there is room for as
  many as an AR can expect.
\<close>

subsection \<open>Loops\<close>

lemma each_induct:
  assumes "P s" "\<And>x s. x \<in> set xs \<Longrightarrow> P s \<Longrightarrow> \<exists>s'. f x s = Some s' \<and> P s'"
  shows "\<exists>s'. each f xs s = Some s' \<and> P s'"
  using assms
proof (induction xs arbitrary: s)
  case (Cons x xs)
  obtain s1 where s1: "f x s = Some s1" "P s1" using Cons.prems(2) [of x s] Cons.prems(1) by auto
  have "\<exists>s'. each f xs s1 = Some s' \<and> P s'" by (rule Cons.IH [OF s1(2)]) (simp add: Cons.prems(2))
  then show ?case using s1 by simp
qed simp

lemma each_invariant:
  assumes "each f xs s = Some s'" "P s" "\<And>x s s'. x \<in> set xs \<Longrightarrow> P s \<Longrightarrow> f x s = Some s' \<Longrightarrow> P s'"
  shows "P s'"
  using assms
proof (induction xs arbitrary: s)
  case (Cons x xs)
  obtain s1 where s1: "f x s = Some s1" "each f xs s1 = Some s'" using Cons.prems(1) by (auto simp: bind_eq_Some_conv)
  show ?case by (rule Cons.IH [OF s1(2)]) (use Cons.prems s1 in auto)
qed simp

subsection \<open>Positions of expected submodules\<close>

abbreviation exp_sub_of :: "pf_exp_ident \<Rightarrow> u32 \<times> u16 \<times> u16 \<Rightarrow> subslot_ptr option" where
  "exp_sub_of e k \<equiv> pf_cmdev_get_exp_sub e (fst k) (fst (snd k)) (snd (snd k))"

lemma exp_sub_of_key:
  assumes "exp_sub_of e k = Some (a, m, s)"
  shows "k = (ea_api (ei_api e ! a), em_slot_number (exp_mod_at e (a, m)), es_subslot_number (exp_sub_at e (a, m, s)))"
    and "a < unat (ei_nbr_apis e)" "m < unat (ea_nbr_modules (ei_api e ! a))" "s < unat (em_nbr_submodules (exp_mod_at e (a, m)))"
  using assms unfolding pf_cmdev_get_exp_sub_def pf_cmdev_get_exp_mod_def pf_cmdev_get_exp_api_def
  by (auto simp: bind_eq_Some_conv find_Some_iff exp_mod_at_def prod_eq_iff)

definition ident_limits :: "pf_exp_ident \<Rightarrow> bool" where
  "ident_limits e \<longleftrightarrow> unat (ei_nbr_apis e) \<le> PNET_MAX_API \<and>
     (\<forall>a < unat (ei_nbr_apis e). unat (ea_nbr_modules (ei_api e ! a)) \<le> PNET_MAX_SLOTS \<and>
       (\<forall>m < unat (ea_nbr_modules (ei_api e ! a)). unat (em_nbr_submodules (exp_mod_at e (a, m))) \<le> PNET_MAX_SUBSLOTS))"

lemma parsed_limits:
  assumes "ident_sized e" "ident_counts e"
  shows "ident_limits e"
proof -
  have c: "api_counts (ei_api e ! a)" "api_sized (ei_api e ! a)" if "a < unat (ei_nbr_apis e)" for a
  proof -
    have k: "length (take (unat (ei_nbr_apis e)) (ei_api e)) = unat (ei_nbr_apis e)" using assms(1) by (simp add: ident_sized_def)
    show "api_counts (ei_api e ! a)" using assms(2) that unfolding ident_counts_def list_all_length k by simp
    show "api_sized (ei_api e ! a)" using assms(1) that by (simp add: ident_sized_def list_all_length)
  qed
  have "unat (em_nbr_submodules (exp_mod_at e (a, m))) \<le> PNET_MAX_SUBSLOTS"
    if "a < unat (ei_nbr_apis e)" "m < unat (ea_nbr_modules (ei_api e ! a))" for a m
    using c [OF that(1)] that(2) by (simp add: api_sized_def api_counts_def exp_mod_at_def list_all_length)
  then show ?thesis using assms(1) c(2) by (simp add: ident_limits_def ident_sized_def api_sized_def)
qed

lemma keys_bounded:
  assumes "ident_limits e" "distinct ks" "\<And>k. k \<in> set ks \<Longrightarrow> exp_sub_of e k \<noteq> None"
  shows "length ks \<le> MAX_DATA_DESC"
proof -
  let ?f = "\<lambda>k. the (exp_sub_of e k)"
  let ?P = "{..<PNET_MAX_API} \<times> {..<PNET_MAX_SLOTS} \<times> {..<PNET_MAX_SUBSLOTS}"
  have inj: "inj_on ?f (set ks)"
  proof (rule inj_onI)
    fix k l assume "k \<in> set ks" "l \<in> set ks" "?f k = ?f l"
    then obtain a m s where "exp_sub_of e k = Some (a, m, s)" "exp_sub_of e l = Some (a, m, s)"
      using assms(3) by (metis option.collapse prod.exhaust)
    then show "k = l" using exp_sub_of_key(1) by metis
  qed
  have "?f k \<in> ?P" if k: "k \<in> set ks" for k
  proof -
    obtain a m s where f: "exp_sub_of e k = Some (a, m, s)" using assms(3) [OF k] by (metis option.collapse prod.exhaust)
    show ?thesis using exp_sub_of_key(2-) [OF f] assms(1) f by (fastforce simp: ident_limits_def)
  qed
  then have "?f ` set ks \<subseteq> ?P" by (rule image_subsetI)
  then have "card (?f ` set ks) \<le> card ?P" by (intro card_mono) auto
  then show ?thesis using card_image [OF inj] distinct_card [OF assms(2)] by (simp add: MAX_DATA_DESC_def mult.assoc)
qed

subsection \<open>The descriptors while they are made\<close>

text \<open>The provider status is behind the data.\<close>

definition iops_follows :: "io_object \<Rightarrow> bool" where
  "iops_follows d \<longleftrightarrow> io_iops_offset d = io_data_offset d + io_data_length d"

definition keys_ok :: "pf_exp_ident \<Rightarrow> io_object list \<Rightarrow> bool" where
  "keys_ok e ds \<longleftrightarrow> distinct (map object_key ds) \<and> (\<forall>d\<in>set ds. exp_sub_of e (object_key d) \<noteq> None \<and> iops_follows d)"

lemma iops_follows_intros [simp]:
  "iops_follows (new_object k)" "iops_follows (set_data_iops dir s x f d)" "iops_follows (set_iocs s x f d) \<longleftrightarrow> iops_follows d"
  by (simp_all add: iops_follows_def new_object_def set_data_iops_def set_iocs_def Let_def)

lemma object_key_new [simp]: "object_key (new_object k) = k"
  by (simp add: object_key_def new_object_def)

lemma object_for_keys:
  assumes "object_for k ds = Some (i, ds')" "keys_ok e ds" "exp_sub_of e k \<noteq> None"
  shows "keys_ok e ds'" "i < length ds'" "object_key (ds' ! i) = k" "iops_follows (ds' ! i)"
proof -
  have "keys_ok e ds' \<and> i < length ds' \<and> object_key (ds' ! i) = k"
  proof (cases "find (\<lambda>i. object_key (ds ! i) = k) [0 ..< length ds]")
    case None
    then have "\<forall>d\<in>set ds. object_key d \<noteq> k" by (auto simp: find_None_iff in_set_conv_nth)
    moreover have "i = length ds" "ds' = ds @ [new_object k]" using assms(1) None by (simp_all add: object_for_def split: if_splits)
    ultimately show ?thesis using assms(2,3) by (auto simp: keys_ok_def)
  next
    case (Some j)
    then have "i = j" "ds' = ds" using assms(1) by (simp_all add: object_for_def)
    then show ?thesis using Some assms(2) by (auto simp: find_Some_iff)
  qed
  then show "keys_ok e ds'" "i < length ds'" "object_key (ds' ! i) = k" by auto
  then show "iops_follows (ds' ! i)" by (simp add: keys_ok_def)
qed

lemma object_for_room:
  assumes "ident_limits e" "keys_ok e ds" "exp_sub_of e k \<noteq> None"
  shows "object_for k ds \<noteq> None"
proof (cases "find (\<lambda>i. object_key (ds ! i) = k) [0 ..< length ds]")
  case None
  then have "k \<notin> set (map object_key ds)" by (auto simp: find_None_iff in_set_conv_nth)
  then have "length (k # map object_key ds) \<le> MAX_DATA_DESC"
    using assms(2,3) by (intro keys_bounded [OF assms(1)]) (auto simp: keys_ok_def)
  then show ?thesis using None by (simp add: object_for_def)
qed (simp add: object_for_def)

lemma keys_update:
  assumes "keys_ok e ds" "i < length ds" "object_key d = object_key (ds ! i)" "iops_follows d"
  shows "keys_ok e (ds[i := d])"
proof -
  have keys: "map object_key (ds[i := d]) = map object_key ds"
    using assms(2,3) by (metis list_update_id list_update_same_conv map_update nth_map length_map)
  have split: "keys_ok e xs \<longleftrightarrow> distinct (map object_key xs) \<and> (\<forall>k\<in>set (map object_key xs). exp_sub_of e k \<noteq> None) \<and>
      (\<forall>d\<in>set xs. iops_follows d)" for xs
    unfolding keys_ok_def by auto
  have "\<forall>d\<in>set (ds[i := d]). iops_follows d" using assms set_update_subset_insert [of ds i d] unfolding keys_ok_def by blast
  then show ?thesis using assms(1) unfolding split keys by blast
qed

lemma key_of_set_data_iops [simp]: "object_key (set_data_iops dir s x k d) = object_key d"
  by (simp add: set_data_iops_def object_key_def Let_def)

lemma key_of_set_iocs [simp]: "object_key (set_iocs s x k d) = object_key d"
  by (simp add: set_iocs_def object_key_def)

lemma desc_of_add_length [simp]: "ci_data_desc (add_length dir k c) = ci_data_desc c" "ci_param (add_length dir k c) = ci_param c"
  by (simp_all add: add_length_def)

lemma data_iops_entry:
  assumes "ident_limits e" "keys_ok e (ci_data_desc c)"
  shows "\<exists>c'. setup_data_iops_entry e dir x c = Some c' \<and> keys_ok e (ci_data_desc c')"
proof (cases "\<exists>p desc. exp_sub_of e (fst x, fd_slot_number (snd x), fd_subslot_number (snd x)) = Some p \<and>
    pf_cmdev_get_exp_sub_data_descriptor (exp_sub_at e p) dir PF_DEV_STATUS_TYPE_IOPS = Some desc")
  case True
  let ?k = "(fst x, fd_slot_number (snd x), fd_subslot_number (snd x))"
  obtain p desc where d: "exp_sub_of e ?k = Some p"
    "pf_cmdev_get_exp_sub_data_descriptor (exp_sub_at e p) dir PF_DEV_STATUS_TYPE_IOPS = Some desc" using True by blast
  then have sub: "exp_sub_of e ?k \<noteq> None" by simp
  obtain i ds where o: "object_for ?k (ci_data_desc c) = Some (i, ds)"
    using object_for_room [OF assms sub] by auto
  have "keys_ok e (ds[i := set_data_iops dir (exp_sub_at e p) desc (fd_frame_offset (snd x)) (ds ! i)])"
    using object_for_keys [OF o assms(2) sub] by (intro keys_update) auto
  then show ?thesis using d o by (simp add: setup_data_iops_entry_def split_beta Let_def)
next
  case False
  then show ?thesis using assms(2) by (auto simp: setup_data_iops_entry_def split_beta split: option.splits)
qed

lemma iocs_entry:
  assumes "ident_limits e" "keys_ok e (ci_data_desc (snd rc))"
  shows "\<exists>rc'. setup_iocs_entry e dir x rc = Some rc' \<and> keys_ok e (ci_data_desc (snd rc'))"
proof (cases "\<exists>p desc. exp_sub_of e (fst x, fd_slot_number (snd x), fd_subslot_number (snd x)) = Some p \<and>
    pf_cmdev_get_exp_sub_data_descriptor (exp_sub_at e p) dir PF_DEV_STATUS_TYPE_IOCS = Some desc")
  case True
  let ?k = "(fst x, fd_slot_number (snd x), fd_subslot_number (snd x))"
  obtain p desc where d: "exp_sub_of e ?k = Some p"
    "pf_cmdev_get_exp_sub_data_descriptor (exp_sub_at e p) dir PF_DEV_STATUS_TYPE_IOCS = Some desc" using True by blast
  then have sub: "exp_sub_of e ?k \<noteq> None" by simp
  obtain i ds where o: "object_for ?k (ci_data_desc (snd rc)) = Some (i, ds)"
    using object_for_room [OF assms sub] by auto
  have "keys_ok e (ds[i := set_iocs (exp_sub_at e p) desc (fd_frame_offset (snd x)) (ds ! i)])"
    using object_for_keys [OF o assms(2) sub] by (intro keys_update) auto
  then show ?thesis using d o by (simp add: setup_iocs_entry_def split_beta Let_def)
next
  case False
  then show ?thesis using assms(2) by (cases rc) (auto simp: setup_iocs_entry_def split_beta split: option.splits)
qed

lemma setup_desc_keys:
  assumes "ident_limits e"
  shows "\<exists>rc. pf_cmdev_iocr_setup_desc e c = Some rc \<and> keys_ok e (ci_data_desc (snd rc))"
proof -
  let ?dir = "iocr_direction (ci_param c)" and ?c0 = "c\<lparr>ci_in_length := 0, ci_out_length := 0, ci_data_desc := []\<rparr>"
  obtain c1 where c1: "pf_cmdev_iocr_setup_data_iops e ?dir ?c0 = Some c1" "keys_ok e (ci_data_desc c1)"
    using each_induct [of "\<lambda>c. keys_ok e (ci_data_desc c)" ?c0 "io_data_entries (ci_param ?c0)" "setup_data_iops_entry e ?dir"]
      data_iops_entry [OF assms] by (auto simp: pf_cmdev_iocr_setup_data_iops_def keys_ok_def)
  obtain rc where "pf_cmdev_iocr_setup_iocs e ?dir c1 = Some rc" "keys_ok e (ci_data_desc (snd rc))"
    using each_induct [of "\<lambda>rc. keys_ok e (ci_data_desc (snd rc))" "(0, c1)" "iocs_entries (ci_param c1)" "setup_iocs_entry e ?dir"]
      iocs_entry [OF assms] c1(2) by (auto simp: pf_cmdev_iocr_setup_iocs_def)
  then show ?thesis using c1(1) by (auto simp: pf_cmdev_iocr_setup_desc_def Let_def)
qed


end
