(* ===== verification/Conn_Config.thy ===== *)
theory Conn_Config
  imports Conn_Desc
begin

section \<open>Connect requests: the final check of the IOCRs\<close>

text \<open>
  \<open>pf_cmdev_check_iocr_apis\<close>: the APIs and subslots of an IOCR are expected, each subslot occurs once
  in its data and once in its IOCS, the directions fit, and the areas are inside the C-SDU and do not
  overlap. No error ends the loops; the last one stays. A result of \<open>-1\<close> and an error in \<open>p_stat\<close> come
  together, so the error alone is the result.
\<close>

text \<open>The last module and the last submodule with a number.\<close>

definition last_module :: "pf_exp_api \<Rightarrow> u16 \<Rightarrow> pf_exp_module option" where
  "last_module ea slot = find (\<lambda>m. em_slot_number m = slot) (rev (take (unat (ea_nbr_modules ea)) (ea_module ea)))"

definition last_submodule :: "pf_exp_module \<Rightarrow> u16 \<Rightarrow> pf_exp_submodule option" where
  "last_submodule m subslot =
     find (\<lambda>s. es_subslot_number s = subslot) (rev (take (unat (em_nbr_submodules m)) (em_submodule m)))"

text \<open>Each slot and subslot occurs once in the list.\<close>

definition same_place :: "pf_frame_descriptor \<Rightarrow> pf_frame_descriptor \<Rightarrow> bool" where
  "same_place x y \<longleftrightarrow> fd_slot_number y = fd_slot_number x \<and> fd_subslot_number y = fd_subslot_number x"

definition unique_fault :: "u8 \<Rightarrow> pf_frame_descriptor list \<Rightarrow> fault" where
  "unique_fault code xs = (if list_all (\<lambda>x. length (filter (same_place x) xs) = 1) xs then None else iocr_error code)"

definition consumer_type :: "pf_iocr_param \<Rightarrow> bool" where
  "consumer_type p \<longleftrightarrow> has_iocr_type PF_IOCR_TYPE_OUTPUT p \<or> has_iocr_type PF_IOCR_TYPE_MC_CONSUMER p"

definition provider_type :: "pf_iocr_param \<Rightarrow> bool" where
  "provider_type p \<longleftrightarrow> has_iocr_type PF_IOCR_TYPE_INPUT p \<or> has_iocr_type PF_IOCR_TYPE_MC_PROVIDER p"

definition io_data_direction_fault :: "pf_iocr_param \<Rightarrow> pf_exp_submodule \<Rightarrow> fault" where
  "io_data_direction_fault p s = (let t = sp_type (es_properties s) in
     if (t = dir_code PNET_DIR_NO_IO \<or> t = dir_code PNET_DIR_INPUT) \<and> consumer_type p then iocr_error 23
     else if t = dir_code PNET_DIR_OUTPUT \<and> provider_type p then iocr_error 23
     else None)"

definition io_data_fault :: "pf_iocr_param \<Rightarrow> pf_exp_api \<Rightarrow> pf_frame_descriptor \<Rightarrow> fault \<Rightarrow> fault" where
  "io_data_fault p ea fd e = (case last_module ea (fd_slot_number fd) of
     None \<Rightarrow> iocr_error 22
   | Some m \<Rightarrow> (case last_submodule m (fd_subslot_number fd) of
       None \<Rightarrow> iocr_error 23
     | Some s \<Rightarrow> or_fault e (io_data_direction_fault p s)))"

definition iocs_direction_fault :: "pf_iocr_param \<Rightarrow> pf_exp_submodule \<Rightarrow> fault" where
  "iocs_direction_fault p s = (let t = sp_type (es_properties s) in
     if (t = dir_code PNET_DIR_NO_IO \<or> t = dir_code PNET_DIR_INPUT) \<and> has_iocr_type PF_IOCR_TYPE_INPUT p then iocr_error 27
     else if t = dir_code PNET_DIR_OUTPUT \<and> has_iocr_type PF_IOCR_TYPE_OUTPUT p then iocr_error 27
     else if t = dir_code PNET_DIR_IO \<and> es_nbr_data_descriptors s \<noteq> 2 then iocr_error 28
     else None)"

definition iocs_fault :: "pf_iocr_param \<Rightarrow> pf_exp_api \<Rightarrow> pf_frame_descriptor \<Rightarrow> fault \<Rightarrow> fault" where
  "iocs_fault p ea fd e = (case last_module ea (fd_slot_number fd) of
     None \<Rightarrow> iocr_error 27
   | Some m \<Rightarrow> (case last_submodule m (fd_subslot_number fd) of
       None \<Rightarrow> iocr_error 27
     | Some s \<Rightarrow> or_fault e (iocs_direction_fault p s)))"

text \<open>A part that is only done while there is no error.\<close>

definition if_ok :: "(fault \<Rightarrow> fault) \<Rightarrow> fault \<Rightarrow> fault" where
  "if_ok f e = (case e of None \<Rightarrow> f None | Some x \<Rightarrow> Some x)"

definition iocr_api_fault :: "pf_exp_ident \<Rightarrow> pf_iocr_param \<Rightarrow> pf_api_entry \<Rightarrow> fault \<Rightarrow> fault" where
  "iocr_api_fault ei p a e = (case pf_cmdev_get_exp_api ei (ae_api a) of
     None \<Rightarrow> iocr_error 20
   | Some ix \<Rightarrow> let
       ea = ei_api ei ! ix;
       e = then_fault e (if ae_nbr_io_data a = 0 \<and> ae_nbr_iocs a = 0 then iocr_error 21 else None)
       in if_ok (\<lambda>e. let
           e = unique_fault 23 (used_io_data a);
           e = fold (io_data_fault p ea) (used_io_data a) e;
           e = or_fault e (unique_fault 27 (used_iocs a))
           in if_ok (fold (iocs_fault p ea) (used_iocs a)) e) e)"

definition object_range_fault :: "u16 \<Rightarrow> io_object \<Rightarrow> fault" where
  "object_range_fault c_sdu_length d =
     (if unat (io_data_offset d) + unat (io_data_length d) > unat c_sdu_length then iocr_error 24
      else if unat (io_iops_offset d) + unat (io_iops_length d) > unat c_sdu_length then iocr_error 24
      else if unat (io_iocs_offset d) + unat (io_iocs_length d) > unat c_sdu_length then iocr_error 28
      else None)"

definition object_fault :: "u16 \<Rightarrow> io_object list \<Rightarrow> nat \<Rightarrow> fault \<Rightarrow> fault" where
  "object_fault c_sdu_length ds ix =
     if_ok (\<lambda>_. or_fault (object_range_fault c_sdu_length (ds ! ix)) (pf_cmdev_check_iocr_overlap ds ix))"

definition iocr_apis_fault :: "pf_exp_ident \<Rightarrow> conn_iocr \<Rightarrow> fault \<Rightarrow> fault" where
  "iocr_apis_fault ei c e = (let
     e = fold (iocr_api_fault ei (ci_param c)) (used_apis (ci_param c)) e
     in fold (object_fault (cp_c_sdu_length (ci_param c)) (ci_data_desc c)) [0 ..< length (ci_data_desc c)] e)"

definition pf_cmdev_check_iocr_apis :: "pf_exp_ident \<Rightarrow> conn_iocr list \<Rightarrow> fault" where
  "pf_cmdev_check_iocr_apis ei cs = fold (iocr_apis_fault ei) cs None"


section \<open>Connect requests: the expected configuration\<close>

text \<open>
  \<open>pf_cmdev.c\<close> compares the expected modules with the device: modules that are missing are offered
  to the application, which may plug them; the submodules that the AR gets are marked as its own. Then
  follow the rest of the checks (\<open>pf_cmdev_check_apdu\<close>).
\<close>

subsection \<open>The application\<close>

record data_cfg =
  cfg_data_dir :: u8
  cfg_insize :: u16
  cfg_outsize :: u16

text \<open>The two callbacks, with what they do to the device; their results are not used.\<close>

record app =
  exp_module_ind :: "u32 \<Rightarrow> u16 \<Rightarrow> u32 \<Rightarrow> dev_net \<Rightarrow> dev_net option"
  exp_submodule_ind :: "u32 \<Rightarrow> u16 \<Rightarrow> u16 \<Rightarrow> u32 \<Rightarrow> u32 \<Rightarrow> data_cfg \<Rightarrow> dev_net \<Rightarrow> dev_net option"

definition exp_data_cfg :: "pf_exp_submodule \<Rightarrow> data_cfg" where
  "exp_data_cfg s = fold (\<lambda>x c. let
     c = (if dd_data_direction x = PF_DIRECTION_INPUT
       then c\<lparr>cfg_data_dir := cfg_data_dir c OR dir_code PNET_DIR_INPUT, cfg_insize := dd_submodule_data_length x\<rparr> else c)
     in if dd_data_direction x = PF_DIRECTION_OUTPUT
       then c\<lparr>cfg_data_dir := cfg_data_dir c OR dir_code PNET_DIR_OUTPUT, cfg_outsize := dd_submodule_data_length x\<rparr> else c)
     (used_descriptors s) \<lparr>cfg_data_dir = 0, cfg_insize = 0, cfg_outsize = 0\<rparr>"

subsection \<open>Checks of one submodule\<close>

definition used_in_iocr :: "u32 \<Rightarrow> u16 \<Rightarrow> u16 \<Rightarrow> pf_iocr_param \<Rightarrow> bool" where
  "used_in_iocr api slot subslot p \<longleftrightarrow> list_ex (\<lambda>a. ae_api a = api \<and>
     list_ex (\<lambda>fd. fd_slot_number fd = slot \<and> fd_subslot_number fd = subslot) (used_io_data a @ used_iocs a)) (used_apis p)"

definition wrong_descriptors :: "pf_exp_submodule \<Rightarrow> bool" where
  "wrong_descriptors s = (let
     t = sp_type (es_properties s);
     k = es_nbr_data_descriptors s;
     dir0 = dd_data_direction (es_data_descriptor s ! 0);
     dir1 = dd_data_direction (es_data_descriptor s ! 1)
     in (t = dir_code PNET_DIR_NO_IO \<or> t = dir_code PNET_DIR_INPUT) \<and> \<not> (k = 1 \<and> dir0 = PF_DIRECTION_INPUT) \<or>
        t = dir_code PNET_DIR_OUTPUT \<and> \<not> (k = 1 \<and> dir0 = PF_DIRECTION_OUTPUT) \<or>
        t = dir_code PNET_DIR_IO \<and> \<not> (k = 2 \<and> (dir0 = PF_DIRECTION_INPUT \<or> dir1 = PF_DIRECTION_INPUT) \<and>
          (dir0 = PF_DIRECTION_OUTPUT \<or> dir1 = PF_DIRECTION_OUTPUT)))"

definition descriptor_fault :: "u8 \<Rightarrow> pf_data_descriptor \<Rightarrow> fault" where
  "descriptor_fault t x =
     (if dd_data_direction x \<noteq> PF_DIRECTION_INPUT \<and> dd_data_direction x \<noteq> PF_DIRECTION_OUTPUT then exp_error 13
      else if dd_data_direction x = PF_DIRECTION_INPUT \<and> t = dir_code PNET_DIR_OUTPUT then exp_error 13
      else if dd_data_direction x = PF_DIRECTION_OUTPUT \<and> t \<noteq> dir_code PNET_DIR_OUTPUT \<and> t \<noteq> dir_code PNET_DIR_IO
      then exp_error 13
      else if dd_submodule_data_length x > 1439 \<or> t = dir_code PNET_DIR_NO_IO \<and> dd_submodule_data_length x \<noteq> 0
      then exp_error 14
      else if dd_length_iops x \<noteq> 1 then exp_error 15
      else if dd_length_iocs x \<noteq> 1 then exp_error 16
      else None)"

definition properties_fault :: "u32 \<Rightarrow> bool \<Rightarrow> pf_exp_submodule \<Rightarrow> fault" where
  "properties_fault api plugged s = (let
     props = es_properties s;
     t = sp_type props
     in if es_subslot_number s > 0x9FFF then exp_error 10
        else if \<not> plugged then exp_error 10
        else if es_subslot_number s \<ge> PNET_SUBSLOT_DAP_INTERFACE_1_IDENT \<and> api \<noteq> 0 then exp_error 10
        else if wrong_descriptors s then exp_error 12
        else if t = dir_code PNET_DIR_OUTPUT \<and> sp_sharedInput props then exp_error 12
        else if sp_reduce_input_submodule_data_length props \<and> (t = dir_code PNET_DIR_INPUT \<or> t = dir_code PNET_DIR_IO)
        then exp_error 12
        else if sp_reduce_output_submodule_data_length props \<and> (t = dir_code PNET_DIR_OUTPUT \<or> t = dir_code PNET_DIR_IO)
        then exp_error 12
        else if sp_discard_ioxs props \<and> t \<noteq> dir_code PNET_DIR_IO then exp_error 12
        else fold (\<lambda>x e. then_fault e (descriptor_fault t x)) (used_descriptors s) None)"

subsection \<open>Submodules, modules, APIs\<close>

text \<open>The state of these loops: the error so far, and the device.\<close>

definition configure_submodule ::
    "app \<Rightarrow> nat \<Rightarrow> pf_iocr_param list \<Rightarrow> u32 \<Rightarrow> pf_exp_module \<Rightarrow> slot_ptr \<Rightarrow> nat \<Rightarrow> fault \<times> dev_net \<Rightarrow> (fault \<times> dev_net) option" where
  "configure_submodule app a ps api m p_cfg_slot sub_ix st = (let
     (e, n) = st;
     s = em_submodule m ! sub_ix;
     nr = es_subslot_number s
     in do {
       n \<leftarrow> (if pf_cmdev_get_subslot p_cfg_slot nr (dn_dev n) = None
         then exp_submodule_ind app api (em_slot_number m) nr (em_ident_number m) (es_ident_number s) (exp_data_cfg s) n
         else Some n);
       let e = or_fault e (if \<exists>x\<in>set (take sub_ix (em_submodule m)). es_subslot_number x = nr then exp_error 10 else None);
       let e = or_fault e (if list_ex (used_in_iocr api (em_slot_number m) nr) ps then None else exp_error 10);
       let e = or_fault e (properties_fault api (pf_cmdev_get_subslot p_cfg_slot nr (dn_dev n) \<noteq> None) s);
       Some (e, case pf_cmdev_get_subslot p_cfg_slot nr (dn_dev n) of
         None \<Rightarrow> n
       | Some q \<Rightarrow> if e = None \<and> ownsm_state (subslot_at (dn_dev n) q) = PF_OWNSM_STATE_FREE
           then n\<lparr>dn_dev := upd_subslot q (\<lambda>x. x\<lparr>ownsm_state := PF_OWNSM_STATE_IOC, owner := Some a\<rparr>) (dn_dev n)\<rparr>
           else n)
     })"

definition pf_cmdev_exp_submodule_configure ::
    "app \<Rightarrow> nat \<Rightarrow> pf_iocr_param list \<Rightarrow> u32 \<Rightarrow> pf_exp_module \<Rightarrow> slot_ptr \<Rightarrow> dev_net \<Rightarrow> (fault \<times> dev_net) option" where
  "pf_cmdev_exp_submodule_configure app a ps api m p_cfg_slot n =
     each (configure_submodule app a ps api m p_cfg_slot) [0 ..< unat (em_nbr_submodules m)] (None, n)"

definition configure_module ::
    "app \<Rightarrow> nat \<Rightarrow> pf_iocr_param list \<Rightarrow> pf_exp_api \<Rightarrow> nat \<Rightarrow> nat \<Rightarrow> fault \<times> dev_net \<Rightarrow> (fault \<times> dev_net) option" where
  "configure_module app a ps ea p_cfg_api mod_ix st = (case st of
     (Some e, n) \<Rightarrow> Some (Some e, n)
   | (None, n) \<Rightarrow> let
       m = ea_module ea ! mod_ix;
       slot = em_slot_number m;
       e = (if \<exists>x\<in>set (take mod_ix (ea_module ea)). em_slot_number x = slot then exp_error 6 else None)
       in do {
         n \<leftarrow> (if pf_cmdev_get_slot p_cfg_api slot (dn_dev n) = None
           then exp_module_ind app (ea_api ea) slot (em_ident_number m) n else Some n);
         if e \<noteq> None then Some (e, n)
         else if slot > 0x7FFF then Some (exp_error 6, n)
         else case pf_cmdev_get_slot p_cfg_api slot (dn_dev n) of
             None \<Rightarrow> Some (exp_error 6, n)
           | Some p_cfg_slot \<Rightarrow>
               if em_ident_number m = 0 then Some (exp_error 7, n)
               else if em_nbr_submodules m = 0 then Some (exp_error 9, n)
               else pf_cmdev_exp_submodule_configure app a ps (ea_api ea) m p_cfg_slot n
       })"

definition pf_cmdev_exp_modules_configure ::
    "app \<Rightarrow> nat \<Rightarrow> pf_iocr_param list \<Rightarrow> pf_exp_api \<Rightarrow> nat \<Rightarrow> dev_net \<Rightarrow> (fault \<times> dev_net) option" where
  "pf_cmdev_exp_modules_configure app a ps ea p_cfg_api n =
     each (configure_module app a ps ea p_cfg_api) [0 ..< unat (ea_nbr_modules ea)] (None, n)"

text \<open>An API that is missing and for which there is no room is passed over, without an error.\<close>

definition configure_api ::
    "app \<Rightarrow> nat \<Rightarrow> pf_iocr_param list \<Rightarrow> nat \<Rightarrow> fault \<times> pf_exp_ident \<times> dev_net \<Rightarrow> (fault \<times> pf_exp_ident \<times> dev_net) option" where
  "configure_api app a ps ix st = (case st of
     (Some e, x) \<Rightarrow> Some (Some e, x)
   | (None, ei, n) \<Rightarrow> let
       api = ea_api (ei_api ei ! ix);
       (p, d) = (case pf_cmdev_get_api api (dn_dev n) of
         Some p \<Rightarrow> (Some p, dn_dev n)
       | None \<Rightarrow> pf_cmdev_new_api api (dn_dev n));
       n = n\<lparr>dn_dev := d\<rparr>
       in case p of
         None \<Rightarrow> Some (None, ei, n)
       | Some p_cfg_api \<Rightarrow> do {
           (e, n) \<leftarrow> pf_cmdev_exp_modules_configure app a ps (ei_api ei ! ix) p_cfg_api n;
           Some (e, ei\<lparr>ei_api := upd ix (ea_valid_update (\<lambda>_. e = None)) (ei_api ei)\<rparr>, n)
         })"

definition pf_cmdev_exp_apis_configure :: "app \<Rightarrow> nat \<Rightarrow> conn_ar \<Rightarrow> dev_net \<Rightarrow> (fault \<times> conn_ar \<times> dev_net) option" where
  "pf_cmdev_exp_apis_configure app a r n =
     (if \<not> device_access (ca_properties r) \<and> ei_nbr_apis (ca_exp_ident r) = 0 then Some (exp_error 4, r, n)
      else do {
        (e, ei, n) \<leftarrow> each (configure_api app a (map ci_param (ca_iocrs r))) [0 ..< unat (ei_nbr_apis (ca_exp_ident r))]
          (None, ca_exp_ident r, n);
        Some (e, r\<lparr>ca_exp_ident := ei\<rparr>, n)
      })"

subsection \<open>The whole check\<close>

text \<open>The descriptors of all IOCRs; after a failure the others are left.\<close>

primrec setup_all :: "pf_exp_ident \<Rightarrow> conn_iocr list \<Rightarrow> (int \<times> conn_iocr list) option" where
  "setup_all e [] = Some (0, [])"
| "setup_all e (c # cs) = do {
     (ret, c) \<leftarrow> pf_cmdev_iocr_setup_desc e c;
     if ret \<noteq> 0 then Some (ret, c # cs)
     else do { (ret, cs) \<leftarrow> setup_all e cs; Some (ret, c # cs) }
   }"

definition block_count_fault :: "conn_ar \<Rightarrow> fault" where
  "block_count_fault r =
     (if \<not> device_access (ca_properties r) \<and> (ca_input_cr_cnt r = 0 \<or> ca_output_cr_cnt r = 0)
      then conn_error PNET_ERROR_CODE_1_CMRPC PNET_ERROR_CODE_2_CMRPC_IOCR_MISSING
      else if \<not> device_access (ca_properties r) \<and> ca_nbr_alarm_cr r \<noteq> 1
      then conn_error PNET_ERROR_CODE_1_CMRPC PNET_ERROR_CODE_2_CMRPC_WRONG_BLOCK_COUNT
      else if \<not> ca_ir_info_valid r \<and> ca_rtc3_present r
      then conn_error PNET_ERROR_CODE_1_CMRPC PNET_ERROR_CODE_2_CMRPC_WRONG_BLOCK_COUNT
      else None)"

text \<open>
  The result is \<open>True\<close> when the request is accepted. It can be refused without an error in \<open>p_stat\<close>: when
  there is no AR block, or when \<open>pf_cmdev_iocr_setup_iocs\<close> fails.
\<close>

definition pf_cmdev_check_apdu :: "app \<Rightarrow> nat \<Rightarrow> nat \<Rightarrow> conn_ar \<Rightarrow> dev_net \<Rightarrow> (bool \<times> fault \<times> conn_ar \<times> dev_net) option" where
  "pf_cmdev_check_apdu app min_device_interval a r n =
     (if ca_nbr_ar_param r = 0 then Some (False, None, r, n)
      else case or_fault (pf_cmdev_check_ar_param (ca_param r))
          (pf_cmdev_check_iocr_param_full min_device_interval (ca_param r) (map ci_param (ca_iocrs r))) of
        Some e \<Rightarrow> Some (False, Some e, r, n)
      | None \<Rightarrow> do {
          (e, r, n) \<leftarrow> pf_cmdev_exp_apis_configure app a r n;
          if e \<noteq> None then Some (False, e, r, n)
          else do {
            (ret, cs) \<leftarrow> setup_all (ca_exp_ident r) (ca_iocrs r);
            let r = r\<lparr>ca_iocrs := cs\<rparr>;
            if ret \<noteq> 0 then Some (False, None, r, n)
            else let e = or_fault (pf_cmdev_check_iocr_apis (ca_exp_ident r) cs) (or_fault (block_count_fault r)
                (or_fault (if ca_nbr_alarm_cr r > 0 then pf_cmdev_check_alarm_cr (ca_param r) (ca_alarm_cr_request r) else None)
                  (if ca_nbr_rpc_server r > 0 then pf_cmdev_check_ar_rpc (ca_initiator_rpc_server_port r) else None)))
              in Some (e = None, e, r, n)
          }
        })"

end
