(* ===== verification/Conn_Diff.thy ===== *)
theory Conn_Diff
  imports Conn_Config
begin

section \<open>Connect requests: the module difference and the answer\<close>

text \<open>
  \<open>pf_cmdev_generate_module_diff\<close> compares the expected identification with the device and notes, for
  the answer, the APIs, modules and submodules that differ; \<open>pf_cmdev_generate_submodule_diff\<close> does it
  for one subslot. The lists of indices \<open>diff_api\<close>, \<open>diff_module\<close> and \<open>diff_submodule\<close> are arrays with
  a count. Also the frame IDs that the device chooses.
\<close>

definition PF_MODULE_STATE_PROPER_MODULE :: u16 where "PF_MODULE_STATE_PROPER_MODULE = 2"
definition PF_MODULE_STATE_SUBSTITUTE :: u16 where "PF_MODULE_STATE_SUBSTITUTE = 3"
definition PF_AR_INFO_OWN :: u8 where "PF_AR_INFO_OWN = 0"
definition PF_AR_INFO_LOCKED_BY_IO_CONTROLLER :: u8 where "PF_AR_INFO_LOCKED_BY_IO_CONTROLLER = 3"
definition PF_IDENT_INFO_OK :: u8 where "PF_IDENT_INFO_OK = 0"
definition PF_IDENT_INFO_WRONG :: u8 where "PF_IDENT_INFO_WRONG = 2"

definition zero_submodule_state :: pf_submodule_state where
  "zero_submodule_state = \<lparr>ss_add_info = 0, ss_advice_avail = False, ss_maintenance_required = False,
     ss_maintenance_demanded = False, ss_fault = False, ss_ar_info = 0, ss_ident_info = 0, ss_format_indicator = False\<rparr>"

text \<open>The first entries of an array replaced, and a function on the first \<open>n\<close> entries.\<close>

definition set_front :: "'x list \<Rightarrow> 'x list \<Rightarrow> 'x list" where
  "set_front xs arr = xs @ drop (length xs) arr"

definition map_front :: "nat \<Rightarrow> ('x \<Rightarrow> 'x) \<Rightarrow> 'x list \<Rightarrow> 'x list" where
  "map_front n f xs = map f (take n xs) @ drop n xs"

text \<open>The indices of the entries that are listed as different.\<close>

definition listed :: "(nat \<Rightarrow> bool) \<Rightarrow> nat \<Rightarrow> u16 list" where
  "listed P n = map of_nat (filter P [0 ..< n])"

subsection \<open>One submodule\<close>

text \<open>The state of an expected submodule whose module is the expected one, and whether it is listed.\<close>

definition submodule_diff :: "nat \<Rightarrow> pf_device \<Rightarrow> slot_ptr \<Rightarrow> pf_exp_submodule \<Rightarrow> pf_submodule_state \<times> bool" where
  "submodule_diff a d p s = (let st = zero_submodule_state\<lparr>ss_format_indicator := True\<rparr> in
     case pf_cmdev_get_subslot p (es_subslot_number s) d of
       None \<Rightarrow> (st\<lparr>ss_ident_info := PF_IDENT_INFO_NO\<rparr>, True)
     | Some q \<Rightarrow> let x = subslot_at d q; g = diag_summary x in
         if es_ident_number s \<noteq> sub_ident_number x
         then (st\<lparr>ss_ar_info := PF_AR_INFO_OWN, ss_ident_info := PF_IDENT_INFO_WRONG\<rparr>, True)
         else if has_owner x \<and> owner x \<noteq> Some a
         then (st\<lparr>ss_ident_info := PF_IDENT_INFO_OK, ss_ar_info := PF_AR_INFO_LOCKED_BY_IO_CONTROLLER\<rparr>, True)
         else let st = st\<lparr>ss_ident_info := PF_IDENT_INFO_OK, ss_ar_info := PF_AR_INFO_OWN\<rparr> in
           if ds_fault g \<or> ds_maintenance_demanded g \<or> ds_maintenance_required g
           then (st\<lparr>ss_fault := ds_fault g, ss_maintenance_demanded := ds_maintenance_demanded g,
             ss_maintenance_required := ds_maintenance_required g\<rparr>, True)
           else (st, False))"

definition wrong_module_state :: pf_submodule_state where
  "wrong_module_state = zero_submodule_state\<lparr>ss_ar_info := PF_AR_INFO_OWN, ss_ident_info := PF_IDENT_INFO_WRONG,
     ss_format_indicator := True\<rparr>"

subsection \<open>All expected modules\<close>

text \<open>An expected module, and whether it is put into \<open>diff_module\<close>.\<close>

definition module_diff :: "nat \<Rightarrow> pf_device \<Rightarrow> nat \<Rightarrow> pf_exp_module \<Rightarrow> pf_exp_module \<times> bool" where
  "module_diff a d real_api m = (let
     m = m\<lparr>em_nbr_diff_submodules := 0\<rparr>;
     k = unat (em_nbr_submodules m)
     in case pf_cmdev_get_slot real_api (em_slot_number m) d of
       None \<Rightarrow> (m\<lparr>em_state := PF_MODULE_STATE_NO_MODULE\<rparr>, True)
     | Some p \<Rightarrow>
         if em_ident_number m \<noteq> slot_ident_number (slot_at d p)
         then (m\<lparr>em_state := PF_MODULE_STATE_SUBSTITUTE, em_nbr_diff_submodules := em_nbr_submodules m,
           em_submodule := map_front k (es_state_update (\<lambda>_. wrong_module_state)) (em_submodule m),
           em_diff_submodule := set_front (map of_nat [0 ..< k]) (em_diff_submodule m)\<rparr>, False)
         else let ix = listed (\<lambda>s. snd (submodule_diff a d p (em_submodule m ! s))) k in
           (m\<lparr>em_state := PF_MODULE_STATE_PROPER_MODULE,
             em_submodule := map_front k (\<lambda>s. s\<lparr>es_state := fst (submodule_diff a d p s)\<rparr>) (em_submodule m),
             em_nbr_diff_submodules := of_nat (length ix), em_diff_submodule := set_front ix (em_diff_submodule m)\<rparr>,
            ix \<noteq> []))"

definition api_diff :: "nat \<Rightarrow> pf_device \<Rightarrow> pf_exp_api \<Rightarrow> pf_exp_api \<times> bool" where
  "api_diff a d ea = (let k = unat (ea_nbr_modules ea) in
     case pf_cmdev_get_api (ea_api ea) d of
       None \<Rightarrow> (ea\<lparr>ea_nbr_diff_modules := ea_nbr_modules ea,
         ea_module := map_front k (\<lambda>m. m\<lparr>em_state := PF_MODULE_STATE_NO_MODULE, em_nbr_diff_submodules := 0\<rparr>) (ea_module ea),
         ea_diff_module := set_front (map of_nat [0 ..< k]) (ea_diff_module ea)\<rparr>, False)
     | Some real_api \<Rightarrow> let ix = listed (\<lambda>m. snd (module_diff a d real_api (ea_module ea ! m))) k in
         (ea\<lparr>ea_module := map_front k (\<lambda>m. fst (module_diff a d real_api m)) (ea_module ea),
           ea_nbr_diff_modules := of_nat (length ix), ea_diff_module := set_front ix (ea_diff_module ea)\<rparr>, ix \<noteq> []))"

definition pf_cmdev_generate_module_diff :: "nat \<Rightarrow> pf_device \<Rightarrow> pf_exp_ident \<Rightarrow> pf_exp_ident" where
  "pf_cmdev_generate_module_diff a d ei = (let
     k = unat (ei_nbr_apis ei);
     ix = listed (\<lambda>i. snd (api_diff a d (ei_api ei ! i))) k
     in ei\<lparr>ei_api := map_front k (\<lambda>ea. fst (api_diff a d ea)) (ei_api ei),
       ei_nbr_diff_apis := of_nat (length ix), ei_diff_api := set_front ix (ei_diff_api ei)\<rparr>)"

subsection \<open>One subslot\<close>

text \<open>
  In a wrong module the code compares the number of the submodule with the index of the module, and
  always marks the first submodule.
\<close>

definition one_module_diff :: "nat \<Rightarrow> pf_device \<Rightarrow> nat \<Rightarrow> u16 \<Rightarrow> u16 \<Rightarrow> nat \<Rightarrow> pf_exp_module \<Rightarrow> pf_exp_module \<times> bool" where
  "one_module_diff a d real_api slot subslot mod_ix m = (let
     m = m\<lparr>em_nbr_diff_submodules := 0\<rparr>;
     k = unat (em_nbr_submodules m)
     in if em_slot_number m \<noteq> slot then (m, False)
        else case pf_cmdev_get_slot real_api slot d of
          None \<Rightarrow> (m\<lparr>em_state := PF_MODULE_STATE_NO_MODULE\<rparr>, True)
        | Some p \<Rightarrow>
            if em_ident_number m \<noteq> slot_ident_number (slot_at d p)
            then (if k > 0 \<and> es_subslot_number (em_submodule m ! mod_ix) = subslot
              then m\<lparr>em_state := PF_MODULE_STATE_SUBSTITUTE,
                em_submodule := upd 0 (es_state_update (\<lambda>_. wrong_module_state)) (em_submodule m),
                em_diff_submodule := (em_diff_submodule m)[0 := 0], em_nbr_diff_submodules := 1\<rparr>
              else m\<lparr>em_state := PF_MODULE_STATE_SUBSTITUTE\<rparr>, False)
            else let
              ix = listed (\<lambda>s. es_subslot_number (em_submodule m ! s) = subslot \<and> snd (submodule_diff a d p (em_submodule m ! s))) k
              in (m\<lparr>em_state := PF_MODULE_STATE_PROPER_MODULE,
                em_submodule := map_front k (\<lambda>s. if es_subslot_number s = subslot
                  then s\<lparr>es_state := fst (submodule_diff a d p s)\<rparr> else s) (em_submodule m),
                em_nbr_diff_submodules := of_nat (length ix), em_diff_submodule := set_front ix (em_diff_submodule m)\<rparr>,
               ix \<noteq> []))"

definition one_api_diff :: "nat \<Rightarrow> pf_device \<Rightarrow> u32 \<Rightarrow> u16 \<Rightarrow> u16 \<Rightarrow> pf_exp_api \<Rightarrow> pf_exp_api \<times> bool" where
  "one_api_diff a d api slot subslot ea = (let
     ea = ea\<lparr>ea_nbr_diff_modules := 0\<rparr>;
     k = unat (ea_nbr_modules ea)
     in if ea_api ea \<noteq> api then (ea, False)
        else case pf_cmdev_get_api api d of
          None \<Rightarrow> (case find (\<lambda>m. em_slot_number (ea_module ea ! m) = slot) [0 ..< k] of
              None \<Rightarrow> ea
            | Some m \<Rightarrow> ea\<lparr>ea_module := upd m (\<lambda>x. x\<lparr>em_state := PF_MODULE_STATE_NO_MODULE, em_nbr_diff_submodules := 0\<rparr>) (ea_module ea),
                ea_diff_module := (ea_diff_module ea)[m := of_nat m], ea_nbr_diff_modules := 1\<rparr>, False)
        | Some real_api \<Rightarrow> let
            f = (\<lambda>m. one_module_diff a d real_api slot subslot m (ea_module ea ! m));
            ix = listed (\<lambda>m. snd (f m)) k
            in (ea\<lparr>ea_module := set_front (map (\<lambda>m. fst (f m)) [0 ..< k]) (ea_module ea),
                ea_nbr_diff_modules := of_nat (length ix), ea_diff_module := set_front ix (ea_diff_module ea)\<rparr>, ix \<noteq> []))"

definition pf_cmdev_generate_submodule_diff :: "nat \<Rightarrow> pf_device \<Rightarrow> u32 \<Rightarrow> u16 \<Rightarrow> u16 \<Rightarrow> pf_exp_ident \<Rightarrow> pf_exp_ident" where
  "pf_cmdev_generate_submodule_diff a d api slot subslot ei = (let
     k = unat (ei_nbr_apis ei);
     ix = listed (\<lambda>i. snd (one_api_diff a d api slot subslot (ei_api ei ! i))) k
     in ei\<lparr>ei_api := map_front k (\<lambda>ea. fst (one_api_diff a d api slot subslot ea)) (ei_api ei),
       ei_nbr_diff_apis := of_nat (length ix), ei_diff_api := set_front ix (ei_diff_api ei)\<rparr>)"

subsection \<open>Frame IDs\<close>

text \<open>\<open>others\<close> are the frame IDs of the IOCRs of the other ARs in use.\<close>

definition pf_cmdev_verify_free_frame_id :: "u16 list \<Rightarrow> conn_iocr list \<Rightarrow> u16 \<Rightarrow> bool" where
  "pf_cmdev_verify_free_frame_id others cs frame_id \<longleftrightarrow>
     frame_id \<notin> set others \<and> frame_id \<notin> set (map (\<lambda>c. cp_frame_id (ci_param c)) cs)"

partial_function (option) first_free_id :: "(u16 \<Rightarrow> bool) \<Rightarrow> u16 \<Rightarrow> u16 \<Rightarrow> u16 option" where
  "first_free_id free stop frame_id =
     (if frame_id \<le> stop \<and> \<not> free frame_id then first_free_id free stop (frame_id + 1) else Some frame_id)"

definition frame_id_range :: "u32 \<Rightarrow> u16 \<times> u16" where
  "frame_id_range rt_class =
     (if rt_class = PF_RT_CLASS_1 then (0xC000, 0xF7FF)
      else if rt_class = PF_RT_CLASS_2 then (0x8000, 0xBBFF)
      else if rt_class = PF_RT_CLASS_3 then (0x0100, 0x7FFF)
      else if rt_class = PF_RT_CLASS_UDP then (0xC000, 0xF7FF)
      else (0xFFFF, 0xFFFF))"

definition fix_iocr_frame_id :: "u16 list \<Rightarrow> nat \<Rightarrow> conn_iocr list \<Rightarrow> conn_iocr list option" where
  "fix_iocr_frame_id others ix cs = (let p = ci_param (cs ! ix) in
     if has_iocr_type PF_IOCR_TYPE_OUTPUT p \<and> cp_frame_id p = 0xFFFF
     then do {
       let (start, stop) = frame_id_range (cp_rt_class p);
       frame_id \<leftarrow> first_free_id (pf_cmdev_verify_free_frame_id others cs) stop start;
       Some (if frame_id \<le> stop
         then upd ix (\<lambda>c. c\<lparr>ci_param := (ci_param c)\<lparr>cp_frame_id := frame_id\<rparr>\<rparr>) cs
         else cs)
     }
     else Some cs)"

definition pf_cmdev_fix_frame_id :: "u16 list \<Rightarrow> conn_iocr list \<Rightarrow> conn_iocr list option" where
  "pf_cmdev_fix_frame_id others cs = each (fix_iocr_frame_id others) [0 ..< length cs] cs"

subsection \<open>The answer to an accepted request\<close>

definition PF_UDP_UNICAST_PORT :: u16 where "PF_UDP_UNICAST_PORT = 0x8892"
definition PF_MAX_ALARM_DATA_LEN :: u16 where "PF_MAX_ALARM_DATA_LEN = 200"

record conn_result =
  cr_exp_ident :: pf_exp_ident
  cr_iocrs :: "conn_iocr list"
  cr_ar_result :: pf_ar_result
  cr_iocr_results :: "pf_iocr_result list"
  cr_alarm_cr_result :: pf_alarm_cr_result

definition iocr_result :: "conn_iocr \<Rightarrow> pf_iocr_result" where
  "iocr_result c = \<lparr>res_iocr_type = cp_iocr_type (ci_param c), res_iocr_reference = cp_iocr_reference (ci_param c),
     res_frame_id = cp_frame_id (ci_param c)\<rparr>"

text \<open>\<open>endpoint\<close> is the alarm endpoint that \<open>pf_alarm_allocate_endpoint\<close> gives, \<open>mac\<close> the address of the device.\<close>

definition connect_answer :: "u8 list \<Rightarrow> u16 \<Rightarrow> nat \<Rightarrow> u16 list \<Rightarrow> pf_device \<Rightarrow> conn_ar \<Rightarrow> conn_result option" where
  "connect_answer mac endpoint a others d r = do {
     cs \<leftarrow> pf_cmdev_fix_frame_id others (ca_iocrs r);
     Some \<lparr>cr_exp_ident = pf_cmdev_generate_module_diff a d (ca_exp_ident r), cr_iocrs = cs,
       cr_ar_result = \<lparr>cm_responder_mac_add = mac, responder_udp_rt_port = PF_UDP_UNICAST_PORT\<rparr>,
       cr_iocr_results = map iocr_result cs,
       cr_alarm_cr_result = \<lparr>acres_alarm_cr_type = ucast (acr_alarm_cr_type (ca_alarm_cr_request r)),
         acres_local_alarm_reference = endpoint, acres_max_alarm_data_length = PF_MAX_ALARM_DATA_LEN\<rparr>\<rparr>
   }"

end
