(* ===== verification/Conn_Example.thy ===== *)
theory Conn_Example
  imports Conn_Diff Diag_Props
begin

section \<open>An example of a connect request\<close>

text \<open>
  A device with one module, which has an input and an output submodule that no AR owns, and a request
  with an input and an output CR for them.
\<close>

definition plugged :: "u16 \<Rightarrow> u32 \<Rightarrow> real_subslot" where
  "plugged nbr ident = zero_subslot\<lparr>sub_in_use := True, subslot_number := nbr, sub_ident_number := ident, diag_list := PF_DIAG_IX_NULL\<rparr>"

definition plugged_slot :: real_slot where
  "plugged_slot = zero_slot\<lparr>slot_in_use := True, slot_number := 1, slot_ident_number := 7,
     subslots := [plugged 1 8, plugged 2 9, zero_subslot, zero_subslot]\<rparr>"

text \<open>The other parts of the device do not matter.\<close>

definition plugged_device :: "dev_net \<Rightarrow> dev_net" where
  "plugged_device n = \<lparr>dn_dev = \<lparr>real_ident = [zero_api\<lparr>real_api.api_in_use := True, slots := [plugged_slot, zero_slot, zero_slot, zero_slot]\<rparr>],
     dev_items = dev_items (dn_dev n), diag_items_free = diag_items_free (dn_dev n)\<rparr>, dn_alarm = dn_alarm n, dn_cyc = dn_cyc n,
     dn_order = dn_order n, dn_exp = dn_exp n, dn_plug = dn_plug n, use_qualified_diagnosis = use_qualified_diagnosis n\<rparr>"

definition silent_app :: app where
  "silent_app = \<lparr>exp_module_ind = (\<lambda>_ _ _ n. Some n), exp_submodule_ind = (\<lambda>_ _ _ _ _ _ n. Some n)\<rparr>"

definition example_properties :: "u8 \<Rightarrow> pf_submodule_properties" where
  "example_properties t = \<lparr>sp_type = t, sp_sharedInput = False, sp_reduce_input_submodule_data_length = False,
     sp_reduce_output_submodule_data_length = False, sp_discard_ioxs = False\<rparr>"

definition expected_sub :: "u16 \<Rightarrow> u32 \<Rightarrow> u8 \<Rightarrow> u16 \<Rightarrow> u16 \<Rightarrow> pf_exp_submodule" where
  "expected_sub nbr ident t dir k = \<lparr>es_subslot_number = nbr, es_ident_number = ident, es_properties = example_properties t,
     es_nbr_data_descriptors = 1, es_data_descriptor = replicate 2 \<lparr>dd_data_direction = dir, dd_submodule_data_length = k,
       dd_length_iops = 1, dd_length_iocs = 1\<rparr>, es_state = zero_submodule_state\<rparr>"

definition expected_ident :: pf_exp_ident where
  "expected_ident = \<lparr>ei_nbr_apis = 1, ei_api = [\<lparr>ea_valid = True, ea_api = 0, ea_nbr_modules = 1,
     ea_module = replicate 4 \<lparr>em_slot_number = 1, em_ident_number = 7, em_properties = 0, em_state = 0,
       em_nbr_submodules = 2, em_submodule = [expected_sub 1 8 1 1 2, expected_sub 2 9 2 2 1, expected_sub 0 0 0 0 0, expected_sub 0 0 0 0 0],
       em_nbr_diff_submodules = 0, em_diff_submodule = [0, 0, 0, 0]\<rparr>,
     ea_nbr_diff_modules = 0, ea_diff_module = [0, 0, 0, 0]\<rparr>], ei_nbr_diff_apis = 0, ei_diff_api = [0]\<rparr>"

definition fd :: "u16 \<Rightarrow> u16 \<Rightarrow> u16 \<Rightarrow> pf_frame_descriptor" where
  "fd slot subslot k = \<lparr>fd_slot_number = slot, fd_subslot_number = subslot, fd_frame_offset = k\<rparr>"

definition example_iocr :: "iocr_type \<Rightarrow> u16 \<Rightarrow> pf_frame_descriptor \<Rightarrow> pf_frame_descriptor \<Rightarrow> conn_iocr" where
  "example_iocr t frame_id io cs = \<lparr>ci_in_length = 0, ci_out_length = 0, ci_data_desc = [],
     ci_param = \<lparr>cp_iocr_type = iocr_code t, cp_iocr_reference = 1, cp_lt_field = PNAL_ETHTYPE_PROFINET, cp_rt_class = 1,
       cp_reserved_1 = 0, cp_reserved_2 = 0, cp_reserved_3 = 0, cp_c_sdu_length = 40, cp_frame_id = frame_id,
       cp_send_clock_factor = 32, cp_reduction_ratio = 1, cp_phase = 1, cp_sequence = 0, cp_frame_send_offset = 0xffffffff,
       cp_watchdog_factor = 3, cp_data_hold_factor = 3, cp_vlan_id = 0, cp_iocr_user_priority = 6,
       cp_multicast_mac_add = replicate 6 0, cp_nbr_apis = 1,
       cp_apis = [\<lparr>ae_api = 0, ae_nbr_io_data = 1, ae_io_data = [io], ae_nbr_iocs = 1, ae_iocs = [cs]\<rparr>]\<rparr>\<rparr>"

definition example_ar_param :: pf_ar_param where
  "example_ar_param = \<lparr>ar_type = 1, ar_uuid = \<lparr>data1 = 1, data2 = 0, data3 = 0, data4 = replicate 8 0\<rparr>, session_key = 1,
     cm_initiator_mac_add = [2, 0, 0, 0, 0, 1],
     cm_initiator_object_uuid = \<lparr>data1 = 0xDEA00000, data2 = 0x6c97, data3 = 0x11D1, data4 = [0x82, 0x71, 0, 0, 0, 0, 0, 0]\<rparr>,
     ar_properties = \<lparr>arp_state = 1, supervisor_takeover_allowed = False, parameterization_server = 1, device_access = False,
       companion_ar = 0, acknowledge_companion_ar = False, combined_object_container = False, startup_mode = False,
       pull_module_alarm_allowed = False\<rparr>,
     cm_initiator_activity_timeout_factor = 100, cm_initiator_udp_rt_port = 0x8892, cm_initiator_station_name_len = 1,
     cm_initiator_station_name = [0x61, 0]\<rparr>"

definition example_conn :: "u16 \<Rightarrow> conn_ar" where
  "example_conn nbr_output = \<lparr>ca_param = example_ar_param, ca_nbr_ar_param = 1,
     ca_iocrs = [example_iocr PF_IOCR_TYPE_INPUT 0xC000 (fd 1 1 0) (fd 1 2 3), example_iocr PF_IOCR_TYPE_OUTPUT 0xFFFF (fd 1 2 0) (fd 1 1 2)],
     ca_input_cr_cnt = 1, ca_output_cr_cnt = nbr_output, ca_mcr_cons_cnt = 0, ca_rtc3_present = False, ca_exp_ident = expected_ident,
     ca_alarm_cr_request = \<lparr>acr_alarm_cr_type = 1, acr_lt_field = PNAL_ETHTYPE_PROFINET, acr_priority = False,
       acr_transport_udp = False, acr_rta_timeout_factor = 1, acr_rta_retries = 3, acr_local_alarm_reference = 1,
       acr_max_alarm_data_length = 200, acr_tag_header_high = \<lparr>th_vlan_id = 0, th_alarm_user_priority = 6\<rparr>,
       acr_tag_header_low = \<lparr>th_vlan_id = 0, th_alarm_user_priority = 5\<rparr>\<rparr>,
     ca_nbr_alarm_cr = 1, ca_initiator_rpc_server_port = 0, ca_nbr_rpc_server = 0, ca_ir_info_valid = False\<rparr>"

lemma example_params:
  "pf_cmdev_check_ar_param example_ar_param = None"
  "pf_cmdev_check_iocr_param example_ar_param (map ci_param (ca_iocrs (example_conn k))) = None"
  by code_simp+


lemma example_configured:
  "map_option (\<lambda>(e, r, n). (e, ownsm_state (subslot_at (dn_dev n) (0, 0, 0)), owner (subslot_at (dn_dev n) (0, 0, 0))))
     (pf_cmdev_exp_apis_configure silent_app a (example_conn k) (plugged_device n)) = Some (None, PF_OWNSM_STATE_IOC, Some a)"
  by code_simp

lemma request_accepted: "map_option fst (pf_cmdev_check_apdu silent_app 32 a (example_conn 1) (plugged_device n)) = Some True"
  by code_simp

lemma request_refused: "map_option fst (pf_cmdev_check_apdu silent_app 32 a (example_conn 0) (plugged_device n)) = Some False"
  by code_simp

end
