(* ===== verification/Conn_Accept.thy ===== *)
theory Conn_Accept
  imports Conn_Layout Conn_Example
begin

section \<open>Accepted connect requests\<close>

text \<open>
  What the checks of a connect request guarantee for the IO data: in each IOCR of an accepted
  request each subslot has one descriptor, all areas are inside the C-SDU, and the areas of
  different subslots do not overlap. And what the checks miss.
\<close>

subsection \<open>Areas\<close>

definition area :: "u16 \<Rightarrow> u16 \<Rightarrow> nat set" where
  "area start k = {unat start ..< unat start + unat k}"

definition object_bytes :: "io_object \<Rightarrow> nat set" where
  "object_bytes d = area (io_data_offset d) (io_data_length d) \<union> area (io_iops_offset d) (io_iops_length d) \<union>
     area (io_iocs_offset d) (io_iocs_length d)"

lemma no_straddle_iff: "pf_cmdev_check_no_straddle s1 l1 s2 l2 = 0 \<longleftrightarrow> area s1 l1 \<inter> area s2 l2 = {}"
  unfolding pf_cmdev_check_no_straddle_def area_def word_less_nat_alt word_le_nat_alt
  by (auto simp: disjoint_iff not_less not_le)

lemma straddles_object_iff: "straddles_object s k d \<longleftrightarrow> area s k \<inter> object_bytes d \<noteq> {}"
proof -
  have "area s k = {}" if "\<not> k > 0" using that by (simp add: area_def word_less_nat_alt)
  then show ?thesis by (auto simp: straddles_object_def no_straddle_iff object_bytes_def)
qed

lemma overlap_iff:
  "pf_cmdev_check_iocr_overlap ds i = None \<longleftrightarrow> (\<forall>x\<in>set (take i ds). object_bytes (ds ! i) \<inter> object_bytes x = {})"
proof -
  have "object_bytes d \<inter> object_bytes x = {} \<longleftrightarrow> \<not> (straddles_object (io_data_offset d) (io_data_length d) x \<or>
      straddles_object (io_iops_offset d) (io_iops_length d) x \<or> straddles_object (io_iocs_offset d) (io_iocs_length d) x)" for d x
    unfolding straddles_object_iff by (auto simp: object_bytes_def [of d])
  then show ?thesis by (auto simp: pf_cmdev_check_iocr_overlap_def Let_def list_ex_iff)
qed

definition layout_ok :: "conn_iocr \<Rightarrow> bool" where
  "layout_ok c \<longleftrightarrow> (\<forall>d\<in>set (ci_data_desc c). object_bytes d \<subseteq> {..<unat (cp_c_sdu_length (ci_param c))}) \<and>
     (\<forall>i<length (ci_data_desc c). \<forall>j<i. object_bytes (ci_data_desc c ! i) \<inter> object_bytes (ci_data_desc c ! j) = {})"

lemma range_ok: "object_range_fault k d = None \<Longrightarrow> object_bytes d \<subseteq> {..<unat k}"
  by (auto simp: object_range_fault_def object_bytes_def area_def split: if_splits)

subsection \<open>Faults stay\<close>

lemma fold_fault:
  assumes "fold f xs e = None" "\<And>x e. x \<in> set xs \<Longrightarrow> f x e = None \<Longrightarrow> e = None"
  shows "e = None \<and> (\<forall>x\<in>set xs. f x None = None)"
  using assms
proof (induction xs arbitrary: e)
  case (Cons x xs)
  have "f x e = None \<and> (\<forall>y\<in>set xs. f y None = None)" by (rule Cons.IH) (use Cons.prems in auto)
  then show ?case using Cons.prems(2) [of x e] by auto
qed simp

lemma if_ok_None: "if_ok f e = None \<longleftrightarrow> e = None \<and> f None = None"
  by (cases e) (simp_all add: if_ok_def)

lemma iocr_api_fault_None: "iocr_api_fault ei p a e = None \<Longrightarrow> e = None"
  by (auto simp: iocr_api_fault_def if_ok_None Let_def split: option.splits)

lemma object_fault_None: "object_fault k ds i e = None \<longleftrightarrow>
    e = None \<and> object_range_fault k (ds ! i) = None \<and> pf_cmdev_check_iocr_overlap ds i = None"
  by (simp add: object_fault_def if_ok_None)

lemma iocr_apis_fault_None:
  assumes "iocr_apis_fault ei c e = None"
  shows "e = None \<and> layout_ok c"
proof -
  let ?k = "cp_c_sdu_length (ci_param c)" and ?ds = "ci_data_desc c"
  let ?e = "fold (iocr_api_fault ei (ci_param c)) (used_apis (ci_param c)) e"
  have f: "?e = None \<and> (\<forall>i\<in>set [0 ..< length ?ds]. object_fault ?k ?ds i None = None)"
    by (rule fold_fault) (use assms in \<open>auto simp: iocr_apis_fault_def object_fault_None\<close>)
  then have "e = None" using fold_fault [of "iocr_api_fault ei (ci_param c)"] iocr_api_fault_None by blast
  moreover have ok: "object_range_fault ?k (?ds ! i) = None" "pf_cmdev_check_iocr_overlap ?ds i = None" if "i < length ?ds" for i
    using f that by (auto simp: object_fault_None)
  have "object_bytes (?ds ! i) \<inter> object_bytes (?ds ! j) = {}" if "i < length ?ds" "j < i" for i j
  proof -
    have "?ds ! j \<in> set (take i ?ds)" using that by (auto simp: in_set_conv_nth)
    then show ?thesis using ok(2) [OF that(1)] unfolding overlap_iff by blast
  qed
  moreover have "object_bytes d \<subseteq> {..<unat ?k}" if "d \<in> set ?ds" for d
    using that ok(1) range_ok by (metis in_set_conv_nth)
  ultimately show ?thesis unfolding layout_ok_def by blast
qed

lemma check_iocr_apis_layout:
  assumes "pf_cmdev_check_iocr_apis ei cs = None" "c \<in> set cs"
  shows "layout_ok c"
  using fold_fault [of "iocr_apis_fault ei" cs None] assms iocr_apis_fault_None unfolding pf_cmdev_check_iocr_apis_def by blast

subsection \<open>Setting up all IOCRs\<close>

lemma setup_desc_param:
  assumes "pf_cmdev_iocr_setup_desc e c = Some (ret, c')"
  shows "ci_param c' = ci_param c"
proof -
  let ?dir = "iocr_direction (ci_param c)"
  obtain c1 where c1: "each (setup_data_iops_entry e ?dir) (io_data_entries (ci_param c)) (c\<lparr>ci_in_length := 0, ci_out_length := 0, ci_data_desc := []\<rparr>) = Some c1"
    "each (setup_iocs_entry e ?dir) (iocs_entries (ci_param c1)) (0, c1) = Some (ret, c')"
    using assms by (auto simp: pf_cmdev_iocr_setup_desc_def pf_cmdev_iocr_setup_data_iops_def pf_cmdev_iocr_setup_iocs_def Let_def bind_eq_Some_conv)
  have "ci_param c1 = ci_param c"
    by (rule each_invariant [OF c1(1)]) (auto simp: setup_data_iops_entry_def split_beta Let_def bind_eq_Some_conv split: option.splits)
  moreover have "ci_param (snd (ret, c')) = ci_param c1"
    by (rule each_invariant [OF c1(2)]) (auto simp: setup_iocs_entry_def split_beta Let_def bind_eq_Some_conv split: option.splits)
  ultimately show ?thesis by simp
qed

lemma setup_all_keys:
  assumes "ident_limits e"
  shows "\<exists>ret cs'. setup_all e cs = Some (ret, cs') \<and> map ci_param cs' = map ci_param cs \<and>
    (ret = 0 \<longrightarrow> (\<forall>c\<in>set cs'. keys_ok e (ci_data_desc c)))"
proof (induction cs)
  case (Cons c cs)
  obtain ret c' where c: "pf_cmdev_iocr_setup_desc e c = Some (ret, c')" "keys_ok e (ci_data_desc c')"
    using setup_desc_keys [OF assms, of c] by auto
  obtain r cs' where cs: "setup_all e cs = Some (r, cs')" "map ci_param cs' = map ci_param cs"
    "r = 0 \<longrightarrow> (\<forall>c\<in>set cs'. keys_ok e (ci_data_desc c))" using Cons by auto
  show ?case using c cs setup_desc_param [OF c(1)] by (cases "ret = 0") auto
qed simp


subsection \<open>The whole check\<close>

lemma configure_api_ident:
  assumes "configure_api app a ps ix (e, ei, n) = Some (e', ei', n')"
  shows "ei' = ei \<or> (\<exists>v. ei' = ei\<lparr>ei_api := upd ix (ea_valid_update (\<lambda>_. v)) (ei_api ei)\<rparr>)"
proof (cases e)
  case None
  obtain p d where "(case pf_cmdev_get_api (ea_api (ei_api ei ! ix)) (dn_dev n) of Some p \<Rightarrow> (Some p, dn_dev n)
      | None \<Rightarrow> pf_cmdev_new_api (ea_api (ei_api ei ! ix)) (dn_dev n)) = (p, d)" by fastforce
  note f = assms [unfolded None configure_api_def Let_def option.case prod.case this]
  show ?thesis
  proof (cases p)
    case (Some q)
    show ?thesis using f unfolding Some option.case bind_eq_Some_conv split_beta by auto
  qed (use f in simp)
qed (use assms in \<open>simp add: configure_api_def\<close>)

lemma nth_ea_valid:
  "ea_nbr_modules (upd ix (ea_valid_update f) xs ! i) = ea_nbr_modules (xs ! i)"
  "ea_module (upd ix (ea_valid_update f) xs ! i) = ea_module (xs ! i)"
  by (cases "ix < length xs"; simp add: upd_def nth_list_update list_update_beyond)+

lemma limits_valid:
  "ident_limits (ei\<lparr>ei_api := upd ix (ea_valid_update f) (ei_api ei)\<rparr>) = ident_limits ei"
  unfolding ident_limits_def exp_mod_at_def by (simp add: nth_ea_valid)

lemma configure_api_limits:
  "configure_api app a ps ix (e, ei, n) = Some (e', ei', n') \<Longrightarrow> ident_limits ei' = ident_limits ei"
  using configure_api_ident [of app a ps ix e ei n e' ei' n'] limits_valid by metis

lemma configure_limits:
  assumes "pf_cmdev_exp_apis_configure app a r n = Some (e, r', n')"
  shows "ident_limits (ca_exp_ident r') = ident_limits (ca_exp_ident r)" "ca_iocrs r' = ca_iocrs r"
proof -
  have "ident_limits (fst (snd st')) = ident_limits ei"
    if "each (configure_api app a ps) xs st = Some st'" "fst (snd st) = ei" for ps xs st st' ei
    by (rule each_invariant [OF that(1)]) (use that(2) configure_api_limits in \<open>auto split: prod.splits\<close>)
  from this [of _ _ "(None, ca_exp_ident r, n)"]
  show "ident_limits (ca_exp_ident r') = ident_limits (ca_exp_ident r)" "ca_iocrs r' = ca_iocrs r"
    using assms by (fastforce simp: pf_cmdev_exp_apis_configure_def bind_eq_Some_conv split: if_splits)+
qed

lemma fault_chain: "(if c then conn_error a b else f) = None \<longleftrightarrow> \<not> c \<and> f = None"
  by simp

lemma sdu_length:
  assumes "iocr_param_fault ar p = None"
  shows "12 \<le> unat (cp_c_sdu_length p) \<and> unat (cp_c_sdu_length p) \<le> 1440"
proof -
  have "iocr_form_fault (startup_mode (ar_properties ar)) p = None"
    using assms unfolding iocr_param_fault_def fault_chain no_fault by blast
  note f = this [unfolded iocr_form_fault_def fault_chain]
  have "\<not> (cp_rt_class p < PF_RT_CLASS_1 \<or> cp_rt_class p > PF_RT_CLASS_STREAM)"
    using f by (auto simp: PF_RT_CLASS_1_def PF_RT_CLASS_2_def word_less_nat_alt)
  then have "1 \<le> unat (cp_rt_class p)" "unat (cp_rt_class p) \<le> 5"
    by (auto simp: word_less_nat_alt PF_RT_CLASS_1_def PF_RT_CLASS_STREAM_def)
  then have "unat (cp_rt_class p) \<in> {1, 2, 3, 4, 5}" by auto
  then have "cp_rt_class p \<in> {PF_RT_CLASS_1, PF_RT_CLASS_2, PF_RT_CLASS_3, PF_RT_CLASS_UDP, PF_RT_CLASS_STREAM}"
    by (simp add: word_unat_eq_iff PF_RT_CLASS_1_def PF_RT_CLASS_2_def PF_RT_CLASS_3_def PF_RT_CLASS_UDP_def PF_RT_CLASS_STREAM_def)
  then have "\<not> (cp_c_sdu_length p < 12 \<or> cp_c_sdu_length p > 1440) \<or> \<not> (cp_c_sdu_length p < 40 \<or> cp_c_sdu_length p > 1440)"
    using f by blast
  then show ?thesis by (auto simp: word_less_nat_alt)
qed

lemma check_iocr_param_None: "pf_cmdev_check_iocr_param ar ps = None \<Longrightarrow> p \<in> set ps \<Longrightarrow> iocr_param_fault ar p = None"
  using fold_fault [of "\<lambda>p e. then_fault e (iocr_param_fault ar p)" ps None] unfolding pf_cmdev_check_iocr_param_def by auto

text \<open>C9: After a connect request is accepted, every IOCR has one descriptor for each subslot, at most
  as many as the array has room for; all its data and status bytes are inside the C-SDU, whose length
  is 12 to 1440; the bytes of different subslots do not overlap, and the provider status follows the
  data.\<close>

theorem accepted_connect_layout:
  assumes "ident_limits (ca_exp_ident r)" and "pf_cmdev_check_apdu app k a r n = Some (True, e, r', n')"
    and "c \<in> set (ca_iocrs r')"
  shows "distinct (map object_key (ci_data_desc c)) \<and> length (ci_data_desc c) \<le> MAX_DATA_DESC \<and> layout_ok c \<and>
    (\<forall>d\<in>set (ci_data_desc c). iops_follows d) \<and> unat (cp_c_sdu_length (ci_param c)) \<in> {12..1440}"
proof -
  obtain r1 cs where r1: "pf_cmdev_exp_apis_configure app a r n = Some (None, r1, n')" "setup_all (ca_exp_ident r1) (ca_iocrs r1) = Some (0, cs)"
    "ca_iocrs r' = cs" "pf_cmdev_check_iocr_apis (ca_exp_ident r1) cs = None"
    and p: "pf_cmdev_check_iocr_param (ca_param r) (map ci_param (ca_iocrs r)) = None"
    using assms(2) by (auto simp: pf_cmdev_check_apdu_def pf_cmdev_check_iocr_param_full_def Let_def bind_eq_Some_conv
        split: if_splits option.splits)
  have "ident_limits (ca_exp_ident r1)" using configure_limits [OF r1(1)] assms(1) by simp
  note lim = this
  have cs: "map ci_param cs = map ci_param (ca_iocrs r)" "keys_ok (ca_exp_ident r1) (ci_data_desc c)"
    using setup_all_keys [OF lim, of "ca_iocrs r1"] r1(2,3) configure_limits(2) [OF r1(1)] assms(3) by auto
  have "ci_param c \<in> set (map ci_param (ca_iocrs r))" using assms(3) r1(3) cs(1) by (metis image_eqI set_map)
  then have "unat (cp_c_sdu_length (ci_param c)) \<in> {12..1440}" using sdu_length [OF check_iocr_param_None [OF p]] by simp
  moreover have "length (map object_key (ci_data_desc c)) \<le> MAX_DATA_DESC"
    using cs(2) by (intro keys_bounded [OF lim]) (auto simp: keys_ok_def)
  moreover have "layout_ok c" by (rule check_iocr_apis_layout [OF r1(4)]) (use assms(3) r1(3) in simp)
  ultimately show ?thesis using cs(2) by (auto simp: keys_ok_def)
qed


lemma expected_limits: "ident_limits expected_ident"
  by (auto simp: ident_limits_def expected_ident_def exp_mod_at_def PNET_MAX_API_def PNET_MAX_SLOTS_def PNET_MAX_SUBSLOTS_def)

lemma accepted_connect_layout_witness:
  "\<exists>e r' n'. pf_cmdev_check_apdu silent_app 32 0 (example_conn 1) (plugged_device fresh_device) = Some (True, e, r', n') \<and>
     (\<forall>c\<in>set (ca_iocrs r'). layout_ok c)"
proof -
  obtain e r' n' where c: "pf_cmdev_check_apdu silent_app 32 0 (example_conn 1) (plugged_device fresh_device) = Some (True, e, r', n')"
    using request_accepted [of 0 fresh_device] by (auto simp: map_option_eq_Some)
  have "ident_limits (ca_exp_ident (example_conn 1))" by (simp add: example_conn_def expected_limits)
  then show ?thesis using accepted_connect_layout [OF _ c] c by blast
qed

end
