(* ===== verification/Conn_Ownership.thy ===== *)
theory Conn_Ownership
  imports Conn_Accept
begin

section \<open>Connect requests: who gets the submodules\<close>

text \<open>
  The comparison with the expected configuration gives each free submodule to the AR as soon as it has
  checked it. \<open>handed\<close> says how a device may change meanwhile: everything that can be found stays where it
  is, and a submodule keeps its owner, or it was free and has one now. The loops over the submodules,
  modules and APIs do this, and leave no expected submodule free.
\<close>

definition handed :: "nat set \<Rightarrow> pf_device \<Rightarrow> pf_device \<Rightarrow> bool" where
  "handed A d d' \<longleftrightarrow>
     (\<forall>api p. pf_cmdev_get_api api d = Some p \<longrightarrow> pf_cmdev_get_api api d' = Some p) \<and>
     (\<forall>api slot p. pf_cmdev_get_slot_full api slot d = Some p \<longrightarrow> pf_cmdev_get_slot_full api slot d' = Some p) \<and>
     (\<forall>api slot nr q. pf_cmdev_get_subslot_full api slot nr d = Some q \<longrightarrow>
        pf_cmdev_get_subslot_full api slot nr d' = Some q \<and>
        (ownsm_state (subslot_at d' q) = ownsm_state (subslot_at d q) \<and> owner (subslot_at d' q) = owner (subslot_at d q) \<or>
         ownsm_state (subslot_at d q) = PF_OWNSM_STATE_FREE \<and> ownsm_state (subslot_at d' q) = PF_OWNSM_STATE_IOC \<and>
         (\<exists>a\<in>A. owner (subslot_at d' q) = Some a)))"

text \<open>The callbacks may plug, but do not pull, and do not change who owns what is plugged.\<close>

definition app_keeps :: "app \<Rightarrow> bool" where
  "app_keeps app \<longleftrightarrow>
     (\<forall>api slot i n n'. exp_module_ind app api slot i n = Some n' \<longrightarrow> handed {} (dn_dev n) (dn_dev n')) \<and>
     (\<forall>api slot sub i j c n n'. exp_submodule_ind app api slot sub i j c n = Some n' \<longrightarrow> handed {} (dn_dev n) (dn_dev n'))"

definition taken :: "u32 \<Rightarrow> u16 \<Rightarrow> u16 \<Rightarrow> pf_device \<Rightarrow> bool" where
  "taken api slot nr d \<longleftrightarrow> (\<exists>q. pf_cmdev_get_subslot_full api slot nr d = Some q \<and>
     ownsm_state (subslot_at d q) \<noteq> PF_OWNSM_STATE_FREE)"

lemma handed_refl: "handed A d d"
  by (simp add: handed_def)

lemma handedD:
  assumes "handed A d d'"
  shows "pf_cmdev_get_api api d = Some p \<Longrightarrow> pf_cmdev_get_api api d' = Some p"
    "pf_cmdev_get_slot_full api slot d = Some r \<Longrightarrow> pf_cmdev_get_slot_full api slot d' = Some r"
    "pf_cmdev_get_subslot_full api slot nr d = Some q \<Longrightarrow> pf_cmdev_get_subslot_full api slot nr d' = Some q"
    "pf_cmdev_get_subslot_full api slot nr d = Some q \<Longrightarrow>
      ownsm_state (subslot_at d' q) = ownsm_state (subslot_at d q) \<and> owner (subslot_at d' q) = owner (subslot_at d q) \<or>
      ownsm_state (subslot_at d q) = PF_OWNSM_STATE_FREE \<and> ownsm_state (subslot_at d' q) = PF_OWNSM_STATE_IOC \<and>
      (\<exists>a\<in>A. owner (subslot_at d' q) = Some a)"
  using assms unfolding handed_def by blast+

lemma handed_trans:
  assumes "handed A d d'" "handed A d' d''"
  shows "handed A d d''"
  unfolding handed_def
proof (intro conjI allI impI)
  fix api slot nr q
  assume q: "pf_cmdev_get_subslot_full api slot nr d = Some q"
  note q' = handedD(3) [OF assms(1) q]
  show "pf_cmdev_get_subslot_full api slot nr d'' = Some q" by (rule handedD(3) [OF assms(2) q'])
  show "ownsm_state (subslot_at d'' q) = ownsm_state (subslot_at d q) \<and> owner (subslot_at d'' q) = owner (subslot_at d q) \<or>
      ownsm_state (subslot_at d q) = PF_OWNSM_STATE_FREE \<and> ownsm_state (subslot_at d'' q) = PF_OWNSM_STATE_IOC \<and>
      (\<exists>a\<in>A. owner (subslot_at d'' q) = Some a)"
    using handedD(4) [OF assms(1) q] handedD(4) [OF assms(2) q'] by auto
qed (use handedD(1,2) [OF assms(1)] handedD(1,2) [OF assms(2)] in blast)+

lemma handed_mono: "handed A d d' \<Longrightarrow> A \<subseteq> B \<Longrightarrow> handed B d d'"
  unfolding handed_def by blast

lemma taken_handed:
  assumes "taken api slot nr d" "handed A d d'"
  shows "taken api slot nr d'"
proof -
  obtain q where q: "pf_cmdev_get_subslot_full api slot nr d = Some q" "ownsm_state (subslot_at d q) \<noteq> PF_OWNSM_STATE_FREE"
    using assms(1) unfolding taken_def by blast
  then have "ownsm_state (subslot_at d' q) \<noteq> PF_OWNSM_STATE_FREE" using handedD(4) [OF assms(2) q(1)] by auto
  then show ?thesis unfolding taken_def using handedD(3) [OF assms(2) q(1)] by blast
qed

subsection \<open>The two changes\<close>

lemma handed_take_over:
  assumes "place d q" "ownsm_state (subslot_at d q) = PF_OWNSM_STATE_FREE"
  shows "handed {a} d (upd_subslot q (\<lambda>x. x\<lparr>ownsm_state := PF_OWNSM_STATE_IOC, owner := Some a\<rparr>) d)"
    (is "handed _ _ ?d")
  unfolding handed_def
proof (intro conjI allI impI)
  show "pf_cmdev_get_slot_full api slot ?d = Some p" if "pf_cmdev_get_slot_full api slot d = Some p" for api slot p
    using that assms(1) by (simp add: pf_cmdev_get_slot_full_def get_slot_upd_subslot)
  show "pf_cmdev_get_subslot_full api slot nr ?d = Some r" if "pf_cmdev_get_subslot_full api slot nr d = Some r" for api slot nr r
    using that assms(1) by (simp add: get_subslot_full_upd_subslot)
  show "ownsm_state (subslot_at ?d r) = ownsm_state (subslot_at d r) \<and> owner (subslot_at ?d r) = owner (subslot_at d r) \<or>
      ownsm_state (subslot_at d r) = PF_OWNSM_STATE_FREE \<and> ownsm_state (subslot_at ?d r) = PF_OWNSM_STATE_IOC \<and>
      (\<exists>b\<in>{a}. owner (subslot_at ?d r) = Some b)" for r
    using assms by (simp add: subslot_at_upd_subslot)
qed simp

lemma handed_new_api:
  assumes "pf_cmdev_new_api api d = (p, d')"
  shows "handed A d d'"
proof (cases "pf_cmdev_get_api api d = None \<and> first_free real_api.api_in_use (real_ident d) \<noteq> None")
  case False
  then have "pf_cmdev_new_api api d = (None, d)" by (auto simp: pf_cmdev_new_api_def)
  then show ?thesis using assms handed_refl by simp
next
  case True
  then obtain ix where ix: "first_free real_api.api_in_use (real_ident d) = Some ix" by auto
  note free = first_free_Some [OF ix]
  have d': "d' = d\<lparr>real_ident := (real_ident d)[ix := zero_api\<lparr>real_api_id := api, real_api.api_in_use := True\<rparr>]\<rparr>"
    using assms True ix by (simp add: pf_cmdev_new_api_def)
  have api: "pf_cmdev_get_api c d' = Some i" "i \<noteq> ix" if "pf_cmdev_get_api c d = Some i" for c i
  proof -
    have "c \<noteq> api" using that True by auto
    then have "pf_cmdev_get_api c d' = pf_cmdev_get_api c d"
      unfolding pf_cmdev_get_api_def using free by (simp add: d') (rule find_cong_upt, auto simp: nth_list_update)
    then show "pf_cmdev_get_api c d' = Some i" using that by simp
    show "i \<noteq> ix" using that free by (auto simp: pf_cmdev_get_api_def find_Some_iff)
  qed
  have slot: "slot_at d' r = slot_at d r" if "fst r \<noteq> ix" for r using that by (simp add: slot_at_def d')
  have sub: "subslot_at d' r = subslot_at d r" if "fst r \<noteq> ix" for r using that by (simp add: subslot_at_def slot)
  have get: "pf_cmdev_get_slot i nr d' = pf_cmdev_get_slot i nr d" if "i \<noteq> ix" for i nr
    using that by (simp add: pf_cmdev_get_slot_def slot) (simp add: d')
  have get2: "pf_cmdev_get_subslot r nr d' = pf_cmdev_get_subslot r nr d" if "fst r \<noteq> ix" for r nr
    using that by (simp add: pf_cmdev_get_subslot_def slot sub)
  have at: "fst r = i" if "pf_cmdev_get_slot i nr d = Some r" for i nr r using that by (auto simp: pf_cmdev_get_slot_def)
  have at2: "fst q = fst r" if "pf_cmdev_get_subslot r nr d = Some q" for r nr q using that by (auto simp: pf_cmdev_get_subslot_def)
  have slot_full: "pf_cmdev_get_slot_full c nr d' = Some r \<and> fst r \<noteq> ix" if r: "pf_cmdev_get_slot_full c nr d = Some r" for c nr r
  proof -
    obtain i where i: "pf_cmdev_get_api c d = Some i" "pf_cmdev_get_slot i nr d = Some r"
      using r by (auto simp: pf_cmdev_get_slot_full_def bind_eq_Some_conv)
    then show ?thesis using api [OF i(1)] get at [OF i(2)] by (simp add: pf_cmdev_get_slot_full_def)
  qed
  have sub_full: "pf_cmdev_get_subslot_full c nr b d' = Some q \<and> subslot_at d' q = subslot_at d q"
    if q: "pf_cmdev_get_subslot_full c nr b d = Some q" for c nr b q
  proof -
    obtain i r where i: "pf_cmdev_get_api c d = Some i" "pf_cmdev_get_slot i nr d = Some r" "pf_cmdev_get_subslot r b d = Some q"
      using q by (auto simp: pf_cmdev_get_subslot_full_def bind_eq_Some_conv)
    then show ?thesis
      using api [OF i(1)] get at [OF i(2)] get2 [of r b] at2 [OF i(3)] sub by (simp add: pf_cmdev_get_subslot_full_def)
  qed
  show ?thesis unfolding handed_def
  proof (intro conjI allI impI)
    show "pf_cmdev_get_api c d' = Some i" if "pf_cmdev_get_api c d = Some i" for c i by (rule api(1) [OF that])
  qed (use slot_full sub_full in simp_all)
qed

lemma new_api_found:
  assumes "pf_cmdev_get_api api d = None" "pf_cmdev_new_api api d = (Some p, d')"
  shows "pf_cmdev_get_api api d' = Some p"
proof -
  have p: "first_free real_api.api_in_use (real_ident d) = Some p"
    and d': "d' = d\<lparr>real_ident := (real_ident d)[p := zero_api\<lparr>real_api_id := api, real_api.api_in_use := True\<rparr>]\<rparr>"
    using assms by (auto simp: pf_cmdev_new_api_def split: option.splits)
  have none: "\<not> (real_api.api_in_use (real_ident d ! i) \<and> real_api_id (real_ident d ! i) = api)" if "i < length (real_ident d)" for i
    using assms(1) that by (auto simp: pf_cmdev_get_api_def find_None_iff)
  show ?thesis using first_free_Some [OF p] none
    unfolding pf_cmdev_get_api_def find_Some_iff by (intro exI [of _ p]) (auto simp: d' nth_list_update)
qed

subsection \<open>The loops\<close>

text \<open>A loop whose steps keep \<open>I\<close>, and whose successful steps follow successful ones and establish \<open>Q\<close>.\<close>

lemma each_all:
  assumes "each f xs s = Some s'" "I s"
    and "\<And>x s s'. x \<in> set xs \<Longrightarrow> I s \<Longrightarrow> f x s = Some s' \<Longrightarrow> I s' \<and> (ok s' \<longrightarrow> ok s \<and> Q x s') \<and> (\<forall>y. Q y s \<longrightarrow> Q y s')"
  shows "I s' \<and> (ok s' \<longrightarrow> ok s \<and> (\<forall>x\<in>set xs. Q x s')) \<and> (\<forall>y. Q y s \<longrightarrow> Q y s')"
  using assms
proof (induction xs arbitrary: s)
  case (Cons x xs)
  obtain s1 where s1: "f x s = Some s1" "each f xs s1 = Some s'" using Cons.prems(1) by (auto simp: bind_eq_Some_conv)
  note step = Cons.prems(3) [of x s s1, OF _ Cons.prems(2) s1(1)]
  have "I s' \<and> (ok s' \<longrightarrow> ok s1 \<and> (\<forall>x\<in>set xs. Q x s')) \<and> (\<forall>y. Q y s1 \<longrightarrow> Q y s')"
    by (rule Cons.IH [OF s1(2)]) (use step in simp, rule Cons.prems(3), simp_all)
  then show ?case using step by auto
qed simp

lemma configure_submodule_hands:
  assumes app: "app_keeps app"
    and slot: "pf_cmdev_get_slot_full api (em_slot_number m) (dn_dev n) = Some p"
    and run: "configure_submodule app a ps api m p ix (e, n) = Some (e', n')"
  shows "handed {a} (dn_dev n) (dn_dev n')"
    and "e' = None \<Longrightarrow> e = None \<and> taken api (em_slot_number m) (es_subslot_number (em_submodule m ! ix)) (dn_dev n')"
proof -
  let ?s = "em_submodule m ! ix"
  let ?nr = "es_subslot_number ?s"
  obtain n1 where n1: "(if pf_cmdev_get_subslot p ?nr (dn_dev n) = None
      then exp_submodule_ind app api (em_slot_number m) ?nr (em_ident_number m) (es_ident_number ?s) (exp_data_cfg ?s) n
      else Some n) = Some n1"
    "e' = or_fault (or_fault (or_fault e (if \<exists>x\<in>set (take ix (em_submodule m)). es_subslot_number x = ?nr then exp_error 10 else None))
      (if list_ex (used_in_iocr api (em_slot_number m) ?nr) ps then None else exp_error 10))
      (properties_fault api (pf_cmdev_get_subslot p ?nr (dn_dev n1) \<noteq> None) ?s)"
    "n' = (case pf_cmdev_get_subslot p ?nr (dn_dev n1) of
         None \<Rightarrow> n1
       | Some q \<Rightarrow> if e' = None \<and> ownsm_state (subslot_at (dn_dev n1) q) = PF_OWNSM_STATE_FREE
           then n1\<lparr>dn_dev := upd_subslot q (\<lambda>x. x\<lparr>ownsm_state := PF_OWNSM_STATE_IOC, owner := Some a\<rparr>) (dn_dev n1)\<rparr>
           else n1)"
    using run unfolding configure_submodule_def Let_def prod.case bind_eq_Some_conv option.inject prod.inject by blast
  have "handed {} (dn_dev n) (dn_dev n1)"
    using n1(1) app handed_refl unfolding app_keeps_def by (auto split: if_splits)
  then have h1: "handed {a} (dn_dev n) (dn_dev n1)" using handed_mono by blast
  have get: "pf_cmdev_get_subslot_full api (em_slot_number m) ?nr (dn_dev n1) = pf_cmdev_get_subslot p ?nr (dn_dev n1)"
    using handedD(2) [OF h1 slot] by (auto simp: pf_cmdev_get_slot_full_def pf_cmdev_get_subslot_full_def bind_eq_Some_conv)
  show "handed {a} (dn_dev n) (dn_dev n')" and "e' = None \<Longrightarrow> e = None \<and> taken api (em_slot_number m) ?nr (dn_dev n')"
  proof -
    show "handed {a} (dn_dev n) (dn_dev n')"
    proof (cases "pf_cmdev_get_subslot p ?nr (dn_dev n1)")
      case None
      then show ?thesis using h1 n1(3) by simp
    next
      case (Some q)
      have q: "place (dn_dev n1) q" by (rule alive_place [OF get_subslot_full_alive]) (use get Some in simp)
      show ?thesis using h1 handed_trans [OF h1 handed_take_over [OF q]] n1(3) Some by auto
    qed
    assume ok: "e' = None"
    have "pf_cmdev_get_subslot p ?nr (dn_dev n1) \<noteq> None"
    proof
      assume none: "pf_cmdev_get_subslot p ?nr (dn_dev n1) = None"
      have "properties_fault api False ?s = exp_error 10" by (simp add: properties_fault_def Let_def)
      then show False using ok n1(2) none by simp
    qed
    then obtain q where q: "pf_cmdev_get_subslot p ?nr (dn_dev n1) = Some q" by auto
    have place: "place (dn_dev n1) q" by (rule alive_place [OF get_subslot_full_alive]) (use get q in simp)
    have "taken api (em_slot_number m) ?nr (dn_dev n')"
    proof (cases "ownsm_state (subslot_at (dn_dev n1) q) = PF_OWNSM_STATE_FREE")
      case True
      then have "handed {a} (dn_dev n1) (dn_dev n')" "ownsm_state (subslot_at (dn_dev n') q) = PF_OWNSM_STATE_IOC"
        using n1(3) q ok handed_take_over [OF place True, of a] place by simp_all
      then show ?thesis unfolding taken_def using handedD(3) [of "{a}" "dn_dev n1" "dn_dev n'"] get q by auto
    next
      case False
      then show ?thesis using n1(3) get q unfolding taken_def by auto
    qed
    then show "e = None \<and> taken api (em_slot_number m) ?nr (dn_dev n')" using ok n1(2) by simp
  qed
qed

lemma submodules_hand:
  assumes app: "app_keeps app"
    and slot: "pf_cmdev_get_slot_full api (em_slot_number m) (dn_dev n) = Some p"
    and run: "pf_cmdev_exp_submodule_configure app a ps api m p n = Some (e', n')"
  shows "handed {a} (dn_dev n) (dn_dev n')"
    and "e' = None \<Longrightarrow> k < unat (em_nbr_submodules m) \<Longrightarrow>
      taken api (em_slot_number m) (es_subslot_number (em_submodule m ! k)) (dn_dev n')"
proof -
  let ?I = "\<lambda>st :: fault \<times> dev_net. handed {a} (dn_dev n) (dn_dev (snd st))"
  let ?Q = "\<lambda>ix st :: fault \<times> dev_net. taken api (em_slot_number m) (es_subslot_number (em_submodule m ! ix)) (dn_dev (snd st))"
  have "?I (e', n') \<and> (fst (e', n') = None \<longrightarrow> fst (None, n) = (None :: fault) \<and> (\<forall>x\<in>set [0 ..< unat (em_nbr_submodules m)]. ?Q x (e', n'))) \<and>
    (\<forall>y. ?Q y (None, n) \<longrightarrow> ?Q y (e', n'))"
  proof (rule each_all [OF run [unfolded pf_cmdev_exp_submodule_configure_def], where I = ?I and Q = ?Q])
    fix ix and st st' :: "fault \<times> dev_net"
    assume I: "?I st" and step: "configure_submodule app a ps api m p ix st = Some st'"
    have step': "configure_submodule app a ps api m p ix (fst st, snd st) = Some (fst st', snd st')" using step by simp
    note H = configure_submodule_hands [OF app handedD(2) [OF I slot] step']
    show "?I st' \<and> (fst st' = None \<longrightarrow> fst st = None \<and> ?Q ix st') \<and> (\<forall>y. ?Q y st \<longrightarrow> ?Q y st')"
      using H handed_trans [OF I H(1)] taken_handed [OF _ H(1)] by simp
  qed (simp add: handed_refl)
  then show "handed {a} (dn_dev n) (dn_dev n')"
    and "e' = None \<Longrightarrow> k < unat (em_nbr_submodules m) \<Longrightarrow>
      taken api (em_slot_number m) (es_subslot_number (em_submodule m ! k)) (dn_dev n')" by simp_all
qed

lemma configure_module_hands:
  assumes app: "app_keeps app"
    and api: "pf_cmdev_get_api (ea_api ea) (dn_dev n) = Some pa"
    and run: "configure_module app a ps ea pa ix (e, n) = Some (e', n')"
  shows "handed {a} (dn_dev n) (dn_dev n')"
    and "e' = None \<Longrightarrow> e = None \<and> (\<forall>k<unat (em_nbr_submodules (ea_module ea ! ix)). taken (ea_api ea)
      (em_slot_number (ea_module ea ! ix)) (es_subslot_number (em_submodule (ea_module ea ! ix) ! k)) (dn_dev n'))"
proof -
  let ?m = "ea_module ea ! ix"
  let ?goal = "handed {a} (dn_dev n) (dn_dev n') \<and> (e' = None \<longrightarrow> e = None \<and> (\<forall>k<unat (em_nbr_submodules ?m).
    taken (ea_api ea) (em_slot_number ?m) (es_subslot_number (em_submodule ?m ! k)) (dn_dev n')))"
  have ?goal
  proof (cases e)
    case (Some x)
    then show ?thesis using run handed_refl by (auto simp: configure_module_def)
  next
    case None
    obtain n1 where n1: "(if pf_cmdev_get_slot pa (em_slot_number ?m) (dn_dev n) = None
        then exp_module_ind app (ea_api ea) (em_slot_number ?m) (em_ident_number ?m) n else Some n) = Some n1"
      and rest: "(if (if \<exists>x\<in>set (take ix (ea_module ea)). em_slot_number x = em_slot_number ?m then exp_error 6 else None) \<noteq> None
        then Some (if \<exists>x\<in>set (take ix (ea_module ea)). em_slot_number x = em_slot_number ?m then exp_error 6 else None, n1)
        else if em_slot_number ?m > 0x7FFF then Some (exp_error 6, n1)
        else case pf_cmdev_get_slot pa (em_slot_number ?m) (dn_dev n1) of
            None \<Rightarrow> Some (exp_error 6, n1)
          | Some p_cfg_slot \<Rightarrow>
              if em_ident_number ?m = 0 then Some (exp_error 7, n1)
              else if em_nbr_submodules ?m = 0 then Some (exp_error 9, n1)
              else pf_cmdev_exp_submodule_configure app a ps (ea_api ea) ?m p_cfg_slot n1) = Some (e', n')"
      using run unfolding configure_module_def Let_def prod.case option.case None bind_eq_Some_conv by blast
    have "handed {} (dn_dev n) (dn_dev n1)"
      using n1 app handed_refl unfolding app_keeps_def by (auto split: if_splits)
    then have h1: "handed {a} (dn_dev n) (dn_dev n1)" using handed_mono by blast
    show ?thesis
    proof (cases "\<exists>p. pf_cmdev_get_slot pa (em_slot_number ?m) (dn_dev n1) = Some p \<and>
        pf_cmdev_exp_submodule_configure app a ps (ea_api ea) ?m p n1 = Some (e', n')")
      case True
      then obtain p where p: "pf_cmdev_get_slot pa (em_slot_number ?m) (dn_dev n1) = Some p"
        "pf_cmdev_exp_submodule_configure app a ps (ea_api ea) ?m p n1 = Some (e', n')" by blast
      have "pf_cmdev_get_slot_full (ea_api ea) (em_slot_number ?m) (dn_dev n1) = Some p"
        using handedD(1) [OF h1 api] p(1) by (simp add: pf_cmdev_get_slot_full_def)
      note S = submodules_hand [OF app this p(2)]
      show ?thesis using None S(2) handed_trans [OF h1 S(1)] by simp
    next
      case False
      then have "e' \<noteq> None \<and> n' = n1" using rest by (auto simp: conn_error_def split: if_splits option.splits)
      then show ?thesis using h1 by auto
    qed
  qed
  then show "handed {a} (dn_dev n) (dn_dev n')"
    and "e' = None \<Longrightarrow> e = None \<and> (\<forall>k<unat (em_nbr_submodules ?m).
      taken (ea_api ea) (em_slot_number ?m) (es_subslot_number (em_submodule ?m ! k)) (dn_dev n'))" by blast+
qed

text \<open>All expected submodules of an API, and of the first APIs.\<close>

definition all_taken :: "pf_exp_api \<Rightarrow> pf_device \<Rightarrow> bool" where
  "all_taken ea d \<longleftrightarrow> (\<forall>j<unat (ea_nbr_modules ea). \<forall>k<unat (em_nbr_submodules (ea_module ea ! j)).
     taken (ea_api ea) (em_slot_number (ea_module ea ! j)) (es_subslot_number (em_submodule (ea_module ea ! j) ! k)) d)"

lemma all_taken_handed: "all_taken ea d \<Longrightarrow> handed A d d' \<Longrightarrow> all_taken ea d'"
  unfolding all_taken_def using taken_handed by blast

lemma modules_hand:
  assumes app: "app_keeps app"
    and api: "pf_cmdev_get_api (ea_api ea) (dn_dev n) = Some pa"
    and run: "pf_cmdev_exp_modules_configure app a ps ea pa n = Some (e', n')"
  shows "handed {a} (dn_dev n) (dn_dev n')" and "e' = None \<Longrightarrow> all_taken ea (dn_dev n')"
proof -
  let ?I = "\<lambda>st :: fault \<times> dev_net. handed {a} (dn_dev n) (dn_dev (snd st))"
  let ?Q = "\<lambda>ix st :: fault \<times> dev_net. \<forall>k<unat (em_nbr_submodules (ea_module ea ! ix)). taken (ea_api ea)
      (em_slot_number (ea_module ea ! ix)) (es_subslot_number (em_submodule (ea_module ea ! ix) ! k)) (dn_dev (snd st))"
  have "?I (e', n') \<and> (fst (e', n') = None \<longrightarrow> fst (None, n) = (None :: fault) \<and> (\<forall>x\<in>set [0 ..< unat (ea_nbr_modules ea)]. ?Q x (e', n'))) \<and>
    (\<forall>y. ?Q y (None, n) \<longrightarrow> ?Q y (e', n'))"
  proof (rule each_all [OF run [unfolded pf_cmdev_exp_modules_configure_def], where I = ?I and Q = ?Q])
    fix ix and st st' :: "fault \<times> dev_net"
    assume I: "?I st" and step: "configure_module app a ps ea pa ix st = Some st'"
    have step': "configure_module app a ps ea pa ix (fst st, snd st) = Some (fst st', snd st')" using step by simp
    note H = configure_module_hands [OF app handedD(1) [OF I api] step']
    show "?I st' \<and> (fst st' = None \<longrightarrow> fst st = None \<and> ?Q ix st') \<and> (\<forall>y. ?Q y st \<longrightarrow> ?Q y st')"
      using H handed_trans [OF I H(1)] taken_handed [OF _ H(1)] by simp
  qed (simp add: handed_refl)
  then show "handed {a} (dn_dev n) (dn_dev n')" and "e' = None \<Longrightarrow> all_taken ea (dn_dev n')"
    by (simp_all add: all_taken_def)
qed

text \<open>The expected identification changes in its \<open>valid\<close> flags only.\<close>

definition same_expected :: "pf_exp_ident \<Rightarrow> pf_exp_ident \<Rightarrow> bool" where
  "same_expected ei ei' \<longleftrightarrow> (\<forall>i. ea_api (ei_api ei' ! i) = ea_api (ei_api ei ! i) \<and>
     ea_nbr_modules (ei_api ei' ! i) = ea_nbr_modules (ei_api ei ! i) \<and> ea_module (ei_api ei' ! i) = ea_module (ei_api ei ! i))"

lemma same_expected_valid: "same_expected ei (ei\<lparr>ei_api := upd ix (ea_valid_update f) (ei_api ei)\<rparr>)"
proof -
  have "ea_api (upd ix (ea_valid_update f) xs ! i) = ea_api (xs ! i)" for xs :: "pf_exp_api list" and i
    by (cases "ix < length xs"; simp add: upd_def nth_list_update list_update_beyond)
  then show ?thesis by (simp add: same_expected_def nth_ea_valid)
qed

lemma configure_api_hands:
  assumes app: "app_keeps app" and run: "configure_api app a ps ix (e, ei, n) = Some (e', ei', n')"
  shows "handed {a} (dn_dev n) (dn_dev n')" and "same_expected ei ei'"
    and "e' = None \<Longrightarrow> e = None \<and>
      (pf_cmdev_get_api (ea_api (ei_api ei ! ix)) (dn_dev n) \<noteq> None \<longrightarrow> all_taken (ei_api ei ! ix) (dn_dev n'))"
proof -
  show "same_expected ei ei'"
    using configure_api_ident [OF run] same_expected_valid [of ei] by (auto simp: same_expected_def)
  let ?ea = "ei_api ei ! ix"
  let ?goal = "handed {a} (dn_dev n) (dn_dev n') \<and>
    (e' = None \<longrightarrow> e = None \<and> (pf_cmdev_get_api (ea_api ?ea) (dn_dev n) \<noteq> None \<longrightarrow> all_taken ?ea (dn_dev n')))"
  have ?goal
  proof (cases e)
    case (Some x)
    then show ?thesis using run handed_refl by (auto simp: configure_api_def)
  next
    case None
    obtain p d where pd: "(case pf_cmdev_get_api (ea_api ?ea) (dn_dev n) of Some p \<Rightarrow> (Some p, dn_dev n)
        | None \<Rightarrow> pf_cmdev_new_api (ea_api ?ea) (dn_dev n)) = (p, d)" by fastforce
    note run' = run [unfolded None configure_api_def Let_def option.case prod.case pd]
    have h1: "handed {a} (dn_dev n) d"
      using pd handed_refl handed_new_api [of "ea_api ?ea" "dn_dev n" p d] by (auto split: option.splits)
    have known: "pf_cmdev_get_api (ea_api ?ea) (dn_dev n) \<noteq> None \<Longrightarrow> p \<noteq> None"
      using pd by (cases p) (auto split: option.splits)
    show ?thesis
    proof (cases p)
      case none: None
      then show ?thesis using run' known h1 None by auto
    next
      case (Some pa)
      then have m: "pf_cmdev_exp_modules_configure app a ps ?ea pa (n\<lparr>dn_dev := d\<rparr>) = Some (e', n')"
        using run' by (auto simp: bind_eq_Some_conv)
      have "pf_cmdev_get_api (ea_api ?ea) d = Some pa"
        using pd Some new_api_found [of "ea_api ?ea" "dn_dev n" pa d] by (auto split: option.splits)
      then have M: "handed {a} d (dn_dev n')" "e' = None \<Longrightarrow> all_taken ?ea (dn_dev n')"
        using modules_hand [OF app _ m] by simp_all
      show ?thesis using handed_trans [OF h1 M(1)] M(2) None by simp
    qed
  qed
  then show "handed {a} (dn_dev n) (dn_dev n')"
    and "e' = None \<Longrightarrow> e = None \<and>
      (pf_cmdev_get_api (ea_api (ei_api ei ! ix)) (dn_dev n) \<noteq> None \<longrightarrow> all_taken (ei_api ei ! ix) (dn_dev n'))" by blast+
qed

lemma configure_hands:
  assumes app: "app_keeps app" and run: "pf_cmdev_exp_apis_configure app a r n = Some (None, r', n')"
  shows "handed {a} (dn_dev n) (dn_dev n')"
    and "i < unat (ei_nbr_apis (ca_exp_ident r)) \<Longrightarrow> pf_cmdev_get_api (ea_api (ei_api (ca_exp_ident r) ! i)) (dn_dev n) \<noteq> None \<Longrightarrow>
      all_taken (ei_api (ca_exp_ident r) ! i) (dn_dev n')"
proof -
  let ?ei = "ca_exp_ident r" and ?ps = "map ci_param (ca_iocrs r)"
  let ?I = "\<lambda>st :: fault \<times> pf_exp_ident \<times> dev_net. handed {a} (dn_dev n) (dn_dev (snd (snd st))) \<and> same_expected ?ei (fst (snd st))"
  let ?Q = "\<lambda>ix st :: fault \<times> pf_exp_ident \<times> dev_net. pf_cmdev_get_api (ea_api (ei_api ?ei ! ix)) (dn_dev n) \<noteq> None \<longrightarrow>
    all_taken (ei_api ?ei ! ix) (dn_dev (snd (snd st)))"
  obtain ei' where loop: "each (configure_api app a ?ps) [0 ..< unat (ei_nbr_apis ?ei)] (None, ?ei, n) = Some (None, ei', n')"
    using run by (auto simp: pf_cmdev_exp_apis_configure_def bind_eq_Some_conv split: if_splits)
  have "?I (None, ei', n') \<and> (fst (None :: fault, ei', n') = None \<longrightarrow> fst (None, ?ei, n) = (None :: fault) \<and>
      (\<forall>x\<in>set [0 ..< unat (ei_nbr_apis ?ei)]. ?Q x (None, ei', n'))) \<and> (\<forall>y. ?Q y (None, ?ei, n) \<longrightarrow> ?Q y (None, ei', n'))"
  proof (rule each_all [OF loop, where I = ?I and Q = ?Q])
    fix ix and st st' :: "fault \<times> pf_exp_ident \<times> dev_net"
    assume I: "?I st" and step: "configure_api app a ?ps ix st = Some st'"
    have step': "configure_api app a ?ps ix (fst st, fst (snd st), snd (snd st)) = Some (fst st', fst (snd st'), snd (snd st'))"
      using step by simp
    note H = configure_api_hands [OF app step']
    have same: "ea_api (ei_api (fst (snd st)) ! i) = ea_api (ei_api ?ei ! i)"
      "all_taken (ei_api (fst (snd st)) ! i) d = all_taken (ei_api ?ei ! i) d" for i d
      using I by (simp_all add: same_expected_def all_taken_def)
    have here: "pf_cmdev_get_api api (dn_dev n) \<noteq> None \<Longrightarrow> pf_cmdev_get_api api (dn_dev (snd (snd st))) \<noteq> None" for api
      using handedD(1) [OF conjunct1 [OF I]] by fastforce
    have "same_expected ?ei (fst (snd st'))" using I H(2) by (simp add: same_expected_def)
    then have "?I st'" using handed_trans [OF conjunct1 [OF I] H(1)] by simp
    moreover have "fst st' = None \<longrightarrow> fst st = None \<and> ?Q ix st'" using H(3) here same by simp
    moreover have "\<forall>y. ?Q y st \<longrightarrow> ?Q y st'" using all_taken_handed [OF _ H(1)] by blast
    ultimately show "?I st' \<and> (fst st' = None \<longrightarrow> fst st = None \<and> ?Q ix st') \<and> (\<forall>y. ?Q y st \<longrightarrow> ?Q y st')" by blast
  qed (simp add: handed_refl same_expected_def)
  then show "handed {a} (dn_dev n) (dn_dev n')"
    and "i < unat (ei_nbr_apis ?ei) \<Longrightarrow> pf_cmdev_get_api (ea_api (ei_api ?ei ! i)) (dn_dev n) \<noteq> None \<Longrightarrow>
      all_taken (ei_api ?ei ! i) (dn_dev n')" by auto
qed

end
