(* ===== verification/Conn_Faults.thy ===== *)
theory Conn_Faults
  imports Conn_Ownership
begin

section \<open>What the checks of a connect request do and do not guarantee\<close>

subsection \<open>The check never leaves an array\<close>

lemma each_total: "(\<And>x s. x \<in> set xs \<Longrightarrow> f x s \<noteq> None) \<Longrightarrow> each f xs s \<noteq> None"
  using each_induct [of "\<lambda>_. True" s xs f] by auto

lemma bind_total: "m \<noteq> None \<Longrightarrow> (\<And>x. f x \<noteq> None) \<Longrightarrow> Option.bind m f \<noteq> None"
  by (cases m) simp_all

definition app_total :: "app \<Rightarrow> bool" where
  "app_total app \<longleftrightarrow> (\<forall>api slot i n. exp_module_ind app api slot i n \<noteq> None) \<and>
     (\<forall>api slot sub i j c n. exp_submodule_ind app api slot sub i j c n \<noteq> None)"

lemma configure_submodule_total:
  assumes "app_total app"
  shows "configure_submodule app a ps api m p ix st \<noteq> None"
  unfolding configure_submodule_def Let_def split_beta
  by (rule bind_total) (use assms in \<open>simp_all add: app_total_def\<close>)

lemma configure_module_total:
  assumes "app_total app"
  shows "configure_module app a ps ea p ix st \<noteq> None"
proof -
  have sub: "pf_cmdev_exp_submodule_configure app a ps api m q n \<noteq> None" for api m q n
    unfolding pf_cmdev_exp_submodule_configure_def by (rule each_total) (rule configure_submodule_total [OF assms])
  obtain e n where st: "st = (e, n)" by (cases st)
  show ?thesis
  proof (cases e)
    case None
    show ?thesis unfolding configure_module_def Let_def st None prod.case option.case
      by (rule bind_total) (use assms sub in \<open>simp_all add: app_total_def split: option.split\<close>)
  qed (simp add: configure_module_def st)
qed

lemma configure_api_total:
  assumes "app_total app"
  shows "configure_api app a ps ix st \<noteq> None"
proof -
  have m: "pf_cmdev_exp_modules_configure app a ps ea p n \<noteq> None" for ea p n
    unfolding pf_cmdev_exp_modules_configure_def by (rule each_total) (rule configure_module_total [OF assms])
  obtain e ei n where st: "st = (e, ei, n)" by (cases st) auto
  show ?thesis
  proof (cases e)
    case None
    obtain p d where "(case pf_cmdev_get_api (ea_api (ei_api ei ! ix)) (dn_dev n) of Some p \<Rightarrow> (Some p, dn_dev n)
        | None \<Rightarrow> pf_cmdev_new_api (ea_api (ei_api ei ! ix)) (dn_dev n)) = (p, d)" by fastforce
    note pd = this
    show ?thesis unfolding configure_api_def Let_def st None option.case prod.case pd
    proof (cases p)
      case (Some q)
      show "(case p of None \<Rightarrow> Some (None, ei, n\<lparr>dn_dev := d\<rparr>) | Some p_cfg_api \<Rightarrow>
          Option.bind (pf_cmdev_exp_modules_configure app a ps (ei_api ei ! ix) p_cfg_api (n\<lparr>dn_dev := d\<rparr>))
            (\<lambda>(e, n). Some (e, ei\<lparr>ei_api := upd ix (ea_valid_update (\<lambda>_. e = None)) (ei_api ei)\<rparr>, n))) \<noteq> None"
        unfolding Some option.case by (rule bind_total [OF m]) (simp add: split_beta)
    qed simp
  qed (simp add: configure_api_def st)
qed

text \<open>C15: When the expected identification is within the limits that the parser guarantees, and the
  application's callbacks return, the check of a connect request returns: it never writes behind the
  array of data descriptors.\<close>

theorem connect_check_in_bounds:
  assumes "ident_limits (ca_exp_ident r)" and "app_total app"
  shows "pf_cmdev_check_apdu app k a r n \<noteq> None"
proof -
  have conf: "pf_cmdev_exp_apis_configure app a r n \<noteq> None"
  proof -
    have "each (configure_api app a ps) xs st \<noteq> None" for ps xs st by (rule each_total) (rule configure_api_total [OF assms(2)])
    then obtain st where "each (configure_api app a (map ci_param (ca_iocrs r))) [0 ..< unat (ei_nbr_apis (ca_exp_ident r))]
        (None, ca_exp_ident r, n) = Some st" by blast
    then show ?thesis by (simp add: pf_cmdev_exp_apis_configure_def split_beta)
  qed
  then obtain e r1 n1 where c: "pf_cmdev_exp_apis_configure app a r n = Some (e, r1, n1)" by auto
  have "ident_limits (ca_exp_ident r1)" using configure_limits(1) [OF c] assms(1) by simp
  then obtain ret cs where "setup_all (ca_exp_ident r1) (ca_iocrs r1) = Some (ret, cs)" using setup_all_keys by blast
  with c show ?thesis by (auto simp: pf_cmdev_check_apdu_def Let_def split: option.split)
qed

lemma connect_check_in_bounds_witness: "pf_cmdev_check_apdu silent_app 32 0 (example_conn 1) fresh_device \<noteq> None"
  by (rule connect_check_in_bounds) (simp_all add: example_conn_def expected_limits app_total_def silent_app_def)

subsection \<open>A refused request\<close>

text \<open>C27: The check gives the free submodules to the AR before its last checks. When one of these
  refuses the request, no expected submodule of the APIs that the device has is free afterwards: each
  is plugged and has an owner, and each that was free before belongs to the AR whose request was
  refused. (The application's callbacks may plug, but do not pull or change owners.)\<close>

theorem refused_request_keeps_submodules:
  assumes "app_keeps app"
    and "pf_cmdev_check_ar_param (ca_param r) = None"
    and "pf_cmdev_check_iocr_param_full k (ca_param r) (map ci_param (ca_iocrs r)) = None"
    and "ca_nbr_ar_param r \<noteq> 0" "pf_cmdev_exp_apis_configure app a r n = Some (None, r1, n1)"
    and "pf_cmdev_check_apdu app k a r n = Some (False, e, r', n')"
    and "i < unat (ei_nbr_apis (ca_exp_ident r))" "ea = ei_api (ca_exp_ident r) ! i"
    and "pf_cmdev_get_api (ea_api ea) (dn_dev n) \<noteq> None"
    and "j < unat (ea_nbr_modules ea)" "m = ea_module ea ! j"
    and "l < unat (em_nbr_submodules m)" "s = em_submodule m ! l"
  shows "\<exists>q. pf_cmdev_get_subslot_full (ea_api ea) (em_slot_number m) (es_subslot_number s) (dn_dev n') = Some q \<and>
    ownsm_state (subslot_at (dn_dev n') q) \<noteq> PF_OWNSM_STATE_FREE \<and>
    (pf_cmdev_get_subslot_full (ea_api ea) (em_slot_number m) (es_subslot_number s) (dn_dev n) = Some q \<longrightarrow>
     ownsm_state (subslot_at (dn_dev n) q) = PF_OWNSM_STATE_FREE \<longrightarrow>
     ownsm_state (subslot_at (dn_dev n') q) = PF_OWNSM_STATE_IOC \<and> owner (subslot_at (dn_dev n') q) = Some a)"
proof -
  have "n' = n1" using assms(2-6) by (auto simp: pf_cmdev_check_apdu_def Let_def bind_eq_Some_conv split: if_splits)
  note H = configure_hands [OF assms(1,5), folded this]
  have "taken (ea_api ea) (em_slot_number m) (es_subslot_number s) (dn_dev n')"
    using H(2) [OF assms(7)] assms(8-13) by (simp add: all_taken_def)
  then obtain q where q: "pf_cmdev_get_subslot_full (ea_api ea) (em_slot_number m) (es_subslot_number s) (dn_dev n') = Some q"
    "ownsm_state (subslot_at (dn_dev n') q) \<noteq> PF_OWNSM_STATE_FREE" unfolding taken_def by blast
  then show ?thesis using handedD(4) [OF H(1), of "ea_api ea" "em_slot_number m" "es_subslot_number s" q] by auto
qed

lemma example_place_before:
  "pf_cmdev_get_api 0 (dn_dev (plugged_device n)) = Some 0"
  "pf_cmdev_get_subslot_full 0 1 1 (dn_dev (plugged_device n)) = Some (0, 0, 0)"
  "ownsm_state (subslot_at (dn_dev (plugged_device n)) (0, 0, 0)) = PF_OWNSM_STATE_FREE"
  by code_simp+

lemma refused_request_keeps_submodules_witness:
  "\<exists>e r' n'. pf_cmdev_check_apdu silent_app 32 3 (example_conn 0) (plugged_device fresh_device) = Some (False, e, r', n') \<and>
     ownsm_state (subslot_at (dn_dev n') (0, 0, 0)) = PF_OWNSM_STATE_IOC \<and> owner (subslot_at (dn_dev n') (0, 0, 0)) = Some 3"
proof -
  obtain e r' n' where c: "pf_cmdev_check_apdu silent_app 32 3 (example_conn 0) (plugged_device fresh_device) = Some (False, e, r', n')"
    using request_refused [of 3 fresh_device] by (auto simp: map_option_eq_Some)
  obtain r1 n1 where d: "pf_cmdev_exp_apis_configure silent_app 3 (example_conn 0) (plugged_device fresh_device) = Some (None, r1, n1)"
    using example_configured [of 3 0 fresh_device] by (auto simp: map_option_eq_Some)
  have app: "app_keeps silent_app" by (simp add: app_keeps_def silent_app_def handed_refl)
  have p: "pf_cmdev_check_ar_param (ca_param (example_conn 0)) = None"
    using example_params(1) by (simp add: example_conn_def)
  have q: "pf_cmdev_check_iocr_param_full 32 (ca_param (example_conn 0)) (map ci_param (ca_iocrs (example_conn 0))) = None"
    by code_simp
  define ea where "ea = ei_api (ca_exp_ident (example_conn 0)) ! 0"
  define m where "m = ea_module ea ! 0"
  define s where "s = em_submodule m ! 0"
  have size: "0 < unat (ei_nbr_apis (ca_exp_ident (example_conn 0)))" "0 < unat (ea_nbr_modules ea)" "0 < unat (em_nbr_submodules m)"
    "ca_nbr_ar_param (example_conn 0) \<noteq> 0"
    and nbr: "ea_api ea = 0" "em_slot_number m = 1" "es_subslot_number s = 1"
    unfolding ea_def m_def s_def by code_simp+
  have api: "pf_cmdev_get_api (ea_api ea) (dn_dev (plugged_device fresh_device)) \<noteq> None"
    using example_place_before(1) nbr by simp
  obtain x where x: "pf_cmdev_get_subslot_full 0 1 1 (dn_dev n') = Some x"
    "pf_cmdev_get_subslot_full 0 1 1 (dn_dev (plugged_device fresh_device)) = Some x \<longrightarrow>
      ownsm_state (subslot_at (dn_dev (plugged_device fresh_device)) x) = PF_OWNSM_STATE_FREE \<longrightarrow>
      ownsm_state (subslot_at (dn_dev n') x) = PF_OWNSM_STATE_IOC \<and> owner (subslot_at (dn_dev n') x) = Some 3"
    using refused_request_keeps_submodules [OF app p q size(4) d c size(1) ea_def api size(2) m_def size(3) s_def] nbr by auto
  have "handed {3} (dn_dev (plugged_device fresh_device)) (dn_dev n1)" by (rule configure_hands [OF app d])
  moreover have "n' = n1" using p q size(4) c d by (auto simp: pf_cmdev_check_apdu_def Let_def bind_eq_Some_conv split: if_splits)
  ultimately have "pf_cmdev_get_subslot_full 0 1 1 (dn_dev n') = Some (0, 0, 0)"
    using handedD(3) [OF _ example_place_before(2)] by blast
  then have "x = (0, 0, 0)" using x(1) by simp
  then show ?thesis using c x(2) example_place_before(2,3) [of fresh_device] by simp
qed

subsection \<open>The data hold time\<close>

text \<open>The data hold time in units of 1/1000 of a millisecond, without a limit of the numbers.\<close>

definition hold_us :: "pf_iocr_param \<Rightarrow> nat" where
  "hold_us p = unat (cp_data_hold_factor p) * unat (cp_reduction_ratio p) * unat (cp_send_clock_factor p) * 1000 div 32"

lemma unat_hold_time:
  assumes "unat (cp_data_hold_factor p) * unat (cp_reduction_ratio p) * unat (cp_send_clock_factor p) * 1000 < 2 ^ 32"
  shows "unat (hold_time p) = hold_us p"
proof -
  define n where "n = unat (cp_data_hold_factor p) * unat (cp_reduction_ratio p) * unat (cp_send_clock_factor p) * 1000"
  have "hold_time p = of_nat n div 32" by (simp add: hold_time_def n_def)
  moreover have "unat (of_nat n :: u32) = n" using assms unfolding n_def [symmetric] by (simp add: unat_of_nat take_bit_eq_mod)
  ultimately show ?thesis unfolding hold_us_def n_def [symmetric] by (simp add: unat_div_distrib)
qed

definition slow_iocr :: pf_iocr_param where
  "slow_iocr = (ci_param (example_iocr PF_IOCR_TYPE_INPUT 0xC000 (fd 1 1 0) (fd 1 2 3)))
     \<lparr>cp_reduction_ratio := 512, cp_data_hold_factor := 263\<rparr>"

lemma timing_hold:
  assumes "iocr_timing_fault p = None" "cp_rt_class p \<in> {PF_RT_CLASS_1, PF_RT_CLASS_2, PF_RT_CLASS_3}"
  shows "\<not> hold_time p > 1920000"
proof
  assume h: "hold_time p > 1920000"
  have "cp_rt_class p = PF_RT_CLASS_1 \<or> cp_rt_class p = PF_RT_CLASS_2 \<or> cp_rt_class p = PF_RT_CLASS_3" using assms(2) by simp
  then have "iocr_timing_fault p \<noteq> None" unfolding iocr_timing_fault_def Let_def using h by (simp only: simp_thms if_True split: if_split) simp
  then show False using assms(1) by simp
qed

text \<open>C29: The limit of 1.92 seconds for the data hold time is checked in 32 bits. Accepted parameters
  whose product fits obey it; but a product that wraps can pass with a hold time of 134 seconds.\<close>

theorem hold_time_limit:
  "(\<forall>ar p. iocr_param_fault ar p = None \<longrightarrow> cp_rt_class p \<in> {PF_RT_CLASS_1, PF_RT_CLASS_2, PF_RT_CLASS_3} \<longrightarrow>
      hold_us p * 32 < 2 ^ 32 - 32 \<longrightarrow> hold_us p \<le> 1920000) \<and>
   pf_cmdev_check_iocr_param example_ar_param [slow_iocr] = None \<and> cp_rt_class slow_iocr = PF_RT_CLASS_1 \<and>
   hold_us slow_iocr = 134656000"
proof (intro conjI allI impI)
  fix ar p
  assume a: "iocr_param_fault ar p = None" "cp_rt_class p \<in> {PF_RT_CLASS_1, PF_RT_CLASS_2, PF_RT_CLASS_3}" "hold_us p * 32 < 2 ^ 32 - 32"
  let ?n = "unat (cp_data_hold_factor p) * unat (cp_reduction_ratio p) * unat (cp_send_clock_factor p) * 1000"
  have "?n < 2 ^ 32" using a(3) unfolding hold_us_def by linarith
  moreover have "\<not> hold_time p > 1920000"
    using a(1,2) timing_hold unfolding iocr_param_fault_def fault_chain no_fault by blast
  ultimately show "hold_us p \<le> 1920000" using unat_hold_time by (simp add: word_less_nat_alt)
next
  show "pf_cmdev_check_iocr_param example_ar_param [slow_iocr] = None" by code_simp
  show "cp_rt_class slow_iocr = PF_RT_CLASS_1" by code_simp
  show "hold_us slow_iocr = 134656000" by (simp add: hold_us_def slow_iocr_def example_iocr_def)
qed

lemma hold_time_limit_witness:
  "hold_us (ci_param (example_iocr PF_IOCR_TYPE_INPUT 0xC000 (fd 1 1 0) (fd 1 2 3))) \<le> 1920000"
proof -
  let ?p = "ci_param (example_iocr PF_IOCR_TYPE_INPUT 0xC000 (fd 1 1 0) (fd 1 2 3))"
  have "iocr_param_fault example_ar_param ?p = None" by code_simp
  moreover have "cp_rt_class ?p \<in> {PF_RT_CLASS_1, PF_RT_CLASS_2, PF_RT_CLASS_3}" by (simp add: example_iocr_def PF_RT_CLASS_1_def)
  moreover have "hold_us ?p * 32 < 2 ^ 32 - 32" by (simp add: hold_us_def example_iocr_def)
  ultimately show ?thesis by (rule hold_time_limit [THEN conjunct1, rule_format])
qed

subsection \<open>Areas that the check does not compare\<close>

text \<open>A request for one submodule with inputs and outputs, and where its areas are in the input CR.\<close>

definition io_sub :: pf_exp_submodule where
  "io_sub = \<lparr>es_subslot_number = 1, es_ident_number = 8, es_properties = example_properties 3, es_nbr_data_descriptors = 2,
     es_data_descriptor = [\<lparr>dd_data_direction = 1, dd_submodule_data_length = 2, dd_length_iops = 1, dd_length_iocs = 1\<rparr>,
       \<lparr>dd_data_direction = 2, dd_submodule_data_length = 1, dd_length_iops = 1, dd_length_iocs = 1\<rparr>],
     es_state = zero_submodule_state\<rparr>"

definition io_conn :: "u16 \<Rightarrow> u16 \<Rightarrow> conn_ar" where
  "io_conn io cs = (example_conn 1)
     \<lparr>ca_exp_ident := \<lparr>ei_nbr_apis = 1, ei_api = [\<lparr>ea_valid = True, ea_api = 0, ea_nbr_modules = 1,
        ea_module = [\<lparr>em_slot_number = 1, em_ident_number = 7, em_properties = 0, em_state = 0, em_nbr_submodules = 1,
          em_submodule = [io_sub], em_nbr_diff_submodules = 0, em_diff_submodule = [0]\<rparr>],
        ea_nbr_diff_modules = 0, ea_diff_module = [0]\<rparr>], ei_nbr_diff_apis = 0, ei_diff_api = [0]\<rparr>,
      ca_iocrs := [example_iocr PF_IOCR_TYPE_INPUT 0xC000 (fd 1 1 io) (fd 1 1 cs),
        example_iocr PF_IOCR_TYPE_OUTPUT 0xFFFF (fd 1 1 0) (fd 1 1 2)]\<rparr>"

definition areas :: "io_object \<Rightarrow> (u16 \<times> u16) \<times> (u16 \<times> u16) \<times> (u16 \<times> u16)" where
  "areas d = ((io_data_offset d, io_data_length d), (io_iops_offset d, io_iops_length d), (io_iocs_offset d, io_iocs_length d))"

definition checked_areas :: "dev_net \<Rightarrow> conn_ar \<Rightarrow> (bool \<times> (u16 \<times> ((u16 \<times> u16) \<times> (u16 \<times> u16) \<times> (u16 \<times> u16)) list) list) option" where
  "checked_areas n r = map_option (\<lambda>(b, e, r, n). (b, map (\<lambda>c. (ci_in_length c, map areas (ci_data_desc c))) (ca_iocrs r)))
     (pf_cmdev_check_apdu silent_app 32 0 r (plugged_device n))"

lemma overlapping_areas: "checked_areas n (io_conn 0 0) = Some (True, [(4, [((0, 2), (2, 1), (0, 1))]), (0, [((0, 1), (1, 1), (2, 1))])])"
  by code_simp

lemma distant_areas: "checked_areas n (io_conn 10 0) = Some (True, [(4, [((10, 2), (12, 1), (0, 1))]), (0, [((0, 1), (1, 1), (2, 1))])])"
  by code_simp

lemma checked_areasE:
  assumes "checked_areas n r = Some (True, (k, [((a, b), (c, d), (f, g))]) # xs)"
  obtains e r' n' x y where "pf_cmdev_check_apdu silent_app 32 0 r (plugged_device n) = Some (True, e, r', n')"
    "x \<in> set (ca_iocrs r')" "y \<in> set (ci_data_desc x)" "ci_in_length x = k" "areas y = ((a, b), (c, d), (f, g))"
proof -
  obtain e r' n' where p: "pf_cmdev_check_apdu silent_app 32 0 r (plugged_device n) = Some (True, e, r', n')"
    "map (\<lambda>c. (ci_in_length c, map areas (ci_data_desc c))) (ca_iocrs r') = (k, [((a, b), (c, d), (f, g))]) # xs"
    using assms by (auto simp: checked_areas_def)
  then obtain x ys where x: "ca_iocrs r' = x # ys" "ci_in_length x = k" "map areas (ci_data_desc x) = [((a, b), (c, d), (f, g))]"
    by (auto simp: Cons_eq_map_conv)
  then obtain y where y: "ci_data_desc x = [y]" "areas y = ((a, b), (c, d), (f, g))" by auto
  show ?thesis by (rule that [OF p(1), of x y]) (use x y in simp_all)
qed

text \<open>Two layouts that are accepted although the cyclic data cannot work with them: the consumer
  status of a submodule inside the data of the same submodule, and data behind the part of the C-SDU
  that is sent, whose length is the sum of the lengths of the areas.\<close>

lemma accepted_bad_layouts:
  "(\<exists>e r' n' c d. pf_cmdev_check_apdu silent_app 32 0 (io_conn 0 0) (plugged_device fresh_device) = Some (True, e, r', n') \<and>
     c \<in> set (ca_iocrs r') \<and> d \<in> set (ci_data_desc c) \<and> io_iocs_length d = 1 \<and>
     area (io_iocs_offset d) (io_iocs_length d) \<subseteq> area (io_data_offset d) (io_data_length d)) \<and>
   (\<exists>e r' n' c d. pf_cmdev_check_apdu silent_app 32 0 (io_conn 10 0) (plugged_device fresh_device) = Some (True, e, r', n') \<and>
     c \<in> set (ca_iocrs r') \<and> d \<in> set (ci_data_desc c) \<and> unat (ci_in_length c) \<le> unat (io_data_offset d) \<and>
     io_data_length d = 2)"
proof
  obtain e r n c d where "pf_cmdev_check_apdu silent_app 32 0 (io_conn 0 0) (plugged_device fresh_device) = Some (True, e, r, n)"
    "c \<in> set (ca_iocrs r)" "d \<in> set (ci_data_desc c)" "areas d = ((0, 2), (2, 1), (0, 1))"
    by (rule checked_areasE [OF overlapping_areas])
  moreover from this(4) have "io_iocs_length d = 1 \<and> area (io_iocs_offset d) (io_iocs_length d) \<subseteq> area (io_data_offset d) (io_data_length d)"
    by (simp add: areas_def area_def)
  ultimately show "\<exists>e r' n' c d. pf_cmdev_check_apdu silent_app 32 0 (io_conn 0 0) (plugged_device fresh_device) = Some (True, e, r', n') \<and>
     c \<in> set (ca_iocrs r') \<and> d \<in> set (ci_data_desc c) \<and> io_iocs_length d = 1 \<and>
     area (io_iocs_offset d) (io_iocs_length d) \<subseteq> area (io_data_offset d) (io_data_length d)" by blast
next
  obtain e r n c d where "pf_cmdev_check_apdu silent_app 32 0 (io_conn 10 0) (plugged_device fresh_device) = Some (True, e, r, n)"
    "c \<in> set (ca_iocrs r)" "d \<in> set (ci_data_desc c)" "ci_in_length c = 4" "areas d = ((10, 2), (12, 1), (0, 1))"
    by (rule checked_areasE [OF distant_areas])
  moreover from this(4,5) have "unat (ci_in_length c) \<le> unat (io_data_offset d) \<and> io_data_length d = 2" by (simp add: areas_def)
  ultimately show "\<exists>e r' n' c d. pf_cmdev_check_apdu silent_app 32 0 (io_conn 10 0) (plugged_device fresh_device) = Some (True, e, r', n') \<and>
     c \<in> set (ca_iocrs r') \<and> d \<in> set (ci_data_desc c) \<and> unat (ci_in_length c) \<le> unat (io_data_offset d) \<and>
     io_data_length d = 2" by blast
qed

end
