(* ===== verification/Conn_Answer.thy ===== *)
theory Conn_Answer
  imports Conn_Example Conn_Layout
begin

section \<open>The frame IDs that the device chooses\<close>

text \<open>
  A controller may leave the frame ID of an output CR open (0xFFFF). The device then takes the first
  free one of the range of the real time class.
\<close>

subsection \<open>The search\<close>

lemma first_free_id_found:
  assumes "start \<le> x" "x \<le> stop" "free x"
  shows "\<exists>y. first_free_id free stop start = Some y \<and> start \<le> y \<and> y \<le> stop \<and> free y"
  using assms
proof (induction "unat stop - unat start" arbitrary: start)
  case 0
  then have "start = x" by (simp add: word_le_nat_alt word_unat_eq_iff)
  then show ?case using 0 by (subst first_free_id.simps) simp
next
  case (Suc k)
  show ?case
  proof (cases "free start")
    case True
    then show ?thesis using Suc.prems by (subst first_free_id.simps) auto
  next
    case False
    then have "start \<noteq> x" using Suc.prems by auto
    then have lt: "unat start < unat x" "unat x \<le> unat stop" using Suc.prems by (auto simp: word_le_nat_alt word_unat_eq_iff)
    have "unat x < 65536" by simp
    with lt have "unat start + 1 < 65536" by linarith
    then have inc: "unat (start + 1) = unat start + 1" by (simp add: unat_word_ariths)
    have "\<exists>y. first_free_id free stop (start + 1) = Some y \<and> start + 1 \<le> y \<and> y \<le> stop \<and> free y"
      by (rule Suc.hyps(1)) (use Suc.hyps(2) Suc.prems lt inc in \<open>simp_all add: word_le_nat_alt\<close>)
    then obtain y where "first_free_id free stop (start + 1) = Some y" "start + 1 \<le> y" "y \<le> stop" "free y" by auto
    moreover have "start \<le> y" using \<open>start + 1 \<le> y\<close> inc by (simp add: word_le_nat_alt)
    moreover have "first_free_id free stop start = first_free_id free stop (start + 1)"
      using False Suc.prems by (subst first_free_id.simps) (auto simp: word_le_nat_alt)
    ultimately show ?thesis by auto
  qed
qed

lemma free_id_exists:
  assumes "length xs < unat stop - unat start + 1" "start \<le> stop"
  shows "\<exists>x. start \<le> x \<and> x \<le> stop \<and> x \<notin> set (xs :: u16 list)"
proof (rule ccontr)
  assume "\<not> ?thesis"
  then have "{start..stop} \<subseteq> set xs" by auto
  moreover have "unat ` {start..stop} = {unat start..unat stop}"
  proof (rule set_eqI, rule iffI)
    fix n assume n: "n \<in> {unat start..unat stop}"
    have "unat stop < 65536" by simp
    with n have "n < 65536" by (simp only: atLeastAtMost_iff) linarith
    with n show "n \<in> unat ` {start..stop}"
      by (intro image_eqI [of _ _ "of_nat n"]) (simp_all add: word_le_nat_alt unat_of_nat take_bit_eq_mod)
  qed (auto simp: word_le_nat_alt)
  then have "card {start..stop} = unat stop - unat start + 1" using assms(2)
    by (metis card_image card_atLeastAtMost inj_on_def word_unat_eq_iff Suc_diff_le word_le_nat_alt Suc_eq_plus1)
  ultimately have "unat stop - unat start + 1 \<le> length xs"
    by (metis List.finite_set card_length card_mono order_trans)
  then show False using assms(1) by simp
qed

subsection \<open>All output CRs\<close>

definition frame_ids :: "conn_iocr list \<Rightarrow> u16 list" where
  "frame_ids cs = map (\<lambda>c. cp_frame_id (ci_param c)) cs"

text \<open>The device chooses the ID of this IOCR.\<close>

definition id_open :: "conn_iocr \<Rightarrow> bool" where
  "id_open c \<longleftrightarrow> has_iocr_type PF_IOCR_TYPE_OUTPUT (ci_param c) \<and> cp_frame_id (ci_param c) = 0xFFFF"

definition real_time_class :: "conn_iocr \<Rightarrow> bool" where
  "real_time_class c \<longleftrightarrow> cp_rt_class (ci_param c) \<in> {PF_RT_CLASS_1, PF_RT_CLASS_2, PF_RT_CLASS_3, PF_RT_CLASS_UDP}"

definition good_id :: "u16 list \<Rightarrow> conn_iocr list \<Rightarrow> nat \<Rightarrow> u16 \<Rightarrow> bool" where
  "good_id others cs i x \<longleftrightarrow> (let r = frame_id_range (cp_rt_class (ci_param (cs ! i))) in
     fst r \<le> x \<and> x \<le> snd r \<and> x \<notin> set others \<and> (\<forall>j < length cs. j \<noteq> i \<longrightarrow> frame_ids cs ! j \<noteq> x))"

lemma real_time_range:
  assumes "real_time_class c"
  shows "14336 \<le> unat (snd (frame_id_range (cp_rt_class (ci_param c)))) - unat (fst (frame_id_range (cp_rt_class (ci_param c)))) + 1"
    and "fst (frame_id_range (cp_rt_class (ci_param c))) \<le> snd (frame_id_range (cp_rt_class (ci_param c)))"
  using assms by (auto simp: real_time_class_def frame_id_range_def PF_RT_CLASS_1_def PF_RT_CLASS_2_def PF_RT_CLASS_3_def PF_RT_CLASS_UDP_def)

definition with_id :: "u16 \<Rightarrow> conn_iocr \<Rightarrow> conn_iocr" where
  "with_id x c = c\<lparr>ci_param := (ci_param c)\<lparr>cp_frame_id := x\<rparr>\<rparr>"

lemma fix_one:
  assumes "i < length cs" "id_open (cs ! i)" "real_time_class (cs ! i)" "length others + length cs < 14336"
  obtains x where "fix_iocr_frame_id others i cs = Some (cs[i := with_id x (cs ! i)])" "x \<notin> set (frame_ids cs)" "x \<notin> set others"
    "fst (frame_id_range (cp_rt_class (ci_param (cs ! i)))) \<le> x" "x \<le> snd (frame_id_range (cp_rt_class (ci_param (cs ! i))))"
proof -
  let ?r = "frame_id_range (cp_rt_class (ci_param (cs ! i)))"
  let ?free = "pf_cmdev_verify_free_frame_id others cs"
  have "length (others @ frame_ids cs) < unat (snd ?r) - unat (fst ?r) + 1"
    using real_time_range(1) [OF assms(3)] assms(4) by (simp add: frame_ids_def)
  then obtain x where "fst ?r \<le> x" "x \<le> snd ?r" "x \<notin> set (others @ frame_ids cs)"
    using free_id_exists real_time_range(2) [OF assms(3)] by blast
  then obtain y where y: "first_free_id ?free (snd ?r) (fst ?r) = Some y" "fst ?r \<le> y" "y \<le> snd ?r" "?free y"
    using first_free_id_found [of "fst ?r" x "snd ?r" ?free] by (auto simp: pf_cmdev_verify_free_frame_id_def frame_ids_def)
  show ?thesis
    by (rule that [of y]) (use y assms(1,2) in \<open>simp_all add: fix_iocr_frame_id_def Let_def split_beta id_open_def upd_def with_id_def
        pf_cmdev_verify_free_frame_id_def frame_ids_def\<close>)
qed

lemma each_append: "each f (xs @ ys) s = Option.bind (each f xs s) (each f ys)"
  by (induction xs arbitrary: s) (simp_all add: bind_assoc)

definition ids_fixed :: "u16 list \<Rightarrow> conn_iocr list \<Rightarrow> nat \<Rightarrow> conn_iocr list \<Rightarrow> bool" where
  "ids_fixed others cs m cs' \<longleftrightarrow> length cs' = length cs \<and>
     (\<forall>i < length cs. if i < m \<and> id_open (cs ! i)
        then (\<exists>x. cs' ! i = with_id x (cs ! i) \<and> good_id others cs' i x) else cs' ! i = cs ! i)"

lemma with_id_simps [simp]:
  "cp_frame_id (ci_param (with_id x c)) = x" "cp_rt_class (ci_param (with_id x c)) = cp_rt_class (ci_param c)"
  by (simp_all add: with_id_def)

lemma good_id_later:
  assumes "good_id others cs i x" "j \<noteq> i" "j < length cs" "i < length cs" "y \<noteq> x" "cp_rt_class (ci_param c) = cp_rt_class (ci_param (cs ! j))"
  shows "good_id others (cs[j := with_id y c]) i x"
  using assms by (auto simp: good_id_def Let_def frame_ids_def nth_list_update)

lemma ids_fixed_step:
  assumes inv: "ids_fixed others cs m cs'" and m: "m < length cs" and room: "length others + length cs < 14336"
    and cl: "real_time_class (cs ! m)"
  shows "\<exists>cs''. fix_iocr_frame_id others m cs' = Some cs'' \<and> ids_fixed others cs (Suc m) cs''"
proof (cases "id_open (cs ! m)")
  case False
  have "cs' ! m = cs ! m" using inv m by (auto simp: ids_fixed_def)
  then have "fix_iocr_frame_id others m cs' = Some cs'" using False by (auto simp: fix_iocr_frame_id_def Let_def id_open_def)
  moreover have "ids_fixed others cs (Suc m) cs'" using inv False by (auto simp: ids_fixed_def less_Suc_eq)
  ultimately show ?thesis by blast
next
  case True
  have c: "cs' ! m = cs ! m" "length cs' = length cs" using inv m by (auto simp: ids_fixed_def)
  obtain x where x: "fix_iocr_frame_id others m cs' = Some (cs'[m := with_id x (cs' ! m)])" "x \<notin> set (frame_ids cs')" "x \<notin> set others"
    "fst (frame_id_range (cp_rt_class (ci_param (cs' ! m)))) \<le> x" "x \<le> snd (frame_id_range (cp_rt_class (ci_param (cs' ! m))))"
    by (rule fix_one [of m cs' others]) (use c m True cl room in simp_all)
  let ?cs = "cs'[m := with_id x (cs ! m)]"
  have new: "frame_ids cs' ! j \<noteq> x" if "j < length cs" for j
    using x(2) that c(2) nth_mem [of j "frame_ids cs'"] by (auto simp: frame_ids_def)
  have "if i < Suc m \<and> id_open (cs ! i) then \<exists>y. ?cs ! i = with_id y (cs ! i) \<and> good_id others ?cs i y else ?cs ! i = cs ! i"
    if i: "i < length cs" for i
  proof (cases "i = m")
    case True
    have "good_id others ?cs m x" using x(3-5) new m c by (auto simp: good_id_def Let_def frame_ids_def nth_list_update)
    then show ?thesis using True \<open>id_open (cs ! m)\<close> m c by auto
  next
    case False
    show ?thesis
    proof (cases "i < m \<and> id_open (cs ! i)")
      case True
      then obtain y where y: "cs' ! i = with_id y (cs ! i)" "good_id others cs' i y" using inv i True unfolding ids_fixed_def by meson
      have "x \<noteq> y" using new [OF i] y(1) i c(2) by (auto simp: frame_ids_def)
      then have "good_id others ?cs i y" using good_id_later [OF y(2), of m x "cs ! m"] False m i c by auto
      then show ?thesis using y(1) False True by auto
    next
      case False
      then have "cs' ! i = cs ! i" using inv i unfolding ids_fixed_def by metis
      then show ?thesis using False \<open>i \<noteq> m\<close> by auto
    qed
  qed
  then have "ids_fixed others cs (Suc m) ?cs" using c(2) by (simp add: ids_fixed_def)
  then show ?thesis using x(1) c(1) by auto
qed

text \<open>C22: For an AR whose IOCRs have the classes 1, 2, 3 or UDP the choice of the frame IDs ends, and while
  fewer than 14336 IDs are in use every open ID of an output CR becomes one of the range of the class
  that no other IOCR of any AR has; all other IDs stay.\<close>

theorem chosen_frame_ids:
  assumes "length others + length cs < 14336" and "\<forall>c\<in>set cs. real_time_class c"
  shows "\<exists>cs'. pf_cmdev_fix_frame_id others cs = Some cs' \<and> length cs' = length cs \<and>
    (\<forall>i < length cs. if id_open (cs ! i)
       then \<exists>x. cs' ! i = with_id x (cs ! i) \<and> good_id others cs' i x else cs' ! i = cs ! i)"
proof -
  have "\<exists>cs'. each (fix_iocr_frame_id others) [0 ..< m] cs = Some cs' \<and> ids_fixed others cs m cs'" if "m \<le> length cs" for m
    using that
  proof (induction m)
    case (Suc m)
    then obtain cs1 where c1: "each (fix_iocr_frame_id others) [0 ..< m] cs = Some cs1" "ids_fixed others cs m cs1" by auto
    obtain cs2 where c2: "fix_iocr_frame_id others m cs1 = Some cs2" "ids_fixed others cs (Suc m) cs2"
      using ids_fixed_step [OF c1(2) _ assms(1)] Suc.prems assms(2) by auto
    have "each (fix_iocr_frame_id others) [0 ..< Suc m] cs = Some cs2"
      using c1(1) c2(1) by (simp add: each_append)
    then show ?case using c2(2) by blast
  qed (simp add: ids_fixed_def)
  from this [of "length cs"] obtain cs' where f: "pf_cmdev_fix_frame_id others cs = Some cs'" "ids_fixed others cs (length cs) cs'"
    by (auto simp: pf_cmdev_fix_frame_id_def)
  show ?thesis by (rule exI [of _ cs']) (use f in \<open>simp add: ids_fixed_def\<close>)
qed

lemma chosen_frame_ids_witness:
  "\<exists>x cs'. pf_cmdev_fix_frame_id [0xC000] (ca_iocrs (example_conn 1)) = Some cs' \<and> good_id [0xC000] cs' 1 x"
proof -
  let ?cs = "ca_iocrs (example_conn 1)"
  have "id_open (?cs ! 1)" by code_simp
  moreover have "\<forall>c\<in>set ?cs. real_time_class c" by code_simp
  moreover have "length [0xC000 :: u16] + length ?cs < 14336" "length ?cs = 2" by (simp_all add: example_conn_def)
  ultimately show ?thesis using chosen_frame_ids [of "[0xC000]" ?cs] by (auto dest!: spec [of _ 1])
qed

text \<open>For the class STREAM, which the checks allow, there is no range: the search starts at 0xFFFF, goes on
  at 0, and takes the ID 0.\<close>

lemma stream_frame_id:
  assumes "cp_rt_class (ci_param c) = PF_RT_CLASS_STREAM" "id_open c" "0 \<notin> set others"
  shows "pf_cmdev_fix_frame_id others [c] = Some [with_id 0 c]"
proof -
  let ?free = "pf_cmdev_verify_free_frame_id others [c]"
  have "first_free_id ?free 0xFFFF 0xFFFF = first_free_id ?free 0xFFFF (0xFFFF + 1)"
    using assms(2) by (subst first_free_id.simps) (simp add: pf_cmdev_verify_free_frame_id_def id_open_def)
  also have "(0xFFFF :: u16) + 1 = 0" by simp
  also have "first_free_id ?free 0xFFFF 0 = Some 0"
    using assms(2,3) by (subst first_free_id.simps) (simp add: pf_cmdev_verify_free_frame_id_def id_open_def)
  finally have "first_free_id ?free 0xFFFF 0xFFFF = Some 0" .
  moreover have "frame_id_range PF_RT_CLASS_STREAM = (0xFFFF, 0xFFFF)"
    by (simp add: frame_id_range_def PF_RT_CLASS_STREAM_def PF_RT_CLASS_1_def PF_RT_CLASS_2_def PF_RT_CLASS_3_def PF_RT_CLASS_UDP_def)
  ultimately show ?thesis using assms
    by (simp add: pf_cmdev_fix_frame_id_def fix_iocr_frame_id_def Let_def id_open_def upd_def with_id_def)
qed


section \<open>What the module difference tells the controller\<close>

lemma length_listed: "length (listed P n) \<le> n"
  by (simp add: listed_def order.trans [OF length_filter_le])

lemma set_listed: "set (listed P n) = {of_nat i | i. i < n \<and> P i}"
  by (auto simp: listed_def)

lemma take_set_front [simp]: "k = length xs \<Longrightarrow> take k (set_front xs arr) = xs"
  by (simp add: set_front_def)

lemma unat_length_listed: "n < 65536 \<Longrightarrow> unat (of_nat (length (listed P n)) :: u16) = length (listed P n)"
  using length_listed [of P n] by (simp add: unat_of_nat take_bit_eq_mod)

text \<open>A submodule is as the AR expects it.\<close>

definition as_expected :: "nat \<Rightarrow> pf_device \<Rightarrow> slot_ptr \<Rightarrow> pf_exp_submodule \<Rightarrow> bool" where
  "as_expected a d p s \<longleftrightarrow> (\<exists>q. pf_cmdev_get_subslot p (es_subslot_number s) d = Some q \<and>
     sub_ident_number (subslot_at d q) = es_ident_number s \<and>
     \<not> (has_owner (subslot_at d q) \<and> owner (subslot_at d q) \<noteq> Some a) \<and>
     diag_summary (subslot_at d q) = \<lparr>ds_maintenance_required = False, ds_maintenance_demanded = False, ds_fault = False\<rparr>)"

lemma submodule_listed: "snd (submodule_diff a d p s) \<longleftrightarrow> \<not> as_expected a d p s"
proof (cases "pf_cmdev_get_subslot p (es_subslot_number s) d")
  case (Some q)
  obtain x y z where "diag_summary (subslot_at d q) = \<lparr>ds_maintenance_required = x, ds_maintenance_demanded = y, ds_fault = z\<rparr>"
    by (cases "diag_summary (subslot_at d q)")
  then show ?thesis using Some by (auto simp: submodule_diff_def as_expected_def Let_def)
qed (simp add: submodule_diff_def as_expected_def)

definition right_module :: "pf_device \<Rightarrow> nat \<Rightarrow> pf_exp_module \<Rightarrow> slot_ptr \<Rightarrow> bool" where
  "right_module d api m p \<longleftrightarrow> pf_cmdev_get_slot api (em_slot_number m) d = Some p \<and> slot_ident_number (slot_at d p) = em_ident_number m"

definition reported :: "nat \<Rightarrow> pf_device \<Rightarrow> nat \<Rightarrow> pf_exp_module \<Rightarrow> bool" where
  "reported a d api m \<longleftrightarrow> pf_cmdev_get_slot api (em_slot_number m) d = None \<or>
     (\<exists>p. right_module d api m p \<and> (\<exists>s < unat (em_nbr_submodules m). \<not> as_expected a d p (em_submodule m ! s)))"

lemma module_listed: "snd (module_diff a d api m) \<longleftrightarrow> reported a d api m"
  by (auto simp: module_diff_def reported_def right_module_def Let_def listed_def filter_empty_conv submodule_listed split: option.split)

text \<open>C23: For an expected API that the device has, the answer to a connect request lists exactly the modules
  that are missing, and the modules of the expected kind with a submodule that is missing, of another
  kind, owned by another AR, or has a diagnosis. A module of another kind is never listed.\<close>

theorem listed_modules:
  assumes "pf_cmdev_get_api (ea_api ea) d = Some api" and "ea' = fst (api_diff a d ea)"
  shows "set (take (unat (ea_nbr_diff_modules ea')) (ea_diff_module ea')) =
      {of_nat m | m. m < unat (ea_nbr_modules ea) \<and> reported a d api (ea_module ea ! m)} \<and>
    (\<forall>m p. pf_cmdev_get_slot api (em_slot_number (ea_module ea ! m)) d = Some p \<longrightarrow>
      slot_ident_number (slot_at d p) \<noteq> em_ident_number (ea_module ea ! m) \<longrightarrow> \<not> reported a d api (ea_module ea ! m))"
proof -
  let ?ix = "listed (\<lambda>m. snd (module_diff a d api (ea_module ea ! m))) (unat (ea_nbr_modules ea))"
  have "ea_nbr_diff_modules ea' = of_nat (length ?ix)" "ea_diff_module ea' = set_front ?ix (ea_diff_module ea)"
    using assms by (simp_all add: api_diff_def Let_def)
  moreover have "unat (of_nat (length ?ix) :: u16) = length ?ix" by (rule unat_length_listed) simp
  ultimately have "set (take (unat (ea_nbr_diff_modules ea')) (ea_diff_module ea')) = set ?ix" by simp
  then show ?thesis by (auto simp: set_listed module_listed) (auto simp: reported_def right_module_def)
qed

text \<open>In the example the input submodule has another number than the device's.\<close>

lemma listed_modules_witness:
  "\<exists>ea' ea. set (take (unat (ea_nbr_diff_modules ea')) (ea_diff_module ea')) = {0} \<and> ea_nbr_modules ea = 1 \<and>
     ea' = fst (api_diff 3 (dn_dev (plugged_device fresh_device)) ea)"
proof -
  let ?d = "dn_dev (plugged_device fresh_device)"
  define m where "m = \<lparr>em_slot_number = 1, em_ident_number = 7, em_properties = 0, em_state = 0,
       em_nbr_submodules = 1, em_submodule = [expected_sub 3 8 1 1 2], em_nbr_diff_submodules = 0, em_diff_submodule = [0]\<rparr>"
  define ea where "ea = \<lparr>ea_valid = True, ea_api = 0, ea_nbr_modules = 1, ea_module = [m], ea_nbr_diff_modules = 0, ea_diff_module = [0]\<rparr>"
  have api: "pf_cmdev_get_api (ea_api ea) (dn_dev (plugged_device n)) = Some 0" for n unfolding ea_def by code_simp
  have "right_module (dn_dev (plugged_device n)) 0 m (0, 0)" for n unfolding right_module_def m_def by code_simp
  moreover have "pf_cmdev_get_subslot (0, 0) 3 (dn_dev (plugged_device n)) = None" for n by code_simp
  ultimately have "right_module ?d 0 m (0, 0) \<and> \<not> as_expected 3 ?d (0, 0) (em_submodule m ! 0)"
    by (simp add: as_expected_def m_def expected_sub_def)
  moreover have "0 < unat (em_nbr_submodules m)" by (simp add: m_def)
  ultimately have "reported 3 ?d 0 m" unfolding reported_def by blast
  then have "{of_nat k | k. k < unat (ea_nbr_modules ea) \<and> reported 3 ?d 0 (ea_module ea ! k)} = {0 :: u16}" by (auto simp: ea_def)
  then have "set (take (unat (ea_nbr_diff_modules (fst (api_diff 3 ?d ea)))) (ea_diff_module (fst (api_diff 3 ?d ea)))) = {0}"
    using listed_modules [OF api [of fresh_device] refl, of 3] by simp
  moreover have "ea_nbr_modules ea = 1" by (simp add: ea_def)
  ultimately show ?thesis by blast
qed

end
