(* ===== verification/Conn_Parse.thy ===== *)
theory Conn_Parse
  imports Conn_Checks
begin

section \<open>Connect requests: parsing\<close>

text \<open>
  \<open>pf_get_iocr_param\<close> of the block reader and \<open>pf_cmrpc_rm_connect_interpret_ind\<close>, which takes the
  blocks of a connect request one after the other until one is refused or the input ends. The
  options for parameter server, IR, vendor blocks and multicast are off, as in the default
  configuration, so their blocks are unknown.
\<close>

definition PF_BT_AR_BLOCK_REQ :: u16 where "PF_BT_AR_BLOCK_REQ = 0x0101"
definition PF_BT_IOCR_BLOCK_REQ :: u16 where "PF_BT_IOCR_BLOCK_REQ = 0x0102"
definition PF_BT_ALARM_CR_BLOCK_REQ :: u16 where "PF_BT_ALARM_CR_BLOCK_REQ = 0x0103"
definition PF_BT_EXPECTED_SUBMODULE_BLOCK :: u16 where "PF_BT_EXPECTED_SUBMODULE_BLOCK = 0x0104"
definition PF_BT_RPC_SERVER_REQ :: u16 where "PF_BT_RPC_SERVER_REQ = 0x0107"
definition PNET_ERROR_CODE_2_INVALID_BLOCK_LEN :: u8 where "PNET_ERROR_CODE_2_INVALID_BLOCK_LEN = 1"
definition PNET_ERROR_CODE_2_INVALID_BLOCK_VERSION_HIGH :: u8 where "PNET_ERROR_CODE_2_INVALID_BLOCK_VERSION_HIGH = 2"
definition PNET_ERROR_CODE_2_INVALID_BLOCK_VERSION_LOW :: u8 where "PNET_ERROR_CODE_2_INVALID_BLOCK_VERSION_LOW = 3"
definition PNET_ERROR_CODE_2_CMRPC_OUT_OF_MEMORY :: u8 where "PNET_ERROR_CODE_2_CMRPC_OUT_OF_MEMORY = 8"

abbreviation (input) cmrpc_error :: "u8 \<Rightarrow> fault" where
  "cmrpc_error \<equiv> conn_error PNET_ERROR_CODE_1_CMRPC"

subsection \<open>The IOCR block\<close>

definition zero_api_entry :: pf_api_entry where
  "zero_api_entry = (let fds = replicate (PNET_MAX_SLOTS * PNET_MAX_SUBSLOTS) \<lparr>fd_slot_number = 0, fd_subslot_number = 0, fd_frame_offset = 0\<rparr>
     in \<lparr>ae_api = 0, ae_nbr_io_data = 0, ae_io_data = fds, ae_nbr_iocs = 0, ae_iocs = fds\<rparr>)"

text \<open>The fields before the APIs. The array of APIs is clear, as the AR was when it was allocated.\<close>

definition get_iocr_fields :: "pf_iocr_param getter" where
  "get_iocr_fields = do {
     t \<leftarrow> pf_get_uint16;
     ref \<leftarrow> pf_get_uint16;
     lt \<leftarrow> pf_get_uint16;
     props \<leftarrow> pf_get_uint32;
     sdu \<leftarrow> pf_get_uint16;
     fid \<leftarrow> pf_get_uint16;
     scf \<leftarrow> pf_get_uint16;
     rr \<leftarrow> pf_get_uint16;
     phase \<leftarrow> pf_get_uint16;
     sq \<leftarrow> pf_get_uint16;
     fso \<leftarrow> pf_get_uint32;
     wd \<leftarrow> pf_get_uint16;
     dh \<leftarrow> pf_get_uint16;
     tag \<leftarrow> pf_get_uint16;
     mac \<leftarrow> pf_get_mem 6 (replicate 6 0);
     napi \<leftarrow> pf_get_uint16;
     State_Monad.return \<lparr>cp_iocr_type = t, cp_iocr_reference = ref, cp_lt_field = lt,
       cp_rt_class = pf_get_bits props 0 4,
       cp_reserved_1 = (if pf_get_bits props 4 9 \<noteq> 0 then 1 else 0),
       cp_reserved_2 = (if pf_get_bits props 13 11 \<noteq> 0 then 1 else 0),
       cp_reserved_3 = (if pf_get_bits props 24 8 \<noteq> 0 then 1 else 0),
       cp_c_sdu_length = sdu, cp_frame_id = fid, cp_send_clock_factor = scf, cp_reduction_ratio = rr,
       cp_phase = phase, cp_sequence = sq, cp_frame_send_offset = fso, cp_watchdog_factor = ucast wd,
       cp_data_hold_factor = dh, cp_vlan_id = ucast (pf_get_bits (ucast tag) 0 11),
       cp_iocr_user_priority = ucast (pf_get_bits (ucast tag) 13 3), cp_multicast_mac_add = mac,
       cp_nbr_apis = napi, cp_apis = replicate PNET_MAX_API zero_api_entry\<rparr>
   }"

text \<open>The API entries from index \<open>ix\<close>; a failure of one is noted, and the others are still parsed.\<close>

primrec get_api_entries :: "nat \<Rightarrow> nat \<Rightarrow> pf_api_entry list \<Rightarrow> (bool \<times> pf_api_entry list) getter" where
  "get_api_entries 0 ix xs = State_Monad.return (True, xs)"
| "get_api_entries (Suc n) ix xs = do {
     rx \<leftarrow> pf_get_iocr_api_entry (xs ! ix);
     ys \<leftarrow> get_api_entries n (Suc ix) (store ix (snd rx) xs);
     State_Monad.return (fst rx = 0 \<and> fst ys, snd ys)
   }"

text \<open>The check in the middle is for the IOCRs that are already counted, not for this one.\<close>

definition pf_get_iocr_param :: "pf_ar_param \<Rightarrow> pf_iocr_param list \<Rightarrow> (fault \<times> pf_iocr_param option) getter" where
  "pf_get_iocr_param ar ps =
     (if \<not> length ps < PNET_MAX_CR then State_Monad.return (cmrpc_error PNET_ERROR_CODE_2_CMRPC_WRONG_BLOCK_COUNT, None)
      else do {
        p \<leftarrow> get_iocr_fields;
        case pf_cmdev_check_iocr_param ar ps of
          Some e \<Rightarrow> State_Monad.return (Some e, None)
        | None \<Rightarrow>
            if unat (cp_nbr_apis p) > PNET_MAX_API
            then State_Monad.return (cmrpc_error PNET_ERROR_CODE_2_CMRPC_OUT_OF_PCA_RESOURCES, None)
            else do {
              xs \<leftarrow> get_api_entries (unat (cp_nbr_apis p)) 0 (cp_apis p);
              if fst xs then State_Monad.return (None, Some (p\<lparr>cp_apis := snd xs\<rparr>))
              else State_Monad.return (cmrpc_error PNET_ERROR_CODE_2_CMRPC_OUT_OF_PCA_RESOURCES, None)
            }
      })"

subsection \<open>The blocks\<close>

definition pf_check_block_header :: "u16 \<Rightarrow> pf_block_header \<Rightarrow> u8 \<Rightarrow> fault" where
  "pf_check_block_header k h err_code_1 =
     (if block_length h \<noteq> k then conn_error err_code_1 PNET_ERROR_CODE_2_INVALID_BLOCK_LEN
      else if block_version_high h \<noteq> PNET_BLOCK_VERSION_HIGH
      then conn_error err_code_1 PNET_ERROR_CODE_2_INVALID_BLOCK_VERSION_HIGH
      else if block_version_low h \<noteq> PNET_BLOCK_VERSION_LOW
      then conn_error err_code_1 PNET_ERROR_CODE_2_INVALID_BLOCK_VERSION_LOW
      else None)"

definition c_strlen :: "u8 list \<Rightarrow> nat" where
  "c_strlen s = length (takeWhile (\<lambda>c. c \<noteq> 0) s)"

text \<open>
  One block: the AR afterwards and the fault; \<open>e\<close> is \<open>None\<close> exactly when the code's \<open>ret\<close> is 0.
  \<open>data_pos\<close> is the position behind the block header.
\<close>

definition ar_block :: "bool \<Rightarrow> pf_block_header \<Rightarrow> conn_ar \<Rightarrow> (fault \<times> conn_ar) getter" where
  "ar_block first_block h r = do {
     p \<leftarrow> pf_get_ar_param (ca_param r);
     let r = r\<lparr>ca_param := p\<rparr>;
     let e = (if \<not> first_block then ar_error 0
       else pf_check_block_header (54 + of_nat (c_strlen (cm_initiator_station_name p))) h
         PNET_ERROR_CODE_1_CONN_FAULTY_AR_BLOCK_REQ);
     State_Monad.return (e, if e = None then r\<lparr>ca_nbr_ar_param := ca_nbr_ar_param r + 1\<rparr> else r)
   }"

text \<open>The check of the block header that all other blocks share: no device access, and the length parsed.\<close>

definition block_fault :: "conn_ar \<Rightarrow> pf_block_header \<Rightarrow> u16 \<Rightarrow> u8 \<Rightarrow> fault getter" where
  "block_fault r h data_pos code_1 = do {
     s \<leftarrow> State_Monad.get;
     State_Monad.return (if device_access (ca_properties r) then cmrpc_error PNET_ERROR_CODE_2_CMRPC_UNKNOWN_BLOCKS
       else pf_check_block_header (p_pos s - data_pos + 2) h code_1)
   }"

definition count_iocr :: "pf_iocr_param \<Rightarrow> conn_ar \<Rightarrow> conn_ar" where
  "count_iocr p r = (let
     r = (if has_iocr_type PF_IOCR_TYPE_INPUT p then r\<lparr>ca_input_cr_cnt := ca_input_cr_cnt r + 1\<rparr> else r);
     r = (if has_iocr_type PF_IOCR_TYPE_OUTPUT p then r\<lparr>ca_output_cr_cnt := ca_output_cr_cnt r + 1\<rparr> else r);
     r = (if has_iocr_type PF_IOCR_TYPE_MC_CONSUMER p then r\<lparr>ca_mcr_cons_cnt := ca_mcr_cons_cnt r + 1\<rparr> else r)
     in if cp_rt_class p = PF_RT_CLASS_3 then r\<lparr>ca_rtc3_present := True\<rparr> else r)"

definition iocr_block :: "pf_block_header \<Rightarrow> u16 \<Rightarrow> conn_ar \<Rightarrow> (fault \<times> conn_ar) getter" where
  "iocr_block h data_pos r = do {
     x \<leftarrow> pf_get_iocr_param (ca_param r) (map ci_param (ca_iocrs r));
     case x of
       (_, Some p) \<Rightarrow> do {
         let r = count_iocr p r;
         e \<leftarrow> block_fault r h data_pos PNET_ERROR_CODE_1_CONN_FAULTY_IOCR_BLOCK_REQ;
         State_Monad.return (e, if e = None
           then r\<lparr>ca_iocrs := ca_iocrs r @ [\<lparr>ci_in_length = 0, ci_out_length = 0, ci_data_desc = [], ci_param = p\<rparr>]\<rparr> else r)
       }
     | (e, None) \<Rightarrow> State_Monad.return (e, r)
   }"

definition expected_block :: "pf_block_header \<Rightarrow> u16 \<Rightarrow> conn_ar \<Rightarrow> (fault \<times> conn_ar) getter" where
  "expected_block h data_pos r = do {
     ei \<leftarrow> pf_get_exp_api_module (ca_exp_ident r);
     let r = r\<lparr>ca_exp_ident := ei\<rparr>;
     s \<leftarrow> State_Monad.get;
     if result s = PF_PARSE_OK then do {
       e \<leftarrow> block_fault r h data_pos PNET_ERROR_CODE_1_CONN_FAULTY_EXP_BLOCK_REQ;
       State_Monad.return (e, r)
     }
     else if result s \<in> {PF_PARSE_END_OF_INPUT, PF_PARSE_OUT_OF_API_RESOURCES, PF_PARSE_OUT_OF_EXP_SUBMODULE_RESOURCES}
     then State_Monad.return (cmrpc_error PNET_ERROR_CODE_2_CMRPC_OUT_OF_MEMORY, r)
     else State_Monad.return (cmrpc_error PNET_ERROR_CODE_2_CMRPC_UNKNOWN_BLOCKS, r)
   }"

definition alarm_cr_block :: "pf_block_header \<Rightarrow> u16 \<Rightarrow> conn_ar \<Rightarrow> (fault \<times> conn_ar) getter" where
  "alarm_cr_block h data_pos r = do {
     q \<leftarrow> pf_get_alarm_cr_request;
     let r = r\<lparr>ca_alarm_cr_request := q\<rparr>;
     e \<leftarrow> block_fault r h data_pos PNET_ERROR_CODE_1_CONN_FAULTY_ALARM_BLOCK_REQ;
     State_Monad.return (e, if e = None then r\<lparr>ca_nbr_alarm_cr := ca_nbr_alarm_cr r + 1\<rparr> else r)
   }"

definition rpc_server_block :: "pf_block_header \<Rightarrow> u16 \<Rightarrow> conn_ar \<Rightarrow> (fault \<times> conn_ar) getter" where
  "rpc_server_block h data_pos r = do {
     port \<leftarrow> pf_get_ar_rpc_request;
     let r = r\<lparr>ca_initiator_rpc_server_port := port\<rparr>;
     e \<leftarrow> block_fault r h data_pos PNET_ERROR_CODE_1_CONN_FAULTY_AR_RPC_BLOCK_REQ;
     State_Monad.return (e, if e = None then r\<lparr>ca_nbr_rpc_server := ca_nbr_rpc_server r + 1\<rparr> else r)
   }"

text \<open>What follows the header of a block.\<close>

definition connect_body :: "bool \<Rightarrow> pf_block_header \<Rightarrow> u16 \<Rightarrow> conn_ar \<Rightarrow> (fault \<times> conn_ar) getter" where
  "connect_body first_block h data_pos r =
     (if block_type h = PF_BT_AR_BLOCK_REQ then ar_block first_block h r
      else if block_type h = PF_BT_IOCR_BLOCK_REQ then iocr_block h data_pos r
      else if block_type h = PF_BT_EXPECTED_SUBMODULE_BLOCK then expected_block h data_pos r
      else if block_type h = PF_BT_ALARM_CR_BLOCK_REQ then alarm_cr_block h data_pos r
      else if block_type h = PF_BT_RPC_SERVER_REQ then rpc_server_block h data_pos r
      else State_Monad.return (cmrpc_error PNET_ERROR_CODE_2_CMRPC_UNKNOWN_BLOCKS, r))"

definition connect_block :: "bool \<Rightarrow> conn_ar \<Rightarrow> (fault \<times> conn_ar) getter" where
  "connect_block first_block r = do {
     h \<leftarrow> pf_get_block_header;
     s \<leftarrow> State_Monad.get;
     if result s = PF_PARSE_OK \<and> unat (p_pos s) + unat (block_length h) + 4 - 6 \<le> unat (len s)
     then connect_body first_block h (p_pos s) r
     else State_Monad.return (cmrpc_error PNET_ERROR_CODE_2_CMRPC_UNKNOWN_BLOCKS, r)
   }"

partial_function (option) connect_blocks :: "bool \<Rightarrow> conn_ar \<Rightarrow> get_cursor \<Rightarrow> (fault \<times> conn_ar \<times> get_cursor) option" where
  "connect_blocks first_block r s =
     (if result s = PF_PARSE_OK \<and> unat (p_pos s) + 6 \<le> unat (len s)
      then (case run_state (connect_block first_block r) s of
          ((Some e, r), s) \<Rightarrow> Some (Some e, r, s)
        | ((None, r), s) \<Rightarrow> connect_blocks False r s)
      else Some (None, r, s))"

text \<open>\<open>args_length\<close> is the length that the NDR header gives.\<close>

definition pf_cmrpc_rm_connect_interpret_ind :: "u32 \<Rightarrow> conn_ar \<Rightarrow> get_cursor \<Rightarrow> (fault \<times> conn_ar \<times> get_cursor) option" where
  "pf_cmrpc_rm_connect_interpret_ind args_length r s = do {
     (e, r, s') \<leftarrow> connect_blocks True r s;
     Some (or_fault e
       (if result s' = PF_PARSE_OK \<and> p_pos s' = len s' \<and> ucast (p_pos s') - ucast (p_pos s) = args_length then None
        else cmrpc_error PNET_ERROR_CODE_2_CMRPC_ARGSLENGTH_INVALID), r, s')
   }"

end
