(* ===== verification/Conn_Parsing.thy ===== *)
theory Conn_Parsing
  imports Conn_Parse Conn_Example Conn_Layout
begin

section \<open>The parser of connect requests ends\<close>

text \<open>
  Each block moves the position of the parser, so the loop over the blocks ends; and an accepted parse
  leaves the counts of the expected identification within their arrays.
\<close>

subsection \<open>Progress\<close>

definition advances :: "'a getter \<Rightarrow> bool" where
  "advances m \<longleftrightarrow> (\<forall>s. cursor_ok s \<longrightarrow> result (snd (run_state m s)) = PF_PARSE_OK \<longrightarrow>
     unat (p_pos s) < unat (p_pos (snd (run_state m s))))"

lemma advances_byte: "advances pf_get_byte"
  unfolding advances_def
proof (intro allI impI)
  fix s assume a: "cursor_ok s" "result (snd (run_state pf_get_byte s)) = PF_PARSE_OK"
  have r: "result s = PF_PARSE_OK" "p_pos s < len s" "p_buf s \<noteq> None"
    using a(2) by (auto simp: pf_get_byte_def not_le split: if_splits option.splits)
  then have "unat (p_pos s) < unat (len s)" by (simp add: word_less_nat_alt)
  moreover have "unat (len s) < 65536" by simp
  ultimately have "unat (p_pos s) + 1 < 65536" by linarith
  then have "unat (p_pos s + 1) = unat (p_pos s) + 1" by (simp add: unat_word_ariths)
  then show "unat (p_pos s) < unat (p_pos (snd (run_state pf_get_byte s)))"
    using r by (auto simp: pf_get_byte_def not_le split: option.splits)
qed

lemma advances_bind:
  assumes "advances m" "keeps_cursor m" "\<And>x. keeps_cursor (f x)" "\<And>x. keeps_error (f x)"
  shows "advances (m \<bind> f)"
  unfolding advances_def
proof (intro allI impI)
  fix s assume a: "cursor_ok s" "result (snd (run_state (m \<bind> f) s)) = PF_PARSE_OK"
  obtain v s1 where m: "run_state m s = (v, s1)" by fastforce
  have r1: "result s1 = PF_PARSE_OK" using a(2) assms(4) [of v] m by (auto simp: keeps_error_def)
  then have lt: "unat (p_pos s) < unat (p_pos s1)" using assms(1) a(1) m by (auto simp: advances_def dest: spec [of _ s])
  obtain w s2 where f: "run_state (f v) s1 = (w, s2)" by fastforce
  have "cursor_ok s1" using keeps_cursorD [OF assms(2) a(1) m] by simp
  then have "p_pos s1 \<le> p_pos (snd (run_state (f v) s1))" using keeps_cursorD [OF assms(3) _ f] f by simp
  then show "unat (p_pos s) < unat (p_pos (snd (run_state (m \<bind> f) s)))" using m lt by (simp add: word_le_nat_alt)
qed

lemma advances_uint16: "advances pf_get_uint16"
  unfolding advances_def
proof (intro allI impI)
  fix s assume a: "cursor_ok s" "result (snd (run_state pf_get_uint16 s)) = PF_PARSE_OK"
  have "advances (pf_get_byte \<bind> (\<lambda>x. pf_get_byte \<bind> (\<lambda>y. State_Monad.return (g x y))))" for g :: "u8 \<Rightarrow> u8 \<Rightarrow> u16"
    by (intro advances_bind advances_byte rdwf_intros error_intros sticky_intros)
  then have adv: "result (snd (run_state (pf_get_byte \<bind> (\<lambda>x. pf_get_byte \<bind> (\<lambda>y. State_Monad.return (g x y)))) s)) = PF_PARSE_OK \<Longrightarrow>
      unat (p_pos s) < unat (p_pos (snd (run_state (pf_get_byte \<bind> (\<lambda>x. pf_get_byte \<bind> (\<lambda>y. State_Monad.return (g x y)))) s)))"
    for g :: "u8 \<Rightarrow> u8 \<Rightarrow> u16" using a(1) by (simp only: advances_def)
  have "result s = PF_PARSE_OK"
    using a(2) sticky_uint16 unfolding sticky_def by metis
  then have run: "run_state pf_get_uint16 s = (if is_big_endian s
      then run_state (pf_get_byte \<bind> (\<lambda>hi. pf_get_byte \<bind> (\<lambda>lo. State_Monad.return (push_bit 8 (ucast hi) + ucast lo)))) s
      else run_state (pf_get_byte \<bind> (\<lambda>lo. pf_get_byte \<bind> (\<lambda>hi. State_Monad.return (ucast lo + push_bit 8 (ucast hi))))) s)"
    by (simp add: pf_get_uint16_def State_Monad.get_def)
  show "unat (p_pos s) < unat (p_pos (snd (run_state pf_get_uint16 s)))"
    using a(2) unfolding run by (cases "is_big_endian s") (simp_all only: if_True if_False adv)
qed

subsection \<open>The blocks keep the cursor and errors\<close>

lemma keeps_cursor_prod [rdwf_intros]: "(\<And>x y. keeps_cursor (f x y)) \<Longrightarrow> keeps_cursor (case p of (x, y) \<Rightarrow> f x y)"
  by (cases p) simp

lemma keeps_error_prod [error_intros]: "(\<And>x y. keeps_error (f x y)) \<Longrightarrow> keeps_error (case p of (x, y) \<Rightarrow> f x y)"
  by (cases p) simp

lemma keeps_error_option [error_intros]:
  "(\<And>x. keeps_error (f x)) \<Longrightarrow> keeps_error m \<Longrightarrow> keeps_error (case a of None \<Rightarrow> m | Some x \<Rightarrow> f x)"
  by (cases a) simp_all

lemma keeps_cursor_entries: "keeps_cursor (get_api_entries n ix xs)"
  by (induction n arbitrary: ix xs) (auto simp: pf_get_iocr_api_entry_def pf_get_frame_descriptor_def Let_def intro!: rdwf_intros)

lemma keeps_cursor_iocr_fields: "keeps_cursor get_iocr_fields"
  unfolding get_iocr_fields_def by (intro rdwf_intros)

lemma keeps_cursor_block_fault: "keeps_cursor (block_fault r h k c)"
  unfolding block_fault_def by (intro rdwf_intros)

lemma keeps_cursor_ar_block: "keeps_cursor (ar_block b h r)"
  unfolding ar_block_def pf_get_ar_param_def pf_get_uuid_def Let_def by (intro rdwf_intros)

lemma keeps_cursor_iocr_block: "keeps_cursor (iocr_block h k r)"
  unfolding iocr_block_def pf_get_iocr_param_def Let_def
  by (intro rdwf_intros keeps_cursor_entries keeps_cursor_iocr_fields keeps_cursor_block_fault)

lemma keeps_cursor_expected_block: "keeps_cursor (expected_block h k r)"
  unfolding expected_block_def pf_get_exp_api_module_def Let_def
  by (intro rdwf_intros keeps_cursor_exp_apis keeps_cursor_block_fault)

lemma keeps_cursor_alarm_cr_block: "keeps_cursor (alarm_cr_block h k r)"
  unfolding alarm_cr_block_def pf_get_alarm_cr_request_def Let_def by (intro rdwf_intros keeps_cursor_block_fault)

lemma keeps_cursor_rpc_block: "keeps_cursor (rpc_server_block h k r)"
  unfolding rpc_server_block_def pf_get_ar_rpc_request_def Let_def by (intro rdwf_intros keeps_cursor_block_fault)

lemmas block_cursors = keeps_cursor_ar_block keeps_cursor_iocr_block keeps_cursor_expected_block keeps_cursor_alarm_cr_block
  keeps_cursor_rpc_block

lemma keeps_cursor_header: "keeps_cursor pf_get_block_header"
  unfolding pf_get_block_header_def by (intro rdwf_intros)

lemma advances_header: "advances pf_get_block_header"
  unfolding pf_get_block_header_def
  by (intro advances_bind advances_uint16 rdwf_intros error_intros sticky_intros)

subsection \<open>What an accepted block leaves\<close>

definition conn_counts :: "conn_ar \<Rightarrow> bool" where
  "conn_counts r \<longleftrightarrow> ident_sized (ca_exp_ident r) \<and> ident_counts (ca_exp_ident r) \<and> length (ca_iocrs r) \<le> PNET_MAX_CR"

lemma run_state_case: "run_state (m \<bind> f) s = (case run_state m s of (x, s') \<Rightarrow> run_state (f x) s')"
  by (simp split: prod.split)

lemma block_fault_run: "run_state (block_fault r h k c) s = (e, s') \<Longrightarrow> s' = s"
  by (simp add: block_fault_def State_Monad.get_def Let_def split: if_splits)

lemma counts_ar:
  assumes "conn_counts r" "run_state (ar_block b h r) s = ((e, r'), s')"
  shows "conn_counts r'"
  using assms by (auto simp: ar_block_def run_state_case Let_def conn_counts_def split: prod.splits if_splits)

lemma counts_alarm_cr:
  assumes "conn_counts r" "run_state (alarm_cr_block h k r) s = ((e, r'), s')"
  shows "conn_counts r'"
  using assms by (auto simp: alarm_cr_block_def run_state_case Let_def conn_counts_def split: prod.splits if_splits)

lemma counts_rpc:
  assumes "conn_counts r" "run_state (rpc_server_block h k r) s = ((e, r'), s')"
  shows "conn_counts r'"
  using assms by (auto simp: rpc_server_block_def run_state_case Let_def conn_counts_def split: prod.splits if_splits)

lemma full_table: "length ps \<ge> PNET_MAX_CR \<Longrightarrow> snd (fst (run_state (pf_get_iocr_param ar ps) s)) = None"
  by (simp add: pf_get_iocr_param_def)

lemma count_iocr_keeps: "ca_exp_ident (count_iocr p r) = ca_exp_ident r" "ca_iocrs (count_iocr p r) = ca_iocrs r"
  by (simp_all add: count_iocr_def Let_def)

lemma counts_iocr:
  assumes "conn_counts r" "run_state (iocr_block h k r) s = ((e, r'), s')"
  shows "conn_counts r'"
proof -
  obtain g q s1 where g: "run_state (pf_get_iocr_param (ca_param r) (map ci_param (ca_iocrs r))) s = ((g, q), s1)"
    by (metis prod.exhaust)
  show ?thesis
  proof (cases q)
    case None
    then show ?thesis using assms g by (simp add: iocr_block_def run_state_case)
  next
    case (Some p)
    have "length (ca_iocrs r) < PNET_MAX_CR"
      using full_table [of "map ci_param (ca_iocrs r)" "ca_param r" s] g Some by force
    then show ?thesis using assms g Some
      by (auto simp: iocr_block_def run_state_case Let_def conn_counts_def count_iocr_keeps split: prod.splits if_splits)
  qed
qed

lemma counts_expected:
  assumes "conn_counts r" "run_state (expected_block h k r) s = ((None, r'), s')"
  shows "conn_counts r'"
proof -
  obtain ei s1 where g: "run_state (pf_get_exp_api_module (ca_exp_ident r)) s = (ei, s1)" by fastforce
  obtain f s2 where f: "run_state (block_fault (r\<lparr>ca_exp_ident := ei\<rparr>) h k PNET_ERROR_CODE_1_CONN_FAULTY_EXP_BLOCK_REQ) s1 = (f, s2)"
    by fastforce
  have run: "run_state (expected_block h k r) s = (if result s1 = PF_PARSE_OK then ((f, r\<lparr>ca_exp_ident := ei\<rparr>), s2)
      else if result s1 \<in> {PF_PARSE_END_OF_INPUT, PF_PARSE_OUT_OF_API_RESOURCES, PF_PARSE_OUT_OF_EXP_SUBMODULE_RESOURCES}
      then ((cmrpc_error PNET_ERROR_CODE_2_CMRPC_OUT_OF_MEMORY, r\<lparr>ca_exp_ident := ei\<rparr>), s1)
      else ((cmrpc_error PNET_ERROR_CODE_2_CMRPC_UNKNOWN_BLOCKS, r\<lparr>ca_exp_ident := ei\<rparr>), s1))"
    by (simp only: expected_block_def run_state_case Let_def g f run_state_get prod.case run_state_return split: if_split) simp
  have ok: "result s1 = PF_PARSE_OK"
  proof (rule ccontr)
    assume "result s1 \<noteq> PF_PARSE_OK"
    then have "fst (fst (run_state (expected_block h k r) s)) \<noteq> None" unfolding run by (simp add: conn_error_def)
    then show False using assms(2) by simp
  qed
  then have r': "ca_exp_ident r' = ei" "ca_iocrs r' = ca_iocrs r" using assms(2) unfolding run by auto
  from ok show ?thesis using exp_api_module_counts [OF _ _ g] assms(1) r' by (simp add: conn_counts_def)
qed

lemma connect_block_run:
  assumes "run_state pf_get_block_header s = (h, s1)"
  shows "run_state (connect_block b r) s =
    (if result s1 = PF_PARSE_OK \<and> unat (p_pos s1) + unat (block_length h) + 4 - 6 \<le> unat (len s1)
     then run_state (connect_body b h (p_pos s1) r) s1
     else ((cmrpc_error PNET_ERROR_CODE_2_CMRPC_UNKNOWN_BLOCKS, r), s1))"
  unfolding connect_block_def run_state_case Let_def assms run_state_get prod.case
    if_distrib [of "\<lambda>x. run_state x s1"] run_state_return ..

lemma keeps_cursor_body: "keeps_cursor (connect_body b h k r)"
  unfolding connect_body_def by (intro rdwf_intros block_cursors)

lemma counts_body:
  assumes "conn_counts r" "run_state (connect_body b h k r) s = ((None, r'), s')"
  shows "conn_counts r'"
  using assms(2) counts_ar [OF assms(1), of b h s None r' s'] counts_iocr [OF assms(1), of h k s None r' s']
    counts_expected [OF assms(1), of h k s r' s'] counts_alarm_cr [OF assms(1), of h k s None r' s']
    counts_rpc [OF assms(1), of h k s None r' s']
  unfolding connect_body_def by (simp add: conn_error_def split: if_splits)

lemma block_progress:
  assumes "conn_counts r" "cursor_ok s" "run_state (connect_block b r) s = ((None, r'), s')"
  shows "conn_counts r' \<and> cursor_ok s' \<and> len s' = len s \<and> unat (p_pos s) < unat (p_pos s')"
proof -
  obtain h s1 where h: "run_state pf_get_block_header s = (h, s1)" by fastforce
  have ok: "result s1 = PF_PARSE_OK" and m: "run_state (connect_body b h (p_pos s1) r) s1 = ((None, r'), s')"
    using assms(3) unfolding connect_block_run [OF h] by (simp_all add: conn_error_def split: if_splits)
  have c: "cursor_ok s1 \<and> len s1 = len s" using keeps_cursorD [OF keeps_cursor_header assms(2) h] by simp
  then have "cursor_ok s' \<and> len s' = len s1 \<and> p_pos s1 \<le> p_pos s'" using keeps_cursorD [OF keeps_cursor_body _ m] by blast
  moreover have "unat (p_pos s) < unat (p_pos s1)"
    using advances_header [unfolded advances_def, rule_format, of s] assms(2) ok by (simp add: h)
  ultimately show ?thesis using c counts_body [OF assms(1) m] by (simp add: word_le_nat_alt)
qed

lemma connect_blocks_end:
  assumes "conn_counts r" "cursor_ok s"
  shows "\<exists>e r' s'. connect_blocks b r s = Some (e, r', s') \<and> (e = None \<longrightarrow> conn_counts r')"
  using assms
proof (induction "unat (len s) - unat (p_pos s)" arbitrary: b r s rule: less_induct)
  case less
  show ?case
  proof (cases "result s = PF_PARSE_OK \<and> unat (p_pos s) + 6 \<le> unat (len s)")
    case False
    then show ?thesis using less.prems by (subst connect_blocks.simps) auto
  next
    case True
    obtain e r1 s1 where m: "run_state (connect_block b r) s = ((e, r1), s1)" by (metis prod.exhaust)
    show ?thesis
    proof (cases e)
      case (Some x)
      then show ?thesis using True m by (subst connect_blocks.simps) simp
    next
      case None
      note p = block_progress [OF less.prems m [unfolded None]]
      have "unat (len s1) - unat (p_pos s1) < unat (len s) - unat (p_pos s)" using p True by auto
      from less.hyps [OF this, of r1 False] p show ?thesis
        using True m None by (subst connect_blocks.simps) simp
    qed
  qed
qed

text \<open>C14: Parsing a connect request always ends, with a fault or with an AR: on every input, also one
  with any number of blocks, the loop over the blocks stops, because each block that is accepted moves
  the position. And when the request is accepted, the parser has stored nothing behind the arrays of the
  expected identification, and the counts that it leaves are within them: the APIs and modules, the
  submodules of each module, at most two data descriptors in each submodule, and the number of IOCRs. This
  is what the checks after it rely on.\<close>

theorem connect_parse_ends:
  assumes "cursor_ok s" "ident_sized (ca_exp_ident r)" "ident_counts (ca_exp_ident r)" "length (ca_iocrs r) \<le> PNET_MAX_CR"
  shows "\<exists>e r' s'. pf_cmrpc_rm_connect_interpret_ind args_length r s = Some (e, r', s') \<and>
    (e = None \<longrightarrow> ident_sized (ca_exp_ident r') \<and> ident_limits (ca_exp_ident r') \<and> length (ca_iocrs r') \<le> PNET_MAX_CR)"
proof -
  obtain e r' s' where b: "connect_blocks True r s = Some (e, r', s')" "e = None \<longrightarrow> conn_counts r'"
    using connect_blocks_end [of r s True] assms by (auto simp: conn_counts_def)
  have "ident_sized (ca_exp_ident r') \<and> ident_limits (ca_exp_ident r') \<and> length (ca_iocrs r') \<le> PNET_MAX_CR" if "conn_counts r'"
    using that parsed_limits by (simp add: conn_counts_def)
  then show ?thesis using b by (auto simp: pf_cmrpc_rm_connect_interpret_ind_def or_fault_def split: option.splits)
qed

lemma connect_parse_ends_witness:
  "\<exists>e r' s'. pf_cmrpc_rm_connect_interpret_ind 58 ((example_conn 1)\<lparr>ca_exp_ident := empty_ident, ca_iocrs := []\<rparr>) two_apis = Some (e, r', s')"
proof -
  have "cursor_ok two_apis" by (simp add: cursor_ok_def two_apis_def)
  moreover have "ident_sized empty_ident" "ident_counts empty_ident"
    by (simp_all add: ident_sized_def ident_counts_def api_sized_def api_counts_def module_sized_def
        submodule_sized_def empty_ident_def empty_submodule_def PNET_MAX_API_def PNET_MAX_SLOTS_def
        PNET_MAX_SUBSLOTS_def numeral_eq_Suc)
  ultimately show ?thesis
    using connect_parse_ends [of two_apis "(example_conn 1)\<lparr>ca_exp_ident := empty_ident, ca_iocrs := []\<rparr>" 58] by auto
qed

subsection \<open>All parsers\<close>

text \<open>C37: Every parser of the reader (all functions of \<open>pf_block_reader.c\<close> that read from the buffer),
  on input of any contents and length and in any state of the parse result, keeps the position inside the
  buffer, never moves it backwards and leaves the buffer alone.\<close>

theorem getters_keep_cursor:
  "keeps_cursor (pf_get_uuid d1) \<and> keeps_cursor (pf_get_handle d2) \<and>
   keeps_cursor (pf_get_iocr_api_entry d3) \<and> keeps_cursor (pf_get_exp_api_module d4) \<and>
   keeps_cursor pf_get_block_header \<and> keeps_cursor (pf_get_ar_param d5) \<and>
   keeps_cursor pf_get_alarm_cr_request \<and> keeps_cursor (pf_get_ar_prm_server_request d6) \<and>
   keeps_cursor (pf_get_ir_info_request d7) \<and> keeps_cursor (pf_get_mcr_request d8) \<and>
   keeps_cursor pf_get_ar_rpc_request \<and> keeps_cursor (pf_get_ar_vendor_request ix d9) \<and>
   keeps_cursor (pf_get_control d10) \<and> keeps_cursor pf_get_ndr_data_req \<and>
   keeps_cursor pf_get_ndr_data_rsp \<and> keeps_cursor (pf_get_dce_rpc_header d11) \<and>
   keeps_cursor (pf_get_read_request d12) \<and> keeps_cursor (pf_get_epm_lookup_request d13) \<and>
   keeps_cursor (pf_get_write_request d14) \<and> keeps_cursor (pf_get_im_1 d15) \<and>
   keeps_cursor pf_get_alarm_fixed \<and> keeps_cursor (pf_get_alarm_data d16) \<and>
   keeps_cursor (pf_get_alarm_ack d17) \<and> keeps_cursor pf_get_pnio_status \<and>
   keeps_cursor pf_get_port_data_check \<and> keeps_cursor (pf_get_port_data_check_check_peers n d18) \<and>
   keeps_cursor pf_get_port_data_adjust \<and>
   keeps_cursor pf_get_port_data_adjust_peer_to_peer_boundary \<and> keeps_cursor pf_get_interface_adjust \<and>
   keeps_cursor pf_get_frame_descriptor \<and> keeps_cursor (pf_get_exp_submodule d19) \<and>
   keeps_cursor pf_get_dfp_iocr \<and> keeps_cursor (pf_get_iocr_param ar ps) \<and>
   keeps_cursor (pf_get_mem k d20) \<and> keeps_cursor pf_get_byte \<and> keeps_cursor pf_get_uint16 \<and> keeps_cursor pf_get_uint32"
  unfolding pf_get_iocr_param_def getter_defs Let_def
  by (intro conjI rdwf_intros keeps_cursor_exp_apis keeps_cursor_entries keeps_cursor_iocr_fields)

end
